(* ===== verification/Gsw_Prelude.thy ===== *)
theory Gsw_Prelude
  imports Main "HOL-Library.Word"
begin

text \<open>
  Shared vocabulary of the development: the C integer types as fixed-width words, the
  collections of rewrite and preservation rules the component theories fill, the
  interface of a memory-mapped register file, and the generic lemmas on words, masks and
  list updates that the component proofs share.
\<close>

unbundle bit_operations_syntax

section \<open>Machine integers\<close>

type_synonym u8 = "8 word"
type_synonym u16 = "16 word"
type_synonym u32 = "32 word"
type_synonym u64 = "64 word"

section \<open>Rule collections\<close>

named_theorems gsw_frame \<open>fields an operation does not write\<close>
named_theorems gsw_inv \<open>operations that keep a component's invariant\<close>
named_theorems gsw_words \<open>word arithmetic as arithmetic on natural numbers\<close>

section \<open>Volatile device registers\<close>

text \<open>
  The drivers reach their device through volatile 32-bit registers. A device is its own
  state \<open>'d\<close> with two operations. A read returns the value and the next device state,
  because the device runs beside the driver and may move between two reads; a write
  returns the next device state. The register argument is the byte offset the C code
  passes to its register helpers.
\<close>

record 'd mmio =
  mmio_read :: "u32 \<Rightarrow> 'd \<Rightarrow> u32 \<times> 'd"
  mmio_write :: "u32 \<Rightarrow> u32 \<Rightarrow> 'd \<Rightarrow> 'd"

text \<open>
  A passive register file: what is written is read back. It instantiates the device of the
  examples.
\<close>

definition register_file :: "(u32 \<Rightarrow> u32) mmio" where
  "register_file = \<lparr>mmio_read = (\<lambda>r d. (d r, d)), mmio_write = (\<lambda>r v d. d(r := v))\<rparr>"

section \<open>Steps that can fail\<close>

text \<open>
  A step that can fail returns its truth value and the next world. \<open>step_and\<close> is C's
  \<open>&&\<close> on such steps, and the early return or \<open>goto done\<close> of an initialisation: what
  follows a failure is not executed.
\<close>

definition step_and :: "('w \<Rightarrow> bool \<times> 'w) \<Rightarrow> ('w \<Rightarrow> bool \<times> 'w) \<Rightarrow> 'w \<Rightarrow> bool \<times> 'w" where
  "step_and f g w = (if fst (f w) then g (snd (f w)) else (False, snd (f w)))"

definition step_if :: "bool \<Rightarrow> 'w \<Rightarrow> bool \<times> 'w" where
  "step_if b w = (b, w)"

section \<open>Words\<close>

lemma unat_and_mask:
  fixes x :: "'a::len word"
  shows "unat (x AND (2 ^ n - 1)) = unat x mod 2 ^ n"
proof -
  have "x AND (2 ^ n - 1) = take_bit n x"
    by (simp add: take_bit_eq_mask mask_eq_exp_minus_1)
  then have "unat (x AND (2 ^ n - 1)) = take_bit n (unat x)"
    by (simp only: unsigned_take_bit_eq)
  then show ?thesis
    by (simp only: take_bit_eq_mod)
qed

lemma unat_exp:
  assumes "k < 32"
  shows "unat ((2::u32) ^ k) = 2 ^ k"
proof -
  have "unat (of_nat (2 ^ k) :: u32) = 2 ^ k mod 2 ^ 32" by (simp only: unat_of_nat) simp
  moreover have "(2::nat) ^ k < 2 ^ 32" using assms by (intro power_strict_increasing) simp_all
  ultimately show ?thesis by simp
qed

lemma unat_bound32: "unat (x :: u32) < 2 ^ 32"
  using unsigned_less [of x] by simp

lemma unat_add_no_overflow [gsw_words]:
  fixes x y :: u32
  assumes "unat x + unat y < 2 ^ 32"
  shows "unat (x + y) = unat x + unat y"
  using assms by (simp add: unat_word_ariths)

lemma unat_plus_one: "(x :: 'a::len word) + 1 \<noteq> 0 \<Longrightarrow> unat (x + 1) = Suc (unat x)"
  using unatSuc [of x] by (simp add: add.commute)

lemma unat_sub_no_underflow [gsw_words]:
  fixes x y :: "'a::len word"
  assumes "y \<le> x"
  shows "unat (x - y) = unat x - unat y"
  using assms by (rule unat_sub)

lemma unat_mult_no_overflow [gsw_words]:
  fixes x y :: u32
  assumes "unat x * unat y < 2 ^ 32"
  shows "unat (x * y) = unat x * unat y"
  using assms by (simp add: unat_word_ariths)

text \<open>The C idiom \<open>x > 0xFFFFFFFF - y\<close> asks whether \<open>x + y\<close> would wrap.\<close>

lemma no_wrap_iff:
  fixes x y :: u32
  shows "x \<le> 0xFFFFFFFF - y \<longleftrightarrow> unat x + unat y < 2 ^ 32"
proof -
  have y: "unat y < 2 ^ 32"
    using unsigned_less [of y] by simp
  then have "y \<le> 0xFFFFFFFF" by (simp add: word_le_nat_alt)
  then have "unat (0xFFFFFFFF - y) = 2 ^ 32 - 1 - unat y"
    by (simp add: unat_sub)
  with y show ?thesis
    by (auto simp: word_le_nat_alt)
qed

text \<open>The C idiom \<open>x > 0xFFFFFFFF / b\<close> asks whether \<open>x * b\<close> would wrap.\<close>

lemma no_mult_wrap_iff:
  fixes x b :: u32
  assumes "b \<noteq> 0"
  shows "x \<le> 0xFFFFFFFF div b \<longleftrightarrow> unat x * unat b < 2 ^ 32"
proof -
  have b: "0 < unat b" using assms by (simp add: unat_gt_0)
  have "unat (0xFFFFFFFF div b) = (2 ^ 32 - 1) div unat b"
    by (simp add: unat_div)
  then have "x \<le> 0xFFFFFFFF div b \<longleftrightarrow> unat x \<le> (2 ^ 32 - 1) div unat b"
    by (simp add: word_le_nat_alt)
  also have "\<dots> \<longleftrightarrow> unat x * unat b \<le> 2 ^ 32 - 1"
    using b by (simp add: less_eq_div_iff_mult_less_eq)
  finally show ?thesis by auto
qed

text \<open>A number shares no bit with its predecessor exactly when it is a power of two.\<close>

lemma power_of_two_nat:
  fixes n :: nat
  shows "n \<noteq> 0 \<Longrightarrow> n AND (n - 1) = 0 \<Longrightarrow> \<exists>k. n = 2 ^ k"
proof (induction n rule: less_induct)
  case (less n)
  show ?case
  proof (cases "even n")
    case True
    then obtain h where h: "n = 2 * h" by (elim evenE)
    with less.prems have "h \<noteq> 0" by simp
    have d: "(2 * h - Suc 0) div 2 = h - Suc 0" by (cases h) simp_all
    have "n AND (n - 1) = 2 * (h AND (h - 1))"
      by (subst and_rec) (simp add: h d)
    with less.prems have "h AND (h - 1) = 0" by simp
    with less.IH [of h] h \<open>h \<noteq> 0\<close> obtain k where "h = 2 ^ k" by auto
    with h show ?thesis by (intro exI [of _ "Suc k"]) simp
  next
    case False
    then obtain h where h: "n = 2 * h + 1" by (elim oddE)
    have "n AND (n - 1) = 2 * h"
      by (subst and_rec) (simp add: h)
    with less.prems h show ?thesis by (intro exI [of _ 0]) simp
  qed
qed

section \<open>Components driven by events\<close>

text \<open>
  The contract of a component that is a state and a step: every event keeps the
  component's invariant. What follows once and for all is that every sequence of events
  keeps it, and, for a component with a start state, that every state such a sequence can
  reach satisfies it.
\<close>

locale event_component =
  fixes step :: "'e \<Rightarrow> 's \<Rightarrow> 's"
    and inv :: "'s \<Rightarrow> bool"
  assumes step_keeps: "inv s \<Longrightarrow> inv (step e s)"
begin

lemma run_keeps: "inv s \<Longrightarrow> inv (fold step es s)"
  by (induction es arbitrary: s) (auto intro: step_keeps)

lemma run_keeps_prefix: "inv s \<Longrightarrow> inv (fold step (take n es) s)"
  by (rule run_keeps)

end

locale started_component = event_component +
  fixes start :: 's
  assumes start_ok: "inv start"
begin

lemma reachable_ok: "inv (fold step es start)"
  by (rule run_keeps) (rule start_ok)

end

end
