(* ===== verification/Display_Arbiter.thy ===== *)
theory Display_Arbiter
  imports Gsw_Prelude
begin

text \<open>
  The display arbiter of the Windows 98 display mini-VDD
  (\<^verbatim>\<open>drivers/win98/derived/vmdisp9x-gsw/overlay/gsw_display_arbiter.c\<close>): a pure
  step function that decides, from lifecycle notifications and mode-set requests, which
  virtual machine owns the display and whether a request is forwarded, consumed or
  rejected. The theory holds its enumerations and structures, one definition per helper
  and per event case of \<open>gsw_display_step\<close>, the invariant that relates lifecycle,
  authority and pending transition, an abstract access policy, and the lemmas about them.
\<close>

section \<open>Data\<close>

datatype GSW_Display_Lifecycle =
    GSW_DISPLAY_COLD
  | GSW_DISPLAY_READY
  | GSW_DISPLAY_REGISTERED
  | GSW_DISPLAY_DISABLING
  | GSW_DISPLAY_EXITED

datatype GSW_Display_Authority =
    GSW_DISPLAY_FIRMWARE
  | GSW_DISPLAY_WINDOWS_DESKTOP
  | GSW_DISPLAY_FOREGROUND_VGA

datatype GSW_Display_Transition =
    GSW_DISPLAY_TRANSITION_NONE
  | GSW_DISPLAY_TO_FOREGROUND_VGA
  | GSW_DISPLAY_TO_WINDOWS_DESKTOP
  | GSW_DISPLAY_DESKTOP_RECONFIGURE

text \<open>
  The last constructor stands for the integers outside the enumeration, which the
  \<open>default\<close> label of the switch answers.
\<close>

datatype GSW_Display_Event_Kind =
    GSW_DISPLAY_EVENT_DEVICE_READY
  | GSW_DISPLAY_EVENT_DEVICE_REGISTERED
  | GSW_DISPLAY_EVENT_VDD_PRE_FOREGROUND
  | GSW_DISPLAY_EVENT_VDD_POST_FOREGROUND
  | GSW_DISPLAY_EVENT_VDD_PRE_DESKTOP
  | GSW_DISPLAY_EVENT_VDD_POST_DESKTOP
  | GSW_DISPLAY_EVENT_DESKTOP_PROGRAMMED
  | GSW_DISPLAY_EVENT_DESKTOP_PROGRAM_FAILED
  | GSW_DISPLAY_EVENT_DDRAW_EXCLUSIVE_BEGIN
  | GSW_DISPLAY_EVENT_DDRAW_EXCLUSIVE_END
  | GSW_DISPLAY_EVENT_DRIVER_DISABLING
  | GSW_DISPLAY_EVENT_DEVICE_EXIT
  | GSW_DISPLAY_EVENT_SYSTEM_EXIT
  | GSW_DISPLAY_EVENT_BIOS_MODE_SET
  | GSW_DISPLAY_EVENT_VBE_MODE_SET
  | GSW_DISPLAY_EVENT_DISPI_ACCESS
  | GSW_DISPLAY_EVENT_PHYSICAL_OWNER
  | GSW_DISPLAY_EVENT_OUT_OF_RANGE

datatype GSW_Display_Action =
    GSW_DISPLAY_FORWARD
  | GSW_DISPLAY_CONSUME
  | GSW_DISPLAY_REJECT_VBE

datatype GSW_Display_Dispi_Trap =
    GSW_DISPLAY_DISPI_BYPASS
  | GSW_DISPLAY_DISPI_INTERCEPT

type_synonym GSW_Display_VM = u32

record GSW_Display_Arbiter =
  lifecycle :: GSW_Display_Lifecycle
  authority :: GSW_Display_Authority
  transition :: GSW_Display_Transition
  windows_vm :: GSW_Display_VM
  authority_vm :: GSW_Display_VM
  transition_vm :: GSW_Display_VM
  generation :: u32

record GSW_Display_Event =
  ev_kind :: GSW_Display_Event_Kind
  ev_vm :: GSW_Display_VM
  observed_physical_owner :: GSW_Display_VM
  ev_value :: u16
  ev_flags :: u16

record GSW_Display_Result =
  res_next :: GSW_Display_Arbiter
  res_action :: GSW_Display_Action
  res_dispi_trap :: GSW_Display_Dispi_Trap
  res_vbe_ax :: u16
  res_protocol_fault :: u8

definition GSW_DISPLAY_VBE_REJECT_AX :: u16 where
  "GSW_DISPLAY_VBE_REJECT_AX = 0x034F"

definition GSW_DISPLAY_EVENT_PHYSICAL_OWNER_FRESH :: u16 where
  "GSW_DISPLAY_EVENT_PHYSICAL_OWNER_FRESH = 0x0001"

text \<open>The static state of the driver before any event: all fields zero.\<close>

definition gsw_display_cold :: GSW_Display_Arbiter where
  "gsw_display_cold = \<lparr>lifecycle = GSW_DISPLAY_COLD, authority = GSW_DISPLAY_FIRMWARE,
     transition = GSW_DISPLAY_TRANSITION_NONE, windows_vm = 0, authority_vm = 0,
     transition_vm = 0, generation = 0\<rparr>"

section \<open>Helpers\<close>

definition gsw_display_trap_for :: "GSW_Display_Arbiter \<Rightarrow> GSW_Display_Dispi_Trap" where
  "gsw_display_trap_for state =
     (if lifecycle state = GSW_DISPLAY_REGISTERED then GSW_DISPLAY_DISPI_INTERCEPT
      else GSW_DISPLAY_DISPI_BYPASS)"

definition gsw_display_event_has_fresh_owner :: "GSW_Display_Event \<Rightarrow> bool" where
  "gsw_display_event_has_fresh_owner event \<longleftrightarrow>
     ev_flags event AND GSW_DISPLAY_EVENT_PHYSICAL_OWNER_FRESH \<noteq> 0"

definition gsw_display_request_is_authorized ::
    "GSW_Display_Arbiter \<Rightarrow> GSW_Display_VM \<Rightarrow> bool" where
  "gsw_display_request_is_authorized state vm =
     (if transition state \<noteq> GSW_DISPLAY_TRANSITION_NONE
      then vm \<noteq> 0 \<and> vm = transition_vm state
      else if authority state = GSW_DISPLAY_FOREGROUND_VGA
      then vm \<noteq> 0 \<and> vm = authority_vm state
      else False)"

definition gsw_display_set_transition ::
    "GSW_Display_Result \<Rightarrow> GSW_Display_Transition \<Rightarrow> GSW_Display_VM \<Rightarrow> GSW_Display_Result" where
  "gsw_display_set_transition result t vm =
     result\<lparr>res_next := (res_next result)\<lparr>transition := t, transition_vm := vm\<rparr>\<rparr>"

definition gsw_display_commit_authority ::
    "GSW_Display_Result \<Rightarrow> GSW_Display_Authority \<Rightarrow> GSW_Display_VM \<Rightarrow> GSW_Display_Result" where
  "gsw_display_commit_authority result a vm =
     (let n = res_next result;
          changed = (authority n \<noteq> a \<or> authority_vm n \<noteq> vm \<or>
                     transition n \<noteq> GSW_DISPLAY_TRANSITION_NONE);
          n' = n\<lparr>authority := a, authority_vm := vm,
                 transition := GSW_DISPLAY_TRANSITION_NONE, transition_vm := 0\<rparr>
      in result\<lparr>res_next := (if changed then n'\<lparr>generation := generation n' + 1\<rparr> else n')\<rparr>)"

definition gsw_display_fault :: "GSW_Display_Result \<Rightarrow> GSW_Display_Result" where
  "gsw_display_fault result = result\<lparr>res_protocol_fault := 1\<rparr>"

definition gsw_display_commit_post ::
    "GSW_Display_Result \<Rightarrow> GSW_Display_Event \<Rightarrow> GSW_Display_Transition \<Rightarrow>
     GSW_Display_Authority \<Rightarrow> GSW_Display_VM \<Rightarrow> GSW_Display_Result" where
  "gsw_display_commit_post result event expected_transition target_authority target_vm =
     (let fresh = gsw_display_event_has_fresh_owner event;
          n = res_next result
      in if fresh \<and> observed_physical_owner event \<noteq> target_vm then gsw_display_fault result
         else if transition n = GSW_DISPLAY_TRANSITION_NONE \<and>
                 authority n = target_authority \<and> authority_vm n = target_vm then result
         else if (transition n = expected_transition \<and> transition_vm n = target_vm) \<or> fresh
         then gsw_display_commit_authority result target_authority target_vm
         else gsw_display_fault result)"

definition gsw_display_refuse :: "GSW_Display_Result \<Rightarrow> GSW_Display_Event \<Rightarrow> GSW_Display_Result" where
  "gsw_display_refuse result event =
     (if ev_kind event = GSW_DISPLAY_EVENT_VBE_MODE_SET
      then result\<lparr>res_action := GSW_DISPLAY_REJECT_VBE, res_vbe_ax := GSW_DISPLAY_VBE_REJECT_AX\<rparr>
      else result\<lparr>res_action := GSW_DISPLAY_CONSUME\<rparr>)"

definition gsw_display_handle_request ::
    "GSW_Display_Result \<Rightarrow> GSW_Display_Event \<Rightarrow> GSW_Display_Result" where
  "gsw_display_handle_request result event =
     (let n = res_next result in
      if lifecycle n = GSW_DISPLAY_COLD \<or> lifecycle n = GSW_DISPLAY_READY \<or>
         lifecycle n = GSW_DISPLAY_EXITED then result
      else if lifecycle n = GSW_DISPLAY_DISABLING then
        (if ev_kind event = GSW_DISPLAY_EVENT_DISPI_ACCESS then result
         else if ev_kind event = GSW_DISPLAY_EVENT_BIOS_MODE_SET \<and>
                 ev_vm event = windows_vm n \<and>
                 (ev_value event = 0x0003 \<or> ev_value event = 0x0083) then result
         else gsw_display_refuse result event)
      else if gsw_display_request_is_authorized n (ev_vm event) then result
      else gsw_display_refuse result event)"

section \<open>The event cases\<close>

definition gsw_display_on_device_ready ::
    "GSW_Display_Arbiter \<Rightarrow> GSW_Display_Result \<Rightarrow> GSW_Display_Result" where
  "gsw_display_on_device_ready state result =
     (if lifecycle state = GSW_DISPLAY_COLD
      then result\<lparr>res_next := (res_next result)\<lparr>lifecycle := GSW_DISPLAY_READY\<rparr>\<rparr>
      else if lifecycle state \<noteq> GSW_DISPLAY_READY then gsw_display_fault result
      else result)"

definition gsw_display_on_device_registered ::
    "GSW_Display_Arbiter \<Rightarrow> GSW_Display_Event \<Rightarrow> GSW_Display_Result \<Rightarrow> GSW_Display_Result" where
  "gsw_display_on_device_registered state event result =
     (if lifecycle state = GSW_DISPLAY_READY \<and> ev_vm event \<noteq> 0
      then gsw_display_set_transition
             (result\<lparr>res_next := (res_next result)\<lparr>lifecycle := GSW_DISPLAY_REGISTERED,
                                                    windows_vm := ev_vm event\<rparr>\<rparr>)
             GSW_DISPLAY_DESKTOP_RECONFIGURE (ev_vm event)
      else if lifecycle state = GSW_DISPLAY_DISABLING \<and> ev_vm event \<noteq> 0 \<and>
              ev_vm event = windows_vm state
      then gsw_display_set_transition
             (result\<lparr>res_next := (res_next result)\<lparr>lifecycle := GSW_DISPLAY_REGISTERED\<rparr>\<rparr>)
             GSW_DISPLAY_DESKTOP_RECONFIGURE (windows_vm state)
      else if lifecycle state \<noteq> GSW_DISPLAY_REGISTERED \<or> ev_vm event = 0 \<or>
              ev_vm event \<noteq> windows_vm state
      then gsw_display_fault result
      else result)"

definition gsw_display_on_pre_foreground ::
    "GSW_Display_Arbiter \<Rightarrow> GSW_Display_Event \<Rightarrow> GSW_Display_Result \<Rightarrow> GSW_Display_Result" where
  "gsw_display_on_pre_foreground state event result =
     (if lifecycle state \<noteq> GSW_DISPLAY_REGISTERED \<or> ev_vm event = 0 then gsw_display_fault result
      else if transition state = GSW_DISPLAY_TRANSITION_NONE
      then gsw_display_set_transition result GSW_DISPLAY_TO_FOREGROUND_VGA (ev_vm event)
      else if transition state = GSW_DISPLAY_DESKTOP_RECONFIGURE \<and>
              transition_vm state = ev_vm event
      then gsw_display_set_transition result GSW_DISPLAY_TO_FOREGROUND_VGA (ev_vm event)
      else if transition state \<noteq> GSW_DISPLAY_TO_FOREGROUND_VGA \<or>
              transition_vm state \<noteq> ev_vm event
      then gsw_display_fault result
      else result)"

definition gsw_display_on_post_foreground ::
    "GSW_Display_Arbiter \<Rightarrow> GSW_Display_Event \<Rightarrow> GSW_Display_Result \<Rightarrow> GSW_Display_Result" where
  "gsw_display_on_post_foreground state event result =
     (if lifecycle state \<noteq> GSW_DISPLAY_REGISTERED \<or> ev_vm event = 0 then gsw_display_fault result
      else gsw_display_commit_post result event GSW_DISPLAY_TO_FOREGROUND_VGA
             GSW_DISPLAY_FOREGROUND_VGA (ev_vm event))"

definition gsw_display_on_pre_desktop ::
    "GSW_Display_Arbiter \<Rightarrow> GSW_Display_Event \<Rightarrow> GSW_Display_Result \<Rightarrow> GSW_Display_Result" where
  "gsw_display_on_pre_desktop state event result =
     (if lifecycle state \<noteq> GSW_DISPLAY_REGISTERED \<or> ev_vm event \<noteq> windows_vm state \<or>
         ev_vm event = 0 then gsw_display_fault result
      else if transition state = GSW_DISPLAY_TRANSITION_NONE
      then gsw_display_set_transition result GSW_DISPLAY_TO_WINDOWS_DESKTOP (windows_vm state)
      else if transition state = GSW_DISPLAY_DESKTOP_RECONFIGURE \<and>
              transition_vm state = windows_vm state
      then gsw_display_set_transition result GSW_DISPLAY_TO_WINDOWS_DESKTOP (windows_vm state)
      else if transition state \<noteq> GSW_DISPLAY_TO_WINDOWS_DESKTOP \<or>
              transition_vm state \<noteq> windows_vm state
      then gsw_display_fault result
      else result)"

definition gsw_display_on_post_desktop ::
    "GSW_Display_Arbiter \<Rightarrow> GSW_Display_Event \<Rightarrow> GSW_Display_Result \<Rightarrow> GSW_Display_Result" where
  "gsw_display_on_post_desktop state event result =
     (let target_vm = windows_vm state in
      if lifecycle state \<noteq> GSW_DISPLAY_REGISTERED \<or> ev_vm event \<noteq> target_vm \<or> target_vm = 0
      then gsw_display_fault result
      else gsw_display_commit_post result event GSW_DISPLAY_TO_WINDOWS_DESKTOP
             GSW_DISPLAY_WINDOWS_DESKTOP target_vm)"

definition gsw_display_on_desktop_programmed ::
    "GSW_Display_Arbiter \<Rightarrow> GSW_Display_Event \<Rightarrow> GSW_Display_Result \<Rightarrow> GSW_Display_Result" where
  "gsw_display_on_desktop_programmed state event result =
     (if lifecycle state \<noteq> GSW_DISPLAY_REGISTERED \<or> ev_vm event \<noteq> windows_vm state \<or>
         ev_vm event = 0 then gsw_display_fault result
      else if transition state = GSW_DISPLAY_DESKTOP_RECONFIGURE \<and>
              transition_vm state = windows_vm state
      then gsw_display_commit_authority result GSW_DISPLAY_WINDOWS_DESKTOP (windows_vm state)
      else if transition state = GSW_DISPLAY_TO_WINDOWS_DESKTOP \<and>
              transition_vm state = windows_vm state then result
      else if transition state \<noteq> GSW_DISPLAY_TRANSITION_NONE \<or>
              authority state \<noteq> GSW_DISPLAY_WINDOWS_DESKTOP \<or>
              authority_vm state \<noteq> windows_vm state
      then gsw_display_fault result
      else result)"

definition gsw_display_on_desktop_program_failed ::
    "GSW_Display_Arbiter \<Rightarrow> GSW_Display_Event \<Rightarrow> GSW_Display_Result \<Rightarrow> GSW_Display_Result" where
  "gsw_display_on_desktop_program_failed state event result =
     (if lifecycle state \<noteq> GSW_DISPLAY_REGISTERED \<or> ev_vm event \<noteq> windows_vm state \<or>
         ev_vm event = 0 then gsw_display_fault result
      else if transition state = GSW_DISPLAY_TRANSITION_NONE then result
      else if (transition state = GSW_DISPLAY_DESKTOP_RECONFIGURE \<or>
               transition state = GSW_DISPLAY_TO_WINDOWS_DESKTOP) \<and>
              transition_vm state = windows_vm state
      then result\<lparr>res_next := (res_next result)\<lparr>transition := GSW_DISPLAY_TRANSITION_NONE,
                                                 transition_vm := 0\<rparr>\<rparr>
      else gsw_display_fault result)"

definition gsw_display_on_exclusive_begin ::
    "GSW_Display_Arbiter \<Rightarrow> GSW_Display_Event \<Rightarrow> GSW_Display_Result \<Rightarrow> GSW_Display_Result" where
  "gsw_display_on_exclusive_begin state event result =
     (if lifecycle state = GSW_DISPLAY_DISABLING \<or> lifecycle state = GSW_DISPLAY_EXITED
      then result
      else if lifecycle state \<noteq> GSW_DISPLAY_REGISTERED \<or> ev_vm event \<noteq> windows_vm state \<or>
              ev_vm event = 0 then gsw_display_fault result
      else if transition state \<noteq> GSW_DISPLAY_TRANSITION_NONE
      then (if transition_vm state \<noteq> windows_vm state then gsw_display_fault result else result)
      else if authority state = GSW_DISPLAY_WINDOWS_DESKTOP \<and>
              authority_vm state = windows_vm state
      then gsw_display_set_transition result GSW_DISPLAY_DESKTOP_RECONFIGURE (windows_vm state)
      else if authority state = GSW_DISPLAY_FOREGROUND_VGA \<and>
              authority_vm state = windows_vm state then result
      else gsw_display_fault result)"

definition gsw_display_on_exclusive_end ::
    "GSW_Display_Arbiter \<Rightarrow> GSW_Display_Event \<Rightarrow> GSW_Display_Result \<Rightarrow> GSW_Display_Result" where
  "gsw_display_on_exclusive_end state event result =
     (if lifecycle state = GSW_DISPLAY_DISABLING \<or> lifecycle state = GSW_DISPLAY_EXITED
      then result
      else if lifecycle state \<noteq> GSW_DISPLAY_REGISTERED \<or> ev_vm event \<noteq> windows_vm state \<or>
              ev_vm event = 0 then gsw_display_fault result
      else if transition state \<noteq> GSW_DISPLAY_TRANSITION_NONE then
        (if transition_vm state \<noteq> windows_vm state then gsw_display_fault result
         else if transition state = GSW_DISPLAY_DESKTOP_RECONFIGURE then
           (if authority state = GSW_DISPLAY_WINDOWS_DESKTOP \<and>
               authority_vm state = windows_vm state
            then result\<lparr>res_next := (res_next result)\<lparr>transition := GSW_DISPLAY_TRANSITION_NONE,
                                                       transition_vm := 0\<rparr>\<rparr>
            else if authority state \<noteq> GSW_DISPLAY_FOREGROUND_VGA then gsw_display_fault result
            else result)
         else result)
      else if authority state = GSW_DISPLAY_FOREGROUND_VGA \<and>
              authority_vm state = windows_vm state
      then gsw_display_set_transition result GSW_DISPLAY_DESKTOP_RECONFIGURE (windows_vm state)
      else if authority state \<noteq> GSW_DISPLAY_WINDOWS_DESKTOP \<or>
              authority_vm state \<noteq> windows_vm state
      then gsw_display_fault result
      else result)"

definition gsw_display_on_driver_disabling ::
    "GSW_Display_Arbiter \<Rightarrow> GSW_Display_Event \<Rightarrow> GSW_Display_Result \<Rightarrow> GSW_Display_Result" where
  "gsw_display_on_driver_disabling state event result =
     (if lifecycle state = GSW_DISPLAY_EXITED then result
      else if lifecycle state = GSW_DISPLAY_REGISTERED \<and> ev_vm event \<noteq> 0 \<and>
              ev_vm event = windows_vm state
      then result\<lparr>res_next := (res_next result)\<lparr>lifecycle := GSW_DISPLAY_DISABLING,
                     transition := GSW_DISPLAY_TRANSITION_NONE, transition_vm := 0\<rparr>\<rparr>
      else if lifecycle state \<noteq> GSW_DISPLAY_DISABLING \<or> ev_vm event = 0 \<or>
              ev_vm event \<noteq> windows_vm state
      then gsw_display_fault result
      else result)"

definition gsw_display_on_exit ::
    "GSW_Display_Arbiter \<Rightarrow> GSW_Display_Result \<Rightarrow> GSW_Display_Result" where
  "gsw_display_on_exit state result =
     (if lifecycle state \<noteq> GSW_DISPLAY_EXITED then
        (let result' = gsw_display_commit_authority
               (result\<lparr>res_next := (res_next result)\<lparr>lifecycle := GSW_DISPLAY_EXITED\<rparr>\<rparr>)
               GSW_DISPLAY_FIRMWARE 0
         in result'\<lparr>res_next := (res_next result')\<lparr>windows_vm := 0\<rparr>\<rparr>)
      else result)"

definition gsw_display_on_physical_owner ::
    "GSW_Display_Arbiter \<Rightarrow> GSW_Display_Event \<Rightarrow> GSW_Display_Result \<Rightarrow> GSW_Display_Result" where
  "gsw_display_on_physical_owner state event result =
     (if lifecycle state \<noteq> GSW_DISPLAY_REGISTERED then gsw_display_fault result
      else if \<not> gsw_display_event_has_fresh_owner event then result
      else if ev_vm event = 0 \<or> ev_vm event \<noteq> observed_physical_owner event
      then gsw_display_fault result
      else if transition state \<noteq> GSW_DISPLAY_TRANSITION_NONE \<and>
              ev_vm event \<noteq> transition_vm state then result
      else if ev_vm event \<noteq> windows_vm state
      then gsw_display_commit_authority result GSW_DISPLAY_FOREGROUND_VGA (ev_vm event)
      else result)"

definition gsw_display_initial_result :: "GSW_Display_Arbiter \<Rightarrow> GSW_Display_Result" where
  "gsw_display_initial_result state =
     \<lparr>res_next = state, res_action = GSW_DISPLAY_FORWARD,
      res_dispi_trap = gsw_display_trap_for state, res_vbe_ax = 0, res_protocol_fault = 0\<rparr>"

definition gsw_display_switch ::
    "GSW_Display_Arbiter \<Rightarrow> GSW_Display_Event \<Rightarrow> GSW_Display_Result \<Rightarrow> GSW_Display_Result" where
  "gsw_display_switch state event result =
     (case ev_kind event of
        GSW_DISPLAY_EVENT_DEVICE_READY \<Rightarrow> gsw_display_on_device_ready state result
      | GSW_DISPLAY_EVENT_DEVICE_REGISTERED \<Rightarrow> gsw_display_on_device_registered state event result
      | GSW_DISPLAY_EVENT_VDD_PRE_FOREGROUND \<Rightarrow> gsw_display_on_pre_foreground state event result
      | GSW_DISPLAY_EVENT_VDD_POST_FOREGROUND \<Rightarrow> gsw_display_on_post_foreground state event result
      | GSW_DISPLAY_EVENT_VDD_PRE_DESKTOP \<Rightarrow> gsw_display_on_pre_desktop state event result
      | GSW_DISPLAY_EVENT_VDD_POST_DESKTOP \<Rightarrow> gsw_display_on_post_desktop state event result
      | GSW_DISPLAY_EVENT_DESKTOP_PROGRAMMED \<Rightarrow>
          gsw_display_on_desktop_programmed state event result
      | GSW_DISPLAY_EVENT_DESKTOP_PROGRAM_FAILED \<Rightarrow>
          gsw_display_on_desktop_program_failed state event result
      | GSW_DISPLAY_EVENT_DDRAW_EXCLUSIVE_BEGIN \<Rightarrow> gsw_display_on_exclusive_begin state event result
      | GSW_DISPLAY_EVENT_DDRAW_EXCLUSIVE_END \<Rightarrow> gsw_display_on_exclusive_end state event result
      | GSW_DISPLAY_EVENT_DRIVER_DISABLING \<Rightarrow> gsw_display_on_driver_disabling state event result
      | GSW_DISPLAY_EVENT_DEVICE_EXIT \<Rightarrow> gsw_display_on_exit state result
      | GSW_DISPLAY_EVENT_SYSTEM_EXIT \<Rightarrow> gsw_display_on_exit state result
      | GSW_DISPLAY_EVENT_BIOS_MODE_SET \<Rightarrow> gsw_display_handle_request result event
      | GSW_DISPLAY_EVENT_VBE_MODE_SET \<Rightarrow> gsw_display_handle_request result event
      | GSW_DISPLAY_EVENT_DISPI_ACCESS \<Rightarrow> gsw_display_handle_request result event
      | GSW_DISPLAY_EVENT_PHYSICAL_OWNER \<Rightarrow> gsw_display_on_physical_owner state event result
      | GSW_DISPLAY_EVENT_OUT_OF_RANGE \<Rightarrow> gsw_display_fault result)"

definition gsw_display_step ::
    "GSW_Display_Arbiter \<Rightarrow> GSW_Display_Event \<Rightarrow> GSW_Display_Result" where
  "gsw_display_step state event =
     (let result = gsw_display_switch state event (gsw_display_initial_result state)
      in result\<lparr>res_dispi_trap := gsw_display_trap_for (res_next result)\<rparr>)"

section \<open>Invariant and abstract access policy\<close>

text \<open>
  The states the arbiter can be in: the Windows virtual machine is known exactly between
  registration and exit, firmware authority has no virtual machine and desktop authority
  belongs to the Windows one, and a pending transition exists only while registered and
  names the virtual machine it moves to.
\<close>

definition display_wf :: "GSW_Display_Arbiter \<Rightarrow> bool" where
  "display_wf s \<longleftrightarrow>
     (windows_vm s \<noteq> 0 \<longleftrightarrow>
        lifecycle s = GSW_DISPLAY_REGISTERED \<or> lifecycle s = GSW_DISPLAY_DISABLING) \<and>
     (authority s = GSW_DISPLAY_FIRMWARE \<longleftrightarrow> authority_vm s = 0) \<and>
     (authority s = GSW_DISPLAY_WINDOWS_DESKTOP \<longrightarrow> authority_vm s = windows_vm s) \<and>
     (transition s = GSW_DISPLAY_TRANSITION_NONE \<longleftrightarrow> transition_vm s = 0) \<and>
     (transition s \<noteq> GSW_DISPLAY_TRANSITION_NONE \<longrightarrow> lifecycle s = GSW_DISPLAY_REGISTERED) \<and>
     (transition s = GSW_DISPLAY_TO_WINDOWS_DESKTOP \<or>
      transition s = GSW_DISPLAY_DESKTOP_RECONFIGURE \<longrightarrow> transition_vm s = windows_vm s) \<and>
     (windows_vm s = 0 \<longrightarrow> authority s = GSW_DISPLAY_FIRMWARE)"

text \<open>
  What a mode-set request may do, independent of how the arbiter stores it: everything
  passes when the Windows driver is not in charge, the DISPI ports and the text modes of
  the Windows virtual machine pass while the driver is being disabled, and one virtual
  machine or none holds the display while the driver is registered.
\<close>

datatype display_access =
    Unrestricted
  | Closing GSW_Display_VM
  | Held_by GSW_Display_VM
  | Held_by_desktop

definition display_access_of :: "GSW_Display_Arbiter \<Rightarrow> display_access" where
  "display_access_of s =
     (case lifecycle s of
        GSW_DISPLAY_DISABLING \<Rightarrow> Closing (windows_vm s)
      | GSW_DISPLAY_REGISTERED \<Rightarrow>
          (if transition s \<noteq> GSW_DISPLAY_TRANSITION_NONE then Held_by (transition_vm s)
           else if authority s = GSW_DISPLAY_FOREGROUND_VGA then Held_by (authority_vm s)
           else Held_by_desktop)
      | _ \<Rightarrow> Unrestricted)"

definition access_permits :: "display_access \<Rightarrow> GSW_Display_Event \<Rightarrow> bool" where
  "access_permits a e =
     (case a of
        Unrestricted \<Rightarrow> True
      | Closing w \<Rightarrow> ev_kind e = GSW_DISPLAY_EVENT_DISPI_ACCESS \<or>
          (ev_kind e = GSW_DISPLAY_EVENT_BIOS_MODE_SET \<and> ev_vm e = w \<and>
           (ev_value e = 0x0003 \<or> ev_value e = 0x0083))
      | Held_by v \<Rightarrow> ev_vm e = v
      | Held_by_desktop \<Rightarrow> False)"

definition is_mode_request :: "GSW_Display_Event \<Rightarrow> bool" where
  "is_mode_request e \<longleftrightarrow>
     ev_kind e \<in> {GSW_DISPLAY_EVENT_BIOS_MODE_SET, GSW_DISPLAY_EVENT_VBE_MODE_SET,
                  GSW_DISPLAY_EVENT_DISPI_ACCESS}"

text \<open>The lifecycle on its own: the moves an event may make.\<close>

inductive life_step :: "GSW_Display_Lifecycle \<Rightarrow> GSW_Display_Lifecycle \<Rightarrow> bool" where
  life_stay: "life_step l l"
| life_ready: "life_step GSW_DISPLAY_COLD GSW_DISPLAY_READY"
| life_register: "life_step GSW_DISPLAY_READY GSW_DISPLAY_REGISTERED"
| life_disable: "life_step GSW_DISPLAY_REGISTERED GSW_DISPLAY_DISABLING"
| life_reregister: "life_step GSW_DISPLAY_DISABLING GSW_DISPLAY_REGISTERED"
| life_exit: "life_step l GSW_DISPLAY_EXITED"

inductive_cases life_step_from_exited: "life_step GSW_DISPLAY_EXITED l"

definition gsw_display_next :: "GSW_Display_Event \<Rightarrow> GSW_Display_Arbiter \<Rightarrow> GSW_Display_Arbiter" where
  "gsw_display_next e s = res_next (gsw_display_step s e)"

section \<open>Lemmas\<close>

lemmas display_helper_defs =
  gsw_display_fault_def gsw_display_set_transition_def gsw_display_commit_authority_def
  gsw_display_commit_post_def gsw_display_refuse_def Let_def

lemmas display_case_defs =
  gsw_display_on_device_ready_def gsw_display_on_device_registered_def
  gsw_display_on_pre_foreground_def gsw_display_on_post_foreground_def
  gsw_display_on_pre_desktop_def gsw_display_on_post_desktop_def
  gsw_display_on_desktop_programmed_def gsw_display_on_desktop_program_failed_def
  gsw_display_on_exclusive_begin_def gsw_display_on_exclusive_end_def
  gsw_display_on_driver_disabling_def gsw_display_on_exit_def
  gsw_display_on_physical_owner_def

lemma step_next:
  "res_next (gsw_display_step s e) =
     res_next (gsw_display_switch s e (gsw_display_initial_result s))"
  by (simp add: gsw_display_step_def Let_def)

lemma step_fault:
  "res_protocol_fault (gsw_display_step s e) =
     res_protocol_fault (gsw_display_switch s e (gsw_display_initial_result s))"
  by (simp add: gsw_display_step_def Let_def)

lemma step_action:
  "res_action (gsw_display_step s e) =
     res_action (gsw_display_switch s e (gsw_display_initial_result s))"
  by (simp add: gsw_display_step_def Let_def)

lemma initial_result_simps [simp]:
  "res_next (gsw_display_initial_result s) = s"
  "res_action (gsw_display_initial_result s) = GSW_DISPLAY_FORWARD"
  "res_vbe_ax (gsw_display_initial_result s) = 0"
  "res_protocol_fault (gsw_display_initial_result s) = 0"
  by (simp_all add: gsw_display_initial_result_def)

lemma handle_request_next [simp, gsw_frame]:
  "res_next (gsw_display_handle_request r e) = res_next r"
  "res_protocol_fault (gsw_display_handle_request r e) = res_protocol_fault r"
  by (simp_all add: gsw_display_handle_request_def gsw_display_refuse_def Let_def)

lemma display_wf_cold: "display_wf gsw_display_cold"
  by (simp add: display_wf_def gsw_display_cold_def)

lemma fault_simps [simp, gsw_frame]:
  "res_next (gsw_display_fault r) = res_next r"
  "res_protocol_fault (gsw_display_fault r) = 1"
  by (simp_all add: gsw_display_fault_def)

lemma set_transition_simps [simp, gsw_frame]:
  "res_next (gsw_display_set_transition r t vm) = (res_next r)\<lparr>transition := t, transition_vm := vm\<rparr>"
  "res_protocol_fault (gsw_display_set_transition r t vm) = res_protocol_fault r"
  by (simp_all add: gsw_display_set_transition_def)

lemma commit_authority_simps [simp, gsw_frame]:
  "lifecycle (res_next (gsw_display_commit_authority r a vm)) = lifecycle (res_next r)"
  "windows_vm (res_next (gsw_display_commit_authority r a vm)) = windows_vm (res_next r)"
  "authority (res_next (gsw_display_commit_authority r a vm)) = a"
  "authority_vm (res_next (gsw_display_commit_authority r a vm)) = vm"
  "transition (res_next (gsw_display_commit_authority r a vm)) = GSW_DISPLAY_TRANSITION_NONE"
  "transition_vm (res_next (gsw_display_commit_authority r a vm)) = 0"
  "res_protocol_fault (gsw_display_commit_authority r a vm) = res_protocol_fault r"
  by (simp_all add: gsw_display_commit_authority_def Let_def)

lemma commit_authority_generation:
  "generation (res_next (gsw_display_commit_authority r a vm)) =
     (if authority (res_next r) \<noteq> a \<or> authority_vm (res_next r) \<noteq> vm \<or>
         transition (res_next r) \<noteq> GSW_DISPLAY_TRANSITION_NONE
      then generation (res_next r) + 1 else generation (res_next r))"
  by (simp add: gsw_display_commit_authority_def Let_def)

lemma display_wf_commit [gsw_inv]:
  assumes "lifecycle (res_next r) = GSW_DISPLAY_REGISTERED" "windows_vm (res_next r) \<noteq> 0"
    and "vm \<noteq> 0" "a \<noteq> GSW_DISPLAY_FIRMWARE"
    and "a = GSW_DISPLAY_WINDOWS_DESKTOP \<longrightarrow> vm = windows_vm (res_next r)"
  shows "display_wf (res_next (gsw_display_commit_authority r a vm))"
  using assms by (simp add: display_wf_def)

lemma display_wf_set_transition:
  assumes "display_wf s" "lifecycle s = GSW_DISPLAY_REGISTERED"
    and "vm \<noteq> 0" "t \<noteq> GSW_DISPLAY_TRANSITION_NONE"
    and "t = GSW_DISPLAY_TO_FOREGROUND_VGA \<or> vm = windows_vm s"
  shows "display_wf (s\<lparr>transition := t, transition_vm := vm\<rparr>)"
  using assms by (auto simp: display_wf_def)

lemma display_wf_clear_transition:
  "display_wf s \<Longrightarrow>
   display_wf (s\<lparr>transition := GSW_DISPLAY_TRANSITION_NONE, transition_vm := 0\<rparr>)"
  by (auto simp: display_wf_def)

lemma display_wf_windows_vm:
  "display_wf s \<Longrightarrow> lifecycle s = GSW_DISPLAY_REGISTERED \<Longrightarrow> windows_vm s \<noteq> 0"
  by (simp add: display_wf_def)

lemma display_wf_commit_post [gsw_inv]:
  assumes "display_wf (res_next r)" "lifecycle (res_next r) = GSW_DISPLAY_REGISTERED"
    and "vm \<noteq> 0" "a \<noteq> GSW_DISPLAY_FIRMWARE"
    and "a = GSW_DISPLAY_WINDOWS_DESKTOP \<longrightarrow> vm = windows_vm (res_next r)"
  shows "display_wf (res_next (gsw_display_commit_post r e t a vm))"
  using assms display_wf_windows_vm [OF assms(1,2)]
  by (simp add: gsw_display_commit_post_def Let_def display_wf_commit)

text \<open>Each event case keeps the invariant.\<close>

lemma display_wf_ready:
  "display_wf s \<Longrightarrow> lifecycle s = GSW_DISPLAY_COLD \<Longrightarrow>
   display_wf (s\<lparr>lifecycle := GSW_DISPLAY_READY\<rparr>)"
  by (simp add: display_wf_def) auto

lemma display_wf_register:
  "display_wf s \<Longrightarrow> lifecycle s = GSW_DISPLAY_READY \<Longrightarrow> vm \<noteq> 0 \<Longrightarrow>
   display_wf (s\<lparr>lifecycle := GSW_DISPLAY_REGISTERED, windows_vm := vm,
                transition := GSW_DISPLAY_DESKTOP_RECONFIGURE, transition_vm := vm\<rparr>)"
  by (simp add: display_wf_def) auto

lemma display_wf_reregister:
  "display_wf s \<Longrightarrow> lifecycle s = GSW_DISPLAY_DISABLING \<Longrightarrow>
   display_wf (s\<lparr>lifecycle := GSW_DISPLAY_REGISTERED, transition := GSW_DISPLAY_DESKTOP_RECONFIGURE,
                transition_vm := windows_vm s\<rparr>)"
  by (simp add: display_wf_def)

lemma display_wf_disable:
  "display_wf s \<Longrightarrow> lifecycle s = GSW_DISPLAY_REGISTERED \<Longrightarrow>
   display_wf (s\<lparr>lifecycle := GSW_DISPLAY_DISABLING, transition := GSW_DISPLAY_TRANSITION_NONE,
                transition_vm := 0\<rparr>)"
  by (simp add: display_wf_def)

lemma display_wf_exit:
  "lifecycle n = GSW_DISPLAY_EXITED \<Longrightarrow> authority n = GSW_DISPLAY_FIRMWARE \<Longrightarrow>
   authority_vm n = 0 \<Longrightarrow> transition n = GSW_DISPLAY_TRANSITION_NONE \<Longrightarrow> transition_vm n = 0 \<Longrightarrow>
   display_wf (n\<lparr>windows_vm := 0\<rparr>)"
  by (simp add: display_wf_def)

lemma display_wf_registration_cases [gsw_inv]:
  assumes "display_wf s"
  shows "display_wf (res_next (gsw_display_on_device_ready s (gsw_display_initial_result s)))"
    and "display_wf (res_next (gsw_display_on_device_registered s e (gsw_display_initial_result s)))"
    and "display_wf (res_next (gsw_display_on_driver_disabling s e (gsw_display_initial_result s)))"
    and "display_wf (res_next (gsw_display_on_exit s (gsw_display_initial_result s)))"
  using assms
  by (simp_all add: gsw_display_on_device_ready_def gsw_display_on_exit_def
      gsw_display_on_device_registered_def gsw_display_on_driver_disabling_def Let_def
      display_wf_ready display_wf_register display_wf_reregister display_wf_disable display_wf_exit)

lemma display_wf_switching_cases [gsw_inv]:
  assumes "display_wf s"
  shows "display_wf (res_next (gsw_display_on_pre_foreground s e (gsw_display_initial_result s)))"
    and "display_wf (res_next (gsw_display_on_post_foreground s e (gsw_display_initial_result s)))"
    and "display_wf (res_next (gsw_display_on_pre_desktop s e (gsw_display_initial_result s)))"
    and "display_wf (res_next (gsw_display_on_post_desktop s e (gsw_display_initial_result s)))"
    and "display_wf (res_next (gsw_display_on_physical_owner s e (gsw_display_initial_result s)))"
  using assms
  by (auto simp: gsw_display_on_pre_foreground_def gsw_display_on_post_foreground_def
      gsw_display_on_pre_desktop_def gsw_display_on_post_desktop_def
      gsw_display_on_physical_owner_def Let_def
      intro!: display_wf_set_transition display_wf_commit_post display_wf_commit
      dest: display_wf_windows_vm)

lemma display_wf_desktop_cases [gsw_inv]:
  assumes "display_wf s"
  shows "display_wf (res_next (gsw_display_on_desktop_programmed s e (gsw_display_initial_result s)))"
    and "display_wf (res_next (gsw_display_on_desktop_program_failed s e (gsw_display_initial_result s)))"
    and "display_wf (res_next (gsw_display_on_exclusive_begin s e (gsw_display_initial_result s)))"
    and "display_wf (res_next (gsw_display_on_exclusive_end s e (gsw_display_initial_result s)))"
  using assms
  by (auto simp: gsw_display_on_desktop_programmed_def gsw_display_on_desktop_program_failed_def
      gsw_display_on_exclusive_begin_def gsw_display_on_exclusive_end_def Let_def
      intro!: display_wf_set_transition display_wf_commit display_wf_clear_transition
      dest: display_wf_windows_vm)

lemmas display_wf_cases =
  display_wf_registration_cases display_wf_switching_cases display_wf_desktop_cases

lemma display_wf_switch [gsw_inv]:
  assumes "display_wf s"
  shows "display_wf (res_next (gsw_display_switch s e (gsw_display_initial_result s)))"
  using assms by (cases "ev_kind e") (simp_all add: gsw_display_switch_def display_wf_cases)

lemma display_wf_next: "display_wf s \<Longrightarrow> display_wf (gsw_display_next e s)"
  by (simp add: gsw_display_next_def step_next display_wf_switch)

interpretation arbiter: started_component gsw_display_next display_wf gsw_display_cold
  by unfold_locales (auto intro: display_wf_next display_wf_cold)

lemma switch_fault_frame:
  "res_protocol_fault (gsw_display_switch s e (gsw_display_initial_result s)) = 0 \<or>
   res_next (gsw_display_switch s e (gsw_display_initial_result s)) = s"
  by (cases "ev_kind e")
    (simp_all add: gsw_display_switch_def display_case_defs gsw_display_commit_post_def Let_def)

lemma commit_authority_progress:
  "generation (res_next (gsw_display_commit_authority r a vm)) = generation (res_next r) \<and>
   authority (res_next r) = a \<and> authority_vm (res_next r) = vm \<or>
   generation (res_next (gsw_display_commit_authority r a vm)) = generation (res_next r) + 1"
  by (auto simp: commit_authority_generation)

lemma switch_generation:
  fixes s e
  defines "n \<equiv> res_next (gsw_display_switch s e (gsw_display_initial_result s))"
  shows "generation n = generation s \<and> authority n = authority s \<and> authority_vm n = authority_vm s \<or>
         generation n = generation s + 1 \<and> transition n = GSW_DISPLAY_TRANSITION_NONE"
  unfolding n_def
  by (cases "ev_kind e")
    (simp_all add: gsw_display_switch_def display_case_defs gsw_display_commit_post_def
      commit_authority_generation Let_def)

lemma switch_life:
  "life_step (lifecycle s)
     (lifecycle (res_next (gsw_display_switch s e (gsw_display_initial_result s))))"
  by (cases "ev_kind e")
    (simp_all add: gsw_display_switch_def display_case_defs gsw_display_commit_post_def
      Let_def life_step.intros)

lemma switch_exited:
  "lifecycle s = GSW_DISPLAY_EXITED \<Longrightarrow>
   res_next (gsw_display_switch s e (gsw_display_initial_result s)) = s"
  by (cases "ev_kind e") (simp_all add: gsw_display_switch_def display_case_defs Let_def)

lemma request_switch:
  "is_mode_request e \<Longrightarrow> gsw_display_switch s e r = gsw_display_handle_request r e"
  by (auto simp: is_mode_request_def gsw_display_switch_def)

lemma handle_request_action:
  assumes "display_wf s" "is_mode_request e"
  shows "res_action (gsw_display_handle_request (gsw_display_initial_result s) e) =
           (if access_permits (display_access_of s) e then GSW_DISPLAY_FORWARD
            else if ev_kind e = GSW_DISPLAY_EVENT_VBE_MODE_SET then GSW_DISPLAY_REJECT_VBE
            else GSW_DISPLAY_CONSUME)"
  using assms
  by (cases "lifecycle s")
    (auto simp: gsw_display_handle_request_def gsw_display_refuse_def Let_def
      access_permits_def display_access_of_def gsw_display_request_is_authorized_def
      is_mode_request_def display_wf_def)

lemma handle_request_ax:
  "res_vbe_ax (gsw_display_handle_request (gsw_display_initial_result s) e) =
     (if res_action (gsw_display_handle_request (gsw_display_initial_result s) e) =
         GSW_DISPLAY_REJECT_VBE then GSW_DISPLAY_VBE_REJECT_AX else 0)"
  by (auto simp: gsw_display_handle_request_def gsw_display_refuse_def Let_def)

section \<open>Properties\<close>

text \<open>
  C2. Whatever events the driver receives after it is loaded, in any order and with any
  arguments, the arbiter's state stays well formed: the Windows virtual machine is known
  exactly while the driver is registered or being disabled, desktop authority belongs to
  it, and a pending transition exists only while registered and names its target.
\<close>

theorem display_reachable_wf:
  "display_wf (fold gsw_display_next events gsw_display_cold)"
  by (rule arbiter.reachable_ok)

text \<open>
  C3. A mode-set or DISPI request is decided exactly by the abstract access policy of the
  state: it is forwarded when the policy permits it, and otherwise a VBE request is
  rejected with status 034Fh and any other request is consumed. The request itself never
  changes the state and is never a protocol fault.
\<close>

theorem display_request_policy:
  assumes "display_wf s" and "is_mode_request e"
  shows "gsw_display_step s e =
     (let act = (if access_permits (display_access_of s) e then GSW_DISPLAY_FORWARD
                 else if ev_kind e = GSW_DISPLAY_EVENT_VBE_MODE_SET then GSW_DISPLAY_REJECT_VBE
                 else GSW_DISPLAY_CONSUME)
      in \<lparr>res_next = s, res_action = act, res_dispi_trap = gsw_display_trap_for s,
          res_vbe_ax = (if act = GSW_DISPLAY_REJECT_VBE then 0x034F else 0),
          res_protocol_fault = 0\<rparr>)"
    (is "_ = ?policy")
proof (rule GSW_Display_Result.equality)
  show "res_vbe_ax (gsw_display_step s e) = res_vbe_ax ?policy"
    by (simp add: gsw_display_step_def request_switch [OF assms(2)] handle_request_ax
        handle_request_action [OF assms] GSW_DISPLAY_VBE_REJECT_AX_def Let_def)
qed (simp_all add: gsw_display_step_def request_switch [OF assms(2)]
      handle_request_action [OF assms] Let_def)

theorem display_request_policy_witness:
  "let s = gsw_display_cold\<lparr>lifecycle := GSW_DISPLAY_REGISTERED, windows_vm := 7,
             authority := GSW_DISPLAY_WINDOWS_DESKTOP, authority_vm := 7\<rparr>;
       e = \<lparr>ev_kind = GSW_DISPLAY_EVENT_VBE_MODE_SET, ev_vm = 9, observed_physical_owner = 0,
            ev_value = 0x101, ev_flags = 0\<rparr>
   in display_wf s \<and> is_mode_request e \<and>
      res_action (gsw_display_step s e) = GSW_DISPLAY_REJECT_VBE \<and>
      res_vbe_ax (gsw_display_step s e) = 0x034F"
proof -
  let ?s = "gsw_display_cold\<lparr>lifecycle := GSW_DISPLAY_REGISTERED, windows_vm := 7,
             authority := GSW_DISPLAY_WINDOWS_DESKTOP, authority_vm := 7\<rparr>"
  let ?e = "\<lparr>ev_kind = GSW_DISPLAY_EVENT_VBE_MODE_SET, ev_vm = 9, observed_physical_owner = 0,
            ev_value = 0x101, ev_flags = 0\<rparr>"
  have w: "display_wf ?s" by (simp add: display_wf_def gsw_display_cold_def)
  have r: "is_mode_request ?e" by (simp add: is_mode_request_def)
  show ?thesis
    using w r display_request_policy [OF w r]
    by (simp add: Let_def access_permits_def display_access_of_def gsw_display_cold_def)
qed

text \<open>
  A protocol fault never moves the display: whenever the arbiter reports a fault, the
  state it returns is the state it was given.
\<close>

theorem display_fault_keeps_state:
  "res_protocol_fault (gsw_display_step s e) \<noteq> 0 \<Longrightarrow> res_next (gsw_display_step s e) = s"
  using switch_fault_frame [of s e] by (simp add: step_fault step_next)

theorem display_fault_keeps_state_witness:
  "let e = \<lparr>ev_kind = GSW_DISPLAY_EVENT_VDD_PRE_DESKTOP, ev_vm = 4, observed_physical_owner = 0,
            ev_value = 0, ev_flags = 0\<rparr>
   in res_protocol_fault (gsw_display_step gsw_display_cold e) \<noteq> 0 \<and>
      res_next (gsw_display_step gsw_display_cold e) = gsw_display_cold"
proof -
  let ?e = "\<lparr>ev_kind = GSW_DISPLAY_EVENT_VDD_PRE_DESKTOP, ev_vm = 4, observed_physical_owner = 0,
            ev_value = 0, ev_flags = 0\<rparr>"
  have f: "res_protocol_fault (gsw_display_step gsw_display_cold ?e) \<noteq> 0"
    by (simp add: step_fault gsw_display_switch_def gsw_display_on_pre_desktop_def
        gsw_display_cold_def)
  show ?thesis using f display_fault_keeps_state [OF f] by (simp add: Let_def)
qed

text \<open>
  The generation counter tracks ownership: a step either leaves the generation and
  the owning authority and virtual machine as they were, or it advances the generation by
  one and ends with no transition pending.
\<close>

theorem display_generation_tracks_owner:
  "let n = res_next (gsw_display_step s e) in
     (generation n = generation s \<and> authority n = authority s \<and> authority_vm n = authority_vm s) \<or>
     (generation n = generation s + 1 \<and> transition n = GSW_DISPLAY_TRANSITION_NONE)"
  using switch_generation [of s e] by (simp add: step_next Let_def)

text \<open>
  The driver's life is cold, ready, registered, possibly disabling and back, then
  exited: every step refines that lifecycle relation, and after exit nothing changes the
  state any more, whatever events arrive.
\<close>

theorem display_lifecycle_refines:
  "life_step (lifecycle s) (lifecycle (gsw_display_next e s)) \<and>
   fold gsw_display_next events (s\<lparr>lifecycle := GSW_DISPLAY_EXITED\<rparr>) =
     s\<lparr>lifecycle := GSW_DISPLAY_EXITED\<rparr>"
proof -
  have "fold gsw_display_next events (s\<lparr>lifecycle := GSW_DISPLAY_EXITED\<rparr>) =
      s\<lparr>lifecycle := GSW_DISPLAY_EXITED\<rparr>"
    by (induction events) (simp_all add: gsw_display_next_def step_next switch_exited)
  then show ?thesis
    by (simp add: gsw_display_next_def step_next switch_life)
qed

end
