(* ===== verification/Display_Adapter.thy ===== *)
theory Display_Adapter
  imports Display_Arbiter
begin

text \<open>
  The stateful shell of the display arbiter
  (\<^verbatim>\<open>overlay/gsw_display_adapter.c\<close>): the static arbiter state, the DISPI port
  traps last applied through the VMM, and the entry points the mini-VDD calls. The VMM
  trapping services are recorded as calls, the port 80h trace markers as bytes. The
  answer of the VDD's \<open>Get_VM_Info\<close> service and the flag \<open>is_qemu\<close> come from code
  outside the repository and are arguments.
\<close>

section \<open>State\<close>

datatype vmm_call =
    Enable_Global_Trapping u32
  | Disable_Global_Trapping u32

record display_adapter =
  gsw_display_state :: GSW_Display_Arbiter
  gsw_display_applied_trap :: GSW_Display_Dispi_Trap
  vmm_calls :: "vmm_call list"
  port80 :: "u8 list"

definition GSW_MARK_DDRAW_EXCLUSIVE_BEGIN :: u8 where "GSW_MARK_DDRAW_EXCLUSIVE_BEGIN = 0xE5"
definition GSW_MARK_DDRAW_EXCLUSIVE_END :: u8 where "GSW_MARK_DDRAW_EXCLUSIVE_END = 0xE6"
definition GSW_MARK_DESKTOP_PROGRAMMED :: u8 where "GSW_MARK_DESKTOP_PROGRAMMED = 0xE7"
definition GSW_MARK_DISPLAY_PROTOCOL_FAULT :: u8 where "GSW_MARK_DISPLAY_PROTOCOL_FAULT = 0xEF"

definition display_adapter_start :: display_adapter where
  "display_adapter_start = \<lparr>gsw_display_state = gsw_display_cold,
     gsw_display_applied_trap = GSW_DISPLAY_DISPI_BYPASS, vmm_calls = [], port80 = []\<rparr>"

text \<open>Both lists have the latest entry first.\<close>

definition GSW_shutdown_marker :: "u8 \<Rightarrow> display_adapter \<Rightarrow> display_adapter" where
  "GSW_shutdown_marker code a = a\<lparr>port80 := code # port80 a\<rparr>"

definition vmm_service :: "vmm_call \<Rightarrow> display_adapter \<Rightarrow> display_adapter" where
  "vmm_service c a = a\<lparr>vmm_calls := c # vmm_calls a\<rparr>"

section \<open>Operations\<close>

definition GSW_display_desired_trap :: "display_adapter \<Rightarrow> GSW_Display_Dispi_Trap" where
  "GSW_display_desired_trap a =
     (if lifecycle (gsw_display_state a) = GSW_DISPLAY_REGISTERED
      then GSW_DISPLAY_DISPI_INTERCEPT else GSW_DISPLAY_DISPI_BYPASS)"

definition GSW_display_apply_dispi_traps ::
    "bool \<Rightarrow> GSW_Display_Dispi_Trap \<Rightarrow> bool \<Rightarrow> display_adapter \<Rightarrow> display_adapter" where
  "GSW_display_apply_dispi_traps is_qemu policy force a =
     (if \<not> force \<and> policy = gsw_display_applied_trap a then a
      else
        (let a' = (if is_qemu then
                     (if policy = GSW_DISPLAY_DISPI_INTERCEPT
                      then vmm_service (Enable_Global_Trapping 0x1CF)
                             (vmm_service (Enable_Global_Trapping 0x1CE) a)
                      else vmm_service (Disable_Global_Trapping 0x1CF)
                             (vmm_service (Disable_Global_Trapping 0x1CE) a))
                   else a)
         in a'\<lparr>gsw_display_applied_trap := policy\<rparr>))"

definition GSW_display_emit ::
    "bool \<Rightarrow> GSW_Display_Event_Kind \<Rightarrow> GSW_Display_VM \<Rightarrow> GSW_Display_VM \<Rightarrow> u16 \<Rightarrow> u16 \<Rightarrow>
     display_adapter \<Rightarrow> GSW_Display_Result \<times> display_adapter" where
  "GSW_display_emit is_qemu kind vm physical_owner val flags a =
     (let event = \<lparr>ev_kind = kind, ev_vm = vm, observed_physical_owner = physical_owner,
                   ev_value = val, ev_flags = flags\<rparr>;
          result = gsw_display_step (gsw_display_state a) event;
          a1 = a\<lparr>gsw_display_state := res_next result\<rparr>;
          a2 = (if res_protocol_fault result \<noteq> 0
                then GSW_shutdown_marker GSW_MARK_DISPLAY_PROTOCOL_FAULT a1 else a1)
      in (result, GSW_display_apply_dispi_traps is_qemu (res_dispi_trap result) False a2))"

definition GSW_display_emit_plain ::
    "bool \<Rightarrow> GSW_Display_Event_Kind \<Rightarrow> GSW_Display_VM \<Rightarrow> display_adapter \<Rightarrow>
     GSW_Display_Result \<times> display_adapter" where
  "GSW_display_emit_plain is_qemu kind vm a = GSW_display_emit is_qemu kind vm 0 0 0 a"

definition GSW_display_device_ready :: "bool \<Rightarrow> display_adapter \<Rightarrow> display_adapter" where
  "GSW_display_device_ready q a = snd (GSW_display_emit_plain q GSW_DISPLAY_EVENT_DEVICE_READY 0 a)"

definition GSW_display_device_registered :: "bool \<Rightarrow> u32 \<Rightarrow> display_adapter \<Rightarrow> display_adapter" where
  "GSW_display_device_registered q vm a =
     snd (GSW_display_emit_plain q GSW_DISPLAY_EVENT_DEVICE_REGISTERED vm a)"

definition GSW_display_driver_disabling :: "bool \<Rightarrow> u32 \<Rightarrow> display_adapter \<Rightarrow> display_adapter" where
  "GSW_display_driver_disabling q vm a =
     snd (GSW_display_emit_plain q GSW_DISPLAY_EVENT_DRIVER_DISABLING vm a)"

definition GSW_display_system_exit :: "bool \<Rightarrow> u32 \<Rightarrow> display_adapter \<Rightarrow> display_adapter" where
  "GSW_display_system_exit q vm a =
     snd (GSW_display_emit_plain q GSW_DISPLAY_EVENT_SYSTEM_EXIT vm a)"

definition GSW_display_device_exit :: "bool \<Rightarrow> u32 \<Rightarrow> display_adapter \<Rightarrow> display_adapter" where
  "GSW_display_device_exit q vm a =
     snd (GSW_display_emit_plain q GSW_DISPLAY_EVENT_DEVICE_EXIT vm a)"

definition GSW_display_vdd_pre_foreground :: "bool \<Rightarrow> u32 \<Rightarrow> display_adapter \<Rightarrow> display_adapter" where
  "GSW_display_vdd_pre_foreground q vm a =
     (if lifecycle (gsw_display_state a) \<noteq> GSW_DISPLAY_REGISTERED then a
      else snd (GSW_display_emit_plain q GSW_DISPLAY_EVENT_VDD_PRE_FOREGROUND vm a))"

definition GSW_display_vdd_post_foreground ::
    "bool \<Rightarrow> (u32 \<Rightarrow> u32) \<Rightarrow> u32 \<Rightarrow> display_adapter \<Rightarrow> display_adapter" where
  "GSW_display_vdd_post_foreground q physical_owner vm a =
     (if lifecycle (gsw_display_state a) \<noteq> GSW_DISPLAY_REGISTERED then a
      else snd (GSW_display_emit q GSW_DISPLAY_EVENT_VDD_POST_FOREGROUND vm (physical_owner vm) 0
                  GSW_DISPLAY_EVENT_PHYSICAL_OWNER_FRESH a))"

definition GSW_display_vdd_pre_desktop :: "bool \<Rightarrow> u32 \<Rightarrow> display_adapter \<Rightarrow> display_adapter" where
  "GSW_display_vdd_pre_desktop q vm a =
     (if lifecycle (gsw_display_state a) \<noteq> GSW_DISPLAY_REGISTERED then a
      else snd (GSW_display_emit_plain q GSW_DISPLAY_EVENT_VDD_PRE_DESKTOP vm a))"

definition GSW_display_vdd_post_desktop ::
    "bool \<Rightarrow> (u32 \<Rightarrow> u32) \<Rightarrow> u32 \<Rightarrow> display_adapter \<Rightarrow> display_adapter" where
  "GSW_display_vdd_post_desktop q physical_owner vm a =
     (if lifecycle (gsw_display_state a) \<noteq> GSW_DISPLAY_REGISTERED then a
      else snd (GSW_display_emit q GSW_DISPLAY_EVENT_VDD_POST_DESKTOP vm (physical_owner vm) 0
                  GSW_DISPLAY_EVENT_PHYSICAL_OWNER_FRESH a))"

definition GSW_display_desktop_programmed :: "bool \<Rightarrow> u32 \<Rightarrow> display_adapter \<Rightarrow> display_adapter" where
  "GSW_display_desktop_programmed q vm a =
     (if lifecycle (gsw_display_state a) \<noteq> GSW_DISPLAY_REGISTERED then a
      else snd (GSW_display_emit_plain q GSW_DISPLAY_EVENT_DESKTOP_PROGRAMMED vm
                  (GSW_shutdown_marker GSW_MARK_DESKTOP_PROGRAMMED a)))"

definition GSW_display_desktop_program_failed :: "bool \<Rightarrow> u32 \<Rightarrow> display_adapter \<Rightarrow> display_adapter" where
  "GSW_display_desktop_program_failed q vm a =
     (if lifecycle (gsw_display_state a) \<noteq> GSW_DISPLAY_REGISTERED then a
      else snd (GSW_display_emit_plain q GSW_DISPLAY_EVENT_DESKTOP_PROGRAM_FAILED vm a))"

text \<open>
  The two access flags come from the upstream header \<open>3d_accel.h\<close>, which is not part of
  the repository: \<open>xb\<close> and \<open>xe\<close> stand for FBHDA_ACCESS_EXCLUSIVE_BEGIN and
  FBHDA_ACCESS_EXCLUSIVE_END.
\<close>

definition GSW_display_ddraw_exclusive ::
    "bool \<Rightarrow> u32 \<Rightarrow> u32 \<Rightarrow> u32 \<Rightarrow> u32 \<Rightarrow> display_adapter \<Rightarrow> display_adapter" where
  "GSW_display_ddraw_exclusive q xb xe vm flags a =
     (let exclusive = flags AND (xb OR xe) in
      if exclusive = xb
      then snd (GSW_display_emit_plain q GSW_DISPLAY_EVENT_DDRAW_EXCLUSIVE_BEGIN vm
                  (GSW_shutdown_marker GSW_MARK_DDRAW_EXCLUSIVE_BEGIN a))
      else if exclusive = xe
      then snd (GSW_display_emit_plain q GSW_DISPLAY_EVENT_DDRAW_EXCLUSIVE_END vm
                  (GSW_shutdown_marker GSW_MARK_DDRAW_EXCLUSIVE_END a))
      else if exclusive \<noteq> 0 then GSW_shutdown_marker GSW_MARK_DISPLAY_PROTOCOL_FAULT a
      else a)"

text \<open>The three request entry points first adopt a fresh physical owner.\<close>

definition gsw_display_adopt_owner ::
    "bool \<Rightarrow> (u32 \<Rightarrow> u32) \<Rightarrow> u32 \<Rightarrow> display_adapter \<Rightarrow> display_adapter" where
  "gsw_display_adopt_owner q physical_owner vm a =
     (if lifecycle (gsw_display_state a) = GSW_DISPLAY_REGISTERED then
        (let owner = physical_owner vm in
         if vm \<noteq> 0 \<and> vm = owner
         then snd (GSW_display_emit q GSW_DISPLAY_EVENT_PHYSICAL_OWNER vm owner 0
                     GSW_DISPLAY_EVENT_PHYSICAL_OWNER_FRESH a)
         else a)
      else a)"

definition GSW_display_bios_mode_set ::
    "bool \<Rightarrow> (u32 \<Rightarrow> u32) \<Rightarrow> u32 \<Rightarrow> u16 \<Rightarrow> display_adapter \<Rightarrow> GSW_Display_Action \<times> display_adapter" where
  "GSW_display_bios_mode_set q physical_owner vm mode a =
     (let (result, a') = GSW_display_emit q GSW_DISPLAY_EVENT_BIOS_MODE_SET vm 0 mode 0
                           (gsw_display_adopt_owner q physical_owner vm a)
      in (res_action result, a'))"

definition GSW_display_vbe_mode_set ::
    "bool \<Rightarrow> (u32 \<Rightarrow> u32) \<Rightarrow> u32 \<Rightarrow> u16 \<Rightarrow> display_adapter \<Rightarrow> GSW_Display_Result \<times> display_adapter" where
  "GSW_display_vbe_mode_set q physical_owner vm mode a =
     GSW_display_emit q GSW_DISPLAY_EVENT_VBE_MODE_SET vm 0 mode 0
       (gsw_display_adopt_owner q physical_owner vm a)"

definition GSW_display_dispi_access ::
    "bool \<Rightarrow> (u32 \<Rightarrow> u32) \<Rightarrow> u32 \<Rightarrow> display_adapter \<Rightarrow> GSW_Display_Action \<times> display_adapter" where
  "GSW_display_dispi_access q physical_owner vm a =
     (let (result, a') = GSW_display_emit_plain q GSW_DISPLAY_EVENT_DISPI_ACCESS vm
                           (gsw_display_adopt_owner q physical_owner vm a)
      in (res_action result, a'))"

definition GSW_display_sync_dispi_traps :: "bool \<Rightarrow> display_adapter \<Rightarrow> display_adapter" where
  "GSW_display_sync_dispi_traps q a =
     GSW_display_apply_dispi_traps q (GSW_display_desired_trap a) True a"

section \<open>Call sequences\<close>

text \<open>Every entry point as one call, with the answer the VDD gives during that call.\<close>

datatype display_call =
    Device_ready
  | Device_registered u32
  | Driver_disabling u32
  | System_exit u32
  | Device_exit u32
  | Vdd_pre_foreground u32
  | Vdd_post_foreground u32
  | Vdd_pre_desktop u32
  | Vdd_post_desktop u32
  | Desktop_programmed u32
  | Desktop_program_failed u32
  | Ddraw_exclusive u32 u32 u32 u32
  | Bios_mode_set u32 u16
  | Vbe_mode_set u32 u16
  | Dispi_access u32
  | Sync_dispi_traps

fun display_perform :: "bool \<Rightarrow> (u32 \<Rightarrow> u32) \<times> display_call \<Rightarrow> display_adapter \<Rightarrow> display_adapter" where
  "display_perform q (_, Device_ready) a = GSW_display_device_ready q a"
| "display_perform q (_, Device_registered vm) a = GSW_display_device_registered q vm a"
| "display_perform q (_, Driver_disabling vm) a = GSW_display_driver_disabling q vm a"
| "display_perform q (_, System_exit vm) a = GSW_display_system_exit q vm a"
| "display_perform q (_, Device_exit vm) a = GSW_display_device_exit q vm a"
| "display_perform q (_, Vdd_pre_foreground vm) a = GSW_display_vdd_pre_foreground q vm a"
| "display_perform q (own, Vdd_post_foreground vm) a = GSW_display_vdd_post_foreground q own vm a"
| "display_perform q (_, Vdd_pre_desktop vm) a = GSW_display_vdd_pre_desktop q vm a"
| "display_perform q (own, Vdd_post_desktop vm) a = GSW_display_vdd_post_desktop q own vm a"
| "display_perform q (_, Desktop_programmed vm) a = GSW_display_desktop_programmed q vm a"
| "display_perform q (_, Desktop_program_failed vm) a = GSW_display_desktop_program_failed q vm a"
| "display_perform q (_, Ddraw_exclusive xb xe vm flags) a = GSW_display_ddraw_exclusive q xb xe vm flags a"
| "display_perform q (own, Bios_mode_set vm mode) a = snd (GSW_display_bios_mode_set q own vm mode a)"
| "display_perform q (own, Vbe_mode_set vm mode) a = snd (GSW_display_vbe_mode_set q own vm mode a)"
| "display_perform q (own, Dispi_access vm) a = snd (GSW_display_dispi_access q own vm a)"
| "display_perform q (_, Sync_dispi_traps) a = GSW_display_sync_dispi_traps q a"

text \<open>Whether the latest trapping call for a port enabled it.\<close>

fun port_trapped :: "vmm_call list \<Rightarrow> u32 \<Rightarrow> bool" where
  "port_trapped [] p = False"
| "port_trapped (Enable_Global_Trapping r # cs) p = (r = p \<or> port_trapped cs p)"
| "port_trapped (Disable_Global_Trapping r # cs) p = (r \<noteq> p \<and> port_trapped cs p)"

definition adapter_ok :: "bool \<Rightarrow> display_adapter \<Rightarrow> bool" where
  "adapter_ok q a \<longleftrightarrow>
     display_wf (gsw_display_state a) \<and>
     gsw_display_applied_trap a = gsw_display_trap_for (gsw_display_state a) \<and>
     (\<forall>p \<in> {0x1CE, 0x1CF}.
        port_trapped (vmm_calls a) p \<longleftrightarrow>
          q \<and> gsw_display_applied_trap a = GSW_DISPLAY_DISPI_INTERCEPT)"

text \<open>The display once the desktop of virtual machine 7 is programmed.\<close>

definition display_desktop_example :: display_adapter where
  "display_desktop_example = fold (display_perform True)
     [(\<lambda>_. 0, Device_ready), (\<lambda>_. 0, Device_registered 7), (\<lambda>_. 0, Desktop_programmed 7)]
     display_adapter_start"

section \<open>Lemmas\<close>

lemma adapter_ok_start: "adapter_ok q display_adapter_start"
  using display_wf_cold
  by (simp add: adapter_ok_def display_adapter_start_def gsw_display_trap_for_def
      gsw_display_cold_def)

lemma adapter_ok_marker [simp]: "adapter_ok q (GSW_shutdown_marker c a) \<longleftrightarrow> adapter_ok q a"
  by (simp add: adapter_ok_def GSW_shutdown_marker_def)

lemma marker_state [simp]: "gsw_display_state (GSW_shutdown_marker c a) = gsw_display_state a"
  by (simp add: GSW_shutdown_marker_def)

lemma apply_traps_state [simp, gsw_frame]:
  "gsw_display_state (GSW_display_apply_dispi_traps q policy force a) = gsw_display_state a"
  "gsw_display_applied_trap (GSW_display_apply_dispi_traps q policy force a) = policy"
  by (auto simp: GSW_display_apply_dispi_traps_def vmm_service_def Let_def)

lemma apply_traps_ports:
  assumes "\<forall>p \<in> {0x1CE, 0x1CF}. port_trapped (vmm_calls a) p \<longleftrightarrow>
             q \<and> gsw_display_applied_trap a = GSW_DISPLAY_DISPI_INTERCEPT"
  shows "\<forall>p \<in> {0x1CE, 0x1CF}. port_trapped (vmm_calls (GSW_display_apply_dispi_traps q policy force a)) p
           \<longleftrightarrow> q \<and> policy = GSW_DISPLAY_DISPI_INTERCEPT"
  using assms
  by (auto simp: GSW_display_apply_dispi_traps_def vmm_service_def Let_def)

lemma step_trap: "res_dispi_trap (gsw_display_step s e) = gsw_display_trap_for (res_next (gsw_display_step s e))"
  by (simp add: gsw_display_step_def Let_def)

lemma emit_state:
  "gsw_display_state (snd (GSW_display_emit q k vm own val fl a)) =
     gsw_display_next \<lparr>ev_kind = k, ev_vm = vm, observed_physical_owner = own, ev_value = val,
                       ev_flags = fl\<rparr> (gsw_display_state a)"
  by (simp add: GSW_display_emit_def gsw_display_next_def Let_def)

lemma emit_result:
  "fst (GSW_display_emit q k vm own val fl a) =
     gsw_display_step (gsw_display_state a)
       \<lparr>ev_kind = k, ev_vm = vm, observed_physical_owner = own, ev_value = val, ev_flags = fl\<rparr>"
  by (simp add: GSW_display_emit_def Let_def)

lemma adapter_ok_emit [gsw_inv]:
  assumes "adapter_ok q a"
  shows "adapter_ok q (snd (GSW_display_emit q k vm own val fl a))"
proof -
  let ?e = "\<lparr>ev_kind = k, ev_vm = vm, observed_physical_owner = own, ev_value = val, ev_flags = fl\<rparr>"
  let ?r = "gsw_display_step (gsw_display_state a) ?e"
  let ?a1 = "a\<lparr>gsw_display_state := res_next ?r\<rparr>"
  let ?a2 = "if res_protocol_fault ?r \<noteq> 0
             then GSW_shutdown_marker GSW_MARK_DISPLAY_PROTOCOL_FAULT ?a1 else ?a1"
  have a': "snd (GSW_display_emit q k vm own val fl a) =
      GSW_display_apply_dispi_traps q (res_dispi_trap ?r) False ?a2"
    by (simp add: GSW_display_emit_def Let_def)
  have "display_wf (res_next ?r)"
    using assms display_wf_next [of "gsw_display_state a" ?e]
    by (simp add: adapter_ok_def gsw_display_next_def)
  moreover have "\<forall>p \<in> {0x1CE, 0x1CF}. port_trapped (vmm_calls ?a2) p \<longleftrightarrow>
      q \<and> gsw_display_applied_trap ?a2 = GSW_DISPLAY_DISPI_INTERCEPT"
    using assms by (simp add: adapter_ok_def GSW_shutdown_marker_def)
  note apply_traps_ports [OF this, of "res_dispi_trap ?r" False]
  ultimately show ?thesis
    unfolding a' by (simp add: adapter_ok_def step_trap)
qed

lemma adapter_ok_emit_plain [gsw_inv]:
  "adapter_ok q a \<Longrightarrow> adapter_ok q (snd (GSW_display_emit_plain q k vm a))"
  by (simp add: GSW_display_emit_plain_def adapter_ok_emit)

lemma adapter_ok_adopt [gsw_inv]:
  "adapter_ok q a \<Longrightarrow> adapter_ok q (gsw_display_adopt_owner q own vm a)"
  by (simp add: gsw_display_adopt_owner_def Let_def adapter_ok_emit)

lemma adapter_ok_sync [gsw_inv]:
  assumes "adapter_ok q a"
  shows "adapter_ok q (GSW_display_sync_dispi_traps q a)"
proof -
  have "\<forall>p \<in> {0x1CE, 0x1CF}. port_trapped (vmm_calls a) p \<longleftrightarrow>
      q \<and> gsw_display_applied_trap a = GSW_DISPLAY_DISPI_INTERCEPT"
    using assms by (simp add: adapter_ok_def)
  note apply_traps_ports [OF this, of "GSW_display_desired_trap a" True]
  moreover have "GSW_display_desired_trap a = gsw_display_trap_for (gsw_display_state a)"
    by (simp add: GSW_display_desired_trap_def gsw_display_trap_for_def)
  ultimately show ?thesis
    using assms by (simp add: adapter_ok_def GSW_display_sync_dispi_traps_def)
qed

lemmas display_entry_defs =
  GSW_display_device_ready_def GSW_display_device_registered_def GSW_display_driver_disabling_def
  GSW_display_system_exit_def GSW_display_device_exit_def GSW_display_vdd_pre_foreground_def
  GSW_display_vdd_post_foreground_def GSW_display_vdd_pre_desktop_def
  GSW_display_vdd_post_desktop_def GSW_display_desktop_programmed_def
  GSW_display_desktop_program_failed_def GSW_display_ddraw_exclusive_def
  GSW_display_bios_mode_set_def GSW_display_vbe_mode_set_def GSW_display_dispi_access_def

lemma adapter_ok_call:
  assumes "adapter_ok q a"
  shows "adapter_ok q (display_perform q c a)"
proof (cases c)
  case (Pair own k)
  show ?thesis
    using assms unfolding Pair
    by (cases k)
      (simp_all add: display_entry_defs case_prod_beta Let_def adapter_ok_emit
        adapter_ok_emit_plain adapter_ok_adopt adapter_ok_sync)
qed

interpretation adapter: started_component "display_perform q" "adapter_ok q" display_adapter_start for q
  by unfold_locales (auto intro: adapter_ok_call adapter_ok_start)

lemma adopt_owner_foreground:
  assumes "adapter_ok q a" and "lifecycle (gsw_display_state a) = GSW_DISPLAY_REGISTERED"
    and "vm \<noteq> 0" and "own vm = vm" and "vm \<noteq> windows_vm (gsw_display_state a)"
    and "transition (gsw_display_state a) = GSW_DISPLAY_TRANSITION_NONE \<or>
         transition_vm (gsw_display_state a) = vm"
  shows "let s = gsw_display_state (gsw_display_adopt_owner q own vm a) in
           lifecycle s = GSW_DISPLAY_REGISTERED \<and> transition s = GSW_DISPLAY_TRANSITION_NONE \<and>
           authority s = GSW_DISPLAY_FOREGROUND_VGA \<and> authority_vm s = vm"
  using assms
  by (auto simp: gsw_display_adopt_owner_def emit_state gsw_display_next_def step_next
      gsw_display_switch_def gsw_display_on_physical_owner_def
      gsw_display_event_has_fresh_owner_def GSW_DISPLAY_EVENT_PHYSICAL_OWNER_FRESH_def Let_def)

lemma adopt_owner_desktop:
  assumes "transition (gsw_display_state a) = GSW_DISPLAY_TRANSITION_NONE"
    and "own vm \<noteq> vm \<or> vm = windows_vm (gsw_display_state a)"
  shows "gsw_display_state (gsw_display_adopt_owner q own vm a) = gsw_display_state a"
  using assms
  by (auto simp: gsw_display_adopt_owner_def emit_state gsw_display_next_def step_next
      gsw_display_switch_def gsw_display_on_physical_owner_def Let_def)

lemma desktop_example_ok: "adapter_ok True display_desktop_example"
  unfolding display_desktop_example_def by (rule adapter.reachable_ok)

lemma desktop_example_state:
  "gsw_display_state display_desktop_example =
     \<lparr>lifecycle = GSW_DISPLAY_REGISTERED, authority = GSW_DISPLAY_WINDOWS_DESKTOP,
      transition = GSW_DISPLAY_TRANSITION_NONE, windows_vm = 7, authority_vm = 7,
      transition_vm = 0, generation = 1\<rparr>"
  by code_simp

section \<open>Properties\<close>

text \<open>
  The DISPI port traps follow registration: after any sequence of calls into the
  adapter, with any answers from the VDD, the ports 1CEh and 1CFh are trapped exactly
  when the machine is the emulator and the display driver is registered.
\<close>

theorem display_traps_follow_registration:
  "let a = fold (display_perform q) calls display_adapter_start in
     (port_trapped (vmm_calls a) 0x1CE \<longleftrightarrow>
        q \<and> lifecycle (gsw_display_state a) = GSW_DISPLAY_REGISTERED) \<and>
     (port_trapped (vmm_calls a) 0x1CF \<longleftrightarrow>
        q \<and> lifecycle (gsw_display_state a) = GSW_DISPLAY_REGISTERED)"
  using adapter.reachable_ok [of q calls]
  by (simp add: adapter_ok_def gsw_display_trap_for_def Let_def)

text \<open>
  A virtual machine that physically owns the screen gets its mode: when the driver is
  registered, the VDD names the caller as physical owner, the caller is not the Windows
  virtual machine and no transition to another one is pending, all three request paths
  forward the request, and the caller then holds foreground authority.
\<close>

theorem display_physical_owner_served:
  assumes "adapter_ok q a" and "lifecycle (gsw_display_state a) = GSW_DISPLAY_REGISTERED"
    and "vm \<noteq> 0" and "own vm = vm" and "vm \<noteq> windows_vm (gsw_display_state a)"
    and "transition (gsw_display_state a) = GSW_DISPLAY_TRANSITION_NONE \<or>
         transition_vm (gsw_display_state a) = vm"
  shows "fst (GSW_display_bios_mode_set q own vm mode a) = GSW_DISPLAY_FORWARD \<and>
         res_action (fst (GSW_display_vbe_mode_set q own vm mode a)) = GSW_DISPLAY_FORWARD \<and>
         fst (GSW_display_dispi_access q own vm a) = GSW_DISPLAY_FORWARD \<and>
         authority_vm (gsw_display_state (snd (GSW_display_bios_mode_set q own vm mode a))) = vm"
  using adopt_owner_foreground [where own = own and vm = vm, OF assms] assms(3)
  by (simp add: GSW_display_bios_mode_set_def GSW_display_vbe_mode_set_def
      GSW_display_dispi_access_def GSW_display_emit_plain_def case_prod_beta emit_result emit_state
      gsw_display_next_def step_next step_action gsw_display_switch_def
      gsw_display_handle_request_def gsw_display_request_is_authorized_def Let_def)

theorem display_physical_owner_served_witness:
  "fst (GSW_display_bios_mode_set True (\<lambda>vm. vm) 9 3 display_desktop_example) = GSW_DISPLAY_FORWARD"
  using display_physical_owner_served
    [where own = "\<lambda>vm. vm" and vm = 9 and mode = 3, OF desktop_example_ok]
  by (simp add: desktop_example_state)

text \<open>
  C19. The Windows desktop is protected: while the driver is registered, the desktop holds the
  display and no transition is pending, a virtual machine that the VDD does not name as the
  physical owner, and Windows itself, can neither set a BIOS or VBE mode nor touch the DISPI
  ports, and none of these requests moves the state of the arbiter.
\<close>

theorem display_desktop_protected:
  assumes "adapter_ok q a" and "authority (gsw_display_state a) = GSW_DISPLAY_WINDOWS_DESKTOP"
    and "lifecycle (gsw_display_state a) = GSW_DISPLAY_REGISTERED"
    and "transition (gsw_display_state a) = GSW_DISPLAY_TRANSITION_NONE"
    and "own vm \<noteq> vm \<or> vm = windows_vm (gsw_display_state a)"
  shows "fst (GSW_display_bios_mode_set q own vm mode a) = GSW_DISPLAY_CONSUME \<and>
         res_action (fst (GSW_display_vbe_mode_set q own vm mode a)) = GSW_DISPLAY_REJECT_VBE \<and>
         res_vbe_ax (fst (GSW_display_vbe_mode_set q own vm mode a)) = 0x034F \<and>
         fst (GSW_display_dispi_access q own vm a) = GSW_DISPLAY_CONSUME \<and>
         gsw_display_state (snd (GSW_display_bios_mode_set q own vm mode a)) = gsw_display_state a \<and>
         gsw_display_state (snd (GSW_display_vbe_mode_set q own vm mode a)) = gsw_display_state a \<and>
         gsw_display_state (snd (GSW_display_dispi_access q own vm a)) = gsw_display_state a"
  using adopt_owner_desktop [where own = own and vm = vm, OF assms(4,5)] assms(2-4)
  by (simp add: GSW_display_bios_mode_set_def GSW_display_vbe_mode_set_def
      GSW_display_dispi_access_def GSW_display_emit_plain_def case_prod_beta emit_result emit_state
      gsw_display_next_def gsw_display_step_def gsw_display_switch_def gsw_display_refuse_def
      gsw_display_handle_request_def gsw_display_request_is_authorized_def
      GSW_DISPLAY_VBE_REJECT_AX_def Let_def)

theorem display_desktop_protected_witness:
  "res_vbe_ax (fst (GSW_display_vbe_mode_set True (\<lambda>_. 0) 9 0x101 display_desktop_example)) = 0x034F"
  using display_desktop_protected
    [where own = "\<lambda>_. 0" and vm = 9 and mode = "0x101", OF desktop_example_ok]
  by (simp add: desktop_example_state)

end
