(* ===== verification/Ring_Fifo.thy ===== *)
theory Ring_Fifo
  imports Gsw_Prelude
begin

text \<open>
  Bounded first-in first-out rings. Three arrays of the program are used this way: the
  completion ring of the sound transport and the buffer and play rings of the wave
  driver, each an array of 32 entries with a read index, a write index and a count. The
  locale \<open>bounded_fifo\<close> states what a client relies on, in terms of the list of entries
  in order; the list \<open>ring_items\<close> and its lemmas are what the interpretations use.
\<close>

definition ring_items :: "'a list \<Rightarrow> nat \<Rightarrow> nat \<Rightarrow> 'a list" where
  "ring_items buf r n = map (\<lambda>i. buf ! ((r + i) mod length buf)) [0..<n]"

lemma length_ring_items [simp]: "length (ring_items buf r n) = n"
  by (simp add: ring_items_def)

lemma nth_ring_items [simp]: "i < n \<Longrightarrow> ring_items buf r n ! i = buf ! ((r + i) mod length buf)"
  by (simp add: ring_items_def)

lemma ring_index_inject:
  fixes r i j k :: nat
  assumes "i < k" "j < k" and "(r + i) mod k = (r + j) mod k"
  shows "i = j"
proof -
  have "int k dvd (int r + int i) - (int r + int j)"
    using assms(3) by (metis mod_eq_dvd_iff of_nat_add of_nat_mod)
  then have "int k dvd int i - int j" by simp
  moreover have "\<bar>int i - int j\<bar> < int k" using assms(1,2) by linarith
  ultimately have "int i - int j = 0"
    using dvd_imp_le_int [of "int i - int j" "int k"] by linarith
  then show ?thesis by simp
qed

text \<open>Storing behind the last entry appends it; advancing the read index drops the first.\<close>

lemma ring_items_push:
  assumes "n < length buf"
  shows "ring_items (buf[(r + n) mod length buf := x]) r (Suc n) = ring_items buf r n @ [x]"
proof (rule nth_equalityI)
  fix i assume i: "i < length (ring_items (buf[(r + n) mod length buf := x]) r (Suc n))"
  have pos: "(r + n) mod length buf < length buf" using assms by (intro mod_less_divisor) linarith
  show "ring_items (buf[(r + n) mod length buf := x]) r (Suc n) ! i = (ring_items buf r n @ [x]) ! i"
  proof (cases "i = n")
    case True
    with pos show ?thesis by (simp add: ring_items_def nth_append)
  next
    case False
    with i have "i < n" by simp
    moreover have "(r + i) mod length buf \<noteq> (r + n) mod length buf"
      using ring_index_inject [of i "length buf" n r] \<open>i < n\<close> assms by force
    ultimately show ?thesis by (simp add: nth_append)
  qed
qed simp

lemma ring_items_pop:
  assumes "0 < n"
  shows "ring_items buf (Suc r mod length buf) (n - 1) = tl (ring_items buf r n)"
proof (rule nth_equalityI)
  fix i assume "i < length (ring_items buf (Suc r mod length buf) (n - 1))"
  then have i: "Suc i < n" by simp
  have "(Suc r mod length buf + i) mod length buf = (r + Suc i) mod length buf"
    by (metis add_Suc_right add_Suc mod_add_left_eq)
  with i show "ring_items buf (Suc r mod length buf) (n - 1) ! i = tl (ring_items buf r n) ! i"
    by (simp add: nth_tl)
qed simp

lemma ring_items_front:
  "0 < n \<Longrightarrow> r < length buf \<Longrightarrow> hd (ring_items buf r n) = buf ! r"
  by (simp add: ring_items_def hd_map upt_conv_Cons)

section \<open>Rings of bytes\<close>

text \<open>
  The byte rings shared with a device have a power-of-two size; the slot a running index
  falls on is found by masking.
\<close>

definition ring_pow2 :: "u32 \<Rightarrow> bool" where
  "ring_pow2 v \<longleftrightarrow> (\<exists>k<32. v = 2 ^ k)"

definition ring_slot :: "u32 \<Rightarrow> u32 \<Rightarrow> nat \<Rightarrow> u32" where
  "ring_slot bytes start j = (start + of_nat j) AND (bytes - 1)"

lemma slot_unat:
  assumes "ring_pow2 bytes"
  shows "unat (ring_slot bytes start j) = (unat start + j) mod unat bytes"
proof -
  from assms obtain k where k: "k < 32" "bytes = 2 ^ k" by (auto simp: ring_pow2_def)
  then have u: "unat bytes = 2 ^ k" by (simp add: unat_exp)
  have dvd: "(2::nat) ^ k dvd 2 ^ 32" using k(1) by (intro le_imp_power_dvd) simp
  have "unat (ring_slot bytes start j) = unat (start + of_nat j) mod 2 ^ k"
    by (simp only: ring_slot_def k(2) unat_and_mask)
  also have "unat (start + of_nat j) = (unat start + j) mod 2 ^ 32"
    by (simp add: unat_word_ariths unat_of_nat mod_simps)
  also have "(unat start + j) mod 2 ^ 32 mod 2 ^ k = (unat start + j) mod 2 ^ k"
    using dvd by (rule mod_mod_cancel)
  finally show ?thesis by (simp add: u)
qed

lemma slot_inject:
  assumes "ring_pow2 bytes" "i < unat bytes" "j < unat bytes"
  shows "ring_slot bytes start i = ring_slot bytes start j \<longleftrightarrow> i = j"
  using ring_index_inject [OF assms(2,3), of "unat start"]
  by (metis slot_unat assms(1))

lemma slot_shift: "ring_slot bytes (start + 1) j = ring_slot bytes start (Suc j)"
  by (simp add: ring_slot_def add_ac)

lemma slot_mod:
  assumes "ring_pow2 bytes"
  shows "unat (ring_slot bytes start j) < unat bytes"
proof -
  have "0 < unat bytes" using assms by (auto simp: ring_pow2_def unat_exp)
  then show ?thesis by (simp add: slot_unat [OF assms])
qed

text \<open>The \<open>n\<close> bytes of a ring from a start slot on.\<close>

definition ring_unread :: "(u32 \<Rightarrow> u8) \<Rightarrow> u32 \<Rightarrow> u32 \<Rightarrow> nat \<Rightarrow> u8 list" where
  "ring_unread rm bytes head n = map (\<lambda>j. rm (ring_slot bytes head j)) [0..<n]"

lemma ring_unread_add:
  "ring_unread rm bytes head (u + a) =
   ring_unread rm bytes head u @ map (\<lambda>j. rm (ring_slot bytes head (u + j))) [0..<a]"
  by (rule nth_equalityI) (auto simp add: ring_unread_def nth_append)

lemma ring_unread_cong:
  "(\<And>j. j < n \<Longrightarrow> rm (ring_slot bytes head j) = rm' (ring_slot bytes head j)) \<Longrightarrow>
   ring_unread rm bytes head n = ring_unread rm' bytes head n"
  by (simp add: ring_unread_def)

text \<open>
  Writing a command into a byte ring: the bytes land on the slots from the given offset on and
  nothing else changes. Two writers of the program keep this contract; by it they agree.
\<close>

locale ring_writer =
  fixes copy :: "u32 \<Rightarrow> u8 list \<Rightarrow> u32 \<Rightarrow> (u32 \<Rightarrow> u8) \<Rightarrow> (u32 \<Rightarrow> u8)"
    and size :: u32
  assumes size_pow2: "ring_pow2 size"
    and copy_in: "unat offset < unat size \<Longrightarrow> unat len \<le> unat size \<Longrightarrow> unat len \<le> length src \<Longrightarrow>
      i < unat len \<Longrightarrow> copy offset src len rm (ring_slot size offset i) = src ! i"
    and copy_out: "unat offset < unat size \<Longrightarrow> unat len \<le> unat size \<Longrightarrow> unat len \<le> length src \<Longrightarrow>
      \<forall>i<unat len. x \<noteq> ring_slot size offset i \<Longrightarrow> copy offset src len rm x = rm x"
begin

lemma copy_read_back:
  assumes "unat offset < unat size" "unat len \<le> unat size" "unat len \<le> length src"
  shows "ring_unread (copy offset src len rm) size offset (unat len) = take (unat len) src"
  using assms by (intro nth_equalityI) (simp_all add: ring_unread_def copy_in)

lemma copy_beyond:
  assumes "unat offset < unat size" "unat len \<le> unat size" "unat len \<le> length src" "size \<le> x"
  shows "copy offset src len rm x = rm x"
proof (rule copy_out [OF assms(1-3)], intro allI impI)
  fix i show "x \<noteq> ring_slot size offset i"
    using slot_mod [OF size_pow2, of offset i] assms(4) by (auto simp: word_le_nat_alt)
qed

lemma copy_determined:
  assumes "unat offset < unat size" "unat len \<le> unat size" "unat len \<le> length src"
    and "\<forall>i<unat len. rm' (ring_slot size offset i) = src ! i"
    and "\<forall>x. (\<forall>i<unat len. x \<noteq> ring_slot size offset i) \<longrightarrow> rm' x = rm x"
  shows "copy offset src len rm = rm'"
proof
  fix x show "copy offset src len rm x = rm' x"
  proof (cases "\<exists>i<unat len. x = ring_slot size offset i")
    case True
    with assms copy_in [OF assms(1-3)] show ?thesis by auto
  next
    case False
    with assms copy_out [OF assms(1-3)] show ?thesis by auto
  qed
qed

end

section \<open>The interface\<close>

locale bounded_fifo =
  fixes push :: "'a \<Rightarrow> 'q \<Rightarrow> 'q"
    and pop :: "'q \<Rightarrow> 'q"
    and front :: "'q \<Rightarrow> 'a"
    and items :: "'q \<Rightarrow> 'a list"
    and ok :: "'q \<Rightarrow> bool"
    and capacity :: nat
  assumes items_push: "ok q \<Longrightarrow> length (items q) < capacity \<Longrightarrow> items (push x q) = items q @ [x]"
    and items_pop: "ok q \<Longrightarrow> items q \<noteq> [] \<Longrightarrow> items (pop q) = tl (items q)"
    and items_front: "ok q \<Longrightarrow> items q \<noteq> [] \<Longrightarrow> front q = hd (items q)"
    and items_bound: "ok q \<Longrightarrow> length (items q) \<le> capacity"
    and ok_push: "ok q \<Longrightarrow> length (items q) < capacity \<Longrightarrow> ok (push x q)"
    and ok_pop: "ok q \<Longrightarrow> items q \<noteq> [] \<Longrightarrow> ok (pop q)"
begin

lemma items_pushes:
  "ok q \<Longrightarrow> length (items q) + length xs \<le> capacity \<Longrightarrow>
   items (fold push xs q) = items q @ xs \<and> ok (fold push xs q)"
  by (induction xs arbitrary: q) (simp_all add: items_push ok_push)

lemma items_pops:
  "ok q \<Longrightarrow> n \<le> length (items q) \<Longrightarrow>
   items ((pop ^^ n) q) = drop n (items q) \<and> ok ((pop ^^ n) q)"
proof (induction n)
  case (Suc n)
  then have IH: "items ((pop ^^ n) q) = drop n (items q)" "ok ((pop ^^ n) q)" by simp_all
  with Suc.prems have "items ((pop ^^ n) q) \<noteq> []" by simp
  with IH show ?case by (simp add: items_pop ok_pop tl_drop drop_Suc)
qed simp

text \<open>Entries leave in the order they came: after pushing \<open>xs\<close>, the entry in front once all
  earlier ones and the first \<open>i\<close> new ones are popped is \<open>xs ! i\<close>.\<close>

lemma first_in_first_out:
  assumes "ok q" "length (items q) + length xs \<le> capacity" "i < length xs"
  shows "front ((pop ^^ (length (items q) + i)) (fold push xs q)) = xs ! i"
proof -
  let ?p = "fold push xs q"
  have p: "items ?p = items q @ xs" "ok ?p" using items_pushes [OF assms(1,2)] by simp_all
  moreover have "length (items q) + i \<le> length (items ?p)" using p assms(3) by simp
  ultimately have "items ((pop ^^ (length (items q) + i)) ?p) = drop i xs"
      and "ok ((pop ^^ (length (items q) + i)) ?p)"
    using items_pops [of ?p "length (items q) + i"] by simp_all
  with assms(3) show ?thesis
    by (simp add: items_front hd_drop_conv_nth)
qed

end

end
