(* ===== verification/Sound_Transport.thy ===== *)
theory Sound_Transport
  imports Gsw_Prelude Ring_Fifo
begin

text \<open>
  The playback transport of the GSW-Sound VxD
  (\<^verbatim>\<open>drivers/win98/gsw-sound/vxd/gswsound_transport.c\<close>): binding to the PCM device,
  opening and programming a stream, copying sample data into the cyclic DMA ring,
  completion tokens, interrupts, position and gain. The device is a parameter (the
  record \<open>mmio\<close> of the prelude); every lemma holds for any device behaviour. The
  transport object is the driver's only one and every out-parameter is the address of a
  variable of the caller, so the guards against null pointers to them are constantly
  false and out-parameters are results. Data pointers and the ring and register
  addresses keep their guards. The position loop may run for ever on a device whose high
  word never settles; it and what calls it return \<open>None\<close> in that case.
\<close>

section \<open>Device registers and constants\<close>

definition GSW_PCM_RING_MIN_SIZE :: u32 where "GSW_PCM_RING_MIN_SIZE = 4096"
definition GSW_PCM_RING_MAX_SIZE :: u32 where "GSW_PCM_RING_MAX_SIZE = 256 * 1024"
definition GSW_PCM_RING_GPA_ALIGNMENT :: u32 where "GSW_PCM_RING_GPA_ALIGNMENT = 16"
definition GSW_PCM_INTERFACE_VERSION :: u32 where "GSW_PCM_INTERFACE_VERSION = 1"

definition GSW_PCM_REG_ID :: u32 where "GSW_PCM_REG_ID = 0x00"
definition GSW_PCM_REG_VERSION :: u32 where "GSW_PCM_REG_VERSION = 0x04"
definition GSW_PCM_REG_CAPABILITIES :: u32 where "GSW_PCM_REG_CAPABILITIES = 0x08"
definition GSW_PCM_REG_STATUS :: u32 where "GSW_PCM_REG_STATUS = 0x0C"
definition GSW_PCM_REG_CONTROL :: u32 where "GSW_PCM_REG_CONTROL = 0x10"
definition GSW_PCM_REG_SAMPLE_RATE :: u32 where "GSW_PCM_REG_SAMPLE_RATE = 0x14"
definition GSW_PCM_REG_FORMAT :: u32 where "GSW_PCM_REG_FORMAT = 0x18"
definition GSW_PCM_REG_RING_GPA_LOW :: u32 where "GSW_PCM_REG_RING_GPA_LOW = 0x1C"
definition GSW_PCM_REG_RING_GPA_HIGH :: u32 where "GSW_PCM_REG_RING_GPA_HIGH = 0x20"
definition GSW_PCM_REG_RING_SIZE :: u32 where "GSW_PCM_REG_RING_SIZE = 0x24"
definition GSW_PCM_REG_RING_HEAD :: u32 where "GSW_PCM_REG_RING_HEAD = 0x28"
definition GSW_PCM_REG_RING_TAIL :: u32 where "GSW_PCM_REG_RING_TAIL = 0x2C"
definition GSW_PCM_REG_PERIOD_BYTES :: u32 where "GSW_PCM_REG_PERIOD_BYTES = 0x30"
definition GSW_PCM_REG_IRQ_ENABLE :: u32 where "GSW_PCM_REG_IRQ_ENABLE = 0x34"
definition GSW_PCM_REG_IRQ_STATUS :: u32 where "GSW_PCM_REG_IRQ_STATUS = 0x38"
definition GSW_PCM_REG_POSITION_LOW :: u32 where "GSW_PCM_REG_POSITION_LOW = 0x3C"
definition GSW_PCM_REG_POSITION_HIGH :: u32 where "GSW_PCM_REG_POSITION_HIGH = 0x40"
definition GSW_PCM_REG_MASTER_GAIN :: u32 where "GSW_PCM_REG_MASTER_GAIN = 0x50"

definition GSW_PCM_ID :: u32 where "GSW_PCM_ID = 0x31575347"
definition GSW_PCM_REQUIRED_CAPS :: u32 where "GSW_PCM_REQUIRED_CAPS = 0x7F"
definition GSW_PCM_STATUS_READY :: u32 where "GSW_PCM_STATUS_READY = 1"
definition GSW_PCM_STATUS_RUNNING :: u32 where "GSW_PCM_STATUS_RUNNING = 2"
definition GSW_PCM_STATUS_BAD_CONFIG :: u32 where "GSW_PCM_STATUS_BAD_CONFIG = 4"
definition GSW_PCM_STATUS_UNDERRUN :: u32 where "GSW_PCM_STATUS_UNDERRUN = 8"
definition GSW_PCM_CONTROL_START :: u32 where "GSW_PCM_CONTROL_START = 1"
definition GSW_PCM_CONTROL_STOP :: u32 where "GSW_PCM_CONTROL_STOP = 2"
definition GSW_PCM_CONTROL_RESET :: u32 where "GSW_PCM_CONTROL_RESET = 4"
definition GSW_PCM_IRQ_PERIOD :: u32 where "GSW_PCM_IRQ_PERIOD = 1"
definition GSW_PCM_IRQ_UNDERRUN :: u32 where "GSW_PCM_IRQ_UNDERRUN = 2"
definition GSW_PCM_IRQ_INVALID :: u32 where "GSW_PCM_IRQ_INVALID = 4"
definition GSW_PCM_IRQ_MASK :: u32 where "GSW_PCM_IRQ_MASK = 7"
definition GSW_PCM_MASTER_GAIN_UNITY :: u32 where "GSW_PCM_MASTER_GAIN_UNITY = 65536"
definition GSW_SOUND_DEFAULT_PERIOD_FRAMES :: u32 where "GSW_SOUND_DEFAULT_PERIOD_FRAMES = 256"
definition GSW_SOUND_MAX_SUBMIT_BYTES :: u32 where "GSW_SOUND_MAX_SUBMIT_BYTES = 32 * 1024"
definition GSW_SOUND_COMPLETION_CAPACITY :: nat where "GSW_SOUND_COMPLETION_CAPACITY = 32"
definition GSW_SOUND_SUBMIT_END_OF_BUFFER :: u32 where "GSW_SOUND_SUBMIT_END_OF_BUFFER = 1"

definition GSW_PCM_FORMAT :: "u16 \<Rightarrow> u16 \<Rightarrow> u32" where
  "GSW_PCM_FORMAT channels bits = ucast channels OR push_bit 8 (ucast bits)"

section \<open>Data\<close>

datatype GSW_SOUND_RESULT =
    GSW_SOUND_OK
  | GSW_SOUND_UNAVAILABLE
  | GSW_SOUND_INVALID
  | GSW_SOUND_BUSY
  | GSW_SOUND_WOULD_BLOCK
  | GSW_SOUND_IO_ERROR
  | GSW_SOUND_NO_COMPLETION

record GSW_SOUND_COMPLETION =
  token :: u32
  target_position_low :: u32
  target_position_high :: u32

text \<open>
  The byte flags \<open>bound\<close>, \<open>opened\<close>, \<open>paused\<close> and \<open>interrupt_mode\<close> only ever
  hold 0 or 1 and are booleans.
\<close>

record GSW_SOUND_TRANSPORT =
  registers :: u32
  ring :: u32
  ring_physical :: u32
  ring_bytes :: u32
  ring_tail :: u32
  frame_bytes :: u32
  sample_rate :: u32
  channels :: u16
  bits_per_sample :: u16
  gain_q16 :: u32
  stream_id :: u32
  submitted_position_low :: u32
  submitted_position_high :: u32
  pending_irq_status :: u32
  period_irq_count :: u32
  underrun_irq_count :: u32
  invalid_irq_count :: u32
  completions :: "GSW_SOUND_COMPLETION list"
  completion_read :: u16
  completion_write :: u16
  completion_count :: u16
  bound :: bool
  opened :: bool
  paused :: bool
  interrupt_mode :: bool

definition completion_zero :: GSW_SOUND_COMPLETION where
  "completion_zero = \<lparr>token = 0, target_position_low = 0, target_position_high = 0\<rparr>"

definition transport_zero :: GSW_SOUND_TRANSPORT where
  "transport_zero = \<lparr>registers = 0, ring = 0, ring_physical = 0, ring_bytes = 0, ring_tail = 0,
     frame_bytes = 0, sample_rate = 0, channels = 0, bits_per_sample = 0, gain_q16 = 0,
     stream_id = 0, submitted_position_low = 0, submitted_position_high = 0,
     pending_irq_status = 0, period_irq_count = 0, underrun_irq_count = 0,
     invalid_irq_count = 0,
     completions = replicate GSW_SOUND_COMPLETION_CAPACITY completion_zero,
     completion_read = 0, completion_write = 0, completion_count = 0, bound = False,
     opened = False, paused = False, interrupt_mode = False\<rparr>"

text \<open>
  What the transport acts on: its own structure, the bytes of the DMA ring by offset, and
  the device behind the registers.
\<close>

record 'd sound_world =
  transport :: GSW_SOUND_TRANSPORT
  ring_memory :: "u32 \<Rightarrow> u8"
  device :: 'd

section \<open>Helpers\<close>

definition gsw_sound_power_of_two :: "u32 \<Rightarrow> bool" where
  "gsw_sound_power_of_two val \<longleftrightarrow> val \<noteq> 0 \<and> val AND (val - 1) = 0"

definition gsw_sound_read :: "'d mmio \<Rightarrow> u32 \<Rightarrow> 'd sound_world \<Rightarrow> u32 \<times> 'd sound_world" where
  "gsw_sound_read m offset w =
     (fst (mmio_read m offset (device w)), w\<lparr>device := snd (mmio_read m offset (device w))\<rparr>)"

definition gsw_sound_write :: "'d mmio \<Rightarrow> u32 \<Rightarrow> u32 \<Rightarrow> 'd sound_world \<Rightarrow> 'd sound_world" where
  "gsw_sound_write m offset val w = w\<lparr>device := mmio_write m offset val (device w)\<rparr>"

definition gsw_sound_zero_ring :: "'d sound_world \<Rightarrow> 'd sound_world" where
  "gsw_sound_zero_ring w =
     w\<lparr>ring_memory := (\<lambda>i. if i < ring_bytes (transport w) then 0 else ring_memory w i)\<rparr>"

definition gsw_sound_note_irq :: "u32 \<Rightarrow> GSW_SOUND_TRANSPORT \<Rightarrow> GSW_SOUND_TRANSPORT" where
  "gsw_sound_note_irq irq_status t =
     (let t = t\<lparr>pending_irq_status := pending_irq_status t OR irq_status\<rparr>;
          t = (if irq_status AND GSW_PCM_IRQ_PERIOD \<noteq> 0
               then t\<lparr>period_irq_count := period_irq_count t + 1\<rparr> else t);
          t = (if irq_status AND GSW_PCM_IRQ_UNDERRUN \<noteq> 0
               then t\<lparr>underrun_irq_count := underrun_irq_count t + 1\<rparr> else t);
          t = (if irq_status AND GSW_PCM_IRQ_INVALID \<noteq> 0
               then t\<lparr>invalid_irq_count := invalid_irq_count t + 1\<rparr> else t)
      in t)"

definition gsw_sound_service_irq :: "'d mmio \<Rightarrow> 'd sound_world \<Rightarrow> bool \<times> 'd sound_world" where
  "gsw_sound_service_irq m w =
     (if \<not> bound (transport w) then (False, w)
      else
        (let (v, w) = gsw_sound_read m GSW_PCM_REG_IRQ_STATUS w;
             irq_status = v AND GSW_PCM_IRQ_MASK
         in if irq_status = 0 then (False, w)
            else
              (let w = gsw_sound_write m GSW_PCM_REG_IRQ_STATUS irq_status w
               in (True, w\<lparr>transport := gsw_sound_note_irq irq_status (transport w)\<rparr>))))"

partial_function (option) gsw_sound_position_read ::
    "'d mmio \<Rightarrow> 'd sound_world \<Rightarrow> (u32 \<times> u32 \<times> 'd sound_world) option" where
  "gsw_sound_position_read m w =
     (let r1 = gsw_sound_read m GSW_PCM_REG_POSITION_HIGH w;
          r2 = gsw_sound_read m GSW_PCM_REG_POSITION_LOW (snd r1);
          r3 = gsw_sound_read m GSW_PCM_REG_POSITION_HIGH (snd r2)
      in if fst r1 \<noteq> fst r3 then gsw_sound_position_read m (snd r3)
         else Some (fst r2, fst r3, snd r3))"

definition gsw_sound_position_add :: "u32 \<Rightarrow> u32 \<Rightarrow> u32 \<Rightarrow> u32 \<times> u32" where
  "gsw_sound_position_add low high increment =
     (let low' = low + increment in (low', if low' < low then high + 1 else high))"

definition gsw_sound_position_before :: "u32 \<Rightarrow> u32 \<Rightarrow> u32 \<Rightarrow> u32 \<Rightarrow> bool" where
  "gsw_sound_position_before low high target_low target_high =
     (if high \<noteq> target_high then high < target_high else low < target_low)"

definition gsw_sound_rate_valid :: "u32 \<Rightarrow> bool" where
  "gsw_sound_rate_valid rate \<longleftrightarrow>
     rate = 11025 \<or> rate = 22050 \<or> rate = 44100 \<or> rate = 48000"

definition gsw_sound_stream_validate :: "GSW_SOUND_TRANSPORT \<Rightarrow> u32 \<Rightarrow> GSW_SOUND_RESULT" where
  "gsw_sound_stream_validate t sid =
     (if \<not> bound t then GSW_SOUND_UNAVAILABLE
      else if \<not> opened t \<or> sid = 0 \<or> sid \<noteq> stream_id t then GSW_SOUND_INVALID
      else GSW_SOUND_OK)"

definition gsw_sound_program_registers :: "'d mmio \<Rightarrow> 'd sound_world \<Rightarrow> 'd sound_world" where
  "gsw_sound_program_registers m w =
     (let t = transport w;
          period_bytes = frame_bytes t * GSW_SOUND_DEFAULT_PERIOD_FRAMES;
          w = gsw_sound_write m GSW_PCM_REG_CONTROL GSW_PCM_CONTROL_RESET w;
          w = gsw_sound_write m GSW_PCM_REG_SAMPLE_RATE (sample_rate t) w;
          w = gsw_sound_write m GSW_PCM_REG_FORMAT (GSW_PCM_FORMAT (channels t) (bits_per_sample t)) w;
          w = gsw_sound_write m GSW_PCM_REG_RING_GPA_LOW (ring_physical t) w;
          w = gsw_sound_write m GSW_PCM_REG_RING_GPA_HIGH 0 w;
          w = gsw_sound_write m GSW_PCM_REG_RING_SIZE (ring_bytes t) w;
          w = gsw_sound_write m GSW_PCM_REG_PERIOD_BYTES period_bytes w;
          w = gsw_sound_write m GSW_PCM_REG_RING_TAIL 0 w;
          w = gsw_sound_write m GSW_PCM_REG_MASTER_GAIN (gain_q16 t) w;
          w = gsw_sound_write m GSW_PCM_REG_IRQ_STATUS GSW_PCM_IRQ_MASK w
      in gsw_sound_write m GSW_PCM_REG_IRQ_ENABLE
           (if interrupt_mode t then GSW_PCM_IRQ_MASK else 0) w)"

definition gsw_sound_program_stream ::
    "'d mmio \<Rightarrow> 'd sound_world \<Rightarrow> GSW_SOUND_RESULT \<times> 'd sound_world" where
  "gsw_sound_program_stream m w =
     (let w = gsw_sound_program_registers m w;
          w = w\<lparr>transport := (transport w)\<lparr>ring_tail := 0, submitted_position_low := 0,
                 submitted_position_high := 0, completion_read := 0, completion_write := 0,
                 completion_count := 0, pending_irq_status := 0, paused := False\<rparr>\<rparr>;
          w = gsw_sound_zero_ring w;
          (status, w) = gsw_sound_read m GSW_PCM_REG_STATUS w
      in if status AND GSW_PCM_STATUS_READY = 0 then (GSW_SOUND_IO_ERROR, w)
         else (GSW_SOUND_OK, w))"

section \<open>Operations\<close>

definition gsw_sound_transport_bind ::
    "'d mmio \<Rightarrow> u32 \<Rightarrow> u32 \<Rightarrow> u32 \<Rightarrow> u32 \<Rightarrow> 'd sound_world \<Rightarrow> GSW_SOUND_RESULT \<times> 'd sound_world" where
  "gsw_sound_transport_bind m regs ring_addr ring_phys bytes w =
     (if regs = 0 \<or> ring_addr = 0 \<or> bytes < GSW_PCM_RING_MIN_SIZE \<or>
         bytes > GSW_PCM_RING_MAX_SIZE \<or> \<not> gsw_sound_power_of_two bytes \<or>
         ring_phys AND (GSW_PCM_RING_GPA_ALIGNMENT - 1) \<noteq> 0
      then (GSW_SOUND_INVALID, w)
      else
        (let w = w\<lparr>transport := transport_zero\<lparr>registers := regs, ring := ring_addr,
                   ring_physical := ring_phys, ring_bytes := bytes,
                   gain_q16 := GSW_PCM_MASTER_GAIN_UNITY\<rparr>\<rparr>;
             (sid, w) = gsw_sound_read m GSW_PCM_REG_ID w
         in if sid \<noteq> GSW_PCM_ID then (GSW_SOUND_UNAVAILABLE, w)
            else
              (let (version, w) = gsw_sound_read m GSW_PCM_REG_VERSION w
               in if version \<noteq> GSW_PCM_INTERFACE_VERSION then (GSW_SOUND_UNAVAILABLE, w)
                  else
                    (let (capabilities, w) = gsw_sound_read m GSW_PCM_REG_CAPABILITIES w
                     in if capabilities AND GSW_PCM_REQUIRED_CAPS \<noteq> GSW_PCM_REQUIRED_CAPS
                        then (GSW_SOUND_UNAVAILABLE, w)
                        else
                          (let (status, w) = gsw_sound_read m GSW_PCM_REG_STATUS w
                           in if status AND GSW_PCM_STATUS_READY = 0
                              then (GSW_SOUND_UNAVAILABLE, w)
                              else (GSW_SOUND_OK,
                                    gsw_sound_write m GSW_PCM_REG_CONTROL GSW_PCM_CONTROL_RESET
                                      (w\<lparr>transport := (transport w)\<lparr>bound := True\<rparr>\<rparr>)))))))"

definition gsw_sound_transport_unbind :: "'d mmio \<Rightarrow> 'd sound_world \<Rightarrow> 'd sound_world" where
  "gsw_sound_transport_unbind m w =
     (let w = (if bound (transport w) then
                 gsw_sound_write m GSW_PCM_REG_CONTROL GSW_PCM_CONTROL_RESET
                   (gsw_sound_write m GSW_PCM_REG_IRQ_STATUS GSW_PCM_IRQ_MASK
                     (gsw_sound_write m GSW_PCM_REG_IRQ_ENABLE 0 w))
               else w)
      in w\<lparr>transport := transport_zero\<rparr>)"

definition gsw_sound_transport_set_interrupt_mode ::
    "'d mmio \<Rightarrow> bool \<Rightarrow> 'd sound_world \<Rightarrow> GSW_SOUND_RESULT \<times> 'd sound_world" where
  "gsw_sound_transport_set_interrupt_mode m enabled w =
     (if \<not> bound (transport w) \<or> opened (transport w) then (GSW_SOUND_INVALID, w)
      else
        (let w = w\<lparr>transport := (transport w)\<lparr>interrupt_mode := enabled\<rparr>\<rparr>;
             w = gsw_sound_write m GSW_PCM_REG_IRQ_ENABLE 0 w;
             w = gsw_sound_write m GSW_PCM_REG_IRQ_STATUS GSW_PCM_IRQ_MASK w
         in (GSW_SOUND_OK, w\<lparr>transport := (transport w)\<lparr>pending_irq_status := 0\<rparr>\<rparr>)))"

definition gsw_sound_transport_handle_interrupt ::
    "'d mmio \<Rightarrow> 'd sound_world \<Rightarrow> bool \<times> 'd sound_world" where
  "gsw_sound_transport_handle_interrupt m w =
     (if \<not> interrupt_mode (transport w) then (False, w) else gsw_sound_service_irq m w)"

definition gsw_sound_next_stream :: "u32 \<Rightarrow> u32" where
  "gsw_sound_next_stream sid = (if sid + 1 = 0 then 1 else sid + 1)"

definition gsw_sound_transport_open ::
    "'d mmio \<Rightarrow> u32 \<Rightarrow> u16 \<Rightarrow> u16 \<Rightarrow> 'd sound_world \<Rightarrow>
     GSW_SOUND_RESULT \<times> u32 option \<times> 'd sound_world" where
  "gsw_sound_transport_open m rate chans bits w =
     (let t = transport w in
      if \<not> bound t then (GSW_SOUND_UNAVAILABLE, None, w)
      else if opened t then (GSW_SOUND_BUSY, None, w)
      else if \<not> gsw_sound_rate_valid rate \<or> (chans \<noteq> 1 \<and> chans \<noteq> 2) \<or> (bits \<noteq> 8 \<and> bits \<noteq> 16)
      then (GSW_SOUND_INVALID, None, w)
      else
        (let t = t\<lparr>sample_rate := rate, channels := chans, bits_per_sample := bits,
                   frame_bytes := ucast chans * ucast (drop_bit 3 bits),
                   stream_id := gsw_sound_next_stream (stream_id t)\<rparr>;
             (result, w) = gsw_sound_program_stream m (w\<lparr>transport := t\<rparr>)
         in if result \<noteq> GSW_SOUND_OK then (result, None, w)
            else (GSW_SOUND_OK, Some (stream_id (transport w)),
                  w\<lparr>transport := (transport w)\<lparr>opened := True\<rparr>\<rparr>)))"

definition gsw_sound_transport_close ::
    "'d mmio \<Rightarrow> u32 \<Rightarrow> 'd sound_world \<Rightarrow> GSW_SOUND_RESULT \<times> 'd sound_world" where
  "gsw_sound_transport_close m sid w =
     (let result = gsw_sound_stream_validate (transport w) sid in
      if result \<noteq> GSW_SOUND_OK then (result, w)
      else
        (let w = gsw_sound_write m GSW_PCM_REG_IRQ_ENABLE 0 w;
             w = gsw_sound_write m GSW_PCM_REG_IRQ_STATUS GSW_PCM_IRQ_MASK w;
             w = gsw_sound_write m GSW_PCM_REG_CONTROL GSW_PCM_CONTROL_RESET w
         in (GSW_SOUND_OK,
             w\<lparr>transport := (transport w)\<lparr>opened := False, paused := False,
                                          completion_count := 0\<rparr>\<rparr>)))"

text \<open>The copy loop: \<open>n\<close> iterations are left, \<open>index\<close> counts the done ones.\<close>

fun gsw_sound_copy :: "u32 \<Rightarrow> u32 \<Rightarrow> (u32 \<Rightarrow> u8) \<Rightarrow> u32 \<Rightarrow> u32 \<Rightarrow> nat \<Rightarrow> (u32 \<Rightarrow> u8) \<Rightarrow> (u32 \<Rightarrow> u8)" where
  "gsw_sound_copy tail bytes memory data index 0 rm = rm"
| "gsw_sound_copy tail bytes memory data index (Suc n) rm =
     gsw_sound_copy tail bytes memory data (index + 1) n
       (rm((tail + index) AND (bytes - 1) := memory (data + index)))"

definition gsw_sound_push_completion :: "GSW_SOUND_COMPLETION \<Rightarrow> GSW_SOUND_TRANSPORT \<Rightarrow> GSW_SOUND_TRANSPORT" where
  "gsw_sound_push_completion c t =
     t\<lparr>completions := (completions t)[unat (completion_write t) := c],
       completion_write := (completion_write t + 1) mod 32,
       completion_count := completion_count t + 1\<rparr>"

definition gsw_sound_front_completion :: "GSW_SOUND_TRANSPORT \<Rightarrow> GSW_SOUND_COMPLETION" where
  "gsw_sound_front_completion t = completions t ! unat (completion_read t)"

definition gsw_sound_pop_completion :: "GSW_SOUND_TRANSPORT \<Rightarrow> GSW_SOUND_TRANSPORT" where
  "gsw_sound_pop_completion t =
     t\<lparr>completion_read := (completion_read t + 1) mod 32,
       completion_count := completion_count t - 1\<rparr>"

definition gsw_sound_submit_invalid :: "GSW_SOUND_TRANSPORT \<Rightarrow> u32 \<Rightarrow> u32 \<Rightarrow> u32 \<Rightarrow> u32 \<Rightarrow> bool" where
  "gsw_sound_submit_invalid t data bytes flags tok \<longleftrightarrow>
     paused t \<or> data = 0 \<or> bytes = 0 \<or> bytes > GSW_SOUND_MAX_SUBMIT_BYTES \<or>
     bytes mod frame_bytes t \<noteq> 0 \<or> flags AND NOT GSW_SOUND_SUBMIT_END_OF_BUFFER \<noteq> 0 \<or>
     (flags AND GSW_SOUND_SUBMIT_END_OF_BUFFER \<noteq> 0 \<and> tok = 0)"

definition gsw_sound_used :: "GSW_SOUND_TRANSPORT \<Rightarrow> u32 \<Rightarrow> u32" where
  "gsw_sound_used t head =
     (if ring_tail t \<ge> head then ring_tail t - head else ring_bytes t - head + ring_tail t)"

definition gsw_sound_accept :: "GSW_SOUND_TRANSPORT \<Rightarrow> u32 \<Rightarrow> u32 \<Rightarrow> u32" where
  "gsw_sound_accept t head bytes =
     (let free_bytes = ring_bytes t - gsw_sound_used t head - frame_bytes t;
          accepted = (if bytes < free_bytes then bytes else free_bytes)
      in accepted - accepted mod frame_bytes t)"

definition gsw_sound_store ::
    "(u32 \<Rightarrow> u8) \<Rightarrow> u32 \<Rightarrow> u32 \<Rightarrow> 'd sound_world \<Rightarrow> 'd sound_world" where
  "gsw_sound_store memory data accepted w =
     (let t = transport w;
          tail = (ring_tail t + accepted) AND (ring_bytes t - 1);
          pos = gsw_sound_position_add (submitted_position_low t) (submitted_position_high t) accepted
      in w\<lparr>ring_memory := gsw_sound_copy (ring_tail t) (ring_bytes t) memory data 0 (unat accepted)
                            (ring_memory w),
           transport := t\<lparr>ring_tail := tail, submitted_position_low := fst pos,
                          submitted_position_high := snd pos\<rparr>\<rparr>)"

definition gsw_sound_publish ::
    "'d mmio \<Rightarrow> u32 \<Rightarrow> u32 \<Rightarrow> u32 \<Rightarrow> u32 \<Rightarrow> 'd sound_world \<Rightarrow> 'd sound_world" where
  "gsw_sound_publish m bytes flags tok accepted w =
     (let w = gsw_sound_write m GSW_PCM_REG_RING_TAIL (ring_tail (transport w)) w;
          (status, w) = gsw_sound_read m GSW_PCM_REG_STATUS w;
          w = (if status AND GSW_PCM_STATUS_UNDERRUN \<noteq> 0
               then gsw_sound_write m GSW_PCM_REG_STATUS GSW_PCM_STATUS_UNDERRUN w else w);
          w = (if flags AND GSW_SOUND_SUBMIT_END_OF_BUFFER \<noteq> 0 \<and> accepted = bytes
               then w\<lparr>transport := gsw_sound_push_completion
                        \<lparr>token = tok,
                         target_position_low = submitted_position_low (transport w),
                         target_position_high = submitted_position_high (transport w)\<rparr>
                        (transport w)\<rparr>
               else w);
          (status, w) = gsw_sound_read m GSW_PCM_REG_STATUS w
      in if status AND GSW_PCM_STATUS_RUNNING = 0
         then gsw_sound_write m GSW_PCM_REG_CONTROL GSW_PCM_CONTROL_START w else w)"

text \<open>The second component of the result is what \<open>*accepted_bytes\<close> holds on return.\<close>

definition gsw_sound_transport_submit ::
    "'d mmio \<Rightarrow> (u32 \<Rightarrow> u8) \<Rightarrow> u32 \<Rightarrow> u32 \<Rightarrow> u32 \<Rightarrow> u32 \<Rightarrow> u32 \<Rightarrow> 'd sound_world \<Rightarrow>
     GSW_SOUND_RESULT \<times> u32 \<times> 'd sound_world" where
  "gsw_sound_transport_submit m memory sid data bytes flags tok w =
     (let t = transport w; result = gsw_sound_stream_validate t sid in
      if result \<noteq> GSW_SOUND_OK then (result, 0, w)
      else if gsw_sound_submit_invalid t data bytes flags tok then (GSW_SOUND_INVALID, 0, w)
      else if flags AND GSW_SOUND_SUBMIT_END_OF_BUFFER \<noteq> 0 \<and>
              unat (completion_count t) = GSW_SOUND_COMPLETION_CAPACITY
      then (GSW_SOUND_WOULD_BLOCK, 0, w)
      else
        (let (head, w) = gsw_sound_read m GSW_PCM_REG_RING_HEAD w in
         if head \<ge> ring_bytes t \<or> head mod frame_bytes t \<noteq> 0 then (GSW_SOUND_IO_ERROR, 0, w)
         else
           (let accepted = gsw_sound_accept t head bytes in
            if accepted = 0 then (GSW_SOUND_WOULD_BLOCK, 0, w)
            else (GSW_SOUND_OK, accepted,
                  gsw_sound_publish m bytes flags tok accepted
                    (gsw_sound_store memory data accepted w)))))"

definition gsw_sound_transport_poll ::
    "'d mmio \<Rightarrow> u32 \<Rightarrow> 'd sound_world \<Rightarrow> (GSW_SOUND_RESULT \<times> u32 \<times> 'd sound_world) option" where
  "gsw_sound_transport_poll m sid w =
     (let result = gsw_sound_stream_validate (transport w) sid in
      if result \<noteq> GSW_SOUND_OK then Some (result, 0, w)
      else
        (let w = (if interrupt_mode (transport w) then w else snd (gsw_sound_service_irq m w));
             irq_status = pending_irq_status (transport w);
             (status, w) = gsw_sound_read m GSW_PCM_REG_STATUS w
         in if status AND GSW_PCM_STATUS_BAD_CONFIG \<noteq> 0 \<or> irq_status AND GSW_PCM_IRQ_INVALID \<noteq> 0
            then Some (GSW_SOUND_IO_ERROR, 0, w)
            else if completion_count (transport w) = 0 then Some (GSW_SOUND_NO_COMPLETION, 0, w)
            else
              (case gsw_sound_position_read m w of
                 None \<Rightarrow> None
               | Some (low, high, w) \<Rightarrow>
                   (let completion = gsw_sound_front_completion (transport w) in
                    if gsw_sound_position_before low high
                         (target_position_low completion) (target_position_high completion)
                    then Some (GSW_SOUND_NO_COMPLETION, 0, w)
                    else Some (GSW_SOUND_OK, token completion,
                               w\<lparr>transport := gsw_sound_pop_completion (transport w)\<rparr>)))))"

definition gsw_sound_transport_pause ::
    "'d mmio \<Rightarrow> u32 \<Rightarrow> 'd sound_world \<Rightarrow> GSW_SOUND_RESULT \<times> 'd sound_world" where
  "gsw_sound_transport_pause m sid w =
     (let result = gsw_sound_stream_validate (transport w) sid in
      if result \<noteq> GSW_SOUND_OK then (result, w)
      else
        (let w = (if \<not> paused (transport w)
                  then gsw_sound_write m GSW_PCM_REG_CONTROL GSW_PCM_CONTROL_STOP w else w)
         in (GSW_SOUND_OK, w\<lparr>transport := (transport w)\<lparr>paused := True\<rparr>\<rparr>)))"

definition gsw_sound_transport_restart ::
    "'d mmio \<Rightarrow> u32 \<Rightarrow> 'd sound_world \<Rightarrow> GSW_SOUND_RESULT \<times> 'd sound_world" where
  "gsw_sound_transport_restart m sid w =
     (let result = gsw_sound_stream_validate (transport w) sid in
      if result \<noteq> GSW_SOUND_OK then (result, w)
      else
        (let w = (if paused (transport w)
                  then gsw_sound_write m GSW_PCM_REG_CONTROL GSW_PCM_CONTROL_START w else w)
         in (GSW_SOUND_OK, w\<lparr>transport := (transport w)\<lparr>paused := False\<rparr>\<rparr>)))"

definition gsw_sound_transport_reset ::
    "'d mmio \<Rightarrow> u32 \<Rightarrow> 'd sound_world \<Rightarrow> GSW_SOUND_RESULT \<times> 'd sound_world" where
  "gsw_sound_transport_reset m sid w =
     (let result = gsw_sound_stream_validate (transport w) sid in
      if result \<noteq> GSW_SOUND_OK then (result, w) else gsw_sound_program_stream m w)"

definition gsw_sound_transport_position ::
    "'d mmio \<Rightarrow> u32 \<Rightarrow> 'd sound_world \<Rightarrow>
     (GSW_SOUND_RESULT \<times> (u32 \<times> u32) option \<times> 'd sound_world) option" where
  "gsw_sound_transport_position m sid w =
     (let result = gsw_sound_stream_validate (transport w) sid in
      if result \<noteq> GSW_SOUND_OK then Some (result, None, w)
      else
        (case gsw_sound_position_read m w of
           None \<Rightarrow> None
         | Some (low, high, w) \<Rightarrow> Some (GSW_SOUND_OK, Some (low, high), w)))"

definition gsw_sound_transport_get_gain ::
    "'d sound_world \<Rightarrow> GSW_SOUND_RESULT \<times> u32 option" where
  "gsw_sound_transport_get_gain w =
     (if \<not> bound (transport w) then (GSW_SOUND_UNAVAILABLE, None)
      else (GSW_SOUND_OK, Some (gain_q16 (transport w))))"

definition gsw_sound_transport_set_gain ::
    "'d mmio \<Rightarrow> u32 \<Rightarrow> 'd sound_world \<Rightarrow> GSW_SOUND_RESULT \<times> 'd sound_world" where
  "gsw_sound_transport_set_gain m gain w =
     (if \<not> bound (transport w) then (GSW_SOUND_UNAVAILABLE, w)
      else if gain > GSW_PCM_MASTER_GAIN_UNITY then (GSW_SOUND_INVALID, w)
      else (GSW_SOUND_OK,
            gsw_sound_write m GSW_PCM_REG_MASTER_GAIN gain
              (w\<lparr>transport := (transport w)\<lparr>gain_q16 := gain\<rparr>\<rparr>)))"

section \<open>The ring size\<close>

lemma power_of_two_word:
  assumes "gsw_sound_power_of_two v"
  shows "\<exists>k. unat v = 2 ^ k"
proof -
  from assms have nz: "v \<noteq> 0" and a: "v AND (v - 1) = 0"
    by (simp_all add: gsw_sound_power_of_two_def)
  have "unat (v - 1) = unat v - 1"
    using nz by (metis unat_minus_one)
  with a have "unat v AND (unat v - 1) = 0"
    by (metis unsigned_and_eq unsigned_0)
  moreover have "unat v \<noteq> 0" using nz by (simp add: unat_eq_0)
  ultimately show ?thesis by (rule power_of_two_nat [rotated])
qed

definition ring_size_ok :: "u32 \<Rightarrow> bool" where
  "ring_size_ok v \<longleftrightarrow> GSW_PCM_RING_MIN_SIZE \<le> v \<and> v \<le> GSW_PCM_RING_MAX_SIZE \<and> gsw_sound_power_of_two v"

lemma ring_size_exp:
  assumes "ring_size_ok v"
  obtains k where "12 \<le> k" "k \<le> 18" "v = 2 ^ k" "unat v = 2 ^ k"
proof -
  from assms have lo: "4096 \<le> unat v" and hi: "unat v \<le> 262144"
    by (simp_all add: ring_size_ok_def GSW_PCM_RING_MIN_SIZE_def GSW_PCM_RING_MAX_SIZE_def word_le_nat_alt)
  from assms obtain k where k: "unat v = 2 ^ k"
    unfolding ring_size_ok_def by (auto dest: power_of_two_word)
  have "(2::nat) ^ 12 \<le> 2 ^ k" using lo k by simp
  then have "12 \<le> k" by (simp only: power_increasing_iff one_less_numeral_iff semiring_norm)
  have "(2::nat) ^ k \<le> 2 ^ 18" using hi k by simp
  then have "k \<le> 18" by (simp only: power_increasing_iff one_less_numeral_iff semiring_norm)
  moreover have "v = 2 ^ k" 
    using arg_cong [OF k, of "of_nat :: nat \<Rightarrow> u32"] by simp
  ultimately show thesis using that k \<open>12 \<le> k\<close> by blast
qed

lemma ring_size_pow2:
  assumes "ring_size_ok v"
  shows "ring_pow2 v"
proof -
  obtain k where "k \<le> 18" "v = 2 ^ k" using assms by (rule ring_size_exp)
  then show ?thesis unfolding ring_pow2_def by (intro exI [of _ k]) simp
qed

lemmas unat_ring_slot = slot_unat [OF ring_size_pow2]
  and ring_slot_inject = slot_inject [OF ring_size_pow2]

section \<open>The copy loop\<close>

lemma copy_other:
  "(\<forall>j<n. x \<noteq> ring_slot bytes (tail + index) j) \<Longrightarrow>
   gsw_sound_copy tail bytes memory data index n rm x = rm x"
proof (induction n arbitrary: index rm)
  case (Suc n)
  have "x \<noteq> ring_slot bytes (tail + (index + 1)) j" if "j < n" for j
    using Suc.prems [rule_format, of "Suc j"] that by (simp add: ring_slot_def add_ac)
  moreover have "x \<noteq> (tail + index) AND (bytes - 1)"
    using Suc.prems [rule_format, of 0] by (simp add: ring_slot_def)
  ultimately show ?case by (simp add: Suc.IH)
qed simp

lemma copy_written:
  assumes "ring_size_ok bytes"
  shows "j < n \<Longrightarrow> n \<le> unat bytes \<Longrightarrow>
    gsw_sound_copy tail bytes memory data index n rm (ring_slot bytes (tail + index) j)
    = memory (data + index + of_nat j)"
proof (induction n arbitrary: index j rm)
  case (Suc n)
  show ?case
  proof (cases j)
    case 0
    have "ring_slot bytes (tail + index) 0 \<noteq> ring_slot bytes (tail + (index + 1)) i" if "i < n" for i
    proof -
      have "ring_slot bytes (tail + (index + 1)) i = ring_slot bytes (tail + index) (Suc i)"
        by (simp add: ring_slot_def add_ac)
      with that Suc.prems show ?thesis by (simp add: ring_slot_inject [OF assms])
    qed
    then show ?thesis by (simp add: 0 copy_other) (simp add: ring_slot_def)
  next
    case (Suc i)
    have "ring_slot bytes (tail + index) j = ring_slot bytes (tail + (index + 1)) i"
      by (simp add: Suc ring_slot_def add_ac)
    with Suc.IH [of i "index + 1"] Suc.prems \<open>j = Suc i\<close> show ?thesis by (simp add: add_ac)
  qed
qed simp

section \<open>The invariant\<close>

text \<open>
  What holds between any two calls, whatever the device answers. A stream is open only on
  a bound device, its frame size is the one of its format, and its tail is a frame boundary
  inside the ring; the completion ring is consistent.
\<close>

definition completions_ok :: "GSW_SOUND_TRANSPORT \<Rightarrow> bool" where
  "completions_ok t \<longleftrightarrow> length (completions t) = 32 \<and> completion_read t < 32 \<and>
     completion_count t \<le> 32 \<and>
     unat (completion_write t) = (unat (completion_read t) + unat (completion_count t)) mod 32"

definition stream_ok :: "GSW_SOUND_TRANSPORT \<Rightarrow> bool" where
  "stream_ok t \<longleftrightarrow> bound t \<and> stream_id t \<noteq> 0 \<and> gsw_sound_rate_valid (sample_rate t) \<and>
     frame_bytes t \<in> {1, 2, 4} \<and> ring_tail t < ring_bytes t \<and>
     unat (ring_tail t) mod unat (frame_bytes t) = 0 \<and> completions_ok t"

definition sound_ok :: "GSW_SOUND_TRANSPORT \<Rightarrow> bool" where
  "sound_ok t \<longleftrightarrow>
     (bound t \<longrightarrow> ring_size_ok (ring_bytes t) \<and> ring_physical t AND 15 = 0 \<and> gain_q16 t \<le> 65536) \<and>
     (opened t \<longrightarrow> stream_ok t) \<and> (paused t \<longrightarrow> opened t) \<and> (interrupt_mode t \<longrightarrow> bound t) \<and>
     length (completions t) = 32"

lemma sound_read_frame [simp, gsw_frame]:
  "transport (snd (gsw_sound_read m r w)) = transport w"
  "ring_memory (snd (gsw_sound_read m r w)) = ring_memory w"
  by (simp_all add: gsw_sound_read_def)

lemma sound_write_frame [simp, gsw_frame]:
  "transport (gsw_sound_write m r v w) = transport w"
  "ring_memory (gsw_sound_write m r v w) = ring_memory w"
  by (simp_all add: gsw_sound_write_def)

lemma program_registers_frame [simp, gsw_frame]:
  "transport (gsw_sound_program_registers m w) = transport w"
  "ring_memory (gsw_sound_program_registers m w) = ring_memory w"
  by (simp_all add: gsw_sound_program_registers_def Let_def)

lemma zero_ring_frame [simp, gsw_frame]:
  "transport (gsw_sound_zero_ring w) = transport w"
  by (simp add: gsw_sound_zero_ring_def)

lemma program_stream_transport [simp]:
  "transport (snd (gsw_sound_program_stream m w)) =
     (transport w)\<lparr>ring_tail := 0, submitted_position_low := 0, submitted_position_high := 0,
        completion_read := 0, completion_write := 0, completion_count := 0,
        pending_irq_status := 0, paused := False\<rparr>"
  by (simp add: gsw_sound_program_stream_def Let_def split_beta)

lemma note_irq_frame [simp, gsw_frame]:
  "gsw_sound_note_irq s t = t\<lparr>pending_irq_status := pending_irq_status t OR s,
     period_irq_count := period_irq_count t + of_bool (s AND GSW_PCM_IRQ_PERIOD \<noteq> 0),
     underrun_irq_count := underrun_irq_count t + of_bool (s AND GSW_PCM_IRQ_UNDERRUN \<noteq> 0),
     invalid_irq_count := invalid_irq_count t + of_bool (s AND GSW_PCM_IRQ_INVALID \<noteq> 0)\<rparr>"
  by (simp add: gsw_sound_note_irq_def Let_def)

lemma sound_ok_note_irq [gsw_inv]: "sound_ok t \<Longrightarrow> sound_ok (gsw_sound_note_irq s t)"
  by (simp add: sound_ok_def stream_ok_def completions_ok_def)

lemma service_irq_ok [gsw_inv]:
  "sound_ok (transport w) \<Longrightarrow> sound_ok (transport (snd (gsw_sound_service_irq m w)))"
  by (simp add: gsw_sound_service_irq_def Let_def split_beta sound_ok_note_irq del: note_irq_frame)

lemma service_irq_stream [simp, gsw_frame]:
  "stream_id (transport (snd (gsw_sound_service_irq m w))) = stream_id (transport w)"
  "opened (transport (snd (gsw_sound_service_irq m w))) = opened (transport w)"
  "bound (transport (snd (gsw_sound_service_irq m w))) = bound (transport w)"
  "completions (transport (snd (gsw_sound_service_irq m w))) = completions (transport w)"
  "completion_read (transport (snd (gsw_sound_service_irq m w))) = completion_read (transport w)"
  "completion_count (transport (snd (gsw_sound_service_irq m w))) = completion_count (transport w)"
  "completion_write (transport (snd (gsw_sound_service_irq m w))) = completion_write (transport w)"
  by (simp_all add: gsw_sound_service_irq_def Let_def split_beta)

lemma sound_ok_zero [simp]: "sound_ok transport_zero"
  by (simp add: sound_ok_def transport_zero_def GSW_SOUND_COMPLETION_CAPACITY_def)

lemma bind_ok [gsw_inv]:
  "sound_ok (transport w) \<Longrightarrow> sound_ok (transport (snd (gsw_sound_transport_bind m r a p b w)))"
  by (simp add: gsw_sound_transport_bind_def Let_def split_beta)
     (simp add: sound_ok_def transport_zero_def ring_size_ok_def GSW_SOUND_COMPLETION_CAPACITY_def
       GSW_PCM_RING_GPA_ALIGNMENT_def GSW_PCM_MASTER_GAIN_UNITY_def linorder_not_less)

lemma unbind_ok [gsw_inv]: "sound_ok (transport (gsw_sound_transport_unbind m w))"
  by (simp add: gsw_sound_transport_unbind_def Let_def)

lemma set_interrupt_mode_ok [gsw_inv]:
  "sound_ok (transport w) \<Longrightarrow> sound_ok (transport (snd (gsw_sound_transport_set_interrupt_mode m e w)))"
  by (auto simp add: gsw_sound_transport_set_interrupt_mode_def Let_def sound_ok_def)

lemma handle_interrupt_ok [gsw_inv]:
  "sound_ok (transport w) \<Longrightarrow> sound_ok (transport (snd (gsw_sound_transport_handle_interrupt m w)))"
  by (simp add: gsw_sound_transport_handle_interrupt_def service_irq_ok)

lemma frame_bytes_of_format:
  "(chans :: u16) = 1 \<or> chans = 2 \<Longrightarrow> (bits :: u16) = 8 \<or> bits = 16 \<Longrightarrow>
   (ucast chans * ucast (drop_bit 3 bits) :: u32) \<in> {1, 2, 4}"
  by (elim disjE; simp add: drop_bit_eq_div)

lemma next_stream_nonzero [simp]: "gsw_sound_next_stream sid \<noteq> 0"
  by (simp add: gsw_sound_next_stream_def)

lemma ring_size_pos: "ring_size_ok v \<Longrightarrow> 0 < v"
  by (erule ring_size_exp) (simp add: word_less_nat_alt)

lemma open_ok [gsw_inv]:
  assumes "sound_ok (transport w)"
  shows "sound_ok (transport (snd (snd (gsw_sound_transport_open m rate chans bits w))))"
  using assms frame_bytes_of_format [of chans bits]
  by (simp add: gsw_sound_transport_open_def Let_def split_beta)
     (simp add: sound_ok_def stream_ok_def completions_ok_def ring_size_pos)

lemma close_ok [gsw_inv]:
  "sound_ok (transport w) \<Longrightarrow> sound_ok (transport (snd (gsw_sound_transport_close m sid w)))"
  by (simp add: gsw_sound_transport_close_def Let_def sound_ok_def)

lemma validate_ok_iff:
  "gsw_sound_stream_validate t sid = GSW_SOUND_OK \<longleftrightarrow>
     bound t \<and> opened t \<and> sid \<noteq> 0 \<and> sid = stream_id t"
  by (auto simp add: gsw_sound_stream_validate_def)

lemma pause_ok [gsw_inv]:
  "sound_ok (transport w) \<Longrightarrow> sound_ok (transport (snd (gsw_sound_transport_pause m sid w)))"
  by (simp add: gsw_sound_transport_pause_def Let_def validate_ok_iff)
     (simp add: sound_ok_def stream_ok_def completions_ok_def)

lemma restart_ok [gsw_inv]:
  "sound_ok (transport w) \<Longrightarrow> sound_ok (transport (snd (gsw_sound_transport_restart m sid w)))"
  by (simp add: gsw_sound_transport_restart_def Let_def)
     (simp add: sound_ok_def stream_ok_def completions_ok_def)

lemma reset_ok [gsw_inv]:
  "sound_ok (transport w) \<Longrightarrow> sound_ok (transport (snd (gsw_sound_transport_reset m sid w)))"
  by (simp add: gsw_sound_transport_reset_def Let_def)
     (simp add: sound_ok_def stream_ok_def completions_ok_def ring_size_pos)

lemma set_gain_ok [gsw_inv]:
  "sound_ok (transport w) \<Longrightarrow> sound_ok (transport (snd (gsw_sound_transport_set_gain m g w)))"
  by (simp add: gsw_sound_transport_set_gain_def Let_def)
     (simp add: sound_ok_def stream_ok_def completions_ok_def GSW_PCM_MASTER_GAIN_UNITY_def linorder_not_less)

section \<open>Completions\<close>

definition completion_items :: "GSW_SOUND_TRANSPORT \<Rightarrow> GSW_SOUND_COMPLETION list" where
  "completion_items t = ring_items (completions t) (unat (completion_read t)) (unat (completion_count t))"

lemma completions_okD:
  assumes "completions_ok t"
  shows "length (completions t) = 32" "unat (completion_read t) < 32"
    "unat (completion_count t) \<le> 32"
    "unat (completion_write t) = (unat (completion_read t) + unat (completion_count t)) mod 32"
  using assms by (simp_all add: completions_ok_def word_less_nat_alt word_le_nat_alt)

lemma unat_mod32: "unat ((x + 1) mod 32 :: u16) = Suc (unat x) mod 32"
proof -
  have "unat ((x + 1) mod 32) = unat (x + 1) mod 32" by (simp add: unat_mod)
  also have "unat (x + 1) = Suc (unat x) mod 65536" by (simp add: unat_word_ariths)
  finally show ?thesis by (simp add: mod_mod_cancel)
qed

lemma unat_count_push: "unat (c :: u16) < 32 \<Longrightarrow> unat (c + 1) = Suc (unat c)"
  by (simp add: unat_word_ariths)

lemma unat_count_pop: "0 < unat (c :: u16) \<Longrightarrow> unat (c - 1) = unat c - 1"
  by (metis unat_minus_one unat_gt_0)

lemma push_completion_items:
  assumes "completions_ok t" "unat (completion_count t) < 32"
  shows "completion_items (gsw_sound_push_completion c t) = completion_items t @ [c]"
  using ring_items_push [of "unat (completion_count t)" "completions t" "unat (completion_read t)" c]
    completions_okD [OF assms(1)] assms(2)
  by (simp add: completion_items_def gsw_sound_push_completion_def unat_count_push)

lemma pop_completion_items:
  assumes "completions_ok t" "0 < unat (completion_count t)"
  shows "completion_items (gsw_sound_pop_completion t) = tl (completion_items t)"
  using ring_items_pop [of "unat (completion_count t)" "completions t" "unat (completion_read t)"]
    completions_okD [OF assms(1)] assms(2)
  by (simp add: completion_items_def gsw_sound_pop_completion_def unat_mod32 unat_count_pop)

lemma push_completion_ok [gsw_inv]:
  assumes "completions_ok t" "unat (completion_count t) < 32"
  shows "completions_ok (gsw_sound_push_completion c t)"
  using completions_okD [OF assms(1)] assms(2)
  by (simp add: completions_ok_def gsw_sound_push_completion_def word_less_nat_alt word_le_nat_alt
      unat_mod32 unat_count_push mod_Suc_eq)

lemma pop_completion_ok [gsw_inv]:
  assumes "completions_ok t" "0 < unat (completion_count t)"
  shows "completions_ok (gsw_sound_pop_completion t)"
proof -
  have "(Suc (unat (completion_read t)) mod 32 + (unat (completion_count t) - 1)) mod 32
      = (unat (completion_read t) + unat (completion_count t)) mod 32"
    using assms(2) by (cases "unat (completion_count t)") (simp_all add: mod_add_left_eq)
  with completions_okD [OF assms(1)] assms(2) show ?thesis
    by (simp add: completions_ok_def gsw_sound_pop_completion_def word_less_nat_alt word_le_nat_alt
        unat_mod32 unat_count_pop)
qed

interpretation completion_ring: bounded_fifo gsw_sound_push_completion gsw_sound_pop_completion
    gsw_sound_front_completion completion_items completions_ok GSW_SOUND_COMPLETION_CAPACITY
proof
  fix q x assume q: "completions_ok q"
  have len: "length (completion_items q) = unat (completion_count q)"
    by (simp add: completion_items_def)
  show "length (completion_items q) \<le> GSW_SOUND_COMPLETION_CAPACITY"
    using completions_okD [OF q] by (simp add: len GSW_SOUND_COMPLETION_CAPACITY_def)
  { assume "length (completion_items q) < GSW_SOUND_COMPLETION_CAPACITY"
    then have c: "unat (completion_count q) < 32" by (simp add: len GSW_SOUND_COMPLETION_CAPACITY_def)
    show "completion_items (gsw_sound_push_completion x q) = completion_items q @ [x]"
      using q c by (rule push_completion_items)
    show "completions_ok (gsw_sound_push_completion x q)"
      using q c by (rule push_completion_ok) }
  { assume "completion_items q \<noteq> []"
    then have c: "0 < unat (completion_count q)" using len by (metis length_greater_0_conv)
    show "completion_items (gsw_sound_pop_completion q) = tl (completion_items q)"
      using q c by (rule pop_completion_items)
    show "completions_ok (gsw_sound_pop_completion q)"
      using q c by (rule pop_completion_ok)
    show "gsw_sound_front_completion q = hd (completion_items q)"
      using ring_items_front [OF c, of "unat (completion_read q)" "completions q"] completions_okD [OF q]
      by (simp add: completion_items_def gsw_sound_front_completion_def) }
qed

section \<open>Free space\<close>

text \<open>The guard of \<open>submit\<close> on what the device reports as its read position.\<close>

definition head_ok :: "GSW_SOUND_TRANSPORT \<Rightarrow> u32 \<Rightarrow> bool" where
  "head_ok t head \<longleftrightarrow> head < ring_bytes t \<and> head mod frame_bytes t = 0"

lemma frame_dvd_ring:
  assumes "sound_ok t" "opened t"
  shows "0 < unat (frame_bytes t)" "unat (frame_bytes t) dvd unat (ring_bytes t)"
    "unat (frame_bytes t) dvd unat (ring_tail t)" "unat (ring_tail t) < unat (ring_bytes t)"
    "ring_size_ok (ring_bytes t)"
proof -
  from assms have s: "stream_ok t" by (simp add: sound_ok_def)
  with assms show rs: "ring_size_ok (ring_bytes t)" by (simp add: sound_ok_def stream_ok_def)
  then obtain k where k: "12 \<le> k" "unat (ring_bytes t) = 2 ^ k" by (rule ring_size_exp)
  have "frame_bytes t = 1 \<or> frame_bytes t = 2 \<or> frame_bytes t = 4" using s by (simp add: stream_ok_def)
  then have f: "unat (frame_bytes t) \<in> {2 ^ 0, 2 ^ 1, 2 ^ 2}" by auto
  then show "0 < unat (frame_bytes t)" by auto
  show "unat (frame_bytes t) dvd unat (ring_bytes t)"
  proof -
    have "unat (frame_bytes t) dvd 2 ^ 2" using f by auto
    moreover have "(2::nat) ^ 2 dvd 2 ^ k" using k(1) by (intro le_imp_power_dvd) simp
    ultimately show ?thesis using k(2) by (metis dvd_trans)
  qed
  show "unat (frame_bytes t) dvd unat (ring_tail t)" "unat (ring_tail t) < unat (ring_bytes t)"
    using s by (simp_all add: stream_ok_def mod_eq_0_iff_dvd word_less_nat_alt)
qed

lemma used_bytes:
  assumes "sound_ok t" "opened t" "head_ok t head"
  shows "unat (gsw_sound_used t head) + unat (frame_bytes t) \<le> unat (ring_bytes t)"
    and "(unat head + unat (gsw_sound_used t head)) mod unat (ring_bytes t) = unat (ring_tail t)"
    and "unat (frame_bytes t) dvd unat (gsw_sound_used t head)"
proof -
  note f = frame_dvd_ring [OF assms(1,2)]
  have h: "unat head < unat (ring_bytes t)" "unat (frame_bytes t) dvd unat head"
    using assms(3) by (simp_all add: head_ok_def word_less_nat_alt)
      (metis mod_eq_0_iff_dvd unat_mod unsigned_0)
  have R: "unat (ring_bytes t) < 2 ^ 31"
    using f(5) by (simp add: ring_size_ok_def GSW_PCM_RING_MAX_SIZE_def word_le_nat_alt)
  have u: "unat (gsw_sound_used t head) =
      (if unat head \<le> unat (ring_tail t) then unat (ring_tail t) - unat head
       else unat (ring_bytes t) - unat head + unat (ring_tail t))"
    using h(1) f(4) R
    by (simp add: gsw_sound_used_def word_le_nat_alt unat_sub_no_underflow unat_add_no_overflow)
  then show dv: "unat (frame_bytes t) dvd unat (gsw_sound_used t head)"
    using f h by (auto intro: dvd_add dvd_diff_nat)
  have lt: "unat (gsw_sound_used t head) < unat (ring_bytes t)"
    using u h(1) f(4) by (auto split: if_splits)
  from dv f(2) have "unat (frame_bytes t) dvd unat (ring_bytes t) - unat (gsw_sound_used t head)"
    by (rule dvd_diff_nat [rotated])
  with lt show "unat (gsw_sound_used t head) + unat (frame_bytes t) \<le> unat (ring_bytes t)"
    by (auto dest: dvd_imp_le)
  show "(unat head + unat (gsw_sound_used t head)) mod unat (ring_bytes t) = unat (ring_tail t)"
    using u h(1) f(4) by (auto split: if_splits)
qed

lemma accept_bounds:
  assumes "sound_ok t" "opened t" "head_ok t head"
  shows "unat (gsw_sound_accept t head bytes) \<le> unat bytes"
    and "unat (frame_bytes t) dvd unat (gsw_sound_accept t head bytes)"
    and "unat (gsw_sound_used t head) + unat (gsw_sound_accept t head bytes) + unat (frame_bytes t)
         \<le> unat (ring_bytes t)"
proof -
  note u = used_bytes [OF assms]
  define fr where "fr = ring_bytes t - gsw_sound_used t head - frame_bytes t"
  define a where "a = (if bytes < fr then bytes else fr)"
  have acc: "gsw_sound_accept t head bytes = a - a mod frame_bytes t"
    by (simp add: gsw_sound_accept_def Let_def a_def fr_def)
  have "gsw_sound_used t head \<le> ring_bytes t" using u(1) by (simp add: word_le_nat_alt)
  moreover have "frame_bytes t \<le> ring_bytes t - gsw_sound_used t head"
    using u(1) calculation by (simp add: word_le_nat_alt unat_sub_no_underflow)
  ultimately have fr: "unat fr = unat (ring_bytes t) - unat (gsw_sound_used t head) - unat (frame_bytes t)"
    by (simp add: fr_def unat_sub_no_underflow)
  have "a mod frame_bytes t \<le> a" by (simp add: word_le_nat_alt unat_mod)
  then have un: "unat (gsw_sound_accept t head bytes) = unat a - unat a mod unat (frame_bytes t)"
    by (simp add: acc unat_sub_no_underflow unat_mod)
  then show "unat (frame_bytes t) dvd unat (gsw_sound_accept t head bytes)"
    by (simp add: minus_mod_eq_mult_div)
  have "unat a \<le> unat bytes" "unat a \<le> unat fr"
    by (auto simp add: a_def word_less_nat_alt)
  with un fr u(1) show "unat (gsw_sound_accept t head bytes) \<le> unat bytes"
    "unat (gsw_sound_used t head) + unat (gsw_sound_accept t head bytes) + unat (frame_bytes t)
         \<le> unat (ring_bytes t)" by linarith+
qed

section \<open>Submitting\<close>

lemma publish_frame [simp, gsw_frame]:
  "ring_memory (gsw_sound_publish m bytes flags tok a w) = ring_memory w"
  "transport (gsw_sound_publish m bytes flags tok a w) =
     (if flags AND GSW_SOUND_SUBMIT_END_OF_BUFFER \<noteq> 0 \<and> a = bytes
      then gsw_sound_push_completion
             \<lparr>token = tok, target_position_low = submitted_position_low (transport w),
              target_position_high = submitted_position_high (transport w)\<rparr> (transport w)
      else transport w)"
  by (simp_all add: gsw_sound_publish_def Let_def split_beta)

lemma slot_of_tail:
  assumes "sound_ok t" "opened t" "head_ok t head"
  shows "ring_slot (ring_bytes t) (ring_tail t) j
    = ring_slot (ring_bytes t) head (unat (gsw_sound_used t head) + j)"
proof -
  note f = frame_dvd_ring [OF assms(1,2)] and u = used_bytes [OF assms]
  have "(unat (ring_tail t) + j) mod unat (ring_bytes t)
      = (unat head + (unat (gsw_sound_used t head) + j)) mod unat (ring_bytes t)"
    by (metis u(2) add.assoc mod_add_left_eq)
  then show ?thesis by (simp add: word_unat_eq_iff unat_ring_slot [OF f(5)])
qed

lemma store_unread:
  assumes "sound_ok (transport w)" "opened (transport w)" "head_ok (transport w) head"
    and "unat (gsw_sound_used (transport w) head) + unat a < unat (ring_bytes (transport w))"
  shows "ring_unread (ring_memory (gsw_sound_store memory data a w)) (ring_bytes (transport w)) head
           (unat (gsw_sound_used (transport w) head) + unat a)
       = ring_unread (ring_memory w) (ring_bytes (transport w)) head
           (unat (gsw_sound_used (transport w) head))
         @ map (\<lambda>j. memory (data + of_nat j)) [0..<unat a]"
proof -
  let ?t = "transport w" let ?u = "unat (gsw_sound_used ?t head)" let ?R = "ring_bytes ?t"
  let ?rm = "gsw_sound_copy (ring_tail ?t) ?R memory data 0 (unat a) (ring_memory w)"
  note rs = frame_dvd_ring(5) [OF assms(1,2)] and st = slot_of_tail [OF assms(1-3)]
  have old: "?rm (ring_slot ?R head j) = ring_memory w (ring_slot ?R head j)" if "j < ?u" for j
  proof (rule copy_other, intro allI impI)
    fix i assume "i < unat a"
    with that assms(4) show "ring_slot ?R head j \<noteq> ring_slot ?R (ring_tail ?t + 0) i"
      by (simp add: st ring_slot_inject [OF rs])
  qed
  have new: "?rm (ring_slot ?R head (?u + j)) = memory (data + of_nat j)" if "j < unat a" for j
    using copy_written [OF rs that, of "ring_tail ?t" memory data 0 "ring_memory w"] assms(4)
    by (simp add: st)
  have "ring_unread ?rm ?R head (?u + unat a) =
      ring_unread (ring_memory w) ?R head ?u @ map (\<lambda>j. memory (data + of_nat j)) [0..<unat a]"
    unfolding ring_unread_add using new
    by (simp add: ring_unread_cong [of ?u ?rm ?R head "ring_memory w"] old)
  then show ?thesis by (simp add: gsw_sound_store_def Let_def)
qed

lemma store_outside:
  assumes "sound_ok (transport w)" "opened (transport w)" "ring_bytes (transport w) \<le> x"
  shows "ring_memory (gsw_sound_store memory data a w) x = ring_memory w x"
proof -
  note rs = frame_dvd_ring(4,5) [OF assms(1,2)]
  have "unat (ring_slot (ring_bytes (transport w)) s j) < unat (ring_bytes (transport w))" for s j
    using rs(1) by (simp add: unat_ring_slot [OF rs(2)])
  then have "x \<noteq> ring_slot (ring_bytes (transport w)) s j" for s j
    using assms(3) by (metis leD word_less_nat_alt)
  then show ?thesis by (simp add: gsw_sound_store_def Let_def copy_other)
qed

lemma store_tail:
  assumes "sound_ok (transport w)" "opened (transport w)"
  shows "unat (ring_tail (transport (gsw_sound_store memory data a w)))
    = (unat (ring_tail (transport w)) + unat a) mod unat (ring_bytes (transport w))"
  using unat_ring_slot [OF frame_dvd_ring(5) [OF assms], of "ring_tail (transport w)" "unat a"]
  by (simp add: gsw_sound_store_def Let_def ring_slot_def)

lemma store_fields [simp, gsw_frame]:
  "completions (transport (gsw_sound_store memory data a w)) = completions (transport w)"
  "completion_read (transport (gsw_sound_store memory data a w)) = completion_read (transport w)"
  "completion_write (transport (gsw_sound_store memory data a w)) = completion_write (transport w)"
  "completion_count (transport (gsw_sound_store memory data a w)) = completion_count (transport w)"
  "ring_bytes (transport (gsw_sound_store memory data a w)) = ring_bytes (transport w)"
  "frame_bytes (transport (gsw_sound_store memory data a w)) = frame_bytes (transport w)"
  "opened (transport (gsw_sound_store memory data a w)) = opened (transport w)"
  "bound (transport (gsw_sound_store memory data a w)) = bound (transport w)"
  "paused (transport (gsw_sound_store memory data a w)) = paused (transport w)"
  by (simp_all add: gsw_sound_store_def Let_def)

lemma store_ok [gsw_inv]:
  assumes "sound_ok (transport w)" "opened (transport w)"
    and "unat (frame_bytes (transport w)) dvd unat a"
  shows "sound_ok (transport (gsw_sound_store memory data a w))"
proof -
  note f = frame_dvd_ring [OF assms(1,2)]
  let ?t' = "transport (gsw_sound_store memory data a w)"
  have "unat (frame_bytes (transport w)) dvd unat (ring_tail ?t')"
    using f assms(3) by (simp add: store_tail [OF assms(1,2)] dvd_mod)
  moreover have "unat (ring_tail ?t') < unat (ring_bytes (transport w))"
    using f by (simp add: store_tail [OF assms(1,2)])
  ultimately show ?thesis using assms(1,2)
    by (simp add: sound_ok_def stream_ok_def completions_ok_def word_less_nat_alt)
      (simp add: gsw_sound_store_def Let_def mod_eq_0_iff_dvd)
qed

text \<open>What a successful submission has gone through.\<close>

lemma submit_OK_D:
  assumes "gsw_sound_transport_submit m memory sid data bytes flags tok w = (GSW_SOUND_OK, a, w')"
  defines "head \<equiv> fst (gsw_sound_read m GSW_PCM_REG_RING_HEAD w)"
    and "w1 \<equiv> snd (gsw_sound_read m GSW_PCM_REG_RING_HEAD w)"
  shows "opened (transport w)" "sid = stream_id (transport w)"
    "\<not> gsw_sound_submit_invalid (transport w) data bytes flags tok"
    "head_ok (transport w) head" "a = gsw_sound_accept (transport w) head bytes" "a \<noteq> 0"
    "w' = gsw_sound_publish m bytes flags tok a (gsw_sound_store memory data a w1)"
    "flags AND GSW_SOUND_SUBMIT_END_OF_BUFFER \<noteq> 0 \<longrightarrow> unat (completion_count (transport w)) \<noteq> 32"
  using assms(1)
  by (auto simp: gsw_sound_transport_submit_def Let_def split_beta validate_ok_iff head_ok_def
      head_def w1_def GSW_SOUND_COMPLETION_CAPACITY_def linorder_not_le split: if_splits)

lemma submit_result_cases:
  obtains (refused) r w' where
      "gsw_sound_transport_submit m memory sid data bytes flags tok w = (r, 0, w')"
      "r \<noteq> GSW_SOUND_OK" "transport w' = transport w" "ring_memory w' = ring_memory w"
  | (accepted) a w' where
      "gsw_sound_transport_submit m memory sid data bytes flags tok w = (GSW_SOUND_OK, a, w')"
proof -
  obtain r a w' where e: "gsw_sound_transport_submit m memory sid data bytes flags tok w = (r, a, w')"
    by (metis prod.exhaust)
  show thesis
  proof (cases "r = GSW_SOUND_OK")
    case True
    with e accepted show ?thesis by simp
  next
    case False
    then have "a = 0" "transport w' = transport w" "ring_memory w' = ring_memory w"
      using e by (auto simp: gsw_sound_transport_submit_def Let_def split_beta split: if_splits)
    with e False refused show ?thesis by simp
  qed
qed

lemma push_completion_sound_ok [gsw_inv]:
  assumes "sound_ok t" "opened t" "unat (completion_count t) < 32"
  shows "sound_ok (gsw_sound_push_completion c t)"
proof -
  have "completions_ok t" using assms by (simp add: sound_ok_def stream_ok_def)
  then have "completions_ok (gsw_sound_push_completion c t)" using assms(3) by (rule push_completion_ok)
  with assms(1,2) show ?thesis
    by (simp add: sound_ok_def stream_ok_def) (simp add: gsw_sound_push_completion_def)
qed

lemma opened_completions_ok: "sound_ok t \<Longrightarrow> opened t \<Longrightarrow> completions_ok t"
  by (simp add: sound_ok_def stream_ok_def)

lemma submit_ok [gsw_inv]:
  assumes "sound_ok (transport w)"
  shows "sound_ok (transport (snd (snd (gsw_sound_transport_submit m memory sid data bytes flags tok w))))"
proof (cases rule: submit_result_cases [of m memory sid data bytes flags tok w])
  case refused
  with assms show ?thesis by simp
next
  case (accepted a w')
  let ?w1 = "snd (gsw_sound_read m GSW_PCM_REG_RING_HEAD w)"
  note d = submit_OK_D [OF accepted]
  have "unat (frame_bytes (transport w)) dvd unat a"
    using accept_bounds(2) [OF assms d(1,4)] d(5) by simp
  then have s: "sound_ok (transport (gsw_sound_store memory data a ?w1))"
    using assms d(1) by (intro store_ok) simp_all
  moreover have "unat (completion_count (transport w)) \<le> 32"
    using completions_okD [OF opened_completions_ok [OF assms d(1)]] by simp
  ultimately show ?thesis using d(1,8)
    by (auto simp: accepted d(7) intro!: push_completion_sound_ok)
qed

section \<open>Position and polling\<close>

text \<open>One round of the position loop, as the three values read and the device after them.\<close>

definition position_round :: "'d mmio \<Rightarrow> 'd \<Rightarrow> (u32 \<times> u32 \<times> u32) \<times> 'd" where
  "position_round m d0 =
     (let (h1, d1) = mmio_read m GSW_PCM_REG_POSITION_HIGH d0;
          (l, d2) = mmio_read m GSW_PCM_REG_POSITION_LOW d1;
          (h2, d3) = mmio_read m GSW_PCM_REG_POSITION_HIGH d2
      in ((h1, l, h2), d3))"

definition position_settled :: "'d mmio \<Rightarrow> 'd \<Rightarrow> bool" where
  "position_settled m d \<longleftrightarrow> (case fst (position_round m d) of (h1, l, h2) \<Rightarrow> h1 = h2)"

lemma position_read_unfold:
  "gsw_sound_position_read m w =
     (case position_round m (device w) of
        ((h1, l, h2), d) \<Rightarrow>
          if h1 \<noteq> h2 then gsw_sound_position_read m (w\<lparr>device := d\<rparr>)
          else Some (l, h2, w\<lparr>device := d\<rparr>))"
  by (subst gsw_sound_position_read.simps)
     (simp add: position_round_def gsw_sound_read_def Let_def split_beta)

lemma position_read_settles:
  assumes "gsw_sound_position_read m w = Some r"
  shows "\<exists>n. position_settled m (((\<lambda>d. snd (position_round m d)) ^^ n) (device w))"
using assms proof (induction rule: gsw_sound_position_read.raw_induct [rotated, consumes 1, case_names step])
  case (step rec m w r)
  let ?d = "snd (position_round m (device w))"
  show ?case
  proof (cases "position_settled m (device w)")
    case True
    then show ?thesis by (intro exI [of _ 0]) simp
  next
    case False
    with step(2) have "rec m (w\<lparr>device := ?d\<rparr>) = Some r"
      by (simp add: position_settled_def position_round_def gsw_sound_read_def Let_def split_beta)
    from step(1) [OF this]
    obtain n where "position_settled m (((\<lambda>d. snd (position_round m d)) ^^ n) ?d)" by auto
    then show ?thesis by (intro exI [of _ "Suc n"]) (simp add: funpow_Suc_right o_def del: funpow.simps)
  qed
qed

lemma position_read_stops:
  "position_settled m (((\<lambda>d. snd (position_round m d)) ^^ n) (device w)) \<Longrightarrow>
   \<exists>r. gsw_sound_position_read m w = Some r"
proof (induction n arbitrary: w)
  case 0
  then show ?case
    by (subst position_read_unfold) (simp add: position_settled_def split_beta)
next
  case (Suc n)
  show ?case
    using Suc.IH [of "w\<lparr>device := snd (position_round m (device w))\<rparr>"] Suc.prems
    by (subst position_read_unfold) (simp add: split_beta funpow_Suc_right o_def del: funpow.simps)
qed

text \<open>The answer is one settled round: both reads of the high word agree around the low word.\<close>

lemma position_read_snapshot:
  assumes "gsw_sound_position_read m w = Some r"
  shows "\<exists>d d'. position_round m d = ((fst (snd r), fst r, fst (snd r)), d') \<and>
       snd (snd r) = w\<lparr>device := d'\<rparr>"
using assms proof (induction rule: gsw_sound_position_read.raw_induct [rotated, consumes 1, case_names step])
  case (step rec m w r)
  let ?d = "snd (position_round m (device w))"
  show ?case
  proof (cases "position_settled m (device w)")
    case True
    with step(2) show ?thesis
      by (intro exI [of _ "device w"] exI [of _ ?d])
         (auto simp add: position_settled_def position_round_def gsw_sound_read_def Let_def split_beta)
  next
    case False
    with step(2) have "rec m (w\<lparr>device := ?d\<rparr>) = Some r"
      by (simp add: position_settled_def position_round_def gsw_sound_read_def Let_def split_beta)
    from step(1) [OF this] show ?thesis by simp
  qed
qed

lemma position_read_frame:
  assumes "gsw_sound_position_read m w = Some (l, h, w')"
  shows "transport w' = transport w" "ring_memory w' = ring_memory w"
  using position_read_snapshot [OF assms] by auto

text \<open>The two 32-bit halves as one 64-bit position.\<close>

definition position64 :: "u32 \<Rightarrow> u32 \<Rightarrow> nat" where
  "position64 low high = unat high * 2 ^ 32 + unat low"

lemma position_add_64:
  "position64 (fst (gsw_sound_position_add low high n)) (snd (gsw_sound_position_add low high n))
   = (position64 low high + unat n) mod 2 ^ 64"
proof -
  have l: "unat low < 2 ^ 32" "unat n < 2 ^ 32" "unat high < 2 ^ 32"
    using unsigned_less [of low] unsigned_less [of n] unsigned_less [of high] by simp_all
  have lo: "unat (low + n) = (if unat low + unat n < 2 ^ 32 then unat low + unat n
      else unat low + unat n - 2 ^ 32)"
    using l by (auto simp: unat_word_ariths mod_if)
  then have carry: "low + n < low \<longleftrightarrow> \<not> unat low + unat n < 2 ^ 32"
    using l by (auto simp: word_less_nat_alt)
  have hi: "unat (high + 1) = (if unat high + 1 < 2 ^ 32 then unat high + 1 else 0)"
    using l by (auto simp: unat_word_ariths mod_if)
  show ?thesis
  proof (cases "unat low + unat n < 2 ^ 32")
    case True
    with carry lo l show ?thesis
      by (simp add: gsw_sound_position_add_def Let_def position64_def)
  next
    case False
    with carry lo have p: "gsw_sound_position_add low high n = (low + n, high + 1)"
      by (simp add: gsw_sound_position_add_def Let_def)
    show ?thesis
    proof (cases "unat high + 1 < 2 ^ 32")
      case True
      with False lo hi l show ?thesis by (simp add: p position64_def)
    next
      case h: False
      with l have "unat high = 2 ^ 32 - 1" by simp
      with False lo hi l h show ?thesis by (simp add: p position64_def mod_if)
    qed
  qed
qed

lemma position_before_64:
  "gsw_sound_position_before low high tlo thi \<longleftrightarrow> position64 low high < position64 tlo thi"
proof -
  have l: "unat low < 2 ^ 32" "unat tlo < 2 ^ 32"
    using unsigned_less [of low] unsigned_less [of tlo] by simp_all
  show ?thesis
  proof (cases "unat high" "unat thi" rule: linorder_cases)
    case equal
    then have "high = thi" by (simp add: word_unat_eq_iff)
    then show ?thesis by (simp add: gsw_sound_position_before_def position64_def word_less_nat_alt)
  qed (use l in \<open>auto simp: gsw_sound_position_before_def position64_def word_less_nat_alt\<close>)
qed

section \<open>Polling\<close>

lemma poll_OK_D:
  assumes "gsw_sound_transport_poll m sid w = Some (GSW_SOUND_OK, tok, w')"
  shows "\<exists>w1 low high w2. transport w2 = transport w1 \<and>
      (w1 = snd (gsw_sound_read m GSW_PCM_REG_STATUS (if interrupt_mode (transport w) then w
               else snd (gsw_sound_service_irq m w)))) \<and>
      opened (transport w) \<and> completion_count (transport w) \<noteq> 0 \<and>
      gsw_sound_position_read m w1 = Some (low, high, w2) \<and>
      \<not> gsw_sound_position_before low high
          (target_position_low (gsw_sound_front_completion (transport w1)))
          (target_position_high (gsw_sound_front_completion (transport w1))) \<and>
      tok = token (gsw_sound_front_completion (transport w1)) \<and>
      w' = w2\<lparr>transport := gsw_sound_pop_completion (transport w1)\<rparr>"
  using assms
  by (simp add: gsw_sound_transport_poll_def Let_def split_beta validate_ok_iff
      split: if_splits option.splits; auto dest: position_read_frame)

lemma poll_transport:
  assumes "gsw_sound_transport_poll m sid w = Some (r, tok, w')"
  shows "transport w' = transport w \<or> transport w' = transport (snd (gsw_sound_service_irq m w)) \<or>
    opened (transport w) \<and> completion_count (transport w) \<noteq> 0 \<and>
    (transport w' = gsw_sound_pop_completion (transport w) \<or>
     transport w' = gsw_sound_pop_completion (transport (snd (gsw_sound_service_irq m w))))"
  using assms
  by (simp add: gsw_sound_transport_poll_def Let_def split_beta validate_ok_iff
      split: if_splits option.splits; auto dest: position_read_frame)

lemma pop_completion_sound_ok [gsw_inv]:
  assumes "sound_ok t" "opened t" "completion_count t \<noteq> 0"
  shows "sound_ok (gsw_sound_pop_completion t)"
proof -
  have "completions_ok t" using assms by (simp add: sound_ok_def stream_ok_def)
  moreover have "0 < unat (completion_count t)" using assms(3) by (simp add: unat_gt_0)
  ultimately have "completions_ok (gsw_sound_pop_completion t)" by (rule pop_completion_ok)
  with assms(1,2) show ?thesis
    by (simp add: sound_ok_def stream_ok_def) (simp add: gsw_sound_pop_completion_def)
qed

lemma poll_ok [gsw_inv]:
  assumes "sound_ok (transport w)" "gsw_sound_transport_poll m sid w = Some (r, tok, w')"
  shows "sound_ok (transport w')"
  using poll_transport [OF assms(2)] assms(1) service_irq_ok [OF assms(1), of m]
  by (auto intro!: pop_completion_sound_ok)

lemma position_ok [gsw_inv]:
  assumes "sound_ok (transport w)" "gsw_sound_transport_position m sid w = Some (r, p, w')"
  shows "sound_ok (transport w')"
  using assms
  by (auto simp: gsw_sound_transport_position_def Let_def position_read_frame
      split: if_splits option.splits)

section \<open>The transport as a component\<close>

text \<open>The calls the VxD makes, in any order, with the interrupt among them.\<close>

datatype sound_call =
    Call_Bind u32 u32 u32 u32
  | Call_Unbind
  | Call_Interrupt_Mode bool
  | Call_Interrupt
  | Call_Open u32 u16 u16
  | Call_Close u32
  | Call_Submit u32 u32 u32 u32 u32
  | Call_Poll u32
  | Call_Pause u32
  | Call_Restart u32
  | Call_Reset u32
  | Call_Position u32
  | Call_Set_Gain u32

fun sound_perform :: "'d mmio \<Rightarrow> (u32 \<Rightarrow> u8) \<Rightarrow> sound_call \<Rightarrow> 'd sound_world \<Rightarrow> 'd sound_world option" where
  "sound_perform m memory (Call_Bind r a p b) w = Some (snd (gsw_sound_transport_bind m r a p b w))"
| "sound_perform m memory Call_Unbind w = Some (gsw_sound_transport_unbind m w)"
| "sound_perform m memory (Call_Interrupt_Mode e) w =
     Some (snd (gsw_sound_transport_set_interrupt_mode m e w))"
| "sound_perform m memory Call_Interrupt w = Some (snd (gsw_sound_transport_handle_interrupt m w))"
| "sound_perform m memory (Call_Open r c b) w = Some (snd (snd (gsw_sound_transport_open m r c b w)))"
| "sound_perform m memory (Call_Close s) w = Some (snd (gsw_sound_transport_close m s w))"
| "sound_perform m memory (Call_Submit s d b f k) w =
     Some (snd (snd (gsw_sound_transport_submit m memory s d b f k w)))"
| "sound_perform m memory (Call_Poll s) w = map_option (snd \<circ> snd) (gsw_sound_transport_poll m s w)"
| "sound_perform m memory (Call_Pause s) w = Some (snd (gsw_sound_transport_pause m s w))"
| "sound_perform m memory (Call_Restart s) w = Some (snd (gsw_sound_transport_restart m s w))"
| "sound_perform m memory (Call_Reset s) w = Some (snd (gsw_sound_transport_reset m s w))"
| "sound_perform m memory (Call_Position s) w =
     map_option (snd \<circ> snd) (gsw_sound_transport_position m s w)"
| "sound_perform m memory (Call_Set_Gain g) w = Some (snd (gsw_sound_transport_set_gain m g w))"

lemma perform_ok [gsw_inv]:
  assumes "sound_ok (transport w)" "sound_perform m memory c w = Some w'"
  shows "sound_ok (transport w')"
  using assms by (cases c) (auto intro: gsw_inv)

definition sound_step ::
    "'d mmio \<Rightarrow> (u32 \<Rightarrow> u8) \<Rightarrow> sound_call \<Rightarrow> 'd sound_world option \<Rightarrow> 'd sound_world option" where
  "sound_step m memory c s = Option.bind s (sound_perform m memory c)"

definition sound_start :: "(u32 \<Rightarrow> u8) \<Rightarrow> 'd \<Rightarrow> 'd sound_world" where
  "sound_start rm d = \<lparr>transport = transport_zero, ring_memory = rm, device = d\<rparr>"

interpretation sound: started_component "sound_step m memory"
    "pred_option (\<lambda>w. sound_ok (transport w))" "Some (sound_start rm d)"
  for m :: "'d mmio" and memory rm d
proof
  show "pred_option (\<lambda>w. sound_ok (transport w)) (sound_step m memory e s)"
    if "pred_option (\<lambda>w. sound_ok (transport w)) s" for s e
    using that by (cases s) (auto simp: sound_step_def option.pred_set intro: perform_ok)
qed (simp add: sound_start_def)

section \<open>Properties\<close>

text \<open>
  For every device and every sequence of calls and interrupts from the unbound state, the
  transport stays consistent: an open stream has a bound device, a power-of-two ring with a
  frame-aligned tail inside it, a valid format, and a completion ring whose write index is its
  read index plus its count.
\<close>

theorem sound_reachable_ok:
  "pred_option (\<lambda>w. sound_ok (transport w))
     (fold (sound_step m memory) calls (Some (sound_start rm d)))"
  by (rule sound.reachable_ok)

lemma submit_OK_fields:
  assumes "gsw_sound_transport_submit m memory sid data bytes flags tok w = (GSW_SOUND_OK, a, w')"
  defines "s \<equiv> gsw_sound_store memory data a (snd (gsw_sound_read m GSW_PCM_REG_RING_HEAD w))"
  shows "ring_tail (transport w') = ring_tail (transport s)"
    "ring_bytes (transport w') = ring_bytes (transport w)"
    "frame_bytes (transport w') = frame_bytes (transport w)"
    "opened (transport w')"
    "submitted_position_low (transport w') = submitted_position_low (transport s)"
    "submitted_position_high (transport w') = submitted_position_high (transport s)"
    "ring_memory w' = ring_memory s"
  using submit_OK_D(1,7) [OF assms(1)] by (simp_all add: s_def gsw_sound_push_completion_def)

lemma submit_used:
  assumes "sound_ok (transport w)"
    and "gsw_sound_transport_submit m memory sid data bytes flags tok w = (GSW_SOUND_OK, a, w')"
  defines "head \<equiv> fst (gsw_sound_read m GSW_PCM_REG_RING_HEAD w)"
  shows "unat (gsw_sound_used (transport w') head) = unat (gsw_sound_used (transport w) head) + unat a"
proof (rule ring_index_inject)
  let ?t = "transport w" let ?R = "unat (ring_bytes ?t)"
  note d = submit_OK_D [OF assms(2), folded head_def] and s = submit_OK_fields [OF assms(2)]
  have ok': "sound_ok (transport w')" using submit_ok [OF assms(1)] assms(2) by (metis snd_conv)
  have hd': "head_ok (transport w') head" using d(4) by (simp add: head_ok_def s)
  note u = used_bytes [OF assms(1) d(1,4)] and u' = used_bytes [OF ok' s(4) hd']
  have f: "0 < unat (frame_bytes ?t)" by (rule frame_dvd_ring [OF assms(1) d(1)])
  show "unat (gsw_sound_used (transport w') head) < ?R" using u'(1) f by (simp add: s)
  show "unat (gsw_sound_used ?t head) + unat a < ?R"
    using accept_bounds(3) [OF assms(1) d(1,4), of bytes] f d(5) by simp
  show "(unat head + unat (gsw_sound_used (transport w') head)) mod ?R =
      (unat head + (unat (gsw_sound_used ?t head) + unat a)) mod ?R"
    using u'(2) u(2) store_tail [of "snd (gsw_sound_read m GSW_PCM_REG_RING_HEAD w)" memory data a]
      assms(1) d(1)
    by (simp add: s) (metis add.assoc mod_add_left_eq)
qed

text \<open>
  C4. An accepted submission appends to the stream the device reads and loses nothing: a
  positive, frame-aligned number of bytes is taken, at least one frame of the ring stays free,
  what the device had still to read is followed by exactly the accepted prefix of the data, and
  the submitted position advances by that number modulo 64 bits.
\<close>

theorem sound_submit_appends:
  assumes "sound_ok (transport w)"
    and "gsw_sound_transport_submit m memory sid data bytes flags tok w = (GSW_SOUND_OK, a, w')"
  defines "head \<equiv> fst (mmio_read m GSW_PCM_REG_RING_HEAD (device w))"
    and "R \<equiv> ring_bytes (transport w)"
  shows "0 < unat a \<and> unat a \<le> unat bytes \<and> unat (frame_bytes (transport w)) dvd unat a \<and>
    unat (gsw_sound_used (transport w') head) = unat (gsw_sound_used (transport w) head) + unat a \<and>
    unat (gsw_sound_used (transport w') head) + unat (frame_bytes (transport w)) \<le> unat R \<and>
    ring_unread (ring_memory w') R head (unat (gsw_sound_used (transport w') head)) =
      ring_unread (ring_memory w) R head (unat (gsw_sound_used (transport w) head))
        @ map (\<lambda>j. memory (data + of_nat j)) [0..<unat a] \<and>
    position64 (submitted_position_low (transport w')) (submitted_position_high (transport w')) =
      (position64 (submitted_position_low (transport w)) (submitted_position_high (transport w))
        + unat a) mod 2 ^ 64"
proof -
  let ?w1 = "snd (gsw_sound_read m GSW_PCM_REG_RING_HEAD w)" let ?t = "transport w"
  have h: "fst (gsw_sound_read m GSW_PCM_REG_RING_HEAD w) = head"
    by (simp add: gsw_sound_read_def head_def)
  note d = submit_OK_D [OF assms(2), unfolded h] and s = submit_OK_fields [OF assms(2)]
  note a = accept_bounds [OF assms(1) d(1,4), of bytes, folded d(5)]
  note used = submit_used [OF assms(1,2), unfolded h]
  have "0 < unat (frame_bytes ?t)" by (rule frame_dvd_ring [OF assms(1) d(1)])
  then have "ring_unread (ring_memory w') R head (unat (gsw_sound_used ?t head) + unat a) =
      ring_unread (ring_memory w) R head (unat (gsw_sound_used ?t head))
        @ map (\<lambda>j. memory (data + of_nat j)) [0..<unat a]"
    using store_unread [of ?w1 head a memory data] assms(1) d(1,4) a(3) by (simp add: s R_def)
  moreover have "0 < unat a" using d(6) by (simp add: unat_gt_0)
  moreover have "position64 (submitted_position_low (transport w')) (submitted_position_high (transport w')) =
      (position64 (submitted_position_low ?t) (submitted_position_high ?t) + unat a) mod 2 ^ 64"
    by (simp add: s) (simp add: gsw_sound_store_def Let_def position_add_64)
  ultimately show ?thesis using a by (simp add: used R_def)
qed

definition example_stream :: GSW_SOUND_TRANSPORT where
  "example_stream = transport_zero\<lparr>registers := 1, ring := 1, ring_bytes := 4096, ring_tail := 4094,
     frame_bytes := 2, sample_rate := 22050, channels := 1, bits_per_sample := 16,
     gain_q16 := 65536, stream_id := 7, bound := True, opened := True\<rparr>"

definition example_world :: "(u32 \<Rightarrow> u32) sound_world" where
  "example_world = \<lparr>transport = example_stream, ring_memory = (\<lambda>_. 0),
     device = (\<lambda>r. if r = GSW_PCM_REG_RING_HEAD then 4092 else 0)\<rparr>"

lemma example_world_ok: "sound_ok (transport example_world)"
  by (simp add: example_world_def example_stream_def sound_ok_def stream_ok_def completions_ok_def
      ring_size_ok_def gsw_sound_power_of_two_def transport_zero_def gsw_sound_rate_valid_def
      GSW_PCM_RING_MIN_SIZE_def GSW_PCM_RING_MAX_SIZE_def GSW_SOUND_COMPLETION_CAPACITY_def)

lemmas example_eval = register_file_def example_world_def example_stream_def transport_zero_def
  gsw_sound_transport_submit_def gsw_sound_stream_validate_def gsw_sound_submit_invalid_def
  gsw_sound_read_def gsw_sound_accept_def gsw_sound_used_def
  GSW_SOUND_MAX_SUBMIT_BYTES_def GSW_SOUND_SUBMIT_END_OF_BUFFER_def
  GSW_SOUND_COMPLETION_CAPACITY_def Let_def

lemma example_submit:
  "\<exists>w'. gsw_sound_transport_submit register_file (\<lambda>a. ucast a) 7 0x40 6 1 9 example_world
     = (GSW_SOUND_OK, 6, w')"
  by (simp add: example_eval)

lemma example_used: "gsw_sound_used (transport example_world) 4092 = 2"
  by (simp add: example_eval)

theorem sound_submit_appends_witness:
  "\<exists>w'. gsw_sound_transport_submit register_file (\<lambda>a. ucast a) 7 0x40 6 1 9 example_world
          = (GSW_SOUND_OK, 6, w') \<and>
        ring_unread (ring_memory w') 4096 4092 8 = [0, 0, 0x40, 0x41, 0x42, 0x43, 0x44, 0x45]"
proof -
  obtain w' where e: "gsw_sound_transport_submit register_file (\<lambda>a. ucast a) 7 0x40 6 1 9 example_world
      = (GSW_SOUND_OK, 6, w')" using example_submit by blast
  have "ring_bytes (transport example_world) = 4096"
    and "fst (mmio_read register_file GSW_PCM_REG_RING_HEAD (device example_world)) = 4092"
    by (simp_all add: example_world_def example_stream_def register_file_def)
  with sound_submit_appends [OF example_world_ok e]
  have "ring_unread (ring_memory w') 4096 4092 8 =
      ring_unread (ring_memory example_world) 4096 4092 2 @ map (\<lambda>j. ucast (0x40 + of_nat j :: u32)) [0..<6]"
    by (auto simp add: example_used)
  also have "\<dots> = [0, 0, 0x40, 0x41, 0x42, 0x43, 0x44, 0x45]"
    by (simp add: ring_unread_def upt_rec example_world_def)
  finally show ?thesis using e by blast
qed

text \<open>
  C5. Completion tokens leave in submission order and never early: a poll that returns a token
  returns the oldest pending one, removes exactly that one, and has read from the device, in one
  settled reading of its 64-bit position, a value that is not below the position where the
  submission of that token ended.
\<close>

theorem sound_poll_oldest_complete:
  assumes "sound_ok (transport w)"
    and "gsw_sound_transport_poll m sid w = Some (GSW_SOUND_OK, tok, w')"
  shows "completion_items (transport w) \<noteq> [] \<and>
    tok = token (hd (completion_items (transport w))) \<and>
    completion_items (transport w') = tl (completion_items (transport w)) \<and>
    (\<exists>d low high d'. position_round m d = ((high, low, high), d') \<and>
       position64 (target_position_low (hd (completion_items (transport w))))
         (target_position_high (hd (completion_items (transport w)))) \<le> position64 low high)"
proof -
  obtain w1 low high w2 where p: "transport w2 = transport w1"
    "w1 = snd (gsw_sound_read m GSW_PCM_REG_STATUS (if interrupt_mode (transport w) then w
               else snd (gsw_sound_service_irq m w)))"
    "opened (transport w)" "completion_count (transport w) \<noteq> 0"
    "gsw_sound_position_read m w1 = Some (low, high, w2)"
    "\<not> gsw_sound_position_before low high
          (target_position_low (gsw_sound_front_completion (transport w1)))
          (target_position_high (gsw_sound_front_completion (transport w1)))"
    "tok = token (gsw_sound_front_completion (transport w1))"
    "w' = w2\<lparr>transport := gsw_sound_pop_completion (transport w1)\<rparr>"
    using poll_OK_D [OF assms(2)] by auto
  have items: "completion_items (transport w1) = completion_items (transport w)"
    by (simp add: p(2) completion_items_def)
  have ne: "completion_items (transport w1) \<noteq> []"
    using p(4) items by (metis completion_items_def length_ring_items list.size(3) unat_eq_0)
  have ok: "completions_ok (transport w1)"
    using opened_completions_ok [OF assms(1) p(3)] by (simp add: p(2) completions_ok_def)
  have front: "gsw_sound_front_completion (transport w1) = hd (completion_items (transport w))"
    using completion_ring.items_front [OF ok ne] items by simp
  obtain d d' where "position_round m d = ((high, low, high), d')"
    using position_read_snapshot [OF p(5)] by auto
  moreover have "completion_items (transport w') = tl (completion_items (transport w))"
    using completion_ring.items_pop [OF ok ne] items by (simp add: p(8))
  moreover have "position64 (target_position_low (hd (completion_items (transport w))))
       (target_position_high (hd (completion_items (transport w)))) \<le> position64 low high"
    using p(6) by (simp add: front position_before_64)
  ultimately show ?thesis
    using ne items p(7) by (simp add: front) blast
qed

text \<open>The example stream with one pending completion that the device has reached.\<close>

definition example_pending :: "(u32 \<Rightarrow> u32) sound_world" where
  "example_pending = \<lparr>transport = gsw_sound_push_completion
       \<lparr>token = 9, target_position_low = 6, target_position_high = 0\<rparr> example_stream,
     ring_memory = (\<lambda>_. 0), device = (\<lambda>r. if r = GSW_PCM_REG_POSITION_LOW then 8 else 0)\<rparr>"

lemma example_pending_ok: "sound_ok (transport example_pending)"
proof -
  have "sound_ok example_stream" using example_world_ok by (simp add: example_world_def)
  moreover have "opened example_stream" "unat (completion_count example_stream) < 32"
    by (simp_all add: example_stream_def transport_zero_def)
  ultimately show ?thesis by (simp add: example_pending_def push_completion_sound_ok)
qed

lemma example_position: "gsw_sound_position_read register_file example_pending = Some (8, 0, example_pending)"
  by (subst position_read_unfold)
     (simp add: position_round_def register_file_def example_pending_def
       GSW_PCM_REG_POSITION_LOW_def GSW_PCM_REG_POSITION_HIGH_def)

lemma example_poll: "\<exists>w'. gsw_sound_transport_poll register_file 7 example_pending = Some (GSW_SOUND_OK, 9, w')"
proof -
  have "snd (gsw_sound_service_irq register_file example_pending) = example_pending"
    and "gsw_sound_read register_file GSW_PCM_REG_STATUS example_pending = (0, example_pending)"
    by (simp_all add: gsw_sound_service_irq_def gsw_sound_read_def register_file_def example_pending_def
        GSW_PCM_REG_POSITION_LOW_def GSW_PCM_REG_IRQ_STATUS_def GSW_PCM_REG_STATUS_def Let_def)
  moreover have "gsw_sound_stream_validate (transport example_pending) 7 = GSW_SOUND_OK"
    and "\<not> interrupt_mode (transport example_pending)" "pending_irq_status (transport example_pending) = 0"
    and "completion_count (transport example_pending) = 1"
    and "gsw_sound_front_completion (transport example_pending)
       = \<lparr>token = 9, target_position_low = 6, target_position_high = 0\<rparr>"
    by (simp_all add: example_pending_def gsw_sound_push_completion_def example_stream_def
        transport_zero_def gsw_sound_stream_validate_def gsw_sound_front_completion_def
        GSW_SOUND_COMPLETION_CAPACITY_def)
  ultimately show ?thesis
    by (simp add: gsw_sound_transport_poll_def Let_def example_position gsw_sound_position_before_def)
qed

theorem sound_poll_oldest_complete_witness:
  "\<exists>w'. gsw_sound_transport_poll register_file 7 example_pending = Some (GSW_SOUND_OK, 9, w') \<and>
        completion_items (transport w') = tl (completion_items (transport example_pending))"
  using example_poll sound_poll_oldest_complete [OF example_pending_ok] by blast

text \<open>
  Reading the 64-bit position returns exactly when some round of reads finds the high word
  unchanged around the low word, and the value returned is that of a settled round.
\<close>

theorem sound_position_returns:
  "(gsw_sound_position_read m w \<noteq> None) =
     (\<exists>n. position_settled m (((\<lambda>d. snd (position_round m d)) ^^ n) (device w))) \<and>
   pred_option (\<lambda>(low, high, w'). \<exists>d. position_round m d = ((high, low, high), device w') \<and>
       transport w' = transport w) (gsw_sound_position_read m w)"
proof
  show "(gsw_sound_position_read m w \<noteq> None) =
     (\<exists>n. position_settled m (((\<lambda>d. snd (position_round m d)) ^^ n) (device w)))"
    using position_read_settles [of m w] position_read_stops [of m _ w] by blast
  show "pred_option (\<lambda>(low, high, w'). \<exists>d. position_round m d = ((high, low, high), device w') \<and>
       transport w' = transport w) (gsw_sound_position_read m w)"
    using position_read_snapshot [of m w] by (cases "gsw_sound_position_read m w") fastforce+
qed

text \<open>
  An identifier that is not the open stream's reaches nothing: every stream operation
  refuses it with the validation error and leaves transport, ring and device as they are.
\<close>

theorem sound_stale_stream_refused:
  assumes "gsw_sound_stream_validate (transport w) sid \<noteq> GSW_SOUND_OK"
  defines "e \<equiv> gsw_sound_stream_validate (transport w) sid"
  shows "gsw_sound_transport_close m sid w = (e, w) \<and>
    gsw_sound_transport_submit m memory sid data bytes flags tok w = (e, 0, w) \<and>
    gsw_sound_transport_poll m sid w = Some (e, 0, w) \<and>
    gsw_sound_transport_pause m sid w = (e, w) \<and> gsw_sound_transport_restart m sid w = (e, w) \<and>
    gsw_sound_transport_reset m sid w = (e, w) \<and>
    gsw_sound_transport_position m sid w = Some (e, None, w) \<and>
    (e = GSW_SOUND_UNAVAILABLE \<or> e = GSW_SOUND_INVALID)"
proof -
  have "e = GSW_SOUND_UNAVAILABLE \<or> e = GSW_SOUND_INVALID"
    using assms(1) by (auto simp: e_def gsw_sound_stream_validate_def)
  with assms(1) show ?thesis
    by (simp add: e_def gsw_sound_transport_close_def gsw_sound_transport_submit_def
        gsw_sound_transport_poll_def gsw_sound_transport_pause_def gsw_sound_transport_restart_def
        gsw_sound_transport_reset_def gsw_sound_transport_position_def Let_def)
qed

theorem sound_stale_stream_refused_witness:
  "gsw_sound_stream_validate (transport example_world) 6 = GSW_SOUND_INVALID \<and>
   gsw_sound_transport_close register_file 6 example_world = (GSW_SOUND_INVALID, example_world)"
proof -
  have v: "gsw_sound_stream_validate (transport example_world) 6 = GSW_SOUND_INVALID"
    by (simp add: example_world_def example_stream_def gsw_sound_stream_validate_def)
  with sound_stale_stream_refused [of example_world 6 register_file] show ?thesis by simp
qed

text \<open>Servicing the interrupt, with the three causes as bits.\<close>

lemma service_irq_bits:
  "gsw_sound_service_irq m w =
     (let (v, d) = mmio_read m GSW_PCM_REG_IRQ_STATUS (device w);
          s = v AND 7; t = transport w
      in if \<not> bound t then (False, w)
         else if s = 0 then (False, w\<lparr>device := d\<rparr>)
         else (True, w\<lparr>device := mmio_write m GSW_PCM_REG_IRQ_STATUS s d,
                transport := t\<lparr>pending_irq_status := pending_irq_status t OR s,
                  period_irq_count := period_irq_count t + of_bool (bit s 0),
                  underrun_irq_count := underrun_irq_count t + of_bool (bit s 1),
                  invalid_irq_count := invalid_irq_count t + of_bool (bit s 2)\<rparr>\<rparr>))"
proof -
  have b: "s AND 1 \<noteq> 0 \<longleftrightarrow> bit s 0" "s AND 2 \<noteq> 0 \<longleftrightarrow> bit s 1" "s AND 4 \<noteq> 0 \<longleftrightarrow> bit s 2" for s :: u32
    using and_exp_eq_0_iff_not_bit [of s 0] and_exp_eq_0_iff_not_bit [of s 1]
      and_exp_eq_0_iff_not_bit [of s 2] by simp_all
  show ?thesis
    by (simp add: gsw_sound_service_irq_def gsw_sound_read_def gsw_sound_write_def Let_def split_beta
        GSW_PCM_IRQ_MASK_def GSW_PCM_IRQ_PERIOD_def GSW_PCM_IRQ_UNDERRUN_def GSW_PCM_IRQ_INVALID_def b)
qed

text \<open>
  On a device whose interrupt status register clears the bits written to it, the interrupt
  handler deasserts the level-triggered line before it returns: it claims the interrupt exactly
  when a cause was pending, no cause is pending afterwards, each cause is recorded and counted
  once, and a second call finds nothing and changes nothing.
\<close>

theorem sound_irq_deasserted:
  fixes level :: "'d \<Rightarrow> u32"
  assumes status_read: "\<And>d. mmio_read m GSW_PCM_REG_IRQ_STATUS d = (level d, d)"
    and status_write: "\<And>v d. level (mmio_write m GSW_PCM_REG_IRQ_STATUS v d) = level d AND NOT v"
    and "bound (transport w)" "interrupt_mode (transport w)"
  shows "case gsw_sound_transport_handle_interrupt m w of (claimed, w') \<Rightarrow>
    (claimed \<longleftrightarrow> level (device w) AND GSW_PCM_IRQ_MASK \<noteq> 0) \<and>
    level (device w') AND GSW_PCM_IRQ_MASK = 0 \<and>
    gsw_sound_transport_handle_interrupt m w' = (False, w') \<and>
    pending_irq_status (transport w') =
      pending_irq_status (transport w) OR (level (device w) AND GSW_PCM_IRQ_MASK) \<and>
    period_irq_count (transport w') = period_irq_count (transport w) + of_bool (bit (level (device w)) 0) \<and>
    underrun_irq_count (transport w') = underrun_irq_count (transport w) + of_bool (bit (level (device w)) 1) \<and>
    invalid_irq_count (transport w') = invalid_irq_count (transport w) + of_bool (bit (level (device w)) 2)"
proof -
  let ?l = "level (device w)"
  have bits: "bit (?l AND 7) n \<longleftrightarrow> bit ?l n" if "n < 3" for n
    using that bit_mask_iff [of 3 n, where 'a = "32 word"]
    by (auto simp: bit_and_iff mask_numeral)
  have cleared: "(?l AND NOT (?l AND 7)) AND 7 = 0"
    by (rule bit_eqI) (auto simp: bit_simps)
  have idle: "\<not> bit ?l n" if "?l AND 7 = 0" "n < 3" for n
    using bits [OF that(2)] that(1) by simp
  show ?thesis
    using assms bits idle cleared
    by (cases "?l AND 7 = 0")
       (simp_all add: gsw_sound_transport_handle_interrupt_def service_irq_bits Let_def GSW_PCM_IRQ_MASK_def)
qed

theorem sound_irq_deasserted_witness:
  "\<exists>w'. gsw_sound_transport_handle_interrupt
      \<lparr>mmio_read = (\<lambda>r d. (d r, d)), mmio_write = (\<lambda>r v d. d(r := d r AND NOT v))\<rparr>
      (example_world\<lparr>device := (\<lambda>_. 5), transport := (transport example_world)\<lparr>interrupt_mode := True\<rparr>\<rparr>)
    = (True, w') \<and> device w' GSW_PCM_REG_IRQ_STATUS AND 7 = 0"
proof -
  let ?m = "\<lparr>mmio_read = (\<lambda>r d. (d r, d)), mmio_write = (\<lambda>r v d. d(r := d r AND NOT v))\<rparr> :: (u32 \<Rightarrow> u32) mmio"
  let ?w = "example_world\<lparr>device := (\<lambda>_. 5), transport := (transport example_world)\<lparr>interrupt_mode := True\<rparr>\<rparr>"
  have "bound (transport ?w)" "interrupt_mode (transport ?w)"
    by (simp_all add: example_world_def example_stream_def)
  then show ?thesis
    using sound_irq_deasserted [where m = ?m and w = ?w and level = "\<lambda>d. d GSW_PCM_REG_IRQ_STATUS"]
    by (auto simp: GSW_PCM_IRQ_MASK_def split: prod.splits)
qed

end
