(* ===== verification/Packed_Memory.thy ===== *)
theory Packed_Memory
  imports Gsw_Prelude
begin

text \<open>
  Packed little-endian structures in byte-addressed memory: the command rings of the display
  transports, the request buffers of the DeviceIoControl entries and the request block of the
  sound driver are all read and written this way. The locale \<open>wire_struct\<close> states what both
  sides of such an interface rely on: a record and its doublewords determine each other.
\<close>

section \<open>Bytes of an integer\<close>

definition le16 :: "u16 \<Rightarrow> u8 list" where
  "le16 x = [ucast x, ucast (drop_bit 8 x)]"

definition le32 :: "u32 \<Rightarrow> u8 list" where
  "le32 x = [ucast x, ucast (drop_bit 8 x), ucast (drop_bit 16 x), ucast (drop_bit 24 x)]"

lemma length_le [simp]: "length (le16 x) = 2" "length (le32 y) = 4"
  by (simp_all add: le16_def le32_def)

lemma length_words [simp]: "length (concat (map le32 ws)) = 4 * length ws"
  by (induction ws) simp_all

section \<open>Memory\<close>

text \<open>\<open>memcpy\<close> of a byte list into shared memory.\<close>

definition mem_put :: "u32 \<Rightarrow> u8 list \<Rightarrow> (u32 \<Rightarrow> u8) \<Rightarrow> (u32 \<Rightarrow> u8)" where
  "mem_put start bs rm = (\<lambda>x. if unat start \<le> unat x \<and> unat x < unat start + length bs
     then bs ! (unat x - unat start) else rm x)"

definition mem_dword :: "(u32 \<Rightarrow> u8) \<Rightarrow> u32 \<Rightarrow> u32" where
  "mem_dword mem a = ucast (mem a) OR push_bit 8 (ucast (mem (a + 1))) OR
     push_bit 16 (ucast (mem (a + 2))) OR push_bit 24 (ucast (mem (a + 3)))"

text \<open>
  \<open>mem_dwords\<close> is the \<open>memcpy\<close> of a structure of doublewords out of memory,
  \<open>put_dwords\<close> the one into it, \<open>mem_bytes\<close> reads a run of bytes.
\<close>

definition mem_dwords :: "(u32 \<Rightarrow> u8) \<Rightarrow> u32 \<Rightarrow> nat \<Rightarrow> u32 list" where
  "mem_dwords mem a n = map (\<lambda>i. mem_dword mem (a + 4 * of_nat i)) [0..<n]"

definition put_dwords :: "u32 \<Rightarrow> u32 list \<Rightarrow> (u32 \<Rightarrow> u8) \<Rightarrow> (u32 \<Rightarrow> u8)" where
  "put_dwords a ws = mem_put a (concat (map le32 ws))"

definition mem_bytes :: "(u32 \<Rightarrow> u8) \<Rightarrow> u32 \<Rightarrow> nat \<Rightarrow> u8 list" where
  "mem_bytes mem a n = map (\<lambda>i. mem (a + of_nat i)) [0..<n]"

section \<open>Reading back what was written\<close>

lemma le32_join:
  "ucast (ucast w :: u8) OR push_bit 8 (ucast (ucast (drop_bit 8 w) :: u8)) OR
   push_bit 16 (ucast (ucast (drop_bit 16 w) :: u8)) OR
   push_bit 24 (ucast (ucast (drop_bit 24 w) :: u8)) = (w :: u32)"
proof (rule bit_word_eqI)
  fix n
  assume "n < LENGTH(32)"
  then show "bit (ucast (ucast w :: u8) OR push_bit 8 (ucast (ucast (drop_bit 8 w) :: u8)) OR
      push_bit 16 (ucast (ucast (drop_bit 16 w) :: u8)) OR
      push_bit 24 (ucast (ucast (drop_bit 24 w) :: u8)) :: u32) n = bit w n"
    by (cases "n < 8"; cases "n < 16"; cases "n < 24") (auto simp: bit_simps)
qed

lemma mem_put_in:
  "unat start + length bs \<le> 2 ^ 32 \<Longrightarrow> i < length bs \<Longrightarrow> mem_put start bs rm (start + of_nat i) = bs ! i"
proof -
  assume a: "unat start + length bs \<le> 2 ^ 32" "i < length bs"
  then have "unat (start + of_nat i) = unat start + i"
    by (simp add: unat_word_ariths unat_of_nat mod_simps)
  with a show ?thesis by (simp add: mem_put_def)
qed

lemma mem_put_outside:
  "\<not> (unat a \<le> unat x \<and> unat x < unat a + length bs) \<Longrightarrow> mem_put a bs mem x = mem x"
  by (auto simp: mem_put_def)

lemma nth_concat_le32:
  "i < length ws \<Longrightarrow> j < 4 \<Longrightarrow> concat (map le32 ws) ! (4 * i + j) = le32 (ws ! i) ! j"
proof (induction ws arbitrary: i)
  case (Cons w ws)
  then show ?case by (cases i) (simp_all add: nth_append)
qed simp

lemma put_dwords_read:
  assumes "unat a + 4 * length ws \<le> 2 ^ 32"
  shows "mem_dwords (put_dwords a ws mem) a (length ws) = ws"
proof (rule nth_equalityI)
  fix i
  assume "i < length (mem_dwords (put_dwords a ws mem) a (length ws))"
  then have i: "i < length ws" by (simp add: mem_dwords_def)
  have b: "put_dwords a ws mem (a + of_nat (4 * i + j)) = le32 (ws ! i) ! j" if "j < 4" for j
    using mem_put_in [of a "concat (map le32 ws)" "4 * i + j" mem] assms i that
      nth_concat_le32 [OF i that] by (simp add: put_dwords_def)
  have "mem_dword (put_dwords a ws mem) (a + 4 * of_nat i) = ws ! i"
    using b [of 0] b [of 1] b [of 2] b [of 3] le32_join [of "ws ! i"]
    by (simp add: mem_dword_def le32_def ac_simps)
  then show "mem_dwords (put_dwords a ws mem) a (length ws) ! i = ws ! i"
    using i by (simp add: mem_dwords_def)
qed (simp add: mem_dwords_def)

lemma put_dwords_outside:
  "\<not> (unat a \<le> unat x \<and> unat x < unat a + 4 * length ws) \<Longrightarrow> put_dwords a ws mem x = mem x"
  by (simp add: put_dwords_def mem_put_outside)

lemma put_dwords_override:
  assumes "4 * length ws = n"
  shows "put_dwords a ws mem =
    override_on mem (put_dwords a ws mem) {x. unat a \<le> unat x \<and> unat x < unat a + n}"
  using put_dwords_outside [of a _ ws mem] assms by (auto simp: override_on_def fun_eq_iff)

text \<open>
  A packed structure: a record and its doublewords determine each other. What one side writes
  the other side reads.
\<close>

locale wire_struct =
  fixes dwords :: "'r \<Rightarrow> u32 list"
    and of_dwords :: "u32 list \<Rightarrow> 'r"
    and count :: nat
  assumes dwords_count: "length (dwords r) = count"
    and of_dwords_dwords: "of_dwords (dwords r) = r"
begin

lemma read_back:
  assumes "unat a + 4 * count \<le> 2 ^ 32"
  shows "of_dwords (mem_dwords (put_dwords a (dwords r) mem) a count) = r"
  using put_dwords_read [of a "dwords r" mem] assms by (simp add: dwords_count of_dwords_dwords)

end

end
