(* ===== verification/Sound_Vxd.thy ===== *)
theory Sound_Vxd
  imports Sound_Transport Packed_Memory
begin

text \<open>
  The sound VxD (\<^verbatim>\<open>gsw-sound/vxd/gswsound_vxd.c\<close> with \<^verbatim>\<open>gswsound_ddk.h\<close>, and the
  resource query of \<^verbatim>\<open>build-support/vxdwraps.c\<close>) on top of the transport: Plug and Play
  start and stop, the interrupt, the request interface for the 16-bit driver with its page
  locking, and the start telemetry. The build modelled is the default one, without the
  diagnostic polling fallback.

  Windows (VMM, VPICD, Configuration Manager, MMDEVLDR, the registry) is outside the
  repository: its services are the functions of the record \<open>vxd_env\<close> and act on the same
  state as the device registers. The world also counts what the driver holds of them: locked
  page ranges, allocated pages and virtualised interrupts, so that leaks can be excluded.
\<close>

section \<open>Constants\<close>

definition GSW_SOUND_RING_BYTES :: u32 where "GSW_SOUND_RING_BYTES = 4 * 1024"
definition GSW_SOUND_RING3_LIMIT :: u32 where "GSW_SOUND_RING3_LIMIT = 0xC0000000"
definition GSW_SOUND_PTE_PRESENT :: u32 where "GSW_SOUND_PTE_PRESENT = 1"
definition GSW_SOUND_PTE_WRITE :: u32 where "GSW_SOUND_PTE_WRITE = 2"
definition GSW_SOUND_PTE_USER :: u32 where "GSW_SOUND_PTE_USER = 4"
definition GSW_SOUND_PM_API_VERSION :: u16 where "GSW_SOUND_PM_API_VERSION = 1"
definition GSW_SOUND_DDK_MMIO_ALIGNMENT :: u32 where "GSW_SOUND_DDK_MMIO_ALIGNMENT = 0x1000"
definition GSW_SOUND_DDK_IRQ_MIN :: u8 where "GSW_SOUND_DDK_IRQ_MIN = 3"
definition GSW_SOUND_DDK_IRQ_MAX :: u8 where "GSW_SOUND_DDK_IRQ_MAX = 15"
definition GSW_SOUND_DDK_MAX_MEMORY_WINDOWS :: u32 where "GSW_SOUND_DDK_MAX_MEMORY_WINDOWS = 4"
definition GSW_SOUND_DDK_MAX_IRQS :: u32 where "GSW_SOUND_DDK_MAX_IRQS = 4"
definition GSW_CM_MAX_MEMORY_WINDOWS :: u16 where "GSW_CM_MAX_MEMORY_WINDOWS = 9"
definition GSW_CM_MAX_IRQS :: u16 where "GSW_CM_MAX_IRQS = 7"
definition GSW_SOUND_CONFIG_START :: u32 where "GSW_SOUND_CONFIG_START = 1"
definition GSW_SOUND_CONFIG_STOP :: u32 where "GSW_SOUND_CONFIG_STOP = 2"
definition GSW_SOUND_CONFIG_TEST :: u32 where "GSW_SOUND_CONFIG_TEST = 3"
definition GSW_SOUND_CONFIG_REMOVE :: u32 where "GSW_SOUND_CONFIG_REMOVE = 4"
definition GSW_SOUND_CR_DEFAULT :: u32 where "GSW_SOUND_CR_DEFAULT = 1"
definition GSW_SOUND_CR_FAILURE :: u32 where "GSW_SOUND_CR_FAILURE = 0x13"
definition GSW_PCM_CONTROL_SIZE :: u32 where "GSW_PCM_CONTROL_SIZE = 0x1000"
definition GSW_SOUND_TELEMETRY_MAGIC :: u32 where "GSW_SOUND_TELEMETRY_MAGIC = 0x54575347"
definition GSW_SOUND_TELEMETRY_VERSION :: u32 where "GSW_SOUND_TELEMETRY_VERSION = 1"

text \<open>The success code of the Configuration Manager.\<close>

definition CR_SUCCESS :: u32 where "CR_SUCCESS = 0"

section \<open>Data\<close>

datatype GSW_SOUND_TELEMETRY_CHECKPOINT =
    GSW_SOUND_TELEMETRY_SEED
  | GSW_SOUND_TELEMETRY_PNP
  | GSW_SOUND_TELEMETRY_REGISTER
  | GSW_SOUND_TELEMETRY_START
  | GSW_SOUND_TELEMETRY_RESOURCE
  | GSW_SOUND_TELEMETRY_MAP
  | GSW_SOUND_TELEMETRY_PAGE
  | GSW_SOUND_TELEMETRY_BIND
  | GSW_SOUND_TELEMETRY_IRQ
  | GSW_SOUND_TELEMETRY_MODE
  | GSW_SOUND_TELEMETRY_SUCCESS

datatype GSW_SOUND_TELEMETRY_OUTCOME =
    GSW_SOUND_TELEMETRY_NOT_RUN
  | GSW_SOUND_TELEMETRY_ENTER
  | GSW_SOUND_TELEMETRY_PASSED
  | GSW_SOUND_TELEMETRY_FAILED

primrec checkpoint_code :: "GSW_SOUND_TELEMETRY_CHECKPOINT \<Rightarrow> u32" where
  "checkpoint_code GSW_SOUND_TELEMETRY_SEED = 0"
| "checkpoint_code GSW_SOUND_TELEMETRY_PNP = 1"
| "checkpoint_code GSW_SOUND_TELEMETRY_REGISTER = 2"
| "checkpoint_code GSW_SOUND_TELEMETRY_START = 3"
| "checkpoint_code GSW_SOUND_TELEMETRY_RESOURCE = 4"
| "checkpoint_code GSW_SOUND_TELEMETRY_MAP = 5"
| "checkpoint_code GSW_SOUND_TELEMETRY_PAGE = 6"
| "checkpoint_code GSW_SOUND_TELEMETRY_BIND = 7"
| "checkpoint_code GSW_SOUND_TELEMETRY_IRQ = 8"
| "checkpoint_code GSW_SOUND_TELEMETRY_MODE = 9"
| "checkpoint_code GSW_SOUND_TELEMETRY_SUCCESS = 10"

primrec outcome_code :: "GSW_SOUND_TELEMETRY_OUTCOME \<Rightarrow> u32" where
  "outcome_code GSW_SOUND_TELEMETRY_NOT_RUN = 0"
| "outcome_code GSW_SOUND_TELEMETRY_ENTER = 1"
| "outcome_code GSW_SOUND_TELEMETRY_PASSED = 2"
| "outcome_code GSW_SOUND_TELEMETRY_FAILED = 3"

primrec result_code :: "GSW_SOUND_RESULT \<Rightarrow> u32" where
  "result_code GSW_SOUND_OK = 0"
| "result_code GSW_SOUND_UNAVAILABLE = 1"
| "result_code GSW_SOUND_INVALID = 2"
| "result_code GSW_SOUND_BUSY = 3"
| "result_code GSW_SOUND_WOULD_BLOCK = 4"
| "result_code GSW_SOUND_IO_ERROR = 5"
| "result_code GSW_SOUND_NO_COMPLETION = 6"

record GSW_SOUND_PM_REQUEST =
  pm_size :: u16
  pm_version :: u16
  pm_opcode :: u16
  pm_reserved_zero :: u16
  pm_stream_id :: u32
  pm_flags :: u32
  pm_sample_rate :: u32
  pm_channels :: u16
  pm_bits_per_sample :: u16
  pm_buffer_linear :: u32
  pm_buffer_bytes :: u32
  pm_user_token :: u32
  pm_accepted_bytes :: u32
  pm_completed_token :: u32
  pm_position_low :: u32
  pm_position_high :: u32
  pm_gain_q16 :: u32
  pm_capabilities :: u32
  pm_result :: u32

text \<open>The opcodes as they stand in the request.\<close>

definition GSW_SOUND_PM_QUERY :: u16 where "GSW_SOUND_PM_QUERY = 0"
definition GSW_SOUND_PM_OPEN :: u16 where "GSW_SOUND_PM_OPEN = 1"
definition GSW_SOUND_PM_CLOSE :: u16 where "GSW_SOUND_PM_CLOSE = 2"
definition GSW_SOUND_PM_SUBMIT :: u16 where "GSW_SOUND_PM_SUBMIT = 3"
definition GSW_SOUND_PM_POLL :: u16 where "GSW_SOUND_PM_POLL = 4"
definition GSW_SOUND_PM_PAUSE :: u16 where "GSW_SOUND_PM_PAUSE = 5"
definition GSW_SOUND_PM_RESTART :: u16 where "GSW_SOUND_PM_RESTART = 6"
definition GSW_SOUND_PM_RESET :: u16 where "GSW_SOUND_PM_RESET = 7"
definition GSW_SOUND_PM_GET_POSITION :: u16 where "GSW_SOUND_PM_GET_POSITION = 8"
definition GSW_SOUND_PM_GET_GAIN :: u16 where "GSW_SOUND_PM_GET_GAIN = 9"
definition GSW_SOUND_PM_SET_GAIN :: u16 where "GSW_SOUND_PM_SET_GAIN = 10"

lemmas pm_opcodes = GSW_SOUND_PM_QUERY_def GSW_SOUND_PM_OPEN_def GSW_SOUND_PM_CLOSE_def
  GSW_SOUND_PM_SUBMIT_def GSW_SOUND_PM_POLL_def GSW_SOUND_PM_PAUSE_def GSW_SOUND_PM_RESTART_def
  GSW_SOUND_PM_RESET_def GSW_SOUND_PM_GET_POSITION_def GSW_SOUND_PM_GET_GAIN_def
  GSW_SOUND_PM_SET_GAIN_def

text \<open>The packed structure: two words share a doubleword where the fields are 16 bits wide.\<close>

definition pair16 :: "u16 \<Rightarrow> u16 \<Rightarrow> u32" where
  "pair16 low high = ucast low OR push_bit 16 (ucast high)"

definition GSW_SOUND_PM_REQUEST_dwords :: "GSW_SOUND_PM_REQUEST \<Rightarrow> u32 list" where
  "GSW_SOUND_PM_REQUEST_dwords r =
     [pair16 (pm_size r) (pm_version r), pair16 (pm_opcode r) (pm_reserved_zero r), pm_stream_id r,
      pm_flags r, pm_sample_rate r, pair16 (pm_channels r) (pm_bits_per_sample r), pm_buffer_linear r,
      pm_buffer_bytes r, pm_user_token r, pm_accepted_bytes r, pm_completed_token r, pm_position_low r,
      pm_position_high r, pm_gain_q16 r, pm_capabilities r, pm_result r]"

definition GSW_SOUND_PM_REQUEST_of :: "u32 list \<Rightarrow> GSW_SOUND_PM_REQUEST" where
  "GSW_SOUND_PM_REQUEST_of ws =
     \<lparr>pm_size = ucast (ws ! 0), pm_version = ucast (drop_bit 16 (ws ! 0)), pm_opcode = ucast (ws ! 1),
      pm_reserved_zero = ucast (drop_bit 16 (ws ! 1)), pm_stream_id = ws ! 2, pm_flags = ws ! 3,
      pm_sample_rate = ws ! 4, pm_channels = ucast (ws ! 5),
      pm_bits_per_sample = ucast (drop_bit 16 (ws ! 5)), pm_buffer_linear = ws ! 6,
      pm_buffer_bytes = ws ! 7, pm_user_token = ws ! 8, pm_accepted_bytes = ws ! 9,
      pm_completed_token = ws ! 10, pm_position_low = ws ! 11, pm_position_high = ws ! 12,
      pm_gain_q16 = ws ! 13, pm_capabilities = ws ! 14, pm_result = ws ! 15\<rparr>"

record GSW_SOUND_DDK_MEMORY_WINDOW =
  window_base :: u32
  window_bytes :: u32

record GSW_SOUND_DDK_ALLOCATION =
  memory_count :: u32
  memory_windows :: "GSW_SOUND_DDK_MEMORY_WINDOW list"
  irq_count :: u32
  irq_numbers :: "u8 list"

record GSW_SOUND_DDK_RESOURCES =
  mmio_physical :: u32
  mmio_bytes :: u32
  irq_number :: u8

record GSW_SOUND_DDK_IRQ =
  irq_handle :: u32
  irq_installed :: bool

record GSW_SOUND_LOCKED_RANGE =
  first_page :: u32
  page_count :: u32
  range_locked :: bool

text \<open>
  The fields of the Configuration Manager's raw configuration that the resource query reads;
  the arrays are functions of the index.
\<close>

record GSW_CMCONFIG_RAW =
  cm_memory_count :: u16
  cm_memory_base :: "nat \<Rightarrow> u32"
  cm_memory_length :: "nat \<Rightarrow> u32"
  cm_irq_count :: u16
  cm_irq_number :: "nat \<Rightarrow> u8"

section \<open>State and services\<close>

record vxd_state =
  gsw_ring :: u32
  gsw_ring_physical :: u32
  gsw_registers :: u32
  gsw_devnode :: u32
  gsw_resources :: GSW_SOUND_DDK_RESOURCES
  gsw_irq :: GSW_SOUND_DDK_IRQ
  gsw_devnode_registered :: bool
  gsw_device_started :: bool
  gsw_diagnostic_polling :: bool
  gsw_telemetry_sequence :: u32
  gsw_telemetry_last_checkpoint :: GSW_SOUND_TELEMETRY_CHECKPOINT

record 'd vxd_world =
  sound :: "'d sound_world"
  vxd :: vxd_state
  client :: "u32 \<Rightarrow> u8"
  held_ranges :: "(u32 \<times> u32) list"
  held_pages :: "u32 list"
  held_irqs :: "u32 list"

record 'd vxd_env =
  vxd_mmio :: "'d mmio"
  LinPageLock :: "u32 \<Rightarrow> u32 \<Rightarrow> 'd \<Rightarrow> bool \<times> 'd"
  LinPageUnLock :: "u32 \<Rightarrow> u32 \<Rightarrow> 'd \<Rightarrow> 'd"
  CopyPageTable :: "u32 \<Rightarrow> 'd \<Rightarrow> u32 \<times> 'd"
  MapPhysToLinear :: "u32 \<Rightarrow> u32 \<Rightarrow> 'd \<Rightarrow> u32 \<times> 'd"
  PageAllocate :: "u32 \<Rightarrow> 'd \<Rightarrow> (u32 \<times> u32 \<times> (u32 \<Rightarrow> u8)) \<times> 'd"
  PageFree :: "u32 \<Rightarrow> 'd \<Rightarrow> 'd"
  RegOpenKey :: "'d \<Rightarrow> u32 option \<times> 'd"
  RegSetValueEx :: "u32 \<Rightarrow> u8 list \<Rightarrow> 'd \<Rightarrow> 'd"
  RegCloseKey :: "u32 \<Rightarrow> 'd \<Rightarrow> 'd"
  Get_Alloc_Log_Conf :: "u32 \<Rightarrow> 'd \<Rightarrow> (u32 \<times> GSW_CMCONFIG_RAW) \<times> 'd"
  Virtualize_IRQ :: "u8 \<Rightarrow> 'd \<Rightarrow> u32 option \<times> 'd"
  Physically_Mask :: "u32 \<Rightarrow> 'd \<Rightarrow> 'd"
  Physically_Unmask :: "u32 \<Rightarrow> 'd \<Rightarrow> 'd"
  Phys_EOI :: "u32 \<Rightarrow> 'd \<Rightarrow> 'd"
  Force_Default_Behavior :: "u32 \<Rightarrow> 'd \<Rightarrow> 'd"
  Register_Device_Driver :: "u32 \<Rightarrow> 'd \<Rightarrow> (u32 \<times> u32) list \<times> 'd"

text \<open>
  \<open>PageAllocate\<close> returns the linear address, what it stores as the physical one, and the
  contents of the new pages. \<open>Virtualize_IRQ\<close> returns \<open>None\<close> with the carry flag set.
  \<open>Register_Device_Driver\<close> may call the configuration handler before it returns: it yields
  the functions and device nodes of these calls in order.
\<close>

definition on_device :: "('d \<Rightarrow> 'a \<times> 'd) \<Rightarrow> 'd vxd_world \<Rightarrow> 'a \<times> 'd vxd_world" where
  "on_device f w = (fst (f (device (sound w))),
     w\<lparr>sound := (sound w)\<lparr>device := snd (f (device (sound w)))\<rparr>\<rparr>)"

definition do_device :: "('d \<Rightarrow> 'd) \<Rightarrow> 'd vxd_world \<Rightarrow> 'd vxd_world" where
  "do_device f w = w\<lparr>sound := (sound w)\<lparr>device := f (device (sound w))\<rparr>\<rparr>"

definition vxd_register :: "'d vxd_env \<Rightarrow> u32 \<Rightarrow> 'd vxd_world \<Rightarrow> u32 \<times> 'd vxd_world" where
  "vxd_register e r = on_device (mmio_read (vxd_mmio e) r)"

definition LinPageLock_call :: "'d vxd_env \<Rightarrow> u32 \<Rightarrow> u32 \<Rightarrow> 'd vxd_world \<Rightarrow> bool \<times> 'd vxd_world" where
  "LinPageLock_call e page count w =
     (let (ok, w) = on_device (LinPageLock e page count) w
      in (ok, if ok then w\<lparr>held_ranges := (page, count) # held_ranges w\<rparr> else w))"

definition LinPageUnLock_call :: "'d vxd_env \<Rightarrow> u32 \<Rightarrow> u32 \<Rightarrow> 'd vxd_world \<Rightarrow> 'd vxd_world" where
  "LinPageUnLock_call e page count w =
     do_device (LinPageUnLock e page count) (w\<lparr>held_ranges := remove1 (page, count) (held_ranges w)\<rparr>)"

definition PageAllocate_call ::
    "'d vxd_env \<Rightarrow> u32 \<Rightarrow> 'd vxd_world \<Rightarrow> (u32 \<times> u32 \<times> (u32 \<Rightarrow> u8)) \<times> 'd vxd_world" where
  "PageAllocate_call e bytes w =
     (let (page, w) = on_device (PageAllocate e bytes) w
      in (page, if fst page \<noteq> 0 then w\<lparr>held_pages := fst page # held_pages w\<rparr> else w))"

definition PageFree_call :: "'d vxd_env \<Rightarrow> u32 \<Rightarrow> 'd vxd_world \<Rightarrow> 'd vxd_world" where
  "PageFree_call e page w = do_device (PageFree e page) (w\<lparr>held_pages := remove1 page (held_pages w)\<rparr>)"

section \<open>Telemetry\<close>

definition gsw_telemetry_checkpoint ::
    "'d vxd_env \<Rightarrow> GSW_SOUND_TELEMETRY_CHECKPOINT \<Rightarrow> GSW_SOUND_TELEMETRY_OUTCOME \<Rightarrow> u32 \<Rightarrow> u32 \<Rightarrow>
     'd vxd_world \<Rightarrow> 'd vxd_world" where
  "gsw_telemetry_checkpoint e checkpoint outcome detail0 detail1 w =
     (let sequence = gsw_telemetry_sequence (vxd w) + 1;
          telemetry = concat (map le32 [GSW_SOUND_TELEMETRY_MAGIC, GSW_SOUND_TELEMETRY_VERSION, 32,
            sequence, checkpoint_code checkpoint, outcome_code outcome, detail0, detail1]);
          w = w\<lparr>vxd := (vxd w)\<lparr>gsw_telemetry_sequence := sequence,
                 gsw_telemetry_last_checkpoint := checkpoint\<rparr>\<rparr>;
          (key, w) = on_device (RegOpenKey e) w
      in case key of
           None \<Rightarrow> w
         | Some key \<Rightarrow> do_device (RegCloseKey e key) (do_device (RegSetValueEx e key telemetry) w))"

section \<open>Resources\<close>

definition gsw_configmg_get_allocated_resources ::
    "'d vxd_env \<Rightarrow> u32 \<Rightarrow> 'd vxd_world \<Rightarrow> (u32 \<times> GSW_SOUND_DDK_ALLOCATION) \<times> 'd vxd_world" where
  "gsw_configmg_get_allocated_resources e devnode w =
     (let zero = \<lparr>memory_count = 0, memory_windows = replicate 4 \<lparr>window_base = 0, window_bytes = 0\<rparr>,
                  irq_count = 0, irq_numbers = replicate 4 0\<rparr>;
          ((result, configuration), w) = on_device (Get_Alloc_Log_Conf e devnode) w
      in if result \<noteq> CR_SUCCESS then ((result, zero), w)
         else if cm_memory_count configuration > GSW_CM_MAX_MEMORY_WINDOWS \<or>
                 cm_irq_count configuration > GSW_CM_MAX_IRQS
         then ((GSW_SOUND_CR_FAILURE, zero), w)
         else if ucast (cm_memory_count configuration) > GSW_SOUND_DDK_MAX_MEMORY_WINDOWS \<or>
                 ucast (cm_irq_count configuration) > GSW_SOUND_DDK_MAX_IRQS
         then ((GSW_SOUND_CR_FAILURE, zero), w)
         else ((CR_SUCCESS,
            \<lparr>memory_count = ucast (cm_memory_count configuration),
             memory_windows = fold (\<lambda>i ws. ws[i := \<lparr>window_base = cm_memory_base configuration i,
                 window_bytes = cm_memory_length configuration i\<rparr>])
               [0..<unat (cm_memory_count configuration)] (memory_windows zero),
             irq_count = ucast (cm_irq_count configuration),
             irq_numbers = fold (\<lambda>i ns. ns[i := cm_irq_number configuration i])
               [0..<unat (cm_irq_count configuration)] (irq_numbers zero)\<rparr>), w))"

definition resources_zero :: GSW_SOUND_DDK_RESOURCES where
  "resources_zero = \<lparr>mmio_physical = 0, mmio_bytes = 0, irq_number = 0\<rparr>"

definition gsw_window_usable :: "GSW_SOUND_DDK_MEMORY_WINDOW \<Rightarrow> bool" where
  "gsw_window_usable window \<longleftrightarrow>
     \<not> (window_bytes window < GSW_PCM_CONTROL_SIZE \<or>
        window_base window AND (GSW_SOUND_DDK_MMIO_ALIGNMENT - 1) \<noteq> 0 \<or>
        window_base window > 0xFFFFFFFF - (GSW_PCM_CONTROL_SIZE - 1))"

text \<open>The loop over the windows, with the resources found so far and the number of matches.\<close>

fun gsw_scan_windows ::
    "GSW_SOUND_DDK_MEMORY_WINDOW list \<Rightarrow> GSW_SOUND_DDK_RESOURCES \<Rightarrow> u32 \<Rightarrow> GSW_SOUND_DDK_RESOURCES \<times> u32" where
  "gsw_scan_windows [] resources matches = (resources, matches)"
| "gsw_scan_windows (x # xs) resources matches =
     (if gsw_window_usable x
      then gsw_scan_windows xs
             (resources\<lparr>mmio_physical := window_base x, mmio_bytes := window_bytes x\<rparr>) (matches + 1)
      else gsw_scan_windows xs resources matches)"

definition gsw_sound_ddk_get_allocated_resources ::
    "'d vxd_env \<Rightarrow> u32 \<Rightarrow> 'd vxd_world \<Rightarrow> (u32 \<times> GSW_SOUND_DDK_RESOURCES option) \<times> 'd vxd_world" where
  "gsw_sound_ddk_get_allocated_resources e devnode w =
     (if devnode = 0 then ((GSW_SOUND_CR_FAILURE, None), w)
      else
        (let ((result, allocation), w) = gsw_configmg_get_allocated_resources e devnode w
         in if result \<noteq> CR_SUCCESS then ((result, Some resources_zero), w)
            else if memory_count allocation > GSW_SOUND_DDK_MAX_MEMORY_WINDOWS \<or>
                    irq_count allocation > GSW_SOUND_DDK_MAX_IRQS
            then ((GSW_SOUND_CR_FAILURE, Some resources_zero), w)
            else
              (let (resources, matches) = gsw_scan_windows
                     (take (unat (memory_count allocation)) (memory_windows allocation)) resources_zero 0
               in if matches \<noteq> 1 \<or> irq_count allocation \<noteq> 1 \<or>
                     irq_numbers allocation ! 0 < GSW_SOUND_DDK_IRQ_MIN \<or>
                     irq_numbers allocation ! 0 > GSW_SOUND_DDK_IRQ_MAX
                  then ((GSW_SOUND_CR_FAILURE, Some resources), w)
                  else ((CR_SUCCESS, Some (resources\<lparr>irq_number := irq_numbers allocation ! 0\<rparr>)), w))))"

section \<open>The interrupt\<close>

definition gsw_vpicd_virtualize_irq :: "'d vxd_env \<Rightarrow> u8 \<Rightarrow> 'd vxd_world \<Rightarrow> u32 \<times> 'd vxd_world" where
  "gsw_vpicd_virtualize_irq e number w =
     (let (h, w) = on_device (Virtualize_IRQ e number) w;
          handle = (case h of None \<Rightarrow> 0 | Some handle \<Rightarrow> handle)
      in (handle, if handle \<noteq> 0 then w\<lparr>held_irqs := handle # held_irqs w\<rparr> else w))"

definition gsw_set_irq :: "GSW_SOUND_DDK_IRQ \<Rightarrow> 'd vxd_world \<Rightarrow> 'd vxd_world" where
  "gsw_set_irq irq w = w\<lparr>vxd := (vxd w)\<lparr>gsw_irq := irq\<rparr>\<rparr>"

definition gsw_sound_ddk_install_level_irq :: "'d vxd_env \<Rightarrow> u8 \<Rightarrow> 'd vxd_world \<Rightarrow> bool \<times> 'd vxd_world" where
  "gsw_sound_ddk_install_level_irq e number w =
     (if irq_installed (gsw_irq (vxd w)) \<or> number < GSW_SOUND_DDK_IRQ_MIN \<or> number > GSW_SOUND_DDK_IRQ_MAX
      then (False, w)
      else
        (let (handle, w) = gsw_vpicd_virtualize_irq e number w;
             w = gsw_set_irq ((gsw_irq (vxd w))\<lparr>irq_handle := handle\<rparr>) w
         in if handle = 0 then (False, w)
            else (True, do_device (Physically_Unmask e handle)
                          (gsw_set_irq ((gsw_irq (vxd w))\<lparr>irq_installed := True\<rparr>) w))))"

definition irq_zero :: GSW_SOUND_DDK_IRQ where
  "irq_zero = \<lparr>irq_handle = 0, irq_installed = False\<rparr>"

definition gsw_sound_ddk_remove_level_irq :: "'d vxd_env \<Rightarrow> 'd vxd_world \<Rightarrow> 'd vxd_world" where
  "gsw_sound_ddk_remove_level_irq e w =
     (let irq = gsw_irq (vxd w) in
      if \<not> irq_installed irq then w
      else
        (let w = do_device (Physically_Mask e (irq_handle irq)) w;
             w = do_device (Force_Default_Behavior e (irq_handle irq))
                   (w\<lparr>held_irqs := remove1 (irq_handle irq) (held_irqs w)\<rparr>)
         in gsw_set_irq irq_zero w))"

definition gsw_service_hardware_interrupt :: "'d vxd_env \<Rightarrow> u32 \<Rightarrow> 'd vxd_world \<Rightarrow> bool \<times> 'd vxd_world" where
  "gsw_service_hardware_interrupt e handle w =
     (if \<not> gsw_device_started (vxd w) \<or> \<not> irq_installed (gsw_irq (vxd w)) \<or>
         handle \<noteq> irq_handle (gsw_irq (vxd w))
      then (False, w)
      else
        (let (claimed, s) = gsw_sound_transport_handle_interrupt (vxd_mmio e) (sound w);
             w = w\<lparr>sound := s\<rparr>
         in if \<not> claimed then (False, w) else (True, do_device (Phys_EOI e handle) w)))"

text \<open>The entry VPICD calls returns with carry clear when the interrupt was handled.\<close>

definition gsw_hardware_interrupt :: "'d vxd_env \<Rightarrow> u32 \<Rightarrow> 'd vxd_world \<Rightarrow> bool \<times> 'd vxd_world" where
  "gsw_hardware_interrupt e eax w =
     (let (handled, w) = gsw_service_hardware_interrupt e eax w in (\<not> handled, w))"

section \<open>Page locking\<close>

text \<open>The loop over the pages: \<open>n\<close> are left. It stops at the first page without the required bits.\<close>

fun gsw_check_pages :: "'d vxd_env \<Rightarrow> u32 \<Rightarrow> u32 \<Rightarrow> nat \<Rightarrow> 'd vxd_world \<Rightarrow> bool \<times> 'd vxd_world" where
  "gsw_check_pages e required page 0 w = (True, w)"
| "gsw_check_pages e required page (Suc n) w =
     (let (pte, w) = on_device (CopyPageTable e page) w
      in if pte AND required \<noteq> required then (False, w)
         else gsw_check_pages e required (page + 1) n w)"

definition gsw_lock_ring3 ::
    "'d vxd_env \<Rightarrow> u32 \<Rightarrow> u32 \<Rightarrow> bool \<Rightarrow> 'd vxd_world \<Rightarrow> (bool \<times> GSW_SOUND_LOCKED_RANGE) \<times> 'd vxd_world" where
  "gsw_lock_ring3 e address bytes writable w =
     (let rng = \<lparr>first_page = 0, page_count = 0, range_locked = False\<rparr> in
      if bytes = 0 \<or> address = 0 \<or> address \<ge> GSW_SOUND_RING3_LIMIT \<or>
         address > 0xFFFFFFFF - (bytes - 1) \<or> address + bytes > GSW_SOUND_RING3_LIMIT
      then ((False, rng), w)
      else
        (let span = (address AND 0xFFF) + bytes;
             rng = rng\<lparr>first_page := drop_bit 12 address, page_count := drop_bit 12 (span + 0xFFF)\<rparr>
         in if page_count rng = 0 \<or> page_count rng > 9 then ((False, rng), w)
            else
              (let (ok, w) = LinPageLock_call e (first_page rng) (page_count rng) w in
               if \<not> ok then ((False, rng), w)
               else
                 (let required = GSW_SOUND_PTE_PRESENT OR GSW_SOUND_PTE_USER OR
                        (if writable then GSW_SOUND_PTE_WRITE else 0);
                      (ok, w) = gsw_check_pages e required (first_page rng) (unat (page_count rng)) w
                  in if \<not> ok then ((False, rng), LinPageUnLock_call e (first_page rng) (page_count rng) w)
                     else ((True, rng\<lparr>range_locked := True\<rparr>), w)))))"

definition gsw_unlock_ring3 :: "'d vxd_env \<Rightarrow> GSW_SOUND_LOCKED_RANGE \<Rightarrow> 'd vxd_world \<Rightarrow> 'd vxd_world" where
  "gsw_unlock_ring3 e rng w =
     (if range_locked rng then LinPageUnLock_call e (first_page rng) (page_count rng) w else w)"

section \<open>Requests\<close>

text \<open>
  The cases of the switch, each returning the result, the request as changed and the world.
  \<open>None\<close> stands for a position read that does not return.
\<close>

definition gsw_dispatch_query ::
    "'d vxd_env \<Rightarrow> GSW_SOUND_PM_REQUEST \<Rightarrow> 'd vxd_world \<Rightarrow> GSW_SOUND_RESULT \<times> GSW_SOUND_PM_REQUEST \<times> 'd vxd_world" where
  "gsw_dispatch_query e r w =
     (if \<not> bound (transport (sound w)) then (GSW_SOUND_UNAVAILABLE, r, w)
      else (let (capabilities, w) = vxd_register e GSW_PCM_REG_CAPABILITIES w
            in (GSW_SOUND_OK, r\<lparr>pm_capabilities := capabilities\<rparr>, w)))"

definition gsw_dispatch_open ::
    "'d vxd_env \<Rightarrow> GSW_SOUND_PM_REQUEST \<Rightarrow> 'd vxd_world \<Rightarrow> GSW_SOUND_RESULT \<times> GSW_SOUND_PM_REQUEST \<times> 'd vxd_world" where
  "gsw_dispatch_open e r w =
     (let (result, sid, s) = gsw_sound_transport_open (vxd_mmio e) (pm_sample_rate r) (pm_channels r)
            (pm_bits_per_sample r) (sound w)
      in (result, case sid of None \<Rightarrow> r | Some sid \<Rightarrow> r\<lparr>pm_stream_id := sid\<rparr>, w\<lparr>sound := s\<rparr>))"

definition gsw_dispatch_submit ::
    "'d vxd_env \<Rightarrow> GSW_SOUND_PM_REQUEST \<Rightarrow> 'd vxd_world \<Rightarrow> GSW_SOUND_RESULT \<times> GSW_SOUND_PM_REQUEST \<times> 'd vxd_world" where
  "gsw_dispatch_submit e r w =
     (if pm_buffer_bytes r = 0 \<or> pm_buffer_bytes r > GSW_SOUND_MAX_SUBMIT_BYTES
      then (GSW_SOUND_INVALID, r, w)
      else
        (let ((ok, rng), w) = gsw_lock_ring3 e (pm_buffer_linear r) (pm_buffer_bytes r) False w in
         if \<not> ok then (GSW_SOUND_INVALID, r, w)
         else
           (let (result, accepted, s) = gsw_sound_transport_submit (vxd_mmio e) (client w) (pm_stream_id r)
                  (pm_buffer_linear r) (pm_buffer_bytes r) (pm_flags r) (pm_user_token r) (sound w)
            in (result, r\<lparr>pm_accepted_bytes := accepted\<rparr>, gsw_unlock_ring3 e rng (w\<lparr>sound := s\<rparr>)))))"

definition gsw_dispatch_poll ::
    "'d vxd_env \<Rightarrow> GSW_SOUND_PM_REQUEST \<Rightarrow> 'd vxd_world \<Rightarrow>
     (GSW_SOUND_RESULT \<times> GSW_SOUND_PM_REQUEST \<times> 'd vxd_world) option" where
  "gsw_dispatch_poll e r w =
     map_option (\<lambda>(result, tok, s). (result, r\<lparr>pm_completed_token := tok\<rparr>, w\<lparr>sound := s\<rparr>))
       (gsw_sound_transport_poll (vxd_mmio e) (pm_stream_id r) (sound w))"

definition gsw_dispatch_position ::
    "'d vxd_env \<Rightarrow> GSW_SOUND_PM_REQUEST \<Rightarrow> 'd vxd_world \<Rightarrow>
     (GSW_SOUND_RESULT \<times> GSW_SOUND_PM_REQUEST \<times> 'd vxd_world) option" where
  "gsw_dispatch_position e r w =
     map_option (\<lambda>(result, pos, s). (result,
         case pos of None \<Rightarrow> r | Some (low, high) \<Rightarrow> r\<lparr>pm_position_low := low, pm_position_high := high\<rparr>,
         w\<lparr>sound := s\<rparr>))
       (gsw_sound_transport_position (vxd_mmio e) (pm_stream_id r) (sound w))"

definition gsw_dispatch_get_gain ::
    "GSW_SOUND_PM_REQUEST \<Rightarrow> 'd vxd_world \<Rightarrow> GSW_SOUND_RESULT \<times> GSW_SOUND_PM_REQUEST \<times> 'd vxd_world" where
  "gsw_dispatch_get_gain r w =
     (let (result, gain) = gsw_sound_transport_get_gain (sound w)
      in (result, case gain of None \<Rightarrow> r | Some gain \<Rightarrow> r\<lparr>pm_gain_q16 := gain\<rparr>, w))"

definition gsw_dispatch_plain ::
    "('d sound_world \<Rightarrow> GSW_SOUND_RESULT \<times> 'd sound_world) \<Rightarrow> GSW_SOUND_PM_REQUEST \<Rightarrow> 'd vxd_world \<Rightarrow>
     GSW_SOUND_RESULT \<times> GSW_SOUND_PM_REQUEST \<times> 'd vxd_world" where
  "gsw_dispatch_plain f r w = (let (result, s) = f (sound w) in (result, r, w\<lparr>sound := s\<rparr>))"

definition gsw_dispatch_switch ::
    "'d vxd_env \<Rightarrow> GSW_SOUND_PM_REQUEST \<Rightarrow> 'd vxd_world \<Rightarrow>
     (GSW_SOUND_RESULT \<times> GSW_SOUND_PM_REQUEST \<times> 'd vxd_world) option" where
  "gsw_dispatch_switch e r w =
     (let m = vxd_mmio e; op = pm_opcode r in
      if op = GSW_SOUND_PM_QUERY then Some (gsw_dispatch_query e r w)
      else if op = GSW_SOUND_PM_OPEN then Some (gsw_dispatch_open e r w)
      else if op = GSW_SOUND_PM_CLOSE
      then Some (gsw_dispatch_plain (gsw_sound_transport_close m (pm_stream_id r)) r w)
      else if op = GSW_SOUND_PM_SUBMIT then Some (gsw_dispatch_submit e r w)
      else if op = GSW_SOUND_PM_POLL then gsw_dispatch_poll e r w
      else if op = GSW_SOUND_PM_PAUSE
      then Some (gsw_dispatch_plain (gsw_sound_transport_pause m (pm_stream_id r)) r w)
      else if op = GSW_SOUND_PM_RESTART
      then Some (gsw_dispatch_plain (gsw_sound_transport_restart m (pm_stream_id r)) r w)
      else if op = GSW_SOUND_PM_RESET
      then Some (gsw_dispatch_plain (gsw_sound_transport_reset m (pm_stream_id r)) r w)
      else if op = GSW_SOUND_PM_GET_POSITION then gsw_dispatch_position e r w
      else if op = GSW_SOUND_PM_GET_GAIN then Some (gsw_dispatch_get_gain r w)
      else if op = GSW_SOUND_PM_SET_GAIN
      then Some (gsw_dispatch_plain (gsw_sound_transport_set_gain m (pm_gain_q16 r)) r w)
      else Some (GSW_SOUND_INVALID, r, w))"

definition gsw_request_malformed :: "GSW_SOUND_PM_REQUEST \<Rightarrow> bool" where
  "gsw_request_malformed r \<longleftrightarrow>
     pm_size r \<noteq> 64 \<or> pm_version r \<noteq> GSW_SOUND_PM_API_VERSION \<or> pm_reserved_zero r \<noteq> 0 \<or>
     pm_opcode r > GSW_SOUND_PM_SET_GAIN"

definition gsw_dispatch_request ::
    "'d vxd_env \<Rightarrow> GSW_SOUND_PM_REQUEST \<Rightarrow> 'd vxd_world \<Rightarrow>
     (GSW_SOUND_RESULT \<times> GSW_SOUND_PM_REQUEST \<times> 'd vxd_world) option" where
  "gsw_dispatch_request e r w =
     (if gsw_request_malformed r then Some (GSW_SOUND_INVALID, r, w)
      else
        (let r = r\<lparr>pm_accepted_bytes := 0, pm_completed_token := 0, pm_capabilities := 0,
                   pm_result := result_code GSW_SOUND_INVALID\<rparr>
         in map_option (\<lambda>(result, r, w). (result, r\<lparr>pm_result := result_code result\<rparr>, w))
              (gsw_dispatch_switch e r w)))"

definition gsw_dispatch_linear ::
    "'d vxd_env \<Rightarrow> u32 \<Rightarrow> u32 \<Rightarrow> 'd vxd_world \<Rightarrow> (GSW_SOUND_RESULT \<times> 'd vxd_world) option" where
  "gsw_dispatch_linear e request_linear request_bytes w =
     (if request_bytes \<noteq> 64 then Some (GSW_SOUND_INVALID, w)
      else
        (let ((ok, rng), w) = gsw_lock_ring3 e request_linear request_bytes True w in
         if \<not> ok then Some (GSW_SOUND_INVALID, w)
         else
           (let request = GSW_SOUND_PM_REQUEST_of (mem_dwords (client w) request_linear 16)
            in map_option (\<lambda>(result, r, w).
                 (result, gsw_unlock_ring3 e rng
                    (w\<lparr>client := put_dwords request_linear (GSW_SOUND_PM_REQUEST_dwords r) (client w)\<rparr>)))
               (gsw_dispatch_request e request w))))"

text \<open>The entry of the 16-bit driver: carry set and the code in EAX on failure.\<close>

definition GSWSOUND_PM_API ::
    "'d vxd_env \<Rightarrow> u32 \<Rightarrow> u32 \<Rightarrow> 'd vxd_world \<Rightarrow> ((bool \<times> u32) \<times> 'd vxd_world) option" where
  "GSWSOUND_PM_API e esi ecx w =
     map_option (\<lambda>(result, w). ((result_code result \<noteq> 0, result_code result), w))
       (gsw_dispatch_linear e esi ecx w)"

section \<open>Start and stop\<close>

definition gsw_device_stop :: "'d vxd_env \<Rightarrow> 'd vxd_world \<Rightarrow> 'd vxd_world" where
  "gsw_device_stop e w =
     (let w = w\<lparr>sound := gsw_sound_transport_unbind (vxd_mmio e) (sound w)\<rparr>;
          w = gsw_sound_ddk_remove_level_irq e w;
          w = (if gsw_ring (vxd w) \<noteq> 0 then PageFree_call e (gsw_ring (vxd w)) w else w)
      in w\<lparr>vxd := (vxd w)\<lparr>gsw_ring := 0, gsw_ring_physical := 0, gsw_registers := 0,
             gsw_device_started := False, gsw_diagnostic_polling := False,
             gsw_resources := resources_zero\<rparr>\<rparr>)"

definition gsw_start_resources :: "'d vxd_env \<Rightarrow> u32 \<Rightarrow> 'd vxd_world \<Rightarrow> bool \<times> 'd vxd_world" where
  "gsw_start_resources e devnode w =
     (let w = gsw_telemetry_checkpoint e GSW_SOUND_TELEMETRY_RESOURCE GSW_SOUND_TELEMETRY_ENTER devnode 0 w;
          ((result, found), w) = gsw_sound_ddk_get_allocated_resources e devnode w;
          w = (case found of None \<Rightarrow> w | Some r \<Rightarrow> w\<lparr>vxd := (vxd w)\<lparr>gsw_resources := r\<rparr>\<rparr>)
      in if result \<noteq> CR_SUCCESS
         then (False, gsw_telemetry_checkpoint e GSW_SOUND_TELEMETRY_RESOURCE GSW_SOUND_TELEMETRY_FAILED
                        result 0 w)
         else (True, gsw_telemetry_checkpoint e GSW_SOUND_TELEMETRY_RESOURCE GSW_SOUND_TELEMETRY_PASSED
                       (mmio_physical (gsw_resources (vxd w))) (ucast (irq_number (gsw_resources (vxd w)))) w))"

definition gsw_start_map :: "'d vxd_env \<Rightarrow> 'd vxd_world \<Rightarrow> bool \<times> 'd vxd_world" where
  "gsw_start_map e w =
     (let base = mmio_physical (gsw_resources (vxd w));
          w = gsw_telemetry_checkpoint e GSW_SOUND_TELEMETRY_MAP GSW_SOUND_TELEMETRY_ENTER base
                GSW_PCM_CONTROL_SIZE w;
          (regs, w) = on_device (MapPhysToLinear e base GSW_PCM_CONTROL_SIZE) w;
          w = w\<lparr>vxd := (vxd w)\<lparr>gsw_registers := regs\<rparr>\<rparr>
      in if regs = 0
         then (False, gsw_telemetry_checkpoint e GSW_SOUND_TELEMETRY_MAP GSW_SOUND_TELEMETRY_FAILED base
                        GSW_PCM_CONTROL_SIZE w)
         else (True, gsw_telemetry_checkpoint e GSW_SOUND_TELEMETRY_MAP GSW_SOUND_TELEMETRY_PASSED base
                       regs w))"

definition gsw_start_ring :: "'d vxd_env \<Rightarrow> 'd vxd_world \<Rightarrow> bool \<times> 'd vxd_world" where
  "gsw_start_ring e w =
     (let w = gsw_telemetry_checkpoint e GSW_SOUND_TELEMETRY_PAGE GSW_SOUND_TELEMETRY_ENTER
                GSW_SOUND_RING_BYTES 0 w;
          ((linear, physical, contents), w) = PageAllocate_call e GSW_SOUND_RING_BYTES w;
          w = w\<lparr>vxd := (vxd w)\<lparr>gsw_ring_physical := physical\<rparr>\<rparr>
      in if linear = 0 \<or> physical AND (GSW_PCM_RING_GPA_ALIGNMENT - 1) \<noteq> 0
         then
           (let w = (if linear \<noteq> 0 then PageFree_call e linear w else w);
                w = gsw_telemetry_checkpoint e GSW_SOUND_TELEMETRY_PAGE GSW_SOUND_TELEMETRY_FAILED
                      linear physical w
            in (False, w\<lparr>vxd := (vxd w)\<lparr>gsw_ring_physical := 0\<rparr>\<rparr>))
         else
           (let w = w\<lparr>vxd := (vxd w)\<lparr>gsw_ring := linear\<rparr>,
                      sound := (sound w)\<lparr>ring_memory := contents\<rparr>\<rparr>
            in (True, gsw_telemetry_checkpoint e GSW_SOUND_TELEMETRY_PAGE GSW_SOUND_TELEMETRY_PASSED
                        linear physical w)))"

text \<open>C leaves the order of the two register reads open; the model reads the first argument first.\<close>

definition gsw_start_bind :: "'d vxd_env \<Rightarrow> 'd vxd_world \<Rightarrow> bool \<times> 'd vxd_world" where
  "gsw_start_bind e w =
     (let w = gsw_telemetry_checkpoint e GSW_SOUND_TELEMETRY_BIND GSW_SOUND_TELEMETRY_ENTER
                (gsw_ring_physical (vxd w)) GSW_SOUND_RING_BYTES w;
          (result, s) = gsw_sound_transport_bind (vxd_mmio e) (gsw_registers (vxd w)) (gsw_ring (vxd w))
                (gsw_ring_physical (vxd w)) GSW_SOUND_RING_BYTES (sound w);
          w = w\<lparr>sound := s\<rparr>
      in if result \<noteq> GSW_SOUND_OK
         then
           (let (status, w) = vxd_register e GSW_PCM_REG_STATUS w;
                w = gsw_telemetry_checkpoint e GSW_SOUND_TELEMETRY_BIND GSW_SOUND_TELEMETRY_FAILED
                      (result_code result) status w;
                w = PageFree_call e (gsw_ring (vxd w)) w
            in (False, w\<lparr>vxd := (vxd w)\<lparr>gsw_ring := 0, gsw_ring_physical := 0, gsw_registers := 0\<rparr>\<rparr>))
         else
           (let (rid, w) = vxd_register e GSW_PCM_REG_ID w;
                (status, w) = vxd_register e GSW_PCM_REG_STATUS w
            in (True, gsw_telemetry_checkpoint e GSW_SOUND_TELEMETRY_BIND GSW_SOUND_TELEMETRY_PASSED
                        rid status w)))"

definition gsw_start_interrupt :: "'d vxd_env \<Rightarrow> 'd vxd_world \<Rightarrow> bool \<times> 'd vxd_world" where
  "gsw_start_interrupt e w =
     (let number = irq_number (gsw_resources (vxd w));
          w = gsw_telemetry_checkpoint e GSW_SOUND_TELEMETRY_IRQ GSW_SOUND_TELEMETRY_ENTER (ucast number) 0 w;
          (installed, w) = gsw_sound_ddk_install_level_irq e number w;
          (result, w) =
            (if installed then
               (let w = gsw_telemetry_checkpoint e GSW_SOUND_TELEMETRY_IRQ GSW_SOUND_TELEMETRY_PASSED
                          (ucast number) (irq_handle (gsw_irq (vxd w))) w;
                    w = gsw_telemetry_checkpoint e GSW_SOUND_TELEMETRY_MODE GSW_SOUND_TELEMETRY_ENTER 1 0 w;
                    (result, s) = gsw_sound_transport_set_interrupt_mode (vxd_mmio e) True (sound w)
                in (result, w\<lparr>sound := s\<rparr>))
             else
               (GSW_SOUND_UNAVAILABLE,
                gsw_telemetry_checkpoint e GSW_SOUND_TELEMETRY_IRQ GSW_SOUND_TELEMETRY_FAILED
                  (ucast number) 0 w))
      in if result \<noteq> GSW_SOUND_OK
         then (False, gsw_device_stop e
                 (gsw_telemetry_checkpoint e GSW_SOUND_TELEMETRY_MODE GSW_SOUND_TELEMETRY_FAILED
                   (result_code result) (if gsw_diagnostic_polling (vxd w) then 1 else 0) w))
         else (True, gsw_telemetry_checkpoint e GSW_SOUND_TELEMETRY_MODE GSW_SOUND_TELEMETRY_PASSED
                       (if gsw_diagnostic_polling (vxd w) then 0 else 1) 0 w))"

definition gsw_start_done :: "'d vxd_env \<Rightarrow> u32 \<Rightarrow> 'd vxd_world \<Rightarrow> bool \<times> 'd vxd_world" where
  "gsw_start_done e devnode w =
     (let w = w\<lparr>vxd := (vxd w)\<lparr>gsw_device_started := True\<rparr>\<rparr>
      in (True, gsw_telemetry_checkpoint e GSW_SOUND_TELEMETRY_SUCCESS GSW_SOUND_TELEMETRY_PASSED
                  devnode (gsw_ring_physical (vxd w)) w))"

definition gsw_device_start :: "'d vxd_env \<Rightarrow> u32 \<Rightarrow> 'd vxd_world \<Rightarrow> bool \<times> 'd vxd_world" where
  "gsw_device_start e devnode w =
     (let current = gsw_devnode (vxd w);
          w = gsw_telemetry_checkpoint e GSW_SOUND_TELEMETRY_START GSW_SOUND_TELEMETRY_ENTER devnode current w
      in if gsw_device_started (vxd w)
         then (if devnode = current
               then (True, gsw_telemetry_checkpoint e GSW_SOUND_TELEMETRY_SUCCESS
                             GSW_SOUND_TELEMETRY_PASSED devnode 1 w)
               else (False, gsw_telemetry_checkpoint e GSW_SOUND_TELEMETRY_START
                              GSW_SOUND_TELEMETRY_FAILED devnode current w))
         else if devnode = 0 \<or> current \<noteq> devnode
         then (False, gsw_telemetry_checkpoint e GSW_SOUND_TELEMETRY_START GSW_SOUND_TELEMETRY_FAILED
                        devnode current w)
         else step_and (gsw_start_resources e devnode) (step_and (gsw_start_map e)
                (step_and (gsw_start_ring e) (step_and (gsw_start_bind e)
                  (step_and (gsw_start_interrupt e) (gsw_start_done e devnode))))) w)"

section \<open>Plug and Play\<close>

definition gsw_configuration_handler_impl :: "'d vxd_env \<Rightarrow> u32 \<Rightarrow> u32 \<Rightarrow> 'd vxd_world \<Rightarrow> u32 \<times> 'd vxd_world" where
  "gsw_configuration_handler_impl e function devnode w =
     (if function = GSW_SOUND_CONFIG_START
      then (let (ok, w) = gsw_device_start e devnode w
            in (if ok then CR_SUCCESS else GSW_SOUND_CR_FAILURE, w))
      else if function = GSW_SOUND_CONFIG_STOP
      then (CR_SUCCESS, if devnode = gsw_devnode (vxd w) then gsw_device_stop e w else w)
      else if function = GSW_SOUND_CONFIG_REMOVE
      then (CR_SUCCESS,
            if devnode = gsw_devnode (vxd w)
            then (let w = gsw_device_stop e w
                  in w\<lparr>vxd := (vxd w)\<lparr>gsw_devnode := 0, gsw_devnode_registered := False\<rparr>\<rparr>)
            else w)
      else if function = GSW_SOUND_CONFIG_TEST then (CR_SUCCESS, w)
      else (GSW_SOUND_CR_DEFAULT, w))"

text \<open>The registration with MMDEVLDR, with the configuration calls made before it returns.\<close>

definition gsw_sound_ddk_register_devnode :: "'d vxd_env \<Rightarrow> u32 \<Rightarrow> 'd vxd_world \<Rightarrow> 'd vxd_world" where
  "gsw_sound_ddk_register_devnode e devnode w =
     (let (calls, w) = on_device (Register_Device_Driver e devnode) w
      in fold (\<lambda>(function, node) w. snd (gsw_configuration_handler_impl e function node w)) calls w)"

definition gsw_register_devnode :: "'d vxd_env \<Rightarrow> u32 \<Rightarrow> u32 \<Rightarrow> 'd vxd_world \<Rightarrow> u32 \<times> 'd vxd_world" where
  "gsw_register_devnode e devnode load_type w =
     (let w = gsw_telemetry_checkpoint e GSW_SOUND_TELEMETRY_PNP GSW_SOUND_TELEMETRY_ENTER devnode load_type w
      in if devnode = 0
         then (GSW_SOUND_CR_FAILURE,
               gsw_telemetry_checkpoint e GSW_SOUND_TELEMETRY_PNP GSW_SOUND_TELEMETRY_FAILED 0 load_type w)
         else
           (let w = gsw_telemetry_checkpoint e GSW_SOUND_TELEMETRY_PNP GSW_SOUND_TELEMETRY_PASSED
                      devnode load_type w
            in if gsw_devnode_registered (vxd w)
               then (if devnode = gsw_devnode (vxd w) then (CR_SUCCESS, w)
                     else (GSW_SOUND_CR_FAILURE,
                           gsw_telemetry_checkpoint e GSW_SOUND_TELEMETRY_REGISTER
                             GSW_SOUND_TELEMETRY_FAILED devnode (gsw_devnode (vxd w)) w))
               else
                 (let w = w\<lparr>vxd := (vxd w)\<lparr>gsw_devnode := devnode\<rparr>\<rparr>;
                      w = gsw_telemetry_checkpoint e GSW_SOUND_TELEMETRY_REGISTER
                            GSW_SOUND_TELEMETRY_ENTER devnode 0 w;
                      w = gsw_sound_ddk_register_devnode e devnode w;
                      w = w\<lparr>vxd := (vxd w)\<lparr>gsw_devnode_registered := True\<rparr>\<rparr>
                  in (CR_SUCCESS,
                      if gsw_telemetry_last_checkpoint (vxd w) = GSW_SOUND_TELEMETRY_REGISTER
                      then gsw_telemetry_checkpoint e GSW_SOUND_TELEMETRY_REGISTER
                             GSW_SOUND_TELEMETRY_PASSED devnode 0 w
                      else w))))"

definition gsw_driver_exit :: "'d vxd_env \<Rightarrow> 'd vxd_world \<Rightarrow> 'd vxd_world" where
  "gsw_driver_exit e w =
     (let w = gsw_device_stop e w
      in w\<lparr>vxd := (vxd w)\<lparr>gsw_devnode := 0, gsw_devnode_registered := False\<rparr>\<rparr>)"

text \<open>
  The control procedure: the system messages it tells apart, the carry flag it returns, and
  what it leaves in EAX where it changes the register.
\<close>

datatype control_message =
    PNP_New_Devnode u32 u32
  | Sys_Dynamic_Device_Init
  | Device_Init
  | Sys_Dynamic_Device_Exit
  | System_Exit
  | Other_Message u32

fun GSWSOUND_Control ::
    "'d vxd_env \<Rightarrow> control_message \<Rightarrow> 'd vxd_world \<Rightarrow> (bool \<times> u32 option) \<times> 'd vxd_world" where
  "GSWSOUND_Control e (PNP_New_Devnode devnode load_type) w =
     (let (result, w) = gsw_register_devnode e devnode load_type w in ((True, Some result), w))"
| "GSWSOUND_Control e Sys_Dynamic_Device_Exit w = ((False, None), gsw_driver_exit e w)"
| "GSWSOUND_Control e System_Exit w = ((False, None), gsw_driver_exit e w)"
| "GSWSOUND_Control e Sys_Dynamic_Device_Init w = ((False, None), w)"
| "GSWSOUND_Control e Device_Init w = ((False, None), w)"
| "GSWSOUND_Control e (Other_Message x) w = ((False, None), w)"

section \<open>Frames\<close>

text \<open>What a transport is attached to; only binding, unbinding and the interrupt mode change it.\<close>

definition transport_link :: "GSW_SOUND_TRANSPORT \<Rightarrow> bool \<times> bool \<times> u32 \<times> u32 \<times> u32 \<times> u32" where
  "transport_link t = (bound t, interrupt_mode t, registers t, ring t, ring_physical t, ring_bytes t)"

lemma link_plain [simp]:
  "transport_link (transport (snd (gsw_sound_transport_close m sid s))) = transport_link (transport s)"
  "transport_link (transport (snd (gsw_sound_transport_pause m sid s))) = transport_link (transport s)"
  "transport_link (transport (snd (gsw_sound_transport_restart m sid s))) = transport_link (transport s)"
  "transport_link (transport (snd (gsw_sound_transport_reset m sid s))) = transport_link (transport s)"
  "transport_link (transport (snd (gsw_sound_transport_set_gain m g s))) = transport_link (transport s)"
  "transport_link (transport (snd (gsw_sound_transport_handle_interrupt m s))) = transport_link (transport s)"
  "transport_link (transport (snd (snd (gsw_sound_transport_open m rate c b s)))) = transport_link (transport s)"
  by (simp_all add: transport_link_def gsw_sound_transport_close_def gsw_sound_transport_pause_def
      gsw_sound_transport_restart_def gsw_sound_transport_reset_def gsw_sound_transport_set_gain_def
      gsw_sound_transport_handle_interrupt_def gsw_sound_service_irq_def gsw_sound_transport_open_def
      Let_def split_beta)

lemma link_submit [simp]:
  "transport_link (transport (snd (snd (gsw_sound_transport_submit m memory sid data bytes flags tok s)))) =
   transport_link (transport s)"
  by (simp add: gsw_sound_transport_submit_def gsw_sound_publish_def gsw_sound_store_def
      gsw_sound_push_completion_def transport_link_def Let_def split_beta)

lemma link_service_irq [simp]:
  "transport_link (transport (snd (gsw_sound_service_irq m s))) = transport_link (transport s)"
  by (simp add: transport_link_def gsw_sound_service_irq_def Let_def split_beta)

lemma link_pop [simp]: "transport_link (gsw_sound_pop_completion t) = transport_link t"
  by (simp add: transport_link_def gsw_sound_pop_completion_def)

lemma link_poll:
  "gsw_sound_transport_poll m sid s = Some (r, tok, s') \<Longrightarrow> transport_link (transport s') = transport_link (transport s)"
  by (drule poll_transport) auto

lemma link_position:
  "gsw_sound_transport_position m sid s = Some (r, p, s') \<Longrightarrow>
   transport_link (transport s') = transport_link (transport s)"
  by (auto simp: gsw_sound_transport_position_def Let_def position_read_frame split: if_splits option.splits)

text \<open>
  A step that serves a client: it moves the transport on while the driver's own state, what
  it holds of the system and the client's memory stay.
\<close>

definition serves :: "'d vxd_world \<Rightarrow> 'd vxd_world \<Rightarrow> bool" where
  "serves w w' \<longleftrightarrow> vxd w' = vxd w \<and> client w' = client w \<and> held_ranges w' = held_ranges w \<and>
     held_pages w' = held_pages w \<and> held_irqs w' = held_irqs w \<and>
     transport_link (transport (sound w')) = transport_link (transport (sound w)) \<and>
     (sound_ok (transport (sound w)) \<longrightarrow> sound_ok (transport (sound w')))"

lemma serves_refl [simp, intro]: "serves w w"
  by (simp add: serves_def)

lemma serves_trans: "serves w w' \<Longrightarrow> serves w' w'' \<Longrightarrow> serves w w''"
  by (simp add: serves_def)

lemma serves_device [simp, intro]:
  "serves w (snd (on_device f w))" "serves w (do_device g w)" "serves w (snd (vxd_register e r w))"
  by (simp_all add: serves_def on_device_def do_device_def vxd_register_def)

lemma serves_sound:
  "transport_link (transport s) = transport_link (transport (sound w)) \<Longrightarrow>
   (sound_ok (transport (sound w)) \<Longrightarrow> sound_ok (transport s)) \<Longrightarrow> serves w (w\<lparr>sound := s\<rparr>)"
  by (simp add: serves_def)

lemma serves_check_pages: "serves w (snd (gsw_check_pages e required page n w))"
proof (induction n arbitrary: page w)
  case (Suc n)
  show ?case
    using Suc.IH [of "snd (on_device (CopyPageTable e page) w)" "page + 1"]
    by (auto simp: Let_def split_beta intro: serves_trans)
qed simp

section \<open>Page locking\<close>

lemma unlock_frame [simp]:
  "vxd (LinPageUnLock_call e p n w) = vxd w" "client (LinPageUnLock_call e p n w) = client w"
  "held_ranges (LinPageUnLock_call e p n w) = remove1 (p, n) (held_ranges w)"
  "held_pages (LinPageUnLock_call e p n w) = held_pages w"
  "held_irqs (LinPageUnLock_call e p n w) = held_irqs w"
  "transport (sound (LinPageUnLock_call e p n w)) = transport (sound w)"
  by (simp_all add: LinPageUnLock_call_def do_device_def)

lemma lock_frame [simp]:
  "vxd (snd (LinPageLock_call e p n w)) = vxd w" "client (snd (LinPageLock_call e p n w)) = client w"
  "held_ranges (snd (LinPageLock_call e p n w)) =
     (if fst (LinPageLock_call e p n w) then (p, n) # held_ranges w else held_ranges w)"
  "held_pages (snd (LinPageLock_call e p n w)) = held_pages w"
  "held_irqs (snd (LinPageLock_call e p n w)) = held_irqs w"
  "transport (sound (snd (LinPageLock_call e p n w))) = transport (sound w)"
  by (simp_all add: LinPageLock_call_def on_device_def Let_def split_beta)

lemma check_pages_frame [simp]:
  "vxd (snd (gsw_check_pages e q p n w)) = vxd w" "client (snd (gsw_check_pages e q p n w)) = client w"
  "held_ranges (snd (gsw_check_pages e q p n w)) = held_ranges w"
  "held_pages (snd (gsw_check_pages e q p n w)) = held_pages w"
  "held_irqs (snd (gsw_check_pages e q p n w)) = held_irqs w"
  "transport (sound (snd (gsw_check_pages e q p n w))) = transport (sound w)"
proof -
  show "vxd (snd (gsw_check_pages e q p n w)) = vxd w" "client (snd (gsw_check_pages e q p n w)) = client w"
    "held_ranges (snd (gsw_check_pages e q p n w)) = held_ranges w"
    "held_pages (snd (gsw_check_pages e q p n w)) = held_pages w"
    "held_irqs (snd (gsw_check_pages e q p n w)) = held_irqs w"
    using serves_check_pages [of w e q p n] by (simp_all add: serves_def)
  show "transport (sound (snd (gsw_check_pages e q p n w))) = transport (sound w)"
    by (induction n arbitrary: p w) (simp_all add: Let_def split_beta on_device_def)
qed

text \<open>
  A lock that fails leaves nothing held. One that succeeds holds one range, and releasing it
  gives back the ranges held before.
\<close>

lemma lock_ring3_fails:
  assumes "\<not> fst (fst (gsw_lock_ring3 e a n wr w))"
  shows "serves w (snd (gsw_lock_ring3 e a n wr w))"
  using assms by (auto simp: gsw_lock_ring3_def Let_def split_beta serves_def split: if_splits)

lemma lock_ring3_holds:
  assumes "gsw_lock_ring3 e a n wr w = ((True, rng), w1)"
  shows "range_locked rng \<and> held_ranges w1 = (first_page rng, page_count rng) # held_ranges w \<and>
    vxd w1 = vxd w \<and> client w1 = client w \<and> held_pages w1 = held_pages w \<and> held_irqs w1 = held_irqs w \<and>
    transport (sound w1) = transport (sound w)"
  using assms by (auto simp: gsw_lock_ring3_def Let_def split_beta split: if_splits)

lemma unlock_serves:
  assumes "gsw_lock_ring3 e a n wr w = ((True, rng), w1)" "serves w1 w2"
  shows "serves w (gsw_unlock_ring3 e rng w2)"
  using lock_ring3_holds [OF assms(1)] assms(2)
  by (auto simp: serves_def gsw_unlock_ring3_def)

section \<open>Locked ranges\<close>

lemma unat_drop_bit12: "unat (drop_bit 12 (x :: u32)) = unat x div 4096"
  by (simp add: drop_bit_eq_div unat_div)

lemma page_span:
  fixes A N :: nat
  assumes "0 < A" "0 < N" "A < 3221225472" "A + (N - 1) < 4294967296"
    "(A + N) mod 4294967296 \<le> 3221225472"
    and pc: "pc = ((A mod 4096 + N) mod 4294967296 + 4095) mod 4294967296 div 4096" "0 < pc" "pc \<le> 9"
  shows "A + N \<le> 3221225472 \<and> A div 4096 + pc = (A + N - 1) div 4096 + 1"
proof (cases "A + N < 4294967296")
  case True
  with assms(5) have le: "A + N \<le> 3221225472" by (simp only: mod_less)
  have "A mod 4096 < 4096" by (rule mod_less_divisor) simp
  then have "A mod 4096 + N + 4095 < 4294967296" "A mod 4096 + N < 4294967296" using le by linarith+
  then have "pc = (A mod 4096 + N + 4095) div 4096" using pc(1) by (simp only: mod_less)
  then have "A div 4096 + pc = (A div 4096 * 4096 + (A mod 4096 + N + 4095)) div 4096"
    using div_mult_self3 [of 4096 "A div 4096" "A mod 4096 + N + 4095"] by presburger
  also have "\<dots> = (A + N - 1 + 4096) div 4096"
    using assms(2) div_mult_mod_eq [of A 4096] by (intro arg_cong [where f = "\<lambda>x. x div 4096"]) linarith
  finally show ?thesis using le by simp
next
  case False
  with assms(2,4) have sum: "A + N = 4294967296" by linarith
  define q where "q = A div 4096"
  have q: "q \<le> 786432" using assms(3) div_le_mono [of A 3221225472 4096] by (simp add: q_def)
  have s: "A mod 4096 + N = 4096 * (1048576 - q)"
    using sum q div_mult_mod_eq [of A 4096] unfolding q_def by linarith
  have "pc = 0 \<or> pc = 1048576 - q"
  proof (cases "q = 0")
    case True
    with s pc(1) show ?thesis by simp
  next
    case False
    then have "4096 * (1048576 - q) + 4095 < 4294967296" using q by linarith
    with s pc(1) show ?thesis by simp
  qed
  with pc(2,3) q show ?thesis by linarith
qed

lemma check_pages_read:
  "fst (gsw_check_pages e required page n w) \<Longrightarrow> i < n \<Longrightarrow>
   \<exists>d. fst (CopyPageTable e (page + of_nat i) d) AND required = required"
proof (induction n arbitrary: page w i)
  case (Suc n)
  from Suc.prems have here: "fst (CopyPageTable e page (device (sound w))) AND required = required"
    and there: "fst (gsw_check_pages e required (page + 1) n (snd (on_device (CopyPageTable e page) w)))"
    by (auto simp: Let_def split_beta on_device_def split: if_splits)
  show ?case
  proof (cases i)
    case 0
    with here show ?thesis by auto
  next
    case (Suc j)
    with Suc.prems Suc.IH [OF there, of j] show ?thesis by (simp add: algebra_simps)
  qed
qed simp

lemma lock_ring3_D:
  assumes "gsw_lock_ring3 e a n wr w = ((True, rng), w1)"
  shows "n \<noteq> 0" "a \<noteq> 0" "a < GSW_SOUND_RING3_LIMIT" "a \<le> 0xFFFFFFFF - (n - 1)"
    "a + n \<le> GSW_SOUND_RING3_LIMIT" "first_page rng = drop_bit 12 a"
    "page_count rng = drop_bit 12 ((a AND 0xFFF) + n + 0xFFF)" "page_count rng \<noteq> 0" "page_count rng \<le> 9"
    "\<exists>w2. fst (gsw_check_pages e (GSW_SOUND_PTE_PRESENT OR GSW_SOUND_PTE_USER OR
        (if wr then GSW_SOUND_PTE_WRITE else 0)) (first_page rng) (unat (page_count rng)) w2)"
  using assms
  by (auto simp: gsw_lock_ring3_def Let_def split_beta linorder_not_less linorder_not_le split: if_splits)

lemma lock_ring3_span:
  assumes "gsw_lock_ring3 e a n wr w = ((True, rng), w1)"
  shows "unat a + unat n \<le> 3221225472 \<and>
    unat (first_page rng) + unat (page_count rng) = (unat a + unat n - 1) div 4096 + 1"
proof -
  note d = lock_ring3_D [OF assms]
  have n: "0 < unat n" and a: "0 < unat a" using d(1,2) by (simp_all add: unat_gt_0)
  have "unat (n - 1) = unat n - 1" using n by (simp add: unat_sub word_le_nat_alt)
  then have "unat a + (unat n - 1) < 4294967296" using d(4) [unfolded no_wrap_iff] by simp
  moreover have "unat a < 3221225472" using d(3) by (simp add: GSW_SOUND_RING3_LIMIT_def word_less_nat_alt)
  moreover have "(unat a + unat n) mod 4294967296 \<le> 3221225472"
    using d(5) by (simp add: GSW_SOUND_RING3_LIMIT_def word_le_nat_alt unat_word_ariths)
  moreover have "unat (page_count rng) = ((unat a mod 4096 + unat n) mod 4294967296 + 4095) mod 4294967296 div 4096"
    using unat_and_mask [of a 12] unfolding d(7) unat_drop_bit12 by (simp add: unat_word_ariths)
  moreover have "0 < unat (page_count rng)" "unat (page_count rng) \<le> 9"
    using d(8,9) by (simp_all add: unat_gt_0 word_le_nat_alt)
  ultimately have "unat a + unat n \<le> 3221225472 \<and>
      unat a div 4096 + unat (page_count rng) = (unat a + unat n - 1) div 4096 + 1"
    using page_span [OF a n] by blast
  then show ?thesis by (simp only: d(6) unat_drop_bit12)
qed

section \<open>The request block\<close>

lemma pair16_parts:
  "ucast (pair16 a b) = a" "ucast (drop_bit 16 (pair16 a b)) = b"
proof -
  show "ucast (pair16 a b) = a"
    by (rule bit_word_eqI) (auto simp: pair16_def bit_simps)
  show "ucast (drop_bit 16 (pair16 a b)) = b"
  proof (rule bit_word_eqI)
    fix n assume n: "n < LENGTH(16)"
    then have "\<not> bit a (16 + n)" using bit_imp_le_length [of a "16 + n"] by auto
    with n show "bit (ucast (drop_bit 16 (pair16 a b)) :: u16) n = bit b n"
      by (auto simp: pair16_def bit_simps)
  qed
qed

interpretation pm_wire: wire_struct GSW_SOUND_PM_REQUEST_dwords GSW_SOUND_PM_REQUEST_of 16
  by unfold_locales (simp_all add: GSW_SOUND_PM_REQUEST_dwords_def GSW_SOUND_PM_REQUEST_of_def pair16_parts)

section \<open>Requests serve\<close>

lemma serves_plain:
  "(\<And>s. transport_link (transport (snd (f s))) = transport_link (transport s)) \<Longrightarrow>
   (\<And>s. sound_ok (transport s) \<Longrightarrow> sound_ok (transport (snd (f s)))) \<Longrightarrow>
   serves w (snd (snd (gsw_dispatch_plain f r w)))"
  by (simp add: gsw_dispatch_plain_def Let_def split_beta serves_def)

lemma serves_query: "serves w (snd (snd (gsw_dispatch_query e r w)))"
  by (simp add: gsw_dispatch_query_def Let_def split_beta)

lemma serves_open: "serves w (snd (snd (gsw_dispatch_open e r w)))"
  by (simp add: gsw_dispatch_open_def Let_def split_beta serves_sound open_ok)

lemma serves_submit: "serves w (snd (snd (gsw_dispatch_submit e r w)))"
proof (cases "fst (fst (gsw_lock_ring3 e (pm_buffer_linear r) (pm_buffer_bytes r) False w))")
  case True
  then obtain rng w1 where l: "gsw_lock_ring3 e (pm_buffer_linear r) (pm_buffer_bytes r) False w = ((True, rng), w1)"
    by (metis (full_types) prod.collapse)
  show ?thesis
    using unlock_serves [OF l serves_sound, OF link_submit submit_ok]
    by (simp add: gsw_dispatch_submit_def l split_beta)
next
  case False
  with lock_ring3_fails [OF False] show ?thesis
    by (simp add: gsw_dispatch_submit_def Let_def split_beta)
qed

lemma serves_poll: "gsw_dispatch_poll e r w = Some x \<Longrightarrow> serves w (snd (snd x))"
  by (auto simp: gsw_dispatch_poll_def intro!: serves_sound dest: link_poll poll_ok)

lemma serves_position: "gsw_dispatch_position e r w = Some x \<Longrightarrow> serves w (snd (snd x))"
  by (auto simp: gsw_dispatch_position_def intro!: serves_sound dest: link_position position_ok)

lemma serves_get_gain: "serves w (snd (snd (gsw_dispatch_get_gain r w)))"
  by (simp add: gsw_dispatch_get_gain_def split_beta)

lemmas serves_cases = serves_query serves_open serves_submit serves_get_gain

lemma serves_switch: "gsw_dispatch_switch e r w = Some x \<Longrightarrow> serves w (snd (snd x))"
  unfolding gsw_dispatch_switch_def Let_def
  by (auto split: if_splits intro!: serves_cases serves_plain close_ok pause_ok restart_ok reset_ok set_gain_ok
      dest: serves_poll serves_position)

lemma serves_request: "gsw_dispatch_request e r w = Some x \<Longrightarrow> serves w (snd (snd x))"
  by (auto simp: gsw_dispatch_request_def Let_def dest: serves_switch split: if_splits)

section \<open>The driver's invariant\<close>

definition resources_ok :: "GSW_SOUND_DDK_RESOURCES \<Rightarrow> bool" where
  "resources_ok r \<longleftrightarrow> 0x1000 \<le> mmio_bytes r \<and> mmio_physical r AND 0xFFF = 0 \<and>
     unat (mmio_physical r) + 0x1000 \<le> 4294967296 \<and> 3 \<le> irq_number r \<and> irq_number r \<le> 15"

text \<open>
  What is held of the system is what the state says: the ring's pages while there is a ring,
  the interrupt while it is installed, and no locked range between two calls.
\<close>

definition holds_ok :: "'d vxd_world \<Rightarrow> bool" where
  "holds_ok w \<longleftrightarrow> held_ranges w = [] \<and>
     held_pages w = (if gsw_ring (vxd w) = 0 then [] else [gsw_ring (vxd w)]) \<and>
     held_irqs w = (if irq_installed (gsw_irq (vxd w)) then [irq_handle (gsw_irq (vxd w))] else []) \<and>
     (irq_installed (gsw_irq (vxd w)) \<longrightarrow> irq_handle (gsw_irq (vxd w)) \<noteq> 0)"

definition vxd_idle :: "'d vxd_world \<Rightarrow> bool" where
  "vxd_idle w \<longleftrightarrow> sound_ok (transport (sound w)) \<and> holds_ok w \<and> \<not> gsw_device_started (vxd w) \<and>
     gsw_ring (vxd w) = 0 \<and> \<not> irq_installed (gsw_irq (vxd w)) \<and> \<not> bound (transport (sound w)) \<and>
     \<not> gsw_diagnostic_polling (vxd w)"

definition vxd_running :: "'d vxd_world \<Rightarrow> bool" where
  "vxd_running w \<longleftrightarrow> sound_ok (transport (sound w)) \<and> holds_ok w \<and> gsw_device_started (vxd w) \<and>
     gsw_ring (vxd w) \<noteq> 0 \<and> irq_installed (gsw_irq (vxd w)) \<and> gsw_registers (vxd w) \<noteq> 0 \<and>
     gsw_devnode (vxd w) \<noteq> 0 \<and> resources_ok (gsw_resources (vxd w)) \<and> \<not> gsw_diagnostic_polling (vxd w) \<and>
     transport_link (transport (sound w)) = (True, True, gsw_registers (vxd w), gsw_ring (vxd w),
       gsw_ring_physical (vxd w), GSW_SOUND_RING_BYTES)"

definition vxd_ok :: "'d vxd_world \<Rightarrow> bool" where
  "vxd_ok w \<longleftrightarrow> vxd_idle w \<or> vxd_running w"

lemma telemetry_frame [simp]:
  "gsw_ring (vxd (gsw_telemetry_checkpoint e c k d0 d1 w)) = gsw_ring (vxd w)"
  "gsw_ring_physical (vxd (gsw_telemetry_checkpoint e c k d0 d1 w)) = gsw_ring_physical (vxd w)"
  "gsw_registers (vxd (gsw_telemetry_checkpoint e c k d0 d1 w)) = gsw_registers (vxd w)"
  "gsw_devnode (vxd (gsw_telemetry_checkpoint e c k d0 d1 w)) = gsw_devnode (vxd w)"
  "gsw_resources (vxd (gsw_telemetry_checkpoint e c k d0 d1 w)) = gsw_resources (vxd w)"
  "gsw_irq (vxd (gsw_telemetry_checkpoint e c k d0 d1 w)) = gsw_irq (vxd w)"
  "gsw_devnode_registered (vxd (gsw_telemetry_checkpoint e c k d0 d1 w)) = gsw_devnode_registered (vxd w)"
  "gsw_device_started (vxd (gsw_telemetry_checkpoint e c k d0 d1 w)) = gsw_device_started (vxd w)"
  "gsw_diagnostic_polling (vxd (gsw_telemetry_checkpoint e c k d0 d1 w)) = gsw_diagnostic_polling (vxd w)"
  "transport (sound (gsw_telemetry_checkpoint e c k d0 d1 w)) = transport (sound w)"
  "client (gsw_telemetry_checkpoint e c k d0 d1 w) = client w"
  "held_ranges (gsw_telemetry_checkpoint e c k d0 d1 w) = held_ranges w"
  "held_pages (gsw_telemetry_checkpoint e c k d0 d1 w) = held_pages w"
  "held_irqs (gsw_telemetry_checkpoint e c k d0 d1 w) = held_irqs w"
  by (simp_all add: gsw_telemetry_checkpoint_def on_device_def do_device_def Let_def split_beta split: option.split)

lemma device_frame [simp]:
  "vxd (snd (on_device f w)) = vxd w" "client (snd (on_device f w)) = client w"
  "held_ranges (snd (on_device f w)) = held_ranges w" "held_pages (snd (on_device f w)) = held_pages w"
  "held_irqs (snd (on_device f w)) = held_irqs w"
  "transport (sound (snd (on_device f w))) = transport (sound w)"
  "vxd (do_device g w) = vxd w" "client (do_device g w) = client w"
  "held_ranges (do_device g w) = held_ranges w" "held_pages (do_device g w) = held_pages w"
  "held_irqs (do_device g w) = held_irqs w" "transport (sound (do_device g w)) = transport (sound w)"
  by (simp_all add: on_device_def do_device_def)

lemma state_telemetry [simp]:
  "holds_ok (gsw_telemetry_checkpoint e c k d0 d1 w) = holds_ok w"
  "vxd_idle (gsw_telemetry_checkpoint e c k d0 d1 w) = vxd_idle w"
  "vxd_running (gsw_telemetry_checkpoint e c k d0 d1 w) = vxd_running w"
  "vxd_ok (gsw_telemetry_checkpoint e c k d0 d1 w) = vxd_ok w"
  by (simp_all add: holds_ok_def vxd_idle_def vxd_running_def vxd_ok_def)

lemma serves_states:
  assumes "serves w w'"
  shows "holds_ok w \<Longrightarrow> holds_ok w'" "vxd_idle w \<Longrightarrow> vxd_idle w'" "vxd_running w \<Longrightarrow> vxd_running w'"
  using assms by (simp_all add: serves_def holds_ok_def vxd_idle_def vxd_running_def transport_link_def)

lemma serves_ok: "serves w w' \<Longrightarrow> vxd_ok w \<Longrightarrow> vxd_ok w'"
  by (auto simp: vxd_ok_def dest: serves_states)

section \<open>Stages of a start\<close>

text \<open>
  A stage of an initialisation: from \<open>P\<close> it either succeeds with \<open>Q\<close> or has undone
  what it did, with \<open>R\<close>.
\<close>

definition stage :: "('w \<Rightarrow> bool) \<Rightarrow> ('w \<Rightarrow> bool \<times> 'w) \<Rightarrow> ('w \<Rightarrow> bool) \<Rightarrow> ('w \<Rightarrow> bool) \<Rightarrow> bool" where
  "stage P f Q R \<longleftrightarrow> (\<forall>w. P w \<longrightarrow> (if fst (f w) then Q (snd (f w)) else R (snd (f w))))"

lemma stage_and: "stage P f Q R \<Longrightarrow> stage Q g S R \<Longrightarrow> stage P (step_and f g) S R"
  by (auto simp: stage_def step_and_def)

definition stage_resources :: "u32 \<Rightarrow> 'd vxd_world \<Rightarrow> bool" where
  "stage_resources d w \<longleftrightarrow> vxd_idle w \<and> gsw_devnode (vxd w) = d \<and> resources_ok (gsw_resources (vxd w))"

definition stage_mapped :: "u32 \<Rightarrow> 'd vxd_world \<Rightarrow> bool" where
  "stage_mapped d w \<longleftrightarrow> stage_resources d w \<and> gsw_registers (vxd w) \<noteq> 0"

definition stage_ring :: "u32 \<Rightarrow> 'd vxd_world \<Rightarrow> bool" where
  "stage_ring d w \<longleftrightarrow> gsw_devnode (vxd w) = d \<and> resources_ok (gsw_resources (vxd w)) \<and>
     gsw_registers (vxd w) \<noteq> 0 \<and> gsw_ring (vxd w) \<noteq> 0 \<and> \<not> gsw_diagnostic_polling (vxd w) \<and>
     \<not> gsw_device_started (vxd w) \<and> \<not> irq_installed (gsw_irq (vxd w)) \<and> holds_ok w \<and>
     \<not> bound (transport (sound w)) \<and> sound_ok (transport (sound w))"

definition stage_bound :: "bool \<Rightarrow> u32 \<Rightarrow> 'd vxd_world \<Rightarrow> bool" where
  "stage_bound i d w \<longleftrightarrow> gsw_devnode (vxd w) = d \<and> resources_ok (gsw_resources (vxd w)) \<and>
     gsw_registers (vxd w) \<noteq> 0 \<and> gsw_ring (vxd w) \<noteq> 0 \<and> \<not> gsw_diagnostic_polling (vxd w) \<and>
     \<not> gsw_device_started (vxd w) \<and> irq_installed (gsw_irq (vxd w)) = i \<and> holds_ok w \<and>
     \<not> opened (transport (sound w)) \<and> sound_ok (transport (sound w)) \<and>
     transport_link (transport (sound w)) = (True, i, gsw_registers (vxd w), gsw_ring (vxd w),
       gsw_ring_physical (vxd w), GSW_SOUND_RING_BYTES)"

lemmas stage_defs = stage_resources_def stage_mapped_def stage_ring_def stage_bound_def

lemma scan_windows_ok:
  assumes "gsw_scan_windows ws r k = (r', k')"
  shows "r' = r \<and> k' = k \<or> (\<exists>v. gsw_window_usable v \<and>
    r' = r\<lparr>mmio_physical := window_base v, mmio_bytes := window_bytes v\<rparr>)"
  using assms
proof (induction ws arbitrary: r k)
  case (Cons x xs)
  then show ?case by (fastforce split: if_splits)
qed simp

lemma window_usable_ok:
  assumes "gsw_window_usable v" "3 \<le> i" "i \<le> 15"
  shows "resources_ok \<lparr>mmio_physical = window_base v, mmio_bytes = window_bytes v, irq_number = i\<rparr>"
proof -
  have "window_base v \<le> 0xFFFFFFFF - 0xFFF" using assms(1)
    by (simp add: gsw_window_usable_def GSW_PCM_CONTROL_SIZE_def linorder_not_less)
  then have "unat (window_base v) + 0xFFF < 4294967296" unfolding no_wrap_iff by simp
  with assms show ?thesis
    by (simp add: gsw_window_usable_def resources_ok_def GSW_PCM_CONTROL_SIZE_def GSW_SOUND_DDK_MMIO_ALIGNMENT_def
        linorder_not_less)
qed

lemma scan_match:
  assumes "snd (gsw_scan_windows ws resources_zero 0) = 1" "3 \<le> i" "i \<le> 15"
  shows "resources_ok ((fst (gsw_scan_windows ws resources_zero 0))\<lparr>irq_number := i\<rparr>)"
proof -
  obtain r k where s: "gsw_scan_windows ws resources_zero 0 = (r, k)" by force
  from scan_windows_ok [OF s] assms(1) s obtain v where "gsw_window_usable v"
    "r = resources_zero\<lparr>mmio_physical := window_base v, mmio_bytes := window_bytes v\<rparr>" by auto
  then show ?thesis using window_usable_ok [OF _ assms(2,3)] by (simp add: s) (simp add: resources_zero_def)
qed

text \<open>Resources are accepted only with one usable register window and one interrupt in range.\<close>

lemma get_allocated_resources_ok:
  assumes "gsw_sound_ddk_get_allocated_resources e d w = ((CR_SUCCESS, r), w')"
  shows "\<exists>x. r = Some x \<and> resources_ok x"
  using assms
  by (auto simp: gsw_sound_ddk_get_allocated_resources_def CR_SUCCESS_def GSW_SOUND_CR_FAILURE_def Let_def split_beta GSW_SOUND_DDK_IRQ_MIN_def GSW_SOUND_DDK_IRQ_MAX_def
      linorder_not_less intro!: scan_match split: if_splits)

lemma configmg_frame [simp]:
  "snd (gsw_configmg_get_allocated_resources e d w) = snd (on_device (Get_Alloc_Log_Conf e d) w)"
  by (simp add: gsw_configmg_get_allocated_resources_def Let_def split_beta)

lemma get_resources_frame:
  "snd (gsw_sound_ddk_get_allocated_resources e d w) =
     (if d = 0 then w else snd (on_device (Get_Alloc_Log_Conf e d) w))"
  by (simp add: gsw_sound_ddk_get_allocated_resources_def Let_def split_beta)

lemma stop_idle:
  assumes "holds_ok w"
  shows "vxd_idle (gsw_device_stop e w)"
  using assms
  by (auto simp: gsw_device_stop_def gsw_sound_ddk_remove_level_irq_def gsw_set_irq_def irq_zero_def
      PageFree_call_def gsw_sound_transport_unbind_def vxd_idle_def holds_ok_def transport_zero_def
      sound_ok_def GSW_SOUND_COMPLETION_CAPACITY_def Let_def)

lemma stage_resources_ok:
  "d \<noteq> 0 \<Longrightarrow> stage (\<lambda>w. vxd_idle w \<and> gsw_devnode (vxd w) = d) (gsw_start_resources e d) (stage_resources d) vxd_idle"
  unfolding stage_def
proof (intro allI impI)
  fix w :: "'a vxd_world"
  assume d: "d \<noteq> 0" and w: "vxd_idle w \<and> gsw_devnode (vxd w) = d"
  define w1 where "w1 = gsw_telemetry_checkpoint e GSW_SOUND_TELEMETRY_RESOURCE GSW_SOUND_TELEMETRY_ENTER d 0 w"
  obtain c r w2 where g: "gsw_sound_ddk_get_allocated_resources e d w1 = ((c, r), w2)" by (metis prod.collapse)
  have w2: "w2 = snd (on_device (Get_Alloc_Log_Conf e d) w1)"
    using get_resources_frame [of e d w1] d g by simp
  have "resources_ok (the r) \<and> r \<noteq> None" if "c = CR_SUCCESS"
    using get_allocated_resources_ok g that by fastforce
  with w show "if fst (gsw_start_resources e d w) then stage_resources d (snd (gsw_start_resources e d w))
      else vxd_idle (snd (gsw_start_resources e d w))"
    by (auto simp: gsw_start_resources_def w1_def [symmetric] g split: option.split)
       (auto simp: w2 w1_def stage_resources_def vxd_idle_def holds_ok_def split: option.split)
qed

lemma stage_map_ok: "stage (stage_resources d) (gsw_start_map e) (stage_mapped d) vxd_idle"
  by (simp add: stage_def gsw_start_map_def Let_def split_beta)
     (simp add: stage_defs vxd_idle_def holds_ok_def)

lemma stage_ring_ok: "stage (stage_mapped d) (gsw_start_ring e) (stage_ring d) vxd_idle"
  by (simp add: stage_def gsw_start_ring_def PageAllocate_call_def PageFree_call_def Let_def split_beta)
     (simp add: stage_defs vxd_idle_def holds_ok_def)

lemma bind_result:
  assumes "\<not> bound (transport s)" "\<not> opened (transport s)" "sound_ok (transport s)"
    "gsw_sound_transport_bind m r a p b s = (res, s')"
  shows "sound_ok (transport s') \<and> \<not> opened (transport s') \<and>
    (if res = GSW_SOUND_OK then transport_link (transport s') = (True, False, r, a, p, b)
     else \<not> bound (transport s'))"
proof -
  have "sound_ok (transport s')" using bind_ok [OF assms(3), of m r a p b] assms(4) by simp
  moreover have "\<not> opened (transport s') \<and>
      (if res = GSW_SOUND_OK then transport_link (transport s') = (True, False, r, a, p, b)
       else \<not> bound (transport s'))"
    using assms(1,2,4) by (auto simp: gsw_sound_transport_bind_def transport_link_def transport_zero_def
        Let_def split_beta split: if_splits)
  ultimately show ?thesis by simp
qed

lemma sound_ok_unbound: "sound_ok t \<Longrightarrow> \<not> bound t \<Longrightarrow> \<not> opened t"
  by (auto simp: sound_ok_def stream_ok_def)

lemma vxd_register_frame [simp]:
  "vxd (snd (vxd_register e r w)) = vxd w" "client (snd (vxd_register e r w)) = client w"
  "held_ranges (snd (vxd_register e r w)) = held_ranges w"
  "held_pages (snd (vxd_register e r w)) = held_pages w" "held_irqs (snd (vxd_register e r w)) = held_irqs w"
  "transport (sound (snd (vxd_register e r w))) = transport (sound w)"
  by (simp_all add: vxd_register_def)

lemma stage_bind_ok: "stage (stage_ring d) (gsw_start_bind e) (stage_bound False d) vxd_idle"
  unfolding stage_def
proof (intro allI impI)
  fix w :: "'a vxd_world"
  assume w: "stage_ring d w"
  define w1 where "w1 = gsw_telemetry_checkpoint e GSW_SOUND_TELEMETRY_BIND GSW_SOUND_TELEMETRY_ENTER
    (gsw_ring_physical (vxd w)) GSW_SOUND_RING_BYTES w"
  have w1: "stage_ring d w1" using w by (simp add: w1_def stage_ring_def)
  obtain res s where b: "gsw_sound_transport_bind (vxd_mmio e) (gsw_registers (vxd w1)) (gsw_ring (vxd w1))
      (gsw_ring_physical (vxd w1)) GSW_SOUND_RING_BYTES (sound w1) = (res, s)" by force
  have s: "sound_ok (transport s) \<and> \<not> opened (transport s) \<and>
      (if res = GSW_SOUND_OK then transport_link (transport s) = (True, False, gsw_registers (vxd w1),
          gsw_ring (vxd w1), gsw_ring_physical (vxd w1), GSW_SOUND_RING_BYTES)
       else \<not> bound (transport s))"
    by (rule bind_result [OF _ _ _ b]) (use w1 in \<open>auto simp: stage_ring_def dest: sound_ok_unbound\<close>)
  show "if fst (gsw_start_bind e w) then stage_bound False d (snd (gsw_start_bind e w))
      else vxd_idle (snd (gsw_start_bind e w))"
    using w1 s
    by (simp add: gsw_start_bind_def w1_def [symmetric] b split_beta Let_def PageFree_call_def)
       (auto simp: stage_defs vxd_idle_def holds_ok_def)
qed

text \<open>Installing the interrupt changes the interrupt's own state and what is held for it.\<close>

lemma install_irq_keeps:
  "client (snd (gsw_sound_ddk_install_level_irq e n w)) = client w"
  "held_ranges (snd (gsw_sound_ddk_install_level_irq e n w)) = held_ranges w"
  "held_pages (snd (gsw_sound_ddk_install_level_irq e n w)) = held_pages w"
  "transport (sound (snd (gsw_sound_ddk_install_level_irq e n w))) = transport (sound w)"
  "\<exists>i. vxd (snd (gsw_sound_ddk_install_level_irq e n w)) = (vxd w)\<lparr>gsw_irq := i\<rparr>"
  by (simp_all add: gsw_sound_ddk_install_level_irq_def gsw_vpicd_virtualize_irq_def gsw_set_irq_def Let_def
      split_beta) (auto intro: exI [of _ "gsw_irq (vxd w)"])

lemma install_irq_holds:
  assumes "\<not> irq_installed (gsw_irq (vxd w))" "holds_ok w"
  shows "holds_ok (snd (gsw_sound_ddk_install_level_irq e n w)) \<and>
    irq_installed (gsw_irq (vxd (snd (gsw_sound_ddk_install_level_irq e n w)))) =
      fst (gsw_sound_ddk_install_level_irq e n w)"
  using assms by (auto simp: gsw_sound_ddk_install_level_irq_def gsw_vpicd_virtualize_irq_def gsw_set_irq_def
      holds_ok_def Let_def split_beta split: option.split)

lemma set_mode_result:
  assumes "bound (transport s)" "\<not> opened (transport s)"
  shows "gsw_sound_transport_set_interrupt_mode m b s =
    (GSW_SOUND_OK, snd (gsw_sound_transport_set_interrupt_mode m b s)) \<and>
    \<not> opened (transport (snd (gsw_sound_transport_set_interrupt_mode m b s))) \<and>
    transport_link (transport (snd (gsw_sound_transport_set_interrupt_mode m b s))) =
      (let (p, _, q) = transport_link (transport s) in (p, b, q))"
  using assms by (simp add: gsw_sound_transport_set_interrupt_mode_def transport_link_def Let_def)

lemma stage_interrupt_ok:
  "stage (stage_bound False d) (gsw_start_interrupt e) (stage_bound True d) vxd_idle"
  unfolding stage_def
proof (intro allI impI)
  fix w :: "'a vxd_world"
  assume w: "stage_bound False d w"
  define n where "n = irq_number (gsw_resources (vxd w))"
  define w1 where "w1 = gsw_telemetry_checkpoint e GSW_SOUND_TELEMETRY_IRQ GSW_SOUND_TELEMETRY_ENTER (ucast n) 0 w"
  have w1: "stage_bound False d w1" using w by (simp add: w1_def stage_bound_def)
  obtain ok w2 where i: "gsw_sound_ddk_install_level_irq e n w1 = (ok, w2)" by force
  obtain q where q: "vxd w2 = (vxd w1)\<lparr>gsw_irq := q\<rparr>" using install_irq_keeps(5) [of e n w1] i by auto
  have t: "transport (sound w2) = transport (sound w1)" using install_irq_keeps(4) [of e n w1] i by simp
  have h: "holds_ok w2 \<and> irq_installed q = ok"
    using install_irq_holds [of w1 e n] w1 i q by (simp add: stage_bound_def)
  have b: "bound (transport (sound w2))" "\<not> opened (transport (sound w2))"
    using w1 by (simp_all add: t stage_bound_def transport_link_def)
  have s: "sound_ok (transport (snd (gsw_sound_transport_set_interrupt_mode m True s)))"
    if "transport s = transport (sound w2)" for m :: "'a mmio" and s
    using set_interrupt_mode_ok [of s m True] that w1 by (simp add: t stage_bound_def)
  show "if fst (gsw_start_interrupt e w) then stage_bound True d (snd (gsw_start_interrupt e w))
      else vxd_idle (snd (gsw_start_interrupt e w))"
  proof (cases ok)
    case True
    define w3 where "w3 = gsw_telemetry_checkpoint e GSW_SOUND_TELEMETRY_MODE GSW_SOUND_TELEMETRY_ENTER 1 0
      (gsw_telemetry_checkpoint e GSW_SOUND_TELEMETRY_IRQ GSW_SOUND_TELEMETRY_PASSED
        (ucast n) (irq_handle (gsw_irq (vxd w2))) w2)"
    have t3: "transport (sound w3) = transport (sound w2)" by (simp add: w3_def)
    define s3 where "s3 = snd (gsw_sound_transport_set_interrupt_mode (vxd_mmio e) True (sound w3))"
    have m: "gsw_sound_transport_set_interrupt_mode (vxd_mmio e) True (sound w3) = (GSW_SOUND_OK, s3)"
      and l: "\<not> opened (transport s3)"
        "transport_link (transport s3) = (let (p, _, q) = transport_link (transport (sound w1)) in (p, True, q))"
      using set_mode_result [of "sound w3" "vxd_mmio e" True] b by (simp_all add: t3 t s3_def)
    have ok3: "sound_ok (transport s3)" unfolding s3_def by (rule s) (rule t3)
    have v3: "vxd (w3\<lparr>sound := s3\<rparr>) = vxd w3" "transport (sound (w3\<lparr>sound := s3\<rparr>)) = transport s3"
      "holds_ok (w3\<lparr>sound := s3\<rparr>)"
      using h by (simp_all add: holds_ok_def w3_def)
    have "stage_bound True d (w3\<lparr>sound := s3\<rparr>)"
      using w1 h True l ok3 v3(3) unfolding stage_bound_def v3 by (simp add: w3_def q)
    moreover have "fst (gsw_start_interrupt e w) \<and> snd (gsw_start_interrupt e w) =
        gsw_telemetry_checkpoint e GSW_SOUND_TELEMETRY_MODE GSW_SOUND_TELEMETRY_PASSED
          (if gsw_diagnostic_polling (vxd w3) then 0 else 1) 0 (w3\<lparr>sound := s3\<rparr>)"
      using True
      by (simp add: gsw_start_interrupt_def n_def [symmetric] w1_def [symmetric] i w3_def [symmetric] m)
    ultimately show ?thesis by (simp add: stage_bound_def)
  next
    case False
    with h show ?thesis
      by (simp add: gsw_start_interrupt_def n_def [symmetric] w1_def [symmetric] i Let_def stop_idle)
  qed
qed

lemma stage_done_ok:
  "d \<noteq> 0 \<Longrightarrow> stage (stage_bound True d) (gsw_start_done e d) vxd_running vxd_idle"
  by (simp add: stage_def gsw_start_done_def Let_def)
     (simp add: stage_bound_def vxd_running_def holds_ok_def)

lemma start_stages:
  "d \<noteq> 0 \<Longrightarrow> stage (\<lambda>w. vxd_idle w \<and> gsw_devnode (vxd w) = d)
     (step_and (gsw_start_resources e d) (step_and (gsw_start_map e) (step_and (gsw_start_ring e)
       (step_and (gsw_start_bind e) (step_and (gsw_start_interrupt e) (gsw_start_done e d))))))
     vxd_running vxd_idle"
  by (rule stage_and [OF stage_resources_ok stage_and [OF stage_map_ok stage_and [OF stage_ring_ok
        stage_and [OF stage_bind_ok stage_and [OF stage_interrupt_ok stage_done_ok]]]]])

text \<open>A start that reports success leaves the device running; one that fails from idle leaves it idle.\<close>

lemma device_start_ok:
  assumes "vxd_ok w"
  shows "if fst (gsw_device_start e d w) then vxd_running (snd (gsw_device_start e d w))
    else vxd_ok (snd (gsw_device_start e d w)) \<and> (vxd_idle w \<longrightarrow> vxd_idle (snd (gsw_device_start e d w)))"
proof -
  let ?w = "gsw_telemetry_checkpoint e GSW_SOUND_TELEMETRY_START GSW_SOUND_TELEMETRY_ENTER d (gsw_devnode (vxd w)) w"
  have "vxd_running w" if "gsw_device_started (vxd w)" using assms that by (auto simp: vxd_ok_def vxd_idle_def)
  moreover have "vxd_idle w" if "\<not> gsw_device_started (vxd w)"
    using assms that by (auto simp: vxd_ok_def vxd_running_def)
  moreover have "\<not> vxd_idle w" if "gsw_device_started (vxd w)" using that by (simp add: vxd_idle_def)
  ultimately show ?thesis
    using start_stages [of d e, unfolded stage_def, rule_format, of ?w]
    by (auto simp: gsw_device_start_def Let_def vxd_ok_def)
qed

section \<open>Plug and Play events\<close>

lemma start_steps_devnode [simp]:
  "gsw_devnode (vxd (snd (gsw_start_map e w))) = gsw_devnode (vxd w)"
  "gsw_devnode_registered (vxd (snd (gsw_start_map e w))) = gsw_devnode_registered (vxd w)"
  "gsw_devnode (vxd (snd (gsw_start_ring e w))) = gsw_devnode (vxd w)"
  "gsw_devnode_registered (vxd (snd (gsw_start_ring e w))) = gsw_devnode_registered (vxd w)"
  "gsw_devnode (vxd (snd (gsw_start_bind e w))) = gsw_devnode (vxd w)"
  "gsw_devnode_registered (vxd (snd (gsw_start_bind e w))) = gsw_devnode_registered (vxd w)"
  "gsw_devnode (vxd (snd (gsw_start_done e d w))) = gsw_devnode (vxd w)"
  "gsw_devnode_registered (vxd (snd (gsw_start_done e d w))) = gsw_devnode_registered (vxd w)"
  by (simp_all add: gsw_start_map_def gsw_start_ring_def gsw_start_bind_def gsw_start_done_def
      PageAllocate_call_def PageFree_call_def Let_def split_beta)

lemma start_resources_devnode [simp]:
  "gsw_devnode (vxd (snd (gsw_start_resources e d w))) = gsw_devnode (vxd w)"
  "gsw_devnode_registered (vxd (snd (gsw_start_resources e d w))) = gsw_devnode_registered (vxd w)"
  by (simp_all add: gsw_start_resources_def get_resources_frame Let_def split_beta split: option.split)

lemma stop_devnode [simp]:
  "gsw_devnode (vxd (gsw_device_stop e w)) = gsw_devnode (vxd w)"
  "gsw_devnode_registered (vxd (gsw_device_stop e w)) = gsw_devnode_registered (vxd w)"
  by (simp_all add: gsw_device_stop_def gsw_sound_ddk_remove_level_irq_def gsw_set_irq_def PageFree_call_def Let_def)

lemma install_devnode [simp]:
  "gsw_devnode (vxd (snd (gsw_sound_ddk_install_level_irq e n w))) = gsw_devnode (vxd w)"
  "gsw_devnode_registered (vxd (snd (gsw_sound_ddk_install_level_irq e n w))) = gsw_devnode_registered (vxd w)"
  using install_irq_keeps(5) [of e n w] by auto

lemma start_interrupt_devnode [simp]:
  "gsw_devnode (vxd (snd (gsw_start_interrupt e w))) = gsw_devnode (vxd w)"
  "gsw_devnode_registered (vxd (snd (gsw_start_interrupt e w))) = gsw_devnode_registered (vxd w)"
  by (simp_all add: gsw_start_interrupt_def Let_def split_beta)

lemma device_start_devnode [simp]:
  "gsw_devnode (vxd (snd (gsw_device_start e d w))) = gsw_devnode (vxd w)"
  "gsw_devnode_registered (vxd (snd (gsw_device_start e d w))) = gsw_devnode_registered (vxd w)"
  by (simp_all add: gsw_device_start_def step_and_def Let_def)

lemma vxd_ok_holds: "vxd_ok w \<Longrightarrow> holds_ok w"
  by (auto simp: vxd_ok_def vxd_idle_def vxd_running_def)

lemma vxd_idle_devnode [simp]:
  "vxd_idle (w\<lparr>vxd := (vxd w)\<lparr>gsw_devnode := d\<rparr>\<rparr>) = vxd_idle w"
  "vxd_idle (w\<lparr>vxd := (vxd w)\<lparr>gsw_devnode := d, gsw_devnode_registered := b\<rparr>\<rparr>) = vxd_idle w"
  by (simp_all add: vxd_idle_def holds_ok_def)

lemma vxd_ok_registered [simp]:
  "vxd_ok (w\<lparr>vxd := (vxd w)\<lparr>gsw_devnode_registered := b\<rparr>\<rparr>) = vxd_ok w"
  by (simp add: vxd_ok_def vxd_idle_def vxd_running_def holds_ok_def)

lemma vxd_ok_devnode: "vxd_ok w \<Longrightarrow> d \<noteq> 0 \<Longrightarrow> vxd_ok (w\<lparr>vxd := (vxd w)\<lparr>gsw_devnode := d\<rparr>\<rparr>)"
  by (auto simp: vxd_ok_def vxd_running_def holds_ok_def)

lemma config_handler_ok:
  assumes "vxd_ok w"
  shows "vxd_ok (snd (gsw_configuration_handler_impl e f d w))"
proof -
  have "vxd_ok (snd (gsw_device_start e d w))"
    using device_start_ok [OF assms, of e d] by (auto simp: vxd_ok_def split: if_splits)
  moreover have "vxd_idle (gsw_device_stop e w)" by (rule stop_idle [OF vxd_ok_holds [OF assms]])
  ultimately show ?thesis using assms
    by (simp add: gsw_configuration_handler_impl_def split_beta Let_def) (simp add: vxd_ok_def)
qed

lemma config_handler_registered:
  "(gsw_devnode (vxd w) \<noteq> 0 \<longrightarrow> gsw_devnode_registered (vxd w)) \<Longrightarrow>
   gsw_devnode (vxd (snd (gsw_configuration_handler_impl e f d w))) \<noteq> 0 \<longrightarrow>
   gsw_devnode_registered (vxd (snd (gsw_configuration_handler_impl e f d w)))"
  by (simp add: gsw_configuration_handler_impl_def split_beta Let_def)

lemma register_call_ok:
  assumes "vxd_ok w"
  shows "vxd_ok (gsw_sound_ddk_register_devnode e d w)"
proof -
  have run: "vxd_ok v \<Longrightarrow> vxd_ok (fold (\<lambda>(f, n) w. snd (gsw_configuration_handler_impl e f n w)) calls v)"
    for calls and v :: "'a vxd_world"
    by (induction calls arbitrary: v) (auto intro: config_handler_ok)
  have "vxd_ok (snd (on_device (Register_Device_Driver e d) w))" by (rule serves_ok [OF serves_device(1) assms])
  then show ?thesis by (simp add: gsw_sound_ddk_register_devnode_def split_beta run)
qed

text \<open>Between two events the device node is registered whenever it is set.\<close>

definition vxd_between :: "'d vxd_world \<Rightarrow> bool" where
  "vxd_between w \<longleftrightarrow> vxd_ok w \<and> (gsw_devnode (vxd w) \<noteq> 0 \<longrightarrow> gsw_devnode_registered (vxd w))"

lemma register_devnode_ok:
  assumes "vxd_between w"
  shows "vxd_between (snd (gsw_register_devnode e d l w))"
proof (cases "d = 0 \<or> gsw_devnode_registered (vxd w)")
  case True
  with assms show ?thesis by (auto simp: gsw_register_devnode_def Let_def vxd_between_def)
next
  case False
  define w1 where "w1 = gsw_telemetry_checkpoint e GSW_SOUND_TELEMETRY_PNP GSW_SOUND_TELEMETRY_PASSED d l
    (gsw_telemetry_checkpoint e GSW_SOUND_TELEMETRY_PNP GSW_SOUND_TELEMETRY_ENTER d l w)"
  have "vxd_ok (w1\<lparr>vxd := (vxd w1)\<lparr>gsw_devnode := d\<rparr>\<rparr>)"
    using assms False by (intro vxd_ok_devnode) (simp_all add: w1_def vxd_between_def)
  then have "vxd_ok (gsw_sound_ddk_register_devnode e d
      (gsw_telemetry_checkpoint e GSW_SOUND_TELEMETRY_REGISTER GSW_SOUND_TELEMETRY_ENTER d 0
        (w1\<lparr>vxd := (vxd w1)\<lparr>gsw_devnode := d\<rparr>\<rparr>)))"
    by (intro register_call_ok) simp
  with False show ?thesis
    by (simp add: gsw_register_devnode_def Let_def vxd_between_def w1_def)
qed

lemma control_ok:
  assumes "vxd_between w"
  shows "vxd_between (snd (GSWSOUND_Control e m w))"
proof -
  have "vxd_idle (gsw_device_stop e w)"
    using assms by (intro stop_idle vxd_ok_holds) (simp add: vxd_between_def)
  then have "vxd_between (gsw_driver_exit e w)"
    by (simp add: gsw_driver_exit_def Let_def vxd_between_def vxd_ok_def)
  with assms register_devnode_ok [OF assms] show ?thesis
    by (cases m) (simp_all add: split_beta)
qed

lemma interrupt_serves: "serves w (snd (gsw_hardware_interrupt e h w))"
proof -
  have s: "serves w (w\<lparr>sound := snd (gsw_sound_transport_handle_interrupt (vxd_mmio e) (sound w))\<rparr>)"
    by (rule serves_sound) (simp_all add: handle_interrupt_ok)
  show ?thesis
    using s serves_trans [OF s serves_device(2)]
    by (simp add: gsw_hardware_interrupt_def gsw_service_hardware_interrupt_def split_beta Let_def)
qed

section \<open>Requests in client memory\<close>

lemma unlock_client:
  "gsw_unlock_ring3 e rng (w\<lparr>client := c\<rparr>) = (gsw_unlock_ring3 e rng w)\<lparr>client := c\<rparr>"
  by (simp add: gsw_unlock_ring3_def LinPageUnLock_call_def do_device_def)

lemma dispatch_linear_cases:
  assumes "gsw_dispatch_linear e a n w = Some (res, w')"
  obtains (refused) "res = GSW_SOUND_INVALID" "serves w w'"
      "\<not> (n = 64 \<and> fst (fst (gsw_lock_ring3 e a 64 True w)))"
    | (answered) rng w1 r w2 where "n = 64" "gsw_lock_ring3 e a 64 True w = ((True, rng), w1)"
      "gsw_dispatch_request e (GSW_SOUND_PM_REQUEST_of (mem_dwords (client w) a 16)) w1 = Some (res, r, w2)"
      "serves w (gsw_unlock_ring3 e rng w2)"
      "w' = (gsw_unlock_ring3 e rng w2)\<lparr>client := put_dwords a (GSW_SOUND_PM_REQUEST_dwords r) (client w)\<rparr>"
proof (cases "n = 64 \<and> fst (fst (gsw_lock_ring3 e a 64 True w))")
  case False
  with assms lock_ring3_fails [of e a n True w] refused show ?thesis
    by (auto simp: gsw_dispatch_linear_def Let_def split_beta split: if_splits)
next
  case True
  then obtain rng w1 where l: "gsw_lock_ring3 e a 64 True w = ((True, rng), w1)"
    by (metis (full_types) prod.collapse)
  with assms True obtain r w2 where q:
    "gsw_dispatch_request e (GSW_SOUND_PM_REQUEST_of (mem_dwords (client w1) a 16)) w1 = Some (res, r, w2)"
    "w' = gsw_unlock_ring3 e rng (w2\<lparr>client := put_dwords a (GSW_SOUND_PM_REQUEST_dwords r) (client w2)\<rparr>)"
    by (auto simp: gsw_dispatch_linear_def)
  have s: "serves w1 w2" using serves_request [OF q(1)] by simp
  have "client w1 = client w" using lock_ring3_holds [OF l] by simp
  moreover from this have "client w2 = client w" using s by (simp add: serves_def)
  ultimately show ?thesis
    using answered [OF _ l _ unlock_serves [OF l s]] True q by (simp add: unlock_client)
qed

lemma serves_but_client:
  assumes "serves w v" "vxd_between w"
  shows "vxd_between (v\<lparr>client := c\<rparr>)"
  using assms serves_ok [OF assms(1)]
  by (auto simp: vxd_between_def serves_def vxd_ok_def vxd_idle_def vxd_running_def holds_ok_def)

lemma dispatch_linear_between:
  assumes "vxd_between w" "gsw_dispatch_linear e a n w = Some (res, w')"
  shows "vxd_between w'"
  using assms(2)
proof (cases rule: dispatch_linear_cases)
  case refused
  from serves_but_client [OF this(2) assms(1), of "client w'"] show ?thesis by simp
next
  case (answered rng w1 r w2)
  then show ?thesis using serves_but_client [OF _ assms(1)] by simp
qed

section \<open>The driver as a component\<close>

text \<open>
  What can happen to the driver: a system message, a call of the configuration handler, an
  interrupt, a request of the 16-bit driver, and a store of the client to its own memory.
\<close>

datatype vxd_event =
    Event_Control control_message
  | Event_Config u32 u32
  | Event_Interrupt u32
  | Event_Request u32 u32
  | Event_Store u32 u8

fun vxd_perform :: "'d vxd_env \<Rightarrow> vxd_event \<Rightarrow> 'd vxd_world \<Rightarrow> 'd vxd_world option" where
  "vxd_perform e (Event_Control m) w = Some (snd (GSWSOUND_Control e m w))"
| "vxd_perform e (Event_Config f d) w = Some (snd (gsw_configuration_handler_impl e f d w))"
| "vxd_perform e (Event_Interrupt h) w = Some (snd (gsw_hardware_interrupt e h w))"
| "vxd_perform e (Event_Request esi ecx) w = map_option snd (GSWSOUND_PM_API e esi ecx w)"
| "vxd_perform e (Event_Store a b) w = Some (w\<lparr>client := (client w)(a := b)\<rparr>)"

definition vxd_step :: "'d vxd_env \<Rightarrow> vxd_event \<Rightarrow> 'd vxd_world option \<Rightarrow> 'd vxd_world option" where
  "vxd_step e v s = Option.bind s (vxd_perform e v)"

definition vxd_state_zero :: vxd_state where
  "vxd_state_zero = \<lparr>gsw_ring = 0, gsw_ring_physical = 0, gsw_registers = 0, gsw_devnode = 0,
     gsw_resources = resources_zero, gsw_irq = irq_zero, gsw_devnode_registered = False,
     gsw_device_started = False, gsw_diagnostic_polling = False, gsw_telemetry_sequence = 0,
     gsw_telemetry_last_checkpoint = GSW_SOUND_TELEMETRY_SEED\<rparr>"

definition vxd_start :: "(u32 \<Rightarrow> u8) \<Rightarrow> (u32 \<Rightarrow> u8) \<Rightarrow> 'd \<Rightarrow> 'd vxd_world" where
  "vxd_start mem rm d = \<lparr>sound = sound_start rm d, vxd = vxd_state_zero, client = mem, held_ranges = [],
     held_pages = [], held_irqs = []\<rparr>"

lemma vxd_start_idle: "vxd_idle (vxd_start mem rm d)"
  by (simp add: vxd_start_def vxd_idle_def holds_ok_def vxd_state_zero_def irq_zero_def sound_start_def)
     (simp add: transport_zero_def)

lemma vxd_perform_ok:
  assumes "vxd_between w" "vxd_perform e v w = Some w'"
  shows "vxd_between w'"
proof (cases v)
  case (Event_Config f d)
  with assms show ?thesis
    using config_handler_ok [of w e f d] config_handler_registered [of w e f d] by (auto simp: vxd_between_def)
next
  case (Event_Request esi ecx)
  with assms show ?thesis by (auto simp: GSWSOUND_PM_API_def intro: dispatch_linear_between)
next
  case (Event_Interrupt h)
  with assms serves_but_client [OF interrupt_serves [of w e h] assms(1), of "client (snd (gsw_hardware_interrupt e h w))"]
  show ?thesis by simp
next
  case (Event_Store a b)
  with assms serves_but_client [OF serves_refl assms(1)] show ?thesis by auto
qed (use assms control_ok in auto)

interpretation sound_vxd: started_component "vxd_step e" "pred_option vxd_between" "Some (vxd_start mem rm d)"
  for e :: "'d vxd_env" and mem rm d
proof
  show "pred_option vxd_between (vxd_step e v s)" if "pred_option vxd_between s" for v s
    using that by (cases s) (auto simp: vxd_step_def option.pred_set intro: vxd_perform_ok)
qed (simp add: vxd_between_def vxd_ok_def vxd_start_idle, simp add: vxd_start_def vxd_state_zero_def)

section \<open>Properties\<close>

text \<open>
  C6. For every behaviour of Windows and of the device, and every sequence of system messages,
  configuration calls, interrupts, requests and client stores from the loaded driver: the sound
  VxD is either idle, with the transport unbound and nothing held of the system, or running with
  a bound transport on its own ring and registers, a usable register window, and exactly its ring
  pages and its interrupt held. No page range stays locked between two events, and a device node
  that is set is registered.
\<close>

theorem vxd_reachable_ok:
  "pred_option vxd_between (fold (vxd_step e) events (Some (vxd_start mem rm d)))"
  by (rule sound_vxd.reachable_ok)

text \<open>
  C7. Starting the device is all or nothing: from the idle driver a start either reports success
  and leaves the device running, or reports failure and has released the pages, the interrupt and
  the transport it had taken, whichever step failed.
\<close>

theorem vxd_start_all_or_nothing:
  assumes "vxd_idle w" "gsw_device_start e d w = (ok, w')"
  shows "if ok then vxd_running w'
    else \<not> gsw_device_started (vxd w') \<and> \<not> bound (transport (sound w')) \<and>
      \<not> irq_installed (gsw_irq (vxd w')) \<and> gsw_ring (vxd w') = 0 \<and> held_pages w' = [] \<and>
      held_irqs w' = [] \<and> held_ranges w' = []"
  using device_start_ok [of w e d] assms by (auto simp: vxd_ok_def vxd_idle_def holds_ok_def)

text \<open>
  C9. A successful lock of a client buffer covers it: the buffer is not empty, lies below 3 GiB
  in unbounded arithmetic, the locked pages are exactly those from its first to its last byte, at
  most nine, and each of them was seen present, accessible to ring 3, and writable where the
  driver is going to write.
\<close>

theorem lock_ring3_covers:
  assumes "gsw_lock_ring3 e a n wr w = ((True, rng), w')"
  shows "0 < unat n \<and> 0 < unat a \<and> unat a + unat n \<le> 0xC0000000 \<and>
    unat (first_page rng) = unat a div 4096 \<and> unat (page_count rng) \<le> 9 \<and>
    unat (first_page rng) + unat (page_count rng) = (unat a + unat n - 1) div 4096 + 1 \<and>
    held_ranges w' = (first_page rng, page_count rng) # held_ranges w \<and>
    (\<forall>i < unat (page_count rng). \<exists>d. let pte = fst (CopyPageTable e (first_page rng + of_nat i) d)
       in pte AND 5 = 5 \<and> (wr \<longrightarrow> pte AND 2 = 2))"
proof -
  note d = lock_ring3_D [OF assms]
  obtain w2 where "fst (gsw_check_pages e (GSW_SOUND_PTE_PRESENT OR GSW_SOUND_PTE_USER OR
        (if wr then GSW_SOUND_PTE_WRITE else 0)) (first_page rng) (unat (page_count rng)) w2)"
    using d(10) by blast
  note pages = check_pages_read [OF this]
  have bits: "pte AND 5 = 5 \<and> (wr \<longrightarrow> pte AND 2 = 2)"
    if "pte AND (GSW_SOUND_PTE_PRESENT OR GSW_SOUND_PTE_USER OR (if wr then GSW_SOUND_PTE_WRITE else 0)) =
      GSW_SOUND_PTE_PRESENT OR GSW_SOUND_PTE_USER OR (if wr then GSW_SOUND_PTE_WRITE else 0)" for pte
  proof -
    have seven: "pte AND 5 = 5" "pte AND 2 = 2" if "pte AND 7 = 7"
      using arg_cong [OF that, of "\<lambda>x. x AND 5"] arg_cong [OF that, of "\<lambda>x. x AND 2"]
      by (simp_all add: and.assoc)
    show ?thesis using that seven
      by (cases wr) (simp_all add: GSW_SOUND_PTE_PRESENT_def GSW_SOUND_PTE_USER_def GSW_SOUND_PTE_WRITE_def)
  qed
  show ?thesis
    using lock_ring3_span [OF assms] lock_ring3_holds [OF assms] d pages bits
    by (simp add: unat_gt_0 unat_drop_bit12 word_le_nat_alt Let_def) blast
qed

text \<open>The part of a request block that names the call.\<close>

definition pm_header :: "GSW_SOUND_PM_REQUEST \<Rightarrow> u16 \<times> u16 \<times> u16 \<times> u16" where
  "pm_header r = (pm_size r, pm_version r, pm_opcode r, pm_reserved_zero r)"

lemma dispatch_header [simp]:
  "pm_header (fst (snd (gsw_dispatch_query e r w))) = pm_header r"
  "pm_header (fst (snd (gsw_dispatch_open e r w))) = pm_header r"
  "pm_header (fst (snd (gsw_dispatch_submit e r w))) = pm_header r"
  "pm_header (fst (snd (gsw_dispatch_get_gain r w))) = pm_header r"
  "pm_header (fst (snd (gsw_dispatch_plain f r w))) = pm_header r"
  by (simp_all add: gsw_dispatch_query_def gsw_dispatch_open_def gsw_dispatch_submit_def
      gsw_dispatch_get_gain_def gsw_dispatch_plain_def pm_header_def Let_def split_beta split: option.split)

lemma dispatch_header_some:
  "gsw_dispatch_poll e r w = Some x \<Longrightarrow> pm_header (fst (snd x)) = pm_header r"
  "gsw_dispatch_position e r w = Some x \<Longrightarrow> pm_header (fst (snd x)) = pm_header r"
  by (auto simp: gsw_dispatch_poll_def gsw_dispatch_position_def pm_header_def split: option.split)

lemma switch_header: "gsw_dispatch_switch e r w = Some x \<Longrightarrow> pm_header (fst (snd x)) = pm_header r"
  unfolding gsw_dispatch_switch_def Let_def by (auto split: if_splits dest: dispatch_header_some)

lemma request_answer:
  assumes "gsw_dispatch_request e r w = Some (res, r', w')"
  shows "if gsw_request_malformed r then res = GSW_SOUND_INVALID \<and> r' = r
    else pm_result r' = result_code res \<and> pm_header r' = pm_header r"
  using assms by (auto simp: gsw_dispatch_request_def Let_def pm_header_def
      dest!: switch_header split: if_splits)

text \<open>
  C8. A request of the 16-bit driver that returns changes nothing of the client's memory but its
  own 64 bytes, keeps the driver's state and leaves no page locked. Where the block has 64 bytes,
  could be locked and has a well-formed header, what the client reads back carries the returned code
  and the header it sent. Where the header is malformed the request is refused as invalid and the
  block reads as it was sent, without a code; where the block has another size or could not be
  locked it is refused as invalid and no memory changes.
\<close>

theorem vxd_request_answered:
  assumes "gsw_dispatch_linear e a n w = Some (res, w')"
  shows "client w' = override_on (client w) (client w') {x. unat a \<le> unat x \<and> unat x < unat a + 64} \<and>
    vxd w' = vxd w \<and> held_ranges w' = held_ranges w \<and> held_pages w' = held_pages w \<and>
    held_irqs w' = held_irqs w \<and>
    (if n = 64 \<and> fst (fst (gsw_lock_ring3 e a 64 True w))
     then (let r = GSW_SOUND_PM_REQUEST_of (mem_dwords (client w) a 16);
               r' = GSW_SOUND_PM_REQUEST_of (mem_dwords (client w') a 16)
           in if gsw_request_malformed r then res = GSW_SOUND_INVALID \<and> r' = r
              else pm_result r' = result_code res \<and> pm_header r' = pm_header r)
     else res = GSW_SOUND_INVALID \<and> client w' = client w)"
  using assms
proof (cases rule: dispatch_linear_cases)
  case refused
  then show ?thesis by (auto simp: serves_def override_on_def)
next
  case (answered rng w1 r w2)
  have "unat a + 4 * 16 \<le> 2 ^ 32" using lock_ring3_span [OF answered(2)] by simp
  then have read: "GSW_SOUND_PM_REQUEST_of (mem_dwords (client w') a 16) = r"
    by (simp add: answered(5) pm_wire.read_back)
  have "client w' = override_on (client w) (client w') {x. unat a \<le> unat x \<and> unat x < unat a + 64}"
    using put_dwords_override [of "GSW_SOUND_PM_REQUEST_dwords r" 64 a "client w"]
    by (simp add: answered(5) pm_wire.dwords_count)
  moreover have "serves w (gsw_unlock_ring3 e rng w2)" by (rule answered(4))
  ultimately show ?thesis
    using request_answer [OF answered(3)] unfolding Let_def read
    by (simp add: answered(1,2)) (simp add: answered(5) serves_def)
qed

section \<open>Examples\<close>

text \<open>A machine in which every service succeeds and the device answers with its identification.\<close>

definition example_env :: "(u32 \<Rightarrow> u32) vxd_env" where
  "example_env = \<lparr>vxd_mmio = register_file, LinPageLock = (\<lambda>p n d. (True, d)), LinPageUnLock = (\<lambda>p n d. d),
     CopyPageTable = (\<lambda>p d. (7, d)), MapPhysToLinear = (\<lambda>p n d. (0xC1000000, d)),
     PageAllocate = (\<lambda>n d. ((0xC2000000, 0x100000, \<lambda>x. 0), d)), PageFree = (\<lambda>p d. d),
     RegOpenKey = (\<lambda>d. (None, d)), RegSetValueEx = (\<lambda>k v d. d), RegCloseKey = (\<lambda>k d. d),
     Get_Alloc_Log_Conf = (\<lambda>n d. ((0, \<lparr>cm_memory_count = 1, cm_memory_base = (\<lambda>i. 0xF0000000),
        cm_memory_length = (\<lambda>i. 0x1000), cm_irq_count = 1, cm_irq_number = (\<lambda>i. 5)\<rparr>), d)),
     Virtualize_IRQ = (\<lambda>n d. (Some 0x77, d)), Physically_Mask = (\<lambda>h d. d), Physically_Unmask = (\<lambda>h d. d),
     Phys_EOI = (\<lambda>h d. d), Force_Default_Behavior = (\<lambda>h d. d), Register_Device_Driver = (\<lambda>n d. ([], d))\<rparr>"

definition example_device :: "u32 \<Rightarrow> u32" where
  "example_device = (\<lambda>r. if r = GSW_PCM_REG_ID then GSW_PCM_ID
     else if r = GSW_PCM_REG_CAPABILITIES then GSW_PCM_REQUIRED_CAPS else 1)"

definition example_driver :: "(u32 \<Rightarrow> u32) vxd_world" where
  "example_driver = (vxd_start (\<lambda>x. 0) (\<lambda>x. 0) example_device)
     \<lparr>vxd := vxd_state_zero\<lparr>gsw_devnode := 9, gsw_devnode_registered := True\<rparr>\<rparr>"

lemma example_driver_idle: "vxd_idle example_driver"
  by (simp add: example_driver_def vxd_start_def vxd_idle_def holds_ok_def vxd_state_zero_def irq_zero_def
      sound_start_def) (simp add: transport_zero_def)

lemma example_telemetry:
  "gsw_telemetry_checkpoint example_env c k d0 d1 w =
     w\<lparr>vxd := (vxd w)\<lparr>gsw_telemetry_sequence := gsw_telemetry_sequence (vxd w) + 1,
        gsw_telemetry_last_checkpoint := c\<rparr>\<rparr>"
  by (simp add: gsw_telemetry_checkpoint_def on_device_def example_env_def Let_def)

lemma replicate_4: "replicate 4 x = [x, x, x, x]"
  by (simp add: numeral_eq_Suc)

lemma example_resources:
  "gsw_sound_ddk_get_allocated_resources example_env 9 w =
     ((CR_SUCCESS, Some \<lparr>mmio_physical = 0xF0000000, mmio_bytes = 0x1000, irq_number = 5\<rparr>), w)"
  by (simp add: gsw_sound_ddk_get_allocated_resources_def gsw_configmg_get_allocated_resources_def
      example_env_def on_device_def CR_SUCCESS_def GSW_CM_MAX_MEMORY_WINDOWS_def GSW_CM_MAX_IRQS_def
      GSW_SOUND_DDK_MAX_MEMORY_WINDOWS_def GSW_SOUND_DDK_MAX_IRQS_def GSW_SOUND_DDK_IRQ_MIN_def
      GSW_SOUND_DDK_IRQ_MAX_def gsw_window_usable_def GSW_PCM_CONTROL_SIZE_def
      GSW_SOUND_DDK_MMIO_ALIGNMENT_def resources_zero_def replicate_4)

lemmas example_services = on_device_def do_device_def vxd_register_def PageAllocate_call_def
  gsw_vpicd_virtualize_irq_def gsw_set_irq_def example_telemetry example_resources

lemma example_start_resources:
  "fst (gsw_start_resources example_env 9 w)"
  "irq_number (gsw_resources (vxd (snd (gsw_start_resources example_env 9 w)))) = 5"
  "gsw_irq (vxd (snd (gsw_start_resources example_env 9 w))) = gsw_irq (vxd w)"
  "sound (snd (gsw_start_resources example_env 9 w)) = sound w"
  by (simp_all add: gsw_start_resources_def example_services Let_def)

lemma example_start_map:
  "fst (gsw_start_map example_env w)"
  "gsw_registers (vxd (snd (gsw_start_map example_env w))) = 0xC1000000"
  "gsw_resources (vxd (snd (gsw_start_map example_env w))) = gsw_resources (vxd w)"
  "gsw_irq (vxd (snd (gsw_start_map example_env w))) = gsw_irq (vxd w)"
  "device (sound (snd (gsw_start_map example_env w))) = device (sound w)"
  by (simp_all add: gsw_start_map_def example_services Let_def) (simp_all add: example_env_def)

lemma example_start_ring:
  "fst (gsw_start_ring example_env w)"
  "gsw_ring (vxd (snd (gsw_start_ring example_env w))) = 0xC2000000"
  "gsw_ring_physical (vxd (snd (gsw_start_ring example_env w))) = 0x100000"
  "gsw_registers (vxd (snd (gsw_start_ring example_env w))) = gsw_registers (vxd w)"
  "gsw_resources (vxd (snd (gsw_start_ring example_env w))) = gsw_resources (vxd w)"
  "gsw_irq (vxd (snd (gsw_start_ring example_env w))) = gsw_irq (vxd w)"
  "device (sound (snd (gsw_start_ring example_env w))) = device (sound w)"
  by (simp_all add: gsw_start_ring_def example_services Let_def split_beta)
     (simp_all add: example_env_def GSW_PCM_RING_GPA_ALIGNMENT_def)

lemma example_bind:
  assumes "device s = example_device"
  shows "fst (gsw_sound_transport_bind register_file 0xC1000000 0xC2000000 0x100000 GSW_SOUND_RING_BYTES s) = GSW_SOUND_OK"
    "bound (transport (snd (gsw_sound_transport_bind register_file 0xC1000000 0xC2000000 0x100000 GSW_SOUND_RING_BYTES s)))"
    "\<not> opened (transport (snd (gsw_sound_transport_bind register_file 0xC1000000 0xC2000000 0x100000 GSW_SOUND_RING_BYTES s)))"
  using assms
  by (simp_all add: gsw_sound_transport_bind_def gsw_sound_read_def gsw_sound_write_def register_file_def
    example_device_def GSW_SOUND_RING_BYTES_def gsw_sound_power_of_two_def transport_zero_def
    GSW_PCM_REG_ID_def GSW_PCM_REG_VERSION_def GSW_PCM_REG_CAPABILITIES_def GSW_PCM_REG_STATUS_def
    GSW_PCM_ID_def GSW_PCM_REQUIRED_CAPS_def GSW_PCM_INTERFACE_VERSION_def
    GSW_PCM_STATUS_READY_def GSW_PCM_RING_MIN_SIZE_def GSW_PCM_RING_MAX_SIZE_def GSW_PCM_RING_GPA_ALIGNMENT_def)

lemma example_start_bind:
  assumes "gsw_registers (vxd w) = 0xC1000000" "gsw_ring (vxd w) = 0xC2000000"
    "gsw_ring_physical (vxd w) = 0x100000" "device (sound w) = example_device"
  shows "fst (gsw_start_bind example_env w)" "bound (transport (sound (snd (gsw_start_bind example_env w))))"
    "\<not> opened (transport (sound (snd (gsw_start_bind example_env w))))"
    "gsw_resources (vxd (snd (gsw_start_bind example_env w))) = gsw_resources (vxd w)"
    "gsw_irq (vxd (snd (gsw_start_bind example_env w))) = gsw_irq (vxd w)"
proof -
  have m: "vxd_mmio example_env = register_file" by (simp add: example_env_def)
  show "fst (gsw_start_bind example_env w)" "bound (transport (sound (snd (gsw_start_bind example_env w))))"
    "\<not> opened (transport (sound (snd (gsw_start_bind example_env w))))"
    "gsw_resources (vxd (snd (gsw_start_bind example_env w))) = gsw_resources (vxd w)"
    "gsw_irq (vxd (snd (gsw_start_bind example_env w))) = gsw_irq (vxd w)"
    using assms by (simp_all add: gsw_start_bind_def example_services Let_def split_beta m example_bind)
qed

lemma example_start_interrupt:
  assumes "irq_number (gsw_resources (vxd w)) = 5" "\<not> irq_installed (gsw_irq (vxd w))"
    "bound (transport (sound w))" "\<not> opened (transport (sound w))"
  shows "fst (gsw_start_interrupt example_env w)"
proof -
  have v: "Virtualize_IRQ example_env n d = (Some 0x77, d)" for n d by (simp add: example_env_def)
  show ?thesis using assms
    by (simp add: gsw_start_interrupt_def gsw_sound_ddk_install_level_irq_def GSW_SOUND_DDK_IRQ_MIN_def
      GSW_SOUND_DDK_IRQ_MAX_def example_services v gsw_sound_transport_set_interrupt_mode_def Let_def)
qed

lemma example_start: "fst (gsw_device_start example_env 9 example_driver)"
proof -
  have "fst (step_and (gsw_start_resources example_env 9) (step_and (gsw_start_map example_env)
      (step_and (gsw_start_ring example_env) (step_and (gsw_start_bind example_env)
        (step_and (gsw_start_interrupt example_env) (gsw_start_done example_env 9))))) w)"
    if "\<not> irq_installed (gsw_irq (vxd w))" "device (sound w) = example_device" for w
    using that
    by (simp add: step_and_def example_start_resources example_start_map example_start_ring
        example_start_bind example_start_interrupt gsw_start_done_def)
  then show ?thesis
    by (simp add: gsw_device_start_def Let_def)
       (simp add: example_telemetry example_driver_def vxd_start_def sound_start_def vxd_state_zero_def irq_zero_def)
qed

theorem vxd_start_all_or_nothing_witness:
  "vxd_idle example_driver \<and> vxd_running (snd (gsw_device_start example_env 9 example_driver))"
  using vxd_start_all_or_nothing [OF example_driver_idle, of example_env 9 True
      "snd (gsw_device_start example_env 9 example_driver)"] example_start example_driver_idle
  by (simp add: prod_eq_iff)

lemma example_check: "gsw_check_pages example_env 7 p 2 w = (True, w)"
  by (simp add: numeral_2_eq_2 on_device_def example_env_def)

lemma example_lock:
  "gsw_lock_ring3 example_env 0x1FF0 64 True w =
     ((True, \<lparr>first_page = 1, page_count = 2, range_locked = True\<rparr>), w\<lparr>held_ranges := (1, 2) # held_ranges w\<rparr>)"
proof -
  have l: "LinPageLock example_env p n d = (True, d)" for p n d by (simp add: example_env_def)
  show ?thesis
    by (simp add: gsw_lock_ring3_def GSW_SOUND_RING3_LIMIT_def LinPageLock_call_def on_device_def l
        GSW_SOUND_PTE_PRESENT_def GSW_SOUND_PTE_USER_def GSW_SOUND_PTE_WRITE_def drop_bit_eq_div example_check)
qed

theorem lock_ring3_covers_witness:
  "unat (0x1FF0 :: u32) + unat (64 :: u32) \<le> 0xC0000000 \<and>
   held_ranges (snd (gsw_lock_ring3 example_env 0x1FF0 64 True example_driver)) = [(1, 2)]"
  using lock_ring3_covers [OF example_lock [of example_driver]]
  unfolding example_lock by (simp add: example_driver_def vxd_start_def)

definition example_query :: GSW_SOUND_PM_REQUEST where
  "example_query = \<lparr>pm_size = 64, pm_version = 1, pm_opcode = 0, pm_reserved_zero = 0, pm_stream_id = 0,
     pm_flags = 0, pm_sample_rate = 0, pm_channels = 0, pm_bits_per_sample = 0, pm_buffer_linear = 0,
     pm_buffer_bytes = 0, pm_user_token = 0, pm_accepted_bytes = 0, pm_completed_token = 0,
     pm_position_low = 0, pm_position_high = 0, pm_gain_q16 = 0, pm_capabilities = 0, pm_result = 0\<rparr>"

definition example_calling :: "(u32 \<Rightarrow> u32) vxd_world" where
  "example_calling = example_driver\<lparr>client := put_dwords 0x1FF0 (GSW_SOUND_PM_REQUEST_dwords example_query) (\<lambda>x. 0)\<rparr>"

lemma example_reads: "GSW_SOUND_PM_REQUEST_of (mem_dwords (client example_calling) 0x1FF0 16) = example_query"
  by (simp add: example_calling_def pm_wire.read_back)

lemma example_wellformed: "\<not> gsw_request_malformed example_query"
  by (simp add: gsw_request_malformed_def example_query_def GSW_SOUND_PM_API_VERSION_def GSW_SOUND_PM_SET_GAIN_def)

lemma example_answer:
  "map_option fst (gsw_dispatch_linear example_env 0x1FF0 64 example_calling) = Some GSW_SOUND_UNAVAILABLE"
proof -
  have "\<not> bound (transport (sound example_calling))"
    by (simp add: example_calling_def example_driver_def vxd_start_def sound_start_def)
       (simp add: transport_zero_def)
  then have "gsw_dispatch_request example_env example_query (example_calling\<lparr>held_ranges := h\<rparr>) =
      Some (GSW_SOUND_UNAVAILABLE, example_query\<lparr>pm_result := 1\<rparr>, example_calling\<lparr>held_ranges := h\<rparr>)" for h
    using example_wellformed
    by (simp add: gsw_dispatch_request_def gsw_dispatch_switch_def)
       (simp add: example_query_def GSW_SOUND_PM_QUERY_def gsw_dispatch_query_def)
  then show ?thesis by (simp add: gsw_dispatch_linear_def example_lock example_reads)
qed

theorem vxd_request_answered_witness:
  "\<exists>w'. gsw_dispatch_linear example_env 0x1FF0 64 example_calling = Some (GSW_SOUND_UNAVAILABLE, w') \<and>
     pm_result (GSW_SOUND_PM_REQUEST_of (mem_dwords (client w') 0x1FF0 16)) = 1 \<and> held_ranges w' = []"
proof -
  obtain w' where g: "gsw_dispatch_linear example_env 0x1FF0 64 example_calling = Some (GSW_SOUND_UNAVAILABLE, w')"
    using example_answer by auto
  have "held_ranges example_calling = []" by (simp add: example_calling_def example_driver_def vxd_start_def)
  with vxd_request_answered [OF g] g show ?thesis
    by (simp add: example_lock example_reads example_wellformed Let_def)
qed

end
