(* ===== verification/Vga_World.thy ===== *)
theory Vga_World
  imports Ring_Fifo Packed_Memory
begin

text \<open>
  What the 2D transport (\<^verbatim>\<open>overlay/gsw_transport.c\<close>) and the 3D transport
  (\<^verbatim>\<open>overlay/gsw3d_transport.c\<close>) share: the file-scope variables of both, the memory
  they share with the device, the services they call and the register helpers. The 3D file
  reads and writes registers through \<open>GSW_transport_register_read\<close> and
  \<open>GSW_transport_register_write\<close> of the 2D file, and the 2D file starts and stops the 3D
  one, so both work on one world.

  The device, PCI configuration space and the VMM are outside the repository. They are one
  environment record whose functions act on the bus: the contents of the two command rings
  and of the staging page, which the device may read and write whenever it is accessed, and
  a state of their own.
\<close>

section \<open>Environment\<close>

record 'd gsw_bus =
  ring2d :: "u32 \<Rightarrow> u8"
  ring3d :: "u32 \<Rightarrow> u8"
  staging :: "u32 \<Rightarrow> u8"
  outside :: 'd

record 'd gsw_env = "'d gsw_bus mmio" +
  PCI_FindDevice :: "u16 \<Rightarrow> u16 \<Rightarrow> 'd gsw_bus \<Rightarrow> u32 option \<times> 'd gsw_bus"
  PCI_ConfigRead32 :: "u32 \<Rightarrow> u32 \<Rightarrow> 'd gsw_bus \<Rightarrow> u32 \<times> 'd gsw_bus"
  PCI_ConfigRead16 :: "u32 \<Rightarrow> u32 \<Rightarrow> 'd gsw_bus \<Rightarrow> u16 \<times> 'd gsw_bus"
  PCI_ConfigWrite16 :: "u32 \<Rightarrow> u32 \<Rightarrow> u16 \<Rightarrow> 'd gsw_bus \<Rightarrow> 'd gsw_bus"
  PCI_GetBARAddr :: "u32 \<Rightarrow> u32 \<Rightarrow> 'd gsw_bus \<Rightarrow> u32 \<times> 'd gsw_bus"
  PCI_CONF_BAR_NOT_MEMORY32 :: u32
  MapPhysToLinear :: "u32 \<Rightarrow> u32 \<Rightarrow> 'd gsw_bus \<Rightarrow> u32 \<times> 'd gsw_bus"
  PageAllocate :: "u32 \<Rightarrow> 'd gsw_bus \<Rightarrow> (u32 \<times> u32) \<times> 'd gsw_bus"
  PageFree :: "u32 \<Rightarrow> 'd gsw_bus \<Rightarrow> 'd gsw_bus"
  CreateSemaphore :: "'d gsw_bus \<Rightarrow> u32 \<times> 'd gsw_bus"

text \<open>
  \<open>PCI_CONF_BAR_NOT_MEMORY32\<close> is \<open>PCI_CONF_BAR_IO | PCI_CONF_BAR_64BIT\<close> of the upstream
  header. \<open>PageAllocate\<close> returns the linear address and what it stores as the physical one.
  \<open>PCI_FindDevice\<close> returns the address it fills in, or \<open>None\<close> for false.

  A semaphore created with one token. A wait without a token blocks; the flag \<open>stuck\<close>
  records that it happened, so that its absence can be proved.
\<close>

record gsw_lock =
  tokens :: nat
  stuck :: bool

definition wait_lock :: "gsw_lock \<Rightarrow> gsw_lock" where
  "wait_lock l = (if tokens l = 0 then l\<lparr>stuck := True\<rparr> else l\<lparr>tokens := tokens l - 1\<rparr>)"

definition signal_lock :: "gsw_lock \<Rightarrow> gsw_lock" where
  "signal_lock l = l\<lparr>tokens := Suc (tokens l)\<rparr>"

section \<open>File-scope state\<close>

record GSWSurfaceRecord =
  sf_id :: u32
  sf_owner_pid :: u32
  sf_offset :: u32
  sf_byte_size :: u32
  sf_width :: u32
  sf_height :: u32
  sf_pitch :: u32
  sf_bpp :: u32
  sf_flags :: u32

record gsw_transport_state =
  gsw_pci_address :: u32
  gsw_registers :: u32
  gsw_ring :: u32
  gsw_ring_physical :: u32
  gsw_ring_tail :: u32
  gsw_fence_low :: u32
  gsw_fence_high :: u32
  gsw_framebuffer_linear :: u32
  gsw_framebuffer_size :: u32
  gsw_capabilities :: u32
  gsw_semaphore :: u32
  gsw_bound_bar0_raw :: u32
  gsw_bound_bar1_raw :: u32
  gsw_pci_command_added :: u16
  gsw_pci_address_valid :: bool
  gsw_is_ready :: bool
  gsw_surfaces :: "GSWSurfaceRecord list"
  gsw_next_surface_id :: u32

record GSW3DContextRecord =
  cx_id :: u32
  cx_owner_pid :: u32

record gsw3d_transport_state =
  gsw3d_ring :: u32
  gsw3d_staging :: u32
  gsw3d_ring_physical :: u32
  gsw3d_staging_physical :: u32
  gsw3d_ring_tail :: u32
  gsw3d_fence_low :: u32
  gsw3d_fence_high :: u32
  gsw3d_capabilities :: u32
  gsw3d_present_intervals :: u32
  gsw3d_semaphore :: u32
  gsw3d_ready :: bool
  gsw3d_contexts :: "GSW3DContextRecord list"

record 'd gsw_world =
  vga :: gsw_transport_state
  vga3d :: gsw3d_transport_state
  lock2d :: gsw_lock
  lock3d :: gsw_lock
  markers :: "u8 list"
  bus :: "'d gsw_bus"

text \<open>\<open>memset(surface, 0, \<dots>)\<close> and \<open>memset(&context, 0, \<dots>)\<close>, and the zeroed statics.\<close>

definition surface_zero :: GSWSurfaceRecord where
  "surface_zero = \<lparr>sf_id = 0, sf_owner_pid = 0, sf_offset = 0, sf_byte_size = 0, sf_width = 0,
     sf_height = 0, sf_pitch = 0, sf_bpp = 0, sf_flags = 0\<rparr>"

definition context_zero :: GSW3DContextRecord where
  "context_zero = \<lparr>cx_id = 0, cx_owner_pid = 0\<rparr>"

definition gsw_transport_static :: gsw_transport_state where
  "gsw_transport_static = \<lparr>gsw_pci_address = 0, gsw_registers = 0, gsw_ring = 0,
     gsw_ring_physical = 0, gsw_ring_tail = 0, gsw_fence_low = 1, gsw_fence_high = 0,
     gsw_framebuffer_linear = 0, gsw_framebuffer_size = 0, gsw_capabilities = 0,
     gsw_semaphore = 0, gsw_bound_bar0_raw = 0, gsw_bound_bar1_raw = 0,
     gsw_pci_command_added = 0, gsw_pci_address_valid = False, gsw_is_ready = False,
     gsw_surfaces = replicate 256 surface_zero, gsw_next_surface_id = 1\<rparr>"

definition gsw3d_transport_static :: gsw3d_transport_state where
  "gsw3d_transport_static = \<lparr>gsw3d_ring = 0, gsw3d_staging = 0, gsw3d_ring_physical = 0,
     gsw3d_staging_physical = 0, gsw3d_ring_tail = 0, gsw3d_fence_low = 1, gsw3d_fence_high = 0,
     gsw3d_capabilities = 0, gsw3d_present_intervals = 0, gsw3d_semaphore = 0,
     gsw3d_ready = False, gsw3d_contexts = replicate 128 context_zero\<rparr>"

section \<open>Effects\<close>

type_synonym 'd gsw_step = "'d gsw_world \<Rightarrow> bool \<times> 'd gsw_world"

definition on_bus :: "('d gsw_bus \<Rightarrow> 'a \<times> 'd gsw_bus) \<Rightarrow> 'd gsw_world \<Rightarrow> 'a \<times> 'd gsw_world" where
  "on_bus f w = (fst (f (bus w)), w\<lparr>bus := snd (f (bus w))\<rparr>)"

definition GSW_shutdown_mark :: "u8 \<Rightarrow> 'd gsw_world \<Rightarrow> 'd gsw_world" where
  "GSW_shutdown_mark code w = w\<lparr>markers := code # markers w\<rparr>"

section \<open>Registers\<close>

definition GSW_VGA_CONTROL_BYTES :: u32 where "GSW_VGA_CONTROL_BYTES = 0x1000"

definition gsw_register_read :: "'d gsw_env \<Rightarrow> u32 \<Rightarrow> 'd gsw_world \<Rightarrow> u32 \<times> 'd gsw_world" where
  "gsw_register_read e offset w = on_bus (mmio_read e offset) w"

definition gsw_register_write :: "'d gsw_env \<Rightarrow> u32 \<Rightarrow> u32 \<Rightarrow> 'd gsw_world \<Rightarrow> 'd gsw_world" where
  "gsw_register_write e offset val w = w\<lparr>bus := mmio_write e offset val (bus w)\<rparr>"

definition GSW_transport_register_read :: "'d gsw_env \<Rightarrow> u32 \<Rightarrow> 'd gsw_world \<Rightarrow> u32 \<times> 'd gsw_world" where
  "GSW_transport_register_read e offset w =
     (if gsw_registers (vga w) = 0 \<or> offset \<ge> GSW_VGA_CONTROL_BYTES \<or> offset AND 3 \<noteq> 0 then (0, w)
      else gsw_register_read e offset w)"

definition GSW_transport_register_write ::
    "'d gsw_env \<Rightarrow> u32 \<Rightarrow> u32 \<Rightarrow> 'd gsw_world \<Rightarrow> 'd gsw_world" where
  "GSW_transport_register_write e offset val w =
     (if gsw_registers (vga w) \<noteq> 0 \<and> offset < GSW_VGA_CONTROL_BYTES \<and> offset AND 3 = 0
      then gsw_register_write e offset val w else w)"

text \<open>A register compared with a value, as in the chains of conditions of the submissions.\<close>

definition register_is :: "'d gsw_env \<Rightarrow> u32 \<Rightarrow> u32 \<Rightarrow> 'd gsw_step" where
  "register_is e offset val w =
     (let (v, w) = gsw_register_read e offset w in (v = val, w))"

definition transport_register_is :: "'d gsw_env \<Rightarrow> u32 \<Rightarrow> u32 \<Rightarrow> 'd gsw_step" where
  "transport_register_is e offset val w =
     (let (v, w) = GSW_transport_register_read e offset w in (v = val, w))"

definition GSW_transport_ready :: "'d gsw_world \<Rightarrow> bool" where
  "GSW_transport_ready w = gsw_is_ready (vga w)"

definition GSW_transport_capabilities :: "'d gsw_world \<Rightarrow> u32" where
  "GSW_transport_capabilities w = (if GSW_transport_ready w then gsw_capabilities (vga w) else 0)"

section \<open>Commands\<close>

record GSWCommandHeader =
  opcode :: u16
  version :: u16
  cmd_length :: u32
  fence_low :: u32
  fence_high :: u32

text \<open>
  A command under construction: the header and the doublewords after it. Every command
  starts as zeros (\<open>memset\<close>) with the opcode set.
\<close>

record gsw_command =
  header :: GSWCommandHeader
  body :: "u32 list"

definition new_command :: "u16 \<Rightarrow> u32 list \<Rightarrow> gsw_command" where
  "new_command op ws =
     \<lparr>header = \<lparr>opcode = op, version = 0, cmd_length = 0, fence_low = 0, fence_high = 0\<rparr>, body = ws\<rparr>"

definition header_bytes :: "GSWCommandHeader \<Rightarrow> u8 list" where
  "header_bytes h = le16 (opcode h) @ le16 (version h) @ le32 (cmd_length h) @ le32 (fence_low h)
     @ le32 (fence_high h)"

definition command_bytes :: "gsw_command \<Rightarrow> u8 list" where
  "command_bytes c = header_bytes (header c) @ concat (map le32 (body c))"

text \<open>\<open>sizeof\<close> of the command structure.\<close>

definition command_size :: "gsw_command \<Rightarrow> u32" where
  "command_size c = 16 + 4 * of_nat (length (body c))"

lemma length_header_bytes [simp]: "length (header_bytes h) = 16"
  by (simp add: header_bytes_def)

lemma length_command_bytes [simp]: "length (command_bytes c) = 16 + 4 * length (body c)"
  by (simp add: command_bytes_def)

lemma command_size_bytes:
  "length (body c) \<le> 1024 \<Longrightarrow> unat (command_size c) = length (command_bytes c)"
  by (simp add: command_size_def unat_word_ariths unat_of_nat)

section \<open>Frame rules\<close>

lemma on_bus_simps [simp]:
  "vga (snd (on_bus f w)) = vga w" "vga3d (snd (on_bus f w)) = vga3d w"
  "lock2d (snd (on_bus f w)) = lock2d w" "lock3d (snd (on_bus f w)) = lock3d w"
  "bus (snd (on_bus f w)) = snd (f (bus w))" "fst (on_bus f w) = fst (f (bus w))"
  by (simp_all add: on_bus_def)

lemma register_read_frame [simp, gsw_frame]:
  "vga (snd (gsw_register_read e r w)) = vga w" "vga3d (snd (gsw_register_read e r w)) = vga3d w"
  "lock2d (snd (gsw_register_read e r w)) = lock2d w" "lock3d (snd (gsw_register_read e r w)) = lock3d w"
  by (simp_all add: gsw_register_read_def)

lemma register_write_frame [simp, gsw_frame]:
  "vga (gsw_register_write e r v w) = vga w" "vga3d (gsw_register_write e r v w) = vga3d w"
  "lock2d (gsw_register_write e r v w) = lock2d w" "lock3d (gsw_register_write e r v w) = lock3d w"
  by (simp_all add: gsw_register_write_def)

lemma transport_register_read_frame [simp, gsw_frame]:
  "vga (snd (GSW_transport_register_read e r w)) = vga w"
  "vga3d (snd (GSW_transport_register_read e r w)) = vga3d w"
  "lock2d (snd (GSW_transport_register_read e r w)) = lock2d w"
  "lock3d (snd (GSW_transport_register_read e r w)) = lock3d w"
  by (simp_all add: GSW_transport_register_read_def)

lemma transport_register_write_frame [simp, gsw_frame]:
  "vga (GSW_transport_register_write e r v w) = vga w"
  "vga3d (GSW_transport_register_write e r v w) = vga3d w"
  "lock2d (GSW_transport_register_write e r v w) = lock2d w"
  "lock3d (GSW_transport_register_write e r v w) = lock3d w"
  by (simp_all add: GSW_transport_register_write_def)

lemma register_is_frame [simp, gsw_frame]:
  "vga (snd (register_is e r v w)) = vga w" "vga3d (snd (register_is e r v w)) = vga3d w"
  "lock2d (snd (register_is e r v w)) = lock2d w" "lock3d (snd (register_is e r v w)) = lock3d w"
  by (simp_all add: register_is_def Let_def split_beta)

lemma transport_register_is_frame [simp, gsw_frame]:
  "vga (snd (transport_register_is e r v w)) = vga w"
  "vga3d (snd (transport_register_is e r v w)) = vga3d w"
  "lock2d (snd (transport_register_is e r v w)) = lock2d w"
  "lock3d (snd (transport_register_is e r v w)) = lock3d w"
  by (simp_all add: transport_register_is_def Let_def split_beta)

lemma shutdown_mark_frame [simp, gsw_frame]:
  "vga (GSW_shutdown_mark c w) = vga w" "vga3d (GSW_shutdown_mark c w) = vga3d w"
  "lock2d (GSW_shutdown_mark c w) = lock2d w" "lock3d (GSW_shutdown_mark c w) = lock3d w"
  "bus (GSW_shutdown_mark c w) = bus w"
  by (simp_all add: GSW_shutdown_mark_def)

text \<open>A property of worlds that both steps keep is kept by their conjunction.\<close>

lemma step_and_keeps:
  assumes "\<And>w. P w \<Longrightarrow> P (snd (f w))" "\<And>w. P w \<Longrightarrow> P (snd (g w))" "P w"
  shows "P (snd (step_and f g w))"
  using assms by (simp add: step_and_def)

lemma step_and_success:
  assumes "\<And>w. P w \<Longrightarrow> fst (f w) \<Longrightarrow> Q (snd (f w))" "\<And>w. Q w \<Longrightarrow> fst (g w) \<Longrightarrow> R (snd (g w))"
    and "P w" "fst (step_and f g w)"
  shows "R (snd (step_and f g w))"
  using assms by (simp add: step_and_def split: if_splits)

lemma step_and_true [simp]:
  "fst (step_and f g w) \<longleftrightarrow> fst (f w) \<and> fst (g (snd (f w)))"
  by (simp add: step_and_def)

lemma step_if_simps [simp]: "fst (step_if b w) = b" "snd (step_if b w) = w"
  by (simp_all add: step_if_def)

section \<open>Fences\<close>

text \<open>
  Both transports number their commands with a 64-bit fence kept in two 32-bit halves. The
  contract: an advance is the carry of the C code. What follows is that the fence is the
  64-bit successor, except that zero, which no command carries, is skipped.
\<close>

locale fence_counter =
  fixes advance :: "'s \<Rightarrow> 's"
    and low :: "'s \<Rightarrow> u32"
    and high :: "'s \<Rightarrow> u32"
  assumes advance_low: "low (advance s) =
      (if low s + 1 = 0 \<and> high s + 1 = 0 then 1 else low s + 1)"
    and advance_high: "high (advance s) = (if low s + 1 = 0 then high s + 1 else high s)"
begin

lemma advance_nonzero: "low s \<noteq> 0 \<or> high s \<noteq> 0 \<Longrightarrow> low (advance s) \<noteq> 0 \<or> high (advance s) \<noteq> 0"
  by (auto simp: advance_low advance_high)

lemma advance_increases:
  assumes "\<not> (low s = - 1 \<and> high s = - 1)"
  shows "unat (high (advance s)) * 2 ^ 32 + unat (low (advance s))
    = unat (high s) * 2 ^ 32 + unat (low s) + 1"
proof (cases "low s + 1 = 0")
  case True
  then have l: "low s = - 1" by (simp add: add_eq_0_iff2 minus_equation_iff)
  with assms have h: "high s + 1 \<noteq> 0" by (auto simp: add_eq_0_iff2 minus_equation_iff)
  then have "unat (high s + 1) = Suc (unat (high s))" by (simp add: unat_plus_one)
  moreover have "unat (- 1 :: u32) = 2 ^ 32 - 1"
    by (simp add: unsigned_minus_1_eq_mask mask_eq_exp_minus_1)
  ultimately show ?thesis using True h l by (simp add: advance_low advance_high)
next
  case False
  then have "unat (low s + 1) = Suc (unat (low s))" by (simp add: unat_plus_one)
  with False show ?thesis by (simp add: advance_low advance_high)
qed

lemma advance_value:
  "unat (high (advance s)) * 2 ^ 32 + unat (low (advance s)) =
     (if unat (high s) * 2 ^ 32 + unat (low s) = 2 ^ 64 - 1 then 1
      else unat (high s) * 2 ^ 32 + unat (low s) + 1)"
proof -
  have m: "unat (- 1 :: u32) = 2 ^ 32 - 1"
    by (simp add: unsigned_minus_1_eq_mask mask_eq_exp_minus_1)
  have l: "unat x = 2 ^ 32 - 1 \<longleftrightarrow> x = - 1" for x :: u32
    by (simp only: m [symmetric] word_unat_eq_iff)
  have b: "unat (high s) \<le> 2 ^ 32 - 1" "unat (low s) \<le> 2 ^ 32 - 1"
    using unat_bound32 [of "high s"] unat_bound32 [of "low s"] by simp_all
  have "unat (high s) * 2 ^ 32 + unat (low s) = 2 ^ 64 - 1 \<longleftrightarrow>
      unat (high s) = 2 ^ 32 - 1 \<and> unat (low s) = 2 ^ 32 - 1"
    using b by simp linarith
  then have e: "unat (high s) * 2 ^ 32 + unat (low s) = 2 ^ 64 - 1 \<longleftrightarrow> low s = - 1 \<and> high s = - 1"
    by (auto simp only: l)
  show ?thesis
  proof (cases "low s = - 1 \<and> high s = - 1")
    case True
    then show ?thesis unfolding e by (simp add: advance_low advance_high)
  next
    case False
    from advance_increases [OF this] False show ?thesis unfolding e by auto
  qed
qed

end

end
