(* ===== verification/Gsw3d_Transport.thy ===== *)
theory Gsw3d_Transport
  imports Vga_World
begin

text \<open>
  The 3D transport (\<^verbatim>\<open>overlay/gsw3d_transport.c\<close>): its command ring and staging page,
  the table of contexts with their owning processes, submission with fences, and bring-up
  and shut-down. Result pointers are those of the caller's variables and never null; data
  pointers are the lists of the bytes they point to.
\<close>

section \<open>Constants and structures\<close>

definition GSW3D_RING_BYTES :: u32 where "GSW3D_RING_BYTES = 0x1000"
definition GSW3D_STAGING_REGION_ID :: u32 where "GSW3D_STAGING_REGION_ID = 0x4753FFF0"
definition GSW3D_CONTEXT_CAPACITY :: nat where "GSW3D_CONTEXT_CAPACITY = 128"
definition GSW3D_ABI_VERSION :: u32 where "GSW3D_ABI_VERSION = 1"
definition GSW3D_PACKET_SVGA9 :: u32 where "GSW3D_PACKET_SVGA9 = 1"
definition GSW3D_COMMAND_VERSION :: u16 where "GSW3D_COMMAND_VERSION = 1"
definition GSW3D_REG_PACKET_FORMAT :: u32 where "GSW3D_REG_PACKET_FORMAT = 0x100"
definition GSW3D_REG_CAPABILITIES :: u32 where "GSW3D_REG_CAPABILITIES = 0x104"
definition GSW3D_REG_RING_GPA_LOW :: u32 where "GSW3D_REG_RING_GPA_LOW = 0x108"
definition GSW3D_REG_RING_GPA_HIGH :: u32 where "GSW3D_REG_RING_GPA_HIGH = 0x10C"
definition GSW3D_REG_RING_SIZE :: u32 where "GSW3D_REG_RING_SIZE = 0x110"
definition GSW3D_REG_RING_HEAD :: u32 where "GSW3D_REG_RING_HEAD = 0x114"
definition GSW3D_REG_RING_TAIL :: u32 where "GSW3D_REG_RING_TAIL = 0x118"
definition GSW3D_REG_DOORBELL :: u32 where "GSW3D_REG_DOORBELL = 0x11C"
definition GSW3D_REG_STATUS :: u32 where "GSW3D_REG_STATUS = 0x120"
definition GSW3D_REG_FENCE_LOW :: u32 where "GSW3D_REG_FENCE_LOW = 0x124"
definition GSW3D_REG_FENCE_HIGH :: u32 where "GSW3D_REG_FENCE_HIGH = 0x128"
definition GSW3D_REG_ERROR :: u32 where "GSW3D_REG_ERROR = 0x12C"
definition GSW3D_REG_PRESENT_INTERVALS :: u32 where "GSW3D_REG_PRESENT_INTERVALS = 0x130"
definition GSW3D_OPCODE_REGISTER_REGION :: u16 where "GSW3D_OPCODE_REGISTER_REGION = 1"
definition GSW3D_OPCODE_UNREGISTER_REGION :: u16 where "GSW3D_OPCODE_UNREGISTER_REGION = 2"
definition GSW3D_OPCODE_CREATE_CONTEXT :: u16 where "GSW3D_OPCODE_CREATE_CONTEXT = 3"
definition GSW3D_OPCODE_DESTROY_CONTEXT :: u16 where "GSW3D_OPCODE_DESTROY_CONTEXT = 4"
definition GSW3D_OPCODE_SUBMIT :: u16 where "GSW3D_OPCODE_SUBMIT = 5"
definition GSW3D_OPCODE_DIRECT_PRESENT :: u16 where "GSW3D_OPCODE_DIRECT_PRESENT = 6"
definition GSW3D_OPCODE_RESOURCE_UPLOAD :: u16 where "GSW3D_OPCODE_RESOURCE_UPLOAD = 7"
definition GSW3D_STATUS_READY :: u32 where "GSW3D_STATUS_READY = 1"
definition GSW3D_STATUS_ERROR :: u32 where "GSW3D_STATUS_ERROR = 4"
definition GSW3D_STATUS_RESET :: u32 where "GSW3D_STATUS_RESET = 0x80000000"
definition GSW3D_STAGING_BYTES :: u32 where "GSW3D_STAGING_BYTES = 64 * 1024"
definition GSW3D_MAX_BATCH_BYTES :: u32 where "GSW3D_MAX_BATCH_BYTES = GSW3D_STAGING_BYTES"
definition GSW_VGA_REG_IRQ_STATUS :: u32 where "GSW_VGA_REG_IRQ_STATUS = 0x2C"
definition GSW_VGA_IRQ_3D :: u32 where "GSW_VGA_IRQ_3D = 2"
definition GSW_VGA_CAP_3D_SVGA9 :: u32 where "GSW_VGA_CAP_3D_SVGA9 = 0x100"
definition GSW_VGA_CAP_DIRECT_PRESENT :: u32 where "GSW_VGA_CAP_DIRECT_PRESENT = 0x200"
definition GSW_VGA_CAP_RESOURCE_UPLOAD :: u32 where "GSW_VGA_CAP_RESOURCE_UPLOAD = 0x800"
definition GSW_MARK_3D_WAIT :: u8 where "GSW_MARK_3D_WAIT = 0xDA"
definition GSW_MARK_3D_ACQUIRED :: u8 where "GSW_MARK_3D_ACQUIRED = 0xDB"

record GSW3DResult =
  res_cb :: u32
  res_success :: u32
  res_fence_low :: u32
  res_fence_high :: u32
  res_completed_low :: u32
  res_completed_high :: u32
  res_status :: u32
  res_error :: u32

record GSW3DQuery =
  q_cb :: u32
  q_version :: u32
  q_available :: u32
  q_capabilities :: u32
  q_packet_format :: u32
  q_present_intervals :: u32
  q_staging_bytes :: u32
  q_maximum_batch_bytes :: u32

record GSW3DPresentRequest =
  pr_cb :: u32
  pr_context_id :: u32
  pr_surface_id :: u32
  pr_source_x :: u32
  pr_source_y :: u32
  pr_source_width :: u32
  pr_source_height :: u32
  pr_destination_x :: u32
  pr_destination_y :: u32
  pr_destination_width :: u32
  pr_destination_height :: u32
  pr_interval :: u32

record GSW3DFencePollRequest =
  fp_cb :: u32
  fp_fence_low :: u32
  fp_fence_high :: u32

text \<open>The bodies of the command structures, in the order of their fields.\<close>

definition GSW3DRegionCommand :: "u32 \<Rightarrow> u32 \<Rightarrow> u32 \<Rightarrow> u32 list" where
  "GSW3DRegionCommand region_id gpa_low size_low = [region_id, 0, gpa_low, 0, size_low, 0]"

definition GSW3DIdCommand :: "u32 \<Rightarrow> u32 list" where
  "GSW3DIdCommand ident = [ident, 0]"

definition GSW3DSubmitCommand :: "u32 \<Rightarrow> u32 \<Rightarrow> u32 \<Rightarrow> u32 \<Rightarrow> u32 list" where
  "GSW3DSubmitCommand context_id region_id byte_count packet_format =
     [context_id, region_id, 0, 0, byte_count, packet_format]"

definition GSW3DUploadCommand :: "u32 \<Rightarrow> u32 \<Rightarrow> u32 \<Rightarrow> u32 \<Rightarrow> u32 \<Rightarrow> u32 list" where
  "GSW3DUploadCommand resource_id region_id destination_low destination_high byte_count =
     [resource_id, region_id, 0, 0, destination_low, destination_high, byte_count, 0]"

definition GSW3DPresentCommand :: "GSW3DPresentRequest \<Rightarrow> u32 list" where
  "GSW3DPresentCommand r =
     [pr_context_id r, pr_surface_id r, pr_source_x r, pr_source_y r, pr_source_width r,
      pr_source_height r, pr_destination_x r, pr_destination_y r, pr_destination_width r,
      pr_destination_height r, pr_interval r, 0]"

section \<open>Helpers\<close>

definition gsw3d_result_unavailable :: GSW3DResult where
  "gsw3d_result_unavailable = \<lparr>res_cb = 32, res_success = 0, res_fence_low = 0, res_fence_high = 0,
     res_completed_low = 0, res_completed_high = 0, res_status = 0, res_error = 0\<rparr>"

definition gsw3d_result_snapshot ::
    "'d gsw_env \<Rightarrow> bool \<Rightarrow> u32 \<Rightarrow> u32 \<Rightarrow> 'd gsw_world \<Rightarrow> GSW3DResult \<times> 'd gsw_world" where
  "gsw3d_result_snapshot e success low high w =
     (let (completed_low, w) = GSW_transport_register_read e GSW3D_REG_FENCE_LOW w;
          (completed_high, w) = GSW_transport_register_read e GSW3D_REG_FENCE_HIGH w;
          (status, w) = GSW_transport_register_read e GSW3D_REG_STATUS w;
          (err, w) = GSW_transport_register_read e GSW3D_REG_ERROR w
      in (\<lparr>res_cb = 32, res_success = (if success then 1 else 0), res_fence_low = low,
           res_fence_high = high, res_completed_low = completed_low,
           res_completed_high = completed_high, res_status = status, res_error = err\<rparr>, w))"

definition gsw3d_begin :: "'d gsw_step" where
  "gsw3d_begin w =
     (if gsw3d_semaphore (vga3d w) = 0 then (False, w)
      else
        (let w = w\<lparr>lock3d := wait_lock (lock3d w)\<rparr>
         in if \<not> gsw3d_ready (vga3d w) \<or> \<not> GSW_transport_ready w
            then (False, w\<lparr>lock3d := signal_lock (lock3d w)\<rparr>)
            else (True, w)))"

definition gsw3d_end :: "'d gsw_world \<Rightarrow> 'd gsw_world" where
  "gsw3d_end w = w\<lparr>lock3d := signal_lock (lock3d w)\<rparr>"

definition gsw3d_advance_fence :: "gsw3d_transport_state \<Rightarrow> gsw3d_transport_state" where
  "gsw3d_advance_fence g =
     (let g = g\<lparr>gsw3d_fence_low := gsw3d_fence_low g + 1\<rparr>
      in if gsw3d_fence_low g = 0
         then (let g = g\<lparr>gsw3d_fence_high := gsw3d_fence_high g + 1\<rparr>
               in if gsw3d_fence_high g = 0 then g\<lparr>gsw3d_fence_low := 1\<rparr> else g)
         else g)"

text \<open>The loop over \<open>i\<close>: \<open>n\<close> iterations are left.\<close>

fun gsw3d_copy_loop :: "u32 \<Rightarrow> u8 list \<Rightarrow> u32 \<Rightarrow> nat \<Rightarrow> (u32 \<Rightarrow> u8) \<Rightarrow> (u32 \<Rightarrow> u8)" where
  "gsw3d_copy_loop offset src i 0 rm = rm"
| "gsw3d_copy_loop offset src i (Suc n) rm =
     gsw3d_copy_loop offset src (i + 1) n
       (rm((offset + i) AND (GSW3D_RING_BYTES - 1) := src ! unat i))"

definition gsw3d_ring_copy :: "u32 \<Rightarrow> u8 list \<Rightarrow> u32 \<Rightarrow> (u32 \<Rightarrow> u8) \<Rightarrow> (u32 \<Rightarrow> u8)" where
  "gsw3d_ring_copy offset src len rm = gsw3d_copy_loop offset src 0 (unat len) rm"

section \<open>Submission\<close>

definition gsw3d_idle :: "'d gsw_env \<Rightarrow> 'd gsw_step" where
  "gsw3d_idle e w =
     (let (status, w) = GSW_transport_register_read e GSW3D_REG_STATUS w;
          tail = gsw3d_ring_tail (vga3d w)
      in step_and (step_if (status AND GSW3D_STATUS_READY \<noteq> 0 \<and> status AND GSW3D_STATUS_ERROR = 0))
           (step_and (transport_register_is e GSW3D_REG_RING_HEAD tail)
             (transport_register_is e GSW3D_REG_RING_TAIL tail)) w)"

definition gsw3d_stamp :: "gsw3d_transport_state \<Rightarrow> gsw_command \<Rightarrow> gsw_command" where
  "gsw3d_stamp g c = c\<lparr>header := (header c)\<lparr>version := GSW3D_COMMAND_VERSION,
     cmd_length := command_size c, fence_low := gsw3d_fence_low g,
     fence_high := gsw3d_fence_high g\<rparr>\<rparr>"

text \<open>The command goes into the ring, then the tail is published and the doorbell rung.\<close>

definition gsw3d_post :: "'d gsw_env \<Rightarrow> gsw_command \<Rightarrow> u32 \<Rightarrow> 'd gsw_world \<Rightarrow> 'd gsw_world" where
  "gsw3d_post e c new_tail w =
     (let b = (bus w)\<lparr>ring3d := gsw3d_ring_copy (gsw3d_ring_tail (vga3d w)) (command_bytes c)
                (command_size c) (ring3d (bus w))\<rparr>;
          w = GSW_transport_register_write e GSW3D_REG_RING_TAIL new_tail (w\<lparr>bus := b\<rparr>)
      in GSW_transport_register_write e GSW3D_REG_DOORBELL 1 w)"

definition gsw3d_taken :: "'d gsw_env \<Rightarrow> u32 \<Rightarrow> 'd gsw_step" where
  "gsw3d_taken e new_tail w =
     (let (status, w) = GSW_transport_register_read e GSW3D_REG_STATUS w
      in step_and (transport_register_is e GSW3D_REG_RING_HEAD new_tail)
           (step_and (transport_register_is e GSW3D_REG_RING_TAIL new_tail)
             (step_if (status AND GSW3D_STATUS_ERROR = 0))) w)"

definition gsw3d_abandon :: "'d gsw_env \<Rightarrow> 'd gsw_world \<Rightarrow> 'd gsw_world" where
  "gsw3d_abandon e w =
     (let (head, w) = GSW_transport_register_read e GSW3D_REG_RING_HEAD w;
          w = w\<lparr>vga3d := (vga3d w)\<lparr>gsw3d_ring_tail := head AND (GSW3D_RING_BYTES - 1)\<rparr>\<rparr>
      in GSW_transport_register_write e GSW3D_REG_RING_TAIL (gsw3d_ring_tail (vga3d w)) w)"

text \<open>The fence of the command when it was taken, \<open>None\<close> for false.\<close>

definition gsw3d_submit_locked ::
    "'d gsw_env \<Rightarrow> gsw_command \<Rightarrow> 'd gsw_world \<Rightarrow> (u32 \<times> u32) option \<times> 'd gsw_world" where
  "gsw3d_submit_locked e c w =
     (let len = command_size c in
      if \<not> gsw3d_ready (vga3d w) \<or> len < 16 \<or> len \<ge> GSW3D_RING_BYTES \<or> len AND 3 \<noteq> 0 then (None, w)
      else
        (let (idle, w) = gsw3d_idle e w in
         if \<not> idle then (None, w)
         else
           (let g = vga3d w;
                new_tail = (gsw3d_ring_tail g + len) AND (GSW3D_RING_BYTES - 1);
                (taken, w) = gsw3d_taken e new_tail (gsw3d_post e (gsw3d_stamp g c) new_tail w)
            in if \<not> taken then (None, gsw3d_abandon e w)
               else
                 (let w = GSW_transport_register_write e GSW_VGA_REG_IRQ_STATUS GSW_VGA_IRQ_3D w
                  in (Some (gsw3d_fence_low g, gsw3d_fence_high g),
                      w\<lparr>vga3d := gsw3d_advance_fence ((vga3d w)\<lparr>gsw3d_ring_tail := new_tail\<rparr>)\<rparr>)))))"

section \<open>Contexts\<close>

text \<open>The two searches run over the same table; the second looks for a free slot.\<close>

fun gsw3d_context_scan :: "u32 \<Rightarrow> nat \<Rightarrow> GSW3DContextRecord list \<Rightarrow> nat option" where
  "gsw3d_context_scan context_id i [] = None"
| "gsw3d_context_scan context_id i (c # cs) =
     (if cx_id c = context_id then Some i else gsw3d_context_scan context_id (Suc i) cs)"

definition gsw3d_context_find :: "u32 \<Rightarrow> gsw3d_transport_state \<Rightarrow> nat option" where
  "gsw3d_context_find context_id g = gsw3d_context_scan context_id 0 (gsw3d_contexts g)"

definition gsw3d_context_free :: "gsw3d_transport_state \<Rightarrow> nat option" where
  "gsw3d_context_free g = gsw3d_context_scan 0 0 (gsw3d_contexts g)"

definition gsw3d_context_slot :: "bool \<Rightarrow> u32 \<Rightarrow> u32 \<Rightarrow> gsw3d_transport_state \<Rightarrow> nat option" where
  "gsw3d_context_slot create context_id owner_pid g =
     (if create then
        (if gsw3d_context_find context_id g \<noteq> None then None else gsw3d_context_free g)
      else
        (case gsw3d_context_find context_id g of
           None \<Rightarrow> None
         | Some slot \<Rightarrow>
             if cx_owner_pid (gsw3d_contexts g ! slot) \<noteq> owner_pid then None else Some slot))"

definition gsw3d_set_context ::
    "nat \<Rightarrow> GSW3DContextRecord \<Rightarrow> 'd gsw_world \<Rightarrow> 'd gsw_world" where
  "gsw3d_set_context slot c w =
     w\<lparr>vga3d := (vga3d w)\<lparr>gsw3d_contexts := (gsw3d_contexts (vga3d w))[slot := c]\<rparr>\<rparr>"

text \<open>What every request does after its submission: snapshot, release, return.\<close>

definition gsw3d_finish ::
    "'d gsw_env \<Rightarrow> (u32 \<times> u32) option \<Rightarrow> 'd gsw_world \<Rightarrow> bool \<times> GSW3DResult \<times> 'd gsw_world" where
  "gsw3d_finish e fence w =
     (let (low, high) = (case fence of None \<Rightarrow> (0, 0) | Some f \<Rightarrow> f);
          (result, w) = gsw3d_result_snapshot e (fence \<noteq> None) low high w
      in (fence \<noteq> None, result, gsw3d_end w))"

definition GSW3D_transport_context ::
    "'d gsw_env \<Rightarrow> bool \<Rightarrow> u32 \<Rightarrow> u32 \<Rightarrow> 'd gsw_world \<Rightarrow> bool \<times> GSW3DResult \<times> 'd gsw_world" where
  "GSW3D_transport_context e create context_id owner_pid w =
     (if context_id = 0 \<or> owner_pid = 0 then (False, gsw3d_result_unavailable, w)
      else
        (let (entered, w) = gsw3d_begin w in
         if \<not> entered then (False, gsw3d_result_unavailable, w)
         else
           (case gsw3d_context_slot create context_id owner_pid (vga3d w) of
              None \<Rightarrow> gsw3d_finish e None w
            | Some slot \<Rightarrow>
                (let op = (if create then GSW3D_OPCODE_CREATE_CONTEXT else GSW3D_OPCODE_DESTROY_CONTEXT);
                     (fence, w) = gsw3d_submit_locked e (new_command op (GSW3DIdCommand context_id)) w;
                     w = (if fence = None then w
                          else gsw3d_set_context slot
                                 (if create then \<lparr>cx_id = context_id, cx_owner_pid = owner_pid\<rparr>
                                  else context_zero) w)
                 in gsw3d_finish e fence w))))"

definition gsw3d_cleanup_slot :: "'d gsw_env \<Rightarrow> u32 \<Rightarrow> nat \<Rightarrow> 'd gsw_world \<Rightarrow> 'd gsw_world" where
  "gsw3d_cleanup_slot e owner_pid index w =
     (let c = gsw3d_contexts (vga3d w) ! index in
      if cx_id c = 0 \<or> cx_owner_pid c \<noteq> owner_pid then w
      else
        (let (fence, w) = gsw3d_submit_locked e
               (new_command GSW3D_OPCODE_DESTROY_CONTEXT (GSW3DIdCommand (cx_id c))) w
         in gsw3d_set_context index context_zero w))"

definition GSW3D_transport_process_cleanup :: "'d gsw_env \<Rightarrow> u32 \<Rightarrow> 'd gsw_world \<Rightarrow> 'd gsw_world" where
  "GSW3D_transport_process_cleanup e owner_pid w =
     (if owner_pid = 0 then w
      else
        (let (entered, w) = gsw3d_begin w in
         if \<not> entered then w
         else gsw3d_end (fold (gsw3d_cleanup_slot e owner_pid) [0..<GSW3D_CONTEXT_CAPACITY] w)))"

section \<open>Requests\<close>

definition gsw3d_stage :: "u8 list \<Rightarrow> u32 \<Rightarrow> 'd gsw_world \<Rightarrow> 'd gsw_world" where
  "gsw3d_stage bs byte_count w =
     w\<lparr>bus := (bus w)\<lparr>staging := mem_put 0 (take (unat byte_count) bs) (staging (bus w))\<rparr>\<rparr>"

definition GSW3D_transport_submit ::
    "'d gsw_env \<Rightarrow> u32 \<Rightarrow> u8 list \<Rightarrow> u32 \<Rightarrow> 'd gsw_world \<Rightarrow> bool \<times> GSW3DResult \<times> 'd gsw_world" where
  "GSW3D_transport_submit e context_id batch byte_count w =
     (if byte_count = 0 \<or> byte_count > GSW3D_MAX_BATCH_BYTES \<or> byte_count AND 3 \<noteq> 0
      then (False, gsw3d_result_unavailable, w)
      else
        (let (entered, w) = gsw3d_begin w in
         if \<not> entered then (False, gsw3d_result_unavailable, w)
         else if gsw3d_context_find context_id (vga3d w) = None then gsw3d_finish e None w
         else
           (let (fence, w) = gsw3d_submit_locked e
                  (new_command GSW3D_OPCODE_SUBMIT
                    (GSW3DSubmitCommand context_id GSW3D_STAGING_REGION_ID byte_count GSW3D_PACKET_SVGA9))
                  (gsw3d_stage batch byte_count w)
            in gsw3d_finish e fence w)))"

definition GSW3D_transport_upload ::
    "'d gsw_env \<Rightarrow> u32 \<Rightarrow> u32 \<Rightarrow> u32 \<Rightarrow> u8 list \<Rightarrow> u32 \<Rightarrow> 'd gsw_world \<Rightarrow>
     bool \<times> GSW3DResult \<times> 'd gsw_world" where
  "GSW3D_transport_upload e resource_id dest_low dest_high bs byte_count w =
     (if resource_id = 0 \<or> byte_count = 0 \<or> byte_count > GSW3D_STAGING_BYTES
      then (False, gsw3d_result_unavailable, w)
      else
        (let (entered, w) = gsw3d_begin w in
         if \<not> entered then (False, gsw3d_result_unavailable, w)
         else
           (let (fence, w) = gsw3d_submit_locked e
                  (new_command GSW3D_OPCODE_RESOURCE_UPLOAD
                    (GSW3DUploadCommand resource_id GSW3D_STAGING_REGION_ID dest_low dest_high byte_count))
                  (gsw3d_stage bs byte_count w)
            in gsw3d_finish e fence w)))"

definition gsw3d_present_invalid :: "gsw3d_transport_state \<Rightarrow> GSW3DPresentRequest \<Rightarrow> bool" where
  "gsw3d_present_invalid g r \<longleftrightarrow>
     pr_cb r \<noteq> 48 \<or> pr_context_id r = 0 \<or> pr_surface_id r = 0 \<or>
     pr_source_width r = 0 \<or> pr_source_height r = 0 \<or>
     pr_destination_width r = 0 \<or> pr_destination_height r = 0 \<or>
     pr_source_x r > 0xFFFFFFFF - pr_source_width r \<or>
     pr_source_y r > 0xFFFFFFFF - pr_source_height r \<or>
     pr_destination_x r > 0xFFFFFFFF - pr_destination_width r \<or>
     pr_destination_y r > 0xFFFFFFFF - pr_destination_height r \<or>
     pr_interval r > 31 \<or>
     gsw3d_present_intervals g AND push_bit (unat (pr_interval r)) 1 = 0"

definition GSW3D_transport_present ::
    "'d gsw_env \<Rightarrow> GSW3DPresentRequest \<Rightarrow> 'd gsw_world \<Rightarrow> bool \<times> GSW3DResult \<times> 'd gsw_world" where
  "GSW3D_transport_present e r w =
     (if gsw3d_present_invalid (vga3d w) r then (False, gsw3d_result_unavailable, w)
      else
        (let (entered, w) = gsw3d_begin w in
         if \<not> entered then (False, gsw3d_result_unavailable, w)
         else if gsw3d_context_find (pr_context_id r) (vga3d w) = None then gsw3d_finish e None w
         else
           (let (fence, w) = gsw3d_submit_locked e
                  (new_command GSW3D_OPCODE_DIRECT_PRESENT (GSW3DPresentCommand r)) w
            in gsw3d_finish e fence w)))"

definition gsw3d_fence_reached :: "u32 \<Rightarrow> u32 \<Rightarrow> u32 \<Rightarrow> u32 \<Rightarrow> bool" where
  "gsw3d_fence_reached completed_low completed_high low high \<longleftrightarrow>
     completed_high > high \<or> (completed_high = high \<and> completed_low \<ge> low)"

definition GSW3D_transport_fence_poll ::
    "'d gsw_env \<Rightarrow> GSW3DFencePollRequest \<Rightarrow> 'd gsw_world \<Rightarrow> bool \<times> GSW3DResult \<times> 'd gsw_world" where
  "GSW3D_transport_fence_poll e r w =
     (if fp_cb r \<noteq> 12 \<or> (fp_fence_low r = 0 \<and> fp_fence_high r = 0)
      then (False, gsw3d_result_unavailable, w)
      else
        (let (entered, w) = gsw3d_begin w in
         if \<not> entered then (False, gsw3d_result_unavailable, w)
         else
           (let (completed_low, w) = GSW_transport_register_read e GSW3D_REG_FENCE_LOW w;
                (completed_high, w) = GSW_transport_register_read e GSW3D_REG_FENCE_HIGH w;
                (status, w) = GSW_transport_register_read e GSW3D_REG_STATUS w;
                success = (status AND GSW3D_STATUS_ERROR = 0 \<and>
                  gsw3d_fence_reached completed_low completed_high (fp_fence_low r) (fp_fence_high r));
                (result, w) = gsw3d_result_snapshot e success (fp_fence_low r) (fp_fence_high r) w
            in (success, result, gsw3d_end w))))"

definition GSW3D_transport_query :: "'d gsw_world \<Rightarrow> GSW3DQuery \<times> 'd gsw_world" where
  "GSW3D_transport_query w =
     (let query = \<lparr>q_cb = 32, q_version = GSW3D_ABI_VERSION, q_available = 0, q_capabilities = 0,
                   q_packet_format = 0, q_present_intervals = 0, q_staging_bytes = 0,
                   q_maximum_batch_bytes = 0\<rparr>;
          (entered, w) = gsw3d_begin w
      in if \<not> entered then (query, w)
         else (query\<lparr>q_available := 1, q_capabilities := gsw3d_capabilities (vga3d w),
                 q_packet_format := GSW3D_PACKET_SVGA9,
                 q_present_intervals := gsw3d_present_intervals (vga3d w),
                 q_staging_bytes := GSW3D_STAGING_BYTES,
                 q_maximum_batch_bytes := GSW3D_MAX_BATCH_BYTES\<rparr>, gsw3d_end w))"

section \<open>Bring-up and shut-down\<close>

definition gsw3d_page_free :: "'d gsw_env \<Rightarrow> u32 \<Rightarrow> 'd gsw_world \<Rightarrow> 'd gsw_world" where
  "gsw3d_page_free e address w = (if address \<noteq> 0 then w\<lparr>bus := PageFree e address (bus w)\<rparr> else w)"

definition gsw3d_release_device :: "'d gsw_env \<Rightarrow> 'd gsw_world \<Rightarrow> 'd gsw_world" where
  "gsw3d_release_device e w =
     (if \<not> gsw3d_ready (vga3d w) then w
      else
        (let w = snd (gsw3d_submit_locked e
                   (new_command GSW3D_OPCODE_UNREGISTER_REGION (GSW3DIdCommand GSW3D_STAGING_REGION_ID)) w);
             w = GSW_transport_register_write e GSW3D_REG_STATUS GSW3D_STATUS_RESET w;
             w = GSW_transport_register_write e GSW3D_REG_RING_HEAD 0 w;
             w = GSW_transport_register_write e GSW3D_REG_RING_TAIL 0 w;
             w = GSW_transport_register_write e GSW3D_REG_RING_GPA_LOW 0 w;
             w = GSW_transport_register_write e GSW3D_REG_RING_GPA_HIGH 0 w
         in GSW_transport_register_write e GSW3D_REG_RING_SIZE 0 w))"

definition GSW3D_transport_shutdown :: "'d gsw_env \<Rightarrow> 'd gsw_world \<Rightarrow> 'd gsw_world" where
  "GSW3D_transport_shutdown e w =
     (let w = GSW_shutdown_mark GSW_MARK_3D_WAIT w;
          w = (if gsw3d_semaphore (vga3d w) \<noteq> 0 then w\<lparr>lock3d := wait_lock (lock3d w)\<rparr> else w);
          w = GSW_shutdown_mark GSW_MARK_3D_ACQUIRED w;
          w = gsw3d_release_device e w;
          w = gsw3d_page_free e (gsw3d_staging (vga3d w)) w;
          w = gsw3d_page_free e (gsw3d_ring (vga3d w)) w;
          w = w\<lparr>vga3d := gsw3d_transport_static\<lparr>gsw3d_semaphore := gsw3d_semaphore (vga3d w)\<rparr>\<rparr>
      in if gsw3d_semaphore (vga3d w) \<noteq> 0 then w\<lparr>lock3d := signal_lock (lock3d w)\<rparr> else w)"

definition gsw3d_supported :: "'d gsw_env \<Rightarrow> 'd gsw_step" where
  "gsw3d_supported e w =
     (let required = GSW_VGA_CAP_3D_SVGA9 OR GSW_VGA_CAP_DIRECT_PRESENT OR GSW_VGA_CAP_RESOURCE_UPLOAD
      in step_and (step_if (GSW_transport_ready w \<and> GSW_transport_capabilities w AND required = required))
           (step_and (transport_register_is e GSW3D_REG_PACKET_FORMAT GSW3D_PACKET_SVGA9)
             (\<lambda>w. let (status, w) = GSW_transport_register_read e GSW3D_REG_STATUS w
                  in (status AND GSW3D_STATUS_READY \<noteq> 0, w))) w)"

definition gsw3d_need_semaphore :: "'d gsw_env \<Rightarrow> 'd gsw_step" where
  "gsw3d_need_semaphore e w =
     (if gsw3d_semaphore (vga3d w) \<noteq> 0 then (True, w)
      else
        (let (s, w) = on_bus (CreateSemaphore e) w;
             w = w\<lparr>vga3d := (vga3d w)\<lparr>gsw3d_semaphore := s\<rparr>\<rparr>
         in if s = 0 then (False, w) else (True, w\<lparr>lock3d := \<lparr>tokens = 1, stuck = False\<rparr>\<rparr>)))"

definition gsw3d_allocate_ring :: "'d gsw_env \<Rightarrow> 'd gsw_step" where
  "gsw3d_allocate_ring e w =
     (let ((linear, physical), w) = on_bus (PageAllocate e GSW3D_RING_BYTES) w
      in if linear = 0 \<or> physical AND (GSW3D_RING_BYTES - 1) \<noteq> 0
         then (False, (gsw3d_page_free e linear w)\<lparr>vga3d := (vga3d w)\<lparr>gsw3d_ring_physical := 0\<rparr>\<rparr>)
         else (True, w\<lparr>vga3d := (vga3d w)\<lparr>gsw3d_ring_physical := physical, gsw3d_ring := linear\<rparr>\<rparr>))"

definition gsw3d_allocate_staging :: "'d gsw_env \<Rightarrow> 'd gsw_step" where
  "gsw3d_allocate_staging e w =
     (let ((linear, physical), w) = on_bus (PageAllocate e GSW3D_STAGING_BYTES) w;
          w = w\<lparr>vga3d := (vga3d w)\<lparr>gsw3d_staging_physical := physical\<rparr>\<rparr>
      in if linear = 0
         then (False, (w\<lparr>bus := PageFree e (gsw3d_ring (vga3d w)) (bus w)\<rparr>)
                        \<lparr>vga3d := (vga3d w)\<lparr>gsw3d_ring := 0, gsw3d_ring_physical := 0\<rparr>\<rparr>)
         else (True, w\<lparr>vga3d := (vga3d w)\<lparr>gsw3d_staging := linear\<rparr>\<rparr>))"

definition gsw3d_program_ring :: "'d gsw_env \<Rightarrow> 'd gsw_step" where
  "gsw3d_program_ring e w =
     (let (caps, w) = GSW_transport_register_read e GSW3D_REG_CAPABILITIES w;
          (intervals, w) = GSW_transport_register_read e GSW3D_REG_PRESENT_INTERVALS w;
          w = w\<lparr>vga3d := (vga3d w)\<lparr>gsw3d_capabilities := caps, gsw3d_present_intervals := intervals,
                 gsw3d_ring_tail := 0, gsw3d_fence_low := 1, gsw3d_fence_high := 0,
                 gsw3d_contexts := replicate GSW3D_CONTEXT_CAPACITY context_zero\<rparr>\<rparr>;
          w = GSW_transport_register_write e GSW3D_REG_RING_GPA_LOW (gsw3d_ring_physical (vga3d w)) w;
          w = GSW_transport_register_write e GSW3D_REG_RING_GPA_HIGH 0 w;
          w = GSW_transport_register_write e GSW3D_REG_RING_SIZE GSW3D_RING_BYTES w;
          w = GSW_transport_register_write e GSW3D_REG_RING_HEAD 0 w;
          w = GSW_transport_register_write e GSW3D_REG_RING_TAIL 0 w;
          w = GSW_transport_register_write e GSW3D_REG_STATUS GSW3D_STATUS_ERROR w;
          (status, w) = GSW_transport_register_read e GSW3D_REG_STATUS w
      in (status AND GSW3D_STATUS_READY \<noteq> 0, w))"

definition gsw3d_register_staging :: "'d gsw_env \<Rightarrow> 'd gsw_step" where
  "gsw3d_register_staging e w =
     (let w = w\<lparr>vga3d := (vga3d w)\<lparr>gsw3d_ready := True\<rparr>\<rparr>;
          (fence, w) = gsw3d_submit_locked e
            (new_command GSW3D_OPCODE_REGISTER_REGION
              (GSW3DRegionCommand GSW3D_STAGING_REGION_ID (gsw3d_staging_physical (vga3d w))
                GSW3D_STAGING_BYTES)) w
      in (fence \<noteq> None, w))"

definition GSW3D_transport_init :: "'d gsw_env \<Rightarrow> 'd gsw_step" where
  "GSW3D_transport_init e w =
     (if gsw3d_ready (vga3d w) then (True, w)
      else
        (let (prepared, w) = step_and (gsw3d_supported e) (step_and (gsw3d_need_semaphore e)
               (step_and (gsw3d_allocate_ring e) (gsw3d_allocate_staging e))) w
         in if \<not> prepared then (False, w)
            else
              (let (started, w) = step_and (gsw3d_program_ring e) (gsw3d_register_staging e) w
               in if \<not> started then (False, GSW3D_transport_shutdown e w) else (True, w))))"

section \<open>The ring\<close>

lemma ring_pow2_4096: "ring_pow2 0x1000"
  unfolding ring_pow2_def by (intro exI [of _ 12]) simp

lemma copy_loop_out:
  "(\<forall>j<n. x \<noteq> ring_slot GSW3D_RING_BYTES (offset + i) j) \<Longrightarrow>
   gsw3d_copy_loop offset src i n rm x = rm x"
proof (induction n arbitrary: i rm)
  case (Suc n)
  have "x \<noteq> ring_slot GSW3D_RING_BYTES (offset + (i + 1)) j" if "j < n" for j
    using Suc.prems [rule_format, of "Suc j"] that slot_shift [of GSW3D_RING_BYTES "offset + i" j]
    by (simp add: add.assoc)
  moreover have "x \<noteq> (offset + i) AND (GSW3D_RING_BYTES - 1)"
    using Suc.prems [rule_format, of 0] by (simp add: ring_slot_def)
  ultimately show ?case by (simp add: Suc.IH)
qed simp

lemma copy_loop_in:
  "j < n \<Longrightarrow> unat i + n \<le> 4096 \<Longrightarrow>
   gsw3d_copy_loop offset src i n rm (ring_slot GSW3D_RING_BYTES (offset + i) j) = src ! (unat i + j)"
proof (induction n arbitrary: i j rm)
  case (Suc n)
  have ui: "unat (i + 1) = unat i + 1" using Suc.prems by (simp add: unat_word_ariths)
  have sh: "ring_slot GSW3D_RING_BYTES (offset + (i + 1)) k
      = ring_slot GSW3D_RING_BYTES (offset + i) (Suc k)" for k
    using slot_shift [of GSW3D_RING_BYTES "offset + i" k] by (simp add: add.assoc)
  show ?case
  proof (cases j)
    case 0
    have "ring_slot GSW3D_RING_BYTES (offset + i) 0 \<noteq> ring_slot GSW3D_RING_BYTES (offset + (i + 1)) k"
      if "k < n" for k
      using that Suc.prems slot_inject [OF ring_pow2_4096, of 0 "Suc k" "offset + i"]
      by (simp only: sh) (simp add: GSW3D_RING_BYTES_def)
    then show ?thesis by (simp add: 0 copy_loop_out) (simp add: ring_slot_def)
  next
    case (Suc k)
    with Suc.IH [of k "i + 1"] Suc.prems ui show ?thesis by (simp add: sh)
  qed
qed simp

interpretation ring3d: ring_writer gsw3d_ring_copy GSW3D_RING_BYTES
proof
  show "ring_pow2 GSW3D_RING_BYTES" by (simp add: GSW3D_RING_BYTES_def ring_pow2_4096)
next
  fix offset len :: u32 and src :: "u8 list" and rm and i :: nat
  assume "unat len \<le> unat GSW3D_RING_BYTES" "i < unat len"
  then show "gsw3d_ring_copy offset src len rm (ring_slot GSW3D_RING_BYTES offset i) = src ! i"
    using copy_loop_in [of i "unat len" 0 offset src rm]
    by (simp add: gsw3d_ring_copy_def GSW3D_RING_BYTES_def)
next
  fix offset len :: u32 and src :: "u8 list" and rm and x
  assume "\<forall>i<unat len. x \<noteq> ring_slot GSW3D_RING_BYTES offset i"
  then show "gsw3d_ring_copy offset src len rm x = rm x"
    by (simp add: gsw3d_ring_copy_def copy_loop_out)
qed

section \<open>Fences\<close>

interpretation fence3d: fence_counter gsw3d_advance_fence gsw3d_fence_low gsw3d_fence_high
  by unfold_locales (simp_all add: gsw3d_advance_fence_def Let_def)

lemma advance_fence_frame [simp, gsw_frame]:
  "gsw3d_ring (gsw3d_advance_fence g) = gsw3d_ring g"
  "gsw3d_staging (gsw3d_advance_fence g) = gsw3d_staging g"
  "gsw3d_ring_physical (gsw3d_advance_fence g) = gsw3d_ring_physical g"
  "gsw3d_staging_physical (gsw3d_advance_fence g) = gsw3d_staging_physical g"
  "gsw3d_ring_tail (gsw3d_advance_fence g) = gsw3d_ring_tail g"
  "gsw3d_capabilities (gsw3d_advance_fence g) = gsw3d_capabilities g"
  "gsw3d_present_intervals (gsw3d_advance_fence g) = gsw3d_present_intervals g"
  "gsw3d_semaphore (gsw3d_advance_fence g) = gsw3d_semaphore g"
  "gsw3d_ready (gsw3d_advance_fence g) = gsw3d_ready g"
  "gsw3d_contexts (gsw3d_advance_fence g) = gsw3d_contexts g"
  by (simp_all add: gsw3d_advance_fence_def Let_def)

section \<open>Frame rules\<close>

lemma idle_frame [simp, gsw_frame]:
  "vga (snd (gsw3d_idle e w)) = vga w" "vga3d (snd (gsw3d_idle e w)) = vga3d w"
  "lock2d (snd (gsw3d_idle e w)) = lock2d w" "lock3d (snd (gsw3d_idle e w)) = lock3d w"
  by (simp_all add: gsw3d_idle_def Let_def split_beta step_and_def)

lemma post_frame [simp, gsw_frame]:
  "vga (gsw3d_post e c t w) = vga w" "vga3d (gsw3d_post e c t w) = vga3d w"
  "lock2d (gsw3d_post e c t w) = lock2d w" "lock3d (gsw3d_post e c t w) = lock3d w"
  by (simp_all add: gsw3d_post_def Let_def)

lemma taken_frame [simp, gsw_frame]:
  "vga (snd (gsw3d_taken e t w)) = vga w" "vga3d (snd (gsw3d_taken e t w)) = vga3d w"
  "lock2d (snd (gsw3d_taken e t w)) = lock2d w" "lock3d (snd (gsw3d_taken e t w)) = lock3d w"
  by (simp_all add: gsw3d_taken_def Let_def split_beta step_and_def)

lemma abandon_frame [simp, gsw_frame]:
  "vga (gsw3d_abandon e w) = vga w" "lock2d (gsw3d_abandon e w) = lock2d w"
  "lock3d (gsw3d_abandon e w) = lock3d w"
  "\<exists>h. vga3d (gsw3d_abandon e w) = (vga3d w)\<lparr>gsw3d_ring_tail := h AND (GSW3D_RING_BYTES - 1)\<rparr>"
  by (auto simp: gsw3d_abandon_def Let_def split_beta)

lemma snapshot_frame [simp, gsw_frame]:
  "vga (snd (gsw3d_result_snapshot e s l h w)) = vga w"
  "vga3d (snd (gsw3d_result_snapshot e s l h w)) = vga3d w"
  "lock2d (snd (gsw3d_result_snapshot e s l h w)) = lock2d w"
  "lock3d (snd (gsw3d_result_snapshot e s l h w)) = lock3d w"
  by (simp_all add: gsw3d_result_snapshot_def Let_def split_beta)

lemma finish_frame [simp, gsw_frame]:
  "vga (snd (snd (gsw3d_finish e f w))) = vga w" "vga3d (snd (snd (gsw3d_finish e f w))) = vga3d w"
  "lock2d (snd (snd (gsw3d_finish e f w))) = lock2d w"
  "lock3d (snd (snd (gsw3d_finish e f w))) = signal_lock (lock3d w)"
  "fst (gsw3d_finish e f w) = (f \<noteq> None)"
  by (simp_all add: gsw3d_finish_def gsw3d_end_def Let_def split_beta)

text \<open>A submission touches only the ring tail and the fence of the 3D state.\<close>

lemma submit3d_frame [simp, gsw_frame]:
  "vga (snd (gsw3d_submit_locked e c w)) = vga w"
  "lock2d (snd (gsw3d_submit_locked e c w)) = lock2d w"
  "lock3d (snd (gsw3d_submit_locked e c w)) = lock3d w"
  by (simp_all add: gsw3d_submit_locked_def Let_def split_beta)

lemma abandon_fields [simp, gsw_frame]:
  "gsw3d_contexts (vga3d (gsw3d_abandon e w)) = gsw3d_contexts (vga3d w)"
  "gsw3d_ready (vga3d (gsw3d_abandon e w)) = gsw3d_ready (vga3d w)"
  "gsw3d_semaphore (vga3d (gsw3d_abandon e w)) = gsw3d_semaphore (vga3d w)"
  "gsw3d_ring (vga3d (gsw3d_abandon e w)) = gsw3d_ring (vga3d w)"
  "gsw3d_staging (vga3d (gsw3d_abandon e w)) = gsw3d_staging (vga3d w)"
  "gsw3d_ring_physical (vga3d (gsw3d_abandon e w)) = gsw3d_ring_physical (vga3d w)"
  "gsw3d_fence_low (vga3d (gsw3d_abandon e w)) = gsw3d_fence_low (vga3d w)"
  "gsw3d_fence_high (vga3d (gsw3d_abandon e w)) = gsw3d_fence_high (vga3d w)"
  by (simp_all add: gsw3d_abandon_def Let_def split_beta)

lemma submit3d_fields [simp, gsw_frame]:
  "gsw3d_contexts (vga3d (snd (gsw3d_submit_locked e c w))) = gsw3d_contexts (vga3d w)"
  "gsw3d_ready (vga3d (snd (gsw3d_submit_locked e c w))) = gsw3d_ready (vga3d w)"
  "gsw3d_semaphore (vga3d (snd (gsw3d_submit_locked e c w))) = gsw3d_semaphore (vga3d w)"
  "gsw3d_ring (vga3d (snd (gsw3d_submit_locked e c w))) = gsw3d_ring (vga3d w)"
  "gsw3d_staging (vga3d (snd (gsw3d_submit_locked e c w))) = gsw3d_staging (vga3d w)"
  "gsw3d_ring_physical (vga3d (snd (gsw3d_submit_locked e c w))) = gsw3d_ring_physical (vga3d w)"
  by (simp_all add: gsw3d_submit_locked_def Let_def split_beta)

lemma masked_tail: "x AND (GSW3D_RING_BYTES - 1) < 0x1000"
proof -
  have "unat (x AND (2 ^ 12 - 1)) < 2 ^ 12" by (simp only: unat_and_mask) simp
  then show ?thesis by (simp add: GSW3D_RING_BYTES_def word_less_nat_alt)
qed

lemma submit3d_tail:
  "gsw3d_ring_tail (vga3d w) < 0x1000 \<Longrightarrow>
   gsw3d_ring_tail (vga3d (snd (gsw3d_submit_locked e c w))) < 0x1000"
  by (simp add: gsw3d_submit_locked_def gsw3d_abandon_def Let_def split_beta masked_tail)

lemma submit3d_fence:
  "gsw3d_fence_low (vga3d w) \<noteq> 0 \<or> gsw3d_fence_high (vga3d w) \<noteq> 0 \<Longrightarrow>
   gsw3d_fence_low (vga3d (snd (gsw3d_submit_locked e c w))) \<noteq> 0 \<or>
   gsw3d_fence_high (vga3d (snd (gsw3d_submit_locked e c w))) \<noteq> 0"
  using fence3d.advance_nonzero [of "(vga3d w)\<lparr>gsw3d_ring_tail := t\<rparr>" for t]
  by (simp add: gsw3d_submit_locked_def Let_def split_beta)

section \<open>The context table\<close>

lemma scan_Some:
  "gsw3d_context_scan x i cs = Some k \<Longrightarrow> i \<le> k \<and> k < i + length cs \<and> cx_id (cs ! (k - i)) = x"
proof (induction x i cs rule: gsw3d_context_scan.induct)
  case (2 x i c cs)
  show ?case
  proof (cases "cx_id c = x")
    case False
    with 2 have "Suc i \<le> k \<and> k < Suc i + length cs \<and> cx_id (cs ! (k - Suc i)) = x" by simp
    then show ?thesis by (auto simp: nth_Cons' Suc_diff_le)
  qed (use 2 in auto)
qed simp

lemma scan_None: "gsw3d_context_scan x i cs = None \<longleftrightarrow> (\<forall>c\<in>set cs. cx_id c \<noteq> x)"
  by (induction x i cs rule: gsw3d_context_scan.induct) auto

definition context_table_ok :: "GSW3DContextRecord list \<Rightarrow> bool" where
  "context_table_ok cs \<longleftrightarrow> length cs = 128 \<and>
     (\<forall>i<128. \<forall>j<128. i \<noteq> j \<and> cx_id (cs ! i) = cx_id (cs ! j) \<longrightarrow> cx_id (cs ! i) = 0) \<and>
     (\<forall>i<128. cx_id (cs ! i) \<noteq> 0 \<longrightarrow> cx_owner_pid (cs ! i) \<noteq> 0)"

lemma find_Some_iff:
  assumes "context_table_ok (gsw3d_contexts g)" "x \<noteq> 0"
  shows "gsw3d_context_find x g = Some k \<longleftrightarrow> k < 128 \<and> cx_id (gsw3d_contexts g ! k) = x"
proof
  assume "gsw3d_context_find x g = Some k"
  then show "k < 128 \<and> cx_id (gsw3d_contexts g ! k) = x"
    using scan_Some [of x 0 "gsw3d_contexts g" k] assms(1)
    by (simp add: gsw3d_context_find_def context_table_ok_def)
next
  assume k: "k < 128 \<and> cx_id (gsw3d_contexts g ! k) = x"
  then obtain k' where f: "gsw3d_context_find x g = Some k'"
    using scan_None [of x 0 "gsw3d_contexts g"] assms(1)
    by (cases "gsw3d_context_find x g") (auto simp: gsw3d_context_find_def context_table_ok_def)
  moreover have "k' < 128 \<and> cx_id (gsw3d_contexts g ! k') = x"
    using f scan_Some [of x 0 "gsw3d_contexts g" k'] assms(1)
    by (simp add: gsw3d_context_find_def context_table_ok_def)
  ultimately show "gsw3d_context_find x g = Some k"
    using k assms by (metis context_table_ok_def)
qed

lemma find_None_iff:
  assumes "context_table_ok (gsw3d_contexts g)"
  shows "gsw3d_context_find x g = None \<longleftrightarrow> (\<forall>k<128. cx_id (gsw3d_contexts g ! k) \<noteq> x)"
proof -
  have "length (gsw3d_contexts g) = 128" using assms by (simp add: context_table_ok_def)
  then show ?thesis
    by (simp add: gsw3d_context_find_def scan_None all_set_conv_all_nth)
qed

text \<open>The table as a map from context identifiers to their owners.\<close>

definition context_owner :: "gsw3d_transport_state \<Rightarrow> u32 \<Rightarrow> u32 option" where
  "context_owner g x = (if x = 0 then None
     else map_option (\<lambda>k. cx_owner_pid (gsw3d_contexts g ! k)) (gsw3d_context_find x g))"

lemma context_owner_iff:
  assumes "context_table_ok (gsw3d_contexts g)"
  shows "context_owner g x = Some p \<longleftrightarrow> x \<noteq> 0 \<and>
    (\<exists>k<128. cx_id (gsw3d_contexts g ! k) = x \<and> cx_owner_pid (gsw3d_contexts g ! k) = p)"
  using find_Some_iff [OF assms] by (auto simp: context_owner_def)

lemma context_owner_None_iff:
  assumes "context_table_ok (gsw3d_contexts g)"
  shows "context_owner g x = None \<longleftrightarrow> x = 0 \<or> (\<forall>k<128. cx_id (gsw3d_contexts g ! k) \<noteq> x)"
  by (simp add: context_owner_def find_None_iff [OF assms])

lemma table_set_ok:
  assumes ok: "context_table_ok cs" and k: "k < 128"
    and c: "cx_id c \<noteq> 0 \<longrightarrow> (\<forall>j<128. j \<noteq> k \<longrightarrow> cx_id (cs ! j) \<noteq> cx_id c) \<and> cx_owner_pid c \<noteq> 0"
  shows "context_table_ok (cs[k := c])"
proof -
  have len: "length cs = 128" using ok by (simp add: context_table_ok_def)
  have nth: "cs[k := c] ! i = (if i = k then c else cs ! i)" if "i < 128" for i
    using that k len by (simp add: nth_list_update)
  have "cx_id (cs[k := c] ! i) = 0"
    if "i < 128" "j < 128" "i \<noteq> j" "cx_id (cs[k := c] ! i) = cx_id (cs[k := c] ! j)" for i j
  proof (cases "i = k \<or> j = k")
    case True
    with that nth [OF that(1)] nth [OF that(2)] c show ?thesis by (metis (full_types))
  next
    case False
    with that nth [OF that(1)] nth [OF that(2)] ok show ?thesis
      unfolding context_table_ok_def by metis
  qed
  moreover have "cx_owner_pid (cs[k := c] ! i) \<noteq> 0" if "i < 128" "cx_id (cs[k := c] ! i) \<noteq> 0" for i
    using that nth [OF that(1)] ok c unfolding context_table_ok_def by (metis (full_types))
  ultimately show ?thesis using len unfolding context_table_ok_def by simp
qed

lemma context_owner_other:
  assumes "context_table_ok (gsw3d_contexts g)" "context_table_ok ((gsw3d_contexts g)[k := c])" "k < 128"
    and "cx_id (gsw3d_contexts g ! k) \<noteq> y" "cx_id c \<noteq> y"
  shows "context_owner (g\<lparr>gsw3d_contexts := (gsw3d_contexts g)[k := c]\<rparr>) y = context_owner g y"
    (is "context_owner ?g' y = _")
proof -
  have ok': "context_table_ok (gsw3d_contexts ?g')" using assms(2) by simp
  have len: "length (gsw3d_contexts g) = 128" using assms(1) by (simp add: context_table_ok_def)
  have "context_owner ?g' y = Some q \<longleftrightarrow> context_owner g y = Some q" for q
    unfolding context_owner_iff [OF ok'] context_owner_iff [OF assms(1)]
    using assms(3-5) len by (simp add: nth_list_update) metis
  then show ?thesis by (metis not_Some_eq)
qed

lemma context_owner_set:
  assumes ok: "context_table_ok (gsw3d_contexts g)" "k < 128"
    and c: "x \<noteq> 0" "\<forall>j<128. j \<noteq> k \<longrightarrow> cx_id (gsw3d_contexts g ! j) \<noteq> x" "p \<noteq> 0"
    and free: "cx_id (gsw3d_contexts g ! k) = 0"
  shows "context_owner (g\<lparr>gsw3d_contexts := (gsw3d_contexts g)[k := \<lparr>cx_id = x, cx_owner_pid = p\<rparr>]\<rparr>)
    = (context_owner g)(x \<mapsto> p)" (is "context_owner ?g' = _")
proof
  fix y
  have t: "context_table_ok ((gsw3d_contexts g)[k := \<lparr>cx_id = x, cx_owner_pid = p\<rparr>])"
    using ok c by (intro table_set_ok) simp_all
  then have ok': "context_table_ok (gsw3d_contexts ?g')" by simp
  have len: "length (gsw3d_contexts g) = 128" using ok(1) by (simp add: context_table_ok_def)
  show "context_owner ?g' y = ((context_owner g)(x \<mapsto> p)) y"
  proof (cases "y = x")
    case True
    have "context_owner ?g' x = Some p"
      unfolding context_owner_iff [OF ok'] using c(1) ok(2) len by (intro conjI exI [of _ k]) simp_all
    with True show ?thesis by simp
  next
    case False
    show ?thesis
    proof (cases "y = 0")
      case y: False
      with False context_owner_other [OF ok(1) t ok(2), of y] free show ?thesis by simp
    qed (use False in \<open>simp add: context_owner_def\<close>)
  qed
qed

lemma context_owner_clear:
  assumes ok: "context_table_ok (gsw3d_contexts g)" "k < 128"
    and x: "cx_id (gsw3d_contexts g ! k) = x" "x \<noteq> 0"
  shows "context_owner (g\<lparr>gsw3d_contexts := (gsw3d_contexts g)[k := context_zero]\<rparr>)
    = (context_owner g)(x := None)" (is "context_owner ?g' = _")
proof
  fix y
  have t: "context_table_ok ((gsw3d_contexts g)[k := context_zero])"
    using ok by (intro table_set_ok) (simp_all add: context_zero_def)
  then have ok': "context_table_ok (gsw3d_contexts ?g')" by simp
  have len: "length (gsw3d_contexts g) = 128" using ok(1) by (simp add: context_table_ok_def)
  have uniq: "j = k" if "j < 128" "cx_id (gsw3d_contexts g ! j) = x" for j
    using that ok x unfolding context_table_ok_def by metis
  show "context_owner ?g' y = ((context_owner g)(x := None)) y"
  proof (cases "y = x")
    case True
    have "cx_id ((gsw3d_contexts g)[k := context_zero] ! j) \<noteq> x" if "j < 128" for j
      using uniq [OF that] len that x(2) by (cases "j = k") (auto simp: nth_list_update context_zero_def)
    then have "context_owner ?g' x = None" unfolding context_owner_None_iff [OF ok'] by simp
    with True show ?thesis by simp
  next
    case False
    show ?thesis
    proof (cases "y = 0")
      case y: False
      with False context_owner_other [OF ok(1) t ok(2), of y] x show ?thesis
        by (simp add: context_zero_def)
    qed (use False in \<open>simp add: context_owner_def\<close>)
  qed
qed

section \<open>The invariant\<close>

definition lock_free :: "gsw_lock \<Rightarrow> bool" where
  "lock_free l \<longleftrightarrow> tokens l = 1 \<and> \<not> stuck l"

definition gsw3d_state_ok :: "gsw3d_transport_state \<Rightarrow> bool" where
  "gsw3d_state_ok g \<longleftrightarrow> context_table_ok (gsw3d_contexts g) \<and>
     (gsw3d_fence_low g \<noteq> 0 \<or> gsw3d_fence_high g \<noteq> 0) \<and> gsw3d_ring_tail g < 0x1000 \<and>
     (gsw3d_ready g \<longrightarrow> gsw3d_semaphore g \<noteq> 0 \<and> gsw3d_ring_physical g AND 0xFFF = 0)"

definition gsw3d_pages_ok :: "gsw3d_transport_state \<Rightarrow> bool" where
  "gsw3d_pages_ok g \<longleftrightarrow> (gsw3d_ring g \<noteq> 0) = gsw3d_ready g \<and> (gsw3d_staging g \<noteq> 0) = gsw3d_ready g"

definition gsw3d_ok :: "'d gsw_world \<Rightarrow> bool" where
  "gsw3d_ok w \<longleftrightarrow> gsw3d_state_ok (vga3d w) \<and> gsw3d_pages_ok (vga3d w) \<and>
     (gsw3d_semaphore (vga3d w) \<noteq> 0 \<longrightarrow> lock_free (lock3d w))"

text \<open>Inside a request: the same with the semaphore taken.\<close>

definition gsw3d_inside :: "'d gsw_world \<Rightarrow> bool" where
  "gsw3d_inside w \<longleftrightarrow> gsw3d_state_ok (vga3d w) \<and> gsw3d_pages_ok (vga3d w) \<and>
     gsw3d_semaphore (vga3d w) \<noteq> 0 \<and> tokens (lock3d w) = 0 \<and> \<not> stuck (lock3d w)"

lemma begin_inside:
  "gsw3d_ok w \<Longrightarrow> fst (gsw3d_begin w) \<Longrightarrow> gsw3d_inside (snd (gsw3d_begin w))"
  by (auto simp: gsw3d_begin_def gsw3d_ok_def gsw3d_inside_def lock_free_def wait_lock_def Let_def
      split: if_splits)

lemma begin_refused:
  "gsw3d_ok w \<Longrightarrow> \<not> fst (gsw3d_begin w) \<Longrightarrow> snd (gsw3d_begin w) = w"
  by (auto simp: gsw3d_begin_def gsw3d_ok_def lock_free_def wait_lock_def signal_lock_def Let_def
      split: if_splits)

lemma begin_frame [simp, gsw_frame]:
  "vga (snd (gsw3d_begin w)) = vga w" "vga3d (snd (gsw3d_begin w)) = vga3d w"
  "lock2d (snd (gsw3d_begin w)) = lock2d w" "bus (snd (gsw3d_begin w)) = bus w"
  by (simp_all add: gsw3d_begin_def Let_def)

lemma begin_entered:
  "fst (gsw3d_begin w) \<longleftrightarrow>
   gsw3d_semaphore (vga3d w) \<noteq> 0 \<and> gsw3d_ready (vga3d w) \<and> GSW_transport_ready w"
  by (simp add: gsw3d_begin_def GSW_transport_ready_def Let_def)

lemma finish_ok: "gsw3d_inside w \<Longrightarrow> gsw3d_ok (snd (snd (gsw3d_finish e f w)))"
  by (simp add: gsw3d_inside_def gsw3d_ok_def lock_free_def signal_lock_def)

lemma end_ok: "gsw3d_inside w \<Longrightarrow> gsw3d_ok (gsw3d_end w)"
  by (simp add: gsw3d_inside_def gsw3d_ok_def gsw3d_end_def lock_free_def signal_lock_def)

lemma submit3d_state_ok:
  "gsw3d_state_ok (vga3d w) \<Longrightarrow> gsw3d_state_ok (vga3d (snd (gsw3d_submit_locked e c w)))"
  using submit3d_tail [of w e c] submit3d_fence [of w e c] by (simp add: gsw3d_state_ok_def)

lemma submit3d_inside [gsw_inv]:
  "gsw3d_inside w \<Longrightarrow> gsw3d_inside (snd (gsw3d_submit_locked e c w))"
  by (simp add: gsw3d_inside_def submit3d_state_ok gsw3d_pages_ok_def)

lemma stage_frame [simp, gsw_frame]:
  "vga (gsw3d_stage bs n w) = vga w" "vga3d (gsw3d_stage bs n w) = vga3d w"
  "lock2d (gsw3d_stage bs n w) = lock2d w" "lock3d (gsw3d_stage bs n w) = lock3d w"
  by (simp_all add: gsw3d_stage_def)

lemma stage_inside [gsw_inv]: "gsw3d_inside w \<Longrightarrow> gsw3d_inside (gsw3d_stage bs n w)"
  by (simp add: gsw3d_inside_def)

lemma set_context_frame [simp, gsw_frame]:
  "vga (gsw3d_set_context k c w) = vga w" "lock2d (gsw3d_set_context k c w) = lock2d w"
  "lock3d (gsw3d_set_context k c w) = lock3d w"
  "vga3d (gsw3d_set_context k c w) =
     (vga3d w)\<lparr>gsw3d_contexts := (gsw3d_contexts (vga3d w))[k := c]\<rparr>"
  by (simp_all add: gsw3d_set_context_def)

lemma set_context_inside:
  assumes "gsw3d_inside w" "k < 128"
    and "cx_id c \<noteq> 0 \<longrightarrow> (\<forall>j<128. j \<noteq> k \<longrightarrow> cx_id (gsw3d_contexts (vga3d w) ! j) \<noteq> cx_id c) \<and>
      cx_owner_pid c \<noteq> 0"
  shows "gsw3d_inside (gsw3d_set_context k c w)"
  using assms table_set_ok [of "gsw3d_contexts (vga3d w)" k c]
  by (simp add: gsw3d_inside_def gsw3d_state_ok_def gsw3d_pages_ok_def)

section \<open>Requests keep the invariant\<close>

lemma context_slot_create:
  assumes "context_table_ok (gsw3d_contexts g)" "x \<noteq> 0" "gsw3d_context_slot True x p g = Some k"
  shows "k < 128" "cx_id (gsw3d_contexts g ! k) = 0" "context_owner g x = None"
    "\<forall>j<128. j \<noteq> k \<longrightarrow> cx_id (gsw3d_contexts g ! j) \<noteq> x"
proof -
  from assms(3) have n: "gsw3d_context_find x g = None" and f: "gsw3d_context_free g = Some k"
    by (simp_all add: gsw3d_context_slot_def split: if_splits)
  show "k < 128" "cx_id (gsw3d_contexts g ! k) = 0"
    using scan_Some [of 0 0 "gsw3d_contexts g" k] f assms(1)
    by (simp_all add: gsw3d_context_free_def context_table_ok_def)
  show "context_owner g x = None" using n by (simp add: context_owner_def)
  show "\<forall>j<128. j \<noteq> k \<longrightarrow> cx_id (gsw3d_contexts g ! j) \<noteq> x"
    using n find_None_iff [OF assms(1)] by blast
qed

lemma context_slot_destroy:
  assumes "context_table_ok (gsw3d_contexts g)" "x \<noteq> 0" "gsw3d_context_slot False x p g = Some k"
  shows "k < 128" "cx_id (gsw3d_contexts g ! k) = x" "context_owner g x = Some p"
proof -
  from assms(3) have f: "gsw3d_context_find x g = Some k" and o: "cx_owner_pid (gsw3d_contexts g ! k) = p"
    by (simp_all add: gsw3d_context_slot_def split: option.splits if_splits)
  then show "k < 128" "cx_id (gsw3d_contexts g ! k) = x"
    using find_Some_iff [OF assms(1,2)] by simp_all
  show "context_owner g x = Some p" using f o assms(2) by (simp add: context_owner_def)
qed

text \<open>The request as a change of the abstract owner map, refused when it may not happen.\<close>

definition context_request :: "bool \<Rightarrow> u32 \<Rightarrow> u32 \<Rightarrow> (u32 \<Rightarrow> u32 option) \<Rightarrow> (u32 \<Rightarrow> u32 option) option" where
  "context_request create x p owners =
     (if create then (if owners x = None then Some (owners(x \<mapsto> p)) else None)
      else (if owners x = Some p then Some (owners(x := None)) else None))"

lemma context_write:
  assumes "gsw3d_inside w" "x \<noteq> 0" "p \<noteq> 0" "gsw3d_context_slot create x p (vga3d w) = Some k"
  defines "w' \<equiv> gsw3d_set_context k (if create then \<lparr>cx_id = x, cx_owner_pid = p\<rparr> else context_zero) w"
  shows "gsw3d_inside w'"
    and "context_request create x p (context_owner (vga3d w)) = Some (context_owner (vga3d w'))"
proof -
  have t: "context_table_ok (gsw3d_contexts (vga3d w))"
    using assms(1) by (simp add: gsw3d_inside_def gsw3d_state_ok_def)
  show "gsw3d_inside w'"
    and "context_request create x p (context_owner (vga3d w)) = Some (context_owner (vga3d w'))"
  proof (atomize(full), cases create)
    case True
    then have "gsw3d_context_slot True x p (vga3d w) = Some k" using assms(4) by simp
    note s = context_slot_create [OF t assms(2) this]
    show "gsw3d_inside w' \<and>
      context_request create x p (context_owner (vga3d w)) = Some (context_owner (vga3d w'))"
      using set_context_inside [OF assms(1) s(1)] s context_owner_set [OF t s(1) assms(2) s(4) assms(3) s(2)]
        assms(3)
      by (simp add: w'_def True context_request_def)
  next
    case False
    then have "gsw3d_context_slot False x p (vga3d w) = Some k" using assms(4) by simp
    note s = context_slot_destroy [OF t assms(2) this]
    show "gsw3d_inside w' \<and>
      context_request create x p (context_owner (vga3d w)) = Some (context_owner (vga3d w'))"
      using set_context_inside [OF assms(1) s(1), of context_zero] s
        context_owner_clear [OF t s(1) s(2) assms(2)]
      by (simp add: w'_def False context_request_def context_zero_def)
  qed
qed

lemma slot_after_submit [simp]:
  "gsw3d_context_slot create x p (vga3d (snd (gsw3d_submit_locked e c w)))
   = gsw3d_context_slot create x p (vga3d w)"
  by (simp add: gsw3d_context_slot_def gsw3d_context_find_def gsw3d_context_free_def split: option.split)

lemma owner_after_submit [simp]:
  "context_owner (vga3d (snd (gsw3d_submit_locked e c w))) = context_owner (vga3d w)"
  by (intro ext) (simp add: context_owner_def gsw3d_context_find_def)

lemma context_step:
  fixes e :: "'d gsw_env" and w :: "'d gsw_world"
  assumes "gsw3d_ok w"
    and r_def: "r = GSW3D_transport_context e create x p w"
  shows "gsw3d_ok (snd (snd r))"
    and "if fst r then context_request create x p (context_owner (vga3d w))
             = Some (context_owner (vga3d (snd (snd r))))
         else context_owner (vga3d (snd (snd r))) = context_owner (vga3d w)"
proof -
  let ?P = "gsw3d_ok (snd (snd r)) \<and>
    (if fst r then context_request create x p (context_owner (vga3d w))
             = Some (context_owner (vga3d (snd (snd r))))
         else context_owner (vga3d (snd (snd r))) = context_owner (vga3d w))"
  have ?P
  proof (cases "x \<noteq> 0 \<and> p \<noteq> 0 \<and> fst (gsw3d_begin w)")
    case False
    then show ?thesis using begin_refused [OF assms(1)] assms(1)
      by (auto simp: r_def GSW3D_transport_context_def Let_def split_beta)
  next
    case True
    define w1 where "w1 = snd (gsw3d_begin w)"
    have in1: "gsw3d_inside w1" using begin_inside [OF assms(1)] True by (simp add: w1_def)
    have o1: "context_owner (vga3d w) = context_owner (vga3d w1)" by (simp add: w1_def)
    show ?thesis
    proof (cases "gsw3d_context_slot create x p (vga3d w1)")
      case None
      then show ?thesis using True finish_ok [OF in1]
        by (simp add: r_def GSW3D_transport_context_def Let_def split_beta w1_def)
    next
      case (Some k)
      define c where "c = new_command (if create then GSW3D_OPCODE_CREATE_CONTEXT
        else GSW3D_OPCODE_DESTROY_CONTEXT) (GSW3DIdCommand x)"
      define w2 where "w2 = snd (gsw3d_submit_locked e c w1)"
      have in2: "gsw3d_inside w2" using in1 by (simp add: w2_def submit3d_inside)
      have s2: "gsw3d_context_slot create x p (vga3d w2) = Some k" using Some by (simp add: w2_def)
      note cw = context_write [OF in2 _ _ s2]
      have r: "r = gsw3d_finish e (fst (gsw3d_submit_locked e c w1))
          (if fst (gsw3d_submit_locked e c w1) = None then w2
           else gsw3d_set_context k (if create then \<lparr>cx_id = x, cx_owner_pid = p\<rparr> else context_zero) w2)"
        using True Some
        by (simp add: r_def GSW3D_transport_context_def Let_def split_beta w1_def w2_def c_def)
      have o2: "context_owner (vga3d w2) = context_owner (vga3d w)" by (simp add: w2_def o1)
      show ?thesis
        using True cw finish_ok [OF in2] finish_ok [OF cw(1)]
        by (cases "fst (gsw3d_submit_locked e c w1)") (simp_all add: r o2)
    qed
  qed
  then show "gsw3d_ok (snd (snd r))"
    and "if fst r then context_request create x p (context_owner (vga3d w))
             = Some (context_owner (vga3d (snd (snd r))))
         else context_owner (vga3d (snd (snd r))) = context_owner (vga3d w)"
    by blast+
qed

lemma submit_request_ok [gsw_inv]:
  "gsw3d_ok w \<Longrightarrow> gsw3d_ok (snd (snd (GSW3D_transport_submit e x bs n w)))"
  using begin_inside [of w] begin_refused [of w]
  by (simp add: GSW3D_transport_submit_def Let_def split_beta finish_ok submit3d_inside stage_inside)

lemma upload_request_ok [gsw_inv]:
  "gsw3d_ok w \<Longrightarrow> gsw3d_ok (snd (snd (GSW3D_transport_upload e r lo hi bs n w)))"
  using begin_inside [of w] begin_refused [of w]
  by (simp add: GSW3D_transport_upload_def Let_def split_beta finish_ok submit3d_inside stage_inside)

lemma present_request_ok [gsw_inv]:
  "gsw3d_ok w \<Longrightarrow> gsw3d_ok (snd (snd (GSW3D_transport_present e r w)))"
  using begin_inside [of w] begin_refused [of w]
  by (simp add: GSW3D_transport_present_def Let_def split_beta finish_ok submit3d_inside)

lemma fence_poll_ok [gsw_inv]:
  "gsw3d_ok w \<Longrightarrow> gsw3d_ok (snd (snd (GSW3D_transport_fence_poll e r w)))"
  using begin_inside [of w] begin_refused [of w]
  by (auto simp: GSW3D_transport_fence_poll_def Let_def split_beta gsw3d_inside_def intro!: end_ok)

lemma query_ok [gsw_inv]: "gsw3d_ok w \<Longrightarrow> gsw3d_ok (snd (GSW3D_transport_query w))"
  using begin_inside [of w] begin_refused [of w]
  by (simp add: GSW3D_transport_query_def Let_def split_beta end_ok)

section \<open>Process clean-up\<close>

lemma cleanup_slot_inside:
  assumes "gsw3d_inside w" "k < 128"
  shows "gsw3d_inside (gsw3d_cleanup_slot e p k w)"
  using set_context_inside [OF submit3d_inside [OF assms(1)] assms(2), of context_zero] assms(1)
  by (simp add: gsw3d_cleanup_slot_def Let_def split_beta context_zero_def)

lemma cleanup_slot_contexts:
  "gsw3d_contexts (vga3d (gsw3d_cleanup_slot e p k w)) =
   (let cs = gsw3d_contexts (vga3d w)
    in if cx_id (cs ! k) = 0 \<or> cx_owner_pid (cs ! k) \<noteq> p then cs else cs[k := context_zero])"
  by (simp add: gsw3d_cleanup_slot_def Let_def split_beta)

lemma cleanup_fold:
  "gsw3d_inside w \<Longrightarrow> n \<le> 128 \<Longrightarrow>
   gsw3d_inside (fold (gsw3d_cleanup_slot e p) [0..<n] w) \<and>
   (\<forall>i<128. gsw3d_contexts (vga3d (fold (gsw3d_cleanup_slot e p) [0..<n] w)) ! i =
     (if i < n \<and> cx_id (gsw3d_contexts (vga3d w) ! i) \<noteq> 0 \<and>
         cx_owner_pid (gsw3d_contexts (vga3d w) ! i) = p
      then context_zero else gsw3d_contexts (vga3d w) ! i))"
proof (induction n)
  case (Suc n)
  let ?v = "fold (gsw3d_cleanup_slot e p) [0..<n] w" let ?cs = "gsw3d_contexts (vga3d w)"
  from Suc have IH: "gsw3d_inside ?v"
    "\<forall>i<128. gsw3d_contexts (vga3d ?v) ! i = (if i < n \<and> cx_id (?cs ! i) \<noteq> 0 \<and>
         cx_owner_pid (?cs ! i) = p then context_zero else ?cs ! i)"
    by simp_all
  have n: "n < 128" using Suc.prems by simp
  have len: "length (gsw3d_contexts (vga3d ?v)) = 128"
    using IH(1) by (simp add: gsw3d_inside_def gsw3d_state_ok_def context_table_ok_def)
  have "gsw3d_contexts (vga3d (gsw3d_cleanup_slot e p n ?v)) ! i =
      (if i < Suc n \<and> cx_id (?cs ! i) \<noteq> 0 \<and> cx_owner_pid (?cs ! i) = p then context_zero else ?cs ! i)"
    if "i < 128" for i
    using IH(2) n that len by (auto simp: cleanup_slot_contexts Let_def nth_list_update less_Suc_eq)
  then show ?case using cleanup_slot_inside [OF IH(1) n] by simp
qed simp

lemma cleanup3d_ok [gsw_inv]: "gsw3d_ok w \<Longrightarrow> gsw3d_ok (GSW3D_transport_process_cleanup e p w)"
  using begin_inside [of w] begin_refused [of w] cleanup_fold [of "snd (gsw3d_begin w)" 128 e p]
  by (simp add: GSW3D_transport_process_cleanup_def Let_def split_beta GSW3D_CONTEXT_CAPACITY_def end_ok)

lemma cleanup3d_owner:
  assumes "gsw3d_ok w" "p \<noteq> 0" "fst (gsw3d_begin w)"
  shows "context_owner (vga3d (GSW3D_transport_process_cleanup e p w))
    = (\<lambda>x. if context_owner (vga3d w) x = Some p then None else context_owner (vga3d w) x)"
proof
  fix x
  let ?w1 = "snd (gsw3d_begin w)"
  let ?v = "fold (gsw3d_cleanup_slot e p) [0..<128] ?w1"
  note f = cleanup_fold [OF begin_inside [OF assms(1,3)] order_refl, of e p]
  have v: "vga3d (GSW3D_transport_process_cleanup e p w) = vga3d ?v"
    using assms(2,3) by (simp add: GSW3D_transport_process_cleanup_def Let_def split_beta
        GSW3D_CONTEXT_CAPACITY_def gsw3d_end_def)
  have t: "context_table_ok (gsw3d_contexts (vga3d w))" "context_table_ok (gsw3d_contexts (vga3d ?v))"
    using assms(1) f by (simp_all add: gsw3d_ok_def gsw3d_inside_def gsw3d_state_ok_def)
  have cs: "gsw3d_contexts (vga3d ?v) ! i = (if cx_id (gsw3d_contexts (vga3d w) ! i) \<noteq> 0 \<and>
      cx_owner_pid (gsw3d_contexts (vga3d w) ! i) = p then context_zero else gsw3d_contexts (vga3d w) ! i)"
    if "i < 128" for i using f that by simp
  have "context_owner (vga3d ?v) x = Some q \<longleftrightarrow> context_owner (vga3d w) x = Some q \<and> q \<noteq> p" for q
    unfolding context_owner_iff [OF t(1)] context_owner_iff [OF t(2)]
    by (auto simp: cs context_zero_def split: if_splits)
  then show "context_owner (vga3d (GSW3D_transport_process_cleanup e p w)) x
      = (if context_owner (vga3d w) x = Some p then None else context_owner (vga3d w) x)"
    unfolding v by (metis not_Some_eq option.inject)
qed

section \<open>Bring-up and shut-down keep the invariant\<close>

lemma page_free_frame [simp, gsw_frame]:
  "vga (gsw3d_page_free e a w) = vga w" "vga3d (gsw3d_page_free e a w) = vga3d w"
  "lock2d (gsw3d_page_free e a w) = lock2d w" "lock3d (gsw3d_page_free e a w) = lock3d w"
  by (simp_all add: gsw3d_page_free_def)

lemma release_device_frame [simp, gsw_frame]:
  "vga (gsw3d_release_device e w) = vga w"
  "gsw3d_semaphore (vga3d (gsw3d_release_device e w)) = gsw3d_semaphore (vga3d w)"
  "lock2d (gsw3d_release_device e w) = lock2d w" "lock3d (gsw3d_release_device e w) = lock3d w"
  by (simp_all add: gsw3d_release_device_def Let_def)

lemma shutdown3d_state [simp]:
  "vga (GSW3D_transport_shutdown e w) = vga w" "lock2d (GSW3D_transport_shutdown e w) = lock2d w"
  "vga3d (GSW3D_transport_shutdown e w) =
     gsw3d_transport_static\<lparr>gsw3d_semaphore := gsw3d_semaphore (vga3d w)\<rparr>"
  by (simp_all add: GSW3D_transport_shutdown_def Let_def)

lemma shutdown3d_lock:
  "gsw3d_semaphore (vga3d w) \<noteq> 0 \<longrightarrow> lock_free (lock3d w) \<Longrightarrow>
   lock3d (GSW3D_transport_shutdown e w) = lock3d w"
  by (simp add: GSW3D_transport_shutdown_def Let_def lock_free_def wait_lock_def signal_lock_def)

lemma static3d_ok:
  "gsw3d_state_ok (gsw3d_transport_static\<lparr>gsw3d_semaphore := s\<rparr>)"
  "gsw3d_pages_ok (gsw3d_transport_static\<lparr>gsw3d_semaphore := s\<rparr>)"
  by (simp_all add: gsw3d_state_ok_def gsw3d_pages_ok_def gsw3d_transport_static_def
      context_table_ok_def context_zero_def)

lemma shutdown3d_ok [gsw_inv]:
  "gsw3d_semaphore (vga3d w) \<noteq> 0 \<longrightarrow> lock_free (lock3d w) \<Longrightarrow> gsw3d_ok (GSW3D_transport_shutdown e w)"
  by (simp add: gsw3d_ok_def shutdown3d_lock static3d_ok)

text \<open>Between the allocation of the pages and the first command.\<close>

definition gsw3d_prepared :: "'d gsw_world \<Rightarrow> bool" where
  "gsw3d_prepared w \<longleftrightarrow> gsw3d_state_ok (vga3d w) \<and> gsw3d_ring (vga3d w) \<noteq> 0 \<and>
     gsw3d_staging (vga3d w) \<noteq> 0 \<and> gsw3d_semaphore (vga3d w) \<noteq> 0 \<and>
     gsw3d_ring_physical (vga3d w) AND 0xFFF = 0 \<and> lock_free (lock3d w)"

lemma supported_frame [simp, gsw_frame]:
  "vga (snd (gsw3d_supported e w)) = vga w" "vga3d (snd (gsw3d_supported e w)) = vga3d w"
  "lock2d (snd (gsw3d_supported e w)) = lock2d w" "lock3d (snd (gsw3d_supported e w)) = lock3d w"
  by (simp_all add: gsw3d_supported_def Let_def split_beta step_and_def)

lemma need_semaphore_ok:
  assumes "gsw3d_ok w" "\<not> gsw3d_ready (vga3d w)"
  shows "gsw3d_ok (snd (gsw3d_need_semaphore e w))"
    "\<not> gsw3d_ready (vga3d (snd (gsw3d_need_semaphore e w)))"
    "fst (gsw3d_need_semaphore e w) = (gsw3d_semaphore (vga3d (snd (gsw3d_need_semaphore e w))) \<noteq> 0)"
    "vga (snd (gsw3d_need_semaphore e w)) = vga w" "lock2d (snd (gsw3d_need_semaphore e w)) = lock2d w"
  using assms by (simp_all add: gsw3d_need_semaphore_def Let_def split_beta gsw3d_ok_def
      gsw3d_state_ok_def gsw3d_pages_ok_def lock_free_def)

lemma allocate_ring_ok:
  assumes "gsw3d_ok w" "\<not> gsw3d_ready (vga3d w)" "gsw3d_semaphore (vga3d w) \<noteq> 0"
    and r_def: "r = gsw3d_allocate_ring e w"
  shows "if fst r then gsw3d_state_ok (vga3d (snd r)) \<and> gsw3d_ring (vga3d (snd r)) \<noteq> 0 \<and>
      gsw3d_staging (vga3d (snd r)) = 0 \<and> gsw3d_ring_physical (vga3d (snd r)) AND 0xFFF = 0 \<and>
      lock_free (lock3d (snd r)) \<and> gsw3d_semaphore (vga3d (snd r)) \<noteq> 0 \<and> \<not> gsw3d_ready (vga3d (snd r))
    else gsw3d_ok (snd r)"
    "vga (snd r) = vga w" "lock2d (snd r) = lock2d w" "\<not> gsw3d_ready (vga3d (snd r))"
  using assms(1-3)
  by (simp_all add: r_def gsw3d_allocate_ring_def Let_def split_beta gsw3d_ok_def
      gsw3d_state_ok_def gsw3d_pages_ok_def GSW3D_RING_BYTES_def)

lemma allocate_staging_ok:
  assumes "gsw3d_state_ok (vga3d w)" "gsw3d_ring (vga3d w) \<noteq> 0" "gsw3d_staging (vga3d w) = 0"
    "gsw3d_ring_physical (vga3d w) AND 0xFFF = 0" "lock_free (lock3d w)"
    "gsw3d_semaphore (vga3d w) \<noteq> 0" "\<not> gsw3d_ready (vga3d w)"
    and r_def: "r = gsw3d_allocate_staging e w"
  shows "if fst r then gsw3d_prepared (snd r) else gsw3d_ok (snd r)"
    "vga (snd r) = vga w" "lock2d (snd r) = lock2d w" "\<not> gsw3d_ready (vga3d (snd r))"
  using assms(1-7)
  by (simp_all add: r_def gsw3d_allocate_staging_def Let_def split_beta gsw3d_ok_def gsw3d_prepared_def
      gsw3d_state_ok_def gsw3d_pages_ok_def)

lemma prepare_ok:
  assumes "gsw3d_ok w" "\<not> gsw3d_ready (vga3d w)"
    and r_def: "r = step_and (gsw3d_supported e) (step_and (gsw3d_need_semaphore e)
               (step_and (gsw3d_allocate_ring e) (gsw3d_allocate_staging e))) w"
  shows "if fst r then gsw3d_prepared (snd r) else gsw3d_ok (snd r)"
    "vga (snd r) = vga w" "lock2d (snd r) = lock2d w" "\<not> gsw3d_ready (vga3d (snd r))"
proof -
  define w1 where "w1 = snd (gsw3d_supported e w)"
  define w2 where "w2 = snd (gsw3d_need_semaphore e w1)"
  define w3 where "w3 = snd (gsw3d_allocate_ring e w2)"
  have k1: "gsw3d_ok w1" "\<not> gsw3d_ready (vga3d w1)" using assms(1,2) by (simp_all add: w1_def gsw3d_ok_def)
  note k2 = need_semaphore_ok [OF k1, of e, folded w2_def]
  note k3 = allocate_ring_ok [OF k2(1,2) _ refl, of e, folded w3_def]
  note k4 = allocate_staging_ok [OF _ _ _ _ _ _ _ refl, of w3 e]
  have f: "vga w1 = vga w" "lock2d w1 = lock2d w" by (simp_all add: w1_def)
  show "if fst r then gsw3d_prepared (snd r) else gsw3d_ok (snd r)"
    using k1 k2 k3 k4
    by (auto simp: r_def step_and_def w1_def [symmetric] w2_def [symmetric] w3_def [symmetric])
  show "vga (snd r) = vga w" "lock2d (snd r) = lock2d w" "\<not> gsw3d_ready (vga3d (snd r))"
    using k1 k2 k3 k4 f
    by (auto simp: r_def step_and_def w1_def [symmetric] w2_def [symmetric] w3_def [symmetric])
qed

lemma program_ring_ok:
  "gsw3d_prepared w \<Longrightarrow> gsw3d_prepared (snd (gsw3d_program_ring e w))"
  by (simp add: gsw3d_program_ring_def Let_def split_beta gsw3d_prepared_def gsw3d_state_ok_def
      context_table_ok_def context_zero_def GSW3D_CONTEXT_CAPACITY_def)

lemma program_ring_frame [simp, gsw_frame]:
  "vga (snd (gsw3d_program_ring e w)) = vga w" "lock2d (snd (gsw3d_program_ring e w)) = lock2d w"
  by (simp_all add: gsw3d_program_ring_def Let_def split_beta)

lemma register_staging_ok:
  "gsw3d_prepared w \<Longrightarrow> gsw3d_prepared (snd (gsw3d_register_staging e w)) \<and>
     gsw3d_ready (vga3d (snd (gsw3d_register_staging e w)))"
  using submit3d_state_ok [of "w\<lparr>vga3d := (vga3d w)\<lparr>gsw3d_ready := True\<rparr>\<rparr>" e]
  by (auto simp add: gsw3d_register_staging_def Let_def split_beta gsw3d_prepared_def gsw3d_state_ok_def)

lemma register_staging_frame [simp, gsw_frame]:
  "vga (snd (gsw3d_register_staging e w)) = vga w" "lock2d (snd (gsw3d_register_staging e w)) = lock2d w"
  by (simp_all add: gsw3d_register_staging_def Let_def split_beta)

lemma prepared_ready_ok: "gsw3d_prepared w \<Longrightarrow> gsw3d_ready (vga3d w) \<Longrightarrow> gsw3d_ok w"
  by (simp add: gsw3d_prepared_def gsw3d_ok_def gsw3d_pages_ok_def)

lemma start3d_ok:
  assumes "gsw3d_prepared w"
    and r_def: "r = step_and (gsw3d_program_ring e) (gsw3d_register_staging e) w"
  shows "gsw3d_prepared (snd r)" "fst r \<longrightarrow> gsw3d_ready (vga3d (snd r))"
    "vga (snd r) = vga w" "lock2d (snd r) = lock2d w"
  using program_ring_ok [OF assms(1), of e] register_staging_ok [OF program_ring_ok [OF assms(1)], of e e]
  by (simp_all add: r_def step_and_def)

lemma init3d_ok [gsw_inv]:
  assumes "gsw3d_ok w"
  shows "gsw3d_ok (snd (GSW3D_transport_init e w))"
    "vga (snd (GSW3D_transport_init e w)) = vga w" "lock2d (snd (GSW3D_transport_init e w)) = lock2d w"
    "fst (GSW3D_transport_init e w) = gsw3d_ready (vga3d (snd (GSW3D_transport_init e w)))"
proof -
  let ?p = "step_and (gsw3d_supported e) (step_and (gsw3d_need_semaphore e)
               (step_and (gsw3d_allocate_ring e) (gsw3d_allocate_staging e))) w"
  let ?s = "step_and (gsw3d_program_ring e) (gsw3d_register_staging e) (snd ?p)"
  note p = prepare_ok [OF assms _ refl, of e] and s = start3d_ok [OF _ refl, of "snd ?p" e]
  have i: "GSW3D_transport_init e w = (if gsw3d_ready (vga3d w) then (True, w) else
      if \<not> fst ?p then (False, snd ?p)
      else if \<not> fst ?s then (False, GSW3D_transport_shutdown e (snd ?s)) else (True, snd ?s))"
    by (simp only: GSW3D_transport_init_def Let_def split_beta)
  have sd: "gsw3d_ok (GSW3D_transport_shutdown e (snd ?s))" if "gsw3d_prepared (snd ?s)"
    using that by (intro shutdown3d_ok) (simp add: gsw3d_prepared_def)
  show "gsw3d_ok (snd (GSW3D_transport_init e w))"
    unfolding i using assms p(1) s(1,2) sd prepared_ready_ok [of "snd ?s"] by (simp split: if_splits)
  show "vga (snd (GSW3D_transport_init e w)) = vga w" "lock2d (snd (GSW3D_transport_init e w)) = lock2d w"
    unfolding i using p(1,2,3) s(3,4) by (simp_all split: if_splits)
  show "fst (GSW3D_transport_init e w) = gsw3d_ready (vga3d (snd (GSW3D_transport_init e w)))"
    unfolding i using p(1,4) s(2) by (simp split: if_splits) (simp add: gsw3d_transport_static_def)
qed

section \<open>Properties\<close>

text \<open>
  A device for the examples: a register file whose doorbell moves the ring's head to its
  tail, as a device that executes every command at once.
\<close>

definition obedient_env :: "(u32 \<Rightarrow> u32) gsw_env" where
  "obedient_env = \<lparr>mmio_read = (\<lambda>r b. (outside b r, b)),
     mmio_write = (\<lambda>r v b. b\<lparr>outside := (if r = GSW3D_REG_DOORBELL
        then (outside b)(GSW3D_REG_RING_HEAD := outside b GSW3D_REG_RING_TAIL)
        else (outside b)(r := v))\<rparr>),
     PCI_FindDevice = (\<lambda>_ _ b. (None, b)), PCI_ConfigRead32 = (\<lambda>_ _ b. (0, b)),
     PCI_ConfigRead16 = (\<lambda>_ _ b. (0, b)), PCI_ConfigWrite16 = (\<lambda>_ _ _ b. b),
     PCI_GetBARAddr = (\<lambda>_ _ b. (0, b)), PCI_CONF_BAR_NOT_MEMORY32 = 5,
     MapPhysToLinear = (\<lambda>_ _ b. (0, b)), PageAllocate = (\<lambda>_ b. ((0, 0), b)),
     PageFree = (\<lambda>_ b. b), CreateSemaphore = (\<lambda>b. (1, b))\<rparr>"

definition ready3d_world :: "(u32 \<Rightarrow> u32) gsw_world" where
  "ready3d_world = \<lparr>vga = gsw_transport_static\<lparr>gsw_registers := 0x1000, gsw_is_ready := True\<rparr>,
     vga3d = gsw3d_transport_static\<lparr>gsw3d_ring := 0x2000, gsw3d_staging := 0x3000,
       gsw3d_semaphore := 1, gsw3d_ready := True\<rparr>,
     lock2d = \<lparr>tokens = 1, stuck = False\<rparr>, lock3d = \<lparr>tokens = 1, stuck = False\<rparr>, markers = [],
     bus = \<lparr>ring2d = (\<lambda>_. 0), ring3d = (\<lambda>_. 0), staging = (\<lambda>_. 0),
       outside = (\<lambda>r. if r = GSW3D_REG_STATUS then 1 else 0)\<rparr>\<rparr>"

lemma ready3d_world_ok: "gsw3d_ok ready3d_world"
  by (simp add: ready3d_world_def gsw3d_ok_def gsw3d_state_ok_def gsw3d_pages_ok_def lock_free_def
      gsw3d_transport_static_def context_table_ok_def context_zero_def)

lemmas obedient_eval = obedient_env_def ready3d_world_def gsw_transport_static_def
  gsw3d_transport_static_def gsw3d_begin_def wait_lock_def GSW_transport_ready_def
  gsw3d_submit_locked_def gsw3d_idle_def gsw3d_taken_def gsw3d_post_def gsw3d_stamp_def
  gsw3d_finish_def gsw3d_result_snapshot_def transport_register_is_def step_and_def step_if_def
  GSW_transport_register_read_def GSW_transport_register_write_def gsw_register_read_def
  gsw_register_write_def on_bus_def new_command_def command_size_def GSW_VGA_CONTROL_BYTES_def
  GSW3D_REG_STATUS_def GSW3D_REG_RING_HEAD_def GSW3D_REG_RING_TAIL_def GSW3D_REG_DOORBELL_def
  GSW3D_STATUS_READY_def GSW3D_STATUS_ERROR_def GSW3D_RING_BYTES_def Let_def split_beta

text \<open>
  C18. The context table is a map from context identifiers to owning processes, and every
  request is exactly its abstract counterpart: a creation that succeeds adds an absent
  identifier, a destruction that succeeds removes an identifier its caller owns, and a request
  that reports failure changes no ownership. The semaphore is free again afterwards.
\<close>

theorem gsw3d_context_refines:
  assumes "gsw3d_ok w"
  shows "case GSW3D_transport_context e create x p w of (success, result, w') \<Rightarrow>
    gsw3d_ok w' \<and>
    (if success then context_request create x p (context_owner (vga3d w)) = Some (context_owner (vga3d w'))
     else context_owner (vga3d w') = context_owner (vga3d w))"
  using context_step [OF assms refl, of e create x p] by (simp add: split_beta)

lemma example_submit3d:
  assumes "vga w = vga ready3d_world" "vga3d w = vga3d ready3d_world"
    "outside (bus w) = outside (bus ready3d_world)" "length (body c) = n" "n = 2 \<or> n = 6"
  shows "fst (gsw3d_submit_locked obedient_env c w) = Some (1, 0)"
proof -
  from assms(5) have "\<not> 16 + 4 * of_nat n < (16::u32)" "\<not> (0x1000::u32) \<le> 16 + 4 * of_nat n"
      "(16 + 4 * of_nat n) AND (3::u32) = 0" "(16 + 4 * of_nat n) AND (0xFFF::u32) = 16 + 4 * of_nat n"
    by (elim disjE; simp)+
  with assms(1-4) show ?thesis
    by (simp add: obedient_eval)
qed

lemma example_slot: "gsw3d_context_slot True 5 77 (vga3d ready3d_world) = Some 0"
proof -
  have "(128::nat) = Suc 127" by simp
  then have "replicate 128 context_zero = context_zero # replicate 127 context_zero"
    by (metis replicate_Suc)
  then show ?thesis
    by (simp add: gsw3d_context_slot_def gsw3d_context_find_def gsw3d_context_free_def scan_None
        ready3d_world_def gsw3d_transport_static_def context_zero_def)
qed

lemma example_begin: "fst (gsw3d_begin ready3d_world)"
  by (simp add: begin_entered ready3d_world_def GSW_transport_ready_def)

lemma example_context: "fst (GSW3D_transport_context obedient_env True 5 77 ready3d_world)"
  using example_begin example_slot
    example_submit3d [of "snd (gsw3d_begin ready3d_world)"
      "new_command GSW3D_OPCODE_CREATE_CONTEXT (GSW3DIdCommand 5)" 2]
  by (simp add: GSW3D_transport_context_def Let_def split_beta new_command_def GSW3DIdCommand_def)

theorem gsw3d_context_refines_witness:
  "\<exists>result w'. GSW3D_transport_context obedient_env True 5 77 ready3d_world = (True, result, w') \<and>
     gsw3d_ok w' \<and>
     context_request True 5 77 (context_owner (vga3d ready3d_world)) = Some (context_owner (vga3d w'))"
proof -
  obtain result w' where e:
      "GSW3D_transport_context obedient_env True 5 77 ready3d_world = (True, result, w')"
    using example_context by (metis fst_conv prod.exhaust)
  with gsw3d_context_refines [OF ready3d_world_ok, where e = obedient_env and create = True and x = 5 and p = 77] show ?thesis by simp
qed

text \<open>
  When a process ends, its contexts and only its contexts leave the table, and the
  semaphore is free again.
\<close>

theorem gsw3d_cleanup_exact:
  assumes "gsw3d_ok w" "p \<noteq> 0" "gsw3d_ready (vga3d w)" "GSW_transport_ready w"
  shows "gsw3d_ok (GSW3D_transport_process_cleanup e p w) \<and>
    context_owner (vga3d (GSW3D_transport_process_cleanup e p w))
      = (\<lambda>x. if context_owner (vga3d w) x = Some p then None else context_owner (vga3d w) x)"
proof -
  have "fst (gsw3d_begin w)"
    using assms by (simp add: begin_entered gsw3d_ok_def gsw3d_state_ok_def)
  then show ?thesis using assms(1,2) by (simp add: cleanup3d_ok cleanup3d_owner)
qed

theorem gsw3d_cleanup_exact_witness:
  "gsw3d_ok (GSW3D_transport_process_cleanup obedient_env 77 ready3d_world) \<and>
   context_owner (vga3d (GSW3D_transport_process_cleanup obedient_env 77 ready3d_world)) 5 = None"
proof -
  have r: "gsw3d_ready (vga3d ready3d_world)" "GSW_transport_ready ready3d_world"
    by (simp_all add: ready3d_world_def GSW_transport_ready_def)
  have "context_owner (vga3d ready3d_world) 5 = None"
    by (simp add: ready3d_world_def context_owner_def gsw3d_context_find_def scan_None
        gsw3d_transport_static_def context_zero_def)
  then show ?thesis
    using gsw3d_cleanup_exact [OF ready3d_world_ok _ r, where p = 77 and e = obedient_env] by simp
qed

text \<open>
  When the doorbell is rung, the ring holds the whole command: from the old tail on, across
  the end of the ring if need be, its bytes with the version, its length and the current fence
  in the header, and no byte beyond the ring has been written. The tail published before is the
  old tail advanced by the length.
\<close>

theorem gsw3d_doorbell_sees_command:
  assumes "gsw_registers (vga w) \<noteq> 0" "gsw3d_ring_tail (vga3d w) < 0x1000" "length (body c) < 1020"
  defines "tail' \<equiv> (gsw3d_ring_tail (vga3d w) + command_size c) AND (GSW3D_RING_BYTES - 1)"
  shows "\<exists>b. bus (gsw3d_post e (gsw3d_stamp (vga3d w) c) tail' w) =
      mmio_write e GSW3D_REG_DOORBELL 1 (mmio_write e GSW3D_REG_RING_TAIL tail' b) \<and>
    ring_unread (ring3d b) 0x1000 (gsw3d_ring_tail (vga3d w)) (16 + 4 * length (body c)) =
      command_bytes \<lparr>header = \<lparr>opcode = opcode (header c), version = 1,
        cmd_length = of_nat (16 + 4 * length (body c)), fence_low = gsw3d_fence_low (vga3d w),
        fence_high = gsw3d_fence_high (vga3d w)\<rparr>, body = body c\<rparr> \<and>
    (\<forall>x. x \<ge> 0x1000 \<longrightarrow> ring3d b x = ring3d (bus w) x)"
proof -
  define s where "s = gsw3d_stamp (vga3d w) c"
  define b where "b = (bus w)\<lparr>ring3d := gsw3d_ring_copy (gsw3d_ring_tail (vga3d w)) (command_bytes s)
      (command_size s) (ring3d (bus w))\<rparr>"
  have len: "unat (command_size s) = length (command_bytes s)" "body s = body c"
    using assms(3) by (simp_all add: s_def gsw3d_stamp_def command_size_bytes)
  have fit: "unat (gsw3d_ring_tail (vga3d w)) < unat GSW3D_RING_BYTES"
    "unat (command_size s) \<le> unat GSW3D_RING_BYTES" "unat (command_size s) \<le> length (command_bytes s)"
    using assms(2,3) len by (simp_all add: GSW3D_RING_BYTES_def word_less_nat_alt)
  have "bus (gsw3d_post e s tail' w) =
      mmio_write e GSW3D_REG_DOORBELL 1 (mmio_write e GSW3D_REG_RING_TAIL tail' b)"
    using assms(1) by (simp add: gsw3d_post_def GSW_transport_register_write_def gsw_register_write_def
        b_def Let_def GSW3D_REG_DOORBELL_def GSW3D_REG_RING_TAIL_def GSW_VGA_CONTROL_BYTES_def)
  moreover have "ring_unread (ring3d b) 0x1000 (gsw3d_ring_tail (vga3d w)) (16 + 4 * length (body c))
      = command_bytes s"
    using ring3d.copy_read_back [OF fit, of "ring3d (bus w)"] len
    by (simp add: b_def GSW3D_RING_BYTES_def)
  moreover have "ring3d b x = ring3d (bus w) x" if "x \<ge> 0x1000" for x
    using ring3d.copy_beyond [OF fit, of x "ring3d (bus w)"] that
    by (simp add: b_def GSW3D_RING_BYTES_def)
  moreover have "s = \<lparr>header = \<lparr>opcode = opcode (header c), version = 1,
        cmd_length = of_nat (16 + 4 * length (body c)), fence_low = gsw3d_fence_low (vga3d w),
        fence_high = gsw3d_fence_high (vga3d w)\<rparr>, body = body c\<rparr>"
    by (simp add: s_def gsw3d_stamp_def GSW3D_COMMAND_VERSION_def command_size_def)
  ultimately show ?thesis unfolding s_def by auto
qed

theorem gsw3d_doorbell_sees_command_witness:
  "\<exists>b. bus (gsw3d_post obedient_env
        (gsw3d_stamp (vga3d ready3d_world) (new_command 4 [5, 0])) 24 ready3d_world) =
      mmio_write obedient_env GSW3D_REG_DOORBELL 1
        (mmio_write obedient_env GSW3D_REG_RING_TAIL 24 b) \<and>
    ring_unread (ring3d b) 0x1000 0 24 =
      [4, 0, 1, 0, 24, 0, 0, 0, 1, 0, 0, 0, 0, 0, 0, 0, 5, 0, 0, 0, 0, 0, 0, 0]"
proof -
  let ?c = "new_command 4 [5, 0]"
  have h: "gsw_registers (vga ready3d_world) \<noteq> 0" "gsw3d_ring_tail (vga3d ready3d_world) < 0x1000"
      "length (body ?c) < 1020" "gsw3d_ring_tail (vga3d ready3d_world) = 0"
      "gsw3d_fence_low (vga3d ready3d_world) = 1" "gsw3d_fence_high (vga3d ready3d_world) = 0"
      "(gsw3d_ring_tail (vga3d ready3d_world) + command_size ?c) AND (GSW3D_RING_BYTES - 1) = 24"
    by (simp_all add: ready3d_world_def gsw3d_transport_static_def gsw_transport_static_def
        new_command_def command_size_def GSW3D_RING_BYTES_def)
  show ?thesis
    using gsw3d_doorbell_sees_command [OF h(1-3), where e = obedient_env]
    unfolding h(7) by (auto simp: h(4-6) new_command_def command_bytes_def header_bytes_def le16_def
        le32_def drop_bit_eq_div)
qed

text \<open>
  A command the device took carries the current fence, and the next fence is its successor as
  a 64-bit number; after the largest number it continues with one, so that zero, which a poll
  refuses, is never a fence.
\<close>

theorem gsw3d_fence_successor:
  assumes "gsw3d_submit_locked e c w = (Some (low, high), w')"
  shows "low = gsw3d_fence_low (vga3d w) \<and> high = gsw3d_fence_high (vga3d w) \<and>
    unat (gsw3d_fence_high (vga3d w')) * 2 ^ 32 + unat (gsw3d_fence_low (vga3d w'))
      = (if unat high * 2 ^ 32 + unat low = 2 ^ 64 - 1 then 1 else unat high * 2 ^ 32 + unat low + 1)"
proof -
  from assms(1) have f: "low = gsw3d_fence_low (vga3d w)" "high = gsw3d_fence_high (vga3d w)"
    "\<exists>t. vga3d w' = gsw3d_advance_fence ((vga3d w)\<lparr>gsw3d_ring_tail := t\<rparr>)"
    by (auto simp: gsw3d_submit_locked_def Let_def split_beta split: if_splits)
  then obtain t where t: "vga3d w' = gsw3d_advance_fence ((vga3d w)\<lparr>gsw3d_ring_tail := t\<rparr>)" by blast
  show ?thesis
    using fence3d.advance_value [of "(vga3d w)\<lparr>gsw3d_ring_tail := t\<rparr>"] f(1,2)
    by (simp add: t)
qed

theorem gsw3d_fence_successor_witness:
  "\<exists>w'. gsw3d_submit_locked obedient_env (new_command 3 [5, 0]) ready3d_world = (Some (1, 0), w') \<and>
     gsw3d_fence_low (vga3d w') = 2"
proof -
  have "fst (gsw3d_submit_locked obedient_env (new_command 3 [5, 0]) ready3d_world) = Some (1, 0)"
    by (rule example_submit3d [where n = 2]) (simp_all add: new_command_def)
  then obtain w' where s:
      "gsw3d_submit_locked obedient_env (new_command 3 [5, 0]) ready3d_world = (Some (1, 0), w')"
    by (metis fst_conv prod.exhaust)
  have "unat (gsw3d_fence_high (vga3d w')) * 2 ^ 32 + unat (gsw3d_fence_low (vga3d w')) = 2"
    using gsw3d_fence_successor [OF s] by simp
  then have "unat (gsw3d_fence_low (vga3d w')) = 2"
    by (cases "unat (gsw3d_fence_high (vga3d w'))") simp_all
  then have "gsw3d_fence_low (vga3d w') = 2" by (simp add: word_unat_eq_iff)
  with s show ?thesis by blast
qed

text \<open>
  A batch for context zero is not refused while a context slot is free: the search finds the
  free slot's zero, so a batch reaches the device although no context exists at all. Creation and
  presentation refuse the identifier.
\<close>

theorem gsw3d_null_context_batch_accepted:
  "fst (GSW3D_transport_submit obedient_env 0 [1, 2, 3, 4] 4 ready3d_world) \<and>
   context_owner (vga3d ready3d_world) = (\<lambda>_. None)"
proof
  have "(128::nat) = Suc 127" by simp
  then have "replicate 128 context_zero = context_zero # replicate 127 context_zero"
    by (metis replicate_Suc)
  then have f: "gsw3d_context_find 0 (vga3d ready3d_world) = Some 0"
    by (simp add: gsw3d_context_find_def ready3d_world_def gsw3d_transport_static_def context_zero_def)
  show "fst (GSW3D_transport_submit obedient_env 0 [1, 2, 3, 4] 4 ready3d_world)"
    using example_begin f
      example_submit3d [of "gsw3d_stage [1, 2, 3, 4] 4 (snd (gsw3d_begin ready3d_world))"
        "new_command GSW3D_OPCODE_SUBMIT
          (GSW3DSubmitCommand 0 GSW3D_STAGING_REGION_ID 4 GSW3D_PACKET_SVGA9)" 6]
    by (simp add: GSW3D_transport_submit_def Let_def split_beta new_command_def GSW3DSubmitCommand_def
        GSW3D_MAX_BATCH_BYTES_def GSW3D_STAGING_BYTES_def gsw3d_stage_def)
  show "context_owner (vga3d ready3d_world) = (\<lambda>_. None)"
    by (intro ext) (simp add: context_owner_def gsw3d_context_find_def scan_None ready3d_world_def
        gsw3d_transport_static_def context_zero_def)
qed

end
