(* ===== verification/Vga_Geometry.thy ===== *)
theory Vga_Geometry
  imports Gsw_Prelude
begin

text \<open>
  The arithmetic of the 2D transport (\<^verbatim>\<open>overlay/gsw_transport.c\<close>): pixel formats and
  the checks that keep surfaces, scan-out areas and blits inside the framebuffer. The checks
  run on 32-bit values that a caller chooses freely; the lemmas show that they decide, without
  wrap-around, the inequalities over the natural numbers that they stand for. The
  framebuffer size \<open>gsw_framebuffer_size\<close> is the argument \<open>fb\<close>.
\<close>

section \<open>Pixel formats\<close>

definition GSW_PIXEL_FORMAT_INDEXED_8 :: u32 where "GSW_PIXEL_FORMAT_INDEXED_8 = 1"
definition GSW_PIXEL_FORMAT_RGB_555 :: u32 where "GSW_PIXEL_FORMAT_RGB_555 = 2"
definition GSW_PIXEL_FORMAT_RGB_565 :: u32 where "GSW_PIXEL_FORMAT_RGB_565 = 3"
definition GSW_PIXEL_FORMAT_RGB_888 :: u32 where "GSW_PIXEL_FORMAT_RGB_888 = 4"
definition GSW_PIXEL_FORMAT_XRGB_8888 :: u32 where "GSW_PIXEL_FORMAT_XRGB_8888 = 5"
definition GSW_VGA_MAX_WIDTH :: u32 where "GSW_VGA_MAX_WIDTH = 2560"
definition GSW_VGA_MAX_HEIGHT :: u32 where "GSW_VGA_MAX_HEIGHT = 1600"
definition GSW_VGA_MAX_SOFTWARE_PIXELS :: u32 where "GSW_VGA_MAX_SOFTWARE_PIXELS = 4096 * 2160"

definition gsw_bytes_per_pixel :: "u32 \<Rightarrow> u32" where
  "gsw_bytes_per_pixel bpp =
     (if bpp = 8 then 1 else if bpp = 15 \<or> bpp = 16 then 2 else if bpp = 24 then 3
      else if bpp = 32 then 4 else 0)"

definition gsw_pixel_format :: "u32 \<Rightarrow> u32" where
  "gsw_pixel_format bpp =
     (if bpp = 8 then GSW_PIXEL_FORMAT_INDEXED_8 else if bpp = 15 then GSW_PIXEL_FORMAT_RGB_555
      else if bpp = 16 then GSW_PIXEL_FORMAT_RGB_565 else if bpp = 24 then GSW_PIXEL_FORMAT_RGB_888
      else if bpp = 32 then GSW_PIXEL_FORMAT_XRGB_8888 else 0)"

definition gsw_format_bytes :: "u32 \<Rightarrow> u32" where
  "gsw_format_bytes format =
     (if format = GSW_PIXEL_FORMAT_INDEXED_8 then 1 else if format = GSW_PIXEL_FORMAT_RGB_565 then 2
      else if format = GSW_PIXEL_FORMAT_RGB_888 then 3
      else if format = GSW_PIXEL_FORMAT_XRGB_8888 then 4 else 0)"

definition gsw_format_mask :: "u32 \<Rightarrow> u32" where
  "gsw_format_mask format =
     (if format = GSW_PIXEL_FORMAT_INDEXED_8 then 0x000000FF
      else if format = GSW_PIXEL_FORMAT_RGB_565 then 0x0000FFFF
      else if format = GSW_PIXEL_FORMAT_RGB_888 then 0x00FFFFFF
      else if format = GSW_PIXEL_FORMAT_XRGB_8888 then 0xFFFFFFFF else 0)"

section \<open>Areas of the framebuffer\<close>

definition gsw_surface_valid :: "u32 \<Rightarrow> u32 \<Rightarrow> u32 \<Rightarrow> u32 \<Rightarrow> u32 \<Rightarrow> u32 \<Rightarrow> bool" where
  "gsw_surface_valid fb offset pitch width height bpp =
     (let bytes = gsw_bytes_per_pixel bpp in
      if bytes = 0 \<or> width = 0 \<or> height = 0 \<or> pitch = 0 then False
      else if offset mod bytes \<noteq> 0 \<or> pitch mod bytes \<noteq> 0 then False
      else if width > 0xFFFFFFFF div bytes then False
      else
        (let row_bytes = width * bytes in
         if row_bytes > pitch \<or> offset > fb then False
         else
           (let remaining = fb - offset in
            if row_bytes > remaining then False
            else if height - 1 > (remaining - row_bytes) div pitch then False
            else True)))"

definition gsw_scanout_valid :: "u32 \<Rightarrow> u32 \<Rightarrow> u32 \<Rightarrow> u32 \<Rightarrow> u32 \<Rightarrow> u32 \<Rightarrow> bool" where
  "gsw_scanout_valid fb offset pitch width height bpp =
     (if width > GSW_VGA_MAX_WIDTH \<or> height > GSW_VGA_MAX_HEIGHT \<or>
         \<not> gsw_surface_valid fb offset pitch width height bpp then False
      else
        (let bytes = gsw_bytes_per_pixel bpp;
             row_bytes = width * bytes;
             row_offset = offset mod pitch
         in row_bytes \<le> pitch - row_offset \<and> pitch div bytes \<le> 0xFFFF \<and> offset div pitch \<le> 0xFFFF))"

definition gsw_gdi_rect_valid ::
    "u32 \<Rightarrow> u32 \<Rightarrow> u32 \<Rightarrow> u32 \<Rightarrow> u32 \<Rightarrow> u32 \<Rightarrow> u32 \<Rightarrow> u32 \<Rightarrow> bool" where
  "gsw_gdi_rect_valid fb offset pitch x y width height bytes =
     (if bytes = 0 \<or> width = 0 \<or> height = 0 \<or> pitch = 0 \<or>
         x > 0xFFFFFFFF div bytes \<or> width > 0xFFFFFFFF div bytes then False
      else
        (let x_bytes = x * bytes; row_bytes = width * bytes in
         if x_bytes > pitch \<or> row_bytes > pitch - x_bytes \<or> offset > fb then False
         else
           (let remaining = fb - offset in
            if y > remaining div pitch then False
            else
              (let remaining = remaining - y * pitch in
               if x_bytes > remaining then False
               else
                 (let remaining = remaining - x_bytes in
                  if row_bytes > remaining then False
                  else height - 1 \<le> (remaining - row_bytes) div pitch)))))"

section \<open>Raster operations\<close>

definition gsw_gdi_source_dependent :: "u8 \<Rightarrow> bool" where
  "gsw_gdi_source_dependent rop \<longleftrightarrow> (rop XOR drop_bit 2 rop) AND 0x33 \<noteq> 0"

definition gsw_gdi_pattern_dependent :: "u8 \<Rightarrow> bool" where
  "gsw_gdi_pattern_dependent rop \<longleftrightarrow> (rop XOR drop_bit 4 rop) AND 0x0F \<noteq> 0"

section \<open>Lemmas\<close>

lemma bytes_per_pixel_bound: "unat (gsw_bytes_per_pixel bpp) \<le> 4"
  by (simp add: gsw_bytes_per_pixel_def)

lemma mod_zero_iff_dvd:
  fixes x y :: u32
  shows "x mod y = 0 \<longleftrightarrow> unat y dvd unat x"
  by (metis mod_eq_0_iff_dvd unat_mod unsigned_0 word_unat_eq_iff)

lemma height_check:
  fixes h r p :: u32
  assumes "h \<noteq> 0" "p \<noteq> 0"
  shows "h - 1 \<le> r div p \<longleftrightarrow> (unat h - 1) * unat p \<le> unat r"
proof -
  have "unat (h - 1) = unat h - 1" using assms(1) by (metis unat_minus_one)
  moreover have "0 < unat p" using assms(2) by (simp add: unat_gt_0)
  ultimately show ?thesis
    by (simp add: word_le_nat_alt unat_div less_eq_div_iff_mult_less_eq)
qed

text \<open>The last byte an area touches lies at the start of its last row plus one row's bytes.\<close>

definition area_fits :: "u32 \<Rightarrow> u32 \<Rightarrow> u32 \<Rightarrow> nat \<Rightarrow> u32 \<Rightarrow> bool" where
  "area_fits fb offset pitch row_bytes height \<longleftrightarrow>
     unat offset + (unat height - 1) * unat pitch + row_bytes \<le> unat fb"

lemma area_check:
  fixes fb offset pitch row height :: u32
  assumes "height \<noteq> 0" "pitch \<noteq> 0" "offset \<le> fb" "row \<le> fb - offset"
  shows "height - 1 \<le> (fb - offset - row) div pitch \<longleftrightarrow> area_fits fb offset pitch (unat row) height"
proof -
  have r: "unat row \<le> unat fb - unat offset" "unat offset \<le> unat fb"
    using assms(3,4) by (simp_all add: word_le_nat_alt unat_sub_no_underflow)
  have "unat (fb - offset - row) = unat fb - unat offset - unat row"
    using assms(3,4) by (simp add: unat_sub_no_underflow)
  then show ?thesis
    using r unfolding height_check [OF assms(1,2)] area_fits_def by linarith
qed

lemma area_outside:
  assumes "\<not> (offset \<le> fb \<and> row \<le> fb - offset)"
  shows "\<not> area_fits fb offset pitch (unat row) height"
proof (cases "offset \<le> fb")
  case True
  with assms have "unat fb - unat offset < unat row"
    by (simp add: word_le_nat_alt unat_sub_no_underflow)
  then show ?thesis unfolding area_fits_def by linarith
next
  case False
  then show ?thesis unfolding area_fits_def word_le_nat_alt by linarith
qed

lemma surface_valid_iff:
  "gsw_surface_valid fb offset pitch width height bpp \<longleftrightarrow>
   (let bytes = unat (gsw_bytes_per_pixel bpp) in
    bytes \<noteq> 0 \<and> 0 < width \<and> 0 < height \<and> 0 < pitch \<and> bytes dvd unat offset \<and> bytes dvd unat pitch \<and>
    unat width * bytes \<le> unat pitch \<and> area_fits fb offset pitch (unat width * bytes) height)"
proof (cases "gsw_bytes_per_pixel bpp = 0 \<or> width = 0 \<or> height = 0 \<or> pitch = 0")
  case False
  define b where "b = gsw_bytes_per_pixel bpp"
  have nz: "b \<noteq> 0" "width \<noteq> 0" "height \<noteq> 0" "pitch \<noteq> 0" using False by (simp_all add: b_def)
  have pos: "0 < width" "0 < height" "0 < pitch" "unat b \<noteq> 0"
    using nz by (simp_all add: word_gt_0 unat_eq_0)
  show ?thesis
  proof (cases "unat width * unat b < 2 ^ 32")
    case True
    then have row: "unat (width * b) = unat width * unat b" by (rule unat_mult_no_overflow)
    have w: "width \<le> 0xFFFFFFFF div b" using True no_mult_wrap_iff [OF nz(1), of width] by simp
    have p: "unat width * unat b \<le> unat pitch \<longleftrightarrow> width * b \<le> pitch"
      by (simp add: word_le_nat_alt row)
    have "gsw_surface_valid fb offset pitch width height bpp \<longleftrightarrow>
        unat b dvd unat offset \<and> unat b dvd unat pitch \<and> width * b \<le> pitch \<and>
        (offset \<le> fb \<and> width * b \<le> fb - offset) \<and> height - 1 \<le> (fb - offset - width * b) div pitch"
      using nz w by (auto simp add: gsw_surface_valid_def Let_def b_def [symmetric] mod_zero_iff_dvd
          linorder_not_less)
    then show ?thesis
      using area_check [OF nz(3,4), of offset fb "width * b"] pos
        area_outside [of offset fb "width * b" pitch height]
      by (simp only: Let_def b_def [symmetric] row p) blast
  next
    case wide: False
    then have "\<not> width \<le> 0xFFFFFFFF div b" using no_mult_wrap_iff [OF nz(1), of width] by simp
    moreover have "\<not> unat width * unat b \<le> unat pitch"
      using wide unat_bound32 [of pitch] by linarith
    ultimately show ?thesis by (simp add: gsw_surface_valid_def Let_def b_def [symmetric] linorder_not_le)
  qed
qed (auto simp: gsw_surface_valid_def Let_def unat_eq_0)

text \<open>The same with a start column and row inside the area, each step without wrap-around.\<close>

lemma gdi_rect_steps:
  fixes fb offset pitch y xb row height :: u32
  assumes nz: "height \<noteq> 0" "pitch \<noteq> 0" and off: "offset \<le> fb" "y \<le> (fb - offset) div pitch"
  shows "(xb \<le> fb - offset - y * pitch \<and> row \<le> fb - offset - y * pitch - xb \<and>
      height - 1 \<le> (fb - offset - y * pitch - xb - row) div pitch) \<longleftrightarrow>
    unat offset + (unat y + (unat height - 1)) * unat pitch + (unat xb + unat row) \<le> unat fb"
proof -
  have O: "unat (fb - offset) = unat fb - unat offset" "unat offset \<le> unat fb"
    using off(1) by (simp_all add: unat_sub_no_underflow word_le_nat_alt)
  have "0 < unat pitch" using nz(2) by (simp add: unat_gt_0)
  then have Y: "unat y * unat pitch \<le> unat fb - unat offset"
    using off(2) O by (simp add: word_le_nat_alt unat_div less_eq_div_iff_mult_less_eq)
  then have yp: "unat (y * pitch) = unat y * unat pitch"
    using unat_bound32 [of fb] by (intro unat_mult_no_overflow) linarith
  have r1: "unat (fb - offset - y * pitch) = unat fb - unat offset - unat y * unat pitch"
    using Y O yp by (simp add: unat_sub_no_underflow word_le_nat_alt)
  have d: "(unat y + (unat height - 1)) * unat pitch
      = unat y * unat pitch + (unat height - 1) * unat pitch" by (simp add: add_mult_distrib)
  show ?thesis
  proof (cases "xb \<le> fb - offset - y * pitch")
    case X: True
    then have r2: "unat (fb - offset - y * pitch - xb)
        = unat fb - unat offset - unat y * unat pitch - unat xb"
      and x: "unat xb \<le> unat fb - unat offset - unat y * unat pitch"
      using r1 by (simp_all add: unat_sub_no_underflow word_le_nat_alt)
    show ?thesis
    proof (cases "row \<le> fb - offset - y * pitch - xb")
      case True
      then have r3: "unat (fb - offset - y * pitch - xb - row)
          = unat fb - unat offset - unat y * unat pitch - unat xb - unat row"
        and "unat row \<le> unat fb - unat offset - unat y * unat pitch - unat xb"
        using r2 by (simp_all add: unat_sub_no_underflow word_le_nat_alt)
      with X True x O Y show ?thesis
        unfolding height_check [OF nz] r3 d by linarith
    next
      case False
      then have "unat fb - unat offset - unat y * unat pitch - unat xb < unat row"
        using r2 by (simp add: word_le_nat_alt)
      with False show ?thesis unfolding d by linarith
    qed
  next
    case False
    then have "unat fb - unat offset - unat y * unat pitch < unat xb"
      using r1 by (simp add: word_le_nat_alt)
    with False show ?thesis unfolding d by linarith
  qed
qed

lemma gdi_rect_outside:
  fixes fb offset pitch y :: u32
  assumes nz: "pitch \<noteq> 0" and out: "\<not> (offset \<le> fb \<and> y \<le> (fb - offset) div pitch)"
  shows "\<not> unat offset + (unat y + n) * unat pitch + m \<le> unat fb"
proof (cases "offset \<le> fb")
  case True
  have "0 < unat pitch" using nz by (simp add: unat_gt_0)
  with True out have "\<not> unat y * unat pitch \<le> unat fb - unat offset"
    by (simp add: word_le_nat_alt unat_div less_eq_div_iff_mult_less_eq unat_sub_no_underflow)
  moreover have "unat y * unat pitch \<le> (unat y + n) * unat pitch" by simp
  ultimately show ?thesis by linarith
next
  case False
  then show ?thesis unfolding word_le_nat_alt by linarith
qed

lemma row_check:
  fixes x width bytes pitch :: u32
  assumes "bytes \<noteq> 0"
  shows "(x \<le> 0xFFFFFFFF div bytes \<and> width \<le> 0xFFFFFFFF div bytes \<and> x * bytes \<le> pitch \<and>
      width * bytes \<le> pitch - x * bytes) \<longleftrightarrow> (unat x + unat width) * unat bytes \<le> unat pitch"
    and "(unat x + unat width) * unat bytes \<le> unat pitch \<Longrightarrow>
      unat (x * bytes) + unat (width * bytes) = (unat x + unat width) * unat bytes"
proof -
  have m: "unat (a * bytes) = unat a * unat bytes" if "unat a * unat bytes < 2 ^ 32" for a
    using that by (rule unat_mult_no_overflow)
  note nw = no_mult_wrap_iff [OF assms]
  have d: "(unat x + unat width) * unat bytes = unat x * unat bytes + unat width * unat bytes"
    by (simp add: add_mult_distrib)
  show "(x \<le> 0xFFFFFFFF div bytes \<and> width \<le> 0xFFFFFFFF div bytes \<and> x * bytes \<le> pitch \<and>
      width * bytes \<le> pitch - x * bytes) \<longleftrightarrow> (unat x + unat width) * unat bytes \<le> unat pitch"
  proof (cases "unat x * unat bytes < 2 ^ 32 \<and> unat width * unat bytes < 2 ^ 32")
    case True
    then have "x \<le> 0xFFFFFFFF div bytes" "width \<le> 0xFFFFFFFF div bytes" by (simp_all add: nw)
    moreover have "(x * bytes \<le> pitch \<and> width * bytes \<le> pitch - x * bytes) \<longleftrightarrow>
        (unat x + unat width) * unat bytes \<le> unat pitch"
      using True by (cases "x * bytes \<le> pitch") (auto simp: d word_le_nat_alt m unat_sub_no_underflow)
    ultimately show ?thesis by blast
  next
    case False
    then have "\<not> unat x * unat bytes + unat width * unat bytes \<le> unat pitch"
      using unat_bound32 [of pitch] by linarith
    with False show ?thesis by (auto simp: nw d)
  qed
  show "unat (x * bytes) + unat (width * bytes) = (unat x + unat width) * unat bytes"
    if "(unat x + unat width) * unat bytes \<le> unat pitch"
  proof -
    from that d have "unat x * unat bytes < 2 ^ 32" "unat width * unat bytes < 2 ^ 32"
      using unat_bound32 [of pitch] by linarith+
    then show ?thesis by (simp add: m d)
  qed
qed

lemma gdi_rect_valid_iff:
  "gsw_gdi_rect_valid fb offset pitch x y width height bytes \<longleftrightarrow>
   bytes \<noteq> 0 \<and> 0 < width \<and> 0 < height \<and> 0 < pitch \<and>
   (unat x + unat width) * unat bytes \<le> unat pitch \<and>
   unat offset + (unat y + (unat height - 1)) * unat pitch + (unat x + unat width) * unat bytes \<le> unat fb"
proof (cases "bytes = 0 \<or> width = 0 \<or> height = 0 \<or> pitch = 0")
  case False
  then have nz: "bytes \<noteq> 0" "width \<noteq> 0" "height \<noteq> 0" "pitch \<noteq> 0" by simp_all
  have pos: "0 < width" "0 < height" "0 < pitch" using nz by (simp_all add: word_gt_0)
  have "gsw_gdi_rect_valid fb offset pitch x y width height bytes \<longleftrightarrow>
      (x \<le> 0xFFFFFFFF div bytes \<and> width \<le> 0xFFFFFFFF div bytes \<and> x * bytes \<le> pitch \<and>
       width * bytes \<le> pitch - x * bytes) \<and>
      (offset \<le> fb \<and> y \<le> (fb - offset) div pitch) \<and>
      (x * bytes \<le> fb - offset - y * pitch \<and> width * bytes \<le> fb - offset - y * pitch - x * bytes \<and>
       height - 1 \<le> (fb - offset - y * pitch - x * bytes - width * bytes) div pitch)"
    using nz by (auto simp add: gsw_gdi_rect_valid_def Let_def linorder_not_less)
  then show ?thesis
    using gdi_rect_steps [OF nz(3,4), of offset fb y "x * bytes" "width * bytes"]
      gdi_rect_outside [OF nz(4), of offset fb y] row_check(1) [OF nz(1), of x width pitch]
      row_check(2) [OF nz(1), of x width pitch] nz pos
    by metis
qed (auto simp: gsw_gdi_rect_valid_def)

text \<open>
  What a ternary raster operation computes: the bit of the operation at the index made of the
  pattern, source and destination bits.
\<close>

definition rop3_bit :: "u8 \<Rightarrow> bool \<Rightarrow> bool \<Rightarrow> bool \<Rightarrow> bool" where
  "rop3_bit rop p s d = bit rop (4 * of_bool p + 2 * of_bool s + of_bool d)"

lemma word_nonzero_bit: "(x :: 'a::len word) \<noteq> 0 \<longleftrightarrow> (\<exists>n. bit x n)"
  by (metis bit_0_eq bit_eq_iff bot_apply bot_bool_def)

lemma bit_0x33: "bit (0x33 :: u8) n \<longleftrightarrow> n \<in> {0, 1, 4, 5}"
proof -
  have "bit (0x33 :: u8) n \<longleftrightarrow> n < 8 \<and> bit (0x33 :: u8) n" by (auto dest: bit_imp_le_length)
  moreover have "n < 8 \<longleftrightarrow> n \<in> {0, 1, 2, 3, 4, 5, 6, 7}" by auto
  ultimately show ?thesis by (auto simp: bit_simps)
qed

lemma bit_0x0F: "bit (0x0F :: u8) n \<longleftrightarrow> n \<in> {0, 1, 2, 3}"
proof -
  have "bit (0x0F :: u8) n \<longleftrightarrow> n < 8 \<and> bit (0x0F :: u8) n" by (auto dest: bit_imp_le_length)
  moreover have "n < 8 \<longleftrightarrow> n \<in> {0, 1, 2, 3, 4, 5, 6, 7}" by auto
  ultimately show ?thesis by (auto simp: bit_simps)
qed

lemma source_dependent_bits:
  "gsw_gdi_source_dependent rop \<longleftrightarrow> (\<exists>n\<in>{0, 1, 4, 5}. bit rop n \<noteq> bit rop (2 + n))"
proof -
  have "gsw_gdi_source_dependent rop \<longleftrightarrow> (\<exists>n\<in>{0, 1, 4, 5}. bit (rop XOR drop_bit 2 rop) n)"
    unfolding gsw_gdi_source_dependent_def word_nonzero_bit bit_and_iff bit_0x33 by blast
  then show ?thesis unfolding bit_xor_iff bit_drop_bit_eq o_def .
qed

lemma pattern_dependent_bits:
  "gsw_gdi_pattern_dependent rop \<longleftrightarrow> (\<exists>n\<in>{0, 1, 2, 3}. bit rop n \<noteq> bit rop (4 + n))"
proof -
  have "gsw_gdi_pattern_dependent rop \<longleftrightarrow> (\<exists>n\<in>{0, 1, 2, 3}. bit (rop XOR drop_bit 4 rop) n)"
    unfolding gsw_gdi_pattern_dependent_def word_nonzero_bit bit_and_iff bit_0x0F by blast
  then show ?thesis unfolding bit_xor_iff bit_drop_bit_eq o_def .
qed

lemma scanout_valid_iff:
  "gsw_scanout_valid fb offset pitch width height bpp \<longleftrightarrow>
   width \<le> 2560 \<and> height \<le> 1600 \<and> gsw_surface_valid fb offset pitch width height bpp \<and>
   unat offset mod unat pitch + unat width * unat (gsw_bytes_per_pixel bpp) \<le> unat pitch \<and>
   unat pitch div unat (gsw_bytes_per_pixel bpp) \<le> 0xFFFF \<and> unat offset div unat pitch \<le> 0xFFFF"
proof (cases "gsw_surface_valid fb offset pitch width height bpp")
  case True
  define b where "b = gsw_bytes_per_pixel bpp"
  have s: "unat width * unat b \<le> unat pitch" "0 < pitch"
    using True by (simp_all add: surface_valid_iff Let_def b_def)
  have "unat (width * b) = unat width * unat b"
    using s(1) unat_bound32 [of pitch] by (intro unat_mult_no_overflow) linarith
  moreover have "unat offset mod unat pitch < unat pitch"
    using s(2) by (intro mod_less_divisor) (simp add: word_less_nat_alt)
  moreover from this have "unat (pitch - offset mod pitch) = unat pitch - unat offset mod unat pitch"
    by (simp add: unat_sub_no_underflow word_le_nat_alt unat_mod)
  ultimately have "width * b \<le> pitch - offset mod pitch \<longleftrightarrow>
      unat offset mod unat pitch + unat width * unat b \<le> unat pitch"
    by (auto simp: word_le_nat_alt)
  moreover have "pitch div b \<le> 0xFFFF \<longleftrightarrow> unat pitch div unat b \<le> 0xFFFF"
    "offset div pitch \<le> 0xFFFF \<longleftrightarrow> unat offset div unat pitch \<le> 0xFFFF"
    by (simp_all add: word_le_nat_alt unat_div)
  ultimately show ?thesis using True
    by (cases "width \<le> 2560 \<and> height \<le> 1600")
      (auto simp: gsw_scanout_valid_def GSW_VGA_MAX_WIDTH_def GSW_VGA_MAX_HEIGHT_def Let_def
        b_def [symmetric] linorder_not_less)
qed (simp add: gsw_scanout_valid_def)

section \<open>Properties\<close>

text \<open>
  The surface check accepts exactly the surfaces that lie inside the framebuffer: known
  depth, positive extent, aligned start and pitch, rows that fit the pitch, and a last row that
  ends within the framebuffer, all as natural numbers, so no choice of arguments passes by
  wrap-around.
\<close>

theorem vga_surface_check_exact:
  "gsw_surface_valid fb offset pitch width height bpp =
   (gsw_bytes_per_pixel bpp \<noteq> 0 \<and> width \<noteq> 0 \<and> height \<noteq> 0 \<and> pitch \<noteq> 0 \<and>
    unat (gsw_bytes_per_pixel bpp) dvd unat offset \<and> unat (gsw_bytes_per_pixel bpp) dvd unat pitch \<and>
    unat width * unat (gsw_bytes_per_pixel bpp) \<le> unat pitch \<and>
    unat offset + (unat height - 1) * unat pitch + unat width * unat (gsw_bytes_per_pixel bpp) \<le> unat fb)"
  unfolding surface_valid_iff Let_def area_fits_def by (auto simp: unat_eq_0 word_gt_0)

text \<open>
  The scan-out check accepts exactly the valid surfaces of at most 2560 by 1600 pixels whose
  lines do not run over the end of a pitch and whose pitch and start line fit the 16-bit
  registers of the mode.
\<close>

theorem vga_scanout_check_exact:
  "gsw_scanout_valid fb offset pitch width height bpp =
   (width \<le> 2560 \<and> height \<le> 1600 \<and> gsw_surface_valid fb offset pitch width height bpp \<and>
    unat offset mod unat pitch + unat width * unat (gsw_bytes_per_pixel bpp) \<le> unat pitch \<and>
    unat pitch div unat (gsw_bytes_per_pixel bpp) \<le> 0xFFFF \<and> unat offset div unat pitch \<le> 0xFFFF)"
  by (rule scanout_valid_iff)

text \<open>
  The blit check accepts exactly the rectangles whose pixels all lie inside their pitch and
  the framebuffer, whatever values the request carries.
\<close>

theorem vga_gdi_rect_check_exact:
  "gsw_gdi_rect_valid fb offset pitch x y width height bytes =
   (bytes \<noteq> 0 \<and> 0 < width \<and> 0 < height \<and> 0 < pitch \<and>
    (unat x + unat width) * unat bytes \<le> unat pitch \<and>
    unat offset + (unat y + (unat height - 1)) * unat pitch + (unat x + unat width) * unat bytes
      \<le> unat fb)"
  by (rule gdi_rect_valid_iff)

text \<open>
  The two dependency tests recognise exactly the raster operations whose result depends on
  the source, respectively the pattern, so a blit demands these operands when and only when
  its operation uses them.
\<close>

theorem vga_rop_dependency_exact:
  "gsw_gdi_source_dependent rop = (\<exists>p d. rop3_bit rop p True d \<noteq> rop3_bit rop p False d) \<and>
   gsw_gdi_pattern_dependent rop = (\<exists>s d. rop3_bit rop True s d \<noteq> rop3_bit rop False s d)"
  unfolding source_dependent_bits pattern_dependent_bits rop3_bit_def
  by (simp add: ex_bool_eq) blast

end
