(* ===== verification/Vga_Transport.thy ===== *)
theory Vga_Transport
  imports Gsw3d_Transport Vga_Geometry
begin

text \<open>
  The 2D transport of the display VxD (\<^verbatim>\<open>overlay/gsw_transport.c\<close>): discovery and
  binding of the PCI device, the command ring with its two submission paths, mode setting and
  framebuffer operations, the table of DirectDraw surfaces, and GDI blits. Its state is the
  part \<open>vga\<close> of the world of \<open>Vga_World\<close>; bringing the device up and down also starts and
  stops the 3D transport. Request pointers are the requests themselves and never null.
\<close>

section \<open>Constants\<close>

definition GSW_PCI_VENDOR_ID :: u16 where "GSW_PCI_VENDOR_ID = 0xFFFE"
definition GSW_PCI_DEVICE_ID :: u16 where "GSW_PCI_DEVICE_ID = 0x0002"
definition GSW_PCI_CAPABILITY_OFFSET :: u32 where "GSW_PCI_CAPABILITY_OFFSET = 0x40"
definition GSW_PCI_CAPABILITY_SIGNATURE :: u32 where "GSW_PCI_CAPABILITY_SIGNATURE = 0x56575347"
definition GSW_PCI_CAPABILITY_VERSION :: u32 where "GSW_PCI_CAPABILITY_VERSION = 2"
definition GSW_PCI_CAPABILITY_LENGTH :: u32 where "GSW_PCI_CAPABILITY_LENGTH = 0x14"
definition GSW_PCI_COMMAND_REQUIRED :: u16 where "GSW_PCI_COMMAND_REQUIRED = 0x0006"
definition GSW_VGA_RING_BYTES :: u32 where "GSW_VGA_RING_BYTES = 0x1000"
definition GSW_VGA_INTERFACE_VERSION :: u32 where "GSW_VGA_INTERFACE_VERSION = 2"
definition GSW_VGA_ID :: u32 where "GSW_VGA_ID = 0x56475347"
definition GSW_VGA_REG_ID :: u32 where "GSW_VGA_REG_ID = 0x00"
definition GSW_VGA_REG_VERSION :: u32 where "GSW_VGA_REG_VERSION = 0x04"
definition GSW_VGA_REG_CAPABILITIES :: u32 where "GSW_VGA_REG_CAPABILITIES = 0x08"
definition GSW_VGA_REG_STATUS :: u32 where "GSW_VGA_REG_STATUS = 0x0C"
definition GSW_VGA_REG_RING_GPA_LOW :: u32 where "GSW_VGA_REG_RING_GPA_LOW = 0x10"
definition GSW_VGA_REG_RING_GPA_HIGH :: u32 where "GSW_VGA_REG_RING_GPA_HIGH = 0x14"
definition GSW_VGA_REG_RING_SIZE :: u32 where "GSW_VGA_REG_RING_SIZE = 0x18"
definition GSW_VGA_REG_RING_HEAD :: u32 where "GSW_VGA_REG_RING_HEAD = 0x1C"
definition GSW_VGA_REG_RING_TAIL :: u32 where "GSW_VGA_REG_RING_TAIL = 0x20"
definition GSW_VGA_REG_DOORBELL :: u32 where "GSW_VGA_REG_DOORBELL = 0x24"
definition GSW_VGA_REG_IRQ_ENABLE :: u32 where "GSW_VGA_REG_IRQ_ENABLE = 0x28"
definition GSW_VGA_REG_FENCE_LOW :: u32 where "GSW_VGA_REG_FENCE_LOW = 0x30"
definition GSW_VGA_REG_FENCE_HIGH :: u32 where "GSW_VGA_REG_FENCE_HIGH = 0x34"
definition GSW_VGA_CAP_2D :: u32 where "GSW_VGA_CAP_2D = 1"
definition GSW_VGA_CAP_SURFACE_OFFSET :: u32 where "GSW_VGA_CAP_SURFACE_OFFSET = 4"
definition GSW_VGA_CAP_SURFACE_IDS :: u32 where "GSW_VGA_CAP_SURFACE_IDS = 0x10"
definition GSW_VGA_CAP_GDI_ROP3 :: u32 where "GSW_VGA_CAP_GDI_ROP3 = 0x20"
definition GSW_VGA_CAP_GDI_FAST_DOORBELL :: u32 where "GSW_VGA_CAP_GDI_FAST_DOORBELL = 0x40"
definition GSW_VGA_CAP_GDI_SYNC_COOKIE :: u32 where "GSW_VGA_CAP_GDI_SYNC_COOKIE = 0x80"
definition GSW_VGA_STATUS_READY :: u32 where "GSW_VGA_STATUS_READY = 1"
definition GSW_VGA_STATUS_ERROR :: u32 where "GSW_VGA_STATUS_ERROR = 2"
definition GSW_VGA_IRQ_2D :: u32 where "GSW_VGA_IRQ_2D = 1"
definition GSW_VGA_COMMAND_VERSION_2 :: u16 where "GSW_VGA_COMMAND_VERSION_2 = 2"
definition GSW_VGA_COMMAND_VERSION_3 :: u16 where "GSW_VGA_COMMAND_VERSION_3 = 3"
definition GSW_VGA_COMMAND_VERSION_4 :: u16 where "GSW_VGA_COMMAND_VERSION_4 = 4"
definition GSW_VGA_OPCODE_SET_MODE :: u16 where "GSW_VGA_OPCODE_SET_MODE = 1"
definition GSW_VGA_OPCODE_PRESENT :: u16 where "GSW_VGA_OPCODE_PRESENT = 2"
definition GSW_VGA_OPCODE_FILL :: u16 where "GSW_VGA_OPCODE_FILL = 3"
definition GSW_VGA_OPCODE_COPY :: u16 where "GSW_VGA_OPCODE_COPY = 4"
definition GSW_VGA_OPCODE_REGISTER_SURFACE :: u16 where "GSW_VGA_OPCODE_REGISTER_SURFACE = 7"
definition GSW_VGA_OPCODE_UNREGISTER_SURFACE :: u16 where "GSW_VGA_OPCODE_UNREGISTER_SURFACE = 8"
definition GSW_VGA_OPCODE_SURFACE_FILL :: u16 where "GSW_VGA_OPCODE_SURFACE_FILL = 9"
definition GSW_VGA_OPCODE_SURFACE_BLT :: u16 where "GSW_VGA_OPCODE_SURFACE_BLT = 10"
definition GSW_VGA_OPCODE_SURFACE_PRESENT :: u16 where "GSW_VGA_OPCODE_SURFACE_PRESENT = 11"
definition GSW_VGA_OPCODE_SURFACE_DIRTY :: u16 where "GSW_VGA_OPCODE_SURFACE_DIRTY = 12"
definition GSW_VGA_OPCODE_GDI_BLT :: u16 where "GSW_VGA_OPCODE_GDI_BLT = 13"
definition GSW_DD_SURFACE_PRESENTABLE :: u32 where "GSW_DD_SURFACE_PRESENTABLE = 1"
definition GSW_DD_BLT_SRC_COLOR_KEY :: u32 where "GSW_DD_BLT_SRC_COLOR_KEY = 1"
definition GSW_DD_BLT_DST_COLOR_KEY :: u32 where "GSW_DD_BLT_DST_COLOR_KEY = 2"
definition GSW_GDI_SOURCE_VALID :: u32 where "GSW_GDI_SOURCE_VALID = 1"
definition GSW_GDI_PATTERN_VALID :: u32 where "GSW_GDI_PATTERN_VALID = 2"
definition GSW_GDI_DOORBELL_TAIL_FLAG :: u32 where "GSW_GDI_DOORBELL_TAIL_FLAG = 0x80000000"
definition GSW_GDI_DOORBELL_COOKIE_FLAG :: u32 where "GSW_GDI_DOORBELL_COOKIE_FLAG = 0x40000000"
definition GSW_GDI_COMPLETION_COOKIE :: u32 where "GSW_GDI_COMPLETION_COOKIE = 0x4753574F"
definition GSW_GDI_PATTERN_PIXELS :: nat where "GSW_GDI_PATTERN_PIXELS = 64"
definition GSW_GDI_BLT_COMMAND_BYTES :: u32 where "GSW_GDI_BLT_COMMAND_BYTES = 324"
definition GSW_MARK_TRANSPORT_WAIT :: u8 where "GSW_MARK_TRANSPORT_WAIT = 0xD8"
definition GSW_MARK_TRANSPORT_ACQUIRED :: u8 where "GSW_MARK_TRANSPORT_ACQUIRED = 0xD9"

section \<open>Requests and commands\<close>

record GSWDDRegister =
  rg_cb :: u32
  rg_offset :: u32
  rg_byte_size :: u32
  rg_width :: u32
  rg_height :: u32
  rg_pitch :: u32
  rg_bpp :: u32
  rg_flags :: u32
  rg_surface_id :: u32

record GSWDDFill =
  fl_cb :: u32
  fl_surface_id :: u32
  fl_x :: u32
  fl_y :: u32
  fl_width :: u32
  fl_height :: u32
  fl_color :: u32

record GSWDDBlt =
  bl_cb :: u32
  bl_source_id :: u32
  bl_destination_id :: u32
  bl_source_x :: u32
  bl_source_y :: u32
  bl_source_width :: u32
  bl_source_height :: u32
  bl_destination_x :: u32
  bl_destination_y :: u32
  bl_destination_width :: u32
  bl_destination_height :: u32
  bl_flags :: u32
  bl_source_color_key :: u32
  bl_destination_color_key :: u32
  bl_pattern :: u32
  bl_rop3 :: u32

record GSWDDDirty =
  dt_cb :: u32
  dt_surface_id :: u32
  dt_x :: u32
  dt_y :: u32
  dt_width :: u32
  dt_height :: u32

record GSWGdiBltCommand =
  gd_source_offset :: u32
  gd_destination_offset :: u32
  gd_source_pitch :: u32
  gd_destination_pitch :: u32
  gd_source_x :: u32
  gd_source_y :: u32
  gd_destination_x :: u32
  gd_destination_y :: u32
  gd_width :: u32
  gd_height :: u32
  gd_format :: u32
  gd_flags :: u32
  gd_rop3 :: u32
  gd_pattern :: "u32 list"

text \<open>The command bodies, in the order of the structures' fields.\<close>

definition GSWSetModeCommand :: "u32 \<Rightarrow> u32 \<Rightarrow> u32 \<Rightarrow> u32 \<Rightarrow> u32 list" where
  "GSWSetModeCommand width height pitch format = [width, height, pitch, format]"

definition GSWPresentCommand :: "u32 \<Rightarrow> u32 \<Rightarrow> u32 \<Rightarrow> u32 \<Rightarrow> u32 \<Rightarrow> u32 list" where
  "GSWPresentCommand offset width height pitch format = [offset, width, height, pitch, format, 0]"

definition GSWFillCommand :: "u32 \<Rightarrow> u32 \<Rightarrow> u32 \<Rightarrow> u32 \<Rightarrow> u32 \<Rightarrow> u32 \<Rightarrow> u32 list" where
  "GSWFillCommand offset pitch width height color format = [offset, pitch, width, height, color, format]"

definition GSWCopyCommand :: "u32 \<Rightarrow> u32 \<Rightarrow> u32 \<Rightarrow> u32 \<Rightarrow> u32 \<Rightarrow> u32 \<Rightarrow> u32 \<Rightarrow> u32 list" where
  "GSWCopyCommand source destination source_pitch destination_pitch width height format =
     [source, destination, source_pitch, destination_pitch, width, height, format]"

definition GSWRegisterSurfaceCommand :: "u32 \<Rightarrow> GSWDDRegister \<Rightarrow> u32 list" where
  "GSWRegisterSurfaceCommand sid r =
     [sid, rg_offset r, rg_byte_size r, rg_width r, rg_height r, rg_pitch r,
      gsw_pixel_format (rg_bpp r), rg_flags r]"

definition GSWUnregisterSurfaceCommand :: "u32 \<Rightarrow> u32 list" where
  "GSWUnregisterSurfaceCommand sid = [sid]"

definition GSWSurfaceFillCommand :: "GSWDDFill \<Rightarrow> u32 list" where
  "GSWSurfaceFillCommand r =
     [fl_surface_id r, fl_x r, fl_y r, fl_width r, fl_height r, fl_color r]"

definition GSWSurfaceBltCommand :: "GSWDDBlt \<Rightarrow> u32 list" where
  "GSWSurfaceBltCommand r =
     [bl_source_id r, bl_destination_id r, bl_source_x r, bl_source_y r, bl_source_width r,
      bl_source_height r, bl_destination_x r, bl_destination_y r, bl_destination_width r,
      bl_destination_height r, bl_flags r, bl_source_color_key r, bl_destination_color_key r,
      bl_pattern r, bl_rop3 r]"

definition GSWSurfacePresentCommand :: "u32 \<Rightarrow> u32 list" where
  "GSWSurfacePresentCommand sid = [sid]"

definition GSWSurfaceDirtyCommand :: "GSWDDDirty \<Rightarrow> u32 list" where
  "GSWSurfaceDirtyCommand r = [dt_surface_id r, dt_x r, dt_y r, dt_width r, dt_height r]"

definition GSWGdiBlt_body :: "GSWGdiBltCommand \<Rightarrow> u32 list" where
  "GSWGdiBlt_body r =
     [gd_source_offset r, gd_destination_offset r, gd_source_pitch r, gd_destination_pitch r,
      gd_source_x r, gd_source_y r, gd_destination_x r, gd_destination_y r, gd_width r, gd_height r,
      gd_format r, gd_flags r, gd_rop3 r] @ take GSW_GDI_PATTERN_PIXELS (gd_pattern r)"

section \<open>Locking\<close>

definition gsw_begin :: "'d gsw_step" where
  "gsw_begin w =
     (if gsw_semaphore (vga w) = 0 then (False, w)
      else
        (let w = w\<lparr>lock2d := wait_lock (lock2d w)\<rparr>
         in if \<not> gsw_is_ready (vga w) then (False, w\<lparr>lock2d := signal_lock (lock2d w)\<rparr>)
            else (True, w)))"

definition gsw_end :: "'d gsw_world \<Rightarrow> 'd gsw_world" where
  "gsw_end w = w\<lparr>lock2d := signal_lock (lock2d w)\<rparr>"

section \<open>Submission\<close>

definition gsw_advance_fence :: "gsw_transport_state \<Rightarrow> gsw_transport_state" where
  "gsw_advance_fence g =
     (let g = g\<lparr>gsw_fence_low := gsw_fence_low g + 1\<rparr>
      in if gsw_fence_low g = 0
         then (let g = g\<lparr>gsw_fence_high := gsw_fence_high g + 1\<rparr>
               in if gsw_fence_high g = 0 then g\<lparr>gsw_fence_low := 1\<rparr> else g)
         else g)"

definition gsw_ring_copy :: "u32 \<Rightarrow> u8 list \<Rightarrow> u32 \<Rightarrow> (u32 \<Rightarrow> u8) \<Rightarrow> (u32 \<Rightarrow> u8)" where
  "gsw_ring_copy offset src len rm =
     (let first = GSW_VGA_RING_BYTES - offset;
          first = (if first > len then len else first);
          rm = mem_put offset (take (unat first) src) rm
      in if first < len then mem_put 0 (take (unat (len - first)) (drop (unat first) src)) rm else rm)"

definition gsw_recover_failed_submission :: "'d gsw_env \<Rightarrow> 'd gsw_world \<Rightarrow> 'd gsw_world" where
  "gsw_recover_failed_submission e w =
     (if gsw_registers (vga w) = 0 then w
      else
        (let (h, w) = gsw_register_read e GSW_VGA_REG_RING_HEAD w;
             head = h AND (GSW_VGA_RING_BYTES - 1);
             w = w\<lparr>vga := (vga w)\<lparr>gsw_ring_tail := head\<rparr>\<rparr>;
             w = gsw_register_write e GSW_VGA_REG_RING_TAIL head w;
             w = gsw_register_write e GSW_VGA_REG_STATUS GSW_VGA_STATUS_ERROR w
         in gsw_register_write e GSW_VGA_REG_IRQ_STATUS GSW_VGA_IRQ_2D w))"

definition gsw_command_version :: "u16 \<Rightarrow> u16" where
  "gsw_command_version op =
     (if op = GSW_VGA_OPCODE_GDI_BLT then GSW_VGA_COMMAND_VERSION_4
      else if op \<ge> GSW_VGA_OPCODE_REGISTER_SURFACE then GSW_VGA_COMMAND_VERSION_3
      else GSW_VGA_COMMAND_VERSION_2)"

definition gsw_stamp :: "gsw_transport_state \<Rightarrow> u16 \<Rightarrow> gsw_command \<Rightarrow> gsw_command" where
  "gsw_stamp g ver c = c\<lparr>header := (header c)\<lparr>version := ver, cmd_length := command_size c,
     fence_low := gsw_fence_low g, fence_high := gsw_fence_high g\<rparr>\<rparr>"

definition gsw_idle :: "'d gsw_env \<Rightarrow> 'd gsw_step" where
  "gsw_idle e w =
     (let (status, w) = gsw_register_read e GSW_VGA_REG_STATUS w;
          tail = gsw_ring_tail (vga w)
      in step_and (step_if (status AND GSW_VGA_STATUS_READY \<noteq> 0 \<and> status AND GSW_VGA_STATUS_ERROR = 0))
           (step_and (register_is e GSW_VGA_REG_RING_HEAD tail)
             (register_is e GSW_VGA_REG_RING_TAIL tail)) w)"

text \<open>The stamped command is stored at the tail; the barrier orders it before what follows.\<close>

definition gsw_store :: "gsw_command \<Rightarrow> 'd gsw_world \<Rightarrow> 'd gsw_world" where
  "gsw_store c w =
     w\<lparr>bus := (bus w)\<lparr>ring2d := gsw_ring_copy (gsw_ring_tail (vga w)) (command_bytes c)
         (command_size c) (ring2d (bus w))\<rparr>\<rparr>"

definition gsw_post :: "'d gsw_env \<Rightarrow> gsw_command \<Rightarrow> u32 \<Rightarrow> 'd gsw_world \<Rightarrow> 'd gsw_world" where
  "gsw_post e c new_tail w =
     gsw_register_write e GSW_VGA_REG_DOORBELL 1
       (gsw_register_write e GSW_VGA_REG_RING_TAIL new_tail (gsw_store c w))"

definition gsw_taken :: "'d gsw_env \<Rightarrow> u32 \<Rightarrow> 'd gsw_step" where
  "gsw_taken e new_tail w =
     (let (status, w) = gsw_register_read e GSW_VGA_REG_STATUS w;
          low = gsw_fence_low (vga w); high = gsw_fence_high (vga w)
      in step_and (step_if (status AND GSW_VGA_STATUS_ERROR = 0))
           (step_and (register_is e GSW_VGA_REG_RING_HEAD new_tail)
             (step_and (register_is e GSW_VGA_REG_RING_TAIL new_tail)
               (step_and (register_is e GSW_VGA_REG_FENCE_LOW low)
                 (register_is e GSW_VGA_REG_FENCE_HIGH high)))) w)"

definition gsw_commit :: "u32 \<Rightarrow> 'd gsw_world \<Rightarrow> 'd gsw_world" where
  "gsw_commit new_tail w = w\<lparr>vga := gsw_advance_fence ((vga w)\<lparr>gsw_ring_tail := new_tail\<rparr>)\<rparr>"

definition gsw_submit_locked :: "'d gsw_env \<Rightarrow> gsw_command \<Rightarrow> 'd gsw_step" where
  "gsw_submit_locked e c w =
     (let len = command_size c in
      if \<not> gsw_is_ready (vga w) \<or> len < 16 \<or> len \<ge> GSW_VGA_RING_BYTES \<or> len AND 3 \<noteq> 0 then (False, w)
      else
        (let (idle, w) = gsw_idle e w in
         if \<not> idle then (False, gsw_recover_failed_submission e w)
         else
           (let new_tail = (gsw_ring_tail (vga w) + len) AND (GSW_VGA_RING_BYTES - 1);
                stamped = gsw_stamp (vga w) (gsw_command_version (opcode (header c))) c;
                (taken, w) = gsw_taken e new_tail (gsw_post e stamped new_tail w)
            in if \<not> taken then (False, gsw_recover_failed_submission e w)
               else (True, gsw_commit new_tail
                            (gsw_register_write e GSW_VGA_REG_IRQ_STATUS GSW_VGA_IRQ_2D w)))))"

definition ring_dword :: "(u32 \<Rightarrow> u8) \<Rightarrow> u32 \<Rightarrow> u32" where
  "ring_dword rm offset = mem_dword rm offset"

definition gsw_submit_gdi_locked :: "'d gsw_env \<Rightarrow> gsw_command \<Rightarrow> 'd gsw_step" where
  "gsw_submit_gdi_locked e c w =
     (if \<not> gsw_is_ready (vga w) \<or> command_size c \<noteq> GSW_GDI_BLT_COMMAND_BYTES then (False, w)
      else
        (let command_offset = gsw_ring_tail (vga w);
             w = gsw_store (gsw_stamp (vga w) GSW_VGA_COMMAND_VERSION_4 c) w;
             new_tail = (command_offset + command_size c) AND (GSW_VGA_RING_BYTES - 1)
         in if gsw_capabilities (vga w) AND GSW_VGA_CAP_GDI_SYNC_COOKIE \<noteq> 0
            then
              (let w = gsw_register_write e GSW_VGA_REG_DOORBELL
                     (GSW_GDI_DOORBELL_TAIL_FLAG OR GSW_GDI_DOORBELL_COOKIE_FLAG OR new_tail) w
               in if ring_dword (ring2d (bus w)) command_offset \<noteq> GSW_GDI_COMPLETION_COOKIE
                  then (False, gsw_recover_failed_submission e w)
                  else (True, gsw_commit new_tail w))
            else
              (let w = gsw_register_write e GSW_VGA_REG_DOORBELL (GSW_GDI_DOORBELL_TAIL_FLAG OR new_tail) w;
                   (status, w) = gsw_register_read e GSW_VGA_REG_STATUS w
               in if status AND (GSW_VGA_STATUS_READY OR GSW_VGA_STATUS_ERROR) \<noteq> GSW_VGA_STATUS_READY
                  then (False, gsw_recover_failed_submission e w)
                  else (True, gsw_commit new_tail w))))"

definition gsw_submit :: "'d gsw_env \<Rightarrow> gsw_command \<Rightarrow> 'd gsw_step" where
  "gsw_submit e c w =
     (let (entered, w) = gsw_begin w in
      if \<not> entered then (False, w)
      else (let (success, w) = gsw_submit_locked e c w in (success, gsw_end w)))"

section \<open>Modes and framebuffer operations\<close>

definition GSW_transport_framebuffer :: "'d gsw_world \<Rightarrow> u32" where
  "GSW_transport_framebuffer w = (if GSW_transport_ready w then gsw_framebuffer_linear (vga w) else 0)"

definition GSW_transport_framebuffer_bytes :: "'d gsw_world \<Rightarrow> u32" where
  "GSW_transport_framebuffer_bytes w =
     (if GSW_transport_ready w then gsw_framebuffer_size (vga w) else 0)"

definition GSW_transport_mode_valid :: "u32 \<Rightarrow> u32 \<Rightarrow> u32 \<Rightarrow> u32 \<Rightarrow> 'd gsw_world \<Rightarrow> bool" where
  "GSW_transport_mode_valid width height pitch bpp w \<longleftrightarrow>
     GSW_transport_ready w \<and> gsw_scanout_valid (gsw_framebuffer_size (vga w)) 0 pitch width height bpp"

definition GSW_transport_set_mode :: "'d gsw_env \<Rightarrow> u32 \<Rightarrow> u32 \<Rightarrow> u32 \<Rightarrow> u32 \<Rightarrow> 'd gsw_step" where
  "GSW_transport_set_mode e width height pitch bpp w =
     (if \<not> GSW_transport_mode_valid width height pitch bpp w then (False, w)
      else gsw_submit e (new_command GSW_VGA_OPCODE_SET_MODE
             (GSWSetModeCommand width height pitch (gsw_pixel_format bpp))) w)"

definition GSW_transport_present ::
    "'d gsw_env \<Rightarrow> u32 \<Rightarrow> u32 \<Rightarrow> u32 \<Rightarrow> u32 \<Rightarrow> u32 \<Rightarrow> 'd gsw_step" where
  "GSW_transport_present e offset width height pitch bpp w =
     (if \<not> gsw_is_ready (vga w) \<or>
         \<not> gsw_scanout_valid (gsw_framebuffer_size (vga w)) offset pitch width height bpp then (False, w)
      else gsw_submit e (new_command GSW_VGA_OPCODE_PRESENT
             (GSWPresentCommand offset width height pitch (gsw_pixel_format bpp))) w)"

definition GSW_transport_fill ::
    "'d gsw_env \<Rightarrow> u32 \<Rightarrow> u32 \<Rightarrow> u32 \<Rightarrow> u32 \<Rightarrow> u32 \<Rightarrow> u32 \<Rightarrow> 'd gsw_step" where
  "GSW_transport_fill e offset pitch width height color bpp w =
     (if \<not> gsw_is_ready (vga w) \<or>
         \<not> gsw_surface_valid (gsw_framebuffer_size (vga w)) offset pitch width height bpp \<or>
         height > GSW_VGA_MAX_SOFTWARE_PIXELS div width then (False, w)
      else gsw_submit e (new_command GSW_VGA_OPCODE_FILL
             (GSWFillCommand offset pitch width height color (gsw_pixel_format bpp))) w)"

definition GSW_transport_copy ::
    "'d gsw_env \<Rightarrow> u32 \<Rightarrow> u32 \<Rightarrow> u32 \<Rightarrow> u32 \<Rightarrow> u32 \<Rightarrow> u32 \<Rightarrow> u32 \<Rightarrow> 'd gsw_step" where
  "GSW_transport_copy e source destination source_pitch destination_pitch width height bpp w =
     (if \<not> gsw_is_ready (vga w) \<or>
         \<not> gsw_surface_valid (gsw_framebuffer_size (vga w)) source source_pitch width height bpp \<or>
         \<not> gsw_surface_valid (gsw_framebuffer_size (vga w)) destination destination_pitch width height bpp \<or>
         height > GSW_VGA_MAX_SOFTWARE_PIXELS div width then (False, w)
      else gsw_submit e (new_command GSW_VGA_OPCODE_COPY
             (GSWCopyCommand source destination source_pitch destination_pitch width height
               (gsw_pixel_format bpp))) w)"

section \<open>Surfaces\<close>

text \<open>The index of the slot, for a null pointer \<open>None\<close>.\<close>

definition gsw_surface_find :: "u32 \<Rightarrow> gsw_transport_state \<Rightarrow> nat option" where
  "gsw_surface_find sid g =
     (if sid = 0 then None
      else (let slot = unat (sid AND 255)
            in if sf_id (gsw_surfaces g ! slot) = sid then Some slot else None))"

definition gsw_surface_rect_valid ::
    "GSWSurfaceRecord option \<Rightarrow> u32 \<Rightarrow> u32 \<Rightarrow> u32 \<Rightarrow> u32 \<Rightarrow> bool" where
  "gsw_surface_rect_valid surface x y width height =
     (case surface of
        None \<Rightarrow> False
      | Some s \<Rightarrow> \<not> (width = 0 \<or> height = 0 \<or> x > sf_width s \<or> width > sf_width s - x \<or>
                    y > sf_height s \<or> height > sf_height s - y))"

definition gsw_surface_record :: "u32 \<Rightarrow> gsw_transport_state \<Rightarrow> GSWSurfaceRecord option" where
  "gsw_surface_record sid g = map_option (\<lambda>slot. gsw_surfaces g ! slot) (gsw_surface_find sid g)"

definition gsw_set_surface :: "nat \<Rightarrow> GSWSurfaceRecord \<Rightarrow> 'd gsw_world \<Rightarrow> 'd gsw_world" where
  "gsw_set_surface slot s w =
     w\<lparr>vga := (vga w)\<lparr>gsw_surfaces := (gsw_surfaces (vga w))[slot := s]\<rparr>\<rparr>"

text \<open>
  The search for a free slot: \<open>n\<close> attempts are left. The result is the identifier, if an
  attempt found a free slot, and the next value of the counter.
\<close>

fun gsw_surface_allocate :: "nat \<Rightarrow> GSWSurfaceRecord list \<Rightarrow> u32 \<Rightarrow> u32 option \<times> u32" where
  "gsw_surface_allocate 0 surfaces next_id = (None, next_id)"
| "gsw_surface_allocate (Suc n) surfaces next_id =
     (let (sid, next_id) = (if next_id = 0 then (next_id + 1, next_id + 2) else (next_id, next_id + 1))
      in if sf_id (surfaces ! unat (sid AND 255)) = 0 then (Some sid, next_id)
         else gsw_surface_allocate n surfaces next_id)"

definition gsw_register_refused :: "gsw_transport_state \<Rightarrow> GSWDDRegister \<Rightarrow> bool" where
  "gsw_register_refused g r \<longleftrightarrow>
     gsw_capabilities g AND GSW_VGA_CAP_SURFACE_IDS = 0 \<or>
     \<not> gsw_surface_valid (gsw_framebuffer_size g) (rg_offset r) (rg_pitch r) (rg_width r)
         (rg_height r) (rg_bpp r) \<or>
     rg_byte_size r = 0 \<or> rg_offset r > gsw_framebuffer_size g \<or>
     rg_byte_size r > gsw_framebuffer_size g - rg_offset r \<or>
     rg_flags r AND NOT GSW_DD_SURFACE_PRESENTABLE \<noteq> 0"

definition gsw_surface_of :: "u32 \<Rightarrow> u32 \<Rightarrow> GSWDDRegister \<Rightarrow> GSWSurfaceRecord" where
  "gsw_surface_of sid owner_pid r =
     \<lparr>sf_id = sid, sf_owner_pid = owner_pid, sf_offset = rg_offset r, sf_byte_size = rg_byte_size r,
      sf_width = rg_width r, sf_height = rg_height r, sf_pitch = rg_pitch r, sf_bpp = rg_bpp r,
      sf_flags = rg_flags r\<rparr>"

text \<open>The identifier stored in the request on success; \<open>None\<close> for false.\<close>

definition GSW_transport_surface_register ::
    "'d gsw_env \<Rightarrow> GSWDDRegister \<Rightarrow> u32 \<Rightarrow> 'd gsw_world \<Rightarrow> u32 option \<times> 'd gsw_world" where
  "GSW_transport_surface_register e r owner_pid w =
     (if rg_cb r \<noteq> 36 \<or> owner_pid = 0 then (None, w)
      else
        (let (entered, w) = gsw_begin w in
         if \<not> entered then (None, w)
         else if gsw_register_refused (vga w) r then (None, gsw_end w)
         else
           (let (found, next_id) = gsw_surface_allocate 256 (gsw_surfaces (vga w)) (gsw_next_surface_id (vga w));
                w = w\<lparr>vga := (vga w)\<lparr>gsw_next_surface_id := next_id\<rparr>\<rparr>
            in case found of
                 None \<Rightarrow> (None, gsw_end w)
               | Some sid \<Rightarrow>
                   (let (success, w) = gsw_submit_locked e
                          (new_command GSW_VGA_OPCODE_REGISTER_SURFACE (GSWRegisterSurfaceCommand sid r)) w
                    in if \<not> success then (None, gsw_end w)
                       else (Some sid, gsw_end (gsw_set_surface (unat (sid AND 255))
                                                  (gsw_surface_of sid owner_pid r) w))))))"

definition gsw_cleanup_slot :: "'d gsw_env \<Rightarrow> u32 \<Rightarrow> nat \<Rightarrow> 'd gsw_world \<Rightarrow> 'd gsw_world" where
  "gsw_cleanup_slot e owner_pid index w =
     (let s = gsw_surfaces (vga w) ! index in
      if sf_id s = 0 \<or> sf_owner_pid s \<noteq> owner_pid then w
      else
        (let w = snd (gsw_submit_locked e
               (new_command GSW_VGA_OPCODE_UNREGISTER_SURFACE (GSWUnregisterSurfaceCommand (sf_id s))) w)
         in gsw_set_surface index surface_zero w))"

definition GSW_transport_process_cleanup :: "'d gsw_env \<Rightarrow> u32 \<Rightarrow> 'd gsw_world \<Rightarrow> 'd gsw_world" where
  "GSW_transport_process_cleanup e owner_pid w =
     (if owner_pid = 0 then w
      else
        (let (entered, w) = gsw_begin w in
         if \<not> entered then w
         else gsw_end (fold (gsw_cleanup_slot e owner_pid) [0..<256] w)))"

definition GSW_transport_surface_unregister :: "'d gsw_env \<Rightarrow> u32 \<Rightarrow> 'd gsw_step" where
  "GSW_transport_surface_unregister e sid w =
     (let (entered, w) = gsw_begin w in
      if \<not> entered then (False, w)
      else
        (case gsw_surface_find sid (vga w) of
           None \<Rightarrow> (False, gsw_end w)
         | Some slot \<Rightarrow>
             (let (success, w) = gsw_submit_locked e
                    (new_command GSW_VGA_OPCODE_UNREGISTER_SURFACE (GSWUnregisterSurfaceCommand sid)) w
              in if \<not> success then (False, gsw_end w)
                 else (True, gsw_end (gsw_set_surface slot surface_zero w)))))"

text \<open>The requests that only submit: enter, check, submit, leave.\<close>

definition gsw_checked_submit ::
    "'d gsw_env \<Rightarrow> (gsw_transport_state \<Rightarrow> bool) \<Rightarrow> gsw_command \<Rightarrow> 'd gsw_step" where
  "gsw_checked_submit e accepted c w =
     (let (entered, w) = gsw_begin w in
      if \<not> entered then (False, w)
      else if \<not> accepted (vga w) then (False, gsw_end w)
      else (let (success, w) = gsw_submit_locked e c w in (success, gsw_end w)))"

definition GSW_transport_surface_fill :: "'d gsw_env \<Rightarrow> GSWDDFill \<Rightarrow> 'd gsw_step" where
  "GSW_transport_surface_fill e r w =
     (if fl_cb r \<noteq> 28 then (False, w)
      else gsw_checked_submit e
             (\<lambda>g. gsw_surface_rect_valid (gsw_surface_record (fl_surface_id r) g)
                    (fl_x r) (fl_y r) (fl_width r) (fl_height r))
             (new_command GSW_VGA_OPCODE_SURFACE_FILL (GSWSurfaceFillCommand r)) w)"

definition gsw_blt_accepted :: "GSWDDBlt \<Rightarrow> gsw_transport_state \<Rightarrow> bool" where
  "gsw_blt_accepted r g =
     (case (gsw_surface_record (bl_source_id r) g, gsw_surface_record (bl_destination_id r) g) of
        (Some source, Some destination) \<Rightarrow>
          sf_bpp source = sf_bpp destination \<and>
          gsw_surface_rect_valid (Some source) (bl_source_x r) (bl_source_y r)
            (bl_source_width r) (bl_source_height r) \<and>
          gsw_surface_rect_valid (Some destination) (bl_destination_x r) (bl_destination_y r)
            (bl_destination_width r) (bl_destination_height r)
      | _ \<Rightarrow> False)"

definition GSW_transport_surface_blt :: "'d gsw_env \<Rightarrow> GSWDDBlt \<Rightarrow> 'd gsw_step" where
  "GSW_transport_surface_blt e r w =
     (if bl_cb r \<noteq> 64 \<or>
         bl_flags r AND NOT (GSW_DD_BLT_SRC_COLOR_KEY OR GSW_DD_BLT_DST_COLOR_KEY) \<noteq> 0 then (False, w)
      else gsw_checked_submit e (gsw_blt_accepted r)
             (new_command GSW_VGA_OPCODE_SURFACE_BLT (GSWSurfaceBltCommand r)) w)"

definition GSW_transport_surface_present :: "'d gsw_env \<Rightarrow> u32 \<Rightarrow> 'd gsw_step" where
  "GSW_transport_surface_present e sid w =
     gsw_checked_submit e
       (\<lambda>g. case gsw_surface_record sid g of
              None \<Rightarrow> False | Some s \<Rightarrow> sf_flags s AND GSW_DD_SURFACE_PRESENTABLE \<noteq> 0)
       (new_command GSW_VGA_OPCODE_SURFACE_PRESENT (GSWSurfacePresentCommand sid)) w"

definition GSW_transport_surface_dirty :: "'d gsw_env \<Rightarrow> GSWDDDirty \<Rightarrow> 'd gsw_step" where
  "GSW_transport_surface_dirty e r w =
     (if dt_cb r \<noteq> 24 then (False, w)
      else gsw_checked_submit e
             (\<lambda>g. gsw_surface_rect_valid (gsw_surface_record (dt_surface_id r) g)
                    (dt_x r) (dt_y r) (dt_width r) (dt_height r))
             (new_command GSW_VGA_OPCODE_SURFACE_DIRTY (GSWSurfaceDirtyCommand r)) w)"

section \<open>GDI blits\<close>

definition gsw_gdi_source_valid :: "u32 \<Rightarrow> GSWGdiBltCommand \<Rightarrow> bool" where
  "gsw_gdi_source_valid fb r =
     gsw_gdi_rect_valid fb (gd_source_offset r) (gd_source_pitch r) (gd_source_x r) (gd_source_y r)
       (gd_width r) (gd_height r) (gsw_format_bytes (gd_format r))"

definition gsw_gdi_refused :: "u32 \<Rightarrow> GSWGdiBltCommand \<Rightarrow> bool" where
  "gsw_gdi_refused fb r =
     (let bytes = gsw_format_bytes (gd_format r);
          mask = gsw_format_mask (gd_format r);
          rop = (ucast (gd_rop3 r) :: u8)
      in if bytes = 0 \<or> gd_flags r AND NOT (GSW_GDI_SOURCE_VALID OR GSW_GDI_PATTERN_VALID) \<noteq> 0 \<or>
            gd_rop3 r > 0xFF \<or> gd_width r = 0 \<or> gd_height r = 0 \<or>
            gd_height r > GSW_VGA_MAX_SOFTWARE_PIXELS div gd_width r \<or>
            \<not> gsw_gdi_rect_valid fb (gd_destination_offset r) (gd_destination_pitch r)
                (gd_destination_x r) (gd_destination_y r) (gd_width r) (gd_height r) bytes
         then True
         else if (if gsw_gdi_source_dependent rop
                  then gd_flags r AND GSW_GDI_SOURCE_VALID = 0 \<or> \<not> gsw_gdi_source_valid fb r
                  else gd_flags r AND GSW_GDI_SOURCE_VALID \<noteq> 0 \<and> \<not> gsw_gdi_source_valid fb r)
         then True
         else if gsw_gdi_pattern_dependent rop \<and> gd_flags r AND GSW_GDI_PATTERN_VALID = 0 then True
         else gd_flags r AND GSW_GDI_PATTERN_VALID \<noteq> 0 \<and>
              (\<exists>p\<in>set (take GSW_GDI_PATTERN_PIXELS (gd_pattern r)). p AND NOT mask \<noteq> 0))"

definition GSW_transport_gdi_blt :: "'d gsw_env \<Rightarrow> GSWGdiBltCommand \<Rightarrow> u32 \<Rightarrow> 'd gsw_step" where
  "GSW_transport_gdi_blt e r byte_count w =
     (if byte_count \<noteq> GSW_GDI_BLT_COMMAND_BYTES \<or> gsw_capabilities (vga w) AND GSW_VGA_CAP_GDI_ROP3 = 0 \<or>
         gsw_gdi_refused (gsw_framebuffer_size (vga w)) r then (False, w)
      else
        (let c = new_command GSW_VGA_OPCODE_GDI_BLT (GSWGdiBlt_body r) in
         if gsw_capabilities (vga w) AND GSW_VGA_CAP_GDI_FAST_DOORBELL = 0 then gsw_submit e c w
         else
           (let (entered, w) = gsw_begin w in
            if \<not> entered then (False, w)
            else (let (success, w) = gsw_submit_gdi_locked e c w in (success, gsw_end w)))))"

section \<open>Binding to the PCI device\<close>

definition gsw_pci_identity_current :: "'d gsw_env \<Rightarrow> 'd gsw_step" where
  "gsw_pci_identity_current e w =
     (if \<not> gsw_pci_address_valid (vga w) then (False, w)
      else
        (let (identity, w) = on_bus (PCI_ConfigRead32 e (gsw_pci_address (vga w)) 0) w
         in (identity = push_bit 16 (ucast GSW_PCI_DEVICE_ID) OR ucast GSW_PCI_VENDOR_ID, w)))"

definition pci_config_is :: "'d gsw_env \<Rightarrow> u32 \<Rightarrow> u32 \<Rightarrow> 'd gsw_step" where
  "pci_config_is e offset val w =
     (let (v, w) = on_bus (PCI_ConfigRead32 e (gsw_pci_address (vga w)) offset) w in (v = val, w))"

definition gsw_pci_bars_current :: "'d gsw_env \<Rightarrow> 'd gsw_step" where
  "gsw_pci_bars_current e w =
     step_and (gsw_pci_identity_current e)
       (step_and (pci_config_is e 0x10 (gsw_bound_bar0_raw (vga w)))
         (pci_config_is e 0x14 (gsw_bound_bar1_raw (vga w)))) w"

definition gsw_pci_mmio_current :: "'d gsw_env \<Rightarrow> 'd gsw_step" where
  "gsw_pci_mmio_current e w =
     step_and (gsw_pci_bars_current e)
       (\<lambda>w. let (command, w) = on_bus (PCI_ConfigRead16 e (gsw_pci_address (vga w)) 4) w
            in (command AND 0x0002 \<noteq> 0, w)) w"

definition gsw_quiesce_device :: "'d gsw_env \<Rightarrow> 'd gsw_world \<Rightarrow> 'd gsw_world" where
  "gsw_quiesce_device e w =
     (let w = gsw_register_write e GSW_VGA_REG_IRQ_ENABLE 0 w;
          w = gsw_register_write e GSW_VGA_REG_RING_HEAD 0 w;
          w = gsw_register_write e GSW_VGA_REG_RING_TAIL 0 w;
          w = gsw_register_write e GSW_VGA_REG_RING_GPA_LOW 0 w;
          w = gsw_register_write e GSW_VGA_REG_RING_GPA_HIGH 0 w
      in gsw_register_write e GSW_VGA_REG_RING_SIZE 0 w)"

definition gsw_restore_command :: "'d gsw_env \<Rightarrow> 'd gsw_world \<Rightarrow> 'd gsw_world" where
  "gsw_restore_command e w =
     (let (current, w) = gsw_pci_identity_current e w;
          added = gsw_pci_command_added (vga w)
      in if current \<and> added \<noteq> 0
         then
           (let (command, w) = on_bus (PCI_ConfigRead16 e (gsw_pci_address (vga w)) 4) w
            in if command AND added \<noteq> 0
               then w\<lparr>bus := PCI_ConfigWrite16 e (gsw_pci_address (vga w)) 4 (command AND NOT added) (bus w)\<rparr>
               else w)
         else w)"

definition gsw_transport_shutdown_locked :: "'d gsw_env \<Rightarrow> 'd gsw_world \<Rightarrow> 'd gsw_world" where
  "gsw_transport_shutdown_locked e w =
     (let (resources_current, w) = gsw_pci_mmio_current e w;
          registers = gsw_registers (vga w);
          w = (if \<not> resources_current then w\<lparr>vga := (vga w)\<lparr>gsw_registers := 0\<rparr>\<rparr> else w);
          w = GSW3D_transport_shutdown e w;
          w = w\<lparr>vga := (vga w)\<lparr>gsw_is_ready := False\<rparr>\<rparr>;
          w = (if resources_current \<and> registers \<noteq> 0 then gsw_quiesce_device e w else w);
          w = (if gsw_ring (vga w) \<noteq> 0 then w\<lparr>bus := PageFree e (gsw_ring (vga w)) (bus w)\<rparr> else w);
          w = gsw_restore_command e w
      in w\<lparr>vga := gsw_transport_static\<lparr>gsw_semaphore := gsw_semaphore (vga w)\<rparr>\<rparr>)"

text \<open>
  The steps of \<open>gsw_transport_initialize\<close> up to each \<open>goto done\<close>; the locals a later step
  needs are results.
\<close>

definition gsw_probe_capability :: "'d gsw_env \<Rightarrow> 'd gsw_world \<Rightarrow> u32 option \<times> 'd gsw_world" where
  "gsw_probe_capability e w =
     (let (found, w) = on_bus (PCI_FindDevice e GSW_PCI_VENDOR_ID GSW_PCI_DEVICE_ID) w
      in case found of
           None \<Rightarrow> (None, w)
         | Some address \<Rightarrow>
             (let w = w\<lparr>vga := (vga w)\<lparr>gsw_pci_address := address, gsw_pci_address_valid := True\<rparr>\<rparr>;
                  (capability, w) = on_bus (PCI_ConfigRead32 e address GSW_PCI_CAPABILITY_OFFSET) w;
                  (capability_info, w) = on_bus (PCI_ConfigRead32 e address (GSW_PCI_CAPABILITY_OFFSET + 4)) w;
                  (v, w) = on_bus (PCI_ConfigRead16 e address (GSW_PCI_CAPABILITY_OFFSET + 8)) w;
                  vram_megabytes = (ucast v :: u32)
              in if capability \<noteq> GSW_PCI_CAPABILITY_SIGNATURE \<or>
                    capability_info AND 0xFFFF < GSW_PCI_CAPABILITY_VERSION \<or>
                    drop_bit 16 capability_info < GSW_PCI_CAPABILITY_LENGTH \<or>
                    vram_megabytes = 0 \<or> vram_megabytes > 256
                 then (None, w) else (Some vram_megabytes, w)))"

definition gsw_probe_bars ::
    "'d gsw_env \<Rightarrow> 'd gsw_world \<Rightarrow> (u32 \<times> u32 \<times> u32 \<times> u32) option \<times> 'd gsw_world" where
  "gsw_probe_bars e w =
     (let address = gsw_pci_address (vga w);
          (bar0_raw, w) = on_bus (PCI_ConfigRead32 e address 0x10) w;
          (bar1_raw, w) = on_bus (PCI_ConfigRead32 e address 0x14) w
      in if bar0_raw AND PCI_CONF_BAR_NOT_MEMORY32 e \<noteq> 0 \<or> bar1_raw AND PCI_CONF_BAR_NOT_MEMORY32 e \<noteq> 0
         then (None, w)
         else
           (let (bar0, w) = on_bus (PCI_GetBARAddr e address 0) w;
                (bar1, w) = on_bus (PCI_GetBARAddr e address 1) w
            in if bar0 = 0 \<or> bar1 = 0 then (None, w) else (Some (bar0_raw, bar1_raw, bar0, bar1), w)))"

definition gsw_enable_decode :: "'d gsw_env \<Rightarrow> u32 \<Rightarrow> u32 \<Rightarrow> 'd gsw_step" where
  "gsw_enable_decode e bar0_raw bar1_raw w =
     (let address = gsw_pci_address (vga w);
          (original_command, w) = on_bus (PCI_ConfigRead16 e address 4) w;
          w = w\<lparr>vga := (vga w)\<lparr>gsw_bound_bar0_raw := bar0_raw, gsw_bound_bar1_raw := bar1_raw,
                 gsw_pci_command_added := NOT original_command AND GSW_PCI_COMMAND_REQUIRED\<rparr>,
                bus := PCI_ConfigWrite16 e address 4 (original_command OR GSW_PCI_COMMAND_REQUIRED) (bus w)\<rparr>;
          (command, w) = on_bus (PCI_ConfigRead16 e address 4) w
      in (command AND GSW_PCI_COMMAND_REQUIRED = GSW_PCI_COMMAND_REQUIRED, w))"

definition gsw_map_registers :: "'d gsw_env \<Rightarrow> u32 \<Rightarrow> 'd gsw_step" where
  "gsw_map_registers e bar0 w =
     (let (linear, w) = on_bus (MapPhysToLinear e bar0 GSW_VGA_CONTROL_BYTES) w;
          w = w\<lparr>vga := (vga w)\<lparr>gsw_registers := linear\<rparr>\<rparr>
      in step_and (step_if (linear \<noteq> 0))
           (step_and (register_is e GSW_VGA_REG_ID GSW_VGA_ID)
             (register_is e GSW_VGA_REG_VERSION GSW_VGA_INTERFACE_VERSION)) w)"

definition gsw_read_capabilities :: "'d gsw_env \<Rightarrow> 'd gsw_step" where
  "gsw_read_capabilities e w =
     (let (caps, w) = gsw_register_read e GSW_VGA_REG_CAPABILITIES w;
          required = GSW_VGA_CAP_2D OR GSW_VGA_CAP_SURFACE_OFFSET
      in (caps AND required = required, w\<lparr>vga := (vga w)\<lparr>gsw_capabilities := caps\<rparr>\<rparr>))"

definition gsw_map_framebuffer :: "'d gsw_env \<Rightarrow> u32 \<Rightarrow> u32 \<Rightarrow> 'd gsw_step" where
  "gsw_map_framebuffer e bar1 bar1_size w =
     (let (linear, w) = on_bus (MapPhysToLinear e bar1 bar1_size) w
      in (linear \<noteq> 0, w\<lparr>vga := (vga w)\<lparr>gsw_framebuffer_size := bar1_size,
                             gsw_framebuffer_linear := linear\<rparr>\<rparr>))"

definition gsw_allocate_ring :: "'d gsw_env \<Rightarrow> 'd gsw_step" where
  "gsw_allocate_ring e w =
     (let ((linear, physical), w) = on_bus (PageAllocate e GSW_VGA_RING_BYTES) w;
          w = w\<lparr>vga := (vga w)\<lparr>gsw_ring_physical := physical\<rparr>\<rparr>
      in if linear = 0 then (False, w)
         else if physical AND (GSW_VGA_RING_BYTES - 1) \<noteq> 0
         then (False, w\<lparr>bus := PageFree e linear (bus w), vga := (vga w)\<lparr>gsw_ring_physical := 0\<rparr>\<rparr>)
         else (True, w\<lparr>vga := (vga w)\<lparr>gsw_ring := linear\<rparr>\<rparr>))"

definition gsw_program_ring :: "'d gsw_env \<Rightarrow> 'd gsw_step" where
  "gsw_program_ring e w =
     (let w = w\<lparr>vga := (vga w)\<lparr>gsw_ring_tail := 0, gsw_fence_low := 1, gsw_fence_high := 0\<rparr>\<rparr>;
          w = gsw_register_write e GSW_VGA_REG_IRQ_ENABLE 0 w;
          w = gsw_register_write e GSW_VGA_REG_IRQ_STATUS GSW_VGA_IRQ_2D w;
          w = gsw_register_write e GSW_VGA_REG_STATUS GSW_VGA_STATUS_ERROR w;
          w = gsw_register_write e GSW_VGA_REG_RING_GPA_LOW (gsw_ring_physical (vga w)) w;
          w = gsw_register_write e GSW_VGA_REG_RING_GPA_HIGH 0 w;
          w = gsw_register_write e GSW_VGA_REG_RING_SIZE GSW_VGA_RING_BYTES w;
          w = gsw_register_write e GSW_VGA_REG_RING_HEAD 0 w;
          w = gsw_register_write e GSW_VGA_REG_RING_TAIL 0 w;
          (status, w) = gsw_register_read e GSW_VGA_REG_STATUS w
      in (status AND GSW_VGA_STATUS_READY \<noteq> 0, w))"

definition gsw_bind_device :: "'d gsw_env \<Rightarrow> 'd gsw_step" where
  "gsw_bind_device e w =
     (let (vram, w) = gsw_probe_capability e w
      in case vram of
           None \<Rightarrow> (False, w)
         | Some vram_megabytes \<Rightarrow>
             (let (bars, w) = gsw_probe_bars e w
              in case bars of
                   None \<Rightarrow> (False, w)
                 | Some (bar0_raw, bar1_raw, bar0, bar1) \<Rightarrow>
                     step_and (gsw_enable_decode e bar0_raw bar1_raw)
                       (step_and (gsw_map_registers e bar0)
                         (step_and (gsw_read_capabilities e)
                           (step_and (gsw_map_framebuffer e bar1 (vram_megabytes * 1024 * 1024))
                             (step_and (gsw_allocate_ring e) (gsw_program_ring e))))) w))"

definition gsw_need_semaphore :: "'d gsw_env \<Rightarrow> 'd gsw_step" where
  "gsw_need_semaphore e w =
     (if gsw_semaphore (vga w) \<noteq> 0 then (True, w)
      else
        (let (s, w) = on_bus (CreateSemaphore e) w;
             w = w\<lparr>vga := (vga w)\<lparr>gsw_semaphore := s\<rparr>\<rparr>
         in if s = 0 then (False, w) else (True, w\<lparr>lock2d := \<lparr>tokens = 1, stuck = False\<rparr>\<rparr>)))"

definition gsw_rebind_device :: "'d gsw_env \<Rightarrow> 'd gsw_step" where
  "gsw_rebind_device e w =
     (let w = (if gsw_is_ready (vga w) \<or> gsw_pci_address_valid (vga w) \<or> gsw_registers (vga w) \<noteq> 0 \<or>
                  gsw_ring (vga w) \<noteq> 0
               then gsw_transport_shutdown_locked e w else w);
          (success, w) = gsw_bind_device e w
      in if \<not> success then (False, gsw_transport_shutdown_locked e w)
         else (True, snd (GSW3D_transport_init e (w\<lparr>vga := (vga w)\<lparr>gsw_is_ready := True\<rparr>\<rparr>))))"

definition gsw_transport_initialize :: "'d gsw_env \<Rightarrow> bool \<Rightarrow> 'd gsw_step" where
  "gsw_transport_initialize e replace_ready_binding w =
     (let (created, w) = gsw_need_semaphore e w in
      if \<not> created then (False, w)
      else
        (let w = w\<lparr>lock2d := wait_lock (lock2d w)\<rparr> in
         if gsw_is_ready (vga w) \<and> \<not> replace_ready_binding then (True, gsw_end w)
         else
           (let (current, w) = step_and (step_if (gsw_is_ready (vga w))) (gsw_pci_mmio_current e) w in
            if current then (True, gsw_end w)
            else (let (success, w) = gsw_rebind_device e w in (success, gsw_end w)))))"

definition GSW_transport_init :: "'d gsw_env \<Rightarrow> 'd gsw_step" where
  "GSW_transport_init e w = gsw_transport_initialize e False w"

definition GSW_transport_rebind :: "'d gsw_env \<Rightarrow> 'd gsw_step" where
  "GSW_transport_rebind e w = gsw_transport_initialize e True w"

definition GSW_transport_shutdown :: "'d gsw_env \<Rightarrow> 'd gsw_world \<Rightarrow> 'd gsw_world" where
  "GSW_transport_shutdown e w =
     (let w = GSW_shutdown_mark GSW_MARK_TRANSPORT_WAIT w;
          w = (if gsw_semaphore (vga w) \<noteq> 0 then w\<lparr>lock2d := wait_lock (lock2d w)\<rparr> else w);
          w = GSW_shutdown_mark GSW_MARK_TRANSPORT_ACQUIRED w;
          w = gsw_transport_shutdown_locked e w
      in if gsw_semaphore (vga w) \<noteq> 0 then w\<lparr>lock2d := signal_lock (lock2d w)\<rparr> else w)"

definition GSW_transport_release :: "'d gsw_env \<Rightarrow> 'd gsw_world \<Rightarrow> 'd gsw_world" where
  "GSW_transport_release e w = GSW_transport_shutdown e w"

end
