(* ===== verification/Vga_Correctness.thy ===== *)
theory Vga_Correctness
  imports Vga_Transport
begin

text \<open>
  Correctness of the two display transports: the command ring and its two copy routines, the
  effect of a submission, the surface table, binding and unbinding, the invariant of all calls
  together, and the properties stated over them.
\<close>

section \<open>The ring\<close>

lemma mod_once: "(a::nat) < 2 * n \<Longrightarrow> a mod n = (if a < n then a else a - n)"
  by (simp add: mod_if)

lemma ring_distance:
  "(b::nat) < n \<Longrightarrow> x < n \<Longrightarrow> (x + n - b) mod n = (if b \<le> x then x - b else x + n - b)"
  using mod_once [of "x + n - b" n] by (cases "b \<le> x") simp_all

lemma slot_plain:
  assumes "unat offset + i < 0x1000"
  shows "ring_slot 0x1000 offset i = offset + of_nat i"
proof -
  have "unat (ring_slot 0x1000 offset i) = (unat offset + i) mod 0x1000"
    using slot_unat [OF ring_pow2_4096] by simp
  moreover have "unat (offset + of_nat i) = unat offset + i"
    using assms by (simp add: unat_word_ariths unat_of_nat)
  ultimately show ?thesis using assms by (simp add: word_unat_eq_iff)
qed

text \<open>The copy in one or two pieces writes what a copy byte by byte writes.\<close>

lemma ring_copy_at:
  assumes "unat offset < 0x1000" "unat len \<le> 0x1000" "unat len \<le> length src"
  shows "gsw_ring_copy offset src len rm x =
    (if unat x < 0x1000 \<and> (unat x + 0x1000 - unat offset) mod 0x1000 < unat len
     then src ! ((unat x + 0x1000 - unat offset) mod 0x1000) else rm x)"
proof -
  let ?o = "unat offset" let ?n = "unat len"
  have room: "unat (GSW_VGA_RING_BYTES - offset) = 0x1000 - ?o"
    using assms(1) by (simp add: GSW_VGA_RING_BYTES_def unat_sub_no_underflow word_le_nat_alt)
  show ?thesis
  proof (cases "0x1000 - ?o \<ge> ?n")
    case True
    then have c: "gsw_ring_copy offset src len rm = mem_put offset (take ?n src) rm"
      using room by (auto simp: gsw_ring_copy_def Let_def word_less_nat_alt)
    show ?thesis
    proof (cases "?o \<le> unat x \<and> unat x < ?o + ?n")
      case in_range: True
      then have "unat x < 0x1000" using True assms(1) by linarith
      moreover from this have "(unat x + 0x1000 - ?o) mod 0x1000 = unat x - ?o"
        using in_range ring_distance [OF assms(1)] by simp
      moreover have "unat x - ?o < ?n" using in_range by linarith
      moreover note in_range
      ultimately show ?thesis using assms(3) by (simp add: c mem_put_def)
    next
      case out: False
      have "\<not> (unat x < 0x1000 \<and> (unat x + 0x1000 - ?o) mod 0x1000 < ?n)"
        using out True ring_distance [OF assms(1), of "unat x"] by auto
      with out assms(3) show ?thesis by (auto simp add: c mem_put_def)
    qed
  next
    case False
    let ?f = "0x1000 - ?o"
    have lt: "GSW_VGA_RING_BYTES - offset < len" using False room by (simp add: word_less_nat_alt)
    then have d: "unat (len - (GSW_VGA_RING_BYTES - offset)) = ?n - ?f"
      using room by (simp add: unat_sub_no_underflow less_imp_le)
    have c: "gsw_ring_copy offset src len rm =
        mem_put 0 (take (?n - ?f) (drop ?f src)) (mem_put offset (take ?f src) rm)"
      using lt room d by (simp add: gsw_ring_copy_def Let_def less_not_sym)
    have l: "length (take (?n - ?f) (drop ?f src)) = ?n - ?f" "length (take ?f src) = ?f"
      using assms(3) False by simp_all
    consider "unat x < ?n - ?f" | "?n - ?f \<le> unat x" "unat x < ?o" | "?o \<le> unat x" "unat x < 0x1000"
      | "0x1000 \<le> unat x" by linarith
    then show ?thesis
    proof cases
      case 1
      then have "\<not> ?o \<le> unat x" "unat x < 0x1000" using assms(1,2) False by linarith+
      moreover from this have "(unat x + 0x1000 - ?o) mod 0x1000 = ?f + unat x"
        using ring_distance [OF assms(1), of "unat x"] assms(1) by simp
      moreover have "?f + unat x < ?n" using 1 by linarith
      moreover note 1
      ultimately show ?thesis using assms(3) l by (simp add: c mem_put_def)
    next
      case 2
      then have "(unat x + 0x1000 - ?o) mod 0x1000 = ?f + unat x"
        using assms(1) ring_distance [OF assms(1), of "unat x"] by simp
      moreover have "\<not> ?f + unat x < ?n" using 2 by linarith
      ultimately show ?thesis using 2 l by (simp add: c mem_put_def)
    next
      case 3
      then have "(unat x + 0x1000 - ?o) mod 0x1000 = unat x - ?o"
        using ring_distance [OF assms(1), of "unat x"] by simp
      moreover have "unat x - ?o < ?f" "unat x - ?o < ?n" "\<not> unat x < ?n - ?f"
        using 3 False assms(1,2) by linarith+
      ultimately show ?thesis using 3 l by (simp add: c mem_put_def)
    next
      case 4
      then have "\<not> unat x < ?n - ?f" "\<not> unat x < ?o + ?f" using assms(1,2) by linarith+
      with 4 l show ?thesis by (simp add: c mem_put_def)
    qed
  qed
qed

lemma slot_distance:
  assumes "unat offset < 0x1000" "i < 0x1000"
  shows "(unat (ring_slot 0x1000 offset i) + 0x1000 - unat offset) mod 0x1000 = i"
proof -
  have "unat (ring_slot 0x1000 offset i) = (unat offset + i) mod 0x1000"
    using slot_unat [OF ring_pow2_4096] by simp
  with assms show ?thesis by (cases "unat offset + i < 0x1000") (simp_all add: mod_once)
qed

interpretation ring2d: ring_writer gsw_ring_copy GSW_VGA_RING_BYTES
proof
  show "ring_pow2 GSW_VGA_RING_BYTES" by (simp add: GSW_VGA_RING_BYTES_def ring_pow2_4096)
next
  fix offset len :: u32 and src :: "u8 list" and rm and i :: nat
  assume a: "unat offset < unat GSW_VGA_RING_BYTES" "unat len \<le> unat GSW_VGA_RING_BYTES"
    "unat len \<le> length src" "i < unat len"
  have "unat (ring_slot 0x1000 offset i) < 0x1000" using slot_mod [OF ring_pow2_4096, of offset i] by simp
  with a show "gsw_ring_copy offset src len rm (ring_slot GSW_VGA_RING_BYTES offset i) = src ! i"
    using slot_distance [of offset i] by (simp add: GSW_VGA_RING_BYTES_def ring_copy_at)
next
  fix offset len :: u32 and src :: "u8 list" and rm and x
  assume a: "unat offset < unat GSW_VGA_RING_BYTES" "unat len \<le> unat GSW_VGA_RING_BYTES"
    "unat len \<le> length src" "\<forall>i<unat len. x \<noteq> ring_slot GSW_VGA_RING_BYTES offset i"
  let ?i = "(unat x + 0x1000 - unat offset) mod 0x1000"
  have "\<not> (unat x < 0x1000 \<and> ?i < unat len)"
  proof
    assume x: "unat x < 0x1000 \<and> ?i < unat len"
    have "?i = (if unat offset \<le> unat x then unat x - unat offset else unat x + 0x1000 - unat offset)"
      using x a(1) by (intro ring_distance) (simp_all add: GSW_VGA_RING_BYTES_def)
    moreover have "unat offset < 0x1000" using a(1) by (simp add: GSW_VGA_RING_BYTES_def)
    ultimately have "unat offset + ?i = (if unat offset \<le> unat x then unat x else unat x + 0x1000)"
      by simp
    then have "(unat offset + ?i) mod 0x1000 = unat x" using x by simp
    then have "x = ring_slot 0x1000 offset ?i"
      using slot_unat [OF ring_pow2_4096, of offset ?i] by (simp add: word_unat_eq_iff)
    with x a(4) show False by (simp add: GSW_VGA_RING_BYTES_def)
  qed
  then show "gsw_ring_copy offset src len rm x = rm x"
    using a by (auto simp: ring_copy_at GSW_VGA_RING_BYTES_def)
qed

text \<open>Both transports write the same ring contents.\<close>

lemma ring_writers_agree:
  assumes "unat offset < 0x1000" "unat len \<le> 0x1000" "unat len \<le> length src"
  shows "gsw_ring_copy offset src len rm = gsw3d_ring_copy offset src len rm"
proof -
  have s: "unat GSW3D_RING_BYTES = 0x1000" "GSW_VGA_RING_BYTES = GSW3D_RING_BYTES"
    "unat GSW_VGA_RING_BYTES = 0x1000"
    by (simp_all add: GSW3D_RING_BYTES_def GSW_VGA_RING_BYTES_def)
  show ?thesis
    by (rule ring2d.copy_determined; use assms s ring3d.copy_in [of offset len src] ring3d.copy_out [of offset len src]
        in simp)
qed

section \<open>Fences\<close>

interpretation fence2d: fence_counter gsw_advance_fence gsw_fence_low gsw_fence_high
  by unfold_locales (simp_all add: gsw_advance_fence_def Let_def)

section \<open>Frame rules\<close>

lemma advance_fence_fields [simp, gsw_frame]:
  "gsw_pci_address (gsw_advance_fence g) = gsw_pci_address g"
  "gsw_registers (gsw_advance_fence g) = gsw_registers g"
  "gsw_ring (gsw_advance_fence g) = gsw_ring g"
  "gsw_ring_physical (gsw_advance_fence g) = gsw_ring_physical g"
  "gsw_ring_tail (gsw_advance_fence g) = gsw_ring_tail g"
  "gsw_framebuffer_linear (gsw_advance_fence g) = gsw_framebuffer_linear g"
  "gsw_framebuffer_size (gsw_advance_fence g) = gsw_framebuffer_size g"
  "gsw_capabilities (gsw_advance_fence g) = gsw_capabilities g"
  "gsw_semaphore (gsw_advance_fence g) = gsw_semaphore g"
  "gsw_is_ready (gsw_advance_fence g) = gsw_is_ready g"
  "gsw_surfaces (gsw_advance_fence g) = gsw_surfaces g"
  "gsw_next_surface_id (gsw_advance_fence g) = gsw_next_surface_id g"
  by (simp_all add: gsw_advance_fence_def Let_def)

lemma idle2d_frame [simp, gsw_frame]:
  "vga (snd (gsw_idle e w)) = vga w" "vga3d (snd (gsw_idle e w)) = vga3d w"
  "lock2d (snd (gsw_idle e w)) = lock2d w" "lock3d (snd (gsw_idle e w)) = lock3d w"
  by (simp_all add: gsw_idle_def Let_def split_beta step_and_def)

lemma store2d_frame [simp, gsw_frame]:
  "vga (gsw_store c w) = vga w" "vga3d (gsw_store c w) = vga3d w"
  "lock2d (gsw_store c w) = lock2d w" "lock3d (gsw_store c w) = lock3d w"
  by (simp_all add: gsw_store_def)

lemma post2d_frame [simp, gsw_frame]:
  "vga (gsw_post e c t w) = vga w" "vga3d (gsw_post e c t w) = vga3d w"
  "lock2d (gsw_post e c t w) = lock2d w" "lock3d (gsw_post e c t w) = lock3d w"
  by (simp_all add: gsw_post_def)

lemma taken2d_frame [simp, gsw_frame]:
  "vga (snd (gsw_taken e t w)) = vga w" "vga3d (snd (gsw_taken e t w)) = vga3d w"
  "lock2d (snd (gsw_taken e t w)) = lock2d w" "lock3d (snd (gsw_taken e t w)) = lock3d w"
  by (simp_all add: gsw_taken_def Let_def split_beta step_and_def)

lemma commit_frame [simp, gsw_frame]:
  "vga3d (gsw_commit t w) = vga3d w" "lock2d (gsw_commit t w) = lock2d w"
  "lock3d (gsw_commit t w) = lock3d w"
  "vga (gsw_commit t w) = gsw_advance_fence ((vga w)\<lparr>gsw_ring_tail := t\<rparr>)"
  by (simp_all add: gsw_commit_def)

lemma recover_frame [simp, gsw_frame]:
  "vga3d (gsw_recover_failed_submission e w) = vga3d w"
  "lock2d (gsw_recover_failed_submission e w) = lock2d w"
  "lock3d (gsw_recover_failed_submission e w) = lock3d w"
  by (simp_all add: gsw_recover_failed_submission_def Let_def split_beta)

lemma recover_state:
  "\<exists>h. vga (gsw_recover_failed_submission e w) =
     (vga w)\<lparr>gsw_ring_tail := if gsw_registers (vga w) = 0 then gsw_ring_tail (vga w)
        else h AND (GSW_VGA_RING_BYTES - 1)\<rparr>"
  by (auto simp: gsw_recover_failed_submission_def Let_def split_beta)

lemma submit2d_frame [simp, gsw_frame]:
  "vga3d (snd (gsw_submit_locked e c w)) = vga3d w"
  "lock2d (snd (gsw_submit_locked e c w)) = lock2d w"
  "lock3d (snd (gsw_submit_locked e c w)) = lock3d w"
  by (simp_all add: gsw_submit_locked_def Let_def split_beta)

lemma submit_gdi_frame [simp, gsw_frame]:
  "vga3d (snd (gsw_submit_gdi_locked e c w)) = vga3d w"
  "lock2d (snd (gsw_submit_gdi_locked e c w)) = lock2d w"
  "lock3d (snd (gsw_submit_gdi_locked e c w)) = lock3d w"
  by (simp_all add: gsw_submit_gdi_locked_def Let_def split_beta)

text \<open>
  What a submission does to the 2D state: nothing, or the tail of the device after a failure,
  or the new tail and the next fence after a success.
\<close>

inductive submission_effect :: "bool \<Rightarrow> gsw_transport_state \<Rightarrow> gsw_transport_state \<Rightarrow> bool" where
  refused: "submission_effect False g g"
| recovered: "t < 0x1000 \<Longrightarrow> submission_effect False g (g\<lparr>gsw_ring_tail := t\<rparr>)"
| taken: "t < 0x1000 \<Longrightarrow> submission_effect True g (gsw_advance_fence (g\<lparr>gsw_ring_tail := t\<rparr>))"

inductive_cases submission_takenE: "submission_effect True g g'"

lemma masked_tail2d: "x AND (GSW_VGA_RING_BYTES - 1) < 0x1000"
  using masked_tail by (simp add: GSW_VGA_RING_BYTES_def GSW3D_RING_BYTES_def)

lemma recover_effect: "submission_effect False (vga w) (vga (gsw_recover_failed_submission e w))"
proof -
  obtain h where h: "vga (gsw_recover_failed_submission e w) =
     (vga w)\<lparr>gsw_ring_tail := if gsw_registers (vga w) = 0 then gsw_ring_tail (vga w)
        else h AND (GSW_VGA_RING_BYTES - 1)\<rparr>" using recover_state by blast
  show ?thesis
    by (cases "gsw_registers (vga w) = 0") (simp_all add: h refused recovered masked_tail2d)
qed

lemma submit2d_effect:
  "submission_effect (fst (gsw_submit_locked e c w)) (vga w) (vga (snd (gsw_submit_locked e c w)))"
  using recover_effect [of "snd (gsw_idle e w)" e]
    recover_effect [of "snd (gsw_taken e t (gsw_post e s t (snd (gsw_idle e w))))" e for t s]
  by (simp add: gsw_submit_locked_def Let_def split_beta refused taken masked_tail2d)

lemma submit_gdi_effect:
  "submission_effect (fst (gsw_submit_gdi_locked e c w)) (vga w) (vga (snd (gsw_submit_gdi_locked e c w)))"
  using recover_effect [of "gsw_register_write e r v (gsw_store s w)" e for r v s]
    recover_effect [of "snd (gsw_register_read e p (gsw_register_write e r v (gsw_store s w)))" e for p r v s]
  by (simp add: gsw_submit_gdi_locked_def Let_def split_beta refused taken masked_tail2d)

section \<open>The invariant\<close>

definition surface_ok :: "u32 \<Rightarrow> nat \<Rightarrow> GSWSurfaceRecord \<Rightarrow> bool" where
  "surface_ok fb i s \<longleftrightarrow> sf_id s = 0 \<or>
     unat (sf_id s AND 255) = i \<and> sf_owner_pid s \<noteq> 0 \<and>
     gsw_surface_valid fb (sf_offset s) (sf_pitch s) (sf_width s) (sf_height s) (sf_bpp s) \<and>
     unat (sf_offset s) + unat (sf_byte_size s) \<le> unat fb"

definition surface_table_ok :: "u32 \<Rightarrow> GSWSurfaceRecord list \<Rightarrow> bool" where
  "surface_table_ok fb ss \<longleftrightarrow> length ss = 256 \<and> (\<forall>i<256. surface_ok fb i (ss ! i))"

definition ready_ok :: "gsw_transport_state \<Rightarrow> bool" where
  "ready_ok g \<longleftrightarrow> gsw_registers g \<noteq> 0 \<and> gsw_ring g \<noteq> 0 \<and> gsw_framebuffer_linear g \<noteq> 0 \<and>
     gsw_ring_physical g AND 0xFFF = 0 \<and> gsw_semaphore g \<noteq> 0 \<and> gsw_capabilities g AND 5 = 5 \<and>
     gsw_ring_tail g < 0x1000 \<and> (gsw_fence_low g \<noteq> 0 \<or> gsw_fence_high g \<noteq> 0) \<and>
     surface_table_ok (gsw_framebuffer_size g) (gsw_surfaces g)"

definition vga_state_ok :: "gsw_transport_state \<Rightarrow> bool" where
  "vga_state_ok g \<longleftrightarrow>
     (if gsw_is_ready g then ready_ok g
      else g = gsw_transport_static\<lparr>gsw_semaphore := gsw_semaphore g\<rparr>)"

definition vga_ok :: "'d gsw_world \<Rightarrow> bool" where
  "vga_ok w \<longleftrightarrow> vga_state_ok (vga w) \<and> gsw3d_ok w \<and>
     (gsw3d_ready (vga3d w) \<longrightarrow> gsw_is_ready (vga w)) \<and>
     (gsw_semaphore (vga w) \<noteq> 0 \<longrightarrow> lock_free (lock2d w))"

text \<open>Inside a 2D request: the device is bound and the semaphore taken.\<close>

definition vga_inside :: "'d gsw_world \<Rightarrow> bool" where
  "vga_inside w \<longleftrightarrow> gsw_is_ready (vga w) \<and> ready_ok (vga w) \<and> gsw3d_ok w \<and>
     tokens (lock2d w) = 0 \<and> \<not> stuck (lock2d w)"

lemma begin2d_inside: "vga_ok w \<Longrightarrow> fst (gsw_begin w) \<Longrightarrow> vga_inside (snd (gsw_begin w))"
  by (auto simp: gsw_begin_def vga_ok_def vga_inside_def vga_state_ok_def lock_free_def wait_lock_def
      gsw3d_ok_def Let_def split: if_splits)

lemma begin2d_refused: "vga_ok w \<Longrightarrow> \<not> fst (gsw_begin w) \<Longrightarrow> snd (gsw_begin w) = w"
  by (auto simp: gsw_begin_def vga_ok_def lock_free_def wait_lock_def signal_lock_def Let_def
      split: if_splits)

lemma begin2d_frame [simp, gsw_frame]:
  "vga (snd (gsw_begin w)) = vga w" "vga3d (snd (gsw_begin w)) = vga3d w"
  "lock3d (snd (gsw_begin w)) = lock3d w"
  by (simp_all add: gsw_begin_def Let_def)

lemma begin2d_entered: "fst (gsw_begin w) \<longleftrightarrow> gsw_semaphore (vga w) \<noteq> 0 \<and> gsw_is_ready (vga w)"
  by (simp add: gsw_begin_def Let_def)

lemma end2d_frame [simp, gsw_frame]:
  "vga (gsw_end w) = vga w" "vga3d (gsw_end w) = vga3d w" "lock3d (gsw_end w) = lock3d w"
  by (simp_all add: gsw_end_def)

lemma end2d_ok: "vga_inside w \<Longrightarrow> vga_ok (gsw_end w)"
  by (simp add: vga_inside_def vga_ok_def vga_state_ok_def gsw3d_ok_def)
     (simp add: gsw_end_def lock_free_def signal_lock_def)

lemma effect_ready_ok: "submission_effect r g g' \<Longrightarrow> ready_ok g \<Longrightarrow> ready_ok g'"
proof (induction rule: submission_effect.induct)
  case (taken t g)
  then show ?case using fence2d.advance_nonzero [of "g\<lparr>gsw_ring_tail := t\<rparr>"]
    by (simp add: ready_ok_def)
qed (simp_all add: ready_ok_def)

lemma effect_fields:
  assumes "submission_effect r g g'"
  shows "gsw_is_ready g' = gsw_is_ready g" "gsw_surfaces g' = gsw_surfaces g"
    "gsw_next_surface_id g' = gsw_next_surface_id g" "gsw_framebuffer_size g' = gsw_framebuffer_size g"
    "gsw_capabilities g' = gsw_capabilities g" "gsw_semaphore g' = gsw_semaphore g"
    "gsw_registers g' = gsw_registers g"
  using assms by (induction rule: submission_effect.induct) simp_all

lemmas submit2d_fields [simp] = effect_fields [OF submit2d_effect]
  and submit_gdi_fields [simp] = effect_fields [OF submit_gdi_effect]

lemma submit2d_inside [gsw_inv]: "vga_inside w \<Longrightarrow> vga_inside (snd (gsw_submit_locked e c w))"
  using effect_ready_ok [OF submit2d_effect, of w e c] by (simp add: vga_inside_def gsw3d_ok_def)

lemma submit_gdi_inside [gsw_inv]: "vga_inside w \<Longrightarrow> vga_inside (snd (gsw_submit_gdi_locked e c w))"
  using effect_ready_ok [OF submit_gdi_effect, of w e c] by (simp add: vga_inside_def gsw3d_ok_def)

lemma submit_ok2d [gsw_inv]: "vga_ok w \<Longrightarrow> vga_ok (snd (gsw_submit e c w))"
  using begin2d_inside [of w] begin2d_refused [of w]
  by (simp add: gsw_submit_def Let_def split_beta end2d_ok submit2d_inside)

lemma checked_submit_ok [gsw_inv]: "vga_ok w \<Longrightarrow> vga_ok (snd (gsw_checked_submit e a c w))"
  using begin2d_inside [of w] begin2d_refused [of w]
  by (simp add: gsw_checked_submit_def Let_def split_beta end2d_ok submit2d_inside)

lemma request_ok [gsw_inv]:
  assumes "vga_ok w"
  shows "vga_ok (snd (GSW_transport_set_mode e a b c d w))"
    "vga_ok (snd (GSW_transport_present e a b c d f w))"
    "vga_ok (snd (GSW_transport_fill e a b c d f g w))"
    "vga_ok (snd (GSW_transport_copy e a b c d f g h w))"
    "vga_ok (snd (GSW_transport_surface_fill e r1 w))"
    "vga_ok (snd (GSW_transport_surface_blt e r2 w))"
    "vga_ok (snd (GSW_transport_surface_present e a w))"
    "vga_ok (snd (GSW_transport_surface_dirty e r3 w))"
    "vga_ok (snd (GSW_transport_gdi_blt e r4 a w))"
  using assms begin2d_inside [OF assms] begin2d_refused [OF assms]
  by (simp_all add: GSW_transport_set_mode_def GSW_transport_present_def GSW_transport_fill_def
      GSW_transport_copy_def GSW_transport_surface_fill_def GSW_transport_surface_blt_def
      GSW_transport_surface_present_def GSW_transport_surface_dirty_def GSW_transport_gdi_blt_def
      submit_ok2d checked_submit_ok Let_def split_beta end2d_ok submit_gdi_inside)

section \<open>Surfaces keep the invariant\<close>

lemma slot_bound: "unat (sid AND (255::u32)) < 256"
proof -
  have "unat (sid AND (2 ^ 8 - 1)) < 2 ^ 8" by (simp only: unat_and_mask) simp
  then show ?thesis by simp
qed

lemma allocate_Some:
  "gsw_surface_allocate n ss next_id = (Some sid, nx) \<Longrightarrow>
   sid \<noteq> 0 \<and> sf_id (ss ! unat (sid AND 255)) = 0"
  by (induction n ss next_id arbitrary: nx rule: gsw_surface_allocate.induct)
     (auto simp: Let_def split: if_splits prod.splits)

lemma set_surface_frame [simp, gsw_frame]:
  "vga3d (gsw_set_surface k s w) = vga3d w" "lock2d (gsw_set_surface k s w) = lock2d w"
  "lock3d (gsw_set_surface k s w) = lock3d w"
  "vga (gsw_set_surface k s w) = (vga w)\<lparr>gsw_surfaces := (gsw_surfaces (vga w))[k := s]\<rparr>"
  by (simp_all add: gsw_set_surface_def)

lemma table_set_surface:
  "surface_table_ok fb ss \<Longrightarrow> k < 256 \<Longrightarrow> surface_ok fb k s \<Longrightarrow> surface_table_ok fb (ss[k := s])"
  by (simp add: surface_table_ok_def nth_list_update)

lemma set_surface_inside:
  "vga_inside w \<Longrightarrow> k < 256 \<Longrightarrow> surface_ok (gsw_framebuffer_size (vga w)) k s \<Longrightarrow>
   vga_inside (gsw_set_surface k s w)"
  by (simp add: vga_inside_def gsw3d_ok_def ready_ok_def table_set_surface)

lemma set_next_inside:
  "vga_inside w \<Longrightarrow> vga_inside (w\<lparr>vga := (vga w)\<lparr>gsw_next_surface_id := n\<rparr>\<rparr>)"
  by (simp add: vga_inside_def gsw3d_ok_def ready_ok_def)

lemma surface_zero_ok [simp]: "surface_ok fb k surface_zero"
  by (simp add: surface_ok_def surface_zero_def)

lemma registered_surface_ok:
  assumes "\<not> gsw_register_refused g r" "p \<noteq> 0"
  shows "surface_ok (gsw_framebuffer_size g) (unat (sid AND 255)) (gsw_surface_of sid p r)"
proof -
  from assms(1) have o: "rg_offset r \<le> gsw_framebuffer_size g"
    "rg_byte_size r \<le> gsw_framebuffer_size g - rg_offset r"
    by (simp_all add: gsw_register_refused_def linorder_not_less)
  have "unat (rg_offset r) \<le> unat (gsw_framebuffer_size g)"
    using o(1) by (simp add: word_le_nat_alt)
  moreover have "unat (rg_byte_size r) \<le> unat (gsw_framebuffer_size g) - unat (rg_offset r)"
    using o(2) unat_sub_no_underflow [OF o(1)] by (simp add: word_le_nat_alt)
  ultimately have "unat (rg_offset r) + unat (rg_byte_size r) \<le> unat (gsw_framebuffer_size g)"
    by linarith
  with assms show ?thesis
    by (simp add: surface_ok_def gsw_surface_of_def gsw_register_refused_def)
qed

text \<open>
  A registration is refused without a trace in the table, or has put the record of the request
  into a slot that was free.
\<close>

lemma register_step:
  assumes "vga_ok w" and r_def: "x = GSW_transport_surface_register e r p w"
  shows "vga_ok (snd x)"
    and "case fst x of
        None \<Rightarrow> gsw_surfaces (vga (snd x)) = gsw_surfaces (vga w)
      | Some sid \<Rightarrow> sid \<noteq> 0 \<and> sf_id (gsw_surfaces (vga w) ! unat (sid AND 255)) = 0 \<and>
          \<not> gsw_register_refused (vga w) r \<and> p \<noteq> 0 \<and>
          gsw_surfaces (vga (snd x)) =
            (gsw_surfaces (vga w))[unat (sid AND 255) := gsw_surface_of sid p r]"
proof -
  define w1 where "w1 = snd (gsw_begin w)"
  let ?a = "gsw_surface_allocate 256 (gsw_surfaces (vga w)) (gsw_next_surface_id (vga w))"
  define w2 where "w2 = w1\<lparr>vga := (vga w1)\<lparr>gsw_next_surface_id := snd ?a\<rparr>\<rparr>"
  define c where "c = (\<lambda>sid. new_command GSW_VGA_OPCODE_REGISTER_SURFACE (GSWRegisterSurfaceCommand sid r))"
  define y where "y = (\<lambda>sid. gsw_submit_locked e (c sid) w2)"
  have v1: "vga w1 = vga w" by (simp add: w1_def)
  have x: "x = (if rg_cb r \<noteq> 36 \<or> p = 0 then (None, w)
      else if \<not> fst (gsw_begin w) then (None, w1)
      else if gsw_register_refused (vga w) r then (None, gsw_end w1)
      else case fst ?a of None \<Rightarrow> (None, gsw_end w2)
        | Some sid \<Rightarrow> if \<not> fst (y sid) then (None, gsw_end (snd (y sid)))
            else (Some sid, gsw_end (gsw_set_surface (unat (sid AND 255)) (gsw_surface_of sid p r) (snd (y sid)))))"
    by (simp add: r_def GSW_transport_surface_register_def Let_def split_beta w1_def w2_def y_def c_def
        split: option.split)
  consider (early) "rg_cb r \<noteq> 36 \<or> p = 0 \<or> \<not> fst (gsw_begin w)"
    | (entered) "rg_cb r = 36" "p \<noteq> 0" "fst (gsw_begin w)" by blast
  then have "vga_ok (snd x) \<and> (case fst x of
        None \<Rightarrow> gsw_surfaces (vga (snd x)) = gsw_surfaces (vga w)
      | Some sid \<Rightarrow> sid \<noteq> 0 \<and> sf_id (gsw_surfaces (vga w) ! unat (sid AND 255)) = 0 \<and>
          \<not> gsw_register_refused (vga w) r \<and> p \<noteq> 0 \<and>
          gsw_surfaces (vga (snd x)) =
            (gsw_surfaces (vga w))[unat (sid AND 255) := gsw_surface_of sid p r])"
  proof cases
    case early
    then show ?thesis using assms(1) begin2d_refused [OF assms(1)] by (auto simp: x w1_def)
  next
    case entered
    have i1: "vga_inside w1" using begin2d_inside [OF assms(1) entered(3)] by (simp add: w1_def)
    have i2: "vga_inside w2" using set_next_inside [OF i1] by (simp add: w2_def)
    have i3: "vga_inside (snd (y sid))" for sid using i2 by (simp add: y_def submit2d_inside)
    have fb: "gsw_framebuffer_size (vga (snd (y sid))) = gsw_framebuffer_size (vga w)"
      "gsw_surfaces (vga (snd (y sid))) = gsw_surfaces (vga w)" for sid
      by (simp_all add: y_def w2_def v1)
    have i4: "vga_inside (gsw_set_surface (unat (sid AND 255)) (gsw_surface_of sid p r) (snd (y sid)))"
      if "\<not> gsw_register_refused (vga w) r" for sid
      by (rule set_surface_inside [OF i3 slot_bound]) (simp add: fb registered_surface_ok that entered(2))
    show ?thesis
    proof (cases "gsw_register_refused (vga w) r")
      case True
      then show ?thesis using entered end2d_ok [OF i1] by (simp add: x v1)
    next
      case False
      show ?thesis
      proof (cases "fst ?a")
        case None
        then show ?thesis using entered False end2d_ok [OF i2] by (simp add: x w2_def v1)
      next
        case (Some sid)
        then have a: "sid \<noteq> 0" "sf_id (gsw_surfaces (vga w) ! unat (sid AND 255)) = 0"
          using allocate_Some [of 256 "gsw_surfaces (vga w)" "gsw_next_surface_id (vga w)" sid "snd ?a"]
          by (metis prod.collapse)+
        show ?thesis
          using entered False Some a end2d_ok [OF i3, of sid] end2d_ok [OF i4 [OF False], of sid]
          by (simp add: x fb)
      qed
    qed
  qed
  then show "vga_ok (snd x)"
    and "case fst x of
        None \<Rightarrow> gsw_surfaces (vga (snd x)) = gsw_surfaces (vga w)
      | Some sid \<Rightarrow> sid \<noteq> 0 \<and> sf_id (gsw_surfaces (vga w) ! unat (sid AND 255)) = 0 \<and>
          \<not> gsw_register_refused (vga w) r \<and> p \<noteq> 0 \<and>
          gsw_surfaces (vga (snd x)) =
            (gsw_surfaces (vga w))[unat (sid AND 255) := gsw_surface_of sid p r]"
    by blast+
qed

lemma find_slot_bound: "gsw_surface_find sid g = Some k \<Longrightarrow> k < 256"
  using slot_bound [of sid] by (simp add: gsw_surface_find_def Let_def split: if_splits)

lemma unregister_ok [gsw_inv]:
  assumes "vga_ok w"
  shows "vga_ok (snd (GSW_transport_surface_unregister e sid w))"
proof (cases "fst (gsw_begin w)")
  case False
  then show ?thesis using begin2d_refused [OF assms] assms
    by (simp add: GSW_transport_surface_unregister_def Let_def split_beta)
next
  case True
  note i1 = begin2d_inside [OF assms True]
  show ?thesis
  proof (cases "gsw_surface_find sid (vga w)")
    case None
    then show ?thesis using True end2d_ok [OF i1]
      by (simp add: GSW_transport_surface_unregister_def Let_def split_beta)
  next
    case (Some k)
    let ?y = "gsw_submit_locked e
      (new_command GSW_VGA_OPCODE_UNREGISTER_SURFACE (GSWUnregisterSurfaceCommand sid)) (snd (gsw_begin w))"
    have "vga_inside (snd ?y)" using i1 by (rule submit2d_inside)
    moreover from this have "vga_inside (gsw_set_surface k surface_zero (snd ?y))"
      by (rule set_surface_inside [OF _ find_slot_bound [OF Some]]) simp
    ultimately show ?thesis using True Some
      by (simp add: GSW_transport_surface_unregister_def Let_def split_beta end2d_ok)
  qed
qed

lemma cleanup2d_slot_inside:
  "vga_inside w \<Longrightarrow> k < 256 \<Longrightarrow> vga_inside (gsw_cleanup_slot e p k w)"
  by (simp add: gsw_cleanup_slot_def Let_def set_surface_inside submit2d_inside)

lemma cleanup2d_slot_surfaces:
  "gsw_surfaces (vga (gsw_cleanup_slot e p k w)) =
   (let ss = gsw_surfaces (vga w)
    in if sf_id (ss ! k) = 0 \<or> sf_owner_pid (ss ! k) \<noteq> p then ss else ss[k := surface_zero])"
  by (simp add: gsw_cleanup_slot_def Let_def)

lemma cleanup2d_fold:
  "vga_inside w \<Longrightarrow> n \<le> 256 \<Longrightarrow>
   vga_inside (fold (gsw_cleanup_slot e p) [0..<n] w) \<and>
   (\<forall>i<256. gsw_surfaces (vga (fold (gsw_cleanup_slot e p) [0..<n] w)) ! i =
     (if i < n \<and> sf_id (gsw_surfaces (vga w) ! i) \<noteq> 0 \<and> sf_owner_pid (gsw_surfaces (vga w) ! i) = p
      then surface_zero else gsw_surfaces (vga w) ! i))"
proof (induction n)
  case (Suc n)
  let ?v = "fold (gsw_cleanup_slot e p) [0..<n] w" let ?ss = "gsw_surfaces (vga w)"
  from Suc have IH: "vga_inside ?v"
    "\<forall>i<256. gsw_surfaces (vga ?v) ! i = (if i < n \<and> sf_id (?ss ! i) \<noteq> 0 \<and>
         sf_owner_pid (?ss ! i) = p then surface_zero else ?ss ! i)"
    by simp_all
  have n: "n < 256" using Suc.prems by simp
  have len: "length (gsw_surfaces (vga ?v)) = 256"
    using IH(1) by (simp add: vga_inside_def ready_ok_def surface_table_ok_def)
  have "gsw_surfaces (vga (gsw_cleanup_slot e p n ?v)) ! i =
      (if i < Suc n \<and> sf_id (?ss ! i) \<noteq> 0 \<and> sf_owner_pid (?ss ! i) = p then surface_zero else ?ss ! i)"
    if "i < 256" for i
    using IH(2) n that len by (auto simp: cleanup2d_slot_surfaces Let_def nth_list_update less_Suc_eq)
  then show ?case using cleanup2d_slot_inside [OF IH(1) n] by simp
qed simp

lemma cleanup2d_ok [gsw_inv]: "vga_ok w \<Longrightarrow> vga_ok (GSW_transport_process_cleanup e p w)"
  using begin2d_inside [of w] begin2d_refused [of w] cleanup2d_fold [of "snd (gsw_begin w)" 256 e p]
  by (simp add: GSW_transport_process_cleanup_def Let_def split_beta end2d_ok)

section \<open>Binding keeps the invariant\<close>

lemma identity_frame [simp, gsw_frame]:
  "vga (snd (gsw_pci_identity_current e w)) = vga w" "vga3d (snd (gsw_pci_identity_current e w)) = vga3d w"
  "lock2d (snd (gsw_pci_identity_current e w)) = lock2d w"
  "lock3d (snd (gsw_pci_identity_current e w)) = lock3d w"
  by (simp_all add: gsw_pci_identity_current_def Let_def split_beta)

lemma config_is_frame [simp, gsw_frame]:
  "vga (snd (pci_config_is e r v w)) = vga w" "vga3d (snd (pci_config_is e r v w)) = vga3d w"
  "lock2d (snd (pci_config_is e r v w)) = lock2d w" "lock3d (snd (pci_config_is e r v w)) = lock3d w"
  by (simp_all add: pci_config_is_def Let_def split_beta)

lemma mmio_current_frame [simp, gsw_frame]:
  "vga (snd (gsw_pci_mmio_current e w)) = vga w" "vga3d (snd (gsw_pci_mmio_current e w)) = vga3d w"
  "lock2d (snd (gsw_pci_mmio_current e w)) = lock2d w"
  "lock3d (snd (gsw_pci_mmio_current e w)) = lock3d w"
  by (simp_all add: gsw_pci_mmio_current_def gsw_pci_bars_current_def step_and_def Let_def split_beta)

lemma quiesce_frame [simp, gsw_frame]:
  "vga (gsw_quiesce_device e w) = vga w" "vga3d (gsw_quiesce_device e w) = vga3d w"
  "lock2d (gsw_quiesce_device e w) = lock2d w" "lock3d (gsw_quiesce_device e w) = lock3d w"
  by (simp_all add: gsw_quiesce_device_def Let_def)

lemma restore_frame [simp, gsw_frame]:
  "vga (gsw_restore_command e w) = vga w" "vga3d (gsw_restore_command e w) = vga3d w"
  "lock2d (gsw_restore_command e w) = lock2d w" "lock3d (gsw_restore_command e w) = lock3d w"
  by (simp_all add: gsw_restore_command_def Let_def split_beta)

lemma shutdown_locked_state:
  "vga (gsw_transport_shutdown_locked e w) =
     gsw_transport_static\<lparr>gsw_semaphore := gsw_semaphore (vga w)\<rparr>"
  "vga3d (gsw_transport_shutdown_locked e w) =
     gsw3d_transport_static\<lparr>gsw3d_semaphore := gsw3d_semaphore (vga3d w)\<rparr>"
  "lock2d (gsw_transport_shutdown_locked e w) = lock2d w"
  by (simp_all add: gsw_transport_shutdown_locked_def Let_def split_beta)

lemma shutdown_locked_ok:
  assumes "gsw3d_ok w"
  shows "gsw3d_ok (gsw_transport_shutdown_locked e w)"
proof -
  have "gsw3d_semaphore (vga3d w) \<noteq> 0 \<longrightarrow> lock_free (lock3d w)" using assms by (simp add: gsw3d_ok_def)
  then have "lock3d (gsw_transport_shutdown_locked e w) = lock3d w"
    by (simp add: gsw_transport_shutdown_locked_def Let_def split_beta shutdown3d_lock)
  with assms show ?thesis
    by (simp add: gsw3d_ok_def shutdown_locked_state static3d_ok)
qed

text \<open>What the steps of the binding leave alone.\<close>

definition binding :: "gsw3d_transport_state \<Rightarrow> gsw_lock \<Rightarrow> gsw_lock \<Rightarrow> u32 \<Rightarrow> 'd gsw_world \<Rightarrow> bool" where
  "binding g l2 l3 s w \<longleftrightarrow> vga3d w = g \<and> lock2d w = l2 \<and> lock3d w = l3 \<and> gsw_semaphore (vga w) = s \<and>
     \<not> gsw_is_ready (vga w) \<and> gsw_surfaces (vga w) = replicate 256 surface_zero"

lemma probe_capability_binding:
  "binding g l2 l3 s w \<Longrightarrow> binding g l2 l3 s (snd (gsw_probe_capability e w))"
  by (simp add: binding_def gsw_probe_capability_def Let_def split_beta split: option.split)

lemma probe_bars_binding: "binding g l2 l3 s w \<Longrightarrow> binding g l2 l3 s (snd (gsw_probe_bars e w))"
  by (simp add: binding_def gsw_probe_bars_def Let_def split_beta)

lemma enable_decode_binding:
  "binding g l2 l3 s w \<Longrightarrow> binding g l2 l3 s (snd (gsw_enable_decode e a b w))"
  by (simp add: binding_def gsw_enable_decode_def Let_def split_beta)

lemma map_registers_binding:
  "binding g l2 l3 s w \<Longrightarrow> binding g l2 l3 s (snd (gsw_map_registers e b w))"
  "fst (gsw_map_registers e b w) \<Longrightarrow> gsw_registers (vga (snd (gsw_map_registers e b w))) \<noteq> 0"
  by (simp_all add: binding_def gsw_map_registers_def Let_def split_beta step_and_def split: if_splits)

lemma read_capabilities_binding:
  "binding g l2 l3 s w \<Longrightarrow> binding g l2 l3 s (snd (gsw_read_capabilities e w))"
  "gsw_registers (vga (snd (gsw_read_capabilities e w))) = gsw_registers (vga w)"
  "fst (gsw_read_capabilities e w) \<Longrightarrow> gsw_capabilities (vga (snd (gsw_read_capabilities e w))) AND 5 = 5"
  by (simp_all add: binding_def gsw_read_capabilities_def Let_def split_beta GSW_VGA_CAP_2D_def
      GSW_VGA_CAP_SURFACE_OFFSET_def)

lemma map_framebuffer_binding:
  "binding g l2 l3 s w \<Longrightarrow> binding g l2 l3 s (snd (gsw_map_framebuffer e a b w))"
  "gsw_registers (vga (snd (gsw_map_framebuffer e a b w))) = gsw_registers (vga w)"
  "gsw_capabilities (vga (snd (gsw_map_framebuffer e a b w))) = gsw_capabilities (vga w)"
  "fst (gsw_map_framebuffer e a b w) \<Longrightarrow>
   gsw_framebuffer_linear (vga (snd (gsw_map_framebuffer e a b w))) \<noteq> 0"
  by (simp_all add: binding_def gsw_map_framebuffer_def Let_def split_beta)

lemma allocate_ring_binding:
  "binding g l2 l3 s w \<Longrightarrow> binding g l2 l3 s (snd (gsw_allocate_ring e w))"
  "gsw_registers (vga (snd (gsw_allocate_ring e w))) = gsw_registers (vga w)"
  "gsw_capabilities (vga (snd (gsw_allocate_ring e w))) = gsw_capabilities (vga w)"
  "gsw_framebuffer_linear (vga (snd (gsw_allocate_ring e w))) = gsw_framebuffer_linear (vga w)"
  "fst (gsw_allocate_ring e w) \<Longrightarrow> gsw_ring (vga (snd (gsw_allocate_ring e w))) \<noteq> 0 \<and>
     gsw_ring_physical (vga (snd (gsw_allocate_ring e w))) AND 0xFFF = 0"
  by (auto simp add: binding_def gsw_allocate_ring_def Let_def split_beta GSW_VGA_RING_BYTES_def
      split: if_splits)

lemma program_ring2d_state:
  "vga (snd (gsw_program_ring e w)) =
     (vga w)\<lparr>gsw_ring_tail := 0, gsw_fence_low := 1, gsw_fence_high := 0\<rparr>"
  "vga3d (snd (gsw_program_ring e w)) = vga3d w" "lock2d (snd (gsw_program_ring e w)) = lock2d w"
  "lock3d (snd (gsw_program_ring e w)) = lock3d w"
  by (simp_all add: gsw_program_ring_def Let_def split_beta)

lemma program_ring2d_binding: "binding g l2 l3 s w \<Longrightarrow> binding g l2 l3 s (snd (gsw_program_ring e w))"
  by (simp add: binding_def program_ring2d_state)

lemma program_ring2d_ready:
  assumes "binding g l2 l3 s w" "s \<noteq> 0" "gsw_registers (vga w) \<noteq> 0" "gsw_capabilities (vga w) AND 5 = 5"
    "gsw_framebuffer_linear (vga w) \<noteq> 0" "gsw_ring (vga w) \<noteq> 0" "gsw_ring_physical (vga w) AND 0xFFF = 0"
  shows "ready_ok (vga (snd (gsw_program_ring e w)))"
  using assms by (simp add: ready_ok_def binding_def program_ring2d_state surface_table_ok_def)

lemma device_steps:
  assumes "binding g l2 l3 s w" "s \<noteq> 0"
    and r_def: "r = step_and (gsw_enable_decode e b0r b1r) (step_and (gsw_map_registers e b0)
      (step_and (gsw_read_capabilities e) (step_and (gsw_map_framebuffer e b1 n)
        (step_and (gsw_allocate_ring e) (gsw_program_ring e))))) w"
  shows "binding g l2 l3 s (snd r)" "fst r \<Longrightarrow> ready_ok (vga (snd r))"
proof -
  show "binding g l2 l3 s (snd r)"
    unfolding r_def
    by (intro step_and_keeps [where P = "binding g l2 l3 s"] enable_decode_binding map_registers_binding
        read_capabilities_binding map_framebuffer_binding allocate_ring_binding program_ring2d_binding assms(1))
  assume t: "fst r"
  define w1 where "w1 = snd (gsw_enable_decode e b0r b1r w)"
  define w2 where "w2 = snd (gsw_map_registers e b0 w1)"
  define w3 where "w3 = snd (gsw_read_capabilities e w2)"
  define w4 where "w4 = snd (gsw_map_framebuffer e b1 n w3)"
  define w5 where "w5 = snd (gsw_allocate_ring e w4)"
  note defs = w1_def [symmetric] w2_def [symmetric] w3_def [symmetric] w4_def [symmetric] w5_def [symmetric]
  have f: "fst (gsw_map_registers e b0 w1)" "fst (gsw_read_capabilities e w2)"
      "fst (gsw_map_framebuffer e b1 n w3)" "fst (gsw_allocate_ring e w4)"
    and r: "snd r = snd (gsw_program_ring e w5)"
    using t by (auto simp: r_def step_and_def defs split: if_splits)
  have b: "binding g l2 l3 s w5"
    unfolding w5_def w4_def w3_def w2_def w1_def
    by (intro enable_decode_binding map_registers_binding read_capabilities_binding
        map_framebuffer_binding allocate_ring_binding assms(1))
  show "ready_ok (vga (snd r))"
    unfolding r
  proof (rule program_ring2d_ready [OF b assms(2)])
    show "gsw_registers (vga w5) \<noteq> 0"
      using map_registers_binding(2) [OF f(1)]
      by (simp add: w5_def allocate_ring_binding w4_def map_framebuffer_binding w3_def
          read_capabilities_binding w2_def)
    show "gsw_capabilities (vga w5) AND 5 = 5"
      using read_capabilities_binding(3) [OF f(2)]
      by (simp add: w5_def allocate_ring_binding w4_def map_framebuffer_binding w3_def)
    show "gsw_framebuffer_linear (vga w5) \<noteq> 0"
      using map_framebuffer_binding(4) [OF f(3)] by (simp add: w5_def allocate_ring_binding w4_def)
    show "gsw_ring (vga w5) \<noteq> 0" "gsw_ring_physical (vga w5) AND 0xFFF = 0"
      using allocate_ring_binding(5) [OF f(4)] by (simp_all add: w5_def)
  qed
qed

lemma bind_device_steps:
  assumes "binding g l2 l3 s w" "s \<noteq> 0"
  shows "binding g l2 l3 s (snd (gsw_bind_device e w))"
    "fst (gsw_bind_device e w) \<Longrightarrow> ready_ok (vga (snd (gsw_bind_device e w)))"
proof -
  define w1 where "w1 = snd (gsw_probe_capability e w)"
  define w2 where "w2 = snd (gsw_probe_bars e w1)"
  have b1: "binding g l2 l3 s w1" using probe_capability_binding [OF assms(1)] by (simp add: w1_def)
  have b2: "binding g l2 l3 s w2" using probe_bars_binding [OF b1] by (simp add: w2_def)
  note d = device_steps [OF b2 assms(2) refl]
  show "binding g l2 l3 s (snd (gsw_bind_device e w))"
    using b1 b2 d(1)
    by (simp add: gsw_bind_device_def Let_def split_beta w1_def [symmetric] w2_def [symmetric]
        split: option.split)
  show "fst (gsw_bind_device e w) \<Longrightarrow> ready_ok (vga (snd (gsw_bind_device e w)))"
    using d(2)
    by (auto simp: gsw_bind_device_def Let_def split_beta w1_def [symmetric] w2_def [symmetric]
        simp del: step_and_true split: option.splits)
qed

lemma static_binding:
  "vga w = gsw_transport_static\<lparr>gsw_semaphore := s\<rparr> \<Longrightarrow> binding (vga3d w) (lock2d w) (lock3d w) s w"
  by (simp add: binding_def gsw_transport_static_def)

lemma rebind_ok:
  assumes "vga_state_ok (vga w)" "gsw3d_ok w" "gsw3d_ready (vga3d w) \<longrightarrow> gsw_is_ready (vga w)"
    and "gsw_semaphore (vga w) \<noteq> 0" and r_def: "r = gsw_rebind_device e w"
  shows "vga_state_ok (vga (snd r))" "gsw3d_ok (snd r)" "lock2d (snd r) = lock2d w"
    "gsw3d_ready (vga3d (snd r)) \<longrightarrow> gsw_is_ready (vga (snd r))"
    "gsw_semaphore (vga (snd r)) = gsw_semaphore (vga w)" "fst r = gsw_is_ready (vga (snd r))"
proof -
  define s where "s = gsw_semaphore (vga w)"
  define w1 where "w1 = (if gsw_is_ready (vga w) \<or> gsw_pci_address_valid (vga w) \<or>
      gsw_registers (vga w) \<noteq> 0 \<or> gsw_ring (vga w) \<noteq> 0 then gsw_transport_shutdown_locked e w else w)"
  define w2 where "w2 = snd (gsw_bind_device e w1)"
  have v1: "vga w1 = gsw_transport_static\<lparr>gsw_semaphore := s\<rparr>" "gsw3d_ok w1" "lock2d w1 = lock2d w"
      "\<not> gsw3d_ready (vga3d w1)"
    using assms(1-3) shutdown_locked_ok [OF assms(2), of e]
    by (auto simp: w1_def s_def shutdown_locked_state vga_state_ok_def gsw3d_transport_static_def)
  note b = bind_device_steps [OF static_binding [OF v1(1)], of e, folded w2_def]
  have s: "s \<noteq> 0" using assms(4) by (simp add: s_def)
  have b2: "vga3d w2 = vga3d w1" "lock2d w2 = lock2d w" "lock3d w2 = lock3d w1"
      "gsw_semaphore (vga w2) = s"
    using b(1) s v1(3) by (simp_all add: binding_def)
  have k2: "gsw3d_ok w2" using v1(2) b2 by (simp add: gsw3d_ok_def)
  define w3 where "w3 = w2\<lparr>vga := (vga w2)\<lparr>gsw_is_ready := True\<rparr>\<rparr>"
  have k3: "gsw3d_ok w3" using k2 by (simp add: gsw3d_ok_def w3_def)
  note i = init3d_ok [OF k3, of e]
  have r: "r = (if \<not> fst (gsw_bind_device e w1) then (False, gsw_transport_shutdown_locked e w2)
      else (True, snd (GSW3D_transport_init e w3)))"
    by (simp add: r_def gsw_rebind_device_def Let_def split_beta w1_def w2_def w3_def)
  have ready: "ready_ok (vga w3)" if "fst (gsw_bind_device e w1)"
    using b(2) [OF s that] by (simp add: ready_ok_def w3_def)
  have dn: "vga (gsw_transport_shutdown_locked e w2) = gsw_transport_static\<lparr>gsw_semaphore := s\<rparr>"
    "\<not> gsw3d_ready (vga3d (gsw_transport_shutdown_locked e w2))"
    "lock2d (gsw_transport_shutdown_locked e w2) = lock2d w"
    by (simp_all add: shutdown_locked_state b2) (simp add: gsw3d_transport_static_def)
  have st: "\<not> gsw_is_ready (gsw_transport_static\<lparr>gsw_semaphore := s\<rparr>)" by (simp add: gsw_transport_static_def)
  show "gsw3d_ok (snd r)" using i(1) shutdown_locked_ok [OF k2] by (simp add: r)
  show "lock2d (snd r) = lock2d w" using i(3) dn(3) b2(2) by (simp add: r w3_def)
  show "gsw_semaphore (vga (snd r)) = gsw_semaphore (vga w)"
    using i(2) dn(1) b2(4) by (simp add: r w3_def s_def)
  show "vga_state_ok (vga (snd r))" "gsw3d_ready (vga3d (snd r)) \<longrightarrow> gsw_is_ready (vga (snd r))"
    "fst r = gsw_is_ready (vga (snd r))"
    using i(2) dn ready st by (simp_all add: r vga_state_ok_def) (simp_all add: w3_def)
qed

lemma shutdown_ok [gsw_inv]:
  assumes "vga_ok w"
  shows "vga_ok (GSW_transport_shutdown e w)"
proof -
  define w1 where "w1 = GSW_shutdown_mark GSW_MARK_TRANSPORT_ACQUIRED
    (if gsw_semaphore (vga w) \<noteq> 0
     then (GSW_shutdown_mark GSW_MARK_TRANSPORT_WAIT w)\<lparr>lock2d := wait_lock (lock2d w)\<rparr>
     else GSW_shutdown_mark GSW_MARK_TRANSPORT_WAIT w)"
  have k: "gsw3d_ok w1" "vga w1 = vga w" using assms by (simp_all add: w1_def vga_ok_def gsw3d_ok_def)
  have l: "gsw_semaphore (vga w) \<noteq> 0 \<Longrightarrow> lock2d w1 = wait_lock (lock2d w)" by (simp add: w1_def)
  have e: "GSW_transport_shutdown e w = (if gsw_semaphore (vga w) \<noteq> 0
      then (gsw_transport_shutdown_locked e w1)
             \<lparr>lock2d := signal_lock (lock2d (gsw_transport_shutdown_locked e w1))\<rparr>
      else gsw_transport_shutdown_locked e w1)"
    using k(2) by (simp add: GSW_transport_shutdown_def Let_def w1_def shutdown_locked_state)
  show ?thesis
    using assms k l shutdown_locked_ok [OF k(1), of e]
    by (simp add: e vga_ok_def vga_state_ok_def gsw3d_ok_def shutdown_locked_state)
       (simp add: gsw_transport_static_def gsw3d_transport_static_def lock_free_def wait_lock_def
         signal_lock_def)
qed

lemma need_semaphore2d:
  assumes "vga_ok w"
  shows "vga_ok (snd (gsw_need_semaphore e w))"
    "fst (gsw_need_semaphore e w) \<Longrightarrow> gsw_semaphore (vga (snd (gsw_need_semaphore e w))) \<noteq> 0"
  using assms
  by (auto simp: gsw_need_semaphore_def Let_def split_beta vga_ok_def gsw3d_ok_def lock_free_def
      vga_state_ok_def ready_ok_def split: if_splits)

lemma initialize_ok [gsw_inv]:
  assumes "vga_ok w"
  shows "vga_ok (snd (gsw_transport_initialize e b w))"
    "fst (gsw_transport_initialize e b w) \<Longrightarrow> gsw_is_ready (vga (snd (gsw_transport_initialize e b w)))"
proof -
  define w1 where "w1 = snd (gsw_need_semaphore e w)"
  note k1 = need_semaphore2d [OF assms, of e, folded w1_def]
  have "vga_ok (snd (gsw_transport_initialize e b w)) \<and>
    (fst (gsw_transport_initialize e b w) \<longrightarrow> gsw_is_ready (vga (snd (gsw_transport_initialize e b w))))"
  proof (cases "fst (gsw_need_semaphore e w)")
    case False
    then show ?thesis using k1(1)
      by (simp add: gsw_transport_initialize_def Let_def split_beta w1_def)
  next
    case True
    note s1 = k1(2) [OF True]
    have l1: "lock_free (lock2d w1)" using k1(1) s1 by (simp add: vga_ok_def)
    define w2 where "w2 = w1\<lparr>lock2d := wait_lock (lock2d w1)\<rparr>"
    define c where "c = step_and (step_if (gsw_is_ready (vga w2))) (gsw_pci_mmio_current e) w2"
    have release: "vga_ok (gsw_end v)"
      if "vga_state_ok (vga v)" "gsw3d_ok v" "lock2d v = lock2d w2"
        "gsw3d_ready (vga3d v) \<longrightarrow> gsw_is_ready (vga v)" for v
      using that l1
      by (simp add: vga_ok_def gsw3d_ok_def)
         (simp add: gsw_end_def w2_def lock_free_def wait_lock_def signal_lock_def)
    have k2: "vga_state_ok (vga w2)" "gsw3d_ok w2" "gsw3d_ready (vga3d w2) \<longrightarrow> gsw_is_ready (vga w2)"
      using k1(1) by (simp_all add: vga_ok_def w2_def gsw3d_ok_def)
    have f: "vga (snd c) = vga w2" "vga3d (snd c) = vga3d w2" "lock2d (snd c) = lock2d w2"
        "lock3d (snd c) = lock3d w2"
      by (simp_all add: c_def step_and_def)
    have k3: "vga_state_ok (vga (snd c))" "gsw3d_ok (snd c)"
        "gsw3d_ready (vga3d (snd c)) \<longrightarrow> gsw_is_ready (vga (snd c))" "gsw_semaphore (vga (snd c)) \<noteq> 0"
      using k2 s1 by (simp_all add: f gsw3d_ok_def) (simp add: w2_def)
    have c_ready: "fst c \<Longrightarrow> gsw_is_ready (vga w2)" by (simp add: c_def)
    note rb = rebind_ok [OF k3 refl, of e]
    have e: "gsw_transport_initialize e b w =
        (if gsw_is_ready (vga w2) \<and> \<not> b then (True, gsw_end w2)
         else if fst c then (True, gsw_end (snd c))
         else (fst (gsw_rebind_device e (snd c)), gsw_end (snd (gsw_rebind_device e (snd c)))))"
      using True by (simp add: gsw_transport_initialize_def Let_def split_beta w1_def w2_def c_def)
    show ?thesis
      unfolding e using release [OF k2(1,2) refl k2(3)] release [OF k3(1,2) f(3) k3(3)]
        release [OF rb(1,2) _ rb(4)] rb(3,6) f(1,3) c_ready by (simp del: step_and_true)
  qed
  then show "vga_ok (snd (gsw_transport_initialize e b w))"
    "fst (gsw_transport_initialize e b w) \<Longrightarrow> gsw_is_ready (vga (snd (gsw_transport_initialize e b w)))"
    by blast+
qed

section \<open>The two transports as one component\<close>

lemma request3d_frame [simp, gsw_frame]:
  "vga (snd (snd (GSW3D_transport_context e c x p w))) = vga w"
  "lock2d (snd (snd (GSW3D_transport_context e c x p w))) = lock2d w"
  "vga (snd (snd (GSW3D_transport_submit e x bs n w))) = vga w"
  "lock2d (snd (snd (GSW3D_transport_submit e x bs n w))) = lock2d w"
  "vga (snd (snd (GSW3D_transport_upload e x lo hi bs n w))) = vga w"
  "lock2d (snd (snd (GSW3D_transport_upload e x lo hi bs n w))) = lock2d w"
  "vga (snd (snd (GSW3D_transport_present e r w))) = vga w"
  "lock2d (snd (snd (GSW3D_transport_present e r w))) = lock2d w"
  "vga (snd (snd (GSW3D_transport_fence_poll e q w))) = vga w"
  "lock2d (snd (snd (GSW3D_transport_fence_poll e q w))) = lock2d w"
  "vga (snd (GSW3D_transport_query w)) = vga w"
  "lock2d (snd (GSW3D_transport_query w)) = lock2d w"
  by (simp_all add: GSW3D_transport_context_def GSW3D_transport_submit_def GSW3D_transport_upload_def
      GSW3D_transport_present_def GSW3D_transport_fence_poll_def GSW3D_transport_query_def
      gsw3d_end_def Let_def split_beta split: option.split)

lemma request3d_ready [simp, gsw_frame]:
  "gsw3d_ready (vga3d (snd (snd (GSW3D_transport_context e c x p w)))) = gsw3d_ready (vga3d w)"
  "gsw3d_ready (vga3d (snd (snd (GSW3D_transport_submit e x bs n w)))) = gsw3d_ready (vga3d w)"
  "gsw3d_ready (vga3d (snd (snd (GSW3D_transport_upload e x lo hi bs n w)))) = gsw3d_ready (vga3d w)"
  "gsw3d_ready (vga3d (snd (snd (GSW3D_transport_present e r w)))) = gsw3d_ready (vga3d w)"
  "gsw3d_ready (vga3d (snd (snd (GSW3D_transport_fence_poll e q w)))) = gsw3d_ready (vga3d w)"
  "gsw3d_ready (vga3d (snd (GSW3D_transport_query w))) = gsw3d_ready (vga3d w)"
  by (simp_all add: GSW3D_transport_context_def GSW3D_transport_submit_def GSW3D_transport_upload_def
      GSW3D_transport_present_def GSW3D_transport_fence_poll_def GSW3D_transport_query_def
      gsw3d_end_def Let_def split_beta split: option.split)

lemma cleanup_slot3d_frame [simp, gsw_frame]:
  "vga (gsw3d_cleanup_slot e p k w) = vga w" "lock2d (gsw3d_cleanup_slot e p k w) = lock2d w"
  "gsw3d_ready (vga3d (gsw3d_cleanup_slot e p k w)) = gsw3d_ready (vga3d w)"
  by (simp_all add: gsw3d_cleanup_slot_def Let_def split_beta)

lemma cleanup_fold3d_frame [simp, gsw_frame]:
  "vga (fold (gsw3d_cleanup_slot e p) ks w) = vga w"
  "lock2d (fold (gsw3d_cleanup_slot e p) ks w) = lock2d w"
  "gsw3d_ready (vga3d (fold (gsw3d_cleanup_slot e p) ks w)) = gsw3d_ready (vga3d w)"
  by (induction ks arbitrary: w) simp_all

lemma cleanup3d_frame [simp, gsw_frame]:
  "vga (GSW3D_transport_process_cleanup e p w) = vga w"
  "lock2d (GSW3D_transport_process_cleanup e p w) = lock2d w"
  "gsw3d_ready (vga3d (GSW3D_transport_process_cleanup e p w)) = gsw3d_ready (vga3d w)"
  by (simp_all add: GSW3D_transport_process_cleanup_def gsw3d_end_def Let_def split_beta)

lemma vga_ok_3d:
  "vga_ok w \<Longrightarrow> gsw3d_ok w' \<Longrightarrow> vga w' = vga w \<Longrightarrow> lock2d w' = lock2d w \<Longrightarrow>
   gsw3d_ready (vga3d w') = gsw3d_ready (vga3d w) \<Longrightarrow> vga_ok w'"
  by (simp add: vga_ok_def)

text \<open>The calls that reach the two files, in any order.\<close>

datatype vga_call =
    Call_Init
  | Call_Rebind
  | Call_Shutdown
  | Call_Set_Mode u32 u32 u32 u32
  | Call_Present u32 u32 u32 u32 u32
  | Call_Fill u32 u32 u32 u32 u32 u32
  | Call_Copy u32 u32 u32 u32 u32 u32 u32
  | Call_Register GSWDDRegister u32
  | Call_Unregister u32
  | Call_Surface_Fill GSWDDFill
  | Call_Surface_Blt GSWDDBlt
  | Call_Surface_Present u32
  | Call_Surface_Dirty GSWDDDirty
  | Call_Gdi_Blt GSWGdiBltCommand u32
  | Call_Process_Exit u32
  | Call_3d_Context bool u32 u32
  | Call_3d_Submit u32 "u8 list" u32
  | Call_3d_Upload u32 u32 u32 "u8 list" u32
  | Call_3d_Present GSW3DPresentRequest
  | Call_3d_Poll GSW3DFencePollRequest
  | Call_3d_Query

fun vga_perform :: "'d gsw_env \<Rightarrow> vga_call \<Rightarrow> 'd gsw_world \<Rightarrow> 'd gsw_world" where
  "vga_perform e Call_Init w = snd (GSW_transport_init e w)"
| "vga_perform e Call_Rebind w = snd (GSW_transport_rebind e w)"
| "vga_perform e Call_Shutdown w = GSW_transport_shutdown e w"
| "vga_perform e (Call_Set_Mode a b c d) w = snd (GSW_transport_set_mode e a b c d w)"
| "vga_perform e (Call_Present a b c d f) w = snd (GSW_transport_present e a b c d f w)"
| "vga_perform e (Call_Fill a b c d f g) w = snd (GSW_transport_fill e a b c d f g w)"
| "vga_perform e (Call_Copy a b c d f g h) w = snd (GSW_transport_copy e a b c d f g h w)"
| "vga_perform e (Call_Register r p) w = snd (GSW_transport_surface_register e r p w)"
| "vga_perform e (Call_Unregister s) w = snd (GSW_transport_surface_unregister e s w)"
| "vga_perform e (Call_Surface_Fill r) w = snd (GSW_transport_surface_fill e r w)"
| "vga_perform e (Call_Surface_Blt r) w = snd (GSW_transport_surface_blt e r w)"
| "vga_perform e (Call_Surface_Present s) w = snd (GSW_transport_surface_present e s w)"
| "vga_perform e (Call_Surface_Dirty r) w = snd (GSW_transport_surface_dirty e r w)"
| "vga_perform e (Call_Gdi_Blt r n) w = snd (GSW_transport_gdi_blt e r n w)"
| "vga_perform e (Call_Process_Exit p) w =
     GSW3D_transport_process_cleanup e p (GSW_transport_process_cleanup e p w)"
| "vga_perform e (Call_3d_Context c x p) w = snd (snd (GSW3D_transport_context e c x p w))"
| "vga_perform e (Call_3d_Submit x bs n) w = snd (snd (GSW3D_transport_submit e x bs n w))"
| "vga_perform e (Call_3d_Upload x lo hi bs n) w = snd (snd (GSW3D_transport_upload e x lo hi bs n w))"
| "vga_perform e (Call_3d_Present r) w = snd (snd (GSW3D_transport_present e r w))"
| "vga_perform e (Call_3d_Poll q) w = snd (snd (GSW3D_transport_fence_poll e q w))"
| "vga_perform e Call_3d_Query w = snd (GSW3D_transport_query w)"

lemma vga_ok_gsw3d: "vga_ok w \<Longrightarrow> gsw3d_ok w"
  by (simp add: vga_ok_def)

lemma perform3d_ok:
  assumes "vga_ok w"
  shows "vga_ok (snd (snd (GSW3D_transport_context e c x p w)))"
    "vga_ok (snd (snd (GSW3D_transport_submit e x bs n w)))"
    "vga_ok (snd (snd (GSW3D_transport_upload e x lo hi bs n w)))"
    "vga_ok (snd (snd (GSW3D_transport_present e r w)))"
    "vga_ok (snd (snd (GSW3D_transport_fence_poll e q w)))"
    "vga_ok (snd (GSW3D_transport_query w))"
    "vga_ok (GSW3D_transport_process_cleanup e p w)"
  using assms vga_ok_gsw3d [OF assms]
  by (auto intro!: vga_ok_3d [OF assms] context_step(1) [OF _ refl] submit_request_ok upload_request_ok
      present_request_ok fence_poll_ok query_ok cleanup3d_ok)

lemma perform_vga_ok: "vga_ok w \<Longrightarrow> vga_ok (vga_perform e c w)"
  by (cases c) (simp_all add: GSW_transport_init_def GSW_transport_rebind_def initialize_ok shutdown_ok
      request_ok register_step(1) [OF _ refl] unregister_ok cleanup2d_ok perform3d_ok)

definition vga_start :: "'d gsw_bus \<Rightarrow> 'd gsw_world" where
  "vga_start b = \<lparr>vga = gsw_transport_static, vga3d = gsw3d_transport_static,
     lock2d = \<lparr>tokens = 0, stuck = False\<rparr>, lock3d = \<lparr>tokens = 0, stuck = False\<rparr>, markers = [], bus = b\<rparr>"

interpretation transports: started_component "vga_perform e" vga_ok "vga_start b"
  for e :: "'d gsw_env" and b
proof
  show "vga_ok (vga_start b)"
    using static3d_ok [of 0]
    by (simp add: vga_ok_def vga_start_def vga_state_ok_def gsw3d_ok_def)
       (simp add: gsw_transport_static_def gsw3d_transport_static_def)
qed (rule perform_vga_ok)

section \<open>Properties\<close>

text \<open>
  C1. For every device, PCI bus and VMM behaviour and every sequence of calls into the two
  transports: no call waits for a semaphore it already holds and each leaves both semaphores
  free; while the device is not bound the 2D state is as at load time, so a failed or undone
  binding leaves nothing behind; while it is bound, ring, registers and framebuffer are mapped,
  the tail lies in the ring, no fence is zero, and every registered surface sits in the slot of
  its identifier, has an owner and lies inside the framebuffer; the 3D transport runs only over
  a bound device and holds its two pages exactly while it runs.
\<close>

theorem vga_reachable_ok: "vga_ok (fold (vga_perform e) calls (vga_start b))"
  by (rule transports.reachable_ok)

text \<open>
  A 2D submission is all or nothing: it is refused without effect, or it fails and only the
  tail is moved to where the device stands, or it succeeds and exactly the tail and the fence
  move on.
\<close>

theorem vga_submission_atomic:
  "submission_effect (fst (gsw_submit_locked e c w)) (vga w) (vga (snd (gsw_submit_locked e c w))) \<and>
   submission_effect (fst (gsw_submit_gdi_locked e c w)) (vga w) (vga (snd (gsw_submit_gdi_locked e c w)))"
  by (simp add: submit2d_effect submit_gdi_effect)

text \<open>
  The ring copy of the 2D transport, in two pieces at most, and the one of the 3D transport,
  byte by byte under a mask, write the same ring.
\<close>

theorem vga_ring_copies_agree:
  assumes "unat offset < 0x1000" "unat len \<le> 0x1000" "unat len \<le> length src"
  shows "gsw_ring_copy offset src len rm = gsw3d_ring_copy offset src len rm"
  using assms by (rule ring_writers_agree)

theorem vga_ring_copies_agree_witness:
  "gsw_ring_copy 0xFFE [1, 2, 3, 4] 4 (\<lambda>_. 0) = gsw3d_ring_copy 0xFFE [1, 2, 3, 4] 4 (\<lambda>_. 0) \<and>
   gsw_ring_copy 0xFFE [1, 2, 3, 4] 4 (\<lambda>_. 0) 1 = 4"
proof -
  have "gsw_ring_copy 0xFFE [1, 2, 3, 4] 4 (\<lambda>_. 0) = gsw3d_ring_copy 0xFFE [1, 2, 3, 4] 4 (\<lambda>_. 0)"
    by (rule vga_ring_copies_agree) simp_all
  moreover have "gsw_ring_copy 0xFFE [1, 2, 3, 4] 4 (\<lambda>_. 0) 1 = 4"
    by (simp add: ring_copy_at)
  ultimately show ?thesis by simp
qed

definition gdi_area_inside :: "u32 \<Rightarrow> u32 \<Rightarrow> u32 \<Rightarrow> u32 \<Rightarrow> u32 \<Rightarrow> GSWGdiBltCommand \<Rightarrow> bool" where
  "gdi_area_inside fb offset pitch x y r \<longleftrightarrow>
     unat offset + (unat y + (unat (gd_height r) - 1)) * unat pitch
       + (unat x + unat (gd_width r)) * unat (gsw_format_bytes (gd_format r)) \<le> unat fb"

lemma gdi_not_refused:
  assumes "\<not> gsw_gdi_refused fb r"
  shows "gdi_area_inside fb (gd_destination_offset r) (gd_destination_pitch r) (gd_destination_x r)
      (gd_destination_y r) r"
    and "gsw_gdi_source_dependent (ucast (gd_rop3 r)) \<Longrightarrow>
      gdi_area_inside fb (gd_source_offset r) (gd_source_pitch r) (gd_source_x r) (gd_source_y r) r"
  using assms
  by (simp_all add: gsw_gdi_refused_def gsw_gdi_source_valid_def gdi_area_inside_def
      gdi_rect_valid_iff Let_def split: if_splits)

text \<open>
  C21. A GDI blit leaves the world untouched or has its destination, and its source where its
  operation reads one, inside the framebuffer.
\<close>

theorem vga_gdi_blt_inside:
  "GSW_transport_gdi_blt e r n w = (False, w) \<or>
   gdi_area_inside (gsw_framebuffer_size (vga w)) (gd_destination_offset r) (gd_destination_pitch r)
     (gd_destination_x r) (gd_destination_y r) r \<and>
   (if gsw_gdi_source_dependent (ucast (gd_rop3 r))
    then gdi_area_inside (gsw_framebuffer_size (vga w)) (gd_source_offset r) (gd_source_pitch r)
           (gd_source_x r) (gd_source_y r) r else True)"
  using gdi_not_refused [of "gsw_framebuffer_size (vga w)" r]
  by (cases "gsw_gdi_refused (gsw_framebuffer_size (vga w)) r")
     (simp_all add: GSW_transport_gdi_blt_def)

text \<open>A bound device that executes each command at once, for the examples.\<close>

definition obedient2d_env :: "(u32 \<Rightarrow> u32) gsw_env" where
  "obedient2d_env = obedient_env\<lparr>
     mmio_write := (\<lambda>r v b. b\<lparr>outside := (if r = GSW_VGA_REG_DOORBELL
        then (outside b)(GSW_VGA_REG_RING_HEAD := outside b GSW_VGA_REG_RING_TAIL,
               GSW_VGA_REG_FENCE_LOW := outside b GSW_VGA_REG_FENCE_LOW + 1)
        else (outside b)(r := v))\<rparr>)\<rparr>"

definition ready2d_world :: "(u32 \<Rightarrow> u32) gsw_world" where
  "ready2d_world = (vga_start \<lparr>ring2d = (\<lambda>_. 0), ring3d = (\<lambda>_. 0), staging = (\<lambda>_. 0),
       outside = (\<lambda>r. if r = GSW_VGA_REG_STATUS then 1 else 0)\<rparr>)
     \<lparr>vga := gsw_transport_static\<lparr>gsw_registers := 0x1000, gsw_ring := 0x2000,
        gsw_framebuffer_linear := 0x3000, gsw_framebuffer_size := 0x100000, gsw_capabilities := 0x35,
        gsw_semaphore := 1, gsw_is_ready := True\<rparr>,
      lock2d := \<lparr>tokens = 1, stuck = False\<rparr>\<rparr>"

definition example_surface :: GSWDDRegister where
  "example_surface = \<lparr>rg_cb = 36, rg_offset = 0x4000, rg_byte_size = 0x10000, rg_width = 128,
     rg_height = 64, rg_pitch = 512, rg_bpp = 32, rg_flags = 1, rg_surface_id = 0\<rparr>"

lemma ready2d_world_ok: "vga_ok ready2d_world"
  using static3d_ok [of 0]
  by (simp add: ready2d_world_def vga_start_def vga_ok_def vga_state_ok_def ready_ok_def gsw3d_ok_def
      lock_free_def surface_table_ok_def)
    (simp add: gsw_transport_static_def gsw3d_transport_static_def)

lemmas obedient2d_eval = obedient2d_env_def obedient_env_def ready2d_world_def vga_start_def
  gsw_transport_static_def gsw_submit_locked_def gsw_idle_def gsw_taken_def gsw_post_def gsw_store_def
  register_is_def step_and_def step_if_def gsw_register_read_def gsw_register_write_def on_bus_def
  new_command_def command_size_def gsw_stamp_def gsw_commit_def GSW_VGA_REG_STATUS_def GSW_VGA_REG_RING_HEAD_def
  GSW_VGA_REG_RING_TAIL_def GSW_VGA_REG_DOORBELL_def GSW_VGA_REG_FENCE_LOW_def
  GSW_VGA_REG_FENCE_HIGH_def GSW_VGA_STATUS_READY_def GSW_VGA_STATUS_ERROR_def GSW_VGA_RING_BYTES_def
  GSW_VGA_REG_IRQ_STATUS_def Let_def split_beta

lemma example_submit2d:
  assumes "vga w = (vga ready2d_world)\<lparr>gsw_next_surface_id := n\<rparr>"
    "outside (bus w) = outside (bus ready2d_world)" "length (body c) = 8"
  shows "fst (gsw_submit_locked obedient2d_env c w)"
  using assms by (simp add: obedient2d_eval)

lemma example_register:
  "fst (GSW_transport_surface_register obedient2d_env example_surface 77 ready2d_world) = Some 1"
proof -
  let ?w1 = "snd (gsw_begin ready2d_world)"
  have "fst (gsw_begin ready2d_world)"
    by (simp add: begin2d_entered ready2d_world_def)
  moreover have "\<not> gsw_register_refused (vga ready2d_world) example_surface"
    by (simp add: gsw_register_refused_def ready2d_world_def example_surface_def gsw_surface_valid_def
        gsw_bytes_per_pixel_def GSW_VGA_CAP_SURFACE_IDS_def GSW_DD_SURFACE_PRESENTABLE_def Let_def)
  moreover have "gsw_surface_allocate 256 (gsw_surfaces (vga ready2d_world)) 1 = (Some 1, 2)"
  proof -
    have "(256::nat) = Suc 255" by simp
    then show ?thesis by (simp only: gsw_surface_allocate.simps)
        (simp add: ready2d_world_def gsw_transport_static_def surface_zero_def)
  qed
  moreover have "gsw_next_surface_id (vga ready2d_world) = 1"
    by (simp add: ready2d_world_def gsw_transport_static_def)
  moreover have "fst (gsw_submit_locked obedient2d_env
      (new_command GSW_VGA_OPCODE_REGISTER_SURFACE (GSWRegisterSurfaceCommand 1 example_surface))
      (?w1\<lparr>vga := (vga ready2d_world)\<lparr>gsw_next_surface_id := 2\<rparr>\<rparr>))"
    by (rule example_submit2d [where n = 2])
       (simp_all add: new_command_def GSWRegisterSurfaceCommand_def gsw_begin_def Let_def)
  ultimately show ?thesis
    by (simp add: GSW_transport_surface_register_def Let_def split_beta example_surface_def)
qed

lemma surfaces_length:
  assumes "vga_ok w"
  shows "length (gsw_surfaces (vga w)) = 256"
proof (cases "gsw_is_ready (vga w)")
  case False
  with assms have "vga w = gsw_transport_static\<lparr>gsw_semaphore := gsw_semaphore (vga w)\<rparr>"
    by (simp add: vga_ok_def vga_state_ok_def)
  then have "gsw_surfaces (vga w) = gsw_surfaces (gsw_transport_static\<lparr>gsw_semaphore := gsw_semaphore (vga w)\<rparr>)"
    by (rule arg_cong)
  then show ?thesis by (simp add: gsw_transport_static_def)
qed (use assms in \<open>simp add: vga_ok_def vga_state_ok_def ready_ok_def surface_table_ok_def\<close>)

lemma record_after_set:
  assumes "length (gsw_surfaces g) = 256" "sid \<noteq> 0" "sf_id s = sid"
    and "sf_id (gsw_surfaces g ! unat (sid AND 255)) = 0"
    and g': "gsw_surfaces g' = (gsw_surfaces g)[unat (sid AND 255) := s]"
  shows "(\<lambda>x. gsw_surface_record x g') = (\<lambda>x. gsw_surface_record x g)(sid := Some s)"
proof
  fix x :: u32
  have b: "unat (x AND 255) < length (gsw_surfaces g)" for x :: u32 using slot_bound [of x] assms(1) by simp
  consider "x = sid" | "x \<noteq> sid" "unat (x AND 255) = unat (sid AND 255)"
    | "unat (x AND 255) \<noteq> unat (sid AND 255)" by blast
  then show "gsw_surface_record x g' = ((\<lambda>x. gsw_surface_record x g)(sid := Some s)) x"
  proof cases
    case 1
    then show ?thesis using assms(2,3) b by (simp add: gsw_surface_record_def gsw_surface_find_def Let_def g')
  next
    case 2
    then show ?thesis using assms(3,4) b [of sid]
      by (auto simp: gsw_surface_record_def gsw_surface_find_def Let_def g')
  next
    case 3
    then show ?thesis
      by (auto simp: gsw_surface_record_def gsw_surface_find_def Let_def g' nth_list_update)
  qed
qed

text \<open>
  Registering a surface and looking it up: the identifier returned is new, from then on it
  finds the record of the request with its owner, and what every other identifier finds is
  unchanged; a registration that fails changes no lookup.
\<close>

theorem vga_surface_register_lookup:
  assumes "vga_ok w"
  shows "case GSW_transport_surface_register e r p w of
    (None, w') \<Rightarrow> (\<lambda>x. gsw_surface_record x (vga w')) = (\<lambda>x. gsw_surface_record x (vga w))
  | (Some sid, w') \<Rightarrow> gsw_surface_record sid (vga w) = None \<and>
      (\<lambda>x. gsw_surface_record x (vga w')) =
        (\<lambda>x. gsw_surface_record x (vga w))(sid := Some (gsw_surface_of sid p r))"
proof -
  obtain f w' where x: "GSW_transport_surface_register e r p w = (f, w')" by fastforce
  note s = register_step(2) [OF assms refl, of e r p, unfolded x]
  show ?thesis
  proof (cases f)
    case None
    with s show ?thesis by (simp add: x gsw_surface_record_def gsw_surface_find_def fun_eq_iff)
  next
    case (Some sid)
    define k where "k = unat (sid AND 255)"
    have d: "sid \<noteq> 0" "sf_id (gsw_surfaces (vga w) ! k) = 0"
      "\<not> gsw_register_refused (vga w) r"
      "gsw_surfaces (vga w') = (gsw_surfaces (vga w))[k := gsw_surface_of sid p r]"
      using s Some by (simp_all add: k_def)
    have "gsw_surface_record sid (vga w) = None"
      using d(1,2) by (auto simp: gsw_surface_record_def gsw_surface_find_def Let_def k_def)
    moreover have "(\<lambda>x. gsw_surface_record x (vga w')) =
        (\<lambda>x. gsw_surface_record x (vga w))(sid := Some (gsw_surface_of sid p r))"
      using surfaces_length [OF assms] d by (intro record_after_set) (simp_all add: gsw_surface_of_def k_def)
    ultimately show ?thesis by (simp add: x Some)
  qed
qed

theorem vga_surface_register_lookup_witness:
  "\<exists>w'. GSW_transport_surface_register obedient2d_env example_surface 77 ready2d_world = (Some 1, w') \<and>
     gsw_surface_record 1 (vga w') = Some (gsw_surface_of 1 77 example_surface)"
proof -
  obtain w' where e: "GSW_transport_surface_register obedient2d_env example_surface 77 ready2d_world
      = (Some 1, w')" using example_register by (metis fst_conv prod.exhaust)
  with vga_surface_register_lookup [OF ready2d_world_ok,
      where e = obedient2d_env and r = example_surface and p = 77]
  show ?thesis by (auto simp: fun_eq_iff)
qed

text \<open>
  When a process ends, the surfaces it owns and no others can no longer be found.
\<close>

theorem vga_surface_cleanup_exact:
  assumes "vga_ok w" "p \<noteq> 0" "gsw_is_ready (vga w)"
  shows "(\<lambda>x. gsw_surface_record x (vga (GSW_transport_process_cleanup e p w))) =
    (\<lambda>x. case gsw_surface_record x (vga w) of
        None \<Rightarrow> None | Some s \<Rightarrow> if sf_owner_pid s = p then None else Some s)"
proof
  fix x :: u32
  let ?w1 = "snd (gsw_begin w)"
  let ?v = "fold (gsw_cleanup_slot e p) [0..<256] ?w1"
  have sem: "gsw_semaphore (vga w) \<noteq> 0"
    using assms(1,3) by (simp add: vga_ok_def vga_state_ok_def ready_ok_def)
  then have en: "fst (gsw_begin w)" using assms(3) by (simp add: begin2d_entered)
  have v: "vga (GSW_transport_process_cleanup e p w) = vga ?v"
    using assms(2) en by (simp add: GSW_transport_process_cleanup_def Let_def split_beta)
  let ?k = "unat (x AND 255)"
  have "gsw_surfaces (vga ?v) ! ?k = (if sf_id (gsw_surfaces (vga w) ! ?k) \<noteq> 0 \<and>
      sf_owner_pid (gsw_surfaces (vga w) ! ?k) = p then surface_zero else gsw_surfaces (vga w) ! ?k)"
    using cleanup2d_fold [OF begin2d_inside [OF assms(1) en] order_refl, of e p] slot_bound [of x]
    by simp
  then show "gsw_surface_record x (vga (GSW_transport_process_cleanup e p w)) =
      (case gsw_surface_record x (vga w) of
        None \<Rightarrow> None | Some s \<Rightarrow> if sf_owner_pid s = p then None else Some s)"
    unfolding v by (auto simp: gsw_surface_record_def gsw_surface_find_def Let_def surface_zero_def)
qed

theorem vga_surface_cleanup_exact_witness:
  "gsw_surface_record 1 (vga (GSW_transport_process_cleanup obedient2d_env 77
     (snd (GSW_transport_surface_register obedient2d_env example_surface 77 ready2d_world)))) = None"
proof -
  let ?w = "snd (GSW_transport_surface_register obedient2d_env example_surface 77 ready2d_world)"
  have ok: "vga_ok ?w" by (rule register_step(1) [OF ready2d_world_ok refl])
  have s: "gsw_surfaces (vga ?w) = (gsw_surfaces (vga ready2d_world))[1 := gsw_surface_of 1 77 example_surface]"
    using register_step(2) [OF ready2d_world_ok refl, where e = obedient2d_env and r = example_surface and p = 77]
    by (simp add: example_register)
  have len: "length (gsw_surfaces (vga ready2d_world)) = 256"
    by (rule surfaces_length [OF ready2d_world_ok])
  have r: "gsw_is_ready (vga ?w)"
  proof (rule ccontr)
    assume "\<not> gsw_is_ready (vga ?w)"
    with ok have "vga ?w = gsw_transport_static\<lparr>gsw_semaphore := gsw_semaphore (vga ?w)\<rparr>"
      by (simp add: vga_ok_def vga_state_ok_def)
    then have "gsw_surfaces (vga ?w) = gsw_surfaces (gsw_transport_static\<lparr>gsw_semaphore := gsw_semaphore (vga ?w)\<rparr>)"
      by (rule arg_cong)
    then have "gsw_surfaces (vga ?w) ! 1 = surface_zero" by (simp add: gsw_transport_static_def)
    with s len show False by (simp add: gsw_surface_of_def surface_zero_def)
  qed
  have "gsw_surface_record 1 (vga ?w) = Some (gsw_surface_of 1 77 example_surface)"
    using len by (simp add: gsw_surface_record_def gsw_surface_find_def s gsw_surface_of_def)
  then show ?thesis
    using fun_cong [OF vga_surface_cleanup_exact [OF ok _ r, where p = 77 and e = obedient2d_env], of 1]
    by (simp add: gsw_surface_of_def)
qed

text \<open>
  C20. When the 2D doorbell is rung, the ring holds the whole command from the old tail on, with
  the version of its kind, its length and the current fence in the header, and nothing beyond the
  ring has been written. This is the step by which \<open>gsw_submit_locked\<close> rings the doorbell; the
  fast path for GDI rings its own.
\<close>

theorem vga_doorbell_sees_command:
  assumes "gsw_ring_tail (vga w) < 0x1000" "length (body c) < 1020"
  shows "\<exists>b. bus (gsw_post e (gsw_stamp (vga w) (gsw_command_version (opcode (header c))) c) t w) =
      mmio_write e GSW_VGA_REG_DOORBELL 1 (mmio_write e GSW_VGA_REG_RING_TAIL t b) \<and>
    ring_unread (ring2d b) 0x1000 (gsw_ring_tail (vga w)) (16 + 4 * length (body c)) =
      command_bytes \<lparr>header = \<lparr>opcode = opcode (header c),
        version = (if opcode (header c) = 13 then 4 else if opcode (header c) \<ge> 7 then 3 else 2),
        cmd_length = of_nat (16 + 4 * length (body c)), fence_low = gsw_fence_low (vga w),
        fence_high = gsw_fence_high (vga w)\<rparr>, body = body c\<rparr> \<and>
    (\<forall>x. x \<ge> 0x1000 \<longrightarrow> ring2d b x = ring2d (bus w) x)"
proof -
  define s where "s = gsw_stamp (vga w) (gsw_command_version (opcode (header c))) c"
  define b where "b = bus (gsw_store s w)"
  have len: "unat (command_size s) = length (command_bytes s)" "body s = body c"
    using assms(2) by (simp_all add: s_def gsw_stamp_def command_size_bytes)
  have fit: "unat (gsw_ring_tail (vga w)) < unat GSW_VGA_RING_BYTES"
    "unat (command_size s) \<le> unat GSW_VGA_RING_BYTES" "unat (command_size s) \<le> length (command_bytes s)"
    using assms len by (simp_all add: GSW_VGA_RING_BYTES_def word_less_nat_alt)
  have "bus (gsw_post e s t w) =
      mmio_write e GSW_VGA_REG_DOORBELL 1 (mmio_write e GSW_VGA_REG_RING_TAIL t b)"
    by (simp add: gsw_post_def gsw_register_write_def b_def)
  moreover have "ring_unread (ring2d b) 0x1000 (gsw_ring_tail (vga w)) (16 + 4 * length (body c))
      = command_bytes s"
    using ring2d.copy_read_back [OF fit, of "ring2d (bus w)"] len
    by (simp add: b_def gsw_store_def GSW_VGA_RING_BYTES_def)
  moreover have "ring2d b x = ring2d (bus w) x" if "x \<ge> 0x1000" for x
    using ring2d.copy_beyond [OF fit, of x "ring2d (bus w)"] that
    by (simp add: b_def gsw_store_def GSW_VGA_RING_BYTES_def)
  moreover have "s = \<lparr>header = \<lparr>opcode = opcode (header c),
        version = (if opcode (header c) = 13 then 4 else if opcode (header c) \<ge> 7 then 3 else 2),
        cmd_length = of_nat (16 + 4 * length (body c)), fence_low = gsw_fence_low (vga w),
        fence_high = gsw_fence_high (vga w)\<rparr>, body = body c\<rparr>"
    by (simp add: s_def gsw_stamp_def gsw_command_version_def command_size_def GSW_VGA_OPCODE_GDI_BLT_def
        GSW_VGA_OPCODE_REGISTER_SURFACE_def GSW_VGA_COMMAND_VERSION_2_def
        GSW_VGA_COMMAND_VERSION_3_def GSW_VGA_COMMAND_VERSION_4_def)
  ultimately show ?thesis unfolding s_def by auto
qed

theorem vga_doorbell_sees_command_witness:
  "\<exists>b. bus (gsw_post obedient2d_env (gsw_stamp (vga ready2d_world) 3 (new_command 8 [5])) 20 ready2d_world) =
      mmio_write obedient2d_env GSW_VGA_REG_DOORBELL 1 (mmio_write obedient2d_env GSW_VGA_REG_RING_TAIL 20 b) \<and>
    ring_unread (ring2d b) 0x1000 0 20 = [8, 0, 3, 0, 20, 0, 0, 0, 1, 0, 0, 0, 0, 0, 0, 0, 5, 0, 0, 0]"
proof -
  have h: "gsw_ring_tail (vga ready2d_world) < 0x1000" "length (body (new_command 8 [5])) < 1020"
      "gsw_ring_tail (vga ready2d_world) = 0" "gsw_fence_low (vga ready2d_world) = 1"
      "gsw_fence_high (vga ready2d_world) = 0"
      "gsw_command_version (opcode (header (new_command 8 [5]))) = 3"
    by (simp_all add: ready2d_world_def gsw_transport_static_def new_command_def gsw_command_version_def
        GSW_VGA_OPCODE_GDI_BLT_def GSW_VGA_OPCODE_REGISTER_SURFACE_def GSW_VGA_COMMAND_VERSION_3_def)
  show ?thesis
    using vga_doorbell_sees_command [OF h(1,2), where e = obedient2d_env and t = 20]
    by (simp only: h(3-6)) (auto simp: new_command_def command_bytes_def header_bytes_def le16_def
        le32_def drop_bit_eq_div)
qed

end
