(* ===== verification/Vga_Ioctl.thy ===== *)
theory Vga_Ioctl
  imports Vga_Correctness
begin

text \<open>
  The DeviceIoControl entries of the display driver: \<open>gsw_ddraw.c\<close> (DirectDraw surfaces)
  and \<open>gsw3d_ioctl.c\<close> (3D contexts, batches, uploads, presents). Both receive a parameter
  block of VWIN32 with the addresses and sizes of two buffers in the caller's memory, check
  shape and range, decode the packed request, call the transport and write the packed answer
  back. The caller's memory is a function from linear addresses to bytes beside the world of
  the transports; the pointers to the parameter block and to the result word are never null
  (the two callers pass the address of the block VWIN32 gave and of a local variable).
\<close>

section \<open>Constants\<close>

definition GSW3D_IOCTL_QUERY :: u32 where "GSW3D_IOCTL_QUERY = 0x47530100"
definition GSW3D_IOCTL_CONTEXT_CREATE :: u32 where "GSW3D_IOCTL_CONTEXT_CREATE = 0x47530101"
definition GSW3D_IOCTL_CONTEXT_DESTROY :: u32 where "GSW3D_IOCTL_CONTEXT_DESTROY = 0x47530102"
definition GSW3D_IOCTL_SUBMIT :: u32 where "GSW3D_IOCTL_SUBMIT = 0x47530103"
definition GSW3D_IOCTL_UPLOAD :: u32 where "GSW3D_IOCTL_UPLOAD = 0x47530104"
definition GSW3D_IOCTL_PRESENT :: u32 where "GSW3D_IOCTL_PRESENT = 0x47530105"
definition GSW3D_IOCTL_FENCE_POLL :: u32 where "GSW3D_IOCTL_FENCE_POLL = 0x47530106"
definition GSW3D_IOCTL_FIRST :: u32 where "GSW3D_IOCTL_FIRST = GSW3D_IOCTL_QUERY"
definition GSW3D_IOCTL_LAST :: u32 where "GSW3D_IOCTL_LAST = GSW3D_IOCTL_FENCE_POLL"
definition GSW3D_MAX_DIOC_INPUT :: u32 where "GSW3D_MAX_DIOC_INPUT = 20 + GSW3D_STAGING_BYTES"
definition GSW_DD_ABI_VERSION :: u32 where "GSW_DD_ABI_VERSION = 1"
definition GSW_DD_CAP_SURFACE_IDS :: u32 where "GSW_DD_CAP_SURFACE_IDS = 1"
definition GSW_DD_CAP_FILL :: u32 where "GSW_DD_CAP_FILL = 2"
definition GSW_DD_CAP_BLT :: u32 where "GSW_DD_CAP_BLT = 4"
definition GSW_DD_CAP_PRESENT :: u32 where "GSW_DD_CAP_PRESENT = 8"
definition GSW_DD_CAP_DIRTY_RECT :: u32 where "GSW_DD_CAP_DIRTY_RECT = 0x10"
definition GSW_DD_CAP_DST_COLOR_KEY :: u32 where "GSW_DD_CAP_DST_COLOR_KEY = 0x20"
definition GSW_DD_IOCTL_QUERY :: u32 where "GSW_DD_IOCTL_QUERY = 0x47530001"
definition GSW_DD_IOCTL_REGISTER :: u32 where "GSW_DD_IOCTL_REGISTER = 0x47530002"
definition GSW_DD_IOCTL_UNREGISTER :: u32 where "GSW_DD_IOCTL_UNREGISTER = 0x47530003"
definition GSW_DD_IOCTL_FILL :: u32 where "GSW_DD_IOCTL_FILL = 0x47530004"
definition GSW_DD_IOCTL_BLT :: u32 where "GSW_DD_IOCTL_BLT = 0x47530005"
definition GSW_DD_IOCTL_PRESENT :: u32 where "GSW_DD_IOCTL_PRESENT = 0x47530006"
definition GSW_DD_IOCTL_DIRTY :: u32 where "GSW_DD_IOCTL_DIRTY = 0x47530007"

lemmas ioctl_codes =
  GSW3D_IOCTL_QUERY_def GSW3D_IOCTL_CONTEXT_CREATE_def GSW3D_IOCTL_CONTEXT_DESTROY_def
  GSW3D_IOCTL_SUBMIT_def GSW3D_IOCTL_UPLOAD_def GSW3D_IOCTL_PRESENT_def GSW3D_IOCTL_FENCE_POLL_def
  GSW3D_IOCTL_FIRST_def GSW3D_IOCTL_LAST_def
  GSW_DD_IOCTL_QUERY_def GSW_DD_IOCTL_REGISTER_def GSW_DD_IOCTL_UNREGISTER_def GSW_DD_IOCTL_FILL_def
  GSW_DD_IOCTL_BLT_def GSW_DD_IOCTL_PRESENT_def GSW_DD_IOCTL_DIRTY_def

section \<open>Parameter block and requests\<close>

text \<open>The fields of VWIN32's \<open>DIOCParams\<close> that the two entries read.\<close>

record DIOCParams =
  dwIoControlCode :: u32
  lpInBuffer :: u32
  cbInBuffer :: u32
  lpOutBuffer :: u32
  cbOutBuffer :: u32
  tagProcess :: u32

record GSW3DContextRequest =
  cr_cb :: u32
  cr_context_id :: u32

record GSW3DSubmitRequest =
  sr_cb :: u32
  sr_context_id :: u32
  sr_byte_count :: u32

record GSW3DUploadRequest =
  ur_cb :: u32
  ur_resource_id :: u32
  ur_destination_offset_low :: u32
  ur_destination_offset_high :: u32
  ur_byte_count :: u32

record GSWDDQuery =
  dq_cb :: u32
  dq_version :: u32
  dq_capabilities :: u32
  dq_framebuffer_linear :: u32
  dq_framebuffer_bytes :: u32

record GSWDDUnregister =
  du_cb :: u32
  du_surface_id :: u32

record GSWDDPresent =
  dp_cb :: u32
  dp_surface_id :: u32

record 'd dioc_world =
  gsw :: "'d gsw_world"
  client :: "u32 \<Rightarrow> u8"

section \<open>Packed structures\<close>

text \<open>The structures are packed sequences of doublewords, decoded field by field.\<close>

definition GSW3DContextRequest_of :: "u32 list \<Rightarrow> GSW3DContextRequest" where
  "GSW3DContextRequest_of ws = \<lparr>cr_cb = ws ! 0, cr_context_id = ws ! 1\<rparr>"

definition GSW3DSubmitRequest_of :: "u32 list \<Rightarrow> GSW3DSubmitRequest" where
  "GSW3DSubmitRequest_of ws = \<lparr>sr_cb = ws ! 0, sr_context_id = ws ! 1, sr_byte_count = ws ! 2\<rparr>"

definition GSW3DUploadRequest_of :: "u32 list \<Rightarrow> GSW3DUploadRequest" where
  "GSW3DUploadRequest_of ws = \<lparr>ur_cb = ws ! 0, ur_resource_id = ws ! 1,
     ur_destination_offset_low = ws ! 2, ur_destination_offset_high = ws ! 3, ur_byte_count = ws ! 4\<rparr>"

definition GSW3DPresentRequest_of :: "u32 list \<Rightarrow> GSW3DPresentRequest" where
  "GSW3DPresentRequest_of ws = \<lparr>pr_cb = ws ! 0, pr_context_id = ws ! 1, pr_surface_id = ws ! 2,
     pr_source_x = ws ! 3, pr_source_y = ws ! 4, pr_source_width = ws ! 5, pr_source_height = ws ! 6,
     pr_destination_x = ws ! 7, pr_destination_y = ws ! 8, pr_destination_width = ws ! 9,
     pr_destination_height = ws ! 10, pr_interval = ws ! 11\<rparr>"

definition GSW3DFencePollRequest_of :: "u32 list \<Rightarrow> GSW3DFencePollRequest" where
  "GSW3DFencePollRequest_of ws = \<lparr>fp_cb = ws ! 0, fp_fence_low = ws ! 1, fp_fence_high = ws ! 2\<rparr>"

definition GSW3DQuery_dwords :: "GSW3DQuery \<Rightarrow> u32 list" where
  "GSW3DQuery_dwords q = [q_cb q, q_version q, q_available q, q_capabilities q, q_packet_format q,
     q_present_intervals q, q_staging_bytes q, q_maximum_batch_bytes q]"

definition GSW3DQuery_of :: "u32 list \<Rightarrow> GSW3DQuery" where
  "GSW3DQuery_of ws = \<lparr>q_cb = ws ! 0, q_version = ws ! 1, q_available = ws ! 2, q_capabilities = ws ! 3,
     q_packet_format = ws ! 4, q_present_intervals = ws ! 5, q_staging_bytes = ws ! 6,
     q_maximum_batch_bytes = ws ! 7\<rparr>"

definition GSW3DResult_dwords :: "GSW3DResult \<Rightarrow> u32 list" where
  "GSW3DResult_dwords r = [res_cb r, res_success r, res_fence_low r, res_fence_high r,
     res_completed_low r, res_completed_high r, res_status r, res_error r]"

definition GSW3DResult_of :: "u32 list \<Rightarrow> GSW3DResult" where
  "GSW3DResult_of ws = \<lparr>res_cb = ws ! 0, res_success = ws ! 1, res_fence_low = ws ! 2,
     res_fence_high = ws ! 3, res_completed_low = ws ! 4, res_completed_high = ws ! 5,
     res_status = ws ! 6, res_error = ws ! 7\<rparr>"

definition GSWDDQuery_dwords :: "GSWDDQuery \<Rightarrow> u32 list" where
  "GSWDDQuery_dwords q = [dq_cb q, dq_version q, dq_capabilities q, dq_framebuffer_linear q,
     dq_framebuffer_bytes q]"

definition GSWDDQuery_of :: "u32 list \<Rightarrow> GSWDDQuery" where
  "GSWDDQuery_of ws = \<lparr>dq_cb = ws ! 0, dq_version = ws ! 1, dq_capabilities = ws ! 2,
     dq_framebuffer_linear = ws ! 3, dq_framebuffer_bytes = ws ! 4\<rparr>"

definition GSWDDRegister_dwords :: "GSWDDRegister \<Rightarrow> u32 list" where
  "GSWDDRegister_dwords r = [rg_cb r, rg_offset r, rg_byte_size r, rg_width r, rg_height r, rg_pitch r,
     rg_bpp r, rg_flags r, rg_surface_id r]"

definition GSWDDRegister_of :: "u32 list \<Rightarrow> GSWDDRegister" where
  "GSWDDRegister_of ws = \<lparr>rg_cb = ws ! 0, rg_offset = ws ! 1, rg_byte_size = ws ! 2, rg_width = ws ! 3,
     rg_height = ws ! 4, rg_pitch = ws ! 5, rg_bpp = ws ! 6, rg_flags = ws ! 7, rg_surface_id = ws ! 8\<rparr>"

definition GSWDDUnregister_of :: "u32 list \<Rightarrow> GSWDDUnregister" where
  "GSWDDUnregister_of ws = \<lparr>du_cb = ws ! 0, du_surface_id = ws ! 1\<rparr>"

definition GSWDDFill_of :: "u32 list \<Rightarrow> GSWDDFill" where
  "GSWDDFill_of ws = \<lparr>fl_cb = ws ! 0, fl_surface_id = ws ! 1, fl_x = ws ! 2, fl_y = ws ! 3,
     fl_width = ws ! 4, fl_height = ws ! 5, fl_color = ws ! 6\<rparr>"

definition GSWDDBlt_of :: "u32 list \<Rightarrow> GSWDDBlt" where
  "GSWDDBlt_of ws = \<lparr>bl_cb = ws ! 0, bl_source_id = ws ! 1, bl_destination_id = ws ! 2,
     bl_source_x = ws ! 3, bl_source_y = ws ! 4, bl_source_width = ws ! 5, bl_source_height = ws ! 6,
     bl_destination_x = ws ! 7, bl_destination_y = ws ! 8, bl_destination_width = ws ! 9,
     bl_destination_height = ws ! 10, bl_flags = ws ! 11, bl_source_color_key = ws ! 12,
     bl_destination_color_key = ws ! 13, bl_pattern = ws ! 14, bl_rop3 = ws ! 15\<rparr>"

definition GSWDDPresent_of :: "u32 list \<Rightarrow> GSWDDPresent" where
  "GSWDDPresent_of ws = \<lparr>dp_cb = ws ! 0, dp_surface_id = ws ! 1\<rparr>"

definition GSWDDDirty_of :: "u32 list \<Rightarrow> GSWDDDirty" where
  "GSWDDDirty_of ws = \<lparr>dt_cb = ws ! 0, dt_surface_id = ws ! 1, dt_x = ws ! 2, dt_y = ws ! 3,
     dt_width = ws ! 4, dt_height = ws ! 5\<rparr>"

section \<open>The 3D entry\<close>

definition gsw3d_ioctl_range_valid :: "u32 \<Rightarrow> u32 \<Rightarrow> bool" where
  "gsw3d_ioctl_range_valid address bytes =
     (if bytes = 0 then True
      else if address = 0 \<or> address > 0xFFFFFFFF - (bytes - 1) then False else True)"

text \<open>The smallest input and the output size, or \<open>None\<close> where the code returns false.\<close>

definition gsw3d_ioctl_shape :: "DIOCParams \<Rightarrow> (u32 \<times> u32) option" where
  "gsw3d_ioctl_shape params =
     (let code = dwIoControlCode params;
          sized = (\<lambda>minimum_input. if cbOutBuffer params \<noteq> 32 \<or> cbInBuffer params < minimum_input \<or>
              cbInBuffer params > GSW3D_MAX_DIOC_INPUT then None else Some (minimum_input, 32))
      in if code = GSW3D_IOCTL_QUERY
         then (if cbInBuffer params = 0 \<and> cbOutBuffer params = 32 then Some (0, 32) else None)
         else if code = GSW3D_IOCTL_CONTEXT_CREATE \<or> code = GSW3D_IOCTL_CONTEXT_DESTROY then sized 8
         else if code = GSW3D_IOCTL_SUBMIT then sized 12
         else if code = GSW3D_IOCTL_UPLOAD then sized 20
         else if code = GSW3D_IOCTL_PRESENT then sized 48
         else if code = GSW3D_IOCTL_FENCE_POLL then sized 12
         else None)"

definition gsw3d_result_zero :: GSW3DResult where
  "gsw3d_result_zero = \<lparr>res_cb = 0, res_success = 0, res_fence_low = 0, res_fence_high = 0,
     res_completed_low = 0, res_completed_high = 0, res_status = 0, res_error = 0\<rparr>"

definition gsw3d_ioctl_dispatch ::
    "'d gsw_env \<Rightarrow> DIOCParams \<Rightarrow> u32 \<Rightarrow> (u32 \<Rightarrow> u8) \<Rightarrow> 'd gsw_world \<Rightarrow> u32 list \<times> 'd gsw_world" where
  "gsw3d_ioctl_dispatch e params minimum_input mem w =
     (let code = dwIoControlCode params;
          input = mem_dwords mem (lpInBuffer params) (unat minimum_input div 4);
          payload_bytes = cbInBuffer params - minimum_input;
          payload = mem_bytes mem (lpInBuffer params + minimum_input) (unat payload_bytes);
          answer = (\<lambda>(success, output, w). (GSW3DResult_dwords output, w));
          nothing = (GSW3DResult_dwords gsw3d_result_zero, w)
      in if code = GSW3D_IOCTL_QUERY
         then (let (query, w) = GSW3D_transport_query w in (GSW3DQuery_dwords query, w))
         else if code = GSW3D_IOCTL_CONTEXT_CREATE \<or> code = GSW3D_IOCTL_CONTEXT_DESTROY
         then (let r = GSW3DContextRequest_of input in
               if cr_cb r = 8 \<and> cbInBuffer params = 8
               then answer (GSW3D_transport_context e (code = GSW3D_IOCTL_CONTEXT_CREATE)
                      (cr_context_id r) (tagProcess params) w)
               else nothing)
         else if code = GSW3D_IOCTL_SUBMIT
         then (let r = GSW3DSubmitRequest_of input in
               if sr_cb r = 12 \<and> sr_byte_count r = payload_bytes \<and> payload_bytes \<noteq> 0
               then answer (GSW3D_transport_submit e (sr_context_id r) payload payload_bytes w)
               else nothing)
         else if code = GSW3D_IOCTL_UPLOAD
         then (let r = GSW3DUploadRequest_of input in
               if ur_cb r = 20 \<and> ur_byte_count r = payload_bytes \<and> payload_bytes \<noteq> 0
               then answer (GSW3D_transport_upload e (ur_resource_id r) (ur_destination_offset_low r)
                      (ur_destination_offset_high r) payload payload_bytes w)
               else nothing)
         else if code = GSW3D_IOCTL_PRESENT
         then (if cbInBuffer params = 48
               then answer (GSW3D_transport_present e (GSW3DPresentRequest_of input) w) else nothing)
         else (if cbInBuffer params = 12
               then answer (GSW3D_transport_fence_poll e (GSW3DFencePollRequest_of input) w) else nothing))"

definition GSW3D_ioctl :: "'d gsw_env \<Rightarrow> DIOCParams \<Rightarrow> 'd dioc_world \<Rightarrow> bool \<times> u32 \<times> 'd dioc_world" where
  "GSW3D_ioctl e params w =
     (let recognized = (dwIoControlCode params \<ge> GSW3D_IOCTL_FIRST \<and>
            dwIoControlCode params \<le> GSW3D_IOCTL_LAST)
      in case gsw3d_ioctl_shape params of
           None \<Rightarrow> (recognized, 1, w)
         | Some (minimum_input, output_bytes) \<Rightarrow>
             if (cbInBuffer params \<noteq> 0 \<and> lpInBuffer params = 0) \<or> lpOutBuffer params = 0 then (True, 1, w)
             else if \<not> gsw3d_ioctl_range_valid (lpInBuffer params) (cbInBuffer params) then (True, 1, w)
             else if \<not> gsw3d_ioctl_range_valid (lpOutBuffer params) output_bytes then (True, 1, w)
             else
               (let (output, g) = gsw3d_ioctl_dispatch e params minimum_input (client w) (gsw w)
                in (True, 0, \<lparr>gsw = g, client = put_dwords (lpOutBuffer params) output (client w)\<rparr>)))"

section \<open>The DirectDraw entry\<close>

definition gsw_dd_range_valid :: "u32 \<Rightarrow> u32 \<Rightarrow> bool" where
  "gsw_dd_range_valid address bytes =
     (if bytes = 0 then True
      else if address = 0 \<or> address > 0xFFFFFFFF - (bytes - 1) then False
      else if (address AND 0xFFF) + bytes > 2 * 4096 then False else True)"

definition gsw_dd_sizes :: "DIOCParams \<Rightarrow> (u32 \<times> u32) option" where
  "gsw_dd_sizes params =
     (let code = dwIoControlCode params;
          sized = (\<lambda>input_bytes output_bytes.
            if cbInBuffer params = input_bytes \<and> cbOutBuffer params = output_bytes \<and>
               (input_bytes = 0 \<or> lpInBuffer params \<noteq> 0) \<and> (output_bytes = 0 \<or> lpOutBuffer params \<noteq> 0)
            then Some (input_bytes, output_bytes) else None)
      in if code = GSW_DD_IOCTL_QUERY then sized 0 20
         else if code = GSW_DD_IOCTL_REGISTER then sized 36 36
         else if code = GSW_DD_IOCTL_UNREGISTER then sized 8 4
         else if code = GSW_DD_IOCTL_FILL then sized 28 4
         else if code = GSW_DD_IOCTL_BLT then sized 64 4
         else if code = GSW_DD_IOCTL_PRESENT then sized 8 4
         else if code = GSW_DD_IOCTL_DIRTY then sized 24 4
         else None)"

definition gsw_dd_query :: "'d gsw_world \<Rightarrow> GSWDDQuery" where
  "gsw_dd_query w =
     (let query = \<lparr>dq_cb = 20, dq_version = GSW_DD_ABI_VERSION,
            dq_capabilities = GSW_DD_CAP_SURFACE_IDS OR GSW_DD_CAP_FILL OR GSW_DD_CAP_BLT OR
              GSW_DD_CAP_PRESENT OR GSW_DD_CAP_DIRTY_RECT OR GSW_DD_CAP_DST_COLOR_KEY,
            dq_framebuffer_linear = GSW_transport_framebuffer w,
            dq_framebuffer_bytes = GSW_transport_framebuffer_bytes w\<rparr>
      in if \<not> GSW_transport_ready w \<or> GSW_transport_capabilities w AND GSW_VGA_CAP_SURFACE_IDS = 0
         then query\<lparr>dq_capabilities := 0, dq_framebuffer_linear := 0, dq_framebuffer_bytes := 0\<rparr>
         else query)"

definition gsw_dd_register ::
    "'d gsw_env \<Rightarrow> u32 \<Rightarrow> GSWDDRegister \<Rightarrow> 'd gsw_world \<Rightarrow> GSWDDRegister \<times> 'd gsw_world" where
  "gsw_dd_register e pid request w =
     (let output = request\<lparr>rg_surface_id := 0\<rparr>
      in if rg_cb output = 36
         then (case GSW_transport_surface_register e output pid w of
                 (None, w) \<Rightarrow> (output, w)
               | (Some surface, w) \<Rightarrow> (output\<lparr>rg_surface_id := surface\<rparr>, w))
         else (output, w))"

definition gsw_dd_dispatch ::
    "'d gsw_env \<Rightarrow> DIOCParams \<Rightarrow> u32 \<Rightarrow> (u32 \<Rightarrow> u8) \<Rightarrow> 'd gsw_world \<Rightarrow> u32 list \<times> 'd gsw_world" where
  "gsw_dd_dispatch e params input_bytes mem w =
     (let code = dwIoControlCode params;
          input = mem_dwords mem (lpInBuffer params) (unat input_bytes div 4);
          checked = (\<lambda>ok op. if ok then (let (success, w) = op w in ([if success then 1 else 0], w))
                             else ([0], w))
      in if code = GSW_DD_IOCTL_QUERY then (GSWDDQuery_dwords (gsw_dd_query w), w)
         else if code = GSW_DD_IOCTL_REGISTER
         then (let (output, w) = gsw_dd_register e (tagProcess params) (GSWDDRegister_of input) w
               in (GSWDDRegister_dwords output, w))
         else if code = GSW_DD_IOCTL_UNREGISTER
         then (let r = GSWDDUnregister_of input
               in checked (du_cb r = 8) (GSW_transport_surface_unregister e (du_surface_id r)))
         else if code = GSW_DD_IOCTL_FILL
         then (let r = GSWDDFill_of input in checked (fl_cb r = 28) (GSW_transport_surface_fill e r))
         else if code = GSW_DD_IOCTL_BLT
         then (let r = GSWDDBlt_of input in checked (bl_cb r = 64) (GSW_transport_surface_blt e r))
         else if code = GSW_DD_IOCTL_PRESENT
         then (let r = GSWDDPresent_of input
               in checked (dp_cb r = 8) (GSW_transport_surface_present e (dp_surface_id r)))
         else (let r = GSWDDDirty_of input in checked (dt_cb r = 24) (GSW_transport_surface_dirty e r)))"

definition GSW_DD_ioctl :: "'d gsw_env \<Rightarrow> DIOCParams \<Rightarrow> 'd dioc_world \<Rightarrow> bool \<times> u32 \<times> 'd dioc_world" where
  "GSW_DD_ioctl e params w =
     (case gsw_dd_sizes params of
        None \<Rightarrow> (dwIoControlCode params \<ge> GSW_DD_IOCTL_QUERY \<and>
                  dwIoControlCode params \<le> GSW_DD_IOCTL_DIRTY, 1, w)
      | Some (input_bytes, output_bytes) \<Rightarrow>
          if \<not> gsw_dd_range_valid (lpInBuffer params) input_bytes then (True, 1, w)
          else if \<not> gsw_dd_range_valid (lpOutBuffer params) output_bytes then (True, 1, w)
          else
            (let (output, g) = gsw_dd_dispatch e params input_bytes (client w) (gsw w)
             in (True, 0, \<lparr>gsw = g, client = put_dwords (lpOutBuffer params) output (client w)\<rparr>)))"

section \<open>Reading back what was written\<close>

interpretation result_wire: wire_struct GSW3DResult_dwords GSW3DResult_of 8
  by unfold_locales (simp_all add: GSW3DResult_dwords_def GSW3DResult_of_def)

interpretation query_wire: wire_struct GSW3DQuery_dwords GSW3DQuery_of 8
  by unfold_locales (simp_all add: GSW3DQuery_dwords_def GSW3DQuery_of_def)

interpretation ddquery_wire: wire_struct GSWDDQuery_dwords GSWDDQuery_of 5
  by unfold_locales (simp_all add: GSWDDQuery_dwords_def GSWDDQuery_of_def)

interpretation register_wire: wire_struct GSWDDRegister_dwords GSWDDRegister_of 9
  by unfold_locales (simp_all add: GSWDDRegister_dwords_def GSWDDRegister_of_def)

section \<open>Shape and range\<close>

lemma range3d_iff:
  "gsw3d_ioctl_range_valid a n \<longleftrightarrow> n = 0 \<or> a \<noteq> 0 \<and> unat a + unat n \<le> 2 ^ 32"
proof (cases "n = 0")
  case False
  then have "0 < unat n" "unat (n - 1) = unat n - 1" by (simp_all add: unat_gt_0 unat_minus_one)
  then show ?thesis using False no_wrap_iff [of a "n - 1"]
    by (auto simp: gsw3d_ioctl_range_valid_def not_less [symmetric])
qed (simp add: gsw3d_ioctl_range_valid_def)

lemma dd_range_weaker: "gsw_dd_range_valid a n \<Longrightarrow> gsw3d_ioctl_range_valid a n"
  by (auto simp: gsw_dd_range_valid_def gsw3d_ioctl_range_valid_def split: if_splits)

lemma shape3d_Some:
  assumes "gsw3d_ioctl_shape p = Some (least, out)"
  shows "GSW3D_IOCTL_FIRST \<le> dwIoControlCode p \<and> dwIoControlCode p \<le> GSW3D_IOCTL_LAST \<and>
    out = 32 \<and> cbOutBuffer p = 32 \<and> least \<le> cbInBuffer p"
  using assms by (auto simp: gsw3d_ioctl_shape_def Let_def ioctl_codes split: if_splits)

lemma sizes_Some:
  assumes "gsw_dd_sizes p = Some (i, out)"
  shows "GSW_DD_IOCTL_QUERY \<le> dwIoControlCode p \<and> dwIoControlCode p \<le> GSW_DD_IOCTL_DIRTY \<and>
    cbOutBuffer p = out \<and> cbInBuffer p = i"
  using assms by (auto simp: gsw_dd_sizes_def Let_def ioctl_codes split: if_splits)

lemma wire_lengths [simp]:
  "length (GSW3DResult_dwords r) = 8" "length (GSW3DQuery_dwords q) = 8"
  "length (GSWDDQuery_dwords d) = 5" "length (GSWDDRegister_dwords g) = 9"
  by (simp_all add: GSW3DResult_dwords_def GSW3DQuery_dwords_def GSWDDQuery_dwords_def
      GSWDDRegister_dwords_def)

lemma dispatch3d_length: "length (fst (gsw3d_ioctl_dispatch e p least mem w)) = 8"
  by (simp only: gsw3d_ioctl_dispatch_def Let_def split_beta if_distrib [of fst] if_distrib [of length]
      fst_conv wire_lengths if_cancel)

lemma dd_dispatch_length:
  "length (fst (gsw_dd_dispatch e p i mem w)) =
     (if dwIoControlCode p = GSW_DD_IOCTL_QUERY then 5
      else if dwIoControlCode p = GSW_DD_IOCTL_REGISTER then 9 else 1)"
  by (simp add: gsw_dd_dispatch_def Let_def split_beta if_distrib [of fst] if_distrib [of length])

lemma sizes_out:
  "gsw_dd_sizes p = Some (i, out) \<Longrightarrow> unat out =
     (if dwIoControlCode p = GSW_DD_IOCTL_QUERY then 20
      else if dwIoControlCode p = GSW_DD_IOCTL_REGISTER then 36 else 4)"
  by (auto simp: gsw_dd_sizes_def Let_def ioctl_codes split: if_splits)

text \<open>
  C40. An answer has the size its request declares: for every request whose shape is accepted, the
  doublewords written back fill exactly the output buffer of the caller, and the fixed part of the
  request is whole doublewords inside its input buffer.
\<close>

theorem ioctl_answer_sized:
  "(case gsw3d_ioctl_shape p of None \<Rightarrow> True
     | Some (least, out) \<Rightarrow> 4 * length (fst (gsw3d_ioctl_dispatch e p least mem w)) = unat (cbOutBuffer p) \<and>
         least \<le> cbInBuffer p \<and> 4 dvd unat least) \<and>
   (case gsw_dd_sizes p of None \<Rightarrow> True
     | Some (i, out) \<Rightarrow> 4 * length (fst (gsw_dd_dispatch e p i mem w)) = unat (cbOutBuffer p) \<and>
         i = cbInBuffer p \<and> 4 dvd unat i)"
proof -
  have "4 dvd unat least" if "gsw3d_ioctl_shape p = Some (least, out)" for least out
    using that by (auto simp: gsw3d_ioctl_shape_def Let_def split: if_splits)
  moreover have "4 dvd unat i" if "gsw_dd_sizes p = Some (i, out)" for i out
    using that by (auto simp: gsw_dd_sizes_def Let_def split: if_splits)
  ultimately show ?thesis
    using shape3d_Some [of p] sizes_Some [of p] sizes_out [of p]
    by (auto simp: dispatch3d_length dd_dispatch_length split: option.split prod.split)
qed

section \<open>One request, one transport call\<close>

definition one_call :: "'d gsw_env \<Rightarrow> 'd gsw_world \<Rightarrow> 'd gsw_world \<Rightarrow> bool" where
  "one_call e w w' \<longleftrightarrow> (\<exists>calls. length calls \<le> 1 \<and> w' = fold (vga_perform e) calls w)"

lemma one_call_none: "one_call e w w"
  unfolding one_call_def by (intro exI [of _ "[]"]) simp

lemma one_call_perform: "one_call e w (vga_perform e c w)"
  unfolding one_call_def by (intro exI [of _ "[c]"]) simp

lemma one_call_if: "one_call e w a \<Longrightarrow> one_call e w b \<Longrightarrow> one_call e w (if c then a else b)"
  by simp

lemmas one_call_intros = one_call_none one_call_if
  one_call_perform [where c = "Call_3d_Context c x p" for c x p, unfolded vga_perform.simps]
  one_call_perform [where c = "Call_3d_Submit x bs n" for x bs n, unfolded vga_perform.simps]
  one_call_perform [where c = "Call_3d_Upload x lo hi bs n" for x lo hi bs n, unfolded vga_perform.simps]
  one_call_perform [where c = "Call_3d_Present r" for r, unfolded vga_perform.simps]
  one_call_perform [where c = "Call_3d_Poll r" for r, unfolded vga_perform.simps]
  one_call_perform [where c = "Call_3d_Query", unfolded vga_perform.simps]
  one_call_perform [where c = "Call_Register r p" for r p, unfolded vga_perform.simps]
  one_call_perform [where c = "Call_Unregister s" for s, unfolded vga_perform.simps]
  one_call_perform [where c = "Call_Surface_Fill r" for r, unfolded vga_perform.simps]
  one_call_perform [where c = "Call_Surface_Blt r" for r, unfolded vga_perform.simps]
  one_call_perform [where c = "Call_Surface_Present s" for s, unfolded vga_perform.simps]
  one_call_perform [where c = "Call_Surface_Dirty r" for r, unfolded vga_perform.simps]

lemma dispatch3d_one_call: "one_call e w (snd (gsw3d_ioctl_dispatch e p least mem w))"
  unfolding gsw3d_ioctl_dispatch_def Let_def
  by (simp only: if_distrib [of snd] split_beta snd_conv) (intro one_call_intros)

lemma dd_register_world:
  "snd (gsw_dd_register e pid r w) =
     (if rg_cb r = 36 then snd (GSW_transport_surface_register e (r\<lparr>rg_surface_id := 0\<rparr>) pid w) else w)"
  by (simp add: gsw_dd_register_def Let_def split_beta split: option.split)

lemma dd_dispatch_one_call: "one_call e w (snd (gsw_dd_dispatch e p n mem w))"
  unfolding gsw_dd_dispatch_def Let_def
  by (simp only: if_distrib [of snd] split_beta snd_conv dd_register_world) (intro one_call_intros)

text \<open>The outcome of an entry: refused, with nothing changed, or answered in the output buffer.\<close>

definition dioc_outcome ::
    "'d gsw_env \<Rightarrow> DIOCParams \<Rightarrow> bool \<Rightarrow> 'd dioc_world \<Rightarrow> bool \<times> u32 \<times> 'd dioc_world \<Rightarrow> bool" where
  "dioc_outcome e p mine w x \<longleftrightarrow>
     fst x = mine \<and>
     (fst (snd x) = 1 \<and> snd (snd x) = w \<or>
      fst (snd x) = 0 \<and> mine \<and> lpOutBuffer p \<noteq> 0 \<and>
      unat (lpOutBuffer p) + unat (cbOutBuffer p) \<le> 2 ^ 32 \<and>
      one_call e (gsw w) (gsw (snd (snd x))) \<and>
      client (snd (snd x)) = override_on (client w) (client (snd (snd x)))
        {a. unat (lpOutBuffer p) \<le> unat a \<and> unat a < unat (lpOutBuffer p) + unat (cbOutBuffer p)})"

lemma ioctl3d_cases:
  fixes e p w
  defines "s \<equiv> gsw3d_ioctl_shape p"
  shows "GSW3D_ioctl e p w =
      (GSW3D_IOCTL_FIRST \<le> dwIoControlCode p \<and> dwIoControlCode p \<le> GSW3D_IOCTL_LAST, 1, w) \<or>
    (\<exists>least. s = Some (least, 32) \<and> cbOutBuffer p = 32 \<and>
       GSW3D_IOCTL_FIRST \<le> dwIoControlCode p \<and> dwIoControlCode p \<le> GSW3D_IOCTL_LAST \<and>
       gsw3d_ioctl_range_valid (lpOutBuffer p) 32 \<and>
       GSW3D_ioctl e p w = (True, 0,
         \<lparr>gsw = snd (gsw3d_ioctl_dispatch e p least (client w) (gsw w)),
          client = put_dwords (lpOutBuffer p)
            (fst (gsw3d_ioctl_dispatch e p least (client w) (gsw w))) (client w)\<rparr>))"
proof (cases s)
  case None
  then show ?thesis by (simp add: GSW3D_ioctl_def s_def)
next
  case (Some a)
  then obtain least out where s: "gsw3d_ioctl_shape p = Some (least, out)"
    by (cases a) (simp add: s_def)
  show ?thesis
    using shape3d_Some [OF s] s by (simp add: GSW3D_ioctl_def s_def Let_def split_beta)
qed

lemma ddioctl_cases:
  "GSW_DD_ioctl e p w =
      (GSW_DD_IOCTL_QUERY \<le> dwIoControlCode p \<and> dwIoControlCode p \<le> GSW_DD_IOCTL_DIRTY, 1, w) \<or>
    (\<exists>n. gsw_dd_sizes p = Some (n, cbOutBuffer p) \<and>
       GSW_DD_IOCTL_QUERY \<le> dwIoControlCode p \<and> dwIoControlCode p \<le> GSW_DD_IOCTL_DIRTY \<and>
       gsw_dd_range_valid (lpOutBuffer p) (cbOutBuffer p) \<and>
       GSW_DD_ioctl e p w = (True, 0,
         \<lparr>gsw = snd (gsw_dd_dispatch e p n (client w) (gsw w)),
          client = put_dwords (lpOutBuffer p)
            (fst (gsw_dd_dispatch e p n (client w) (gsw w))) (client w)\<rparr>))"
proof (cases "gsw_dd_sizes p")
  case None
  then show ?thesis by (simp add: GSW_DD_ioctl_def)
next
  case (Some a)
  then obtain n out where s: "gsw_dd_sizes p = Some (n, out)" by (cases a) simp
  show ?thesis
    using sizes_Some [OF s] s by (simp add: GSW_DD_ioctl_def Let_def split_beta)
qed

text \<open>
  C15. Whatever parameter block and buffers a process passes, an entry claims exactly its own
  range of control codes and either refuses the request, changing neither the caller's memory
  nor the driver, or performs at most one transport call and writes nothing of the caller's
  memory but the output buffer it was given, which is not null and does not wrap around.
\<close>

theorem ioctl_confined:
  "dioc_outcome e p (dwIoControlCode p \<in> {0x47530100..0x47530106}) w (GSW3D_ioctl e p w) \<and>
   dioc_outcome e p (dwIoControlCode p \<in> {0x47530001..0x47530007}) w (GSW_DD_ioctl e p w)"
proof
  show "dioc_outcome e p (dwIoControlCode p \<in> {0x47530100..0x47530106}) w (GSW3D_ioctl e p w)"
    using ioctl3d_cases [of e p w]
  proof
    assume "\<exists>least. gsw3d_ioctl_shape p = Some (least, 32) \<and> cbOutBuffer p = 32 \<and>
       GSW3D_IOCTL_FIRST \<le> dwIoControlCode p \<and> dwIoControlCode p \<le> GSW3D_IOCTL_LAST \<and>
       gsw3d_ioctl_range_valid (lpOutBuffer p) 32 \<and>
       GSW3D_ioctl e p w = (True, 0,
         \<lparr>gsw = snd (gsw3d_ioctl_dispatch e p least (client w) (gsw w)),
          client = put_dwords (lpOutBuffer p)
            (fst (gsw3d_ioctl_dispatch e p least (client w) (gsw w))) (client w)\<rparr>)"
    then show ?thesis
      using put_dwords_override [of "fst (gsw3d_ioctl_dispatch e p _ (client w) (gsw w))" 32]
      by (auto simp: dioc_outcome_def ioctl_codes range3d_iff dispatch3d_length dispatch3d_one_call)
  qed (auto simp: dioc_outcome_def ioctl_codes)
next
  show "dioc_outcome e p (dwIoControlCode p \<in> {0x47530001..0x47530007}) w (GSW_DD_ioctl e p w)"
    using ddioctl_cases [of e p w]
  proof
    assume "\<exists>n. gsw_dd_sizes p = Some (n, cbOutBuffer p) \<and>
       GSW_DD_IOCTL_QUERY \<le> dwIoControlCode p \<and> dwIoControlCode p \<le> GSW_DD_IOCTL_DIRTY \<and>
       gsw_dd_range_valid (lpOutBuffer p) (cbOutBuffer p) \<and>
       GSW_DD_ioctl e p w = (True, 0,
         \<lparr>gsw = snd (gsw_dd_dispatch e p n (client w) (gsw w)),
          client = put_dwords (lpOutBuffer p)
            (fst (gsw_dd_dispatch e p n (client w) (gsw w))) (client w)\<rparr>)"
    then obtain n where n: "gsw_dd_sizes p = Some (n, cbOutBuffer p)"
      "GSW_DD_IOCTL_QUERY \<le> dwIoControlCode p" "dwIoControlCode p \<le> GSW_DD_IOCTL_DIRTY"
      "gsw3d_ioctl_range_valid (lpOutBuffer p) (cbOutBuffer p)"
      "GSW_DD_ioctl e p w = (True, 0,
         \<lparr>gsw = snd (gsw_dd_dispatch e p n (client w) (gsw w)),
          client = put_dwords (lpOutBuffer p)
            (fst (gsw_dd_dispatch e p n (client w) (gsw w))) (client w)\<rparr>)"
      by (auto dest: dd_range_weaker)
    have l: "4 * length (fst (gsw_dd_dispatch e p n (client w) (gsw w))) = unat (cbOutBuffer p)"
      "cbOutBuffer p \<noteq> 0"
      using sizes_out [OF n(1)] by (auto simp: dd_dispatch_length split: if_splits)
    then show ?thesis
      using put_dwords_override [OF l(1)] n(2,3,4) l(2)
      by (simp add: n(5) dioc_outcome_def ioctl_codes range3d_iff dd_dispatch_one_call)
  qed (auto simp: dioc_outcome_def ioctl_codes)
qed

section \<open>Sequences of requests\<close>

text \<open>
  What can happen to the driver between loading and unloading: calls of the other drivers into
  the transports, requests through the two entries, and processes that change their memory.
\<close>

datatype dioc_event =
    Dioc_Direct vga_call
  | Dioc_3d DIOCParams
  | Dioc_Ddraw DIOCParams
  | Dioc_Store u32 u8

fun dioc_perform :: "'d gsw_env \<Rightarrow> dioc_event \<Rightarrow> 'd dioc_world \<Rightarrow> 'd dioc_world" where
  "dioc_perform e (Dioc_Direct c) w = w\<lparr>gsw := vga_perform e c (gsw w)\<rparr>"
| "dioc_perform e (Dioc_3d p) w = snd (snd (GSW3D_ioctl e p w))"
| "dioc_perform e (Dioc_Ddraw p) w = snd (snd (GSW_DD_ioctl e p w))"
| "dioc_perform e (Dioc_Store a v) w = w\<lparr>client := (client w)(a := v)\<rparr>"

definition dioc_start :: "'d gsw_bus \<Rightarrow> (u32 \<Rightarrow> u8) \<Rightarrow> 'd dioc_world" where
  "dioc_start b mem = \<lparr>gsw = vga_start b, client = mem\<rparr>"

lemma one_call_ok: "one_call e w w' \<Longrightarrow> vga_ok w \<Longrightarrow> vga_ok w'"
  unfolding one_call_def using transports.run_keeps by blast

interpretation entries: started_component "dioc_perform e" "\<lambda>w. vga_ok (gsw w)" "dioc_start b mem"
  for e :: "'d gsw_env" and b mem
proof
  fix w :: "'d dioc_world" and v :: dioc_event
  assume ok: "vga_ok (gsw w)"
  show "vga_ok (gsw (dioc_perform e v w))"
  proof (cases v)
    case (Dioc_Direct c)
    with ok show ?thesis by (simp add: perform_vga_ok)
  next
    case (Dioc_3d p)
    with ioctl3d_cases [of e p w] ok show ?thesis
      by (auto intro: one_call_ok [OF dispatch3d_one_call])
  next
    case (Dioc_Ddraw p)
    with ddioctl_cases [of e p w] ok show ?thesis
      by (auto intro: one_call_ok [OF dd_dispatch_one_call])
  qed (simp add: ok)
next
  show "vga_ok (gsw (dioc_start b mem))"
    using transports.start_ok by (simp add: dioc_start_def)
qed

text \<open>
  C17. No process can break the driver through its entries: after any sequence of requests with
  any parameter blocks, of transport calls by the other drivers and of stores to the callers'
  memory, for every device, the invariant of the two transports holds.
\<close>

theorem ioctl_reachable_ok: "vga_ok (gsw (fold (dioc_perform e) events (dioc_start b mem)))"
  by (rule entries.reachable_ok)

section \<open>Registration through the wire\<close>

lemma dd_register_dispatch:
  assumes "dwIoControlCode p = GSW_DD_IOCTL_REGISTER"
  shows "gsw_dd_dispatch e p n mem w =
    (let r = GSWDDRegister_of (mem_dwords mem (lpInBuffer p) (unat n div 4));
         x = gsw_dd_register e (tagProcess p) r w
     in (GSWDDRegister_dwords (fst x), snd x))"
  using assms by (simp add: gsw_dd_dispatch_def Let_def split_beta ioctl_codes)

lemma dd_register_answer:
  assumes code: "dwIoControlCode p = GSW_DD_IOCTL_REGISTER"
    and io: "GSW_DD_ioctl e p w = (True, 0, w')"
  shows "gsw w' = snd (gsw_dd_register e (tagProcess p)
        (GSWDDRegister_of (mem_dwords (client w) (lpInBuffer p) 9)) (gsw w))"
    and "GSWDDRegister_of (mem_dwords (client w') (lpOutBuffer p) 9) =
      fst (gsw_dd_register e (tagProcess p)
        (GSWDDRegister_of (mem_dwords (client w) (lpInBuffer p) 9)) (gsw w))"
proof -
  from ddioctl_cases [of e p w] io obtain n where n: "gsw_dd_sizes p = Some (n, cbOutBuffer p)"
      "gsw_dd_range_valid (lpOutBuffer p) (cbOutBuffer p)"
      "w' = \<lparr>gsw = snd (gsw_dd_dispatch e p n (client w) (gsw w)),
        client = put_dwords (lpOutBuffer p)
          (fst (gsw_dd_dispatch e p n (client w) (gsw w))) (client w)\<rparr>"
    by auto
  have sz: "n = 36" "cbOutBuffer p = 36"
    using n(1) code by (auto simp: gsw_dd_sizes_def Let_def ioctl_codes split: if_splits)
  then have fits: "unat (lpOutBuffer p) + 4 * 9 \<le> 2 ^ 32"
    using dd_range_weaker [OF n(2)] by (simp add: range3d_iff)
  show "gsw w' = snd (gsw_dd_register e (tagProcess p)
        (GSWDDRegister_of (mem_dwords (client w) (lpInBuffer p) 9)) (gsw w))"
    by (simp add: n(3) dd_register_dispatch [OF code] sz Let_def)
  show "GSWDDRegister_of (mem_dwords (client w') (lpOutBuffer p) 9) =
      fst (gsw_dd_register e (tagProcess p)
        (GSWDDRegister_of (mem_dwords (client w) (lpInBuffer p) 9)) (gsw w))"
    using register_wire.read_back [OF fits]
    by (simp add: n(3) dd_register_dispatch [OF code] sz Let_def)
qed

text \<open>
  C16. Registration end to end: after an answered registration request the identifier the
  process reads from its output buffer is zero and every surface is found as before, or it was
  unused and from then on finds exactly the surface described in the input buffer, owned by the
  calling process, while every other identifier finds what it did. A registration the device
  refuses may have used up an identifier and moved the tail of the ring; the surfaces do not show it.
\<close>

theorem ioctl_register_roundtrip:
  assumes "vga_ok (gsw w)"
    and "dwIoControlCode p = GSW_DD_IOCTL_REGISTER"
    and "GSW_DD_ioctl e p w = (True, 0, w')"
    and r: "r = GSWDDRegister_of (mem_dwords (client w) (lpInBuffer p) 9)"
    and sid: "sid = rg_surface_id (GSWDDRegister_of (mem_dwords (client w') (lpOutBuffer p) 9))"
  shows "(\<lambda>x. gsw_surface_record x (vga (gsw w'))) =
     (if sid = 0 then (\<lambda>x. gsw_surface_record x (vga (gsw w)))
      else (\<lambda>x. gsw_surface_record x (vga (gsw w)))(sid := Some (gsw_surface_of sid (tagProcess p) r))) \<and>
   gsw_surface_record sid (vga (gsw w)) = None"
proof -
  let ?r0 = "r\<lparr>rg_surface_id := 0\<rparr>"
  let ?x = "GSW_transport_surface_register e ?r0 (tagProcess p) (gsw w)"
  note s = register_step(2) [OF assms(1) refl, of e ?r0 "tagProcess p"]
  have none: "gsw_surface_record x g = None" if "x = 0" for x g
    using that by (simp add: gsw_surface_record_def gsw_surface_find_def)
  have out: "gsw w' = (if rg_cb r = 36 then snd ?x else gsw w)"
      "sid = (if rg_cb r = 36 then (case fst ?x of None \<Rightarrow> 0 | Some i \<Rightarrow> i) else 0)"
    using dd_register_answer [OF assms(2,3)]
    by (simp_all add: sid r gsw_dd_register_def Let_def split_beta split: option.split)
  show ?thesis
  proof (cases "rg_cb r = 36 \<and> fst ?x \<noteq> None")
    case True
    then have x: "fst ?x = Some sid" "gsw w' = snd ?x" using out by auto
    define k where "k = unat (sid AND 255)"
    have d: "sid \<noteq> 0" "sf_id (gsw_surfaces (vga (gsw w)) ! k) = 0"
      "gsw_surfaces (vga (gsw w')) = (gsw_surfaces (vga (gsw w)))[k := gsw_surface_of sid (tagProcess p) r]"
      using s by (simp_all add: x k_def gsw_surface_of_def)
    moreover have "gsw_surface_record sid (vga (gsw w)) = None"
      using d(1,2) by (auto simp: gsw_surface_record_def gsw_surface_find_def Let_def k_def)
    moreover have "(\<lambda>x. gsw_surface_record x (vga (gsw w'))) =
        (\<lambda>x. gsw_surface_record x (vga (gsw w)))(sid := Some (gsw_surface_of sid (tagProcess p) r))"
      using surfaces_length [OF assms(1)] d
      by (intro record_after_set) (simp_all add: gsw_surface_of_def k_def)
    ultimately show ?thesis by simp
  next
    case False
    then have z: "sid = 0" "gsw_surfaces (vga (gsw w')) = gsw_surfaces (vga (gsw w))"
      using out s by (auto split: option.splits if_splits)
    then show ?thesis by (simp add: none fun_eq_iff gsw_surface_record_def gsw_surface_find_def)
  qed
qed


definition example_params :: DIOCParams where
  "example_params = \<lparr>dwIoControlCode = GSW_DD_IOCTL_REGISTER, lpInBuffer = 0x1000, cbInBuffer = 36,
     lpOutBuffer = 0x2000, cbOutBuffer = 36, tagProcess = 77\<rparr>"

definition example_process :: "(u32 \<Rightarrow> u32) dioc_world" where
  "example_process = \<lparr>gsw = ready2d_world,
     client = put_dwords 0x1000 (GSWDDRegister_dwords example_surface) (\<lambda>_. 0)\<rparr>"

lemma example_request:
  "GSWDDRegister_of (mem_dwords (client example_process) 0x1000 9) = example_surface"
  by (simp add: example_process_def register_wire.read_back)

lemma example_answered:
  "\<exists>w'. GSW_DD_ioctl obedient2d_env example_params example_process = (True, 0, w')"
  by (simp add: GSW_DD_ioctl_def gsw_dd_sizes_def example_params_def ioctl_codes Let_def split_beta
      gsw_dd_range_valid_def)

theorem ioctl_register_roundtrip_witness:
  "\<exists>w'. GSW_DD_ioctl obedient2d_env example_params example_process = (True, 0, w') \<and>
     rg_surface_id (GSWDDRegister_of (mem_dwords (client w') 0x2000 9)) = 1 \<and>
     gsw_surface_record 1 (vga (gsw w')) = Some (gsw_surface_of 1 77 example_surface)"
proof -
  obtain w' where io: "GSW_DD_ioctl obedient2d_env example_params example_process = (True, 0, w')"
    using example_answered by blast
  have p: "dwIoControlCode example_params = GSW_DD_IOCTL_REGISTER" "lpInBuffer example_params = 0x1000"
      "lpOutBuffer example_params = 0x2000" "tagProcess example_params = 77"
    by (simp_all add: example_params_def)
  have g: "gsw example_process = ready2d_world" by (simp add: example_process_def)
  have ok: "vga_ok (gsw example_process)" by (simp add: g ready2d_world_ok)
  have zero: "example_surface\<lparr>rg_surface_id := 0\<rparr> = example_surface" "rg_cb example_surface = 36"
    by (simp_all add: example_surface_def)
  have sid: "rg_surface_id (GSWDDRegister_of (mem_dwords (client w') 0x2000 9)) = 1"
    using dd_register_answer(2) [OF p(1) io] example_register
    by (simp add: p example_request gsw_dd_register_def zero g split_beta Let_def)
  show ?thesis
    using ioctl_register_roundtrip [OF ok p(1) io refl refl] io sid
    by (simp add: p example_request fun_eq_iff)
qed

end
