(* ===== verification/Sound_Win16.thy ===== *)
theory Sound_Win16
  imports Sound_Vxd
begin

text \<open>
  What the 16-bit sound driver (\<^verbatim>\<open>gsw-sound/drv\<close>) works on: the structures of
  \<^verbatim>\<open>gswsound_win16_mmddk.h\<close>, the driver's two static instances, the memory its clients
  hand to it by far pointer, and the services it calls.

  Far memory is a store per structure type: structures at different addresses do not overlap
  and are only accessed at their own type. The constants of the Windows multimedia interface
  that the repository does not define itself have their documented values.

  The services are the functions of the record \<open>win16_env\<close>: the call into the VxD
  (\<open>gsw_sound_pm_call\<close>, whose own model is in \<^verbatim>\<open>Sound_Pm16\<close>), the selector
  translation, the multimedia timer and the addresses of the driver's static objects. The
  function called by \<open>DriverCallback\<close> is a parameter of every operation that calls it: it
  may change the whole world, so an application that calls the driver again from its callback
  is covered.
\<close>

section \<open>Constants\<close>

definition GSW_WAVE_QUEUE_CAPACITY :: u16 where "GSW_WAVE_QUEUE_CAPACITY = 32"
definition GSW_PUMP_PERIOD_MS :: u16 where "GSW_PUMP_PERIOD_MS = 1"
definition GSW_PUMP_WORK_LIMIT :: nat where "GSW_PUMP_WORK_LIMIT = 64"

definition WAVE_FORMAT_DIRECT :: u32 where "WAVE_FORMAT_DIRECT = 8"
definition CALLBACK_EVENT :: u32 where "CALLBACK_EVENT = 0x00050000"
definition MM_UNMAPPED :: u16 where "MM_UNMAPPED = 0xFFFF"
definition DRVM_INIT :: u16 where "DRVM_INIT = 100"
definition DRVM_EXIT :: u16 where "DRVM_EXIT = 101"
definition DRVM_DISABLE :: u16 where "DRVM_DISABLE = 102"
definition DRVM_ENABLE :: u16 where "DRVM_ENABLE = 103"
definition WODM_INIT :: u16 where "WODM_INIT = DRVM_INIT"
definition WODM_GETNUMDEVS :: u16 where "WODM_GETNUMDEVS = 3"
definition WODM_GETDEVCAPS :: u16 where "WODM_GETDEVCAPS = 4"
definition WODM_OPEN :: u16 where "WODM_OPEN = 5"
definition WODM_CLOSE :: u16 where "WODM_CLOSE = 6"
definition WODM_PREPARE :: u16 where "WODM_PREPARE = 7"
definition WODM_UNPREPARE :: u16 where "WODM_UNPREPARE = 8"
definition WODM_WRITE :: u16 where "WODM_WRITE = 9"
definition WODM_PAUSE :: u16 where "WODM_PAUSE = 10"
definition WODM_RESTART :: u16 where "WODM_RESTART = 11"
definition WODM_RESET :: u16 where "WODM_RESET = 12"
definition WODM_GETPOS :: u16 where "WODM_GETPOS = 13"
definition WODM_GETVOLUME :: u16 where "WODM_GETVOLUME = 16"
definition WODM_SETVOLUME :: u16 where "WODM_SETVOLUME = 17"
definition WODM_BREAKLOOP :: u16 where "WODM_BREAKLOOP = 20"
definition MXDM_BASE :: u16 where "MXDM_BASE = 1"
definition MXDM_INIT :: u16 where "MXDM_INIT = DRVM_INIT"
definition MXDM_GETNUMDEVS :: u16 where "MXDM_GETNUMDEVS = MXDM_BASE + 0"
definition MXDM_GETDEVCAPS :: u16 where "MXDM_GETDEVCAPS = MXDM_BASE + 1"
definition MXDM_OPEN :: u16 where "MXDM_OPEN = MXDM_BASE + 2"
definition MXDM_CLOSE :: u16 where "MXDM_CLOSE = MXDM_BASE + 3"
definition MXDM_GETLINEINFO :: u16 where "MXDM_GETLINEINFO = MXDM_BASE + 4"
definition MXDM_GETLINECONTROLS :: u16 where "MXDM_GETLINECONTROLS = MXDM_BASE + 5"
definition MXDM_GETCONTROLDETAILS :: u16 where "MXDM_GETCONTROLDETAILS = MXDM_BASE + 6"
definition MXDM_SETCONTROLDETAILS :: u16 where "MXDM_SETCONTROLDETAILS = MXDM_BASE + 7"
definition MIXERR_BASE :: u16 where "MIXERR_BASE = 1024"
definition MIXERR_INVALLINE :: u16 where "MIXERR_INVALLINE = MIXERR_BASE + 0"
definition MIXERR_INVALCONTROL :: u16 where "MIXERR_INVALCONTROL = MIXERR_BASE + 1"
definition MIXERR_INVALVALUE :: u16 where "MIXERR_INVALVALUE = MIXERR_BASE + 2"
definition MM_MIXM_LINE_CHANGE :: u16 where "MM_MIXM_LINE_CHANGE = 0x03D0"
definition MM_MIXM_CONTROL_CHANGE :: u16 where "MM_MIXM_CONTROL_CHANGE = 0x03D1"
definition MIXERLINE_LINEF_ACTIVE :: u32 where "MIXERLINE_LINEF_ACTIVE = 1"
definition MIXERLINE_LINEF_SOURCE :: u32 where "MIXERLINE_LINEF_SOURCE = 0x80000000"
definition MIXERLINE_COMPONENTTYPE_DST_SPEAKERS :: u32 where "MIXERLINE_COMPONENTTYPE_DST_SPEAKERS = 4"
definition MIXERLINE_COMPONENTTYPE_SRC_WAVEOUT :: u32 where "MIXERLINE_COMPONENTTYPE_SRC_WAVEOUT = 0x1008"
definition MIXERLINE_TARGETTYPE_WAVEOUT :: u32 where "MIXERLINE_TARGETTYPE_WAVEOUT = 1"
definition MIXER_GETLINEINFOF_DESTINATION :: u32 where "MIXER_GETLINEINFOF_DESTINATION = 0"
definition MIXER_GETLINEINFOF_SOURCE :: u32 where "MIXER_GETLINEINFOF_SOURCE = 1"
definition MIXER_GETLINEINFOF_LINEID :: u32 where "MIXER_GETLINEINFOF_LINEID = 2"
definition MIXER_GETLINEINFOF_COMPONENTTYPE :: u32 where "MIXER_GETLINEINFOF_COMPONENTTYPE = 3"
definition MIXER_GETLINEINFOF_TARGETTYPE :: u32 where "MIXER_GETLINEINFOF_TARGETTYPE = 4"
definition MIXER_GETLINEINFOF_QUERYMASK :: u32 where "MIXER_GETLINEINFOF_QUERYMASK = 0xF"
definition MIXERCONTROL_CONTROLF_UNIFORM :: u32 where "MIXERCONTROL_CONTROLF_UNIFORM = 1"
definition MIXERCONTROL_CONTROLTYPE_VOLUME :: u32 where "MIXERCONTROL_CONTROLTYPE_VOLUME = 0x50030001"
definition MIXER_GETLINECONTROLSF_ALL :: u32 where "MIXER_GETLINECONTROLSF_ALL = 0"
definition MIXER_GETLINECONTROLSF_ONEBYID :: u32 where "MIXER_GETLINECONTROLSF_ONEBYID = 1"
definition MIXER_GETLINECONTROLSF_ONEBYTYPE :: u32 where "MIXER_GETLINECONTROLSF_ONEBYTYPE = 2"
definition MIXER_GETLINECONTROLSF_QUERYMASK :: u32 where "MIXER_GETLINECONTROLSF_QUERYMASK = 0xF"
definition MIXER_GETCONTROLDETAILSF_VALUE :: u32 where "MIXER_GETCONTROLDETAILSF_VALUE = 0"
definition MIXER_GETCONTROLDETAILSF_QUERYMASK :: u32 where "MIXER_GETCONTROLDETAILSF_QUERYMASK = 0xF"
definition MIXER_SETCONTROLDETAILSF_VALUE :: u32 where "MIXER_SETCONTROLDETAILSF_VALUE = 0"
definition MIXER_SETCONTROLDETAILSF_QUERYMASK :: u32 where "MIXER_SETCONTROLDETAILSF_QUERYMASK = 0xF"

text \<open>The Windows multimedia interface.\<close>

definition MMSYSERR_NOERROR :: u16 where "MMSYSERR_NOERROR = 0"
definition MMSYSERR_ERROR :: u16 where "MMSYSERR_ERROR = 1"
definition MMSYSERR_BADDEVICEID :: u16 where "MMSYSERR_BADDEVICEID = 2"
definition MMSYSERR_NOTENABLED :: u16 where "MMSYSERR_NOTENABLED = 3"
definition MMSYSERR_ALLOCATED :: u16 where "MMSYSERR_ALLOCATED = 4"
definition MMSYSERR_INVALHANDLE :: u16 where "MMSYSERR_INVALHANDLE = 5"
definition MMSYSERR_NOMEM :: u16 where "MMSYSERR_NOMEM = 7"
definition MMSYSERR_NOTSUPPORTED :: u16 where "MMSYSERR_NOTSUPPORTED = 8"
definition MMSYSERR_INVALFLAG :: u16 where "MMSYSERR_INVALFLAG = 10"
definition MMSYSERR_INVALPARAM :: u16 where "MMSYSERR_INVALPARAM = 11"
definition WAVERR_BADFORMAT :: u16 where "WAVERR_BADFORMAT = 32"
definition WAVERR_STILLPLAYING :: u16 where "WAVERR_STILLPLAYING = 33"
definition WAVERR_UNPREPARED :: u16 where "WAVERR_UNPREPARED = 34"
definition WHDR_DONE :: u32 where "WHDR_DONE = 1"
definition WHDR_PREPARED :: u32 where "WHDR_PREPARED = 2"
definition WHDR_BEGINLOOP :: u32 where "WHDR_BEGINLOOP = 4"
definition WHDR_ENDLOOP :: u32 where "WHDR_ENDLOOP = 8"
definition WHDR_INQUEUE :: u32 where "WHDR_INQUEUE = 16"
definition CALLBACK_TYPEMASK :: u32 where "CALLBACK_TYPEMASK = 0x00070000"
definition CALLBACK_NULL :: u32 where "CALLBACK_NULL = 0"
definition CALLBACK_WINDOW :: u32 where "CALLBACK_WINDOW = 0x00010000"
definition CALLBACK_TASK :: u32 where "CALLBACK_TASK = 0x00020000"
definition CALLBACK_FUNCTION :: u32 where "CALLBACK_FUNCTION = 0x00030000"
definition WAVE_FORMAT_PCM :: u16 where "WAVE_FORMAT_PCM = 1"
definition WAVE_FORMAT_QUERY :: u32 where "WAVE_FORMAT_QUERY = 1"
definition WAVE_ALLOWSYNC :: u32 where "WAVE_ALLOWSYNC = 2"
definition WOM_OPEN :: u16 where "WOM_OPEN = 0x3BB"
definition WOM_CLOSE :: u16 where "WOM_CLOSE = 0x3BC"
definition WOM_DONE :: u16 where "WOM_DONE = 0x3BD"
definition TIME_MS :: u16 where "TIME_MS = 1"
definition TIME_SAMPLES :: u16 where "TIME_SAMPLES = 2"
definition TIME_BYTES :: u16 where "TIME_BYTES = 4"
definition WAVECAPS_VOLUME :: u32 where "WAVECAPS_VOLUME = 4"
definition DRV_LOAD :: u16 where "DRV_LOAD = 1"
definition DRV_ENABLE :: u16 where "DRV_ENABLE = 2"
definition DRV_OPEN :: u16 where "DRV_OPEN = 3"
definition DRV_CLOSE :: u16 where "DRV_CLOSE = 4"
definition DRV_DISABLE :: u16 where "DRV_DISABLE = 5"
definition DRV_FREE :: u16 where "DRV_FREE = 6"
definition DRV_RESERVED :: u16 where "DRV_RESERVED = 0x800"
definition DRV_QUERYDRVENTRY :: u16 where "DRV_QUERYDRVENTRY = DRV_RESERVED + 1"
definition DRV_QUERYDSOUNDIFACE :: u16 where "DRV_QUERYDSOUNDIFACE = DRV_RESERVED + 20"

definition GSW_DRIVER_CALLBACK_FLAGS :: "u32 \<Rightarrow> u16" where
  "GSW_DRIVER_CALLBACK_FLAGS flags = ucast (drop_bit 16 (flags AND CALLBACK_TYPEMASK))"

section \<open>Structures of the multimedia interface\<close>

record WAVEHDR =
  lpData :: u32
  dwBufferLength :: u32
  dwFlags :: u32
  dwLoops :: u32

record MMTIME =
  wType :: u16
  time_value :: u32

record GSW_WAVEFORMATEX =
  wFormatTag :: u16
  nChannels :: u16
  nSamplesPerSec :: u32
  nAvgBytesPerSec :: u32
  nBlockAlign :: u16
  wBitsPerSample :: u16

record GSW_WAVEOPENDESC =
  hWave :: u16
  lpFormat :: u32
  wd_dwCallback :: u32
  wd_dwInstance :: u32

record GSW_MIXEROPENDESC =
  hmx :: u16
  pReserved0 :: u32
  md_dwCallback :: u32
  md_dwInstance :: u32

record GSW_MIXERLINE =
  ml_cbStruct :: u32
  dwDestination :: u32
  dwSource :: u32
  dwLineID :: u32
  fdwLine :: u32
  ml_dwUser :: u32
  dwComponentType :: u32
  cChannels :: u32
  cConnections :: u32
  cControls :: u32
  szShortName :: string
  szName :: string
  Target_dwType :: u32
  Target_dwDeviceID :: u32
  Target_wMid :: u16
  Target_wPid :: u16
  Target_vDriverVersion :: u16
  Target_szPname :: string

record GSW_MIXERCONTROL =
  mc_cbStruct :: u32
  mc_dwControlID :: u32
  dwControlType :: u32
  fdwControl :: u32
  mc_cMultipleItems :: u32
  mc_szShortName :: string
  mc_szName :: string
  Bounds_dwMinimum :: u32
  Bounds_dwMaximum :: u32
  Metrics_cSteps :: u32

record GSW_MIXERLINECONTROLS =
  lc_cbStruct :: u32
  lc_dwLineID :: u32
  lc_Select :: u32
  lc_cControls :: u32
  cbmxctrl :: u32
  pamxctrl :: u32

record GSW_MIXERCONTROLDETAILS =
  cd_cbStruct :: u32
  cd_dwControlID :: u32
  cd_cChannels :: u32
  cd_cMultipleItems :: u32
  cbDetails :: u32
  paDetails :: u32

text \<open>
  The sizes the source asserts. \<open>WAVEHDR\<close> and \<open>MMTIME\<close> are structures of Windows:
  32 and 10 bytes in the 16-bit interface.
\<close>

definition sizeof_WAVEHDR :: u32 where "sizeof_WAVEHDR = 32"
definition sizeof_MMTIME :: u32 where "sizeof_MMTIME = 8"
definition sizeof_MIXERLINE :: u32 where "sizeof_MIXERLINE = 166"
definition sizeof_MIXERCONTROL :: u32 where "sizeof_MIXERCONTROL = 148"
definition sizeof_MIXERLINECONTROLS :: u32 where "sizeof_MIXERLINECONTROLS = 24"
definition sizeof_MIXERCONTROLDETAILS :: u32 where "sizeof_MIXERCONTROLDETAILS = 24"
definition sizeof_MIXERCONTROLDETAILS_UNSIGNED :: u32 where "sizeof_MIXERCONTROLDETAILS_UNSIGNED = 4"

record far_memory =
  wavehdrs :: "u32 \<Rightarrow> WAVEHDR"
  mmtimes :: "u32 \<Rightarrow> MMTIME"
  waveformats :: "u32 \<Rightarrow> GSW_WAVEFORMATEX"
  waveopendescs :: "u32 \<Rightarrow> GSW_WAVEOPENDESC"
  mixeropendescs :: "u32 \<Rightarrow> GSW_MIXEROPENDESC"
  mixerlines :: "u32 \<Rightarrow> GSW_MIXERLINE"
  mixercontrols :: "u32 \<Rightarrow> GSW_MIXERCONTROL"
  mixerlinecontrols :: "u32 \<Rightarrow> GSW_MIXERLINECONTROLS"
  mixercontroldetails :: "u32 \<Rightarrow> GSW_MIXERCONTROLDETAILS"
  dwords :: "u32 \<Rightarrow> u32"
  caps_bytes :: "u32 \<Rightarrow> u8 list"

section \<open>The driver's state\<close>

record GSW_WAVE_BUFFER =
  b_header :: u32
  b_buffer_linear :: u32
  b_buffer_bytes :: u32
  b_header_flags :: u32
  b_loop_count :: u32
  b_submitted_bytes :: u32
  b_token :: u32

record GSW_WAVE_PLAY =
  p_token :: u32
  p_buffer_index :: u16
  p_loop_start_index :: u16
  p_loop_end_index :: u16
  p_complete_buffer :: bool
  p_release_loop :: bool

record GSW_WAVE_INSTANCE =
  w_open :: bool
  w_paused :: bool
  w_pumping :: bool
  w_queue_loop_open :: bool
  w_loop_active :: bool
  w_loop_break_requested :: bool
  w_break_next_loop :: bool
  w_wave :: u16
  w_callback :: u32
  w_callback_instance :: u32
  w_callback_flags :: u16
  w_stream_id :: u32
  w_next_token :: u32
  w_sample_rate :: u32
  w_channels :: u16
  w_bits_per_sample :: u16
  w_frame_bytes :: u16
  w_timer_id :: u16
  w_timer_period_active :: bool
  w_queue :: "GSW_WAVE_BUFFER list"
  w_queue_read :: u16
  w_queue_write :: u16
  w_queue_count :: u16
  w_schedule_index :: u16
  w_plays :: "GSW_WAVE_PLAY list"
  w_play_read :: u16
  w_play_write :: u16
  w_play_count :: u16
  w_loop_start_index :: u16
  w_loop_release_pending :: u16
  w_loop_remaining :: u32

record GSW_CALLBACK_CONTEXT =
  ctx_wave :: u16
  ctx_callback :: u32
  ctx_callback_instance :: u32
  ctx_callback_flags :: u16

definition buffer_zero :: GSW_WAVE_BUFFER where
  "buffer_zero = \<lparr>b_header = 0, b_buffer_linear = 0, b_buffer_bytes = 0, b_header_flags = 0,
     b_loop_count = 0, b_submitted_bytes = 0, b_token = 0\<rparr>"

definition play_zero :: GSW_WAVE_PLAY where
  "play_zero = \<lparr>p_token = 0, p_buffer_index = 0, p_loop_start_index = 0, p_loop_end_index = 0,
     p_complete_buffer = False, p_release_loop = False\<rparr>"

definition wave_zero :: GSW_WAVE_INSTANCE where
  "wave_zero = \<lparr>w_open = False, w_paused = False, w_pumping = False, w_queue_loop_open = False,
     w_loop_active = False, w_loop_break_requested = False, w_break_next_loop = False, w_wave = 0,
     w_callback = 0, w_callback_instance = 0, w_callback_flags = 0, w_stream_id = 0, w_next_token = 0,
     w_sample_rate = 0, w_channels = 0, w_bits_per_sample = 0, w_frame_bytes = 0, w_timer_id = 0,
     w_timer_period_active = False, w_queue = replicate 32 buffer_zero, w_queue_read = 0,
     w_queue_write = 0, w_queue_count = 0, w_schedule_index = 0, w_plays = replicate 32 play_zero,
     w_play_read = 0, w_play_write = 0, w_play_count = 0, w_loop_start_index = 0,
     w_loop_release_pending = 0, w_loop_remaining = 0\<rparr>"

record GSW_MIXER_CLIENT =
  mx_open :: bool
  mx_mixer :: u16
  mx_callback :: u32
  mx_callback_instance :: u32
  mx_callback_flags :: u16

record GSW_MIXER_STATE =
  mx_initialized :: bool
  mx_wave_active :: bool
  mx_master_volume :: u16
  mx_wave_volume :: u16
  mx_clients :: "GSW_MIXER_CLIENT list"

definition mixer_client_zero :: GSW_MIXER_CLIENT where
  "mixer_client_zero = \<lparr>mx_open = False, mx_mixer = 0, mx_callback = 0, mx_callback_instance = 0,
     mx_callback_flags = 0\<rparr>"

definition mixer_zero :: GSW_MIXER_STATE where
  "mixer_zero = \<lparr>mx_initialized = False, mx_wave_active = False, mx_master_volume = 0,
     mx_wave_volume = 0, mx_clients = replicate 8 mixer_client_zero\<rparr>"

section \<open>World and services\<close>

text \<open>
  The two logs record the headers the driver took into its queue and the headers it gave back,
  in the order it did so.
\<close>

record 's win16_world =
  gsw_wave :: GSW_WAVE_INSTANCE
  gsw_mixer :: GSW_MIXER_STATE
  far :: far_memory
  outside :: 's
  taken_log :: "u32 list"
  returned_log :: "u32 list"

record 's win16_env =
  pm_call :: "GSW_SOUND_PM_REQUEST \<Rightarrow> 's \<Rightarrow> GSW_SOUND_RESULT \<times> GSW_SOUND_PM_REQUEST \<times> 's"
  pm_linear :: "u32 \<Rightarrow> 's \<Rightarrow> u32 option \<times> 's"
  pm_connect :: "'s \<Rightarrow> bool \<times> 's"
  timeBeginPeriod :: "'s \<Rightarrow> bool \<times> 's"
  timeEndPeriod :: "'s \<Rightarrow> 's"
  timeSetEvent :: "'s \<Rightarrow> u16 \<times> 's"
  timeKillEvent :: "u16 \<Rightarrow> 's \<Rightarrow> 's"
  wave_address :: u32
  client_address :: "nat \<Rightarrow> u32"

record driver_callback =
  dc_callback :: u32
  dc_flags :: u16
  dc_driver :: u16
  dc_message :: u16
  dc_instance :: u32
  dc_parameter :: u32

type_synonym 's on_callback = "driver_callback \<Rightarrow> 's win16_world \<Rightarrow> 's win16_world"

text \<open>A callback that stays out of the driver: it changes the memory and the world outside only.\<close>

definition memory_callback ::
    "(driver_callback \<Rightarrow> far_memory \<Rightarrow> far_memory) \<Rightarrow> (driver_callback \<Rightarrow> 's \<Rightarrow> 's) \<Rightarrow> 's on_callback" where
  "memory_callback f h d w = w\<lparr>far := f d (far w), outside := h d (outside w)\<rparr>"

definition on_outside :: "('s \<Rightarrow> 'a \<times> 's) \<Rightarrow> 's win16_world \<Rightarrow> 'a \<times> 's win16_world" where
  "on_outside f w = (fst (f (outside w)), w\<lparr>outside := snd (f (outside w))\<rparr>)"

definition do_outside :: "('s \<Rightarrow> 's) \<Rightarrow> 's win16_world \<Rightarrow> 's win16_world" where
  "do_outside f w = w\<lparr>outside := f (outside w)\<rparr>"

text \<open>A call into the VxD with a request on the caller's stack.\<close>

definition call_pm ::
    "'s win16_env \<Rightarrow> GSW_SOUND_PM_REQUEST \<Rightarrow> 's win16_world \<Rightarrow>
     GSW_SOUND_RESULT \<times> GSW_SOUND_PM_REQUEST \<times> 's win16_world" where
  "call_pm e r w = (let (result, r, s) = pm_call e r (outside w) in (result, r, w\<lparr>outside := s\<rparr>))"

definition request_zero :: GSW_SOUND_PM_REQUEST where
  "request_zero = \<lparr>pm_size = 0, pm_version = 0, pm_opcode = 0, pm_reserved_zero = 0, pm_stream_id = 0,
     pm_flags = 0, pm_sample_rate = 0, pm_channels = 0, pm_bits_per_sample = 0, pm_buffer_linear = 0,
     pm_buffer_bytes = 0, pm_user_token = 0, pm_accepted_bytes = 0, pm_completed_token = 0,
     pm_position_low = 0, pm_position_high = 0, pm_gain_q16 = 0, pm_capabilities = 0, pm_result = 0\<rparr>"

definition gsw_request_init :: "u16 \<Rightarrow> GSW_SOUND_PM_REQUEST" where
  "gsw_request_init opcode =
     request_zero\<lparr>pm_size := 64, pm_version := GSW_SOUND_PM_API_VERSION, pm_opcode := opcode\<rparr>"

lemma call_pm_frame [simp]:
  "gsw_wave (snd (snd (call_pm e r w))) = gsw_wave w" "gsw_mixer (snd (snd (call_pm e r w))) = gsw_mixer w"
  "far (snd (snd (call_pm e r w))) = far w" "taken_log (snd (snd (call_pm e r w))) = taken_log w"
  "returned_log (snd (snd (call_pm e r w))) = returned_log w"
  by (simp_all add: call_pm_def split_beta)

lemma outside_frame [simp]:
  "gsw_wave (snd (on_outside f w)) = gsw_wave w" "gsw_mixer (snd (on_outside f w)) = gsw_mixer w"
  "far (snd (on_outside f w)) = far w" "taken_log (snd (on_outside f w)) = taken_log w"
  "returned_log (snd (on_outside f w)) = returned_log w"
  "gsw_wave (do_outside g w) = gsw_wave w" "gsw_mixer (do_outside g w) = gsw_mixer w"
  "far (do_outside g w) = far w" "taken_log (do_outside g w) = taken_log w"
  "returned_log (do_outside g w) = returned_log w"
  by (simp_all add: on_outside_def do_outside_def)

end
