(* ===== verification/Sound_Mixer.thy ===== *)
theory Sound_Mixer
  imports Sound_Win16
begin

text \<open>
  The mixer of the 16-bit driver (\<^verbatim>\<open>gsw-sound/drv/gswsound_mixer.c\<close>): its volumes, its
  client table, the line and control queries and the message entry. A far pointer argument is
  an address into the store of its structure type.
\<close>

section \<open>Constants\<close>

definition GSW_MIXER_CLIENT_CAPACITY :: nat where "GSW_MIXER_CLIENT_CAPACITY = 8"
definition GSW_MIXER_LINE_SPEAKERS :: u32 where "GSW_MIXER_LINE_SPEAKERS = 0x1000"
definition GSW_MIXER_LINE_WAVEOUT :: u32 where "GSW_MIXER_LINE_WAVEOUT = 0x1001"
definition GSW_MIXER_CONTROL_MASTER :: u32 where "GSW_MIXER_CONTROL_MASTER = 0x2000"
definition GSW_MIXER_CONTROL_WAVE :: u32 where "GSW_MIXER_CONTROL_WAVE = 0x2001"
definition GSW_MIXER_VOLUME_MAX :: u32 where "GSW_MIXER_VOLUME_MAX = 0xFFFF"

section \<open>Requests, initialisation and notification\<close>

definition gsw_mixer_request_init :: "u16 \<Rightarrow> GSW_SOUND_PM_REQUEST" where
  "gsw_mixer_request_init opcode =
     request_zero\<lparr>pm_size := 64, pm_version := GSW_SOUND_PM_API_VERSION, pm_opcode := opcode\<rparr>"

fun gsw_mixer_result_to_mm :: "GSW_SOUND_RESULT \<Rightarrow> u16" where
  "gsw_mixer_result_to_mm GSW_SOUND_OK = MMSYSERR_NOERROR"
| "gsw_mixer_result_to_mm GSW_SOUND_BUSY = MMSYSERR_ALLOCATED"
| "gsw_mixer_result_to_mm GSW_SOUND_INVALID = MMSYSERR_INVALPARAM"
| "gsw_mixer_result_to_mm GSW_SOUND_UNAVAILABLE = MMSYSERR_NOTENABLED"
| "gsw_mixer_result_to_mm _ = MMSYSERR_ERROR"

definition gsw_mixer_initialize :: "'s win16_world \<Rightarrow> 's win16_world" where
  "gsw_mixer_initialize w =
     (if mx_initialized (gsw_mixer w) then w
      else w\<lparr>gsw_mixer := mixer_zero\<lparr>mx_master_volume := ucast GSW_MIXER_VOLUME_MAX,
             mx_wave_volume := ucast GSW_MIXER_VOLUME_MAX, mx_initialized := True\<rparr>\<rparr>)"

definition gsw_mixer_shutdown :: "'s win16_world \<Rightarrow> 's win16_world" where
  "gsw_mixer_shutdown w = w\<lparr>gsw_mixer := mixer_zero\<rparr>"

definition gsw_mixer_num_devices :: "'s win16_env \<Rightarrow> 's win16_world \<Rightarrow> u32 \<times> 's win16_world" where
  "gsw_mixer_num_devices e w =
     (let (result, r, w) = call_pm e (gsw_mixer_request_init GSW_SOUND_PM_QUERY) w
      in if result \<noteq> GSW_SOUND_OK then (0, w)
         else (if pm_capabilities r AND GSW_PCM_REQUIRED_CAPS = GSW_PCM_REQUIRED_CAPS then 1 else 0, w))"

text \<open>The loop over the clients: the entry is read again at each turn.\<close>

definition gsw_mixer_notify_client ::
    "'s on_callback \<Rightarrow> u16 \<Rightarrow> u32 \<Rightarrow> nat \<Rightarrow> 's win16_world \<Rightarrow> 's win16_world" where
  "gsw_mixer_notify_client cb message ident index w =
     (let c = mx_clients (gsw_mixer w) ! index in
      if \<not> mx_open c then w
      else cb \<lparr>dc_callback = mx_callback c, dc_flags = mx_callback_flags c, dc_driver = mx_mixer c,
               dc_message = message, dc_instance = mx_callback_instance c, dc_parameter = ident\<rparr> w)"

definition gsw_mixer_notify :: "'s on_callback \<Rightarrow> u16 \<Rightarrow> u32 \<Rightarrow> 's win16_world \<Rightarrow> 's win16_world" where
  "gsw_mixer_notify cb message ident w =
     fold (gsw_mixer_notify_client cb message ident) [0..<GSW_MIXER_CLIENT_CAPACITY] w"

definition gsw_mixer_set_wave_active :: "'s on_callback \<Rightarrow> bool \<Rightarrow> 's win16_world \<Rightarrow> 's win16_world" where
  "gsw_mixer_set_wave_active cb active w =
     (let w = gsw_mixer_initialize w in
      if mx_wave_active (gsw_mixer w) = active then w
      else gsw_mixer_notify cb MM_MIXM_LINE_CHANGE GSW_MIXER_LINE_WAVEOUT
             (w\<lparr>gsw_mixer := (gsw_mixer w)\<lparr>mx_wave_active := active\<rparr>\<rparr>))"

section \<open>Volume\<close>

definition gsw_mixer_effective :: "u16 \<Rightarrow> u16 \<Rightarrow> u32" where
  "gsw_mixer_effective master wv =
     (ucast master * ucast wv + GSW_MIXER_VOLUME_MAX div 2) div GSW_MIXER_VOLUME_MAX"

definition gsw_mixer_gain :: "u16 \<Rightarrow> u16 \<Rightarrow> u32" where
  "gsw_mixer_gain master wv =
     (let effective = gsw_mixer_effective master wv
      in effective + (if effective \<ge> 0x8000 then 1 else 0))"

definition gsw_mixer_program_gain ::
    "'s win16_env \<Rightarrow> u16 \<Rightarrow> u16 \<Rightarrow> 's win16_world \<Rightarrow> u16 \<times> 's win16_world" where
  "gsw_mixer_program_gain e master wv w =
     (let (result, r, w) = call_pm e
            ((gsw_mixer_request_init GSW_SOUND_PM_SET_GAIN)\<lparr>pm_gain_q16 := gsw_mixer_gain master wv\<rparr>) w
      in (gsw_mixer_result_to_mm result, w))"

definition gsw_mixer_set_control ::
    "'s win16_env \<Rightarrow> 's on_callback \<Rightarrow> u32 \<Rightarrow> u32 \<Rightarrow> 's win16_world \<Rightarrow> u16 \<times> 's win16_world" where
  "gsw_mixer_set_control e cb control_id val w =
     (if val > GSW_MIXER_VOLUME_MAX then (MIXERR_INVALVALUE, w)
      else
        (let w = gsw_mixer_initialize w;
             m = gsw_mixer w in
         if control_id \<noteq> GSW_MIXER_CONTROL_MASTER \<and> control_id \<noteq> GSW_MIXER_CONTROL_WAVE
         then (MIXERR_INVALCONTROL, w)
         else
           (let master = (if control_id = GSW_MIXER_CONTROL_MASTER then ucast val else mx_master_volume m);
                wv = (if control_id = GSW_MIXER_CONTROL_MASTER then mx_wave_volume m else ucast val)
            in if master = mx_master_volume m \<and> wv = mx_wave_volume m then (MMSYSERR_NOERROR, w)
               else
                 (let (result, w) = gsw_mixer_program_gain e master wv w in
                  if result \<noteq> MMSYSERR_NOERROR then (result, w)
                  else (MMSYSERR_NOERROR,
                        gsw_mixer_notify cb MM_MIXM_CONTROL_CHANGE control_id
                          (w\<lparr>gsw_mixer := (gsw_mixer w)\<lparr>mx_master_volume := master, mx_wave_volume := wv\<rparr>\<rparr>))))))"

definition gsw_mixer_get_wave_volume :: "u32 \<Rightarrow> 's win16_world \<Rightarrow> u16 \<times> 's win16_world" where
  "gsw_mixer_get_wave_volume volume w =
     (if volume = 0 then (MMSYSERR_INVALPARAM, w)
      else
        (let w = gsw_mixer_initialize w;
             val = ucast (mx_wave_volume (gsw_mixer w)) :: u32
         in (MMSYSERR_NOERROR,
             w\<lparr>far := (far w)\<lparr>dwords := (dwords (far w))(volume := val OR push_bit 16 val)\<rparr>\<rparr>)))"

definition gsw_mixer_set_wave_volume ::
    "'s win16_env \<Rightarrow> 's on_callback \<Rightarrow> u32 \<Rightarrow> 's win16_world \<Rightarrow> u16 \<times> 's win16_world" where
  "gsw_mixer_set_wave_volume e cb volume w =
     gsw_mixer_set_control e cb GSW_MIXER_CONTROL_WAVE (volume AND 0xFFFF) w"

section \<open>Queries\<close>

text \<open>
  The capabilities as the bytes of their packed structure; as many as asked for are copied.
\<close>

definition name_bytes :: "nat \<Rightarrow> string \<Rightarrow> u8 list" where
  "name_bytes n s = take n (map (\<lambda>c. of_nat (of_char c)) s @ replicate n 0)"

definition copy_prefix :: "nat \<Rightarrow> u8 list \<Rightarrow> u8 list \<Rightarrow> u8 list" where
  "copy_prefix n new old = take n new @ drop (min n (length new)) old"

definition GSW_MIXERCAPS_bytes :: "u8 list" where
  "GSW_MIXERCAPS_bytes = le16 MM_UNMAPPED @ le16 0 @ le16 0x0100 @
     name_bytes 32 ''RETVRN99 GSW-Sound Mixer'' @ le32 0 @ le32 1"

definition gsw_mixer_get_caps :: "u32 \<Rightarrow> u32 \<Rightarrow> 's win16_world \<Rightarrow> u16 \<times> 's win16_world" where
  "gsw_mixer_get_caps caps bytes w =
     (if caps = 0 \<or> bytes = 0 then (MMSYSERR_INVALPARAM, w)
      else (MMSYSERR_NOERROR,
            w\<lparr>far := (far w)\<lparr>caps_bytes := (caps_bytes (far w))(caps :=
                copy_prefix (unat bytes) GSW_MIXERCAPS_bytes (caps_bytes (far w) caps))\<rparr>\<rparr>))"

definition gsw_mixer_fill_line :: "GSW_MIXER_STATE \<Rightarrow> u32 \<Rightarrow> GSW_MIXERLINE" where
  "gsw_mixer_fill_line m line_id =
     (let speakers = line_id = GSW_MIXER_LINE_SPEAKERS in
      \<lparr>ml_cbStruct = sizeof_MIXERLINE, dwDestination = 0, dwSource = 0, dwLineID = line_id,
       fdwLine = (if speakers then MIXERLINE_LINEF_ACTIVE
                  else if mx_wave_active m then MIXERLINE_LINEF_SOURCE OR MIXERLINE_LINEF_ACTIVE
                  else MIXERLINE_LINEF_SOURCE),
       ml_dwUser = 0,
       dwComponentType = (if speakers then MIXERLINE_COMPONENTTYPE_DST_SPEAKERS
                          else MIXERLINE_COMPONENTTYPE_SRC_WAVEOUT),
       cChannels = 2, cConnections = (if speakers then 1 else 0), cControls = 1,
       szShortName = (if speakers then ''Master'' else ''Wave''),
       szName = (if speakers then ''GSW-Sound Master Output'' else ''GSW-Sound Wave Output''),
       Target_dwType = MIXERLINE_TARGETTYPE_WAVEOUT, Target_dwDeviceID = 0, Target_wMid = MM_UNMAPPED,
       Target_wPid = 0, Target_vDriverVersion = 0x0100, Target_szPname = ''RETVRN99 GSW-Sound''\<rparr>)"

text \<open>The switch over the query: the line found, or the error.\<close>

definition gsw_mixer_find_line :: "GSW_MIXERLINE \<Rightarrow> u32 \<Rightarrow> u16 + u32" where
  "gsw_mixer_find_line line query =
     (if query = MIXER_GETLINEINFOF_DESTINATION
      then (if dwDestination line \<noteq> 0 then Inl MIXERR_INVALLINE else Inr GSW_MIXER_LINE_SPEAKERS)
      else if query = MIXER_GETLINEINFOF_SOURCE
      then (if dwDestination line \<noteq> 0 \<or> dwSource line \<noteq> 0 then Inl MIXERR_INVALLINE
            else Inr GSW_MIXER_LINE_WAVEOUT)
      else if query = MIXER_GETLINEINFOF_LINEID
      then (if dwLineID line \<noteq> GSW_MIXER_LINE_SPEAKERS \<and> dwLineID line \<noteq> GSW_MIXER_LINE_WAVEOUT
            then Inl MIXERR_INVALLINE else Inr (dwLineID line))
      else if query = MIXER_GETLINEINFOF_COMPONENTTYPE
      then (if dwComponentType line = MIXERLINE_COMPONENTTYPE_DST_SPEAKERS then Inr GSW_MIXER_LINE_SPEAKERS
            else if dwComponentType line = MIXERLINE_COMPONENTTYPE_SRC_WAVEOUT then Inr GSW_MIXER_LINE_WAVEOUT
            else Inl MIXERR_INVALLINE)
      else if query = MIXER_GETLINEINFOF_TARGETTYPE
      then (if Target_dwType line \<noteq> MIXERLINE_TARGETTYPE_WAVEOUT \<or> Target_dwDeviceID line \<noteq> 0
            then Inl MIXERR_INVALLINE else Inr GSW_MIXER_LINE_WAVEOUT)
      else Inl MMSYSERR_INVALFLAG)"

definition gsw_mixer_get_line_info :: "u32 \<Rightarrow> u32 \<Rightarrow> 's win16_world \<Rightarrow> u16 \<times> 's win16_world" where
  "gsw_mixer_get_line_info p flags w =
     (let line = mixerlines (far w) p in
      if p = 0 \<or> ml_cbStruct line < sizeof_MIXERLINE then (MMSYSERR_INVALPARAM, w)
      else if flags AND NOT MIXER_GETLINEINFOF_QUERYMASK \<noteq> 0 then (MMSYSERR_INVALFLAG, w)
      else
        (case gsw_mixer_find_line line (flags AND MIXER_GETLINEINFOF_QUERYMASK) of
           Inl err \<Rightarrow> (err, w)
         | Inr line_id \<Rightarrow> (MMSYSERR_NOERROR,
             w\<lparr>far := (far w)\<lparr>mixerlines := (mixerlines (far w))(p := gsw_mixer_fill_line (gsw_mixer w) line_id)\<rparr>\<rparr>)))"

definition gsw_mixer_line_control :: "u32 \<Rightarrow> u32" where
  "gsw_mixer_line_control line_id =
     (if line_id = GSW_MIXER_LINE_SPEAKERS then GSW_MIXER_CONTROL_MASTER
      else if line_id = GSW_MIXER_LINE_WAVEOUT then GSW_MIXER_CONTROL_WAVE else 0)"

definition gsw_mixer_control_line :: "u32 \<Rightarrow> u32" where
  "gsw_mixer_control_line control_id =
     (if control_id = GSW_MIXER_CONTROL_MASTER then GSW_MIXER_LINE_SPEAKERS
      else if control_id = GSW_MIXER_CONTROL_WAVE then GSW_MIXER_LINE_WAVEOUT else 0)"

definition gsw_mixer_fill_control :: "u32 \<Rightarrow> GSW_MIXERCONTROL" where
  "gsw_mixer_fill_control control_id =
     (let master = control_id = GSW_MIXER_CONTROL_MASTER in
      \<lparr>mc_cbStruct = sizeof_MIXERCONTROL, mc_dwControlID = control_id,
       dwControlType = MIXERCONTROL_CONTROLTYPE_VOLUME, fdwControl = MIXERCONTROL_CONTROLF_UNIFORM,
       mc_cMultipleItems = 0, mc_szShortName = (if master then ''Master'' else ''Wave''),
       mc_szName = (if master then ''Master Volume'' else ''Wave Volume''), Bounds_dwMinimum = 0,
       Bounds_dwMaximum = GSW_MIXER_VOLUME_MAX, Metrics_cSteps = GSW_MIXER_VOLUME_MAX + 1\<rparr>)"

text \<open>The switch over the query: the control found, or the error.\<close>

definition gsw_mixer_find_control :: "GSW_MIXERLINECONTROLS \<Rightarrow> u32 \<Rightarrow> u16 + u32" where
  "gsw_mixer_find_control controls query =
     (if query = MIXER_GETLINECONTROLSF_ALL
      then (if lc_cControls controls < 1 then Inl MMSYSERR_INVALPARAM
            else if gsw_mixer_line_control (lc_dwLineID controls) = 0 then Inl MIXERR_INVALLINE
            else Inr (gsw_mixer_line_control (lc_dwLineID controls)))
      else if query = MIXER_GETLINECONTROLSF_ONEBYID
      then (if lc_cControls controls \<noteq> 1 then Inl MMSYSERR_INVALPARAM
            else if gsw_mixer_control_line (lc_Select controls) = 0 then Inl MIXERR_INVALCONTROL
            else Inr (lc_Select controls))
      else if query = MIXER_GETLINECONTROLSF_ONEBYTYPE
      then (if lc_cControls controls \<noteq> 1 then Inl MMSYSERR_INVALPARAM
            else if lc_Select controls \<noteq> MIXERCONTROL_CONTROLTYPE_VOLUME then Inl MIXERR_INVALCONTROL
            else if gsw_mixer_line_control (lc_dwLineID controls) = 0 then Inl MIXERR_INVALLINE
            else Inr (gsw_mixer_line_control (lc_dwLineID controls)))
      else Inl MMSYSERR_INVALFLAG)"

definition gsw_mixer_get_line_controls :: "u32 \<Rightarrow> u32 \<Rightarrow> 's win16_world \<Rightarrow> u16 \<times> 's win16_world" where
  "gsw_mixer_get_line_controls p flags w =
     (let controls = mixerlinecontrols (far w) p in
      if p = 0 \<or> lc_cbStruct controls < sizeof_MIXERLINECONTROLS \<or> pamxctrl controls = 0 \<or>
         cbmxctrl controls < sizeof_MIXERCONTROL
      then (MMSYSERR_INVALPARAM, w)
      else if flags AND NOT MIXER_GETLINECONTROLSF_QUERYMASK \<noteq> 0 then (MMSYSERR_INVALFLAG, w)
      else
        (case gsw_mixer_find_control controls (flags AND MIXER_GETLINECONTROLSF_QUERYMASK) of
           Inl err \<Rightarrow> (err, w)
         | Inr control_id \<Rightarrow> (MMSYSERR_NOERROR,
             w\<lparr>far := (far w)\<lparr>
                 mixerlinecontrols := (mixerlinecontrols (far w))(p := controls\<lparr>lc_cControls := 1\<rparr>),
                 mixercontrols := (mixercontrols (far w))
                   (pamxctrl controls := gsw_mixer_fill_control control_id)\<rparr>\<rparr>)))"

definition gsw_mixer_validate_details :: "u32 \<Rightarrow> GSW_MIXERCONTROLDETAILS \<Rightarrow> u32 \<Rightarrow> u32 \<Rightarrow> u16" where
  "gsw_mixer_validate_details p details flags query_mask =
     (if p = 0 \<or> cd_cbStruct details < sizeof_MIXERCONTROLDETAILS \<or> paDetails details = 0 \<or>
         cd_cChannels details \<noteq> 1 \<or> cd_cMultipleItems details \<noteq> 0 \<or>
         cbDetails details \<noteq> sizeof_MIXERCONTROLDETAILS_UNSIGNED
      then MMSYSERR_INVALPARAM
      else if flags AND NOT query_mask \<noteq> 0 then MMSYSERR_INVALFLAG
      else if gsw_mixer_control_line (cd_dwControlID details) = 0 then MIXERR_INVALCONTROL
      else MMSYSERR_NOERROR)"

definition gsw_mixer_get_control_details :: "u32 \<Rightarrow> u32 \<Rightarrow> 's win16_world \<Rightarrow> u16 \<times> 's win16_world" where
  "gsw_mixer_get_control_details p flags w =
     (let details = mixercontroldetails (far w) p;
          result = gsw_mixer_validate_details p details flags MIXER_GETCONTROLDETAILSF_QUERYMASK
      in if result \<noteq> MMSYSERR_NOERROR then (result, w)
         else if flags AND MIXER_GETCONTROLDETAILSF_QUERYMASK \<noteq> MIXER_GETCONTROLDETAILSF_VALUE
         then (MMSYSERR_INVALFLAG, w)
         else (MMSYSERR_NOERROR,
               w\<lparr>far := (far w)\<lparr>dwords := (dwords (far w))(paDetails details :=
                   ucast (if cd_dwControlID details = GSW_MIXER_CONTROL_MASTER
                          then mx_master_volume (gsw_mixer w) else mx_wave_volume (gsw_mixer w)))\<rparr>\<rparr>))"

definition gsw_mixer_set_control_details ::
    "'s win16_env \<Rightarrow> 's on_callback \<Rightarrow> u32 \<Rightarrow> u32 \<Rightarrow> 's win16_world \<Rightarrow> u16 \<times> 's win16_world" where
  "gsw_mixer_set_control_details e cb p flags w =
     (let details = mixercontroldetails (far w) p;
          result = gsw_mixer_validate_details p details flags MIXER_SETCONTROLDETAILSF_QUERYMASK
      in if result \<noteq> MMSYSERR_NOERROR then (result, w)
         else if flags AND MIXER_SETCONTROLDETAILSF_QUERYMASK \<noteq> MIXER_SETCONTROLDETAILSF_VALUE
         then (MMSYSERR_INVALFLAG, w)
         else gsw_mixer_set_control e cb (cd_dwControlID details) (dwords (far w) (paDetails details)) w)"

section \<open>Clients\<close>

definition gsw_mixer_callback_type_valid :: "u32 \<Rightarrow> bool" where
  "gsw_mixer_callback_type_valid callback_type \<longleftrightarrow>
     \<not> (callback_type \<noteq> CALLBACK_NULL \<and> callback_type \<noteq> CALLBACK_WINDOW \<and>
        callback_type \<noteq> CALLBACK_TASK \<and> callback_type \<noteq> CALLBACK_FUNCTION \<and>
        callback_type \<noteq> CALLBACK_EVENT)"

text \<open>The first free entry of the table.\<close>

definition gsw_mixer_free_client :: "GSW_MIXER_STATE \<Rightarrow> nat option" where
  "gsw_mixer_free_client m = find (\<lambda>i. \<not> mx_open (mx_clients m ! i)) [0..<GSW_MIXER_CLIENT_CAPACITY]"

definition gsw_mixer_open ::
    "'s win16_env \<Rightarrow> u32 \<Rightarrow> u32 \<Rightarrow> u32 \<Rightarrow> 's win16_world \<Rightarrow> u16 \<times> 's win16_world" where
  "gsw_mixer_open e dwUser p flags w =
     (let description = mixeropendescs (far w) p in
      if dwUser = 0 \<or> p = 0 \<or> pReserved0 description \<noteq> 0 then (MMSYSERR_INVALPARAM, w)
      else if flags AND NOT CALLBACK_TYPEMASK \<noteq> 0 then (MMSYSERR_INVALFLAG, w)
      else if \<not> gsw_mixer_callback_type_valid (flags AND CALLBACK_TYPEMASK) then (MMSYSERR_INVALFLAG, w)
      else
        (let (n, w) = gsw_mixer_num_devices e w in
         if n = 0 then (MMSYSERR_NOTENABLED, w)
         else
           (case gsw_mixer_free_client (gsw_mixer w) of
              None \<Rightarrow> (MMSYSERR_ALLOCATED, w)
            | Some index \<Rightarrow> (MMSYSERR_NOERROR,
                w\<lparr>gsw_mixer := (gsw_mixer w)\<lparr>mx_clients := (mx_clients (gsw_mixer w))[index :=
                    \<lparr>mx_open = True, mx_mixer = hmx description, mx_callback = md_dwCallback description,
                     mx_callback_instance = md_dwInstance description,
                     mx_callback_flags = GSW_DRIVER_CALLBACK_FLAGS flags\<rparr>]\<rparr>,
                  far := (far w)\<lparr>dwords := (dwords (far w))(dwUser := client_address e index)\<rparr>\<rparr>))))"

definition gsw_mixer_client_from_user :: "'s win16_env \<Rightarrow> u32 \<Rightarrow> GSW_MIXER_STATE \<Rightarrow> nat option" where
  "gsw_mixer_client_from_user e dwUser m =
     find (\<lambda>i. mx_open (mx_clients m ! i) \<and> dwUser = client_address e i) [0..<GSW_MIXER_CLIENT_CAPACITY]"

definition gsw_mixer_close :: "'s win16_env \<Rightarrow> u32 \<Rightarrow> 's win16_world \<Rightarrow> u16 \<times> 's win16_world" where
  "gsw_mixer_close e dwUser w =
     (case gsw_mixer_client_from_user e dwUser (gsw_mixer w) of
        None \<Rightarrow> (MMSYSERR_INVALHANDLE, w)
      | Some index \<Rightarrow> (MMSYSERR_NOERROR,
          w\<lparr>gsw_mixer := (gsw_mixer w)\<lparr>mx_clients := (mx_clients (gsw_mixer w))[index := mixer_client_zero]\<rparr>\<rparr>))"

section \<open>The message entry\<close>

definition mm_return :: "u16 \<times> 's win16_world \<Rightarrow> u32 \<times> 's win16_world" where
  "mm_return x = (ucast (fst x), snd x)"

definition gsw_mixer_message ::
    "'s win16_env \<Rightarrow> 's on_callback \<Rightarrow> u16 \<Rightarrow> u16 \<Rightarrow> u32 \<Rightarrow> u32 \<Rightarrow> u32 \<Rightarrow> 's win16_world \<Rightarrow> u32 \<times> 's win16_world" where
  "gsw_mixer_message e cb device_id message dwUser one two w =
     (if message = MXDM_INIT \<or> message = DRVM_EXIT \<or> message = DRVM_DISABLE \<or> message = DRVM_ENABLE
      then (ucast MMSYSERR_NOERROR, w)
      else
        (let w = gsw_mixer_initialize w in
         if device_id \<noteq> 0 \<and> message \<noteq> MXDM_GETNUMDEVS then (ucast MMSYSERR_BADDEVICEID, w)
         else if message = MXDM_GETNUMDEVS then gsw_mixer_num_devices e w
         else if message = MXDM_GETDEVCAPS then mm_return (gsw_mixer_get_caps one two w)
         else if message = MXDM_OPEN then mm_return (gsw_mixer_open e dwUser one two w)
         else if message = MXDM_CLOSE then mm_return (gsw_mixer_close e dwUser w)
         else if message = MXDM_GETLINEINFO then mm_return (gsw_mixer_get_line_info one two w)
         else if message = MXDM_GETLINECONTROLS then mm_return (gsw_mixer_get_line_controls one two w)
         else if message = MXDM_GETCONTROLDETAILS then mm_return (gsw_mixer_get_control_details one two w)
         else if message = MXDM_SETCONTROLDETAILS then mm_return (gsw_mixer_set_control_details e cb one two w)
         else (ucast MMSYSERR_NOTSUPPORTED, w)))"

section \<open>The gain of two volumes\<close>

text \<open>Rounding to the nearest whole, halves upwards.\<close>

definition nearest :: "nat \<Rightarrow> nat \<Rightarrow> nat" where
  "nearest a b = (2 * a + b) div (2 * b)"

lemma effective_unat:
  "unat (gsw_mixer_effective m v) = nearest (unat m * unat v) 65535" "unat (gsw_mixer_effective m v) \<le> 65535"
proof -
  have l: "unat m \<le> 65535" "unat v \<le> 65535"
    using unsigned_less [of m, where ?'a = nat] unsigned_less [of v, where ?'a = nat] by simp_all
  then have p: "unat m * unat v \<le> 65535 * 65535" by (intro mult_le_mono)
  have u: "unat (ucast m :: u32) = unat m" "unat (ucast v :: u32) = unat v"
    using l by (simp_all add: unsigned_ucast_eq take_bit_nat_eq_self)
  have "unat (ucast m * ucast v :: u32) = unat m * unat v"
    using p u by (subst unat_mult_lem [THEN iffD1]) simp_all
  then have "unat (ucast m * ucast v + 32767 :: u32) = unat m * unat v + 32767"
    using p by (subst unat_add_lem [THEN iffD1]) simp_all
  then have e: "unat (gsw_mixer_effective m v) = (unat m * unat v + 32767) div 65535"
    by (simp add: gsw_mixer_effective_def GSW_MIXER_VOLUME_MAX_def unat_div)
  have "(2 * x + 65535) div 131070 = (x + 32767) div 65535" for x :: nat by linarith
  with e show "unat (gsw_mixer_effective m v) = nearest (unat m * unat v) 65535" by (simp add: nearest_def)
  show "unat (gsw_mixer_effective m v) \<le> 65535" unfolding e using p by linarith
qed

lemma gain_unat: "unat (gsw_mixer_gain m v) = nearest (nearest (unat m * unat v) 65535 * 65536) 65535"
proof -
  let ?e = "gsw_mixer_effective m v"
  have "unat (?e + 1) = unat ?e + 1" using effective_unat(2) [of m v] by (subst unat_add_lem [THEN iffD1]) simp_all
  then have "unat (gsw_mixer_gain m v) = unat ?e + (if unat ?e \<ge> 32768 then 1 else 0)"
    by (simp add: gsw_mixer_gain_def Let_def word_le_nat_alt)
  also have "\<dots> = nearest (unat ?e * 65536) 65535" using effective_unat(2) [of m v] unfolding nearest_def by simp linarith
  finally show ?thesis by (simp add: effective_unat(1))
qed

lemma nearest_mono: "a \<le> b \<Longrightarrow> nearest a n \<le> nearest b n"
  by (simp add: nearest_def div_le_mono)

lemma gain_mono:
  assumes "m \<le> m'" "v \<le> v'"
  shows "gsw_mixer_gain m v \<le> gsw_mixer_gain m' v'"
proof -
  have "unat m * unat v \<le> unat m' * unat v'" using assms by (intro mult_le_mono) (simp_all add: word_le_nat_alt)
  then show ?thesis unfolding word_le_nat_alt gain_unat by (intro nearest_mono mult_le_mono1)
qed

lemma gain_ends:
  "gsw_mixer_gain 0 v = 0" "gsw_mixer_gain m 0 = 0" "gsw_mixer_gain 0xFFFF 0xFFFF = GSW_PCM_MASTER_GAIN_UNITY"
  by (simp_all add: word_unat_eq_iff gain_unat nearest_def GSW_PCM_MASTER_GAIN_UNITY_def)

lemma u16_max: "(x :: u16) \<le> 0xFFFF"
  using unsigned_less [of x, where ?'a = nat] by (simp add: word_le_nat_alt)

text \<open>
  C14. The gain programmed into the device, in units of 1/65536, is computed without overflow: the
  product of the two volumes scaled to the range of one volume, then to the device's range, each
  rounded to the nearest whole. It never exceeds unity, it is silence when either volume is zero,
  unity when both are at their maximum, and it does not decrease when a volume rises.
\<close>

theorem mixer_gain_exact:
  "unat (gsw_mixer_gain m v) = nearest (nearest (unat m * unat v) 65535 * 65536) 65535 \<and>
   gsw_mixer_gain m v \<le> GSW_PCM_MASTER_GAIN_UNITY \<and>
   gsw_mixer_gain 0 v = 0 \<and> gsw_mixer_gain m 0 = 0 \<and> gsw_mixer_gain 0xFFFF 0xFFFF = GSW_PCM_MASTER_GAIN_UNITY \<and>
   gsw_mixer_gain m v \<le> gsw_mixer_gain (max m m') (max v v')"
  using gain_mono [OF u16_max [of m] u16_max [of v]] gain_mono [of m "max m m'" v "max v v'"]
  by (simp add: gain_unat gain_ends)

section \<open>Setting a control\<close>

text \<open>
  A control is set by a transaction: the gain goes to the device first, and only when it answers
  are the volumes stored and the clients told. The clients' callbacks stay out of the driver
  here.
\<close>

lemmas mixer_errors = MIXERR_BASE_def MIXERR_INVALVALUE_def MIXERR_INVALCONTROL_def MMSYSERR_NOERROR_def MMSYSERR_ALLOCATED_def
  MMSYSERR_INVALPARAM_def MMSYSERR_NOTENABLED_def MMSYSERR_ERROR_def

lemma result_to_mm_ok: "gsw_mixer_result_to_mm r = MMSYSERR_NOERROR \<longleftrightarrow> r = GSW_SOUND_OK"
  by (cases r) (simp_all add: mixer_errors)

lemma notify_mixer:
  "gsw_mixer (gsw_mixer_notify (memory_callback f h) msg i w) = gsw_mixer w"
  "outside (gsw_mixer_notify (memory_callback f (\<lambda>d s. s)) msg i w) = outside w"
proof -
  have "gsw_mixer (fold (gsw_mixer_notify_client (memory_callback f h) msg i) js w) = gsw_mixer w" for js
    by (induction js arbitrary: w) (simp_all add: gsw_mixer_notify_client_def Let_def memory_callback_def)
  moreover have "outside (fold (gsw_mixer_notify_client (memory_callback f (\<lambda>d s. s)) msg i) js w) = outside w" for js
    by (induction js arbitrary: w) (simp_all add: gsw_mixer_notify_client_def Let_def memory_callback_def)
  ultimately show "gsw_mixer (gsw_mixer_notify (memory_callback f h) msg i w) = gsw_mixer w"
    "outside (gsw_mixer_notify (memory_callback f (\<lambda>d s. s)) msg i w) = outside w"
    by (simp_all add: gsw_mixer_notify_def)
qed

text \<open>
  Setting a volume control is all or nothing. It succeeds exactly when the value is a volume,
  the control is one of the two the mixer has, and, unless nothing changes, the device accepts the
  gain of the new pair of volumes; then exactly that control has the new value. On every error
  both volumes are as they were.
\<close>

theorem mixer_set_control_atomic:
  "let (result, w') = gsw_mixer_set_control e (memory_callback f h) control val w;
             m = gsw_mixer (gsw_mixer_initialize w);
             master = (if control = GSW_MIXER_CONTROL_MASTER then ucast val else mx_master_volume m);
             wv = (if control = GSW_MIXER_CONTROL_WAVE then ucast val else mx_wave_volume m) in
    (result = MMSYSERR_NOERROR \<longleftrightarrow>
       val \<le> 0xFFFF \<and> control \<in> {GSW_MIXER_CONTROL_MASTER, GSW_MIXER_CONTROL_WAVE} \<and>
       (master = mx_master_volume m \<and> wv = mx_wave_volume m \<or>
        fst (call_pm e ((gsw_mixer_request_init GSW_SOUND_PM_SET_GAIN)\<lparr>pm_gain_q16 := gsw_mixer_gain master wv\<rparr>)
          (gsw_mixer_initialize w)) = GSW_SOUND_OK)) \<and>
    (if result = MMSYSERR_NOERROR
     then gsw_mixer w' = m\<lparr>mx_master_volume := master, mx_wave_volume := wv\<rparr>
     else gsw_mixer w' = (if val > 0xFFFF then gsw_mixer w else m))"
proof -
  have c: "GSW_MIXER_CONTROL_MASTER \<noteq> GSW_MIXER_CONTROL_WAVE"
    by (simp add: GSW_MIXER_CONTROL_MASTER_def GSW_MIXER_CONTROL_WAVE_def)
  have errors: "MIXERR_INVALVALUE \<noteq> MMSYSERR_NOERROR" "MIXERR_INVALCONTROL \<noteq> MMSYSERR_NOERROR"
    by (simp_all add: mixer_errors)
  show ?thesis
    using errors c
    by (auto simp: gsw_mixer_set_control_def gsw_mixer_program_gain_def result_to_mm_ok Let_def split_beta
        notify_mixer GSW_MIXER_VOLUME_MAX_def linorder_not_less)
qed

end
