(* ===== verification/Sound_Pm16.thy ===== *)
theory Sound_Pm16
  imports Sound_Mixer
begin

text \<open>
  The calls of the 16-bit driver into the VxD (\<open>drv/gswsound_pm16.c\<close>): the linear address of a
  far pointer, the search for the entry of the VxD, and the call with a request block. The block
  lies in the memory of the calling program: the VxD locks it, reads it, answers in place. The
  library shows that the detour is transparent, and follows a volume from the mixer to the
  transport of the VxD.

  DPMI function 0006h, the entry search of interrupt 2Fh and the way the VMM hands the registers to
  the entry of a VxD are outside the sources. The first two are parameters; the third passes ESI and
  ECX in and EAX and the carry flag back, as both sides of the sources assume.
\<close>

section \<open>State\<close>

text \<open>\<open>gsw_vxd_entry\<close> is the offset and the selector of the entry, both zero until it is known.\<close>

record ('s, 'd) pm16_world =
  gsw_vxd_entry :: "u16 \<times> u16"
  kernel :: "'d vxd_world"
  windows :: 's

record 's pm16_env =
  dpmi_segment_base :: "u16 \<Rightarrow> 's \<Rightarrow> u32 option \<times> 's"
  vxd_api_entry :: "'s \<Rightarrow> (u16 \<times> u16) \<times> 's"

text \<open>The cast of a code to the enumeration; a code that no side sends is read as a failure.\<close>

definition result_of_code :: "u32 \<Rightarrow> GSW_SOUND_RESULT" where
  "result_of_code c =
     (if c = 0 then GSW_SOUND_OK else if c = 1 then GSW_SOUND_UNAVAILABLE else if c = 2 then GSW_SOUND_INVALID
      else if c = 3 then GSW_SOUND_BUSY else if c = 4 then GSW_SOUND_WOULD_BLOCK
      else if c = 6 then GSW_SOUND_NO_COMPLETION else GSW_SOUND_IO_ERROR)"

section \<open>Operations\<close>

definition gsw_selector_base ::
    "'s pm16_env \<Rightarrow> u16 \<Rightarrow> ('s, 'd) pm16_world \<Rightarrow> u32 option \<times> ('s, 'd) pm16_world" where
  "gsw_selector_base e selector w =
     (if selector = 0 then (None, w)
      else (let (base, s) = dpmi_segment_base e selector (windows w) in (base, w\<lparr>windows := s\<rparr>)))"

definition gsw_sound_pm_linear ::
    "'s pm16_env \<Rightarrow> u32 \<Rightarrow> ('s, 'd) pm16_world \<Rightarrow> u32 option \<times> ('s, 'd) pm16_world" where
  "gsw_sound_pm_linear e packed w =
     (let selector = ucast (drop_bit 16 packed) :: u16;
          offset = ucast (ucast packed :: u16) :: u32
      in if packed = 0 then (None, w)
         else
           (let (base, w) = gsw_selector_base e selector w
            in case base of
                 None \<Rightarrow> (None, w)
               | Some base \<Rightarrow> if base > 0xFFFFFFFF - offset then (None, w) else (Some (base + offset), w)))"

definition gsw_sound_pm_connect ::
    "'s pm16_env \<Rightarrow> ('s, 'd) pm16_world \<Rightarrow> bool \<times> ('s, 'd) pm16_world" where
  "gsw_sound_pm_connect e w =
     (if gsw_vxd_entry w \<noteq> (0, 0) then (True, w)
      else
        (let (entry, s) = vxd_api_entry e (windows w);
             w = w\<lparr>windows := s\<rparr>
         in if entry = (0, 0) then (False, w) else (True, w\<lparr>gsw_vxd_entry := entry\<rparr>)))"

text \<open>The registers of the call, and the block before and after it.\<close>

definition gsw_pm_enter ::
    "'d vxd_env \<Rightarrow> u32 \<Rightarrow> GSW_SOUND_PM_REQUEST \<Rightarrow> 'd vxd_world \<Rightarrow>
     ((bool \<times> u32) \<times> GSW_SOUND_PM_REQUEST \<times> 'd vxd_world) option" where
  "gsw_pm_enter v a r k =
     map_option (\<lambda>(regs, k). (regs, GSW_SOUND_PM_REQUEST_of (mem_dwords (client k) a 16), k))
       (GSWSOUND_PM_API v a 64 (k\<lparr>client := put_dwords a (GSW_SOUND_PM_REQUEST_dwords r) (client k)\<rparr>))"

definition gsw_sound_pm_call ::
    "'s pm16_env \<Rightarrow> 'd vxd_env \<Rightarrow> u32 \<Rightarrow> GSW_SOUND_PM_REQUEST \<Rightarrow> ('s, 'd) pm16_world \<Rightarrow>
     (GSW_SOUND_RESULT \<times> GSW_SOUND_PM_REQUEST \<times> ('s, 'd) pm16_world) option" where
  "gsw_sound_pm_call e v request r w =
     (if request = 0 then Some (GSW_SOUND_UNAVAILABLE, r, w)
      else
        (let (connected, w) = gsw_sound_pm_connect e w in
         if \<not> connected then Some (GSW_SOUND_UNAVAILABLE, r, w)
         else
           (let (linear, w) = gsw_sound_pm_linear e request w
            in case linear of
                 None \<Rightarrow> Some (GSW_SOUND_INVALID, r, w)
               | Some a \<Rightarrow>
                   map_option (\<lambda>((failed, eax), r, k).
                       (if failed then result_of_code eax else result_of_code (pm_result r), r, w\<lparr>kernel := k\<rparr>))
                     (gsw_pm_enter v a r (kernel w)))))"

section \<open>Linear addresses\<close>

text \<open>The linear address is the base of the selector plus the offset, and does not wrap.\<close>

lemma pm_linear_exact:
  assumes "gsw_sound_pm_linear e p w = (Some a, w')"
  obtains base where "fst (dpmi_segment_base e (ucast (drop_bit 16 p)) (windows w)) = Some base"
    "unat a = unat base + unat (ucast p :: u16)" "ucast (drop_bit 16 p) \<noteq> (0 :: u16)"
    "w' = w\<lparr>windows := snd (dpmi_segment_base e (ucast (drop_bit 16 p)) (windows w))\<rparr>"
proof -
  let ?o = "ucast (ucast p :: u16) :: u32"
  have o: "unat ?o = unat (ucast p :: u16)" by (simp add: unsigned_ucast_eq unsigned_take_bit_eq)
  from assms obtain base where b: "fst (dpmi_segment_base e (ucast (drop_bit 16 p)) (windows w)) = Some base"
    "a = base + ?o" "base \<le> 0xFFFFFFFF - ?o" "ucast (drop_bit 16 p) \<noteq> (0 :: u16)"
    "w' = w\<lparr>windows := snd (dpmi_segment_base e (ucast (drop_bit 16 p)) (windows w))\<rparr>"
    by (auto simp: gsw_sound_pm_linear_def gsw_selector_base_def Let_def split_beta linorder_not_less
        split: if_splits option.splits)
  have "unat a = unat base + unat ?o" using b(2,3) no_wrap_iff [of base ?o] by (simp add: unat_word_ariths)
  with o b that show ?thesis by simp
qed

section \<open>Transparency\<close>

lemma result_of_result_code [simp]: "result_of_code (result_code r) = r"
  by (cases r) (simp_all add: result_of_code_def)

lemma result_code_zero [simp]: "result_code r = 0 \<longleftrightarrow> r = GSW_SOUND_OK"
  by (cases r) simp_all

lemma result_of_zero [simp]: "result_of_code 0 = GSW_SOUND_OK"
  by (simp add: result_of_code_def)

text \<open>
  The kernel's side of a call whose block can be locked: the request is dispatched on the state
  with the block locked, and the answer is in the block.
\<close>

lemma pm_enter_dispatches:
  assumes "gsw_lock_ring3 v a 64 True (k\<lparr>client := put_dwords a (GSW_SOUND_PM_REQUEST_dwords r) (client k)\<rparr>) = ((True, rng), k1)"
    "gsw_dispatch_request v r k1 = Some (res, r', k2)"
  shows "gsw_pm_enter v a r k = Some ((res \<noteq> GSW_SOUND_OK, result_code res), r',
    (gsw_unlock_ring3 v rng k2)\<lparr>client := put_dwords a (GSW_SOUND_PM_REQUEST_dwords r') (client k1)\<rparr>)"
proof -
  let ?k = "k\<lparr>client := put_dwords a (GSW_SOUND_PM_REQUEST_dwords r) (client k)\<rparr>"
  have span: "unat a + 4 * 16 \<le> 2 ^ 32" using lock_ring3_span [OF assms(1)] by simp
  have c1: "client k1 = client ?k" using lock_ring3_holds [OF assms(1)] by simp
  have c2: "client k2 = client k1" using serves_request [OF assms(2)] by (simp add: serves_def)
  have "GSW_SOUND_PM_REQUEST_of (mem_dwords (client k1) a 16) = r" using span by (simp add: c1 pm_wire.read_back)
  then have "gsw_dispatch_linear v a 64 ?k = Some (res,
      (gsw_unlock_ring3 v rng k2)\<lparr>client := put_dwords a (GSW_SOUND_PM_REQUEST_dwords r') (client k1)\<rparr>)"
    using assms by (simp add: gsw_dispatch_linear_def unlock_client c2)
  then show ?thesis
    using span by (simp add: gsw_pm_enter_def GSWSOUND_PM_API_def pm_wire.read_back)
qed

lemma dispatch_result:
  assumes "gsw_dispatch_request v r k = Some (res, r', k')" "res = GSW_SOUND_OK"
  shows "pm_result r' = 0"
  using request_answer [OF assms(1)] assms(2) by (simp split: if_splits)

lemma connect_frame: "gsw_sound_pm_connect e w = (b, w') \<Longrightarrow> kernel w' = kernel w"
  by (auto simp: gsw_sound_pm_connect_def Let_def split_beta split: if_splits)

lemma linear_frame: "gsw_sound_pm_linear e p w = (l, w') \<Longrightarrow> kernel w' = kernel w"
  by (auto simp: gsw_sound_pm_linear_def gsw_selector_base_def Let_def split_beta split: if_splits option.splits)

text \<open>
  C13. A call of the 16-bit driver is transparent: once the entry of the VxD is known and the block
  has a linear address that the VxD can lock, the call returns exactly what the VxD's dispatcher
  returns for the request, in the result code and in the block, whatever the route through the
  registers, the carry flag and the caller's memory; and it leaves no page locked.
\<close>

theorem pm_call_transparent:
  assumes "gsw_sound_pm_connect e w = (True, w1)" "p \<noteq> 0" "gsw_sound_pm_linear e p w1 = (Some a, w2)"
    "gsw_lock_ring3 v a 64 True ((kernel w)\<lparr>client := put_dwords a (GSW_SOUND_PM_REQUEST_dwords r) (client (kernel w))\<rparr>)
       = ((True, rng), k1)"
    "gsw_dispatch_request v r k1 = Some (res, r', k2)"
  shows "\<exists>w'. gsw_sound_pm_call e v p r w = Some (res, r', w') \<and> transport (sound (kernel w')) = transport (sound k2) \<and>
    vxd (kernel w') = vxd (kernel w) \<and> held_ranges (kernel w') = held_ranges (kernel w) \<and>
    GSW_SOUND_PM_REQUEST_of (mem_dwords (client (kernel w')) a 16) = r'"
proof -
  let ?k' = "(gsw_unlock_ring3 v rng k2)\<lparr>client := put_dwords a (GSW_SOUND_PM_REQUEST_dwords r') (client k1)\<rparr>"
  have k: "kernel w2 = kernel w" using connect_frame [OF assms(1)] linear_frame [OF assms(3)] by simp
  have "gsw_sound_pm_call e v p r w = Some (res, r', w2\<lparr>kernel := ?k'\<rparr>)"
    using dispatch_result [OF assms(5)] pm_enter_dispatches [OF assms(4,5)]
    by (simp add: gsw_sound_pm_call_def assms(1-3) k)
  moreover have "serves ((kernel w)\<lparr>client := put_dwords a (GSW_SOUND_PM_REQUEST_dwords r) (client (kernel w))\<rparr>)
      (gsw_unlock_ring3 v rng k2)"
    by (rule unlock_serves [OF assms(4) serves_request [OF assms(5), simplified]])
  moreover have "transport (sound (gsw_unlock_ring3 v rng k2)) = transport (sound k2)"
    by (simp add: gsw_unlock_ring3_def)
  moreover have "unat a + 4 * 16 \<le> 2 ^ 32" using lock_ring3_span [OF assms(4)] by simp
  ultimately show ?thesis by (simp add: serves_def pm_wire.read_back)
qed

section \<open>The services of the driver\<close>

text \<open>
  The driver on the VxD: the calls of \<open>win16_env\<close> are the ones of this file, with request
  blocks at the far pointer \<open>p\<close>. The world outside is \<open>None\<close> once a call has not returned.
\<close>

definition run_pm :: "('w \<Rightarrow> 'a \<times> 'w) \<Rightarrow> 'a \<Rightarrow> 'w option \<Rightarrow> 'a \<times> 'w option" where
  "run_pm f a s = (case s of None \<Rightarrow> (a, None) | Some w \<Rightarrow> (let (x, w) = f w in (x, Some w)))"

definition call_kernel ::
    "'s pm16_env \<Rightarrow> 'd vxd_env \<Rightarrow> u32 \<Rightarrow> GSW_SOUND_PM_REQUEST \<Rightarrow> ('s, 'd) pm16_world option \<Rightarrow>
     GSW_SOUND_RESULT \<times> GSW_SOUND_PM_REQUEST \<times> ('s, 'd) pm16_world option" where
  "call_kernel e v p r s =
     (case Option.bind s (gsw_sound_pm_call e v p r) of
        None \<Rightarrow> (GSW_SOUND_IO_ERROR, r, None)
      | Some (res, r, w) \<Rightarrow> (res, r, Some w))"

definition on_kernel ::
    "'s pm16_env \<Rightarrow> 'd vxd_env \<Rightarrow> u32 \<Rightarrow> ('s, 'd) pm16_world option win16_env \<Rightarrow> ('s, 'd) pm16_world option win16_env" where
  "on_kernel e v p services = services\<lparr>pm_call := call_kernel e v p,
     pm_linear := (\<lambda>a. run_pm (gsw_sound_pm_linear e a) None), pm_connect := run_pm (gsw_sound_pm_connect e) False\<rparr>"

section \<open>From the mixer to the device\<close>

definition kernel_gain :: "('s, 'd) pm16_world \<Rightarrow> u32" where
  "kernel_gain w = gain_q16 (transport (sound (kernel w)))"

definition gain_coherent :: "GSW_MIXER_STATE \<Rightarrow> ('s, 'd) pm16_world \<Rightarrow> bool" where
  "gain_coherent m w \<longleftrightarrow> kernel_gain w = gsw_mixer_gain (mx_master_volume m) (mx_wave_volume m)"

text \<open>The request that sets the gain: the new gain on success, the old one on every failure.\<close>

lemma set_gain_request:
  assumes "gsw_dispatch_request v (r\<lparr>pm_opcode := GSW_SOUND_PM_SET_GAIN, pm_gain_q16 := x\<rparr>) k = Some (res, r', k')"
  shows "gain_q16 (transport (sound k')) = (if res = GSW_SOUND_OK then x else gain_q16 (transport (sound k)))"
  using assms
  by (auto simp: gsw_dispatch_request_def gsw_dispatch_switch_def pm_opcodes gsw_dispatch_plain_def
      gsw_sound_transport_set_gain_def gsw_sound_write_def Let_def split: if_splits)

lemma lock_transport: "transport (sound (snd (gsw_lock_ring3 v a n wr k))) = transport (sound k)"
  by (simp add: gsw_lock_ring3_def Let_def split_beta)

text \<open>A call that returns was either answered by the dispatcher or refused before it got there.\<close>

lemma pm_enter_cases:
  assumes "gsw_pm_enter v a r k = Some ((failed, eax), r', k')"
  obtains (refused) "failed" "result_of_code eax = GSW_SOUND_INVALID" "transport (sound k') = transport (sound k)"
    | (answered) k1 res k2 where "transport (sound k1) = transport (sound k)" "gsw_dispatch_request v r k1 = Some (res, r', k2)"
      "transport (sound k') = transport (sound k2)" "failed \<longleftrightarrow> res \<noteq> GSW_SOUND_OK" "eax = result_code res"
proof -
  let ?k = "k\<lparr>client := put_dwords a (GSW_SOUND_PM_REQUEST_dwords r) (client k)\<rparr>"
  obtain ok rng k1 where l: "gsw_lock_ring3 v a 64 True ?k = ((ok, rng), k1)" by (metis prod.collapse)
  have t: "transport (sound k1) = transport (sound k)" using lock_transport [of v a 64 True ?k] by (simp add: l)
  show ?thesis
  proof (cases ok)
    case False
    with assms l t refused show ?thesis
      by (auto simp: gsw_pm_enter_def GSWSOUND_PM_API_def gsw_dispatch_linear_def result_of_code_def)
  next
    case True
    then have l: "gsw_lock_ring3 v a 64 True ?k = ((True, rng), k1)" using l by simp
    have c: "GSW_SOUND_PM_REQUEST_of (mem_dwords (client k1) a 16) = r"
      using lock_ring3_span [OF l] lock_ring3_holds [OF l] by (simp add: pm_wire.read_back)
    then obtain res r2 k2 where d: "gsw_dispatch_request v r k1 = Some (res, r2, k2)"
      using assms by (auto simp: gsw_pm_enter_def GSWSOUND_PM_API_def gsw_dispatch_linear_def l)
    from assms pm_enter_dispatches [OF l d]
    have e: "r' = r2" "failed \<longleftrightarrow> res \<noteq> GSW_SOUND_OK" "eax = result_code res"
      "k' = (gsw_unlock_ring3 v rng k2)\<lparr>client := put_dwords a (GSW_SOUND_PM_REQUEST_dwords r2) (client k1)\<rparr>"
      by auto
    have "transport (sound k') = transport (sound k2)" unfolding e(4) by (simp add: gsw_unlock_ring3_def)
    then show ?thesis by (rule answered [OF t d [folded e(1)] _ e(2,3)])
  qed
qed

lemma set_gain_call:
  assumes "gsw_sound_pm_call e v p (r\<lparr>pm_opcode := GSW_SOUND_PM_SET_GAIN, pm_gain_q16 := x\<rparr>) w = Some (res, r', w')"
  shows "kernel_gain w' = (if res = GSW_SOUND_OK then x else kernel_gain w)"
proof -
  let ?r = "r\<lparr>pm_opcode := GSW_SOUND_PM_SET_GAIN, pm_gain_q16 := x\<rparr>"
  obtain b w1 where c: "gsw_sound_pm_connect e w = (b, w1)" by force
  obtain l w2 where p: "gsw_sound_pm_linear e p w1 = (l, w2)" by force
  have k: "kernel w1 = kernel w" "kernel w2 = kernel w" using connect_frame [OF c] linear_frame [OF p] by simp_all
  show ?thesis
  proof (cases "p \<noteq> 0 \<and> b \<and> l \<noteq> None")
    case False
    with assms k show ?thesis by (auto simp: gsw_sound_pm_call_def c p kernel_gain_def split: if_splits)
  next
    case True
    then obtain a where l: "p \<noteq> 0" b "l = Some a" by auto
    from assms obtain failed eax k' where
      n: "gsw_pm_enter v a ?r (kernel w) = Some ((failed, eax), r', k')" "w' = w2\<lparr>kernel := k'\<rparr>"
      "res = (if failed then result_of_code eax else result_of_code (pm_result r'))"
      by (auto simp: gsw_sound_pm_call_def c p l k)
    from n(1) show ?thesis
    proof (cases rule: pm_enter_cases)
      case refused
      with n(2,3) show ?thesis by (simp add: kernel_gain_def)
    next
      case (answered k1 res' k2)
      with n(2,3) dispatch_result [OF answered(2)] set_gain_request [OF answered(2)] show ?thesis
        by (auto simp: kernel_gain_def)
    qed
  qed
qed

lemma program_gain_kernel:
  assumes "gsw_mixer_program_gain (on_kernel e v p s) m wv w = (res, w')" "outside w = Some k" "outside w' = Some k'"
  shows "kernel_gain k' = (if res = MMSYSERR_NOERROR then gsw_mixer_gain m wv else kernel_gain k)"
proof -
  let ?r = "(gsw_mixer_request_init GSW_SOUND_PM_SET_GAIN)\<lparr>pm_gain_q16 := gsw_mixer_gain m wv\<rparr>"
  let ?r' = "request_zero\<lparr>pm_size := 64, pm_version := GSW_SOUND_PM_API_VERSION\<rparr>"
  have r: "?r = ?r'\<lparr>pm_opcode := GSW_SOUND_PM_SET_GAIN, pm_gain_q16 := gsw_mixer_gain m wv\<rparr>"
    by (simp add: gsw_mixer_request_init_def gsw_request_init_def)
  obtain res' r' s' where c: "call_kernel e v p ?r (Some k) = (res', r', s')" by (metis prod.collapse)
  from assms(1,2) have "res = gsw_mixer_result_to_mm res'" "w' = w\<lparr>outside := s'\<rparr>"
    by (simp_all add: gsw_mixer_program_gain_def call_pm_def on_kernel_def c)
  with assms(3) c have "gsw_sound_pm_call e v p ?r k = Some (res', r', k')"
    by (auto simp: call_kernel_def split: option.splits)
  from set_gain_call [OF this [unfolded r]] \<open>res = _\<close> show ?thesis by (simp add: result_to_mm_ok)
qed

text \<open>
  The mixer and the device agree: when the gain in the VxD's transport is the gain of the
  mixer's two volumes, it is so again after a control has been set, whether the request succeeds,
  is refused on the way, or is rejected by the device.
\<close>

theorem mixer_gain_coherent:
  assumes "gain_coherent (gsw_mixer (gsw_mixer_initialize w)) k" "outside w = Some k"
    "gsw_mixer_set_control (on_kernel e v p s) (memory_callback f (\<lambda>d s. s)) control val w = (res, w')"
    "outside w' = Some k'"
  shows "gain_coherent (gsw_mixer (gsw_mixer_initialize w')) k'"
proof -
  let ?w = "gsw_mixer_initialize w" and ?E = "on_kernel e v p s"
  have i: "outside ?w = Some k" "gsw_mixer_initialize ?w = ?w" "mx_initialized (gsw_mixer ?w)"
    using assms(2) by (simp_all add: gsw_mixer_initialize_def)
  show ?thesis
  proof (cases "w' = w \<or> w' = ?w")
    case True
    with assms i show ?thesis by auto
  next
    case False
    then obtain m wv r1 w1 where g: "gsw_mixer_program_gain ?E m wv ?w = (r1, w1)"
      "if r1 = MMSYSERR_NOERROR then
         w' = gsw_mixer_notify (memory_callback f (\<lambda>d s. s)) MM_MIXM_CONTROL_CHANGE control
           (w1\<lparr>gsw_mixer := (gsw_mixer w1)\<lparr>mx_master_volume := m, mx_wave_volume := wv\<rparr>\<rparr>)
       else w' = w1"
      using assms(3) unfolding gsw_mixer_set_control_def Let_def by (auto split: prod.splits if_splits)
    have m: "gsw_mixer w1 = gsw_mixer ?w" using arg_cong [OF g(1), of "\<lambda>x. gsw_mixer (snd x)"]
      by (simp add: gsw_mixer_program_gain_def split_beta)
    have "outside w1 = Some k'" "mx_initialized (gsw_mixer w')"
      using g(2) assms(4) m i(3) by (auto simp: notify_mixer split: if_splits)
    with program_gain_kernel [OF g(1) i(1)] g(2) m assms(1) show ?thesis
      by (auto simp: gain_coherent_def gsw_mixer_initialize_def notify_mixer split: if_splits)
  qed
qed

section \<open>Examples\<close>

text \<open>A started device on the example machine, with every selector at base 1000h.\<close>

definition example_pm16 :: "unit pm16_env" where
  "example_pm16 = \<lparr>dpmi_segment_base = (\<lambda>sel s. (Some 0x1000, s)), vxd_api_entry = (\<lambda>s. ((1, 2), s))\<rparr>"

definition example_pm16_world :: "(unit, u32 \<Rightarrow> u32) pm16_world" where
  "example_pm16_world = \<lparr>gsw_vxd_entry = (1, 2),
     kernel = example_driver\<lparr>sound := (sound example_driver)\<lparr>transport := (transport (sound example_driver))
       \<lparr>bound := True, gain_q16 := 65536\<rparr>\<rparr>\<rparr>, windows = ()\<rparr>"

definition example_services :: "(unit, u32 \<Rightarrow> u32) pm16_world option win16_env" where
  "example_services = on_kernel example_pm16 example_env 0x10FF0
     \<lparr>pm_call = (\<lambda>r s. (GSW_SOUND_IO_ERROR, r, s)), pm_linear = (\<lambda>a s. (None, s)), pm_connect = (\<lambda>s. (False, s)),
      timeBeginPeriod = (\<lambda>s. (True, s)), timeEndPeriod = (\<lambda>s. s), timeSetEvent = (\<lambda>s. (1, s)),
      timeKillEvent = (\<lambda>t s. s), wave_address = 0x20000, client_address = (\<lambda>i. 0x30000)\<rparr>"

lemma example_connect: "gsw_sound_pm_connect example_pm16 example_pm16_world = (True, example_pm16_world)"
  by (simp add: gsw_sound_pm_connect_def example_pm16_world_def)

lemma example_linear: "gsw_sound_pm_linear example_pm16 0x10FF0 example_pm16_world = (Some 0x1FF0, example_pm16_world)"
  by (simp add: gsw_sound_pm_linear_def gsw_selector_base_def example_pm16_def example_pm16_world_def drop_bit_eq_div)

lemma example_set_gain:
  "\<exists>r' k'. gsw_dispatch_request example_env ((gsw_mixer_request_init GSW_SOUND_PM_SET_GAIN)\<lparr>pm_gain_q16 := 0x8001\<rparr>)
     ((kernel example_pm16_world)\<lparr>client := c, held_ranges := h\<rparr>) = Some (GSW_SOUND_OK, r', k') \<and>
     gain_q16 (transport (sound k')) = 0x8001"
  by (simp add: gsw_dispatch_request_def gsw_request_malformed_def gsw_mixer_request_init_def gsw_request_init_def
      request_zero_def gsw_dispatch_switch_def pm_opcodes GSW_SOUND_PM_API_VERSION_def gsw_dispatch_plain_def
      gsw_sound_transport_set_gain_def gsw_sound_write_def GSW_PCM_MASTER_GAIN_UNITY_def)
    (simp add: example_pm16_world_def)

lemma example_call:
  "\<exists>r' w'. gsw_sound_pm_call example_pm16 example_env 0x10FF0
     ((gsw_mixer_request_init GSW_SOUND_PM_SET_GAIN)\<lparr>pm_gain_q16 := 0x8001\<rparr>) example_pm16_world = Some (GSW_SOUND_OK, r', w')"
proof -
  let ?r = "(gsw_mixer_request_init GSW_SOUND_PM_SET_GAIN)\<lparr>pm_gain_q16 := 0x8001\<rparr>"
  let ?c = "put_dwords 0x1FF0 (GSW_SOUND_PM_REQUEST_dwords ?r) (client (kernel example_pm16_world))"
  obtain r' k' where d: "gsw_dispatch_request example_env ?r ((kernel example_pm16_world)\<lparr>client := ?c,
      held_ranges := (1, 2) # held_ranges ((kernel example_pm16_world)\<lparr>client := ?c\<rparr>)\<rparr>) = Some (GSW_SOUND_OK, r', k')"
    using example_set_gain by blast
  from pm_enter_dispatches [OF example_lock d] dispatch_result [OF d refl] show ?thesis
    by (simp add: gsw_sound_pm_call_def example_connect example_linear)
qed

theorem pm_call_transparent_witness:
  "\<exists>r' w'. gsw_sound_pm_call example_pm16 example_env 0x10FF0
     ((gsw_mixer_request_init GSW_SOUND_PM_SET_GAIN)\<lparr>pm_gain_q16 := 0x8001\<rparr>) example_pm16_world = Some (GSW_SOUND_OK, r', w') \<and>
     kernel_gain w' = 0x8001"
proof -
  let ?r = "(gsw_mixer_request_init GSW_SOUND_PM_SET_GAIN)\<lparr>pm_gain_q16 := 0x8001\<rparr>"
  let ?c = "put_dwords 0x1FF0 (GSW_SOUND_PM_REQUEST_dwords ?r) (client (kernel example_pm16_world))"
  obtain r' k' where d: "gsw_dispatch_request example_env ?r ((kernel example_pm16_world)\<lparr>client := ?c,
      held_ranges := (1, 2) # held_ranges ((kernel example_pm16_world)\<lparr>client := ?c\<rparr>)\<rparr>) = Some (GSW_SOUND_OK, r', k')"
      "gain_q16 (transport (sound k')) = 0x8001"
    using example_set_gain by blast
  with pm_call_transparent [OF example_connect _ example_linear example_lock d(1)] show ?thesis
    by (auto simp: kernel_gain_def)
qed

lemma example_gains: "gsw_mixer_gain 0xFFFF 0xFFFF = 0x10000" "gsw_mixer_gain 0xFFFF 0x8000 = 0x8001"
  by (simp_all add: gsw_mixer_gain_def gsw_mixer_effective_def GSW_MIXER_VOLUME_MAX_def)

lemma example_program_gain:
  assumes "outside w = Some example_pm16_world"
  shows "\<exists>k. gsw_mixer_program_gain example_services 0xFFFF 0x8000 w = (MMSYSERR_NOERROR, w\<lparr>outside := Some k\<rparr>)"
proof -
  obtain r' w' where "gsw_sound_pm_call example_pm16 example_env 0x10FF0 ((gsw_mixer_request_init GSW_SOUND_PM_SET_GAIN)
      \<lparr>pm_gain_q16 := 0x8001\<rparr>) example_pm16_world = Some (GSW_SOUND_OK, r', w')" using example_call by blast
  with assms show ?thesis
    by (auto simp: gsw_mixer_program_gain_def example_gains call_pm_def example_services_def on_kernel_def call_kernel_def)
qed

theorem mixer_gain_coherent_witness:
  "\<forall>m. let w = \<lparr>gsw_wave = wave_zero, gsw_mixer = mixer_zero, far = m, outside = Some example_pm16_world,
       taken_log = [], returned_log = []\<rparr>;
     w' = snd (gsw_mixer_set_control example_services (memory_callback (\<lambda>d x. x) (\<lambda>d s. s)) GSW_MIXER_CONTROL_WAVE 0x8000 w)
   in \<exists>k'. outside w' = Some k' \<and> mx_wave_volume (gsw_mixer w') = 0x8000 \<and> kernel_gain k' = 0x8001"
proof
  fix m :: far_memory
  let ?w = "\<lparr>gsw_wave = wave_zero, gsw_mixer = mixer_zero, far = m, outside = Some example_pm16_world,
       taken_log = [], returned_log = []\<rparr>"
  let ?cb = "memory_callback (\<lambda>d x. x) (\<lambda>d s. s)"
  let ?i = "mixer_zero\<lparr>mx_master_volume := 0xFFFF, mx_wave_volume := 0xFFFF, mx_initialized := True\<rparr>"
  obtain res w' where s: "gsw_mixer_set_control example_services ?cb GSW_MIXER_CONTROL_WAVE 0x8000 ?w = (res, w')" by force
  have i: "gsw_mixer_initialize ?w = ?w\<lparr>gsw_mixer := ?i\<rparr>"
    by (simp add: gsw_mixer_initialize_def GSW_MIXER_VOLUME_MAX_def) (simp add: mixer_zero_def)
  have c: "gain_coherent (gsw_mixer (gsw_mixer_initialize ?w)) example_pm16_world"
    by (simp add: i gain_coherent_def example_gains) (simp add: kernel_gain_def example_pm16_world_def)
  obtain k where "gsw_mixer_program_gain example_services 0xFFFF 0x8000 (?w\<lparr>gsw_mixer := ?i\<rparr>) =
      (MMSYSERR_NOERROR, ?w\<lparr>gsw_mixer := ?i, outside := Some k\<rparr>)"
    using example_program_gain [of "?w\<lparr>gsw_mixer := ?i\<rparr>"] by auto
  with s have w': "gsw_mixer w' = ?i\<lparr>mx_wave_volume := 0x8000\<rparr>" "outside w' = Some k"
    by (auto simp: gsw_mixer_set_control_def i GSW_MIXER_CONTROL_WAVE_def GSW_MIXER_CONTROL_MASTER_def
        GSW_MIXER_VOLUME_MAX_def notify_mixer)
  have "gain_coherent (gsw_mixer (gsw_mixer_initialize w')) k"
    by (rule mixer_gain_coherent [OF c _ s [unfolded example_services_def] w'(2)]) simp
  then show "let w = ?w; w' = snd (gsw_mixer_set_control example_services ?cb GSW_MIXER_CONTROL_WAVE 0x8000 w)
     in \<exists>k'. outside w' = Some k' \<and> mx_wave_volume (gsw_mixer w') = 0x8000 \<and> kernel_gain k' = 0x8001"
    by (simp add: s w' gsw_mixer_initialize_def gain_coherent_def example_gains)
qed

end
