(* ===== verification/Sound_Wave.thy ===== *)
theory Sound_Wave
  imports Sound_Mixer
begin

text \<open>
  The wave output of the 16-bit driver (\<^verbatim>\<open>gsw-sound/drv/gswsound_drv.c\<close>): the queue of
  client buffers, the ring of submitted plays, loops, the pump that submits and collects, and
  the message entries. Functions that touch only the static instance work on it alone; the
  others work on the world. \<open>cb\<close> is what \<open>DriverCallback\<close> does.

  An entry runs to its end before the next: the timer callback is an event of its own.
\<close>

definition on_wave :: "(GSW_WAVE_INSTANCE \<Rightarrow> GSW_WAVE_INSTANCE) \<Rightarrow> 's win16_world \<Rightarrow> 's win16_world" where
  "on_wave f w = w\<lparr>gsw_wave := f (gsw_wave w)\<rparr>"

section \<open>Formats, results and callbacks\<close>

definition gsw_format_supported :: "u32 \<Rightarrow> GSW_WAVEFORMATEX \<Rightarrow> bool" where
  "gsw_format_supported p format \<longleftrightarrow>
     (if p = 0 \<or> wFormatTag format \<noteq> WAVE_FORMAT_PCM \<or> (nChannels format \<noteq> 1 \<and> nChannels format \<noteq> 2) \<or>
         (wBitsPerSample format \<noteq> 8 \<and> wBitsPerSample format \<noteq> 16) \<or>
         (nSamplesPerSec format \<noteq> 11025 \<and> nSamplesPerSec format \<noteq> 22050 \<and>
          nSamplesPerSec format \<noteq> 44100 \<and> nSamplesPerSec format \<noteq> 48000)
      then False
      else
        (let expected_align = nChannels format * drop_bit 3 (wBitsPerSample format);
             expected_rate = nSamplesPerSec format * ucast expected_align
         in nBlockAlign format = expected_align \<and> nAvgBytesPerSec format = expected_rate))"

fun gsw_result_to_mm :: "GSW_SOUND_RESULT \<Rightarrow> u16" where
  "gsw_result_to_mm GSW_SOUND_OK = MMSYSERR_NOERROR"
| "gsw_result_to_mm GSW_SOUND_BUSY = MMSYSERR_ALLOCATED"
| "gsw_result_to_mm GSW_SOUND_WOULD_BLOCK = MMSYSERR_NOERROR"
| "gsw_result_to_mm GSW_SOUND_INVALID = MMSYSERR_INVALPARAM"
| "gsw_result_to_mm GSW_SOUND_UNAVAILABLE = MMSYSERR_NOTENABLED"
| "gsw_result_to_mm _ = MMSYSERR_ERROR"

definition gsw_capture_callback :: "GSW_WAVE_INSTANCE \<Rightarrow> GSW_CALLBACK_CONTEXT" where
  "gsw_capture_callback g = \<lparr>ctx_wave = w_wave g, ctx_callback = w_callback g,
     ctx_callback_instance = w_callback_instance g, ctx_callback_flags = w_callback_flags g\<rparr>"

definition gsw_callback_with ::
    "'s on_callback \<Rightarrow> GSW_CALLBACK_CONTEXT \<Rightarrow> u16 \<Rightarrow> u32 \<Rightarrow> 's win16_world \<Rightarrow> 's win16_world" where
  "gsw_callback_with cb ctx message parameter w =
     cb \<lparr>dc_callback = ctx_callback ctx, dc_flags = ctx_callback_flags ctx, dc_driver = ctx_wave ctx,
         dc_message = message, dc_instance = ctx_callback_instance ctx, dc_parameter = parameter\<rparr> w"

definition gsw_callback :: "'s on_callback \<Rightarrow> u16 \<Rightarrow> u32 \<Rightarrow> 's win16_world \<Rightarrow> 's win16_world" where
  "gsw_callback cb message parameter w =
     gsw_callback_with cb (gsw_capture_callback (gsw_wave w)) message parameter w"

definition gsw_next_queue_index :: "u16 \<Rightarrow> u16" where
  "gsw_next_queue_index index = (index + 1) mod GSW_WAVE_QUEUE_CAPACITY"

definition set_header_flags :: "u32 \<Rightarrow> u32 \<Rightarrow> 's win16_world \<Rightarrow> 's win16_world" where
  "set_header_flags header flags w =
     w\<lparr>far := (far w)\<lparr>wavehdrs := (wavehdrs (far w))(header := (wavehdrs (far w) header)\<lparr>dwFlags := flags\<rparr>)\<rparr>\<rparr>"

definition gsw_return_header_with ::
    "'s on_callback \<Rightarrow> GSW_CALLBACK_CONTEXT \<Rightarrow> u32 \<Rightarrow> 's win16_world \<Rightarrow> 's win16_world" where
  "gsw_return_header_with cb ctx header w =
     (if header = 0 then w
      else
        (let flags = dwFlags (wavehdrs (far w) header) AND NOT WHDR_INQUEUE OR WHDR_DONE;
             w = set_header_flags header flags w;
             w = w\<lparr>returned_log := returned_log w @ [header]\<rparr>
         in gsw_callback_with cb ctx WOM_DONE header w))"

section \<open>Completing buffers\<close>

text \<open>Taking the buffer at the head out of the queue.\<close>

definition gsw_pop_head :: "GSW_WAVE_INSTANCE \<Rightarrow> GSW_WAVE_INSTANCE" where
  "gsw_pop_head g =
     g\<lparr>w_queue := (w_queue g)[unat (w_queue_read g) := buffer_zero],
       w_queue_read := gsw_next_queue_index (w_queue_read g),
       w_queue_count := w_queue_count g - 1\<rparr>"

definition gsw_rest_schedule :: "GSW_WAVE_INSTANCE \<Rightarrow> GSW_WAVE_INSTANCE" where
  "gsw_rest_schedule g = (if w_queue_count g = 0 then g\<lparr>w_schedule_index := w_queue_write g\<rparr> else g)"

definition gsw_complete_head :: "'s on_callback \<Rightarrow> u16 \<Rightarrow> 's win16_world \<Rightarrow> bool \<times> 's win16_world" where
  "gsw_complete_head cb expected_index w =
     (let g = gsw_wave w in
      if w_queue_count g = 0 \<or> w_queue_read g \<noteq> expected_index then (False, w)
      else
        (let header = b_header (w_queue g ! unat (w_queue_read g)) in
         if header = 0 then (False, w)
         else (True, gsw_return_header_with cb (gsw_capture_callback g) header
                       (on_wave (gsw_rest_schedule \<circ> gsw_pop_head) w))))"

text \<open>The loop that collects the headers from the start of a loop to its end.\<close>

fun gsw_collect_loop ::
    "GSW_WAVE_BUFFER list \<Rightarrow> u16 \<Rightarrow> u16 \<Rightarrow> nat \<Rightarrow> u32 list \<Rightarrow> u32 list option" where
  "gsw_collect_loop queue current end_index 0 headers = None"
| "gsw_collect_loop queue current end_index (Suc remaining) headers =
     (if length headers = 32 \<or> b_header (queue ! unat current) = 0 then None
      else
        (let headers = headers @ [b_header (queue ! unat current)] in
         if current = end_index then Some headers
         else gsw_collect_loop queue (gsw_next_queue_index current) end_index remaining headers))"

definition gsw_return_all ::
    "'s on_callback \<Rightarrow> GSW_CALLBACK_CONTEXT \<Rightarrow> u32 list \<Rightarrow> 's win16_world \<Rightarrow> 's win16_world" where
  "gsw_return_all cb ctx headers w = fold (gsw_return_header_with cb ctx) headers w"

definition gsw_complete_loop ::
    "'s on_callback \<Rightarrow> u16 \<Rightarrow> u16 \<Rightarrow> 's win16_world \<Rightarrow> bool \<times> 's win16_world" where
  "gsw_complete_loop cb start_index end_index w =
     (let g = gsw_wave w in
      if w_queue_count g = 0 \<or> w_queue_read g \<noteq> start_index then (False, w)
      else
        (case gsw_collect_loop (w_queue g) start_index end_index (unat (w_queue_count g)) [] of
           None \<Rightarrow> (False, w)
         | Some headers \<Rightarrow>
             (True, gsw_return_all cb (gsw_capture_callback g) headers
                (on_wave (gsw_rest_schedule \<circ> (gsw_pop_head ^^ length headers)) w))))"

definition gsw_clear_queue :: "GSW_WAVE_INSTANCE \<Rightarrow> GSW_WAVE_INSTANCE" where
  "gsw_clear_queue g =
     g\<lparr>w_queue := replicate 32 buffer_zero, w_plays := replicate 32 play_zero, w_queue_read := 0,
       w_queue_write := 0, w_queue_count := 0, w_schedule_index := 0, w_play_read := 0,
       w_play_write := 0, w_play_count := 0, w_queue_loop_open := False, w_loop_active := False,
       w_loop_break_requested := False, w_break_next_loop := False, w_loop_start_index := 0,
       w_loop_remaining := 0, w_loop_release_pending := 0\<rparr>"

text \<open>The headers of the queue from its head on.\<close>

fun gsw_queue_headers :: "GSW_WAVE_BUFFER list \<Rightarrow> u16 \<Rightarrow> nat \<Rightarrow> u32 list" where
  "gsw_queue_headers queue index 0 = []"
| "gsw_queue_headers queue index (Suc n) =
     b_header (queue ! unat index) # gsw_queue_headers queue (gsw_next_queue_index index) n"

definition gsw_complete_all :: "'s on_callback \<Rightarrow> 's win16_world \<Rightarrow> 's win16_world" where
  "gsw_complete_all cb w =
     (let g = gsw_wave w;
          headers = gsw_queue_headers (w_queue g) (w_queue_read g) (unat (w_queue_count g))
      in gsw_return_all cb (gsw_capture_callback g) headers (on_wave gsw_clear_queue w))"

definition gsw_abort_queue :: "'s win16_env \<Rightarrow> 's on_callback \<Rightarrow> 's win16_world \<Rightarrow> 's win16_world" where
  "gsw_abort_queue e cb w =
     gsw_complete_all cb
       (if w_open (gsw_wave w)
        then snd (snd (call_pm e ((gsw_request_init GSW_SOUND_PM_RESET)
               \<lparr>pm_stream_id := w_stream_id (gsw_wave w)\<rparr>) w))
        else w)"

section \<open>Collecting completed plays\<close>

definition gsw_pop_play :: "GSW_WAVE_INSTANCE \<Rightarrow> GSW_WAVE_INSTANCE" where
  "gsw_pop_play g =
     g\<lparr>w_plays := (w_plays g)[unat (w_play_read g) := play_zero],
       w_play_read := gsw_next_queue_index (w_play_read g),
       w_play_count := w_play_count g - 1\<rparr>"

text \<open>
  What follows a play that completed: the result says whether the loop goes on, or the queue
  is aborted (\<open>None\<close> for the latter).
\<close>

definition gsw_release_loop :: "'s on_callback \<Rightarrow> GSW_WAVE_PLAY \<Rightarrow> 's win16_world \<Rightarrow> bool \<times> 's win16_world" where
  "gsw_release_loop cb completed w =
     (if \<not> p_release_loop completed then (True, w)
      else if w_loop_release_pending (gsw_wave w) = 0 then (False, w)
      else gsw_complete_loop cb (p_loop_start_index completed) (p_loop_end_index completed)
             (on_wave (\<lambda>g. g\<lparr>w_loop_release_pending := w_loop_release_pending g - 1\<rparr>) w))"

definition gsw_finish_play :: "'s on_callback \<Rightarrow> GSW_WAVE_PLAY \<Rightarrow> 's win16_world \<Rightarrow> bool \<times> 's win16_world" where
  "gsw_finish_play cb completed =
     step_and (\<lambda>w. if p_complete_buffer completed then gsw_complete_head cb (p_buffer_index completed) w
                   else (True, w))
       (gsw_release_loop cb completed)"

fun gsw_poll_loop :: "'s win16_env \<Rightarrow> 's on_callback \<Rightarrow> nat \<Rightarrow> 's win16_world \<Rightarrow> 's win16_world" where
  "gsw_poll_loop e cb 0 w = w"
| "gsw_poll_loop e cb (Suc work) w =
     (if w_play_count (gsw_wave w) = 0 then w
      else
        (let completed = w_plays (gsw_wave w) ! unat (w_play_read (gsw_wave w));
             (result, request, w) = call_pm e ((gsw_request_init GSW_SOUND_PM_POLL)
               \<lparr>pm_stream_id := w_stream_id (gsw_wave w)\<rparr>) w
         in if result = GSW_SOUND_NO_COMPLETION then w
            else if result \<noteq> GSW_SOUND_OK \<or> pm_completed_token request \<noteq> p_token completed
            then gsw_abort_queue e cb w
            else
              (let (ok, w) = gsw_finish_play cb completed (on_wave gsw_pop_play w) in
               if \<not> ok then gsw_abort_queue e cb w
               else if \<not> w_open (gsw_wave w) \<or> w_stream_id (gsw_wave w) \<noteq> pm_stream_id request then w
               else gsw_poll_loop e cb work w)))"

definition gsw_poll_completions :: "'s win16_env \<Rightarrow> 's on_callback \<Rightarrow> 's win16_world \<Rightarrow> 's win16_world" where
  "gsw_poll_completions e cb = gsw_poll_loop e cb GSW_PUMP_WORK_LIMIT"

section \<open>Submitting buffers\<close>

definition gsw_allocate_token :: "GSW_WAVE_INSTANCE \<Rightarrow> u32 \<times> GSW_WAVE_INSTANCE" where
  "gsw_allocate_token g =
     (let token = w_next_token g; next_token = w_next_token g + 1;
          (token, next_token) = (if token = 0 then (if next_token = 0 then 1 else next_token, next_token + 1)
                                 else (token, next_token))
      in (token, g\<lparr>w_next_token := if next_token = 0 then 1 else next_token\<rparr>))"

definition gsw_update_buffer :: "u16 \<Rightarrow> (GSW_WAVE_BUFFER \<Rightarrow> GSW_WAVE_BUFFER) \<Rightarrow> GSW_WAVE_INSTANCE \<Rightarrow> GSW_WAVE_INSTANCE" where
  "gsw_update_buffer index f g =
     g\<lparr>w_queue := (w_queue g)[unat index := f (w_queue g ! unat index)]\<rparr>"

definition gsw_push_play :: "GSW_WAVE_PLAY \<Rightarrow> GSW_WAVE_INSTANCE \<Rightarrow> GSW_WAVE_INSTANCE" where
  "gsw_push_play play g =
     g\<lparr>w_plays := (w_plays g)[unat (w_play_write g) := play],
       w_play_write := gsw_next_queue_index (w_play_write g),
       w_play_count := w_play_count g + 1\<rparr>"

definition gsw_record_play ::
    "u16 \<Rightarrow> bool \<Rightarrow> bool \<Rightarrow> u16 \<Rightarrow> u16 \<Rightarrow> GSW_WAVE_INSTANCE \<Rightarrow> bool \<times> GSW_WAVE_INSTANCE" where
  "gsw_record_play buffer_index complete_buffer release_loop loop_start_index loop_end_index g =
     (let buffer = w_queue g ! unat buffer_index in
      if b_token buffer = 0 \<or> w_play_count g = GSW_WAVE_QUEUE_CAPACITY then (False, g)
      else (True, gsw_update_buffer buffer_index (\<lambda>b. b\<lparr>b_submitted_bytes := 0, b_token := 0\<rparr>)
             (gsw_push_play \<lparr>p_token = b_token buffer, p_buffer_index = buffer_index,
                p_loop_start_index = loop_start_index, p_loop_end_index = loop_end_index,
                p_complete_buffer = complete_buffer, p_release_loop = release_loop\<rparr> g)))"

text \<open>The first buffer of a loop starts it.\<close>

definition gsw_enter_loop :: "u16 \<Rightarrow> GSW_WAVE_INSTANCE \<Rightarrow> bool \<times> GSW_WAVE_INSTANCE" where
  "gsw_enter_loop buffer_index g =
     (let buffer = w_queue g ! unat buffer_index in
      if b_header_flags buffer AND WHDR_BEGINLOOP = 0 then (True, g)
      else if \<not> w_loop_active g
      then (if b_loop_count buffer = 0 then (False, g)
            else (True, g\<lparr>w_loop_active := True, w_loop_start_index := buffer_index,
                          w_loop_remaining := b_loop_count buffer,
                          w_loop_break_requested := w_break_next_loop g, w_break_next_loop := False\<rparr>))
      else (buffer_index = w_loop_start_index g, g))"

text \<open>Where to go on, and what the completion of this play releases.\<close>

definition gsw_schedule_play :: "u16 \<Rightarrow> GSW_WAVE_INSTANCE \<Rightarrow> bool \<times> GSW_WAVE_INSTANCE" where
  "gsw_schedule_play buffer_index g =
     (let ends_loop = b_header_flags (w_queue g ! unat buffer_index) AND WHDR_ENDLOOP \<noteq> 0 in
      if w_loop_active g
      then
        (if ends_loop
         then
           (if w_loop_break_requested g \<or> w_loop_remaining g \<le> 1
            then gsw_record_play buffer_index False True (w_loop_start_index g) buffer_index
                   (g\<lparr>w_loop_active := False, w_loop_break_requested := False, w_loop_remaining := 0,
                      w_loop_release_pending := w_loop_release_pending g + 1,
                      w_schedule_index := gsw_next_queue_index buffer_index\<rparr>)
            else gsw_record_play buffer_index False False 0 buffer_index
                   (g\<lparr>w_loop_remaining := w_loop_remaining g - 1,
                      w_schedule_index := w_loop_start_index g\<rparr>))
         else gsw_record_play buffer_index False False 0 buffer_index
                (g\<lparr>w_schedule_index := gsw_next_queue_index buffer_index\<rparr>))
      else if ends_loop then (False, g)
      else gsw_record_play buffer_index True False 0 buffer_index
             (g\<lparr>w_schedule_index := gsw_next_queue_index buffer_index\<rparr>))"

definition gsw_finish_occurrence :: "u16 \<Rightarrow> GSW_WAVE_INSTANCE \<Rightarrow> bool \<times> GSW_WAVE_INSTANCE" where
  "gsw_finish_occurrence buffer_index g =
     (if b_header (w_queue g ! unat buffer_index) = 0 then (False, g)
      else step_and (gsw_enter_loop buffer_index) (gsw_schedule_play buffer_index) g)"

definition gsw_need_token :: "u16 \<Rightarrow> GSW_WAVE_INSTANCE \<Rightarrow> GSW_WAVE_INSTANCE" where
  "gsw_need_token index g =
     (if b_token (w_queue g ! unat index) = 0
      then (let (token, g) = gsw_allocate_token g
            in gsw_update_buffer index (\<lambda>b. b\<lparr>b_token := token\<rparr>) g)
      else g)"

definition gsw_chunk :: "GSW_WAVE_INSTANCE \<Rightarrow> u32 \<Rightarrow> u32" where
  "gsw_chunk g remaining =
     (let chunk = (if remaining > GSW_SOUND_MAX_SUBMIT_BYTES then GSW_SOUND_MAX_SUBMIT_BYTES else remaining)
      in chunk - chunk mod ucast (w_frame_bytes g))"

definition gsw_submit_request :: "GSW_WAVE_INSTANCE \<Rightarrow> GSW_WAVE_BUFFER \<Rightarrow> u32 \<Rightarrow> u32 \<Rightarrow> GSW_SOUND_PM_REQUEST" where
  "gsw_submit_request g buffer remaining chunk =
     (gsw_request_init GSW_SOUND_PM_SUBMIT)\<lparr>pm_stream_id := w_stream_id g,
        pm_buffer_linear := b_buffer_linear buffer + b_submitted_bytes buffer, pm_buffer_bytes := chunk,
        pm_user_token := b_token buffer,
        pm_flags := if chunk = remaining then GSW_SOUND_SUBMIT_END_OF_BUFFER else 0\<rparr>"

fun gsw_submit_loop :: "'s win16_env \<Rightarrow> 's on_callback \<Rightarrow> nat \<Rightarrow> 's win16_world \<Rightarrow> 's win16_world" where
  "gsw_submit_loop e cb 0 w = w"
| "gsw_submit_loop e cb (Suc work) w =
     (let g = gsw_wave w; buffer_index = w_schedule_index g in
      if w_queue_count g = 0 then w
      else if w_play_count g = GSW_WAVE_QUEUE_CAPACITY \<or> b_header (w_queue g ! unat buffer_index) = 0 then w
      else
        (let w = on_wave (gsw_need_token buffer_index) w;
             g = gsw_wave w; buffer = w_queue g ! unat buffer_index;
             remaining = b_buffer_bytes buffer - b_submitted_bytes buffer in
         if remaining = 0 \<or> b_submitted_bytes buffer > b_buffer_bytes buffer then gsw_abort_queue e cb w
         else if gsw_chunk g remaining = 0 then w
         else
           (let chunk = gsw_chunk g remaining;
                (result, request, w) = call_pm e (gsw_submit_request g buffer remaining chunk) w
            in if result = GSW_SOUND_WOULD_BLOCK then w
               else if result \<noteq> GSW_SOUND_OK \<or> pm_result request \<noteq> result_code GSW_SOUND_OK \<or>
                       pm_accepted_bytes request = 0 \<or> pm_accepted_bytes request > chunk \<or>
                       pm_accepted_bytes request mod ucast (w_frame_bytes (gsw_wave w)) \<noteq> 0
               then gsw_abort_queue e cb w
               else
                 (let w = on_wave (gsw_update_buffer buffer_index (\<lambda>b. b\<lparr>b_submitted_bytes :=
                            b_submitted_bytes b + pm_accepted_bytes request\<rparr>)) w;
                      buffer = w_queue (gsw_wave w) ! unat buffer_index;
                      (ok, g) = (if b_submitted_bytes buffer = b_buffer_bytes buffer
                                 then gsw_finish_occurrence buffer_index (gsw_wave w)
                                 else (True, gsw_wave w));
                      w = w\<lparr>gsw_wave := g\<rparr>
                  in if \<not> ok then gsw_abort_queue e cb w
                     else if pm_accepted_bytes request < chunk then w
                     else gsw_submit_loop e cb work w))))"

definition gsw_submit_buffers :: "'s win16_env \<Rightarrow> 's on_callback \<Rightarrow> 's win16_world \<Rightarrow> 's win16_world" where
  "gsw_submit_buffers e cb = gsw_submit_loop e cb GSW_PUMP_WORK_LIMIT"

definition gsw_pump :: "'s win16_env \<Rightarrow> 's on_callback \<Rightarrow> 's win16_world \<Rightarrow> 's win16_world" where
  "gsw_pump e cb w =
     (if \<not> w_open (gsw_wave w) \<or> w_paused (gsw_wave w) \<or> w_pumping (gsw_wave w) then w
      else
        (let w = on_wave (\<lambda>g. g\<lparr>w_pumping := True\<rparr>) w;
             w = gsw_poll_completions e cb w;
             w = gsw_submit_buffers e cb w
         in on_wave (\<lambda>g. g\<lparr>w_pumping := False\<rparr>) w))"

definition gsw_timer_callback :: "'s win16_env \<Rightarrow> 's on_callback \<Rightarrow> 's win16_world \<Rightarrow> 's win16_world" where
  "gsw_timer_callback e cb w = gsw_pump e cb w"

definition gsw_stop_timer :: "'s win16_env \<Rightarrow> 's win16_world \<Rightarrow> 's win16_world" where
  "gsw_stop_timer e w =
     (let w = (if w_timer_id (gsw_wave w) \<noteq> 0
               then on_wave (\<lambda>g. g\<lparr>w_timer_id := 0\<rparr>) (do_outside (timeKillEvent e (w_timer_id (gsw_wave w))) w)
               else w)
      in if w_timer_period_active (gsw_wave w)
         then on_wave (\<lambda>g. g\<lparr>w_timer_period_active := False\<rparr>) (do_outside (timeEndPeriod e) w)
         else w)"

section \<open>Capabilities, opening and closing\<close>

definition gsw_get_num_devices :: "'s win16_env \<Rightarrow> 's win16_world \<Rightarrow> u32 \<times> 's win16_world" where
  "gsw_get_num_devices e w =
     (let (result, r, w) = call_pm e (gsw_request_init GSW_SOUND_PM_QUERY) w
      in if result \<noteq> GSW_SOUND_OK then (0, w)
         else (if pm_capabilities r AND GSW_PCM_REQUIRED_CAPS = GSW_PCM_REQUIRED_CAPS then 1 else 0, w))"

text \<open>
  The structure of Windows with the twelve standard formats at 11.025, 22.05 and 44.1 kHz, which
  are the low twelve bits of the format mask.
\<close>

definition WAVEOUTCAPS_bytes :: "u8 list" where
  "WAVEOUTCAPS_bytes = le16 MM_UNMAPPED @ le16 0 @ le16 0x0100 @ name_bytes 32 ''RETVRN99 GSW-Sound'' @
     le32 0xFFF @ le16 2 @ le32 WAVECAPS_VOLUME"

definition gsw_get_caps :: "u32 \<Rightarrow> u32 \<Rightarrow> 's win16_world \<Rightarrow> u16 \<times> 's win16_world" where
  "gsw_get_caps caps bytes w =
     (if caps = 0 \<or> bytes = 0 then (MMSYSERR_INVALPARAM, w)
      else (MMSYSERR_NOERROR,
            w\<lparr>far := (far w)\<lparr>caps_bytes := (caps_bytes (far w))(caps :=
                copy_prefix (unat bytes) WAVEOUTCAPS_bytes (caps_bytes (far w) caps))\<rparr>\<rparr>))"

definition gsw_callback_type_supported :: "u32 \<Rightarrow> bool" where
  "gsw_callback_type_supported flags \<longleftrightarrow>
     (let t = flags AND CALLBACK_TYPEMASK in
      t = CALLBACK_NULL \<or> t = CALLBACK_WINDOW \<or> t = CALLBACK_TASK \<or> t = CALLBACK_FUNCTION \<or> t = CALLBACK_EVENT)"

text \<open>The checks before anything is changed, with the value returned when one of them ends the call.\<close>

definition gsw_open_refused :: "u32 \<Rightarrow> u32 \<Rightarrow> u32 \<Rightarrow> 's win16_world \<Rightarrow> u16 option" where
  "gsw_open_refused dwUser p flags w =
     (let description = waveopendescs (far w) p in
      if p = 0 \<or> \<not> gsw_format_supported (lpFormat description) (waveformats (far w) (lpFormat description))
      then Some WAVERR_BADFORMAT
      else if flags AND WAVE_FORMAT_DIRECT \<noteq> 0 then Some MMSYSERR_NOTSUPPORTED
      else if flags AND NOT (CALLBACK_TYPEMASK OR WAVE_FORMAT_QUERY OR WAVE_ALLOWSYNC OR WAVE_FORMAT_DIRECT) \<noteq> 0 \<or>
              \<not> gsw_callback_type_supported flags
      then Some MMSYSERR_INVALFLAG
      else if flags AND WAVE_FORMAT_QUERY \<noteq> 0 then Some MMSYSERR_NOERROR
      else if dwUser = 0 then Some MMSYSERR_INVALPARAM
      else if w_open (gsw_wave w) then Some MMSYSERR_ALLOCATED
      else None)"

definition gsw_opened_instance ::
    "GSW_WAVEOPENDESC \<Rightarrow> u32 \<Rightarrow> GSW_SOUND_PM_REQUEST \<Rightarrow> GSW_WAVE_INSTANCE" where
  "gsw_opened_instance description flags r =
     wave_zero\<lparr>w_open := True, w_wave := hWave description, w_callback := wd_dwCallback description,
       w_callback_instance := wd_dwInstance description,
       w_callback_flags := GSW_DRIVER_CALLBACK_FLAGS flags, w_stream_id := pm_stream_id r,
       w_next_token := 1, w_sample_rate := pm_sample_rate r, w_channels := pm_channels r,
       w_bits_per_sample := pm_bits_per_sample r,
       w_frame_bytes := pm_channels r * drop_bit 3 (pm_bits_per_sample r)\<rparr>"

definition gsw_close_stream :: "'s win16_env \<Rightarrow> u32 \<Rightarrow> 's win16_world \<Rightarrow> 's win16_world" where
  "gsw_close_stream e stream w =
     snd (snd (call_pm e ((gsw_request_init GSW_SOUND_PM_CLOSE)\<lparr>pm_stream_id := stream\<rparr>) w))"

text \<open>The stream is there: the timer that pumps it is started, or everything is undone.\<close>

definition gsw_open_stream ::
    "'s win16_env \<Rightarrow> 's on_callback \<Rightarrow> u32 \<Rightarrow> GSW_WAVEOPENDESC \<Rightarrow> u32 \<Rightarrow> GSW_SOUND_PM_REQUEST \<Rightarrow>
     's win16_world \<Rightarrow> u16 \<times> 's win16_world" where
  "gsw_open_stream e cb dwUser description flags r w =
     (let w = w\<lparr>gsw_wave := gsw_opened_instance description flags r\<rparr>;
          (started, w) = on_outside (timeBeginPeriod e) w
      in if \<not> started
         then (MMSYSERR_ERROR, (gsw_close_stream e (pm_stream_id r) w)\<lparr>gsw_wave := wave_zero\<rparr>)
         else
           (let w = on_wave (\<lambda>g. g\<lparr>w_timer_period_active := True\<rparr>) w;
                (timer, w) = on_outside (timeSetEvent e) w;
                w = on_wave (\<lambda>g. g\<lparr>w_timer_id := timer\<rparr>) w
            in if timer = 0
               then (MMSYSERR_NOMEM,
                     (gsw_close_stream e (pm_stream_id r) (gsw_stop_timer e w))\<lparr>gsw_wave := wave_zero\<rparr>)
               else
                 (let w = w\<lparr>far := (far w)\<lparr>dwords := (dwords (far w))(dwUser := wave_address e)\<rparr>\<rparr>;
                      w = gsw_callback cb WOM_OPEN 0 w;
                      w = (if w_open (gsw_wave w) \<and> w_stream_id (gsw_wave w) = pm_stream_id r
                           then gsw_mixer_set_wave_active cb True w else w)
                  in (MMSYSERR_NOERROR, w))))"

definition gsw_open ::
    "'s win16_env \<Rightarrow> 's on_callback \<Rightarrow> u32 \<Rightarrow> u32 \<Rightarrow> u32 \<Rightarrow> 's win16_world \<Rightarrow> u16 \<times> 's win16_world" where
  "gsw_open e cb dwUser p flags w =
     (case gsw_open_refused dwUser p flags w of
        Some result \<Rightarrow> (result, w)
      | None \<Rightarrow>
          (let description = waveopendescs (far w) p;
               format = waveformats (far w) (lpFormat description);
               w = w\<lparr>gsw_wave := wave_zero\<rparr>;
               (result, r, w) = call_pm e ((gsw_request_init GSW_SOUND_PM_OPEN)
                 \<lparr>pm_sample_rate := nSamplesPerSec format, pm_channels := nChannels format,
                  pm_bits_per_sample := wBitsPerSample format\<rparr>) w
           in if result \<noteq> GSW_SOUND_OK then (gsw_result_to_mm result, w)
              else if pm_sample_rate r \<noteq> nSamplesPerSec format \<or> pm_channels r \<noteq> nChannels format \<or>
                      pm_bits_per_sample r \<noteq> wBitsPerSample format
              then (MMSYSERR_ERROR, gsw_close_stream e (pm_stream_id r) w)
              else gsw_open_stream e cb dwUser description flags r w))"

definition gsw_close :: "'s win16_env \<Rightarrow> 's on_callback \<Rightarrow> 's win16_world \<Rightarrow> u16 \<times> 's win16_world" where
  "gsw_close e cb w =
     (if \<not> w_open (gsw_wave w) then (MMSYSERR_INVALHANDLE, w)
      else if w_queue_count (gsw_wave w) \<noteq> 0 then (WAVERR_STILLPLAYING, w)
      else
        (let w = gsw_stop_timer e w;
             (result, r, w) = call_pm e ((gsw_request_init GSW_SOUND_PM_CLOSE)
               \<lparr>pm_stream_id := w_stream_id (gsw_wave w)\<rparr>) w;
             context = gsw_capture_callback (gsw_wave w);
             w = w\<lparr>gsw_wave := wave_zero\<rparr>;
             w = gsw_mixer_set_wave_active cb False w;
             w = gsw_callback_with cb context WOM_CLOSE 0 w
         in (gsw_result_to_mm result, w)))"

section \<open>Headers\<close>

definition gsw_prepare_header :: "u32 \<Rightarrow> u32 \<Rightarrow> 's win16_world \<Rightarrow> u16 \<times> 's win16_world" where
  "gsw_prepare_header header bytes w =
     (let flags = dwFlags (wavehdrs (far w) header) in
      if header = 0 \<or> bytes < sizeof_WAVEHDR then (MMSYSERR_INVALPARAM, w)
      else if flags AND WHDR_INQUEUE \<noteq> 0 then (WAVERR_STILLPLAYING, w)
      else (MMSYSERR_NOERROR, set_header_flags header (flags OR WHDR_PREPARED) w))"

definition gsw_unprepare_header :: "u32 \<Rightarrow> u32 \<Rightarrow> 's win16_world \<Rightarrow> u16 \<times> 's win16_world" where
  "gsw_unprepare_header header bytes w =
     (let flags = dwFlags (wavehdrs (far w) header) in
      if header = 0 \<or> bytes < sizeof_WAVEHDR then (MMSYSERR_INVALPARAM, w)
      else if flags AND WHDR_INQUEUE \<noteq> 0 then (WAVERR_STILLPLAYING, w)
      else (MMSYSERR_NOERROR, set_header_flags header (flags AND NOT WHDR_PREPARED) w))"

definition gsw_snapshot_buffer_linear ::
    "'s win16_env \<Rightarrow> u32 \<Rightarrow> u32 \<Rightarrow> 's win16_world \<Rightarrow> u32 option \<times> 's win16_world" where
  "gsw_snapshot_buffer_linear e data bytes w =
     (if data = 0 \<or> bytes = 0 then (None, w)
      else
        (let (linear, w) = on_outside (pm_linear e data) w
         in case linear of
              None \<Rightarrow> (None, w)
            | Some a \<Rightarrow> if a > 0xFFFFFFFF - (bytes - 1) then (None, w) else (Some a, w)))"

text \<open>The checks of a write in front of the address translation, and those of its loop flags.\<close>

definition gsw_write_refused :: "u32 \<Rightarrow> 's win16_world \<Rightarrow> u16 option" where
  "gsw_write_refused header w =
     (let g = gsw_wave w; h = wavehdrs (far w) header in
      if \<not> w_open g then Some MMSYSERR_INVALHANDLE
      else if header = 0 \<or> lpData h = 0 \<or> dwBufferLength h = 0 \<or>
              dwBufferLength h mod ucast (w_frame_bytes g) \<noteq> 0
      then Some MMSYSERR_INVALPARAM
      else if dwFlags h AND WHDR_INQUEUE \<noteq> 0 then Some WAVERR_STILLPLAYING
      else if dwFlags h AND WHDR_PREPARED = 0 then Some WAVERR_UNPREPARED
      else if w_queue_count g = GSW_WAVE_QUEUE_CAPACITY then Some MMSYSERR_NOMEM
      else None)"

definition gsw_loop_flags :: "WAVEHDR \<Rightarrow> bool \<Rightarrow> bool option" where
  "gsw_loop_flags h queue_loop_open =
     (let begins_loop = dwFlags h AND WHDR_BEGINLOOP \<noteq> 0; ends_loop = dwFlags h AND WHDR_ENDLOOP \<noteq> 0 in
      if begins_loop \<and> (queue_loop_open \<or> dwLoops h = 0) then None
      else
        (let queue_loop_open = (if begins_loop then True else queue_loop_open) in
         if ends_loop then (if \<not> queue_loop_open then None else Some False) else Some queue_loop_open))"

definition gsw_push_buffer :: "GSW_WAVE_BUFFER \<Rightarrow> GSW_WAVE_INSTANCE \<Rightarrow> GSW_WAVE_INSTANCE" where
  "gsw_push_buffer b g =
     (let g = g\<lparr>w_queue := (w_queue g)[unat (w_queue_write g) := b]\<rparr>;
          g = (if w_queue_count g = 0
               then g\<lparr>w_queue_read := w_queue_write g, w_schedule_index := w_queue_write g\<rparr> else g)
      in g\<lparr>w_queue_write := gsw_next_queue_index (w_queue_write g), w_queue_count := w_queue_count g + 1\<rparr>)"

definition gsw_enqueue :: "u32 \<Rightarrow> u32 \<Rightarrow> bool \<Rightarrow> 's win16_world \<Rightarrow> 's win16_world" where
  "gsw_enqueue header linear queue_loop_open w =
     (let h = wavehdrs (far w) header;
          buffer = \<lparr>b_header = header, b_buffer_linear = linear, b_buffer_bytes = dwBufferLength h,
                    b_header_flags = dwFlags h AND (WHDR_BEGINLOOP OR WHDR_ENDLOOP), b_loop_count = dwLoops h,
                    b_submitted_bytes = 0, b_token = 0\<rparr>;
          w = set_header_flags header (dwFlags h AND NOT WHDR_DONE OR WHDR_INQUEUE) w;
          w = w\<lparr>taken_log := taken_log w @ [header]\<rparr>
      in on_wave (\<lambda>g. (gsw_push_buffer buffer g)\<lparr>w_queue_loop_open := queue_loop_open\<rparr>) w)"

definition gsw_write :: "'s win16_env \<Rightarrow> 's on_callback \<Rightarrow> u32 \<Rightarrow> 's win16_world \<Rightarrow> u16 \<times> 's win16_world" where
  "gsw_write e cb header w =
     (case gsw_write_refused header w of
        Some result \<Rightarrow> (result, w)
      | None \<Rightarrow>
          (let h = wavehdrs (far w) header;
               (linear, w) = gsw_snapshot_buffer_linear e (lpData h) (dwBufferLength h) w
           in case linear of
                None \<Rightarrow> (MMSYSERR_INVALPARAM, w)
              | Some a \<Rightarrow>
                  (case gsw_loop_flags h (w_queue_loop_open (gsw_wave w)) of
                     None \<Rightarrow> (MMSYSERR_INVALPARAM, w)
                   | Some queue_loop_open \<Rightarrow>
                       (MMSYSERR_NOERROR, gsw_pump e cb (gsw_enqueue header a queue_loop_open w)))))"

section \<open>Stream commands\<close>

text \<open>The scan for a loop that is still to be scheduled: \<open>n\<close> buffers are left.\<close>

fun gsw_scan_loops :: "GSW_WAVE_INSTANCE \<Rightarrow> u16 \<Rightarrow> nat \<Rightarrow> bool" where
  "gsw_scan_loops g index 0 = False"
| "gsw_scan_loops g index (Suc n) =
     (let buffer = w_queue g ! unat index in
      if b_header buffer = 0 then False
      else if b_header_flags buffer AND WHDR_BEGINLOOP \<noteq> 0 then True
      else if gsw_next_queue_index index = w_queue_write g then False
      else gsw_scan_loops g (gsw_next_queue_index index) n)"

definition gsw_has_unscheduled_loop :: "GSW_WAVE_INSTANCE \<Rightarrow> bool" where
  "gsw_has_unscheduled_loop g \<longleftrightarrow>
     (if w_queue_count g = 0 then False
      else if w_schedule_index g = w_queue_write g \<and> w_queue_count g \<noteq> GSW_WAVE_QUEUE_CAPACITY then False
      else gsw_scan_loops g (w_schedule_index g) (unat (w_queue_count g)))"

definition gsw_break_loop :: "'s win16_world \<Rightarrow> u16 \<times> 's win16_world" where
  "gsw_break_loop w =
     (MMSYSERR_NOERROR,
      if w_loop_active (gsw_wave w) then on_wave (\<lambda>g. g\<lparr>w_loop_break_requested := True\<rparr>) w
      else if gsw_has_unscheduled_loop (gsw_wave w) then on_wave (\<lambda>g. g\<lparr>w_break_next_loop := True\<rparr>) w
      else w)"

definition gsw_simple_stream_command :: "'s win16_env \<Rightarrow> u16 \<Rightarrow> 's win16_world \<Rightarrow> u16 \<times> 's win16_world" where
  "gsw_simple_stream_command e opcode w =
     (if \<not> w_open (gsw_wave w) then (MMSYSERR_INVALHANDLE, w)
      else
        (let (result, r, w) = call_pm e ((gsw_request_init opcode)\<lparr>pm_stream_id := w_stream_id (gsw_wave w)\<rparr>) w
         in (gsw_result_to_mm result, w)))"

definition gsw_reset :: "'s win16_env \<Rightarrow> 's on_callback \<Rightarrow> 's win16_world \<Rightarrow> u16 \<times> 's win16_world" where
  "gsw_reset e cb w =
     (let (result, w) = gsw_simple_stream_command e GSW_SOUND_PM_RESET w;
          w = (if result = MMSYSERR_NOERROR then on_wave (\<lambda>g. g\<lparr>w_paused := False\<rparr>) w else w)
      in (result, gsw_complete_all cb w))"

definition gsw_pause :: "'s win16_env \<Rightarrow> 's win16_world \<Rightarrow> u16 \<times> 's win16_world" where
  "gsw_pause e w =
     (if \<not> w_open (gsw_wave w) then (MMSYSERR_INVALHANDLE, w)
      else
        (let (result, w) = gsw_simple_stream_command e GSW_SOUND_PM_PAUSE w
         in (result, if result = MMSYSERR_NOERROR then on_wave (\<lambda>g. g\<lparr>w_paused := True\<rparr>) w else w)))"

definition gsw_restart :: "'s win16_env \<Rightarrow> 's win16_world \<Rightarrow> u16 \<times> 's win16_world" where
  "gsw_restart e w =
     (if \<not> w_open (gsw_wave w) then (MMSYSERR_INVALHANDLE, w)
      else
        (let (result, w) = gsw_simple_stream_command e GSW_SOUND_PM_RESTART w
         in (result, if result = MMSYSERR_NOERROR then on_wave (\<lambda>g. g\<lparr>w_paused := False\<rparr>) w else w)))"

definition gsw_position_clamp :: "u64 \<Rightarrow> u32" where
  "gsw_position_clamp val = (if val > 0xFFFFFFFF then 0xFFFFFFFF else ucast val)"

definition gsw_position_ms :: "u64 \<Rightarrow> u64 \<Rightarrow> u32" where
  "gsw_position_ms frames rate =
     (let seconds = frames div rate in
      if seconds > 0xFFFFFFFF div 1000 then 0xFFFFFFFF
      else gsw_position_clamp (seconds * 1000 + (frames mod rate) * 1000 div rate))"

definition gsw_time_of_position :: "GSW_WAVE_INSTANCE \<Rightarrow> u64 \<Rightarrow> MMTIME \<Rightarrow> MMTIME" where
  "gsw_time_of_position g position time =
     (let frames = position div ucast (w_frame_bytes g) in
      if wType time = TIME_SAMPLES then time\<lparr>time_value := gsw_position_clamp frames\<rparr>
      else if wType time = TIME_MS then time\<lparr>time_value := gsw_position_ms frames (ucast (w_sample_rate g))\<rparr>
      else time\<lparr>wType := TIME_BYTES, time_value := gsw_position_clamp position\<rparr>)"

definition gsw_get_position :: "'s win16_env \<Rightarrow> u32 \<Rightarrow> u32 \<Rightarrow> 's win16_world \<Rightarrow> u16 \<times> 's win16_world" where
  "gsw_get_position e time bytes w =
     (if time = 0 \<or> bytes < sizeof_MMTIME then (MMSYSERR_INVALPARAM, w)
      else
        (let (result, r, w) = call_pm e ((gsw_request_init GSW_SOUND_PM_GET_POSITION)
               \<lparr>pm_stream_id := w_stream_id (gsw_wave w)\<rparr>) w
         in if result \<noteq> GSW_SOUND_OK then (MMSYSERR_ERROR, w)
            else
              (let position = push_bit 32 (ucast (pm_position_high r)) OR ucast (pm_position_low r)
               in (MMSYSERR_NOERROR,
                   w\<lparr>far := (far w)\<lparr>mmtimes := (mmtimes (far w))(time :=
                       gsw_time_of_position (gsw_wave w) position (mmtimes (far w) time))\<rparr>\<rparr>))))"

definition gsw_get_volume :: "u32 \<Rightarrow> 's win16_world \<Rightarrow> u16 \<times> 's win16_world" where
  "gsw_get_volume volume w = gsw_mixer_get_wave_volume volume w"

definition gsw_set_volume :: "'s win16_env \<Rightarrow> 's on_callback \<Rightarrow> u32 \<Rightarrow> 's win16_world \<Rightarrow> u16 \<times> 's win16_world" where
  "gsw_set_volume e cb volume w = gsw_mixer_set_wave_volume e cb volume w"

definition gsw_wave_user_valid :: "'s win16_env \<Rightarrow> u32 \<Rightarrow> 's win16_world \<Rightarrow> bool" where
  "gsw_wave_user_valid e dwUser w \<longleftrightarrow> w_open (gsw_wave w) \<and> dwUser = wave_address e"

section \<open>Entries\<close>

text \<open>The messages of an open stream.\<close>

definition wodMessage_stream ::
    "'s win16_env \<Rightarrow> 's on_callback \<Rightarrow> u16 \<Rightarrow> u32 \<Rightarrow> u32 \<Rightarrow> 's win16_world \<Rightarrow> u16 \<times> 's win16_world" where
  "wodMessage_stream e cb message one two w =
     (if message = WODM_CLOSE then gsw_close e cb w
      else if message = WODM_PREPARE then gsw_prepare_header one two w
      else if message = WODM_UNPREPARE then gsw_unprepare_header one two w
      else if message = WODM_WRITE then gsw_write e cb one w
      else if message = WODM_PAUSE then gsw_pause e w
      else if message = WODM_RESTART then gsw_restart e w
      else if message = WODM_RESET then gsw_reset e cb w
      else if message = WODM_GETPOS then gsw_get_position e one two w
      else if message = WODM_BREAKLOOP then gsw_break_loop w
      else (MMSYSERR_NOTSUPPORTED, w))"

definition wodMessage ::
    "'s win16_env \<Rightarrow> 's on_callback \<Rightarrow> u16 \<Rightarrow> u16 \<Rightarrow> u32 \<Rightarrow> u32 \<Rightarrow> u32 \<Rightarrow> 's win16_world \<Rightarrow> u32 \<times> 's win16_world" where
  "wodMessage e cb device_id message dwUser one two w =
     (if message = WODM_INIT \<or> message = DRVM_EXIT \<or> message = DRVM_DISABLE \<or> message = DRVM_ENABLE
      then (ucast MMSYSERR_NOERROR, w)
      else if device_id \<noteq> 0 \<and> message \<noteq> WODM_GETNUMDEVS then (ucast MMSYSERR_BADDEVICEID, w)
      else if message = DRV_QUERYDRVENTRY then (ucast MMSYSERR_NOTSUPPORTED, w)
      else if message = DRV_QUERYDSOUNDIFACE then (ucast MMSYSERR_NOTSUPPORTED, w)
      else if message = WODM_GETNUMDEVS then gsw_get_num_devices e w
      else if message = WODM_GETDEVCAPS then mm_return (gsw_get_caps one two w)
      else if message = WODM_OPEN then mm_return (gsw_open e cb dwUser one two w)
      else if message = WODM_GETVOLUME then mm_return (gsw_get_volume one w)
      else if message = WODM_SETVOLUME then mm_return (gsw_set_volume e cb one w)
      else if \<not> gsw_wave_user_valid e dwUser w then (ucast MMSYSERR_INVALHANDLE, w)
      else mm_return (wodMessage_stream e cb message one two w))"

definition mxdMessage ::
    "'s win16_env \<Rightarrow> 's on_callback \<Rightarrow> u16 \<Rightarrow> u16 \<Rightarrow> u32 \<Rightarrow> u32 \<Rightarrow> u32 \<Rightarrow> 's win16_world \<Rightarrow> u32 \<times> 's win16_world" where
  "mxdMessage e cb device_id message dwUser one two w =
     gsw_mixer_message e cb device_id message dwUser one two w"

text \<open>The driver procedure; \<open>None\<close> stands for the default procedure of Windows.\<close>

definition DriverProc :: "'s win16_env \<Rightarrow> u16 \<Rightarrow> 's win16_world \<Rightarrow> u32 option \<times> 's win16_world" where
  "DriverProc e message w =
     (if message = DRV_LOAD
      then (let (connected, w) = on_outside (pm_connect e) w
            in if \<not> connected then (Some 0, w) else (Some 1, gsw_mixer_initialize w))
      else if message = DRV_FREE then (Some 1, gsw_mixer_shutdown w)
      else if message = DRV_OPEN \<or> message = DRV_CLOSE \<or> message = DRV_ENABLE \<or> message = DRV_DISABLE
      then (Some 1, w)
      else (None, w))"

definition WEP :: "'s win16_env \<Rightarrow> 's win16_world \<Rightarrow> 's win16_world" where
  "WEP e w =
     (let w = (if w_open (gsw_wave w)
               then
                 (let w = gsw_stop_timer e w;
                      stream = w_stream_id (gsw_wave w);
                      w = snd (snd (call_pm e ((gsw_request_init GSW_SOUND_PM_RESET)\<lparr>pm_stream_id := stream\<rparr>) w));
                      w = gsw_close_stream e stream w
                  in w\<lparr>gsw_wave := wave_zero\<rparr>)
               else w)
      in gsw_mixer_shutdown w)"

end
