(* ===== verification/Sound_Wave_Invariant.thy ===== *)
theory Sound_Wave_Invariant
  imports Sound_Wave
begin

text \<open>
  The invariant of the wave instance. The queue of client buffers and the ring of submitted plays
  are both circular arrays of 32 slots: each is an interpretation of \<open>bounded_fifo\<close> of
  \<^verbatim>\<open>Ring_Fifo\<close>. Over them: every queued slot holds a real header and a buffer with
  something left to submit inside the address space, every play has a token, an open stream has a
  valid format and a running timer, a closed one is all zero. Every operation on the instance keeps
  the invariant, and has the effect of its operation on the list of queued headers.
\<close>

section \<open>The two rings\<close>

definition wave_items :: "GSW_WAVE_INSTANCE \<Rightarrow> GSW_WAVE_BUFFER list" where
  "wave_items g = ring_items (w_queue g) (unat (w_queue_read g)) (unat (w_queue_count g))"

definition play_items :: "GSW_WAVE_INSTANCE \<Rightarrow> GSW_WAVE_PLAY list" where
  "play_items g = ring_items (w_plays g) (unat (w_play_read g)) (unat (w_play_count g))"

text \<open>An array of 32 entries with a read index, a count, and a write index behind the last entry.\<close>

definition ring_shape :: "'a list \<Rightarrow> u16 \<Rightarrow> u16 \<Rightarrow> u16 \<Rightarrow> bool" where
  "ring_shape xs r k n \<longleftrightarrow> length xs = 32 \<and> unat r < 32 \<and> unat n \<le> 32 \<and> unat k = (unat r + unat n) mod 32"

lemma unat_next [simp]: "unat (gsw_next_queue_index i) = Suc (unat i) mod 32"
  by (simp only: gsw_next_queue_index_def GSW_WAVE_QUEUE_CAPACITY_def unat_mod32)

lemma shape_push:
  assumes "ring_shape xs r k n" "unat n < 32"
  shows "ring_shape (xs[unat k := x]) r (gsw_next_queue_index k) (n + 1)"
    and "ring_items (xs[unat k := x]) (unat r) (unat (n + 1)) = ring_items xs (unat r) (unat n) @ [x]"
  using assms ring_items_push [of "unat n" xs "unat r" x]
  by (simp_all add: ring_shape_def unat_count_push mod_Suc_eq)

lemma ring_items_skip:
  assumes "0 < n" "n \<le> length buf" "r < length buf"
  shows "ring_items (buf[r := x]) (Suc r mod length buf) (n - 1) = tl (ring_items buf r n)"
proof -
  have "ring_items (buf[r := x]) (Suc r mod length buf) (n - 1) = ring_items buf (Suc r mod length buf) (n - 1)"
  proof (rule nth_equalityI)
    fix i assume i: "i < length (ring_items (buf[r := x]) (Suc r mod length buf) (n - 1))"
    have "(Suc r mod length buf + i) mod length buf = (r + Suc i) mod length buf"
      by (metis add_Suc_right add_Suc mod_add_left_eq)
    moreover have "(r + Suc i) mod length buf \<noteq> r"
    proof
      assume "(r + Suc i) mod length buf = r"
      with assms(3) have "(r + Suc i) mod length buf = (r + 0) mod length buf" by simp
      moreover have "Suc i < length buf" using i assms by simp
      moreover have "0 < length buf" using assms(3) by linarith
      ultimately show False using ring_index_inject [of "Suc i" "length buf" 0 r] by blast
    qed
    ultimately show "ring_items (buf[r := x]) (Suc r mod length buf) (n - 1) ! i =
        ring_items buf (Suc r mod length buf) (n - 1) ! i"
      using i by simp
  qed simp
  then show ?thesis using ring_items_pop [OF assms(1)] by simp
qed

lemma shape_pop:
  assumes "ring_shape xs r k n" "n \<noteq> 0"
  shows "ring_shape (xs[unat r := x]) (gsw_next_queue_index r) k (n - 1)"
    and "ring_items (xs[unat r := x]) (unat (gsw_next_queue_index r)) (unat (n - 1)) =
      tl (ring_items xs (unat r) (unat n))"
proof -
  have n: "0 < unat n" using assms(2) by (simp add: unat_gt_0)
  have "(Suc (unat r) mod 32 + (unat n - 1)) mod 32 = (unat r + unat n) mod 32"
    using n by (cases "unat n") (simp_all add: mod_add_left_eq)
  then show "ring_shape (xs[unat r := x]) (gsw_next_queue_index r) k (n - 1)"
    using assms(1) n unfolding ring_shape_def unat_count_pop [OF n] unat_next by (simp, linarith)
  show "ring_items (xs[unat r := x]) (unat (gsw_next_queue_index r)) (unat (n - 1)) =
      tl (ring_items xs (unat r) (unat n))"
    using ring_items_skip [OF n, of xs "unat r" x] assms(1) by (simp add: ring_shape_def unat_count_pop n)
qed

lemma shape_front: "ring_shape xs r k n \<Longrightarrow> n \<noteq> 0 \<Longrightarrow> xs ! unat r = hd (ring_items xs (unat r) (unat n))"
  using ring_items_front [of "unat n" "unat r" xs] by (simp add: ring_shape_def unat_gt_0)

lemma shape_room: "ring_shape xs r k n \<Longrightarrow> n \<noteq> GSW_WAVE_QUEUE_CAPACITY \<longleftrightarrow> unat n < 32"
  by (auto simp: ring_shape_def GSW_WAVE_QUEUE_CAPACITY_def word_unat_eq_iff)

text \<open>Both rings keep the contract of a bounded queue.\<close>

definition queue_shape :: "GSW_WAVE_INSTANCE \<Rightarrow> bool" where
  "queue_shape g \<longleftrightarrow> ring_shape (w_queue g) (w_queue_read g) (w_queue_write g) (w_queue_count g)"

definition play_shape :: "GSW_WAVE_INSTANCE \<Rightarrow> bool" where
  "play_shape g \<longleftrightarrow> ring_shape (w_plays g) (w_play_read g) (w_play_write g) (w_play_count g)"

definition gsw_front_play :: "GSW_WAVE_INSTANCE \<Rightarrow> GSW_WAVE_PLAY" where
  "gsw_front_play g = w_plays g ! unat (w_play_read g)"

definition gsw_front_buffer :: "GSW_WAVE_INSTANCE \<Rightarrow> GSW_WAVE_BUFFER" where
  "gsw_front_buffer g = w_queue g ! unat (w_queue_read g)"

lemma items_nonempty:
  "wave_items g \<noteq> [] \<longleftrightarrow> w_queue_count g \<noteq> 0" "play_items g \<noteq> [] \<longleftrightarrow> w_play_count g \<noteq> 0"
  "length (wave_items g) = unat (w_queue_count g)" "length (play_items g) = unat (w_play_count g)"
  by (simp_all add: wave_items_def play_items_def unat_gt_0 flip: length_0_conv length_greater_0_conv)

interpretation play_ring: bounded_fifo gsw_push_play gsw_pop_play gsw_front_play play_items play_shape 32
proof
  fix q x assume q: "play_shape q"
  note s = q [unfolded play_shape_def]
  show "length (play_items q) \<le> 32" using s by (simp add: items_nonempty ring_shape_def)
  { assume "length (play_items q) < 32"
    then have n: "unat (w_play_count q) < 32" by (simp add: items_nonempty)
    show "play_items (gsw_push_play x q) = play_items q @ [x]"
      using shape_push(2) [OF s n] by (simp add: play_items_def gsw_push_play_def)
    show "play_shape (gsw_push_play x q)"
      using shape_push(1) [OF s n] by (simp add: play_shape_def gsw_push_play_def) }
  { assume "play_items q \<noteq> []"
    then have n: "w_play_count q \<noteq> 0" by (simp add: items_nonempty)
    show "play_items (gsw_pop_play q) = tl (play_items q)"
      using shape_pop(2) [OF s n] by (simp add: play_items_def gsw_pop_play_def)
    show "play_shape (gsw_pop_play q)"
      using shape_pop(1) [OF s n] by (simp add: play_shape_def gsw_pop_play_def)
    show "gsw_front_play q = hd (play_items q)"
      using shape_front [OF s n] by (simp add: play_items_def gsw_front_play_def) }
qed

lemma push_buffer_shape:
  assumes "queue_shape g" "unat (w_queue_count g) < 32"
  shows "wave_items (gsw_push_buffer b g) = wave_items g @ [b]" "queue_shape (gsw_push_buffer b g)"
proof -
  note s = assms(1) [unfolded queue_shape_def]
  have z: "w_queue_read g = w_queue_write g" if "w_queue_count g = 0"
    using s that by (auto simp: ring_shape_def word_unat_eq_iff)
  show "wave_items (gsw_push_buffer b g) = wave_items g @ [b]"
    using shape_push(2) [OF s assms(2), of b] z
    by (auto simp: wave_items_def gsw_push_buffer_def Let_def)
  show "queue_shape (gsw_push_buffer b g)"
    using shape_push(1) [OF s assms(2), of b] z
    by (auto simp: queue_shape_def gsw_push_buffer_def Let_def)
qed

interpretation buffer_ring: bounded_fifo gsw_push_buffer gsw_pop_head gsw_front_buffer wave_items queue_shape 32
proof
  fix q x assume q: "queue_shape q"
  note s = q [unfolded queue_shape_def]
  show "length (wave_items q) \<le> 32" using s by (simp add: items_nonempty ring_shape_def)
  { assume "length (wave_items q) < 32"
    then have n: "unat (w_queue_count q) < 32" by (simp add: items_nonempty)
    show "wave_items (gsw_push_buffer x q) = wave_items q @ [x]" "queue_shape (gsw_push_buffer x q)"
      using push_buffer_shape [OF q n] by simp_all }
  { assume "wave_items q \<noteq> []"
    then have n: "w_queue_count q \<noteq> 0" by (simp add: items_nonempty)
    show "wave_items (gsw_pop_head q) = tl (wave_items q)"
      using shape_pop(2) [OF s n] by (simp add: wave_items_def gsw_pop_head_def)
    show "queue_shape (gsw_pop_head q)"
      using shape_pop(1) [OF s n] by (simp add: queue_shape_def gsw_pop_head_def)
    show "gsw_front_buffer q = hd (wave_items q)"
      using shape_front [OF s n] by (simp add: wave_items_def gsw_front_buffer_def) }
qed

section \<open>The invariant of the wave instance\<close>

text \<open>A slot of the queue holds a header exactly when it is one of the queue's entries.\<close>

definition header_slots :: "GSW_WAVE_INSTANCE \<Rightarrow> bool" where
  "header_slots g \<longleftrightarrow> (\<forall>i<32. b_header (w_queue g ! i) \<noteq> 0 \<longleftrightarrow>
     (\<exists>j<unat (w_queue_count g). i = (unat (w_queue_read g) + j) mod 32))"

definition stream_format_ok :: "GSW_WAVE_INSTANCE \<Rightarrow> bool" where
  "stream_format_ok g \<longleftrightarrow> w_frame_bytes g \<in> {1, 2, 4} \<and> gsw_sound_rate_valid (w_sample_rate g) \<and>
     w_timer_id g \<noteq> 0 \<and> w_timer_period_active g \<and> w_next_token g \<noteq> 0"

definition wave_core :: "GSW_WAVE_INSTANCE \<Rightarrow> bool" where
  "wave_core g \<longleftrightarrow> queue_shape g \<and> play_shape g \<and> header_slots g \<and>
     unat (w_schedule_index g) < 32 \<and> unat (w_loop_start_index g) < 32 \<and>
     (\<forall>p\<in>set (play_items g). p_token p \<noteq> 0) \<and>
     (w_open g \<longrightarrow> stream_format_ok g) \<and> (\<not> w_open g \<longrightarrow> g = wave_zero)"

text \<open>
  A buffer in the queue has something left to submit, and its bytes do not wrap around the end
  of the address space.
\<close>

definition buffer_ok :: "GSW_WAVE_BUFFER \<Rightarrow> bool" where
  "buffer_ok b \<longleftrightarrow> b_header b \<noteq> 0 \<and> b_submitted_bytes b < b_buffer_bytes b \<and>
     unat (b_buffer_linear b) + unat (b_buffer_bytes b) \<le> 2 ^ 32"

definition buffers_ok :: "GSW_WAVE_INSTANCE \<Rightarrow> bool" where
  "buffers_ok g \<longleftrightarrow> (\<forall>b\<in>set (w_queue g). b = buffer_zero \<or> buffer_ok b)"

definition wave_ok :: "GSW_WAVE_INSTANCE \<Rightarrow> bool" where
  "wave_ok g \<longleftrightarrow> wave_core g \<and> buffers_ok g"

definition queue_headers :: "GSW_WAVE_INSTANCE \<Rightarrow> u32 list" where
  "queue_headers g = map b_header (wave_items g)"

lemma wave_core_empty:
  assumes "w_queue g = replicate 32 buffer_zero" "w_queue_read g = w_queue_write g" "unat (w_queue_read g) < 32"
    "w_queue_count g = 0" "length (w_plays g) = 32" "unat (w_play_read g) < 32" "w_play_write g = w_play_read g"
    "w_play_count g = 0" "unat (w_schedule_index g) < 32" "unat (w_loop_start_index g) < 32"
    "w_open g \<Longrightarrow> stream_format_ok g" "\<not> w_open g \<Longrightarrow> g = wave_zero"
  shows "wave_core g"
  using assms unfolding wave_core_def queue_shape_def play_shape_def ring_shape_def header_slots_def play_items_def
  by (simp add: ring_items_def buffer_zero_def)

lemma wave_zero_ok [simp]: "wave_ok wave_zero" "wave_core wave_zero"
proof -
  show c: "wave_core wave_zero" by (rule wave_core_empty) (simp_all add: wave_zero_def)
  show "wave_ok wave_zero" using c by (simp add: wave_ok_def buffers_ok_def) (simp add: wave_zero_def)
qed

lemma queue_headers_zero [simp]: "queue_headers wave_zero = []"
  by (simp add: queue_headers_def wave_items_def wave_zero_def ring_items_def)

lemma core_closed: "wave_core g \<Longrightarrow> \<not> w_open g \<Longrightarrow> g = wave_zero"
  by (simp add: wave_core_def)

lemma zero_counts [simp]: "w_queue_count wave_zero = 0" "w_play_count wave_zero = 0" "\<not> w_open wave_zero"
    "w_loop_release_pending wave_zero = 0"
  by (simp_all add: wave_zero_def)

lemma core_open:
  assumes "wave_core g" "w_queue_count g \<noteq> 0 \<or> w_play_count g \<noteq> 0 \<or> w_loop_release_pending g \<noteq> 0"
  shows "w_open g"
proof (rule ccontr)
  assume "\<not> w_open g"
  then have "g = wave_zero" by (rule core_closed [OF assms(1)])
  with assms(2) show False by simp
qed

text \<open>Fields that the invariant does not mention, on an open instance.\<close>

lemma core_fields [simp]:
  assumes "w_open g"
  shows "wave_core (g\<lparr>w_paused := b\<rparr>) = wave_core g" "wave_core (g\<lparr>w_pumping := b\<rparr>) = wave_core g"
    "wave_core (g\<lparr>w_loop_break_requested := b\<rparr>) = wave_core g"
    "wave_core (g\<lparr>w_break_next_loop := b\<rparr>) = wave_core g"
    "wave_core (g\<lparr>w_queue_loop_open := b\<rparr>) = wave_core g"
    "wave_core (g\<lparr>w_loop_release_pending := n\<rparr>) = wave_core g"
  using assms by (simp_all add: wave_core_def queue_shape_def play_shape_def header_slots_def play_items_def
      stream_format_ok_def)

lemma buffers_fields [simp]:
  "buffers_ok (g\<lparr>w_paused := b\<rparr>) = buffers_ok g" "buffers_ok (g\<lparr>w_pumping := b\<rparr>) = buffers_ok g"
  "buffers_ok (g\<lparr>w_loop_break_requested := b\<rparr>) = buffers_ok g"
  "buffers_ok (g\<lparr>w_break_next_loop := b\<rparr>) = buffers_ok g"
  "buffers_ok (g\<lparr>w_queue_loop_open := b\<rparr>) = buffers_ok g"
  "buffers_ok (g\<lparr>w_loop_release_pending := n\<rparr>) = buffers_ok g"
  by (simp_all add: buffers_ok_def)

lemma headers_fields [simp]:
  "queue_headers (g\<lparr>w_paused := b\<rparr>) = queue_headers g" "queue_headers (g\<lparr>w_pumping := b\<rparr>) = queue_headers g"
  "queue_headers (g\<lparr>w_loop_break_requested := b\<rparr>) = queue_headers g"
  "queue_headers (g\<lparr>w_break_next_loop := b\<rparr>) = queue_headers g"
  "queue_headers (g\<lparr>w_queue_loop_open := b\<rparr>) = queue_headers g"
  "queue_headers (g\<lparr>w_loop_release_pending := n\<rparr>) = queue_headers g"
  by (simp_all add: queue_headers_def wave_items_def)

lemma headers_nonzero: "wave_core g \<Longrightarrow> h \<in> set (queue_headers g) \<Longrightarrow> h \<noteq> 0"
proof -
  assume g: "wave_core g" and "h \<in> set (queue_headers g)"
  then obtain j where j: "j < unat (w_queue_count g)" "h = b_header (wave_items g ! j)"
    by (auto simp: queue_headers_def in_set_conv_nth items_nonempty)
  have "length (w_queue g) = 32" using g by (simp add: wave_core_def queue_shape_def ring_shape_def)
  with g j show "h \<noteq> 0" by (auto simp: wave_items_def wave_core_def header_slots_def)
qed

section \<open>Taking buffers out\<close>

lemma pop_head_slots:
  assumes "queue_shape g" "header_slots g" "w_queue_count g \<noteq> 0"
  shows "header_slots (gsw_pop_head g)"
  unfolding header_slots_def
proof (intro allI impI)
  fix i :: nat assume i: "i < 32"
  let ?r = "unat (w_queue_read g)" and ?n = "unat (w_queue_count g)"
  have n: "0 < ?n" "?n \<le> 32" and r: "?r < 32" and l: "length (w_queue g) = 32"
    using assms by (simp_all add: unat_gt_0 queue_shape_def ring_shape_def)
  have step: "(Suc ?r mod 32 + j) mod 32 = (?r + Suc j) mod 32" for j
    by (metis add_Suc_right add_Suc mod_add_left_eq)
  have "b_header (w_queue (gsw_pop_head g) ! i) \<noteq> 0 \<longleftrightarrow> i \<noteq> ?r \<and> b_header (w_queue g ! i) \<noteq> 0"
    using i l r by (simp add: gsw_pop_head_def nth_list_update buffer_zero_def)
  also have "\<dots> \<longleftrightarrow> i \<noteq> ?r \<and> (\<exists>j<?n. i = (?r + j) mod 32)"
    using assms(2) i by (simp add: header_slots_def)
  also have "\<dots> \<longleftrightarrow> (\<exists>j<?n - 1. i = (?r + Suc j) mod 32)"
  proof
    assume "i \<noteq> ?r \<and> (\<exists>j<?n. i = (?r + j) mod 32)"
    then obtain j where j: "j < ?n" "i = (?r + j) mod 32" "i \<noteq> ?r" by auto
    with r have "j \<noteq> 0" by (auto intro: ccontr)
    with j show "\<exists>j<?n - 1. i = (?r + Suc j) mod 32"
      by (intro exI [of _ "j - 1"]) (simp add: Suc_le_eq)
  next
    assume "\<exists>j<?n - 1. i = (?r + Suc j) mod 32"
    then obtain j where j: "j < ?n - 1" "i = (?r + Suc j) mod 32" by auto
    have "i \<noteq> ?r"
    proof
      assume "i = ?r"
      with j r have "(?r + Suc j) mod 32 = (?r + 0) mod 32" by simp
      then have "Suc j = 0" using j n by (intro ring_index_inject [of "Suc j" 32 0 ?r]) simp_all
      then show False by simp
    qed
    with j show "i \<noteq> ?r \<and> (\<exists>j<?n. i = (?r + j) mod 32)" by (auto intro!: exI [of _ "Suc j"])
  qed
  also have "\<dots> \<longleftrightarrow> (\<exists>j<unat (w_queue_count (gsw_pop_head g)). i = (unat (w_queue_read (gsw_pop_head g)) + j) mod 32)"
    using n by (simp add: gsw_pop_head_def unat_count_pop step)
  finally show "b_header (w_queue (gsw_pop_head g) ! i) \<noteq> 0 \<longleftrightarrow>
      (\<exists>j<unat (w_queue_count (gsw_pop_head g)). i = (unat (w_queue_read (gsw_pop_head g)) + j) mod 32)" .
qed

lemma pop_head_fields [simp]:
  "w_open (gsw_pop_head g) = w_open g" "w_loop_start_index (gsw_pop_head g) = w_loop_start_index g"
  "w_schedule_index (gsw_pop_head g) = w_schedule_index g" "w_queue_write (gsw_pop_head g) = w_queue_write g"
  "play_items (gsw_pop_head g) = play_items g" "play_shape (gsw_pop_head g) = play_shape g"
  "stream_format_ok (gsw_pop_head g) = stream_format_ok g"
  by (simp_all add: gsw_pop_head_def play_items_def play_shape_def stream_format_ok_def)

lemma pop_head_core:
  assumes "wave_core g" "w_queue_count g \<noteq> 0"
  shows "wave_core (gsw_pop_head g)" "queue_headers (gsw_pop_head g) = tl (queue_headers g)"
    "w_queue_count (gsw_pop_head g) = w_queue_count g - 1"
proof -
  have o: "w_open g" using core_open [OF assms(1)] assms(2) by simp
  have q: "queue_shape g" "wave_items g \<noteq> []" using assms by (simp_all add: wave_core_def items_nonempty)
  show "wave_core (gsw_pop_head g)"
    using assms o buffer_ring.ok_pop [OF q] pop_head_slots [OF q(1) _ assms(2)] by (simp add: wave_core_def)
  show "queue_headers (gsw_pop_head g) = tl (queue_headers g)"
    using buffer_ring.items_pop [OF q] by (simp add: queue_headers_def map_tl)
  show "w_queue_count (gsw_pop_head g) = w_queue_count g - 1" by (simp add: gsw_pop_head_def)
qed

lemma pop_head_buffers: "buffers_ok g \<Longrightarrow> buffers_ok (gsw_pop_head g)"
  using set_update_subset_insert [of "w_queue g" "unat (w_queue_read g)" buffer_zero]
  by (auto simp: buffers_ok_def gsw_pop_head_def)

lemma pop_heads:
  assumes "wave_ok g" "n \<le> length (queue_headers g)"
  shows "wave_ok ((gsw_pop_head ^^ n) g)" "queue_headers ((gsw_pop_head ^^ n) g) = drop n (queue_headers g)"
proof -
  have "wave_ok ((gsw_pop_head ^^ n) g) \<and> queue_headers ((gsw_pop_head ^^ n) g) = drop n (queue_headers g)"
    using assms(2)
  proof (induction n)
    case 0
    then show ?case using assms(1) by simp
  next
    case (Suc n)
    then have IH: "wave_ok ((gsw_pop_head ^^ n) g)" "queue_headers ((gsw_pop_head ^^ n) g) = drop n (queue_headers g)"
      by simp_all
    have "queue_headers ((gsw_pop_head ^^ n) g) \<noteq> []" using IH(2) Suc.prems by simp
    then have "w_queue_count ((gsw_pop_head ^^ n) g) \<noteq> 0"
      by (simp add: queue_headers_def items_nonempty)
    with IH pop_head_core [of "(gsw_pop_head ^^ n) g"] pop_head_buffers [of "(gsw_pop_head ^^ n) g"]
    show ?case by (simp add: wave_ok_def tl_drop drop_Suc)
  qed
  then show "wave_ok ((gsw_pop_head ^^ n) g)" "queue_headers ((gsw_pop_head ^^ n) g) = drop n (queue_headers g)"
    by simp_all
qed

lemma rest_schedule_ok [simp]:
  "wave_ok g \<Longrightarrow> wave_ok (gsw_rest_schedule g)" "queue_headers (gsw_rest_schedule g) = queue_headers g"
  "w_open (gsw_rest_schedule g) = w_open g"
proof -
  assume g: "wave_ok g"
  have "unat (w_queue_write g) < 32" using g by (simp add: wave_ok_def wave_core_def queue_shape_def ring_shape_def)
  with g show "wave_ok (gsw_rest_schedule g)"
    by (auto simp: gsw_rest_schedule_def wave_ok_def wave_core_def queue_shape_def play_shape_def header_slots_def
        play_items_def stream_format_ok_def buffers_ok_def wave_zero_def)
qed (simp_all add: gsw_rest_schedule_def queue_headers_def wave_items_def)

lemma clear_queue_ok:
  assumes "wave_core g"
  shows "wave_ok (gsw_clear_queue g)" "queue_headers (gsw_clear_queue g) = []"
proof -
  have "wave_core (gsw_clear_queue g)"
    using assms by (intro wave_core_empty)
      (auto simp: gsw_clear_queue_def wave_core_def stream_format_ok_def, simp add: wave_zero_def)
  then show "wave_ok (gsw_clear_queue g)" by (simp add: wave_ok_def buffers_ok_def) (simp add: gsw_clear_queue_def)
  show "queue_headers (gsw_clear_queue g) = []"
    by (simp add: queue_headers_def wave_items_def gsw_clear_queue_def ring_items_def)
qed

section \<open>Plays\<close>

lemma play_fields [simp]:
  "w_open (gsw_pop_play g) = w_open g" "w_open (gsw_push_play p g) = w_open g"
  "queue_shape (gsw_pop_play g) = queue_shape g" "queue_shape (gsw_push_play p g) = queue_shape g"
  "header_slots (gsw_pop_play g) = header_slots g" "header_slots (gsw_push_play p g) = header_slots g"
  "stream_format_ok (gsw_pop_play g) = stream_format_ok g" "stream_format_ok (gsw_push_play p g) = stream_format_ok g"
  "w_schedule_index (gsw_pop_play g) = w_schedule_index g" "w_schedule_index (gsw_push_play p g) = w_schedule_index g"
  "w_loop_start_index (gsw_pop_play g) = w_loop_start_index g"
  "w_loop_start_index (gsw_push_play p g) = w_loop_start_index g"
  "w_queue (gsw_pop_play g) = w_queue g" "w_queue (gsw_push_play p g) = w_queue g"
  "queue_headers (gsw_pop_play g) = queue_headers g" "queue_headers (gsw_push_play p g) = queue_headers g"
  by (simp_all add: gsw_pop_play_def gsw_push_play_def queue_shape_def header_slots_def stream_format_ok_def
      queue_headers_def wave_items_def)

lemma pop_play_ok:
  assumes "wave_ok g" "w_play_count g \<noteq> 0"
  shows "wave_ok (gsw_pop_play g)"
proof -
  have o: "w_open g" using core_open [of g] assms by (simp add: wave_ok_def)
  have p: "play_shape g" "play_items g \<noteq> []" using assms by (simp_all add: wave_ok_def wave_core_def items_nonempty)
  show ?thesis
    using assms o play_ring.ok_pop [OF p] play_ring.items_pop [OF p] list.set_sel(2) [OF p(2)]
    by (auto simp: wave_ok_def wave_core_def buffers_ok_def)
qed

lemma push_play_core:
  assumes "wave_core g" "w_open g" "w_play_count g \<noteq> GSW_WAVE_QUEUE_CAPACITY" "p_token p \<noteq> 0"
  shows "wave_core (gsw_push_play p g)"
proof -
  have s: "play_shape g" using assms(1) by (simp add: wave_core_def)
  have l: "length (play_items g) < 32"
    using shape_room [OF s [unfolded play_shape_def]] assms(3) by (simp add: items_nonempty)
  show ?thesis
    using assms play_ring.ok_push [OF s l] play_ring.items_push [OF s l] by (simp add: wave_core_def)
qed

section \<open>Changing a buffer in place\<close>

lemma update_fields [simp]:
  "w_open (gsw_update_buffer i f g) = w_open g" "w_queue_count (gsw_update_buffer i f g) = w_queue_count g"
  "w_play_count (gsw_update_buffer i f g) = w_play_count g"
  "w_schedule_index (gsw_update_buffer i f g) = w_schedule_index g"
  "stream_format_ok (gsw_update_buffer i f g) = stream_format_ok g"
  "play_items (gsw_update_buffer i f g) = play_items g" "play_shape (gsw_update_buffer i f g) = play_shape g"
  "w_loop_start_index (gsw_update_buffer i f g) = w_loop_start_index g"
  "w_loop_active (gsw_update_buffer i f g) = w_loop_active g"
  "w_frame_bytes (gsw_update_buffer i f g) = w_frame_bytes g"
  "w_stream_id (gsw_update_buffer i f g) = w_stream_id g"
  by (simp_all add: gsw_update_buffer_def stream_format_ok_def play_items_def play_shape_def)

lemma update_nth:
  assumes "wave_core g" "unat i < 32"
  shows "w_queue (gsw_update_buffer i f g) ! unat i = f (w_queue g ! unat i)"
  using assms by (simp add: gsw_update_buffer_def wave_core_def queue_shape_def ring_shape_def)

lemma update_headers:
  assumes "\<And>b. b_header (f b) = b_header b"
  shows "map b_header (w_queue (gsw_update_buffer i f g)) = map b_header (w_queue g)"
  using assms by (simp add: gsw_update_buffer_def map_update) (metis list_update_id map_update)

lemma headers_by_slots:
  assumes "map b_header (w_queue g') = map b_header (w_queue g)" "w_queue_read g' = w_queue_read g"
    "w_queue_count g' = w_queue_count g" "length (w_queue g) = 32" "unat (w_queue_read g) < 32"
  shows "queue_headers g' = queue_headers g" "header_slots g' = header_slots g"
proof -
  have l: "length (w_queue g') = 32" using assms(1,4) by (metis length_map)
  have n: "b_header (w_queue g' ! i) = b_header (w_queue g ! i)" if "i < 32" for i
    using arg_cong [OF assms(1), of "\<lambda>xs. xs ! i"] that l assms(4) by simp
  show "queue_headers g' = queue_headers g"
    using assms l n by (intro nth_equalityI) (simp_all add: queue_headers_def wave_items_def)
  show "header_slots g' = header_slots g" using assms n by (simp add: header_slots_def)
qed

lemma update_core:
  assumes "wave_core g" "w_open g" "\<And>b. b_header (f b) = b_header b"
  shows "wave_core (gsw_update_buffer i f g)" "queue_headers (gsw_update_buffer i f g) = queue_headers g"
proof -
  have l: "length (w_queue g) = 32" "unat (w_queue_read g) < 32"
    using assms(1) by (simp_all add: wave_core_def queue_shape_def ring_shape_def)
  note by_slots = headers_by_slots [OF update_headers [OF assms(3), of i g] _ _ l]
  have h: "queue_headers (gsw_update_buffer i f g) = queue_headers g"
    by (rule by_slots(1)) (simp_all add: gsw_update_buffer_def)
  have h2: "header_slots (gsw_update_buffer i f g) = header_slots g"
    by (rule by_slots(2)) (simp_all add: gsw_update_buffer_def)
  show "queue_headers (gsw_update_buffer i f g) = queue_headers g" by (rule h)
  have "queue_shape (gsw_update_buffer i f g)"
    using assms(1) by (simp add: wave_core_def queue_shape_def ring_shape_def gsw_update_buffer_def)
  with assms h2 show "wave_core (gsw_update_buffer i f g)" by (simp add: wave_core_def)
qed

lemma update_buffers:
  assumes "buffers_ok g" "buffer_ok (f (w_queue g ! unat i))"
  shows "buffers_ok (gsw_update_buffer i f g)"
  using assms set_update_subset_insert [of "w_queue g" "unat i" "f (w_queue g ! unat i)"]
  by (auto simp: buffers_ok_def gsw_update_buffer_def)

lemma buffer_at:
  assumes "wave_ok g" "unat i < 32" "b_header (w_queue g ! unat i) \<noteq> 0"
  shows "buffer_ok (w_queue g ! unat i)"
proof -
  have "length (w_queue g) = 32" using assms(1) by (simp add: wave_ok_def wave_core_def queue_shape_def ring_shape_def)
  then have "w_queue g ! unat i \<in> set (w_queue g)" using assms(2) by simp
  moreover have "w_queue g ! unat i \<noteq> buffer_zero" using assms(3) by (auto simp: buffer_zero_def)
  ultimately show ?thesis using assms(1) by (auto simp: wave_ok_def buffers_ok_def)
qed

section \<open>Tokens\<close>

lemma allocate_token:
  "fst (gsw_allocate_token g) \<noteq> 0" "w_next_token (snd (gsw_allocate_token g)) \<noteq> 0"
  "\<exists>n. snd (gsw_allocate_token g) = g\<lparr>w_next_token := n\<rparr>"
  by (auto simp: gsw_allocate_token_def Let_def split_beta)

lemma core_token: "w_open g \<Longrightarrow> n \<noteq> 0 \<Longrightarrow> wave_core g \<Longrightarrow> wave_core (g\<lparr>w_next_token := n\<rparr>)"
  by (simp add: wave_core_def queue_shape_def play_shape_def header_slots_def play_items_def stream_format_ok_def)

lemma need_token:
  assumes "wave_ok g" "w_open g" "unat i < 32" "b_header (w_queue g ! unat i) \<noteq> 0"
  shows "wave_ok (gsw_need_token i g)" "queue_headers (gsw_need_token i g) = queue_headers g"
    "w_open (gsw_need_token i g)" "b_token (w_queue (gsw_need_token i g) ! unat i) \<noteq> 0"
    "b_header (w_queue (gsw_need_token i g) ! unat i) \<noteq> 0"
    "w_play_count (gsw_need_token i g) = w_play_count g"
    "w_frame_bytes (gsw_need_token i g) = w_frame_bytes g" "w_stream_id (gsw_need_token i g) = w_stream_id g"
    "w_schedule_index (gsw_need_token i g) = w_schedule_index g"
proof -
  obtain t n where a: "gsw_allocate_token g = (t, g\<lparr>w_next_token := n\<rparr>)" "t \<noteq> 0" "n \<noteq> 0"
    using allocate_token [of g] by (cases "gsw_allocate_token g") auto
  let ?g = "g\<lparr>w_next_token := n\<rparr>" and ?f = "\<lambda>b :: GSW_WAVE_BUFFER. b\<lparr>b_token := t\<rparr>"
  have c: "wave_core ?g" "w_open ?g" using assms core_token [of g n] a(3) by (simp_all add: wave_ok_def)
  have b: "buffers_ok ?g" "buffer_ok (?f (w_queue g ! unat i))"
    using assms buffer_at [OF assms(1,3,4)] by (simp_all add: wave_ok_def buffers_ok_def buffer_ok_def)
  have u: "wave_ok (gsw_update_buffer i ?f ?g)" "queue_headers (gsw_update_buffer i ?f ?g) = queue_headers g"
    using update_core [OF c, of ?f i] update_buffers [OF b(1), of ?f i] b(2)
    by (simp_all add: wave_ok_def) (simp add: queue_headers_def wave_items_def)
  have x: "w_queue (gsw_update_buffer i ?f ?g) ! unat i = ?f (w_queue g ! unat i)"
    using update_nth [OF c(1) assms(3), of ?f] by simp
  have "gsw_need_token i g = gsw_update_buffer i ?f ?g \<or> b_token (w_queue g ! unat i) \<noteq> 0 \<and> gsw_need_token i g = g"
    by (simp add: gsw_need_token_def a)
  then show "wave_ok (gsw_need_token i g)" "queue_headers (gsw_need_token i g) = queue_headers g"
    "w_open (gsw_need_token i g)" "b_token (w_queue (gsw_need_token i g) ! unat i) \<noteq> 0"
    "b_header (w_queue (gsw_need_token i g) ! unat i) \<noteq> 0"
    "w_play_count (gsw_need_token i g) = w_play_count g"
    "w_frame_bytes (gsw_need_token i g) = w_frame_bytes g" "w_stream_id (gsw_need_token i g) = w_stream_id g"
    "w_schedule_index (gsw_need_token i g) = w_schedule_index g"
    using u x assms a(2) by (elim disjE; simp)+
qed

section \<open>Finishing an occurrence\<close>

text \<open>
  The instance while a buffer has been submitted to its end: everything holds but the bound on
  its own count of submitted bytes, which recording the play resets.
\<close>

definition almost_ok :: "u16 \<Rightarrow> GSW_WAVE_INSTANCE \<Rightarrow> bool" where
  "almost_ok i g \<longleftrightarrow> wave_core g \<and> w_open g \<and> unat i < 32 \<and> b_header (w_queue g ! unat i) \<noteq> 0 \<and>
     buffers_ok (gsw_update_buffer i (\<lambda>b. b\<lparr>b_submitted_bytes := 0, b_token := 0\<rparr>) g)"

lemmas almost_unfold = almost_ok_def wave_core_def wave_ok_def queue_shape_def play_shape_def header_slots_def
  play_items_def stream_format_ok_def buffers_ok_def gsw_update_buffer_def

lemma almost_fields:
  "almost_ok i g \<Longrightarrow> almost_ok i (g\<lparr>w_loop_active := True, w_loop_start_index := i, w_loop_remaining := r,
     w_loop_break_requested := b, w_break_next_loop := c\<rparr>)"
  "almost_ok i g \<Longrightarrow> almost_ok i (g\<lparr>w_schedule_index := gsw_next_queue_index i\<rparr>)"
  "almost_ok i g \<Longrightarrow> almost_ok i (g\<lparr>w_loop_remaining := r, w_schedule_index := w_loop_start_index g\<rparr>)"
  "almost_ok i g \<Longrightarrow> almost_ok i (g\<lparr>w_loop_active := False, w_loop_break_requested := False,
     w_loop_remaining := r, w_loop_release_pending := p, w_schedule_index := gsw_next_queue_index i\<rparr>)"
  by (simp_all add: almost_unfold)

lemma headers_loop_fields [simp]:
  "queue_headers (g\<lparr>w_schedule_index := s\<rparr>) = queue_headers g"
  "queue_headers (g\<lparr>w_loop_active := a\<rparr>) = queue_headers g"
  "queue_headers (g\<lparr>w_loop_start_index := s\<rparr>) = queue_headers g"
  "queue_headers (g\<lparr>w_loop_remaining := r\<rparr>) = queue_headers g"
  by (simp_all add: queue_headers_def wave_items_def)

lemma record_play_ok:
  assumes "almost_ok i g" "gsw_record_play i c r s l g = (ok, g')"
  shows "wave_core g' \<and> queue_headers g' = queue_headers g \<and> (ok \<longrightarrow> wave_ok g')"
proof (cases "b_token (w_queue g ! unat i) = 0 \<or> w_play_count g = GSW_WAVE_QUEUE_CAPACITY")
  case True
  then show ?thesis using assms by (simp add: gsw_record_play_def almost_ok_def)
next
  case False
  define p where "p = \<lparr>p_token = b_token (w_queue g ! unat i), p_buffer_index = i, p_loop_start_index = s,
    p_loop_end_index = l, p_complete_buffer = c, p_release_loop = r\<rparr>"
  let ?f = "\<lambda>b :: GSW_WAVE_BUFFER. b\<lparr>b_submitted_bytes := 0, b_token := 0\<rparr>"
  have g': "g' = gsw_update_buffer i ?f (gsw_push_play p g)"
    using False assms(2) by (simp add: gsw_record_play_def p_def)
  have c: "wave_core (gsw_push_play p g)" "w_open (gsw_push_play p g)"
    using assms(1) False push_play_core [of g p] by (simp_all add: almost_ok_def p_def)
  have "buffers_ok (gsw_update_buffer i ?f g)" using assms(1) by (simp add: almost_ok_def wave_ok_def)
  then have "buffers_ok g'" by (simp add: g' buffers_ok_def gsw_update_buffer_def)
  then show ?thesis using update_core [OF c, of ?f i] by (simp add: g' wave_ok_def)
qed

lemma enter_loop_ok:
  assumes "almost_ok i g" "gsw_enter_loop i g = (ok, g')"
  shows "almost_ok i g' \<and> queue_headers g' = queue_headers g"
  using assms almost_fields(1) [OF assms(1)]
  by (auto simp: gsw_enter_loop_def Let_def split: if_splits)

lemma schedule_play_ok:
  assumes "almost_ok i g" "gsw_schedule_play i g = (ok, g')"
  shows "wave_core g' \<and> queue_headers g' = queue_headers g \<and> (ok \<longrightarrow> wave_ok g')"
proof -
  have "wave_core g" using assms(1) by (simp add: almost_ok_def)
  then show ?thesis
    using assms almost_fields(2-4) [OF assms(1), THEN record_play_ok]
    by (fastforce simp: gsw_schedule_play_def Let_def split: if_splits)
qed

lemma finish_occurrence_ok:
  assumes "almost_ok i g" "gsw_finish_occurrence i g = (ok, g')"
  shows "wave_core g' \<and> queue_headers g' = queue_headers g \<and> (ok \<longrightarrow> wave_ok g')"
proof (cases "fst (gsw_enter_loop i g)")
  case True
  then obtain h where h: "gsw_enter_loop i g = (True, h)" by (metis prod.collapse)
  then have "gsw_schedule_play i h = (ok, g')"
    using assms by (simp add: gsw_finish_occurrence_def almost_ok_def step_and_def)
  with schedule_play_ok enter_loop_ok [OF assms(1) h] show ?thesis by metis
next
  case False
  then have "g' = snd (gsw_enter_loop i g)" "\<not> ok"
    using assms by (auto simp: gsw_finish_occurrence_def almost_ok_def step_and_def)
  with enter_loop_ok [OF assms(1), of "fst (gsw_enter_loop i g)" g'] show ?thesis
    by (simp add: almost_ok_def)
qed

section \<open>Adding a buffer\<close>

lemma push_buffer_slots:
  assumes "queue_shape g" "header_slots g" "unat (w_queue_count g) < 32" "b_header b \<noteq> 0"
  shows "header_slots (gsw_push_buffer b g)"
  unfolding header_slots_def
proof (intro allI impI)
  fix i :: nat assume i: "i < 32"
  note s = assms(1) [unfolded queue_shape_def ring_shape_def]
  have z: "w_queue_read g = w_queue_write g" if "w_queue_count g = 0"
    using s that by (auto simp: word_unat_eq_iff)
  have r: "w_queue_read (gsw_push_buffer b g) = w_queue_read g" using z by (simp add: gsw_push_buffer_def Let_def)
  have n: "unat (w_queue_count (gsw_push_buffer b g)) = Suc (unat (w_queue_count g))"
    using assms(3) by (simp add: gsw_push_buffer_def Let_def unat_count_push)
  have "b_header (w_queue (gsw_push_buffer b g) ! i) \<noteq> 0 \<longleftrightarrow>
      i = unat (w_queue_write g) \<or> b_header (w_queue g ! i) \<noteq> 0"
    using i s assms(4) by (simp add: gsw_push_buffer_def Let_def nth_list_update)
  then show "b_header (w_queue (gsw_push_buffer b g) ! i) \<noteq> 0 \<longleftrightarrow>
      (\<exists>j<unat (w_queue_count (gsw_push_buffer b g)). i = (unat (w_queue_read (gsw_push_buffer b g)) + j) mod 32)"
    using assms(2) i s unfolding r n by (auto simp: header_slots_def less_Suc_eq)
qed

lemma push_buffer_ok:
  assumes "wave_ok g" "w_open g" "w_queue_count g \<noteq> GSW_WAVE_QUEUE_CAPACITY" "buffer_ok b"
  shows "wave_ok (gsw_push_buffer b g)" "queue_headers (gsw_push_buffer b g) = queue_headers g @ [b_header b]"
    "w_open (gsw_push_buffer b g)"
proof -
  have s: "queue_shape g" using assms(1) by (simp add: wave_ok_def wave_core_def)
  have l: "unat (w_queue_count g) < 32"
    using shape_room [OF s [unfolded queue_shape_def]] assms(3) by simp
  have f: "play_items (gsw_push_buffer b g) = play_items g" "play_shape (gsw_push_buffer b g) = play_shape g"
    "stream_format_ok (gsw_push_buffer b g) = stream_format_ok g" "w_open (gsw_push_buffer b g) = w_open g"
    "w_loop_start_index (gsw_push_buffer b g) = w_loop_start_index g"
    by (simp_all add: gsw_push_buffer_def Let_def play_items_def play_shape_def stream_format_ok_def)
  have "unat (w_schedule_index (gsw_push_buffer b g)) < 32"
    using assms(1) by (simp add: gsw_push_buffer_def Let_def wave_ok_def wave_core_def queue_shape_def ring_shape_def)
  moreover have "buffers_ok (gsw_push_buffer b g)"
    using assms(1,4) set_update_subset_insert [of "w_queue g" "unat (w_queue_write g)" b]
    by (auto simp: gsw_push_buffer_def Let_def wave_ok_def buffers_ok_def)
  ultimately show "wave_ok (gsw_push_buffer b g)"
    using assms push_buffer_shape(2) [OF s l] push_buffer_slots [OF s _ l, of b]
    by (simp add: wave_ok_def wave_core_def f buffer_ok_def)
  show "queue_headers (gsw_push_buffer b g) = queue_headers g @ [b_header b]"
    using push_buffer_shape(1) [OF s l] by (simp add: queue_headers_def)
  show "w_open (gsw_push_buffer b g)" using assms(2) f by simp
qed

section \<open>Positions\<close>

lemma position_clamp_unat: "unat (gsw_position_clamp x) = min 4294967295 (unat x)"
proof (cases "x > 0xFFFFFFFF")
  case True
  then show ?thesis by (simp add: gsw_position_clamp_def word_less_nat_alt)
next
  case False
  then have "unat x < 4294967296" by (simp add: word_less_nat_alt)
  with False show ?thesis by (simp add: gsw_position_clamp_def unsigned_ucast_eq take_bit_nat_eq_self)
qed

lemma unat_times_1000: "unat (x :: u64) < 4294967296 \<Longrightarrow> unat (x * 1000) = unat x * 1000"
  by (simp add: unat_word_ariths(2))

lemma thousandths:
  assumes "0 < (r :: nat)"
  shows "f * 1000 div r = f div r * 1000 + f mod r * 1000 div r"
proof -
  have "f * 1000 = (f div r * r + f mod r) * 1000" by simp
  also have "\<dots> = f mod r * 1000 + f div r * 1000 * r" by (simp only: distrib_right ac_simps)
  finally have "f * 1000 div r = (f mod r * 1000 + f div r * 1000 * r) div r" by (simp only:)
  also have "\<dots> = f div r * 1000 + f mod r * 1000 div r" using assms by (subst div_mult_self1) simp_all
  finally show ?thesis .
qed

lemma position_ms_unat:
  assumes "unat r < 4294967296" "r \<noteq> 0"
  shows "unat (gsw_position_ms f r) = min 4294967295 (unat f * 1000 div unat r)"
proof -
  obtain s m q where s: "s = unat f div unat r" and m: "m = unat f mod unat r" and q: "q = m * 1000 div unat r" by blast
  have r: "0 < unat r" using assms(2) by (simp add: unat_gt_0)
  have sum: "unat f * 1000 div unat r = s * 1000 + q" unfolding s m q by (rule thousandths [OF r])
  have ml: "m < unat r" unfolding m by (rule mod_less_divisor [OF r])
  then have ql: "q < 1000" unfolding q by (subst div_less_iff_less_mult [OF r]) linarith
  have words: "unat (f div r) = s" "unat (f mod r) = m" unfolding s m by (rule unat_div, rule unat_mod)
  have "unat (f mod r * 1000) = m * 1000"
    using unat_times_1000 [of "f mod r"] words(2) ml assms(1) by linarith
  then have w: "unat (f mod r * 1000 div r) = q" unfolding q by (simp only: unat_div)
  have test: "f div r > 0xFFFFFFFF div 1000 \<longleftrightarrow> s > 4294967"
    unfolding word_less_nat_alt words(1) by simp
  show ?thesis
  proof (cases "s > 4294967")
    case True
    then have "gsw_position_ms f r = 0xFFFFFFFF" unfolding gsw_position_ms_def Let_def test by simp
    with True show ?thesis unfolding sum by simp
  next
    case False
    then have "unat (f div r * 1000) = s * 1000" using unat_times_1000 [of "f div r"] words(1) by linarith
    then have "unat (f div r * 1000 + f mod r * 1000 div r) = s * 1000 + q"
      using False ql w by (subst unat_add_lem [THEN iffD1]) simp_all
    then show ?thesis
      using False unfolding sum gsw_position_ms_def Let_def test by (simp only: if_False position_clamp_unat)
  qed
qed

text \<open>
  The position of an open stream is reported exactly, without overflow on the way, and
  saturates where it does not fit: samples are whole frames, milliseconds are the frames scaled by
  1000 over the sample rate rounded down, and every other format is answered in bytes.
\<close>

theorem wave_position_exact:
  assumes "wave_ok g" "w_open g"
  shows "let t' = gsw_time_of_position g position t;
             frames = unat position div unat (w_frame_bytes g) in
    wType t' = (if wType t = TIME_SAMPLES \<or> wType t = TIME_MS then wType t else TIME_BYTES) \<and>
    unat (time_value t') = min (2 ^ 32 - 1)
      (if wType t = TIME_SAMPLES then frames
       else if wType t = TIME_MS then frames * 1000 div unat (w_sample_rate g)
       else unat position)"
proof -
  have r: "w_sample_rate g \<noteq> 0" "w_frame_bytes g \<noteq> 0" using assms
    by (auto simp: wave_ok_def wave_core_def stream_format_ok_def gsw_sound_rate_valid_def)
  have l: "unat (w_sample_rate g) < 4294967296" "unat (w_frame_bytes g) < 65536"
    using unsigned_less [of "w_sample_rate g", where ?'a = nat] unsigned_less [of "w_frame_bytes g", where ?'a = nat] by simp_all
  then have u: "unat (ucast (w_sample_rate g) :: u64) = unat (w_sample_rate g)"
     "unat (ucast (w_frame_bytes g) :: u64) = unat (w_frame_bytes g)"
    by (simp_all add: unsigned_ucast_eq take_bit_nat_eq_self)
  have "(ucast (w_sample_rate g) :: u64) \<noteq> 0" using r(1) u(1) by (metis unat_eq_zero)
  then show ?thesis
    using l(1) position_ms_unat [of "ucast (w_sample_rate g)"]
    by (simp add: gsw_time_of_position_def Let_def position_clamp_unat unat_div u TIME_SAMPLES_def TIME_MS_def TIME_BYTES_def)
qed

lemma wave_position_exact_witness:
  "let g = wave_zero\<lparr>w_open := True, w_frame_bytes := 4, w_sample_rate := 44100, w_timer_id := 1,
       w_timer_period_active := True, w_next_token := 1\<rparr> in
     wave_ok g \<and> unat (time_value (gsw_time_of_position g 17640000000 \<lparr>wType = TIME_MS, time_value = 0\<rparr>)) = 100000000"
proof -
  let ?g = "wave_zero\<lparr>w_open := True, w_frame_bytes := 4, w_sample_rate := 44100, w_timer_id := 1,
       w_timer_period_active := True, w_next_token := 1\<rparr>"
  have "wave_core ?g"
    by (rule wave_core_empty) (simp_all add: wave_zero_def stream_format_ok_def gsw_sound_rate_valid_def)
  then have ok: "wave_ok ?g" by (simp add: wave_ok_def buffers_ok_def) (simp add: wave_zero_def)
  from wave_position_exact [OF ok, of 17640000000 "\<lparr>wType = TIME_MS, time_value = 0\<rparr>"] ok show ?thesis
    by (simp add: Let_def TIME_MS_def TIME_SAMPLES_def)
qed

end
