(* ===== verification/Sound_Wave_Account.thy ===== *)
theory Sound_Wave_Account
  imports Sound_Wave_Invariant "HOL-Library.Multiset"
begin

text \<open>
  What becomes of the headers. The locale \<open>header_account\<close> states the contract between an account
  of the headers (taken, returned, queued, on their way out) and a callback: everything the driver
  does keeps an account that can follow a header in, out of the queue, and back to its client. It
  is used twice: for the balance of the headers with an application that calls the driver again
  from its callbacks, to any depth, and for their order with callbacks that do not.
\<close>

section \<open>Headers of the queue\<close>

lemma queue_headers_fun:
  assumes "queue_shape g" "n \<le> unat (w_queue_count g)"
  shows "gsw_queue_headers (w_queue g) (w_queue_read g) n = take n (queue_headers g)"
proof -
  have l: "length (w_queue g) = 32" using assms(1) by (simp add: queue_shape_def ring_shape_def)
  have step: "(Suc x mod 32 + i) mod 32 = Suc (x + i) mod 32" for x i :: nat
    by (metis add_Suc mod_add_left_eq)
  have gen: "gsw_queue_headers (w_queue g) i n = map (\<lambda>j. b_header (w_queue g ! ((unat i + j) mod 32))) [0..<n]"
    if "unat i < 32" for i n
    using that
  proof (induction n arbitrary: i)
    case (Suc n)
    have "unat (gsw_next_queue_index i) < 32" by simp
    from Suc.IH [OF this] Suc.prems show ?case
      by (simp add: upt_conv_Cons step map_Suc_upt [symmetric] del: upt_Suc)
  qed simp
  have "unat (w_queue_read g) < 32" using assms(1) by (simp add: queue_shape_def ring_shape_def)
  from gen [OF this] show ?thesis
    using assms(2) by (simp add: queue_headers_def wave_items_def ring_items_def l take_map comp_def)
qed

lemma collect_loop_prefix:
  "gsw_collect_loop queue i k n hs = Some hs' \<Longrightarrow> \<exists>m\<le>n. hs' = hs @ gsw_queue_headers queue i m"
proof (induction n arbitrary: i hs)
  case (Suc n)
  from Suc.prems show ?case
  proof (cases "i = k")
    case True
    with Suc.prems show ?thesis by (auto simp: Let_def split: if_splits intro!: exI [of _ 1])
  next
    case False
    with Suc.prems have "gsw_collect_loop queue (gsw_next_queue_index i) k n (hs @ [b_header (queue ! unat i)]) = Some hs'"
      by (auto simp: Let_def split: if_splits)
    from Suc.IH [OF this] obtain m where "m \<le> n"
      "hs' = hs @ b_header (queue ! unat i) # gsw_queue_headers queue (gsw_next_queue_index i) m" by auto
    then show ?thesis by (auto intro!: exI [of _ "Suc m"])
  qed
qed simp

section \<open>The account of the headers\<close>

text \<open>
  The driver's state in the world, with an account of the headers: \<open>acc F t r q\<close> relates the
  headers taken, the headers returned, the headers in the queue, and the headers \<open>F\<close> that are
  out of the queue and about to be returned.
\<close>

definition driver_core ::
    "(u32 list \<Rightarrow> u32 list \<Rightarrow> u32 list \<Rightarrow> u32 list \<Rightarrow> bool) \<Rightarrow> u32 list \<Rightarrow> 's win16_world \<Rightarrow> bool" where
  "driver_core acc F w \<longleftrightarrow> wave_core (gsw_wave w) \<and> length (mx_clients (gsw_mixer w)) = 8 \<and>
     acc F (taken_log w) (returned_log w) (queue_headers (gsw_wave w))"

definition driver_ok ::
    "(u32 list \<Rightarrow> u32 list \<Rightarrow> u32 list \<Rightarrow> u32 list \<Rightarrow> bool) \<Rightarrow> u32 list \<Rightarrow> 's win16_world \<Rightarrow> bool" where
  "driver_ok acc F w \<longleftrightarrow> driver_core acc F w \<and> buffers_ok (gsw_wave w)"

lemma driver_ok_iff:
  "driver_ok acc F w \<longleftrightarrow> wave_ok (gsw_wave w) \<and> length (mx_clients (gsw_mixer w)) = 8 \<and>
     acc F (taken_log w) (returned_log w) (queue_headers (gsw_wave w))"
  by (auto simp: driver_ok_def driver_core_def wave_ok_def)

lemma on_wave_simps [simp]:
  "gsw_wave (on_wave f w) = f (gsw_wave w)" "gsw_mixer (on_wave f w) = gsw_mixer w"
  "taken_log (on_wave f w) = taken_log w" "returned_log (on_wave f w) = returned_log w"
  "far (on_wave f w) = far w" "outside (on_wave f w) = outside w"
  by (simp_all add: on_wave_def)

lemma header_flags_frame [simp]:
  "gsw_wave (set_header_flags h f w) = gsw_wave w" "gsw_mixer (set_header_flags h f w) = gsw_mixer w"
  "taken_log (set_header_flags h f w) = taken_log w" "returned_log (set_header_flags h f w) = returned_log w"
  by (simp_all add: set_header_flags_def)

lemma driver_frame:
  assumes "gsw_wave w' = gsw_wave w" "gsw_mixer w' = gsw_mixer w" "taken_log w' = taken_log w"
    "returned_log w' = returned_log w"
  shows "driver_ok acc F w' = driver_ok acc F w" "driver_core acc F w' = driver_core acc F w"
  using assms by (simp_all add: driver_ok_def driver_core_def)

lemma driver_outside [simp]:
  "driver_ok acc F (snd (snd (call_pm e r w))) = driver_ok acc F w"
  "driver_core acc F (snd (snd (call_pm e r w))) = driver_core acc F w"
  "driver_ok acc F (snd (on_outside f w)) = driver_ok acc F w"
  "driver_ok acc F (do_outside g w) = driver_ok acc F w"
  "driver_ok acc F (set_header_flags h fl w) = driver_ok acc F w"
  by (rule driver_frame; simp)+

text \<open>
  The contract of a callback and an account: an account that can be kept when a header is taken,
  when the head of the queue is set aside, and when the next header is returned while \<open>F\<close> wait
  for an outer return, and a callback that keeps it. What follows is that every entry of the
  driver keeps it.
\<close>

locale header_account =
  fixes acc :: "u32 list \<Rightarrow> u32 list \<Rightarrow> u32 list \<Rightarrow> u32 list \<Rightarrow> bool"
    and pending :: "u32 list \<Rightarrow> bool"
    and cb :: "'s on_callback"
  assumes acc_return: "pending F \<Longrightarrow> acc (F @ h # hs) t r q \<Longrightarrow> acc (F @ hs) t (r @ [h]) q"
    and acc_take: "acc F t r q \<Longrightarrow> acc F (t @ [h]) r (q @ [h])"
    and acc_pop: "acc F t r (hs @ q) \<Longrightarrow> acc (F @ hs) t r q"
    and callback_keeps: "driver_ok acc F w \<Longrightarrow> driver_ok acc F (cb d w)"
begin

lemma callback_with_keeps: "driver_ok acc F w \<Longrightarrow> driver_ok acc F (gsw_callback_with cb ctx m p w)"
  by (simp add: gsw_callback_with_def callback_keeps)

lemma return_header_keeps:
  assumes "pending F" "h \<noteq> 0" "driver_ok acc (F @ h # hs) w"
  shows "driver_ok acc (F @ hs) (gsw_return_header_with cb ctx h w)"
proof -
  have "driver_ok acc (F @ hs) (set_header_flags h fl w\<lparr>returned_log := returned_log w @ [h]\<rparr>)" for fl
    using assms acc_return [OF assms(1), of h hs] by (simp add: driver_ok_iff)
  then show ?thesis using assms(2) by (simp add: gsw_return_header_with_def Let_def callback_with_keeps)
qed

lemma return_all_keeps:
  "pending F \<Longrightarrow> 0 \<notin> set hs \<Longrightarrow> driver_ok acc (F @ hs) w \<Longrightarrow> driver_ok acc F (gsw_return_all cb ctx hs w)"
proof (induction hs arbitrary: w)
  case (Cons h hs)
  then have "driver_ok acc (F @ hs) (gsw_return_header_with cb ctx h w)"
    by (intro return_header_keeps) auto
  with Cons show ?case by (simp add: gsw_return_all_def)
qed (simp add: gsw_return_all_def)

lemma complete_head_keeps:
  assumes "pending F" "driver_ok acc F w"
  shows "driver_ok acc F (snd (gsw_complete_head cb i w))"
proof (cases "w_queue_count (gsw_wave w) = 0 \<or> w_queue_read (gsw_wave w) \<noteq> i \<or>
    b_header (w_queue (gsw_wave w) ! unat (w_queue_read (gsw_wave w))) = 0")
  case True
  with assms show ?thesis by (auto simp: gsw_complete_head_def Let_def)
next
  case False
  let ?g = "gsw_wave w" and ?h = "b_header (gsw_front_buffer (gsw_wave w))"
  have g: "wave_ok ?g" "wave_core ?g" "queue_shape ?g" "wave_items ?g \<noteq> []"
    using assms False by (simp_all add: driver_ok_iff wave_ok_def wave_core_def items_nonempty)
  have q: "queue_headers ?g = ?h # queue_headers (gsw_pop_head ?g)"
    using buffer_ring.items_front [OF g(3,4)] buffer_ring.items_pop [OF g(3,4)] g(4)
    by (simp add: queue_headers_def) (metis list.collapse list.simps(9))
  have "driver_ok acc (F @ ?h # []) (on_wave (gsw_rest_schedule \<circ> gsw_pop_head) w)"
    using assms(2) pop_head_core(1) [OF g(2)] pop_head_buffers [of ?g] False acc_pop [of F _ _ "[?h]"]
    by (auto simp: driver_ok_iff wave_ok_def q intro!: rest_schedule_ok(1) [unfolded wave_ok_def])
  from return_header_keeps [OF assms(1) _ this] False show ?thesis
    by (simp add: gsw_complete_head_def gsw_front_buffer_def Let_def)
qed

lemma complete_loop_keeps:
  assumes "pending F" "driver_ok acc F w"
  shows "driver_ok acc F (snd (gsw_complete_loop cb i k w))"
proof (cases "w_queue_count (gsw_wave w) \<noteq> 0 \<and> w_queue_read (gsw_wave w) = i \<and>
    gsw_collect_loop (w_queue (gsw_wave w)) i k (unat (w_queue_count (gsw_wave w))) [] \<noteq> None")
  case False
  with assms show ?thesis by (auto simp: gsw_complete_loop_def Let_def split: option.split)
next
  case True
  let ?g = "gsw_wave w"
  from True obtain hs where hs: "gsw_collect_loop (w_queue ?g) i k (unat (w_queue_count ?g)) [] = Some hs" by auto
  have g: "wave_ok ?g" "wave_core ?g" "queue_shape ?g"
    using assms by (simp_all add: driver_ok_iff wave_ok_def wave_core_def)
  from collect_loop_prefix [OF hs] obtain m where m: "m \<le> unat (w_queue_count ?g)"
    "hs = gsw_queue_headers (w_queue ?g) i m" by auto
  then have t: "hs = take m (queue_headers ?g)" using queue_headers_fun [OF g(3)] True by simp
  have l: "length hs = m" "m \<le> length (queue_headers ?g)"
    using t m(1) by (simp_all add: queue_headers_def items_nonempty min_def)
  have "queue_headers ?g = hs @ drop m (queue_headers ?g)" using t by simp
  then have "driver_ok acc (F @ hs) (on_wave (gsw_rest_schedule \<circ> (gsw_pop_head ^^ m)) w)"
    using assms(2) pop_heads [OF g(1) l(2)] acc_pop [of F _ _ hs] by (simp add: driver_ok_iff)
  moreover have "0 \<notin> set hs" using headers_nonzero [OF g(2)] t by (metis in_set_takeD)
  ultimately show ?thesis
    using True hs l(1) assms(1) by (auto simp: gsw_complete_loop_def Let_def intro!: return_all_keeps)
qed

lemma complete_all_from:
  assumes "pending F" "wave_core (gsw_wave w)" "length (mx_clients (gsw_mixer w)) = 8"
    "acc (F @ queue_headers (gsw_wave w)) (taken_log w) (returned_log w) []"
  shows "driver_ok acc F (gsw_complete_all cb w)"
proof -
  let ?g = "gsw_wave w" and ?hs = "queue_headers (gsw_wave w)"
  have "queue_shape ?g" using assms(2) by (simp add: wave_core_def)
  then have hs: "gsw_queue_headers (w_queue ?g) (w_queue_read ?g) (unat (w_queue_count ?g)) = ?hs"
    using queue_headers_fun [OF _ order_refl] by (simp add: queue_headers_def items_nonempty)
  have "driver_ok acc (F @ ?hs) (on_wave gsw_clear_queue w)"
    using assms(3,4) clear_queue_ok [OF assms(2)] by (simp add: driver_ok_iff)
  moreover have "0 \<notin> set ?hs" using headers_nonzero [OF assms(2)] by auto
  ultimately show ?thesis
    using assms(1) by (simp add: gsw_complete_all_def Let_def hs return_all_keeps)
qed

lemma complete_all_keeps:
  assumes "pending F" "driver_core acc F w"
  shows "driver_ok acc F (gsw_complete_all cb w)"
  using complete_all_from [OF assms(1)] assms(2) acc_pop [of F _ _ "queue_headers (gsw_wave w)" "[]"]
  by (simp add: driver_core_def)

lemma abort_queue_keeps:
  assumes "pending F" "driver_core acc F w"
  shows "driver_ok acc F (gsw_abort_queue e cb w)"
  using assms by (simp add: gsw_abort_queue_def complete_all_keeps)

end

section \<open>The pump keeps the account\<close>

lemma driver_coreI: "driver_ok acc F w \<Longrightarrow> driver_core acc F w"
  by (simp add: driver_ok_def)

lemma on_wave_keeps:
  "driver_ok acc F w \<Longrightarrow> (wave_ok (gsw_wave w) \<Longrightarrow> wave_ok (f (gsw_wave w))) \<Longrightarrow>
   queue_headers (f (gsw_wave w)) = queue_headers (gsw_wave w) \<Longrightarrow> driver_ok acc F (on_wave f w)"
  by (simp add: driver_ok_iff)

lemma pumping_keeps:
  "driver_ok acc F w \<Longrightarrow> w_open (gsw_wave w) \<or> \<not> b \<Longrightarrow> driver_ok acc F (on_wave (\<lambda>g. g\<lparr>w_pumping := b\<rparr>) w)"
proof (rule on_wave_keeps)
  assume o: "w_open (gsw_wave w) \<or> \<not> b"
  have z: "wave_zero\<lparr>w_pumping := False\<rparr> = wave_zero" by (simp add: wave_zero_def)
  show "wave_ok ((gsw_wave w)\<lparr>w_pumping := b\<rparr>)" if "wave_ok (gsw_wave w)"
  proof (cases "w_open (gsw_wave w)")
    case True
    with that show ?thesis by (simp add: wave_ok_def)
  next
    case False
    with that core_closed have "gsw_wave w = wave_zero" by (auto simp: wave_ok_def)
    with o False show ?thesis by (simp add: z)
  qed
qed simp_all

text \<open>One submission: the bytes counted in, and the occurrence finished when they are all there.\<close>

lemma submitted_ok:
  assumes "wave_ok g" "w_open g" "unat i < 32" "b_header (w_queue g ! unat i) \<noteq> 0"
    and "n \<noteq> 0" "n \<le> b_buffer_bytes (w_queue g ! unat i) - b_submitted_bytes (w_queue g ! unat i)"
    and g1: "g1 = gsw_update_buffer i (\<lambda>b. b\<lparr>b_submitted_bytes := b_submitted_bytes b + n\<rparr>) g"
    and fin: "(if b_submitted_bytes (w_queue g1 ! unat i) = b_buffer_bytes (w_queue g1 ! unat i)
      then gsw_finish_occurrence i g1 else (True, g1)) = (ok, g2)"
  shows "wave_core g2 \<and> queue_headers g2 = queue_headers g \<and> (ok \<longrightarrow> wave_ok g2)"
proof -
  let ?f = "\<lambda>b :: GSW_WAVE_BUFFER. b\<lparr>b_submitted_bytes := b_submitted_bytes b + n\<rparr>"
  let ?b = "w_queue g ! unat i"
  have b: "buffer_ok ?b" by (rule buffer_at [OF assms(1,3,4)])
  have c: "wave_core g" using assms(1) by (simp add: wave_ok_def)
  have g1c: "wave_core g1" "queue_headers g1 = queue_headers g" and o: "w_open g1"
    using update_core [OF c assms(2), of ?f i] assms(2) by (simp_all add: g1)
  have x: "w_queue g1 ! unat i = ?f ?b" using update_nth [OF c assms(3), of ?f] by (simp add: g1)
  show ?thesis
  proof (cases "b_submitted_bytes ?b + n = b_buffer_bytes ?b")
    case True
    have "buffers_ok (gsw_update_buffer i (\<lambda>b. b\<lparr>b_submitted_bytes := 0, b_token := 0\<rparr>) g1)"
    proof -
      have "gsw_update_buffer i (\<lambda>b. b\<lparr>b_submitted_bytes := 0, b_token := 0\<rparr>) g1 =
          gsw_update_buffer i (\<lambda>b. b\<lparr>b_submitted_bytes := 0, b_token := 0\<rparr>) g"
        using c assms(3) by (simp add: g1 gsw_update_buffer_def wave_core_def queue_shape_def ring_shape_def)
      moreover have "buffer_ok (?b\<lparr>b_submitted_bytes := 0, b_token := 0\<rparr>)"
        using b by (auto simp: buffer_ok_def word_less_nat_alt)
      ultimately show ?thesis using assms(1) update_buffers [of g _ i] by (simp add: wave_ok_def)
    qed
    then have "almost_ok i g1" using g1c o assms(3,4) x by (simp add: almost_ok_def)
    from finish_occurrence_ok [OF this] fin True g1c x show ?thesis by auto
  next
    case False
    have "b_submitted_bytes ?b < b_buffer_bytes ?b" using b by (simp add: buffer_ok_def)
    then have s: "unat (b_buffer_bytes ?b - b_submitted_bytes ?b) = unat (b_buffer_bytes ?b) - unat (b_submitted_bytes ?b)"
      by (simp add: unat_sub)
    then have n: "unat n \<le> unat (b_buffer_bytes ?b) - unat (b_submitted_bytes ?b)"
      using assms(6) by (simp add: word_le_nat_alt)
    then have "unat (b_submitted_bytes ?b + n) = unat (b_submitted_bytes ?b) + unat n"
      using unat_bound32 [of "b_buffer_bytes ?b"] \<open>b_submitted_bytes ?b < b_buffer_bytes ?b\<close>
      by (intro unat_add_no_overflow) (simp add: word_less_nat_alt)
    with n False \<open>b_submitted_bytes ?b < b_buffer_bytes ?b\<close> have "b_submitted_bytes ?b + n < b_buffer_bytes ?b"
      by (auto simp: word_less_nat_alt word_unat_eq_iff)
    then have "buffer_ok (?f ?b)" using b by (simp add: buffer_ok_def)
    then have "buffers_ok g1" using assms(1) update_buffers [of g ?f i] by (simp add: g1 wave_ok_def)
    with g1c fin False x show ?thesis by (simp add: wave_ok_def)
  qed
qed

lemma chunk_le: "gsw_chunk g remaining \<le> remaining"
proof -
  let ?c = "if remaining > GSW_SOUND_MAX_SUBMIT_BYTES then GSW_SOUND_MAX_SUBMIT_BYTES else remaining"
  have "?c - ?c mod ucast (w_frame_bytes g) \<le> ?c"
    by (rule word_sub_le) (simp add: word_le_nat_alt unat_mod)
  also have "?c \<le> remaining" by (simp add: less_imp_le)
  finally show ?thesis by (simp add: gsw_chunk_def Let_def)
qed

context header_account
begin

lemma release_loop_keeps:
  assumes "pending F" "driver_ok acc F w"
  shows "driver_ok acc F (snd (gsw_release_loop cb p w))"
proof (cases "p_release_loop p \<and> w_loop_release_pending (gsw_wave w) \<noteq> 0")
  case True
  have "w_open (gsw_wave w)" using assms True core_open by (auto simp: driver_ok_iff wave_ok_def)
  then have "driver_ok acc F (on_wave (\<lambda>g. g\<lparr>w_loop_release_pending := w_loop_release_pending g - 1\<rparr>) w)"
    using assms by (intro on_wave_keeps) (simp_all add: wave_ok_def)
  with True assms show ?thesis by (simp add: gsw_release_loop_def complete_loop_keeps)
next
  case False
  with assms show ?thesis by (auto simp: gsw_release_loop_def)
qed

lemma finish_play_keeps:
  assumes "pending F" "driver_ok acc F w"
  shows "driver_ok acc F (snd (gsw_finish_play cb p w))"
  using assms by (simp add: gsw_finish_play_def step_and_def release_loop_keeps complete_head_keeps)

lemma poll_loop_keeps: "pending F \<Longrightarrow> driver_ok acc F w \<Longrightarrow> driver_ok acc F (gsw_poll_loop e cb n w)"
proof (induction n arbitrary: w)
  case (Suc n)
  show ?case
  proof (cases "w_play_count (gsw_wave w) = 0")
    case False
    obtain res r w1 where c: "call_pm e ((gsw_request_init GSW_SOUND_PM_POLL)
        \<lparr>pm_stream_id := w_stream_id (gsw_wave w)\<rparr>) w = (res, r, w1)" by (metis prod.collapse)
    have w1: "driver_ok acc F w1" "gsw_wave w1 = gsw_wave w"
      using Suc.prems driver_outside(1) [of acc F e _ w] call_pm_frame(1) [of e _ w] c by (metis snd_conv)+
    have p: "driver_ok acc F (on_wave gsw_pop_play w1)"
      using w1 pop_play_ok [of "gsw_wave w1"] False by (intro on_wave_keeps) simp_all
    let ?p = "w_plays (gsw_wave w) ! unat (w_play_read (gsw_wave w))"
    obtain ok w2 where f: "gsw_finish_play cb ?p (on_wave gsw_pop_play w1) = (ok, w2)" by (metis prod.collapse)
    have w2: "driver_ok acc F w2" using finish_play_keeps [OF Suc.prems(1) p, of ?p] f by simp
    show ?thesis
      using False w1(1) w2 Suc.prems(1) Suc.IH [OF Suc.prems(1) w2] abort_queue_keeps [of F _ e]
      by (auto simp: c f Let_def dest: driver_coreI)
  qed (use Suc in simp)
qed simp

end

context header_account
begin

lemma need_token_keeps:
  assumes w: "driver_ok acc F w" and q: "w_queue_count (gsw_wave w) \<noteq> 0"
    and i: "i = w_schedule_index (gsw_wave w)" and h: "b_header (w_queue (gsw_wave w) ! unat i) \<noteq> 0"
  shows "driver_ok acc F (on_wave (gsw_need_token i) w)" "w_open (gsw_wave (on_wave (gsw_need_token i) w))"
    "b_header (w_queue (gsw_wave (on_wave (gsw_need_token i) w)) ! unat i) \<noteq> 0" "unat i < 32"
proof -
  have g: "wave_ok (gsw_wave w)" using w by (simp add: driver_ok_iff)
  then have o: "w_open (gsw_wave w)" using q core_open by (auto simp: wave_ok_def)
  show i32: "unat i < 32" using g by (simp add: wave_ok_def i wave_core_def)
  note nt = need_token [OF g o i32 h]
  show "driver_ok acc F (on_wave (gsw_need_token i) w)" by (rule on_wave_keeps [OF w]) (simp_all add: nt)
  show "w_open (gsw_wave (on_wave (gsw_need_token i) w))"
    "b_header (w_queue (gsw_wave (on_wave (gsw_need_token i) w)) ! unat i) \<noteq> 0"
    unfolding on_wave_simps by (rule nt)+
qed

lemma count_bytes_keeps:
  assumes w1: "driver_ok acc F w1" "w_open (gsw_wave w1)" "b_header (w_queue (gsw_wave w1) ! unat i) \<noteq> 0" "unat i < 32"
    and w2: "gsw_wave w2 = gsw_wave w1" "driver_ok acc F w2"
    and n: "n \<noteq> 0"
      "n \<le> b_buffer_bytes (w_queue (gsw_wave w1) ! unat i) - b_submitted_bytes (w_queue (gsw_wave w1) ! unat i)"
    and w3: "w3 = on_wave (gsw_update_buffer i (\<lambda>b. b\<lparr>b_submitted_bytes := b_submitted_bytes b + n\<rparr>)) w2"
    and fin: "(if b_submitted_bytes (w_queue (gsw_wave w3) ! unat i) = b_buffer_bytes (w_queue (gsw_wave w3) ! unat i)
       then gsw_finish_occurrence i (gsw_wave w3) else (True, gsw_wave w3)) = (ok, g)"
  shows "driver_core acc F (w3\<lparr>gsw_wave := g\<rparr>) \<and> (ok \<longrightarrow> driver_ok acc F (w3\<lparr>gsw_wave := g\<rparr>))"
proof -
  have e3: "gsw_wave w3 = gsw_update_buffer i (\<lambda>b. b\<lparr>b_submitted_bytes := b_submitted_bytes b + n\<rparr>) (gsw_wave w1)"
    by (simp only: w3 w2 on_wave_simps)
  have g1: "wave_ok (gsw_wave w1)" using w1 by (simp add: driver_ok_iff)
  note s = submitted_ok [OF g1 w1(2,4,3) n e3 fin]
  have logs: "gsw_mixer w3 = gsw_mixer w2" "taken_log w3 = taken_log w2" "returned_log w3 = returned_log w2"
    by (simp_all only: w3 on_wave_simps)
  from w2 s show ?thesis by (simp add: driver_core_def driver_ok_iff logs)
qed

lemma submit_loop_keeps: "pending F \<Longrightarrow> driver_ok acc F w \<Longrightarrow> driver_ok acc F (gsw_submit_loop e cb n w)"
proof (induction n arbitrary: w)
  case (Suc n)
  let ?g = "gsw_wave w"
  show ?case
  proof (cases "w_queue_count ?g = 0 \<or> w_play_count ?g = GSW_WAVE_QUEUE_CAPACITY \<or>
      b_header (w_queue ?g ! unat (w_schedule_index ?g)) = 0")
    case True
    with Suc.prems show ?thesis by (auto simp: Let_def)
  next
    case False
    define i where "i = w_schedule_index ?g"
    define w1 where "w1 = on_wave (gsw_need_token i) w"
    define b where "b = w_queue (gsw_wave w1) ! unat i"
    define rem where "rem = b_buffer_bytes b - b_submitted_bytes b"
    define chunk where "chunk = gsw_chunk (gsw_wave w1) rem"
    obtain res r w2 where c: "call_pm e (gsw_submit_request (gsw_wave w1) b rem chunk) w1 = (res, r, w2)"
      by (metis prod.collapse)
    define w3 where "w3 = on_wave (gsw_update_buffer i (\<lambda>b. b\<lparr>b_submitted_bytes :=
      b_submitted_bytes b + pm_accepted_bytes r\<rparr>)) w2"
    obtain ok g where fin: "(if b_submitted_bytes (w_queue (gsw_wave w3) ! unat i) =
        b_buffer_bytes (w_queue (gsw_wave w3) ! unat i)
      then gsw_finish_occurrence i (gsw_wave w3) else (True, gsw_wave w3)) = (ok, g)" by (metis prod.collapse)
    have q: "w_queue_count ?g \<noteq> 0" and h: "b_header (w_queue ?g ! unat i) \<noteq> 0" using False by (simp_all add: i_def)
    note step = need_token_keeps [OF Suc.prems(2) q i_def h, folded w1_def]
    have w2: "gsw_wave w2 = gsw_wave w1" "driver_ok acc F w2"
      using call_pm_frame(1) [of e _ w1] driver_outside(1) [of acc F e _ w1] c step(1) by (metis snd_conv)+
    have "pm_accepted_bytes r \<le> rem" if "pm_accepted_bytes r \<le> chunk"
      using that chunk_le [of "gsw_wave w1" rem] by (simp add: chunk_def)
    then have w4: "driver_core acc F (w3\<lparr>gsw_wave := g\<rparr>) \<and> (ok \<longrightarrow> driver_ok acc F (w3\<lparr>gsw_wave := g\<rparr>))"
      if "pm_accepted_bytes r \<noteq> 0" "pm_accepted_bytes r \<le> chunk"
      using count_bytes_keeps [OF step w2 _ _ w3_def fin] that by (simp add: rem_def b_def)
    have eq: "gsw_submit_loop e cb (Suc n) w =
        (if rem = 0 \<or> b_submitted_bytes b > b_buffer_bytes b then gsw_abort_queue e cb w1
         else if chunk = 0 then w1
         else if res = GSW_SOUND_WOULD_BLOCK then w2
         else if res \<noteq> GSW_SOUND_OK \<or> pm_result r \<noteq> result_code GSW_SOUND_OK \<or> pm_accepted_bytes r = 0 \<or>
           pm_accepted_bytes r > chunk \<or> pm_accepted_bytes r mod ucast (w_frame_bytes (gsw_wave w2)) \<noteq> 0
         then gsw_abort_queue e cb w2
         else if \<not> ok then gsw_abort_queue e cb (w3\<lparr>gsw_wave := g\<rparr>)
         else if pm_accepted_bytes r < chunk then w3\<lparr>gsw_wave := g\<rparr>
         else gsw_submit_loop e cb n (w3\<lparr>gsw_wave := g\<rparr>))"
      using False unfolding gsw_submit_loop.simps Let_def i_def [symmetric] w1_def [symmetric] b_def [symmetric]
        rem_def [symmetric] chunk_def [symmetric] c prod.case w3_def [symmetric] fin by simp
    show ?thesis
      unfolding eq using step(1) w2 w4 Suc.prems(1) Suc.IH
      by (simp add: abort_queue_keeps driver_coreI linorder_not_less)
  qed
qed simp

lemma pump_keeps:
  assumes "pending F" "driver_ok acc F w"
  shows "driver_ok acc F (gsw_pump e cb w)"
proof (cases "\<not> w_open (gsw_wave w) \<or> w_paused (gsw_wave w) \<or> w_pumping (gsw_wave w)")
  case True
  with assms show ?thesis by (simp add: gsw_pump_def)
next
  case False
  then have "driver_ok acc F (on_wave (\<lambda>g. g\<lparr>w_pumping := True\<rparr>) w)" using assms by (intro pumping_keeps) simp_all
  then have "driver_ok acc F (gsw_submit_buffers e cb (gsw_poll_completions e cb (on_wave (\<lambda>g. g\<lparr>w_pumping := True\<rparr>) w)))"
    using assms by (simp add: gsw_submit_buffers_def gsw_poll_completions_def submit_loop_keeps poll_loop_keeps)
  with False show ?thesis by (simp add: gsw_pump_def pumping_keeps)
qed

end

section \<open>Opening\<close>

lemma drop_bit3 [simp]: "drop_bit 3 (8 :: u16) = 1" "drop_bit 3 (16 :: u16) = 2"
  by (simp_all add: drop_bit_eq_div)

lemma format_supported_D:
  assumes "gsw_format_supported p f"
  shows "gsw_sound_rate_valid (nSamplesPerSec f)"
    "nChannels f * drop_bit 3 (wBitsPerSample f) \<in> {1, 2, 4}"
  using assms by (auto simp: gsw_format_supported_def gsw_sound_rate_valid_def split: if_splits)

lemma opened_ok:
  assumes "gsw_sound_rate_valid (pm_sample_rate r)" "pm_channels r * drop_bit 3 (pm_bits_per_sample r) \<in> {1, 2, 4}"
    "t \<noteq> 0"
  shows "wave_ok ((gsw_opened_instance d fl r)\<lparr>w_timer_period_active := True, w_timer_id := t\<rparr>)"
    "queue_headers ((gsw_opened_instance d fl r)\<lparr>w_timer_period_active := True, w_timer_id := t\<rparr>) = []"
proof -
  have "wave_core ((gsw_opened_instance d fl r)\<lparr>w_timer_period_active := True, w_timer_id := t\<rparr>)"
    by (rule wave_core_empty) (use assms in \<open>simp_all add: gsw_opened_instance_def wave_zero_def stream_format_ok_def\<close>)
  then show "wave_ok ((gsw_opened_instance d fl r)\<lparr>w_timer_period_active := True, w_timer_id := t\<rparr>)"
    by (simp add: wave_ok_def buffers_ok_def) (simp add: gsw_opened_instance_def wave_zero_def)
  show "queue_headers ((gsw_opened_instance d fl r)\<lparr>w_timer_period_active := True, w_timer_id := t\<rparr>) = []"
    by (simp add: queue_headers_def wave_items_def gsw_opened_instance_def wave_zero_def ring_items_def)
qed

lemma open_not_refused:
  assumes "gsw_open_refused u p fl w = None"
  shows "\<not> w_open (gsw_wave w)"
    "gsw_format_supported (lpFormat (waveopendescs (far w) p)) (waveformats (far w) (lpFormat (waveopendescs (far w) p)))"
  using assms by (auto simp: gsw_open_refused_def Let_def split: if_splits)

lemma stop_timer_frame [simp]:
  "gsw_mixer (gsw_stop_timer e w) = gsw_mixer w" "taken_log (gsw_stop_timer e w) = taken_log w"
  "returned_log (gsw_stop_timer e w) = returned_log w" "w_queue (gsw_wave (gsw_stop_timer e w)) = w_queue (gsw_wave w)"
  "w_queue_count (gsw_wave (gsw_stop_timer e w)) = w_queue_count (gsw_wave w)"
  by (simp_all add: gsw_stop_timer_def Let_def)

lemma close_stream_frame [simp]:
  "gsw_wave (gsw_close_stream e s w) = gsw_wave w" "gsw_mixer (gsw_close_stream e s w) = gsw_mixer w"
  "taken_log (gsw_close_stream e s w) = taken_log w" "returned_log (gsw_close_stream e s w) = returned_log w"
  by (simp_all add: gsw_close_stream_def)

lemma driver_set_wave:
  "driver_ok acc F w \<Longrightarrow> queue_headers (gsw_wave w) = [] \<Longrightarrow> wave_ok g \<Longrightarrow> queue_headers g = [] \<Longrightarrow>
   gsw_wave w' = g \<Longrightarrow> gsw_mixer w' = gsw_mixer w \<Longrightarrow> taken_log w' = taken_log w \<Longrightarrow>
   returned_log w' = returned_log w \<Longrightarrow> driver_ok acc F w'"
  by (simp add: driver_ok_iff)

lemma driver_mixer:
  "driver_ok acc F w \<Longrightarrow> length (mx_clients m) = 8 \<Longrightarrow> driver_ok acc F (w\<lparr>gsw_mixer := m\<rparr>)"
  by (simp add: driver_ok_iff)

lemma driver_far [simp]: "driver_ok acc F (w\<lparr>far := m\<rparr>) = driver_ok acc F w"
  by (simp add: driver_ok_iff)

lemma call_pm_D:
  assumes "call_pm e r w = (res, r', w')"
  shows "gsw_wave w' = gsw_wave w" "gsw_mixer w' = gsw_mixer w" "taken_log w' = taken_log w"
    "returned_log w' = returned_log w" "far w' = far w"
  using call_pm_frame [of e r w] by (simp_all add: assms)

lemma mixer_initialize_keeps: "driver_ok acc F w \<Longrightarrow> driver_ok acc F (gsw_mixer_initialize w)"
  by (simp add: gsw_mixer_initialize_def driver_mixer mixer_zero_def)

lemma clients_length: "driver_ok acc F w \<Longrightarrow> length (mx_clients (gsw_mixer w)) = 8"
  by (simp add: driver_ok_iff)

text \<open>The entries that call no one.\<close>

lemma mixer_quiet_keeps:
  assumes "driver_ok acc F w"
  shows "driver_ok acc F (snd (gsw_mixer_num_devices e w))" "driver_ok acc F (snd (gsw_mixer_get_caps p n w))"
    "driver_ok acc F (snd (gsw_mixer_get_line_info p n w))" "driver_ok acc F (snd (gsw_mixer_get_line_controls p n w))"
    "driver_ok acc F (snd (gsw_mixer_get_control_details p n w))"
    "driver_ok acc F (snd (gsw_mixer_get_wave_volume p w))"
    "driver_ok acc F (snd (gsw_mixer_program_gain e m v w))"
  using assms mixer_initialize_keeps [OF assms]
  by (simp_all add: gsw_mixer_num_devices_def gsw_mixer_get_caps_def gsw_mixer_get_line_info_def
      gsw_mixer_get_line_controls_def gsw_mixer_get_control_details_def gsw_mixer_get_wave_volume_def
      gsw_mixer_program_gain_def Let_def split_beta split: sum.split)

lemma mixer_open_keeps:
  assumes "driver_ok acc F w"
  shows "driver_ok acc F (snd (gsw_mixer_open e u p fl w))"
proof -
  have "driver_ok acc F (snd (gsw_mixer_num_devices e w))" by (rule mixer_quiet_keeps [OF assms])
  with assms clients_length [OF this] show ?thesis
    by (auto simp: gsw_mixer_open_def Let_def split_beta split: option.split)
       (simp add: driver_ok_iff)
qed

lemma mixer_close_keeps: "driver_ok acc F w \<Longrightarrow> driver_ok acc F (snd (gsw_mixer_close e u w))"
  by (simp add: gsw_mixer_close_def driver_mixer clients_length split: option.split)

lemma wave_quiet_keeps:
  assumes "driver_ok acc F w"
  shows "driver_ok acc F (snd (gsw_get_num_devices e w))" "driver_ok acc F (snd (gsw_get_caps p n w))"
    "driver_ok acc F (snd (gsw_prepare_header p n w))" "driver_ok acc F (snd (gsw_unprepare_header p n w))"
    "driver_ok acc F (snd (gsw_get_position e p n w))" "driver_ok acc F (snd (gsw_simple_stream_command e op w))"
    "driver_ok acc F (snd (gsw_snapshot_buffer_linear e p n w))" "driver_ok acc F (snd (gsw_get_volume p w))"
  using assms mixer_quiet_keeps(6) [OF assms]
  by (simp_all add: gsw_get_num_devices_def gsw_get_caps_def gsw_prepare_header_def gsw_unprepare_header_def
      gsw_get_position_def gsw_simple_stream_command_def gsw_snapshot_buffer_linear_def gsw_get_volume_def
      Let_def split_beta split: option.split)

lemma simple_command_wave [simp]: "gsw_wave (snd (gsw_simple_stream_command e op w)) = gsw_wave w"
  by (simp add: gsw_simple_stream_command_def split_beta Let_def)

lemma flag_keeps:
  assumes "driver_ok acc F w" "w_open (gsw_wave w)"
  shows "driver_ok acc F (on_wave (\<lambda>g. g\<lparr>w_paused := b\<rparr>) w)"
    "driver_ok acc F (on_wave (\<lambda>g. g\<lparr>w_loop_break_requested := b\<rparr>) w)"
    "driver_ok acc F (on_wave (\<lambda>g. g\<lparr>w_break_next_loop := b\<rparr>) w)"
  using assms by (auto intro!: on_wave_keeps simp: wave_ok_def)

lemma pause_keeps:
  assumes "driver_ok acc F w"
  shows "driver_ok acc F (snd (gsw_pause e w))" "driver_ok acc F (snd (gsw_restart e w))"
  using assms wave_quiet_keeps(6) [OF assms, of e]
  by (auto simp: gsw_pause_def gsw_restart_def Let_def split_beta intro!: flag_keeps)

lemma break_loop_keeps:
  assumes "driver_ok acc F w" "w_open (gsw_wave w)"
  shows "driver_ok acc F (snd (gsw_break_loop w))"
  using assms by (simp add: gsw_break_loop_def flag_keeps)

lemma snapshot_linear:
  assumes "gsw_snapshot_buffer_linear e p n w = (Some a, w')"
  shows "unat a + unat n \<le> 2 ^ 32" "n \<noteq> 0"
proof -
  have n: "n \<noteq> 0" "a \<le> 0xFFFFFFFF - (n - 1)"
    using assms by (auto simp: gsw_snapshot_buffer_linear_def Let_def split_beta linorder_not_less
        split: if_splits option.splits)
  have "unat (n - 1) = unat n - 1" using n(1) by (simp add: unat_sub word_le_nat_alt unat_gt_0 Suc_le_eq)
  then show "unat a + unat n \<le> 2 ^ 32" "n \<noteq> 0" using n no_wrap_iff [of a "n - 1"] by simp_all
qed

section \<open>Events\<close>

text \<open>
  What can happen to the driver: a wave or mixer message, the timer, a driver message, and the
  application changing the memory it shares with the driver. The unloading of the library
  (\<open>WEP\<close>) is left out: it drops the queue without returning it.
\<close>

datatype win16_event =
    Event_Wave u16 u16 u32 u32 u32
  | Event_Mixer u16 u16 u32 u32 u32
  | Event_Timer
  | Event_Driver u16
  | Event_Far far_memory

fun win16_perform :: "'s win16_env \<Rightarrow> 's on_callback \<Rightarrow> win16_event \<Rightarrow> 's win16_world \<Rightarrow> 's win16_world" where
  "win16_perform e cb (Event_Wave d m u one two) w = snd (wodMessage e cb d m u one two w)"
| "win16_perform e cb (Event_Mixer d m u one two) w = snd (mxdMessage e cb d m u one two w)"
| "win16_perform e cb Event_Timer w = gsw_timer_callback e cb w"
| "win16_perform e cb (Event_Driver m) w = snd (DriverProc e m w)"
| "win16_perform e cb (Event_Far m) w = w\<lparr>far := m\<rparr>"

text \<open>
  An application that reacts to a callback with further events, \<open>n\<close> levels deep; on the
  innermost level it does nothing. Every execution that returns nests finitely deep.
\<close>

fun app_callback ::
    "'s win16_env \<Rightarrow> (driver_callback \<Rightarrow> 's win16_world \<Rightarrow> win16_event list) \<Rightarrow> nat \<Rightarrow> 's on_callback" where
  "app_callback e app 0 d w = w"
| "app_callback e app (Suc n) d w = fold (win16_perform e (app_callback e app n)) (app d w) w"

definition win16_start :: "far_memory \<Rightarrow> 's \<Rightarrow> 's win16_world" where
  "win16_start m s = \<lparr>gsw_wave = wave_zero, gsw_mixer = mixer_zero, far = m, outside = s, taken_log = [],
     returned_log = []\<rparr>"

context header_account
begin

lemma notify_keeps: "driver_ok acc F w \<Longrightarrow> driver_ok acc F (gsw_mixer_notify cb m i w)"
proof -
  have "driver_ok acc F w \<Longrightarrow> driver_ok acc F (fold (gsw_mixer_notify_client cb m i) js w)" for js
    by (induction js arbitrary: w) (auto simp: gsw_mixer_notify_client_def Let_def callback_keeps)
  then show "driver_ok acc F w \<Longrightarrow> ?thesis" by (simp add: gsw_mixer_notify_def)
qed

lemma set_wave_active_keeps: "driver_ok acc F w \<Longrightarrow> driver_ok acc F (gsw_mixer_set_wave_active cb b w)"
  by (auto simp: gsw_mixer_set_wave_active_def Let_def
      intro!: notify_keeps driver_mixer mixer_initialize_keeps clients_length)

lemma set_control_keeps:
  assumes "driver_ok acc F w"
  shows "driver_ok acc F (snd (gsw_mixer_set_control e cb c v w))"
proof -
  have "driver_ok acc F (snd (gsw_mixer_program_gain e m x (gsw_mixer_initialize w)))" for m x
    by (rule mixer_quiet_keeps [OF mixer_initialize_keeps [OF assms]])
  then show ?thesis using assms mixer_initialize_keeps [OF assms]
    by (auto simp: gsw_mixer_set_control_def Let_def split_beta
        intro!: notify_keeps driver_mixer clients_length)
qed

lemma mixer_message_keeps:
  assumes "driver_ok acc F w"
  shows "driver_ok acc F (snd (gsw_mixer_message e cb d m u one two w))"
proof -
  have w: "driver_ok acc F (gsw_mixer_initialize w)" by (rule mixer_initialize_keeps [OF assms])
  have s: "driver_ok acc F (snd (gsw_mixer_set_control_details e cb p fl (gsw_mixer_initialize w)))" for p fl
    using w by (simp add: gsw_mixer_set_control_details_def Let_def set_control_keeps)
  show ?thesis
    using assms w s mixer_quiet_keeps [OF w] mixer_open_keeps [OF w] mixer_close_keeps [OF w]
    by (simp add: gsw_mixer_message_def mm_return_def Let_def)
qed

lemma open_stream_keeps:
  assumes "driver_ok acc F w" "gsw_wave w = wave_zero" "gsw_sound_rate_valid (pm_sample_rate r)"
    "pm_channels r * drop_bit 3 (pm_bits_per_sample r) \<in> {1, 2, 4}"
  shows "driver_ok acc F (snd (gsw_open_stream e cb u d fl r w))"
proof -
  let ?g = "\<lambda>t. (gsw_opened_instance d fl r)\<lparr>w_timer_period_active := True, w_timer_id := t\<rparr>"
  have closed: "driver_ok acc F w'" if "gsw_wave w' = wave_zero" "gsw_mixer w' = gsw_mixer w"
      "taken_log w' = taken_log w" "returned_log w' = returned_log w" for w'
    using driver_set_wave [OF assms(1) _ wave_zero_ok(1) queue_headers_zero that] assms(2) by simp
  have opened: "driver_ok acc F w'" if "t \<noteq> 0" "gsw_wave w' = ?g t" "gsw_mixer w' = gsw_mixer w"
      "taken_log w' = taken_log w" "returned_log w' = returned_log w" for w' t
    using driver_set_wave [OF assms(1) _ opened_ok [OF assms(3,4) that(1)] that(2-)] assms(2) by simp
  obtain st w1 where b: "on_outside (timeBeginPeriod e) (w\<lparr>gsw_wave := gsw_opened_instance d fl r\<rparr>) = (st, w1)" by force
  obtain t w2 where t: "on_outside (timeSetEvent e) (on_wave (\<lambda>g. g\<lparr>w_timer_period_active := True\<rparr>) w1) = (t, w2)" by force
  have w1: "gsw_mixer w1 = gsw_mixer w" "taken_log w1 = taken_log w" "returned_log w1 = returned_log w"
      "gsw_wave w1 = gsw_opened_instance d fl r"
    using outside_frame(1-5) [of "timeBeginPeriod e" "w\<lparr>gsw_wave := gsw_opened_instance d fl r\<rparr>"] by (simp_all add: b)
  have w2: "gsw_mixer w2 = gsw_mixer w" "taken_log w2 = taken_log w" "returned_log w2 = returned_log w"
      "gsw_wave w2 = (gsw_opened_instance d fl r)\<lparr>w_timer_period_active := True\<rparr>"
    using outside_frame(1-5) [of "timeSetEvent e" "on_wave (\<lambda>g. g\<lparr>w_timer_period_active := True\<rparr>) w1"]
    by (simp_all add: t w1)
  let ?w3 = "on_wave (\<lambda>g. g\<lparr>w_timer_id := t\<rparr>) w2"
  let ?w4 = "gsw_callback cb WOM_OPEN 0
    (?w3\<lparr>far := (far ?w3)\<lparr>dwords := (dwords (far ?w3))(u := wave_address e)\<rparr>\<rparr>)"
  have "driver_ok acc F ?w4" if "t \<noteq> 0"
    unfolding gsw_callback_def by (rule callback_with_keeps, rule opened [OF that]) (simp_all add: w2)
  moreover have "driver_ok acc F ((gsw_close_stream e s w1)\<lparr>gsw_wave := wave_zero\<rparr>)" for s
    by (rule closed) (simp_all add: w1)
  moreover have "driver_ok acc F ((gsw_close_stream e s (gsw_stop_timer e ?w3))\<lparr>gsw_wave := wave_zero\<rparr>)" for s
    by (rule closed) (simp_all add: w2)
  ultimately show ?thesis
    unfolding gsw_open_stream_def b t Let_def prod.case snd_conv if_distrib [of snd]
    by (auto intro!: set_wave_active_keeps)
qed

lemma open_keeps:
  assumes "driver_ok acc F w"
  shows "driver_ok acc F (snd (gsw_open e cb u p fl w))"
proof (cases "gsw_open_refused u p fl w")
  case (Some r)
  with assms show ?thesis by (simp add: gsw_open_def)
next
  case None
  let ?d = "waveopendescs (far w) p"
  let ?f = "waveformats (far w) (lpFormat ?d)"
  have z: "gsw_wave w = wave_zero"
    using open_not_refused(1) [OF None] assms core_closed by (auto simp: driver_ok_iff wave_ok_def)
  note f = format_supported_D [OF open_not_refused(2) [OF None]]
  have w0: "driver_ok acc F (w\<lparr>gsw_wave := wave_zero\<rparr>)" using assms z by (simp add: driver_ok_iff)
  obtain res r w1 where c: "call_pm e ((gsw_request_init GSW_SOUND_PM_OPEN)\<lparr>pm_sample_rate := nSamplesPerSec ?f,
      pm_channels := nChannels ?f, pm_bits_per_sample := wBitsPerSample ?f\<rparr>) (w\<lparr>gsw_wave := wave_zero\<rparr>) = (res, r, w1)"
    by (metis prod.collapse)
  have w1: "driver_ok acc F w1" "gsw_wave w1 = wave_zero"
    using w0 call_pm_D [OF c] by (simp_all add: driver_ok_iff)
  have "driver_ok acc F (gsw_close_stream e s w1)" for s using w1(1) by (simp add: driver_ok_iff)
  moreover have "driver_ok acc F (snd (gsw_open_stream e cb u ?d fl r w1))"
    if "pm_sample_rate r = nSamplesPerSec ?f" "pm_channels r = nChannels ?f" "pm_bits_per_sample r = wBitsPerSample ?f"
    by (rule open_stream_keeps [OF w1]) (use f that in simp_all)
  ultimately show ?thesis
    using w1(1) by (simp add: gsw_open_def None c [unfolded Let_def] Let_def del: insert_iff)
qed

lemma close_keeps:
  assumes "driver_ok acc F w"
  shows "driver_ok acc F (snd (gsw_close e cb w))"
proof (cases "w_open (gsw_wave w) \<and> w_queue_count (gsw_wave w) = 0")
  case False
  with assms show ?thesis by (auto simp: gsw_close_def)
next
  case True
  then have q: "queue_headers (gsw_wave w) = []"
    by (simp add: queue_headers_def wave_items_def ring_items_def)
  have "driver_ok acc F w'" if "gsw_wave w' = wave_zero" "gsw_mixer w' = gsw_mixer w"
      "taken_log w' = taken_log w" "returned_log w' = returned_log w" for w'
    using driver_set_wave [OF assms q wave_zero_ok(1) queue_headers_zero that] .
  note closed = this
  let ?r = "(gsw_request_init GSW_SOUND_PM_CLOSE)\<lparr>pm_stream_id := w_stream_id (gsw_wave (gsw_stop_timer e w))\<rparr>"
  obtain res r w1 where c: "call_pm e ?r (gsw_stop_timer e w) = (res, r, w1)" by (metis prod.collapse)
  have "driver_ok acc F (w1\<lparr>gsw_wave := wave_zero\<rparr>)"
    by (rule closed) (use call_pm_D [OF c] in simp_all)
  with True show ?thesis
    by (auto simp: gsw_close_def c Let_def split_beta intro!: callback_with_keeps set_wave_active_keeps)
qed

lemma enqueue_keeps:
  assumes "driver_ok acc F w" "w_open (gsw_wave w)" "w_queue_count (gsw_wave w) \<noteq> GSW_WAVE_QUEUE_CAPACITY"
    "h \<noteq> 0" "unat a + unat (dwBufferLength (wavehdrs (far w) h)) \<le> 2 ^ 32" "dwBufferLength (wavehdrs (far w) h) \<noteq> 0"
  shows "driver_ok acc F (gsw_enqueue h a b w)"
proof -
  let ?h = "wavehdrs (far w) h"
  let ?b = "\<lparr>b_header = h, b_buffer_linear = a, b_buffer_bytes = dwBufferLength ?h,
    b_header_flags = dwFlags ?h AND (WHDR_BEGINLOOP OR WHDR_ENDLOOP), b_loop_count = dwLoops ?h,
    b_submitted_bytes = 0, b_token = 0\<rparr>"
  have "buffer_ok ?b" using assms(4-6) by (simp add: buffer_ok_def word_gt_0)
  note p = push_buffer_ok [OF _ assms(2,3) this]
  show ?thesis
    using assms(1) p acc_take [of F _ _ _ h]
    by (simp add: gsw_enqueue_def Let_def driver_ok_iff) (simp add: wave_ok_def)
qed

lemma write_keeps:
  assumes "pending F" "driver_ok acc F w"
  shows "driver_ok acc F (snd (gsw_write e cb h w))"
proof (cases "gsw_write_refused h w")
  case (Some r)
  with assms show ?thesis by (simp add: gsw_write_def)
next
  case None
  let ?h = "wavehdrs (far w) h"
  obtain l w1 where s: "gsw_snapshot_buffer_linear e (lpData ?h) (dwBufferLength ?h) w = (l, w1)" by force
  have w1: "driver_ok acc F w1" using wave_quiet_keeps(7) [OF assms(2)] s by (metis snd_conv)
  have f: "gsw_wave w1 = gsw_wave w" "far w1 = far w"
    using arg_cong [OF s, of "\<lambda>x. gsw_wave (snd x)"] arg_cong [OF s, of "\<lambda>x. far (snd x)"]
    by (simp_all add: gsw_snapshot_buffer_linear_def Let_def split_beta split: if_splits option.splits)
  have o: "w_open (gsw_wave w)" "h \<noteq> 0" "w_queue_count (gsw_wave w) \<noteq> GSW_WAVE_QUEUE_CAPACITY"
    using None by (auto simp: gsw_write_refused_def Let_def split: if_splits)
  have "driver_ok acc F (gsw_enqueue h a b w1)" if "l = Some a" for a b
    by (rule enqueue_keeps [OF w1]) (use snapshot_linear [OF s [unfolded that]] o in \<open>simp_all add: f\<close>)
  with w1 assms(1) show ?thesis
    by (auto simp: gsw_write_def None s split: option.split intro!: pump_keeps)
qed

lemma reset_core:
  assumes "driver_ok acc F w"
  obtains r w1 where "\<And>cb'. gsw_reset e cb' w = (r, gsw_complete_all cb' w1)" "driver_core acc F w1" "taken_log w1 = taken_log w"
proof -
  obtain r w1 where s: "gsw_simple_stream_command e GSW_SOUND_PM_RESET w = (r, w1)" by force
  have w1: "driver_ok acc F w1" using wave_quiet_keeps(6) [OF assms] s by (metis snd_conv)
  have o: "w_open (gsw_wave w1)" if "r = MMSYSERR_NOERROR"
    using arg_cong [OF s, of fst] arg_cong [OF s, of "\<lambda>x. gsw_wave (snd x)"] that
    by (cases "w_open (gsw_wave w)")
      (simp_all add: gsw_simple_stream_command_def MMSYSERR_NOERROR_def MMSYSERR_INVALHANDLE_def split_beta)
  have t: "taken_log w1 = taken_log w"
    using arg_cong [OF s, of "\<lambda>x. taken_log (snd x)"] by (simp add: gsw_simple_stream_command_def split_beta Let_def split: if_splits)
  show ?thesis
    by (rule that [of r "if r = MMSYSERR_NOERROR then on_wave (\<lambda>g. g\<lparr>w_paused := False\<rparr>) w1 else w1"])
      (use driver_coreI [OF w1] driver_coreI [OF flag_keeps(1) [OF w1 o]] t in \<open>simp_all add: gsw_reset_def s\<close>)
qed

lemma reset_keeps:
  assumes "pending F" "driver_ok acc F w"
  shows "driver_ok acc F (snd (gsw_reset e cb w))"
  using reset_core [OF assms(2), of e] complete_all_keeps [OF assms(1)] by (metis snd_conv)

lemma wave_message_keeps:
  assumes "pending F" "driver_ok acc F w"
  shows "driver_ok acc F (snd (wodMessage e cb d m u one two w))"
proof -
  have "driver_ok acc F (snd (wodMessage_stream e cb m one two w))" if "w_open (gsw_wave w)"
    using assms that unfolding wodMessage_stream_def
    by (simp add: close_keeps write_keeps reset_keeps pause_keeps wave_quiet_keeps break_loop_keeps)
  then show ?thesis
    using assms unfolding wodMessage_def mm_return_def gsw_set_volume_def gsw_mixer_set_wave_volume_def
    by (simp add: gsw_wave_user_valid_def wave_quiet_keeps open_keeps set_control_keeps)
qed

lemma driver_proc_keeps: "driver_ok acc F w \<Longrightarrow> driver_ok acc F (snd (DriverProc e m w))"
  by (simp add: DriverProc_def Let_def split_beta mixer_initialize_keeps gsw_mixer_shutdown_def driver_mixer
      mixer_zero_def)

lemma perform_keeps:
  assumes "pending F" "driver_ok acc F w"
  shows "driver_ok acc F (win16_perform e cb ev w)"
  using assms by (cases ev) (simp_all add: wave_message_keeps mxdMessage_def mixer_message_keeps
      gsw_timer_callback_def pump_keeps driver_proc_keeps)

lemma performs_keep: "pending F \<Longrightarrow> driver_ok acc F w \<Longrightarrow> driver_ok acc F (fold (win16_perform e cb) evs w)"
  by (induction evs arbitrary: w) (auto intro: perform_keeps)

end

section \<open>Accounts\<close>

text \<open>
  Three accounts. The balance holds whatever the application does in its callbacks, calls into the
  driver included, and so does the debt: of the headers \<open>T\<close> taken up to some moment, each is
  returned or about to be. The order holds when callbacks do not call the driver: headers come
  back in the order in which they were taken.
\<close>

definition header_balance :: "u32 list \<Rightarrow> u32 list \<Rightarrow> u32 list \<Rightarrow> u32 list \<Rightarrow> bool" where
  "header_balance F t r q \<longleftrightarrow> mset t = mset r + mset F + mset q"

definition header_debt :: "u32 list \<Rightarrow> u32 list \<Rightarrow> u32 list \<Rightarrow> u32 list \<Rightarrow> u32 list \<Rightarrow> bool" where
  "header_debt T F t r q \<longleftrightarrow> (\<exists>later. t = T @ later) \<and> mset T \<subseteq># mset r + mset F"

definition header_order :: "u32 list \<Rightarrow> u32 list \<Rightarrow> u32 list \<Rightarrow> u32 list \<Rightarrow> bool" where
  "header_order F t r q \<longleftrightarrow> t = r @ F @ q"

lemma start_ok: "acc [] [] [] [] \<Longrightarrow> driver_ok acc [] (win16_start m s)"
  by (simp add: win16_start_def driver_ok_iff wave_zero_ok mixer_zero_def)

lemma app_callback_account:
  assumes "\<And>F h hs t r q. acc (F @ h # hs) t r q \<Longrightarrow> acc (F @ hs) t (r @ [h]) q"
    and "\<And>F t r q h. acc F t r q \<Longrightarrow> acc F (t @ [h]) r (q @ [h])"
    and "\<And>F t r hs q. acc F t r (hs @ q) \<Longrightarrow> acc (F @ hs) t r q"
  shows "header_account acc (\<lambda>_. True) (app_callback e app n)"
proof (induction n)
  case 0
  show ?case by unfold_locales (auto simp: assms)
next
  case (Suc n)
  show ?case by unfold_locales (simp_all add: header_account.performs_keep [OF Suc] assms)
qed

interpretation reentrant: header_account header_balance "\<lambda>_. True" "app_callback e app n" for e app n
  by (rule app_callback_account) (auto simp: header_balance_def)

interpretation debt: header_account "header_debt T" "\<lambda>_. True" "app_callback e app n" for T e app n
  by (rule app_callback_account) (auto simp: header_debt_def intro: subset_mset.order_trans)

interpretation ordered: header_account header_order "\<lambda>F. F = []" "memory_callback f h" for f h
  by unfold_locales (auto simp: header_order_def memory_callback_def driver_ok_iff)

lemma ordered_reachable: "driver_ok header_order [] (fold (win16_perform e (memory_callback f h)) evs (win16_start m s))"
  by (rule ordered.performs_keep) (simp_all add: start_ok header_order_def)

text \<open>
  C10. Whatever the application does, also from inside its callbacks, the driver keeps its
  invariant (both rings consistent, every queued header real, every buffer inside the linear
  address space, the schedule of the playing loop inside the queue), the mixer keeps its eight
  client slots, and no header is lost or returned twice: as multisets, the headers taken are the
  headers returned and the headers still queued.
\<close>

theorem wave_reachable_ok:
  "let w = fold (win16_perform e (app_callback e app n)) evs (win16_start m s) in
     wave_ok (gsw_wave w) \<and> length (mx_clients (gsw_mixer w)) = 8 \<and>
     mset (taken_log w) = mset (returned_log w) + mset (queue_headers (gsw_wave w))"
  using reentrant.performs_keep [of "[]" "win16_start m s" e e app n evs] start_ok [of header_balance m s]
  by (simp add: Let_def driver_ok_iff header_balance_def)

text \<open>
  C11. With callbacks that do not call back into the driver, the driver is a FIFO of headers: in
  every reachable state the headers taken are the headers returned followed by the queue, in
  the order of the queue.
\<close>

theorem wave_headers_fifo:
  "let w = fold (win16_perform e (memory_callback f h)) evs (win16_start m s) in
     taken_log w = returned_log w @ queue_headers (gsw_wave w)"
  using ordered_reachable [of e f h evs m s] by (simp add: Let_def driver_ok_iff header_order_def)

section \<open>Reset\<close>

lemma return_all_frame:
  "gsw_wave (gsw_return_all (memory_callback f h) c hs w) = gsw_wave w"
  "taken_log (gsw_return_all (memory_callback f h) c hs w) = taken_log w"
  by (induction hs arbitrary: w)
    (simp_all add: gsw_return_all_def gsw_return_header_with_def gsw_callback_with_def memory_callback_def Let_def)

lemma complete_all_drains:
  "queue_headers (gsw_wave (gsw_complete_all (memory_callback f h) w)) = []"
  "taken_log (gsw_complete_all (memory_callback f h) w) = taken_log w"
  by (simp_all add: gsw_complete_all_def Let_def return_all_frame)
    (simp add: gsw_clear_queue_def queue_headers_def wave_items_def ring_items_def)

lemma reset_drains:
  "queue_headers (gsw_wave (snd (gsw_reset e (memory_callback f h) w))) = []"
  "taken_log (snd (gsw_reset e (memory_callback f h) w)) = taken_log w"
  by (simp_all add: gsw_reset_def gsw_simple_stream_command_def split_beta complete_all_drains)

lemma reset_debt:
  assumes "driver_ok header_balance [] w"
  shows "driver_ok (header_debt (taken_log w)) [] (snd (gsw_reset e (app_callback e app n) w))"
proof -
  from reentrant.reset_core [OF assms, where e = e] obtain r w1
    where w1: "\<And>cb'. gsw_reset e cb' w = (r, gsw_complete_all cb' w1)" "driver_core header_balance [] w1"
      "taken_log w1 = taken_log w"
    by metis
  have "header_debt (taken_log w) ([] @ queue_headers (gsw_wave w1)) (taken_log w1) (returned_log w1) []"
    using w1(2,3) by (simp add: header_debt_def driver_core_def header_balance_def)
  then show ?thesis
    using w1(2) debt.complete_all_from [where F = "[]" and w = w1 and T = "taken_log w" and e = e and app = app and n = n] by (simp add: w1(1) driver_core_def)
qed

text \<open>
  C12. A reset returns everything: from every reachable state, and whatever the virtual device
  answers to the request, every header taken before the reset has been returned when it ends.
  Where the callbacks call the driver themselves, to any depth, the queue then holds only headers
  that they queued during the reset; where they do not, no header is taken during the reset,
  the queue is empty, and all headers have come back in the order in which they were taken.
\<close>

theorem wave_reset_returns_all:
  "(let w = fold (win16_perform e (app_callback e app n)) evs (win16_start m s);
        w' = snd (gsw_reset e (app_callback e app n) w)
    in mset (taken_log w) \<subseteq># mset (returned_log w') \<and>
       (\<exists>later. taken_log w' = taken_log w @ later \<and> mset (queue_headers (gsw_wave w')) \<subseteq># mset later)) \<and>
   (let w = fold (win16_perform e (memory_callback f h)) evs (win16_start m s);
        w' = snd (gsw_reset e (memory_callback f h) w)
    in queue_headers (gsw_wave w') = [] \<and> taken_log w' = taken_log w \<and> returned_log w' = taken_log w)"
proof -
  let ?w = "fold (win16_perform e (app_callback e app n)) evs (win16_start m s)"
  let ?w' = "snd (gsw_reset e (app_callback e app n) ?w)"
  have b: "driver_ok header_balance [] ?w" by (rule reentrant.performs_keep) (simp_all add: start_ok header_balance_def)
  have b': "mset (taken_log ?w') = mset (returned_log ?w') + mset (queue_headers (gsw_wave ?w'))"
    using reentrant.reset_keeps [OF TrueI b, of e e app n] by (simp add: driver_ok_iff header_balance_def)
  from reset_debt [OF b, of e app n] obtain later where l: "taken_log ?w' = taken_log ?w @ later"
      "mset (taken_log ?w) \<subseteq># mset (returned_log ?w')" by (auto simp: driver_ok_iff header_debt_def)
  then obtain extra where "mset (returned_log ?w') = mset (taken_log ?w) + extra"
    by (auto simp: subset_mset.le_iff_add)
  then have "mset later = extra + mset (queue_headers (gsw_wave ?w'))" using b' l(1) by (simp add: ac_simps)
  with l have "mset (taken_log ?w) \<subseteq># mset (returned_log ?w') \<and>
      (\<exists>later. taken_log ?w' = taken_log ?w @ later \<and> mset (queue_headers (gsw_wave ?w')) \<subseteq># mset later)" by auto
  then show ?thesis
    using ordered.reset_keeps [OF refl ordered_reachable [of e f h evs m s], of e]
    by (simp add: Let_def driver_ok_iff header_order_def reset_drains)
qed

end
