(* ===== verification/Vbe_Overlay.thy ===== *)
theory Vbe_Overlay
  imports Vga_Correctness
begin

text \<open>
  Mode setting (\<^verbatim>\<open>overlay/vxd_vbe_gsw.c\<close>): the overlay wraps the upstream VBE driver and
  keeps the description of the framebuffer that all programs read, \<open>hda\<close>, on the framebuffer of
  the transport.

  The upstream driver (\<^verbatim>\<open>vxd_vbe.c\<close>) is not part of the repository: its entries are
  parameters that may do anything to its own variables and to the device, but cannot reach the
  file-scope variables of the transport.
\<close>

section \<open>State\<close>

text \<open>The fields of the upstream structure that the overlay uses; \<open>hda\<close> is null or points to it.\<close>

record FBHDA_t =
  hda_width :: u32
  hda_height :: u32
  hda_bpp :: u32
  hda_pitch :: u32
  hda_stride :: u32
  hda_surface :: u32
  vram_pm32 :: u32
  vram_phylin :: u32
  vram_pm16 :: u32
  vram_size :: u32
  vram_size_bar :: u32
  vram_size_virt :: u32
  vxdname :: "u8 list"

record 'b vbe_base =
  hda_set :: bool
  hda :: FBHDA_t
  wram_set :: bool
  vbe_is_valid :: bool
  vbe_chip_id :: u16
  upstream :: 'b

record ('b, 'd) vbe_world =
  base :: "'b vbe_base"
  gsw :: "'d gsw_world"

type_synonym ('b, 'd) upstream_step = "'b vbe_base \<times> 'd gsw_bus \<Rightarrow> bool \<times> 'b vbe_base \<times> 'd gsw_bus"

record ('b, 'd) vbe_env =
  transport_env :: "'d gsw_env"
  ThisVM :: u32
  wram_init :: "u32 \<Rightarrow> ('b, 'd) upstream_step"
  wram_release :: "'b vbe_base \<times> 'd gsw_bus \<Rightarrow> 'b vbe_base \<times> 'd gsw_bus"
  FBHDA_release_hw :: "'b vbe_base \<times> 'd gsw_bus \<Rightarrow> 'b vbe_base \<times> 'd gsw_bus"
  base_VBE_init_hw :: "('b, 'd) upstream_step"
  base_VBE_valid :: "('b, 'd) upstream_step"
  base_VBE_validmode :: "u32 \<Rightarrow> u32 \<Rightarrow> u32 \<Rightarrow> ('b, 'd) upstream_step"
  base_VBE_setmode :: "u32 \<Rightarrow> u32 \<Rightarrow> u32 \<Rightarrow> ('b, 'd) upstream_step"
  VBE_pitch :: "u32 \<Rightarrow> u32 \<Rightarrow> u32"
  update_pm16 :: "u32 \<Rightarrow> u32 \<Rightarrow> u32 \<Rightarrow> u32 \<Rightarrow> ('b, 'd) upstream_step"
  FBHDA_SWAP_QUERY :: u32
  outpw :: "u16 \<Rightarrow> u16 \<Rightarrow> 'b vbe_base \<times> 'd gsw_bus \<Rightarrow> 'b vbe_base \<times> 'd gsw_bus"

type_synonym ('b, 'd) vbe_step = "('b, 'd) vbe_world \<Rightarrow> bool \<times> ('b, 'd) vbe_world"

definition do_upstream ::
    "('b vbe_base \<times> 'd gsw_bus \<Rightarrow> 'b vbe_base \<times> 'd gsw_bus) \<Rightarrow> ('b, 'd) vbe_world \<Rightarrow> ('b, 'd) vbe_world" where
  "do_upstream f w = (let (b, d) = f (base w, bus (gsw w)) in w\<lparr>base := b, gsw := (gsw w)\<lparr>bus := d\<rparr>\<rparr>)"

definition on_upstream :: "('b, 'd) upstream_step \<Rightarrow> ('b, 'd) vbe_step" where
  "on_upstream f w =
     (let (result, b, d) = f (base w, bus (gsw w)) in (result, w\<lparr>base := b, gsw := (gsw w)\<lparr>bus := d\<rparr>\<rparr>))"

definition on_transport :: "('d gsw_world \<Rightarrow> 'a \<times> 'd gsw_world) \<Rightarrow> ('b, 'd) vbe_world \<Rightarrow> 'a \<times> ('b, 'd) vbe_world" where
  "on_transport f w = (let (result, g) = f (gsw w) in (result, w\<lparr>gsw := g\<rparr>))"

definition on_hda :: "(FBHDA_t \<Rightarrow> FBHDA_t) \<Rightarrow> ('b, 'd) vbe_world \<Rightarrow> ('b, 'd) vbe_world" where
  "on_hda f w = w\<lparr>base := (base w)\<lparr>hda := f (hda (base w))\<rparr>\<rparr>"

section \<open>Operations\<close>

text \<open>The port numbers and values of the Bochs VBE interface.\<close>

definition VBE_DISPI_IOPORT_INDEX :: u16 where "VBE_DISPI_IOPORT_INDEX = 0x01CE"
definition VBE_DISPI_IOPORT_DATA :: u16 where "VBE_DISPI_IOPORT_DATA = 0x01CF"
definition VBE_DISPI_INDEX_ENABLE :: u16 where "VBE_DISPI_INDEX_ENABLE = 4"
definition VBE_DISPI_DISABLED :: u16 where "VBE_DISPI_DISABLED = 0"

definition GSW_VBE_quiesce :: "('b, 'd) vbe_env \<Rightarrow> ('b, 'd) vbe_world \<Rightarrow> ('b, 'd) vbe_world" where
  "GSW_VBE_quiesce e w =
     do_upstream (outpw e VBE_DISPI_IOPORT_DATA VBE_DISPI_DISABLED)
       (do_upstream (outpw e VBE_DISPI_IOPORT_INDEX VBE_DISPI_INDEX_ENABLE) w)"

text \<open>\<open>gswmini.vxd\<close> with its terminating zero.\<close>

definition gsw_vxd_name :: "u8 list" where
  "gsw_vxd_name = [0x67, 0x73, 0x77, 0x6D, 0x69, 0x6E, 0x69, 0x2E, 0x76, 0x78, 0x64, 0]"

definition GSW_init_failure :: "('b, 'd) vbe_env \<Rightarrow> ('b, 'd) vbe_step" where
  "GSW_init_failure e w =
     (let w = w\<lparr>base := (base w)\<lparr>vbe_is_valid := False\<rparr>\<rparr>;
          w = w\<lparr>gsw := GSW_transport_shutdown (transport_env e) (gsw w)\<rparr>;
          w = do_upstream (FBHDA_release_hw e) w
      in (False, do_upstream (wram_release e) w))"

definition GSW_bind_framebuffer :: "('b, 'd) vbe_env \<Rightarrow> ('b, 'd) vbe_step" where
  "GSW_bind_framebuffer e w =
     (let framebuffer = GSW_transport_framebuffer (gsw w);
          framebuffer_bytes = GSW_transport_framebuffer_bytes (gsw w)
      in if \<not> hda_set (base w) \<or> framebuffer = 0 \<or> framebuffer_bytes = 0 then (False, w)
         else
           (let h = hda (base w);
                moved = (vram_pm32 h \<noteq> framebuffer \<or> vram_size_virt h \<noteq> framebuffer_bytes);
                (updated, w) = (if moved \<and> vram_pm16 h \<noteq> 0
                  then on_upstream (update_pm16 e (ThisVM e) (vram_pm16 h) framebuffer framebuffer_bytes) w
                  else (True, w))
            in if \<not> updated then (False, w)
               else (True, on_hda (\<lambda>h. h\<lparr>vram_pm32 := framebuffer, vram_phylin := framebuffer,
                       vram_size := framebuffer_bytes, vram_size_bar := framebuffer_bytes,
                       vram_size_virt := framebuffer_bytes\<rparr>) w)))"

definition VBE_init_hw :: "('b, 'd) vbe_env \<Rightarrow> ('b, 'd) vbe_step" where
  "VBE_init_hw e w =
     (let (memory, w) = (if wram_set (base w) then (True, w) else on_upstream (wram_init e (64 * 1024)) w) in
      if \<not> memory then (False, w)
      else
        (let (bound, w) = on_transport (GSW_transport_init (transport_env e)) w in
         if \<not> bound then GSW_init_failure e w
         else
           (let (ready, w) = on_upstream (base_VBE_init_hw e) w in
            if \<not> ready then GSW_init_failure e w
            else
              (let (shown, w) = GSW_bind_framebuffer e w in
               if \<not> shown then GSW_init_failure e w
               else
                 (let w = on_hda (\<lambda>h. h\<lparr>vxdname := gsw_vxd_name @ replicate (length (vxdname h) - 12) 0\<rparr>) w
                  in (True, w\<lparr>base := (base w)\<lparr>vbe_chip_id := GSW_PCI_DEVICE_ID\<rparr>\<rparr>))))))"

definition VBE_valid :: "('b, 'd) vbe_env \<Rightarrow> ('b, 'd) vbe_step" where
  "VBE_valid e w = (if GSW_transport_ready (gsw w) then on_upstream (base_VBE_valid e) w else (False, w))"

definition VBE_validmode :: "('b, 'd) vbe_env \<Rightarrow> u32 \<Rightarrow> u32 \<Rightarrow> u32 \<Rightarrow> ('b, 'd) vbe_step" where
  "VBE_validmode e width height bpp w =
     (if \<not> GSW_transport_ready (gsw w) \<or> \<not> hda_set (base w) then (False, w)
      else
        (let (valid, w) = on_upstream (base_VBE_validmode e width height bpp) w in
         if \<not> valid then (False, w)
         else (GSW_transport_mode_valid width height (VBE_pitch e width bpp) bpp (gsw w), w)))"

definition VBE_setmode :: "('b, 'd) vbe_env \<Rightarrow> u32 \<Rightarrow> u32 \<Rightarrow> u32 \<Rightarrow> ('b, 'd) vbe_step" where
  "VBE_setmode e width height bpp w =
     (let (bound, w) = on_transport (GSW_transport_rebind (transport_env e)) w in
      if \<not> bound then (False, w)
      else
        (let (shown, w) = GSW_bind_framebuffer e w in
         if \<not> shown then (False, w)
         else
           (let (valid, w) = VBE_validmode e width height bpp w in
            if \<not> valid then (False, w)
            else
              (let (programmed, w) = on_upstream (base_VBE_setmode e width height bpp) w in
               if \<not> programmed then (False, w)
               else
                 (let h = hda (base w);
                      (moded, w) = on_transport (GSW_transport_set_mode (transport_env e)
                        (hda_width h) (hda_height h) (hda_pitch h) (hda_bpp h)) w
                  in if \<not> moded then (False, w)
                     else on_transport (GSW_transport_present (transport_env e) 0
                        (hda_width h) (hda_height h) (hda_pitch h) (hda_bpp h)) w)))))"

definition FBHDA_swap :: "('b, 'd) vbe_env \<Rightarrow> u32 \<Rightarrow> u32 \<Rightarrow> ('b, 'd) vbe_step" where
  "FBHDA_swap e offset flags w =
     (if flags AND FBHDA_SWAP_QUERY e \<noteq> 0
      then (GSW_transport_ready (gsw w) \<and>
            GSW_transport_capabilities (gsw w) AND GSW_VGA_CAP_SURFACE_OFFSET \<noteq> 0, w)
      else
        (let h = hda (base w) in
         if \<not> GSW_transport_ready (gsw w) \<or> \<not> hda_set (base w) \<or> offset > vram_size h \<or>
            hda_stride h > vram_size h - offset
         then (False, w)
         else
           (let (presented, w) = on_transport (GSW_transport_present (transport_env e) offset
                  (hda_width h) (hda_height h) (hda_pitch h) (hda_bpp h)) w
            in if \<not> presented then (False, w)
               else (True, on_hda (\<lambda>h. h\<lparr>hda_surface := offset\<rparr>) w))))"

section \<open>The entries as events\<close>

datatype vbe_call =
    Vbe_Init
  | Vbe_Valid
  | Vbe_Valid_Mode u32 u32 u32
  | Vbe_Set_Mode u32 u32 u32
  | Vbe_Swap u32 u32
  | Vbe_Quiesce
  | Vbe_Transport vga_call

fun vbe_perform :: "('b, 'd) vbe_env \<Rightarrow> vbe_call \<Rightarrow> ('b, 'd) vbe_world \<Rightarrow> ('b, 'd) vbe_world" where
  "vbe_perform e Vbe_Init w = snd (VBE_init_hw e w)"
| "vbe_perform e Vbe_Valid w = snd (VBE_valid e w)"
| "vbe_perform e (Vbe_Valid_Mode a b c) w = snd (VBE_validmode e a b c w)"
| "vbe_perform e (Vbe_Set_Mode a b c) w = snd (VBE_setmode e a b c w)"
| "vbe_perform e (Vbe_Swap a b) w = snd (FBHDA_swap e a b w)"
| "vbe_perform e Vbe_Quiesce w = GSW_VBE_quiesce e w"
| "vbe_perform e (Vbe_Transport c) w = w\<lparr>gsw := vga_perform (transport_env e) c (gsw w)\<rparr>"

definition vbe_start :: "'b vbe_base \<Rightarrow> 'd gsw_bus \<Rightarrow> ('b, 'd) vbe_world" where
  "vbe_start b d = \<lparr>base = b, gsw = vga_start d\<rparr>"

text \<open>What the upstream driver does cannot change the transport's own variables.\<close>

lemma bus_ok [simp]: "vga_ok (g\<lparr>bus := d\<rparr>) = vga_ok g"
  by (simp add: vga_ok_def gsw3d_ok_def)

lemma upstream_frame [simp]:
  "vga_ok (gsw (do_upstream f w)) = vga_ok (gsw w)" "vga_ok (gsw (snd (on_upstream s w))) = vga_ok (gsw w)"
  "vga (gsw (do_upstream f w)) = vga (gsw w)" "vga (gsw (snd (on_upstream s w))) = vga (gsw w)"
  by (simp_all add: do_upstream_def on_upstream_def Let_def split_beta)

lemma hda_frame [simp]:
  "gsw (on_hda f w) = gsw w" "hda (base (on_hda f w)) = f (hda (base w))" "hda_set (base (on_hda f w)) = hda_set (base w)"
  by (simp_all add: on_hda_def)

lemma transport_step_simps [simp]:
  "gsw (snd (on_transport f w)) = snd (f (gsw w))" "base (snd (on_transport f w)) = base w"
  "fst (on_transport f w) = fst (f (gsw w))"
  by (simp_all add: on_transport_def Let_def split_beta)

lemma ready_frame [simp]:
  "GSW_transport_ready (gsw (snd (on_upstream s w))) = GSW_transport_ready (gsw w)"
  "GSW_transport_framebuffer (gsw (snd (on_upstream s w))) = GSW_transport_framebuffer (gsw w)"
  "GSW_transport_framebuffer_bytes (gsw (snd (on_upstream s w))) = GSW_transport_framebuffer_bytes (gsw w)"
  by (simp_all add: GSW_transport_ready_def GSW_transport_framebuffer_def GSW_transport_framebuffer_bytes_def)

lemma bind_framebuffer_frame [simp]:
  "vga_ok (gsw (snd (GSW_bind_framebuffer e w))) = vga_ok (gsw w)"
  "vga (gsw (snd (GSW_bind_framebuffer e w))) = vga (gsw w)"
  by (simp_all add: GSW_bind_framebuffer_def Let_def split_beta)

lemma init_failure_ok: "vga_ok (gsw w) \<Longrightarrow> vga_ok (gsw (snd (GSW_init_failure e w)))"
  by (simp add: GSW_init_failure_def Let_def shutdown_ok)

lemma validmode_frame [simp]:
  "vga_ok (gsw (snd (VBE_validmode e a b c w))) = vga_ok (gsw w)" "vga (gsw (snd (VBE_validmode e a b c w))) = vga (gsw w)"
  by (simp_all add: VBE_validmode_def Let_def split_beta)

lemma vbe_init_ok:
  assumes "vga_ok (gsw w)"
  shows "vga_ok (gsw (snd (VBE_init_hw e w)))"
proof -
  obtain memory w1 where s1: "(if wram_set (base w) then (True, w) else on_upstream (wram_init e (64 * 1024)) w) = (memory, w1)"
    by fastforce
  obtain bound w2 where s2: "on_transport (GSW_transport_init (transport_env e)) w1 = (bound, w2)" by fastforce
  obtain ready w3 where s3: "on_upstream (base_VBE_init_hw e) w2 = (ready, w3)" by fastforce
  obtain shown w4 where s4: "GSW_bind_framebuffer e w3 = (shown, w4)" by fastforce
  have o1: "vga_ok (gsw w1)" using assms arg_cong [OF s1, of snd] by (auto split: if_splits)
  have o2: "vga_ok (gsw w2)"
    using initialize_ok [OF o1] transport_step_simps(1) [of "GSW_transport_init (transport_env e)" w1]
    by (simp add: s2 GSW_transport_init_def)
  have o3: "vga_ok (gsw w3)" using o2 upstream_frame(2) [of "base_VBE_init_hw e" w2] by (simp add: s3)
  have o4: "vga_ok (gsw w4)" using o3 bind_framebuffer_frame(1) [of e w3] by (simp add: s4)
  show ?thesis
    unfolding VBE_init_hw_def s1 Let_def prod.case s2 s3 s4
    using o1 o2 o3 o4 by (simp add: init_failure_ok)
qed

lemma vbe_setmode_ok:
  "vga_ok (gsw w) \<Longrightarrow> vga_ok (gsw (snd (VBE_setmode e a b d w)))"
  by (simp add: VBE_setmode_def Let_def split_beta GSW_transport_rebind_def initialize_ok request_ok)

lemma vbe_perform_ok: "vga_ok (gsw w) \<Longrightarrow> vga_ok (gsw (vbe_perform e c w))"
  by (cases c) (simp_all add: vbe_init_ok vbe_setmode_ok VBE_valid_def FBHDA_swap_def GSW_VBE_quiesce_def Let_def
      split_beta request_ok perform_vga_ok)

interpretation vbe: started_component "vbe_perform e" "\<lambda>w. vga_ok (gsw w)" "vbe_start b d"
  for e :: "('b, 'd) vbe_env" and b d
  by unfold_locales (simp_all add: vbe_perform_ok vbe_start_def transports.start_ok)

section \<open>Properties\<close>

text \<open>
  Mode setting over the transport: whatever the upstream driver, the device and Windows do, any
  sequence of mode-setting entries and transport calls keeps the invariant of both transports.
\<close>

theorem vbe_reachable_ok: "vga_ok (gsw (fold (vbe_perform e) calls (vbe_start b d)))"
  by (rule vbe.reachable_ok)

lemma submit_fields2d [simp]:
  "gsw_framebuffer_size (vga (snd (gsw_submit e c g))) = gsw_framebuffer_size (vga g)"
  "gsw_is_ready (vga (snd (gsw_submit e c g))) = gsw_is_ready (vga g)"
  by (simp_all add: gsw_submit_def Let_def split_beta)

lemma submit_effect:
  "submission_effect (fst (gsw_submit e c g)) (vga g) (vga (snd (gsw_submit e c g)))"
  "vga3d (snd (gsw_submit e c g)) = vga3d g"
  using submit2d_effect [of e c "snd (gsw_begin g)"]
  by (simp_all add: gsw_submit_def Let_def split_beta submission_effect.refused)

text \<open>
  What a flip may show: a whole stride of the memory and a scan-out area inside the framebuffer, by
  the geometry of the shared description.
\<close>

definition flip_inside :: "u32 \<Rightarrow> ('b, 'd) vbe_world \<Rightarrow> bool" where
  "flip_inside offset w \<longleftrightarrow>
     (let h = hda (base w); g = vga (gsw w)
      in gsw_is_ready g \<and> hda_set (base w) \<and> unat offset + unat (hda_stride h) \<le> unat (vram_size h) \<and>
         gsw_scanout_valid (gsw_framebuffer_size g) offset (hda_pitch h) (hda_width h) (hda_height h) (hda_bpp h))"

text \<open>
  C27. A page flip shows only memory inside the framebuffer. A query changes nothing and answers
  whether the device can flip. A flip to an area that does not lie inside the framebuffer, or
  whose stride does not lie inside the memory, fails and changes nothing at all. Any other flip is
  one submission: where it succeeds the transport has taken one command and the area is recorded as
  the visible surface; where it fails the description of the framebuffer and the 3D transport stay
  as they were, and of the 2D transport's own state at most the tail of the ring changes.
\<close>

theorem vbe_swap_inside:
  "let (ok, w') = FBHDA_swap e offset flags w; h = hda (base w) in
   (if flags AND FBHDA_SWAP_QUERY e \<noteq> 0
    then w' = w \<and> ok = (gsw_is_ready (vga (gsw w)) \<and> gsw_capabilities (vga (gsw w)) AND GSW_VGA_CAP_SURFACE_OFFSET \<noteq> 0)
    else if flip_inside offset w
    then submission_effect ok (vga (gsw w)) (vga (gsw w')) \<and> vga3d (gsw w') = vga3d (gsw w) \<and>
      base w' = (if ok then (base w)\<lparr>hda := h\<lparr>hda_surface := offset\<rparr>\<rparr> else base w)
    else \<not> ok \<and> w' = w)"
proof (cases "flags AND FBHDA_SWAP_QUERY e \<noteq> 0")
  case True
  then show ?thesis by (simp add: FBHDA_swap_def GSW_transport_ready_def GSW_transport_capabilities_def Let_def split_beta)
next
  case False
  let ?h = "hda (base w)"
  have "offset \<le> vram_size ?h \<and> hda_stride ?h \<le> vram_size ?h - offset \<longleftrightarrow>
      unat offset + unat (hda_stride ?h) \<le> unat (vram_size ?h)"
    by (auto simp: word_le_nat_alt unat_sub)
  with False submit_effect(1) [of "transport_env e" "new_command GSW_VGA_OPCODE_PRESENT (GSWPresentCommand offset (hda_width ?h)
      (hda_height ?h) (hda_pitch ?h) (gsw_pixel_format (hda_bpp ?h)))" "gsw w"] show ?thesis
    by (auto simp: FBHDA_swap_def flip_inside_def Let_def split_beta on_hda_def GSW_transport_ready_def
        GSW_transport_present_def submit_effect(2) on_transport_def linorder_not_less)
qed

text \<open>
  A mode set that succeeds leaves a mode the device can scan out: the transport is bound, and
  the geometry the upstream driver left in the shared description lies inside the framebuffer from
  its first byte on.
\<close>

theorem vbe_setmode_inside:
  "let w = fold (vbe_perform e) calls (vbe_start b d); (ok, w') = VBE_setmode e width height bpp w; h = hda (base w') in
   vga_ok (gsw w') \<and>
   (if ok
    then gsw_is_ready (vga (gsw w')) \<and>
      gsw_scanout_valid (gsw_framebuffer_size (vga (gsw w'))) 0 (hda_pitch h) (hda_width h) (hda_height h) (hda_bpp h)
    else True)"
proof -
  have "vga_ok (gsw (snd (VBE_setmode e width height bpp (fold (vbe_perform e) calls (vbe_start b d)))))"
    by (intro vbe_setmode_ok vbe.reachable_ok)
  moreover have "fst (VBE_setmode e width height bpp w) \<Longrightarrow>
      (let w' = snd (VBE_setmode e width height bpp w); h = hda (base w') in gsw_is_ready (vga (gsw w')) \<and>
      gsw_scanout_valid (gsw_framebuffer_size (vga (gsw w'))) 0 (hda_pitch h) (hda_width h) (hda_height h) (hda_bpp h))" for w
    by (auto simp: VBE_setmode_def Let_def split_beta GSW_transport_present_def GSW_transport_set_mode_def
      GSW_transport_mode_valid_def GSW_transport_ready_def split: if_splits)
  ultimately show ?thesis by (simp add: Let_def split_beta)
qed

end
