(* ===== verification/Gdi_Frontend.thy ===== *)
theory Gdi_Frontend
  imports Vga_Correctness
begin

text \<open>
  The GDI front end: the 16-bit display driver offers each blit to the device
  (\<^verbatim>\<open>overlay/gsw_gdi.c\<close>), through the protected-mode entry of the display VxD
  (\<^verbatim>\<open>overlay/pm16_calls_gsw.c\<close> on the driver's side, the cases that
  \<^verbatim>\<open>patches/0008-gsw-gdi-rop3.patch\<close> adds to the dispatcher on the other), and leaves to the DIB
  engine of Windows what the device does not take.

  Windows, its DIB engine, the upstream driver and the rest of the VxD are the machine \<open>'s\<close>; the
  environment reads structures from it and calls into it. The constants of \<^verbatim>\<open>dibeng.h\<close> and the
  sizes of its structures are parameters too.
\<close>

section \<open>State\<close>

text \<open>The fields of a device that the front end reads. A far pointer is a doubleword, null is 0.\<close>

record DIBENGINE =
  deType :: u16
  deWidth :: u16
  deHeight :: u16
  deBitsPixel :: u8
  deDeltaScan :: u32
  deBitsOffset :: u32
  deFlags :: u16
  deBeginAccess :: u32
  deEndAccess :: u32

text \<open>
  A brush. The structures \<open>DIB_Brush8\<close> to \<open>DIB_Brush32\<close> share the prefix and differ in where the
  pixels start: \<open>brush_bits\<close> is, for a depth, the memory from there on.
\<close>

record DIB_Brush =
  brush_flags :: u16
  brush_bpp :: u16
  brush_style :: u16
  brush_bits :: "u16 \<Rightarrow> u16 \<Rightarrow> u8"

record BitBlt_args =
  bb_destination :: u32
  bb_destination_x :: u16
  bb_destination_y :: u16
  bb_source :: u32
  bb_source_x :: u16
  bb_source_y :: u16
  bb_width :: u16
  bb_height :: u16
  bb_rop3 :: u32
  bb_brush :: u32
  bb_draw_mode :: u32

record 's gdi_env =
  TYPE_DIBENG :: u16
  VRAM :: u16
  BANKEDVRAM :: u16
  BANKEDSCAN :: u16
  NOT_FRAMEBUFFER :: u16
  BUSY :: u16
  FIVE6FIVE :: u16
  BS_SOLID :: u16
  BS_PATTERN :: u16
  PATTERNMONO :: u16
  MASKVALID :: u16
  COLORSOLID :: u16
  CURSOREXCLUDE :: u16
  dibengine :: "u32 \<Rightarrow> 's \<Rightarrow> DIBENGINE"
  dib_brush :: "u32 \<Rightarrow> 's \<Rightarrow> DIB_Brush"
  begin_access :: "u32 \<Rightarrow> u32 \<Rightarrow> u16 \<Rightarrow> u16 \<Rightarrow> u16 \<Rightarrow> u16 \<Rightarrow> u16 \<Rightarrow> 's \<Rightarrow> 's"
  end_access :: "u32 \<Rightarrow> u32 \<Rightarrow> u16 \<Rightarrow> 's \<Rightarrow> 's"
  DIB_BitBlt :: "BitBlt_args \<Rightarrow> 's \<Rightarrow> bool \<times> 's"
  VXD_VM_connect :: "'s \<Rightarrow> (bool \<times> u32) \<times> 's"
  DPMI_GetSegBase :: "u16 \<Rightarrow> 's \<Rightarrow> u32 \<times> 's"
  vxd_call :: "u32 \<Rightarrow> u32 \<Rightarrow> u32 \<Rightarrow> u32 option \<Rightarrow> 's \<Rightarrow> (bool \<times> u32) \<times> 's"
  command_pointer :: u32
  store_command :: "u32 list \<Rightarrow> 's \<Rightarrow> 's"

text \<open>
  \<open>begin_access f\<close> and \<open>end_access f\<close> call the function at the far pointer \<open>f\<close>. \<open>vxd_call\<close> calls
  the entry of the VxD with EDX, ECX and, where the caller sets it, ESI, and returns the carry
  flag and ECX. The static \<open>gsw_gdi_command\<close> lies at \<open>command_pointer\<close> in the data segment of the
  driver, which the machine sees: \<open>store_command\<close> stores its doublewords there.
\<close>

record gdi_command =
  gc_header :: GSWCommandHeader
  gc_blt :: GSWGdiBltCommand

record 's gdi_world =
  VXD_VM :: u32
  vxd_fbhda16 :: u32
  vxd_fbhda32 :: u32
  vxd_mouse16 :: u32
  pm16_capabilities :: u32
  request_base :: u32
  request_selector :: u16
  gsw_gdi_command :: gdi_command
  machine :: 's

type_synonym ('s, 'a) gdi_step = "'s gdi_world \<Rightarrow> 'a \<times> 's gdi_world"

definition on_machine :: "('s \<Rightarrow> 'a \<times> 's) \<Rightarrow> ('s, 'a) gdi_step" where
  "on_machine f w = (let (r, s) = f (machine w) in (r, w\<lparr>machine := s\<rparr>))"

definition do_machine :: "('s \<Rightarrow> 's) \<Rightarrow> 's gdi_world \<Rightarrow> 's gdi_world" where
  "do_machine f w = w\<lparr>machine := f (machine w)\<rparr>"

definition GSW_GDI_PM16_QUERY :: u32 where "GSW_GDI_PM16_QUERY = 0x47B0"
definition GSW_GDI_PM16_SUBMIT :: u32 where "GSW_GDI_PM16_SUBMIT = 0x47B1"

section \<open>Calls into the VxD\<close>

definition GSW_PM16_reconnect :: "'s gdi_env \<Rightarrow> ('s, bool) gdi_step" where
  "GSW_PM16_reconnect e w =
     (let w = w\<lparr>VXD_VM := 0, vxd_fbhda16 := 0, vxd_fbhda32 := 0, vxd_mouse16 := 0\<rparr>;
          ((connected, entry), w) = on_machine (VXD_VM_connect e) w
      in (connected, w\<lparr>VXD_VM := entry\<rparr>))"


definition GSW_PM16_submit :: "'s gdi_env \<Rightarrow> u32 \<Rightarrow> ('s, bool) gdi_step" where
  "GSW_PM16_submit e request w =
     (if VXD_VM w = 0 \<or> request = 0 then (False, w)
      else
        (let selector = ucast (drop_bit 16 request) :: u16;
             w = (if request_base w = 0 \<or> request_selector w \<noteq> selector
                  then (let w = w\<lparr>request_selector := selector\<rparr>;
                            (base, w) = on_machine (DPMI_GetSegBase e selector) w
                        in w\<lparr>request_base := base\<rparr>)
                  else w);
             request_linear = request_base w + ucast (ucast request :: u16);
             ((failed, result), w) = on_machine
               (vxd_call e (VXD_VM w) GSW_GDI_PM16_SUBMIT 324 (Some request_linear)) w
         in (\<not> failed \<and> result \<noteq> 0, w)))"

text \<open>The buffer pointer and the linear address that the upstream mouse code is told.\<close>

definition mouse_buffer :: "u32 \<times> u32" where
  "mouse_buffer = (0, 0)"

section \<open>Validation and the command\<close>

definition gdi_source_dependent :: "u8 \<Rightarrow> bool" where
  "gdi_source_dependent rop \<longleftrightarrow> (rop XOR drop_bit 2 rop) AND 0x33 \<noteq> 0"

definition gdi_pattern_dependent :: "u8 \<Rightarrow> bool" where
  "gdi_pattern_dependent rop \<longleftrightarrow> (rop XOR drop_bit 4 rop) AND 0x0F \<noteq> 0"

definition gsw_gdi_mask :: "u16 \<Rightarrow> u32" where
  "gsw_gdi_mask bpp =
     (if bpp = 8 then 0x000000FF else if bpp = 16 then 0x0000FFFF
      else if bpp = 24 then 0x00FFFFFF else if bpp = 32 then 0xFFFFFFFF else 0)"

definition gsw_gdi_format :: "'s gdi_env \<Rightarrow> 's \<Rightarrow> u32 \<Rightarrow> u32" where
  "gsw_gdi_format e s device =
     (if device = 0 then 0
      else
        (let d = dibengine e device s in
         if deBitsPixel d = 8 then GSW_PIXEL_FORMAT_INDEXED_8
         else if deBitsPixel d = 16
         then (if deFlags d AND FIVE6FIVE e \<noteq> 0 then GSW_PIXEL_FORMAT_RGB_565 else 0)
         else if deBitsPixel d = 24 then GSW_PIXEL_FORMAT_RGB_888
         else if deBitsPixel d = 32 then GSW_PIXEL_FORMAT_XRGB_8888 else 0))"

definition gsw_gdi_device_valid ::
    "'s gdi_env \<Rightarrow> 's \<Rightarrow> u32 \<Rightarrow> u16 \<Rightarrow> u16 \<Rightarrow> u16 \<Rightarrow> u16 \<Rightarrow> bool" where
  "gsw_gdi_device_valid e s device x y width height =
     (let rejected = BANKEDVRAM e OR BANKEDSCAN e OR NOT_FRAMEBUFFER e OR BUSY e;
          d = dibengine e device s
      in \<not> (device = 0 \<or> deType d \<noteq> TYPE_DIBENG e \<or> width = 0 \<or> height = 0 \<or>
            deFlags d AND VRAM e = 0 \<or> deFlags d AND rejected \<noteq> 0 \<or>
            deDeltaScan d = 0 \<or> sint (deDeltaScan d) < 0 \<or>
            deBeginAccess d = 0 \<or> deEndAccess d = 0 \<or>
            gsw_gdi_format e s device = 0 \<or>
            x > deWidth d \<or> width > deWidth d - x \<or>
            y > deHeight d \<or> height > deHeight d - y))"

lemma next_index: "unat index < unat bytes \<Longrightarrow> unat (index + 1) = Suc (unat index)" for index bytes :: u16
  using unsigned_less [of bytes, where ?'a = nat] by (simp add: unat_word_ariths)

text \<open>The loop over the bytes of a pixel, from \<open>index\<close> on.\<close>

function gsw_gdi_read_pixel :: "(u16 \<Rightarrow> u8) \<Rightarrow> u16 \<Rightarrow> u16 \<Rightarrow> u32 \<Rightarrow> u32" where
  "gsw_gdi_read_pixel source bytes index val =
     (if index < bytes
      then gsw_gdi_read_pixel source bytes (index + 1)
             (val OR push_bit (unat (index * 8)) (ucast (source index)))
      else val)"
  by pat_completeness auto
termination
  by (relation "measure (\<lambda>(_, bytes, index, _). unat bytes - unat index)")
     (auto simp: word_less_nat_alt next_index)

declare gsw_gdi_read_pixel.simps [simp del]

definition gsw_gdi_pattern_bits :: "DIB_Brush \<Rightarrow> u16 \<Rightarrow> (u16 \<Rightarrow> u8) option" where
  "gsw_gdi_pattern_bits brush bpp = (if bpp \<in> {8, 16, 24, 32} then Some (brush_bits brush bpp) else None)"

definition gsw_gdi_pattern ::
    "'s gdi_env \<Rightarrow> 's \<Rightarrow> u32 \<Rightarrow> u16 \<Rightarrow> GSWGdiBltCommand \<Rightarrow> bool \<times> GSWGdiBltCommand" where
  "gsw_gdi_pattern e s brush bpp command =
     (let prefix = dib_brush e brush s;
          mask = gsw_gdi_mask bpp;
          bytes = drop_bit 3 (bpp + 7)
      in if brush = 0 \<or> brush_bpp prefix \<noteq> bpp \<or> mask = 0 \<or>
            (brush_style prefix \<noteq> BS_SOLID e \<and> brush_style prefix \<noteq> BS_PATTERN e) \<or>
            brush_flags prefix AND (PATTERNMONO e OR MASKVALID e) \<noteq> 0
         then (False, command)
         else
           (let command = command\<lparr>gd_flags := gd_flags command OR GSW_GDI_PATTERN_VALID\<rparr> in
            case gsw_gdi_pattern_bits prefix bpp of
              None \<Rightarrow> (False, command)
            | Some bits \<Rightarrow>
                if brush_flags prefix AND COLORSOLID e \<noteq> 0
                then (True, command\<lparr>gd_pattern := map (\<lambda>index.
                        gsw_gdi_read_pixel bits bytes 0 0 AND mask) [0..<GSW_GDI_PATTERN_PIXELS]\<rparr>)
                else (True, command\<lparr>gd_pattern := map (\<lambda>index.
                        gsw_gdi_read_pixel (\<lambda>i. bits (of_nat index * bytes + i)) bytes 0 0 AND mask)
                        [0..<GSW_GDI_PATTERN_PIXELS]\<rparr>)))"

section \<open>Cursor exclusion\<close>



section \<open>The blit\<close>

text \<open>The doublewords of the command, header included.\<close>

definition GSWGdiBltCommand_dwords :: "gdi_command \<Rightarrow> u32 list" where
  "GSWGdiBltCommand_dwords c =
     [ucast (opcode (gc_header c)) OR push_bit 16 (ucast (version (gc_header c))), cmd_length (gc_header c),
      fence_low (gc_header c), fence_high (gc_header c)] @ GSWGdiBlt_body (gc_blt c)"

definition set_command :: "'s gdi_env \<Rightarrow> GSWGdiBltCommand \<Rightarrow> 's gdi_world \<Rightarrow> 's gdi_world" where
  "set_command e b w =
     (let c = \<lparr>gc_header = (gc_header (gsw_gdi_command w))\<lparr>opcode := GSW_VGA_OPCODE_GDI_BLT\<rparr>, gc_blt = b\<rparr>
      in do_machine (store_command e (GSWGdiBltCommand_dwords c)) (w\<lparr>gsw_gdi_command := c\<rparr>))"

definition gsw_gdi_fill_command :: "DIBENGINE \<Rightarrow> DIBENGINE \<Rightarrow> BitBlt_args \<Rightarrow> u32 \<Rightarrow> bool \<Rightarrow> GSWGdiBltCommand \<Rightarrow> GSWGdiBltCommand" where
  "gsw_gdi_fill_command destination source a format source_needed c =
     (let c = c\<lparr>gd_flags := 0, gd_destination_offset := deBitsOffset destination,
            gd_destination_pitch := deDeltaScan destination, gd_destination_x := ucast (bb_destination_x a),
            gd_destination_y := ucast (bb_destination_y a), gd_width := ucast (bb_width a),
            gd_height := ucast (bb_height a), gd_format := format,
            gd_rop3 := ucast (ucast (drop_bit 16 (bb_rop3 a)) :: u8)\<rparr>
      in if source_needed
         then c\<lparr>gd_flags := gd_flags c OR GSW_GDI_SOURCE_VALID, gd_source_offset := deBitsOffset source,
            gd_source_pitch := deDeltaScan source, gd_source_x := ucast (bb_source_x a),
            gd_source_y := ucast (bb_source_y a)\<rparr>
         else c)"



section \<open>The other side of the call\<close>

text \<open>
  The machine as the display VxD sees it: the linear memory, its own variables, and the rest. The
  dispatcher of the upstream VxD, a parameter, is extended by two cases; a normal return clears
  the carry flag.
\<close>

record ('r, 'd) gdi_machine =
  linear_memory :: "u32 \<Rightarrow> u8"
  display :: "'d gsw_world"
  others :: 'r

definition GSWGdiBltCommand_of :: "u32 list \<Rightarrow> GSWGdiBltCommand" where
  "GSWGdiBltCommand_of ws =
     \<lparr>gd_source_offset = ws ! 4, gd_destination_offset = ws ! 5, gd_source_pitch = ws ! 6,
      gd_destination_pitch = ws ! 7, gd_source_x = ws ! 8, gd_source_y = ws ! 9, gd_destination_x = ws ! 10,
      gd_destination_y = ws ! 11, gd_width = ws ! 12, gd_height = ws ! 13, gd_format = ws ! 14,
      gd_flags = ws ! 15, gd_rop3 = ws ! 16, gd_pattern = take GSW_GDI_PATTERN_PIXELS (drop 17 ws)\<rparr>"

definition VXD_API_Proc_gsw ::
    "'d gsw_env \<Rightarrow> (u32 \<Rightarrow> u32 \<Rightarrow> u32 option \<Rightarrow> ('r, 'd) gdi_machine \<Rightarrow> (bool \<times> u32) \<times> ('r, 'd) gdi_machine) \<Rightarrow>
     u32 \<Rightarrow> u32 \<Rightarrow> u32 option \<Rightarrow> ('r, 'd) gdi_machine \<Rightarrow> (bool \<times> u32) \<times> ('r, 'd) gdi_machine" where
  "VXD_API_Proc_gsw t upstream edx ecx esi m =
     (if edx = GSW_GDI_PM16_QUERY
      then ((False, GSW_transport_capabilities (display m) AND
              (GSW_VGA_CAP_GDI_ROP3 OR GSW_VGA_CAP_GDI_FAST_DOORBELL OR GSW_VGA_CAP_GDI_SYNC_COOKIE)), m)
      else if edx = GSW_GDI_PM16_SUBMIT
      then (case esi of
              None \<Rightarrow> ((False, 0), m)
            | Some request_linear \<Rightarrow>
                if ecx = GSW_GDI_BLT_COMMAND_BYTES \<and> request_linear \<noteq> 0
                then
                  (let request = GSWGdiBltCommand_of (mem_dwords (linear_memory m) request_linear 81);
                       (taken, g) = GSW_transport_gdi_blt t request GSW_GDI_BLT_COMMAND_BYTES (display m)
                   in ((False, of_bool taken), m\<lparr>display := g\<rparr>))
                else ((False, 0), m))
      else upstream edx ecx esi m)"

text \<open>
  The front end on that machine: segments have fixed bases, the statics of the driver lie in linear
  memory, and the entry is the dispatcher above.
\<close>

definition command_linear :: "(u16 \<Rightarrow> u32) \<Rightarrow> u32 \<Rightarrow> u32" where
  "command_linear base pointer = base (ucast (drop_bit 16 pointer)) + ucast (ucast pointer :: u16)"

definition display_machine ::
    "(u16 \<Rightarrow> u32) \<Rightarrow> 'd gsw_env \<Rightarrow> (u32 \<Rightarrow> u32 \<Rightarrow> u32 option \<Rightarrow> ('r, 'd) gdi_machine \<Rightarrow> (bool \<times> u32) \<times> ('r, 'd) gdi_machine) \<Rightarrow>
     ('r, 'd) gdi_machine gdi_env \<Rightarrow> ('r, 'd) gdi_machine gdi_env" where
  "display_machine base t upstream e = e\<lparr>
     DPMI_GetSegBase := \<lambda>selector m. (base selector, m),
     vxd_call := \<lambda>entry. VXD_API_Proc_gsw t upstream,
     store_command := \<lambda>ws m. m\<lparr>linear_memory :=
       put_dwords (command_linear base (command_pointer e)) ws (linear_memory m)\<rparr>\<rparr>"

section \<open>Lemmas\<close>

lemma dependent_agree: "gdi_source_dependent = gsw_gdi_source_dependent" "gdi_pattern_dependent = gsw_gdi_pattern_dependent"
  by (simp_all add: fun_eq_iff gdi_source_dependent_def gsw_gdi_source_dependent_def gdi_pattern_dependent_def
      gsw_gdi_pattern_dependent_def)

lemma span_inside:
  "x \<le> limit \<Longrightarrow> width \<le> limit - x \<Longrightarrow> unat x + unat width \<le> unat limit" for x width limit :: u16
  by (simp add: word_le_nat_alt unat_sub)

lemma span_last:
  fixes x width limit :: u16
  assumes "width \<noteq> 0" "x \<le> limit" "width \<le> limit - x"
  shows "unat (x + width - 1) = unat x + unat width - 1"
proof -
  have "unat x + unat width < 65536"
    using span_inside [OF assms(2,3)] unsigned_less [of limit, where ?'a = nat] by simp
  then have "unat (x + width) = unat x + unat width" by (simp add: unat_word_ariths)
  moreover have "x + width \<noteq> 0" using assms(1) calculation by (metis add_is_0 unat_eq_0)
  ultimately show ?thesis by (simp add: unat_minus_one)
qed

lemma device_valid_spans:
  assumes "gsw_gdi_device_valid e s device x y width height"
  shows "unat x + unat width \<le> unat (deWidth (dibengine e device s))"
    "unat y + unat height \<le> unat (deHeight (dibengine e device s))"
    "unat (x + width - 1) = unat x + unat width - 1" "unat (y + height - 1) = unat y + unat height - 1"
    "width \<noteq> 0" "height \<noteq> 0"
  using assms span_inside [of x _ width] span_inside [of y _ height] span_last [of width x] span_last [of height y]
  by (auto simp: gsw_gdi_device_valid_def Let_def linorder_not_less)

lemma read_pixel_step: "index < bytes \<Longrightarrow> gsw_gdi_read_pixel f bytes index val =
   gsw_gdi_read_pixel f bytes (index + 1) (val OR push_bit (unat (index * 8)) (ucast (f index)))"
  and read_pixel_done: "\<not> index < bytes \<Longrightarrow> gsw_gdi_read_pixel f bytes index val = val"
  by (simp_all add: gsw_gdi_read_pixel.simps)

section \<open>The order of the calls\<close>

text \<open>
  The front end over a machine that also writes down the calls it receives; a rectangle of the
  cursor exclusion is recorded by its inclusive corners as natural numbers, a call into the VxD
  together with the carry flag and the ECX it came back with, and a blit of the DIB engine
  together with its result.
\<close>

datatype gdi_event =
    Exclude u32 nat nat nat nat
  | Readmit u32
  | Entry u32 bool u32
  | Engine BitBlt_args bool

definition traced :: "'s gdi_env \<Rightarrow> ('s \<times> gdi_event list) gdi_env" where
  "traced e =
     \<lparr>TYPE_DIBENG = TYPE_DIBENG e, VRAM = VRAM e, BANKEDVRAM = BANKEDVRAM e, BANKEDSCAN = BANKEDSCAN e,
      NOT_FRAMEBUFFER = NOT_FRAMEBUFFER e, BUSY = BUSY e, FIVE6FIVE = FIVE6FIVE e, BS_SOLID = BS_SOLID e,
      BS_PATTERN = BS_PATTERN e, PATTERNMONO = PATTERNMONO e, MASKVALID = MASKVALID e, COLORSOLID = COLORSOLID e,
      CURSOREXCLUDE = CURSOREXCLUDE e, dibengine = \<lambda>p (s, _). dibengine e p s, dib_brush = \<lambda>p (s, _). dib_brush e p s,
      begin_access = \<lambda>f d l t r b flags (s, log).
        (begin_access e f d l t r b flags s, log @ [Exclude d (unat l) (unat t) (unat r) (unat b)]),
      end_access = \<lambda>f d flags (s, log). (end_access e f d flags s, log @ [Readmit d]),
      DIB_BitBlt = \<lambda>a (s, log). (let (r, s) = DIB_BitBlt e a s in (r, s, log @ [Engine a r])),
      VXD_VM_connect = \<lambda>(s, log). (let (r, s) = VXD_VM_connect e s in (r, s, log)),
      DPMI_GetSegBase = \<lambda>selector (s, log). (let (r, s) = DPMI_GetSegBase e selector s in (r, s, log)),
      vxd_call = \<lambda>entry edx ecx esi (s, log).
        (let ((carry, answer), s) = vxd_call e entry edx ecx esi s in ((carry, answer), s, log @ [Entry edx carry answer])),
      command_pointer = command_pointer e,
      store_command = \<lambda>ws (s, log). (store_command e ws s, log)\<rparr>"

text \<open>Which blits the front end offers to the device, and the calls around an offer.\<close>

definition brush_usable :: "'s gdi_env \<Rightarrow> 's \<Rightarrow> u32 \<Rightarrow> u16 \<Rightarrow> bool" where
  "brush_usable e s brush bpp \<longleftrightarrow>
     brush \<noteq> 0 \<and> bpp \<in> {8, 16, 24, 32} \<and> brush_bpp (dib_brush e brush s) = bpp \<and>
     brush_style (dib_brush e brush s) \<in> {BS_SOLID e, BS_PATTERN e} \<and>
     brush_flags (dib_brush e brush s) AND (PATTERNMONO e OR MASKVALID e) = 0"

definition bb_rop :: "BitBlt_args \<Rightarrow> u8" where
  "bb_rop a = ucast (drop_bit 16 (bb_rop3 a))"

definition gdi_takes :: "'s gdi_env \<Rightarrow> BitBlt_args \<Rightarrow> u32 \<Rightarrow> 's \<Rightarrow> bool" where
  "gdi_takes e a capabilities s \<longleftrightarrow>
     capabilities AND GSW_VGA_CAP_GDI_ROP3 \<noteq> 0 \<and>
     gsw_gdi_device_valid e s (bb_destination a) (bb_destination_x a) (bb_destination_y a) (bb_width a) (bb_height a) \<and>
     (if gdi_source_dependent (bb_rop a)
      then gsw_gdi_device_valid e s (bb_source a) (bb_source_x a) (bb_source_y a) (bb_width a) (bb_height a) \<and>
        deBitsPixel (dibengine e (bb_source a) s) = deBitsPixel (dibengine e (bb_destination a) s) \<and>
        gsw_gdi_format e s (bb_source a) = gsw_gdi_format e s (bb_destination a)
      else True) \<and>
     (if gdi_pattern_dependent (bb_rop a)
      then brush_usable e s (bb_brush a) (ucast (deBitsPixel (dibengine e (bb_destination a) s))) else True)"




lemma traced_constants [simp]:
  "TYPE_DIBENG (traced e) = TYPE_DIBENG e"
  "VRAM (traced e) = VRAM e"
  "BANKEDVRAM (traced e) = BANKEDVRAM e"
  "BANKEDSCAN (traced e) = BANKEDSCAN e"
  "NOT_FRAMEBUFFER (traced e) = NOT_FRAMEBUFFER e"
  "BUSY (traced e) = BUSY e"
  "FIVE6FIVE (traced e) = FIVE6FIVE e"
  "BS_SOLID (traced e) = BS_SOLID e"
  "BS_PATTERN (traced e) = BS_PATTERN e"
  "PATTERNMONO (traced e) = PATTERNMONO e"
  "MASKVALID (traced e) = MASKVALID e"
  "COLORSOLID (traced e) = COLORSOLID e"
  "CURSOREXCLUDE (traced e) = CURSOREXCLUDE e"
  "command_pointer (traced e) = command_pointer e"
  by (simp_all add: traced_def)

lemma traced_structures [simp]:
  "dibengine (traced e) p (s, log) = dibengine e p s" "dib_brush (traced e) p (s, log) = dib_brush e p s"
  by (simp_all add: traced_def)

lemma traced_reads [simp]:
  "gsw_gdi_format (traced e) (s, log) p = gsw_gdi_format e s p"
  "gsw_gdi_device_valid (traced e) (s, log) p x y a b = gsw_gdi_device_valid e s p x y a b"
  "brush_usable (traced e) (s, log) p bpp = brush_usable e s p bpp"
  by (simp_all add: gsw_gdi_format_def gsw_gdi_device_valid_def brush_usable_def Let_def)










definition gdi_built :: "'s gdi_env \<Rightarrow> BitBlt_args \<Rightarrow> 's \<Rightarrow> GSWGdiBltCommand \<Rightarrow> GSWGdiBltCommand" where
  "gdi_built e a s c =
     (let c = gsw_gdi_fill_command (dibengine e (bb_destination a) s) (dibengine e (bb_source a) s) a
                (gsw_gdi_format e s (bb_destination a)) (gdi_source_dependent (bb_rop a)) c
      in if gdi_pattern_dependent (bb_rop a)
         then snd (gsw_gdi_pattern e s (bb_brush a) (ucast (deBitsPixel (dibengine e (bb_destination a) s))) c)
         else c)"





section \<open>Properties\<close>


text \<open>A device whose rows, and whose last row, lie inside the framebuffer.\<close>

definition dib_inside :: "u32 \<Rightarrow> DIBENGINE \<Rightarrow> bool" where
  "dib_inside fb d \<longleftrightarrow>
     unat (deWidth d) * (unat (deBitsPixel d) div 8) \<le> unat (deDeltaScan d) \<and>
     unat (deBitsOffset d) + unat (deHeight d) * unat (deDeltaScan d) \<le> unat fb"

lemma format_bytes:
  assumes "gsw_gdi_format e s p \<noteq> 0"
  shows "unat (gsw_format_bytes (gsw_gdi_format e s p)) = unat (deBitsPixel (dibengine e p s)) div 8"
    "gsw_format_mask (gsw_gdi_format e s p) = gsw_gdi_mask (ucast (deBitsPixel (dibengine e p s)))"
    "gsw_format_bytes (gsw_gdi_format e s p) \<noteq> 0"
  using assms
  by (auto simp: gsw_gdi_format_def gsw_format_bytes_def gsw_format_mask_def gsw_gdi_mask_def Let_def
      GSW_PIXEL_FORMAT_INDEXED_8_def GSW_PIXEL_FORMAT_RGB_565_def GSW_PIXEL_FORMAT_RGB_888_def
      GSW_PIXEL_FORMAT_XRGB_8888_def split: if_splits)

lemma unat_ucast16: "unat (ucast x :: u32) = unat x" for x :: u16
  by (simp add: unsigned_ucast_eq take_bit_nat_eq_self_iff less_trans [OF unsigned_less [of x, where ?'a = nat]])

lemma device_area:
  assumes v: "gsw_gdi_device_valid e s p x y width height" and i: "dib_inside fb (dibengine e p s)"
  shows "gsw_gdi_rect_valid fb (deBitsOffset (dibengine e p s)) (deDeltaScan (dibengine e p s)) (ucast x) (ucast y)
      (ucast width) (ucast height) (gsw_format_bytes (gsw_gdi_format e s p))"
proof -
  let ?d = "dibengine e p s" let ?b = "unat (deBitsPixel ?d) div 8"
  have f: "gsw_gdi_format e s p \<noteq> 0" and pitch: "deDeltaScan ?d \<noteq> 0"
    using v by (auto simp: gsw_gdi_device_valid_def Let_def)
  have h: "0 < unat height" and n: "width \<noteq> 0" "height \<noteq> 0"
    using device_valid_spans(5,6) [OF v] by (simp_all add: unat_gt_0)
  have row: "(unat x + unat width) * ?b \<le> unat (deDeltaScan ?d)"
    using device_valid_spans(1) [OF v] i unfolding dib_inside_def by (meson le_trans mult_le_mono1)
  have "unat y + (unat height - 1) + 1 \<le> unat (deHeight ?d)"
    using device_valid_spans(2) [OF v] h by simp
  then have "(unat y + (unat height - 1) + 1) * unat (deDeltaScan ?d) \<le> unat (deHeight ?d) * unat (deDeltaScan ?d)"
    by (rule mult_le_mono1)
  then have "unat (deBitsOffset ?d) + (unat y + (unat height - 1)) * unat (deDeltaScan ?d) + (unat x + unat width) * ?b \<le> unat fb"
    using i row unfolding dib_inside_def by (simp add: algebra_simps)
  then show ?thesis
    using row n pitch format_bytes(1,3) [OF f]
    by (simp add: gdi_rect_valid_iff unat_ucast16 word_gt_0 unat_eq_0 [symmetric])
qed

lemma pattern_effect:
  assumes "brush_usable e s brush bpp"
  obtains ps where "length ps = GSW_GDI_PATTERN_PIXELS" "\<And>p. p \<in> set ps \<Longrightarrow> p AND NOT (gsw_gdi_mask bpp) = 0"
    "\<And>c. gsw_gdi_pattern e s brush bpp c =
       (True, c\<lparr>gd_flags := gd_flags c OR GSW_GDI_PATTERN_VALID, gd_pattern := ps\<rparr>)"
proof -
  have "\<exists>ps. length ps = GSW_GDI_PATTERN_PIXELS \<and> (\<forall>p\<in>set ps. p AND NOT (gsw_gdi_mask bpp) = 0) \<and>
      (\<forall>c. gsw_gdi_pattern e s brush bpp c =
        (True, c\<lparr>gd_flags := gd_flags c OR GSW_GDI_PATTERN_VALID, gd_pattern := ps\<rparr>))"
  proof -
    have m: "gsw_gdi_mask bpp \<noteq> 0" using assms by (auto simp: brush_usable_def gsw_gdi_mask_def)
    have z: "(x AND y) AND NOT y = 0" for x y :: u32 by (simp add: and.assoc)
    show ?thesis
    proof (cases "brush_flags (dib_brush e brush s) AND COLORSOLID e = 0")
      case True
      show ?thesis
        by (rule exI [of _ "map (\<lambda>index. gsw_gdi_read_pixel (\<lambda>i. brush_bits (dib_brush e brush s) bpp
            (of_nat index * drop_bit 3 (bpp + 7) + i)) (drop_bit 3 (bpp + 7)) 0 0 AND gsw_gdi_mask bpp) [0..<GSW_GDI_PATTERN_PIXELS]"])
          (use assms m True z in \<open>auto simp: brush_usable_def gsw_gdi_pattern_def gsw_gdi_pattern_bits_def Let_def\<close>)
    next
      case False
      show ?thesis
        by (rule exI [of _ "map (\<lambda>index. gsw_gdi_read_pixel (brush_bits (dib_brush e brush s) bpp)
            (drop_bit 3 (bpp + 7)) 0 0 AND gsw_gdi_mask bpp) [0..<GSW_GDI_PATTERN_PIXELS]"])
          (use assms m False z in \<open>auto simp: brush_usable_def gsw_gdi_pattern_def gsw_gdi_pattern_bits_def Let_def\<close>)
    qed
  qed
  then show thesis using that by blast
qed

lemma built_eq:
  assumes "gdi_takes e a c s"
  shows "\<exists>ps. length ps = GSW_GDI_PATTERN_PIXELS \<and>
    (\<forall>p\<in>set ps. p AND NOT (gsw_gdi_mask (ucast (deBitsPixel (dibengine e (bb_destination a) s)))) = 0) \<and>
    gdi_built e a s k =
     (let f = gsw_gdi_fill_command (dibengine e (bb_destination a) s) (dibengine e (bb_source a) s) a
        (gsw_gdi_format e s (bb_destination a)) (gdi_source_dependent (bb_rop a)) k
      in if gdi_pattern_dependent (bb_rop a)
         then f\<lparr>gd_flags := gd_flags f OR GSW_GDI_PATTERN_VALID, gd_pattern := ps\<rparr> else f)"
proof (cases "gdi_pattern_dependent (bb_rop a)")
  case True
  then have "brush_usable e s (bb_brush a) (ucast (deBitsPixel (dibengine e (bb_destination a) s)))"
    using assms by (simp add: gdi_takes_def)
  then obtain ps where "length ps = GSW_GDI_PATTERN_PIXELS"
    "\<And>p. p \<in> set ps \<Longrightarrow> p AND NOT (gsw_gdi_mask (ucast (deBitsPixel (dibengine e (bb_destination a) s)))) = 0"
    "\<And>c. gsw_gdi_pattern e s (bb_brush a) (ucast (deBitsPixel (dibengine e (bb_destination a) s))) c =
       (True, c\<lparr>gd_flags := gd_flags c OR GSW_GDI_PATTERN_VALID, gd_pattern := ps\<rparr>)"
    by (rule pattern_effect) blast
  with True show ?thesis by (intro exI [of _ ps]) (simp add: gdi_built_def Let_def)
next
  case False
  then show ?thesis
    by (intro exI [of _ "replicate GSW_GDI_PATTERN_PIXELS 0"]) (simp add: gdi_built_def Let_def)
qed

lemma built_fields:
  assumes "gdi_takes e a c s"
  shows "gd_destination_offset (gdi_built e a s k) = deBitsOffset (dibengine e (bb_destination a) s)"
    "gd_destination_pitch (gdi_built e a s k) = deDeltaScan (dibengine e (bb_destination a) s)"
    "gd_destination_x (gdi_built e a s k) = ucast (bb_destination_x a)"
    "gd_destination_y (gdi_built e a s k) = ucast (bb_destination_y a)"
    "gd_width (gdi_built e a s k) = ucast (bb_width a)" "gd_height (gdi_built e a s k) = ucast (bb_height a)"
    "gd_format (gdi_built e a s k) = gsw_gdi_format e s (bb_destination a)" "gd_rop3 (gdi_built e a s k) = ucast (bb_rop a)"
    "gd_flags (gdi_built e a s k) =
       (if gdi_source_dependent (bb_rop a) then GSW_GDI_SOURCE_VALID else 0) OR
       (if gdi_pattern_dependent (bb_rop a) then GSW_GDI_PATTERN_VALID else 0)"
    "gdi_source_dependent (bb_rop a) \<Longrightarrow> gd_source_offset (gdi_built e a s k) = deBitsOffset (dibengine e (bb_source a) s) \<and>
       gd_source_pitch (gdi_built e a s k) = deDeltaScan (dibengine e (bb_source a) s) \<and>
       gd_source_x (gdi_built e a s k) = ucast (bb_source_x a) \<and> gd_source_y (gdi_built e a s k) = ucast (bb_source_y a)"
    "gdi_pattern_dependent (bb_rop a) \<Longrightarrow> p \<in> set (gd_pattern (gdi_built e a s k)) \<Longrightarrow>
       p AND NOT (gsw_gdi_mask (ucast (deBitsPixel (dibengine e (bb_destination a) s)))) = 0"
    "length (gd_pattern k) = GSW_GDI_PATTERN_PIXELS \<Longrightarrow> length (gd_pattern (gdi_built e a s k)) = GSW_GDI_PATTERN_PIXELS"
  using built_eq [OF assms, of k] by (auto simp: gsw_gdi_fill_command_def Let_def simp flip: bb_rop_def)

lemma ucast_u8: "(ucast (ucast r :: u32) :: u8) = r" "(ucast r :: u32) \<le> 0xFF" for r :: u8
proof -
  show "(ucast (ucast r :: u32) :: u8) = r" by (rule bit_word_eqI) (simp add: bit_simps)
  have "unat r \<le> 255" using unsigned_less [of r, where ?'a = nat] by simp
  then show "(ucast r :: u32) \<le> 0xFF" by (simp add: word_le_nat_alt unsigned_ucast_eq take_bit_nat_eq_self)
qed

text \<open>
  C26. The two sides agree on what can be drawn: a command the front end builds for devices that lie
  inside the framebuffer, and of at most \<open>GSW_VGA_MAX_SOFTWARE_PIXELS\<close> pixels, passes every check
  that the transport makes of a command (\<open>gsw_gdi_refused\<close>). Larger blits, which the front end
  does not sort out, are refused by the transport and fall back.
\<close>

theorem gdi_built_not_refused:
  assumes "gdi_takes e a c s" "dib_inside fb (dibengine e (bb_destination a) s)"
    and "gdi_source_dependent (bb_rop a) \<Longrightarrow> dib_inside fb (dibengine e (bb_source a) s)"
    and "unat (bb_width a) * unat (bb_height a) \<le> unat GSW_VGA_MAX_SOFTWARE_PIXELS"
  shows "\<not> gsw_gdi_refused fb (gdi_built e a s k)"
proof -
  let ?b = "gdi_built e a s k" let ?w = "bb_width a" let ?h = "bb_height a"
  have dv: "gsw_gdi_device_valid e s (bb_destination a) (bb_destination_x a) (bb_destination_y a) ?w ?h"
    using assms(1) by (simp add: gdi_takes_def)
  then have f: "gsw_gdi_format e s (bb_destination a) \<noteq> 0" by (auto simp: gsw_gdi_device_valid_def Let_def)
  have n: "0 < unat ?w" "0 < unat ?h" using device_valid_spans(5,6) [OF dv] by (simp_all add: unat_gt_0)
  have pixels: "\<not> ucast ?h > GSW_VGA_MAX_SOFTWARE_PIXELS div ucast ?w"
    using assms(4) n by (simp add: word_less_nat_alt unat_div unat_ucast16 linorder_not_less less_eq_div_iff_mult_less_eq ac_simps)
  have source: "gsw_gdi_source_valid fb ?b" if "gdi_source_dependent (bb_rop a)"
    using built_fields(5-7) [OF assms(1), of k] built_fields(10) [OF assms(1) that, of k] device_area [OF _ assms(3) [OF that]] that assms(1)
    by (simp add: gsw_gdi_source_valid_def gdi_takes_def)
  have nz: "(ucast ?w :: u32) \<noteq> 0" "(ucast ?h :: u32) \<noteq> 0"
    using n by (metis unat_ucast16 unat_0 less_irrefl)+
  have rop: "(ucast (gd_rop3 ?b) :: u8) = bb_rop a" "gd_rop3 ?b \<le> 0xFF"
    using ucast_u8 [of "bb_rop a"] by (simp_all only: built_fields(8) [OF assms(1)])
  have flags: "gd_flags ?b AND NOT (GSW_GDI_SOURCE_VALID OR GSW_GDI_PATTERN_VALID) = 0"
    "gd_flags ?b AND GSW_GDI_SOURCE_VALID = 0 \<longleftrightarrow> \<not> gdi_source_dependent (bb_rop a)"
    "gd_flags ?b AND GSW_GDI_PATTERN_VALID = 0 \<longleftrightarrow> \<not> gdi_pattern_dependent (bb_rop a)"
    by (simp_all add: built_fields(9) [OF assms(1)] GSW_GDI_SOURCE_VALID_def GSW_GDI_PATTERN_VALID_def)
  have pattern: "p AND NOT (gsw_format_mask (gd_format ?b)) = 0"
    if "gdi_pattern_dependent (bb_rop a)" "p \<in> set (gd_pattern ?b)" for p
    using built_fields(11) [OF assms(1) that] by (simp add: built_fields(7) [OF assms(1)] format_bytes(2) [OF f])
  show ?thesis
    using device_area [OF dv assms(2)] format_bytes(3) [OF f] nz pixels source flags rop pattern
    by (auto simp: gsw_gdi_refused_def built_fields(1-7) [OF assms(1)] Let_def dependent_agree [symmetric]
        dest: in_set_takeD)
qed

text \<open>A copy within a screen of 640 by 480 bytes, for the examples.\<close>

definition example_gdi :: "'s gdi_env" where
  "example_gdi =
     \<lparr>TYPE_DIBENG = 0x5250, VRAM = 0x8000, BANKEDVRAM = 1, BANKEDSCAN = 2, NOT_FRAMEBUFFER = 0x200, BUSY = 0x10,
      FIVE6FIVE = 0x20, BS_SOLID = 0, BS_PATTERN = 3, PATTERNMONO = 1, MASKVALID = 4, COLORSOLID = 2, CURSOREXCLUDE = 8,
      dibengine = \<lambda>p s. \<lparr>deType = 0x5250, deWidth = 640, deHeight = 480, deBitsPixel = 8, deDeltaScan = 640,
        deBitsOffset = 0, deFlags = 0x8000, deBeginAccess = 1, deEndAccess = 2\<rparr>,
      dib_brush = \<lambda>p s. \<lparr>brush_flags = 0, brush_bpp = 8, brush_style = 0, brush_bits = \<lambda>bpp i. 0\<rparr>,
      begin_access = \<lambda>f d l t r b flags s. s, end_access = \<lambda>f d flags s. s, DIB_BitBlt = \<lambda>a s. (True, s),
      VXD_VM_connect = \<lambda>s. ((True, 1), s), DPMI_GetSegBase = \<lambda>selector s. (0x10000, s),
      vxd_call = \<lambda>entry edx ecx esi s. ((False, 1), s), command_pointer = 0x00470100, store_command = \<lambda>ws s. s\<rparr>"

definition example_blit :: BitBlt_args where
  "example_blit =
     \<lparr>bb_destination = 1, bb_destination_x = 10, bb_destination_y = 20, bb_source = 1, bb_source_x = 300,
      bb_source_y = 200, bb_width = 340, bb_height = 280, bb_rop3 = 0x00CC0020, bb_brush = 0, bb_draw_mode = 0\<rparr>"

definition example_gdi_command :: GSWGdiBltCommand where
  "example_gdi_command =
     \<lparr>gd_source_offset = 0, gd_destination_offset = 0, gd_source_pitch = 0, gd_destination_pitch = 0, gd_source_x = 0,
      gd_source_y = 0, gd_destination_x = 0, gd_destination_y = 0, gd_width = 0, gd_height = 0, gd_format = 0,
      gd_flags = 0, gd_rop3 = 0, gd_pattern = replicate GSW_GDI_PATTERN_PIXELS 0\<rparr>"

theorem gdi_built_not_refused_witness:
  "gdi_takes example_gdi example_blit 0x20 () \<and>
   \<not> gsw_gdi_refused 307200 (gdi_built example_gdi example_blit () example_gdi_command)"
proof
  have r: "bb_rop example_blit = 0xCC" by (simp add: bb_rop_def example_blit_def drop_bit_eq_div)
  have d: "gdi_source_dependent 0xCC" "\<not> gdi_pattern_dependent 0xCC" by code_simp+
  have v: "gsw_gdi_device_valid example_gdi () 1 10 20 340 280" "gsw_gdi_device_valid example_gdi () 1 300 200 340 280"
    by (simp_all add: gsw_gdi_device_valid_def gsw_gdi_format_def example_gdi_def Let_def
        GSW_PIXEL_FORMAT_INDEXED_8_def sint_uint)
  show t: "gdi_takes example_gdi example_blit 0x20 ()"
    using v
    by (simp add: gdi_takes_def r d GSW_VGA_CAP_GDI_ROP3_def) (simp add: example_blit_def example_gdi_def)
  show "\<not> gsw_gdi_refused 307200 (gdi_built example_gdi example_blit () example_gdi_command)"
    by (rule gdi_built_not_refused [OF t])
      (simp_all add: dib_inside_def example_gdi_def example_blit_def GSW_VGA_MAX_SOFTWARE_PIXELS_def)
qed

lemma command_dwords_read:
  assumes "length (gd_pattern (gc_blt c)) = GSW_GDI_PATTERN_PIXELS" "unat a + 324 \<le> 2 ^ 32"
  shows "GSWGdiBltCommand_of (mem_dwords (put_dwords a (GSWGdiBltCommand_dwords c) m) a 81) = gc_blt c"
proof -
  have "length (GSWGdiBltCommand_dwords c) = 81"
    using assms(1) by (simp add: GSWGdiBltCommand_dwords_def GSWGdiBlt_body_def GSW_GDI_PATTERN_PIXELS_def)
  then have "mem_dwords (put_dwords a (GSWGdiBltCommand_dwords c) m) a 81 = GSWGdiBltCommand_dwords c"
    using put_dwords_read [of a "GSWGdiBltCommand_dwords c" m] assms(2) by simp
  then show ?thesis
    using assms(1)
    by (simp add: GSWGdiBltCommand_of_def GSWGdiBltCommand_dwords_def GSWGdiBlt_body_def)
qed

definition gdi_linked :: "(u16 \<Rightarrow> u32) \<Rightarrow> 's gdi_world \<Rightarrow> bool" where
  "gdi_linked base w \<longleftrightarrow> VXD_VM w \<noteq> 0 \<and> (request_base w = 0 \<or> request_base w = base (request_selector w))"

text \<open>
  The call into the VxD is transparent: with the data segment of the driver where the segment
  function says, the transport runs exactly the blit that the front end wrote into its static
  command, and the front end sees the transport's answer; the cached base of the segment stays
  right for its selector.
\<close>

theorem gdi_submit_transparent:
  assumes "gdi_linked base w" "length (gd_pattern b) = GSW_GDI_PATTERN_PIXELS"
    and "command_pointer e \<noteq> 0" "command_linear base (command_pointer e) \<noteq> 0"
    and "unat (command_linear base (command_pointer e)) + 324 \<le> 2 ^ 32"
  shows "let e' = display_machine base t upstream e; w1 = set_command e' b w;
             (taken, g) = GSW_transport_gdi_blt t b GSW_GDI_BLT_COMMAND_BYTES (display (machine w));
             (result, w2) = GSW_PM16_submit e' (command_pointer e) w1
    in result = taken \<and> machine w2 = (machine w1)\<lparr>display := g\<rparr> \<and> gsw_gdi_command w2 = gsw_gdi_command w1 \<and>
       gdi_linked base w2"
proof -
  define p where "p = command_pointer e"
  define a where "a = command_linear base p"
  show ?thesis
    using assms
    by (auto simp: GSW_PM16_submit_def set_command_def do_machine_def on_machine_def display_machine_def Let_def split_beta
       gdi_linked_def VXD_API_Proc_gsw_def command_dwords_read command_linear_def GSW_GDI_PM16_SUBMIT_def GSW_GDI_PM16_QUERY_def
       GSW_GDI_BLT_COMMAND_BYTES_def)
qed

theorem gdi_submit_transparent_witness:
  "let w = \<lparr>VXD_VM = 1, vxd_fbhda16 = 0, vxd_fbhda32 = 0, vxd_mouse16 = 0, pm16_capabilities = 0x20, request_base = 0,
         request_selector = 0, gsw_gdi_command = \<lparr>gc_header = header (new_command 0 []), gc_blt = example_gdi_command\<rparr>,
         machine = \<lparr>linear_memory = \<lambda>_. 0, display = ready2d_world, others = ()\<rparr>\<rparr>;
       e' = display_machine (\<lambda>_. 0x10000) obedient2d_env (\<lambda>_ _ _ m. ((True, 0), m)) example_gdi;
       w1 = set_command e' example_gdi_command w;
       (taken, g) = GSW_transport_gdi_blt obedient2d_env example_gdi_command GSW_GDI_BLT_COMMAND_BYTES ready2d_world;
       (result, w2) = GSW_PM16_submit e' 0x00470100 w1
   in result = taken \<and> machine w2 = (machine w1)\<lparr>display := g\<rparr> \<and> gsw_gdi_command w2 = gsw_gdi_command w1 \<and>
      gdi_linked (\<lambda>_. 0x10000) w2"
proof -
  have p: "command_pointer example_gdi = 0x00470100" by (simp add: example_gdi_def)
  have l: "command_linear (\<lambda>_. 0x10000) 0x00470100 = 0x10100" by (simp add: command_linear_def ucast_eq)
  show ?thesis
    using gdi_submit_transparent [where e = example_gdi and base = "\<lambda>_. 0x10000" and b = example_gdi_command
        and t = obedient2d_env and upstream = "\<lambda>_ _ _ m. ((True, 0), m)" and
        w = "\<lparr>VXD_VM = 1, vxd_fbhda16 = 0, vxd_fbhda32 = 0, vxd_mouse16 = 0, pm16_capabilities = 0x20, request_base = 0,
         request_selector = 0, gsw_gdi_command = \<lparr>gc_header = header (new_command 0 []), gc_blt = example_gdi_command\<rparr>,
         machine = \<lparr>linear_memory = \<lambda>_. 0, display = ready2d_world, others = ()\<rparr>\<rparr>", unfolded p l]
    by (simp add: gdi_linked_def example_gdi_command_def)
qed

end
