(* ===== verification/Hal_Bridge.thy ===== *)
theory Hal_Bridge
  imports Vga_Ioctl
begin

text \<open>
  The DirectDraw side in ring 3: the library \<open>gswdd32.dll\<close> turns requests into DeviceIoControl
  calls (\<^verbatim>\<open>overlay/fbhda_gsw.c\<close>, \<^verbatim>\<open>overlay/gsw_bridge_main.c\<close>), and the driver
  \<open>vmhal9x\<close> reaches it through function pointers that it resolves at run time
  (\<^verbatim>\<open>overlay/gsw_backend.c\<close>). The driver's variables lie in memory that all processes share,
  the library in each process on its own.

  Windows, the library as the driver sees it, and the current process are the machine \<open>'s\<close>; calls
  through a function pointer are calls of the environment with that pointer.
\<close>

section \<open>The library\<close>

text \<open>
  \<open>DeviceIoControl\<close> receives the handle, the code, the doublewords of the input and the number of
  doublewords of the output, and returns success and the output.
\<close>

record 's dll_env =
  hda_vxd :: "'s \<Rightarrow> u32"
  DeviceIoControl :: "u32 \<Rightarrow> u32 \<Rightarrow> u32 list \<Rightarrow> nat \<Rightarrow> 's \<Rightarrow> (bool \<times> u32 list) \<times> 's"
  DisableThreadLibraryCalls :: "u32 \<Rightarrow> 's \<Rightarrow> 's"
  FBHDA_load :: "'s \<Rightarrow> 's"
  FBHDA_free :: "'s \<Rightarrow> 's"
  FBHDA_valid_obj :: "'s \<Rightarrow> bool"

definition INVALID_HANDLE_VALUE :: u32 where "INVALID_HANDLE_VALUE = 0xFFFFFFFF"
definition DLL_PROCESS_DETACH :: u32 where "DLL_PROCESS_DETACH = 0"
definition DLL_PROCESS_ATTACH :: u32 where "DLL_PROCESS_ATTACH = 1"

definition GSWDDUnregister_dwords :: "GSWDDUnregister \<Rightarrow> u32 list" where
  "GSWDDUnregister_dwords r = [du_cb r, du_surface_id r]"

definition GSWDDFill_dwords :: "GSWDDFill \<Rightarrow> u32 list" where
  "GSWDDFill_dwords r = [fl_cb r, fl_surface_id r, fl_x r, fl_y r, fl_width r, fl_height r, fl_color r]"

definition GSWDDBlt_dwords :: "GSWDDBlt \<Rightarrow> u32 list" where
  "GSWDDBlt_dwords r = [bl_cb r, bl_source_id r, bl_destination_id r, bl_source_x r, bl_source_y r, bl_source_width r,
     bl_source_height r, bl_destination_x r, bl_destination_y r, bl_destination_width r, bl_destination_height r,
     bl_flags r, bl_source_color_key r, bl_destination_color_key r, bl_pattern r, bl_rop3 r]"

definition GSWDDPresent_dwords :: "GSWDDPresent \<Rightarrow> u32 list" where
  "GSWDDPresent_dwords r = [dp_cb r, dp_surface_id r]"

definition GSWDDDirty_dwords :: "GSWDDDirty \<Rightarrow> u32 list" where
  "GSWDDDirty_dwords r = [dt_cb r, dt_surface_id r, dt_x r, dt_y r, dt_width r, dt_height r]"

interpretation unregister_wire: wire_struct GSWDDUnregister_dwords GSWDDUnregister_of 2
  by unfold_locales (simp_all add: GSWDDUnregister_dwords_def GSWDDUnregister_of_def)

interpretation fill_wire: wire_struct GSWDDFill_dwords GSWDDFill_of 7
  by unfold_locales (simp_all add: GSWDDFill_dwords_def GSWDDFill_of_def)

interpretation blt_wire: wire_struct GSWDDBlt_dwords GSWDDBlt_of 16
  by unfold_locales (simp_all add: GSWDDBlt_dwords_def GSWDDBlt_of_def)

interpretation present_wire: wire_struct GSWDDPresent_dwords GSWDDPresent_of 2
  by unfold_locales (simp_all add: GSWDDPresent_dwords_def GSWDDPresent_of_def)

interpretation dirty_wire: wire_struct GSWDDDirty_dwords GSWDDDirty_of 6
  by unfold_locales (simp_all add: GSWDDDirty_dwords_def GSWDDDirty_of_def)

definition gsw_ioctl :: "'s dll_env \<Rightarrow> u32 \<Rightarrow> u32 list \<Rightarrow> nat \<Rightarrow> 's \<Rightarrow> (bool \<times> u32 list) \<times> 's" where
  "gsw_ioctl e code input output_dwords s =
     (if hda_vxd e s = INVALID_HANDLE_VALUE then ((False, []), s)
      else DeviceIoControl e (hda_vxd e s) code input output_dwords s)"

text \<open>The request pointer of an export may be null. The query and the registration answer in place.\<close>

definition dll_query :: "'s dll_env \<Rightarrow> GSWDDQuery option \<Rightarrow> 's \<Rightarrow> (bool \<times> GSWDDQuery option) \<times> 's" where
  "dll_query e query s =
     (if query = None then ((False, None), s)
      else
        (let ((ok, output), s) = gsw_ioctl e GSW_DD_IOCTL_QUERY [] 5 s
         in ((ok, if ok then Some (GSWDDQuery_of output) else query), s)))"

definition dll_register_surface ::
    "'s dll_env \<Rightarrow> GSWDDRegister option \<Rightarrow> 's \<Rightarrow> (bool \<times> GSWDDRegister option) \<times> 's" where
  "dll_register_surface e request s =
     (case request of
        None \<Rightarrow> ((False, None), s)
      | Some r \<Rightarrow>
          (let ((ok, output), s) = gsw_ioctl e GSW_DD_IOCTL_REGISTER (GSWDDRegister_dwords r) 9 s
           in if \<not> ok then ((False, Some r), s)
              else ((rg_surface_id (GSWDDRegister_of output) \<noteq> 0, Some (GSWDDRegister_of output)), s)))"

definition gsw_simple_wrapper :: "'s dll_env \<Rightarrow> u32 \<Rightarrow> u32 list option \<Rightarrow> 's \<Rightarrow> bool \<times> 's" where
  "gsw_simple_wrapper e code request s =
     (case request of
        None \<Rightarrow> (False, s)
      | Some r \<Rightarrow> (let ((ok, output), s) = gsw_ioctl e code r 1 s in (ok \<and> output ! 0 \<noteq> 0, s)))"

definition dll_unregister_surface :: "'s dll_env \<Rightarrow> GSWDDUnregister option \<Rightarrow> 's \<Rightarrow> bool \<times> 's" where
  "dll_unregister_surface e request = gsw_simple_wrapper e GSW_DD_IOCTL_UNREGISTER (map_option GSWDDUnregister_dwords request)"

definition dll_fill :: "'s dll_env \<Rightarrow> GSWDDFill option \<Rightarrow> 's \<Rightarrow> bool \<times> 's" where
  "dll_fill e request = gsw_simple_wrapper e GSW_DD_IOCTL_FILL (map_option GSWDDFill_dwords request)"

definition dll_blt :: "'s dll_env \<Rightarrow> GSWDDBlt option \<Rightarrow> 's \<Rightarrow> bool \<times> 's" where
  "dll_blt e request = gsw_simple_wrapper e GSW_DD_IOCTL_BLT (map_option GSWDDBlt_dwords request)"

definition dll_present :: "'s dll_env \<Rightarrow> GSWDDPresent option \<Rightarrow> 's \<Rightarrow> bool \<times> 's" where
  "dll_present e request = gsw_simple_wrapper e GSW_DD_IOCTL_PRESENT (map_option GSWDDPresent_dwords request)"

definition dll_dirty :: "'s dll_env \<Rightarrow> GSWDDDirty option \<Rightarrow> 's \<Rightarrow> bool \<times> 's" where
  "dll_dirty e request = gsw_simple_wrapper e GSW_DD_IOCTL_DIRTY (map_option GSWDDDirty_dwords request)"

definition bridge_DllMain :: "'s dll_env \<Rightarrow> u32 \<Rightarrow> u32 \<Rightarrow> 's \<Rightarrow> bool \<times> 's" where
  "bridge_DllMain e module reason s =
     (True,
      if reason = DLL_PROCESS_ATTACH then FBHDA_load e (DisableThreadLibraryCalls e module s)
      else if reason = DLL_PROCESS_DETACH \<and> FBHDA_valid_obj e s then FBHDA_free e s
      else s)"

section \<open>The driver's side\<close>

record GSWDDInterface =
  if_module :: u32
  if_query :: u32
  if_register_surface :: u32
  if_unregister_surface :: u32
  if_fill :: u32
  if_blt :: u32
  if_present :: u32
  if_dirty :: u32
  if_info :: GSWDDQuery

record GSWDDLockRecord =
  lk_surface_id :: u32
  lk_dirty :: GSWDDDirty
  lk_read_only :: bool

record RECTL =
  rc_left :: u32
  rc_top :: u32
  rc_right :: u32
  rc_bottom :: u32

text \<open>The fields of the upstream driver's state and of the DirectDraw structures that the code uses.\<close>

record VMDAHAL_t =
  pFBHDA32 :: u32
  vramLinear :: u32
  vramSize :: u32
  dwBpp :: u32

record DDCOLORKEY =
  dwColorSpaceLowValue :: u32
  dwColorSpaceHighValue :: u32

record DDRAWI_DDRAWSURFACE_GBL =
  fpVidMem :: u32
  lPitch :: u32
  wHeight :: u16
  wWidth :: u16
  gbl_RGBBitCount :: u32

record DDRAWI_DDRAWSURFACE_LCL =
  lpGbl :: u32
  lcl_dwFlags :: u32
  lcl_dwCaps :: u32
  dwReserved1 :: u32
  ddckCKSrcBlt :: DDCOLORKEY
  ddckCKDestBlt :: DDCOLORKEY

record 's hal_world =
  interface :: GSWDDInterface
  locks :: "GSWDDLockRecord list"
  trace_enabled :: "bool option"
  surface_lcl :: "u32 \<Rightarrow> DDRAWI_DDRAWSURFACE_LCL"
  surface_gbl :: "u32 \<Rightarrow> DDRAWI_DDRAWSURFACE_GBL"
  windows :: 's

text \<open>
  The services the driver calls. \<open>call_query p\<close> and the like call the function at address \<open>p\<close> in
  the current process; \<open>trace_marker\<close> tells whether the marker file exists. \<open>vmdahal\<close> reads the
  upstream driver's state at an address, \<open>dd_hal\<close> the address kept in a DirectDraw object. The
  last fields are constants of the DirectDraw headers.
\<close>

record 's hal_env =
  GetModuleHandleA :: "'s \<Rightarrow> u32"
  LoadLibraryA :: "'s \<Rightarrow> u32 \<times> 's"
  GetProcAddress :: "u32 \<Rightarrow> string \<Rightarrow> 's \<Rightarrow> u32"
  call_query :: "u32 \<Rightarrow> GSWDDQuery \<Rightarrow> 's \<Rightarrow> (bool \<times> GSWDDQuery) \<times> 's"
  call_register :: "u32 \<Rightarrow> GSWDDRegister \<Rightarrow> 's \<Rightarrow> (bool \<times> GSWDDRegister) \<times> 's"
  call_unregister :: "u32 \<Rightarrow> GSWDDUnregister \<Rightarrow> 's \<Rightarrow> bool \<times> 's"
  call_fill :: "u32 \<Rightarrow> GSWDDFill \<Rightarrow> 's \<Rightarrow> bool \<times> 's"
  call_blt :: "u32 \<Rightarrow> GSWDDBlt \<Rightarrow> 's \<Rightarrow> bool \<times> 's"
  call_present :: "u32 \<Rightarrow> GSWDDPresent \<Rightarrow> 's \<Rightarrow> bool \<times> 's"
  call_dirty :: "u32 \<Rightarrow> GSWDDDirty \<Rightarrow> 's \<Rightarrow> bool \<times> 's"
  trace_marker :: "'s \<Rightarrow> bool"
  gsw_out8 :: "u16 \<Rightarrow> u8 \<Rightarrow> 's \<Rightarrow> 's"
  gsw_in8 :: "u16 \<Rightarrow> 's \<Rightarrow> u8 \<times> 's"
  vmdahal :: "u32 \<Rightarrow> 's \<Rightarrow> VMDAHAL_t"
  dd_hal :: "u32 \<Rightarrow> 's \<Rightarrow> u32"
  globalHal :: "'s \<Rightarrow> u32"
  FBHDA_access_begin :: "u32 \<Rightarrow> 's \<Rightarrow> 's"
  FBHDA_access_end :: "u32 \<Rightarrow> 's \<Rightarrow> 's"
  QueryPerformanceFrequency :: "'s \<Rightarrow> int option"
  QueryPerformanceCounter :: "'s \<Rightarrow> int"
  dd_constant :: "string \<Rightarrow> u32"

type_synonym ('s, 'a) hal_step = "'s hal_world \<Rightarrow> 'a \<times> 's hal_world"

definition on_windows :: "('s \<Rightarrow> 'a \<times> 's) \<Rightarrow> ('s, 'a) hal_step" where
  "on_windows f w = (let (r, s) = f (windows w) in (r, w\<lparr>windows := s\<rparr>))"

definition on_interface :: "(GSWDDInterface \<Rightarrow> GSWDDInterface) \<Rightarrow> 's hal_world \<Rightarrow> 's hal_world" where
  "on_interface f w = w\<lparr>interface := f (interface w)\<rparr>"

definition GSW_HAL_TRACE_LOCK :: u8 where "GSW_HAL_TRACE_LOCK = 230"
definition GSW_HAL_TRACE_LOCK_DONE :: u8 where "GSW_HAL_TRACE_LOCK_DONE = 231"
definition GSW_HAL_TRACE_UNLOCK :: u8 where "GSW_HAL_TRACE_UNLOCK = 232"
definition GSW_HAL_TRACE_FLIP :: u8 where "GSW_HAL_TRACE_FLIP = 233"
definition GSW_HAL_TRACE_LOCK_NO_SURFACE :: u8 where "GSW_HAL_TRACE_LOCK_NO_SURFACE = 234"
definition GSW_HAL_TRACE_LOCK_BAD_RECT :: u8 where "GSW_HAL_TRACE_LOCK_BAD_RECT = 235"
definition GSW_HAL_TRACE_REGISTER :: u8 where "GSW_HAL_TRACE_REGISTER = 236"
definition GSW_HAL_TRACE_REGISTER_DONE :: u8 where "GSW_HAL_TRACE_REGISTER_DONE = 237"

subsection \<open>Breadcrumbs\<close>

primrec gsw_trace_poll :: "'s hal_env \<Rightarrow> nat \<Rightarrow> 's \<Rightarrow> 's" where
  "gsw_trace_poll e 0 s = s"
| "gsw_trace_poll e (Suc n) s =
     (let (value, s) = gsw_in8 e 0xE5 (gsw_out8 e 0xE4 31 s)
      in if value \<noteq> 0 then s else gsw_trace_poll e n s)"

definition GSWDD_trace :: "'s hal_env \<Rightarrow> u8 \<Rightarrow> 's hal_world \<Rightarrow> 's hal_world" where
  "GSWDD_trace e label w =
     (let enabled = (case trace_enabled w of None \<Rightarrow> trace_marker e (windows w) | Some b \<Rightarrow> b);
          w = w\<lparr>trace_enabled := Some enabled\<rparr>
      in if \<not> enabled then w
         else
           (let s = gsw_out8 e 0xE4 29 (windows w);
                s = gsw_out8 e 0xE5 label s;
                s = gsw_out8 e 0xE4 31 s;
                s = gsw_out8 e 0xE5 0 s;
                s = gsw_out8 e 0xE6 8 s
            in w\<lparr>windows := gsw_trace_poll e 2000 s\<rparr>))"

subsection \<open>Resolving the library\<close>

definition gsw_load_entry ::
    "'s hal_env \<Rightarrow> string \<Rightarrow> (u32 \<Rightarrow> GSWDDInterface \<Rightarrow> GSWDDInterface) \<Rightarrow> ('s, bool) hal_step" where
  "gsw_load_entry e name store w =
     (let p = GetProcAddress e (if_module (interface w)) (''GSWDD_'' @ name) (windows w)
      in (p \<noteq> 0, on_interface (store p) w))"

primrec gsw_load_entries ::
    "'s hal_env \<Rightarrow> (string \<times> (u32 \<Rightarrow> GSWDDInterface \<Rightarrow> GSWDDInterface)) list \<Rightarrow> ('s, bool) hal_step" where
  "gsw_load_entries e [] w = (True, w)"
| "gsw_load_entries e (x # xs) w =
     (let (found, w) = gsw_load_entry e (fst x) (snd x) w
      in if found then gsw_load_entries e xs w else (False, w))"

definition gsw_entries :: "(string \<times> (u32 \<Rightarrow> GSWDDInterface \<Rightarrow> GSWDDInterface)) list" where
  "gsw_entries =
     [(''query'', \<lambda>p i. i\<lparr>if_query := p\<rparr>), (''register_surface'', \<lambda>p i. i\<lparr>if_register_surface := p\<rparr>),
      (''unregister_surface'', \<lambda>p i. i\<lparr>if_unregister_surface := p\<rparr>), (''fill'', \<lambda>p i. i\<lparr>if_fill := p\<rparr>),
      (''blt'', \<lambda>p i. i\<lparr>if_blt := p\<rparr>), (''present'', \<lambda>p i. i\<lparr>if_present := p\<rparr>),
      (''dirty'', \<lambda>p i. i\<lparr>if_dirty := p\<rparr>)]"

definition gsw_info_accepted :: "VMDAHAL_t \<Rightarrow> GSWDDQuery \<Rightarrow> bool" where
  "gsw_info_accepted hal info \<longleftrightarrow>
     \<not> (dq_cb info \<noteq> 20 \<or> dq_version info \<noteq> GSW_DD_ABI_VERSION \<or>
        dq_capabilities info \<noteq> (GSW_DD_CAP_SURFACE_IDS OR GSW_DD_CAP_FILL OR GSW_DD_CAP_BLT OR
          GSW_DD_CAP_PRESENT OR GSW_DD_CAP_DIRTY_RECT OR GSW_DD_CAP_DST_COLOR_KEY) \<or>
        (vramLinear hal \<noteq> 0 \<and> dq_framebuffer_linear info \<noteq> vramLinear hal) \<or>
        (vramSize hal \<noteq> 0 \<and> dq_framebuffer_bytes info \<noteq> vramSize hal))"

definition GSWDD_load :: "'s hal_env \<Rightarrow> u32 \<Rightarrow> ('s, bool) hal_step" where
  "GSWDD_load e hal w =
     (if hal = 0 \<or> pFBHDA32 (vmdahal e hal (windows w)) = 0 then (False, w)
      else
        (let (module, w) = on_windows (LoadLibraryA e) w;
             w = on_interface (\<lambda>i. i\<lparr>if_module := module\<rparr>) w
         in if module = 0 then (False, w)
            else
              (let (found, w) = gsw_load_entries e gsw_entries w in
               if \<not> found then (False, w)
               else
                 (let info = (if_info (interface w))\<lparr>dq_cb := 20\<rparr>;
                      ((ok, info), w) = on_windows (call_query e (if_query (interface w)) info) w;
                      w = on_interface (\<lambda>i. i\<lparr>if_info := info\<rparr>) w
                  in if \<not> ok then (False, w)
                     else (gsw_info_accepted (vmdahal e hal (windows w)) info, w)))))"

definition gsw_interface_current :: "'s hal_env \<Rightarrow> u32 \<Rightarrow> ('s, bool) hal_step" where
  "gsw_interface_current e hal w =
     (let current = GetModuleHandleA e (windows w) in
      if if_module (interface w) \<noteq> 0 \<and> current = if_module (interface w) then (True, w)
      else GSWDD_load e hal (on_interface (\<lambda>i. i\<lparr>if_module := 0, if_query := 0, if_register_surface := 0,
             if_unregister_surface := 0, if_fill := 0, if_blt := 0, if_present := 0, if_dirty := 0\<rparr>) w))"

subsection \<open>Surfaces\<close>

definition GSWDD_surface_bpp :: "'s hal_env \<Rightarrow> u32 \<Rightarrow> u32 \<Rightarrow> 's hal_world \<Rightarrow> u32" where
  "GSWDD_surface_bpp e hal surface w =
     (let l = surface_lcl w surface; g = surface_gbl w (lpGbl l)
      in if surface \<noteq> 0 \<and> lpGbl l \<noteq> 0 \<and> lcl_dwFlags l AND dd_constant e ''DDRAWISURF_HASPIXELFORMAT'' \<noteq> 0 \<and>
            gbl_RGBBitCount g \<noteq> 0
         then gbl_RGBBitCount g
         else if hal = 0 then 0 else dwBpp (vmdahal e hal (windows w)))"

text \<open>The request, or \<open>None\<close> where the geometry is refused.\<close>

definition gsw_surface_request ::
    "'s hal_env \<Rightarrow> u32 \<Rightarrow> u32 \<Rightarrow> 's hal_world \<Rightarrow> GSWDDRegister option" where
  "gsw_surface_request e hal surface w =
     (let l = surface_lcl w surface; g = surface_gbl w (lpGbl l); h = vmdahal e hal (windows w) in
      if fpVidMem g < vramLinear h \<or> sint (lPitch g) \<le> 0 then None
      else
        (let offset = fpVidMem g - vramLinear h;
             height = ucast (wHeight g);
             pitch = lPitch g
         in if height = 0 \<or> pitch > 0xFFFFFFFF div height then None
            else
              (let bytes = pitch * height in
               if offset > vramSize h \<or> bytes > vramSize h - offset then None
               else
                 (let bpp = GSWDD_surface_bpp e hal surface w in
                  if bpp \<noteq> 8 \<and> bpp \<noteq> 15 \<and> bpp \<noteq> 16 \<and> bpp \<noteq> 24 \<and> bpp \<noteq> 32 then None
                  else Some \<lparr>rg_cb = 36, rg_offset = offset, rg_byte_size = bytes, rg_width = ucast (wWidth g),
                         rg_height = height, rg_pitch = pitch, rg_bpp = bpp,
                         rg_flags = (if lcl_dwCaps l AND (dd_constant e ''DDSCAPS_PRIMARYSURFACE'' OR
                             dd_constant e ''DDSCAPS_FRONTBUFFER'' OR dd_constant e ''DDSCAPS_BACKBUFFER'') \<noteq> 0
                           then GSW_DD_SURFACE_PRESENTABLE else 0),
                         rg_surface_id = 0\<rparr>))))"

definition set_reserved1 :: "u32 \<Rightarrow> u32 \<Rightarrow> 's hal_world \<Rightarrow> 's hal_world" where
  "set_reserved1 surface v w =
     w\<lparr>surface_lcl := (surface_lcl w)(surface := (surface_lcl w surface)\<lparr>dwReserved1 := v\<rparr>)\<rparr>"

definition GSWDD_surface :: "'s hal_env \<Rightarrow> u32 \<Rightarrow> u32 \<Rightarrow> ('s, u32) hal_step" where
  "GSWDD_surface e hal surface w =
     (if hal = 0 \<or> surface = 0 \<or> lpGbl (surface_lcl w surface) = 0 then (0, w)
      else
        (let (current, w) = gsw_interface_current e hal w in
         if \<not> current then (0, w)
         else if dwReserved1 (surface_lcl w surface) \<noteq> 0 then (dwReserved1 (surface_lcl w surface), w)
         else
           (case gsw_surface_request e hal surface w of
              None \<Rightarrow> (0, w)
            | Some request \<Rightarrow>
                (let w = GSWDD_trace e GSW_HAL_TRACE_REGISTER w;
                     ((ok, request), w) = on_windows (call_register e (if_register_surface (interface w)) request) w
                 in if \<not> ok \<or> rg_surface_id request = 0 then (0, w)
                    else
                      (let w = GSWDD_trace e GSW_HAL_TRACE_REGISTER_DONE w
                       in (rg_surface_id request, set_reserved1 surface (rg_surface_id request) w))))))"

definition GSWDD_unregister :: "'s hal_env \<Rightarrow> u32 \<Rightarrow> u32 \<Rightarrow> ('s, bool) hal_step" where
  "GSWDD_unregister e hal surface_id w =
     (if surface_id = 0 then (False, w)
      else
        (let (current, w) = gsw_interface_current e hal w in
         if \<not> current then (False, w)
         else on_windows (call_unregister e (if_unregister_surface (interface w))
                \<lparr>du_cb = 8, du_surface_id = surface_id\<rparr>) w))"

definition GSWDD_fill :: "'s hal_env \<Rightarrow> GSWDDFill \<Rightarrow> ('s, bool) hal_step" where
  "GSWDD_fill e request w =
     (if if_fill (interface w) = 0 then (False, w) else on_windows (call_fill e (if_fill (interface w)) request) w)"

definition GSWDD_blt :: "'s hal_env \<Rightarrow> GSWDDBlt \<Rightarrow> ('s, bool) hal_step" where
  "GSWDD_blt e request w =
     (if if_blt (interface w) = 0 then (False, w) else on_windows (call_blt e (if_blt (interface w)) request) w)"

definition GSWDD_present :: "'s hal_env \<Rightarrow> u32 \<Rightarrow> ('s, bool) hal_step" where
  "GSWDD_present e surface_id w =
     (if if_present (interface w) = 0 then (False, w)
      else on_windows (call_present e (if_present (interface w)) \<lparr>dp_cb = 8, dp_surface_id = surface_id\<rparr>) w)"

definition GSWDD_dirty :: "'s hal_env \<Rightarrow> GSWDDDirty \<Rightarrow> ('s, bool) hal_step" where
  "GSWDD_dirty e request w =
     (if if_dirty (interface w) = 0 then (False, w) else on_windows (call_dirty e (if_dirty (interface w)) request) w)"

definition GSWDD_rop_supported :: "u32 \<Rightarrow> bool" where
  "GSWDD_rop_supported rop3 \<longleftrightarrow>
     rop3 \<in> set [0x00, 0x11, 0x33, 0x44, 0x55, 0x66, 0x88, 0xBB, 0xCC, 0xEE, 0xFF]"

subsection \<open>Locks\<close>

definition GSWDD_lock_rect :: "u32 \<Rightarrow> RECTL \<Rightarrow> bool \<Rightarrow> 's hal_world \<Rightarrow> 's hal_world" where
  "GSWDD_lock_rect surface_id rect read_only w =
     (if surface_id = 0 then w
      else w\<lparr>locks := (locks w)[unat (surface_id AND 0xFF) :=
             \<lparr>lk_surface_id = surface_id,
              lk_dirty = \<lparr>dt_cb = 24, dt_surface_id = surface_id, dt_x = rc_left rect, dt_y = rc_top rect,
                dt_width = rc_right rect - rc_left rect, dt_height = rc_bottom rect - rc_top rect\<rparr>,
              lk_read_only = read_only\<rparr>]\<rparr>)"

text \<open>The answer and, where the code fills it in, the rectangle.\<close>

definition GSWDD_unlock_rect :: "u32 \<Rightarrow> ('s, bool \<times> GSWDDDirty option) hal_step" where
  "GSWDD_unlock_rect surface_id w =
     (if surface_id = 0 then ((False, None), w)
      else
        (let slot = unat (surface_id AND 0xFF); record = locks w ! slot in
         if lk_surface_id record \<noteq> surface_id then ((False, None), w)
         else ((\<not> lk_read_only record, Some (lk_dirty record)),
               w\<lparr>locks := (locks w)[slot := record\<lparr>lk_surface_id := 0\<rparr>]\<rparr>)))"

end
