(* ===== verification/Hal_Ddraw.thy ===== *)
theory Hal_Ddraw
  imports Hal_Bridge
begin

text \<open>
  The DirectDraw callbacks of the driver (\<^verbatim>\<open>overlay/gsw_ddraw.c\<close>): creation and destruction of
  surfaces, locks, blits, flips and colour keys, each answered by the device through the bridge or
  left to the emulation layer. A callback receives a parameter block, \<open>None\<close> for a null pointer,
  and answers with its return value, the block as it leaves it, and the world.

  The library then shows what the device is asked to do, and follows a request through the library
  and the VxD into the transport.
\<close>

section \<open>Parameter blocks\<close>

datatype DDHAL_DRIVER = DDHAL_DRIVER_NOTHANDLED | DDHAL_DRIVER_HANDLED

record DDPIXELFORMAT =
  pf_dwFlags :: u32
  pf_dwRGBBitCount :: u32
  pf_dwRBitMask :: u32
  pf_dwGBitMask :: u32
  pf_dwBBitMask :: u32

record DDSURFACEDESC =
  desc_dwCaps :: u32
  desc_ddpfPixelFormat :: DDPIXELFORMAT

record DDBLTFX =
  fx_dwROP :: u32
  fx_dwFillColor :: u32
  fx_ddckSrcColorkey :: DDCOLORKEY
  fx_ddckDestColorkey :: DDCOLORKEY

record DDHAL_DATA =
  lpDD :: u32
  ddRVal :: u32

record DDHAL_CANCREATESURFACEDATA = DDHAL_DATA +
  lpDDSurfaceDesc :: "DDSURFACEDESC option"
  bIsDifferentPixelFormat :: bool

record DDHAL_CREATESURFACEDATA = DDHAL_DATA +
  lplpSList :: u32

record DDHAL_DESTROYSURFACEDATA = DDHAL_DATA +
  destroy_lpDDSurface :: u32

record DDHAL_LOCKDATA = DDHAL_DATA +
  lock_lpDDSurface :: u32
  bHasRect :: bool
  rArea :: RECTL
  lock_dwFlags :: u32

record DDHAL_UNLOCKDATA = DDHAL_DATA +
  unlock_lpDDSurface :: u32

record DDHAL_BLTDATA = DDHAL_DATA +
  lpDDDestSurface :: u32
  rDest :: RECTL
  lpDDSrcSurface :: u32
  rSrc :: RECTL
  blt_dwFlags :: u32
  bltFX :: DDBLTFX
  IsClipped :: bool

record DDHAL_FLIPDATA = DDHAL_DATA +
  lpSurfTarg :: u32

record DDHAL_SETEXCLUSIVEMODEDATA = DDHAL_DATA +
  dwEnterExcl :: bool

record DDHAL_SETCOLORKEYDATA = DDHAL_DATA +
  key_lpDDSurface :: u32
  key_dwFlags :: u32
  ckNew :: DDCOLORKEY

type_synonym ('s, 'a) hal_callback = "'a option \<Rightarrow> 's hal_world \<Rightarrow> DDHAL_DRIVER \<times> 'a option \<times> 's hal_world"

section \<open>Helpers\<close>

definition GetHAL :: "'s hal_env \<Rightarrow> u32 \<Rightarrow> 's hal_world \<Rightarrow> u32" where
  "GetHAL e dd w =
     (if dd \<noteq> 0 \<and> dd_hal e dd (windows w) \<ge> 0x80000000 then dd_hal e dd (windows w) else globalHal e (windows w))"

definition gsw_rect :: "RECTL \<Rightarrow> (u32 \<times> u32 \<times> u32 \<times> u32) option" where
  "gsw_rect rect =
     (if sint (rc_left rect) < 0 \<or> sint (rc_top rect) < 0 \<or> sint (rc_right rect) \<le> sint (rc_left rect) \<or>
         sint (rc_bottom rect) \<le> sint (rc_top rect) then None
      else Some (rc_left rect, rc_top rect, rc_right rect - rc_left rect, rc_bottom rect - rc_top rect))"

definition gsw_exact_key :: "DDCOLORKEY \<Rightarrow> u32 option" where
  "gsw_exact_key key =
     (if dwColorSpaceLowValue key \<noteq> dwColorSpaceHighValue key then None else Some (dwColorSpaceLowValue key))"

definition gsw_pixel_format_supported :: "'s hal_env \<Rightarrow> DDPIXELFORMAT \<Rightarrow> bool" where
  "gsw_pixel_format_supported e format =
     (let flags = pf_dwFlags format; rgb = dd_constant e ''DDPF_RGB'' in
      if pf_dwRGBBitCount format = 8 then flags = (rgb OR dd_constant e ''DDPF_PALETTEINDEXED8'')
      else if pf_dwRGBBitCount format = 16
      then flags = rgb \<and> pf_dwRBitMask format = 0xF800 \<and> pf_dwGBitMask format = 0x07E0 \<and> pf_dwBBitMask format = 0x001F
      else if pf_dwRGBBitCount format = 24 \<or> pf_dwRGBBitCount format = 32
      then flags = rgb \<and> pf_dwRBitMask format = 0x00FF0000 \<and> pf_dwGBitMask format = 0x0000FF00 \<and>
        pf_dwBBitMask format = 0x000000FF
      else False)"

section \<open>Callbacks\<close>

definition CanCreateSurface32 :: "'s hal_env \<Rightarrow> ('s, DDHAL_CANCREATESURFACEDATA) hal_callback" where
  "CanCreateSurface32 e data w =
     (case data of
        None \<Rightarrow> (DDHAL_DRIVER_NOTHANDLED, data, w)
      | Some d \<Rightarrow>
          (case lpDDSurfaceDesc d of
             None \<Rightarrow> (DDHAL_DRIVER_NOTHANDLED, data, w)
           | Some desc \<Rightarrow>
               if \<not> bIsDifferentPixelFormat d
               then (DDHAL_DRIVER_HANDLED, Some (d\<lparr>ddRVal := dd_constant e ''DD_OK''\<rparr>), w)
               else if desc_dwCaps desc AND (dd_constant e ''DDSCAPS_TEXTURE'' OR dd_constant e ''DDSCAPS_ZBUFFER'' OR
                   dd_constant e ''DDSCAPS_EXECUTEBUFFER'') \<noteq> 0
               then (DDHAL_DRIVER_HANDLED, Some (d\<lparr>ddRVal := dd_constant e ''DD_OK''\<rparr>), w)
               else if \<not> gsw_pixel_format_supported e (desc_ddpfPixelFormat desc)
               then (DDHAL_DRIVER_HANDLED, Some (d\<lparr>ddRVal := dd_constant e ''DDERR_INVALIDPIXELFORMAT''\<rparr>), w)
               else (DDHAL_DRIVER_HANDLED, Some (d\<lparr>ddRVal := dd_constant e ''DD_OK''\<rparr>), w)))"

definition CreateSurface32 :: "'s hal_env \<Rightarrow> ('s, DDHAL_CREATESURFACEDATA) hal_callback" where
  "CreateSurface32 e data w =
     (case data of
        None \<Rightarrow> (DDHAL_DRIVER_NOTHANDLED, data, w)
      | Some d \<Rightarrow>
          if lplpSList d = 0 then (DDHAL_DRIVER_NOTHANDLED, data, w)
          else (DDHAL_DRIVER_NOTHANDLED, Some (d\<lparr>ddRVal := dd_constant e ''DD_OK''\<rparr>), w))"

definition DestroySurface32 :: "'s hal_env \<Rightarrow> ('s, DDHAL_DESTROYSURFACEDATA) hal_callback" where
  "DestroySurface32 e data w =
     (case data of
        None \<Rightarrow> (DDHAL_DRIVER_NOTHANDLED, data, w)
      | Some d \<Rightarrow>
          let surface = destroy_lpDDSurface d in
          if surface = 0 then (DDHAL_DRIVER_NOTHANDLED, data, w)
          else
            (let w = (if dwReserved1 (surface_lcl w surface) \<noteq> 0
                      then set_reserved1 surface 0
                        (snd (GSWDD_unregister e (GetHAL e (lpDD d) w) (dwReserved1 (surface_lcl w surface)) w))
                      else w)
             in (DDHAL_DRIVER_HANDLED, Some (d\<lparr>ddRVal := dd_constant e ''DD_OK''\<rparr>), w)))"

definition gsw_lock_area :: "DDHAL_LOCKDATA \<Rightarrow> 's hal_world \<Rightarrow> RECTL" where
  "gsw_lock_area d w =
     (let g = surface_gbl w (lpGbl (surface_lcl w (lock_lpDDSurface d))) in
      if bHasRect d then rArea d
      else \<lparr>rc_left = 0, rc_top = 0, rc_right = ucast (wWidth g), rc_bottom = ucast (wHeight g)\<rparr>)"

definition gsw_lock_area_valid :: "RECTL \<Rightarrow> DDRAWI_DDRAWSURFACE_GBL \<Rightarrow> bool" where
  "gsw_lock_area_valid rect g \<longleftrightarrow>
     \<not> (sint (rc_left rect) < 0 \<or> sint (rc_top rect) < 0 \<or> sint (rc_right rect) \<le> sint (rc_left rect) \<or>
        sint (rc_bottom rect) \<le> sint (rc_top rect) \<or> rc_right rect > ucast (wWidth g) \<or>
        rc_bottom rect > ucast (wHeight g))"

definition Lock32 :: "'s hal_env \<Rightarrow> ('s, DDHAL_LOCKDATA) hal_callback" where
  "Lock32 e data w =
     (let w = GSWDD_trace e GSW_HAL_TRACE_LOCK w in
      case data of
        None \<Rightarrow> (DDHAL_DRIVER_NOTHANDLED, data, w)
      | Some d \<Rightarrow>
          let surface = lock_lpDDSurface d in
          if surface = 0 then (DDHAL_DRIVER_NOTHANDLED, data, w)
          else
            (let (surface_id, w) = GSWDD_surface e (GetHAL e (lpDD d) w) surface w in
             if surface_id = 0
             then (DDHAL_DRIVER_NOTHANDLED, data, GSWDD_trace e GSW_HAL_TRACE_LOCK_NO_SURFACE w)
             else
               (let rect = gsw_lock_area d w in
                if \<not> gsw_lock_area_valid rect (surface_gbl w (lpGbl (surface_lcl w surface)))
                then (DDHAL_DRIVER_NOTHANDLED, data, GSWDD_trace e GSW_HAL_TRACE_LOCK_BAD_RECT w)
                else
                  (let w = GSWDD_lock_rect surface_id rect (lock_dwFlags d AND dd_constant e ''DDLOCK_READONLY'' \<noteq> 0) w
                   in (DDHAL_DRIVER_NOTHANDLED, data, GSWDD_trace e GSW_HAL_TRACE_LOCK_DONE w)))))"

definition Unlock32 :: "'s hal_env \<Rightarrow> ('s, DDHAL_UNLOCKDATA) hal_callback" where
  "Unlock32 e data w =
     (let w = GSWDD_trace e GSW_HAL_TRACE_UNLOCK w in
      case data of
        None \<Rightarrow> (DDHAL_DRIVER_NOTHANDLED, data, w)
      | Some d \<Rightarrow>
          if unlock_lpDDSurface d = 0 then (DDHAL_DRIVER_NOTHANDLED, data, w)
          else
            (let surface_id = dwReserved1 (surface_lcl w (unlock_lpDDSurface d));
                 ((changed, dirty), w) = GSWDD_unlock_rect surface_id w;
                 (refused, w) = (case dirty of
                     Some r \<Rightarrow> if changed then (let (ok, w) = GSWDD_dirty e r w in (\<not> ok, w)) else (False, w)
                   | None \<Rightarrow> (False, w))
             in if refused then (DDHAL_DRIVER_HANDLED, Some (d\<lparr>ddRVal := dd_constant e ''DDERR_GENERIC''\<rparr>), w)
                else (DDHAL_DRIVER_NOTHANDLED, data, w)))"

text \<open>
  The flags and the keys of a blit from a source: a key given with the call wins over the key of
  the surface, and a key that is a range of colours cannot be used.
\<close>

definition gsw_blt_source_key :: "'s hal_env \<Rightarrow> DDHAL_BLTDATA \<Rightarrow> 's hal_world \<Rightarrow> (u32 \<times> u32) option" where
  "gsw_blt_source_key e d w =
     (if blt_dwFlags d AND dd_constant e ''DDBLT_KEYSRCOVERRIDE'' \<noteq> 0
      then map_option (\<lambda>key. (GSW_DD_BLT_SRC_COLOR_KEY, key)) (gsw_exact_key (fx_ddckSrcColorkey (bltFX d)))
      else if blt_dwFlags d AND dd_constant e ''DDBLT_KEYSRC'' \<noteq> 0
      then map_option (\<lambda>key. (GSW_DD_BLT_SRC_COLOR_KEY, key))
             (gsw_exact_key (ddckCKSrcBlt (surface_lcl w (lpDDSrcSurface d))))
      else Some (0, 0))"

definition gsw_blt_destination_key :: "'s hal_env \<Rightarrow> DDHAL_BLTDATA \<Rightarrow> 's hal_world \<Rightarrow> (u32 \<times> u32) option" where
  "gsw_blt_destination_key e d w =
     (if blt_dwFlags d AND dd_constant e ''DDBLT_KEYDESTOVERRIDE'' \<noteq> 0
      then map_option (\<lambda>key. (GSW_DD_BLT_DST_COLOR_KEY, key)) (gsw_exact_key (fx_ddckDestColorkey (bltFX d)))
      else if blt_dwFlags d AND dd_constant e ''DDBLT_KEYDEST'' \<noteq> 0
      then map_option (\<lambda>key. (GSW_DD_BLT_DST_COLOR_KEY, key))
             (gsw_exact_key (ddckCKDestBlt (surface_lcl w (lpDDDestSurface d))))
      else Some (0, 0))"

definition gsw_blt_allowed :: "'s hal_env \<Rightarrow> u32" where
  "gsw_blt_allowed e =
     dd_constant e ''DDBLT_ROP'' OR dd_constant e ''DDBLT_COLORFILL'' OR dd_constant e ''DDBLT_KEYSRC'' OR
     dd_constant e ''DDBLT_KEYSRCOVERRIDE'' OR dd_constant e ''DDBLT_KEYDEST'' OR dd_constant e ''DDBLT_KEYDESTOVERRIDE'' OR
     dd_constant e ''DDBLT_WAIT'' OR dd_constant e ''DDBLT_ASYNC'' OR dd_constant e ''DDBLT_DONOTWAIT''"

definition gsw_blt_answer :: "'s hal_env \<Rightarrow> DDHAL_BLTDATA \<Rightarrow> bool \<Rightarrow> DDHAL_BLTDATA" where
  "gsw_blt_answer e d ok = d\<lparr>ddRVal := dd_constant e (if ok then ''DD_OK'' else ''DDERR_GENERIC'')\<rparr>"

definition gsw_blt_fill :: "'s hal_env \<Rightarrow> DDHAL_BLTDATA \<Rightarrow> u32 \<Rightarrow> u32 \<times> u32 \<times> u32 \<times> u32 \<Rightarrow>
    's hal_world \<Rightarrow> DDHAL_DRIVER \<times> DDHAL_BLTDATA option \<times> 's hal_world" where
  "gsw_blt_fill e d destination_id area w =
     (if blt_dwFlags d AND NOT (dd_constant e ''DDBLT_COLORFILL'' OR dd_constant e ''DDBLT_WAIT'' OR
          dd_constant e ''DDBLT_ASYNC'' OR dd_constant e ''DDBLT_DONOTWAIT'') \<noteq> 0
      then (DDHAL_DRIVER_NOTHANDLED, Some d, w)
      else
        (let (x, y, width, height) = area;
             (ok, w) = GSWDD_fill e \<lparr>fl_cb = 28, fl_surface_id = destination_id, fl_x = x, fl_y = y,
               fl_width = width, fl_height = height, fl_color = fx_dwFillColor (bltFX d)\<rparr> w
         in (DDHAL_DRIVER_HANDLED, Some (gsw_blt_answer e d ok), w)))"

definition gsw_blt_copy :: "'s hal_env \<Rightarrow> u32 \<Rightarrow> DDHAL_BLTDATA \<Rightarrow> u32 \<Rightarrow> u32 \<times> u32 \<times> u32 \<times> u32 \<Rightarrow>
    's hal_world \<Rightarrow> DDHAL_DRIVER \<times> DDHAL_BLTDATA option \<times> 's hal_world" where
  "gsw_blt_copy e hal d destination_id area w =
     (case (if lpDDSrcSurface d = 0 then None else gsw_rect (rSrc d)) of
        None \<Rightarrow> (DDHAL_DRIVER_NOTHANDLED, Some d, w)
      | Some (sx, sy, swidth, sheight) \<Rightarrow>
          (let (source_id, w) = GSWDD_surface e hal (lpDDSrcSurface d) w in
           if source_id = 0 then (DDHAL_DRIVER_NOTHANDLED, Some d, w)
           else if GSWDD_surface_bpp e hal (lpDDSrcSurface d) w \<noteq> GSWDD_surface_bpp e hal (lpDDDestSurface d) w
           then (DDHAL_DRIVER_NOTHANDLED, Some d, w)
           else
             (case gsw_blt_source_key e d w of
                None \<Rightarrow> (DDHAL_DRIVER_NOTHANDLED, Some d, w)
              | Some (source_flag, source_key) \<Rightarrow>
                  (case gsw_blt_destination_key e d w of
                     None \<Rightarrow> (DDHAL_DRIVER_NOTHANDLED, Some d, w)
                   | Some (destination_flag, destination_key) \<Rightarrow>
                       (let (dx, dy, dwidth, dheight) = area;
                            rop3 = (if blt_dwFlags d AND dd_constant e ''DDBLT_ROP'' \<noteq> 0
                              then drop_bit 16 (fx_dwROP (bltFX d)) AND 0xFF else 0xCC)
                        in if \<not> GSWDD_rop_supported rop3 then (DDHAL_DRIVER_NOTHANDLED, Some d, w)
                           else
                             (let (ok, w) = GSWDD_blt e
                                \<lparr>bl_cb = 64, bl_source_id = source_id, bl_destination_id = destination_id,
                                 bl_source_x = sx, bl_source_y = sy, bl_source_width = swidth, bl_source_height = sheight,
                                 bl_destination_x = dx, bl_destination_y = dy, bl_destination_width = dwidth,
                                 bl_destination_height = dheight, bl_flags = source_flag OR destination_flag,
                                 bl_source_color_key = source_key, bl_destination_color_key = destination_key,
                                 bl_pattern = fx_dwFillColor (bltFX d), bl_rop3 = rop3\<rparr> w
                              in (DDHAL_DRIVER_HANDLED, Some (gsw_blt_answer e d ok), w)))))))"

definition Blt32 :: "'s hal_env \<Rightarrow> ('s, DDHAL_BLTDATA) hal_callback" where
  "Blt32 e data w =
     (case data of
        None \<Rightarrow> (DDHAL_DRIVER_NOTHANDLED, data, w)
      | Some d \<Rightarrow>
          if lpDDDestSurface d = 0 \<or> IsClipped d then (DDHAL_DRIVER_NOTHANDLED, data, w)
          else
            (let hal = GetHAL e (lpDD d) w;
                 (destination_id, w) = GSWDD_surface e hal (lpDDDestSurface d) w
             in case (if destination_id = 0 then None else gsw_rect (rDest d)) of
                  None \<Rightarrow> (DDHAL_DRIVER_NOTHANDLED, data, w)
                | Some area \<Rightarrow>
                    if blt_dwFlags d AND NOT (gsw_blt_allowed e) \<noteq> 0 then (DDHAL_DRIVER_NOTHANDLED, data, w)
                    else if blt_dwFlags d AND dd_constant e ''DDBLT_COLORFILL'' \<noteq> 0
                    then gsw_blt_fill e d destination_id area w
                    else gsw_blt_copy e hal d destination_id area w))"

definition Flip32 :: "'s hal_env \<Rightarrow> ('s, DDHAL_FLIPDATA) hal_callback" where
  "Flip32 e data w =
     (let w = GSWDD_trace e GSW_HAL_TRACE_FLIP w in
      case data of
        None \<Rightarrow> (DDHAL_DRIVER_NOTHANDLED, data, w)
      | Some d \<Rightarrow>
          if lpSurfTarg d = 0 then (DDHAL_DRIVER_NOTHANDLED, data, w)
          else
            (let (surface_id, w) = GSWDD_surface e (GetHAL e (lpDD d) w) (lpSurfTarg d) w in
             if surface_id = 0 then (DDHAL_DRIVER_NOTHANDLED, data, w)
             else
               (let (ok, w) = GSWDD_present e surface_id w
                in (DDHAL_DRIVER_HANDLED,
                    Some (d\<lparr>ddRVal := dd_constant e (if ok then ''DD_OK'' else ''DDERR_WASSTILLDRAWING'')\<rparr>), w))))"

text \<open>The three status callbacks do not test their pointer.\<close>

definition GetFlipStatus32 :: "'s hal_env \<Rightarrow> DDHAL_DATA \<Rightarrow> DDHAL_DRIVER \<times> DDHAL_DATA" where
  "GetFlipStatus32 e d = (DDHAL_DRIVER_HANDLED, d\<lparr>ddRVal := dd_constant e ''DD_OK''\<rparr>)"

definition GetBltStatus32 :: "'s hal_env \<Rightarrow> DDHAL_DATA \<Rightarrow> DDHAL_DRIVER \<times> DDHAL_DATA" where
  "GetBltStatus32 e d = (DDHAL_DRIVER_HANDLED, d\<lparr>ddRVal := dd_constant e ''DD_OK''\<rparr>)"

definition SetMode32 :: "'s hal_env \<Rightarrow> DDHAL_DATA \<Rightarrow> DDHAL_DRIVER \<times> DDHAL_DATA" where
  "SetMode32 e d = (DDHAL_DRIVER_NOTHANDLED, d\<lparr>ddRVal := dd_constant e ''DD_OK''\<rparr>)"

definition AddAttachedSurface32 :: "'s hal_env \<Rightarrow> DDHAL_DATA \<Rightarrow> DDHAL_DRIVER \<times> DDHAL_DATA" where
  "AddAttachedSurface32 e d = (DDHAL_DRIVER_NOTHANDLED, d\<lparr>ddRVal := dd_constant e ''DD_OK''\<rparr>)"

definition WaitForVerticalBlank32 :: "'s hal_env \<Rightarrow> DDHAL_DATA option \<Rightarrow> DDHAL_DRIVER \<times> DDHAL_DATA option" where
  "WaitForVerticalBlank32 e data =
     (DDHAL_DRIVER_NOTHANDLED, map_option (\<lambda>d. d\<lparr>ddRVal := dd_constant e ''DDERR_UNSUPPORTED''\<rparr>) data)"

definition SetExclusiveMode32 :: "'s hal_env \<Rightarrow> ('s, DDHAL_SETEXCLUSIVEMODEDATA) hal_callback" where
  "SetExclusiveMode32 e data w =
     (case data of
        None \<Rightarrow> (DDHAL_DRIVER_NOTHANDLED, data, w)
      | Some d \<Rightarrow>
          (let s = FBHDA_access_begin e (dd_constant e (if dwEnterExcl d then ''FBHDA_ACCESS_EXCLUSIVE_BEGIN''
                     else ''FBHDA_ACCESS_EXCLUSIVE_END'')) (windows w);
               s = FBHDA_access_end e 0 s
           in (DDHAL_DRIVER_NOTHANDLED, Some (d\<lparr>ddRVal := dd_constant e ''DD_OK''\<rparr>), w\<lparr>windows := s\<rparr>)))"

definition SetColorKey32 :: "'s hal_env \<Rightarrow> ('s, DDHAL_SETCOLORKEYDATA) hal_callback" where
  "SetColorKey32 e data w =
     (case data of
        None \<Rightarrow> (DDHAL_DRIVER_NOTHANDLED, data, w)
      | Some d \<Rightarrow>
          let surface = key_lpDDSurface d;
              src = dd_constant e ''DDCKEY_SRCBLT''; dest = dd_constant e ''DDCKEY_DESTBLT'';
              update = (\<lambda>f w. w\<lparr>surface_lcl := (surface_lcl w)(surface := f (surface_lcl w surface))\<rparr>)
          in if surface = 0 \<or> dwColorSpaceLowValue (ckNew d) \<noteq> dwColorSpaceHighValue (ckNew d) \<or>
                key_dwFlags d AND NOT (src OR dest) \<noteq> 0 \<or> key_dwFlags d AND (src OR dest) = 0
             then (DDHAL_DRIVER_NOTHANDLED, data, w)
             else
               (let w = (if key_dwFlags d AND src \<noteq> 0
                         then update (\<lambda>l. l\<lparr>ddckCKSrcBlt := ckNew d,
                           lcl_dwFlags := lcl_dwFlags l OR dd_constant e ''DDRAWISURF_HASCKEYSRCBLT''\<rparr>) w else w);
                    w = (if key_dwFlags d AND dest \<noteq> 0
                         then update (\<lambda>l. l\<lparr>ddckCKDestBlt := ckNew d,
                           lcl_dwFlags := lcl_dwFlags l OR dd_constant e ''DDRAWISURF_HASCKEYDESTBLT''\<rparr>) w else w)
                in (DDHAL_DRIVER_HANDLED, Some (d\<lparr>ddRVal := dd_constant e ''DD_OK''\<rparr>), w)))"

text \<open>Ticks of a tenth of a millisecond; the counters are signed 64-bit numbers, and so is the product.\<close>

definition GetTimeTMS :: "'s hal_env \<Rightarrow> 's \<Rightarrow> u64" where
  "GetTimeTMS e s =
     (case QueryPerformanceFrequency e s of
        None \<Rightarrow> 0
      | Some frequency \<Rightarrow>
          if frequency = 0 then 0
          else (let product = sint (word_of_int (QueryPerformanceCounter e s * 10000) :: u64)
                in word_of_int (sgn product * sgn frequency * (\<bar>product\<bar> div \<bar>frequency\<bar>))))"

section \<open>The requests of the driver\<close>

text \<open>
  The bridge over a machine that also writes down the calls through the function pointers, each
  with the pointer used.
\<close>

datatype hal_request =
    Asked_Register u32 GSWDDRegister
  | Asked_Unregister u32 GSWDDUnregister
  | Asked_Fill u32 GSWDDFill
  | Asked_Blt u32 GSWDDBlt
  | Asked_Present u32 GSWDDPresent
  | Asked_Dirty u32 GSWDDDirty

definition noted ::
    "('r \<Rightarrow> hal_request) \<Rightarrow> ('r \<Rightarrow> 's \<Rightarrow> 'a \<times> 's) \<Rightarrow> 'r \<Rightarrow> 's \<times> hal_request list \<Rightarrow> 'a \<times> 's \<times> hal_request list" where
  "noted ask f r m = (let (x, s) = f r (fst m) in (x, s, snd m @ [ask r]))"

definition silent :: "('s \<Rightarrow> 'a \<times> 's) \<Rightarrow> 's \<times> 'l \<Rightarrow> 'a \<times> 's \<times> 'l" where
  "silent f m = (let (x, s) = f (fst m) in (x, s, snd m))"

definition traced_hal :: "'s hal_env \<Rightarrow> ('s \<times> hal_request list) hal_env" where
  "traced_hal e =
     \<lparr>GetModuleHandleA = \<lambda>m. GetModuleHandleA e (fst m), LoadLibraryA = silent (LoadLibraryA e),
      GetProcAddress = \<lambda>module name m. GetProcAddress e module name (fst m),
      call_query = \<lambda>p q. silent (call_query e p q),
      call_register = \<lambda>p. noted (Asked_Register p) (call_register e p),
      call_unregister = \<lambda>p. noted (Asked_Unregister p) (call_unregister e p),
      call_fill = \<lambda>p. noted (Asked_Fill p) (call_fill e p), call_blt = \<lambda>p. noted (Asked_Blt p) (call_blt e p),
      call_present = \<lambda>p. noted (Asked_Present p) (call_present e p),
      call_dirty = \<lambda>p. noted (Asked_Dirty p) (call_dirty e p),
      trace_marker = \<lambda>m. trace_marker e (fst m), gsw_out8 = \<lambda>port v m. (gsw_out8 e port v (fst m), snd m),
      gsw_in8 = \<lambda>port. silent (gsw_in8 e port), vmdahal = \<lambda>p m. vmdahal e p (fst m), dd_hal = \<lambda>p m. dd_hal e p (fst m),
      globalHal = \<lambda>m. globalHal e (fst m), FBHDA_access_begin = \<lambda>f m. (FBHDA_access_begin e f (fst m), snd m),
      FBHDA_access_end = \<lambda>f m. (FBHDA_access_end e f (fst m), snd m),
      QueryPerformanceFrequency = \<lambda>m. QueryPerformanceFrequency e (fst m),
      QueryPerformanceCounter = \<lambda>m. QueryPerformanceCounter e (fst m), dd_constant = dd_constant e\<rparr>"

abbreviation asked :: "('s \<times> hal_request list) hal_world \<Rightarrow> hal_request list" where
  "asked w \<equiv> snd (windows w)"

text \<open>A rectangle of a request: not empty, its far corner below \<open>2 ^ 31\<close>.\<close>

definition area_ok :: "u32 \<Rightarrow> u32 \<Rightarrow> u32 \<Rightarrow> u32 \<Rightarrow> bool" where
  "area_ok x y width height \<longleftrightarrow>
     0 < unat width \<and> 0 < unat height \<and> unat x + unat width < 2 ^ 31 \<and> unat y + unat height < 2 ^ 31"

definition dirty_ok :: "GSWDDDirty \<Rightarrow> bool" where
  "dirty_ok r \<longleftrightarrow> dt_cb r = 24 \<and> dt_surface_id r \<noteq> 0 \<and> area_ok (dt_x r) (dt_y r) (dt_width r) (dt_height r)"

definition register_ok :: "GSWDDRegister \<Rightarrow> bool" where
  "register_ok r \<longleftrightarrow>
     rg_cb r = 36 \<and> 0 < unat (rg_height r) \<and> unat (rg_byte_size r) = unat (rg_pitch r) * unat (rg_height r) \<and>
     rg_bpp r \<in> {8, 15, 16, 24, 32} \<and> rg_surface_id r = 0"

definition blt_ok :: "GSWDDBlt \<Rightarrow> bool" where
  "blt_ok r \<longleftrightarrow>
     bl_cb r = 64 \<and> bl_source_id r \<noteq> 0 \<and> bl_destination_id r \<noteq> 0 \<and>
     area_ok (bl_source_x r) (bl_source_y r) (bl_source_width r) (bl_source_height r) \<and>
     area_ok (bl_destination_x r) (bl_destination_y r) (bl_destination_width r) (bl_destination_height r) \<and>
     bl_flags r AND NOT (GSW_DD_BLT_SRC_COLOR_KEY OR GSW_DD_BLT_DST_COLOR_KEY) = 0 \<and>
     bl_rop3 r \<le> 0xFF \<and> \<not> gsw_gdi_pattern_dependent (ucast (bl_rop3 r))"

primrec library_request_ok :: "hal_request \<Rightarrow> bool" where
  "library_request_ok (Asked_Register p r) = register_ok r"
| "library_request_ok (Asked_Unregister p r) = (du_cb r = 8 \<and> du_surface_id r \<noteq> 0)"
| "library_request_ok (Asked_Fill p r) = (p \<noteq> 0 \<and> fl_cb r = 28 \<and> fl_surface_id r \<noteq> 0 \<and>
     area_ok (fl_x r) (fl_y r) (fl_width r) (fl_height r))"
| "library_request_ok (Asked_Blt p r) = (p \<noteq> 0 \<and> blt_ok r)"
| "library_request_ok (Asked_Present p r) = (p \<noteq> 0 \<and> dp_cb r = 8 \<and> dp_surface_id r \<noteq> 0)"
| "library_request_ok (Asked_Dirty p r) = (p \<noteq> 0 \<and> dirty_ok r)"

definition locks_ok :: "GSWDDLockRecord list \<Rightarrow> bool" where
  "locks_ok ls \<longleftrightarrow> length ls = 256 \<and>
     (\<forall>i < 256. lk_surface_id (ls ! i) = 0 \<or>
        i = unat (lk_surface_id (ls ! i) AND 0xFF) \<and> dirty_ok (lk_dirty (ls ! i)) \<and>
        dt_surface_id (lk_dirty (ls ! i)) = lk_surface_id (ls ! i))"

definition hal_ok :: "('s \<times> hal_request list) hal_world \<Rightarrow> bool" where
  "hal_ok w \<longleftrightarrow> locks_ok (locks w) \<and> list_all library_request_ok (asked w)"

text \<open>
  The callbacks as events. Between them DirectDraw, Windows and the applications change the
  surfaces, the process and everything else at will.
\<close>

datatype 's hal_call =
    Hal_Can_Create "DDHAL_CANCREATESURFACEDATA option"
  | Hal_Create "DDHAL_CREATESURFACEDATA option"
  | Hal_Destroy "DDHAL_DESTROYSURFACEDATA option"
  | Hal_Lock "DDHAL_LOCKDATA option"
  | Hal_Unlock "DDHAL_UNLOCKDATA option"
  | Hal_Blt "DDHAL_BLTDATA option"
  | Hal_Flip "DDHAL_FLIPDATA option"
  | Hal_Exclusive "DDHAL_SETEXCLUSIVEMODEDATA option"
  | Hal_Color_Key "DDHAL_SETCOLORKEYDATA option"
  | Hal_Outside "u32 \<Rightarrow> DDRAWI_DDRAWSURFACE_LCL" "u32 \<Rightarrow> DDRAWI_DDRAWSURFACE_GBL" 's

fun hal_perform :: "'s hal_env \<Rightarrow> 's hal_call \<Rightarrow> ('s \<times> hal_request list) hal_world \<Rightarrow> ('s \<times> hal_request list) hal_world" where
  "hal_perform e (Hal_Can_Create d) w = snd (snd (CanCreateSurface32 (traced_hal e) d w))"
| "hal_perform e (Hal_Create d) w = snd (snd (CreateSurface32 (traced_hal e) d w))"
| "hal_perform e (Hal_Destroy d) w = snd (snd (DestroySurface32 (traced_hal e) d w))"
| "hal_perform e (Hal_Lock d) w = snd (snd (Lock32 (traced_hal e) d w))"
| "hal_perform e (Hal_Unlock d) w = snd (snd (Unlock32 (traced_hal e) d w))"
| "hal_perform e (Hal_Blt d) w = snd (snd (Blt32 (traced_hal e) d w))"
| "hal_perform e (Hal_Flip d) w = snd (snd (Flip32 (traced_hal e) d w))"
| "hal_perform e (Hal_Exclusive d) w = snd (snd (SetExclusiveMode32 (traced_hal e) d w))"
| "hal_perform e (Hal_Color_Key d) w = snd (snd (SetColorKey32 (traced_hal e) d w))"
| "hal_perform e (Hal_Outside l g s) w = w\<lparr>surface_lcl := l, surface_gbl := g, windows := (s, asked w)\<rparr>"

text \<open>The zeroed statics.\<close>

definition lock_zero :: GSWDDLockRecord where
  "lock_zero = \<lparr>lk_surface_id = 0, lk_dirty = \<lparr>dt_cb = 0, dt_surface_id = 0, dt_x = 0, dt_y = 0, dt_width = 0,
     dt_height = 0\<rparr>, lk_read_only = False\<rparr>"

definition interface_zero :: GSWDDInterface where
  "interface_zero = \<lparr>if_module = 0, if_query = 0, if_register_surface = 0, if_unregister_surface = 0, if_fill = 0,
     if_blt = 0, if_present = 0, if_dirty = 0, if_info = \<lparr>dq_cb = 0, dq_version = 0, dq_capabilities = 0,
     dq_framebuffer_linear = 0, dq_framebuffer_bytes = 0\<rparr>\<rparr>"

definition hal_start ::
    "(u32 \<Rightarrow> DDRAWI_DDRAWSURFACE_LCL) \<Rightarrow> (u32 \<Rightarrow> DDRAWI_DDRAWSURFACE_GBL) \<Rightarrow> 's \<Rightarrow> 's hal_world" where
  "hal_start l g s = \<lparr>interface = interface_zero, locks = replicate 256 lock_zero, trace_enabled = None,
     surface_lcl = l, surface_gbl = g, windows = s\<rparr>"

subsection \<open>Preservation\<close>

lemma noted_log [simp]: "snd (snd (noted ask f r m)) = snd m @ [ask r]"
  by (simp add: noted_def Let_def split_beta)

lemma silent_log [simp]: "snd (snd (silent f m)) = snd m"
  by (simp add: silent_def Let_def split_beta)

lemma traced_calls [simp]:
  "call_register (traced_hal e) p r m = noted (Asked_Register p) (call_register e p) r m"
  "call_unregister (traced_hal e) p u m = noted (Asked_Unregister p) (call_unregister e p) u m"
  "call_fill (traced_hal e) p f m = noted (Asked_Fill p) (call_fill e p) f m"
  "call_blt (traced_hal e) p b m = noted (Asked_Blt p) (call_blt e p) b m"
  "call_present (traced_hal e) p v m = noted (Asked_Present p) (call_present e p) v m"
  "call_dirty (traced_hal e) p t m = noted (Asked_Dirty p) (call_dirty e p) t m"
  "call_query (traced_hal e) p q m = silent (call_query e p q) m"
  "LoadLibraryA (traced_hal e) m = silent (LoadLibraryA e) m"
  "gsw_in8 (traced_hal e) port m = silent (gsw_in8 e port) m"
  "snd (gsw_out8 (traced_hal e) port octet m) = snd m"
  "snd (FBHDA_access_begin (traced_hal e) x m) = snd m" "snd (FBHDA_access_end (traced_hal e) x m) = snd m"
  by (simp_all add: traced_hal_def)

lemma step_fields [simp]:
  "locks (snd (on_windows f w)) = locks w" "interface (snd (on_windows f w)) = interface w"
  "surface_lcl (snd (on_windows f w)) = surface_lcl w" "surface_gbl (snd (on_windows f w)) = surface_gbl w"
  "locks (on_interface g w) = locks w" "locks (set_reserved1 p v w) = locks w"
  "interface (set_reserved1 p v w) = interface w"
  by (simp_all add: on_windows_def on_interface_def set_reserved1_def Let_def split_beta)

lemma step_windows [simp]:
  "windows (snd (on_windows f w)) = snd (f (windows w))" "windows (on_interface g w) = windows w"
  "windows (set_reserved1 p v w) = windows w"
  by (simp_all add: on_windows_def on_interface_def set_reserved1_def Let_def split_beta)

lemma trace_poll_log [simp]: "snd (gsw_trace_poll (traced_hal e) n m) = snd m"
  by (induction n arbitrary: m) (simp_all add: Let_def split_beta)

lemma trace_log [simp]:
  "locks (GSWDD_trace e l v) = locks v" "interface (GSWDD_trace e l v) = interface v"
  "asked (GSWDD_trace (traced_hal e) l w) = asked w"
  "surface_lcl (GSWDD_trace e l v) = surface_lcl v" "surface_gbl (GSWDD_trace e l v) = surface_gbl v"
  by (simp_all add: GSWDD_trace_def Let_def)

lemma load_entries_log [simp]:
  "locks (snd (gsw_load_entries e xs v)) = locks v" "windows (snd (gsw_load_entries e xs v)) = windows v"
  by (induction xs arbitrary: v) (simp_all add: gsw_load_entry_def on_interface_def Let_def split_beta)

lemma load_log [simp]:
  "locks (snd (GSWDD_load e hal v)) = locks v" "asked (snd (GSWDD_load (traced_hal e) hal w)) = asked w"
  by (simp_all add: GSWDD_load_def Let_def split_beta)

lemma current_log [simp]:
  "locks (snd (gsw_interface_current e hal v)) = locks v"
  "asked (snd (gsw_interface_current (traced_hal e) hal w)) = asked w"
  by (simp_all add: gsw_interface_current_def Let_def)

lemma surface_request_fits:
  assumes "gsw_surface_request e hal surface w = Some r"
  shows "register_ok r \<and> unat (rg_offset r) + unat (rg_byte_size r) \<le> unat (vramSize (vmdahal e hal (windows w)))"
proof -
  define h where "h = vmdahal e hal (windows w)"
  have c: "0 < unat (rg_height r)" "\<not> rg_pitch r > 0xFFFFFFFF div rg_height r" "rg_byte_size r = rg_pitch r * rg_height r"
    "\<not> rg_offset r > vramSize h" "\<not> rg_byte_size r > vramSize h - rg_offset r" "rg_cb r = 36" "rg_surface_id r = 0"
    "rg_bpp r \<in> {8, 15, 16, 24, 32}"
    using assms by (auto simp: gsw_surface_request_def Let_def h_def unat_gt_0 split: if_splits)
  then have "unat (rg_byte_size r) = unat (rg_pitch r) * unat (rg_height r)"
    using no_mult_wrap_iff [of "rg_height r" "rg_pitch r"] by (simp add: unat_mult_no_overflow unat_gt_0 linorder_not_less)
  moreover have "unat (rg_offset r) + unat (rg_byte_size r) \<le> unat (vramSize h)"
    using c(4,5) by (simp add: word_le_nat_alt unat_sub linorder_not_less)
  ultimately show ?thesis using c by (simp add: register_ok_def h_def)
qed

lemma surface_step:
  "locks (snd (GSWDD_surface e hal surface v)) = locks v"
  "\<exists>new. asked (snd (GSWDD_surface (traced_hal e) hal surface w)) = asked w @ new \<and> list_all library_request_ok new"
proof -
  show "locks (snd (GSWDD_surface e hal surface v)) = locks v"
    by (simp add: GSWDD_surface_def Let_def split_beta split: option.split)
  let ?e = "traced_hal e"
  obtain current w1 where c: "gsw_interface_current ?e hal w = (current, w1)" by fastforce
  have a: "asked w1 = asked w" using current_log(2) [of e hal w] by (simp add: c)
  show "\<exists>new. asked (snd (GSWDD_surface ?e hal surface w)) = asked w @ new \<and> list_all library_request_ok new"
  proof (cases "gsw_surface_request ?e hal surface w1")
    case None
    with a show ?thesis by (simp add: GSWDD_surface_def c Let_def)
  next
    case (Some r)
    from surface_request_fits [OF Some] have "register_ok r" by simp
    then have "list_all library_request_ok [Asked_Register p r]" for p by simp
    with a show ?thesis by (auto simp: GSWDD_surface_def c Some Let_def split_beta)
  qed
qed

text \<open>Requests are only added, and each one added is well formed.\<close>

definition adds_ok :: "('s \<times> hal_request list) hal_world \<Rightarrow> ('s \<times> hal_request list) hal_world \<Rightarrow> bool" where
  "adds_ok w w' \<longleftrightarrow> (list_all library_request_ok (asked w) \<longrightarrow> list_all library_request_ok (asked w'))"

lemma adds_ok_refl [simp]: "adds_ok w w" by (simp add: adds_ok_def)

lemma surface_adds: "list_all library_request_ok (asked w) \<Longrightarrow> list_all library_request_ok (asked (snd (GSWDD_surface (traced_hal e) hal surface w)))"
  using surface_step(2) [of e hal surface w] by auto

lemma surface_id_nonzero: "fst (GSWDD_surface e hal surface w) \<noteq> 0 \<Longrightarrow> surface \<noteq> 0"
  by (auto simp: GSWDD_surface_def)

lemma sint_nonneg: "0 \<le> sint a \<Longrightarrow> int (unat a) = sint a \<and> unat a < 2 ^ 31" for a :: u32
proof -
  assume p: "0 \<le> sint a"
  have l: "sint a < 2147483648" using sint_less [of a] by simp
  have "sint a = uint (word_of_int (sint a) :: u32)"
    unfolding uint_word_of_int using p l by simp
  then have n: "sint a = int (unat a)" by simp
  with l have "unat a < 2147483648" by linarith
  with n show ?thesis by simp
qed

lemma span_area:
  fixes a b :: u32
  assumes "0 \<le> sint a" "sint a < sint b"
  shows "0 < unat (b - a)" "unat a + unat (b - a) = unat b" "unat b < 2 ^ 31"
proof -
  have u: "int (unat a) = sint a" "int (unat b) = sint b" "unat b < 2 ^ 31"
    using sint_nonneg [of a] sint_nonneg [of b] assms by simp_all
  then have l: "unat a < unat b" using assms by linarith
  then have "unat (b - a) = unat b - unat a" by (simp add: unat_sub word_le_nat_alt)
  with l u(3) show "0 < unat (b - a)" "unat a + unat (b - a) = unat b" "unat b < 2 ^ 31" by simp_all
qed

lemma rect_area:
  assumes "gsw_rect rect = Some (x, y, width, height)"
  shows "area_ok x y width height"
  using assms span_area [of "rc_left rect" "rc_right rect"] span_area [of "rc_top rect" "rc_bottom rect"]
  by (auto simp: gsw_rect_def area_ok_def split: if_splits)

lemma locks_ok_set:
  assumes "locks_ok ls" "i < 256" "lk_surface_id r = 0 \<or> i = unat (lk_surface_id r AND 0xFF) \<and> dirty_ok (lk_dirty r) \<and>
    dt_surface_id (lk_dirty r) = lk_surface_id r"
  shows "locks_ok (ls[i := r])"
  using assms by (auto simp: locks_ok_def nth_list_update)

lemma lock_slot_bound: "unat (x AND 0xFF) < 256" for x :: u32
proof -
  have "x AND 0xFF \<le> 0xFF" by (rule word_and_le1)
  then show ?thesis by (simp add: word_le_nat_alt)
qed

lemma lock_keeps:
  assumes "locks_ok (locks w)" "gsw_lock_area_valid rect g"
  shows "locks_ok (locks (GSWDD_lock_rect sid rect ro w))"
proof -
  have "area_ok (rc_left rect) (rc_top rect) (rc_right rect - rc_left rect) (rc_bottom rect - rc_top rect)"
    using assms(2) span_area [of "rc_left rect" "rc_right rect"] span_area [of "rc_top rect" "rc_bottom rect"]
    by (auto simp: gsw_lock_area_valid_def area_ok_def)
  then show ?thesis
    using assms(1) locks_ok_set [OF assms(1) lock_slot_bound]
    by (simp add: GSWDD_lock_rect_def dirty_ok_def)
qed

lemma lock_rect_windows [simp]: "windows (GSWDD_lock_rect sid rect ro w) = windows w"
  by (simp add: GSWDD_lock_rect_def)

lemma unlock_keeps:
  assumes "locks_ok (locks w)"
  shows "locks_ok (locks (snd (GSWDD_unlock_rect sid w)))" "windows (snd (GSWDD_unlock_rect sid w)) = windows w"
    "interface (snd (GSWDD_unlock_rect sid w)) = interface w"
    "snd (fst (GSWDD_unlock_rect sid w)) = Some r \<Longrightarrow> dirty_ok r \<and> dt_surface_id r = sid"
  using assms lock_slot_bound [of sid] locks_ok_set [OF assms lock_slot_bound [of sid]]
  by (auto simp: GSWDD_unlock_rect_def Let_def locks_ok_def split: if_splits)

lemma rop_plain:
  assumes "GSWDD_rop_supported rop"
  shows "rop \<le> 0xFF \<and> \<not> gsw_gdi_pattern_dependent (ucast rop)"
proof -
  have "\<forall>r\<in>set [0x00, 0x11, 0x33, 0x44, 0x55, 0x66, 0x88, 0xBB, 0xCC, 0xEE, 0xFF :: u32].
      r \<le> 0xFF \<and> \<not> gsw_gdi_pattern_dependent (ucast r)"
    by code_simp
  with assms show ?thesis unfolding GSWDD_rop_supported_def by blast
qed

lemma hal_okI: "locks_ok (locks w) \<Longrightarrow> list_all library_request_ok (asked w) \<Longrightarrow> hal_ok w"
  by (simp add: hal_ok_def)

lemma hal_surface_ok: "hal_ok w \<Longrightarrow> hal_ok (snd (GSWDD_surface (traced_hal e) hal surface w))"
  using surface_adds [of w e hal surface] by (simp add: hal_ok_def surface_step(1))

lemma trace_ok [simp]: "hal_ok (GSWDD_trace (traced_hal e) l w) = hal_ok w"
  by (simp add: hal_ok_def)

lemma fill_ok:
  assumes "hal_ok w" "fl_cb r = 28" "fl_surface_id r \<noteq> 0" "area_ok (fl_x r) (fl_y r) (fl_width r) (fl_height r)"
  shows "hal_ok (snd (GSWDD_fill (traced_hal e) r w))"
  using assms by (simp add: hal_ok_def GSWDD_fill_def)

lemma blt_request_ok: "hal_ok w \<Longrightarrow> blt_ok r \<Longrightarrow> hal_ok (snd (GSWDD_blt (traced_hal e) r w))"
  by (simp add: hal_ok_def GSWDD_blt_def)

lemma present_ok: "hal_ok w \<Longrightarrow> sid \<noteq> 0 \<Longrightarrow> hal_ok (snd (GSWDD_present (traced_hal e) sid w))"
  by (simp add: hal_ok_def GSWDD_present_def)

lemma dirty_request_ok: "hal_ok w \<Longrightarrow> dirty_ok r \<Longrightarrow> hal_ok (snd (GSWDD_dirty (traced_hal e) r w))"
  by (simp add: hal_ok_def GSWDD_dirty_def)

lemma hal_unregister_ok: "hal_ok w \<Longrightarrow> hal_ok (snd (GSWDD_unregister (traced_hal e) hal sid w))"
  using current_log(2) [of e hal w] by (simp add: hal_ok_def GSWDD_unregister_def Let_def split_beta)

lemma reserved_ok [simp]: "hal_ok (set_reserved1 p v w) = hal_ok w"
  by (simp add: hal_ok_def)

lemma copy_ok:
  assumes "hal_ok w" "did \<noteq> 0" "area_ok dx dy dw dh"
  shows "hal_ok (snd (snd (gsw_blt_copy (traced_hal e) hal d did (dx, dy, dw, dh) w)))"
proof (cases "if lpDDSrcSurface d = 0 then None else gsw_rect (rSrc d)")
  case None
  then show ?thesis using assms(1) unfolding gsw_blt_copy_def by simp
next
  case (Some area)
  then obtain sx sy sw sh where src: "(if lpDDSrcSurface d = 0 then None else gsw_rect (rSrc d)) = Some (sx, sy, sw, sh)"
    by (metis prod_cases4)
  then have sa: "area_ok sx sy sw sh" using rect_area by (auto split: if_splits)
  obtain sid w1 where s: "GSWDD_surface (traced_hal e) hal (lpDDSrcSurface d) w = (sid, w1)" by fastforce
  have ok: "hal_ok w1" using hal_surface_ok [OF assms(1), of e hal "lpDDSrcSurface d"] by (simp add: s)
  have kf: "sf = 0 \<or> sf = GSW_DD_BLT_SRC_COLOR_KEY" if "gsw_blt_source_key (traced_hal e) d w1 = Some (sf, sk)" for sf sk
    using that by (auto simp: gsw_blt_source_key_def split: if_splits)
  have kd: "df = 0 \<or> df = GSW_DD_BLT_DST_COLOR_KEY" if "gsw_blt_destination_key (traced_hal e) d w1 = Some (df, dk)" for df dk
    using that by (auto simp: gsw_blt_destination_key_def split: if_splits)
  have keys: "(sf OR df) AND (NOT GSW_DD_BLT_SRC_COLOR_KEY AND NOT GSW_DD_BLT_DST_COLOR_KEY) = 0"
    if "gsw_blt_source_key (traced_hal e) d w1 = Some (sf, sk)" "gsw_blt_destination_key (traced_hal e) d w1 = Some (df, dk)"
    for sf sk df dk
    using kf [OF that(1)] kd [OF that(2)] by (auto simp: GSW_DD_BLT_SRC_COLOR_KEY_def GSW_DD_BLT_DST_COLOR_KEY_def)
  have plain: "\<not> gsw_gdi_pattern_dependent 204" by code_simp
  show ?thesis
    unfolding gsw_blt_copy_def src option.case prod.case s Let_def
    using ok sa assms(2,3)
    by (auto simp: split_beta blt_ok_def keys plain rop_plain intro!: blt_request_ok split: option.split if_splits)
qed

lemma perform_hal_ok:
  assumes "hal_ok w"
  shows "hal_ok (hal_perform e c w)"
proof (cases c)
  case (Hal_Destroy data)
  then show ?thesis
    using assms by (auto simp: DestroySurface32_def Let_def hal_unregister_ok split: option.split)
next
  case (Hal_Lock data)
  have "hal_ok (snd (snd (Lock32 (traced_hal e) (Some d) w)))" for d
  proof -
    define w1 where "w1 = GSWDD_trace (traced_hal e) GSW_HAL_TRACE_LOCK w"
    obtain sid w2 where s: "GSWDD_surface (traced_hal e) (GetHAL (traced_hal e) (lpDD d) w1) (lock_lpDDSurface d) w1 = (sid, w2)"
      by fastforce
    have ok: "hal_ok w1" "hal_ok w2"
      using assms hal_surface_ok [of w1 e "GetHAL (traced_hal e) (lpDD d) w1" "lock_lpDDSurface d"] by (simp_all add: w1_def s [unfolded w1_def])
    then have "hal_ok (GSWDD_lock_rect sid (gsw_lock_area d w2) ro w2)"
      if "gsw_lock_area_valid (gsw_lock_area d w2) g" for ro g
      using lock_keeps [of w2, OF _ that] by (simp add: hal_ok_def)
    with ok show ?thesis
      by (simp add: Lock32_def Let_def s flip: w1_def)
  qed
  with Hal_Lock assms show ?thesis by (cases data) (simp_all add: Lock32_def)
next
  case (Hal_Unlock data)
  have "hal_ok (snd (snd (Unlock32 (traced_hal e) (Some d) w)))" for d
  proof -
    define w1 where "w1 = GSWDD_trace (traced_hal e) GSW_HAL_TRACE_UNLOCK w"
    obtain changed dirty w2 where u:
      "GSWDD_unlock_rect (dwReserved1 (surface_lcl w1 (unlock_lpDDSurface d))) w1 = ((changed, dirty), w2)"
      by (metis surj_pair)
    have ok: "hal_ok w1" using assms by (simp add: w1_def)
    then have ok2: "hal_ok w2" and r: "dirty = Some r \<Longrightarrow> dirty_ok r" for r
      using unlock_keeps [of w1 "dwReserved1 (surface_lcl w1 (unlock_lpDDSurface d))"] by (simp_all add: hal_ok_def u)
    show ?thesis
      using ok ok2 r by (auto simp: Unlock32_def Let_def u split_beta dirty_request_ok split: option.split simp flip: w1_def)
  qed
  with Hal_Unlock assms show ?thesis by (cases data) (simp_all add: Unlock32_def)
next
  case (Hal_Blt data)
  have "hal_ok (snd (snd (Blt32 (traced_hal e) (Some d) w)))" for d
  proof -
    let ?hal = "GetHAL (traced_hal e) (lpDD d) w"
    obtain did w1 where s: "GSWDD_surface (traced_hal e) ?hal (lpDDDestSurface d) w = (did, w1)" by fastforce
    have ok: "hal_ok w1" using hal_surface_ok [OF assms, of e ?hal "lpDDDestSurface d"] by (simp add: s)
    show ?thesis
    proof (cases "if did = 0 then None else gsw_rect (rDest d)")
      case None
      then show ?thesis unfolding Blt32_def option.case s Let_def prod.case using assms ok by simp
    next
      case (Some area)
      then obtain x y width height where area: "(if did = 0 then None else gsw_rect (rDest d)) = Some (x, y, width, height)"
        by (metis prod_cases4)
      then have a: "area_ok x y width height" "did \<noteq> 0" using rect_area by (auto split: if_splits)
      then have "hal_ok (snd (snd (gsw_blt_fill (traced_hal e) d did (x, y, width, height) w1)))"
        using ok by (simp add: gsw_blt_fill_def Let_def split_beta fill_ok)
      with copy_ok [OF ok a(2,1)] show ?thesis
        unfolding Blt32_def option.case s Let_def prod.case area using assms ok by simp
    qed
  qed
  with Hal_Blt assms show ?thesis by (cases data) (simp_all add: Blt32_def)
next
  case (Hal_Flip data)
  have "hal_ok (snd (snd (Flip32 (traced_hal e) (Some d) w)))" for d
  proof -
    define w1 where "w1 = GSWDD_trace (traced_hal e) GSW_HAL_TRACE_FLIP w"
    obtain sid w2 where s: "GSWDD_surface (traced_hal e) (GetHAL (traced_hal e) (lpDD d) w1) (lpSurfTarg d) w1 = (sid, w2)"
      by fastforce
    have ok: "hal_ok w1" "hal_ok w2"
      using assms hal_surface_ok [of w1 e "GetHAL (traced_hal e) (lpDD d) w1" "lpSurfTarg d"] by (simp_all add: w1_def s [unfolded w1_def])
    then show ?thesis by (simp add: Flip32_def Let_def s split_beta present_ok flip: w1_def)
  qed
  with Hal_Flip assms show ?thesis by (cases data) (simp_all add: Flip32_def)
qed (use assms in \<open>auto simp: hal_ok_def CanCreateSurface32_def CreateSurface32_def SetExclusiveMode32_def SetColorKey32_def
      Let_def split: option.split\<close>)

interpretation hal: started_component "hal_perform e" hal_ok "hal_start l g (s, [])"
  for e :: "'s hal_env" and l g s
proof
  show "hal_ok (hal_start l g (s, []))" by (simp add: hal_ok_def hal_start_def locks_ok_def lock_zero_def)
qed (rule perform_hal_ok)

section \<open>Properties of the driver\<close>

text \<open>
  C23. Whatever DirectDraw passes to the callbacks, in whatever processes they run and however the
  library answers, every request the driver ever makes is well formed: the size field is the
  structure's, rectangles are not empty and do not wrap around, a registration covers its rows
  exactly, a blit uses a raster operation without a pattern and only the key flags of the
  interface, and no request but a registration or an unregistration goes through a null pointer.
  Every open lock remembers such a rectangle in the slot of its surface.
\<close>

theorem hal_requests_well_formed: "hal_ok (fold (hal_perform e) calls (hal_start l g (s, [])))"
  by (rule hal.reachable_ok)

text \<open>A surface the device can be told about: its rows lie in the video memory, at a known depth.\<close>

definition surface_describable :: "VMDAHAL_t \<Rightarrow> DDRAWI_DDRAWSURFACE_GBL \<Rightarrow> u32 \<Rightarrow> bool" where
  "surface_describable h g bpp \<longleftrightarrow>
     unat (vramLinear h) \<le> unat (fpVidMem g) \<and> 0 < sint (lPitch g) \<and> 0 < unat (wHeight g) \<and>
     unat (fpVidMem g) - unat (vramLinear h) + unat (lPitch g) * unat (wHeight g) \<le> unat (vramSize h) \<and>
     bpp \<in> {8, 15, 16, 24, 32}"

lemma wide16: "unat (ucast x :: u32) = unat x" for x :: u16
  by (simp add: unsigned_ucast_eq take_bit_nat_eq_self_iff less_trans [OF unsigned_less [of x, where ?'a = nat]])

text \<open>
  The geometry check before a registration is exact: it refuses a surface if and only if its rows
  do not lie inside the video memory or its depth is unknown, and the request names the offset, the
  size and the shape of the surface.
\<close>

theorem hal_surface_request_exact:
  "let l = surface_lcl w surface; g = surface_gbl w (lpGbl l); h = vmdahal e hal (windows w);
       bpp = GSWDD_surface_bpp e hal surface w
   in case gsw_surface_request e hal surface w of
        None \<Rightarrow> \<not> surface_describable h g bpp
      | Some r \<Rightarrow> surface_describable h g bpp \<and>
          unat (rg_offset r) = unat (fpVidMem g) - unat (vramLinear h) \<and>
          unat (rg_byte_size r) = unat (lPitch g) * unat (wHeight g) \<and> rg_pitch r = lPitch g \<and>
          unat (rg_width r) = unat (wWidth g) \<and> unat (rg_height r) = unat (wHeight g) \<and> rg_bpp r = bpp"
proof -
  define l where "l = surface_lcl w surface"
  define g where "g = surface_gbl w (lpGbl l)"
  define h where "h = vmdahal e hal (windows w)"
  define H :: u32 where "H = ucast (wHeight g)"
  have H: "unat H = unat (wHeight g)" by (simp add: H_def wide16)
  have wrap: "\<not> lPitch g > 0xFFFFFFFF div H \<longleftrightarrow> unat (lPitch g) * unat (wHeight g) < 2 ^ 32" if "H \<noteq> 0"
    using no_mult_wrap_iff [OF that, of "lPitch g"] by (simp add: linorder_not_less H)
  have size: "unat (vramSize h) < 2 ^ 32" using unsigned_less [of "vramSize h", where ?'a = nat] by simp
  have off: "unat (fpVidMem g - vramLinear h) = unat (fpVidMem g) - unat (vramLinear h)" if "vramLinear h \<le> fpVidMem g"
    using that by (simp add: unat_sub word_le_nat_alt)
  have bytes: "unat (lPitch g * H) = unat (lPitch g) * unat (wHeight g)" if "unat (lPitch g) * unat (wHeight g) < 2 ^ 32"
    using that by (simp add: unat_mult_no_overflow H)
  have room: "\<not> (fpVidMem g - vramLinear h > vramSize h \<or> lPitch g * H > vramSize h - (fpVidMem g - vramLinear h)) \<longleftrightarrow>
      unat (fpVidMem g) - unat (vramLinear h) + unat (lPitch g) * unat (wHeight g) \<le> unat (vramSize h)"
    if "vramLinear h \<le> fpVidMem g" "unat (lPitch g) * unat (wHeight g) < 2 ^ 32"
    using off [OF that(1)] bytes [OF that(2)] by (auto simp: word_le_nat_alt unat_sub linorder_not_less)
  have fits: "surface_describable h g bpp \<longleftrightarrow> \<not> fpVidMem g < vramLinear h \<and> \<not> sint (lPitch g) \<le> 0 \<and> H \<noteq> 0 \<and>
      \<not> lPitch g > 0xFFFFFFFF div H \<and>
      \<not> (fpVidMem g - vramLinear h > vramSize h \<or> lPitch g * H > vramSize h - (fpVidMem g - vramLinear h)) \<and>
      bpp \<in> {8, 15, 16, 24, 32}" for bpp
  proof -
    have "H \<noteq> 0 \<longleftrightarrow> 0 < unat (wHeight g)" using H by (metis unat_gt_0)
    moreover have "unat (lPitch g) * unat (wHeight g) < 2 ^ 32"
      if "unat (fpVidMem g) - unat (vramLinear h) + unat (lPitch g) * unat (wHeight g) \<le> unat (vramSize h)"
      using that size by linarith
    ultimately show ?thesis
      using wrap room by (auto simp: surface_describable_def linorder_not_less simp flip: word_le_nat_alt)
  qed
  show ?thesis
    unfolding Let_def gsw_surface_request_def l_def [symmetric] g_def [symmetric] h_def [symmetric] H_def [symmetric]
    using off bytes wrap by (auto simp: fits H wide16 linorder_not_less)
qed

text \<open>What the other callbacks do to the table of locks: locks and unlocks of identifiers.\<close>

datatype lock_call = Lock_Rect u32 RECTL bool | Unlock_Rect u32

fun lock_perform :: "lock_call \<Rightarrow> 's hal_world \<Rightarrow> 's hal_world" where
  "lock_perform (Lock_Rect sid rect ro) w = GSWDD_lock_rect sid rect ro w"
| "lock_perform (Unlock_Rect sid) w = snd (GSWDD_unlock_rect sid w)"

primrec lock_slot :: "lock_call \<Rightarrow> nat" where
  "lock_slot (Lock_Rect sid rect ro) = unat (sid AND 0xFF)"
| "lock_slot (Unlock_Rect sid) = unat (sid AND 0xFF)"

lemma lock_perform_other:
  "slot \<noteq> lock_slot c \<Longrightarrow> locks (lock_perform c w) ! slot = locks w ! slot"
  "length (locks (lock_perform c w)) = length (locks w)"
  by (cases c; simp add: GSWDD_lock_rect_def GSWDD_unlock_rect_def Let_def)+

lemma lock_fold_other:
  "slot \<notin> lock_slot ` set cs \<Longrightarrow> locks (fold lock_perform cs w) ! slot = locks w ! slot"
  by (induction cs arbitrary: w) (simp_all add: lock_perform_other)

text \<open>
  C24. A lock is answered by its unlock: however many surfaces of other slots are locked and unlocked
  in between, the first unlock of the surface returns exactly the locked rectangle, to be reported
  unless the lock was for reading, and the next unlock of the same surface reports nothing.
\<close>

theorem hal_lock_unlock:
  assumes "length (locks w) = 256" "sid \<noteq> 0" "unat (sid AND 0xFF) \<notin> lock_slot ` set cs"
  shows "let w1 = fold lock_perform cs (GSWDD_lock_rect sid rect ro w);
             (answer, w2) = GSWDD_unlock_rect sid w1
    in answer = (\<not> ro, Some \<lparr>dt_cb = 24, dt_surface_id = sid, dt_x = rc_left rect, dt_y = rc_top rect,
         dt_width = rc_right rect - rc_left rect, dt_height = rc_bottom rect - rc_top rect\<rparr>) \<and>
       fst (GSWDD_unlock_rect sid w2) = (False, None)"
proof -
  have n: "length (locks (fold lock_perform cs v)) = length (locks v)" for v :: "'a hal_world"
    by (induction cs arbitrary: v) (simp_all add: lock_perform_other(2))
  have l: "length (locks (fold lock_perform cs (GSWDD_lock_rect sid rect ro w))) = 256"
    using assms(1) by (simp add: n GSWDD_lock_rect_def)
  show ?thesis
    using lock_fold_other [OF assms(3), of "GSWDD_lock_rect sid rect ro w"] lock_slot_bound [of sid] assms(1,2) l
    by (simp add: GSWDD_unlock_rect_def Let_def) (simp add: GSWDD_lock_rect_def)
qed

text \<open>
  A machine for the examples: the current process is its number, the library lies at a different
  address in each process and answers the query with the given version.
\<close>

definition example_hal :: "u32 \<Rightarrow> nat hal_env" where
  "example_hal abi =
     \<lparr>GetModuleHandleA = \<lambda>p. of_nat p * 0x10000, LoadLibraryA = \<lambda>p. (of_nat p * 0x10000, p),
      GetProcAddress = \<lambda>module name p. module + of_nat (length name),
      call_query = \<lambda>f q p. ((True, \<lparr>dq_cb = 20, dq_version = abi, dq_capabilities = 63, dq_framebuffer_linear = 0xE0000000,
        dq_framebuffer_bytes = 0x400000\<rparr>), p),
      call_register = \<lambda>f r p. ((True, r\<lparr>rg_surface_id := 5\<rparr>), p), call_unregister = \<lambda>f r p. (True, p),
      call_fill = \<lambda>f r p. (True, p), call_blt = \<lambda>f r p. (True, p), call_present = \<lambda>f r p. (True, p),
      call_dirty = \<lambda>f r p. (True, p), trace_marker = \<lambda>p. False, gsw_out8 = \<lambda>port v p. p, gsw_in8 = \<lambda>port p. (0, p),
      vmdahal = \<lambda>a p. \<lparr>pFBHDA32 = 1, vramLinear = 0xE0000000, vramSize = 0x400000, dwBpp = 16\<rparr>,
      dd_hal = \<lambda>a p. 0x80001000, globalHal = \<lambda>p. 0x80001000, FBHDA_access_begin = \<lambda>f p. p,
      FBHDA_access_end = \<lambda>f p. p, QueryPerformanceFrequency = \<lambda>p. None, QueryPerformanceCounter = \<lambda>p. 0,
      dd_constant = \<lambda>name. 0\<rparr>"

definition example_lcl :: "u32 \<Rightarrow> u32 \<Rightarrow> DDRAWI_DDRAWSURFACE_LCL" where
  "example_lcl sid p = \<lparr>lpGbl = 1, lcl_dwFlags = 0, lcl_dwCaps = 0, dwReserved1 = sid,
     ddckCKSrcBlt = \<lparr>dwColorSpaceLowValue = 0, dwColorSpaceHighValue = 0\<rparr>,
     ddckCKDestBlt = \<lparr>dwColorSpaceLowValue = 0, dwColorSpaceHighValue = 0\<rparr>\<rparr>"

definition example_gbl :: "u32 \<Rightarrow> DDRAWI_DDRAWSURFACE_GBL" where
  "example_gbl p = \<lparr>fpVidMem = 0xE0000000, lPitch = 1280, wHeight = 480, wWidth = 640, gbl_RGBBitCount = 16\<rparr>"

theorem hal_lock_unlock_witness:
  "let rect = \<lparr>rc_left = 1, rc_top = 2, rc_right = 11, rc_bottom = 22\<rparr>;
       w1 = fold lock_perform [Unlock_Rect 6] (GSWDD_lock_rect 5 rect False (hal_start (example_lcl 0) example_gbl (1::nat)));
       (answer, w2) = GSWDD_unlock_rect 5 w1
   in answer = (True, Some \<lparr>dt_cb = 24, dt_surface_id = 5, dt_x = 1, dt_y = 2, dt_width = 10, dt_height = 20\<rparr>) \<and>
      fst (GSWDD_unlock_rect 5 w2) = (False, None)"
  using hal_lock_unlock [of "hal_start (example_lcl 0) example_gbl (1::nat)" 5 "[Unlock_Rect 6]"
      "\<lparr>rc_left = 1, rc_top = 2, rc_right = 11, rc_bottom = 22\<rparr>" False]
  by (simp add: hal_start_def Let_def)

text \<open>
  A library that the load refuses is used all the same by the next call: the load leaves the
  handle of the module in place, and the test for a current interface looks at nothing else. With
  a library of another interface version the load and the first registration fail, the second
  registration of the same surface goes through.
\<close>

theorem hal_refused_library_used:
  "let e = example_hal 2; w = hal_start (example_lcl 0) example_gbl 1;
       (loaded, _) = GSWDD_load e 1 w;
       (first, w1) = GSWDD_surface e 1 1 w;
       (second, w2) = GSWDD_surface e 1 1 w1
   in \<not> loaded \<and> first = 0 \<and> second = 5"
  by code_simp

definition example_interface :: "nat \<Rightarrow> GSWDDInterface" where
  "example_interface p =
     (let m = of_nat p * 0x10000
      in \<lparr>if_module = m, if_query = m + 11, if_register_surface = m + 22, if_unregister_surface = m + 24, if_fill = m + 10,
          if_blt = m + 9, if_present = m + 13, if_dirty = m + 11, if_info = \<lparr>dq_cb = 20, dq_version = 1,
          dq_capabilities = 63, dq_framebuffer_linear = 0xE0000000, dq_framebuffer_bytes = 0x400000\<rparr>\<rparr>)"

lemma example_resolve:
  assumes "windows w = (p, log)" "if_module (interface w) \<noteq> of_nat p * 0x10000" "p \<in> {1, 2}" "h \<noteq> 0"
  shows "gsw_interface_current (traced_hal (example_hal 1)) h w =
    (True, w\<lparr>interface := example_interface p, windows := (p, log)\<rparr>)"
  using assms
  by (auto simp: gsw_interface_current_def GSWDD_load_def gsw_entries_def gsw_load_entry_def gsw_info_accepted_def
      GSW_DD_ABI_VERSION_def GSW_DD_CAP_SURFACE_IDS_def GSW_DD_CAP_FILL_def GSW_DD_CAP_BLT_def GSW_DD_CAP_PRESENT_def
      GSW_DD_CAP_DIRTY_RECT_def GSW_DD_CAP_DST_COLOR_KEY_def traced_hal_def example_hal_def silent_def
      on_windows_def on_interface_def Let_def example_interface_def)

lemma example_traced [simp]:
  "trace_marker (traced_hal (example_hal 1)) m = False" "dd_hal (traced_hal (example_hal 1)) a m = 0x80001000"
  "dd_constant (traced_hal (example_hal 1)) name = 0"
  "call_present (example_hal 1) f r p = (True, p)" "call_dirty (example_hal 1) f dirty p = (True, p)"
  by (simp_all add: traced_hal_def example_hal_def)

lemma example_trace [simp]: "trace_enabled w \<noteq> Some True \<Longrightarrow> GSWDD_trace (traced_hal (example_hal 1)) l w = w\<lparr>trace_enabled := Some False\<rparr>"
  by (cases "trace_enabled w") (simp_all add: GSWDD_trace_def)

lemma example_surface_id:
  assumes "windows w = (p, log)" "if_module (interface w) \<noteq> of_nat p * 0x10000" "p \<in> {1, 2}"
    "surface_lcl w 1 = example_lcl 5 1"
  shows "GSWDD_surface (traced_hal (example_hal 1)) 0x80001000 1 w =
    (5, w\<lparr>interface := example_interface p, windows := (p, log)\<rparr>)"
  using assms(4) by (simp add: GSWDD_surface_def example_resolve [OF assms(1-3)] example_lcl_def)

text \<open>
  An unlock may jump to an address of another process: the cached pointers are resolved again for
  every registration, but an unlock reports the rectangle through them without resolving. After
  process 1 has locked a surface and process 2 has flipped one, the unlock of process 1 calls the
  address that the library has in process 2.
\<close>

theorem hal_unlock_calls_foreign_pointer:
  "let e = example_hal 1; l = example_lcl 5; g = example_gbl;
       lock = Hal_Lock (Some \<lparr>lpDD = 1, ddRVal = 0, lock_lpDDSurface = 1, bHasRect = False,
         rArea = \<lparr>rc_left = 0, rc_top = 0, rc_right = 0, rc_bottom = 0\<rparr>, lock_dwFlags = 0\<rparr>);
       flip = Hal_Flip (Some \<lparr>lpDD = 1, ddRVal = 0, lpSurfTarg = 1\<rparr>);
       unlock = Hal_Unlock (Some \<lparr>lpDD = 1, ddRVal = 0, unlock_lpDDSurface = 1\<rparr>);
       w = fold (hal_perform e) [lock, Hal_Outside l g 2, flip, Hal_Outside l g 1, unlock] (hal_start l g (1, []))
   in fst (windows w) = 1 \<and>
      last (asked w) = Asked_Dirty (GetProcAddress e (GetModuleHandleA e 2) ''GSWDD_dirty'' 2)
        \<lparr>dt_cb = 24, dt_surface_id = 5, dt_x = 0, dt_y = 0, dt_width = 640, dt_height = 480\<rparr> \<and>
      GetProcAddress e (GetModuleHandleA e 2) ''GSWDD_dirty'' 2 \<noteq> GetProcAddress e (GetModuleHandleA e 1) ''GSWDD_dirty'' 1"
  by (simp add: Lock32_def Flip32_def Unlock32_def GetHAL_def example_surface_id hal_start_def interface_zero_def Let_def
      gsw_lock_area_def gsw_lock_area_valid_def GSWDD_lock_rect_def GSWDD_unlock_rect_def GSWDD_present_def GSWDD_dirty_def
      on_windows_def noted_def example_interface_def) (simp add: example_lcl_def example_gbl_def example_hal_def)

section \<open>From the library to the transport\<close>

text \<open>
  The library on the VxD of \<open>Vga_Ioctl\<close>: DeviceIoControl passes the addresses and sizes of the
  buffers, which lie at \<open>input\<close> and \<open>output\<close>, to the DirectDraw entry and succeeds if the entry
  claims the code and leaves no error.
\<close>

definition library_on_vxd :: "'d gsw_env \<Rightarrow> u32 \<Rightarrow> u32 \<Rightarrow> u32 \<Rightarrow> 'd dioc_world dll_env" where
  "library_on_vxd t input output pid =
     \<lparr>hda_vxd = \<lambda>w. 1,
      DeviceIoControl = \<lambda>handle code ws n w.
        (let w = w\<lparr>client := put_dwords input ws (client w)\<rparr>;
             (claimed, error, w) = GSW_DD_ioctl t
               \<lparr>dwIoControlCode = code, lpInBuffer = (if ws = [] then 0 else input), cbInBuffer = 4 * of_nat (length ws),
                lpOutBuffer = output, cbOutBuffer = 4 * of_nat n, tagProcess = pid\<rparr> w
         in ((claimed \<and> error = 0, mem_dwords (client w) output n), w)),
      DisableThreadLibraryCalls = \<lambda>m w. w, FBHDA_load = \<lambda>w. w, FBHDA_free = \<lambda>w. w, FBHDA_valid_obj = \<lambda>w. False\<rparr>"

lemma dd_range_small:
  assumes "a \<noteq> 0" "unat a + 64 \<le> 2 ^ 32" "unat n \<le> 64"
  shows "gsw_dd_range_valid a n"
proof -
  have "a AND 0xFFF \<le> 0xFFF" by (rule word_and_le1)
  then have m: "unat (a AND 0xFFF) \<le> 4095" by (simp add: word_le_nat_alt)
  then have "unat ((a AND 0xFFF) + n) \<le> 4159"
    using assms(3) by (simp add: unat_word_ariths)
  moreover have "gsw3d_ioctl_range_valid a n" using assms by (simp add: range3d_iff)
  ultimately show ?thesis
    by (auto simp: gsw_dd_range_valid_def gsw3d_ioctl_range_valid_def word_less_nat_alt split: if_splits)
qed

lemma bit_dword: "mem_dwords (put_dwords a [x] m) a 1 = [x]" if "unat a + 64 \<le> 2 ^ 32" for a x m
  using put_dwords_read [of a "[x]" m] that by simp

lemma dd_entry_answer:
  assumes "input \<noteq> 0" "unat input + 64 \<le> 2 ^ 32" "output \<noteq> 0" "unat output + 64 \<le> 2 ^ 32"
    and "gsw_dd_sizes p = Some (i, out)" "unat i \<le> 64" "unat out \<le> 64"
    and "p = \<lparr>dwIoControlCode = code, lpInBuffer = input, cbInBuffer = i, lpOutBuffer = output, cbOutBuffer = out, tagProcess = pid\<rparr>"
  shows "GSW_DD_ioctl t p w =
    (let (answer, g) = gsw_dd_dispatch t p i (client w) (gsw w)
     in (True, 0, \<lparr>gsw = g, client = put_dwords output answer (client w)\<rparr>))"
  using assms by (simp add: GSW_DD_ioctl_def dd_range_small)

lemma simple_wrapper_answer:
  fixes pid :: u32
  assumes b: "input \<noteq> 0" "unat input + 64 \<le> 2 ^ 32" "output \<noteq> 0" "unat output + 64 \<le> 2 ^ 32"
    and code: "(code, length ws) \<in> {(GSW_DD_IOCTL_UNREGISTER, 2), (GSW_DD_IOCTL_FILL, 7), (GSW_DD_IOCTL_BLT, 16),
      (GSW_DD_IOCTL_PRESENT, 2), (GSW_DD_IOCTL_DIRTY, 6)}"
  defines "p \<equiv> \<lparr>dwIoControlCode = code, lpInBuffer = input, cbInBuffer = 4 * of_nat (length ws), lpOutBuffer = output,
      cbOutBuffer = 4, tagProcess = pid\<rparr>"
  shows "let (ok, w') = gsw_simple_wrapper (library_on_vxd t input output pid) code (Some ws) w;
             (answer, g) = gsw_dd_dispatch t p (4 * of_nat (length ws)) (put_dwords input ws (client w)) (gsw w)
    in ok = (hd answer \<noteq> 0) \<and> gsw w' = g"
proof -
  have sizes: "gsw_dd_sizes p = Some (4 * of_nat (length ws), 4)" "unat (4 * of_nat (length ws) :: u32) \<le> 64" "ws \<noteq> []"
    using code b by (auto simp: gsw_dd_sizes_def p_def ioctl_codes Let_def)
  define m where "m = put_dwords input ws (client w)"
  obtain answer g where d: "gsw_dd_dispatch t p (4 * of_nat (length ws)) m (gsw w) = (answer, g)" by fastforce
  have "dwIoControlCode p \<noteq> GSW_DD_IOCTL_QUERY" "dwIoControlCode p \<noteq> GSW_DD_IOCTL_REGISTER"
    using code by (auto simp: p_def ioctl_codes)
  then have l: "length answer = 1"
    using dd_dispatch_length [of t p "4 * of_nat (length ws)" m "gsw w"] by (simp add: d)
  then obtain x where x: "answer = [x]" by (cases answer) auto
  have io: "GSW_DD_ioctl t p (w\<lparr>client := m\<rparr>) = (True, 0, \<lparr>gsw = g, client = put_dwords output answer m\<rparr>)"
    using dd_entry_answer [OF b sizes(1,2), of code pid t "w\<lparr>client := m\<rparr>"] by (simp add: p_def d [unfolded p_def])
  show ?thesis
    using io x sizes(3) bit_dword [OF b(4)]
    by (simp add: gsw_simple_wrapper_def gsw_ioctl_def library_on_vxd_def INVALID_HANDLE_VALUE_def Let_def p_def
        d [unfolded p_def] flip: m_def)
qed

definition agree :: "bool \<times> 'd dioc_world \<Rightarrow> bool \<times> 'd gsw_world \<Rightarrow> bool" where
  "agree x y \<longleftrightarrow> fst x = fst y \<and> gsw (snd x) = snd y"

lemma library_exports:
  fixes pid :: u32 and t :: "'d gsw_env"
  assumes b: "input \<noteq> 0" "unat input + 64 \<le> 2 ^ 32" "output \<noteq> 0" "unat output + 64 \<le> 2 ^ 32"
  defines "e \<equiv> library_on_vxd t input output pid"
  shows "agree (dll_fill e (Some (f\<lparr>fl_cb := 28\<rparr>)) w) (GSW_transport_surface_fill t (f\<lparr>fl_cb := 28\<rparr>) (gsw w))"
    and "agree (dll_blt e (Some (c\<lparr>bl_cb := 64\<rparr>)) w) (GSW_transport_surface_blt t (c\<lparr>bl_cb := 64\<rparr>) (gsw w))"
    and "agree (dll_dirty e (Some (d\<lparr>dt_cb := 24\<rparr>)) w) (GSW_transport_surface_dirty t (d\<lparr>dt_cb := 24\<rparr>) (gsw w))"
    and "agree (dll_present e (Some \<lparr>dp_cb = 8, dp_surface_id = sid\<rparr>) w) (GSW_transport_surface_present t sid (gsw w))"
    and "agree (dll_unregister_surface e (Some \<lparr>du_cb = 8, du_surface_id = sid\<rparr>) w)
      (GSW_transport_surface_unregister t sid (gsw w))"
proof -
  note a = simple_wrapper_answer [OF b, where t = t and pid = pid and w = w]
  note read = fill_wire.read_back blt_wire.read_back dirty_wire.read_back present_wire.read_back unregister_wire.read_back
  note len = GSWDDFill_dwords_def GSWDDBlt_dwords_def GSWDDDirty_dwords_def GSWDDPresent_dwords_def GSWDDUnregister_dwords_def
  note defs = e_def agree_def gsw_dd_dispatch_def Let_def split_beta ioctl_codes
  show "agree (dll_fill e (Some (f\<lparr>fl_cb := 28\<rparr>)) w) (GSW_transport_surface_fill t (f\<lparr>fl_cb := 28\<rparr>) (gsw w))"
    using a [of GSW_DD_IOCTL_FILL "GSWDDFill_dwords (f\<lparr>fl_cb := 28\<rparr>)"] fill_wire.read_back [of input "f\<lparr>fl_cb := 28\<rparr>" "client w"] b
      fill_wire.dwords_count [of "f\<lparr>fl_cb := 28\<rparr>"]
    by (simp add: dll_fill_def defs)
  show "agree (dll_blt e (Some (c\<lparr>bl_cb := 64\<rparr>)) w) (GSW_transport_surface_blt t (c\<lparr>bl_cb := 64\<rparr>) (gsw w))"
    using a [of GSW_DD_IOCTL_BLT "GSWDDBlt_dwords (c\<lparr>bl_cb := 64\<rparr>)"] blt_wire.read_back [of input "c\<lparr>bl_cb := 64\<rparr>" "client w"] b
      blt_wire.dwords_count [of "c\<lparr>bl_cb := 64\<rparr>"]
    by (simp add: dll_blt_def defs)
  show "agree (dll_dirty e (Some (d\<lparr>dt_cb := 24\<rparr>)) w) (GSW_transport_surface_dirty t (d\<lparr>dt_cb := 24\<rparr>) (gsw w))"
    using a [of GSW_DD_IOCTL_DIRTY "GSWDDDirty_dwords (d\<lparr>dt_cb := 24\<rparr>)"] dirty_wire.read_back [of input "d\<lparr>dt_cb := 24\<rparr>" "client w"] b
      dirty_wire.dwords_count [of "d\<lparr>dt_cb := 24\<rparr>"]
    by (simp add: dll_dirty_def defs)
  show "agree (dll_present e (Some \<lparr>dp_cb = 8, dp_surface_id = sid\<rparr>) w) (GSW_transport_surface_present t sid (gsw w))"
    using a [of GSW_DD_IOCTL_PRESENT "GSWDDPresent_dwords \<lparr>dp_cb = 8, dp_surface_id = sid\<rparr>"]
      present_wire.read_back [of input "\<lparr>dp_cb = 8, dp_surface_id = sid\<rparr>" "client w"] b
      present_wire.dwords_count [of "\<lparr>dp_cb = 8, dp_surface_id = sid\<rparr>"]
    by (simp add: dll_present_def defs)
  show "agree (dll_unregister_surface e (Some \<lparr>du_cb = 8, du_surface_id = sid\<rparr>) w)
      (GSW_transport_surface_unregister t sid (gsw w))"
    using a [of GSW_DD_IOCTL_UNREGISTER "GSWDDUnregister_dwords \<lparr>du_cb = 8, du_surface_id = sid\<rparr>"]
      unregister_wire.read_back [of input "\<lparr>du_cb = 8, du_surface_id = sid\<rparr>" "client w"] b
      unregister_wire.dwords_count [of "\<lparr>du_cb = 8, du_surface_id = sid\<rparr>"]
    by (simp add: dll_unregister_surface_def defs)
qed

text \<open>
  The registration and the query answer in place: the request comes back with the identifier of
  the surface or zero, the query with the transport's description.
\<close>

definition registered :: "GSWDDRegister \<Rightarrow> (bool \<times> GSWDDRegister option) \<times> 'd dioc_world \<Rightarrow> u32 option \<times> 'd gsw_world \<Rightarrow> bool" where
  "registered r x y \<longleftrightarrow>
     (let sid = (case fst y of None \<Rightarrow> 0 | Some sid \<Rightarrow> sid)
      in fst x = (sid \<noteq> 0, Some (r\<lparr>rg_surface_id := sid\<rparr>)) \<and> gsw (snd x) = snd y)"

lemma library_register:
  fixes pid :: u32 and t :: "'d gsw_env"
  assumes b: "input \<noteq> 0" "unat input + 64 \<le> 2 ^ 32" "output \<noteq> 0" "unat output + 64 \<le> 2 ^ 32"
    and r: "rg_cb r = 36"
  shows "registered r (dll_register_surface (library_on_vxd t input output pid) (Some r) w)
    (GSW_transport_surface_register t (r\<lparr>rg_surface_id := 0\<rparr>) pid (gsw w))"
proof -
  define p where "p = \<lparr>dwIoControlCode = GSW_DD_IOCTL_REGISTER, lpInBuffer = input, cbInBuffer = 36, lpOutBuffer = output,
      cbOutBuffer = 36, tagProcess = pid\<rparr>"
  define m where "m = put_dwords input (GSWDDRegister_dwords r) (client w)"
  have n: "GSWDDRegister_dwords r \<noteq> []" by (simp add: GSWDDRegister_dwords_def)
  have sizes: "gsw_dd_sizes p = Some (36, 36)"
    using b by (simp add: gsw_dd_sizes_def p_def ioctl_codes Let_def)
  have read: "GSWDDRegister_of (mem_dwords m input 9) = r"
    using register_wire.read_back [of input r "client w"] b(2) by (simp add: m_def)
  obtain answer g where x: "gsw_dd_register t pid r (gsw w) = (answer, g)" by fastforce
  have io: "GSW_DD_ioctl t p (w\<lparr>client := m\<rparr>) = (True, 0, \<lparr>gsw = g, client = put_dwords output (GSWDDRegister_dwords answer) m\<rparr>)"
    using dd_entry_answer [OF b sizes, of GSW_DD_IOCTL_REGISTER pid t "w\<lparr>client := m\<rparr>"]
    by (simp add: p_def dd_register_dispatch read x)
  have "dll_register_surface (library_on_vxd t input output pid) (Some r) w =
      ((rg_surface_id answer \<noteq> 0, Some answer), \<lparr>gsw = g, client = put_dwords output (GSWDDRegister_dwords answer) m\<rparr>)"
    using io n register_wire.read_back [of "output" "answer" m] b(4)
    by (simp add: dll_register_surface_def gsw_ioctl_def library_on_vxd_def INVALID_HANDLE_VALUE_def Let_def p_def flip: m_def)
  with x show ?thesis
    by (auto simp: registered_def gsw_dd_register_def r Let_def split: option.splits prod.splits)
qed

lemma library_query:
  assumes b: "output \<noteq> 0" "unat output + 64 \<le> 2 ^ 32"
  shows "fst (dll_query (library_on_vxd t input output pid) (Some q) w) = (True, Some (gsw_dd_query (gsw w)))"
    and "gsw (snd (dll_query (library_on_vxd t input output pid) (Some q) w)) = gsw w"
proof -
  define p where "p = \<lparr>dwIoControlCode = GSW_DD_IOCTL_QUERY, lpInBuffer = 0, cbInBuffer = 0, lpOutBuffer = output,
      cbOutBuffer = 20, tagProcess = pid\<rparr>"
  define m where "m = put_dwords input [] (client w)"
  have "gsw_dd_sizes p = Some (0, 20)" "gsw_dd_range_valid 0 0"
    using b by (simp_all add: gsw_dd_sizes_def p_def ioctl_codes Let_def gsw_dd_range_valid_def)
  moreover have "gsw_dd_range_valid output 20" using b by (simp add: dd_range_small)
  ultimately have io: "GSW_DD_ioctl t p (w\<lparr>client := m\<rparr>) =
      (True, 0, \<lparr>gsw = gsw w, client = put_dwords output (GSWDDQuery_dwords (gsw_dd_query (gsw w))) m\<rparr>)"
    by (simp add: GSW_DD_ioctl_def p_def gsw_dd_dispatch_def Let_def)
  show "fst (dll_query (library_on_vxd t input output pid) (Some q) w) = (True, Some (gsw_dd_query (gsw w)))"
    and "gsw (snd (dll_query (library_on_vxd t input output pid) (Some q) w)) = gsw w"
    using io ddquery_wire.read_back [of "output" "gsw_dd_query (gsw w)" m] b(2)
    by (simp_all add: dll_query_def gsw_ioctl_def library_on_vxd_def INVALID_HANDLE_VALUE_def Let_def p_def flip: m_def)
qed

text \<open>
  C22. A request of the driver reaches the transport unchanged: with two buffers of 64 bytes that do
  not touch address zero or wrap around, each export of the library performs exactly the transport
  operation on exactly its request and returns exactly what the transport answered. The
  registration is made in the name of the calling process, and the request comes back with the
  identifier of the surface, zero and a failure in place of a refused one; the query returns the
  description of the transport, whose state it leaves alone.
\<close>

theorem library_reaches_transport:
  assumes "input \<noteq> 0" "unat input + 64 \<le> 2 ^ 32" "output \<noteq> 0" "unat output + 64 \<le> 2 ^ 32"
  shows "let e = library_on_vxd t input output pid; f = f\<lparr>fl_cb := 28\<rparr>; c = c\<lparr>bl_cb := 64\<rparr>; d = d\<lparr>dt_cb := 24\<rparr>;
      r = r\<lparr>rg_cb := 36\<rparr> in
    agree (dll_fill e (Some f) w) (GSW_transport_surface_fill t f (gsw w)) \<and>
    agree (dll_blt e (Some c) w) (GSW_transport_surface_blt t c (gsw w)) \<and>
    agree (dll_dirty e (Some d) w) (GSW_transport_surface_dirty t d (gsw w)) \<and>
    agree (dll_present e (Some \<lparr>dp_cb = 8, dp_surface_id = sid\<rparr>) w) (GSW_transport_surface_present t sid (gsw w)) \<and>
    agree (dll_unregister_surface e (Some \<lparr>du_cb = 8, du_surface_id = sid\<rparr>) w)
      (GSW_transport_surface_unregister t sid (gsw w)) \<and>
    registered r (dll_register_surface e (Some r) w)
      (GSW_transport_surface_register t (r\<lparr>rg_surface_id := 0\<rparr>) pid (gsw w)) \<and>
    fst (dll_query e (Some q) w) = (True, Some (gsw_dd_query (gsw w))) \<and> gsw (snd (dll_query e (Some q) w)) = gsw w"
  unfolding Let_def using assms by (intro conjI library_exports library_query library_register) simp_all

definition example_info_query :: GSWDDQuery where
  "example_info_query = \<lparr>dq_cb = 0, dq_version = 0, dq_capabilities = 0, dq_framebuffer_linear = 0, dq_framebuffer_bytes = 0\<rparr>"

theorem library_reaches_transport_witness:
  "let e = library_on_vxd obedient2d_env 0x1000 0x2000 77; f = (GSWDDFill_of [0, 1, 2, 3, 4, 5, 6])\<lparr>fl_cb := 28\<rparr>;
       c = (GSWDDBlt_of (replicate 16 1))\<lparr>bl_cb := 64\<rparr>; d = (GSWDDDirty_of [0, 1, 2, 3, 4, 5])\<lparr>dt_cb := 24\<rparr>;
       r = example_surface\<lparr>rg_cb := 36\<rparr> in
   agree (dll_fill e (Some f) example_process) (GSW_transport_surface_fill obedient2d_env f (gsw example_process)) \<and>
   agree (dll_blt e (Some c) example_process) (GSW_transport_surface_blt obedient2d_env c (gsw example_process)) \<and>
   agree (dll_dirty e (Some d) example_process) (GSW_transport_surface_dirty obedient2d_env d (gsw example_process)) \<and>
   agree (dll_present e (Some \<lparr>dp_cb = 8, dp_surface_id = 1\<rparr>) example_process)
     (GSW_transport_surface_present obedient2d_env 1 (gsw example_process)) \<and>
   agree (dll_unregister_surface e (Some \<lparr>du_cb = 8, du_surface_id = 1\<rparr>) example_process)
     (GSW_transport_surface_unregister obedient2d_env 1 (gsw example_process)) \<and>
   registered r (dll_register_surface e (Some r) example_process)
     (GSW_transport_surface_register obedient2d_env (r\<lparr>rg_surface_id := 0\<rparr>) 77 (gsw example_process)) \<and>
   fst (dll_query e (Some example_info_query) example_process) = (True, Some (gsw_dd_query (gsw example_process))) \<and>
   gsw (snd (dll_query e (Some example_info_query) example_process)) = gsw example_process"
  by (rule library_reaches_transport) simp_all

end
