(* ===== verification/Nine_Memory.thy ===== *)
theory Nine_Memory
  imports Gsw_Prelude "HOL-Library.Multiset"
begin

text \<open>
  The memory helper of the Direct3D 9 state tracker (\<^verbatim>\<open>mesa-gsw/src/nine_memory_helper.c\<close>): a
  doubly linked list of records in the process heap, each for a block of its own, an external
  pointer, or a part of another record's memory. A record with children outlives the release by
  its owner until the last child goes.

  Records live in a store of structures by address. The process heap is a list of outstanding
  blocks; which address an allocation gets, and whether there is memory at all, is a parameter.
  Pointers and sizes have 32 bits, as in the guest.
\<close>

section \<open>State\<close>

record nine_allocation =
  na_next :: u32
  na_previous :: u32
  na_parent :: u32
  na_pointer :: u32
  na_heap_pointer :: u32
  na_size :: u32
  na_child_count :: u32
  na_flags :: u32

definition GSW_NINE_OWNS_MEMORY :: u32 where "GSW_NINE_OWNS_MEMORY = 1"
definition GSW_NINE_EXTERNAL_ROOT :: u32 where "GSW_NINE_EXTERNAL_ROOT = 2"
definition GSW_NINE_OWNER_RELEASED :: u32 where "GSW_NINE_OWNER_RELEASED = 4"
definition GSW_NINE_ALIGNMENT :: u32 where "GSW_NINE_ALIGNMENT = 64"

text \<open>
  \<open>alloc_head\<close> and \<open>destroying\<close> are the fields of the allocator, \<open>lock_depth\<close> the depth to which
  its critical section is held. \<open>blocks\<close> are the addresses and sizes of the outstanding blocks of
  the heap, \<open>bad_free\<close> records a release of something else.
\<close>

record 'o nine_world =
  store :: "u32 \<Rightarrow> nine_allocation"
  alloc_head :: u32
  destroying :: bool
  lock_depth :: int
  blocks :: "(u32 \<times> nat) list"
  bad_free :: bool
  system :: 'o

type_synonym 'o nine_env = "nat \<Rightarrow> 'o \<Rightarrow> u32 \<times> 'o"

definition nine_zero :: nine_allocation where
  "nine_zero = \<lparr>na_next = 0, na_previous = 0, na_parent = 0, na_pointer = 0, na_heap_pointer = 0, na_size = 0,
     na_child_count = 0, na_flags = 0\<rparr>"

section \<open>The heap\<close>

text \<open>
  An address is an answer to an allocation only if the block lies in the address space, apart from
  all outstanding ones; any other answer stands for the lack of memory.
\<close>

definition block_free :: "u32 \<Rightarrow> nat \<Rightarrow> (u32 \<times> nat) list \<Rightarrow> bool" where
  "block_free p n bs \<longleftrightarrow> p \<noteq> 0 \<and> p \<notin> set (map fst bs) \<and> unat p + n \<le> 2 ^ 32 \<and>
     list_all (\<lambda>(q, m). unat p + n \<le> unat q \<or> unat q + m \<le> unat p) bs"

definition HeapAlloc :: "'o nine_env \<Rightarrow> nat \<Rightarrow> 'o nine_world \<Rightarrow> u32 \<times> 'o nine_world" where
  "HeapAlloc e n w =
     (let (p, s) = e n (system w); w = w\<lparr>system := s\<rparr>
      in if block_free p n (blocks w) then (p, w\<lparr>blocks := (p, n) # blocks w\<rparr>) else (0, w))"

definition HeapFree :: "u32 \<Rightarrow> 'o nine_world \<Rightarrow> 'o nine_world" where
  "HeapFree p w =
     (if p \<in> set (map fst (blocks w)) then w\<lparr>blocks := filter (\<lambda>b. fst b \<noteq> p) (blocks w)\<rparr>
      else w\<lparr>bad_free := True\<rparr>)"

definition EnterCriticalSection :: "'o nine_world \<Rightarrow> 'o nine_world" where
  "EnterCriticalSection w = w\<lparr>lock_depth := lock_depth w + 1\<rparr>"

definition LeaveCriticalSection :: "'o nine_world \<Rightarrow> 'o nine_world" where
  "LeaveCriticalSection w = w\<lparr>lock_depth := lock_depth w - 1\<rparr>"

definition set_record :: "u32 \<Rightarrow> nine_allocation \<Rightarrow> 'o nine_world \<Rightarrow> 'o nine_world" where
  "set_record p r w = w\<lparr>store := (store w)(p := r)\<rparr>"

section \<open>Operations\<close>

text \<open>The search follows the list to its end; on a circular one it would not return.\<close>

partial_function (option) gsw_nine_find_locked :: "(u32 \<Rightarrow> nine_allocation) \<Rightarrow> u32 \<Rightarrow> u32 \<Rightarrow> u32 option" where
  "gsw_nine_find_locked st current allocation =
     (if current = 0 then Some 0
      else if current = allocation then Some current
      else gsw_nine_find_locked st (na_next (st current)) allocation)"

definition gsw_nine_link_locked :: "u32 \<Rightarrow> 'o nine_world \<Rightarrow> 'o nine_world" where
  "gsw_nine_link_locked p w =
     (let w = set_record p ((store w p)\<lparr>na_previous := 0, na_next := alloc_head w\<rparr>) w;
          w = (if alloc_head w \<noteq> 0
               then set_record (alloc_head w) ((store w (alloc_head w))\<lparr>na_previous := p\<rparr>) w else w)
      in w\<lparr>alloc_head := p\<rparr>)"

definition gsw_nine_unlink_locked :: "u32 \<Rightarrow> 'o nine_world \<Rightarrow> 'o nine_world" where
  "gsw_nine_unlink_locked p w =
     (let w = (if na_previous (store w p) \<noteq> 0
               then set_record (na_previous (store w p))
                      ((store w (na_previous (store w p)))\<lparr>na_next := na_next (store w p)\<rparr>) w
               else w\<lparr>alloc_head := na_next (store w p)\<rparr>)
      in if na_next (store w p) \<noteq> 0
         then set_record (na_next (store w p))
                ((store w (na_next (store w p)))\<lparr>na_previous := na_previous (store w p)\<rparr>) w
         else w)"

definition gsw_nine_dispose_locked :: "u32 \<Rightarrow> 'o nine_world \<Rightarrow> 'o nine_world" where
  "gsw_nine_dispose_locked p w =
     (let w = gsw_nine_unlink_locked p w;
          w = (if na_flags (store w p) AND GSW_NINE_OWNS_MEMORY \<noteq> 0 then HeapFree (na_heap_pointer (store w p)) w else w)
      in HeapFree p w)"

definition gsw_nine_new_record :: "'o nine_env \<Rightarrow> 'o nine_world \<Rightarrow> u32 \<times> 'o nine_world" where
  "gsw_nine_new_record e w =
     (let (p, w) = HeapAlloc e 32 w in (p, if p = 0 then w else set_record p nine_zero w))"

definition nine_allocate :: "'o nine_env \<Rightarrow> u32 \<Rightarrow> u32 \<Rightarrow> 'o nine_world \<Rightarrow> u32 \<times> 'o nine_world" where
  "nine_allocate e allocator bytes w =
     (if allocator = 0 \<or> bytes = 0 then (0, w)
      else if bytes > 0xFFFFFFFF - (GSW_NINE_ALIGNMENT - 1) then (0, w)
      else
        (let (allocation, w) = gsw_nine_new_record e w in
         if allocation = 0 then (0, w)
         else
           (let reserve = bytes + (GSW_NINE_ALIGNMENT - 1);
                (memory, w) = HeapAlloc e (unat reserve) w
            in if memory = 0 then (0, HeapFree allocation w)
               else
                 (let aligned_address = (memory + (GSW_NINE_ALIGNMENT - 1)) AND NOT (GSW_NINE_ALIGNMENT - 1);
                      w = set_record allocation ((store w allocation)\<lparr>na_pointer := aligned_address,
                            na_heap_pointer := memory, na_size := bytes, na_flags := GSW_NINE_OWNS_MEMORY\<rparr>) w;
                      w = EnterCriticalSection w
                  in if destroying w
                     then (0, HeapFree allocation (HeapFree memory (LeaveCriticalSection w)))
                     else (allocation, LeaveCriticalSection (gsw_nine_link_locked allocation w))))))"

definition nine_free :: "u32 \<Rightarrow> u32 \<Rightarrow> 'o nine_world \<Rightarrow> 'o nine_world option" where
  "nine_free allocator allocation w =
     (if allocator = 0 \<or> allocation = 0 then Some w
      else
        (let w = EnterCriticalSection w in
         case gsw_nine_find_locked (store w) (alloc_head w) allocation of
           None \<Rightarrow> None
         | Some current \<Rightarrow> Some
             (if current = 0 then LeaveCriticalSection w
              else
                (let parent = na_parent (store w current);
                     w =
                       (if parent \<noteq> 0
                        then
                          (let w = gsw_nine_dispose_locked current w;
                               w = (if na_child_count (store w parent) \<noteq> 0
                                    then set_record parent ((store w parent)
                                      \<lparr>na_child_count := na_child_count (store w parent) - 1\<rparr>) w
                                    else w)
                           in if na_child_count (store w parent) = 0 \<and>
                                 na_flags (store w parent) AND (GSW_NINE_EXTERNAL_ROOT OR GSW_NINE_OWNER_RELEASED) \<noteq> 0
                              then gsw_nine_dispose_locked parent w else w)
                        else if na_child_count (store w current) \<noteq> 0
                        then set_record current ((store w current)
                               \<lparr>na_flags := na_flags (store w current) OR GSW_NINE_OWNER_RELEASED\<rparr>) w
                        else gsw_nine_dispose_locked current w)
                 in LeaveCriticalSection w))))"

definition nine_free_worker :: "u32 \<Rightarrow> u32 \<Rightarrow> 'o nine_world \<Rightarrow> 'o nine_world option" where
  "nine_free_worker allocator allocation w = nine_free allocator allocation w"

definition nine_get_pointer :: "u32 \<Rightarrow> u32 \<Rightarrow> 'o nine_world \<Rightarrow> (u32 \<times> 'o nine_world) option" where
  "nine_get_pointer allocator allocation w =
     (if allocator = 0 \<or> allocation = 0 then Some (0, w)
      else
        (let w = EnterCriticalSection w in
         case gsw_nine_find_locked (store w) (alloc_head w) allocation of
           None \<Rightarrow> None
         | Some current \<Rightarrow>
             (let pointer = (if current \<noteq> 0 \<and> \<not> (na_flags (store w current) AND GSW_NINE_OWNER_RELEASED \<noteq> 0 \<and>
                    na_parent (store w current) = 0) then na_pointer (store w current) else 0)
              in Some (pointer, LeaveCriticalSection w))))"

text \<open>The three releases of a pointer do nothing.\<close>

definition nine_pointer_weakrelease :: "u32 \<Rightarrow> u32 \<Rightarrow> 'o nine_world \<Rightarrow> 'o nine_world" where
  "nine_pointer_weakrelease allocator allocation w = w"

definition nine_pointer_strongrelease :: "u32 \<Rightarrow> u32 \<Rightarrow> 'o nine_world \<Rightarrow> 'o nine_world" where
  "nine_pointer_strongrelease allocator allocation w = w"

definition nine_pointer_delayedstrongrelease :: "u32 \<Rightarrow> u32 \<Rightarrow> u32 \<Rightarrow> 'o nine_world \<Rightarrow> 'o nine_world" where
  "nine_pointer_delayedstrongrelease allocator allocation counter w = w"

definition nine_suballocate ::
    "'o nine_env \<Rightarrow> u32 \<Rightarrow> u32 \<Rightarrow> u32 \<Rightarrow> 'o nine_world \<Rightarrow> (u32 \<times> 'o nine_world) option" where
  "nine_suballocate e allocator allocation offset w =
     (if allocator = 0 \<or> allocation = 0 \<or> sint offset < 0 then Some (0, w)
      else
        (let (child, w) = gsw_nine_new_record e w in
         if child = 0 then Some (0, w)
         else
           (let w = EnterCriticalSection w in
            case gsw_nine_find_locked (store w) (alloc_head w) allocation of
              None \<Rightarrow> None
            | Some parent \<Rightarrow> Some
                (let p = store w parent; displacement = offset in
                 if parent = 0 \<or> na_parent p \<noteq> 0 \<or> na_flags p AND GSW_NINE_OWNER_RELEASED \<noteq> 0 \<or>
                    na_child_count p = 0xFFFFFFFF \<or>
                    (na_flags p AND GSW_NINE_OWNS_MEMORY \<noteq> 0 \<and> displacement \<ge> na_size p)
                 then (0, HeapFree child (LeaveCriticalSection w))
                 else if displacement > 0xFFFFFFFF - na_pointer p
                 then (0, HeapFree child (LeaveCriticalSection w))
                 else
                   (let c = (store w child)\<lparr>na_parent := parent, na_pointer := na_pointer p + displacement\<rparr>;
                        c = (if na_flags p AND GSW_NINE_OWNS_MEMORY \<noteq> 0
                             then c\<lparr>na_size := na_size p - displacement\<rparr> else c);
                        w = set_record child c w;
                        w = set_record parent ((store w parent)\<lparr>na_child_count := na_child_count (store w parent) + 1\<rparr>) w
                    in (child, LeaveCriticalSection (gsw_nine_link_locked child w)))))))"

definition nine_wrap_external_pointer ::
    "'o nine_env \<Rightarrow> u32 \<Rightarrow> u32 \<Rightarrow> 'o nine_world \<Rightarrow> u32 \<times> 'o nine_world" where
  "nine_wrap_external_pointer e allocator data w =
     (if allocator = 0 \<or> data = 0 then (0, w)
      else
        (let (allocation, w) = gsw_nine_new_record e w in
         if allocation = 0 then (0, w)
         else
           (let w = set_record allocation ((store w allocation)\<lparr>na_pointer := data, na_flags := GSW_NINE_EXTERNAL_ROOT\<rparr>) w;
                w = EnterCriticalSection w
            in if destroying w then (0, HeapFree allocation (LeaveCriticalSection w))
               else (allocation, LeaveCriticalSection (gsw_nine_link_locked allocation w)))))"

text \<open>Creation, with the process heap present; the fields are those of zeroed memory.\<close>

definition nine_allocator_create :: "'o nine_env \<Rightarrow> 'o nine_world \<Rightarrow> u32 \<times> 'o nine_world" where
  "nine_allocator_create e w =
     (let (allocator, w) = HeapAlloc e 36 w in
      if allocator = 0 then (0, w)
      else (allocator, w\<lparr>alloc_head := 0, destroying := False, lock_depth := 0\<rparr>))"

partial_function (option) nine_destroy_loop :: "u32 \<Rightarrow> 'o nine_world \<Rightarrow> 'o nine_world option" where
  "nine_destroy_loop current w =
     (if current = 0 then Some w
      else
        (let following = na_next (store w current);
             w = (if na_flags (store w current) AND GSW_NINE_OWNS_MEMORY \<noteq> 0
                  then HeapFree (na_heap_pointer (store w current)) w else w)
         in nine_destroy_loop following (HeapFree current w)))"

definition nine_allocator_destroy :: "u32 \<Rightarrow> 'o nine_world \<Rightarrow> 'o nine_world option" where
  "nine_allocator_destroy allocator w =
     (if allocator = 0 then Some w
      else
        (let w = EnterCriticalSection w;
             current = alloc_head w;
             w = LeaveCriticalSection (w\<lparr>destroying := True, alloc_head := 0\<rparr>)
         in map_option (HeapFree allocator) (nine_destroy_loop current w)))"

declare gsw_nine_find_locked.simps [code]
declare nine_destroy_loop.simps [code]

section \<open>Lists in the store\<close>

definition first :: "u32 list \<Rightarrow> u32 \<Rightarrow> u32" where
  "first ps t = (case ps of [] \<Rightarrow> t | p # _ \<Rightarrow> p)"

lemma first_simps [simp]: "first [] t = t" "first (p # ps) t = p" "first (xs @ ys) t = first xs (first ys t)"
  by (simp_all add: first_def split: list.split)

text \<open>\<open>dll st b ps t\<close>: the records \<open>ps\<close> are linked, between \<open>b\<close> and \<open>t\<close>.\<close>

primrec dll :: "(u32 \<Rightarrow> nine_allocation) \<Rightarrow> u32 \<Rightarrow> u32 list \<Rightarrow> u32 \<Rightarrow> bool" where
  "dll st b [] t \<longleftrightarrow> True"
| "dll st b (p # ps) t \<longleftrightarrow>
     p \<noteq> 0 \<and> na_previous (st p) = b \<and> na_next (st p) = first ps t \<and> dll st p ps t"

lemma dll_append: "dll st b (xs @ ys) t \<longleftrightarrow> dll st b xs (first ys t) \<and> dll st (last (b # xs)) ys t"
  by (induction xs arbitrary: b) auto

lemma dll_nonzero: "dll st b ps t \<Longrightarrow> 0 \<notin> set ps"
  by (induction ps arbitrary: b) auto

lemma dll_frame:
  "(\<And>q. q \<in> set ps \<Longrightarrow> na_previous (st' q) = na_previous (st q) \<and> na_next (st' q) = na_next (st q)) \<Longrightarrow>
   dll st' b ps t = dll st b ps t"
  by (induction ps arbitrary: b) auto

lemma dll_retarget:
  assumes "dll st b ps t" "distinct ps" "ps \<noteq> []"
  shows "dll (st(last ps := (st (last ps))\<lparr>na_next := t'\<rparr>)) b ps t'"
proof -
  obtain zs q where z: "ps = zs @ [q]" using assms(3) by (cases ps rule: rev_cases) auto
  have "dll (st(q := (st q)\<lparr>na_next := t'\<rparr>)) b zs q = dll st b zs q"
    using assms(2) by (intro dll_frame) (auto simp: z)
  then show ?thesis using assms(1) by (simp add: z dll_append)
qed

lemma dll_rebase:
  assumes "dll st b (p # ps) t" "p \<notin> set ps"
  shows "dll (st(p := (st p)\<lparr>na_previous := b'\<rparr>)) b' (p # ps) t"
proof -
  have "dll (st(p := (st p)\<lparr>na_previous := b'\<rparr>)) p ps t = dll st p ps t"
    using assms(2) by (intro dll_frame) auto
  then show ?thesis using assms(1) by simp
qed

lemma find_found:
  "dll st b ps 0 \<Longrightarrow> gsw_nine_find_locked st (first ps 0) a = Some (if a \<in> set ps then a else 0)"
proof (induction ps arbitrary: b)
  case (Cons p ps)
  then show ?case by (subst gsw_nine_find_locked.simps) auto
qed (simp add: gsw_nine_find_locked.simps)

text \<open>What the list operations leave alone.\<close>

definition core :: "nine_allocation \<Rightarrow> nine_allocation" where
  "core r = r\<lparr>na_next := 0, na_previous := 0\<rparr>"

lemma core_parts:
  "core r = core r' \<Longrightarrow> na_parent r = na_parent r' \<and> na_pointer r = na_pointer r' \<and> na_heap_pointer r = na_heap_pointer r' \<and>
     na_size r = na_size r' \<and> na_child_count r = na_child_count r' \<and> na_flags r = na_flags r'"
  by (cases r; cases r') (simp add: core_def)

lemma core_links [simp]:
  "core (r\<lparr>na_next := x\<rparr>) = core r" "core (r\<lparr>na_previous := x\<rparr>) = core r"
  "core (r\<lparr>na_next := x, na_previous := y\<rparr>) = core r" "core (r\<lparr>na_previous := x, na_next := y\<rparr>) = core r"
  by (simp_all add: core_def)

lemma link_step:
  assumes "dll (store w) 0 ps 0" "distinct ps" "alloc_head w = first ps 0" "p \<notin> set ps" "p \<noteq> 0"
  shows "dll (store (gsw_nine_link_locked p w)) 0 (p # ps) 0" "alloc_head (gsw_nine_link_locked p w) = p"
    "core (store (gsw_nine_link_locked p w) q) = core (store w q)"
proof -
  show "dll (store (gsw_nine_link_locked p w)) 0 (p # ps) 0"
  proof (cases ps)
    case (Cons x xs)
    have "dll ((store w)(p := r)) 0 ps 0 = dll (store w) 0 ps 0" for r
      using assms(4) by (intro dll_frame) auto
    then have "dll ((store w)(p := r, x := (store w x)\<lparr>na_previous := p\<rparr>)) p (x # xs) 0" for r
      using dll_rebase [of "(store w)(p := r)" 0 x xs 0 p] assms(1,2,4) by (auto simp: Cons)
    then show ?thesis
      using assms by (auto simp: gsw_nine_link_locked_def set_record_def Let_def Cons)
  qed (use assms in \<open>simp add: gsw_nine_link_locked_def set_record_def Let_def\<close>)
qed (simp_all add: gsw_nine_link_locked_def set_record_def Let_def)

lemma unlink_step:
  assumes "dll (store w) 0 (xs @ p # ys) 0" "distinct (xs @ p # ys)" "alloc_head w = first (xs @ p # ys) 0"
  shows "dll (store (gsw_nine_unlink_locked p w)) 0 (xs @ ys) 0"
    "alloc_head (gsw_nine_unlink_locked p w) = first (xs @ ys) 0"
    "core (store (gsw_nine_unlink_locked p w) q) = core (store w q)"
proof -
  let ?b = "last (0 # xs)" let ?t = "first ys 0"
  have d: "dll (store w) 0 xs p" "p \<noteq> 0" "na_previous (store w p) = ?b" "na_next (store w p) = ?t" "dll (store w) p ys 0"
    using assms(1) by (simp_all add: dll_append)
  have nz: "0 \<notin> set xs" "0 \<notin> set ys" using dll_nonzero [OF assms(1)] by auto
  define w1 where "w1 = (if xs = [] then w\<lparr>alloc_head := ?t\<rparr>
    else set_record (last xs) ((store w (last xs))\<lparr>na_next := ?t\<rparr>) w)"
  have b: "?b \<noteq> 0 \<longleftrightarrow> xs \<noteq> []" using nz(1) by (metis last_ConsL last_ConsR last_in_set)
  have x: "p \<noteq> last xs" if "xs \<noteq> []" using last_in_set [OF that] assms(2) by auto
  have y: "last xs \<notin> set ys" if "xs \<noteq> []" using last_in_set [OF that] assms(2) by auto
  have w1: "(if na_previous (store w p) \<noteq> 0
      then set_record (na_previous (store w p)) ((store w (na_previous (store w p)))\<lparr>na_next := na_next (store w p)\<rparr>) w
      else w\<lparr>alloc_head := na_next (store w p)\<rparr>) = w1"
    using b d(3,4) by (auto simp: w1_def)
  have p1: "store w1 p = store w p" using x by (auto simp: w1_def set_record_def)
  have xs1: "dll (store w1) 0 xs ?t"
    using dll_retarget [OF d(1)] assms(2) by (auto simp: w1_def set_record_def)
  have ys1: "dll (store w1) p ys 0"
  proof -
    have "dll (store w1) p ys 0 = dll (store w) p ys 0"
      using y by (intro dll_frame) (auto simp: w1_def set_record_def)
    with d(5) show ?thesis by simp
  qed
  have u: "gsw_nine_unlink_locked p w = (if ys = [] then w1
      else set_record (hd ys) ((store w1 (hd ys))\<lparr>na_previous := ?b\<rparr>) w1)"
  proof -
    have "?t \<noteq> 0 \<longleftrightarrow> ys \<noteq> []" "ys \<noteq> [] \<Longrightarrow> ?t = hd ys" using nz(2) by (cases ys; auto)+
    then show ?thesis
      unfolding gsw_nine_unlink_locked_def Let_def w1 unfolding p1 d(3,4) by auto
  qed
  show "dll (store (gsw_nine_unlink_locked p w)) 0 (xs @ ys) 0"
  proof (cases ys)
    case Nil
    with xs1 show ?thesis by (simp add: u)
  next
    case (Cons y zs)
    have "dll ((store w1)(y := r)) 0 xs y = dll (store w1) 0 xs y" for r
      using assms(2) Cons by (intro dll_frame) auto
    then show ?thesis
      using xs1 dll_rebase [of "store w1" p y zs 0 ?b] ys1 assms(2) by (simp add: u Cons dll_append set_record_def)
  qed
  show "alloc_head (gsw_nine_unlink_locked p w) = first (xs @ ys) 0"
    using assms(3) by (cases xs) (simp_all add: u w1_def set_record_def)
  show "core (store (gsw_nine_unlink_locked p w) q) = core (store w q)"
    by (simp add: u w1_def set_record_def)
qed

section \<open>The tree of records\<close>

text \<open>
  A root knows the number of its children; a child has a root of the list as its parent, and neither
  flags nor children of its own.
\<close>

definition children :: "(u32 \<Rightarrow> nine_allocation) \<Rightarrow> u32 list \<Rightarrow> u32 \<Rightarrow> u32 list" where
  "children st ps p = filter (\<lambda>q. na_parent (st q) = p) ps"

definition node_ok :: "(u32 \<Rightarrow> nine_allocation) \<Rightarrow> u32 list \<Rightarrow> u32 \<Rightarrow> bool" where
  "node_ok st ps p \<longleftrightarrow>
     (if na_parent (st p) = 0
      then unat (na_child_count (st p)) = length (children st ps p) \<and> na_flags (st p) \<in> {1, 2, 5, 6}
      else na_parent (st p) \<in> set ps \<and> na_parent (st (na_parent (st p))) = 0 \<and> na_flags (st p) = 0 \<and>
        na_child_count (st p) = 0)"

definition tree_ok :: "(u32 \<Rightarrow> nine_allocation) \<Rightarrow> u32 list \<Rightarrow> bool" where
  "tree_ok st ps \<longleftrightarrow> 0 \<notin> set ps \<and> distinct ps \<and> (\<forall>p\<in>set ps. node_ok st ps p)"

text \<open>A record whose owner has released it is kept only for its children.\<close>

definition kept_ok :: "(u32 \<Rightarrow> nine_allocation) \<Rightarrow> u32 list \<Rightarrow> bool" where
  "kept_ok st ps \<longleftrightarrow>
     (\<forall>p\<in>set ps. na_flags (st p) AND GSW_NINE_OWNER_RELEASED = 0 \<or> na_child_count (st p) \<noteq> 0)"

definition owner :: "nine_allocation \<Rightarrow> bool" where
  "owner r \<longleftrightarrow> na_flags r AND GSW_NINE_OWNS_MEMORY \<noteq> 0"

text \<open>The blocks the list answers for.\<close>

primrec owned :: "(u32 \<Rightarrow> nine_allocation) \<Rightarrow> u32 list \<Rightarrow> u32 multiset" where
  "owned st [] = {#}"
| "owned st (p # ps) = {#p#} + (if owner (st p) then {#na_heap_pointer (st p)#} else {#}) + owned st ps"

text \<open>
  Where the memory of a record lies: of an owner, aligned inside its block; of a child, inside the
  memory of its parent when that has a size.
\<close>

definition memory_ok :: "(u32 \<Rightarrow> nine_allocation) \<Rightarrow> (u32 \<times> nat) list \<Rightarrow> u32 \<Rightarrow> bool" where
  "memory_ok st bs p \<longleftrightarrow>
     (let r = st p; a = unat (na_pointer r); q = st (na_parent r) in
      (if owner r then 64 dvd a \<and> 0 < na_size r \<and> unat (na_heap_pointer r) \<le> a \<and>
         (\<exists>n. (na_heap_pointer r, n) \<in> set bs \<and> a + unat (na_size r) \<le> unat (na_heap_pointer r) + n) else True) \<and>
      (if na_parent r \<noteq> 0 then unat (na_pointer q) \<le> a \<and>
         (if owner q then 0 < na_size r \<and> a + unat (na_size r) = unat (na_pointer q) + unat (na_size q) else True) else True))"

lemma owned_append [simp]: "owned st (xs @ ys) = owned st xs + owned st ys"
  by (induction xs) simp_all

lemma same_core:
  assumes "\<And>q. core (st' q) = core (st q)"
  shows "tree_ok st' ps = tree_ok st ps" "kept_ok st' ps = kept_ok st ps" "owned st' ps = owned st ps"
    "memory_ok st' bs p = memory_ok st bs p" "children st' ps p = children st ps p" "owner (st' p) = owner (st p)"
proof -
  have f: "na_parent (st' q) = na_parent (st q)" "na_pointer (st' q) = na_pointer (st q)"
    "na_heap_pointer (st' q) = na_heap_pointer (st q)" "na_size (st' q) = na_size (st q)"
    "na_child_count (st' q) = na_child_count (st q)" "na_flags (st' q) = na_flags (st q)" for q
    using core_parts [OF assms [of q]] by simp_all
  show "owned st' ps = owned st ps" by (induction ps) (simp_all add: owner_def f)
  show "tree_ok st' ps = tree_ok st ps" "kept_ok st' ps = kept_ok st ps"
    "memory_ok st' bs p = memory_ok st bs p" "children st' ps p = children st ps p" "owner (st' p) = owner (st p)"
    by (simp_all add: tree_ok_def node_ok_def kept_ok_def memory_ok_def children_def owner_def f Let_def)
qed

lemma owned_frame: "(\<And>q. q \<in> set ps \<Longrightarrow> na_flags (st' q) = na_flags (st q) \<and> na_heap_pointer (st' q) = na_heap_pointer (st q)) \<Longrightarrow>
    owned st' ps = owned st ps"
  by (induction ps) (simp_all add: owner_def)

lemma owned_members: "p \<in> set ps \<Longrightarrow> p \<in># owned st ps"
  "p \<in> set ps \<Longrightarrow> owner (st p) \<Longrightarrow> na_heap_pointer (st p) \<in># owned st ps"
  by (induction ps) auto

lemma parent_listed: "tree_ok st ps \<Longrightarrow> p \<in> set ps \<Longrightarrow> na_parent (st p) = 0 \<or> na_parent (st p) \<in> set ps"
  by (auto simp: tree_ok_def node_ok_def split: if_splits)

lemma tree_insert_root:
  assumes "tree_ok st ps" "p \<notin> set ps" "p \<noteq> 0" "na_parent r = 0" "na_child_count r = 0" "na_flags r \<in> {1, 2}"
  shows "tree_ok (st(p := r)) (p # ps)"
proof -
  have c: "children (st(p := r)) ps q = children st ps q" for q
    using assms(2) by (auto simp: children_def intro!: filter_cong)
  have none: "children st ps p = []"
    using parent_listed [OF assms(1)] assms(2,3) by (auto simp: children_def filter_empty_conv)
  show ?thesis
    unfolding tree_ok_def
  proof (intro conjI ballI)
    fix q assume "q \<in> set (p # ps)"
    then consider "q = p" | "q \<in> set ps" "q \<noteq> p" using assms(2) by auto
    then show "node_ok (st(p := r)) (p # ps) q"
    proof cases
      case 1
      then show ?thesis using assms none c [of p] by (auto simp: node_ok_def children_def)
    next
      case 2
      then have "node_ok st ps q" "q \<noteq> 0" using assms(1) by (auto simp: tree_ok_def)
      with 2 show ?thesis
        using assms(2,3,4) c [of q] by (auto simp: node_ok_def children_def split: if_splits)
    qed
  qed (use assms in \<open>auto simp: tree_ok_def\<close>)
qed

lemma tree_insert_child:
  assumes "tree_ok st ps" "p \<notin> set ps" "p \<noteq> 0" "q \<in> set ps" "na_parent (st q) = 0" "na_child_count (st q) \<noteq> 0xFFFFFFFF"
    and "na_parent r = q" "na_child_count r = 0" "na_flags r = 0"
  shows "tree_ok (st(p := r, q := (st q)\<lparr>na_child_count := na_child_count (st q) + 1\<rparr>)) (p # ps)"
proof -
  let ?st = "st(p := r, q := (st q)\<lparr>na_child_count := na_child_count (st q) + 1\<rparr>)"
  have q: "q \<noteq> 0" "q \<noteq> p" using assms(1,2,4) by (auto simp: tree_ok_def)
  have c: "children ?st ps x = children st ps x" for x
    using assms(2) by (auto simp: children_def intro!: filter_cong)
  have inc: "unat (na_child_count (st q) + 1) = Suc (unat (na_child_count (st q)))"
  proof -
    have "unat (na_child_count (st q)) \<noteq> unat (0xFFFFFFFF :: u32)" using assms(6) by (metis word_unat_eq_iff)
    then show ?thesis
      using unsigned_less [of "na_child_count (st q)", where ?'a = nat] by (simp add: unat_word_ariths)
  qed
  show ?thesis
    unfolding tree_ok_def
  proof (intro conjI ballI)
    fix x assume "x \<in> set (p # ps)"
    then consider "x = p" | "x = q" | "x \<in> set ps" "x \<noteq> p" "x \<noteq> q" using assms(2) by auto
    then show "node_ok ?st (p # ps) x"
    proof cases
      case 1
      then show ?thesis using assms q by (auto simp: node_ok_def)
    next
      case 2
      have "node_ok st ps q" using assms(1,4) by (simp add: tree_ok_def)
      then show ?thesis
        using 2 q assms(5,7) c [of q] inc by (auto simp: node_ok_def children_def)
    next
      case 3
      then have "node_ok st ps x" using assms(1) by (simp add: tree_ok_def)
      with 3 show ?thesis
        using assms(2,5,7) q c [of x] by (auto simp: node_ok_def children_def split: if_splits)
    qed
  qed (use assms in \<open>auto simp: tree_ok_def\<close>)
qed

lemma tree_remove_root:
  assumes "tree_ok st (xs @ p # ys)" "na_parent (st p) = 0" "na_child_count (st p) = 0"
  shows "tree_ok st (xs @ ys)"
proof -
  have "node_ok st (xs @ p # ys) p" "p \<noteq> 0" using assms(1) by (auto simp: tree_ok_def)
  then have none: "children st (xs @ p # ys) p = []" using assms(2,3) by (simp add: node_ok_def)
  have c: "children st (xs @ p # ys) x = children st (xs @ ys) x" if "x \<noteq> 0" for x
    using assms(2) that by (simp add: children_def)
  show ?thesis
    unfolding tree_ok_def
  proof (intro conjI ballI)
    fix x assume x: "x \<in> set (xs @ ys)"
    then have n: "node_ok st (xs @ p # ys) x" "x \<noteq> 0" using assms(1) by (auto simp: tree_ok_def)
    have "na_parent (st x) \<noteq> p" using none x unfolding children_def filter_empty_conv by auto
    with n c [OF n(2)] show "node_ok st (xs @ ys) x" by (auto simp: node_ok_def split: if_splits)
  qed (use assms in \<open>auto simp: tree_ok_def\<close>)
qed

lemma tree_remove_child:
  assumes "tree_ok st (xs @ p # ys)" "na_parent (st p) = q" "q \<noteq> 0"
  shows "na_child_count (st q) \<noteq> 0" "q \<in> set (xs @ ys)" "na_parent (st q) = 0"
    "tree_ok (st(q := (st q)\<lparr>na_child_count := na_child_count (st q) - 1\<rparr>)) (xs @ ys)"
proof -
  let ?st = "st(q := (st q)\<lparr>na_child_count := na_child_count (st q) - 1\<rparr>)"
  have n: "node_ok st (xs @ p # ys) p" using assms(1) by (simp add: tree_ok_def)
  then have q: "q \<in> set (xs @ p # ys)" "na_parent (st q) = 0" using assms(2,3) by (auto simp: node_ok_def)
  then show "q \<in> set (xs @ ys)" using assms(2,3) by auto
  show "na_parent (st q) = 0" by (rule q)
  have nq: "node_ok st (xs @ p # ys) q" using assms(1) q(1) unfolding tree_ok_def by blast
  then have cq: "unat (na_child_count (st q)) = length (children st (xs @ p # ys) q)" using q(2) by (simp add: node_ok_def)
  also have "\<dots> = Suc (length (children st (xs @ ys) q))" using assms(2) by (simp add: children_def)
  finally have c1: "unat (na_child_count (st q)) = Suc (length (children st (xs @ ys) q))" .
  then show nz: "na_child_count (st q) \<noteq> 0" by auto
  have dec: "unat (na_child_count (st q) - 1) = length (children st (xs @ ys) q)"
    using c1 nz by (simp add: unat_minus_one)
  have c: "children ?st (xs @ ys) x = children st (xs @ ys) x" for x
    by (simp add: children_def) (auto intro!: filter_cong arg_cong2 [where f = "(@)"])
  have other: "children st (xs @ p # ys) x = children st (xs @ ys) x" if "x \<noteq> q" for x
    using assms(2) that by (simp add: children_def)
  show "tree_ok ?st (xs @ ys)"
    unfolding tree_ok_def
  proof (intro conjI ballI)
    fix x assume x: "x \<in> set (xs @ ys)"
    have nx: "node_ok st (xs @ p # ys) x" using x assms(1) by (auto simp: tree_ok_def)
    show "node_ok ?st (xs @ ys) x"
    proof (cases "x = q")
      case True
      then show ?thesis using nq q(2) dec c [of q] by (simp add: node_ok_def)
    next
      case False
      have "na_parent (st x) \<noteq> p" if "na_parent (st x) \<noteq> 0"
        using nx that assms(2,3) by (auto simp: node_ok_def)
      with nx False q(2) c [of x] other [OF False] show ?thesis by (auto simp: node_ok_def split: if_splits)
    qed
  qed (use assms in \<open>auto simp: tree_ok_def\<close>)
qed

section \<open>The state of the allocator\<close>

definition apart :: "u32 \<times> nat \<Rightarrow> u32 \<times> nat \<Rightarrow> bool" where
  "apart b c \<longleftrightarrow> unat (fst b) + snd b \<le> unat (fst c) \<or> unat (fst c) + snd c \<le> unat (fst b)"

text \<open>
  The outstanding blocks are exactly those of the list and of \<open>others\<close>, each once, and they do not
  overlap.
\<close>

definition heap_ok :: "u32 list \<Rightarrow> (u32 \<Rightarrow> nine_allocation) \<Rightarrow> (u32 \<times> nat) list \<Rightarrow> u32 list \<Rightarrow> bool" where
  "heap_ok others st bs ps \<longleftrightarrow>
     mset (map fst bs) = owned st ps + mset others \<and> distinct (map fst bs) \<and> sorted_wrt apart bs"

definition list_ok :: "u32 list \<Rightarrow> u32 list \<Rightarrow> 'o nine_world \<Rightarrow> bool" where
  "list_ok others ps w \<longleftrightarrow>
     dll (store w) 0 ps 0 \<and> alloc_head w = first ps 0 \<and> distinct ps \<and>
     (\<forall>p\<in>set ps. memory_ok (store w) (blocks w) p) \<and> heap_ok others (store w) (blocks w) ps \<and>
     \<not> bad_free w \<and> \<not> destroying w"

definition nine_state :: "u32 list \<Rightarrow> u32 list \<Rightarrow> 'o nine_world \<Rightarrow> bool" where
  "nine_state others ps w \<longleftrightarrow>
     list_ok others ps w \<and> tree_ok (store w) ps \<and> kept_ok (store w) ps \<and> lock_depth w = 0"

lemma heap_alloc_cases:
  obtains (none) s where "HeapAlloc e n w = (0, w\<lparr>system := s\<rparr>)"
  | (block) p s where "HeapAlloc e n w = (p, w\<lparr>system := s, blocks := (p, n) # blocks w\<rparr>)" "block_free p n (blocks w)"
proof (cases "block_free (fst (e n (system w))) n (blocks w)")
  case True
  then show thesis by (intro block) (simp_all add: HeapAlloc_def Let_def split_beta)
next
  case False
  then show thesis by (intro none) (simp add: HeapAlloc_def Let_def split_beta)
qed

lemma listed_outstanding:
  assumes "heap_ok others st bs ps" "p \<in> set ps"
  shows "p \<in> set (map fst bs)"
proof -
  have "p \<in># mset (map fst bs)" using assms owned_members(1) [OF assms(2), of st] by (simp only: heap_ok_def) simp
  then show ?thesis by (simp only: set_mset_mset)
qed

lemma free_mset:
  assumes "distinct (map fst bs)" "p \<in> set (map fst bs)"
  shows "mset (map fst bs) = {#p#} + mset (map fst (filter (\<lambda>b. fst b \<noteq> p) bs))"
  using assms
proof (induction bs)
  case (Cons b bs)
  show ?case
  proof (cases "fst b = p")
    case True
    then have "p \<notin> fst ` set bs" using Cons.prems(1) by auto
    then have "filter (\<lambda>b. fst b \<noteq> p) bs = bs" by (intro filter_True) blast
    with True show ?thesis by simp
  next
    case False
    then show ?thesis using Cons by simp
  qed
qed simp

lemma distinct_filter_fst: "distinct (map fst bs) \<Longrightarrow> distinct (map fst (filter P bs))"
  by (induction bs) auto

lemma sorted_wrt_filter_apart: "sorted_wrt apart bs \<Longrightarrow> sorted_wrt apart (filter P bs)"
  by (induction bs) auto

lemma once:
  assumes "mset (map fst bs) = {#a#} + {#b#} + M" "distinct (map fst bs)"
  shows "a \<noteq> b"
proof
  assume "a = b"
  then have "2 \<le> count (mset (map fst bs)) a" unfolding assms(1) by simp
  moreover have "count (mset (map fst bs)) a \<le> 1" using assms(2) by (simp only: distinct_count_atmost_1) simp
  ultimately show False by simp
qed

lemma heap_free_ok:
  assumes "mset (map fst (blocks w)) = {#p#} + M" "distinct (map fst (blocks w))" "sorted_wrt apart (blocks w)" "\<not> bad_free w"
  shows "mset (map fst (blocks (HeapFree p w))) = M" "distinct (map fst (blocks (HeapFree p w)))"
    "sorted_wrt apart (blocks (HeapFree p w))" "\<not> bad_free (HeapFree p w)"
    "blocks (HeapFree p w) = filter (\<lambda>b. fst b \<noteq> p) (blocks w)"
proof -
  have "p \<in># mset (map fst (blocks w))" unfolding assms(1) by simp
  then have p: "p \<in> set (map fst (blocks w))" by (simp only: set_mset_mset)
  then show "blocks (HeapFree p w) = filter (\<lambda>b. fst b \<noteq> p) (blocks w)" "\<not> bad_free (HeapFree p w)"
    using assms(4) by (simp_all add: HeapFree_def)
  then show "mset (map fst (blocks (HeapFree p w))) = M" "distinct (map fst (blocks (HeapFree p w)))"
    "sorted_wrt apart (blocks (HeapFree p w))"
    using free_mset [OF assms(2) p] assms(1,2,3) by (simp_all add: distinct_filter_fst sorted_wrt_filter_apart del: mset_map)
qed

lemma heap_free_frame [simp]:
  "store (HeapFree p w) = store w" "alloc_head (HeapFree p w) = alloc_head w" "destroying (HeapFree p w) = destroying w"
  "lock_depth (HeapFree p w) = lock_depth w" "system (HeapFree p w) = system w"
  by (simp_all add: HeapFree_def)

lemma unlink_frame [simp]:
  "blocks (gsw_nine_unlink_locked p w) = blocks w" "bad_free (gsw_nine_unlink_locked p w) = bad_free w"
  "destroying (gsw_nine_unlink_locked p w) = destroying w" "lock_depth (gsw_nine_unlink_locked p w) = lock_depth w"
  by (simp_all add: gsw_nine_unlink_locked_def set_record_def Let_def)

lemma link_frame [simp]:
  "blocks (gsw_nine_link_locked p w) = blocks w" "bad_free (gsw_nine_link_locked p w) = bad_free w"
  "destroying (gsw_nine_link_locked p w) = destroying w" "lock_depth (gsw_nine_link_locked p w) = lock_depth w"
  by (simp_all add: gsw_nine_link_locked_def set_record_def Let_def)

lemma area_blocks:
  assumes "memory_ok st bs x" "\<And>n. (na_heap_pointer (st x), n) \<in> set bs \<Longrightarrow> owner (st x) \<Longrightarrow> (na_heap_pointer (st x), n) \<in> set bs'"
  shows "memory_ok st bs' x"
  using assms unfolding memory_ok_def Let_def by (auto; blast)

lemma dispose_ok:
  assumes "list_ok others (xs @ p # ys) w"
  shows "list_ok others (xs @ ys) (gsw_nine_dispose_locked p w)"
    "core (store (gsw_nine_dispose_locked p w) q) = core (store w q)"
    "lock_depth (gsw_nine_dispose_locked p w) = lock_depth w"
proof -
  let ?u = "gsw_nine_unlink_locked p w"
  have a: "dll (store w) 0 (xs @ p # ys) 0" "alloc_head w = first (xs @ p # ys) 0" "distinct (xs @ p # ys)"
    "\<And>x. x \<in> set (xs @ p # ys) \<Longrightarrow> memory_ok (store w) (blocks w) x" "\<not> bad_free w" "\<not> destroying w"
    and h: "mset (map fst (blocks w)) = owned (store w) (xs @ p # ys) + mset others" "distinct (map fst (blocks w))"
      "sorted_wrt apart (blocks w)"
    using assms by (auto simp: list_ok_def heap_ok_def)
  note u = unlink_step [OF a(1,3,2)]
  have ow: "owner (store ?u x) = owner (store w x)" "na_heap_pointer (store ?u x) = na_heap_pointer (store w x)" for x
    using core_parts [OF u(3) [of x]] by (simp_all add: owner_def)
  define h1 where "h1 = (if owner (store w p) then HeapFree (na_heap_pointer (store w p)) ?u else ?u)"
  have d: "gsw_nine_dispose_locked p w = HeapFree p h1"
    by (simp add: gsw_nine_dispose_locked_def Let_def h1_def flip: owner_def) (simp add: ow)
  have m1: "mset (map fst (blocks h1)) = {#p#} + (owned (store w) (xs @ ys) + mset others)" "distinct (map fst (blocks h1))"
      "sorted_wrt apart (blocks h1)" "\<not> bad_free h1"
    using heap_free_ok [of ?u "na_heap_pointer (store w p)"] h a(5) by (auto simp: h1_def ac_simps simp del: mset_map)
  note m2 = heap_free_ok [OF m1]
  have rest: "(x, n) \<in> set (blocks (HeapFree p h1))"
    if "(x, n) \<in> set (blocks w)" "x \<noteq> p" "owner (store w p) \<Longrightarrow> x \<noteq> na_heap_pointer (store w p)" for x n
    using that m2(5) heap_free_ok(5) [of ?u "na_heap_pointer (store w p)"] h a(5)
    by (auto simp: h1_def ac_simps simp del: mset_map)
  have areas: "memory_ok (store ?u) (blocks (HeapFree p h1)) x" if x: "x \<in> set (xs @ ys)" for x
  proof -
    have "memory_ok (store w) (blocks (HeapFree p h1)) x"
    proof (rule area_blocks)
      show "memory_ok (store w) (blocks w) x" using a(4) x by simp
      fix n assume n: "(na_heap_pointer (store w x), n) \<in> set (blocks w)" "owner (store w x)"
      obtain M where M: "owned (store w) (xs @ ys) = {#na_heap_pointer (store w x)#} + M"
        using owned_members(2) [OF x, of "store w"] n(2) by (metis insert_DiffM add_mset_add_single union_commute)
      have h': "mset (map fst (blocks w)) = {#p#} + (if owner (store w p) then {#na_heap_pointer (store w p)#} else {#}) +
          ({#na_heap_pointer (store w x)#} + M) + mset others"
        unfolding h(1) M [symmetric] by (simp add: ac_simps)
      have "na_heap_pointer (store w x) \<noteq> p"
        by (rule once [OF _ h(2), where M = "(if owner (store w p) then {#na_heap_pointer (store w p)#} else {#}) + M + mset others"])
          (unfold h', simp only: ac_simps)
      moreover have "na_heap_pointer (store w x) \<noteq> na_heap_pointer (store w p)" if o: "owner (store w p)"
        by (rule once [OF _ h(2), where M = "{#p#} + M + mset others"]) (unfold h', simp only: o if_True ac_simps)
      ultimately show "(na_heap_pointer (store w x), n) \<in> set (blocks (HeapFree p h1))" using rest n(1) by blast
    qed
    then show ?thesis by (simp add: same_core(4) [OF u(3)])
  qed
  have st: "store h1 = store ?u" "alloc_head h1 = alloc_head ?u" "destroying h1 = destroying w" "lock_depth h1 = lock_depth w"
    by (simp_all add: h1_def)
  show "list_ok others (xs @ ys) (gsw_nine_dispose_locked p w)"
    using u(1,2) a(3,6) areas m2
    by (auto simp: list_ok_def heap_ok_def d st same_core(3) [OF u(3)] simp del: mset_map)
  show "core (store (gsw_nine_dispose_locked p w) q) = core (store w q)" "lock_depth (gsw_nine_dispose_locked p w) = lock_depth w"
    by (simp_all add: d st u(3))
qed

text \<open>Changes outside the list, and of the counts and the release flag inside it.\<close>

lemma outside_store:
  assumes "tree_ok st ps" "p \<notin> set ps" "\<And>x. x \<in> set ps \<Longrightarrow> memory_ok st bs x" "set bs \<subseteq> set bs'" "x \<in> set ps"
  shows "memory_ok (st(p := r)) bs' x"
proof -
  have "x \<noteq> p" "na_parent (st x) \<noteq> 0 \<Longrightarrow> na_parent (st x) \<noteq> p"
    using assms(2,5) parent_listed [OF assms(1,5)] by auto
  then have "memory_ok (st(p := r)) bs x" using assms(3) [OF assms(5)] by (auto simp: memory_ok_def Let_def)
  then show ?thesis using area_blocks [of "st(p := r)" bs x bs'] assms(4) by auto
qed

lemma owned_outside: "p \<notin> set ps \<Longrightarrow> owned (st(p := r)) ps = owned st ps"
  by (rule owned_frame) auto

lemma list_outside:
  assumes "list_ok others ps w" "tree_ok (store w) ps" "p \<notin> set ps"
  shows "list_ok others ps (w\<lparr>system := s, store := (store w)(p := r)\<rparr>)"
proof -
  have "dll ((store w)(p := r)) 0 ps 0 = dll (store w) 0 ps 0"
    using assms(3) by (intro dll_frame) auto
  then show ?thesis
    using assms(1) outside_store [OF assms(2,3), of "blocks w" "blocks w"]
    by (auto simp: list_ok_def heap_ok_def owned_outside [OF assms(3)])
qed

lemma tree_outside:
  assumes "tree_ok st ps" "p \<notin> set ps"
  shows "tree_ok (st(p := r)) ps" "kept_ok (st(p := r)) ps = kept_ok st ps"
proof -
  have c: "children (st(p := r)) ps q = children st ps q" for q
    using assms(2) by (auto simp: children_def intro!: filter_cong)
  show "tree_ok (st(p := r)) ps"
    unfolding tree_ok_def
  proof (intro conjI ballI)
    fix q assume q: "q \<in> set ps"
    have "node_ok st ps q" using assms(1) q by (simp add: tree_ok_def)
    then show "node_ok (st(p := r)) ps q"
      using assms(2) q parent_listed [OF assms(1) q] c by (auto simp: node_ok_def split: if_splits)
  qed (use assms in \<open>auto simp: tree_ok_def\<close>)
  show "kept_ok (st(p := r)) ps = kept_ok st ps" using assms(2) by (auto simp: kept_ok_def)
qed

lemma list_count:
  assumes "list_ok others ps w"
    and "\<And>x. na_next (r x) = na_next (store w x) \<and> na_previous (r x) = na_previous (store w x) \<and>
      na_parent (r x) = na_parent (store w x) \<and> na_pointer (r x) = na_pointer (store w x) \<and>
      na_heap_pointer (r x) = na_heap_pointer (store w x) \<and> na_size (r x) = na_size (store w x) \<and>
      owner (r x) = owner (store w x)"
  shows "list_ok others ps (w\<lparr>store := r\<rparr>)"
proof -
  have "dll r 0 ps 0 = dll (store w) 0 ps 0" using assms(2) by (intro dll_frame) simp
  moreover have "owned r ps = owned (store w) ps" using assms(2) by (induction ps) simp_all
  moreover have "memory_ok r (blocks w) p = memory_ok (store w) (blocks w) p" for p using assms(2) by (simp add: memory_ok_def Let_def)
  ultimately show ?thesis using assms(1) by (simp add: list_ok_def heap_ok_def)
qed

lemma list_lock [simp]: "list_ok others ps (w\<lparr>lock_depth := d\<rparr>) = list_ok others ps w"
  by (simp add: list_ok_def)

lemma lock_simps [simp]:
  "store (EnterCriticalSection w) = store w" "alloc_head (EnterCriticalSection w) = alloc_head w"
  "destroying (EnterCriticalSection w) = destroying w" "blocks (EnterCriticalSection w) = blocks w"
  "lock_depth (EnterCriticalSection w) = lock_depth w + 1" "lock_depth (LeaveCriticalSection w) = lock_depth w - 1"
  "store (LeaveCriticalSection w) = store w" "alloc_head (LeaveCriticalSection w) = alloc_head w"
  "list_ok others ps (EnterCriticalSection w) = list_ok others ps w"
  "list_ok others ps (LeaveCriticalSection w) = list_ok others ps w"
  by (simp_all add: EnterCriticalSection_def LeaveCriticalSection_def)

lemma link_ok:
  assumes "dll (store w) 0 ps 0" "alloc_head w = first ps 0" "distinct ps" "p \<notin> set ps" "p \<noteq> 0"
    and "\<And>x. x \<in> set (p # ps) \<Longrightarrow> memory_ok (store w) (blocks w) x" "heap_ok others (store w) (blocks w) (p # ps)"
    and "\<not> bad_free w" "\<not> destroying w"
  shows "list_ok others (p # ps) (gsw_nine_link_locked p w)"
  using link_step [OF assms(1,3,2,4,5)] assms(3,4,6-9)
  by (simp add: list_ok_def heap_ok_def same_core [OF link_step(3) [OF assms(1,3,2,4,5)]])

lemma find_state:
  assumes "list_ok others ps w"
  shows "gsw_nine_find_locked (store w) (alloc_head w) a = Some (if a \<in> set ps then a else 0)"
  using assms find_found [of "store w" 0 ps a] by (simp add: list_ok_def)

lemma nine_stateI:
  "list_ok others ps w \<Longrightarrow> tree_ok (store w) ps \<Longrightarrow> kept_ok (store w) ps \<Longrightarrow> lock_depth w = 0 \<Longrightarrow> nine_state others ps w"
  by (simp add: nine_state_def)

lemma link_core [simp]: "core (store (gsw_nine_link_locked p w) q) = core (store w q)"
  by (simp add: gsw_nine_link_locked_def set_record_def Let_def)

text \<open>A child stays where it is until it is freed itself, and no record in use moves.\<close>

definition body :: "nine_allocation \<Rightarrow> u32 \<times> u32 \<times> u32 \<times> bool" where
  "body r = (na_pointer r, na_heap_pointer r, na_size r, owner r)"

lemma body_core: "core r = core r' \<Longrightarrow> body r = body r'"
  using core_parts [of r r'] by (simp add: body_def owner_def)

lemma body_simps [simp]:
  "body (r\<lparr>na_child_count := x\<rparr>) = body r" "body (store (gsw_nine_link_locked p w) q) = body (store w q)"
  "body (r\<lparr>na_flags := na_flags r OR GSW_NINE_OWNER_RELEASED\<rparr>) = body r"
  by (simp_all add: body_core [OF link_core]) (simp_all add: body_def owner_def bit.conj_disj_distrib2
    GSW_NINE_OWNER_RELEASED_def GSW_NINE_OWNS_MEMORY_def)

definition keeps :: "u32 \<Rightarrow> u32 list \<Rightarrow> 'o nine_world \<Rightarrow> u32 list \<Rightarrow> 'o nine_world \<Rightarrow> bool" where
  "keeps a ps w ps' w' \<longleftrightarrow>
     (\<forall>x\<in>set ps. body (store w' x) = body (store w x) \<and>
       (x \<noteq> a \<longrightarrow> na_parent (store w x) \<noteq> 0 \<longrightarrow> x \<in> set ps' \<and> core (store w' x) = core (store w x)))"

lemma keeps_refl: "store w' = store w \<Longrightarrow> keeps a ps w ps w'"
  by (simp add: keeps_def)

lemma keeps_outside: "p \<notin> set ps \<Longrightarrow> (\<And>x. x \<noteq> p \<Longrightarrow> na_parent (store w x) \<noteq> 0 \<Longrightarrow> core (store w' x) = core (store w x)) \<Longrightarrow>
    (\<And>x. x \<noteq> p \<Longrightarrow> body (store w' x) = body (store w x)) \<Longrightarrow> set ps \<subseteq> set ps' \<Longrightarrow> keeps a ps w ps' w'"
  unfolding keeps_def by (metis subsetD)

lemma free_ok:
  assumes "nine_state others ps w"
  obtains ps' w' where "nine_free allocator a w = Some w'" "nine_state others ps' w'" "keeps a ps w ps' w'"
proof (cases "allocator = 0 \<or> a = 0 \<or> a \<notin> set ps")
  case True
  have f: "gsw_nine_find_locked (store w) (alloc_head w) a = Some (if a \<in> set ps then a else 0)"
    using assms find_state [of others ps w a] by (simp add: nine_state_def)
  have "nine_state others ps (LeaveCriticalSection (EnterCriticalSection w))"
    using assms by (simp add: nine_state_def)
  then have "nine_state others ps (if allocator = 0 \<or> a = 0 then w else LeaveCriticalSection (EnterCriticalSection w))"
    using assms by simp
  moreover have "nine_free allocator a w =
      Some (if allocator = 0 \<or> a = 0 then w else LeaveCriticalSection (EnterCriticalSection w))"
    using True f by (auto simp: nine_free_def Let_def)
  ultimately show thesis by (intro that) (auto intro: keeps_refl split: if_splits)
next
  case False
  then obtain xs ys where ps: "ps = xs @ a # ys" using split_list by metis
  let ?e = "EnterCriticalSection w"
  have s: "list_ok others (xs @ a # ys) ?e" "tree_ok (store w) (xs @ a # ys)" "kept_ok (store w) (xs @ a # ys)" "lock_depth w = 0"
    using assms by (simp_all add: nine_state_def ps)
  have f: "gsw_nine_find_locked (store ?e) (alloc_head ?e) a = Some a"
    using find_state [OF s(1)] by simp
  define q where "q = na_parent (store w a)"
  define d where "d = gsw_nine_dispose_locked a ?e"
  note dd = dispose_ok [OF s(1), folded d_def]
  have dc: "core (store d x) = core (store w x)" for x using dd(2) [of x] by simp
  show thesis
  proof (cases "q = 0")
    case root: True
    show thesis
    proof (cases "na_child_count (store w a) = 0")
      case True
      have "nine_state others (xs @ ys) (LeaveCriticalSection d)"
        using tree_remove_root [OF s(2) root [unfolded q_def] True] s(3,4) dd
        by (intro nine_stateI) (auto simp: same_core [OF dc] kept_ok_def dd(3))
      moreover have "keeps a ps w (xs @ ys) (LeaveCriticalSection d)" by (auto simp: keeps_def ps dc body_core [OF dc])
      ultimately show thesis using that False f root True by (simp add: nine_free_def Let_def d_def q_def)
    next
      case kept: False
      let ?r = "(store w)(a := (store w a)\<lparr>na_flags := na_flags (store w a) OR GSW_NINE_OWNER_RELEASED\<rparr>)"
      have "node_ok (store w) ps a" using s(2) by (simp add: tree_ok_def ps)
      then have fl: "na_flags (store w a) \<in> {1, 2, 5, 6}" using root by (simp add: node_ok_def q_def)
      have l: "list_ok others ps (w\<lparr>store := ?r\<rparr>)"
        using s(1) by (intro list_count) (auto simp: ps owner_def GSW_NINE_OWNER_RELEASED_def GSW_NINE_OWNS_MEMORY_def
            bit.conj_disj_distrib2)
      have c: "children ?r ps x = children (store w) ps x" for x
        by (auto simp: children_def intro!: filter_cong)
      have t: "tree_ok ?r ps"
        using s(2) fl c by (auto simp: tree_ok_def node_ok_def GSW_NINE_OWNER_RELEASED_def ps [symmetric] split: if_splits)
      have "nine_state others ps (LeaveCriticalSection (set_record a (?r a) ?e))"
        using l t kept s(3,4) by (intro nine_stateI) (auto simp: set_record_def EnterCriticalSection_def LeaveCriticalSection_def
            kept_ok_def ps list_ok_def)
      moreover have "keeps a ps w ps (LeaveCriticalSection (set_record a (?r a) ?e))"
        by (auto simp: keeps_def set_record_def)
      ultimately show thesis using that False f root kept by (simp add: nine_free_def Let_def q_def)
    qed
  next
    case child: False
    note t = tree_remove_child [OF s(2) refl, folded q_def, OF child]
    define r where "r = (store d)(q := (store d q)\<lparr>na_child_count := na_child_count (store d q) - 1\<rparr>)"
    have cc: "na_child_count (store d q) = na_child_count (store w q)" "na_flags (store d q) = na_flags (store w q)"
      using core_parts [OF dc [of q]] by simp_all
    define d1 where "d1 = d\<lparr>store := r\<rparr>"
    have l1: "list_ok others (xs @ ys) d1"
      unfolding d1_def using dd(1) by (intro list_count) (auto simp: r_def owner_def)
    define st1 where "st1 = (store w)(q := (store w q)\<lparr>na_child_count := na_child_count (store w q) - 1\<rparr>)"
    have rc: "core (r x) = core (st1 x)" for x
      using dc [of x] cc by (cases "store d q"; cases "store w q") (auto simp: r_def st1_def core_def)
    have t1: "tree_ok (store d1) (xs @ ys)" using t(4) by (simp add: d1_def same_core(1) [OF rc] flip: st1_def)
    have k1: "na_flags (store d1 x) AND GSW_NINE_OWNER_RELEASED = 0 \<or> na_child_count (store d1 x) \<noteq> 0"
      if "x \<in> set (xs @ ys)" "x \<noteq> q" for x
      using s(3) that core_parts [OF dc [of x]] by (auto simp: d1_def r_def kept_ok_def)
    have body: "nine_free allocator a w = Some (LeaveCriticalSection
        (if na_child_count (store d1 q) = 0 \<and> na_flags (store d1 q) AND (GSW_NINE_EXTERNAL_ROOT OR GSW_NINE_OWNER_RELEASED) \<noteq> 0
         then gsw_nine_dispose_locked q d1 else d1))"
      using False f child t(1) cc by (simp add: nine_free_def Let_def set_record_def d1_def r_def flip: d_def q_def)
    have lock: "lock_depth d1 = 1" using dd(3) s(4) by (simp add: d1_def)
    have kc: "core (store d1 x) = core (store w x)" if "na_parent (store w x) \<noteq> 0" for x
    proof -
      have "x \<noteq> q" using that t(3) by auto
      then show ?thesis using dc [of x] by (simp add: d1_def r_def)
    qed
    have kb: "body (store d1 x) = body (store w x)" for x
      using body_core [OF dc [of x]] by (cases "x = q") (simp_all add: d1_def r_def)
    show thesis
    proof (cases "na_child_count (store d1 q) = 0 \<and> na_flags (store d1 q) AND (GSW_NINE_EXTERNAL_ROOT OR GSW_NINE_OWNER_RELEASED) \<noteq> 0")
      case True
      obtain us vs where uv: "xs @ ys = us @ q # vs" using t(2) split_list by metis
      note d2 = dispose_ok [OF l1 [unfolded uv]]
      have "na_parent (store d1 q) = 0" using t(3) core_parts [OF dc [of q]] by (simp add: d1_def r_def)
      then have t2: "tree_ok (store d1) (us @ vs)" using tree_remove_root [OF t1 [unfolded uv]] True by simp
      have "q \<notin> set (us @ vs)" using l1 by (auto simp: list_ok_def uv)
      then have "kept_ok (store d1) (us @ vs)" using k1 by (auto simp: kept_ok_def uv)
      with t2 d2 lock have "nine_state others (us @ vs) (LeaveCriticalSection (gsw_nine_dispose_locked q d1))"
        by (intro nine_stateI) (simp_all add: same_core [OF d2(2)])
      moreover have "keeps a ps w (us @ vs) (LeaveCriticalSection (gsw_nine_dispose_locked q d1))"
      proof -
        have "x \<in> set (us @ vs)" if "x \<in> set (xs @ ys)" "x \<noteq> q" for x using that unfolding uv by auto
        moreover have "x \<noteq> q" if "na_parent (store w x) \<noteq> 0" for x using that t(3) by auto
        ultimately show ?thesis using kc unfolding keeps_def ps by (auto simp: d2(2) kb body_core [OF d2(2)])
      qed
      ultimately show thesis using that body True by simp
    next
      case False
      have "na_flags (store d1 q) AND GSW_NINE_OWNER_RELEASED = 0 \<or> na_child_count (store d1 q) \<noteq> 0"
        using False by (auto simp: bit.conj_disj_distrib or_eq_0_iff)
      with k1 have "kept_ok (store d1) (xs @ ys)" by (auto simp: kept_ok_def)
      with t1 l1 lock have "nine_state others (xs @ ys) (LeaveCriticalSection d1)"
        by (intro nine_stateI) simp_all
      moreover have "keeps a ps w (xs @ ys) (LeaveCriticalSection d1)" using t(3) by (auto simp: keeps_def ps kc kb)
      ultimately show thesis using that body False by simp
    qed
  qed
qed

lemma block_free_apart: "block_free p n bs \<Longrightarrow> sorted_wrt apart bs \<Longrightarrow> sorted_wrt apart ((p, n) # bs)"
  by (auto simp: block_free_def apart_def list_all_iff)

lemma new_record_cases:
  assumes "nine_state others ps w"
  obtains (none) w' where "gsw_nine_new_record e w = (0, w')" "nine_state others ps w'" "store w' = store w" "blocks w' = blocks w"
  | (fresh) p s where "gsw_nine_new_record e w =
        (p, w\<lparr>system := s, blocks := (p, 32) # blocks w, store := (store w)(p := nine_zero)\<rparr>)"
      "block_free p 32 (blocks w)" "p \<notin> set ps" "p \<noteq> 0"
proof (cases rule: heap_alloc_cases [of e 32 w])
  case (none s)
  then have "gsw_nine_new_record e w = (0, w\<lparr>system := s\<rparr>)" by (simp add: gsw_nine_new_record_def)
  moreover have "nine_state others ps (w\<lparr>system := s\<rparr>)" using assms by (simp add: nine_state_def list_ok_def)
  ultimately show thesis by (rule that(1)) simp_all
next
  case (block p s)
  then have "p \<notin> set ps" "p \<noteq> 0"
    using listed_outstanding assms by (auto simp: block_free_def nine_state_def list_ok_def)
  with block show thesis by (intro that(2)) (simp_all add: gsw_nine_new_record_def set_record_def)
qed

lemma give_up:
  assumes "nine_state others ps w" "p \<notin> set ps" "p \<notin> set (map fst (blocks w))"
  shows "nine_state others ps (HeapFree p (w\<lparr>system := s, blocks := (p, n) # blocks w, store := (store w)(p := r)\<rparr>))"
proof -
  have "filter (\<lambda>b. fst b \<noteq> p) (blocks w) = blocks w" using assms(3) by (intro filter_True) force
  then have "HeapFree p (w\<lparr>system := s, blocks := (p, n) # blocks w, store := (store w)(p := r)\<rparr>) =
      w\<lparr>system := s, store := (store w)(p := r)\<rparr>" by (simp add: HeapFree_def)
  then show ?thesis
    using assms list_outside [of others ps w p, where s = s and r = r] tree_outside [of "store w" ps p r] by (simp add: nine_state_def)
qed

lemma kept_insert: "kept_ok st ps \<Longrightarrow> p \<notin> set ps \<Longrightarrow> na_flags r \<in> {0, 1, 2} \<Longrightarrow> kept_ok (st(p := r)) (p # ps)"
  by (auto simp: kept_ok_def GSW_NINE_OWNER_RELEASED_def)

lemma insert_root_ok:
  assumes s: "nine_state others ps w" and p: "p \<notin> set ps" "p \<noteq> 0"
    and r: "na_parent r = 0" "na_child_count r = 0" "na_flags r \<in> {1, 2}"
    and area: "memory_ok ((store w)(p := r)) bs p" "set (blocks w) \<subseteq> set bs"
    and heap: "mset (map fst bs) = {#p#} + (if owner r then {#na_heap_pointer r#} else {#}) + mset (map fst (blocks w))"
      "distinct (map fst bs)" "sorted_wrt apart bs"
  shows "nine_state others (p # ps) (gsw_nine_link_locked p (w\<lparr>system := x, blocks := bs, store := (store w)(p := r)\<rparr>))"
proof -
  let ?w = "w\<lparr>system := x, blocks := bs, store := (store w)(p := r)\<rparr>"
  have l: "list_ok others ps w" "tree_ok (store w) ps" "kept_ok (store w) ps" "lock_depth w = 0"
    using s by (simp_all add: nine_state_def)
  have d: "dll ((store w)(p := r)) 0 ps 0"
  proof -
    have "dll ((store w)(p := r)) 0 ps 0 = dll (store w) 0 ps 0" using p by (intro dll_frame) auto
    then show ?thesis using l(1) by (simp add: list_ok_def)
  qed
  have h: "heap_ok others ((store w)(p := r)) bs (p # ps)"
    using heap l(1) by (simp add: heap_ok_def list_ok_def owned_outside [OF p(1)] del: mset_map)
  have a: "memory_ok (store ?w) (blocks ?w) y" if "y \<in> set (p # ps)" for y
    using that area(1) outside_store [OF l(2) p(1), of "blocks w" bs y r] l(1) area(2) by (auto simp: list_ok_def)
  have k: "list_ok others (p # ps) (gsw_nine_link_locked p ?w)"
    using d h a l(1) p by (intro link_ok) (simp_all add: list_ok_def)
  define st1 where "st1 = (store w)(p := r)"
  have c: "core (store (gsw_nine_link_locked p ?w) q) = core (st1 q)" for q
    using link_step(3) [of ?w ps p q] d l(1) p by (simp add: list_ok_def st1_def)
  show ?thesis
    using k tree_insert_root [OF l(2) p r] kept_insert [OF l(3) p(1), of r] r(3) l(4)
    by (intro nine_stateI) (auto simp: same_core [OF c [folded st1_def]] simp flip: st1_def)
qed

lemma wrap_ok:
  assumes "nine_state others ps w"
  shows "\<exists>ps'. nine_state others ps' (snd (nine_wrap_external_pointer e allocator data w)) \<and>
    keeps a ps w ps' (snd (nine_wrap_external_pointer e allocator data w))"
proof (cases "allocator = 0 \<or> data = 0")
  case False
  show ?thesis
  proof (cases rule: new_record_cases [OF assms, of e])
    case (1 w')
    then show ?thesis using False keeps_refl [OF 1(3)] by (auto simp: nine_wrap_external_pointer_def)
  next
    case (2 p x)
    let ?r = "nine_zero\<lparr>na_pointer := data, na_flags := GSW_NINE_EXTERNAL_ROOT\<rparr>"
    have nd: "\<not> destroying w" "distinct (map fst (blocks w))" "sorted_wrt apart (blocks w)"
      using assms by (simp_all add: nine_state_def list_ok_def heap_ok_def)
    have "nine_state others (p # ps) (gsw_nine_link_locked p
        (w\<lparr>system := x, blocks := (p, 32) # blocks w, store := (store w)(p := ?r)\<rparr>))"
      using 2 nd block_free_apart [OF 2(2) nd(3)]
      by (intro insert_root_ok [OF assms]) (auto simp: nine_zero_def GSW_NINE_EXTERNAL_ROOT_def memory_ok_def owner_def
          GSW_NINE_OWNS_MEMORY_def block_free_def)
    moreover have "keeps a ps w (p # ps) (gsw_nine_link_locked p
        (w\<lparr>system := x, blocks := (p, 32) # blocks w, store := (store w)(p := ?r)\<rparr>))"
      by (rule keeps_outside [OF 2(3)]) auto
    moreover have "snd (nine_wrap_external_pointer e allocator data w) = gsw_nine_link_locked p
        (w\<lparr>system := x, blocks := (p, 32) # blocks w, store := (store w)(p := ?r)\<rparr>)"
      using False 2 nd by (simp add: nine_wrap_external_pointer_def Let_def set_record_def EnterCriticalSection_def
          LeaveCriticalSection_def gsw_nine_link_locked_def)
    ultimately show ?thesis by auto
  qed
qed (use assms in \<open>auto simp: nine_wrap_external_pointer_def intro: keeps_refl\<close>)

lemma align_up:
  assumes "unat m + unat bytes + 63 \<le> 2 ^ 32" "0 < bytes"
  defines "a \<equiv> (m + (GSW_NINE_ALIGNMENT - 1)) AND NOT (GSW_NINE_ALIGNMENT - 1)"
  shows "64 dvd unat a" "unat m \<le> unat a" "unat a + unat bytes \<le> unat m + (unat bytes + 63)"
proof -
  have "0 < unat bytes" using assms(2) by (simp add: word_less_nat_alt)
  then have s: "unat (m + 63) = unat m + 63" using assms(1) by (simp add: unat_word_ariths)
  have "(m + 63) AND NOT (mask 6) = push_bit 6 (drop_bit 6 (m + 63))"
    by (intro bit_word_eqI) (auto simp: bit_simps not_less)
  moreover have "mask 6 = (63 :: u32)" by (simp add: mask_eq_exp_minus_1)
  ultimately have "a = push_bit 6 (drop_bit 6 (m + 63))"
    by (simp add: a_def GSW_NINE_ALIGNMENT_def)
  then have a: "unat a = 64 * ((unat m + 63) div 64)"
    using unsigned_less [of "m + 63", where ?'a = nat] s
    by (simp add: push_bit_eq_mult drop_bit_eq_div unat_word_ariths unat_div)
  then show "64 dvd unat a" "unat m \<le> unat a" "unat a + unat bytes \<le> unat m + (unat bytes + 63)" by simp_all
qed

lemma add_below:
  fixes p n :: u32
  assumes "\<not> n > 0xFFFFFFFF - p"
  shows "unat (p + n) = unat p + unat n"
proof -
  have "p \<le> 0xFFFFFFFF" using unsigned_less [of p, where ?'a = nat] by (simp add: word_le_nat_alt)
  then have "unat (0xFFFFFFFF - p) = 2 ^ 32 - 1 - unat p" by (simp add: unat_sub)
  then show ?thesis using assms unsigned_less [of p, where ?'a = nat] by (simp add: not_less word_le_nat_alt unat_word_ariths)
qed

lemma allocate_cases:
  fixes w :: "'a nine_world"
  assumes "nine_state others ps w"
  obtains (refused) w' where "nine_allocate e allocator bytes w = (0, w')" "nine_state others ps w'" "blocks w' = blocks w"
      "\<And>a. keeps a ps w ps w'"
  | (granted) p h m w' where "nine_allocate e allocator bytes w = (p, w')" "nine_state others (p # ps) w'" "\<And>a. keeps a ps w (p # ps) w'"
      "core (store w' p) = core (nine_zero\<lparr>na_pointer := m, na_heap_pointer := h, na_size := bytes, na_flags := GSW_NINE_OWNS_MEMORY\<rparr>)"
      "blocks w' = (h, unat bytes + 63) # (p, 32) # blocks w" "allocator \<noteq> 0" "unat h + (unat bytes + 63) \<le> 2 ^ 32"
proof (cases "allocator = 0 \<or> bytes = 0 \<or> bytes > 0xFFFFFFFF - (GSW_NINE_ALIGNMENT - 1)")
  case True
  then show thesis using assms by (intro refused [of w]) (auto simp: nine_allocate_def intro: keeps_refl)
next
  case False
  then have res: "unat (bytes + (GSW_NINE_ALIGNMENT - 1)) = unat bytes + 63" "0 < bytes"
    by (auto simp: GSW_NINE_ALIGNMENT_def word_le_nat_alt unat_word_ariths word_gt_0 linorder_not_less)
  show thesis
  proof (cases rule: new_record_cases [OF assms, of e])
    case (1 w')
    then show thesis using False by (intro refused [of w']) (auto simp: nine_allocate_def intro: keeps_refl)
  next
    case (2 p x)
    define w1 where "w1 = w\<lparr>system := x, blocks := (p, 32) # blocks w, store := (store w)(p := nine_zero)\<rparr>"
    have nd: "\<not> destroying w" "distinct (map fst (blocks w))" "sorted_wrt apart (blocks w)"
      using assms by (simp_all add: nine_state_def list_ok_def heap_ok_def)
    have pf: "p \<notin> set (map fst (blocks w))" using 2(2) by (simp add: block_free_def)
    show thesis
    proof (rule heap_alloc_cases [of e "unat (bytes + (GSW_NINE_ALIGNMENT - 1))" w1])
      fix y :: 'a
      let ?w = "w\<lparr>system := y, blocks := (p, 32) # blocks w, store := (store w)(p := nine_zero)\<rparr>"
      assume "HeapAlloc e (unat (bytes + (GSW_NINE_ALIGNMENT - 1))) w1 = (0, w1\<lparr>system := y\<rparr>)"
      moreover have "w1\<lparr>system := y\<rparr> = ?w" by (simp add: w1_def)
      ultimately have run: "nine_allocate e allocator bytes w = (0, HeapFree p ?w)"
        using False 2 by (simp add: nine_allocate_def Let_def flip: w1_def)
      have "filter (\<lambda>b. fst b \<noteq> p) (blocks w) = blocks w" using pf by (intro filter_True) force
      then have "blocks (HeapFree p ?w) = blocks w" by (simp add: HeapFree_def)
      moreover have "keeps a ps w ps (HeapFree p ?w)" for a by (rule keeps_outside [OF 2(3)]) auto
      ultimately show thesis by (intro refused [OF run give_up [OF assms 2(3) pf]])
    next
      fix h and y :: 'a
      assume m: "HeapAlloc e (unat (bytes + (GSW_NINE_ALIGNMENT - 1))) w1 =
          (h, w1\<lparr>system := y, blocks := (h, unat (bytes + (GSW_NINE_ALIGNMENT - 1))) # blocks w1\<rparr>)"
        "block_free h (unat (bytes + (GSW_NINE_ALIGNMENT - 1))) (blocks w1)"
      let ?a = "(h + (GSW_NINE_ALIGNMENT - 1)) AND NOT (GSW_NINE_ALIGNMENT - 1)"
      let ?r = "nine_zero\<lparr>na_pointer := ?a, na_heap_pointer := h, na_size := bytes, na_flags := GSW_NINE_OWNS_MEMORY\<rparr>"
      let ?bs = "(h, unat bytes + 63) # (p, 32) # blocks w"
      let ?w = "w\<lparr>system := y, blocks := ?bs, store := (store w)(p := ?r)\<rparr>"
      have mf: "block_free h (unat bytes + 63) ((p, 32) # blocks w)" using m(2) by (simp add: res w1_def)
      then have al: "64 dvd unat ?a" "unat h \<le> unat ?a" "unat ?a + unat bytes \<le> unat h + (unat bytes + 63)"
        using align_up [of h bytes] res(2) by (simp_all add: block_free_def)
      have ok: "nine_state others (p # ps) (gsw_nine_link_locked p ?w)"
      proof (rule insert_root_ok [OF assms 2(3,4)])
        show "memory_ok ((store w)(p := ?r)) ?bs p"
          using al res(2) unfolding memory_ok_def Let_def by (auto simp: nine_zero_def)
        show "mset (map fst ?bs) = {#p#} + (if owner ?r then {#na_heap_pointer ?r#} else {#}) + mset (map fst (blocks w))"
          by (simp add: owner_def GSW_NINE_OWNS_MEMORY_def)
        show "distinct (map fst ?bs)" using mf pf nd(2) by (auto simp: block_free_def)
        show "sorted_wrt apart ?bs" using block_free_apart [OF mf block_free_apart [OF 2(2) nd(3)]] .
      qed (auto simp: nine_zero_def GSW_NINE_OWNS_MEMORY_def)
      have "h \<noteq> 0" using mf by (simp add: block_free_def)
      then have run: "nine_allocate e allocator bytes w = (p, gsw_nine_link_locked p ?w)"
        using False 2 m nd by (simp add: nine_allocate_def Let_def w1_def set_record_def EnterCriticalSection_def
            LeaveCriticalSection_def gsw_nine_link_locked_def res)
      have "keeps a ps w (p # ps) (gsw_nine_link_locked p ?w)" for a
        by (rule keeps_outside [OF 2(3)]) auto
      then show thesis using False mf by (intro granted [OF run ok, where m = ?a and h = h]) (auto simp: block_free_def)
    qed
  qed
qed

lemma allocate_ok:
  assumes "nine_state others ps w"
  shows "\<exists>ps'. nine_state others ps' (snd (nine_allocate e allocator bytes w)) \<and>
    keeps a ps w ps' (snd (nine_allocate e allocator bytes w))"
  by (rule allocate_cases [OF assms, of e allocator bytes]) auto

lemma get_ok:
  assumes "nine_state others ps w"
  shows "\<exists>p w'. nine_get_pointer allocator a w = Some (p, w') \<and> nine_state others ps w' \<and> keeps b ps w ps w'"
proof -
  have "gsw_nine_find_locked (store w) (alloc_head w) a = Some (if a \<in> set ps then a else 0)"
    using assms find_state [of others ps w a] by (simp add: nine_state_def)
  then show ?thesis using assms by (auto simp: nine_get_pointer_def nine_state_def Let_def intro: keeps_refl)
qed

lemma record_lock: "set_record p r (EnterCriticalSection w) = EnterCriticalSection (set_record p r w)"
  by (simp add: set_record_def EnterCriticalSection_def)

lemma link_lock: "LeaveCriticalSection (gsw_nine_link_locked p (EnterCriticalSection w)) = gsw_nine_link_locked p w"
  by (simp add: gsw_nine_link_locked_def set_record_def Let_def EnterCriticalSection_def LeaveCriticalSection_def)

lemma suballocate_cases:
  assumes "nine_state others ps w"
  obtains (refused) w' where "nine_suballocate e allocator a offset w = Some (0, w')" "nine_state others ps w'" "\<And>b. keeps b ps w ps w'"
  | (granted) c w' where "nine_suballocate e allocator a offset w = Some (c, w')" "nine_state others (c # ps) w'"
      "\<And>b. keeps b ps w (c # ps) w'" "a \<in> set ps" "na_parent (store w' c) = a" "na_flags (store w' c) = 0"
      "na_pointer (store w' c) = na_pointer (store w a) + offset" "allocator \<noteq> 0"
proof (cases "allocator = 0 \<or> a = 0 \<or> sint offset < 0")
  case True
  then have "nine_suballocate e allocator a offset w = Some (0, w)" by (auto simp: nine_suballocate_def)
  then show thesis using assms by (rule refused) (simp add: keeps_refl)
next
  case False
  show thesis
  proof (cases rule: new_record_cases [OF assms, of e])
    case (1 w')
    then have "nine_suballocate e allocator a offset w = Some (0, w')" using False by (auto simp: nine_suballocate_def)
    then show thesis using 1(2) by (rule refused) (simp add: keeps_refl 1(3))
  next
    case (2 c x)
    have s: "list_ok others ps w" "tree_ok (store w) ps" "kept_ok (store w) ps" "lock_depth w = 0"
      using assms by (simp_all add: nine_state_def)
    have cf: "c \<notin> set (map fst (blocks w))" using 2(2) by (simp add: block_free_def)
    define w1 where "w1 = w\<lparr>system := x, blocks := (c, 32) # blocks w, store := (store w)(c := nine_zero)\<rparr>"
    have d1: "dll (store w1) 0 ps 0"
    proof -
      have "dll (store w1) 0 ps 0 = dll (store w) 0 ps 0" using 2(3) by (intro dll_frame) (auto simp: w1_def)
      then show ?thesis using s(1) by (simp add: list_ok_def)
    qed
    have f: "gsw_nine_find_locked (store w1) (alloc_head w1) a = Some (if a \<in> set ps then a else 0)"
      using find_found [OF d1, of a] s(1) by (simp add: list_ok_def w1_def)
    let ?p = "store w1 a"
    let ?refused = "a \<notin> set ps \<or> na_parent ?p \<noteq> 0 \<or> na_flags ?p AND GSW_NINE_OWNER_RELEASED \<noteq> 0 \<or>
        na_child_count ?p = 0xFFFFFFFF \<or> (na_flags ?p AND GSW_NINE_OWNS_MEMORY \<noteq> 0 \<and> offset \<ge> na_size ?p) \<or>
        offset > 0xFFFFFFFF - na_pointer ?p"
    show thesis
    proof (cases ?refused)
      case True
      have "nine_suballocate e allocator a offset w = Some (0, HeapFree c (LeaveCriticalSection (EnterCriticalSection w1)))"
        using False 2 True f by (auto simp: nine_suballocate_def Let_def simp flip: w1_def)
      moreover have "HeapFree c (LeaveCriticalSection (EnterCriticalSection w1)) = HeapFree c w1"
        by (simp add: EnterCriticalSection_def LeaveCriticalSection_def)
      ultimately have "nine_suballocate e allocator a offset w = Some (0, HeapFree c w1)" by simp
      moreover have "nine_state others ps (HeapFree c w1)"
        using give_up [OF assms 2(3) cf, where s = x and n = 32 and r = nine_zero] by (simp add: w1_def)
      ultimately show thesis
        by (rule refused) (rule keeps_outside [OF 2(3)], auto simp: w1_def)
    next
      case go: False
      then have a: "a \<in> set ps" "a \<noteq> c" "a \<noteq> 0" "?p = store w a" using 2(3) False by (auto simp: w1_def)
      let ?q = "store w a"
      let ?r = "(if owner ?q then nine_zero\<lparr>na_parent := a, na_pointer := na_pointer ?q + offset, na_size := na_size ?q - offset\<rparr>
          else nine_zero\<lparr>na_parent := a, na_pointer := na_pointer ?q + offset\<rparr>)"
      define st where "st = (store w)(c := ?r, a := ?q\<lparr>na_child_count := na_child_count ?q + 1\<rparr>)"
      define w2 where "w2 = w\<lparr>system := x, blocks := (c, 32) # blocks w, store := st\<rparr>"
      have run: "nine_suballocate e allocator a offset w = Some (c, gsw_nine_link_locked c w2)"
      proof -
        have z: "store w1 c = nine_zero" by (simp add: w1_def)
        have "nine_suballocate e allocator a offset w = Some (c, LeaveCriticalSection (gsw_nine_link_locked c
            (set_record a ((store (set_record c ?r w1) a)\<lparr>na_child_count := na_child_count (store (set_record c ?r w1) a) + 1\<rparr>)
              (set_record c ?r (EnterCriticalSection w1)))))"
          using False 2(1,4) go f a(1,3,4) z unfolding w1_def [symmetric]
          by (simp add: nine_suballocate_def Let_def owner_def record_lock)
        moreover have "set_record a ((store (set_record c ?r w1) a)\<lparr>na_child_count := na_child_count (store (set_record c ?r w1) a) + 1\<rparr>)
            (set_record c ?r w1) = w2"
          using a by (simp add: set_record_def w1_def w2_def st_def fun_upd_twist)
        ultimately show ?thesis by (simp only: record_lock link_lock)
      qed
      have t: "tree_ok st (c # ps)"
        unfolding st_def using go a 2(3,4) by (intro tree_insert_child [OF s(2)]) (auto simp: nine_zero_def)
      have same: "na_next (st y) = na_next (store w y)" "na_previous (st y) = na_previous (store w y)"
        "na_flags (st y) = na_flags (store w y)" "na_heap_pointer (st y) = na_heap_pointer (store w y)" if "y \<noteq> c" for y
        using that by (auto simp: st_def)
      have k: "kept_ok st (c # ps)"
      proof -
        have "na_flags (st c) = 0" using a by (simp add: st_def nine_zero_def)
        moreover have "na_flags (st y) AND GSW_NINE_OWNER_RELEASED = 0 \<or> na_child_count (st y) \<noteq> 0" if "y \<in> set ps" for y
          using s(3) go a that 2(3) by (cases "y = a") (auto simp: kept_ok_def st_def)
        ultimately show ?thesis by (auto simp: kept_ok_def)
      qed
      have d: "dll st 0 ps 0"
      proof -
        have "dll st 0 ps 0 = dll (store w) 0 ps 0" using same 2(3) by (intro dll_frame) metis
        then show ?thesis using s(1) by (simp add: list_ok_def)
      qed
      have o: "owned st ps = owned (store w) ps" using same 2(3) by (intro owned_frame) metis
      have nc: "\<not> owner (st c)" using a by (simp add: st_def nine_zero_def owner_def)
      have h: "heap_ok others st ((c, 32) # blocks w) (c # ps)"
        using s(1) cf block_free_apart [OF 2(2)]
        by (auto simp: heap_ok_def list_ok_def o nc simp del: mset_map sorted_wrt.simps)
      have fields: "na_parent (st y) = na_parent (store w y)" "na_pointer (st y) = na_pointer (store w y)"
        "na_size (st y) = na_size (store w y)" "owner (st y) = owner (store w y)" if "y \<noteq> c" for y
        using that by (auto simp: st_def owner_def)
      have areas: "memory_ok st ((c, 32) # blocks w) y" if "y \<in> set (c # ps)" for y
      proof (cases "y = c")
        case True
        have sum: "unat (na_pointer ?q + offset) = unat (na_pointer ?q) + unat offset"
          using go a(4) by (intro add_below) auto
        have sub: "owner ?q \<Longrightarrow> unat (na_size ?q - offset) = unat (na_size ?q) - unat offset \<and> offset < na_size ?q"
          using go a(4) by (auto simp: owner_def not_le intro!: unat_sub)
        have "st c = ?r" "st a = ?q\<lparr>na_child_count := na_child_count ?q + 1\<rparr>" using a by (simp_all add: st_def)
        then have c: "na_parent (st c) = a" "unat (na_pointer (st c)) = unat (na_pointer ?q) + unat offset"
          "na_pointer (st a) = na_pointer ?q" "owner (st a) = owner ?q" "na_size (st a) = na_size ?q"
          using sum by (simp_all add: nine_zero_def owner_def)
        have "0 < na_size (st c) \<and> unat offset + unat (na_size (st c)) = unat (na_size ?q)" if "owner ?q"
          using sub that \<open>st c = ?r\<close> by (simp add: word_less_nat_alt)
        with c show ?thesis using True nc a(3) by (simp add: memory_ok_def)
      next
        case False
        then have y: "y \<in> set ps" using that by simp
        then have "na_parent (store w y) \<noteq> 0 \<Longrightarrow> na_parent (store w y) \<noteq> c"
          using parent_listed [OF s(2) y] 2(3) by auto
        moreover have "memory_ok (store w) (blocks w) y" using s(1) y by (simp add: list_ok_def)
        ultimately have "memory_ok st (blocks w) y"
          using False by (auto simp: memory_ok_def Let_def fields same)
        then show ?thesis by (rule area_blocks) auto
      qed
      have "list_ok others (c # ps) (gsw_nine_link_locked c w2)"
        using d h areas s(1) 2(3,4) by (intro link_ok) (auto simp: w2_def list_ok_def)
      moreover have e: "core (store (gsw_nine_link_locked c w2) y) = core (st y)" for y
        using link_step(3) [of w2 ps c y] d s(1) 2(3,4) by (simp add: w2_def list_ok_def)
      have "lock_depth (gsw_nine_link_locked c w2) = 0" using s(4) by (simp add: w2_def)
      ultimately have "nine_state others (c # ps) (gsw_nine_link_locked c w2)"
        using t k by (intro nine_stateI) (simp_all add: same_core [OF e])
      moreover have "keeps b ps w (c # ps) (gsw_nine_link_locked c w2)" for b
        using go a(4) by (intro keeps_outside [OF 2(3)]) (auto simp: w2_def st_def body_simps)
      moreover have "na_parent (store (gsw_nine_link_locked c w2) c) = a" "na_flags (store (gsw_nine_link_locked c w2) c) = 0"
        "na_pointer (store (gsw_nine_link_locked c w2) c) = na_pointer (store w a) + offset"
        using core_parts [OF e [of c]] a by (auto simp: st_def nine_zero_def)
      ultimately show thesis using run False a(1) by (intro granted [of c "gsw_nine_link_locked c w2"]) auto
    qed
  qed
qed

lemma suballocate_ok:
  assumes "nine_state others ps w"
  shows "\<exists>p w' ps'. nine_suballocate e allocator a offset w = Some (p, w') \<and> nine_state others ps' w' \<and> keeps b ps w ps' w'"
  by (rule suballocate_cases [OF assms, of e allocator a offset]) auto

section \<open>Sessions\<close>

text \<open>
  The state tracker calls in any order, with any pointers, also ones that were never returned or are
  long free. The process heap holds blocks of others before the allocator is created.
\<close>

datatype nine_call =
    Allocate u32
  | Free u32
  | Worker_free u32
  | Get_pointer u32
  | Suballocate u32 u32
  | Wrap_external u32
  | Release u32

definition nine_step :: "'o nine_env \<Rightarrow> u32 \<Rightarrow> nine_call \<Rightarrow> 'o nine_world \<Rightarrow> (u32 \<times> 'o nine_world) option" where
  "nine_step e allocator c w =
     (case c of
        Allocate bytes \<Rightarrow> Some (nine_allocate e allocator bytes w)
      | Free p \<Rightarrow> map_option (Pair 0) (nine_free allocator p w)
      | Worker_free p \<Rightarrow> map_option (Pair 0) (nine_free_worker allocator p w)
      | Get_pointer p \<Rightarrow> nine_get_pointer allocator p w
      | Suballocate p offset \<Rightarrow> nine_suballocate e allocator p offset w
      | Wrap_external data \<Rightarrow> Some (nine_wrap_external_pointer e allocator data w)
      | Release p \<Rightarrow> Some (0, nine_pointer_delayedstrongrelease allocator p 0
          (nine_pointer_strongrelease allocator p (nine_pointer_weakrelease allocator p w))))"

primrec nine_run :: "'o nine_env \<Rightarrow> u32 \<Rightarrow> nine_call list \<Rightarrow> 'o nine_world \<Rightarrow> 'o nine_world option" where
  "nine_run e allocator [] w = Some w"
| "nine_run e allocator (c # cs) w =
     (case nine_step e allocator c w of None \<Rightarrow> None | Some (_, w) \<Rightarrow> nine_run e allocator cs w)"

definition nine_start :: "(u32 \<times> nat) list \<Rightarrow> 'o \<Rightarrow> 'o nine_world" where
  "nine_start bs s = \<lparr>store = (\<lambda>_. nine_zero), alloc_head = 0, destroying = False, lock_depth = 0, blocks = bs,
     bad_free = False, system = s\<rparr>"

definition nine_session ::
    "'o nine_env \<Rightarrow> (u32 \<times> nat) list \<Rightarrow> 'o \<Rightarrow> nine_call list \<Rightarrow> (u32 \<times> 'o nine_world) option" where
  "nine_session e bs s cs =
     (let (allocator, w) = nine_allocator_create e (nine_start bs s) in map_option (Pair allocator) (nine_run e allocator cs w))"

definition foreign_ok :: "(u32 \<times> nat) list \<Rightarrow> bool" where
  "foreign_ok bs \<longleftrightarrow> distinct (map fst bs) \<and> sorted_wrt apart bs"

definition other_blocks :: "u32 \<Rightarrow> (u32 \<times> nat) list \<Rightarrow> u32 list" where
  "other_blocks allocator bs = (if allocator = 0 then [] else [allocator]) @ map fst bs"

definition freed :: "nine_call \<Rightarrow> u32" where
  "freed c = (case c of Free p \<Rightarrow> p | Worker_free p \<Rightarrow> p | _ \<Rightarrow> 0)"

lemma step_ok:
  assumes "nine_state others ps w"
  shows "\<exists>r w' ps'. nine_step e allocator c w = Some (r, w') \<and> nine_state others ps' w' \<and> keeps (freed c) ps w ps' w'"
proof (cases c)
  case (Allocate n)
  then show ?thesis using allocate_ok [OF assms, of e allocator n 0]
    by (cases "nine_allocate e allocator n w") (auto simp: nine_step_def freed_def)
next
  case (Free p)
  then show ?thesis by (auto simp: nine_step_def freed_def intro: free_ok [OF assms, of allocator p])
next
  case (Worker_free p)
  then show ?thesis by (auto simp: nine_step_def freed_def nine_free_worker_def intro: free_ok [OF assms, of allocator p])
next
  case (Get_pointer p)
  then show ?thesis using get_ok [OF assms, of allocator p 0] by (auto simp: nine_step_def freed_def)
next
  case (Suballocate p n)
  then show ?thesis using suballocate_ok [OF assms, of e allocator p n 0] by (auto simp: nine_step_def freed_def)
next
  case (Wrap_external p)
  then show ?thesis using wrap_ok [OF assms, of e allocator p 0]
    by (cases "nine_wrap_external_pointer e allocator p w") (auto simp: nine_step_def freed_def)
next
  case (Release p)
  then show ?thesis using assms keeps_refl [of w w 0 ps] by (auto simp: nine_step_def freed_def nine_pointer_weakrelease_def
      nine_pointer_strongrelease_def nine_pointer_delayedstrongrelease_def)
qed

lemma run_ok:
  assumes "nine_state others ps w"
  shows "\<exists>w' ps'. nine_run e allocator cs w = Some w' \<and> nine_state others ps' w' \<and>
    (\<forall>x\<in>set ps. x \<notin> freed ` set cs \<longrightarrow> na_parent (store w x) \<noteq> 0 \<longrightarrow> x \<in> set ps' \<and> core (store w' x) = core (store w x) \<and>
      body (store w' (na_parent (store w x))) = body (store w (na_parent (store w x))))"
  using assms
proof (induction cs arbitrary: ps w)
  case (Cons c cs)
  obtain r w1 ps1 where 1: "nine_step e allocator c w = Some (r, w1)" "nine_state others ps1 w1" "keeps (freed c) ps w ps1 w1"
    using step_ok [OF Cons.prems] by blast
  obtain w2 ps2 where 2: "nine_run e allocator cs w1 = Some w2" "nine_state others ps2 w2"
    "\<And>x. x \<in> set ps1 \<Longrightarrow> x \<notin> freed ` set cs \<Longrightarrow> na_parent (store w1 x) \<noteq> 0 \<Longrightarrow> x \<in> set ps2 \<and>
      core (store w2 x) = core (store w1 x) \<and> body (store w2 (na_parent (store w1 x))) = body (store w1 (na_parent (store w1 x)))"
    using Cons.IH [OF 1(2)] by blast
  have "x \<in> set ps2 \<and> core (store w2 x) = core (store w x) \<and>
      body (store w2 (na_parent (store w x))) = body (store w (na_parent (store w x)))"
    if "x \<in> set ps" "x \<notin> freed ` set (c # cs)" "na_parent (store w x) \<noteq> 0" for x
  proof -
    have "na_parent (store w x) \<in> set ps" using Cons.prems parent_listed that(1,3) by (auto simp: nine_state_def)
    then have b: "body (store w1 (na_parent (store w x))) = body (store w (na_parent (store w x)))"
      using 1(3) by (simp add: keeps_def)
    have x: "x \<in> set ps1" "core (store w1 x) = core (store w x)" using 1(3) that by (auto simp: keeps_def)
    have p: "na_parent (store w1 x) = na_parent (store w x)" using core_parts [OF x(2)] by simp
    show ?thesis using 2(3) [OF x(1)] x(2) that(2,3) b unfolding p by simp
  qed
  then show ?case using 1(1) 2(1,2) by auto
qed auto

lemma step_null: "nine_step e 0 c w = Some (0, w)"
  by (cases c) (simp_all add: nine_step_def nine_allocate_def nine_free_def nine_free_worker_def nine_get_pointer_def
    nine_suballocate_def nine_wrap_external_pointer_def nine_pointer_weakrelease_def nine_pointer_strongrelease_def
    nine_pointer_delayedstrongrelease_def)

lemma run_null: "nine_run e 0 cs w = Some w"
  by (induction cs) (simp_all add: step_null)

lemma session_cases:
  assumes "foreign_ok bs"
  obtains a w ps where "nine_session e bs s cs = Some (a, w)" "nine_state (other_blocks a bs) ps w" "a = 0 \<Longrightarrow> ps = []"
proof (rule heap_alloc_cases [of e 36 "nine_start bs s"])
  fix s'
  assume 1: "HeapAlloc e 36 (nine_start bs s) = (0, (nine_start bs s)\<lparr>system := s'\<rparr>)"
  have "nine_state (other_blocks 0 bs) [] ((nine_start bs s)\<lparr>system := s'\<rparr>)"
    using assms by (simp add: nine_start_def nine_state_def list_ok_def heap_ok_def tree_ok_def kept_ok_def
        other_blocks_def foreign_ok_def)
  then show thesis using that 1 by (simp add: nine_session_def nine_allocator_create_def run_null)
next
  fix a s'
  let ?w = "(nine_start bs s)\<lparr>system := s', blocks := (a, 36) # bs\<rparr>"
  assume 2: "HeapAlloc e 36 (nine_start bs s) = (a, (nine_start bs s)\<lparr>system := s', blocks := (a, 36) # blocks (nine_start bs s)\<rparr>)"
    "block_free a 36 (blocks (nine_start bs s))"
  then have f: "block_free a 36 bs" by (simp add: nine_start_def)
  then have "nine_state (other_blocks a bs) [] ?w"
    using assms block_free_apart [OF f] by (simp add: nine_start_def nine_state_def list_ok_def heap_ok_def tree_ok_def
        kept_ok_def other_blocks_def foreign_ok_def block_free_def)
  from run_ok [OF this, of e a cs] obtain w ps where "nine_run e a cs ?w = Some w" "nine_state (other_blocks a bs) ps w"
    by blast
  moreover have "nine_allocator_create e (nine_start bs s) = (a, ?w)" "a \<noteq> 0"
    using 2 f by (simp_all add: nine_allocator_create_def nine_start_def block_free_def)
  ultimately show thesis by (intro that [of a w ps]) (simp_all add: nine_session_def)
qed

lemma get_listed:
  assumes "nine_state others ps w" "p \<in> set ps" "allocator \<noteq> 0"
    and "na_flags (store w p) AND GSW_NINE_OWNER_RELEASED = 0"
  shows "nine_get_pointer allocator p w = Some (na_pointer (store w p), w)"
proof -
  have "p \<noteq> 0" using assms(1,2) by (auto simp: nine_state_def tree_ok_def)
  moreover have "gsw_nine_find_locked (store w) (alloc_head w) p = Some p"
    using assms find_state [of others ps w p] by (simp add: nine_state_def)
  moreover have "LeaveCriticalSection (EnterCriticalSection w) = w"
    by (simp add: EnterCriticalSection_def LeaveCriticalSection_def)
  ultimately show ?thesis using assms(3,4) by (simp add: nine_get_pointer_def Let_def)
qed

lemma destroy_loop_ok:
  assumes "dll (store w) b ps 0" "mset (map fst (blocks w)) = owned (store w) ps + M" "distinct (map fst (blocks w))"
    and "sorted_wrt apart (blocks w)" "\<not> bad_free w"
  shows "\<exists>w'. nine_destroy_loop (first ps 0) w = Some w' \<and> mset (map fst (blocks w')) = M \<and> distinct (map fst (blocks w')) \<and>
    sorted_wrt apart (blocks w') \<and> \<not> bad_free w' \<and> lock_depth w' = lock_depth w"
  using assms
proof (induction ps arbitrary: b w)
  case Nil
  then show ?case by (simp add: nine_destroy_loop.simps)
next
  case (Cons p ps)
  define w1 where "w1 = (if owner (store w p) then HeapFree (na_heap_pointer (store w p)) w else w)"
  have m1: "mset (map fst (blocks w1)) = {#p#} + (owned (store w) ps + M)" "distinct (map fst (blocks w1))"
      "sorted_wrt apart (blocks w1)" "\<not> bad_free w1"
    using heap_free_ok [of w "na_heap_pointer (store w p)"] Cons.prems(2-5) by (auto simp: w1_def ac_simps simp del: mset_map)
  note m2 = heap_free_ok [OF m1]
  have st: "store (HeapFree p w1) = store w" "lock_depth (HeapFree p w1) = lock_depth w" by (simp_all add: w1_def)
  have "p \<noteq> 0" "na_next (store w p) = first ps 0" "dll (store (HeapFree p w1)) p ps 0"
    using Cons.prems(1) unfolding st by simp_all
  moreover from this(1,2) have "nine_destroy_loop (first (p # ps) 0) w = nine_destroy_loop (first ps 0) (HeapFree p w1)"
    by (subst nine_destroy_loop.simps) (simp add: Let_def w1_def owner_def)
  ultimately show ?case using Cons.IH [of "HeapFree p w1" p] m2(1-4) unfolding st by (simp del: mset_map)
qed

text \<open>An example: the heap hands out ascending addresses, and one block is in use already.\<close>

definition ascending :: "u32 nine_env" where
  "ascending n s = (s, s + of_nat n + 64)"

definition example_blocks :: "(u32 \<times> nat) list" where
  "example_blocks = [(0x1000, 16)]"

lemma example_foreign: "foreign_ok example_blocks"
  by (simp add: foreign_ok_def example_blocks_def)

lemma example_part:
  "(case nine_session ascending example_blocks 0x2000 [Allocate 0x100] of None \<Rightarrow> 0
    | Some (a, w) \<Rightarrow> (case nine_suballocate ascending a 0x2064 0x10 w of None \<Rightarrow> 0 | Some (c, w1) \<Rightarrow> c)) = 0x2243"
  by (simp add: nine_session_def nine_allocator_create_def nine_start_def nine_step_def nine_allocate_def
      gsw_nine_new_record_def HeapAlloc_def block_free_def example_blocks_def ascending_def GSW_NINE_ALIGNMENT_def
      set_record_def EnterCriticalSection_def LeaveCriticalSection_def gsw_nine_link_locked_def nine_zero_def
      GSW_NINE_OWNS_MEMORY_def GSW_NINE_OWNER_RELEASED_def nine_suballocate_def gsw_nine_find_locked.simps)

section \<open>Properties\<close>

text \<open>
  C28. Whatever calls were made, with whatever pointers: every search of the list ended, the list is
  doubly linked, the tree of its records is consistent, the outstanding blocks are exactly those of
  the list, of the allocator and of the others, no block was freed twice, and the lock is free.
\<close>

theorem nine_session_ok:
  assumes "foreign_ok bs"
  shows "case nine_session e bs s cs of None \<Rightarrow> False
    | Some (a, w) \<Rightarrow> \<exists>ps. nine_state (other_blocks a bs) ps w"
  by (rule session_cases [OF assms, of e s cs]) auto

lemma nine_session_ok_witness:
  "foreign_ok example_blocks \<and> (case nine_session ascending example_blocks 0x2000 [Allocate 0x100] of None \<Rightarrow> False
    | Some (a, w) \<Rightarrow> \<exists>ps. nine_state (other_blocks a example_blocks) ps w)"
  using nine_session_ok [OF example_foreign, of ascending "0x2000" "[Allocate 0x100]"] example_foreign by blast

text \<open>
  C29. The destruction of the allocator ends, and leaves exactly the blocks that were outstanding
  before its creation; nothing is freed twice and nothing leaks.
\<close>

theorem nine_destroy_returns_all:
  assumes "foreign_ok bs"
  shows "case nine_session e bs s cs of None \<Rightarrow> False
    | Some (a, w) \<Rightarrow> (case nine_allocator_destroy a w of None \<Rightarrow> False
        | Some w' \<Rightarrow> mset (map fst (blocks w')) = mset (map fst bs) \<and> \<not> bad_free w' \<and> lock_depth w' = 0)"
proof (rule session_cases [OF assms, of e s cs])
  fix a w ps
  assume run: "nine_session e bs s cs = Some (a, w)" and s: "nine_state (other_blocks a bs) ps w" and z: "a = 0 \<Longrightarrow> ps = []"
  have l: "list_ok (other_blocks a bs) ps w" "lock_depth w = 0" using s by (simp_all add: nine_state_def)
  show ?thesis
  proof (cases "a = 0")
    case True
    then show ?thesis using run l z by (simp add: nine_allocator_destroy_def list_ok_def heap_ok_def other_blocks_def)
  next
    case False
    let ?w = "LeaveCriticalSection (EnterCriticalSection w\<lparr>destroying := True, alloc_head := 0\<rparr>)"
    have q: "dll (store ?w) 0 ps 0" "mset (map fst (blocks ?w)) = owned (store ?w) ps + mset (other_blocks a bs)"
      "distinct (map fst (blocks ?w))" "sorted_wrt apart (blocks ?w)" "\<not> bad_free ?w" "lock_depth ?w = 0"
      using l by (simp_all add: list_ok_def heap_ok_def EnterCriticalSection_def LeaveCriticalSection_def del: mset_map)
    obtain w' where w': "nine_destroy_loop (first ps 0) ?w = Some w'" "mset (map fst (blocks w')) = {#a#} + mset (map fst bs)"
      "distinct (map fst (blocks w'))" "sorted_wrt apart (blocks w')" "\<not> bad_free w'" "lock_depth w' = 0"
      using destroy_loop_ok [OF q(1-5)] q(6) False by (auto simp: other_blocks_def simp del: mset_map)
    have "nine_allocator_destroy a w = Some (HeapFree a w')"
      using False w'(1) l by (simp add: nine_allocator_destroy_def Let_def list_ok_def)
    then show ?thesis using run heap_free_ok [OF w'(2-5)] w'(6) by (simp del: mset_map)
  qed
qed

lemma nine_destroy_returns_all_witness:
  "foreign_ok example_blocks \<and> (case nine_session ascending example_blocks 0x2000 [Allocate 0x100] of None \<Rightarrow> False
    | Some (a, w) \<Rightarrow> (case nine_allocator_destroy a w of None \<Rightarrow> False
        | Some w' \<Rightarrow> mset (map fst (blocks w')) = mset (map fst example_blocks) \<and> \<not> bad_free w' \<and> lock_depth w' = 0))"
  using nine_destroy_returns_all [OF example_foreign, of ascending "0x2000" "[Allocate 0x100]"] example_foreign by blast

text \<open>
  Memory that is handed out is aligned to 64 bytes, lies inside a block of its own of the heap,
  and apart from every block that was outstanding before; when the request is refused, no block is
  kept.
\<close>

theorem nine_allocate_fresh:
  assumes "foreign_ok bs"
  shows "case nine_session e bs s cs of None \<Rightarrow> False
    | Some (a, w) \<Rightarrow> (case nine_allocate e a n w of (p, w') \<Rightarrow>
        if p = 0 then blocks w' = blocks w
        else (case nine_get_pointer a p w' of None \<Rightarrow> False
          | Some (m, w'') \<Rightarrow> w'' = w' \<and> 64 dvd unat m \<and> 0 < n \<and> unat m + unat n \<le> 2 ^ 32 \<and>
              list_all (\<lambda>b. apart (m, unat n) b) ((p, 32) # blocks w)))"
proof (rule session_cases [OF assms, of e s cs])
  fix a w ps
  assume run: "nine_session e bs s cs = Some (a, w)" and s: "nine_state (other_blocks a bs) ps w"
  show ?thesis
  proof (cases rule: allocate_cases [OF s, of e a n])
    case (1 w')
    then show ?thesis using run by simp
  next
    case (2 p h m w')
    have l: "list_ok (other_blocks a bs) (p # ps) w'" "p \<noteq> 0" using 2(2) by (auto simp: nine_state_def tree_ok_def)
    have f: "na_pointer (store w' p) = m" "na_heap_pointer (store w' p) = h" "na_size (store w' p) = n" "owner (store w' p)"
      "na_flags (store w' p) AND GSW_NINE_OWNER_RELEASED = 0"
      using core_parts [OF 2(4)] by (simp_all add: owner_def GSW_NINE_OWNS_MEMORY_def GSW_NINE_OWNER_RELEASED_def)
    have heap: "distinct (map fst (blocks w'))" "sorted_wrt apart (blocks w')" using l(1) by (simp_all add: list_ok_def heap_ok_def)
    have "memory_ok (store w') (blocks w') p" using l(1) by (simp add: list_ok_def)
    then obtain k where k: "64 dvd unat m" "0 < n" "unat h \<le> unat m" "(h, k) \<in> set (blocks w')" "unat m + unat n \<le> unat h + k"
      by (auto simp: memory_ok_def Let_def f)
    have "k = unat n + 63" using eq_key_imp_eq_value [OF heap(1) k(4)] 2(5) by simp
    moreover have "\<forall>b\<in>set ((p, 32) # blocks w). apart (h, unat n + 63) b" using heap(2) unfolding 2(5) by auto
    ultimately have "list_all (\<lambda>b. apart (m, unat n) b) ((p, 32) # blocks w)" "unat m + unat n \<le> 2 ^ 32"
      using k(3,5) 2(7) by (auto simp: list_all_iff apart_def)
    then show ?thesis using run 2(1) l(2) k(1,2) get_listed [OF 2(2) _ 2(6) f(5)] by (simp add: f)
  qed
qed

lemma nine_allocate_fresh_witness:
  "foreign_ok example_blocks \<and> (case nine_session ascending example_blocks 0x2000 [Allocate 0x100] of None \<Rightarrow> False
    | Some (a, w) \<Rightarrow> (case nine_allocate ascending a 0x30 w of (p, w') \<Rightarrow>
        if p = 0 then blocks w' = blocks w
        else (case nine_get_pointer a p w' of None \<Rightarrow> False
          | Some (m, w'') \<Rightarrow> w'' = w' \<and> 64 dvd unat m \<and> 0 < (0x30 :: u32) \<and> unat m + unat (0x30 :: u32) \<le> 2 ^ 32 \<and>
              list_all (\<lambda>b. apart (m, unat (0x30 :: u32)) b) ((p, 32) # blocks w))))"
  using nine_allocate_fresh [OF example_foreign, where e = ascending and s = "0x2000" and cs = "[Allocate 0x100]" and n = "0x30"] example_foreign by blast

text \<open>
  C30. A part of another record's memory stays where it was, at the parent's address plus the offset,
  through any calls that do not free the part itself - the release of the parent included - and
  when the parent's memory belongs to the heap, the whole part lies in one outstanding block.
\<close>

theorem nine_child_outlives_parent:
  assumes "foreign_ok bs"
  shows "case nine_session e bs s cs of None \<Rightarrow> False
    | Some (a, w) \<Rightarrow> (case nine_suballocate e a p n w of None \<Rightarrow> False
      | Some (c, w1) \<Rightarrow> (case nine_run e a cs' w1 of None \<Rightarrow> False
        | Some w2 \<Rightarrow>
            if c \<noteq> 0 \<and> list_all (\<lambda>x. freed x \<noteq> c) cs'
            then nine_get_pointer a c w2 = Some (na_pointer (store w p) + n, w2) \<and>
              (if owner (store w p)
               then list_ex (\<lambda>b. unat (fst b) \<le> unat (na_pointer (store w p)) \<and>
                 unat (na_pointer (store w p) + n) \<ge> unat (na_pointer (store w p)) \<and>
                 unat (na_pointer (store w p) + n) < unat (na_pointer (store w p)) + unat (na_size (store w p)) \<and>
                 unat (na_pointer (store w p)) + unat (na_size (store w p)) \<le> unat (fst b) + snd b) (blocks w2)
               else True)
            else True))"
proof (rule session_cases [OF assms, of e s cs])
  fix a w ps
  assume run: "nine_session e bs s cs = Some (a, w)" and s: "nine_state (other_blocks a bs) ps w"
  show ?thesis
  proof (cases rule: suballocate_cases [OF s, of e a p n])
    case (1 w')
    then show ?thesis using run run_ok [OF 1(2), of e a cs'] by auto
  next
    case (2 c w1)
    let ?q = "store w p"
    have cp: "p \<noteq> 0" "na_parent (store w1 c) = p" "c \<noteq> 0" "body (store w1 p) = body ?q"
      using 2(2,4,5) s keeps_def [of 0 ps w "c # ps" w1] 2(3) [of 0] by (auto simp: nine_state_def tree_ok_def)
    show ?thesis
    proof (cases "c \<in> freed ` set cs'")
      case True
      then show ?thesis using run 2(1) run_ok [OF 2(2), of e a cs'] by (auto simp: list_all_iff)
    next
      case False
      obtain w2 ps2 where r: "nine_run e a cs' w1 = Some w2" "nine_state (other_blocks a bs) ps2 w2" "c \<in> set ps2"
        "core (store w2 c) = core (store w1 c)" "body (store w2 p) = body (store w1 p)"
        using run_ok [OF 2(2), of e a cs'] False cp by auto
      have f: "na_parent (store w2 c) = p" "na_flags (store w2 c) = 0" "na_pointer (store w2 c) = na_pointer ?q + n"
        "na_pointer (store w2 p) = na_pointer ?q" "na_size (store w2 p) = na_size ?q" "owner (store w2 p) = owner ?q"
        using core_parts [OF r(4)] 2(5-7) r(5) cp(4) by (simp_all add: body_def)
      have l: "list_ok (other_blocks a bs) ps2 w2" "tree_ok (store w2) ps2" using r(2) by (simp_all add: nine_state_def)
      have "p \<in> set ps2" using parent_listed [OF l(2) r(3)] f(1) cp(1) by simp
      then have m: "memory_ok (store w2) (blocks w2) p" "memory_ok (store w2) (blocks w2) c" using l(1) r(3) by (simp_all add: list_ok_def)
      have "list_ex (\<lambda>b. unat (fst b) \<le> unat (na_pointer ?q) \<and> unat (na_pointer ?q + n) \<ge> unat (na_pointer ?q) \<and>
          unat (na_pointer ?q + n) < unat (na_pointer ?q) + unat (na_size ?q) \<and>
          unat (na_pointer ?q) + unat (na_size ?q) \<le> unat (fst b) + snd b) (blocks w2)" if own: "owner ?q"
      proof -
        obtain h k where "(h, k) \<in> set (blocks w2)" "unat h \<le> unat (na_pointer ?q)"
          "unat (na_pointer ?q) + unat (na_size ?q) \<le> unat h + k"
          using m(1) own unfolding memory_ok_def Let_def f by auto
        moreover have "unat (na_pointer ?q + n) \<ge> unat (na_pointer ?q) \<and> 0 < na_size (store w2 c) \<and>
            unat (na_pointer ?q + n) + unat (na_size (store w2 c)) = unat (na_pointer ?q) + unat (na_size ?q)"
          using m(2) own cp(1) by (simp add: memory_ok_def Let_def f)
        ultimately show ?thesis by (force simp: list_ex_iff word_less_nat_alt)
      qed
      then show ?thesis
        using run 2(1) r(1) get_listed [OF r(2,3) 2(8)] by (simp add: f)
    qed
  qed
qed

lemma nine_child_outlives_parent_witness:
  "foreign_ok example_blocks \<and>
    (case nine_session ascending example_blocks 0x2000 [Allocate 0x100] of None \<Rightarrow> 0
     | Some (a, w) \<Rightarrow> (case nine_suballocate ascending a 0x2064 0x10 w of None \<Rightarrow> 0 | Some (c, w1) \<Rightarrow> c)) = 0x2243 \<and>
    (case nine_session ascending example_blocks 0x2000 [Allocate 0x100] of None \<Rightarrow> False
    | Some (a, w) \<Rightarrow> (case nine_suballocate ascending a 0x2064 0x10 w of None \<Rightarrow> False
      | Some (c, w1) \<Rightarrow> (case nine_run ascending a [Free 0x2064, Allocate 0x40] w1 of None \<Rightarrow> False
        | Some w2 \<Rightarrow>
            if c \<noteq> 0 \<and> list_all (\<lambda>x. freed x \<noteq> c) [Free 0x2064, Allocate 0x40]
            then nine_get_pointer a c w2 = Some (na_pointer (store w 0x2064) + 0x10, w2) \<and>
              (if owner (store w 0x2064)
               then list_ex (\<lambda>b. unat (fst b) \<le> unat (na_pointer (store w 0x2064)) \<and>
                 unat (na_pointer (store w 0x2064) + 0x10) \<ge> unat (na_pointer (store w 0x2064)) \<and>
                 unat (na_pointer (store w 0x2064) + 0x10) < unat (na_pointer (store w 0x2064)) + unat (na_size (store w 0x2064)) \<and>
                 unat (na_pointer (store w 0x2064)) + unat (na_size (store w 0x2064)) \<le> unat (fst b) + snd b) (blocks w2)
               else True)
            else True)))"
  using nine_child_outlives_parent [OF example_foreign, where e = ascending and s = "0x2000" and cs = "[Allocate 0x100]"
      and p = "0x2064" and n = "0x10" and cs' = "[Free 0x2064, Allocate 0x40]"]
    example_foreign example_part by blast

end
