(* ===== verification/Svga_Winsys.thy ===== *)
theory Svga_Winsys
  imports Gsw_Prelude
begin

text \<open>
  The window system below the SVGA driver of Mesa
  (\<^verbatim>\<open>mesa-gsw/src/gsw_svga_winsys.c\<close>): a screen with one context that can be leased, and
  operations all of which refuse, so that nothing reaches the device.

  The structures and the named constants belong to Mesa, which is not part of the repository; the
  constants are the parameter \<open>svga_constants\<close>. A pointer to an object is its address, 0 for none; a
  pointer to something the operation fills in is an option, \<open>None\<close> for none, and the result holds
  what is there afterwards. An operation that has no result and fills in nothing has no definition.
\<close>

section \<open>Operations that refuse\<close>

record svga_constants =
  SVGA3D_INVALID_ID :: u32
  SVGA3D_HWVERSION_WS65_B1 :: u32
  SVGA3D_FORMAT_INVALID :: u32
  PIPE_ERROR :: int

text \<open>What a call leaves in the place a pointer names.\<close>

definition filled :: "'a \<Rightarrow> 'a option \<Rightarrow> 'a option" where
  "filled v place = map_option (\<lambda>_. v) place"

definition gsw_get_hw_version :: "svga_constants \<Rightarrow> u32" where
  "gsw_get_hw_version k = SVGA3D_HWVERSION_WS65_B1 k"

definition gsw_get_fd :: int where "gsw_get_fd = - 1"

definition gsw_get_cap :: "u32 \<Rightarrow> u32 option \<Rightarrow> bool \<times> u32 option" where
  "gsw_get_cap index result = (False, filled 0 result)"

definition gsw_context_reserve :: "u32 \<Rightarrow> u32 \<Rightarrow> u32" where
  "gsw_context_reserve nr_bytes nr_relocs = 0"

definition gsw_context_command_buffer_size :: u32 where "gsw_context_command_buffer_size = 0"

definition gsw_surface_relocation :: "svga_constants \<Rightarrow> u32 option \<Rightarrow> u32 option \<Rightarrow> u32 option \<times> u32 option" where
  "gsw_surface_relocation k sid mobid = (filled (SVGA3D_INVALID_ID k) sid, filled (SVGA3D_INVALID_ID k) mobid)"

definition gsw_region_relocation :: "(u32 \<times> u32) option \<Rightarrow> (u32 \<times> u32) option" where
  "gsw_region_relocation ptr = filled (0, 0) ptr"

definition gsw_shader_relocation :: "svga_constants \<Rightarrow> u32 option \<Rightarrow> u32 option \<Rightarrow> u32 option \<Rightarrow>
    u32 option \<times> u32 option \<times> u32 option" where
  "gsw_shader_relocation k shid mobid offset =
     (filled (SVGA3D_INVALID_ID k) shid, filled (SVGA3D_INVALID_ID k) mobid, filled 0 offset)"

definition gsw_context_relocation :: "svga_constants \<Rightarrow> u32 option \<Rightarrow> u32 option" where
  "gsw_context_relocation k cid = filled (SVGA3D_INVALID_ID k) cid"

definition gsw_mob_relocation :: "svga_constants \<Rightarrow> u32 option \<Rightarrow> u32 option \<Rightarrow> u32 option \<times> u32 option" where
  "gsw_mob_relocation k mob offset_into_mob = (filled (SVGA3D_INVALID_ID k) mob, filled 0 offset_into_mob)"

definition gsw_query_relocation :: "svga_constants \<Rightarrow> u32 option \<Rightarrow> u32 option" where
  "gsw_query_relocation k mob = filled (SVGA3D_INVALID_ID k) mob"

definition gsw_query_bind :: "svga_constants \<Rightarrow> int" where "gsw_query_bind k = PIPE_ERROR k"

definition gsw_context_flush :: "svga_constants \<Rightarrow> u32 option \<Rightarrow> int \<times> u32 option" where
  "gsw_context_flush k pfence = (PIPE_ERROR k, filled 0 pfence)"

definition gsw_context_surface_map :: "bool option \<Rightarrow> bool option \<Rightarrow> u32 \<times> bool option \<times> bool option" where
  "gsw_context_surface_map retry rebind = (0, filled False retry, filled False rebind)"

definition gsw_context_surface_unmap :: "bool option \<Rightarrow> bool option" where
  "gsw_context_surface_unmap rebind = filled False rebind"

definition gsw_context_shader_create :: u32 where "gsw_context_shader_create = 0"

definition gsw_context_resource_rebind :: "svga_constants \<Rightarrow> int" where "gsw_context_resource_rebind k = PIPE_ERROR k"

definition gsw_surface_create :: u32 where "gsw_surface_create = 0"

definition gsw_surface_from_handle :: "svga_constants \<Rightarrow> u32 option \<Rightarrow> u32 \<times> u32 option" where
  "gsw_surface_from_handle k format = (0, filled (SVGA3D_FORMAT_INVALID k) format)"

definition gsw_surface_get_handle :: bool where "gsw_surface_get_handle = False"
definition gsw_surface_is_flushed :: bool where "gsw_surface_is_flushed = False"

definition gsw_surface_reference :: "u32 option \<Rightarrow> u32 \<Rightarrow> u32 option" where
  "gsw_surface_reference destination source = filled 0 destination"

definition gsw_surface_can_create :: bool where "gsw_surface_can_create = False"
definition gsw_buffer_create :: u32 where "gsw_buffer_create = 0"
definition gsw_buffer_map :: u32 where "gsw_buffer_map = 0"

definition gsw_fence_reference :: "u32 option \<Rightarrow> u32 \<Rightarrow> u32 option" where
  "gsw_fence_reference destination source = filled 0 destination"

definition gsw_fence_signalled :: int where "gsw_fence_signalled = - 1"
definition gsw_fence_finish :: int where "gsw_fence_finish = - 1"
definition gsw_fence_get_fd :: int where "gsw_fence_get_fd = - 1"

definition gsw_fence_create_fd :: "u32 option \<Rightarrow> int \<Rightarrow> u32 option" where
  "gsw_fence_create_fd fence fd = filled 0 fence"

definition gsw_fence_server_sync :: "int option \<Rightarrow> int \<times> int option" where
  "gsw_fence_server_sync context_fd = (- 1, filled (- 1) context_fd)"

definition gsw_shader_create :: u32 where "gsw_shader_create = 0"
definition gsw_query_create :: u32 where "gsw_query_create = 0"
definition gsw_query_init :: int where "gsw_query_init = - 1"

text \<open>\<open>result\<close> are the bytes behind the pointer, of which the first ones are cleared.\<close>

definition gsw_query_get_result :: "u32 option \<Rightarrow> u8 list option \<Rightarrow> u32 \<Rightarrow> u32 option \<times> u8 list option" where
  "gsw_query_get_result state result result_length =
     (filled 0 state,
      if result_length \<noteq> 0
      then map_option (\<lambda>bytes. replicate (unat result_length) 0 @ drop (unat result_length) bytes) result
      else result)"

section \<open>Screens and the lease of their context\<close>












section \<open>Any use of the window system\<close>



















end
