(* ===== verification/Probe_Runtime.thy ===== *)
theory Probe_Runtime
  imports Gsw_Prelude
begin

text \<open>
  The run-time helpers of the graphics diagnostic of the guest
  (\<^verbatim>\<open>guest-tools/gsw-graphics-probe/runtime.c\<close>, with the types of
  \<^verbatim>\<open>gswgfx.h\<close>): text, checked arithmetic, the timer, the options of the command line and the list
  of display modes.

  A text is the list of its bytes before the terminating zero, a null pointer is \<open>None\<close>. The
  services of Windows are the parameter \<open>probe_env\<close> over a state of any type.
\<close>

section \<open>Text\<close>

type_synonym c_text = "u8 list"

definition lit :: "string \<Rightarrow> c_text" where
  "lit s = map of_char s"

definition gsw_text_length :: "c_text option \<Rightarrow> u32" where
  "gsw_text_length s = (case s of None \<Rightarrow> 0 | Some t \<Rightarrow> of_nat (length t))"

text \<open>The loop runs while both texts have bytes; at the end both terminators must have been reached.\<close>

fun text_equal_loop :: "c_text \<Rightarrow> c_text \<Rightarrow> bool" where
  "text_equal_loop (a # left) (b # right) = (if a \<noteq> b then False else text_equal_loop left right)"
| "text_equal_loop left right = (left = [] \<and> right = [])"

definition gsw_text_equal :: "c_text option \<Rightarrow> c_text option \<Rightarrow> bool" where
  "gsw_text_equal left right =
     (case (left, right) of (Some l, Some r) \<Rightarrow> text_equal_loop l r | _ \<Rightarrow> False)"

text \<open>The destination is an array of \<open>capacity\<close> bytes that holds the text \<open>old\<close>.\<close>

definition gsw_text_copy :: "c_text \<Rightarrow> u32 \<Rightarrow> c_text option \<Rightarrow> bool \<times> c_text" where
  "gsw_text_copy old capacity source =
     (case source of
        None \<Rightarrow> (False, old)
      | Some t \<Rightarrow> if gsw_text_length (Some t) + 1 > capacity then (False, old) else (True, t))"

definition gsw_checked_multiply :: "u32 \<Rightarrow> u32 \<Rightarrow> u32 option" where
  "gsw_checked_multiply left right =
     (if left \<noteq> 0 \<and> right > 0xFFFFFFFF div left then None else Some (left * right))"

lemma text_equal_iff: "text_equal_loop l r = (l = r)"
  by (induction l r rule: text_equal_loop.induct) auto

lemma text_equal_simps [simp]: "gsw_text_equal (Some l) (Some r) = (l = r)"
  by (simp add: gsw_text_equal_def text_equal_iff)

lemma checked_multiply_Some:
  "gsw_checked_multiply a b = Some c \<longleftrightarrow> unat a * unat b < 2 ^ 32 \<and> c = a * b"
proof (cases "a = 0")
  case False
  then show ?thesis using no_mult_wrap_iff [of a b] by (auto simp: gsw_checked_multiply_def not_less mult.commute)
qed (auto simp: gsw_checked_multiply_def)

lemma checked_multiply_unat:
  "gsw_checked_multiply a b = Some c \<Longrightarrow> unat c = unat a * unat b"
  by (auto simp: checked_multiply_Some unat_mult_no_overflow)

section \<open>The timer\<close>

text \<open>
  What the diagnostic asks of Windows. A performance counter answers a value or fails; the frequency
  likewise. \<open>current_settings\<close> are width, height and depth of the current display mode.
\<close>

record 's probe_env =
  GetTickCount :: "'s \<Rightarrow> u32 \<times> 's"
  QueryPerformanceFrequency :: "'s \<Rightarrow> u64 option \<times> 's"
  QueryPerformanceCounter :: "'s \<Rightarrow> u64 option \<times> 's"
  GetCommandLineA :: "c_text option"
  EnumDisplaySettingsA :: "'s \<Rightarrow> (u32 \<times> u32 \<times> u32) option \<times> 's"
  ChangeDisplaySettingsA :: "'s \<Rightarrow> bool \<times> 's"
  GetDC :: "'s \<Rightarrow> u32 \<times> 's"
  GetSystemMetrics_screen :: "'s \<Rightarrow> u32 \<times> u32"
  GetDeviceCaps_depth :: "u32 \<Rightarrow> 's \<Rightarrow> u32 \<times> u32"
  ReleaseDC :: "u32 \<Rightarrow> 's \<Rightarrow> bool \<times> 's"
  HeapAlloc_bytes :: "u32 \<Rightarrow> 's \<Rightarrow> bool \<times> 's"
  HeapFree_bytes :: "'s \<Rightarrow> 's"
  gsw_window_pump :: "'s \<Rightarrow> 's"

record GSW_TIMER =
  tm_qpc :: bool
  tm_failed :: bool
  tm_frequency :: u64
  tm_last :: u64

definition gsw_timer_initialize :: "'s probe_env \<Rightarrow> 's \<Rightarrow> GSW_TIMER \<times> 's" where
  "gsw_timer_initialize e s =
     (let (tick, s) = GetTickCount e s;
          timer = \<lparr>tm_qpc = False, tm_failed = False, tm_frequency = 1000, tm_last = ucast tick\<rparr>;
          (frequency, s) = QueryPerformanceFrequency e s
      in case frequency of
           None \<Rightarrow> (timer, s)
         | Some f \<Rightarrow>
             if sint f > 0
             then (let (current, s) = QueryPerformanceCounter e s in
                   case current of
                     None \<Rightarrow> (timer, s)
                   | Some c \<Rightarrow> if sint c \<ge> 0 then (timer\<lparr>tm_qpc := True, tm_frequency := f, tm_last := c\<rparr>, s)
                              else (timer, s))
             else (timer, s))"

definition gsw_timer_now :: "'s probe_env \<Rightarrow> GSW_TIMER \<Rightarrow> 's \<Rightarrow> u64 \<times> GSW_TIMER \<times> 's" where
  "gsw_timer_now e timer s =
     (if tm_failed timer then (tm_last timer, timer, s)
      else if tm_qpc timer
      then (let (current, s) = QueryPerformanceCounter e s in
            case current of
              None \<Rightarrow> (tm_last timer, timer\<lparr>tm_failed := True\<rparr>, s)
            | Some c \<Rightarrow> if sint c < 0 \<or> c < tm_last timer then (tm_last timer, timer\<lparr>tm_failed := True\<rparr>, s)
                       else (c, timer\<lparr>tm_last := c\<rparr>, s))
      else (let (tick, s) = GetTickCount e s;
                prior = ucast (tm_last timer) :: u32;
                timer = timer\<lparr>tm_last := tm_last timer + ucast (tick - prior)\<rparr>
            in (tm_last timer, timer, s)))"

definition gsw_timer_ms :: "GSW_TIMER \<Rightarrow> u64 \<Rightarrow> u32" where
  "gsw_timer_ms timer ticks =
     (if tm_frequency timer = 0 then 0
      else ucast ((ticks div tm_frequency timer) * 1000 + ((ticks mod tm_frequency timer) * 1000) div tm_frequency timer))"

definition gsw_timer_us :: "GSW_TIMER \<Rightarrow> u64 \<Rightarrow> u32" where
  "gsw_timer_us timer ticks =
     (if tm_frequency timer = 0 then 0
      else if ticks > 0xFFFFFFFF * tm_frequency timer div 1000000 then 0xFFFFFFFF
      else ucast ((ticks * 1000000) div tm_frequency timer))"

section \<open>The command line\<close>

definition blank :: "u8 \<Rightarrow> bool" where
  "blank c \<longleftrightarrow> c = 0x20 \<or> c = 9"

text \<open>How many bytes of \<open>wanted\<close> the command matches.\<close>

fun gsw_matched :: "c_text \<Rightarrow> c_text \<Rightarrow> nat" where
  "gsw_matched (w # wanted) (c # command) = (if c = w then Suc (gsw_matched wanted command) else 0)"
| "gsw_matched wanted command = 0"

text \<open>The rest of the command from the current index on.\<close>

function gsw_argument_loop :: "c_text \<Rightarrow> c_text \<Rightarrow> bool" where
  "gsw_argument_loop wanted command =
     (if command = [] then False
      else
        (let command = dropWhile blank command in
         if command \<noteq> [] \<and> hd command = 0x22
         then (let command = dropWhile (\<lambda>c. c \<noteq> 0x22) (tl command);
                   command = (if command \<noteq> [] then tl command else command)
               in gsw_argument_loop wanted command)
         else if gsw_matched wanted command = length wanted \<and>
             (drop (length wanted) command = [] \<or> blank (hd (drop (length wanted) command)))
         then True
         else gsw_argument_loop wanted (dropWhile (\<lambda>c. \<not> blank c) command)))"
  by pat_completeness auto

lemma shorter_after_quote:
  assumes "dropWhile blank c \<noteq> []"
  shows "length (dropWhile p (tl (dropWhile blank c))) < length c"
proof -
  have "length (dropWhile p (tl (dropWhile blank c))) \<le> length (tl (dropWhile blank c))" by (rule length_dropWhile_le)
  moreover have "length (tl (dropWhile blank c)) < length (dropWhile blank c)" using assms by (cases "dropWhile blank c") auto
  moreover have "length (dropWhile blank c) \<le> length c" by (rule length_dropWhile_le)
  ultimately show ?thesis by simp
qed

lemma shorter_after_word:
  assumes "c \<noteq> []"
  shows "length (dropWhile (\<lambda>x. \<not> blank x) (dropWhile blank c)) < length c"
proof (cases "dropWhile blank c = []")
  case True
  show ?thesis unfolding True using assms by simp
next
  case False
  then obtain x r where d: "dropWhile blank c = x # r" by (cases "dropWhile blank c") auto
  then have "\<not> blank x" using hd_dropWhile [of blank c] by simp
  then have "length (dropWhile (\<lambda>x. \<not> blank x) (dropWhile blank c)) \<le> length r"
    using length_dropWhile_le [of "\<lambda>x. \<not> blank x" r] by (simp add: d)
  also have "\<dots> < length (dropWhile blank c)" by (simp add: d)
  also have "\<dots> \<le> length c" by (rule length_dropWhile_le)
  finally show ?thesis .
qed

termination gsw_argument_loop
proof (relation "measure (length \<circ> snd)", goal_cases)
  case (2 wanted command a b b')
  then have "length b < length command" using shorter_after_quote [of command "\<lambda>c. c \<noteq> 0x22"] by simp
  then show ?case using 2 by (simp split: if_splits)
next
  case (3 wanted command a)
  then show ?case using shorter_after_word [of command] by simp
qed simp

declare gsw_argument_loop.simps [simp del]

definition gsw_argument :: "'s probe_env \<Rightarrow> string \<Rightarrow> bool" where
  "gsw_argument e wanted =
     (case GetCommandLineA e of None \<Rightarrow> False | Some command \<Rightarrow> gsw_argument_loop (lit wanted) command)"

record GSW_OPTIONS =
  op_exhaustive :: bool
  op_self_test :: bool
  op_host_report :: bool
  op_import_vbe :: bool
  op_gdi_only :: bool
  op_ddraw_only :: bool
  op_d3d_only :: bool
  op_ddraw4 :: bool
  op_bounded :: bool
  op_no_d3d :: bool
  op_capture :: bool
  op_trace :: bool

definition gsw_parse_options :: "'s probe_env \<Rightarrow> GSW_OPTIONS" where
  "gsw_parse_options e =
     \<lparr>op_exhaustive = gsw_argument e ''/exhaustive'', op_self_test = gsw_argument e ''/self-test'',
      op_host_report = gsw_argument e ''/host-report'', op_import_vbe = gsw_argument e ''/import-vbe'',
      op_gdi_only = gsw_argument e ''/gdi-only'', op_ddraw_only = gsw_argument e ''/ddraw-only'',
      op_d3d_only = gsw_argument e ''/d3d-only'', op_ddraw4 = gsw_argument e ''/ddraw4'',
      op_bounded = gsw_argument e ''/bounded'', op_no_d3d = gsw_argument e ''/no-d3d'',
      op_capture = gsw_argument e ''/capture'', op_trace = gsw_argument e ''/trace''\<rparr>"

section \<open>The desktop\<close>

record GSW_DESKTOP =
  dk_width :: u32
  dk_height :: u32
  dk_bpp :: u32
  metric_width :: u32
  metric_height :: u32
  caps_bpp :: u32

definition desktop_zero :: GSW_DESKTOP where
  "desktop_zero = \<lparr>dk_width = 0, dk_height = 0, dk_bpp = 0, metric_width = 0, metric_height = 0, caps_bpp = 0\<rparr>"

definition gsw_capture_desktop :: "'s probe_env \<Rightarrow> 's \<Rightarrow> (bool \<times> GSW_DESKTOP) \<times> 's" where
  "gsw_capture_desktop e s =
     (let (settings, s) = EnumDisplaySettingsA e s in
      case settings of
        None \<Rightarrow> ((False, desktop_zero), s)
      | Some (w, h, b) \<Rightarrow>
          (let d = desktop_zero\<lparr>dk_width := w, dk_height := h, dk_bpp := b\<rparr>;
               (dc, s) = GetDC e s
           in if dc = 0 then ((False, d), s)
              else
                (let (mw, mh) = GetSystemMetrics_screen e s;
                     (bits, planes) = GetDeviceCaps_depth e dc s;
                     d = d\<lparr>metric_width := mw, metric_height := mh, caps_bpp := bits * planes\<rparr>;
                     (released, s) = ReleaseDC e dc s
                 in ((released, d), s))))"

definition gsw_restore_desktop :: "'s probe_env \<Rightarrow> GSW_DESKTOP \<Rightarrow> 's \<Rightarrow> bool \<times> 's" where
  "gsw_restore_desktop e original s =
     (let (successful, s) = ChangeDisplaySettingsA e s in
      if \<not> successful then (False, s)
      else
        (let ((captured, observed), s) = gsw_capture_desktop e s in
         (captured \<and> dk_width observed = dk_width original \<and> dk_height observed = dk_height original \<and>
          dk_bpp observed = dk_bpp original, s)))"

section \<open>Modes\<close>

record GSW_MODE =
  md_id :: u32
  md_width :: u32
  md_height :: u32
  md_bpp :: u32
  md_hz :: u32
  md_flags :: u32

text \<open>The first \<open>count\<close> elements of the array; the rest is never read.\<close>

record GSW_MODE_LIST =
  ml_items :: "GSW_MODE list"
  ml_overflow :: bool

definition GSW_MODE_CAP :: nat where "GSW_MODE_CAP = 512"

definition gsw_mode_add :: "GSW_MODE_LIST \<Rightarrow> GSW_MODE \<Rightarrow> bool \<times> GSW_MODE_LIST" where
  "gsw_mode_add l m =
     (if md_width m = 0 \<or> md_height m = 0 \<or> md_bpp m = 0 \<or> md_bpp m > 32 then (False, l)
      else if list_ex (\<lambda>x. md_width x = md_width m \<and> md_height x = md_height m \<and> md_bpp x = md_bpp m \<and>
          md_hz x = md_hz m \<and> md_flags x = md_flags m) (ml_items l) then (True, l)
      else if length (ml_items l) \<ge> GSW_MODE_CAP then (False, l\<lparr>ml_overflow := True\<rparr>)
      else (True, l\<lparr>ml_items := ml_items l @ [m]\<rparr>))"

definition gsw_mode_is_canonical :: "GSW_MODE \<Rightarrow> bool" where
  "gsw_mode_is_canonical m \<longleftrightarrow>
     (md_width m = 320 \<and> (md_height m = 200 \<or> md_height m = 240)) \<or>
     (md_width m = 640 \<and> md_height m = 480) \<or> (md_width m = 800 \<and> md_height m = 600) \<or>
     (md_width m = 1024 \<and> md_height m = 768)"

end
