(* ===== verification/Probe_Sort.thy ===== *)
theory Probe_Sort
  imports Gsw_Prelude "HOL-Library.Multiset"
begin

text \<open>
  The heap sort of the samples in the graphics diagnostic
  (\<^verbatim>\<open>guest-tools/gsw-graphics-probe/benchmark.c\<close>, \<open>gsw_heap_down\<close> and \<open>gsw_sort\<close>).

  The array of samples is the list of its used cells. It never holds more than
  \<^verbatim>\<open>GSW_SAMPLE_CAP\<close> samples, so the index arithmetic of the sort does not wrap and its indices
  are natural numbers.
\<close>

section \<open>The sort\<close>

definition heap_child :: "u32 list \<Rightarrow> nat \<Rightarrow> nat \<Rightarrow> nat" where
  "heap_child values cells root =
     (let child = root * 2 + 1;
          selected = (if child < cells \<and> values ! child > values ! root then child else root)
      in if child + 1 < cells \<and> values ! (child + 1) > values ! selected then child + 1 else selected)"

lemma heap_child_cases:
  "heap_child v n r = r \<or> (heap_child v n r = 2 * r + 1 \<or> heap_child v n r = 2 * r + 2) \<and> heap_child v n r < n"
  by (auto simp: heap_child_def Let_def)

definition swap_cells :: "u32 list \<Rightarrow> nat \<Rightarrow> nat \<Rightarrow> u32 list" where
  "swap_cells values i j = values[i := values ! j, j := values ! i]"

function gsw_heap_down :: "u32 list \<Rightarrow> nat \<Rightarrow> nat \<Rightarrow> u32 list" where
  "gsw_heap_down values cells root =
     (let selected = heap_child values cells root in
      if selected = root then values
      else gsw_heap_down (swap_cells values root selected) cells selected)"
  by pat_completeness auto

termination gsw_heap_down
proof (relation "measure (\<lambda>(values, cells, root). cells - root)", goal_cases)
  case (2 v n r x)
  then show ?case using heap_child_cases [of v n r] by auto
qed simp

declare gsw_heap_down.simps [simp del]

definition gsw_sort :: "u32 list \<Rightarrow> nat \<Rightarrow> u32 list" where
  "gsw_sort values cells =
     (if cells < 2 then values
      else
        (let values = fold (\<lambda>index values. gsw_heap_down values cells (index - 1)) (rev [1..<cells div 2 + 1]) values
         in fold (\<lambda>index values. gsw_heap_down (swap_cells values 0 index) index 0) (rev [1..<cells]) values))"

subsection \<open>Moving cells\<close>

lemma length_swap [simp]: "length (swap_cells v i j) = length v"
  by (simp add: swap_cells_def)

lemma nth_swap: "i < length v \<Longrightarrow> j < length v \<Longrightarrow>
    swap_cells v i j ! k = (if k = j then v ! i else if k = i then v ! j else v ! k)"
  by (auto simp: swap_cells_def nth_list_update)

lemma mset_swap_cells [simp]: "i < length v \<Longrightarrow> j < length v \<Longrightarrow> mset (swap_cells v i j) = mset v"
  by (simp add: swap_cells_def mset_swap)

lemma drop_swap: "i < n \<Longrightarrow> j < n \<Longrightarrow> drop n (swap_cells v i j) = drop n v"
  by (simp add: swap_cells_def drop_update_cancel)

lemma heap_down_keeps:
  assumes "root < cells" "cells \<le> length v"
  shows "mset (gsw_heap_down v cells root) = mset v \<and> length (gsw_heap_down v cells root) = length v \<and>
     drop cells (gsw_heap_down v cells root) = drop cells v"
  using assms
proof (induction v cells root rule: gsw_heap_down.induct)
  case (1 v cells root)
  define c where "c = heap_child v cells root"
  show ?case
  proof (cases "c = root")
    case True
    then show ?thesis by (simp add: gsw_heap_down.simps [of v] flip: c_def)
  next
    case False
    then have c: "c < cells" using heap_child_cases [of v cells root] by (auto simp: c_def)
    have "gsw_heap_down v cells root = gsw_heap_down (swap_cells v root c) cells c"
      using False by (simp add: gsw_heap_down.simps [of v] flip: c_def)
    then show ?thesis using 1 False c by (simp add: drop_swap flip: c_def)
  qed
qed

lemma heap_down_length [simp]: "root < cells \<Longrightarrow> cells \<le> length v \<Longrightarrow> length (gsw_heap_down v cells root) = length v"
  using heap_down_keeps by blast

subsection \<open>The heap\<close>

definition heap_node :: "u32 list \<Rightarrow> nat \<Rightarrow> nat \<Rightarrow> bool" where
  "heap_node v n i \<longleftrightarrow> (2 * i + 1 < n \<longrightarrow> v ! (2 * i + 1) \<le> v ! i) \<and> (2 * i + 2 < n \<longrightarrow> v ! (2 * i + 2) \<le> v ! i)"

definition heap_except :: "u32 list \<Rightarrow> nat \<Rightarrow> nat \<Rightarrow> nat \<Rightarrow> bool" where
  "heap_except v n l r \<longleftrightarrow> (\<forall>i \<ge> l. i \<noteq> r \<longrightarrow> heap_node v n i) \<and>
     (\<forall>p \<ge> l. r = 2 * p + 1 \<or> r = 2 * p + 2 \<longrightarrow>
        (2 * r + 1 < n \<longrightarrow> v ! (2 * r + 1) \<le> v ! p) \<and> (2 * r + 2 < n \<longrightarrow> v ! (2 * r + 2) \<le> v ! p))"

lemma heap_child_greatest:
  fixes v :: "u32 list" and n r :: nat
  defines "c \<equiv> heap_child v n r"
  shows "2 * r + 1 < n \<Longrightarrow> v ! (2 * r + 1) \<le> v ! c" "2 * r + 2 < n \<Longrightarrow> v ! (2 * r + 2) \<le> v ! c" "v ! r \<le> v ! c"
  by (auto simp: c_def heap_child_def Let_def not_less mult.commute)

lemma heap_step:
  assumes h: "heap_except v n l r" and "l \<le> r" "n \<le> length v" "c = heap_child v n r" "c \<noteq> r"
  shows "heap_except (swap_cells v r c) n l c"
proof -
  have c: "c = 2 * r + 1 \<or> c = 2 * r + 2" "c < n" "r < n" using heap_child_cases [of v n r] assms by auto
  have w: "swap_cells v r c ! k = (if k = c then v ! r else if k = r then v ! c else v ! k)" for k
    using c assms(3) by (intro nth_swap) auto
  note g = heap_child_greatest [where v = v and n = n and r = r, folded assms(4)]
  have node: "heap_node v n i" if "l \<le> i" "i \<noteq> r" for i using h that by (auto simp: heap_except_def)
  have up: "v ! c \<le> v ! p" if "l \<le> p" "r = 2 * p + 1 \<or> r = 2 * p + 2" for p
    using h that c by (auto simp: heap_except_def)
  show ?thesis unfolding heap_except_def
  proof (intro conjI allI impI)
    fix i assume i: "l \<le> i" "i \<noteq> c"
    show "heap_node (swap_cells v r c) n i"
    proof (cases "i = r")
      case True
      then show ?thesis using g c by (auto simp: heap_node_def w)
    next
      case False
      then show ?thesis using node [OF i(1) False] up [OF i(1)] i c by (auto simp: heap_node_def w)
    qed
  next
    fix p assume p: "l \<le> p" "c = 2 * p + 1 \<or> c = 2 * p + 2"
    then have pr: "p = r" using c by auto
    have "heap_node v n c" using node c assms by auto
    then show "2 * c + 1 < n \<Longrightarrow> swap_cells v r c ! (2 * c + 1) \<le> swap_cells v r c ! p"
      "2 * c + 2 < n \<Longrightarrow> swap_cells v r c ! (2 * c + 2) \<le> swap_cells v r c ! p"
      using c pr by (auto simp: w heap_node_def)
  qed
qed

lemma heap_down_heap:
  assumes "heap_except v n l r" "l \<le> r" "n \<le> length v" "l \<le> i"
  shows "heap_node (gsw_heap_down v n r) n i"
  using assms
proof (induction v n r rule: gsw_heap_down.induct)
  case (1 v n r)
  define c where "c = heap_child v n r"
  show ?case
  proof (cases "c = r")
    case True
    have "heap_node v n i"
    proof (cases "i = r")
      case True
      then show ?thesis using heap_child_greatest [where v = v and n = n and r = r] \<open>c = r\<close> by (simp add: heap_node_def flip: c_def)
    qed (use 1 in \<open>simp add: heap_except_def\<close>)
    then show ?thesis using True by (simp add: gsw_heap_down.simps [of v] flip: c_def)
  next
    case False
    then have "r < c" using heap_child_cases [of v n r] by (auto simp: c_def)
    moreover have "heap_except (swap_cells v r c) n l c" using 1(2-4) c_def False by (rule heap_step)
    ultimately show ?thesis
      using 1 False by (simp add: gsw_heap_down.simps [of v] flip: c_def)
  qed
qed

lemma heap_built:
  assumes "n \<le> length v" "m \<le> n div 2"
  defines "w \<equiv> fold (\<lambda>index values. gsw_heap_down values n (index - 1)) (rev [m + 1..<n div 2 + 1]) (v :: u32 list)"
  shows "(\<forall>i \<ge> m. heap_node w n i) \<and> mset w = mset v \<and> length w = length v \<and> drop n w = drop n v"
  using assms(2) unfolding w_def
proof (induction rule: inc_induct)
  case base
  then show ?case by (auto simp: heap_node_def)
next
  case (step m)
  have "rev [m + 1..<n div 2 + 1] = rev [Suc m + 1..<n div 2 + 1] @ [m + 1]"
    using step by (simp add: upt_conv_Cons)
  moreover define u where "u = fold (\<lambda>index values. gsw_heap_down values n (index - 1)) (rev [Suc m + 1..<n div 2 + 1]) v"
  moreover have "heap_except u n m m" using step.IH by (auto simp: heap_except_def u_def)
  moreover have "m < n" "n \<le> length u" "length u = length v" using step assms by (auto simp: u_def)
  moreover have "mset u = mset v" "drop n u = drop n v" using step.IH by (simp_all add: u_def)
  ultimately show ?case using heap_down_heap [of u n m m] heap_down_keeps [of m n u] by simp
qed

lemma heap_root:
  assumes "\<And>i. heap_node v n i" "i < n"
  shows "v ! i \<le> v ! 0"
  using assms(2)
proof (induction i rule: less_induct)
  case (less i)
  show ?case
  proof (cases i)
    case (Suc k)
    have "i = 2 * (k div 2) + 1 \<or> i = 2 * (k div 2) + 2" using Suc by presburger
    then have "v ! i \<le> v ! (k div 2)" using assms(1) [of "k div 2"] less.prems by (auto simp: heap_node_def)
    also have "\<dots> \<le> v ! 0" using less Suc by auto
    finally show ?thesis .
  qed simp
qed

text \<open>What the second loop keeps: a heap of the smallest, and the greatest in order behind it.\<close>

definition heap_tail :: "u32 list \<Rightarrow> nat \<Rightarrow> bool" where
  "heap_tail v n \<longleftrightarrow> (\<forall>i. heap_node v n i) \<and> sorted (drop n v) \<and> (\<forall>x \<in> set (take n v). \<forall>y \<in> set (drop n v). x \<le> y)"

lemma heap_tail_step:
  assumes h: "heap_tail v (Suc n)" and n: "0 < n" "n < length v"
  defines "w \<equiv> gsw_heap_down (swap_cells v 0 n) n 0"
  shows "heap_tail w n \<and> mset w = mset v \<and> length w = length v"
proof -
  let ?s = "swap_cells v 0 n"
  have s: "?s ! k = (if k = n then v ! 0 else if k = 0 then v ! n else v ! k)" for k using n by (intro nth_swap) auto
  have m0: "mset ?s = mset v" using n by (intro mset_swap_cells) auto
  have k: "mset w = mset ?s" "length w = length ?s" "drop n w = drop n ?s"
    using heap_down_keeps [of 0 n ?s] n by (simp_all add: w_def)
  have "heap_except ?s n 0 0" unfolding heap_except_def
  proof (intro conjI allI impI)
    fix i :: nat assume "i \<noteq> 0"
    then show "heap_node ?s n i" using h by (auto simp: heap_tail_def heap_node_def s)
  qed auto
  then have hw: "heap_node w n i" for i unfolding w_def using n by (intro heap_down_heap [of _ _ 0]) auto
  have d: "drop n w = v ! 0 # drop (Suc n) v"
  proof -
    have "drop n ?s = ?s ! n # drop (Suc n) ?s" using n by (simp add: Cons_nth_drop_Suc)
    then show ?thesis using k(3) n by (simp add: s drop_swap)
  qed
  have root: "x \<le> v ! 0" if "x \<in> set (take (Suc n) v)" for x
    using heap_root [of v "Suc n"] h that n by (auto simp: heap_tail_def in_set_conv_nth)
  have "mset (take n w) + mset (drop n w) = mset (take (Suc n) v) + mset (drop (Suc n) v)"
    using k(1) m0 by (simp flip: mset_append)
  then have m: "mset (take n w) + {#v ! 0#} = mset (take (Suc n) v)" by (simp add: d)
  have t: "set (take n w) \<subseteq> set (take (Suc n) v)"
    using arg_cong [OF m, of set_mset] by auto
  have z: "v ! 0 \<in> set (take (Suc n) v)" using arg_cong [OF m, of set_mset] by auto
  have le: "x \<le> y" if "x \<in> set (take (Suc n) v)" "y \<in> set (drop (Suc n) v)" for x y
    using h that by (auto simp: heap_tail_def)
  have "heap_tail w n" unfolding heap_tail_def d
    using hw h t z le root by (auto simp: heap_tail_def)
  moreover have "mset w = mset v" using k(1) m0 by simp
  ultimately show ?thesis using k by simp
qed

lemma heap_tail_all:
  assumes "n \<le> m" "1 \<le> n" "heap_tail v m" "m \<le> length v"
  defines "w \<equiv> fold (\<lambda>index values. gsw_heap_down (swap_cells values 0 index) index 0) (rev [n..<m]) v"
  shows "heap_tail w n \<and> mset w = mset v \<and> length w = length v"
  using assms(1) \<open>1 \<le> n\<close> unfolding w_def
proof (induction rule: inc_induct)
  case base
  then show ?case using assms by simp
next
  case (step n)
  have "rev [n..<m] = rev [Suc n..<m] @ [n]" using step by (simp add: upt_conv_Cons)
  moreover define u where "u = fold (\<lambda>index values. gsw_heap_down (swap_cells values 0 index) index 0) (rev [Suc n..<m]) v"
  ultimately show ?case using step assms heap_tail_step [of u n] by simp
qed

lemma heap_sort: "mset (gsw_sort values (length values)) = mset values \<and> sorted (gsw_sort values (length values))"
proof (cases "length values < 2")
  case True
  then show ?thesis by (cases "values") (auto simp: gsw_sort_def)
next
  case False
  let ?n = "length values"
  define u where "u = fold (\<lambda>index values. gsw_heap_down values ?n (index - 1)) (rev [1..<?n div 2 + 1]) values"
  define w where "w = fold (\<lambda>index values. gsw_heap_down (swap_cells values 0 index) index 0) (rev [1..<?n]) u"
  have u: "heap_tail u ?n" "mset u = mset values" "length u = ?n"
    using heap_built [of ?n "values" 0] by (auto simp: heap_tail_def u_def)
  then have w: "heap_tail w 1" "mset w = mset values" "length w = ?n"
    using heap_tail_all [of 1 ?n u] False by (auto simp: w_def)
  obtain x r where "w = x # r" using w(3) False by (cases w) auto
  then have "sorted w" using w(1) by (auto simp: heap_tail_def)
  then show ?thesis using w False by (simp add: gsw_sort_def Let_def w_def u_def)
qed

text \<open>
  The heap sort of the samples is the sort: whatever the samples are, the array afterwards is the
  ascending permutation of them.
\<close>

theorem probe_sort_exact: "gsw_sort values (length values) = sort values"
  using heap_sort by (metis properties_for_sort)

end
