(* ===== verification/Probe_Benchmark.thy ===== *)
theory Probe_Benchmark
  imports Probe_Runtime Probe_Sort
begin

text \<open>
  The measurement of the graphics diagnostic
  (\<^verbatim>\<open>guest-tools/gsw-graphics-probe/benchmark.c\<close>): the percentiles, the figures of a row
  and the two timed loops. The loops have no bound in the source: they are partial functions with
  \<open>None\<close> for not returning.
\<close>

section \<open>The figures of a row\<close>

datatype GSW_STATUS = GSW_STATUS_PASS | GSW_STATUS_WARN | GSW_STATUS_UNAVAILABLE | GSW_STATUS_FAIL

record GSW_METRICS =
  mt_frames :: u32
  mt_duration_ms :: u32
  mt_avg_fps_milli :: u32
  mt_p50_us :: u32
  mt_p95_us :: u32
  mt_max_us :: u32
  mt_slow_frames :: u32
  mt_crc32 :: u32
  mt_sample_cap :: bool
  mt_status :: GSW_STATUS

definition metrics_zero :: GSW_METRICS where
  "metrics_zero = \<lparr>mt_frames = 0, mt_duration_ms = 0, mt_avg_fps_milli = 0, mt_p50_us = 0, mt_p95_us = 0, mt_max_us = 0,
     mt_slow_frames = 0, mt_crc32 = 0, mt_sample_cap = False, mt_status = GSW_STATUS_PASS\<rparr>"

definition gsw_rank :: "u32 list \<Rightarrow> u32 \<Rightarrow> u32 \<Rightarrow> u32 \<Rightarrow> u32" where
  "gsw_rank values cells numerator denominator =
     (if cells = 0 then 0
      else
        (let rank = (cells * numerator + denominator - 1) div denominator;
             rank = (if rank = 0 then 1 else rank)
         in values ! unat (rank - 1)))"

text \<open>The frame rate in frames per 1000 seconds, and the number of samples above the threshold.\<close>

definition gsw_average :: "u32 \<Rightarrow> u32 \<Rightarrow> u32" where
  "gsw_average frames duration =
     (if duration \<noteq> 0 then ucast ((ucast frames * 1000000 :: u64) div ucast duration) else 0)"

definition gsw_slow :: "u32 list \<Rightarrow> u32 \<Rightarrow> u32 \<Rightarrow> u32" where
  "gsw_slow samples threshold slow = foldl (\<lambda>slow x. if x > threshold then slow + 1 else slow) slow samples"

text \<open>
  The end of the benchmark, from the duration on. \<open>cells\<close> is the number of samples; the duration is
  \<open>duration\<close>, the last checksum \<open>crc\<close>.
\<close>

definition gsw_statistics :: "u32 list \<Rightarrow> u32 \<Rightarrow> u32 \<Rightarrow> GSW_METRICS \<Rightarrow> GSW_METRICS" where
  "gsw_statistics samples duration crc metrics =
     (let cells = of_nat (length samples) :: u32;
          average = gsw_average (mt_frames metrics) duration;
          samples = gsw_sort samples (length samples);
          p50 = gsw_rank samples cells 50 100;
          p95 = gsw_rank samples cells 95 100;
          threshold = (if p50 > 16666 then p50 * 2 else 33333);
          slow = gsw_slow samples threshold (mt_slow_frames metrics);
          warn = (average < 20000 \<or>
            (cells \<ge> 60 \<and> (p95 > p50 * 2 \<or> slow > (if cells div 100 > 3 then cells div 100 else 3))))
      in metrics\<lparr>mt_duration_ms := duration, mt_avg_fps_milli := average, mt_p50_us := p50, mt_p95_us := p95,
           mt_max_us := samples ! unat (cells - 1), mt_slow_frames := slow, mt_crc32 := crc,
           mt_status := (if warn then GSW_STATUS_WARN else GSW_STATUS_PASS)\<rparr>)"

text \<open>The nearest rank of a percentile, without sorting: at least that share of the samples is not
  above the value, and less than that share is below it.\<close>

definition nearest_rank_of :: "nat \<Rightarrow> u32 list \<Rightarrow> u32 \<Rightarrow> bool" where
  "nearest_rank_of p samples v \<longleftrightarrow> v \<in> set samples \<and>
     p * length samples \<le> 100 * length (filter (\<lambda>x. x \<le> v) samples) \<and>
     100 * length (filter (\<lambda>x. x < v) samples) < p * length samples"

lemma sorted_count:
  assumes "sorted xs" "i < length xs"
  shows "i < length (filter (\<lambda>x. x \<le> xs ! i) xs)" "length (filter (\<lambda>x. x < xs ! i) xs) \<le> i"
proof -
  have "{..i} \<subseteq> {j. j < length xs \<and> xs ! j \<le> xs ! i}" using assms by (auto intro: sorted_nth_mono)
  then have "card {..i} \<le> card {j. j < length xs \<and> xs ! j \<le> xs ! i}" by (intro card_mono) auto
  then show "i < length (filter (\<lambda>x. x \<le> xs ! i) xs)" by (simp add: length_filter_conv_card Suc_le_eq)
  have "{j. j < length xs \<and> xs ! j < xs ! i} \<subseteq> {..<i}"
    using assms sorted_nth_mono [of xs i] by (auto simp: not_less [symmetric])
  then have "card {j. j < length xs \<and> xs ! j < xs ! i} \<le> card {..<i}" by (intro card_mono) auto
  then show "length (filter (\<lambda>x. x < xs ! i) xs) \<le> i" by (simp add: length_filter_conv_card)
qed

lemma rank_arith:
  fixes m n :: nat
  assumes "1 \<le> m" "m \<le> n * 100"
  shows "(m + 99) div 100 - 1 < n" "m \<le> 100 * Suc ((m + 99) div 100 - 1)" "100 * ((m + 99) div 100 - 1) < m"
proof -
  define q r where "q = (m + 99) div 100" and "r = (m + 99) mod 100"
  have e: "m + 99 = 100 * q + r" "r < 100" unfolding q_def r_def by simp_all
  then have "1 \<le> q" "q \<le> n" using assms by linarith+
  then show "(m + 99) div 100 - 1 < n" "m \<le> 100 * Suc ((m + 99) div 100 - 1)" "100 * ((m + 99) div 100 - 1) < m"
    unfolding q_def [symmetric] using e assms by (cases q; simp)+
qed

lemma rank_index:
  assumes "0 < n" "n \<le> 65536" "1 \<le> p" "p \<le> 100"
  defines "r \<equiv> (of_nat n * of_nat p + 100 - 1) div 100 :: u32"
  shows "r \<noteq> 0" "unat (r - 1) < n" "p * n \<le> 100 * Suc (unat (r - 1))" "100 * unat (r - 1) < p * n"
proof -
  have b: "n * p \<le> 65536 * 100" using assms by (intro mult_mono) auto
  have q: "1 \<le> n * p" "n * p \<le> n * 100" using assms by simp_all
  have "unat (of_nat n * of_nat p + 100 - 1 :: u32) = n * p + 99"
  proof -
    have "of_nat n * of_nat p + 100 - 1 = (of_nat (n * p + 99) :: u32)" by simp
    then show ?thesis using b by (simp only: unat_of_nat) simp
  qed
  then have r: "unat r = (n * p + 99) div 100" by (simp add: r_def unat_div)
  then have "1 \<le> unat r" using q by (simp add: div_greater_zero_iff Suc_leI)
  then show nz: "r \<noteq> 0" by auto
  then have u: "unat (r - 1) = unat r - 1" by (simp add: unat_minus_one)
  show "unat (r - 1) < n" "p * n \<le> 100 * Suc (unat (r - 1))" "100 * unat (r - 1) < p * n"
    using rank_arith [of "n * p" n] q r unfolding u by (simp_all only: mult.commute [of p n])
qed

lemma sort_filter: "length (filter P (sort xs)) = length (filter P xs)"
  using mset_filter [of P xs] mset_filter [of P "sort xs"] by (metis mset_sort size_mset)

lemma rank_nearest:
  assumes "samples \<noteq> []" "length samples \<le> 65536" "1 \<le> p" "p \<le> 100"
  shows "nearest_rank_of p samples (gsw_rank (sort samples) (of_nat (length samples)) (of_nat p) 100)"
proof -
  let ?n = "length samples" and ?s = "sort samples"
  define r where "r = (of_nat ?n * of_nat p + 100 - 1) div 100 - (1 :: u32)"
  note ri = rank_index [of ?n p] assms
  have z: "of_nat ?n \<noteq> (0 :: u32)"
  proof
    assume "of_nat ?n = (0 :: u32)"
    then have "unat (of_nat ?n :: u32) = 0" by simp
    then show False using assms by (simp add: unat_of_nat)
  qed
  have v: "gsw_rank ?s (of_nat ?n) (of_nat p) 100 = ?s ! unat r"
    using ri z by (simp add: gsw_rank_def r_def Let_def)
  have r: "unat r < ?n" "p * ?n \<le> 100 * Suc (unat r)" "100 * unat r < p * ?n" using ri by (simp_all add: r_def)
  have c: "unat r < length (filter (\<lambda>x. x \<le> ?s ! unat r) samples)" "length (filter (\<lambda>x. x < ?s ! unat r) samples) \<le> unat r"
    using sorted_count [of ?s "unat r"] r by (simp_all add: sort_filter)
  have "?s ! unat r \<in> set samples" using r nth_mem [of "unat r" ?s] by simp
  then show ?thesis using r c unfolding v nearest_rank_of_def by auto
qed

lemma sort_eq_Nil: "sort xs = [] \<longleftrightarrow> xs = []"
  by (metis length_0_conv length_sort)

lemma slow_count: "gsw_slow xs t n = n + of_nat (length (filter (\<lambda>x. x > t) xs))"
  by (induction xs arbitrary: n) (auto simp: gsw_slow_def)

lemma sorted_last_Max: "sorted xs \<Longrightarrow> xs \<noteq> [] \<Longrightarrow> xs ! (length xs - 1) = Max (set xs)"
proof -
  assume "sorted xs" "xs \<noteq> []"
  then have "x \<le> xs ! (length xs - 1)" if "x \<in> set xs" for x
    using that by (auto simp: in_set_conv_nth intro!: sorted_nth_mono)
  then show ?thesis using \<open>xs \<noteq> []\<close> by (intro Max_eqI [symmetric]) auto
qed

text \<open>
  C35. The figures of a measured row are those of its samples: the percentiles are the nearest-rank
  percentiles, the maximum is the largest sample, and the slow frames are counted against twice the
  median or 33 ms, whichever applies.
\<close>

theorem probe_percentiles_exact:
  fixes samples :: "u32 list" and duration crc frames :: u32
  assumes "samples \<noteq> []" "length samples \<le> 65536"
  defines "m \<equiv> gsw_statistics samples duration crc (metrics_zero\<lparr>mt_frames := frames\<rparr>)"
  shows "nearest_rank_of 50 samples (mt_p50_us m) \<and> nearest_rank_of 95 samples (mt_p95_us m) \<and>
    mt_max_us m = Max (set samples) \<and>
    unat (mt_slow_frames m) = length (filter (\<lambda>x. x > (if mt_p50_us m > 16666 then mt_p50_us m * 2 else 33333)) samples)"
proof (intro conjI)
  have e: "gsw_sort samples (length samples) = sort samples" using heap_sort by (metis properties_for_sort)
  show "nearest_rank_of 50 samples (mt_p50_us m)" "nearest_rank_of 95 samples (mt_p95_us m)"
    using rank_nearest [of samples 50] rank_nearest [of samples 95] assms
    by (simp_all add: m_def gsw_statistics_def Let_def e)
  have u: "unat (of_nat (length samples) - 1 :: u32) = length samples - 1"
    using assms by (cases samples) (simp_all add: unat_of_nat)
  show "mt_max_us m = Max (set samples)"
    using sorted_last_Max [of "sort samples"] assms(1)
    by (simp add: sort_eq_Nil m_def gsw_statistics_def Let_def e u)
  have "length (filter P samples) < 2 ^ 32" for P using le_trans [OF length_filter_le assms(2), of P] by simp
  then show "unat (mt_slow_frames m) = length (filter (\<lambda>x. x > (if mt_p50_us m > 16666 then mt_p50_us m * 2 else 33333)) samples)"
    by (simp add: m_def gsw_statistics_def Let_def e metrics_zero_def slow_count sort_filter unat_of_nat)
qed

lemma probe_percentiles_exact_witness:
  "nearest_rank_of 50 [20000, 100, 70000] (mt_p50_us (gsw_statistics [20000, 100, 70000] 3000 7 (metrics_zero\<lparr>mt_frames := 3\<rparr>))) \<and>
   mt_max_us (gsw_statistics [20000, 100, 70000] 3000 7 (metrics_zero\<lparr>mt_frames := 3\<rparr>)) = Max {20000, 100, 70000}"
  using probe_percentiles_exact [of "[20000, 100, 70000]" 3000 7 3] by simp

section \<open>The timed loops\<close>

definition GSW_SAMPLE_CAP :: nat where "GSW_SAMPLE_CAP = 65536"
definition GSW_WARMUP_MS :: u32 where "GSW_WARMUP_MS = 500"
definition GSW_MEASURE_MS :: u32 where "GSW_MEASURE_MS = 3000"

text \<open>
  A frame function draws the frame of the index it is given and may store a checksum; it succeeds or
  fails. Its context is part of the state.
\<close>

type_synonym 's frame_function = "u32 \<Rightarrow> u32 \<Rightarrow> 's \<Rightarrow> (bool \<times> u32) \<times> 's"

text \<open>The local variables of the benchmark, with the timer of the session.\<close>

record bench =
  bn_timer :: GSW_TIMER
  bn_index :: u32
  bn_crc :: u32
  bn_samples :: "u32 list"
  bn_metrics :: GSW_METRICS
  bn_end :: u64

definition bench_now :: "'s probe_env \<Rightarrow> bench \<Rightarrow> 's \<Rightarrow> u64 \<times> bench \<times> 's" where
  "bench_now e b s = (let (now, timer, s) = gsw_timer_now e (bn_timer b) s in (now, b\<lparr>bn_timer := timer\<rparr>, s))"

definition bench_frame :: "'s frame_function \<Rightarrow> bench \<Rightarrow> 's \<Rightarrow> bool \<times> bench \<times> 's" where
  "bench_frame frame b s =
     (let ((successful, crc), s) = frame (bn_index b) (bn_crc b) s
      in (successful, b\<lparr>bn_index := bn_index b + 1, bn_crc := crc\<rparr>, s))"

definition bench_sample :: "u64 \<Rightarrow> u64 \<Rightarrow> bench \<Rightarrow> bench" where
  "bench_sample started ended b =
     (let b = (if length (bn_samples b) < GSW_SAMPLE_CAP
               then b\<lparr>bn_samples := bn_samples b @ [gsw_timer_us (bn_timer b) (ended - started)]\<rparr>
               else b\<lparr>bn_metrics := (bn_metrics b)\<lparr>mt_sample_cap := True\<rparr>\<rparr>)
      in b\<lparr>bn_metrics := (bn_metrics b)\<lparr>mt_frames := mt_frames (bn_metrics b) + 1\<rparr>, bn_end := ended\<rparr>)"

partial_function (option) gsw_warmup ::
    "'s probe_env \<Rightarrow> 's frame_function \<Rightarrow> u64 \<Rightarrow> bench \<Rightarrow> 's \<Rightarrow> (bool \<times> bench \<times> 's) option" where
  "gsw_warmup e frame phase_start b s =
     (let (now, b, s) = bench_now e b s in
      if gsw_timer_ms (bn_timer b) (now - phase_start) < GSW_WARMUP_MS
      then
        (let (successful, b, s) = bench_frame frame b s in
         if successful then gsw_warmup e frame phase_start b (gsw_window_pump e s) else Some (False, b, s))
      else Some (True, b, s))"

partial_function (option) gsw_measure ::
    "'s probe_env \<Rightarrow> 's frame_function \<Rightarrow> u64 \<Rightarrow> bench \<Rightarrow> 's \<Rightarrow> (bool \<times> bench \<times> 's) option" where
  "gsw_measure e frame measured_start b s =
     (if gsw_timer_ms (bn_timer b) (bn_end b - measured_start) < GSW_MEASURE_MS
      then
        (let (started, b, s) = bench_now e b s;
             (successful, b, s) = bench_frame frame b s
         in if \<not> successful then Some (False, b, s)
            else
              (let (ended, b, s) = bench_now e b s
               in gsw_measure e frame measured_start (bench_sample started ended b) (gsw_window_pump e s)))
      else Some (True, b, s))"

definition bench_fail :: "'s probe_env \<Rightarrow> bench \<Rightarrow> 's \<Rightarrow> (bool \<times> GSW_METRICS \<times> GSW_TIMER \<times> 's) option" where
  "bench_fail e b s = Some (False, (bn_metrics b)\<lparr>mt_status := GSW_STATUS_FAIL\<rparr>, bn_timer b, HeapFree_bytes e s)"

text \<open>The callers pass a session, a frame function and metrics.\<close>

definition gsw_benchmark ::
    "'s probe_env \<Rightarrow> 's frame_function \<Rightarrow> GSW_TIMER \<Rightarrow> 's \<Rightarrow> (bool \<times> GSW_METRICS \<times> GSW_TIMER \<times> 's) option" where
  "gsw_benchmark e frame timer s =
     (let (allocated, s) = HeapAlloc_bytes e (of_nat GSW_SAMPLE_CAP * 4) s in
      if \<not> allocated then Some (False, metrics_zero, timer, s)
      else
        (let b = \<lparr>bn_timer = timer, bn_index = 0, bn_crc = 0, bn_samples = [], bn_metrics = metrics_zero, bn_end = 0\<rparr>;
             (phase_start, b, s) = bench_now e b s
         in case gsw_warmup e frame phase_start b s of
              None \<Rightarrow> None
            | Some (warm, b, s) \<Rightarrow>
                if \<not> warm then bench_fail e b s
                else
                  (let (measured_start, b, s) = bench_now e b s in
                   case gsw_measure e frame measured_start (b\<lparr>bn_end := measured_start\<rparr>) s of
                     None \<Rightarrow> None
                   | Some (measured, b, s) \<Rightarrow>
                       if \<not> measured \<or> tm_failed (bn_timer b) \<or> mt_frames (bn_metrics b) = 0 \<or> bn_samples b = []
                       then bench_fail e b s
                       else Some (True,
                         gsw_statistics (bn_samples b) (gsw_timer_ms (bn_timer b) (bn_end b - measured_start))
                           (bn_crc b) (bn_metrics b),
                         bn_timer b, HeapFree_bytes e s))))"

subsection \<open>A failed timer\<close>

lemma failed_now: "tm_failed (bn_timer b) \<Longrightarrow> bench_now e b s = (tm_last (bn_timer b), b, s)"
  by (simp add: bench_now_def gsw_timer_now_def)

text \<open>All frames are drawn.\<close>

definition draws :: "'s frame_function \<Rightarrow> bool" where
  "draws frame \<longleftrightarrow> (\<forall>index crc s. fst (fst (frame index crc s)))"

lemma draws_frame:
  "draws frame \<Longrightarrow> \<exists>crc s'. bench_frame frame b s = (True, b\<lparr>bn_index := bn_index b + 1, bn_crc := crc\<rparr>, s')"
  by (cases "frame (bn_index b) (bn_crc b) s") (auto simp: bench_frame_def draws_def split: prod.splits, metis fst_conv)

definition timer_stuck :: "'s frame_function \<Rightarrow> GSW_TIMER \<Rightarrow> u64 \<Rightarrow> u32 \<Rightarrow> bool" where
  "timer_stuck frame timer since limit \<longleftrightarrow> draws frame \<and> tm_failed timer \<and> gsw_timer_ms timer (tm_last timer - since) < limit"

lemma warmup_stuck_raw: "gsw_warmup e frame start b s = Some y \<Longrightarrow> \<not> timer_stuck frame (bn_timer b) start GSW_WARMUP_MS"
proof (rule gsw_warmup.raw_induct [where P = "\<lambda>e frame start b s y. \<not> timer_stuck frame (bn_timer b) start GSW_WARMUP_MS"])
  fix w :: "'a probe_env \<Rightarrow> 'a frame_function \<Rightarrow> u64 \<Rightarrow> bench \<Rightarrow> 'a \<Rightarrow> (bool \<times> bench \<times> 'a) option"
    and e :: "'a probe_env" and frame start b s y
  assume IH: "\<And>e frame start b s y. w e frame start b s = Some y \<Longrightarrow> \<not> timer_stuck frame (bn_timer b) start GSW_WARMUP_MS"
    and r: "(let (now, b, s) = bench_now e b s
         in if gsw_timer_ms (bn_timer b) (now - start) < GSW_WARMUP_MS
            then let (successful, b, s) = bench_frame frame b s
                 in if successful then w e frame start b (gsw_window_pump e s) else Some (False, b, s)
            else Some (True, b, s)) = Some y"
  show "\<not> timer_stuck frame (bn_timer b) start GSW_WARMUP_MS"
  proof
    assume f: "timer_stuck frame (bn_timer b) start GSW_WARMUP_MS"
    then obtain crc s' where fr: "bench_frame frame b s = (True, b\<lparr>bn_index := bn_index b + 1, bn_crc := crc\<rparr>, s')"
      using draws_frame [of frame b s] by (auto simp: timer_stuck_def)
    show False
      using IH [of e frame start "b\<lparr>bn_index := bn_index b + 1, bn_crc := crc\<rparr>" "gsw_window_pump e s'" y] r f fr
      by (simp add: failed_now timer_stuck_def)
  qed
qed

lemma measure_stuck_raw:
  "gsw_measure e frame start b s = Some y \<Longrightarrow>
   \<not> (timer_stuck frame (bn_timer b) start GSW_MEASURE_MS \<and> gsw_timer_ms (bn_timer b) (bn_end b - start) < GSW_MEASURE_MS)"
proof (rule gsw_measure.raw_induct [where P = "\<lambda>e frame start b s y.
    \<not> (timer_stuck frame (bn_timer b) start GSW_MEASURE_MS \<and> gsw_timer_ms (bn_timer b) (bn_end b - start) < GSW_MEASURE_MS)"])
  fix w :: "'a probe_env \<Rightarrow> 'a frame_function \<Rightarrow> u64 \<Rightarrow> bench \<Rightarrow> 'a \<Rightarrow> (bool \<times> bench \<times> 'a) option"
    and e :: "'a probe_env" and frame start b s y
  assume IH: "\<And>e frame start b s y. w e frame start b s = Some y \<Longrightarrow>
      \<not> (timer_stuck frame (bn_timer b) start GSW_MEASURE_MS \<and> gsw_timer_ms (bn_timer b) (bn_end b - start) < GSW_MEASURE_MS)"
    and r: "(if gsw_timer_ms (bn_timer b) (bn_end b - start) < GSW_MEASURE_MS
         then let (started, b, s) = bench_now e b s; (successful, b, s) = bench_frame frame b s
              in if \<not> successful then Some (False, b, s)
                 else let (ended, b, s) = bench_now e b s
                      in w e frame start (bench_sample started ended b) (gsw_window_pump e s)
         else Some (True, b, s)) = Some y"
  show "\<not> (timer_stuck frame (bn_timer b) start GSW_MEASURE_MS \<and> gsw_timer_ms (bn_timer b) (bn_end b - start) < GSW_MEASURE_MS)"
  proof
    assume f: "timer_stuck frame (bn_timer b) start GSW_MEASURE_MS \<and> gsw_timer_ms (bn_timer b) (bn_end b - start) < GSW_MEASURE_MS"
    then obtain crc s' where fr: "bench_frame frame b s = (True, b\<lparr>bn_index := bn_index b + 1, bn_crc := crc\<rparr>, s')"
      using draws_frame [of frame b s] by (auto simp: timer_stuck_def)
    let ?b = "b\<lparr>bn_index := bn_index b + 1, bn_crc := crc\<rparr>" and ?t = "tm_last (bn_timer b)"
    have "w e frame start (bench_sample ?t ?t ?b) (gsw_window_pump e s') = Some y"
      using r f fr by (simp add: failed_now timer_stuck_def)
    then have "\<not> (timer_stuck frame (bn_timer b) start GSW_MEASURE_MS \<and> gsw_timer_ms (bn_timer b) (?t - start) < GSW_MEASURE_MS)"
      using IH by (fastforce simp: bench_sample_def Let_def)
    then show False using f by (simp add: timer_stuck_def)
  qed
qed

text \<open>Once the timer has failed inside a loop before its time is over, the loop does not end.\<close>

lemma warmup_stuck: "timer_stuck frame (bn_timer b) start GSW_WARMUP_MS \<Longrightarrow> gsw_warmup e frame start b s = None"
  using warmup_stuck_raw [of e frame start b s] by (cases "gsw_warmup e frame start b s") auto

lemma measure_stuck:
  "timer_stuck frame (bn_timer b) start GSW_MEASURE_MS \<Longrightarrow> gsw_timer_ms (bn_timer b) (bn_end b - start) < GSW_MEASURE_MS \<Longrightarrow>
   gsw_measure e frame start b s = None"
  using measure_stuck_raw [of e frame start b s] by (cases "gsw_measure e frame start b s") auto

lemma timer_ms_zero [simp]: "gsw_timer_ms t 0 = 0"
  by (simp add: gsw_timer_ms_def)

lemma benchmark_stuck:
  assumes "tm_failed (fst (snd (gsw_timer_now e timer (snd (HeapAlloc_bytes e (of_nat GSW_SAMPLE_CAP * 4) s)))))"
    and "fst (HeapAlloc_bytes e (of_nat GSW_SAMPLE_CAP * 4) s)" "draws frame"
  shows "gsw_benchmark e frame timer s = None"
proof -
  obtain s1 where h: "HeapAlloc_bytes e (of_nat GSW_SAMPLE_CAP * 4) s = (True, s1)"
    using assms(2) by (cases "HeapAlloc_bytes e (of_nat GSW_SAMPLE_CAP * 4) s") auto
  obtain now t s2 where t: "gsw_timer_now e timer s1 = (now, t, s2)" by (cases "gsw_timer_now e timer s1") auto
  then have f: "tm_failed t" "now = tm_last t"
    using assms(1) h by (auto simp: gsw_timer_now_def Let_def split: if_splits prod.splits option.splits)
  define b where "b = \<lparr>bn_timer = t, bn_index = 0, bn_crc = 0, bn_samples = [], bn_metrics = metrics_zero, bn_end = 0\<rparr>"
  have "timer_stuck frame (bn_timer b) now GSW_WARMUP_MS" using f assms(3) by (simp add: timer_stuck_def b_def GSW_WARMUP_MS_def)
  then have "gsw_warmup e frame now b s2 = None" by (rule warmup_stuck)
  then show ?thesis
    by (simp add: gsw_benchmark_def h bench_now_def t b_def)
qed

subsection \<open>A running clock\<close>

text \<open>
  The performance counter shows the ghost value \<open>clk\<close> of the state. Each reading advances it, and
  no step takes longer than a second, which is \<open>f\<close> ticks.
\<close>

definition within :: "('s \<Rightarrow> nat) \<Rightarrow> nat \<Rightarrow> 's \<Rightarrow> 's \<Rightarrow> bool" where
  "within clk f s s' \<longleftrightarrow> clk s \<le> clk s' \<and> clk s' \<le> clk s + f"

definition running_clock :: "'s probe_env \<Rightarrow> 's frame_function \<Rightarrow> ('s \<Rightarrow> nat) \<Rightarrow> nat \<Rightarrow> bool" where
  "running_clock e frame clk f \<longleftrightarrow>
     (\<forall>s. fst (QueryPerformanceCounter e s) = Some (of_nat (clk s)) \<and>
        within clk f s (snd (QueryPerformanceCounter e s)) \<and> clk s < clk (snd (QueryPerformanceCounter e s))) \<and>
     (\<forall>i c s. within clk f s (snd (frame i c s))) \<and> (\<forall>s. within clk f s (gsw_window_pump e s))"

definition live :: "('s \<Rightarrow> nat) \<Rightarrow> nat \<Rightarrow> GSW_TIMER \<Rightarrow> 's \<Rightarrow> bool" where
  "live clk f t s \<longleftrightarrow> tm_qpc t \<and> \<not> tm_failed t \<and> tm_frequency t = of_nat f \<and> unat (tm_last t) \<le> clk s"

lemma u64_small: "n < 2 ^ 63 \<Longrightarrow> unat (of_nat n :: u64) = n \<and> \<not> sint (of_nat n :: u64) < 0"
proof
  assume n: "n < 2 ^ 63"
  then show u: "unat (of_nat n :: u64) = n" by (simp add: unat_of_nat)
  have "uint (of_nat n :: u64) = int n" using u by (metis uint_nat)
  then have "sint (of_nat n :: u64) = int n" using n by (simp add: sint_uint signed_take_bit_int_eq_self)
  then show "\<not> sint (of_nat n :: u64) < 0" by simp
qed

lemma now_live:
  assumes c: "running_clock e frame clk f" and l: "live clk f (bn_timer b) s" "clk s < 2 ^ 63"
  shows "\<exists>s'. bench_now e b s = (of_nat (clk s), b\<lparr>bn_timer := (bn_timer b)\<lparr>tm_last := of_nat (clk s)\<rparr>\<rparr>, s') \<and>
     live clk f ((bn_timer b)\<lparr>tm_last := of_nat (clk s)\<rparr>) s' \<and> within clk f s s' \<and> clk s < clk s'"
proof -
  obtain s' where q: "QueryPerformanceCounter e s = (Some (of_nat (clk s)), s')"
    using c unfolding running_clock_def by (metis prod.collapse)
  then have w: "within clk f s s'" "clk s < clk s'" using c unfolding running_clock_def by (metis snd_conv)+
  have "\<not> of_nat (clk s) < tm_last (bn_timer b)"
    using l u64_small [OF l(2)] by (simp add: live_def word_less_nat_alt not_less)
  then have "bench_now e b s = (of_nat (clk s), b\<lparr>bn_timer := (bn_timer b)\<lparr>tm_last := of_nat (clk s)\<rparr>\<rparr>, s')"
    using l u64_small [OF l(2)] q by (simp add: bench_now_def gsw_timer_now_def live_def)
  moreover have "live clk f ((bn_timer b)\<lparr>tm_last := of_nat (clk s)\<rparr>) s'"
    using l w u64_small [OF l(2)] by (simp add: live_def)
  ultimately show ?thesis using w by blast
qed

lemma frame_live:
  assumes "running_clock e frame clk f" "draws frame" "live clk f (bn_timer b) s"
  shows "\<exists>crc s'. bench_frame frame b s = (True, b\<lparr>bn_index := bn_index b + 1, bn_crc := crc\<rparr>, s') \<and>
     live clk f (bn_timer b) s' \<and> within clk f s s'"
proof -
  obtain crc s' where fr: "frame (bn_index b) (bn_crc b) s = ((True, crc), s')"
    using assms(2) unfolding draws_def by (metis prod.collapse)
  then have "within clk f s s'" using assms(1) unfolding running_clock_def by (metis snd_conv)
  then show ?thesis using assms(3) fr by (auto simp: bench_frame_def live_def within_def)
qed

lemma pump_live:
  "running_clock e frame clk f \<Longrightarrow> live clk f t s \<Longrightarrow>
   live clk f t (gsw_window_pump e s) \<and> within clk f s (gsw_window_pump e s)"
  by (auto simp: running_clock_def live_def within_def intro: order_trans)

text \<open>Milliseconds of a short time.\<close>

lemma timer_ms_short:
  assumes "tm_frequency t = of_nat f" "0 < f" "f < 2 ^ 30" "d \<le> 8 * f"
  shows "unat (gsw_timer_ms t (of_nat d)) = d * 1000 div f"
proof -
  have u: "unat (of_nat f :: u64) = f" "unat (of_nat d :: u64) = d" using assms by (simp_all add: unat_of_nat)
  have q: "d div f \<le> 8" using div_le_mono [OF assms(4), of f] assms(2) by simp
  have m: "d mod f < f" using assms by simp
  have r: "(d mod f) * 1000 div f \<le> 1000" using div_le_mono [of "(d mod f) * 1000" "1000 * f" f] m assms(2) by simp
  have e: "d * 1000 div f = (d div f) * 1000 + (d mod f) * 1000 div f"
  proof -
    have "d * 1000 = (d mod f) * 1000 + ((d div f) * 1000) * f"
      by (metis add.commute add_mult_distrib div_mult_mod_eq mult.assoc mult.commute)
    then show ?thesis using assms by simp
  qed
  have a: "unat ((of_nat d :: u64) div of_nat f) = d div f" "unat ((of_nat d :: u64) mod of_nat f) = d mod f"
    by (simp_all add: unat_div unat_mod u)
  have b: "unat ((of_nat d :: u64) div of_nat f * 1000) = d div f * 1000"
    using q by (simp only: unat_word_ariths(2) a) simp
  have "d mod f * 1000 < 2 ^ 64" using m assms(3) by simp
  then have b': "unat ((of_nat d :: u64) mod of_nat f * 1000) = d mod f * 1000"
    by (simp only: unat_word_ariths(2) a) simp
  have "unat ((of_nat d :: u64) div of_nat f * 1000 + (of_nat d mod of_nat f * 1000) div of_nat f) = d * 1000 div f"
    using q r by (simp only: unat_word_ariths(1) b b' unat_div u) (simp add: e)
  moreover have "d * 1000 div f < 2 ^ 32" using e q r by simp
  moreover have "(of_nat f :: u64) \<noteq> 0" using u assms by auto
  ultimately show ?thesis using assms by (simp add: gsw_timer_ms_def unsigned_ucast_eq take_bit_eq_mod)
qed

lemma timer_ms_less:
  assumes "tm_frequency t = of_nat f" "0 < f" "f < 2 ^ 30" "a \<le> c" "c \<le> a + 8 * f" "n \<le> 8000"
  shows "gsw_timer_ms t (of_nat c - of_nat a) < of_nat n \<longleftrightarrow> (c - a) * 1000 < n * f"
proof -
  have "of_nat c - of_nat a = (of_nat (c - a) :: u64)" using assms by simp
  moreover have "unat (gsw_timer_ms t (of_nat (c - a))) = (c - a) * 1000 div f" using assms by (intro timer_ms_short) auto
  ultimately show ?thesis using assms by (simp add: word_less_nat_alt unat_of_nat div_less_iff_less_mult)
qed

text \<open>Both loops end, on time, without a failure of the timer.\<close>

lemma warmup_returns:
  assumes c: "running_clock e frame clk f" "draws frame" "0 < f" "f < 2 ^ 30"
  shows "live clk f (bn_timer b) s \<Longrightarrow> start \<le> clk s \<Longrightarrow> clk s \<le> start + 4 * f \<Longrightarrow> start < 2 ^ 62 \<Longrightarrow>
    \<exists>b' s'. gsw_warmup e frame (of_nat start) b s = Some (True, b', s') \<and> live clk f (bn_timer b') s' \<and>
      bn_samples b' = bn_samples b \<and> bn_metrics b' = bn_metrics b \<and> clk s' \<le> start + 5 * f"
proof (induction "start + f - clk s" arbitrary: b s rule: less_induct)
  case less
  have big: "clk s < 2 ^ 63" using less.prems c(4) by simp
  obtain s1 where n: "bench_now e b s = (of_nat (clk s), b\<lparr>bn_timer := (bn_timer b)\<lparr>tm_last := of_nat (clk s)\<rparr>\<rparr>, s1)"
    "live clk f ((bn_timer b)\<lparr>tm_last := of_nat (clk s)\<rparr>) s1" "within clk f s s1" "clk s < clk s1"
    using now_live [OF c(1) less.prems(1) big] by blast
  define b1 where "b1 = b\<lparr>bn_timer := (bn_timer b)\<lparr>tm_last := of_nat (clk s)\<rparr>\<rparr>"
  have l1: "live clk f (bn_timer b1) s1" using n(2) by (simp add: b1_def)
  have t: "gsw_timer_ms (bn_timer b1) (of_nat (clk s) - of_nat start) < of_nat 500 \<longleftrightarrow> (clk s - start) * 1000 < 500 * f"
    using l1 less.prems c by (intro timer_ms_less) (auto simp: live_def)
  show ?case
  proof (cases "(clk s - start) * 1000 < 500 * f")
    case False
    then have "gsw_warmup e frame (of_nat start) b s = Some (True, b1, s1)"
      using t by (subst gsw_warmup.simps) (simp add: n(1) b1_def GSW_WARMUP_MS_def)
    then show ?thesis using l1 n less.prems by (auto simp: b1_def within_def)
  next
    case True
    obtain crc s2 where fr: "bench_frame frame b1 s1 = (True, b1\<lparr>bn_index := bn_index b1 + 1, bn_crc := crc\<rparr>, s2)"
      "live clk f (bn_timer b1) s2" "within clk f s1 s2"
      using frame_live [OF c(1,2) l1] by blast
    define b2 where "b2 = b1\<lparr>bn_index := bn_index b1 + 1, bn_crc := crc\<rparr>"
    define s3 where "s3 = gsw_window_pump e s2"
    have p: "live clk f (bn_timer b2) s3" "within clk f s2 s3"
      using pump_live [OF c(1) fr(2)] by (simp_all add: b2_def s3_def)
    have "gsw_warmup e frame (of_nat start) b s = gsw_warmup e frame (of_nat start) b2 s3"
      using t True fr by (subst gsw_warmup.simps) (simp add: n(1) b1_def [symmetric] b2_def s3_def GSW_WARMUP_MS_def)
    moreover have "clk s < start + f" using True by linarith
    then have "start + f - clk s3 < start + f - clk s" "clk s3 \<le> start + 4 * f" "start \<le> clk s3"
      using n(3,4) fr(3) p(2) less.prems by (auto simp: within_def)
    ultimately show ?thesis using less.hyps [of s3 b2] p(1) less.prems by (auto simp: b2_def b1_def)
  qed
qed

lemma measure_returns:
  assumes c: "running_clock e frame clk f" "draws frame" "0 < f" "f < 2 ^ 30"
  shows "live clk f (bn_timer b) s \<Longrightarrow> bn_end b = of_nat en \<Longrightarrow> start \<le> en \<Longrightarrow> en \<le> clk s \<Longrightarrow> clk s \<le> en + 2 * f \<Longrightarrow>
    en \<le> start + 7 * f \<Longrightarrow> start < 2 ^ 62 \<Longrightarrow> unat (mt_frames (bn_metrics b)) \<le> en - start \<Longrightarrow>
    (en = start \<or> mt_frames (bn_metrics b) \<noteq> 0 \<and> bn_samples b \<noteq> []) \<Longrightarrow>
    \<exists>b' s'. gsw_measure e frame (of_nat start) b s = Some (True, b', s') \<and> \<not> tm_failed (bn_timer b') \<and>
      mt_frames (bn_metrics b') \<noteq> 0 \<and> bn_samples b' \<noteq> []"
proof (induction "start + 3 * f - en" arbitrary: b s en rule: less_induct)
  case less
  have t: "gsw_timer_ms (bn_timer b) (bn_end b - of_nat start) < of_nat 3000 \<longleftrightarrow> (en - start) * 1000 < 3000 * f"
    unfolding less.prems(2) using less.prems c by (intro timer_ms_less) (auto simp: live_def)
  show ?case
  proof (cases "(en - start) * 1000 < 3000 * f")
    case False
    then have "gsw_measure e frame (of_nat start) b s = Some (True, b, s)"
      using t by (subst gsw_measure.simps) (simp add: GSW_MEASURE_MS_def)
    moreover have "en \<noteq> start" using False c(3) by auto
    ultimately show ?thesis using less.prems by (auto simp: live_def)
  next
    case True
    have big: "clk s < 2 ^ 63" using less.prems c(4) by simp
    obtain s1 where n: "bench_now e b s = (of_nat (clk s), b\<lparr>bn_timer := (bn_timer b)\<lparr>tm_last := of_nat (clk s)\<rparr>\<rparr>, s1)"
      "live clk f ((bn_timer b)\<lparr>tm_last := of_nat (clk s)\<rparr>) s1" "within clk f s s1" "clk s < clk s1"
      using now_live [OF c(1) less.prems(1) big] by blast
    define b1 where "b1 = b\<lparr>bn_timer := (bn_timer b)\<lparr>tm_last := of_nat (clk s)\<rparr>\<rparr>"
    have l1: "live clk f (bn_timer b1) s1" using n(2) by (simp add: b1_def)
    obtain crc s2 where fr: "bench_frame frame b1 s1 = (True, b1\<lparr>bn_index := bn_index b1 + 1, bn_crc := crc\<rparr>, s2)"
      "live clk f (bn_timer b1) s2" "within clk f s1 s2"
      using frame_live [OF c(1,2) l1] by blast
    define b2 where "b2 = b1\<lparr>bn_index := bn_index b1 + 1, bn_crc := crc\<rparr>"
    have l2: "live clk f (bn_timer b2) s2" using fr(2) by (simp add: b2_def)
    have e2: "clk s2 \<le> en + 4 * f" "en < clk s2" using n(3,4) fr(3) less.prems by (auto simp: within_def)
    have big2: "clk s2 < 2 ^ 63" using e2 less.prems c(4) by simp
    obtain s3 where m: "bench_now e b2 s2 = (of_nat (clk s2), b2\<lparr>bn_timer := (bn_timer b2)\<lparr>tm_last := of_nat (clk s2)\<rparr>\<rparr>, s3)"
      "live clk f ((bn_timer b2)\<lparr>tm_last := of_nat (clk s2)\<rparr>) s3" "within clk f s2 s3"
      using now_live [OF c(1) l2 big2] by blast
    define b3 where "b3 = b2\<lparr>bn_timer := (bn_timer b2)\<lparr>tm_last := of_nat (clk s2)\<rparr>\<rparr>"
    define b4 where "b4 = bench_sample (of_nat (clk s)) (of_nat (clk s2)) b3"
    define s4 where "s4 = gsw_window_pump e s3"
    have tb: "bn_timer b4 = bn_timer b3" by (simp add: b4_def bench_sample_def Let_def)
    have p: "live clk f (bn_timer b4) s4" "within clk f s3 s4"
      using pump_live [OF c(1) m(2)] unfolding tb by (simp_all add: b3_def s4_def)
    have "gsw_measure e frame (of_nat start) b s = gsw_measure e frame (of_nat start) b4 s4"
      using t True fr(1) m(1) n(1)
      by (subst gsw_measure.simps) (simp add: GSW_MEASURE_MS_def b4_def b3_def b2_def b1_def s4_def)
    moreover have en: "en < start + 3 * f" using True less.prems by linarith
    then have k: "start + 3 * f - clk s2 < start + 3 * f - en" "clk s2 \<le> clk s4" "clk s4 \<le> clk s2 + 2 * f" "clk s2 \<le> start + 7 * f"
      using e2 m(3) p(2) by (auto simp: within_def)
    have fc: "mt_frames (bn_metrics b4) = mt_frames (bn_metrics b) + 1" "bn_end b4 = of_nat (clk s2)" "bn_samples b4 \<noteq> []"
      by (auto simp: b4_def b3_def b2_def b1_def bench_sample_def Let_def GSW_SAMPLE_CAP_def)
    have "unat (mt_frames (bn_metrics b)) + 1 < 2 ^ 32" using less.prems c(4) en by simp
    then have "unat (mt_frames (bn_metrics b4)) = unat (mt_frames (bn_metrics b)) + 1" by (simp add: fc unat_word_ariths)
    then have "unat (mt_frames (bn_metrics b4)) \<le> clk s2 - start" "mt_frames (bn_metrics b4) \<noteq> 0"
      using e2 less.prems by auto
    ultimately show ?thesis using less.hyps [OF k(1) p(1) fc(2)] k fc(3) e2 less.prems by auto
  qed
qed

text \<open>
  C34. The benchmark returns, and succeeds, while the clock runs: when every reading of the counter
  advances it, no step takes more than a second, the memory for the samples is there and every
  frame is drawn, both loops end and the row has its figures. When the timer fails at the first reading
  instead, the benchmark never returns, since a failed timer shows the same time for ever and is
  only asked for its failure behind the loops.
\<close>

theorem probe_benchmark_returns:
  assumes "running_clock e frame clk f" "draws frame" "0 < f" "f < 2 ^ 30"
    and "\<And>s. fst (HeapAlloc_bytes e (of_nat GSW_SAMPLE_CAP * 4) s) \<and> within clk f s (snd (HeapAlloc_bytes e (of_nat GSW_SAMPLE_CAP * 4) s))"
    and "live clk f timer s" "clk s < 2 ^ 61"
  shows "(\<exists>m t s'. gsw_benchmark e frame timer s = Some (True, m, t, s')) \<and>
    gsw_benchmark e frame (timer\<lparr>tm_failed := True\<rparr>) s = None"
proof
  obtain s1 where h: "HeapAlloc_bytes e (of_nat GSW_SAMPLE_CAP * 4) s = (True, s1)" "within clk f s s1"
    using assms(5) by (metis prod.collapse)
  define b where "b = \<lparr>bn_timer = timer, bn_index = 0, bn_crc = 0, bn_samples = [], bn_metrics = metrics_zero, bn_end = 0\<rparr>"
  have l: "live clk f (bn_timer b) s1" "clk s1 < 2 ^ 62" "clk s1 < 2 ^ 63" using assms h(2) by (auto simp: b_def live_def within_def)
  obtain s2 where n: "bench_now e b s1 = (of_nat (clk s1), b\<lparr>bn_timer := (bn_timer b)\<lparr>tm_last := of_nat (clk s1)\<rparr>\<rparr>, s2)"
    "live clk f ((bn_timer b)\<lparr>tm_last := of_nat (clk s1)\<rparr>) s2" "within clk f s1 s2"
    using now_live [OF assms(1) l(1,3)] by blast
  define b1 where "b1 = b\<lparr>bn_timer := (bn_timer b)\<lparr>tm_last := of_nat (clk s1)\<rparr>\<rparr>"
  have "live clk f (bn_timer b1) s2" "clk s1 \<le> clk s2" "clk s2 \<le> clk s1 + 4 * f"
    using n(2,3) by (auto simp: b1_def within_def)
  then obtain b2 s3 where w: "gsw_warmup e frame (of_nat (clk s1)) b1 s2 = Some (True, b2, s3)" "live clk f (bn_timer b2) s3"
    "bn_metrics b2 = metrics_zero" "clk s3 \<le> clk s1 + 5 * f"
    using warmup_returns [OF assms(1-4), of b1 s2 "clk s1"] l(2) by (auto simp: b1_def b_def)
  have big: "clk s3 < 2 ^ 62" "clk s3 < 2 ^ 63" using w(4) assms h(2) by (auto simp: within_def)
  obtain s4 where k: "bench_now e b2 s3 = (of_nat (clk s3), b2\<lparr>bn_timer := (bn_timer b2)\<lparr>tm_last := of_nat (clk s3)\<rparr>\<rparr>, s4)"
    "live clk f ((bn_timer b2)\<lparr>tm_last := of_nat (clk s3)\<rparr>) s4" "within clk f s3 s4"
    using now_live [OF assms(1) w(2) big(2)] by blast
  define b3 where "b3 = b2\<lparr>bn_timer := (bn_timer b2)\<lparr>tm_last := of_nat (clk s3)\<rparr>\<rparr>\<lparr>bn_end := of_nat (clk s3)\<rparr>"
  have "live clk f (bn_timer b3) s4" "clk s3 \<le> clk s4" "clk s4 \<le> clk s3 + 2 * f" "bn_end b3 = of_nat (clk s3)" "mt_frames (bn_metrics b3) = 0"
    using k(2,3) w(3) by (auto simp: b3_def within_def metrics_zero_def)
  then obtain b4 s5 where m: "gsw_measure e frame (of_nat (clk s3)) b3 s4 = Some (True, b4, s5)" "\<not> tm_failed (bn_timer b4)"
    "mt_frames (bn_metrics b4) \<noteq> 0" "bn_samples b4 \<noteq> []"
    using measure_returns [OF assms(1-4), of b3 s4 "clk s3" "clk s3"] big by auto
  show "\<exists>m t s'. gsw_benchmark e frame timer s = Some (True, m, t, s')"
    using h(1) n(1) w(1) k(1) m
    by (simp add: gsw_benchmark_def b_def [symmetric] b1_def [symmetric] b3_def [symmetric])
  show "gsw_benchmark e frame (timer\<lparr>tm_failed := True\<rparr>) s = None"
    using assms(2,5) by (intro benchmark_stuck) (simp_all add: gsw_timer_now_def)
qed

text \<open>A machine whose counter shows the number of readings so far.\<close>

definition counting_env :: "nat probe_env" where
  "counting_env = \<lparr>GetTickCount = (\<lambda>s. (0, s)), QueryPerformanceFrequency = (\<lambda>s. (Some 1000, s)),
     QueryPerformanceCounter = (\<lambda>s. (Some (of_nat s), s + 1)), GetCommandLineA = None,
     EnumDisplaySettingsA = (\<lambda>s. (None, s)), ChangeDisplaySettingsA = (\<lambda>s. (False, s)), GetDC = (\<lambda>s. (0, s)),
     GetSystemMetrics_screen = (\<lambda>s. (0, 0)), GetDeviceCaps_depth = (\<lambda>d s. (0, 0)), ReleaseDC = (\<lambda>d s. (True, s)),
     HeapAlloc_bytes = (\<lambda>n s. (True, s)), HeapFree_bytes = (\<lambda>s. s), gsw_window_pump = (\<lambda>s. s)\<rparr>"

lemma probe_benchmark_returns_witness:
  defines "timer \<equiv> \<lparr>tm_qpc = True, tm_failed = False, tm_frequency = 1000, tm_last = 0\<rparr>"
  shows "(\<exists>m t s'. gsw_benchmark counting_env (\<lambda>i c s. ((True, i), s)) timer 0 = Some (True, m, t, s')) \<and>
    gsw_benchmark counting_env (\<lambda>i c s. ((True, i), s)) (timer\<lparr>tm_failed := True\<rparr>) 0 = None"
proof (rule probe_benchmark_returns [of counting_env "\<lambda>i c s. ((True, i), s)" "\<lambda>s. s" 1000])
  show "running_clock counting_env (\<lambda>i c s. ((True, i), s)) (\<lambda>s. s) 1000"
    by (simp add: running_clock_def counting_env_def within_def)
qed (simp_all add: draws_def counting_env_def within_def live_def timer_def)

end
