(* ===== verification/Probe_Report.thy ===== *)
theory Probe_Report
  imports Probe_Benchmark
begin

text \<open>
  The report of the graphics diagnostic (\<^verbatim>\<open>guest-tools/gsw-graphics-probe/report.c\<close> and
  \<open>gsw_vbe_count\<close> of \<^verbatim>\<open>vbe_import.c\<close>): rows of fields separated by tabs in a buffer
  of fixed size, the import of the rows that the companion for MS-DOS left behind, and the session
  (\<^verbatim>\<open>gswgfx.h\<close>).

  The buffer is the list of its used bytes. A chain of operations joined by \<^verbatim>\<open>&&\<close> is
  \<open>report_all\<close> of the list of operations.
\<close>

section \<open>The buffer\<close>

record GSW_REPORT =
  rp_bytes :: "u8 list"
  rp_sequence :: u32
  rp_broken :: bool

definition GSW_REPORT_CAP :: nat where "GSW_REPORT_CAP = 256 * 1024"
definition GSW_SCHEMA :: c_text where "GSW_SCHEMA = lit ''GSWGFX_RESULT_V2''"

type_synonym report_op = "GSW_REPORT \<Rightarrow> bool \<times> GSW_REPORT"

fun report_all :: "report_op list \<Rightarrow> report_op" where
  "report_all [] r = (True, r)"
| "report_all (operation # rest) r =
     (let (successful, r) = operation r in if successful then report_all rest r else (False, r))"

definition gsw_report_bytes :: "c_text \<Rightarrow> report_op" where
  "gsw_report_bytes t r =
     (if rp_broken r \<or> length (rp_bytes r) + length t > GSW_REPORT_CAP then (False, r\<lparr>rp_broken := True\<rparr>)
      else (True, r\<lparr>rp_bytes := rp_bytes r @ t\<rparr>))"

section \<open>Fields\<close>

text \<open>At most eleven digits, the last one first.\<close>

fun decimal_digits :: "nat \<Rightarrow> u32 \<Rightarrow> u8 list" where
  "decimal_digits 0 n = []"
| "decimal_digits (Suc room) n = (if n = 0 then [] else (0x30 + ucast (n mod 10)) # decimal_digits room (n div 10))"

definition gsw_report_decimal :: "u32 \<Rightarrow> report_op" where
  "gsw_report_decimal n = (if n = 0 then gsw_report_bytes [0x30] else gsw_report_bytes (rev (decimal_digits 11 n)))"

definition hex_digit :: "u32 \<Rightarrow> u8" where
  "hex_digit d = lit ''0123456789ABCDEF'' ! unat (d AND 15)"

definition gsw_report_hex :: "u32 \<Rightarrow> bool \<Rightarrow> report_op" where
  "gsw_report_hex n prefix =
     gsw_report_bytes ((if prefix then lit ''0x'' else []) @ map (\<lambda>index. hex_digit (drop_bit ((7 - index) * 4) n)) [0..<8])"

definition gsw_status_text :: "GSW_STATUS \<Rightarrow> c_text" where
  "gsw_status_text status =
     (case status of
        GSW_STATUS_WARN \<Rightarrow> lit ''WARN''
      | GSW_STATUS_UNAVAILABLE \<Rightarrow> lit ''UNAVAILABLE''
      | GSW_STATUS_FAIL \<Rightarrow> lit ''FAIL''
      | GSW_STATUS_PASS \<Rightarrow> lit ''PASS'')"

definition field_byte :: "u8 \<Rightarrow> u8" where
  "field_byte b = (if b \<ge> 0x20 \<and> b \<le> 0x7E \<and> b \<noteq> 9 then b else 0x5F)"

definition gsw_field :: "c_text \<Rightarrow> report_op" where
  "gsw_field t = report_all (map (\<lambda>b. gsw_report_bytes [field_byte b]) t)"

definition gsw_tab :: report_op where
  "gsw_tab = gsw_report_bytes [9]"

text \<open>The empty report with its header; the buffer may be refused.\<close>

definition GSW_HEADER :: c_text where
  "GSW_HEADER = lit ''schema'' @ [9] @ lit ''sequence'' @ [9] @ lit ''record'' @ [9] @ lit ''adapter'' @ [9] @ lit ''mode'' @ [9] @
     lit ''width'' @ [9] @ lit ''height'' @ [9] @ lit ''bpp'' @ [9] @ lit ''hz'' @ [9] @ lit ''path'' @ [9] @ lit ''status'' @ [9] @
     lit ''api_code'' @ [9] @ lit ''frames'' @ [9] @ lit ''duration_ms'' @ [9] @ lit ''avg_fps_milli'' @ [9] @ lit ''p50_us'' @ [9] @
     lit ''p95_us'' @ [9] @ lit ''max_us'' @ [9] @ lit ''slow_frames'' @ [9] @ lit ''tested'' @ [9] @ lit ''failed'' @ [9] @
     lit ''warnings'' @ [9] @ lit ''unavailable'' @ [9] @ lit ''crc32'' @ [9] @ lit ''detail'' @ [13, 10]"

definition report_zero :: GSW_REPORT where
  "report_zero = \<lparr>rp_bytes = [], rp_sequence = 0, rp_broken = False\<rparr>"

definition gsw_report_initialize :: "'s probe_env \<Rightarrow> 's \<Rightarrow> (bool \<times> GSW_REPORT) \<times> 's" where
  "gsw_report_initialize e s =
     (let (allocated, s) = HeapAlloc_bytes e (of_nat GSW_REPORT_CAP) s in
      if allocated then (gsw_report_bytes GSW_HEADER report_zero, s) else ((False, report_zero), s))"

section \<open>Rows\<close>

record GSW_ROW =
  rw_adapter :: c_text
  rw_path :: c_text
  rw_detail :: c_text
  rw_mode :: GSW_MODE
  rw_status :: GSW_STATUS
  rw_api_code :: u32
  rw_metrics :: GSW_METRICS

definition row_zero :: GSW_ROW where
  "row_zero = \<lparr>rw_adapter = [], rw_path = [], rw_detail = [],
     rw_mode = \<lparr>md_id = 0, md_width = 0, md_height = 0, md_bpp = 0, md_hz = 0, md_flags = 0\<rparr>,
     rw_status = GSW_STATUS_PASS, rw_api_code = 0, rw_metrics = metrics_zero\<rparr>"

record GSW_SESSION =
  ss_options :: GSW_OPTIONS
  ss_timer :: GSW_TIMER
  ss_original :: GSW_DESKTOP
  ss_report :: GSW_REPORT
  ss_started_tick :: u32
  ss_tested :: u32
  ss_failed :: u32
  ss_warnings :: u32
  ss_unavailable :: u32
  ss_worst :: "GSW_ROW list"
  ss_restore_failed :: bool
  ss_report_failed :: bool

text \<open>The sequence number is written and counted.\<close>

definition report_sequence :: report_op where
  "report_sequence r = gsw_report_decimal (rp_sequence r) (r\<lparr>rp_sequence := rp_sequence r + 1\<rparr>)"

definition gsw_report_common :: "c_text \<Rightarrow> GSW_ROW \<Rightarrow> report_op" where
  "gsw_report_common kind row =
     (let mode = rw_mode row; metrics = rw_metrics row in
      report_all
       [gsw_field GSW_SCHEMA, gsw_tab,
        report_sequence, gsw_tab,
        gsw_field kind, gsw_tab,
        gsw_field (rw_adapter row), gsw_tab,
        gsw_report_decimal (md_id mode), gsw_tab,
        gsw_report_decimal (md_width mode), gsw_tab,
        gsw_report_decimal (md_height mode), gsw_tab,
        gsw_report_decimal (md_bpp mode), gsw_tab,
        gsw_report_decimal (md_hz mode), gsw_tab,
        gsw_field (rw_path row), gsw_tab,
        gsw_field (gsw_status_text (rw_status row)), gsw_tab,
        gsw_report_hex (rw_api_code row) True, gsw_tab,
        gsw_report_decimal (mt_frames metrics), gsw_tab,
        gsw_report_decimal (mt_duration_ms metrics), gsw_tab,
        gsw_report_decimal (mt_avg_fps_milli metrics), gsw_tab,
        gsw_report_decimal (mt_p50_us metrics), gsw_tab,
        gsw_report_decimal (mt_p95_us metrics), gsw_tab,
        gsw_report_decimal (mt_max_us metrics), gsw_tab,
        gsw_report_decimal (mt_slow_frames metrics), gsw_tab])"

definition gsw_report_mode :: "GSW_ROW \<Rightarrow> report_op" where
  "gsw_report_mode row =
     report_all
      [gsw_report_common (lit ''MODE'') row,
       gsw_report_decimal 0, gsw_tab,
       gsw_report_decimal 0, gsw_tab,
       gsw_report_decimal 0, gsw_tab,
       gsw_report_decimal 0, gsw_tab,
       gsw_report_hex (mt_crc32 (rw_metrics row)) False, gsw_tab,
       gsw_field (rw_detail row), gsw_report_bytes [13, 10]]"

definition GSW_DETAIL_CAP :: u32 where "GSW_DETAIL_CAP = 64"

definition gsw_report_run :: "GSW_SESSION \<Rightarrow> GSW_STATUS \<Rightarrow> u32 \<Rightarrow> c_text \<Rightarrow> report_op" where
  "gsw_report_run ss status api_code detail =
     (let row = row_zero\<lparr>rw_adapter := snd (gsw_text_copy [] 16 (Some (lit ''RUN''))),
                  rw_path := snd (gsw_text_copy [] 16 (Some (lit ''SUMMARY''))),
                  rw_detail := snd (gsw_text_copy [] GSW_DETAIL_CAP (Some detail)),
                  rw_status := status, rw_api_code := api_code\<rparr>
      in report_all
          [gsw_report_common (lit ''RUN'') row,
           gsw_report_decimal (ss_tested ss), gsw_tab,
           gsw_report_decimal (ss_failed ss), gsw_tab,
           gsw_report_decimal (ss_warnings ss), gsw_tab,
           gsw_report_decimal (ss_unavailable ss), gsw_tab,
           gsw_report_hex 0 False, gsw_tab,
           gsw_field detail, gsw_report_bytes [13, 10]])"

section \<open>The import\<close>

text \<open>
  The scan runs over the bytes from the current offset on. The number: no more digits once the value
  is above a tenth of the largest word.
\<close>

fun import_digits :: "u32 \<Rightarrow> nat \<Rightarrow> u8 list \<Rightarrow> (u32 \<times> nat \<times> u8 list) option" where
  "import_digits sequence digits (b # rest) =
     (if b \<ge> 0x30 \<and> b \<le> 0x39
      then (if sequence > 429496729 then None
            else import_digits (sequence * 10 + (ucast b - 0x30)) (digits + 1) rest)
      else Some (sequence, digits, b # rest))"
| "import_digits sequence digits [] = Some (sequence, digits, [])"

fun import_body :: "u8 list \<Rightarrow> u8 list option" where
  "import_body (a # b # rest) =
     (if a = 13 \<and> b = 10 then Some (a # b # rest)
      else if (a < 0x20 \<and> a \<noteq> 9) \<or> a > 0x7E then None
      else import_body (b # rest))"
| "import_body rest = Some rest"

text \<open>A line feed needs a carriage return before it; \<open>before\<close> is the byte before the line.\<close>

fun import_plain :: "u8 option \<Rightarrow> u8 list \<Rightarrow> bool" where
  "import_plain before (b # rest) =
     (if b > 0x7F \<or> (b = 10 \<and> before \<noteq> Some 13) then False else import_plain (Some b) rest)"
| "import_plain before [] = True"

text \<open>One row: the line, and what follows it.\<close>

definition import_line :: "u32 \<Rightarrow> u8 option \<Rightarrow> u8 list \<Rightarrow> (u8 list \<times> u8 list) option" where
  "import_line expected before start =
     (if length start < length GSW_SCHEMA + 8 then None
      else if take (length GSW_SCHEMA) start \<noteq> GSW_SCHEMA then None
      else
        (let rest = drop (length GSW_SCHEMA) start in
         if hd rest \<noteq> 9 then None
         else
           (case import_digits 0 0 (tl rest) of
              None \<Rightarrow> None
            | Some (sequence, digits, rest) \<Rightarrow>
                if digits = 0 \<or> sequence \<noteq> expected \<or> length rest < 6 \<or> take 6 rest \<noteq> [9] @ lit ''MODE'' @ [9] then None
                else
                  (case import_body (drop 6 rest) of
                     None \<Rightarrow> None
                   | Some rest \<Rightarrow>
                       if length rest \<le> 1 then None
                       else
                         (let rest = drop 2 rest;
                              line = take (length start - length rest) start
                          in if \<not> import_plain before line then None else Some (line, rest))))))"

lemma import_digits_length: "import_digits v d bs = Some (w, e, rest) \<Longrightarrow> length rest \<le> length bs"
  by (induction v d bs rule: import_digits.induct) (force split: if_splits)+

lemma import_body_length: "import_body bs = Some rest \<Longrightarrow> length rest \<le> length bs"
  by (induction bs rule: import_body.induct) (force split: if_splits)+

lemma import_line_shorter: "import_line expected before start = Some (line, rest) \<Longrightarrow> length rest < length start"
  by (auto simp: import_line_def Let_def split: if_splits option.splits dest!: import_digits_length import_body_length)

text \<open>Rows that were accepted before a failure stay in the report.\<close>

function import_rows :: "u8 option \<Rightarrow> u8 list \<Rightarrow> report_op" where
  "import_rows before start r =
     (if start = [] then (True, r)
      else
        (case import_line (rp_sequence r) before start of
           None \<Rightarrow> (False, r)
         | Some (line, rest) \<Rightarrow>
             if length (rp_bytes r) + length line > GSW_REPORT_CAP then (False, r)
             else import_rows (Some (last line)) rest
                    (r\<lparr>rp_bytes := rp_bytes r @ line, rp_sequence := rp_sequence r + 1\<rparr>)))"
  by pat_completeness auto

termination import_rows
  by (relation "measure (\<lambda>(before, start, r). length start)") (auto simp: import_line_shorter)

declare import_rows.simps [simp del]

definition gsw_report_import_rows :: "u8 list option \<Rightarrow> report_op" where
  "gsw_report_import_rows bytes r =
     (case bytes of
        None \<Rightarrow> (False, r)
      | Some bytes \<Rightarrow> if length bytes = 0 \<or> length bytes > 128 * 1024 then (False, r) else import_rows None bytes r)"

section \<open>Counting the imported rows\<close>

text \<open>
  The scan of one line: what follows it, the bytes from the status field on, and the length of that
  field.
\<close>

fun vbe_scan :: "u8 list \<Rightarrow> nat \<Rightarrow> u8 list \<Rightarrow> nat \<Rightarrow> u8 list \<times> u8 list \<times> nat" where
  "vbe_scan [] tabs field field_length = ([], field, field_length)"
| "vbe_scan (b # rest) tabs field field_length =
     (if b = 13 \<and> rest \<noteq> [] \<and> hd rest = 10 then (b # rest, field, field_length)
      else if b = 9
      then
        (if tabs + 1 = 10 then vbe_scan rest (tabs + 1) rest field_length
         else if tabs + 1 = 11 then vbe_scan rest (tabs + 1) field (length field - length (b # rest))
         else vbe_scan rest (tabs + 1) field field_length)
      else vbe_scan rest tabs field field_length)"

lemma vbe_scan_end: "vbe_scan bs tabs f n = (rest, g, m) \<Longrightarrow> rest = [] \<or> (\<exists>r. rest = 13 # 10 # r \<and> length rest \<le> length bs)"
proof (induction bs tabs f n rule: vbe_scan.induct)
  case (2 b rest tabs f n)
  then show ?case by (cases rest) (force split: if_splits)+
qed simp

definition vbe_count_row :: "u8 list \<Rightarrow> nat \<Rightarrow> GSW_SESSION \<Rightarrow> GSW_SESSION" where
  "vbe_count_row field field_length ss =
     (let ss = ss\<lparr>ss_tested := ss_tested ss + 1\<rparr> in
      if field_length = 4 \<and> hd field = 0x57 then ss\<lparr>ss_warnings := ss_warnings ss + 1\<rparr>
      else if field_length = 4 \<and> hd field = 0x46 then ss\<lparr>ss_failed := ss_failed ss + 1\<rparr>
      else if field_length = 11 \<and> hd field = 0x55 then ss\<lparr>ss_unavailable := ss_unavailable ss + 1\<rparr>
      else ss)"

function gsw_vbe_count :: "u8 list \<Rightarrow> GSW_SESSION \<Rightarrow> GSW_SESSION" where
  "gsw_vbe_count bytes ss =
     (if bytes = [] then ss
      else
        (let (rest, field, field_length) = vbe_scan bytes 0 bytes 0;
             ss = vbe_count_row field field_length ss
         in gsw_vbe_count (if length rest > 1 then drop 2 rest else rest) ss))"
  by pat_completeness auto

termination gsw_vbe_count
proof (relation "measure (\<lambda>(bytes, ss). length bytes)", goal_cases)
  case (2 bytes ss x rest y field field_length ss')
  then show ?case using vbe_scan_end [of bytes 0 bytes 0 rest field field_length] by force
qed simp

declare gsw_vbe_count.simps [simp del]

section \<open>What an operation writes\<close>

text \<open>
  \<open>appends operation t k\<close>: on an unbroken report the operation writes the text \<open>t\<close> of the current
  sequence number and advances the number by \<open>k\<close>, or there is no room and it fails.
\<close>

definition appends :: "report_op \<Rightarrow> (u32 \<Rightarrow> u8 list) \<Rightarrow> u32 \<Rightarrow> bool" where
  "appends operation t k \<longleftrightarrow>
     (\<forall>r. \<not> rp_broken r \<longrightarrow> length (rp_bytes r) \<le> GSW_REPORT_CAP \<longrightarrow>
        (if length (rp_bytes r) + length (t (rp_sequence r)) \<le> GSW_REPORT_CAP
         then operation r = (True, r\<lparr>rp_bytes := rp_bytes r @ t (rp_sequence r), rp_sequence := rp_sequence r + k\<rparr>)
         else \<not> fst (operation r)))"

lemma appends_bytes: "appends (gsw_report_bytes t) (\<lambda>_. t) 0"
  by (simp add: appends_def gsw_report_bytes_def)

lemma appends_Nil: "appends (report_all []) (\<lambda>_. []) 0"
  by (simp add: appends_def)

lemma appends_Cons:
  assumes "appends operation t k" "appends (report_all rest) t' k'"
  shows "appends (report_all (operation # rest)) (\<lambda>n. t n @ t' (n + k)) (k + k')"
  unfolding appends_def
proof (intro allI impI)
  fix r :: GSW_REPORT
  assume r: "\<not> rp_broken r" "length (rp_bytes r) \<le> GSW_REPORT_CAP"
  let ?n = "rp_sequence r"
  show "if length (rp_bytes r) + length (t ?n @ t' (?n + k)) \<le> GSW_REPORT_CAP
    then report_all (operation # rest) r =
      (True, r\<lparr>rp_bytes := rp_bytes r @ t ?n @ t' (?n + k), rp_sequence := ?n + (k + k')\<rparr>)
    else \<not> fst (report_all (operation # rest) r)"
  proof (cases "length (rp_bytes r) + length (t ?n) \<le> GSW_REPORT_CAP")
    case True
    define r1 where "r1 = r\<lparr>rp_bytes := rp_bytes r @ t ?n, rp_sequence := ?n + k\<rparr>"
    have "operation r = (True, r1)" using assms(1) r True by (auto simp: appends_def r1_def)
    moreover have "if length (rp_bytes r1) + length (t' (rp_sequence r1)) \<le> GSW_REPORT_CAP
       then report_all rest r1 = (True, r1\<lparr>rp_bytes := rp_bytes r1 @ t' (rp_sequence r1), rp_sequence := rp_sequence r1 + k'\<rparr>)
       else \<not> fst (report_all rest r1)"
      using assms(2) r True by (simp add: appends_def r1_def)
    ultimately show ?thesis by (auto simp: r1_def add.assoc split: if_splits)
  next
    case False
    then have "\<not> fst (operation r)" using assms(1) r unfolding appends_def by metis
    then show ?thesis using False by (cases "operation r") auto
  qed
qed

lemma appends_cong: "appends operation t k \<Longrightarrow> t = t' \<Longrightarrow> k = k' \<Longrightarrow> appends operation t' k'"
  by simp

definition dec :: "u32 \<Rightarrow> u8 list" where
  "dec n = (if n = 0 then [0x30] else rev (decimal_digits 11 n))"

definition hex32 :: "u32 \<Rightarrow> u8 list" where
  "hex32 n = map (\<lambda>index. hex_digit (drop_bit ((7 - index) * 4) n)) [0..<8]"

lemma appends_decimal: "appends (gsw_report_decimal n) (\<lambda>_. dec n) 0"
  by (simp add: gsw_report_decimal_def dec_def appends_bytes)

lemma appends_hex: "appends (gsw_report_hex n prefix) (\<lambda>_. (if prefix then lit ''0x'' else []) @ hex32 n) 0"
  unfolding gsw_report_hex_def hex32_def by (rule appends_bytes)

lemma appends_tab: "appends gsw_tab (\<lambda>_. [9]) 0"
  unfolding gsw_tab_def by (rule appends_bytes)

lemma appends_field: "appends (gsw_field t) (\<lambda>_. map field_byte t) 0"
proof (induction t)
  case Nil
  then show ?case by (simp add: gsw_field_def appends_def)
next
  case (Cons b t)
  then show ?case
    using appends_Cons [OF appends_bytes [of "[field_byte b]"], of "map (\<lambda>b. gsw_report_bytes [field_byte b]) t"]
    by (simp add: gsw_field_def del: report_all.simps)
qed

lemma appends_sequence: "appends report_sequence dec 1"
  using appends_decimal by (auto simp: appends_def report_sequence_def)

lemmas appends_intros = appends_Nil appends_Cons appends_decimal appends_hex appends_tab appends_field
  appends_sequence appends_bytes

text \<open>The text of a row.\<close>

definition common_line :: "c_text \<Rightarrow> GSW_ROW \<Rightarrow> u32 \<Rightarrow> u8 list" where
  "common_line kind row n =
     (let m = rw_mode row; f = rw_metrics row in
      map field_byte GSW_SCHEMA @ [9] @ dec n @ [9] @ map field_byte kind @ [9] @ map field_byte (rw_adapter row) @ [9] @
      dec (md_id m) @ [9] @ dec (md_width m) @ [9] @ dec (md_height m) @ [9] @ dec (md_bpp m) @ [9] @ dec (md_hz m) @ [9] @
      map field_byte (rw_path row) @ [9] @ map field_byte (gsw_status_text (rw_status row)) @ [9] @
      (lit ''0x'' @ hex32 (rw_api_code row)) @ [9] @ dec (mt_frames f) @ [9] @ dec (mt_duration_ms f) @ [9] @
      dec (mt_avg_fps_milli f) @ [9] @ dec (mt_p50_us f) @ [9] @ dec (mt_p95_us f) @ [9] @ dec (mt_max_us f) @ [9] @
      dec (mt_slow_frames f) @ [9])"

definition mode_line :: "GSW_ROW \<Rightarrow> u32 \<Rightarrow> u8 list" where
  "mode_line row n =
     common_line (lit ''MODE'') row n @ dec 0 @ [9] @ dec 0 @ [9] @ dec 0 @ [9] @ dec 0 @ [9] @
     hex32 (mt_crc32 (rw_metrics row)) @ [9] @ map field_byte (rw_detail row) @ [13, 10]"

lemma appends_common: "appends (gsw_report_common kind row) (common_line kind row) 1"
  unfolding gsw_report_common_def Let_def
  by (rule appends_cong, (rule appends_intros)+) (auto simp: common_line_def Let_def)

lemma appends_mode: "appends (gsw_report_mode row) (mode_line row) 1"
  unfolding gsw_report_mode_def
  by (rule appends_cong, (rule appends_intros appends_common)+) (auto simp: mode_line_def)

section \<open>Reading back what was written\<close>

text \<open>The bytes of a field and of a line.\<close>

definition plain :: "u8 \<Rightarrow> bool" where
  "plain b \<longleftrightarrow> 0x20 \<le> b \<and> b \<le> 0x7E"

lemma plain_not_control: "plain b \<Longrightarrow> b \<noteq> 9 \<and> b \<noteq> 10 \<and> b \<noteq> 13 \<and> \<not> b < 0x20 \<and> \<not> b > 0x7E \<and> \<not> b > 0x7F"
  by (auto simp: plain_def not_less intro: order_trans)

lemma plain_field: "plain (field_byte b)"
  by (simp add: plain_def field_byte_def)

lemma digit_cases:
  assumes "n < (10 :: u32)"
  shows "n = 0 \<or> n = 1 \<or> n = 2 \<or> n = 3 \<or> n = 4 \<or> n = 5 \<or> n = 6 \<or> n = 7 \<or> n = 8 \<or> n = 9"
proof -
  have "unat n < 10" using assms by (simp add: word_less_nat_alt)
  then have "unat n \<in> {0, 1, 2, 3, 4, 5, 6, 7, 8, 9}" by auto
  then show ?thesis by (auto simp: word_unat_eq_iff)
qed

lemma digit_byte:
  assumes "n < (10 :: u32)"
  shows "ucast (0x30 + ucast n :: u8) - 0x30 = n" "0x30 \<le> (0x30 + ucast n :: u8)" "(0x30 + ucast n :: u8) \<le> 0x39"
  using digit_cases [OF assms] by auto

lemma decimal_bytes: "b \<in> set (decimal_digits room n) \<Longrightarrow> 0x30 \<le> b \<and> b \<le> 0x39"
proof (induction room arbitrary: n)
  case (Suc room)
  have "n mod 10 < 10" by (simp add: word_mod_less_divisor)
  then show ?case using Suc digit_byte by (auto split: if_splits)
qed simp

lemma digit_plain: "0x30 \<le> b \<and> b \<le> 0x39 \<Longrightarrow> plain b"
  using order_trans [of "0x20" "0x30" b] order_trans [of b "0x39" "0x7E"] by (simp add: plain_def)

lemma plain_dec: "b \<in> set (dec n) \<Longrightarrow> plain b"
  using decimal_bytes [of b 11 n] digit_plain [of b] by (simp add: dec_def del: decimal_digits.simps split: if_splits)

lemma plain_hex_digit: "plain (hex_digit d)"
proof -
  have p: "plain b" if "b \<in> set (lit ''0123456789ABCDEF'')" for b
    using that by (auto simp: lit_def plain_def)
  have "unat (d AND 15) < 16"
    using word_and_le1 [of d 15] by (simp add: word_le_nat_alt)
  then have "hex_digit d \<in> set (lit ''0123456789ABCDEF'')"
    unfolding hex_digit_def by (intro nth_mem) (simp add: lit_def)
  then show ?thesis by (rule p)
qed

lemma plain_hex: "b \<in> set (hex32 n) \<Longrightarrow> plain b"
  by (auto simp: hex32_def plain_hex_digit)

lemma plain_clean: "b \<in> set (map field_byte t) \<Longrightarrow> plain b"
  by (auto simp: plain_field)

text \<open>The number is read back.\<close>

lemma div10_bound: "n div 10 \<le> (429496729 :: u32)"
proof -
  have "unat n div 10 \<le> 429496729" using unsigned_less [of n, where ?'a = nat] by simp
  then show ?thesis by (simp add: word_le_nat_alt unat_div)
qed

lemma import_decimal:
  "unat n < 10 ^ room \<Longrightarrow> import_digits 0 d (rev (decimal_digits room n) @ rest) =
     import_digits n (d + length (decimal_digits room n)) rest"
proof (induction room arbitrary: n rest d)
  case 0
  then show ?case by (simp add: unat_eq_zero)
next
  case (Suc room)
  show ?case
  proof (cases "n = 0")
    case False
    have m: "n mod 10 < 10" by (simp add: word_mod_less_divisor)
    have "unat (n div 10) < 10 ^ room" using Suc.prems by (simp add: unat_div)
    note IH = Suc.IH [OF this]
    have "n div 10 * 10 + n mod 10 = n" by (rule div_mult_mod_eq)
    then show ?thesis using False digit_byte [OF m] div10_bound [of n] by (simp add: IH leD [OF div10_bound])
  qed simp
qed

lemma import_dec: "import_digits 0 0 (dec n @ 9 # rest) = Some (n, length (dec n), 9 # rest)"
proof (cases "n = 0")
  case False
  have "unat n < 10 ^ 11" using unsigned_less [of n, where ?'a = nat] by simp
  then show ?thesis using False import_decimal [of n 11 0 "9 # rest"] by (simp add: dec_def del: decimal_digits.simps)
qed (simp add: dec_def)

lemma dec_nonempty: "dec n \<noteq> []"
  by (simp add: dec_def numeral_eq_Suc)

text \<open>The rest of a line is accepted.\<close>

lemma import_body_line:
  "(\<And>b. b \<in> set t \<Longrightarrow> plain b \<or> b = 9) \<Longrightarrow> import_body (t @ 13 # 10 # rest) = Some (13 # 10 # rest)"
proof (induction t)
  case (Cons a t)
  have "a \<noteq> 13" "\<not> (a < 0x20 \<and> a \<noteq> 9)" "\<not> a > 0x7E" using Cons.prems [of a] by (auto dest: plain_not_control)
  moreover obtain c u where u: "t @ 13 # 10 # rest = c # u" by (cases t) auto
  ultimately show ?case using Cons by (simp add: u)
qed simp

lemma import_plain_line:
  "(\<And>b. b \<in> set t \<Longrightarrow> plain b \<or> b = 9) \<Longrightarrow> import_plain before (t @ [13, 10])"
proof (induction t arbitrary: before)
  case (Cons a t)
  have "a \<noteq> 10" "\<not> a > 0x7F" using Cons.prems [of a] by (auto dest: plain_not_control)
  then show ?case using Cons by auto
qed simp

definition line_tail :: "GSW_ROW \<Rightarrow> u8 list" where
  "line_tail row =
     (let m = rw_mode row; f = rw_metrics row in
      map field_byte (rw_adapter row) @ [9] @
      dec (md_id m) @ [9] @ dec (md_width m) @ [9] @ dec (md_height m) @ [9] @ dec (md_bpp m) @ [9] @ dec (md_hz m) @ [9] @
      map field_byte (rw_path row) @ [9] @ map field_byte (gsw_status_text (rw_status row)) @ [9] @
      (lit ''0x'' @ hex32 (rw_api_code row)) @ [9] @ dec (mt_frames f) @ [9] @ dec (mt_duration_ms f) @ [9] @
      dec (mt_avg_fps_milli f) @ [9] @ dec (mt_p50_us f) @ [9] @ dec (mt_p95_us f) @ [9] @ dec (mt_max_us f) @ [9] @
      dec (mt_slow_frames f) @ [9] @ dec 0 @ [9] @ dec 0 @ [9] @ dec 0 @ [9] @ dec 0 @ [9] @
      hex32 (mt_crc32 f) @ [9] @ map field_byte (rw_detail row))"

lemma schema_bytes: "map field_byte GSW_SCHEMA = GSW_SCHEMA" "length GSW_SCHEMA = 16"
  by (simp_all add: GSW_SCHEMA_def lit_def field_byte_def)

lemma kind_bytes: "map field_byte (lit ''MODE'') = lit ''MODE''"
  by (simp add: lit_def field_byte_def)

lemma mode_line_split:
  "mode_line row n = GSW_SCHEMA @ 9 # dec n @ ([9] @ lit ''MODE'' @ [9]) @ line_tail row @ [13, 10]"
  unfolding mode_line_def common_line_def line_tail_def Let_def schema_bytes kind_bytes by simp

lemma zero_x_plain: "b \<in> set (lit ''0x'') \<Longrightarrow> plain b"
  by (auto simp: lit_def plain_def)

lemma line_tail_plain: "b \<in> set (line_tail row) \<Longrightarrow> plain b \<or> b = 9"
  unfolding line_tail_def Let_def
  by (simp only: set_append Un_iff set_simps insert_iff empty_iff)
    (blast dest: plain_dec plain_hex plain_clean zero_x_plain)

lemma import_written: "import_line n before (mode_line row n @ rest) = Some (mode_line row n, rest)"
proof -
  let ?t = "line_tail row"
  have b: "import_body (?t @ 13 # 10 # rest) = Some (13 # 10 # rest)"
    by (rule import_body_line) (rule line_tail_plain)
  have "import_plain before ((GSW_SCHEMA @ 9 # dec n @ ([9] @ lit ''MODE'' @ [9]) @ ?t) @ [13, 10])"
  proof (rule import_plain_line)
    fix b assume "b \<in> set (GSW_SCHEMA @ 9 # dec n @ ([9] @ lit ''MODE'' @ [9]) @ ?t)"
    then have "b \<in> set (map field_byte GSW_SCHEMA) \<or> b = 9 \<or> b \<in> set (dec n) \<or> b \<in> set (map field_byte (lit ''MODE'')) \<or> b \<in> set ?t"
      unfolding schema_bytes kind_bytes by auto
    then show "plain b \<or> b = 9" using plain_clean plain_dec line_tail_plain by blast
  qed
  then have p: "import_plain before (mode_line row n)" by (simp add: mode_line_split)
  define start where "start = mode_line row n @ rest"
  have d: "drop 16 start = 9 # dec n @ 9 # lit ''MODE'' @ 9 # ?t @ 13 # 10 # rest" "take 16 start = GSW_SCHEMA" "\<not> length start < 24"
    using schema_bytes(2) dec_nonempty [of n] by (simp_all add: start_def mode_line_split) (cases "dec n", auto simp: lit_def)
  have m: "length (lit ''MODE'') = 4" by (simp add: lit_def)
  have l: "take (length start - length rest) start = mode_line row n" by (simp add: start_def)
  show ?thesis
    using p dec_nonempty [of n] unfolding import_line_def start_def [symmetric] schema_bytes(2)
    by (simp add: d import_dec b m l Let_def)
qed

text \<open>The check against overflow lets one number through: the row 4294967296 is taken for row 0.\<close>

lemma import_number_wraps: "import_digits 0 0 (lit ''4294967296'' @ [9]) = Some (0, 10, [9])"
  by (simp add: lit_def)

subsection \<open>The scan that counts\<close>

lemma scan_skip: "(\<And>b. b \<in> set t \<Longrightarrow> plain b) \<Longrightarrow> vbe_scan (t @ u) tabs f n = vbe_scan u tabs f n"
proof (induction t)
  case (Cons a t)
  have "a \<noteq> 13 \<and> a \<noteq> 9" using Cons.prems [of a] plain_not_control [of a] by simp
  then show ?case using Cons by simp
qed simp

lemma scan_simps:
  "vbe_scan (map field_byte t @ u) tabs f n = vbe_scan u tabs f n"
  "vbe_scan (dec m @ u) tabs f n = vbe_scan u tabs f n"
  "vbe_scan (hex32 m @ u) tabs f n = vbe_scan u tabs f n"
  "vbe_scan (lit ''0x'' @ u) tabs f n = vbe_scan u tabs f n"
  by (rule scan_skip, simp only: plain_clean plain_dec plain_hex zero_x_plain)+

lemma scan_end: "vbe_scan (13 # 10 # rest) tabs f n = (13 # 10 # rest, f, n)"
  by simp

lemma scan_tab:
  "vbe_scan (9 # rest) tabs f n =
     (if tabs + 1 = 10 then vbe_scan rest (tabs + 1) rest n
      else if tabs + 1 = 11 then vbe_scan rest (tabs + 1) f (length f - length (9 # rest))
      else vbe_scan rest (tabs + 1) f n)"
  by simp

text \<open>The counters that follow the status of a row (the first lines of \<open>gsw_track_row\<close>).\<close>

definition gsw_count_row :: "GSW_ROW \<Rightarrow> GSW_SESSION \<Rightarrow> GSW_SESSION" where
  "gsw_count_row row ss =
     (let ss = ss\<lparr>ss_tested := ss_tested ss + 1\<rparr> in
      case rw_status row of
        GSW_STATUS_FAIL \<Rightarrow> ss\<lparr>ss_failed := ss_failed ss + 1\<rparr>
      | GSW_STATUS_WARN \<Rightarrow> ss\<lparr>ss_warnings := ss_warnings ss + 1\<rparr>
      | GSW_STATUS_UNAVAILABLE \<Rightarrow> ss\<lparr>ss_unavailable := ss_unavailable ss + 1\<rparr>
      | GSW_STATUS_PASS \<Rightarrow> ss)"

lemma scan_line:
  "\<exists>u. vbe_scan (mode_line row n @ rest) 0 g 0 =
     (13 # 10 # rest, map field_byte (gsw_status_text (rw_status row)) @ u, length (gsw_status_text (rw_status row)))"
  unfolding mode_line_def common_line_def Let_def append_assoc append_Cons append_Nil
  by (simp add: scan_simps scan_tab del: vbe_scan.simps) (auto simp: scan_end simp del: vbe_scan.simps)

lemma count_status:
  "vbe_count_row (map field_byte (gsw_status_text (rw_status row)) @ u) (length (gsw_status_text (rw_status row))) ss =
   gsw_count_row row ss"
  by (cases "rw_status row") (simp_all add: vbe_count_row_def gsw_count_row_def gsw_status_text_def lit_def field_byte_def)

lemma mode_line_nonempty [simp]: "mode_line row n \<noteq> []"
  by (simp add: mode_line_def)

lemma count_line: "gsw_vbe_count (mode_line row n @ rest) ss = gsw_vbe_count rest (gsw_count_row row ss)"
proof -
  let ?b = "mode_line row n @ rest"
  obtain u where u: "vbe_scan ?b 0 ?b 0 =
     (13 # 10 # rest, map field_byte (gsw_status_text (rw_status row)) @ u, length (gsw_status_text (rw_status row)))"
    using scan_line by blast
  show ?thesis by (subst gsw_vbe_count.simps) (simp add: u count_status)
qed

section \<open>The round trip\<close>

fun lines_of :: "GSW_ROW list \<Rightarrow> u32 \<Rightarrow> u8 list" where
  "lines_of [] n = []"
| "lines_of (row # rows) n = mode_line row n @ lines_of rows (n + 1)"

lemma appends_rows: "appends (report_all (map gsw_report_mode rows)) (lines_of rows) (of_nat (length rows))"
proof (induction rows)
  case Nil
  show ?case using appends_Nil by (simp add: appends_def)
next
  case (Cons row rows)
  show ?case unfolding list.map
    by (rule appends_cong [OF appends_Cons [OF appends_mode Cons]]) auto
qed

lemma count_lines: "gsw_vbe_count (lines_of rows n) ss = fold gsw_count_row rows ss"
proof (induction rows arbitrary: n ss)
  case Nil
  show ?case by (subst gsw_vbe_count.simps) simp
qed (simp add: count_line)

lemma import_lines:
  "length (rp_bytes r) + length (lines_of rows (rp_sequence r)) \<le> GSW_REPORT_CAP \<Longrightarrow>
   import_rows before (lines_of rows (rp_sequence r)) r =
     (True, r\<lparr>rp_bytes := rp_bytes r @ lines_of rows (rp_sequence r), rp_sequence := rp_sequence r + of_nat (length rows)\<rparr>)"
proof (induction rows arbitrary: r before)
  case Nil
  show ?case by (subst import_rows.simps) simp
next
  case (Cons row rows)
  let ?n = "rp_sequence r"
  show ?case
    using Cons.prems
      Cons.IH [of "r\<lparr>rp_bytes := rp_bytes r @ mode_line row ?n, rp_sequence := ?n + 1\<rparr>" "Some (last (mode_line row ?n))"]
    by (subst import_rows.simps) (simp add: import_written ac_simps)
qed

text \<open>
  C32. Rows that one report has written are imported by another one of the same sequence number:
  every byte is accepted and appended, the sequence number ends where the writer's did, and the
  counters of the session grow by the status of each row.
\<close>

theorem probe_import_roundtrip:
  assumes "report_all (map gsw_report_mode rows) w = (True, w')" "\<not> rp_broken w" "rp_bytes w = []"
    and "rp_sequence w = rp_sequence r" "rows \<noteq> []" "length (rp_bytes w') \<le> 128 * 1024"
    and "length (rp_bytes r) + length (rp_bytes w') \<le> GSW_REPORT_CAP"
  shows "gsw_report_import_rows (Some (rp_bytes w')) r =
      (True, r\<lparr>rp_bytes := rp_bytes r @ rp_bytes w', rp_sequence := rp_sequence w'\<rparr>) \<and>
    gsw_vbe_count (rp_bytes w') ss = fold gsw_count_row rows ss"
proof -
  let ?l = "lines_of rows (rp_sequence r)"
  have "length (rp_bytes w) \<le> GSW_REPORT_CAP" using assms(3) by simp
  then have w: "rp_bytes w' = ?l" "rp_sequence w' = rp_sequence r + of_nat (length rows)"
    using appends_rows [of rows, unfolded appends_def, rule_format, of w] assms(1-4) by (auto split: if_splits)
  moreover have "?l \<noteq> []" using assms(5) by (cases rows) simp_all
  ultimately show ?thesis
    using assms(6,7) by (simp add: gsw_report_import_rows_def import_lines count_lines)
qed

lemma probe_import_roundtrip_witness:
  "gsw_report_import_rows (Some (mode_line row_zero 0)) report_zero =
     (True, report_zero\<lparr>rp_bytes := mode_line row_zero 0, rp_sequence := 1\<rparr>) \<and>
   (\<forall>ss. gsw_vbe_count (mode_line row_zero 0) ss = ss\<lparr>ss_tested := ss_tested ss + 1\<rparr>)"
proof -
  have l: "length (mode_line row_zero 0) < 256"
    by (simp add: mode_line_def common_line_def Let_def row_zero_def metrics_zero_def dec_def hex32_def lit_def
        schema_bytes gsw_status_text_def)
  have w: "report_all (map gsw_report_mode [row_zero]) report_zero =
      (True, report_zero\<lparr>rp_bytes := mode_line row_zero 0, rp_sequence := 1\<rparr>)"
    using appends_rows [of "[row_zero]", unfolded appends_def, rule_format, of report_zero] l
    by (simp add: report_zero_def GSW_REPORT_CAP_def del: report_all.simps)
  have s: "rw_status row_zero = GSW_STATUS_PASS" by (simp add: row_zero_def)
  show ?thesis
    using probe_import_roundtrip [OF w, of report_zero] l
    by (simp add: report_zero_def GSW_REPORT_CAP_def gsw_count_row_def s)
qed

section \<open>Accepted rows are counted\<close>

lemma import_digits_split: "import_digits v d bs = Some (w, e, rest) \<Longrightarrow> \<exists>ds. bs = ds @ rest \<and> 13 \<notin> set ds"
proof (induction v d bs rule: import_digits.induct)
  case (1 v d b bs)
  show ?case
  proof (cases "b \<ge> 0x30 \<and> b \<le> 0x39 \<and> \<not> v > 429496729")
    case True
    then obtain ds where "bs = ds @ rest" "13 \<notin> set ds" using 1 by auto
    then show ?thesis using True by (intro exI [of _ "b # ds"]) auto
  next
    case False
    then show ?thesis using 1(2) by (intro exI [of _ "[]"]) (auto split: if_splits)
  qed
qed simp

lemma import_body_split:
  "import_body bs = Some rest \<Longrightarrow> length rest > 1 \<Longrightarrow> \<exists>t r. bs = t @ 13 # 10 # r \<and> rest = 13 # 10 # r \<and> 13 \<notin> set t"
proof (induction bs rule: import_body.induct)
  case (1 a b bs)
  show ?case
  proof (cases "a = 13 \<and> b = 10")
    case False
    then have "a \<noteq> 13" using 1(2) by (auto split: if_splits)
    moreover obtain t r where "b # bs = t @ 13 # 10 # r" "rest = 13 # 10 # r" "13 \<notin> set t"
      using 1 False by (auto split: if_splits)
    ultimately show ?thesis by (intro exI [of _ "a # t"] exI [of _ r]) auto
  qed (use 1(2) in \<open>auto intro: exI [of _ "[]"]\<close>)
qed auto

lemma import_line_split:
  assumes "import_line n before start = Some (line, rest)"
  shows "\<exists>t. start = t @ 13 # 10 # rest \<and> line = t @ [13, 10] \<and> 13 \<notin> set t"
proof -
  have s: "13 \<notin> set GSW_SCHEMA" "13 \<notin> set ([9] @ lit ''MODE'' @ [9])" by (simp_all add: GSW_SCHEMA_def lit_def)
  let ?d = "drop (length GSW_SCHEMA) start"
  obtain sq dg r1 r2 where p: "\<not> length start < length GSW_SCHEMA + 8" "take (length GSW_SCHEMA) start = GSW_SCHEMA" "hd ?d = 9"
      "import_digits 0 0 (tl ?d) = Some (sq, dg, r1)" "take 6 r1 = [9] @ lit ''MODE'' @ [9]"
      "import_body (drop 6 r1) = Some r2" "length r2 > 1" "rest = drop 2 r2" "line = take (length start - length rest) start"
    using assms unfolding import_line_def Let_def by (auto split: if_splits option.splits prod.splits)
  obtain ds where ds: "tl ?d = ds @ r1" "13 \<notin> set ds" using import_digits_split [OF p(4)] by blast
  obtain t r where t: "drop 6 r1 = t @ 13 # 10 # r" "r2 = 13 # 10 # r" "13 \<notin> set t" using import_body_split [OF p(6,7)] by blast
  have "?d \<noteq> []" using p(1) by auto
  then have "?d = 9 # ds @ r1" using p(3) ds(1) by (metis list.collapse)
  then have "start = GSW_SCHEMA @ 9 # ds @ r1" using p(2) by (metis append_take_drop_id)
  moreover have "r1 = ([9] @ lit ''MODE'' @ [9]) @ t @ 13 # 10 # r" using p(5) t(1) by (metis append_take_drop_id)
  moreover have "rest = r" using p(8) t(2) by simp
  moreover define w where "w = GSW_SCHEMA @ 9 # ds @ ([9] @ lit ''MODE'' @ [9]) @ t"
  ultimately have st: "start = w @ 13 # 10 # rest" by simp
  have "13 \<notin> set w" using s ds(2) t(3) by (auto simp: w_def)
  moreover have "line = w @ [13, 10]" unfolding p(9) st by simp
  ultimately show ?thesis using st by blast
qed

lemma scan_to_end: "13 \<notin> set t \<Longrightarrow> \<exists>g m. vbe_scan (t @ 13 # 10 # rest) tabs f n = (13 # 10 # rest, g, m)"
proof (induction t arbitrary: tabs f n)
  case (Cons a t)
  then show ?case by (simp add: neq_commute [of 13])
qed simp

lemma tested_row: "ss_tested (vbe_count_row g m ss) = ss_tested ss + 1"
  by (simp add: vbe_count_row_def Let_def)

lemma import_rows_tested:
  "import_rows before start q = (True, r') \<Longrightarrow> ss_tested (gsw_vbe_count start ss) = ss_tested ss + (rp_sequence r' - rp_sequence q)"
proof (induction before start q arbitrary: ss rule: import_rows.induct)
  case (1 before start q)
  show ?case
  proof (cases "start = []")
    case True
    then show ?thesis using 1(2) by (simp add: import_rows.simps gsw_vbe_count.simps)
  next
    case False
    then obtain line rest where l: "import_line (rp_sequence q) before start = Some (line, rest)"
      using 1(2) by (subst (asm) import_rows.simps) (auto split: option.splits)
    obtain t where t: "start = t @ 13 # 10 # rest" "13 \<notin> set t" using import_line_split [OF l] by blast
    obtain g m where s: "vbe_scan start 0 start 0 = (13 # 10 # rest, g, m)" using scan_to_end [OF t(2)] t(1) by blast
    let ?q = "q\<lparr>rp_bytes := rp_bytes q @ line, rp_sequence := rp_sequence q + 1\<rparr>"
    have c: "\<not> length (rp_bytes q) + length line > GSW_REPORT_CAP" "import_rows (Some (last line)) rest ?q = (True, r')"
      using 1(2) False l by (simp_all add: import_rows.simps [of before start] split: if_splits)
    have "gsw_vbe_count start ss = gsw_vbe_count rest (vbe_count_row g m ss)"
      using False s by (subst gsw_vbe_count.simps) simp
    then show ?thesis using 1(1) [OF False l _ c(1) c(2), of "vbe_count_row g m ss"] by (simp add: tested_row)
  qed
qed

text \<open>
  Whatever bytes the file of the companion holds: when they are imported, the number of tested
  modes grows by exactly the number of rows that the sequence number of the report has advanced by.
\<close>

theorem probe_import_counts:
  "case gsw_report_import_rows (Some bytes) r of (imported, r') \<Rightarrow>
     if imported then ss_tested (gsw_vbe_count bytes ss) = ss_tested ss + (rp_sequence r' - rp_sequence r)
     else rp_broken r' = rp_broken r"
proof -
  have b: "rp_broken (snd (import_rows before start q)) = rp_broken q" for before start q
  proof (induction before start q rule: import_rows.induct)
    case (1 before start q)
    then show ?case by (subst import_rows.simps) (auto split: option.splits)
  qed
  show ?thesis
    using import_rows_tested [of None bytes r] b [of None bytes r]
    by (auto simp: gsw_report_import_rows_def split: prod.splits)
qed

text \<open>
  A later row that is refused undoes nothing: the rows before it stay in the report, and since the
  import as a whole has failed they are not counted.
\<close>

lemma import_keeps_accepted:
  assumes "length (rp_bytes r) + length (mode_line row (rp_sequence r)) \<le> GSW_REPORT_CAP"
    "length (mode_line row (rp_sequence r)) < 128 * 1024"
  shows "gsw_report_import_rows (Some (mode_line row (rp_sequence r) @ [0])) r =
    (False, r\<lparr>rp_bytes := rp_bytes r @ mode_line row (rp_sequence r), rp_sequence := rp_sequence r + 1\<rparr>)"
  using assms
  by (simp add: gsw_report_import_rows_def import_rows.simps [of None] import_written)
    (simp add: import_rows.simps import_line_def)

end
