(* ===== verification/Probe_Host.thy ===== *)
theory Probe_Host
  imports Probe_Report
begin

text \<open>
  The transfer of the report to the host machine
  (\<^verbatim>\<open>guest-tools/gsw-graphics-probe/host_report.c\<close>) through the index, data and command
  port of its test device, and the other end of it: the registers of the device
  (\<^verbatim>\<open>src/machine/test_device.odin\<close>), the collector of the report
  (\<^verbatim>\<open>src/acceptance/guest_report.odin\<close>) and its dispatch in \<^verbatim>\<open>src/main.odin\<close>.

  The guest side is stated over ports of any behaviour. The host side services a command before the
  guest reads its status.
\<close>

section \<open>The guest\<close>

record 's ports =
  outb :: "u16 \<Rightarrow> u8 \<Rightarrow> 's \<Rightarrow> 's"
  inb :: "u16 \<Rightarrow> 's \<Rightarrow> u8 \<times> 's"

definition GSW_PORT_INDEX :: u16 where "GSW_PORT_INDEX = 0xE4"
definition GSW_PORT_DATA :: u16 where "GSW_PORT_DATA = 0xE5"
definition GSW_PORT_COMMAND :: u16 where "GSW_PORT_COMMAND = 0xE6"
definition GSW_REPORT_BEGIN :: u8 where "GSW_REPORT_BEGIN = 4"
definition GSW_REPORT_APPEND :: u8 where "GSW_REPORT_APPEND = 5"
definition GSW_REPORT_COMMIT :: u8 where "GSW_REPORT_COMMIT = 6"
definition GSW_REPORT_ABORT :: u8 where "GSW_REPORT_ABORT = 7"
definition GSW_HOST_OK :: u8 where "GSW_HOST_OK = 1"
definition GSW_COMPOSED_SNAPSHOT :: u8 where "GSW_COMPOSED_SNAPSHOT = 8"
definition GSW_REG_SNAPSHOT :: u8 where "GSW_REG_SNAPSHOT = 29"

definition probe_register_write :: "'s ports \<Rightarrow> u8 \<Rightarrow> u8 \<Rightarrow> 's \<Rightarrow> 's" where
  "probe_register_write p index v s = outb p GSW_PORT_DATA v (outb p GSW_PORT_INDEX index s)"

definition probe_register_read :: "'s ports \<Rightarrow> u8 \<Rightarrow> 's \<Rightarrow> u8 \<times> 's" where
  "probe_register_read p index s = inb p GSW_PORT_DATA (outb p GSW_PORT_INDEX index s)"

fun gsw_command_poll :: "'s ports \<Rightarrow> nat \<Rightarrow> 's \<Rightarrow> bool \<times> 's" where
  "gsw_command_poll p 0 s = (False, s)"
| "gsw_command_poll p (Suc polls) s =
     (let (status, s) = probe_register_read p 31 s in
      if status \<noteq> 0 then (status = GSW_HOST_OK, s) else gsw_command_poll p polls s)"

definition probe_command :: "'s ports \<Rightarrow> u8 \<Rightarrow> 's \<Rightarrow> bool \<times> 's" where
  "probe_command p command s = gsw_command_poll p 2000 (outb p GSW_PORT_COMMAND command (probe_register_write p 31 0 s))"

text \<open>One chunk: its bytes, its length, and the command.\<close>

definition publish_chunk :: "'s ports \<Rightarrow> u8 list \<Rightarrow> 's \<Rightarrow> bool \<times> 's" where
  "publish_chunk p chunk s =
     (let s = fold (\<lambda>index s. probe_register_write p (of_nat index) (chunk ! index) s) [0..<length chunk] s;
          s = probe_register_write p 30 (of_nat (length chunk)) s
      in probe_command p GSW_REPORT_APPEND s)"

function publish_loop :: "'s ports \<Rightarrow> u8 list \<Rightarrow> 's \<Rightarrow> bool \<times> 's" where
  "publish_loop p rest s =
     (if rest = [] then (True, s)
      else
        (let (accepted, s) = publish_chunk p (take 30 rest) s in
         if \<not> accepted then (False, snd (probe_command p GSW_REPORT_ABORT s))
         else publish_loop p (drop 30 rest) s))"
  by pat_completeness auto

termination publish_loop
  by (relation "measure (\<lambda>(p, rest, s). length rest)") auto

declare publish_loop.simps [simp del]

definition gsw_host_publish :: "'s ports \<Rightarrow> GSW_REPORT \<Rightarrow> 's \<Rightarrow> bool \<times> 's" where
  "gsw_host_publish p report s =
     (if rp_bytes report = [] \<or> length (rp_bytes report) > GSW_REPORT_CAP then (False, s)
      else
        (let (begun, s) = probe_command p GSW_REPORT_BEGIN s in
         if \<not> begun then (False, s)
         else
           (let (sent, s) = publish_loop p (rp_bytes report) s in
            if \<not> sent then (False, s)
            else
              (let (committed, s) = probe_command p GSW_REPORT_COMMIT s in
               if \<not> committed then (False, snd (probe_command p GSW_REPORT_ABORT s)) else (True, s)))))"

definition gsw_host_capture :: "'s ports \<Rightarrow> u8 \<Rightarrow> 's \<Rightarrow> bool \<times> 's" where
  "gsw_host_capture p label s = probe_command p GSW_COMPOSED_SNAPSHOT (probe_register_write p GSW_REG_SNAPSHOT label s)"

definition gsw_trace :: "'s ports \<Rightarrow> GSW_SESSION \<Rightarrow> u8 \<Rightarrow> 's \<Rightarrow> 's" where
  "gsw_trace p ss label s = (if \<not> op_trace (ss_options ss) then s else snd (gsw_host_capture p label s))"

definition gsw_host_exit :: "'s ports \<Rightarrow> u32 \<Rightarrow> 's \<Rightarrow> 's" where
  "gsw_host_exit p code s =
     (let s = probe_register_write p 12 (ucast code) s;
          s = probe_register_write p 13 (ucast (drop_bit 8 code)) s;
          s = probe_register_write p 14 (ucast (drop_bit 16 code)) s;
          s = probe_register_write p 15 (ucast (drop_bit 24 code)) s
      in outb p GSW_PORT_COMMAND 3 s)"

section \<open>The host\<close>

datatype Guest_Report_Status = Unprocessed | Ok | Bad_State | Bad_Length | Overflow | Artifacts_Disabled | Host_Io

definition report_status_code :: "Guest_Report_Status \<Rightarrow> u8" where
  "report_status_code st =
     (case st of Unprocessed \<Rightarrow> 0 | Ok \<Rightarrow> 1 | Bad_State \<Rightarrow> 2 | Bad_Length \<Rightarrow> 3 | Overflow \<Rightarrow> 4 | Artifacts_Disabled \<Rightarrow> 5 | Host_Io \<Rightarrow> 6)"

text \<open>
  The collector, with the files of the host as it sees them: whether artifacts are kept, whether a
  report can be begun (its directory can be made and no report is there yet) and published, and the
  published report.
\<close>

record Guest_Report_Collector =
  gc_artifacts :: bool
  gc_can_begin :: bool
  gc_can_publish :: bool
  gc_bytes :: "u8 list"
  gc_active :: bool
  gc_committed :: bool
  gc_file :: "u8 list option"

definition GUEST_REPORT_MAX_BYTES :: nat where "GUEST_REPORT_MAX_BYTES = 256 * 1024"

definition guest_report_begin :: "Guest_Report_Collector \<Rightarrow> Guest_Report_Status \<times> Guest_Report_Collector" where
  "guest_report_begin c =
     (if \<not> gc_artifacts c then (Artifacts_Disabled, c)
      else if gc_active c \<or> gc_committed c then (Bad_State, c)
      else if \<not> gc_can_begin c then (Host_Io, c)
      else (Ok, c\<lparr>gc_bytes := [], gc_active := True\<rparr>))"

definition guest_report_append :: "u8 list \<Rightarrow> Guest_Report_Collector \<Rightarrow> Guest_Report_Status \<times> Guest_Report_Collector" where
  "guest_report_append payload c =
     (if \<not> gc_artifacts c then (Artifacts_Disabled, c)
      else if \<not> gc_active c \<or> gc_committed c then (Bad_State, c)
      else if length payload < 1 \<or> length payload > 30 then (Bad_Length, c)
      else if length (gc_bytes c) > GUEST_REPORT_MAX_BYTES - length payload then (Overflow, c)
      else (Ok, c\<lparr>gc_bytes := gc_bytes c @ payload\<rparr>))"

definition guest_report_commit :: "Guest_Report_Collector \<Rightarrow> Guest_Report_Status \<times> Guest_Report_Collector" where
  "guest_report_commit c =
     (if \<not> gc_artifacts c then (Artifacts_Disabled, c)
      else if \<not> gc_active c \<or> gc_committed c \<or> gc_bytes c = [] then (Bad_State, c)
      else if \<not> gc_can_publish c then (Host_Io, c)
      else (Ok, c\<lparr>gc_file := Some (gc_bytes c), gc_active := False, gc_committed := True, gc_bytes := []\<rparr>))"

definition guest_report_abort :: "Guest_Report_Collector \<Rightarrow> Guest_Report_Status \<times> Guest_Report_Collector" where
  "guest_report_abort c =
     (if \<not> gc_artifacts c then (Artifacts_Disabled, c)
      else if \<not> gc_active c \<or> gc_committed c then (Bad_State, c)
      else (Ok, c\<lparr>gc_active := False, gc_bytes := []\<rparr>))"

record test_device =
  td_index :: u8
  td_regs :: "u8 \<Rightarrow> u8"
  td_collector :: Guest_Report_Collector

definition test_device_report_payload :: "(u8 \<Rightarrow> u8) \<Rightarrow> u8 list option" where
  "test_device_report_payload regs =
     (if regs 30 < 1 \<or> regs 30 > 30 then None else Some (map (\<lambda>i. regs (of_nat i)) [0..<unat (regs 30)]))"

text \<open>The commands of the report; the host services the others elsewhere.\<close>

definition report_service :: "u8 \<Rightarrow> test_device \<Rightarrow> test_device" where
  "report_service command d =
     (let c = td_collector d; answer = (\<lambda>(st, c). d\<lparr>td_regs := (td_regs d)(31 := report_status_code st), td_collector := c\<rparr>) in
      if command = 4 then answer (guest_report_begin c)
      else if command = 5
      then answer (case test_device_report_payload (td_regs d) of
                     None \<Rightarrow> (if gc_artifacts c then Bad_Length else Artifacts_Disabled, c)
                   | Some payload \<Rightarrow> guest_report_append payload c)
      else if command = 6 then answer (guest_report_commit c)
      else if command = 7 then answer (guest_report_abort c)
      else d)"

definition test_device_next :: "test_device \<Rightarrow> test_device" where
  "test_device_next d = d\<lparr>td_index := (td_index d + 1) mod 32\<rparr>"

definition test_device_write :: "u16 \<Rightarrow> u8 \<Rightarrow> test_device \<Rightarrow> test_device" where
  "test_device_write port v d =
     (if port = 0xE4 then d\<lparr>td_index := v\<rparr>
      else if port = 0xE5
      then test_device_next (if td_index d < 32 then d\<lparr>td_regs := (td_regs d)(td_index d := v)\<rparr> else d)
      else if port = 0xE6 then report_service v d
      else d)"

definition test_device_read :: "u16 \<Rightarrow> test_device \<Rightarrow> u8 \<times> test_device" where
  "test_device_read port d =
     (if port = 0xE4 then (td_index d, d)
      else if port = 0xE5 then (if td_index d < 32 then td_regs d (td_index d) else 0, test_device_next d)
      else (0, d))"

definition host_ports :: "test_device ports" where
  "host_ports = \<lparr>outb = test_device_write, inb = test_device_read\<rparr>"

section \<open>The transfer is exact\<close>

lemma register_write_host:
  "index < 32 \<Longrightarrow> probe_register_write host_ports index v d =
     d\<lparr>td_index := (index + 1) mod 32, td_regs := (td_regs d)(index := v)\<rparr>"
  by (simp add: probe_register_write_def host_ports_def test_device_write_def test_device_next_def
      GSW_PORT_INDEX_def GSW_PORT_DATA_def)

lemma status_nonzero: "report_status_code st = 0 \<longleftrightarrow> st = Unprocessed" "report_status_code st = 1 \<longleftrightarrow> st = Ok"
  by (cases st; simp add: report_status_code_def)+

lemma poll_host:
  "td_regs d 31 \<noteq> 0 \<Longrightarrow> gsw_command_poll host_ports (Suc n) d = (td_regs d 31 = 1, d\<lparr>td_index := 0\<rparr>)"
  by (simp add: probe_register_read_def host_ports_def test_device_write_def test_device_read_def test_device_next_def
      GSW_PORT_INDEX_def GSW_PORT_DATA_def GSW_HOST_OK_def)

text \<open>A command of the report: the collector answers, and the status is in register 31.\<close>

definition collector_step :: "u8 \<Rightarrow> (u8 \<Rightarrow> u8) \<Rightarrow> Guest_Report_Collector \<Rightarrow> Guest_Report_Status \<times> Guest_Report_Collector" where
  "collector_step command regs c =
     (if command = 4 then guest_report_begin c
      else if command = 5
      then (case test_device_report_payload regs of
              None \<Rightarrow> (if gc_artifacts c then Bad_Length else Artifacts_Disabled, c)
            | Some payload \<Rightarrow> guest_report_append payload c)
      else if command = 6 then guest_report_commit c
      else guest_report_abort c)"

lemma report_service_step:
  "command \<in> {4, 5, 6, 7} \<Longrightarrow> report_service command d =
     (let (st, c) = collector_step command (td_regs d) (td_collector d)
      in d\<lparr>td_regs := (td_regs d)(31 := report_status_code st), td_collector := c\<rparr>)"
  by (auto simp: report_service_def collector_step_def Let_def split: prod.splits)

lemma payload_status [simp]: "test_device_report_payload (regs(31 := v)) = test_device_report_payload regs"
proof -
  have "of_nat i \<noteq> (31 :: u8)" if "i < unat (regs 30)" "\<not> regs 30 > 30" for i
  proof
    assume e: "of_nat i = (31 :: u8)"
    have "i < 31" using that by (simp add: word_less_nat_alt)
    then have "unat (of_nat i :: u8) = i" by (simp add: unat_of_nat)
    then show False using e \<open>i < 31\<close> by simp
  qed
  then show ?thesis by (auto simp: test_device_report_payload_def)
qed

lemma step_status [simp]: "collector_step command (regs(31 := v)) c = collector_step command regs c"
  by (simp add: collector_step_def)

lemma collector_processed: "collector_step command regs c = (st, c') \<Longrightarrow> st \<noteq> Unprocessed"
  by (auto simp: collector_step_def guest_report_begin_def guest_report_append_def guest_report_commit_def
      guest_report_abort_def split: if_splits option.splits)

lemma command_host:
  assumes "command \<in> {4, 5, 6, 7}" "collector_step command (td_regs d) (td_collector d) = (st, c)"
  shows "probe_command host_ports command d =
     (st = Ok, d\<lparr>td_index := 0, td_regs := (td_regs d)(31 := report_status_code st), td_collector := c\<rparr>)"
proof -
  let ?d = "d\<lparr>td_index := 0, td_regs := (td_regs d)(31 := report_status_code st), td_collector := c\<rparr>"
  have w: "probe_register_write host_ports 31 0 d = d\<lparr>td_index := 0, td_regs := (td_regs d)(31 := 0)\<rparr>"
    by (simp add: register_write_host)
  have o: "outb host_ports GSW_PORT_COMMAND command e = report_service command e" for e
    by (simp add: host_ports_def test_device_write_def GSW_PORT_COMMAND_def)
  have "outb host_ports GSW_PORT_COMMAND command (probe_register_write host_ports 31 0 d) = ?d"
    using assms unfolding w o by (simp add: report_service_step)
  moreover have "st \<noteq> Unprocessed" using assms(2) by (rule collector_processed)
  ultimately show ?thesis
    using poll_host [of ?d 1999] unfolding probe_command_def by (simp add: status_nonzero del: gsw_command_poll.simps)
qed

lemma small_byte: "i < 32 \<Longrightarrow> unat (of_nat i :: u8) = i"
  by (simp add: unat_of_nat)

lemma small_byte_eq: "i < 32 \<Longrightarrow> j < 32 \<Longrightarrow> of_nat i = (of_nat j :: u8) \<longleftrightarrow> i = j"
  by (metis small_byte)

text \<open>The bytes of a chunk are in the registers.\<close>

lemma chunk_registers:
  "n \<le> length chunk \<Longrightarrow> n \<le> 30 \<Longrightarrow>
   \<exists>i regs. fold (\<lambda>index s. probe_register_write host_ports (of_nat index) (chunk ! index) s) [0..<n] d =
       d\<lparr>td_index := i, td_regs := regs\<rparr> \<and> (\<forall>k < n. regs (of_nat k) = chunk ! k)"
proof (induction n)
  case 0
  show ?case by (rule exI [of _ "td_index d"], rule exI [of _ "td_regs d"]) simp
next
  case (Suc n)
  then obtain i regs where IH: "fold (\<lambda>index s. probe_register_write host_ports (of_nat index) (chunk ! index) s) [0..<n] d =
       d\<lparr>td_index := i, td_regs := regs\<rparr>" "\<forall>k < n. regs (of_nat k) = chunk ! k" by auto
  have "of_nat n < (32 :: u8)" using Suc.prems small_byte [of n] by (simp add: word_less_nat_alt)
  moreover have "of_nat k \<noteq> (of_nat n :: u8)" if "k < n" for k using that Suc.prems small_byte_eq [of k n] by simp
  ultimately show ?case
    by (auto simp: IH register_write_host less_Suc_eq intro!: exI [of _ "regs(of_nat n := chunk ! n)"])
qed

lemma chunk_host:
  assumes "chunk \<noteq> []" "length chunk \<le> 30"
  shows "\<exists>i regs. publish_chunk host_ports chunk d =
     (let (st, c) = guest_report_append chunk (td_collector d)
      in (st = Ok, d\<lparr>td_index := i, td_regs := regs, td_collector := c\<rparr>))"
proof -
  obtain i regs where f: "fold (\<lambda>index s. probe_register_write host_ports (of_nat index) (chunk ! index) s) [0..<length chunk] d =
       d\<lparr>td_index := i, td_regs := regs\<rparr>" "\<forall>k < length chunk. regs (of_nat k) = chunk ! k"
    using chunk_registers [of "length chunk" chunk d] assms(2) by auto
  define r where "r = regs(30 := of_nat (length chunk))"
  have ne: "of_nat k \<noteq> (30 :: u8)" if "k < length chunk" for k
    using small_byte_eq [of k 30] that assms(2) by simp
  have "test_device_report_payload r = Some chunk"
  proof -
    have l: "unat (of_nat (length chunk) :: u8) = length chunk" using assms(2) by (simp add: small_byte)
    then have "\<not> of_nat (length chunk) < (1 :: u8)" "\<not> of_nat (length chunk) > (30 :: u8)"
      using assms by (auto simp: word_less_nat_alt)
    then show ?thesis using f(2) l ne by (auto simp: test_device_report_payload_def r_def intro!: nth_equalityI)
  qed
  then have s: "collector_step 5 r (td_collector d) = guest_report_append chunk (td_collector d)" by (simp add: collector_step_def)
  obtain st c where a: "guest_report_append chunk (td_collector d) = (st, c)" by (cases "guest_report_append chunk (td_collector d)")
  have "probe_command host_ports 5 (d\<lparr>td_index := 31, td_regs := r\<rparr>) =
     (st = Ok, d\<lparr>td_index := 0, td_regs := r(31 := report_status_code st), td_collector := c\<rparr>)"
    using command_host [of 5 "d\<lparr>td_index := 31, td_regs := r\<rparr>" st c] s a by simp
  then show ?thesis
    by (auto simp: publish_chunk_def f(1) Let_def register_write_host GSW_REPORT_APPEND_def a r_def)
qed

lemma loop_host:
  "gc_artifacts (td_collector d) \<Longrightarrow> gc_active (td_collector d) \<Longrightarrow> \<not> gc_committed (td_collector d) \<Longrightarrow>
   length (gc_bytes (td_collector d)) + length rest \<le> GUEST_REPORT_MAX_BYTES \<Longrightarrow>
   \<exists>i regs. publish_loop host_ports rest d =
     (True, d\<lparr>td_index := i, td_regs := regs, td_collector := (td_collector d)\<lparr>gc_bytes := gc_bytes (td_collector d) @ rest\<rparr>\<rparr>)"
proof (induction rest arbitrary: d rule: length_induct)
  case (1 rest)
  show ?case
  proof (cases "rest = []")
    case True
    then show ?thesis
      by (auto simp: publish_loop.simps [of _ "[]"] intro!: exI [of _ "td_index d"] exI [of _ "td_regs d"])
  next
    case False
    let ?c = "td_collector d" and ?t = "take 30 rest"
    have a: "guest_report_append ?t ?c = (Ok, ?c\<lparr>gc_bytes := gc_bytes ?c @ ?t\<rparr>)"
      using 1(2-) False by (cases rest) (auto simp: guest_report_append_def)
    obtain i regs where p: "publish_chunk host_ports ?t d =
        (True, d\<lparr>td_index := i, td_regs := regs, td_collector := ?c\<lparr>gc_bytes := gc_bytes ?c @ ?t\<rparr>\<rparr>)"
      using chunk_host [of ?t d] False by (auto simp: a)
    define d1 where "d1 = d\<lparr>td_index := i, td_regs := regs, td_collector := ?c\<lparr>gc_bytes := gc_bytes ?c @ ?t\<rparr>\<rparr>"
    have m: "length (gc_bytes (td_collector d1)) + length (drop 30 rest) \<le> GUEST_REPORT_MAX_BYTES"
      using 1(5) by (auto simp: d1_def min_def)
    have "length (drop 30 rest) < length rest" using False by (cases rest) auto
    then obtain j regs' where "publish_loop host_ports (drop 30 rest) d1 =
        (True, d1\<lparr>td_index := j, td_regs := regs', td_collector := (td_collector d1)\<lparr>gc_bytes := gc_bytes (td_collector d1) @ drop 30 rest\<rparr>\<rparr>)"
      using 1(1) [rule_format, of "drop 30 rest" d1] 1(2-4) m by (auto simp: d1_def)
    then show ?thesis using False p
      by (auto simp: publish_loop.simps [of _ rest] d1_def Let_def)
  qed
qed

text \<open>
  C31. The report reaches the host exactly or not at all: with a host that has no report yet, the
  transfer of a report of any bytes succeeds exactly when the host keeps artifacts and its files
  allow it, then the published file is the report byte for byte, and otherwise nothing is
  published; in both cases no transfer is left open.
\<close>

theorem probe_publish_exact:
  assumes "rp_bytes report \<noteq> []" "length (rp_bytes report) \<le> GSW_REPORT_CAP"
    and "\<not> gc_active (td_collector d)" "\<not> gc_committed (td_collector d)" "gc_file (td_collector d) = None"
  shows "let (published, d') = gsw_host_publish host_ports report d; c = td_collector d in
    published = (gc_artifacts c \<and> gc_can_begin c \<and> gc_can_publish c) \<and>
    gc_file (td_collector d') = (if published then Some (rp_bytes report) else None) \<and> \<not> gc_active (td_collector d')"
proof -
  let ?c = "td_collector d" and ?b = "rp_bytes report"
  note cs = collector_step_def guest_report_begin_def guest_report_commit_def guest_report_abort_def
  obtain st c where s: "collector_step 4 (td_regs d) ?c = (st, c)" by (cases "collector_step 4 (td_regs d) ?c")
  then have k: "probe_command host_ports 4 d =
     (st = Ok, d\<lparr>td_index := 0, td_regs := (td_regs d)(31 := report_status_code st), td_collector := c\<rparr>)"
    by (intro command_host) auto
  show ?thesis
  proof (cases "st = Ok")
    case False
    then show ?thesis using s k assms
      by (auto simp: gsw_host_publish_def GSW_REPORT_BEGIN_def cs split: if_splits)
  next
    case True
    then have c: "c = ?c\<lparr>gc_bytes := [], gc_active := True\<rparr>" "gc_artifacts ?c" "gc_can_begin ?c"
      using s by (auto simp: cs split: if_splits)
    define d1 where "d1 = d\<lparr>td_index := 0, td_regs := (td_regs d)(31 := report_status_code st), td_collector := c\<rparr>"
    obtain i regs where l: "publish_loop host_ports ?b d1 =
        (True, d1\<lparr>td_index := i, td_regs := regs, td_collector := c\<lparr>gc_bytes := ?b\<rparr>\<rparr>)"
      using loop_host [of d1 ?b] c assms(2,4) by (auto simp: d1_def GSW_REPORT_CAP_def GUEST_REPORT_MAX_BYTES_def)
    define d2 where "d2 = d1\<lparr>td_index := i, td_regs := regs, td_collector := c\<lparr>gc_bytes := ?b\<rparr>\<rparr>"
    have k4: "probe_command host_ports 4 d = (True, d1)" using k True by (simp add: d1_def)
    have l': "publish_loop host_ports ?b d1 = (True, d2)" using l by (simp add: d2_def)
    have c2: "td_collector d2 = c\<lparr>gc_bytes := ?b\<rparr>" by (simp add: d2_def)
    obtain st' c' where s6: "collector_step 6 (td_regs d2) (td_collector d2) = (st', c')"
      by (cases "collector_step 6 (td_regs d2) (td_collector d2)")
    obtain d3 where k6: "probe_command host_ports 6 d2 = (st' = Ok, d3)" "td_collector d3 = c'"
      using command_host [OF _ s6] by simp
    have p: "gsw_host_publish host_ports report d =
        (if st' = Ok then (True, d3) else (False, snd (probe_command host_ports 7 d3)))"
      using assms(1,2) k4 l' k6(1)
      by (simp add: gsw_host_publish_def GSW_REPORT_BEGIN_def GSW_REPORT_COMMIT_def GSW_REPORT_ABORT_def)
    show ?thesis
    proof (cases "gc_can_publish ?c")
      case True
      then have "st' = Ok \<and> gc_file c' = Some ?b \<and> \<not> gc_active c'" using s6 c assms by (auto simp: c2 cs)
      then show ?thesis using p k6(2) c True by simp
    next
      case False
      then have s': "st' = Host_Io \<and> c' = c\<lparr>gc_bytes := ?b\<rparr>" using s6 c assms by (auto simp: c2 cs)
      obtain st7 c7 where s7: "collector_step 7 (td_regs d3) (td_collector d3) = (st7, c7)"
        by (cases "collector_step 7 (td_regs d3) (td_collector d3)")
      then have "\<not> gc_active c7 \<and> gc_file c7 = None" using s' c assms k6(2) by (auto simp: cs split: if_splits)
      then show ?thesis using p s' False command_host [OF _ s7] by simp
    qed
  qed
qed

lemma probe_publish_exact_witness:
  defines "d \<equiv> \<lparr>td_index = 0, td_regs = (\<lambda>_. 0), td_collector = \<lparr>gc_artifacts = True, gc_can_begin = True, gc_can_publish = True,
      gc_bytes = [], gc_active = False, gc_committed = False, gc_file = None\<rparr>\<rparr>"
  shows "gc_file (td_collector (snd (gsw_host_publish host_ports (report_zero\<lparr>rp_bytes := [1, 2, 3]\<rparr>) d))) = Some [1, 2, 3]"
  using probe_publish_exact [of "report_zero\<lparr>rp_bytes := [1, 2, 3]\<rparr>" d]
  by (auto simp: d_def GSW_REPORT_CAP_def Let_def split: prod.splits)

end
