(* ===== verification/Probe_Pattern.thy ===== *)
theory Probe_Pattern
  imports Probe_Runtime
begin

text \<open>
  The pictures of the graphics diagnostic and their checksum
  (\<^verbatim>\<open>guest-tools/gsw-graphics-probe/crc32.c\<close> and \<^verbatim>\<open>pattern.c\<close>).

  The memory of a picture is a function from offsets; an address is computed in 32 bits, as in the
  guest.
\<close>

section \<open>The checksum\<close>

definition crc_bit :: "u32 \<Rightarrow> u32" where
  "crc_bit crc = (drop_bit 1 crc) XOR (0xEDB88320 AND (0 - (crc AND 1)))"

definition crc_byte :: "u32 \<Rightarrow> u8 \<Rightarrow> u32" where
  "crc_byte crc b = (crc_bit ^^ 8) (crc XOR ucast b)"

definition gsw_crc32 :: "u8 list option \<Rightarrow> u32" where
  "gsw_crc32 pixels =
     (case pixels of
        None \<Rightarrow> 0
      | Some bytes \<Rightarrow> if bytes = [] then 0 else foldl crc_byte 0xFFFFFFFF bytes XOR 0xFFFFFFFF)"

section \<open>The picture\<close>

definition probe_bytes_per_pixel :: "u32 \<Rightarrow> u32" where
  "probe_bytes_per_pixel bpp =
     (if bpp = 8 then 1 else if bpp = 15 \<or> bpp = 16 then 2 else if bpp = 24 then 3 else if bpp = 32 then 4 else 0)"

definition GSW_PATTERN_BYTES :: u32 where "GSW_PATTERN_BYTES = 16 * 1024 * 1024"

text \<open>The size to allocate and the pitch, or nothing when the picture is refused.\<close>

definition gsw_pattern_size :: "u32 \<Rightarrow> u32 \<Rightarrow> u32 \<Rightarrow> (u32 \<times> u32) option" where
  "gsw_pattern_size width height bpp =
     (let bytes = probe_bytes_per_pixel bpp in
      if bytes = 0 then None
      else
        (case gsw_checked_multiply width bytes of None \<Rightarrow> None
         | Some row \<Rightarrow> (case gsw_checked_multiply row height of None \<Rightarrow> None
             | Some extent \<Rightarrow>
                 if extent > GSW_PATTERN_BYTES then None
                 else
                   (let pitch = (row + 3) AND NOT 3 in
                    case gsw_checked_multiply pitch height of None \<Rightarrow> None
                    | Some extent \<Rightarrow> if extent > GSW_PATTERN_BYTES then None else Some (extent, pitch)))))"

definition gsw_pattern_allocate :: "'s probe_env \<Rightarrow> u32 \<Rightarrow> u32 \<Rightarrow> u32 \<Rightarrow> 's \<Rightarrow> (u32 \<times> u32) option \<times> 's" where
  "gsw_pattern_allocate e width height bpp s =
     (case gsw_pattern_size width height bpp of
        None \<Rightarrow> (None, s)
      | Some (extent, pitch) \<Rightarrow>
          (let (allocated, s) = HeapAlloc_bytes e extent s in (if allocated then Some (extent, pitch) else None, s)))"

definition gsw_pattern_release :: "'s probe_env \<Rightarrow> bool \<Rightarrow> 's \<Rightarrow> 's" where
  "gsw_pattern_release e present s = (if present then HeapFree_bytes e s else s)"

text \<open>The checksum of the rows, without the padding between them.\<close>

definition crc_row :: "(u32 \<Rightarrow> u8) \<Rightarrow> u32 \<Rightarrow> u32 \<Rightarrow> u32 \<Rightarrow> u32" where
  "crc_row pixels row row_bytes crc =
     fold (\<lambda>index crc. crc_byte crc (pixels (row + of_nat index))) [0..<unat row_bytes] crc"

definition gsw_pattern_crc :: "(u32 \<Rightarrow> u8) option \<Rightarrow> u32 \<Rightarrow> u32 \<Rightarrow> u32 \<Rightarrow> u32 \<Rightarrow> u32" where
  "gsw_pattern_crc pixels pitch width height bpp =
     (let bytes = probe_bytes_per_pixel bpp in
      case pixels of
        None \<Rightarrow> 0
      | Some m \<Rightarrow>
          if bytes = 0 then 0
          else
            (case gsw_checked_multiply width bytes of None \<Rightarrow> 0
             | Some row_bytes \<Rightarrow>
                 if pitch < row_bytes then 0
                 else fold (\<lambda>y crc. crc_row m (of_nat y * pitch) row_bytes crc) [0..<unat height] 0xFFFFFFFF XOR 0xFFFFFFFF))"

definition gsw_pattern_rgb :: "u32 \<Rightarrow> u32 \<Rightarrow> u32 \<Rightarrow> u32 \<Rightarrow> u32 \<Rightarrow> u32" where
  "gsw_pattern_rgb x y width height pattern =
     (let (r, g, b) =
        (if pattern = 0
         then (if width > 1 then x * 255 div (width - 1) else 0,
               if height > 1 then y * 255 div (height - 1) else 0,
               if ((drop_bit 4 x) XOR (drop_bit 4 y)) AND 1 \<noteq> 0 then 0xE0 else 0x20)
         else
           (let tile = ((x div 31) + (y div 23)) AND 7
            in ((tile * 37 + x) AND 255, (tile * 67 + y) AND 255, (tile * 97 + x + y) AND 255)))
      in (push_bit 16 r) OR (push_bit 8 g) OR b)"

text \<open>The bytes of one pixel.\<close>

definition gsw_pack_pixel :: "u32 \<Rightarrow> u32 \<Rightarrow> u8 list" where
  "gsw_pack_pixel bpp rgb =
     (let r = (drop_bit 16 rgb) AND 255; g = (drop_bit 8 rgb) AND 255; b = rgb AND 255 in
      if bpp = 8 then [ucast ((r AND 0xE0) OR ((drop_bit 3 g) AND 0x1C) OR (drop_bit 6 b))]
      else if bpp = 15
      then (let value = ucast ((push_bit 10 (drop_bit 3 r)) OR (push_bit 5 (drop_bit 3 g)) OR (drop_bit 3 b)) :: u16
            in [ucast value, ucast (drop_bit 8 value)])
      else if bpp = 16
      then (let value = ucast ((push_bit 11 (drop_bit 3 r)) OR (push_bit 5 (drop_bit 2 g)) OR (drop_bit 3 b)) :: u16
            in [ucast value, ucast (drop_bit 8 value)])
      else [ucast b, ucast g, ucast r] @ (if bpp = 32 then [0] else []))"

definition put_bytes :: "u32 \<Rightarrow> u8 list \<Rightarrow> (u32 \<Rightarrow> u8) \<Rightarrow> (u32 \<Rightarrow> u8)" where
  "put_bytes a bs m = fold (\<lambda>k m. m(a + of_nat k := bs ! k)) [0..<length bs] m"

definition render_row :: "u32 \<Rightarrow> u32 \<Rightarrow> u32 \<Rightarrow> u32 \<Rightarrow> u32 \<Rightarrow> u32 \<Rightarrow> (u32 \<Rightarrow> u8) \<Rightarrow> (u32 \<Rightarrow> u8)" where
  "render_row y pitch width height bpp pattern m =
     fold (\<lambda>x m. put_bytes (y * pitch + of_nat x * probe_bytes_per_pixel bpp)
         (gsw_pack_pixel bpp (gsw_pattern_rgb (of_nat x) y width height (pattern AND 1))) m) [0..<unat width] m"

definition gsw_pattern_render ::
    "(u32 \<Rightarrow> u8) option \<Rightarrow> u32 \<Rightarrow> u32 \<Rightarrow> u32 \<Rightarrow> u32 \<Rightarrow> u32 \<Rightarrow> (u32 \<Rightarrow> u8) option" where
  "gsw_pattern_render pixels pitch width height bpp pattern =
     (let bytes = probe_bytes_per_pixel bpp in
      case pixels of
        None \<Rightarrow> None
      | Some m \<Rightarrow>
          if bytes = 0 \<or> pitch < width * bytes then None
          else Some (fold (\<lambda>y m. render_row (of_nat y) pitch width height bpp pattern m) [0..<unat height] m))"

section \<open>The checksum is linear and loses nothing\<close>

lemma crc_bit_bits: "bit (crc_bit x) n = (bit x (n + 1) \<noteq> (bit x 0 \<and> bit (0xEDB88320 :: u32) n))"
proof -
  have "x AND 1 = (if bit x 0 then 1 else 0)" by (simp add: and_one_eq bit_0 odd_iff_mod_2_eq_one)
  moreover have "bit (x :: u32) (n + 1) = False" if "\<not> n < 32" using that by (auto dest: bit_imp_le_length)
  ultimately show ?thesis by (cases "n < 32") (auto simp: crc_bit_def bit_simps dest: bit_imp_le_length)
qed

lemma crc_bit_linear: "crc_bit (x XOR y) = crc_bit x XOR crc_bit y"
  by (rule bit_eqI) (auto simp: crc_bit_bits bit_simps)

lemma crc_bits_linear: "(crc_bit ^^ n) (x XOR y) = (crc_bit ^^ n) x XOR (crc_bit ^^ n) y"
  by (induction n) (simp_all add: crc_bit_linear)

lemma crc_bit_inj: "inj crc_bit"
proof (rule injI, rule bit_eqI)
  fix x y :: u32 and n
  assume e: "crc_bit x = crc_bit y"
  have b: "bit (crc_bit x) n = bit (crc_bit y) n" for n using e by simp
  have z: "bit x 0 = bit y 0" using b [of 31] by (simp add: crc_bit_bits bit_imp_le_length) (auto dest: bit_imp_le_length)
  show "bit x n = bit y n"
  proof (cases n)
    case (Suc k)
    then show ?thesis using b [of k] z by (auto simp: crc_bit_bits)
  qed (use z in simp)
qed

lemma crc_bits_inj: "((crc_bit ^^ n) x = (crc_bit ^^ n) y) = (x = y)"
  using inj_fn [OF crc_bit_inj, of n] by (simp add: inj_eq)

lemma crc_bits_shift:
  assumes "\<And>i. i < n \<Longrightarrow> \<not> bit x i"
  shows "(crc_bit ^^ n) x = drop_bit n x"
  using assms
proof (induction n arbitrary: x)
  case (Suc n)
  have z: "bit (crc_bit x) i = bit x (Suc i)" for i using Suc.prems [of 0] by (simp add: crc_bit_bits)
  have "(crc_bit ^^ Suc n) x = (crc_bit ^^ n) (crc_bit x)" by (simp add: funpow_swap1)
  also have "\<dots> = drop_bit n (crc_bit x)" using Suc.prems by (intro Suc.IH) (simp add: z)
  also have "\<dots> = drop_bit (Suc n) x" by (rule bit_eqI) (simp add: bit_simps z)
  finally show ?case .
qed simp

text \<open>Four bytes act on the state as one word does.\<close>

definition le_word :: "u8 \<Rightarrow> u8 \<Rightarrow> u8 \<Rightarrow> u8 \<Rightarrow> u32" where
  "le_word a b c d = ucast a XOR push_bit 8 (ucast b) XOR push_bit 16 (ucast c) XOR push_bit 24 (ucast d)"

lemma crc_byte_push:
  assumes "m \<le> 16"
  shows "(crc_bit ^^ 8) (push_bit (8 + m) (ucast (b :: u8))) = push_bit m (ucast b)"
proof -
  have "(crc_bit ^^ 8) (push_bit (8 + m) (ucast b)) = drop_bit 8 (push_bit (8 + m) (ucast b :: u32))"
    by (rule crc_bits_shift) (simp add: bit_simps)
  also have "\<dots> = push_bit m (ucast b)"
    using assms by (intro bit_eqI) (auto simp: bit_simps dest: bit_imp_le_length)
  finally show ?thesis .
qed

lemma crc_four: "foldl crc_byte s [a, b, c, d] = (crc_bit ^^ 32) (s XOR le_word a b c d)"
proof -
  have f: "(crc_bit ^^ 32) x = (crc_bit ^^ 8) ((crc_bit ^^ 8) ((crc_bit ^^ 8) ((crc_bit ^^ 8) x)))" for x
    by (simp flip: funpow_add comp_apply [of "crc_bit ^^ 8"])
  have g: "(crc_bit ^^ 8) (push_bit 8 (ucast x)) = ucast x" "(crc_bit ^^ 8) (push_bit 16 (ucast x)) = push_bit 8 (ucast x)"
    "(crc_bit ^^ 8) (push_bit 24 (ucast x)) = push_bit 16 (ucast x)" for x :: u8
    using crc_byte_push [of 0 x] crc_byte_push [of 8 x] crc_byte_push [of 16 x] by simp_all
  show ?thesis
    unfolding f le_word_def by (simp add: crc_byte_def crc_bits_linear g ac_simps)
qed

lemma le_word_bit:
  "n < 32 \<Longrightarrow> bit (le_word a b c d) n =
     (if n < 8 then bit a n else if n < 16 then bit b (n - 8) else if n < 24 then bit c (n - 16) else bit d (n - 24))"
  by (auto simp: le_word_def bit_simps dest: bit_imp_le_length)

lemma le_word_inj: "le_word a b c d = le_word a' b' c' d' \<longleftrightarrow> a = a' \<and> b = b' \<and> c = c' \<and> d = d'"
proof
  assume e: "le_word a b c d = le_word a' b' c' d'"
  have n: "bit (le_word a b c d) k = bit (le_word a' b' c' d') k" for k using e by simp
  show "a = a' \<and> b = b' \<and> c = c' \<and> d = d'"
  proof (intro conjI bit_word_eqI)
    fix k :: nat assume "k < LENGTH(8)"
    then have k: "k < 8" by simp
    show "bit a k = bit a' k" "bit b k = bit b' k" "bit c k = bit c' k" "bit d k = bit d' k"
      using n [of k] n [of "k + 8"] n [of "k + 16"] n [of "k + 24"] k by (simp_all add: le_word_bit)
  qed
qed simp

lemma xor_cancel: "s XOR x = s' XOR x \<longleftrightarrow> s = s'" "x XOR s = x XOR s' \<longleftrightarrow> s = s'" for x s s' :: u32
proof -
  have u: "(y XOR x) XOR x = y" "x XOR (x XOR y) = y" for y by (simp add: xor.assoc, simp flip: xor.assoc)
  show "s XOR x = s' XOR x \<longleftrightarrow> s = s'" "x XOR s = x XOR s' \<longleftrightarrow> s = s'"
    using u by (auto dest: arg_cong [where f = "\<lambda>y. y XOR x"] arg_cong [where f = "\<lambda>y. x XOR y"])
qed

lemma crc_byte_inj: "crc_byte s b = crc_byte s' b \<longleftrightarrow> s = s'"
  by (simp add: crc_byte_def crc_bits_inj xor_cancel)

lemma crc_bytes_inj: "foldl crc_byte s bs = foldl crc_byte s' bs \<longleftrightarrow> s = s'"
  by (induction bs arbitrary: s s') (simp_all add: crc_byte_inj)

text \<open>
  The checksum detects every change inside four consecutive bytes, so every burst error of up to
  32 bits: two byte sequences that agree outside a window of four bytes have the same checksum
  exactly when they agree inside it.
\<close>

theorem crc_detects_bursts:
  "gsw_crc32 (Some (xs @ [a, b, c, d] @ ys)) = gsw_crc32 (Some (xs @ [a', b', c', d'] @ ys)) \<longleftrightarrow>
     a = a' \<and> b = b' \<and> c = c' \<and> d = d'"
proof -
  define s where "s = foldl crc_byte 0xFFFFFFFF xs"
  have "gsw_crc32 (Some (xs @ [p, q, r, t] @ ys)) = foldl crc_byte (foldl crc_byte s [p, q, r, t]) ys XOR 0xFFFFFFFF" for p q r t
    by (simp add: gsw_crc32_def s_def del: foldl.simps flip: foldl_append)
  then show ?thesis
    by (simp add: xor_cancel crc_bytes_inj crc_four crc_bits_inj le_word_inj del: foldl.simps(2))
qed

section \<open>The picture in memory\<close>

lemma pack_length: "probe_bytes_per_pixel bpp \<noteq> 0 \<Longrightarrow> length (gsw_pack_pixel bpp rgb) = unat (probe_bytes_per_pixel bpp)"
  by (auto simp: probe_bytes_per_pixel_def gsw_pack_pixel_def Let_def split: if_splits)

lemma fold_put:
  assumes "unat (a :: u32) + n \<le> 2 ^ 32"
  shows "fold (\<lambda>k m. m(a + of_nat k := bs ! k)) [0..<n] m q =
     (if unat a \<le> unat q \<and> unat q < unat a + n then bs ! (unat q - unat a) else m q)"
  using assms
proof (induction n)
  case (Suc n)
  have "unat (a + of_nat n) = unat a + n" using Suc.prems by (simp add: unat_word_ariths unat_of_nat)
  then have "q = a + of_nat n \<longleftrightarrow> unat q = unat a + n" by (metis word_unat_eq_iff)
  then show ?case using Suc by auto
qed auto

lemma put_bytes_at:
  "unat a + length bs \<le> 2 ^ 32 \<Longrightarrow>
   put_bytes a bs m q = (if unat a \<le> unat q \<and> unat q < unat a + length bs then bs ! (unat q - unat a) else m q)"
  unfolding put_bytes_def by (rule fold_put)

text \<open>Cells of equal size one after the other, as the pixels of a row and the rows of a picture.\<close>

lemma fold_cells:
  fixes start :: nat
  assumes stamp: "\<And>x m q. x < n \<Longrightarrow> stamp x m q =
      (if start + x * b \<le> unat q \<and> unat q < start + x * b + c then f x (unat q - (start + x * b)) else m q)"
    and "0 < b" "c \<le> b"
  shows "fold stamp [0..<n] m q =
     (if start \<le> unat q \<and> unat q < start + n * b \<and> (unat q - start) mod b < c
      then f ((unat q - start) div b) ((unat q - start) mod b) else m (q :: u32))"
  using stamp
proof (induction n)
  case (Suc n)
  have IH: "fold stamp [0..<n] m q =
     (if start \<le> unat q \<and> unat q < start + n * b \<and> (unat q - start) mod b < c
      then f ((unat q - start) div b) ((unat q - start) mod b) else m q)"
    using Suc by simp
  have w: "fold stamp [0..<Suc n] m q =
     (if start + n * b \<le> unat q \<and> unat q < start + n * b + c then f n (unat q - (start + n * b)) else fold stamp [0..<n] m q)"
    using Suc.prems [of n] by simp
  show ?case
  proof (cases "start + n * b \<le> unat q \<and> unat q < start + n * b + b")
    case True
    define d where "d = unat q - start"
    have d: "n * b \<le> d" "d < n * b + b" "unat q = start + d" using True by (auto simp: d_def)
    then have "d div b = n" "d mod b = d - n * b" using \<open>0 < b\<close> by (simp_all add: div_nat_eqI modulo_nat_def mult.commute)
    then show ?thesis unfolding w IH using d \<open>c \<le> b\<close> by auto
  next
    case False
    then show ?thesis unfolding w IH using \<open>c \<le> b\<close> by auto
  qed
qed auto

text \<open>The picture, written down directly.\<close>

definition pattern_byte :: "u32 \<Rightarrow> u32 \<Rightarrow> u32 \<Rightarrow> u32 \<Rightarrow> nat \<Rightarrow> nat \<Rightarrow> u8" where
  "pattern_byte width height bpp pattern y i =
     (let b = unat (probe_bytes_per_pixel bpp) in
      gsw_pack_pixel bpp (gsw_pattern_rgb (of_nat (i div b)) (of_nat y) width height (pattern AND 1)) ! (i mod b))"

text \<open>A picture that is allocated is at most 16 MiB; with rows in it the pitch holds one.\<close>

lemma pattern_size_bounds:
  assumes "gsw_pattern_size width height bpp = Some (extent, pitch)"
  shows "probe_bytes_per_pixel bpp \<noteq> 0" "unat extent = unat pitch * unat height" "unat extent \<le> 2 ^ 24"
    "unat (width * probe_bytes_per_pixel bpp) = unat width * unat (probe_bytes_per_pixel bpp)"
    "height \<noteq> 0 \<Longrightarrow> unat width * unat (probe_bytes_per_pixel bpp) \<le> unat pitch"
proof -
  obtain row where r: "probe_bytes_per_pixel bpp \<noteq> 0" "gsw_checked_multiply width (probe_bytes_per_pixel bpp) = Some row"
    "\<exists>s. gsw_checked_multiply row height = Some s \<and> s \<le> GSW_PATTERN_BYTES" "pitch = (row + 3) AND NOT 3"
    "gsw_checked_multiply pitch height = Some extent" "extent \<le> GSW_PATTERN_BYTES"
    using assms by (auto simp: gsw_pattern_size_def Let_def not_less split: if_splits option.splits)
  show "probe_bytes_per_pixel bpp \<noteq> 0" by (rule r)
  show "unat extent = unat pitch * unat height" by (rule checked_multiply_unat [OF r(5)])
  show "unat extent \<le> 2 ^ 24" using r(6) by (simp add: GSW_PATTERN_BYTES_def word_le_nat_alt)
  have row: "row = width * probe_bytes_per_pixel bpp" "unat row = unat width * unat (probe_bytes_per_pixel bpp)"
    using r(2) checked_multiply_unat [OF r(2)] by (simp_all add: checked_multiply_Some)
  then show "unat (width * probe_bytes_per_pixel bpp) = unat width * unat (probe_bytes_per_pixel bpp)" by simp
  assume h: "height \<noteq> 0"
  obtain s :: u32 where s: "unat s = unat row * unat height" "unat s \<le> 2 ^ 24"
  proof -
    obtain s where s: "gsw_checked_multiply row height = Some s" "s \<le> GSW_PATTERN_BYTES" using r(3) by blast
    show thesis
      using s(2) by (intro that [of s] checked_multiply_unat [OF s(1)]) (simp add: GSW_PATTERN_BYTES_def word_le_nat_alt)
  qed
  have "1 \<le> unat height" using h by (simp add: unat_gt_0 Suc_leI)
  then have "unat row \<le> unat row * unat height" by simp
  then have "unat row \<le> 2 ^ 24" using s by linarith
  then have "unat (row + 3) = unat row + 3" by (simp add: unat_word_ariths)
  moreover have "unat ((row + 3) AND NOT 3) = 4 * (unat (row + 3) div 4)"
  proof -
    have e: "2 \<le> n \<Longrightarrow> Suc (Suc (n - 2)) = n" for n :: nat by simp
    have "(row + 3) AND NOT (mask 2) = push_bit 2 (drop_bit 2 (row + 3))"
      by (intro bit_word_eqI) (auto simp: bit_simps not_less e)
    moreover have "mask 2 = (3 :: u32)" by (simp add: mask_eq_exp_minus_1)
    ultimately show ?thesis
      using unsigned_less [of "row + 3", where ?'a = nat]
      by (simp add: push_bit_eq_mult drop_bit_eq_div unat_word_ariths unat_div)
  qed
  ultimately show "unat width * unat (probe_bytes_per_pixel bpp) \<le> unat pitch" using row(2) r(4) by simp
qed

lemma render_row_at:
  assumes "probe_bytes_per_pixel bpp \<noteq> 0" "unat y * unat pitch + unat width * unat (probe_bytes_per_pixel bpp) \<le> 2 ^ 32"
    "unat y * unat pitch < 2 ^ 32"
  shows "render_row y pitch width height bpp pattern m q =
     (if unat y * unat pitch \<le> unat q \<and> unat q < unat y * unat pitch + unat width * unat (probe_bytes_per_pixel bpp)
      then pattern_byte width height bpp pattern (unat y) (unat q - unat y * unat pitch) else m q)"
proof -
  let ?b = "probe_bytes_per_pixel bpp"
  have b: "0 < unat ?b" using assms(1) by (simp add: unat_gt_0)
  have stamp: "put_bytes (y * pitch + of_nat x * ?b) (gsw_pack_pixel bpp c) m q =
      (if unat y * unat pitch + x * unat ?b \<le> unat q \<and> unat q < unat y * unat pitch + x * unat ?b + unat ?b
       then gsw_pack_pixel bpp c ! (unat q - (unat y * unat pitch + x * unat ?b)) else m q)"
    if "x < unat width" for x c m q
  proof -
    have "x * unat ?b + unat ?b \<le> unat width * unat ?b" using that mult_le_mono1 [of "Suc x" "unat width" "unat ?b"] by simp
    then have le: "unat y * unat pitch + x * unat ?b + unat ?b \<le> 2 ^ 32" using assms(2) by simp
    have "unat (of_nat x :: u32) = x" using that unsigned_less [of width, where ?'a = nat] by (simp add: unat_of_nat)
    then have "unat (y * pitch + of_nat x * ?b) = unat y * unat pitch + x * unat ?b"
      using le b assms(3) by (simp add: unat_word_ariths)
    then show ?thesis using le by (subst put_bytes_at) (simp_all add: pack_length [OF assms(1)])
  qed
  have "(unat q - unat y * unat pitch) mod unat ?b < unat ?b" using b by simp
  then show ?thesis
    unfolding render_row_def using b
    by (subst fold_cells [where start = "unat y * unat pitch" and b = "unat ?b" and c = "unat ?b"
          and f = "\<lambda>x k. gsw_pack_pixel bpp (gsw_pattern_rgb (of_nat x) y width height (pattern AND 1)) ! k"])
      (simp_all add: stamp pattern_byte_def Let_def)
qed

text \<open>
  A rendered picture is exactly the picture: every byte of a pixel has the value that the pattern
  and the depth give it, and nothing else is written, neither the padding between the rows nor
  anything outside the block that was allocated for it.
\<close>

theorem pattern_render_exact:
  "case gsw_pattern_size width height bpp of None \<Rightarrow> True
   | Some (extent, pitch) \<Rightarrow>
      (case gsw_pattern_render (Some m) pitch width height bpp pattern of None \<Rightarrow> height = 0
       | Some m' \<Rightarrow> m' q =
          (if unat q < unat extent \<and> unat q mod unat pitch < unat width * unat (probe_bytes_per_pixel bpp)
           then pattern_byte width height bpp pattern (unat q div unat pitch) (unat q mod unat pitch) else m q))"
proof (cases "gsw_pattern_size width height bpp")
  case (Some r)
  then obtain extent pitch where s: "gsw_pattern_size width height bpp = Some (extent, pitch)" by (cases r) auto
  note b = pattern_size_bounds [OF s]
  let ?row = "unat width * unat (probe_bytes_per_pixel bpp)"
  show ?thesis
  proof (cases "pitch < width * probe_bytes_per_pixel bpp")
    case True
    then have "height = 0" using b(4,5) by (auto simp: word_less_nat_alt)
    then show ?thesis using s True by (simp add: gsw_pattern_render_def)
  next
    case False
    then have row: "?row \<le> unat pitch" using b(4) by (simp add: word_less_nat_alt)
    have "fold (\<lambda>y m. render_row (of_nat y) pitch width height bpp pattern m) [0..<unat height] m q =
        (if unat q < unat extent \<and> unat q mod unat pitch < ?row
         then pattern_byte width height bpp pattern (unat q div unat pitch) (unat q mod unat pitch) else m q)"
    proof (cases "pitch = 0")
      case True
      then have "width = 0" using row b(1) by (simp add: unat_eq_0)
      then have "render_row y pitch width height bpp pattern m = m" for y m by (simp add: render_row_def)
      moreover have "fold (\<lambda>y m. m) xs m = m" for xs :: "nat list" by (induction xs) simp_all
      ultimately show ?thesis using True b(2) by simp
    next
      case False
      have stamp: "render_row (of_nat y) pitch width height bpp pattern m q =
          (if 0 + y * unat pitch \<le> unat q \<and> unat q < 0 + y * unat pitch + ?row
           then pattern_byte width height bpp pattern y (unat q - (0 + y * unat pitch)) else m q)"
        if "y < unat height" for y m q
      proof -
        have "y * unat pitch + unat pitch \<le> unat height * unat pitch"
          using that mult_le_mono1 [of "Suc y" "unat height" "unat pitch"] by simp
        then have "y * unat pitch + ?row \<le> 2 ^ 24" using b(2,3) row by (simp add: mult.commute)
        moreover have "unat (of_nat y :: u32) = y" using that unsigned_less [of height, where ?'a = nat] by (simp add: unat_of_nat)
        ultimately show ?thesis using b(1) by (simp add: render_row_at)
      qed
      show ?thesis
        using False row b(2)
        by (subst fold_cells [where start = 0 and b = "unat pitch" and c = ?row and n = "unat height"
              and f = "\<lambda>y i. pattern_byte width height bpp pattern y i"])
          (simp_all add: stamp unat_gt_0 mult.commute)
    qed
    then show ?thesis using s False b(1) by (simp add: gsw_pattern_render_def)
  qed
qed simp

section \<open>The checksum of a picture\<close>

lemma fold_crc: "fold (\<lambda>i crc. crc_byte crc (h i)) xs crc = foldl crc_byte crc (map h xs)"
  by (induction xs arbitrary: crc) simp_all

lemma fold_crc_rows: "fold (\<lambda>y crc. foldl crc_byte crc (g y)) ys crc = foldl crc_byte crc (concat (map g ys))"
  by (induction ys arbitrary: crc) simp_all

lemma crc_row_foldl:
  "crc_row m row n = (\<lambda>crc. foldl crc_byte crc (map (\<lambda>i. m (row + of_nat i)) [0..<unat n]))"
  by (rule ext) (simp add: crc_row_def fold_crc)

lemma crc_all: "gsw_crc32 (Some bytes) = foldl crc_byte 0xFFFFFFFF bytes XOR 0xFFFFFFFF"
  by (simp add: gsw_crc32_def)

text \<open>
  The checksum of a picture covers exactly its pixels: it is the checksum of the bytes of the rows
  one after the other, whatever the pitch leaves between them, and zero where the geometry is
  refused.
\<close>

theorem pattern_crc_active:
  "gsw_pattern_crc (Some m) pitch width height bpp =
     (let b = unat (probe_bytes_per_pixel bpp) in
      if b = 0 \<or> unat width * b \<ge> 2 ^ 32 \<or> unat pitch < unat width * b then 0
      else gsw_crc32 (Some (concat (map (\<lambda>y. map (\<lambda>i. m (of_nat y * pitch + of_nat i)) [0..<unat width * b])
             [0..<unat height]))))"
proof (cases "gsw_checked_multiply width (probe_bytes_per_pixel bpp)")
  case None
  then show ?thesis
    using checked_multiply_Some [of width "probe_bytes_per_pixel bpp"] by (auto simp: gsw_pattern_crc_def Let_def not_less)
next
  case (Some row)
  note u = checked_multiply_unat [OF Some]
  have "unat width * unat (probe_bytes_per_pixel bpp) < 2 ^ 32" using Some by (simp add: checked_multiply_Some)
  then show ?thesis
    by (simp add: gsw_pattern_crc_def Let_def Some crc_row_foldl fold_crc_rows crc_all word_less_nat_alt
        unat_eq_0 flip: u)
qed

text \<open>
  The workload is deterministic: the checksum reported for a rendered picture depends only on its
  geometry, its depth and the pattern, not on what the block held before.
\<close>

theorem pattern_crc_deterministic:
  "case gsw_pattern_size width height bpp of None \<Rightarrow> True
   | Some (extent, pitch) \<Rightarrow>
      (case gsw_pattern_render (Some m) pitch width height bpp pattern of None \<Rightarrow> height = 0
       | Some m' \<Rightarrow> gsw_pattern_crc (Some m') pitch width height bpp =
          gsw_crc32 (Some (concat (map (\<lambda>y. map (pattern_byte width height bpp pattern y)
            [0..<unat width * unat (probe_bytes_per_pixel bpp)]) [0..<unat height]))))"
proof (cases "gsw_pattern_size width height bpp")
  case (Some r)
  then obtain extent pitch where s: "gsw_pattern_size width height bpp = Some (extent, pitch)" by (cases r) auto
  note b = pattern_size_bounds [OF s]
  let ?row = "unat width * unat (probe_bytes_per_pixel bpp)"
  show ?thesis
  proof (cases "gsw_pattern_render (Some m) pitch width height bpp pattern")
    case None
    then show ?thesis using s pattern_render_exact [where m = m and width = width and height = height and bpp = bpp and pattern = pattern] by simp
  next
    case m': (Some m')
    have at: "m' q = (if unat q < unat extent \<and> unat q mod unat pitch < ?row
        then pattern_byte width height bpp pattern (unat q div unat pitch) (unat q mod unat pitch) else m q)" for q
      using pattern_render_exact [where m = m and width = width and height = height and bpp = bpp and pattern = pattern and q = q] by (simp add: s m')
    have row: "?row \<le> unat pitch" "?row < 2 ^ 32"
      using m' b(4) unsigned_less [of "width * probe_bytes_per_pixel bpp", where ?'a = nat]
      by (auto simp: gsw_pattern_render_def Let_def word_less_nat_alt not_less split: if_splits)
    have cell: "m' (of_nat y * pitch + of_nat i) = pattern_byte width height bpp pattern y i" if "y < unat height" "i < ?row" for y i
    proof -
      have "y * unat pitch + unat pitch \<le> unat extent"
        using that(1) mult_le_mono1 [of "Suc y" "unat height" "unat pitch"] b(2) by (simp add: mult.commute)
      then have le: "y * unat pitch + i < unat extent" using that(2) row(1) by simp
      have "unat (of_nat y :: u32) = y" using that unsigned_less [of height, where ?'a = nat] by (simp add: unat_of_nat)
      moreover have "unat (of_nat i :: u32) = i" using that row(2) by (simp add: unat_of_nat)
      ultimately have "unat (of_nat y * pitch + of_nat i) = y * unat pitch + i"
        using le b(3) by (simp add: unat_word_ariths)
      then show ?thesis using le that(2) row(1) by (simp add: at)
    qed
    have "gsw_crc32 (Some (concat (map (\<lambda>y. map (\<lambda>i. m' (of_nat y * pitch + of_nat i)) [0..<?row]) [0..<unat height]))) =
        gsw_crc32 (Some (concat (map (\<lambda>y. map (pattern_byte width height bpp pattern y) [0..<?row]) [0..<unat height])))"
      by (intro arg_cong [where f = "\<lambda>l. gsw_crc32 (Some (concat l))"] map_cong refl) (simp_all add: cell)
    then show ?thesis
      using s m' b(1) row by (simp add: pattern_crc_active Let_def not_less unat_eq_0 not_le)
  qed
qed simp

end
