(* ===== verification/Probe_Session.thy ===== *)
theory Probe_Session
  imports Probe_Host Probe_Pattern
begin

text \<open>
  A run of the graphics diagnostic (\<^verbatim>\<open>guest-tools/gsw-graphics-probe/session.c\<close>): the
  counters and the list of the worst rows, the tests of an adapter, the self-test, the import of the
  rows of the companion (\<^verbatim>\<open>vbe_import.c\<close>), the summary on the screen
  (\<^verbatim>\<open>summary.c\<close>) and the exit code.

  The adapters are parameters: an operation on a mode fills a row and may change the session. What
  may not return, because the benchmark may not, is an option.
\<close>

section \<open>Tracking rows\<close>

definition GSW_WORST_CAP :: nat where "GSW_WORST_CAP = 8"

definition gsw_status_rank :: "GSW_STATUS \<Rightarrow> u32" where
  "gsw_status_rank status = (if status = GSW_STATUS_FAIL then 3 else if status = GSW_STATUS_WARN then 2 else 1)"

definition gsw_worse :: "GSW_ROW \<Rightarrow> GSW_ROW \<Rightarrow> bool" where
  "gsw_worse row other \<longleftrightarrow>
     gsw_status_rank (rw_status row) > gsw_status_rank (rw_status other) \<or>
     (gsw_status_rank (rw_status row) = gsw_status_rank (rw_status other) \<and>
      mt_p95_us (rw_metrics row) > mt_p95_us (rw_metrics other))"

text \<open>
  The row goes before the first one it is worse than; the ones behind move up by one, the last one of
  a full list is overwritten.
\<close>

definition worst_insert :: "GSW_ROW \<Rightarrow> GSW_ROW list \<Rightarrow> GSW_ROW list" where
  "worst_insert row worst =
     (let index = length (takeWhile (\<lambda>other. \<not> gsw_worse row other) worst) in
      if index < GSW_WORST_CAP then take GSW_WORST_CAP (take index worst @ row # drop index worst) else worst)"

definition gsw_track_row :: "GSW_ROW \<Rightarrow> GSW_SESSION \<Rightarrow> GSW_SESSION" where
  "gsw_track_row row ss =
     (let ss = gsw_count_row row ss in
      if rw_status row = GSW_STATUS_PASS then ss else ss\<lparr>ss_worst := worst_insert row (ss_worst ss)\<rparr>)"

definition gsw_record :: "GSW_ROW \<Rightarrow> GSW_SESSION \<Rightarrow> bool \<times> GSW_SESSION" where
  "gsw_record row ss =
     (let ss = gsw_track_row row ss;
          (written, report) = gsw_report_mode row (ss_report ss);
          ss = ss\<lparr>ss_report := report\<rparr>
      in if \<not> written then (False, ss\<lparr>ss_report_failed := True\<rparr>) else (True, ss))"

text \<open>A row of the text fields given; a text that does not fit leaves its field empty.\<close>

definition row_field :: "u32 \<Rightarrow> c_text \<Rightarrow> c_text" where
  "row_field capacity t = snd (gsw_text_copy [] capacity (Some t))"

definition E_NOINTERFACE :: u32 where "E_NOINTERFACE = 0x80004002"
definition ERROR_BAD_FORMAT :: u32 where "ERROR_BAD_FORMAT = 11"

definition gsw_unavailable :: "c_text \<Rightarrow> c_text \<Rightarrow> GSW_SESSION \<Rightarrow> bool \<times> GSW_SESSION" where
  "gsw_unavailable adapter detail =
     gsw_record (row_zero\<lparr>rw_adapter := row_field 16 adapter, rw_path := row_field 16 (lit ''NONE''),
       rw_detail := row_field GSW_DETAIL_CAP detail, rw_status := GSW_STATUS_UNAVAILABLE, rw_api_code := E_NOINTERFACE\<rparr>)"

section \<open>An adapter\<close>

type_synonym 's mode_operation = "GSW_MODE \<Rightarrow> GSW_SESSION \<Rightarrow> 's \<Rightarrow> ((bool \<times> GSW_ROW) \<times> GSW_SESSION \<times> 's) option"

record 's GSW_ADAPTER =
  ad_name :: c_text
  ad_enumerate :: "GSW_SESSION \<Rightarrow> 's \<Rightarrow> (bool \<times> GSW_MODE list) \<times> GSW_SESSION \<times> 's"
  ad_smoke :: "'s mode_operation"
  ad_feature :: "'s mode_operation option"
  ad_benchmark :: "'s mode_operation"
  ad_restore :: "GSW_SESSION \<Rightarrow> 's \<Rightarrow> bool \<times> GSW_SESSION \<times> 's"

text \<open>
  One operation on a mode, the restoration of the desktop and the record of the row; \<open>between\<close> is
  what happens before the restoration. The result says whether the run is still complete.
\<close>

definition gsw_mode_pass :: "'s GSW_ADAPTER \<Rightarrow> 's mode_operation \<Rightarrow> (GSW_SESSION \<Rightarrow> 's \<Rightarrow> 's) \<Rightarrow> GSW_MODE \<Rightarrow>
    bool \<Rightarrow> GSW_SESSION \<Rightarrow> 's \<Rightarrow> (bool \<times> GSW_SESSION \<times> 's) option" where
  "gsw_mode_pass adapter operation between mode completed ss s =
     (case operation mode ss s of
        None \<Rightarrow> None
      | Some ((successful, row), ss, s) \<Rightarrow>
          (let s = between ss s;
               (restored, ss, s) = ad_restore adapter ss s;
               (row, ss) = (if \<not> restored then (row\<lparr>rw_status := GSW_STATUS_FAIL\<rparr>, ss\<lparr>ss_restore_failed := True\<rparr>) else (row, ss));
               row = (if \<not> successful then row\<lparr>rw_status := GSW_STATUS_FAIL\<rparr> else row);
               (recorded, ss) = gsw_record row ss
           in Some (completed \<and> recorded \<and> successful, ss, s)))"

fun gsw_smoke_modes :: "'s GSW_ADAPTER \<Rightarrow> GSW_MODE list \<Rightarrow> bool \<Rightarrow> GSW_SESSION \<Rightarrow> 's \<Rightarrow> (bool \<times> GSW_SESSION \<times> 's) option" where
  "gsw_smoke_modes adapter [] completed ss s = Some (completed, ss, s)"
| "gsw_smoke_modes adapter (mode # modes) completed ss s =
     (case gsw_mode_pass adapter (ad_smoke adapter) (\<lambda>ss s. s) mode completed ss s of
        None \<Rightarrow> None
      | Some (completed, ss, s) \<Rightarrow>
          (case ad_feature adapter of
             None \<Rightarrow> gsw_smoke_modes adapter modes completed ss s
           | Some feature \<Rightarrow>
               (case gsw_mode_pass adapter feature (\<lambda>ss s. s) mode completed ss s of
                  None \<Rightarrow> None
                | Some (completed, ss, s) \<Rightarrow> gsw_smoke_modes adapter modes completed ss s)))"

definition gsw_selected :: "'s GSW_ADAPTER \<Rightarrow> GSW_SESSION \<Rightarrow> GSW_MODE \<Rightarrow> bool" where
  "gsw_selected adapter ss mode \<longleftrightarrow>
     (if gsw_text_equal (Some (ad_name adapter)) (Some (lit ''DIRECT3D'')) \<and> \<not> op_exhaustive (ss_options ss) \<and> md_width mode < 640
      then False
      else op_exhaustive (ss_options ss) \<or> gsw_mode_is_canonical mode)"

definition gsw_capture_mode :: "'s ports \<Rightarrow> GSW_MODE \<Rightarrow> GSW_SESSION \<Rightarrow> 's \<Rightarrow> 's" where
  "gsw_capture_mode p mode ss s =
     (if op_host_report (ss_options ss) \<and> op_capture (ss_options ss) then snd (gsw_host_capture p (ucast (md_id mode)) s) else s)"

fun gsw_benchmark_modes :: "'s ports \<Rightarrow> 's GSW_ADAPTER \<Rightarrow> GSW_MODE list \<Rightarrow> bool \<Rightarrow> GSW_SESSION \<Rightarrow> 's \<Rightarrow>
    (bool \<times> GSW_SESSION \<times> 's) option" where
  "gsw_benchmark_modes p adapter [] completed ss s = Some (completed, ss, s)"
| "gsw_benchmark_modes p adapter (mode # modes) completed ss s =
     (if \<not> gsw_selected adapter ss mode then gsw_benchmark_modes p adapter modes completed ss s
      else
        (case gsw_mode_pass adapter (ad_benchmark adapter) (gsw_capture_mode p mode) mode completed ss s of
           None \<Rightarrow> None
         | Some (completed, ss, s) \<Rightarrow> gsw_benchmark_modes p adapter modes completed ss s))"

definition gsw_adapter_run :: "'s ports \<Rightarrow> 's GSW_ADAPTER \<Rightarrow> GSW_SESSION \<Rightarrow> 's \<Rightarrow> (bool \<times> GSW_SESSION \<times> 's) option" where
  "gsw_adapter_run p adapter ss s =
     (let ((available, modes), ss, s) = ad_enumerate adapter ss s;
          d3d = gsw_text_equal (Some (ad_name adapter)) (Some (lit ''DIRECT3D''))
      in if \<not> available
         then (let (_, ss) = gsw_unavailable (ad_name adapter)
                   (if d3d then lit ''D3D7_OR_D3D3_UNAVAILABLE'' else lit ''ADAPTER_UNAVAILABLE'') ss
               in Some (d3d, ss, s))
         else
           (case gsw_smoke_modes adapter modes True ss s of
              None \<Rightarrow> None
            | Some (completed, ss, s) \<Rightarrow> gsw_benchmark_modes p adapter modes completed ss s))"

section \<open>The self-test\<close>

definition gsw_self_frame :: "u32 \<Rightarrow> u32 \<Rightarrow> u32 \<times> 's \<Rightarrow> (bool \<times> u32) \<times> (u32 \<times> 's)" where
  "gsw_self_frame frame crc st =
     (let v = fst st * 1664525 + 1013904223 + frame in ((True, v), (v, snd st)))"

text \<open>The services with the context of the frame beside the state.\<close>

definition on_snd :: "('s \<Rightarrow> 'r \<times> 's) \<Rightarrow> 'c \<times> 's \<Rightarrow> 'r \<times> 'c \<times> 's" where
  "on_snd f st = (let (r, s) = f (snd st) in (r, fst st, s))"

definition lift_env :: "'s probe_env \<Rightarrow> (u32 \<times> 's) probe_env" where
  "lift_env e =
     \<lparr>GetTickCount = on_snd (GetTickCount e), QueryPerformanceFrequency = on_snd (QueryPerformanceFrequency e),
      QueryPerformanceCounter = on_snd (QueryPerformanceCounter e), GetCommandLineA = GetCommandLineA e,
      EnumDisplaySettingsA = on_snd (EnumDisplaySettingsA e), ChangeDisplaySettingsA = on_snd (ChangeDisplaySettingsA e),
      GetDC = on_snd (GetDC e), GetSystemMetrics_screen = (\<lambda>st. GetSystemMetrics_screen e (snd st)),
      GetDeviceCaps_depth = (\<lambda>dc st. GetDeviceCaps_depth e dc (snd st)), ReleaseDC = (\<lambda>dc. on_snd (ReleaseDC e dc)),
      HeapAlloc_bytes = (\<lambda>n. on_snd (HeapAlloc_bytes e n)), HeapFree_bytes = apsnd (HeapFree_bytes e),
      gsw_window_pump = apsnd (gsw_window_pump e)\<rparr>"

text \<open>\<open>fresh\<close> are the bytes of the allocated picture before it is drawn.\<close>

definition gsw_self_test :: "'s probe_env \<Rightarrow> (u32 \<Rightarrow> u8) \<Rightarrow> GSW_SESSION \<Rightarrow> 's \<Rightarrow> (bool \<times> GSW_SESSION \<times> 's) option" where
  "gsw_self_test e fresh ss s =
     (let row = row_zero\<lparr>rw_adapter := row_field 16 (lit ''SELFTEST''), rw_path := row_field 16 (lit ''SYNTHETIC''),
            rw_mode := \<lparr>md_id = 0, md_width = 64, md_height = 64, md_bpp = 32, md_hz = 0, md_flags = 0\<rparr>\<rparr>;
          (allocated, s) = gsw_pattern_allocate e 64 64 32 s;
          pitch = (case allocated of None \<Rightarrow> 0 | Some (extent, pitch) \<Rightarrow> pitch);
          picture = (case allocated of None \<Rightarrow> None | Some _ \<Rightarrow> gsw_pattern_render (Some fresh) pitch 64 64 32 0);
          crc = gsw_pattern_crc picture pitch 64 64 32;
          success = (picture \<noteq> None \<and> crc \<noteq> 0 \<and> crc = gsw_pattern_crc picture pitch 64 64 32);
          measured = (if success
            then (case gsw_benchmark (lift_env e) gsw_self_frame (ss_timer ss) (0, s) of
                    None \<Rightarrow> None
                  | Some (benchmarked, metrics, timer, st) \<Rightarrow>
                      Some (benchmarked, row\<lparr>rw_metrics := metrics\<rparr>, ss\<lparr>ss_timer := timer\<rparr>, snd st))
            else Some (False, row, ss, s))
      in case measured of
           None \<Rightarrow> None
         | Some (success, row, ss, s) \<Rightarrow>
             (let pixels = (case allocated of None \<Rightarrow> None | Some _ \<Rightarrow> (if picture = None then Some fresh else picture));
                  row = row\<lparr>rw_status := (if success then mt_status (rw_metrics row) else GSW_STATUS_FAIL),
                    rw_metrics := (rw_metrics row)\<lparr>mt_crc32 := mt_crc32 (rw_metrics row) XOR
                      (if pixels \<noteq> None then gsw_pattern_crc pixels pitch 64 64 32 else 0)\<rparr>,
                    rw_detail := row_field GSW_DETAIL_CAP (if success then lit ''METRICS_FORMAT_CRC'' else lit ''SELF_TEST_FAILED'')\<rparr>;
                  s = gsw_pattern_release e (pixels \<noteq> None) s;
                  (recorded, ss) = gsw_record row ss
              in Some (recorded \<and> success, ss, s)))"

section \<open>The rows of the companion\<close>

text \<open>What the import asks of Windows: processes and the file of the companion.\<close>

record 's vbe_services =
  DeleteFileA :: "'s \<Rightarrow> bool \<times> 's"
  CreateProcessA :: "c_text \<Rightarrow> 's \<Rightarrow> bool \<times> 's"
  WaitForSingleObject :: "u32 \<Rightarrow> 's \<Rightarrow> bool \<times> 's"
  GetExitCodeProcess :: "'s \<Rightarrow> u32 option \<times> 's"
  CreateFileA :: "'s \<Rightarrow> bool \<times> 's"
  GetFileSize :: "'s \<Rightarrow> u32 \<times> 's"
  ReadFile :: "u32 \<Rightarrow> 's \<Rightarrow> u8 list option \<times> 's"
  CloseFile :: "'s \<Rightarrow> 's"
  CloseProcess :: "'s \<Rightarrow> 's"

text \<open>The companion is started and must end in two minutes with exit code 0.\<close>

definition vbe_companion :: "'s vbe_services \<Rightarrow> c_text \<Rightarrow> 's \<Rightarrow> (bool \<times> bool) \<times> 's" where
  "vbe_companion v command s =
     (let (_, s) = DeleteFileA v s;
          (created, s) = CreateProcessA v command s
      in if \<not> created then ((False, False), s)
         else
           (let (ended, s) = WaitForSingleObject v 120000 s in
            if \<not> ended then ((True, False), s)
            else (let (code, s) = GetExitCodeProcess v s in ((True, code = Some 0), s))))"

text \<open>The open file is read whole and its rows are taken over; the flags say what to release.\<close>

definition vbe_take :: "'s vbe_services \<Rightarrow> 's probe_env \<Rightarrow> GSW_SESSION \<Rightarrow> 's \<Rightarrow> (bool \<times> bool \<times> GSW_SESSION) \<times> 's" where
  "vbe_take v e ss s =
     (let (bytes, s) = GetFileSize v s in
      if bytes = 0xFFFFFFFF \<or> bytes = 0 \<or> bytes > 128 * 1024 then ((False, False, ss), s)
      else
        (let (allocated, s) = HeapAlloc_bytes e bytes s in
         if \<not> allocated then ((False, False, ss), s)
         else
           (let (read, s) = ReadFile v bytes s in
            case read of
              None \<Rightarrow> ((False, True, ss), s)
            | Some data \<Rightarrow>
                if length data \<noteq> unat bytes then ((False, True, ss), s)
                else
                  (let (imported, report) = gsw_report_import_rows (Some data) (ss_report ss);
                       ss = ss\<lparr>ss_report := report\<rparr>
                   in if \<not> imported then ((False, True, ss), s)
                      else ((True, True, gsw_vbe_count data ss), s)))))"

definition gsw_vbe_import :: "'s vbe_services \<Rightarrow> 's probe_env \<Rightarrow> GSW_SESSION \<Rightarrow> 's \<Rightarrow> bool \<times> GSW_SESSION \<times> 's" where
  "gsw_vbe_import v e ss s =
     (let command = (if op_exhaustive (ss_options ss) then lit ''C:'' @ [0x5C] @ lit ''GSWGFX'' @ [0x5C] @ lit ''GSWVBE.EXE /exhaustive''
                     else lit ''C:'' @ [0x5C] @ lit ''GSWGFX'' @ [0x5C] @ lit ''GSWVBE.EXE'');
          ((created, ready), s) =
            (if op_import_vbe (ss_options ss) then ((False, True), s) else vbe_companion v command s)
      in if \<not> ready \<and> \<not> created then (False, ss, s)
         else
           (let (opened, s) = (if ready then CreateFileA v s else (False, s));
                ((success, allocated, ss), s) = (if opened then vbe_take v e ss s else ((False, False, ss), s));
                s = (if opened then CloseFile v s else s);
                s = (if allocated then HeapFree_bytes e s else s);
                s = (if created then CloseProcess v s else s)
            in if \<not> success then (False, ss, s)
               else (let (deleted, s) = DeleteFileA v s in (deleted, ss, s))))"

section \<open>The summary on the screen\<close>

record 's screen =
  summary_begin :: "'s \<Rightarrow> bool \<times> 's"
  TextOutA :: "u32 \<Rightarrow> u32 \<Rightarrow> c_text \<Rightarrow> 's \<Rightarrow> 's"
  summary_end :: "'s \<Rightarrow> 's"

text \<open>The text behind a text already in the line.\<close>

definition gsw_summary_text :: "c_text \<Rightarrow> c_text \<Rightarrow> c_text" where
  "gsw_summary_text line t = line @ t"

definition gsw_summary_decimal :: "c_text \<Rightarrow> u32 \<Rightarrow> c_text" where
  "gsw_summary_decimal line n = line @ (if n = 0 then [0x30] else rev (decimal_digits 11 n))"

definition gsw_summary_line :: "'s screen \<Rightarrow> u32 \<Rightarrow> c_text \<Rightarrow> u32 \<Rightarrow> 's \<Rightarrow> 's" where
  "gsw_summary_line sc y label n = TextOutA sc 32 y (gsw_summary_decimal (gsw_summary_text [] label) n)"

definition summary_row_text :: "GSW_ROW \<Rightarrow> c_text" where
  "summary_row_text row =
     (let line = gsw_summary_text [] (rw_adapter row);
          line = gsw_summary_text line (lit '' ''); line = gsw_summary_decimal line (md_width (rw_mode row));
          line = gsw_summary_text line (lit ''x''); line = gsw_summary_decimal line (md_height (rw_mode row));
          line = gsw_summary_text line (lit ''x''); line = gsw_summary_decimal line (md_bpp (rw_mode row));
          line = gsw_summary_text line (lit '' p95_us=''); line = gsw_summary_decimal line (mt_p95_us (rw_metrics row));
          line = gsw_summary_text line (lit '' '')
      in gsw_summary_text line (rw_detail row))"

definition gsw_draw_summary :: "'s screen \<Rightarrow> 's probe_env \<Rightarrow> GSW_SESSION \<Rightarrow> GSW_STATUS \<Rightarrow> 's \<Rightarrow> bool \<times> 's" where
  "gsw_draw_summary sc e ss status s =
     (let overall = (if status = GSW_STATUS_FAIL then lit ''FAIL'' else if status = GSW_STATUS_WARN then lit ''WARN'' else lit ''PASS'');
          (begun, s) = summary_begin sc s
      in if \<not> begun then (False, s)
         else
           (let s = TextOutA sc 32 24 (lit ''GSWGFX DIAGNOSTIC'') s;
                s = TextOutA sc 32 50 overall s;
                s = gsw_summary_line sc 82 (lit ''Tested: '') (ss_tested ss) s;
                s = gsw_summary_line sc 102 (lit ''Failed: '') (ss_failed ss) s;
                s = gsw_summary_line sc 122 (lit ''Warnings: '') (ss_warnings ss) s;
                s = gsw_summary_line sc 142 (lit ''Unavailable: '') (ss_unavailable ss) s;
                (tick, s) = GetTickCount e s;
                s = gsw_summary_line sc 162 (lit ''Elapsed ms: '') (tick - ss_started_tick ss) s;
                s = TextOutA sc 32 196 (lit ''Worst rows'') s;
                (y, s) = fold (\<lambda>row (y, s). (y + 20, TextOutA sc 48 y (summary_row_text row) s)) (ss_worst ss) (220, s)
            in (True, summary_end sc s)))"

section \<open>The run\<close>

record 's run_env =
  re_base :: "'s probe_env"
  re_ports :: "'s ports"
  re_vbe :: "'s vbe_services"
  re_screen :: "'s screen"
  re_adapters :: "'s GSW_ADAPTER list"
  gsw_window_create :: "'s \<Rightarrow> bool \<times> 's"
  re_fresh :: "u32 \<Rightarrow> u8"

definition gsw_report_release :: "'s probe_env \<Rightarrow> bool \<Rightarrow> 's \<Rightarrow> 's" where
  "gsw_report_release e present s = (if present then HeapFree_bytes e s else s)"

definition adapter_selected :: "GSW_OPTIONS \<Rightarrow> nat \<Rightarrow> bool" where
  "adapter_selected opts index \<longleftrightarrow>
     (\<not> op_gdi_only opts \<and> \<not> op_ddraw_only opts \<and> \<not> op_d3d_only opts) \<or> (index = 0 \<and> op_gdi_only opts) \<or>
     (index = 1 \<and> op_ddraw_only opts) \<or> (index = 2 \<and> op_d3d_only opts)"

fun gsw_run_adapters :: "'s ports \<Rightarrow> nat \<Rightarrow> 's GSW_ADAPTER list \<Rightarrow> bool \<Rightarrow> GSW_SESSION \<Rightarrow> 's \<Rightarrow> (bool \<times> GSW_SESSION \<times> 's) option" where
  "gsw_run_adapters p index [] completed ss s = Some (completed, ss, s)"
| "gsw_run_adapters p index (adapter # adapters) completed ss s =
     (let opts = ss_options ss in
      if \<not> adapter_selected opts index then gsw_run_adapters p (index + 1) adapters completed ss s
      else if (op_bounded opts \<and> index \<noteq> 0) \<or> (op_no_d3d opts \<and> index = 2)
      then (let (recorded, ss) = gsw_unavailable (ad_name adapter) (lit ''BOUNDED_GUEST_ADAPTER'') ss
            in gsw_run_adapters p (index + 1) adapters (completed \<and> recorded) ss s)
      else
        (case gsw_adapter_run p adapter ss s of
           None \<Rightarrow> None
         | Some (finished, ss, s) \<Rightarrow> gsw_run_adapters p (index + 1) adapters (completed \<and> finished) ss s))"

text \<open>The tests of a run that is not a self-test.\<close>

definition gsw_run_tests :: "'s run_env \<Rightarrow> GSW_SESSION \<Rightarrow> 's \<Rightarrow> (bool \<times> GSW_SESSION \<times> 's) option" where
  "gsw_run_tests r ss s =
     (let (imported, ss, s) = gsw_vbe_import (re_vbe r) (re_base r) ss s;
          ss = (if imported then ss
                else snd (gsw_record (row_zero\<lparr>rw_adapter := row_field 16 (lit ''VGA_VBE''),
                  rw_path := row_field 16 (lit ''DOS_COMPANION''),
                  rw_detail := row_field GSW_DETAIL_CAP (lit ''COMPANION_OR_HANDOFF_FAILED''),
                  rw_status := GSW_STATUS_FAIL, rw_api_code := ERROR_BAD_FORMAT\<rparr>) ss))
      in gsw_run_adapters (re_ports r) 0 (re_adapters r) imported ss s)"

definition gsw_overall :: "bool \<Rightarrow> GSW_SESSION \<Rightarrow> GSW_STATUS" where
  "gsw_overall completed ss =
     (if \<not> completed \<or> ss_failed ss \<noteq> 0 \<or> ss_restore_failed ss \<or> ss_report_failed ss then GSW_STATUS_FAIL
      else if ss_warnings ss \<noteq> 0 \<or> ss_unavailable ss \<noteq> 0 then GSW_STATUS_WARN
      else GSW_STATUS_PASS)"

text \<open>From the tests to the exit code.\<close>

definition gsw_run_end :: "'s run_env \<Rightarrow> bool \<Rightarrow> GSW_SESSION \<Rightarrow> 's \<Rightarrow> u32 \<times> GSW_SESSION \<times> 's" where
  "gsw_run_end r completed ss s =
     (let (completed, ss, s) =
        (if op_self_test (ss_options ss) then (completed, ss, s)
         else
           (let (restored, s) = gsw_restore_desktop (re_base r) (ss_original ss) s in
            if restored then (completed, ss, s) else (False, ss\<lparr>ss_restore_failed := True\<rparr>, s)));
          overall = gsw_overall completed ss;
          (written, report) = gsw_report_run ss overall 0
            (if overall = GSW_STATUS_FAIL then lit ''FAILED'' else lit ''COMPLETE'') (ss_report ss);
          ss = ss\<lparr>ss_report := report\<rparr>;
          (ss, overall) = (if written then (ss, overall) else (ss\<lparr>ss_report_failed := True\<rparr>, GSW_STATUS_FAIL));
          host = op_host_report (ss_options ss);
          (published, s) = (if host then gsw_host_publish (re_ports r) (ss_report ss) s else (True, s));
          (ss, overall) = (if published then (ss, overall) else (ss\<lparr>ss_report_failed := True\<rparr>, GSW_STATUS_FAIL));
          (drawn, s) = gsw_draw_summary (re_screen r) (re_base r) ss overall s;
          overall = (if drawn then overall else GSW_STATUS_FAIL);
          exit_code = (if overall = GSW_STATUS_FAIL then 1 else 0);
          s = (if host then gsw_host_exit (re_ports r) exit_code s else s)
      in (exit_code, ss, gsw_report_release (re_base r) True s))"

text \<open>The exit code, with the session at the end when there was one.\<close>

definition gsw_run :: "'s run_env \<Rightarrow> 's \<Rightarrow> (u32 \<times> GSW_SESSION option \<times> 's) option" where
  "gsw_run r s =
     (let e = re_base r;
          (tick, s) = GetTickCount e s;
          options = gsw_parse_options e;
          (timer, s) = gsw_timer_initialize e s;
          ((reported, report), s) = gsw_report_initialize e s
      in if \<not> reported then Some (2, None, gsw_report_release e False s)
         else
           (let ((captured, original), s) = gsw_capture_desktop e s in
            if \<not> captured then Some (2, None, gsw_report_release e True s)
            else
              (let (window, s) = gsw_window_create r s in
               if \<not> window then Some (2, None, gsw_report_release e True s)
               else
                 (let ss = \<lparr>ss_options = options, ss_timer = timer, ss_original = original, ss_report = report,
                        ss_started_tick = tick, ss_tested = 0, ss_failed = 0, ss_warnings = 0, ss_unavailable = 0,
                        ss_worst = [], ss_restore_failed = False, ss_report_failed = False\<rparr>;
                      tests = (if op_self_test options then gsw_self_test e (re_fresh r) ss s else gsw_run_tests r ss s)
                  in case tests of
                       None \<Rightarrow> None
                     | Some (completed, ss, s) \<Rightarrow>
                         (let (code, ss, s) = gsw_run_end r completed ss s in Some (code, Some ss, s))))))"

section \<open>The worst rows\<close>

text \<open>The order of the list: failures, warnings, the rest, each by its percentile from above.\<close>

definition worst_key :: "GSW_ROW \<Rightarrow> nat" where
  "worst_key row = (3 - unat (gsw_status_rank (rw_status row))) * 2 ^ 32 + (2 ^ 32 - 1 - unat (mt_p95_us (rw_metrics row)))"

lemma worse_key: "gsw_worse row other \<longleftrightarrow> worst_key row < worst_key other"
proof -
  have b: "unat (mt_p95_us (rw_metrics x)) < 2 ^ 32" for x
    using unsigned_less [of "mt_p95_us (rw_metrics x)", where ?'a = nat] by simp
  show ?thesis
    using b [of row] b [of other]
    by (cases "rw_status row"; cases "rw_status other") (auto simp: gsw_worse_def worst_key_def gsw_status_rank_def word_less_nat_alt)
qed

text \<open>Insertion behind the rows of the same key.\<close>

definition key_insert :: "GSW_ROW \<Rightarrow> GSW_ROW list \<Rightarrow> GSW_ROW list" where
  "key_insert row rows = takeWhile (\<lambda>x. worst_key x \<le> worst_key row) rows @ row # dropWhile (\<lambda>x. worst_key x \<le> worst_key row) rows"

lemma worst_insert_key:
  assumes "length worst \<le> 8"
  shows "worst_insert row worst = take 8 (key_insert row worst)"
proof -
  have w: "(\<lambda>other. \<not> gsw_worse row other) = (\<lambda>x. worst_key x \<le> worst_key row)"
    by (auto simp: worse_key not_less)
  let ?i = "length (takeWhile (\<lambda>x. worst_key x \<le> worst_key row) worst)"
  have t: "take ?i worst = takeWhile (\<lambda>x. worst_key x \<le> worst_key row) worst" "drop ?i worst = dropWhile (\<lambda>x. worst_key x \<le> worst_key row) worst"
    by (simp_all add: takeWhile_eq_take [symmetric] dropWhile_eq_drop [symmetric])
  have "?i \<le> length worst" by (rule length_takeWhile_le)
  show ?thesis
  proof (cases "?i < 8")
    case True
    then show ?thesis by (simp add: worst_insert_def w t GSW_WORST_CAP_def Let_def key_insert_def)
  next
    case False
    then have i: "?i = 8" "length worst = 8" using \<open>?i \<le> length worst\<close> assms by auto
    then have "takeWhile (\<lambda>x. worst_key x \<le> worst_key row) worst = worst"
      using t(1) by (metis order_refl take_all)
    then have a: "\<forall>x\<in>set worst. worst_key x \<le> worst_key row" by simp
    show ?thesis using i
      by (simp add: worst_insert_def w GSW_WORST_CAP_def Let_def key_insert_def
          takeWhile_eq_all_conv [THEN iffD2, OF a] dropWhile_eq_Nil_conv [THEN iffD2, OF a])
  qed
qed

lemma take_key_insert: "take n (key_insert row (take n rows)) = take n (key_insert row rows)"
proof (induction rows arbitrary: n)
  case (Cons x rows)
  show ?case
  proof (cases n)
    case (Suc m)
    have "take m (y # take m rows) = take m (y # rows)" for y by (cases m) auto
    then show ?thesis using Suc Cons [of m] by (auto simp: key_insert_def)
  qed simp
qed simp

lemma insert_sort_key:
  fixes f :: "'a \<Rightarrow> nat"
  shows "takeWhile (\<lambda>x. f x \<le> f row) (sort_key f rows) @ row # dropWhile (\<lambda>x. f x \<le> f row) (sort_key f rows) = sort_key f (rows @ [row])"
proof (rule sym, rule properties_for_sort_key)
  let ?s = "sort_key f rows"
  let ?p = "\<lambda>x. f x \<le> f row"
  define a where "a = takeWhile ?p ?s"
  define b where "b = dropWhile ?p ?s"
  have e: "a @ b = ?s" by (simp add: a_def b_def)
  have m: "mset (a @ b) = mset rows" unfolding e by simp
  then show "mset (takeWhile ?p ?s @ row # dropWhile ?p ?s) = mset (rows @ [row])" unfolding a_def [symmetric] b_def [symmetric] by simp
  have "sorted (map f (a @ b))" unfolding e by simp
  then have sp: "sorted (map f a)" "sorted (map f b)" by (simp_all add: sorted_append)
  have d: "f row < f x" if "x \<in> set b" for x
  proof -
    obtain y r where y: "b = y # r" using \<open>x \<in> set b\<close> by (cases b) auto
    then have "f row < f y" using hd_dropWhile [of ?p ?s] by (simp add: b_def not_le)
    moreover have "sorted (map f (y # r))" using sp(2) y by simp
    ultimately show ?thesis using \<open>x \<in> set b\<close> y by auto
  qed
  have t: "f x \<le> f row" if "x \<in> set a" for x using set_takeWhileD [of x ?p ?s] \<open>x \<in> set a\<close> by (simp add: a_def)
  have "sorted (map f (a @ row # b))" using sp t d by (force simp: sorted_append intro: less_imp_le)
  then show "sorted (map f (takeWhile ?p ?s @ row # dropWhile ?p ?s))" unfolding a_def b_def .
  fix k
  have "filter (\<lambda>x. f k = f x) (a @ b) = filter (\<lambda>x. f k = f x) rows"
    using sort_key_stable [of f "f k" rows] unfolding e by (simp only: eq_commute [of "f k"])
  moreover have "filter (\<lambda>x. f k = f x) b = []" if "f k = f row" unfolding filter_empty_conv using d that by (metis less_irrefl)
  ultimately show "filter (\<lambda>x. f k = f x) (takeWhile ?p ?s @ row # dropWhile ?p ?s) = filter (\<lambda>x. f k = f x) (rows @ [row])"
    unfolding a_def [symmetric] b_def [symmetric] by auto
qed

lemma key_insert_sort: "key_insert row (sort_key worst_key rows) = sort_key worst_key (rows @ [row])"
  unfolding key_insert_def by (rule insert_sort_key)

definition problem_rows :: "GSW_ROW list \<Rightarrow> GSW_ROW list" where
  "problem_rows rows = filter (\<lambda>row. rw_status row \<noteq> GSW_STATUS_PASS) rows"

lemma track_fields:
  "ss_tested (gsw_track_row row ss) = ss_tested ss + 1"
  "ss_failed (gsw_track_row row ss) = ss_failed ss + (if rw_status row = GSW_STATUS_FAIL then 1 else 0)"
  "ss_warnings (gsw_track_row row ss) = ss_warnings ss + (if rw_status row = GSW_STATUS_WARN then 1 else 0)"
  "ss_unavailable (gsw_track_row row ss) = ss_unavailable ss + (if rw_status row = GSW_STATUS_UNAVAILABLE then 1 else 0)"
  "ss_worst (gsw_track_row row ss) = (if rw_status row = GSW_STATUS_PASS then ss_worst ss else worst_insert row (ss_worst ss))"
  by (cases "rw_status row"; simp add: gsw_track_row_def gsw_count_row_def Let_def)+

text \<open>
  C36. After any rows have been tracked, in any order, from an empty list of worst rows, the list is
  the first eight of all rows that did not pass, sorted by severity and percentile with ties in the
  order of arrival; the counter of tested rows has grown by the number of rows, and those of
  failures, warnings and unavailable tests each by the number of rows of that status, in machine words.
\<close>

theorem probe_worst_rows:
  "let final = fold gsw_track_row rows (ss\<lparr>ss_worst := []\<rparr>) in
    ss_worst final = take 8 (sort_key worst_key (problem_rows rows)) \<and>
    ss_tested final = ss_tested ss + of_nat (length rows) \<and>
    ss_failed final = ss_failed ss + of_nat (length (filter (\<lambda>r. rw_status r = GSW_STATUS_FAIL) rows)) \<and>
    ss_warnings final = ss_warnings ss + of_nat (length (filter (\<lambda>r. rw_status r = GSW_STATUS_WARN) rows)) \<and>
    ss_unavailable final = ss_unavailable ss + of_nat (length (filter (\<lambda>r. rw_status r = GSW_STATUS_UNAVAILABLE) rows))"
  unfolding Let_def
proof (induction rows rule: rev_induct)
  case (snoc row rows)
  let ?w = "ss_worst (fold gsw_track_row rows (ss\<lparr>ss_worst := []\<rparr>))"
  have l: "length ?w \<le> 8" using snoc by simp
  have "take 8 (key_insert row ?w) = take 8 (sort_key worst_key (problem_rows rows @ [row]))"
    using snoc by (simp add: take_key_insert key_insert_sort)
  then show ?case using snoc l by (simp add: track_fields worst_insert_key problem_rows_def)
qed (simp add: problem_rows_def)

end
