(* ===== verification/Probe_Adapter.thy ===== *)
theory Probe_Adapter
  imports Probe_Session
begin

text \<open>
  What the run of the diagnostic relies on in an adapter, as a locale: its operations keep the session
  but for the timer and do not call a success what they have marked as a failure. The adapters of
  the diagnostic are interpretations; the locale carries the theorem on the run over one of them.
\<close>

definition only_timer :: "GSW_SESSION \<Rightarrow> GSW_SESSION \<Rightarrow> bool" where
  "only_timer ss ss' \<longleftrightarrow> ss' = ss\<lparr>ss_timer := ss_timer ss'\<rparr>"

definition honest_operation :: "'s mode_operation \<Rightarrow> bool" where
  "honest_operation operation \<longleftrightarrow>
     (\<forall>mode ss s. case operation mode ss s of None \<Rightarrow> True
      | Some ((successful, row), ss', s') \<Rightarrow> only_timer ss ss' \<and> (if successful then rw_status row \<noteq> GSW_STATUS_FAIL else True))"

lemma honest_operationD:
  assumes "honest_operation operation" "operation mode ss s = Some ((successful, row), ss', s')"
  shows "only_timer ss ss' \<and> (successful \<longrightarrow> rw_status row \<noteq> GSW_STATUS_FAIL)"
proof -
  have "case operation mode ss s of None \<Rightarrow> True
      | Some ((successful, row), ss', s') \<Rightarrow> only_timer ss ss' \<and> (if successful then rw_status row \<noteq> GSW_STATUS_FAIL else True)"
    using assms(1) unfolding honest_operation_def by blast
  then show ?thesis by (simp add: assms(2))
qed

lemma benchmark_status:
  "gsw_benchmark e frame timer s = Some (True, metrics, timer', s') \<Longrightarrow> mt_status metrics \<noteq> GSW_STATUS_FAIL"
  by (auto simp: gsw_benchmark_def gsw_statistics_def bench_fail_def Let_def split: prod.splits option.splits if_splits)

text \<open>From one session to a later one: how many rows were tested, and what completeness says.\<close>

definition honest_step :: "bool \<Rightarrow> GSW_SESSION \<Rightarrow> u32 \<Rightarrow> bool \<Rightarrow> GSW_SESSION \<Rightarrow> bool" where
  "honest_step completed ss n completed' ss' \<longleftrightarrow>
     ss_tested ss' = ss_tested ss + n \<and> ss_options ss' = ss_options ss \<and>
     (ss_restore_failed ss \<longrightarrow> ss_restore_failed ss') \<and>
     (completed' \<longrightarrow> completed \<and> (ss_restore_failed ss' \<or> ss_failed ss' = ss_failed ss))"

lemma honest_refl: "honest_step completed ss 0 completed ss"
  by (simp add: honest_step_def)

lemma honest_trans:
  "honest_step c ss n c1 ss1 \<Longrightarrow> honest_step c1 ss1 m c2 ss2 \<Longrightarrow> honest_step c ss (n + m) c2 ss2"
  by (auto simp: honest_step_def)

lemma record_fields:
  assumes "gsw_record row ss = (recorded, ss')"
  shows "ss_tested ss' = ss_tested ss + 1" "ss_options ss' = ss_options ss" "ss_restore_failed ss' = ss_restore_failed ss"
    "ss_failed ss' = ss_failed ss + (if rw_status row = GSW_STATUS_FAIL then 1 else 0)"
  using assms by (cases "rw_status row";
    auto simp: gsw_record_def gsw_track_row_def gsw_count_row_def Let_def split: prod.splits if_splits)+

lemma selected_options: "ss_options ss' = ss_options ss \<Longrightarrow> gsw_selected adapter ss' = gsw_selected adapter ss"
  by (simp add: gsw_selected_def fun_eq_iff)

lemma unavailable_honest: "honest_step completed ss 1 completed (snd (gsw_unavailable adapter detail ss))"
  by (cases "gsw_unavailable adapter detail ss")
    (auto simp: gsw_unavailable_def honest_step_def dest: record_fields)

text \<open>How many rows the run of an adapter adds that offers \<open>modes\<close>.\<close>

definition adapter_rows :: "'s GSW_ADAPTER \<Rightarrow> GSW_SESSION \<Rightarrow> bool \<Rightarrow> GSW_MODE list \<Rightarrow> nat" where
  "adapter_rows adapter ss available modes =
     (if available
      then length modes * (if ad_feature adapter = None then 1 else 2) + length (filter (gsw_selected adapter ss) modes)
      else 1)"

locale honest_adapter =
  fixes adapter :: "'s GSW_ADAPTER"
  assumes smoke: "honest_operation (ad_smoke adapter)"
    and benchmark: "honest_operation (ad_benchmark adapter)"
    and feature: "ad_feature adapter = Some operation \<Longrightarrow> honest_operation operation"
    and enumerate_quiet: "fst (snd (ad_enumerate adapter ss s)) = ss"
    and restore_quiet: "fst (snd (ad_restore adapter ss s)) = ss"
begin

lemma pass_honest:
  assumes "honest_operation operation"
    and "gsw_mode_pass adapter operation between mode completed ss s = Some (completed', ss', s')"
  shows "honest_step completed ss 1 completed' ss'"
proof -
  obtain successful row ss1 s1 where o: "operation mode ss s = Some ((successful, row), ss1, s1)"
    using assms(2) by (auto simp: gsw_mode_pass_def split: option.splits)
  then have t: "only_timer ss ss1" "successful \<Longrightarrow> rw_status row \<noteq> GSW_STATUS_FAIL"
    using honest_operationD [OF assms(1) o] by simp_all
  have f: "ss_tested ss1 = ss_tested ss" "ss_options ss1 = ss_options ss" "ss_restore_failed ss1 = ss_restore_failed ss"
    "ss_failed ss1 = ss_failed ss"
    by (subst t(1) [unfolded only_timer_def]; simp)+
  obtain restored s2 where r: "ad_restore adapter ss1 (between ss1 s1) = (restored, ss1, s2)"
    using restore_quiet by (metis prod.collapse)
  show ?thesis
    using assms(2) t(2) f
    by (auto simp: gsw_mode_pass_def o r Let_def honest_step_def split: if_splits prod.splits dest: record_fields)
qed

lemma smoke_modes:
  "gsw_smoke_modes adapter modes completed ss s = Some (completed', ss', s') \<Longrightarrow>
    honest_step completed ss (of_nat (length modes * (if ad_feature adapter = None then 1 else 2))) completed' ss'"
proof (induction modes arbitrary: completed ss s)
  case (Cons mode modes)
  obtain c1 ss1 s1 where p: "gsw_mode_pass adapter (ad_smoke adapter) (\<lambda>ss s. s) mode completed ss s = Some (c1, ss1, s1)"
    using Cons.prems by (auto split: option.splits)
  note h = pass_honest [OF smoke p]
  show ?case
  proof (cases "ad_feature adapter")
    case None
    then show ?thesis using Cons.prems p honest_trans [OF h Cons.IH [of c1 ss1 s1]] by simp
  next
    case (Some operation)
    obtain c2 ss2 s2 where q: "gsw_mode_pass adapter operation (\<lambda>ss s. s) mode c1 ss1 s1 = Some (c2, ss2, s2)"
      "gsw_smoke_modes adapter modes c2 ss2 s2 = Some (completed', ss', s')"
      using Cons.prems p Some by (auto split: option.splits)
    have "honest_step completed ss (1 + (1 + of_nat (length modes * 2))) completed' ss'"
      using Cons.IH [OF q(2)] Some by (intro honest_trans [OF h] honest_trans [OF pass_honest [OF feature [OF Some] q(1)]]) simp
    then show ?thesis using Some by (simp add: algebra_simps)
  qed
qed (simp add: honest_refl)

lemma benchmark_modes:
  "gsw_benchmark_modes p adapter modes completed ss s = Some (completed', ss', s') \<Longrightarrow>
    honest_step completed ss (of_nat (length (filter (gsw_selected adapter ss) modes))) completed' ss'"
proof (induction modes arbitrary: completed ss s)
  case (Cons mode modes)
  show ?case
  proof (cases "gsw_selected adapter ss mode")
    case True
    then obtain c1 ss1 s1 where b: "gsw_mode_pass adapter (ad_benchmark adapter) (gsw_capture_mode p mode) mode completed ss s = Some (c1, ss1, s1)"
      "gsw_benchmark_modes p adapter modes c1 ss1 s1 = Some (completed', ss', s')"
      using Cons.prems by (auto split: option.splits)
    have h: "honest_step completed ss 1 c1 ss1" by (rule pass_honest [OF benchmark b(1)])
    then have "gsw_selected adapter ss1 = gsw_selected adapter ss" by (intro selected_options) (simp add: honest_step_def)
    then show ?thesis using honest_trans [OF h Cons.IH [OF b(2)]] True by simp
  qed (use Cons in simp)
qed (simp add: honest_refl)

text \<open>Only the Direct3D adapter may be missing in a complete run.\<close>

lemma adapter_run:
  assumes "gsw_adapter_run p adapter ss s = Some (completed, ss', s')" "ad_enumerate adapter ss s = ((available, modes), ss1, s1)"
  shows "honest_step (available \<or> ad_name adapter = lit ''DIRECT3D'') ss (of_nat (adapter_rows adapter ss available modes)) completed ss'"
proof -
  have e: "ad_enumerate adapter ss s = ((available, modes), ss, s1)" using assms(2) enumerate_quiet [of ss s] by simp
  show ?thesis
  proof (cases available)
    case True
    obtain c1 ss1 s2 where a: "gsw_smoke_modes adapter modes True ss s1 = Some (c1, ss1, s2)"
      "gsw_benchmark_modes p adapter modes c1 ss1 s2 = Some (completed, ss', s')"
      using assms(1) True by (auto simp: gsw_adapter_run_def e split: option.splits)
    note h = smoke_modes [OF a(1)]
    then have "gsw_selected adapter ss1 = gsw_selected adapter ss" by (intro selected_options) (simp add: honest_step_def)
    then show ?thesis using honest_trans [OF h benchmark_modes [OF a(2)]] True
      by (simp add: adapter_rows_def add.commute del: of_nat_mult)
  next
    case False
    then have "completed = (ad_name adapter = lit ''DIRECT3D'')" "\<exists>name detail. ss' = snd (gsw_unavailable name detail ss)"
      using assms(1) by (auto simp: gsw_adapter_run_def e Let_def split_beta)
    then show ?thesis using False unavailable_honest by (auto simp: adapter_rows_def)
  qed
qed

end

end
