(* ===== verification/Probe_Gdi.thy ===== *)
theory Probe_Gdi
  imports Probe_Adapter
begin

text \<open>
  The GDI adapter of the graphics diagnostic
  (\<^verbatim>\<open>guest-tools/gsw-graphics-probe/backend_gdi.c\<close>): it enumerates the display modes, sets
  one, and shows two pictures in turn through \<^verbatim>\<open>SetDIBitsToDevice\<close>. It is one of the adapters over
  which the run of \<open>Probe_Session\<close> is stated.
\<close>

section \<open>Windows\<close>

record DEVMODEA =
  dmPelsWidth :: u32
  dmPelsHeight :: u32
  dmBitsPerPel :: u32
  dmDisplayFrequency :: "u32 option"

text \<open>The header of a picture and the words behind it: the masks or the palette.\<close>

record GSW_DIB_INFO =
  biWidth :: u32
  biHeight :: u32
  biBitCount :: u16
  biCompression :: u32
  dib_extra :: "u32 list"

definition BI_RGB :: u32 where "BI_RGB = 0"
definition BI_BITFIELDS :: u32 where "BI_BITFIELDS = 3"
definition CDS_TEST :: u32 where "CDS_TEST = 2"
definition CDS_FULLSCREEN :: u32 where "CDS_FULLSCREEN = 4"
definition DISP_CHANGE_SUCCESSFUL :: u32 where "DISP_CHANGE_SUCCESSFUL = 0"

record GSW_GDI_FRAME =
  gf_mode :: GSW_MODE
  gf_dc :: u32
  gf_info :: GSW_DIB_INFO
  gf_patterns :: "(u32 \<Rightarrow> u8) option \<times> (u32 \<Rightarrow> u8) option"
  gf_pitch :: u32
  gf_crc :: "u32 \<times> u32"

text \<open>
  The services beside those of the base. \<open>gd_fresh\<close> are the bytes of an allocated picture before it is
  drawn, \<open>gd_stack\<close> is what a local frame holds before anything is stored in it.
\<close>

record 's dib_env =
  gd_base :: "'s probe_env"
  EnumDisplaySettings_mode :: "u32 \<Rightarrow> 's \<Rightarrow> DEVMODEA option \<times> 's"
  EnumDisplaySettings_current :: "'s \<Rightarrow> DEVMODEA option \<times> 's"
  ChangeDisplaySettings_mode :: "DEVMODEA \<Rightarrow> u32 \<Rightarrow> 's \<Rightarrow> u32 \<times> 's"
  SetWindowPos :: "u32 \<Rightarrow> u32 \<Rightarrow> 's \<Rightarrow> bool \<times> 's"
  GetDC_window :: "'s \<Rightarrow> u32 \<times> 's"
  ReleaseDC_window :: "u32 \<Rightarrow> 's \<Rightarrow> 's"
  SetDIBitsToDevice :: "u32 \<Rightarrow> GSW_DIB_INFO \<Rightarrow> u32 \<times> u32 \<Rightarrow> (u32 \<Rightarrow> u8) option \<Rightarrow> 's \<Rightarrow> u32 \<times> 's"
  GetLastError :: "'s \<Rightarrow> u32"
  gd_fresh :: "u32 \<Rightarrow> u8"
  gd_stack :: GSW_GDI_FRAME

section \<open>Modes\<close>

definition gsw_gdi_devmode :: "GSW_MODE \<Rightarrow> DEVMODEA" where
  "gsw_gdi_devmode mode =
     \<lparr>dmPelsWidth = md_width mode, dmPelsHeight = md_height mode, dmBitsPerPel = md_bpp mode,
      dmDisplayFrequency = (if md_hz mode \<noteq> 0 then Some (md_hz mode) else None)\<rparr>"

definition gdi_depth :: "u32 \<Rightarrow> bool" where
  "gdi_depth bpp \<longleftrightarrow> bpp = 8 \<or> bpp = 15 \<or> bpp = 16 \<or> bpp = 24 \<or> bpp = 32"

text \<open>\<open>n\<close> entries are still to be asked for, of 4096.\<close>

fun gdi_enumerate_loop :: "'s dib_env \<Rightarrow> nat \<Rightarrow> GSW_MODE_LIST \<Rightarrow> 's \<Rightarrow> GSW_MODE_LIST \<times> 's" where
  "gdi_enumerate_loop g 0 modes s = (modes, s)"
| "gdi_enumerate_loop g (Suc n) modes s =
     (let index = of_nat (4096 - Suc n); (mode, s) = EnumDisplaySettings_mode g index s in
      case mode of
        None \<Rightarrow> (modes, s)
      | Some m \<Rightarrow>
          gdi_enumerate_loop g n
            (if gdi_depth (dmBitsPerPel m)
             then snd (gsw_mode_add modes \<lparr>md_id = index, md_width = dmPelsWidth m, md_height = dmPelsHeight m,
                    md_bpp = dmBitsPerPel m,
                    md_hz = (case dmDisplayFrequency m of None \<Rightarrow> 0 | Some hz \<Rightarrow> hz), md_flags = 0\<rparr>)
             else modes) s)"

definition gsw_gdi_enumerate :: "'s dib_env \<Rightarrow> GSW_SESSION \<Rightarrow> 's \<Rightarrow> (bool \<times> GSW_MODE list) \<times> GSW_SESSION \<times> 's" where
  "gsw_gdi_enumerate g ss s =
     (let (modes, s) = gdi_enumerate_loop g 4096 \<lparr>ml_items = [], ml_overflow = False\<rparr> s
      in ((ml_items modes \<noteq> [] \<and> \<not> ml_overflow modes, ml_items modes), ss, s))"

text \<open>The code is that of the last change tried.\<close>

definition gsw_gdi_apply :: "'s dib_env \<Rightarrow> GSW_MODE \<Rightarrow> 's \<Rightarrow> (bool \<times> u32) \<times> 's" where
  "gsw_gdi_apply g mode s =
     (let request = gsw_gdi_devmode mode;
          (tested, s) = ChangeDisplaySettings_mode g request CDS_TEST s
      in if tested \<noteq> DISP_CHANGE_SUCCESSFUL then ((False, tested), s)
         else
           (let (changed, s) = ChangeDisplaySettings_mode g request CDS_FULLSCREEN s in
            if changed \<noteq> DISP_CHANGE_SUCCESSFUL then ((False, changed), s)
            else
              (let (observed, s) = EnumDisplaySettings_current g s in
               case observed of
                 None \<Rightarrow> ((False, changed), s)
               | Some m \<Rightarrow>
                   ((dmPelsWidth m = md_width mode \<and> dmPelsHeight m = md_height mode \<and> dmBitsPerPel m = md_bpp mode \<and>
                     (md_hz mode = 0 \<or> (case dmDisplayFrequency m of None \<Rightarrow> 0 | Some hz \<Rightarrow> hz) = md_hz mode), changed), s))))"

section \<open>Pictures\<close>

definition gsw_gdi_frame :: "'s dib_env \<Rightarrow> GSW_GDI_FRAME \<Rightarrow> 's frame_function" where
  "gsw_gdi_frame g f frame crc s =
     (let second = (frame AND 1 = 1);
          (lines, s) = SetDIBitsToDevice g (gf_dc f) (gf_info f) (md_width (gf_mode f), md_height (gf_mode f))
             ((if second then snd else fst) (gf_patterns f)) s
      in ((lines = md_height (gf_mode f), (if second then snd else fst) (gf_crc f)), s))"

definition frame_zero :: "GSW_MODE \<Rightarrow> GSW_GDI_FRAME" where
  "frame_zero mode = \<lparr>gf_mode = mode, gf_dc = 0,
     gf_info = \<lparr>biWidth = 0, biHeight = 0, biBitCount = 0, biCompression = 0, dib_extra = replicate 256 0\<rparr>,
     gf_patterns = (None, None), gf_pitch = 0, gf_crc = (0, 0)\<rparr>"

text \<open>The masks of the 15 and 16 bit formats, and the palette of three, three and two bits.\<close>

definition palette_entry :: "u32 \<Rightarrow> u32" where
  "palette_entry index =
     (let r = ((drop_bit 5 index) AND 7) * 255 div 7; g = ((drop_bit 2 index) AND 7) * 255 div 7; b = (index AND 3) * 255 div 3
      in push_bit 16 r OR push_bit 8 g OR b)"

definition gdi_info :: "GSW_MODE \<Rightarrow> GSW_DIB_INFO" where
  "gdi_info mode =
     (let bpp = md_bpp mode; extra = replicate 256 0 in
      \<lparr>biWidth = md_width mode, biHeight = - md_height mode, biBitCount = ucast (if bpp = 15 then 16 else bpp),
       biCompression = (if bpp = 15 \<or> bpp = 16 then BI_BITFIELDS else BI_RGB),
       dib_extra = (if bpp = 15 then extra[0 := 0x7C00, 1 := 0x03E0, 2 := 0x001F]
         else if bpp = 16 then extra[0 := 0xF800, 1 := 0x07E0, 2 := 0x001F]
         else if bpp = 8 then map (\<lambda>i. palette_entry (of_nat i)) [0..<256]
         else extra)\<rparr>)"

definition gsw_gdi_prepare :: "'s dib_env \<Rightarrow> GSW_MODE \<Rightarrow> 's \<Rightarrow> (bool \<times> GSW_GDI_FRAME) \<times> 's" where
  "gsw_gdi_prepare g mode s =
     (let e = gd_base g; f = frame_zero mode; w = md_width mode; h = md_height mode; bpp = md_bpp mode;
          (first, s) = gsw_pattern_allocate e w h bpp s
      in case first of
           None \<Rightarrow> ((False, f), s)
         | Some (extent, pitch) \<Rightarrow>
             (let f = f\<lparr>gf_patterns := (Some (gd_fresh g), None), gf_pitch := pitch\<rparr>;
                  (second, s) = gsw_pattern_allocate e w h bpp s
              in case second of
                   None \<Rightarrow> ((False, f), s)
                 | Some (extent, index) \<Rightarrow>
                     (let f = f\<lparr>gf_patterns := (Some (gd_fresh g), Some (gd_fresh g))\<rparr> in
                      if index \<noteq> gf_pitch f then ((False, f), s)
                      else
                        (case gsw_pattern_render (Some (gd_fresh g)) pitch w h bpp 0 of
                           None \<Rightarrow> ((False, f), s)
                         | Some even_pattern \<Rightarrow>
                             (let f = f\<lparr>gf_patterns := (Some even_pattern, Some (gd_fresh g))\<rparr> in
                              case gsw_pattern_render (Some (gd_fresh g)) pitch w h bpp 1 of
                                None \<Rightarrow> ((False, f), s)
                              | Some odd_pattern \<Rightarrow>
                                  (let f = f\<lparr>gf_patterns := (Some even_pattern, Some odd_pattern),
                                         gf_crc := (gsw_pattern_crc (Some even_pattern) pitch w h bpp, gsw_pattern_crc (Some odd_pattern) pitch w h bpp),
                                         gf_info := gdi_info mode\<rparr>;
                                       (dc, s) = GetDC_window g s
                                   in ((dc \<noteq> 0, f\<lparr>gf_dc := dc\<rparr>), s)))))))"

definition gsw_gdi_release :: "'s dib_env \<Rightarrow> GSW_GDI_FRAME \<Rightarrow> 's \<Rightarrow> 's" where
  "gsw_gdi_release g f s =
     (let s = (if gf_dc f \<noteq> 0 then ReleaseDC_window g (gf_dc f) s else s);
          s = gsw_pattern_release (gd_base g) (fst (gf_patterns f) \<noteq> None) s
      in gsw_pattern_release (gd_base g) (snd (gf_patterns f) \<noteq> None) s)"

section \<open>A mode\<close>

definition gsw_gdi_run :: "'s dib_env \<Rightarrow> bool \<Rightarrow> 's mode_operation" where
  "gsw_gdi_run g measured mode ss s =
     (let row = row_zero\<lparr>rw_adapter := row_field 16 (lit ''GDI''), rw_path := row_field 16 (lit ''DIB''), rw_mode := mode\<rparr>;
          ((applied, code), s) = gsw_gdi_apply g mode s;
          row = row\<lparr>rw_api_code := code\<rparr>
      in if \<not> applied
         then Some ((False, row\<lparr>rw_status := GSW_STATUS_FAIL, rw_detail := row_field GSW_DETAIL_CAP (lit ''MODE_SET_OR_READBACK'')\<rparr>), ss, s)
         else
           (let (placed, s) = SetWindowPos g (md_width mode) (md_height mode) s;
                ((prepared, f), s) = (if placed then gsw_gdi_prepare g mode s else ((False, gd_stack g), s))
            in if \<not> prepared
               then
                 (let row = row\<lparr>rw_api_code := GetLastError g s, rw_status := GSW_STATUS_FAIL,
                        rw_detail := row_field GSW_DETAIL_CAP (lit ''DIB_PREPARE'')\<rparr>
                  in Some ((False, row), ss, gsw_gdi_release g f s))
               else
                 (let shown = (if measured
                    then map_option (\<lambda>(successful, metrics, timer, s). (successful, metrics, ss\<lparr>ss_timer := timer\<rparr>, s))
                           (gsw_benchmark (gd_base g) (gsw_gdi_frame g f) (ss_timer ss) s)
                    else
                      (let ((successful, crc), s) = gsw_gdi_frame g f 0 0 s
                       in Some (successful, metrics_zero\<lparr>mt_crc32 := crc, mt_frames := (if successful then 1 else 0),
                            mt_status := (if successful then GSW_STATUS_PASS else GSW_STATUS_FAIL)\<rparr>, ss, s)))
                  in case shown of
                       None \<Rightarrow> None
                     | Some (successful, metrics, ss, s) \<Rightarrow>
                         (let row = row\<lparr>rw_metrics := metrics, rw_status := mt_status metrics,
                                rw_detail := row_field GSW_DETAIL_CAP (if mt_sample_cap metrics then lit ''SAMPLE_CAP''
                                  else if measured then lit ''BENCHMARK'' else lit ''SMOKE'')\<rparr>
                          in Some ((successful, row), ss, gsw_gdi_release g f s)))))"

definition gsw_gdi_smoke :: "'s dib_env \<Rightarrow> 's mode_operation" where
  "gsw_gdi_smoke g = gsw_gdi_run g False"

definition gsw_gdi_benchmark :: "'s dib_env \<Rightarrow> 's mode_operation" where
  "gsw_gdi_benchmark g = gsw_gdi_run g True"

definition gsw_gdi_restore :: "'s dib_env \<Rightarrow> GSW_SESSION \<Rightarrow> 's \<Rightarrow> bool \<times> GSW_SESSION \<times> 's" where
  "gsw_gdi_restore g ss s =
     (let (restored, s) = gsw_restore_desktop (gd_base g) (ss_original ss) s in (restored, ss, s))"

definition gsw_gdi_adapter :: "'s dib_env \<Rightarrow> 's GSW_ADAPTER" where
  "gsw_gdi_adapter g =
     \<lparr>ad_name = lit ''GDI'', ad_enumerate = gsw_gdi_enumerate g, ad_smoke = gsw_gdi_smoke g, ad_feature = None,
      ad_benchmark = gsw_gdi_benchmark g, ad_restore = gsw_gdi_restore g\<rparr>"

section \<open>A run of the adapter is honest\<close>

lemma gdi_honest: "honest_operation (gsw_gdi_run g measured)"
proof (unfold honest_operation_def, intro allI, goal_cases)
  case (1 mode ss s)
  show ?case
    by (auto simp: gsw_gdi_run_def Let_def only_timer_def benchmark_status
        split: prod.splits option.splits if_splits)
qed

interpretation gdi: honest_adapter "gsw_gdi_adapter g" for g :: "'s dib_env"
proof
  show "honest_operation (ad_smoke (gsw_gdi_adapter g))" "honest_operation (ad_benchmark (gsw_gdi_adapter g))"
    by (simp_all add: gsw_gdi_adapter_def gsw_gdi_smoke_def gsw_gdi_benchmark_def gdi_honest)
qed (simp_all add: gsw_gdi_adapter_def gsw_gdi_restore_def gsw_gdi_enumerate_def split: prod.splits)

text \<open>
  The run of the GDI adapter leaves no mode out and reports no success it has not seen: every
  enumerated mode is tested once and every canonical one, or every one in an exhaustive run, once
  more as a benchmark; where the run is said to be complete no row has failed, or the failure to
  restore the desktop is on record.
\<close>

theorem gdi_adapter_honest:
  "case gsw_adapter_run p (gsw_gdi_adapter g) ss s of None \<Rightarrow> True
   | Some (completed, ss', s') \<Rightarrow>
      (let ((available, modes), ss1, s1) = gsw_gdi_enumerate g ss s;
           chosen = filter (\<lambda>mode. op_exhaustive (ss_options ss) \<or> gsw_mode_is_canonical mode) modes in
       ss_tested ss' = ss_tested ss + (if available then of_nat (length modes + length chosen) else 1) \<and>
       (if completed then available \<and> (ss_restore_failed ss' \<or> ss_failed ss' = ss_failed ss) else True))"
proof (cases "gsw_adapter_run p (gsw_gdi_adapter g) ss s")
  case (Some r)
  obtain completed ss' s' where r: "r = (completed, ss', s')" by (cases r)
  obtain available modes ss1 s1 where e: "gsw_gdi_enumerate g ss s = ((available, modes), ss1, s1)" by (metis prod.collapse)
  have n: "ad_name (gsw_gdi_adapter g) \<noteq> lit ''DIRECT3D''" "ad_feature (gsw_gdi_adapter g) = None"
    "ad_enumerate (gsw_gdi_adapter g) = gsw_gdi_enumerate g"
    by (simp_all add: gsw_gdi_adapter_def lit_def)
  then have "gsw_selected (gsw_gdi_adapter g) ss = (\<lambda>mode. op_exhaustive (ss_options ss) \<or> gsw_mode_is_canonical mode)"
    by (auto simp: gsw_selected_def)
  then show ?thesis using gdi.adapter_run [of p g ss s completed ss' s' available modes ss1 s1] n
    by (auto simp: Some r e honest_step_def adapter_rows_def)
qed simp

section \<open>Resources\<close>

text \<open>
  \<open>held\<close> counts what the program holds of Windows, with weight \<open>a\<close> for a block of memory and \<open>b\<close> for a
  device context: only their services change it.
\<close>

definition steady :: "'s probe_env \<Rightarrow> 's frame_function \<Rightarrow> ('s \<Rightarrow> int) \<Rightarrow> bool" where
  "steady e frame held \<longleftrightarrow>
     (\<forall>s. held (snd (QueryPerformanceCounter e s)) = held s) \<and> (\<forall>s. held (snd (GetTickCount e s)) = held s) \<and>
     (\<forall>s. held (gsw_window_pump e s) = held s) \<and> (\<forall>i c s. held (snd (frame i c s)) = held s)"

definition gdi_accounts :: "'s dib_env \<Rightarrow> ('s \<Rightarrow> int) \<Rightarrow> int \<Rightarrow> int \<Rightarrow> bool" where
  "gdi_accounts g held a b \<longleftrightarrow>
     (\<forall>n s. held (snd (HeapAlloc_bytes (gd_base g) n s)) = held s + (if fst (HeapAlloc_bytes (gd_base g) n s) then a else 0)) \<and>
     (\<forall>s. held (HeapFree_bytes (gd_base g) s) = held s - a) \<and>
     (\<forall>s. held (snd (GetDC_window g s)) = held s + (if fst (GetDC_window g s) \<noteq> 0 then b else 0)) \<and>
     (\<forall>dc s. held (ReleaseDC_window g dc s) = held s - b) \<and>
     (\<forall>m flags s. held (snd (ChangeDisplaySettings_mode g m flags s)) = held s) \<and>
     (\<forall>s. held (snd (EnumDisplaySettings_current g s)) = held s) \<and>
     (\<forall>w h s. held (snd (SetWindowPos g w h s)) = held s) \<and>
     (\<forall>f. steady (gd_base g) (gsw_gdi_frame g f) held)"

definition frame_weight :: "int \<Rightarrow> int \<Rightarrow> GSW_GDI_FRAME \<Rightarrow> int" where
  "frame_weight a b f = (if fst (gf_patterns f) \<noteq> None then a else 0) + (if snd (gf_patterns f) \<noteq> None then a else 0) +
     (if gf_dc f \<noteq> 0 then b else 0)"

lemma steady_now: "steady e frame held \<Longrightarrow> bench_now e bn s = (now, bn', s') \<Longrightarrow> held s' = held s"
  by (auto simp: bench_now_def gsw_timer_now_def steady_def Let_def split: prod.splits option.splits if_splits dest!: spec [of _ s])

lemma steady_frame:
  assumes "steady e frame held" "bench_frame frame bn s = (successful, bn', s')"
  shows "held s' = held s"
proof -
  have "s' = snd (frame (bn_index bn) (bn_crc bn) s)" using assms(2) by (auto simp: bench_frame_def split: prod.splits)
  then show ?thesis using assms(1) by (simp add: steady_def)
qed

lemma steady_pump: "steady e frame held \<Longrightarrow> held (gsw_window_pump e s) = held s"
  by (simp add: steady_def)

lemma warmup_steady: "gsw_warmup e frame start bn s = Some y \<Longrightarrow> steady e frame held \<longrightarrow> held (snd (snd y)) = held s"
proof (rule gsw_warmup.raw_induct [where P = "\<lambda>e frame start bn s y. steady e frame held \<longrightarrow> held (snd (snd y)) = held s"])
  fix w :: "'a probe_env \<Rightarrow> 'a frame_function \<Rightarrow> u64 \<Rightarrow> bench \<Rightarrow> 'a \<Rightarrow> (bool \<times> bench \<times> 'a) option"
    and e :: "'a probe_env" and frame start bn s y
  assume IH: "\<And>e frame start bn s y. w e frame start bn s = Some y \<Longrightarrow> steady e frame held \<longrightarrow> held (snd (snd y)) = held s"
    and r: "(let (now, b, s) = bench_now e bn s
         in if gsw_timer_ms (bn_timer b) (now - start) < GSW_WARMUP_MS
            then let (successful, b, s) = bench_frame frame b s
                 in if successful then w e frame start b (gsw_window_pump e s) else Some (False, b, s)
            else Some (True, b, s)) = Some y"
  show "steady e frame held \<longrightarrow> held (snd (snd y)) = held s"
  proof
    assume st: "steady e frame held"
    obtain now b1 s1 where n: "bench_now e bn s = (now, b1, s1)" by (cases "bench_now e bn s") auto
    obtain k b2 s2 where f: "bench_frame frame b1 s1 = (k, b2, s2)" by (cases "bench_frame frame b1 s1") auto
    show "held (snd (snd y)) = held s"
      using r IH [of e frame start b2 "gsw_window_pump e s2" y] steady_now [OF st n] steady_frame [OF st f] steady_pump [OF st] st
      by (auto simp: n f split: if_splits)
  qed
qed

lemma measure_steady: "gsw_measure e frame start bn s = Some y \<Longrightarrow> steady e frame held \<longrightarrow> held (snd (snd y)) = held s"
proof (rule gsw_measure.raw_induct [where P = "\<lambda>e frame start bn s y. steady e frame held \<longrightarrow> held (snd (snd y)) = held s"])
  fix w :: "'a probe_env \<Rightarrow> 'a frame_function \<Rightarrow> u64 \<Rightarrow> bench \<Rightarrow> 'a \<Rightarrow> (bool \<times> bench \<times> 'a) option"
    and e :: "'a probe_env" and frame start bn s y
  assume IH: "\<And>e frame start bn s y. w e frame start bn s = Some y \<Longrightarrow> steady e frame held \<longrightarrow> held (snd (snd y)) = held s"
    and r: "(if gsw_timer_ms (bn_timer bn) (bn_end bn - start) < GSW_MEASURE_MS
         then let (started, b, s) = bench_now e bn s; (successful, b, s) = bench_frame frame b s
              in if \<not> successful then Some (False, b, s)
                 else let (ended, b, s) = bench_now e b s
                      in w e frame start (bench_sample started ended b) (gsw_window_pump e s)
         else Some (True, bn, s)) = Some y"
  show "steady e frame held \<longrightarrow> held (snd (snd y)) = held s"
  proof
    assume st: "steady e frame held"
    obtain now b1 s1 where n: "bench_now e bn s = (now, b1, s1)" by (cases "bench_now e bn s") auto
    obtain k b2 s2 where f: "bench_frame frame b1 s1 = (k, b2, s2)" by (cases "bench_frame frame b1 s1") auto
    obtain ended b3 s3 where m: "bench_now e b2 s2 = (ended, b3, s3)" by (cases "bench_now e b2 s2") auto
    show "held (snd (snd y)) = held s"
      using r IH [of e frame start "bench_sample now ended b3" "gsw_window_pump e s3" y] steady_now [OF st n] steady_frame [OF st f]
        steady_now [OF st m] steady_pump [OF st] st
      by (auto simp: n f m split: if_splits)
  qed
qed

lemma benchmark_steady:
  assumes "gdi_accounts g held a b" "gsw_benchmark (gd_base g) (gsw_gdi_frame g f) timer s = Some (successful, metrics, timer', s')"
  shows "held s' = held s"
proof -
  have st: "steady (gd_base g) (gsw_gdi_frame g f) held" using assms(1) by (simp add: gdi_accounts_def)
  obtain allocated s1 where h: "HeapAlloc_bytes (gd_base g) (of_nat GSW_SAMPLE_CAP * 4) s = (allocated, s1)" by fastforce
  have h1: "held s1 = held s + (if allocated then a else 0)"
    using assms(1) h by (metis gdi_accounts_def fst_conv snd_conv)
  have free: "held (HeapFree_bytes (gd_base g) x) = held x - a" for x using assms(1) by (simp add: gdi_accounts_def)
  show ?thesis
  proof (cases allocated)
    case True
    define b0 where "b0 = \<lparr>bn_timer = timer, bn_index = 0, bn_crc = 0, bn_samples = [], bn_metrics = metrics_zero, bn_end = 0\<rparr>"
    obtain start b1 s2 where n: "bench_now (gd_base g) b0 s1 = (start, b1, s2)" by (cases "bench_now (gd_base g) b0 s1") auto
    obtain warm b2 s3 where w: "gsw_warmup (gd_base g) (gsw_gdi_frame g f) start b1 s2 = Some (warm, b2, s3)"
      using assms(2) True by (auto simp: gsw_benchmark_def h b0_def [symmetric] n split: option.splits)
    have s3: "held s3 = held s1" using steady_now [OF st n] warmup_steady [OF w, of held] st by simp
    show ?thesis
    proof (cases warm)
      case warm: True
      obtain begun b3 s4 where m: "bench_now (gd_base g) b2 s3 = (begun, b3, s4)" by (cases "bench_now (gd_base g) b2 s3") auto
      obtain measured b4 s5 where k: "gsw_measure (gd_base g) (gsw_gdi_frame g f) begun (b3\<lparr>bn_end := begun\<rparr>) s4 = Some (measured, b4, s5)"
        using assms(2) True warm by (auto simp: gsw_benchmark_def h b0_def [symmetric] n w m split: option.splits)
      have "held s5 = held s1" using s3 steady_now [OF st m] measure_steady [OF k, of held] st by simp
      then show ?thesis using assms(2) True warm h1 free
        by (auto simp: gsw_benchmark_def h b0_def [symmetric] n w m k bench_fail_def split: if_splits)
    next
      case False
      then show ?thesis using assms(2) True s3 h1 free
        by (auto simp: gsw_benchmark_def h b0_def [symmetric] n w bench_fail_def)
    qed
  next
    case False
    then show ?thesis using assms(2) h1 by (simp add: gsw_benchmark_def h)
  qed
qed

lemma pattern_accounts:
  assumes "gdi_accounts g held a b" "gsw_pattern_allocate (gd_base g) w h bpp s = (r, s')"
  shows "held s' = held s + (if r \<noteq> None then a else 0)"
proof (cases "gsw_pattern_size w h bpp")
  case (Some ep)
  obtain extent pitch where e: "ep = (extent, pitch)" by (cases ep)
  obtain allocated s1 where h: "HeapAlloc_bytes (gd_base g) extent s = (allocated, s1)" by fastforce
  then have "held s1 = held s + (if allocated then a else 0)" using assms(1) by (metis gdi_accounts_def fst_conv snd_conv)
  then show ?thesis using assms(2) by (auto simp: gsw_pattern_allocate_def Some e h)
qed (use assms(2) in \<open>auto simp: gsw_pattern_allocate_def\<close>)

lemma prepare_accounts:
  assumes "gdi_accounts g held a b" "gsw_gdi_prepare g mode s = ((prepared, f), s')"
  shows "held s' = held s + frame_weight a b f"
proof -
  have dc: "held (snd (GetDC_window g x)) = held x + (if fst (GetDC_window g x) \<noteq> 0 then b else 0)" for x
    using assms(1) by (simp add: gdi_accounts_def)
  obtain first s1 where p: "gsw_pattern_allocate (gd_base g) (md_width mode) (md_height mode) (md_bpp mode) s = (first, s1)" by fastforce
  show ?thesis
  proof (cases first)
    case None
    then show ?thesis using assms(2) pattern_accounts [OF assms(1) p]
      by (auto simp: gsw_gdi_prepare_def p frame_weight_def frame_zero_def Let_def)
  next
    case (Some e)
    obtain second s2 where q: "gsw_pattern_allocate (gd_base g) (md_width mode) (md_height mode) (md_bpp mode) s1 = (second, s2)" by fastforce
    obtain d s3 where d: "GetDC_window g s2 = (d, s3)" by fastforce
    show ?thesis using assms(2) pattern_accounts [OF assms(1) p] pattern_accounts [OF assms(1) q] dc [of s2] Some
      by (cases e; cases second)
        (auto simp: gsw_gdi_prepare_def p q d frame_weight_def frame_zero_def Let_def split: if_splits option.splits)
  qed
qed

lemma release_accounts:
  assumes "gdi_accounts g held a b"
  shows "held (gsw_gdi_release g f s) = held s - frame_weight a b f"
proof -
  have "held (HeapFree_bytes (gd_base g) x) = held x - a" "held (ReleaseDC_window g d x) = held x - b" for x d
    using assms by (simp_all add: gdi_accounts_def)
  then show ?thesis by (auto simp: gsw_gdi_release_def gsw_pattern_release_def frame_weight_def Let_def)
qed

lemma apply_accounts:
  assumes "gdi_accounts g held a b" "gsw_gdi_apply g mode s = (r, s')"
  shows "held s' = held s"
proof -
  have "held (snd (ChangeDisplaySettings_mode g m flags x)) = held x" "held (snd (EnumDisplaySettings_current g x)) = held x" for m flags x
    using assms(1) by (simp_all add: gdi_accounts_def)
  note l = this
  obtain t s1 where c: "ChangeDisplaySettings_mode g (gsw_gdi_devmode mode) CDS_TEST s = (t, s1)" by fastforce
  obtain t2 s2 where c2: "ChangeDisplaySettings_mode g (gsw_gdi_devmode mode) CDS_FULLSCREEN s1 = (t2, s2)" by fastforce
  obtain m s3 where c3: "EnumDisplaySettings_current g s2 = (m, s3)" by fastforce
  show ?thesis using assms(2) l(1) [of "gsw_gdi_devmode mode" CDS_TEST s] l(1) [of "gsw_gdi_devmode mode" CDS_FULLSCREEN s1] l(2) [of s2]
    by (auto simp: gsw_gdi_apply_def c c2 c3 split: if_splits option.splits)
qed

text \<open>
  C39. Showing a mode gives back every block of memory and every device context it has taken, in the
  smoke test and in the benchmark, wherever it is refused on the way, with one exception: where the
  mode has been set but the window refuses its place, the frame on the stack has not been
  initialised, and whatever it happens to hold is released.
\<close>

theorem gdi_resources_balanced:
  assumes "gdi_accounts g held a b" "gsw_gdi_run g measured mode ss s = Some (result, ss', s')"
  shows "held s' = held s -
    (let ((applied, code), s1) = gsw_gdi_apply g mode s in
     if applied \<and> \<not> fst (SetWindowPos g (md_width mode) (md_height mode) s1) then frame_weight a b (gd_stack g) else 0)"
proof -
  obtain applied code s1 where p: "gsw_gdi_apply g mode s = ((applied, code), s1)" by (metis prod.collapse)
  obtain placed s2 where w: "SetWindowPos g (md_width mode) (md_height mode) s1 = (placed, s2)" by fastforce
  have s1: "held s1 = held s" by (rule apply_accounts [OF assms(1) p])
  have s2: "held s2 = held s1" using assms(1) w by (metis gdi_accounts_def snd_conv)
  note release = release_accounts [OF assms(1)]
  show ?thesis
  proof (cases "applied \<and> placed")
    case True
    obtain prepared f s3 where q: "gsw_gdi_prepare g mode s2 = ((prepared, f), s3)" by (metis prod.collapse)
    have s3: "held s3 = held s2 + frame_weight a b f" by (rule prepare_accounts [OF assms(1) q])
    have "held x = held s3" if "gsw_gdi_frame g f 0 0 s3 = (r, x)" for r x
      using assms(1) that unfolding gdi_accounts_def steady_def by (metis snd_conv)
    then show ?thesis using assms(2) True s1 s2 s3
      by (auto simp: gsw_gdi_run_def p w q release Let_def split: if_splits option.splits prod.splits
          dest!: benchmark_steady [OF assms(1)])
  next
    case False
    then show ?thesis using assms(2) s1 s2
      by (auto simp: gsw_gdi_run_def p w release Let_def)
  qed
qed

text \<open>A window that refuses its place, with two pictures and a context of an earlier call on the stack.\<close>

definition example_frame :: GSW_GDI_FRAME where
  "example_frame = (frame_zero \<lparr>md_id = 0, md_width = 640, md_height = 480, md_bpp = 16, md_hz = 0, md_flags = 0\<rparr>)
     \<lparr>gf_patterns := (Some (\<lambda>_. 7), Some (\<lambda>_. 9)), gf_dc := 5\<rparr>"

definition refusing_gdi :: "int dib_env" where
  "refusing_gdi =
     \<lparr>gd_base = \<lparr>GetTickCount = (\<lambda>s. (0, s)), QueryPerformanceFrequency = (\<lambda>s. (None, s)), QueryPerformanceCounter = (\<lambda>s. (None, s)),
        GetCommandLineA = None, EnumDisplaySettingsA = (\<lambda>s. (None, s)), ChangeDisplaySettingsA = (\<lambda>s. (True, s)),
        GetDC = (\<lambda>s. (0, s)), GetSystemMetrics_screen = (\<lambda>s. (0, 0)), GetDeviceCaps_depth = (\<lambda>d s. (0, 0)),
        ReleaseDC = (\<lambda>d s. (True, s)), HeapAlloc_bytes = (\<lambda>n s. (True, s + 1)), HeapFree_bytes = (\<lambda>s. s - 1),
        gsw_window_pump = (\<lambda>s. s)\<rparr>,
      EnumDisplaySettings_mode = (\<lambda>i s. (None, s)),
      EnumDisplaySettings_current = (\<lambda>s. (Some (gsw_gdi_devmode (gf_mode example_frame)), s)),
      ChangeDisplaySettings_mode = (\<lambda>m flags s. (0, s)), SetWindowPos = (\<lambda>w h s. (False, s)), GetDC_window = (\<lambda>s. (5, s + 1)),
      ReleaseDC_window = (\<lambda>dc s. s - 1), SetDIBitsToDevice = (\<lambda>dc info extent m s. (snd extent, s)),
      GetLastError = (\<lambda>s. 0), gd_fresh = (\<lambda>_. 0), gd_stack = example_frame\<rparr>"

lemma gdi_resources_balanced_witness:
  "\<forall>ss. \<exists>result ss' s'. gsw_gdi_run refusing_gdi False (gf_mode example_frame) ss 40 = Some (result, ss', s') \<and> s' = 37"
proof
  fix ss
  have a: "gdi_accounts refusing_gdi (\<lambda>s. s) 1 1"
    by (simp add: gdi_accounts_def steady_def refusing_gdi_def gsw_gdi_frame_def)
  have p: "gsw_gdi_apply refusing_gdi (gf_mode example_frame) 40 = ((True, 0), 40)"
    by (simp add: gsw_gdi_apply_def refusing_gdi_def DISP_CHANGE_SUCCESSFUL_def gsw_gdi_devmode_def example_frame_def frame_zero_def)
  have w: "SetWindowPos refusing_gdi w h s = (False, s)" "gd_stack refusing_gdi = example_frame" for w h s
    by (simp_all add: refusing_gdi_def)
  have "\<exists>result ss' s'. gsw_gdi_run refusing_gdi False (gf_mode example_frame) ss 40 = Some (result, ss', s')"
    by (auto simp: gsw_gdi_run_def p w Let_def)
  then obtain result ss' s' where r: "gsw_gdi_run refusing_gdi False (gf_mode example_frame) ss 40 = Some (result, ss', s')" by blast
  have "frame_weight 1 1 example_frame = 3" by (simp add: frame_weight_def example_frame_def)
  then have "s' = 37" using gdi_resources_balanced [OF a r] by (simp add: p w)
  then show "\<exists>result ss' s'. gsw_gdi_run refusing_gdi False (gf_mode example_frame) ss 40 = Some (result, ss', s') \<and> s' = 37"
    using r by blast
qed

end
