(* ===== verification/Probe_Vbe.thy ===== *)
theory Probe_Vbe
  imports Probe_Report Probe_Pattern
begin

text \<open>
  The companion of the graphics diagnostic for MS-DOS
  (\<^verbatim>\<open>guest-tools/gsw-graphics-probe/gswvbe.c\<close>), which measures the modes of the VGA and VBE
  BIOS and leaves its rows in a file.

  The compiler is a 32-bit one: \<^verbatim>\<open>unsigned\<close>, \<^verbatim>\<open>unsigned long\<close> and \<^verbatim>\<open>clock_t\<close> are
  words of 32 bits. Interrupts, ports, memory, the clock and the C library are the parameter
  \<open>dos_env\<close> over a state of any type. A block of memory from \<^verbatim>\<open>malloc\<close> is a function of the
  offset.
\<close>

section \<open>The services\<close>

record REGS =
  r_ax :: u16
  r_bx :: u16
  r_cx :: u16
  r_dx :: u16
  r_si :: u16
  r_di :: u16
  r_es :: u16
  r_cflag :: bool

definition regs_zero :: REGS where
  "regs_zero = \<lparr>r_ax = 0, r_bx = 0, r_cx = 0, r_dx = 0, r_si = 0, r_di = 0, r_es = 0, r_cflag = False\<rparr>"

record VBE_INFO =
  vi_signature :: c_text
  vi_modes :: u32

record VBE_MODE_INFO =
  vm_attributes :: u16
  vm_granularity_kb :: u16
  vm_window_kb :: u16
  vm_win_a_segment :: u16
  vm_pitch :: u16
  vm_width :: u16
  vm_height :: u16
  vm_bpp :: u8
  vm_lfb_physical :: u32

record 's dos_env =
  int386 :: "u8 \<Rightarrow> REGS \<Rightarrow> 's \<Rightarrow> REGS \<times> 's"
  outp :: "u16 \<Rightarrow> u8 \<Rightarrow> 's \<Rightarrow> 's"
  poke :: "u32 \<Rightarrow> u8 \<Rightarrow> 's \<Rightarrow> 's"
  clock :: "'s \<Rightarrow> u32 \<times> 's"
  CLOCKS_PER_SEC :: u32
  dos_malloc :: "u32 \<Rightarrow> 's \<Rightarrow> bool \<times> 's"
  dos_mfree :: "'s \<Rightarrow> 's"
  info_prepare :: "u16 \<Rightarrow> 's \<Rightarrow> 's"
  info_read :: "u16 \<Rightarrow> 's \<Rightarrow> VBE_INFO"
  mode_prepare :: "u16 \<Rightarrow> 's \<Rightarrow> 's"
  mode_read :: "u16 \<Rightarrow> 's \<Rightarrow> VBE_MODE_INFO"
  peek16 :: "u32 \<Rightarrow> 's \<Rightarrow> u16"
  file_open :: "'s \<Rightarrow> bool \<times> 's"
  file_close :: "'s \<Rightarrow> bool \<times> 's"

definition VBE_MODE_NO_CLEAR :: u16 where "VBE_MODE_NO_CLEAR = 0x8000"
definition SAMPLE_CAP :: nat where "SAMPLE_CAP = 65536"
definition MODE_CAP :: nat where "MODE_CAP = 160"

definition bios_mode :: "'s dos_env \<Rightarrow> 's \<Rightarrow> u8 \<times> 's" where
  "bios_mode d s = (let (r, s) = int386 d 0x10 (regs_zero\<lparr>r_ax := 0x0F00\<rparr>) s in (ucast (r_ax r), s))"

definition bios_set :: "'s dos_env \<Rightarrow> u16 \<Rightarrow> 's \<Rightarrow> bool \<times> 's" where
  "bios_set d mode s =
     (let r = regs_zero\<lparr>r_ax := (if mode \<le> 0x13 then mode else 0x4F02)\<rparr>;
          r = (if mode > 0x13 then r\<lparr>r_bx := mode OR VBE_MODE_NO_CLEAR\<rparr> else r);
          (r, s) = int386 d 0x10 r s
      in if mode \<le> 0x13 then (let (current, s) = bios_mode d s in (ucast current = mode, s))
         else if r_ax r \<noteq> 0x004F then (False, s)
         else
           (let (r, s) = int386 d 0x10 (regs_zero\<lparr>r_ax := 0x4F03\<rparr>) s
            in (r_ax r = 0x004F \<and> r_bx r AND 0x3FFF = mode AND 0x3FFF, s)))"

definition text_smoke :: "'s dos_env \<Rightarrow> 's \<Rightarrow> 's" where
  "text_smoke d s = snd (int386 d 0x10 (regs_zero\<lparr>r_ax := 0x0E2E, r_bx := 7\<rparr>) s)"

definition dos_allocate :: "'s dos_env \<Rightarrow> u16 \<Rightarrow> 's \<Rightarrow> u16 \<times> 's" where
  "dos_allocate d paragraphs s =
     (let (r, s) = int386 d 0x21 (regs_zero\<lparr>r_ax := 0x4800, r_bx := paragraphs\<rparr>) s in (if r_cflag r then 0 else r_ax r, s))"

definition dos_free :: "'s dos_env \<Rightarrow> u16 \<Rightarrow> 's \<Rightarrow> 's" where
  "dos_free d segment s = snd (int386 d 0x21 (regs_zero\<lparr>r_ax := 0x4900, r_es := segment\<rparr>) s)"

definition vbe_call_buffer :: "'s dos_env \<Rightarrow> u16 \<Rightarrow> u16 \<Rightarrow> u16 \<Rightarrow> 's \<Rightarrow> bool \<times> 's" where
  "vbe_call_buffer d ax cx segment s =
     (let (r, s) = int386 d 0x10 (regs_zero\<lparr>r_ax := ax, r_cx := cx, r_es := segment\<rparr>) s in (r_ax r = 0x004F, s))"

definition dpmi_map :: "'s dos_env \<Rightarrow> u32 \<Rightarrow> u32 \<Rightarrow> 's \<Rightarrow> u32 \<times> 's" where
  "dpmi_map d physical bytes s =
     (let (r, s) = int386 d 0x31 (regs_zero\<lparr>r_ax := 0x0800, r_bx := ucast (drop_bit 16 physical), r_cx := ucast physical,
            r_si := ucast (drop_bit 16 bytes), r_di := ucast bytes\<rparr>) s
      in (if r_cflag r then 0 else push_bit 16 (ucast (r_bx r)) OR ucast (r_cx r), s))"

definition dpmi_unmap :: "'s dos_env \<Rightarrow> u32 \<Rightarrow> 's \<Rightarrow> 's" where
  "dpmi_unmap d linear s =
     snd (int386 d 0x31 (regs_zero\<lparr>r_ax := 0x0801, r_bx := ucast (drop_bit 16 linear), r_cx := ucast linear\<rparr>) s)"

section \<open>The figures\<close>

record METRICS =
  vx_frames :: u32
  vx_duration_ms :: u32
  vx_avg_fps_milli :: u32
  vx_p50_us :: u32
  vx_p95_us :: u32
  vx_max_us :: u32
  vx_slow_frames :: u32
  vx_crc32 :: u32
  vx_sample_cap :: bool
  vx_warning :: bool

definition vx_zero :: METRICS where
  "vx_zero = \<lparr>vx_frames = 0, vx_duration_ms = 0, vx_avg_fps_milli = 0, vx_p50_us = 0, vx_p95_us = 0, vx_max_us = 0,
     vx_slow_frames = 0, vx_crc32 = 0, vx_sample_cap = False, vx_warning = False\<rparr>"

definition crc32_bytes :: "u8 list \<Rightarrow> u32" where
  "crc32_bytes bytes = foldl crc_byte 0xFFFFFFFF bytes XOR 0xFFFFFFFF"

definition vbe_nearest_rank :: "u32 list \<Rightarrow> u32 \<Rightarrow> u32 \<Rightarrow> u32" where
  "vbe_nearest_rank samples cells percentile =
     (let rank = (cells * percentile + 99) div 100; rank = (if rank = 0 then 1 else rank) in samples ! unat (rank - 1))"

text \<open>\<^verbatim>\<open>qsort\<close> with the order of the numbers is \<open>sort\<close>.\<close>

definition metrics_finish :: "u32 \<Rightarrow> u32 list \<Rightarrow> u32 \<Rightarrow> METRICS \<Rightarrow> METRICS" where
  "metrics_finish per_second samples elapsed metrics =
     (let cells = of_nat (length samples) :: u32;
          duration = ucast ((ucast elapsed * 1000 :: u64) div ucast per_second) :: u32;
          average = (if duration \<noteq> 0 then ucast ((ucast (vx_frames metrics) * 1000000 :: u64) div ucast duration) else 0);
          samples = sort samples;
          p50 = vbe_nearest_rank samples cells 50;
          p95 = vbe_nearest_rank samples cells 95;
          threshold = (if p50 > 16666 then p50 * 2 else 33333);
          slow = foldl (\<lambda>slow x. if x > threshold then slow + 1 else slow) (vx_slow_frames metrics) samples
      in metrics\<lparr>vx_duration_ms := duration, vx_avg_fps_milli := average, vx_p50_us := p50, vx_p95_us := p95,
           vx_max_us := samples ! unat (cells - 1), vx_slow_frames := slow,
           vx_warning := (average < 20000 \<or> (cells \<ge> 60 \<and> (p95 > p50 * 2 \<or> slow > (if cells div 100 > 3 then cells div 100 else 3))))\<rparr>)"

section \<open>The rows\<close>

text \<open>The decimal and the hexadecimal conversion of \<^verbatim>\<open>fprintf\<close>.\<close>

definition format_lu :: "u32 \<Rightarrow> c_text" where
  "format_lu n = (if n = 0 then [0x30] else rev (decimal_digits 10 n))"

definition format_08lX :: "u32 \<Rightarrow> c_text" where
  "format_08lX n = map (\<lambda>i. lit ''0123456789ABCDEF'' ! unat (drop_bit (28 - 4 * i) n AND 15)) [0..<8]"

record 's dos_world =
  vw_state :: 's
  vw_sequence :: u32
  vw_file :: "u8 list"

definition emit_text :: "u32 \<Rightarrow> c_text \<Rightarrow> u32 \<Rightarrow> u32 \<Rightarrow> u32 \<Rightarrow> u32 \<Rightarrow> c_text \<Rightarrow> c_text \<Rightarrow> u32 \<Rightarrow> METRICS \<Rightarrow> u32 \<Rightarrow> c_text \<Rightarrow> c_text" where
  "emit_text sequence adapter mode width height bpp path status api_code m crc detail =
     lit ''GSWGFX_RESULT_V2'' @ [9] @ format_lu sequence @ [9] @ lit ''MODE'' @ [9] @ adapter @ [9] @ format_lu mode @ [9] @
     format_lu width @ [9] @ format_lu height @ [9] @ format_lu bpp @ [9] @ lit ''0'' @ [9] @ path @ [9] @ status @ [9] @
     lit ''0x'' @ format_08lX api_code @ [9] @ format_lu (vx_frames m) @ [9] @ format_lu (vx_duration_ms m) @ [9] @
     format_lu (vx_avg_fps_milli m) @ [9] @ format_lu (vx_p50_us m) @ [9] @ format_lu (vx_p95_us m) @ [9] @
     format_lu (vx_max_us m) @ [9] @ format_lu (vx_slow_frames m) @ [9] @ lit ''0'' @ [9] @ lit ''0'' @ [9] @ lit ''0'' @ [9] @
     lit ''0'' @ [9] @ format_08lX crc @ [9] @ detail @ [13, 10]"

text \<open>The line is taken to be written in full: \<^verbatim>\<open>fprintf\<close> on a full disk is not modelled.\<close>

definition emit_row :: "c_text \<Rightarrow> u32 \<Rightarrow> u32 \<Rightarrow> u32 \<Rightarrow> u32 \<Rightarrow> c_text \<Rightarrow> c_text \<Rightarrow> u32 \<Rightarrow> METRICS option \<Rightarrow> u32 \<Rightarrow> c_text \<Rightarrow>
    's dos_world \<Rightarrow> 's dos_world" where
  "emit_row adapter mode width height bpp path status api_code metrics crc detail w =
     w\<lparr>vw_file := vw_file w @ emit_text (vw_sequence w) adapter mode width height bpp path status api_code
         (case metrics of None \<Rightarrow> vx_zero | Some m \<Rightarrow> m) crc detail,
       vw_sequence := vw_sequence w + 1\<rparr>"

section \<open>The patterns\<close>

text \<open>Pixels of one to eight bits, packed from the top bit of a byte down.\<close>

definition index_value :: "u32 \<Rightarrow> u32 \<Rightarrow> u32 \<Rightarrow> u32" where
  "index_value x y pattern = x div 11 + y div 7 + pattern * 5"

definition packed_index_pixel :: "u32 \<Rightarrow> u32 \<Rightarrow> u32 \<Rightarrow> u32 \<Rightarrow> u32 \<Rightarrow> (u32 \<Rightarrow> u8) \<Rightarrow> (u32 \<Rightarrow> u8)" where
  "packed_index_pixel y width bpp pattern x pixels =
     (let v = index_value x y pattern AND (push_bit (unat bpp) 1 - 1);
          b = (y * width + x) * bpp;
          shift = 8 - bpp - (b AND 7);
          a = drop_bit 3 b
      in pixels(a := pixels a OR ucast (push_bit (unat shift) v)))"

definition packed_index_pattern :: "u32 \<Rightarrow> u32 \<Rightarrow> u32 \<Rightarrow> u32 \<Rightarrow> (u32 \<Rightarrow> u8)" where
  "packed_index_pattern width height bpp pattern =
     fold (\<lambda>y pixels. fold (\<lambda>x. packed_index_pixel (of_nat y) width bpp pattern (of_nat x)) [0..<unat width] pixels)
       [0..<unat height] (\<lambda>_. 0)"

record CLASSIC_CONTEXT =
  cc_mode :: u8
  cc_layout_bytes :: u32
  cc_plane_bytes :: u32
  cc_layout :: "u32 \<Rightarrow> u32 \<Rightarrow> u8"
  cc_crc :: "u32 \<Rightarrow> u32"

text \<open>The layouts of a picture: four planes of a bit each, the two halves of the CGA modes, or as it is.\<close>

definition planar_layout :: "u32 \<Rightarrow> u32 \<Rightarrow> u32 \<Rightarrow> u32 \<Rightarrow> (u32 \<Rightarrow> u8)" where
  "planar_layout width height plane_bytes pattern =
     fold (\<lambda>plane m.
       fold (\<lambda>y m.
         fold (\<lambda>x m.
           (let v = index_value (of_nat x) (of_nat y) pattern AND 15;
                a = of_nat plane * plane_bytes + of_nat y * (width div 8) + drop_bit 3 (of_nat x)
            in if v AND push_bit plane 1 \<noteq> 0 then m(a := m a OR drop_bit (x mod 8) 0x80) else m))
         [0..<unat width] m)
       [0..<unat height] m)
     [0..<4] (\<lambda>_. 0)"

definition cga_layout :: "u32 \<Rightarrow> u32 \<Rightarrow> u32 \<Rightarrow> (u32 \<Rightarrow> u8) \<Rightarrow> (u32 \<Rightarrow> u8)" where
  "cga_layout width height bpp packed =
     (let row_bytes = width * bpp div 8 in
      fold (\<lambda>y m.
        (let base = (of_nat y AND 1) * 0x2000 + drop_bit 1 (of_nat y) * row_bytes in
         fold (\<lambda>i m. m(base + of_nat i := packed (of_nat y * row_bytes + of_nat i))) [0..<unat row_bytes] m))
      [0..<unat height] (\<lambda>_. 0))"

definition linear_bytes :: "(u32 \<Rightarrow> u8) \<Rightarrow> u32 \<Rightarrow> u8 list" where
  "linear_bytes m n = map (\<lambda>i. m (of_nat i)) [0..<unat n]"

definition classic_context :: "u8 \<Rightarrow> u32 \<Rightarrow> u32 \<Rightarrow> u32 \<Rightarrow> CLASSIC_CONTEXT" where
  "classic_context mode width height bpp =
     (let packed_bytes = (width * height * bpp + 7) div 8;
          plane_bytes = (if mode \<ge> 0x0D \<and> mode \<le> 0x12 then width div 8 * height else 0);
          cga = (mode \<ge> 4 \<and> mode \<le> 6)
      in \<lparr>cc_mode = mode,
          cc_layout_bytes = (if plane_bytes \<noteq> 0 then plane_bytes * 4 else if cga then 16384 else packed_bytes),
          cc_plane_bytes = plane_bytes,
          cc_layout = (\<lambda>pattern. if plane_bytes \<noteq> 0 then planar_layout width height plane_bytes pattern
            else if cga then cga_layout width height bpp (packed_index_pattern width height bpp pattern)
            else packed_index_pattern width height bpp pattern),
          cc_crc = (\<lambda>pattern. crc32_bytes (linear_bytes (packed_index_pattern width height bpp pattern) packed_bytes))\<rparr>)"

text \<open>
  Per pattern the packed picture and its layout are allocated and the packed one is freed again; a
  refusal gives up. The contents follow from the arguments alone (\<open>classic_context\<close>).
\<close>

definition classic_allocate :: "'s dos_env \<Rightarrow> u32 \<Rightarrow> u32 \<Rightarrow> 's \<Rightarrow> bool \<times> 's" where
  "classic_allocate d packed_bytes layout_bytes s =
     (let (packed, s) = dos_malloc d packed_bytes s;
          (layout, s) = dos_malloc d layout_bytes s
      in (packed \<and> layout, if packed then dos_mfree d s else s))"

definition classic_prepare :: "'s dos_env \<Rightarrow> u8 \<Rightarrow> u32 \<Rightarrow> u32 \<Rightarrow> u32 \<Rightarrow> 's \<Rightarrow> CLASSIC_CONTEXT option \<times> 's" where
  "classic_prepare d mode width height bpp s =
     (let context = classic_context mode width height bpp;
          packed_bytes = (width * height * bpp + 7) div 8;
          (first, s) = classic_allocate d packed_bytes (cc_layout_bytes context) s
      in if \<not> first then (None, s)
         else
           (let (second, s) = classic_allocate d packed_bytes (cc_layout_bytes context) s
            in (if second then Some context else None, s)))"

definition classic_release :: "'s dos_env \<Rightarrow> 's \<Rightarrow> 's" where
  "classic_release d s = dos_mfree d (dos_mfree d s)"

text \<open>Bytes one after the other into the video memory.\<close>

definition poke_block :: "'s dos_env \<Rightarrow> u32 \<Rightarrow> (u32 \<Rightarrow> u8) \<Rightarrow> u32 \<Rightarrow> u32 \<Rightarrow> 's \<Rightarrow> 's" where
  "poke_block d video m start n s =
     fold (\<lambda>i. poke d (video + of_nat i) (m (start + of_nat i))) [0..<unat n] s"

definition classic_present :: "'s dos_env \<Rightarrow> CLASSIC_CONTEXT \<Rightarrow> u32 \<Rightarrow> 's \<Rightarrow> 's" where
  "classic_present d context frame s =
     (let m = cc_layout context (frame AND 1);
          video = (if cc_mode context \<ge> 4 \<and> cc_mode context \<le> 6 then 0xB8000 else 0xA0000)
      in if cc_plane_bytes context \<noteq> 0
         then
           (let s = fold (\<lambda>plane s. poke_block d video m (of_nat plane * cc_plane_bytes context) (cc_plane_bytes context)
                  (outp d 0x3C5 (push_bit plane 1) (outp d 0x3C4 2 s))) [0..<4] s
            in outp d 0x3C5 0x0F (outp d 0x3C4 2 s))
         else poke_block d video m 0 (cc_layout_bytes context) s)"

definition vbe_rgb :: "u32 \<Rightarrow> u32 \<Rightarrow> u32 \<Rightarrow> u32 \<Rightarrow> u32 \<Rightarrow> u32 \<times> u32 \<times> u32" where
  "vbe_rgb x y width height pattern =
     (if pattern = 0
      then (if width > 1 then x * 255 div (width - 1) else 0,
            if height > 1 then y * 255 div (height - 1) else 0,
            if ((drop_bit 4 x) XOR (drop_bit 4 y)) AND 1 \<noteq> 0 then 0xE0 else 0x20)
      else (((x div 31 + y div 23) * 37 + x) AND 255, ((x div 31 + y div 23) * 67 + y) AND 255,
            ((x div 31 + y div 23) * 97 + x + y) AND 255))"

definition vbe_pixel :: "u32 \<Rightarrow> u32 \<times> u32 \<times> u32 \<Rightarrow> u8 list" where
  "vbe_pixel bpp rgb =
     (let (r, g, b) = rgb in
      if bpp = 8 then [ucast ((r AND 0xE0) OR ((drop_bit 3 g) AND 0x1C) OR (drop_bit 6 b))]
      else if bpp = 15
      then (let v = ucast ((push_bit 10 (drop_bit 3 r)) OR (push_bit 5 (drop_bit 3 g)) OR (drop_bit 3 b)) :: u16
            in [ucast v, ucast (drop_bit 8 v)])
      else if bpp = 16
      then (let v = ucast ((push_bit 11 (drop_bit 3 r)) OR (push_bit 5 (drop_bit 2 g)) OR (drop_bit 3 b)) :: u16
            in [ucast v, ucast (drop_bit 8 v)])
      else [ucast b, ucast g, ucast r] @ (if bpp = 32 then [0] else []))"

definition vbe_pixel_bytes :: "u32 \<Rightarrow> u32" where
  "vbe_pixel_bytes bpp =
     (if bpp = 8 then 1 else if bpp = 15 \<or> bpp = 16 then 2 else if bpp = 24 then 3 else if bpp = 32 then 4 else 0)"

definition build_pattern :: "u32 \<Rightarrow> u32 \<Rightarrow> u32 \<Rightarrow> u32 \<Rightarrow> u32 \<Rightarrow> (u32 \<Rightarrow> u8) option" where
  "build_pattern pitch width height bpp pattern =
     (let bytes = vbe_pixel_bytes bpp in
      if bytes = 0 \<or> pitch < width * bytes then None
      else Some (fold (\<lambda>y m. fold (\<lambda>x. put_bytes (of_nat y * pitch + of_nat x * bytes)
             (vbe_pixel bpp (vbe_rgb (of_nat x) (of_nat y) width height pattern))) [0..<unat width] m)
           [0..<unat height] (\<lambda>_. 0)))"

definition crc32_rows :: "(u32 \<Rightarrow> u8) \<Rightarrow> u32 \<Rightarrow> u32 \<Rightarrow> u32 \<Rightarrow> u32" where
  "crc32_rows pixels pitch active height =
     fold (\<lambda>y crc. crc_row pixels (of_nat y * pitch) active crc) [0..<unat height] 0xFFFFFFFF XOR 0xFFFFFFFF"

text \<open>
  The second picture of the two programs is not the same: the companion does not reduce the number
  of the tile, so from the eighth tile on the colours differ.
\<close>

lemma patterns_differ:
  "vbe_rgb 248 0 640 480 1 = (32, 24, 0)" "gsw_pattern_rgb 248 0 640 480 1 = 0xF800F8"
  by (simp_all add: vbe_rgb_def gsw_pattern_rgb_def)

section \<open>The timed loops\<close>

partial_function (option) vbe_warmup ::
    "'s dos_env \<Rightarrow> (u32 \<Rightarrow> 's \<Rightarrow> bool \<times> 's) \<Rightarrow> u32 \<Rightarrow> u32 \<Rightarrow> 's \<Rightarrow> (bool \<times> u32 \<times> 's) option" where
  "vbe_warmup d present started frame s =
     (let (now, s) = clock d s in
      if now - started < CLOCKS_PER_SEC d div 2
      then
        (let (presented, s) = present frame s in
         if presented then vbe_warmup d present started (frame + 1) s else Some (False, frame, s))
      else Some (True, frame, s))"

definition vbe_sample :: "'s dos_env \<Rightarrow> u32 \<Rightarrow> u32 list \<times> METRICS \<Rightarrow> u32 list \<times> METRICS" where
  "vbe_sample d elapsed figures =
     (let (samples, m) = figures;
          (samples, m) = (if length samples < SAMPLE_CAP
            then (samples @ [ucast ((ucast elapsed * 1000000 :: u64) div ucast (CLOCKS_PER_SEC d))], m)
            else (samples, m\<lparr>vx_sample_cap := True\<rparr>))
      in (samples, m\<lparr>vx_frames := vx_frames m + 1\<rparr>))"

partial_function (option) vbe_measure ::
    "'s dos_env \<Rightarrow> (u32 \<Rightarrow> 's \<Rightarrow> bool \<times> 's) \<Rightarrow> u32 \<Rightarrow> u32 \<Rightarrow> u32 \<Rightarrow> u32 list \<times> METRICS \<Rightarrow> 's \<Rightarrow>
      (bool \<times> u32 \<times> u32 \<times> (u32 list \<times> METRICS) \<times> 's) option" where
  "vbe_measure d present started ended frame figures s =
     (if ended - started < CLOCKS_PER_SEC d * 3
      then
        (let (frame_started, s) = clock d s;
             (presented, s) = present frame s
         in if \<not> presented then Some (False, ended, frame, figures, s)
            else
              (let (ended, s) = clock d s
               in vbe_measure d present started ended (frame + 1) (vbe_sample d (ended - frame_started) figures) s))
      else Some (True, ended, frame, figures, s))"

text \<open>Both benchmarks: warm up, measure, and the figures with the checksum of the last picture.\<close>

definition vbe_timed :: "'s dos_env \<Rightarrow> (u32 \<Rightarrow> 's \<Rightarrow> bool \<times> 's) \<Rightarrow> (u32 \<Rightarrow> u32) \<Rightarrow> 's \<Rightarrow> (METRICS option \<times> 's) option" where
  "vbe_timed d present crc s =
     (let (started, s) = clock d s in
      case vbe_warmup d present started 0 s of
        None \<Rightarrow> None
      | Some (warm, frame, s) \<Rightarrow>
          if \<not> warm then Some (None, s)
          else
            (let (started, s) = clock d s in
             case vbe_measure d present started started frame ([], vx_zero) s of
               None \<Rightarrow> None
             | Some (measured, ended, frame, (samples, m), s) \<Rightarrow>
                 if \<not> measured then Some (None, s)
                 else Some (Some (metrics_finish (CLOCKS_PER_SEC d) samples (ended - started)
                        (m\<lparr>vx_crc32 := crc ((frame - 1) AND 1)\<rparr>)), s)))"

definition benchmark_classic :: "'s dos_env \<Rightarrow> u8 \<Rightarrow> u32 \<Rightarrow> u32 \<Rightarrow> u32 \<Rightarrow> 's \<Rightarrow> (METRICS option \<times> 's) option" where
  "benchmark_classic d mode width height bpp s =
     (let (prepared, s) = classic_prepare d mode width height bpp s in
      case prepared of
        None \<Rightarrow> Some (None, s)
      | Some context \<Rightarrow>
          (case vbe_timed d (\<lambda>frame s. (True, classic_present d context frame s)) (cc_crc context) s of
             None \<Rightarrow> None
           | Some (m, s) \<Rightarrow> Some (m, classic_release d s)))"

section \<open>VBE modes\<close>

record MODE =
  vmode_id :: u16
  vmode_info :: VBE_MODE_INFO

definition packed_bpp :: "u32 \<Rightarrow> bool" where
  "packed_bpp bpp \<longleftrightarrow> bpp = 8 \<or> bpp = 15 \<or> bpp = 16 \<or> bpp = 24 \<or> bpp = 32"

definition vbe_bank :: "'s dos_env \<Rightarrow> u32 \<Rightarrow> u32 \<Rightarrow> 's \<Rightarrow> bool \<times> 's" where
  "vbe_bank d offset_kb granularity_kb s =
     (if granularity_kb = 0 then (False, s)
      else
        (let (r, s) = int386 d 0x10 (regs_zero\<lparr>r_ax := 0x4F05, r_bx := 0, r_dx := ucast (offset_kb div granularity_kb)\<rparr>) s
         in (r_ax r = 0x004F, s)))"

function vbe_copy_loop ::
    "'s dos_env \<Rightarrow> u32 \<Rightarrow> u32 \<Rightarrow> u32 \<Rightarrow> (u32 \<Rightarrow> u8) \<Rightarrow> u32 \<Rightarrow> u32 \<Rightarrow> 's \<Rightarrow> bool \<times> 's" where
  "vbe_copy_loop d window granularity_kb window_bytes pixels bytes offset s =
     (if offset < bytes \<and> window_bytes \<noteq> 0
      then
        (let n = (if bytes - offset > window_bytes then window_bytes else bytes - offset);
             (selected, s) = vbe_bank d (offset div 1024) granularity_kb s
         in if \<not> selected then (False, s)
            else vbe_copy_loop d window granularity_kb window_bytes pixels bytes (offset + n) (poke_block d window pixels offset n s))
      else (True, s))"
  by pat_completeness auto

lemma copy_chunk:
  assumes "offset < bytes" "window_bytes \<noteq> (0 :: u32)"
  defines "n \<equiv> (if bytes - offset > window_bytes then window_bytes else bytes - offset)"
  shows "n \<noteq> 0" "unat (offset + n) = unat offset + unat n" "unat (offset + n) \<le> unat bytes"
proof -
  have b: "unat (bytes - offset) = unat bytes - unat offset" using assms by (simp add: unat_sub order_less_imp_le)
  have o: "unat offset < unat bytes" using assms by (simp add: word_less_nat_alt)
  have n: "unat n \<le> unat bytes - unat offset" using b by (auto simp: n_def word_less_nat_alt)
  show "n \<noteq> 0" using assms(2) o b by (auto simp: n_def)
  have "unat bytes < 2 ^ 32" using unsigned_less [of bytes, where ?'a = nat] by simp
  then have "unat offset + unat n < 2 ^ 32" using n o by linarith
  then show u: "unat (offset + n) = unat offset + unat n" by (simp add: unat_word_ariths)
  show "unat (offset + n) \<le> unat bytes" using u n o by linarith
qed

termination vbe_copy_loop
proof (relation "measure (\<lambda>(d, w, g, wb, p, bytes, offset, s). unat bytes - unat offset)", goal_cases)
  case (2 d window granularity_kb window_bytes pixels bytes offset s n x selected s')
  then have n: "n = (if bytes - offset > window_bytes then window_bytes else bytes - offset)" by simp
  have c: "n \<noteq> 0" "unat (offset + n) = unat offset + unat n" "unat (offset + n) \<le> unat bytes"
    using copy_chunk [of offset bytes window_bytes] 2 unfolding n by blast+
  have "unat n \<noteq> 0" using c(1) by (simp add: unat_eq_zero)
  then show ?case using c by simp
qed simp

declare vbe_copy_loop.simps [simp del]

definition window_address :: "VBE_MODE_INFO \<Rightarrow> u32" where
  "window_address i = push_bit 4 (ucast (vm_win_a_segment i))"

definition vbe_copy_banked :: "'s dos_env \<Rightarrow> MODE \<Rightarrow> (u32 \<Rightarrow> u8) \<Rightarrow> u32 \<Rightarrow> 's \<Rightarrow> bool \<times> 's" where
  "vbe_copy_banked d m pixels bytes s =
     (let i = vmode_info m; window_bytes = ucast (vm_window_kb i) * 1024 in
      if window_bytes = 0 \<or> vm_granularity_kb i = 0 then (False, s)
      else vbe_copy_loop d (window_address i) (ucast (vm_granularity_kb i)) window_bytes pixels bytes 0 s)"

definition vbe_copy_lfb :: "'s dos_env \<Rightarrow> u32 \<Rightarrow> (u32 \<Rightarrow> u8) \<Rightarrow> u32 \<Rightarrow> 's \<Rightarrow> bool \<times> 's" where
  "vbe_copy_lfb d linear pixels bytes s = (True, poke_block d linear pixels 0 bytes s)"

definition smoke_banked :: "'s dos_env \<Rightarrow> MODE \<Rightarrow> 's \<Rightarrow> bool \<times> 's" where
  "smoke_banked d m s =
     (let (mode_set, s) = bios_set d (vmode_id m) s in
      if \<not> mode_set then (False, s)
      else
        (let (selected, s) = vbe_bank d 0 (ucast (vm_granularity_kb (vmode_info m))) s in
         if \<not> selected then (False, s)
         else (True, fold (\<lambda>index. poke d (window_address (vmode_info m) + of_nat index) (of_nat (index * 7))) [0..<32] s)))"

definition mode_bytes :: "MODE \<Rightarrow> u32" where
  "mode_bytes m = ucast (vm_pitch (vmode_info m)) * ucast (vm_height (vmode_info m))"

definition smoke_lfb :: "'s dos_env \<Rightarrow> MODE \<Rightarrow> 's \<Rightarrow> bool \<times> 's" where
  "smoke_lfb d m s =
     (let (mode_set, s) = bios_set d (vmode_id m OR 0x4000) s in
      if \<not> mode_set \<or> mode_bytes m = 0 then (False, s)
      else
        (let (linear, s) = dpmi_map d (vm_lfb_physical (vmode_info m)) (mode_bytes m) s in
         if linear = 0 then (False, s)
         else (True, dpmi_unmap d linear (fold (\<lambda>index. poke d (linear + of_nat index) (of_nat (index * 11))) [0..<32] s))))"

definition free_two :: "'s dos_env \<Rightarrow> bool \<Rightarrow> bool \<Rightarrow> 's \<Rightarrow> 's" where
  "free_two d first second s =
     (let s = (if first then dos_mfree d s else s) in if second then dos_mfree d s else s)"

definition benchmark_vbe :: "'s dos_env \<Rightarrow> MODE \<Rightarrow> bool \<Rightarrow> 's \<Rightarrow> (METRICS option \<times> 's) option" where
  "benchmark_vbe d m lfb s =
     (let i = vmode_info m; bytes = mode_bytes m; bpp = ucast (vm_bpp i) :: u32;
          width = ucast (vm_width i) :: u32; height = ucast (vm_height i) :: u32; pitch = ucast (vm_pitch i) :: u32;
          active = width * ((bpp + 7) div 8)
      in if bytes = 0 \<or> active > pitch \<or> bytes > 16 * 1024 * 1024 then Some (None, s)
         else
           (let (first, s) = dos_malloc d bytes s;
                (second, s) = dos_malloc d bytes s
            in if \<not> first \<or> \<not> second then Some (None, free_two d first second s)
               else
                 (case (build_pattern pitch width height bpp 0, build_pattern pitch width height bpp 1) of
                    (Some even_pattern, Some odd_pattern) \<Rightarrow>
                      (let (linear, s) = (if lfb then dpmi_map d (vm_lfb_physical i) bytes s else (0, s));
                           pattern = (\<lambda>frame :: u32. if frame AND 1 = 0 then even_pattern else odd_pattern);
                           present = (\<lambda>frame s. if lfb then vbe_copy_lfb d linear (pattern frame) bytes s
                             else vbe_copy_banked d m (pattern frame) bytes s)
                       in if lfb \<and> linear = 0 then Some (None, free_two d True True s)
                          else
                            (case vbe_timed d present (\<lambda>frame. crc32_rows (pattern frame) pitch active height) s of
                               None \<Rightarrow> None
                             | Some (metrics, s) \<Rightarrow>
                                 Some (metrics, free_two d True True (if linear \<noteq> 0 then dpmi_unmap d linear s else s))))
                  | _ \<Rightarrow> Some (None, free_two d True True s))))"

definition vbe_canonical :: "MODE \<Rightarrow> bool" where
  "vbe_canonical m \<longleftrightarrow>
     (let w = vm_width (vmode_info m); h = vm_height (vmode_info m) in
      (w = 320 \<and> (h = 200 \<or> h = 240)) \<or> (w = 640 \<and> h = 480) \<or> (w = 800 \<and> h = 600) \<or> (w = 1024 \<and> h = 768))"

section \<open>The program\<close>

definition on_state :: "('s \<Rightarrow> 'a \<times> 's) \<Rightarrow> 's dos_world \<Rightarrow> 'a \<times> 's dos_world" where
  "on_state f w = (let (a, s) = f (vw_state w) in (a, w\<lparr>vw_state := s\<rparr>))"

definition on_state_option :: "('s \<Rightarrow> ('a \<times> 's) option) \<Rightarrow> 's dos_world \<Rightarrow> ('a \<times> 's dos_world) option" where
  "on_state_option f w = (case f (vw_state w) of None \<Rightarrow> None | Some (a, s) \<Rightarrow> Some (a, w\<lparr>vw_state := s\<rparr>))"

text \<open>The modes of the VGA BIOS: identifier, width, height and depth, 0 for text.\<close>

definition vga_modes :: "(u8 \<times> u32 \<times> u32 \<times> u32) list" where
  "vga_modes = zip [0, 1, 2, 3, 4, 5, 6, 7, 0x0D, 0x0E, 0x0F, 0x10, 0x11, 0x12, 0x13]
     (zip [40, 40, 80, 80, 320, 320, 640, 80, 320, 640, 640, 640, 640, 640, 320]
       (zip [25, 25, 25, 25, 200, 200, 200, 25, 200, 200, 350, 350, 480, 480, 200]
         [0, 0, 0, 0, 2, 2, 1, 0, 4, 4, 1, 4, 1, 4, 8]))"

definition run_vga_mode :: "'s dos_env \<Rightarrow> u8 \<times> u32 \<times> u32 \<times> u32 \<Rightarrow> 's dos_world \<Rightarrow> 's dos_world option" where
  "run_vga_mode d mode w =
     (let (mode_id, width, height, bpp) = mode;
          (pass, w) = on_state (bios_set d (ucast mode_id)) w;
          w = (if pass \<and> bpp = 0 then w\<lparr>vw_state := text_smoke d (vw_state w)\<rparr> else w);
          w = emit_row (lit ''VGA_BIOS'') (ucast mode_id) width height bpp
                (if bpp = 0 then lit ''TEXT'' else if bpp = 8 then lit ''CHAIN4'' else lit ''PLANAR'')
                (if pass then lit ''PASS'' else lit ''FAIL'') (if pass then 0 else 1) None 0
                (if bpp = 0 then lit ''FUNCTIONAL_SMOKE'' else lit ''GRAPHICS_SMOKE'') w
      in if pass \<and> bpp \<noteq> 0
         then
           (case on_state_option (benchmark_classic d mode_id width height bpp) w of
              None \<Rightarrow> None
            | Some (None, w) \<Rightarrow> Some w
            | Some (Some m, w) \<Rightarrow>
                Some (emit_row (lit ''VGA_BIOS'') (ucast mode_id) width height bpp
                  (if bpp = 8 then lit ''CHAIN4'' else lit ''PLANAR'') (if vx_warning m then lit ''WARN'' else lit ''PASS'')
                  0 (Some m) (vx_crc32 m) (if vx_sample_cap m then lit ''SAMPLE_CAP'' else lit ''BENCHMARK'') w))
         else Some w)"

fun run_vga_modes :: "'s dos_env \<Rightarrow> (u8 \<times> u32 \<times> u32 \<times> u32) list \<Rightarrow> 's dos_world \<Rightarrow> 's dos_world option" where
  "run_vga_modes d [] w = Some w"
| "run_vga_modes d (mode # modes) w =
     (case run_vga_mode d mode w of None \<Rightarrow> None | Some w \<Rightarrow> run_vga_modes d modes w)"

definition run_vga :: "'s dos_env \<Rightarrow> u8 \<Rightarrow> 's dos_world \<Rightarrow> 's dos_world option" where
  "run_vga d original w =
     (case run_vga_modes d vga_modes w of
        None \<Rightarrow> None
      | Some w \<Rightarrow> Some (snd (on_state (bios_set d (ucast original)) w)))"

text \<open>
  The list of modes ends with \<open>0xFFFF\<close>. A mode that is refused moves the base of the list, so that
  the next one is read at the same index.
\<close>

definition mode_usable :: "VBE_MODE_INFO \<Rightarrow> bool" where
  "mode_usable i \<longleftrightarrow> vm_attributes i AND 0x11 = 0x11 \<and> vm_width i \<noteq> 0 \<and> vm_height i \<noteq> 0 \<and> vm_bpp i \<noteq> 0"

partial_function (option) vbe_list_modes ::
    "'s dos_env \<Rightarrow> u16 \<Rightarrow> u32 \<Rightarrow> MODE list \<Rightarrow> 's \<Rightarrow> (MODE list \<times> 's) option" where
  "vbe_list_modes d mode_segment mode_ids modes s =
     (let mode_id = peek16 d (mode_ids + 2 * of_nat (length modes)) s in
      if length modes < MODE_CAP \<and> mode_id \<noteq> 0xFFFF
      then
        (let (answered, s) = vbe_call_buffer d 0x4F01 mode_id mode_segment (mode_prepare d mode_segment s);
             i = mode_read d mode_segment s
         in if answered \<and> mode_usable i
            then vbe_list_modes d mode_segment mode_ids (modes @ [\<lparr>vmode_id = mode_id, vmode_info = i\<rparr>]) s
            else vbe_list_modes d mode_segment (mode_ids + 2) modes s)
      else Some (modes, s))"

definition emit_vbe :: "MODE \<Rightarrow> c_text \<Rightarrow> c_text \<Rightarrow> u32 \<Rightarrow> METRICS option \<Rightarrow> u32 \<Rightarrow> c_text \<Rightarrow> 's dos_world \<Rightarrow> 's dos_world" where
  "emit_vbe m path status api_code metrics crc detail =
     emit_row (lit ''VBE'') (ucast (vmode_id m)) (ucast (vm_width (vmode_info m))) (ucast (vm_height (vmode_info m)))
       (ucast (vm_bpp (vmode_info m))) path status api_code metrics crc detail"

text \<open>One path of a mode, banked or linear: its smoke row.\<close>

definition emit_smoke :: "MODE \<Rightarrow> c_text \<Rightarrow> bool \<Rightarrow> bool \<Rightarrow> bool \<times> 's dos_world \<Rightarrow> bool \<times> 's dos_world" where
  "emit_smoke m path present passed sw =
     (let (success, w) = sw in
      if present
      then (success \<and> passed,
            emit_vbe m path (if passed then lit ''PASS'' else lit ''FAIL'') (if passed then 0 else 0x4F02) None 0
              (lit ''MODE_SMOKE_READBACK'') w)
      else (success, w))"

text \<open>One path of a mode: its benchmark row, or the failure of the run where the path is there.\<close>

definition run_vbe_path :: "'s dos_env \<Rightarrow> MODE \<Rightarrow> bool \<Rightarrow> bool \<Rightarrow> bool \<Rightarrow> bool \<times> 's dos_world \<Rightarrow> (bool \<times> 's dos_world) option" where
  "run_vbe_path d m lfb present smoke sw =
     (let (success, w) = sw;
          (mode_set, w) = (if present \<and> smoke
            then on_state (bios_set d (if lfb then vmode_id m OR 0x4000 else vmode_id m)) w else (False, w));
          measured = (if mode_set then on_state_option (benchmark_vbe d m lfb) w else Some (None, w))
      in case measured of
           None \<Rightarrow> None
         | Some (Some metrics, w) \<Rightarrow>
             Some (success, emit_vbe m (if lfb then lit ''LFB'' else lit ''BANKED'') (if vx_warning metrics then lit ''WARN'' else lit ''PASS'')
               0 (Some metrics) (vx_crc32 metrics) (if vx_sample_cap metrics then lit ''SAMPLE_CAP'' else lit ''BENCHMARK'') w)
         | Some (None, w) \<Rightarrow> Some (if present then False else success, w))"

definition run_vbe_mode :: "'s dos_env \<Rightarrow> bool \<Rightarrow> MODE \<Rightarrow> bool \<times> 's dos_world \<Rightarrow> (bool \<times> 's dos_world) option" where
  "run_vbe_mode d exhaustive m sw =
     (let (success, w) = sw; i = vmode_info m;
          banked = (vm_win_a_segment i \<noteq> 0 \<and> vm_granularity_kb i \<noteq> 0);
          lfb = (vm_attributes i AND 0x80 \<noteq> 0 \<and> vm_lfb_physical i \<noteq> 0);
          (banked_smoke, w) = (if banked then on_state (smoke_banked d m) w else (False, w));
          (lfb_smoke, w) = (if lfb then on_state (smoke_lfb d m) w else (False, w));
          sw = emit_smoke m (lit ''BANKED'') banked banked_smoke (success, w);
          sw = emit_smoke m (lit ''LFB'') lfb lfb_smoke sw;
          sw = (if \<not> banked \<and> \<not> lfb
                then (fst sw, emit_vbe m (lit ''NONE'') (lit ''UNAVAILABLE'') 0 None 0 (lit ''NO_FRAMEBUFFER_PATH'') (snd sw))
                else sw)
      in if packed_bpp (ucast (vm_bpp i)) \<and> (exhaustive \<or> vbe_canonical m)
         then
           (case run_vbe_path d m False banked banked_smoke sw of
              None \<Rightarrow> None
            | Some sw \<Rightarrow> run_vbe_path d m True lfb lfb_smoke sw)
         else Some sw)"

fun run_vbe_modes :: "'s dos_env \<Rightarrow> bool \<Rightarrow> MODE list \<Rightarrow> bool \<times> 's dos_world \<Rightarrow> (bool \<times> 's dos_world) option" where
  "run_vbe_modes d exhaustive [] sw = Some sw"
| "run_vbe_modes d exhaustive (m # modes) sw =
     (case run_vbe_mode d exhaustive m sw of None \<Rightarrow> None | Some sw \<Rightarrow> run_vbe_modes d exhaustive modes sw)"

definition run_vbe_release :: "'s dos_env \<Rightarrow> u16 \<Rightarrow> u16 \<Rightarrow> 's \<Rightarrow> 's" where
  "run_vbe_release d mode_segment info_segment s =
     (let s = (if mode_segment \<noteq> 0 then dos_free d mode_segment s else s)
      in if info_segment \<noteq> 0 then dos_free d info_segment s else s)"

definition run_vbe :: "'s dos_env \<Rightarrow> bool \<Rightarrow> 's dos_world \<Rightarrow> (bool \<times> 's dos_world) option" where
  "run_vbe d exhaustive w =
     (let (info_segment, w) = on_state (dos_allocate d 32) w;
          (mode_segment, w) = on_state (dos_allocate d 16) w;
          release = (\<lambda>w. w\<lparr>vw_state := run_vbe_release d mode_segment info_segment (vw_state w)\<rparr>)
      in if info_segment = 0 \<or> mode_segment = 0 then Some (False, release w)
         else
           (let (answered, w) = on_state (\<lambda>s. vbe_call_buffer d 0x4F00 0 info_segment (info_prepare d info_segment s)) w;
                info = info_read d info_segment (vw_state w)
            in if \<not> answered \<or> vi_signature info \<noteq> lit ''VESA'' then Some (False, release w)
               else
                 (let mode_ids = push_bit 4 (drop_bit 16 (vi_modes info) AND 0xFFFF) + (vi_modes info AND 0xFFFF) in
                  case on_state_option (vbe_list_modes d mode_segment mode_ids []) w of
                    None \<Rightarrow> None
                  | Some (modes, w) \<Rightarrow>
                      (case run_vbe_modes d exhaustive modes (True, w) of
                         None \<Rightarrow> None
                       | Some (success, w) \<Rightarrow> Some (success, release w)))))"

definition vbe_main :: "'s dos_env \<Rightarrow> c_text list \<Rightarrow> 's \<Rightarrow> (u32 \<times> 's dos_world) option" where
  "vbe_main d argv s =
     (let (original, s) = bios_mode d s;
          exhaustive = (lit ''/exhaustive'' \<in> set (tl argv));
          preboot = (lit ''/preboot'' \<in> set (tl argv));
          w = \<lparr>vw_state = s, vw_sequence = 0, vw_file = []\<rparr>;
          (opened, w) = on_state (file_open d) w
      in if \<not> opened then Some (2, w)
         else
           (case run_vga d original w of
              None \<Rightarrow> None
            | Some w \<Rightarrow>
                (let finished = (if preboot
                      then Some (True, emit_row (lit ''VBE'') 0 0 0 0 (lit ''NONE'') (lit ''UNAVAILABLE'') 0 None 0
                             (lit ''PREBOOT_VBE_UNBOUNDED'') w)
                      else run_vbe d exhaustive w)
                 in case finished of
                      None \<Rightarrow> None
                    | Some (success, w) \<Rightarrow>
                        (let (_, w) = on_state (bios_set d (ucast original)) w;
                             (closed, w) = on_state (file_close d) w
                         in Some (if success \<and> closed then 0 else 1, w)))))"

end
