(* ===== verification/Probe_Vbe_Correct.thy ===== *)
theory Probe_Vbe_Correct
  imports Probe_Vbe
begin

text \<open>
  What the companion of the graphics diagnostic for MS-DOS guarantees: the copy through the banks is
  exact, its figures are those of the diagnostic, and the file it leaves behind can be imported.
\<close>

section \<open>The banked copy is exact\<close>

text \<open>
  A BIOS with one window, A, onto the memory of the display, as the VBE standard describes function
  05h: the window shows the memory from the number of the bank times the granularity on. It has
  \<open>window_size\<close> bytes; a store at any other address does not reach the display, and is counted.
\<close>

record banked =
  bk_bank :: nat
  bk_memory :: "nat \<Rightarrow> u8"
  bk_outside :: nat

definition banked_env :: "u32 \<Rightarrow> nat \<Rightarrow> nat \<Rightarrow> banked dos_env" where
  "banked_env window window_size granularity =
     \<lparr>int386 = (\<lambda>n r s. if n = 0x10 \<and> r_ax r = 0x4F05 \<and> r_bx r = 0
        then (r\<lparr>r_ax := 0x004F\<rparr>, s\<lparr>bk_bank := unat (r_dx r)\<rparr>) else (r, s)),
      outp = (\<lambda>port v s. s),
      poke = (\<lambda>a v s. if unat (a - window) < window_size
        then s\<lparr>bk_memory := (bk_memory s)(bk_bank s * granularity + unat (a - window) := v)\<rparr>
        else s\<lparr>bk_outside := bk_outside s + 1\<rparr>),
      clock = (\<lambda>s. (0, s)), CLOCKS_PER_SEC = 1000, dos_malloc = (\<lambda>n s. (False, s)), dos_mfree = (\<lambda>s. s),
      info_prepare = (\<lambda>a s. s), info_read = (\<lambda>a s. \<lparr>vi_signature = [], vi_modes = 0\<rparr>), mode_prepare = (\<lambda>a s. s),
      mode_read = (\<lambda>a s. \<lparr>vm_attributes = 0, vm_granularity_kb = 0, vm_window_kb = 0, vm_win_a_segment = 0, vm_pitch = 0,
        vm_width = 0, vm_height = 0, vm_bpp = 0, vm_lfb_physical = 0\<rparr>),
      peek16 = (\<lambda>a s. 0xFFFF), file_open = (\<lambda>s. (False, s)), file_close = (\<lambda>s. (False, s))\<rparr>"

lemma ucast_of_nat_unat: "ucast x = (of_nat (unat x) :: u32)" for x :: u16
  by (simp add: word_unat_eq_iff unsigned_ucast_eq unat_of_nat take_bit_eq_mod)

lemma banked_block:
  "n < 2 ^ 32 \<Longrightarrow> n \<le> z \<Longrightarrow> fold (\<lambda>i. poke (banked_env window z g) (window + of_nat i) (m (start + of_nat i))) [0..<n] s =
     s\<lparr>bk_memory := (\<lambda>x. if bk_bank s * g \<le> x \<and> x < bk_bank s * g + n then m (start + of_nat (x - bk_bank s * g)) else bk_memory s x)\<rparr>"
proof (induction n)
  case (Suc n)
  have "unat (of_nat n :: u32) = n" using Suc.prems by (simp add: unat_of_nat)
  then show ?case using Suc by (auto simp: banked_env_def fun_eq_iff)
qed (rule banked.equality, auto simp: fun_eq_iff)

lemma banked_loop:
  fixes window bytes :: u32 and gk wk :: nat
  assumes "0 < gk" "gk dvd wk" "0 < wk" "wk * 1024 < 2 ^ 32" "unat bytes \<le> 2 ^ 24"
  defines "d \<equiv> banked_env window (wk * 1024) (gk * 1024)"
  shows "(offset < bytes \<longrightarrow> unat offset mod (wk * 1024) = 0) \<Longrightarrow> unat offset \<le> unat bytes \<Longrightarrow>
    bk_memory s = (\<lambda>x. if x < unat offset then pixels (of_nat x) else fb x) \<Longrightarrow>
    \<exists>s'. vbe_copy_loop d window (of_nat gk) (of_nat (wk * 1024)) pixels bytes offset s = (True, s') \<and>
      bk_memory s' = (\<lambda>x. if x < unat bytes then pixels (of_nat x) else fb x) \<and> bk_outside s' = bk_outside s"
proof (induction "unat bytes - unat offset" arbitrary: offset s rule: less_induct)
  case less
  have wb: "unat (of_nat (wk * 1024) :: u32) = wk * 1024" using assms(4) by (simp add: unat_of_nat del: of_nat_mult)
  then have wb0: "of_nat (wk * 1024) \<noteq> (0 :: u32)" using assms(3) by (metis mult_is_0 neq0_conv unat_0 zero_neq_numeral)
  show ?case
  proof (cases "offset < bytes")
    case False
    then have "unat offset = unat bytes" using less.prems(2) by (simp add: word_less_nat_alt)
    then show ?thesis using False less.prems(3) by (subst vbe_copy_loop.simps) simp
  next
    case True
    define n where "n = (if bytes - offset > of_nat (wk * 1024) then of_nat (wk * 1024) else bytes - offset)"
    have c: "n \<noteq> 0" "unat (offset + n) = unat offset + unat n" "unat (offset + n) \<le> unat bytes"
      unfolding n_def by (rule copy_chunk [OF True wb0])+
    obtain k where k: "unat offset = k * (wk * 1024)" using less.prems(1) True by (metis mod_eq_0_iff_dvd dvdE mult.commute)
    obtain q where q: "wk = gk * q" using assms(2) by (auto elim: dvdE)
    have lt: "unat offset < 2 ^ 24" using True assms(5) by (simp add: word_less_nat_alt)
    have gk: "gk \<le> wk" "gk < 2 ^ 32" using assms(2,3,4) by (auto dest: dvd_imp_le)
    have ug: "unat (of_nat gk :: u32) = gk" using gk(2) by (simp add: unat_of_nat)
    have ob: "unat (offset div 1024 div of_nat gk) = k * q"
      using assms(1) by (simp add: unat_div ug k q mult.assoc)
    have "gk * (k * q) * 1024 < 2 ^ 24" using lt k q by (simp add: ac_simps)
    then have "gk * (k * q) < 2 ^ 16" by simp
    moreover have "1 * (k * q) \<le> gk * (k * q)" using assms(1) by (intro mult_le_mono1) simp
    ultimately have "k * q < 2 ^ 16" by linarith
    then have dx: "unat (ucast (offset div 1024 div of_nat gk) :: u16) = k * q"
      using ob by (simp add: unsigned_ucast_eq take_bit_eq_mod)
    have g0: "of_nat gk \<noteq> (0 :: u32)" using ug assms(1) by auto
    define s1 where "s1 = s\<lparr>bk_bank := k * q\<rparr>"
    have b: "vbe_bank d (offset div 1024) (of_nat gk) s = (True, s1)"
      using g0 dx by (simp add: vbe_bank_def d_def banked_env_def regs_zero_def s1_def)
    define s2 where "s2 = poke_block d window pixels offset n s1"
    have base: "bk_bank s1 * (gk * 1024) = unat offset" by (simp add: s1_def k q ac_simps)
    have un: "unat n < 2 ^ 32" using unsigned_less [of n, where ?'a = nat] by simp
    have "n \<le> of_nat (wk * 1024)" unfolding n_def by (simp add: linorder_not_less del: of_nat_mult)
    then have "unat n \<le> wk * 1024" using wb by (simp only: word_le_nat_alt)
    from banked_block [OF un this, of window "gk * 1024" pixels offset s1]
    have w: "bk_memory s2 = (\<lambda>x. if unat offset \<le> x \<and> x < unat offset + unat n
        then pixels (offset + of_nat (x - unat offset)) else bk_memory s1 x)" and out: "bk_outside s2 = bk_outside s"
      unfolding base s2_def poke_block_def d_def by (simp_all add: s1_def)
    have m1: "bk_memory s1 = (\<lambda>x. if x < unat offset then pixels (of_nat x) else fb x)" by (simp add: s1_def less.prems(3))
    have a: "offset + of_nat (x - unat offset) = of_nat x" if "unat offset \<le> x" for x
    proof -
      have "(of_nat (unat offset + (x - unat offset)) :: u32) = of_nat x" using that by simp
      then show ?thesis by (simp only: of_nat_add) simp
    qed
    have m2: "bk_memory s2 = (\<lambda>x. if x < unat (offset + n) then pixels (of_nat x) else fb x)"
      unfolding w m1 c(2) by (auto simp: a fun_eq_iff)
    have nx: "offset + n < bytes \<longrightarrow> unat (offset + n) mod (wk * 1024) = 0"
    proof
      assume "offset + n < bytes"
      then have "n \<noteq> bytes - offset" by auto
      then have "n = of_nat (wk * 1024)" by (auto simp: n_def split: if_splits)
      then have "unat (offset + n) = (k + 1) * (wk * 1024)" using c(2) wb k by simp
      then show "unat (offset + n) mod (wk * 1024) = 0" by simp
    qed
    have "unat n \<noteq> 0" using c(1) by (simp add: unat_eq_zero)
    then have "unat bytes - unat (offset + n) < unat bytes - unat offset" using c by simp
    from less.hyps [OF this nx c(3) m2]
    show ?thesis using True wb0 b
      by (subst vbe_copy_loop.simps) (simp add: n_def [symmetric] out flip: s2_def del: of_nat_mult)
  qed
qed

text \<open>
  C37. The copy through the banks is exact where the granularity divides the size of the window: a
  picture of up to 16 MiB ends up in the memory of the display byte for byte from its beginning on,
  nothing else of that memory changes, and no byte is stored outside the window, through which
  alone the memory can be reached.
\<close>

theorem vbe_banked_exact:
  assumes "vm_granularity_kb (vmode_info m) \<noteq> 0" "vm_window_kb (vmode_info m) \<noteq> 0"
    and "unat (vm_granularity_kb (vmode_info m)) dvd unat (vm_window_kb (vmode_info m))" "unat bytes \<le> 2 ^ 24"
  shows "let (copied, s') = vbe_copy_banked (banked_env (window_address (vmode_info m)) (unat (vm_window_kb (vmode_info m)) * 1024)
        (unat (vm_granularity_kb (vmode_info m)) * 1024)) m pixels bytes s in
    copied \<and> bk_memory s' = (\<lambda>x. if x < unat bytes then pixels (of_nat x) else bk_memory s x) \<and> bk_outside s' = bk_outside s"
proof -
  let ?g = "unat (vm_granularity_kb (vmode_info m))" and ?w = "unat (vm_window_kb (vmode_info m))"
  have w: "?w < 2 ^ 16" using unsigned_less [of "vm_window_kb (vmode_info m)", where ?'a = nat] by simp
  have u: "ucast (vm_granularity_kb (vmode_info m)) = (of_nat ?g :: u32)" "ucast (vm_window_kb (vmode_info m)) * 1024 = (of_nat (?w * 1024) :: u32)"
    by (simp_all only: ucast_of_nat_unat of_nat_mult of_nat_numeral)
  have p: "0 < ?g" "0 < ?w" using assms(1,2) by (simp_all add: unat_gt_0)
  then have "unat (of_nat (?w * 1024) :: u32) \<noteq> 0" using w by (simp add: unat_of_nat del: of_nat_mult)
  then have z: "of_nat (?w * 1024) \<noteq> (0 :: u32)" by (metis unat_0)
  let ?d = "banked_env (window_address (vmode_info m)) (?w * 1024) (?g * 1024)"
  have "\<exists>s'. vbe_copy_loop ?d (window_address (vmode_info m)) (of_nat ?g) (of_nat (?w * 1024)) pixels bytes 0 s = (True, s') \<and>
      bk_memory s' = (\<lambda>x. if x < unat bytes then pixels (of_nat x) else bk_memory s x) \<and> bk_outside s' = bk_outside s"
    using assms(3,4) p w by (intro banked_loop) simp_all
  then obtain s' where s': "vbe_copy_loop ?d (window_address (vmode_info m)) (of_nat ?g) (of_nat (?w * 1024)) pixels bytes 0 s = (True, s')"
      "bk_memory s' = (\<lambda>x. if x < unat bytes then pixels (of_nat x) else bk_memory s x)" "bk_outside s' = bk_outside s" by blast
  have "vbe_copy_banked ?d m pixels bytes s = (True, s')"
    unfolding vbe_copy_banked_def Let_def u using z assms(1) s'(1) by (simp only: if_False de_Morgan_disj simp_thms)
  then show ?thesis using s'(2,3) by simp
qed

definition example_mode :: MODE where
  "example_mode = \<lparr>vmode_id = 0x101, vmode_info = \<lparr>vm_attributes = 0x1B, vm_granularity_kb = 32, vm_window_kb = 64, vm_win_a_segment = 0xA000,
     vm_pitch = 640, vm_width = 640, vm_height = 480, vm_bpp = 8, vm_lfb_physical = 0\<rparr>\<rparr>"

lemma vbe_banked_exact_witness:
  "let s' = snd (vbe_copy_banked (banked_env 0xA0000 65536 32768) example_mode (\<lambda>a. ucast a) 307200
       \<lparr>bk_bank = 5, bk_memory = (\<lambda>_. 9), bk_outside = 0\<rparr>)
   in bk_memory s' 307200 = 9 \<and> bk_memory s' 200000 = 64 \<and> bk_outside s' = 0"
  using vbe_banked_exact [of example_mode 307200 "\<lambda>a. ucast a" "\<lparr>bk_bank = 5, bk_memory = (\<lambda>_. 9), bk_outside = 0\<rparr>"]
  by (auto simp: example_mode_def window_address_def Let_def split: prod.splits)

section \<open>The two programs agree\<close>

text \<open>
  The companion and the diagnostic compute the same figures: for the same samples, frames and
  duration every figure of the row is the same, and the companion warns exactly when the status of
  the diagnostic is a warning.
\<close>

theorem vbe_metrics_agree:
  fixes samples :: "u32 list" and duration elapsed per_second crc :: u32 and m :: METRICS and g :: GSW_METRICS
  assumes "samples \<noteq> []" "length samples \<le> 65536"
    "vx_frames m = mt_frames g" "vx_slow_frames m = mt_slow_frames g"
    "duration = ucast ((ucast elapsed * 1000 :: u64) div ucast per_second)"
  defines "v \<equiv> metrics_finish per_second samples elapsed m" and "n \<equiv> gsw_statistics samples duration crc g"
  shows "vx_duration_ms v = mt_duration_ms n \<and> vx_avg_fps_milli v = mt_avg_fps_milli n \<and> vx_p50_us v = mt_p50_us n \<and>
    vx_p95_us v = mt_p95_us n \<and> vx_max_us v = mt_max_us n \<and> vx_slow_frames v = mt_slow_frames n \<and>
    vx_warning v = (mt_status n = GSW_STATUS_WARN)"
proof -
  have e: "gsw_sort samples (length samples) = sort samples" using heap_sort by (metis properties_for_sort)
  have z: "of_nat (length samples) \<noteq> (0 :: u32)"
  proof
    assume "of_nat (length samples) = (0 :: u32)"
    then have "unat (of_nat (length samples) :: u32) = 0" by simp
    then show False using assms by (simp add: unat_of_nat)
  qed
  have "c + 100 - 1 = c + 99" for c :: u32 by simp
  then have r: "vbe_nearest_rank xs (of_nat (length samples)) p = gsw_rank xs (of_nat (length samples)) p 100" for xs p
    using z by (simp add: vbe_nearest_rank_def gsw_rank_def add.commute)
  show ?thesis
    unfolding v_def n_def metrics_finish_def gsw_statistics_def Let_def e r assms(5)
    by (simp add: assms(3,4) gsw_average_def gsw_slow_def)
qed

lemma vbe_metrics_agree_witness:
  "vx_p95_us (metrics_finish 1000 [20000, 100, 70000] 3000 (vx_zero\<lparr>vx_frames := 3\<rparr>)) =
   mt_p95_us (gsw_statistics [20000, 100, 70000] 3000 7 (metrics_zero\<lparr>mt_frames := 3\<rparr>))"
  using vbe_metrics_agree [of "[20000, 100, 70000]" "vx_zero\<lparr>vx_frames := 3\<rparr>" "metrics_zero\<lparr>mt_frames := 3\<rparr>" 3000 3000 1000 7]
  by (simp add: vx_zero_def metrics_zero_def)

lemma digits_room: "unat n < 10 ^ room \<Longrightarrow> decimal_digits (Suc room) n = decimal_digits room n"
proof (induction room arbitrary: n)
  case 0
  then show ?case by (simp add: unat_eq_zero)
next
  case (Suc room)
  have "unat (n div 10) < 10 ^ room" using Suc.prems by (simp add: unat_div)
  then show ?case using Suc.IH by simp
qed

lemma format_dec: "format_lu n = dec n"
proof -
  have "unat n < 10 ^ 10" using unsigned_less [of n, where ?'a = nat] by simp
  then have "decimal_digits 11 n = decimal_digits 10 n" using digits_room [of n 10] by (simp del: decimal_digits.simps)
  then show ?thesis by (simp add: format_lu_def dec_def del: decimal_digits.simps)
qed

lemma format_hex: "format_08lX n = hex32 n"
proof -
  have "28 - 4 * i = (7 - i) * 4" for i :: nat by simp
  then show ?thesis by (simp add: format_08lX_def hex32_def hex_digit_def)
qed

text \<open>The row of the diagnostic with the same contents.\<close>

definition vbe_row :: "c_text \<Rightarrow> u32 \<Rightarrow> u32 \<Rightarrow> u32 \<Rightarrow> u32 \<Rightarrow> c_text \<Rightarrow> GSW_STATUS \<Rightarrow> u32 \<Rightarrow> METRICS \<Rightarrow> u32 \<Rightarrow> c_text \<Rightarrow> GSW_ROW" where
  "vbe_row adapter mode width height bpp path status api_code m crc detail =
     \<lparr>rw_adapter = adapter, rw_path = path, rw_detail = detail,
      rw_mode = \<lparr>md_id = mode, md_width = width, md_height = height, md_bpp = bpp, md_hz = 0, md_flags = 0\<rparr>,
      rw_status = status, rw_api_code = api_code,
      rw_metrics = \<lparr>mt_frames = vx_frames m, mt_duration_ms = vx_duration_ms m, mt_avg_fps_milli = vx_avg_fps_milli m,
        mt_p50_us = vx_p50_us m, mt_p95_us = vx_p95_us m, mt_max_us = vx_max_us m, mt_slow_frames = vx_slow_frames m,
        mt_crc32 = crc, mt_sample_cap = False, mt_status = status\<rparr>\<rparr>"

lemma plain_unchanged: "(\<And>b. b \<in> set t \<Longrightarrow> plain b) \<Longrightarrow> map field_byte t = t"
proof (rule map_idI)
  fix b
  assume p: "\<And>b. b \<in> set t \<Longrightarrow> plain b" "b \<in> set t"
  show "field_byte b = b" using p(1) [OF p(2)] plain_not_control [OF p(1) [OF p(2)]] by (simp add: field_byte_def plain_def)
qed

lemma status_plain: "map field_byte (gsw_status_text status) = gsw_status_text status"
  by (cases status) (simp_all add: gsw_status_text_def lit_def field_byte_def)

lemma emit_line:
  assumes "\<And>b. b \<in> set (adapter @ path @ detail) \<Longrightarrow> plain b"
  shows "emit_text n adapter mode width height bpp path (gsw_status_text status) api_code m crc detail =
    mode_line (vbe_row adapter mode width height bpp path status api_code m crc detail) n"
proof -
  have f: "map field_byte adapter = adapter" "map field_byte path = path" "map field_byte detail = detail"
    using assms by (auto intro!: plain_unchanged)
  have z: "dec 0 = lit ''0''" by (simp add: dec_def lit_def)
  show ?thesis
    unfolding emit_text_def mode_line_def common_line_def vbe_row_def Let_def format_dec format_hex schema_bytes kind_bytes
    by (simp add: f status_plain z GSW_SCHEMA_def)
qed

section \<open>The file of the companion\<close>

text \<open>Every row is written by one of the statuses of the diagnostic, with text that needs no cleaning.\<close>

definition file_rows :: "'s dos_world \<Rightarrow> bool" where
  "file_rows w \<longleftrightarrow> (\<exists>rows. vw_file w = lines_of rows 0 \<and> vw_sequence w = of_nat (length rows))"

lemma lines_append: "lines_of (rows @ [row]) n = lines_of rows n @ mode_line row (n + of_nat (length rows))"
  by (induction rows arbitrary: n) (simp_all add: add.assoc)

definition status_text :: "c_text \<Rightarrow> bool" where
  "status_text t \<longleftrightarrow> (\<exists>status. t = gsw_status_text status)"

definition all_plain :: "c_text \<Rightarrow> bool" where
  "all_plain t \<longleftrightarrow> (\<forall>b \<in> set t. plain b)"

lemma status_texts [simp]: "status_text (lit ''PASS'')" "status_text (lit ''WARN'')" "status_text (lit ''FAIL'')" "status_text (lit ''UNAVAILABLE'')"
  unfolding status_text_def
  by (rule exI [of _ GSW_STATUS_PASS] exI [of _ GSW_STATUS_WARN] exI [of _ GSW_STATUS_FAIL] exI [of _ GSW_STATUS_UNAVAILABLE],
      simp add: gsw_status_text_def)+

lemma row_texts [simp]:
  "all_plain (lit ''VGA_BIOS'')" "all_plain (lit ''VBE'')" "all_plain (lit ''TEXT'')" "all_plain (lit ''CHAIN4'')"
  "all_plain (lit ''PLANAR'')" "all_plain (lit ''BANKED'')" "all_plain (lit ''LFB'')" "all_plain (lit ''NONE'')"
  "all_plain (lit ''FUNCTIONAL_SMOKE'')" "all_plain (lit ''GRAPHICS_SMOKE'')" "all_plain (lit ''SAMPLE_CAP'')"
  "all_plain (lit ''BENCHMARK'')" "all_plain (lit ''MODE_SMOKE_READBACK'')" "all_plain (lit ''NO_FRAMEBUFFER_PATH'')"
  "all_plain (lit ''PREBOOT_VBE_UNBOUNDED'')"
  by (simp_all add: all_plain_def lit_def plain_def)

lemma emit_file:
  assumes "file_rows w" "all_plain adapter" "all_plain path" "all_plain detail" "status_text status"
  shows "file_rows (emit_row adapter mode width height bpp path status api_code m crc detail w)"
proof -
  obtain rows where r: "vw_file w = lines_of rows 0" "vw_sequence w = of_nat (length rows)" using assms(1) by (auto simp: file_rows_def)
  obtain st where st: "status = gsw_status_text st" using assms(5) by (auto simp: status_text_def)
  let ?m = "case m of None \<Rightarrow> vx_zero | Some m \<Rightarrow> m"
  let ?row = "vbe_row adapter mode width height bpp path st api_code ?m crc detail"
  have "vw_file (emit_row adapter mode width height bpp path status api_code m crc detail w) = lines_of (rows @ [?row]) 0"
  proof -
    have "emit_text (of_nat (length rows)) adapter mode width height bpp path (gsw_status_text st) api_code ?m crc detail =
        mode_line ?row (of_nat (length rows))"
      by (rule emit_line) (use assms(2-4) in \<open>auto simp: all_plain_def\<close>)
    then show ?thesis by (simp add: emit_row_def r st lines_append)
  qed
  then show ?thesis by (auto simp: file_rows_def emit_row_def r intro!: exI [of _ "rows @ [?row]"])
qed

lemma file_state [simp]: "file_rows (w\<lparr>vw_state := s\<rparr>) = file_rows w"
  by (simp add: file_rows_def)

lemma on_state_snd [simp]: "file_rows (snd (on_state f w)) = file_rows w"
  by (auto simp: on_state_def split: prod.splits)

lemma on_state_file: "on_state f w = (a, w') \<Longrightarrow> file_rows w' = file_rows w"
  by (auto simp: on_state_def split: prod.splits)

lemma on_state_option_file: "on_state_option f w = Some (a, w') \<Longrightarrow> file_rows w' = file_rows w"
  by (auto simp: on_state_option_def split: option.splits prod.splits)

lemma run_vga_mode_file: "file_rows w \<Longrightarrow> run_vga_mode d mode w = Some w' \<Longrightarrow> file_rows w'"
  unfolding run_vga_mode_def Let_def
  by (auto split: prod.splits if_splits option.splits intro!: emit_file dest: on_state_file on_state_option_file)

lemma run_vga_modes_file: "file_rows w \<Longrightarrow> run_vga_modes d modes w = Some w' \<Longrightarrow> file_rows w'"
  by (induction modes arbitrary: w) (auto split: option.splits dest: run_vga_mode_file)

lemma emit_smoke_file: "file_rows (snd sw) \<Longrightarrow> all_plain path \<Longrightarrow> file_rows (snd (emit_smoke m path present passed sw))"
  by (auto simp: emit_smoke_def emit_vbe_def split: prod.splits intro!: emit_file)

lemma run_vbe_path_file:
  assumes "file_rows (snd sw)" "run_vbe_path d m lfb present smoke sw = Some sw'"
  shows "file_rows (snd sw')"
proof -
  obtain success w where sw: "sw = (success, w)" by (cases sw)
  obtain mode_set w1 where b: "(if present \<and> smoke
      then on_state (bios_set d (if lfb then vmode_id m OR 0x4000 else vmode_id m)) w else (False, w)) = (mode_set, w1)"
    by (metis surj_pair)
  have w1: "file_rows w1" using b assms(1) by (auto simp: sw split: if_splits dest: on_state_file)
  obtain metrics w2 where t: "(if mode_set then on_state_option (benchmark_vbe d m lfb) w1 else Some (None, w1)) = Some (metrics, w2)"
    using assms(2) unfolding run_vbe_path_def sw Let_def prod.case b by (auto split: option.splits)
  have w2: "file_rows w2" using t w1 by (auto split: if_splits dest: on_state_option_file)
  show ?thesis
    using assms(2) w2 unfolding run_vbe_path_def sw Let_def prod.case b t
    by (auto simp: emit_vbe_def split: option.splits intro!: emit_file)
qed

lemma run_vbe_mode_file:
  assumes "file_rows (snd sw)" "run_vbe_mode d exhaustive m sw = Some sw'"
  shows "file_rows (snd sw')"
proof -
  obtain success w where sw: "sw = (success, w)" by (cases sw)
  define banked where "banked \<longleftrightarrow> vm_win_a_segment (vmode_info m) \<noteq> 0 \<and> vm_granularity_kb (vmode_info m) \<noteq> 0"
  define lfb where "lfb \<longleftrightarrow> vm_attributes (vmode_info m) AND 0x80 \<noteq> 0 \<and> vm_lfb_physical (vmode_info m) \<noteq> 0"
  obtain bs w1 where b: "(if banked then on_state (smoke_banked d m) w else (False, w)) = (bs, w1)" by (metis surj_pair)
  obtain ls w2 where l: "(if lfb then on_state (smoke_lfb d m) w1 else (False, w1)) = (ls, w2)" by (metis surj_pair)
  have "file_rows w2" using b l assms(1) by (auto simp: sw split: if_splits dest: on_state_file)
  define s1 where "s1 = emit_smoke m (lit ''LFB'') lfb ls (emit_smoke m (lit ''BANKED'') banked bs (success, w2))"
  define s2 where "s2 = (if \<not> banked \<and> \<not> lfb
      then (fst s1, emit_vbe m (lit ''NONE'') (lit ''UNAVAILABLE'') 0 None 0 (lit ''NO_FRAMEBUFFER_PATH'') (snd s1)) else s1)"
  have "file_rows (snd s1)" using \<open>file_rows w2\<close> by (simp add: s1_def emit_smoke_file)
  then have f: "file_rows (snd s2)" by (simp add: s2_def emit_vbe_def emit_file)
  have "run_vbe_mode d exhaustive m sw =
     (if packed_bpp (ucast (vm_bpp (vmode_info m))) \<and> (exhaustive \<or> vbe_canonical m)
      then (case run_vbe_path d m False banked bs s2 of None \<Rightarrow> None | Some sw \<Rightarrow> run_vbe_path d m True lfb ls sw)
      else Some s2)"
    unfolding run_vbe_mode_def sw Let_def prod.case banked_def [symmetric] lfb_def [symmetric] b l s1_def [symmetric] s2_def [symmetric] ..
  then have "(if packed_bpp (ucast (vm_bpp (vmode_info m))) \<and> (exhaustive \<or> vbe_canonical m)
      then (case run_vbe_path d m False banked bs s2 of None \<Rightarrow> None | Some sw \<Rightarrow> run_vbe_path d m True lfb ls sw)
      else Some s2) = Some sw'"
    using assms(2) by (rule subst)
  then consider "s2 = sw'" | s3 where "run_vbe_path d m False banked bs s2 = Some s3" "run_vbe_path d m True lfb ls s3 = Some sw'"
    by (auto split: if_splits option.splits)
  then show ?thesis using f run_vbe_path_file by cases blast+
qed

lemma run_vbe_modes_file: "file_rows (snd sw) \<Longrightarrow> run_vbe_modes d exhaustive modes sw = Some sw' \<Longrightarrow> file_rows (snd sw')"
  by (induction modes arbitrary: sw) (auto split: option.splits dest: run_vbe_mode_file)

lemma run_vbe_file: "file_rows w \<Longrightarrow> run_vbe d exhaustive w = Some (success, w') \<Longrightarrow> file_rows w'"
  unfolding run_vbe_def Let_def
  by (auto split: prod.splits if_splits option.splits dest!: on_state_file on_state_option_file dest: run_vbe_modes_file [where sw = "(True, _)", simplified])

lemma vbe_main_file: "vbe_main d argv s = Some (code, w) \<Longrightarrow> file_rows w"
proof -
  have start: "file_rows \<lparr>vw_state = s, vw_sequence = 0, vw_file = []\<rparr>" for s :: 'a
    by (auto simp: file_rows_def intro!: exI [of _ "[]"])
  assume "vbe_main d argv s = Some (code, w)"
  then show "file_rows w"
    unfolding vbe_main_def run_vga_def Let_def
    by (auto split: prod.splits if_splits option.splits
        dest!: on_state_file run_vga_modes_file [rotated] run_vbe_file [rotated] simp: start emit_file)
qed

lemma import_lines_refused:
  "rows \<noteq> [] \<Longrightarrow> length (rp_bytes r) + length (lines_of rows (rp_sequence r)) > GSW_REPORT_CAP \<Longrightarrow>
   \<not> fst (import_rows before (lines_of rows (rp_sequence r)) r)"
proof (induction rows arbitrary: r before)
  case (Cons row rows)
  let ?n = "rp_sequence r"
  show ?case
  proof (cases "length (rp_bytes r) + length (mode_line row ?n) > GSW_REPORT_CAP")
    case True
    then show ?thesis by (subst import_rows.simps) (simp add: import_written)
  next
    case False
    then have "rows \<noteq> []" using Cons.prems by auto
    then show ?thesis
      using False Cons.prems
        Cons.IH [of "r\<lparr>rp_bytes := rp_bytes r @ mode_line row ?n, rp_sequence := ?n + 1\<rparr>" "Some (last (mode_line row ?n))"]
      by (subst import_rows.simps) (simp add: import_written ac_simps)
  qed
qed simp

text \<open>
  C33. Whatever the BIOS does, the file the companion leaves behind is one the diagnostic imports,
  provided its lines are written in full: a report that has no row yet accepts every byte of it
  where it fits, and it is refused only where it is empty, longer than the limit of the import, or
  does not fit.
\<close>

theorem vbe_file_imports:
  "case vbe_main d argv s of
     None \<Rightarrow> True
   | Some (code, w) \<Rightarrow>
       (let r = report\<lparr>rp_sequence := 0\<rparr>; imported = gsw_report_import_rows (Some (vw_file w)) r in
        if vw_file w = [] \<or> length (vw_file w) > 128 * 1024 then imported = (False, r)
        else if length (rp_bytes r) + length (vw_file w) > GSW_REPORT_CAP then \<not> fst imported
        else imported = (True, r\<lparr>rp_bytes := rp_bytes r @ vw_file w, rp_sequence := vw_sequence w\<rparr>))"
proof (cases "vbe_main d argv s")
  case (Some cw)
  obtain code w where cw: "cw = (code, w)" by (cases cw)
  obtain rows where rows: "vw_file w = lines_of rows 0" "vw_sequence w = of_nat (length rows)"
    using vbe_main_file [of d argv s code w] Some cw by (auto simp: file_rows_def)
  let ?r = "report\<lparr>rp_sequence := 0\<rparr>"
  have "vw_file w \<noteq> [] \<Longrightarrow> rows \<noteq> []" using rows by auto
  then show ?thesis
    using rows import_lines [of ?r rows None] import_lines_refused [of rows ?r None]
    by (auto simp: Some cw Let_def gsw_report_import_rows_def)
qed simp

end
