(* ===== verification/Spec2Isabelle.thy ===== *)
theory Spec2Isabelle
  imports Gsw_Prelude Display_Adapter Sound_Vxd Vga_Ioctl Sound_Pm16 Sound_Wave_Account
    Vbe_Overlay Gdi_Frontend Hal_Ddraw Nine_Memory Svga_Winsys Probe_Gdi Probe_Vbe_Correct
begin

text \<open>
  Verification library of the Windows 98 guest software of RETVRN99
  (\<^verbatim>\<open>src/drivers/win98\<close>): the drivers and the graphics diagnostic.

  \<^bold>\<open>The program.\<close> RETVRN99 runs Windows 98 on an emulated machine with two devices of its own:
  GSW-VGA, a display adapter with a 2D and a 3D command ring, and GSW-Sound, a PCM device with a
  ring of samples. The guest reaches them through drivers. In ring 0 the display driver holds the
  display arbiter, which decides which virtual machine owns the screen and whether the ports of the
  VBE interface are trapped, the two transports, which place commands into a ring shared with the
  device and ring its doorbell, and the DeviceIoControl entries, which let programs reach the
  transports. The sound VxD starts and stops the sound device, locks the memory of its clients, and
  serves requests on the sound transport. In ring 3 the 16-bit sound driver implements the Windows
  wave and mixer interfaces on top of these requests. The 16-bit display driver hands the blits of GDI
  to the 2D transport or to the DIB engine; VBE mode sets and page flips go through it as well. For
  DirectDraw a library in every process bridges the callbacks of the HAL to the DeviceIoControl
  entries. Two parts of the Direct3D stack are original sources, a memory helper and a window system
  that refuses everything. The drivers are sequential: an entry runs to its end before the next one,
  except where it calls back into a client. The graphics diagnostic measures the display through
  GDI, DirectDraw and Direct3D, takes over the rows of a companion for MS-DOS, and transfers its
  report to the host through the ports of a test device.

  \<^bold>\<open>Theories and sources.\<close> Paths are relative to \<^verbatim>\<open>derived/vmdisp9x-gsw/overlay\<close> for the
  display, to \<^verbatim>\<open>gsw-sound\<close> for the sound driver and to
  \<^verbatim>\<open>guest-tools/gsw-graphics-probe\<close> for the diagnostic, unless they name another directory.

  \<^item> \<open>Gsw_Prelude\<close>: the machine integers, generic lemmas on words and lists, and the locale
    \<open>started_component\<close>: a step function, an invariant and a start state give an invariant
    of all reachable states. \<open>Ring_Fifo\<close>: circular arrays, byte rings whose size is a power of
    two, and the locale \<open>bounded_fifo\<close> that gives a ring its list of items. \<open>Packed_Memory\<close>:
    little-endian structures in byte memory, and the locale \<open>wire_struct\<close> of a record and
    its doublewords.
  \<^item> \<open>Display_Arbiter\<close>: \<^verbatim>\<open>gsw_display_arbiter.c\<close>, the transition function
    \<open>gsw_display_step\<close>, one definition per event. \<open>Display_Adapter\<close>:
    \<^verbatim>\<open>gsw_display_adapter.c\<close>, the entries that feed it, the port traps, the shutdown markers
    of \<^verbatim>\<open>gsw_shutdown_trace.h\<close>.
  \<^item> \<open>Vga_World\<close>, \<open>Vga_Geometry\<close>, \<open>Vga_Transport\<close>: \<^verbatim>\<open>gsw_transport.c\<close>, the state
    and services, the range checks on surfaces and rectangles, and the operations.
    \<open>Gsw3d_Transport\<close>: \<^verbatim>\<open>gsw3d_transport.c\<close>. \<open>Vga_Correctness\<close>: their properties, and
    the invariant of both transports over one lock and one device. \<open>Vga_Ioctl\<close>:
    \<^verbatim>\<open>gsw3d_ioctl.c\<close> and \<^verbatim>\<open>gsw_ddraw.c\<close>, the requests of programs.
  \<^item> \<open>Sound_Transport\<close>: \<^verbatim>\<open>vxd/gswsound_transport.c\<close>. \<open>Sound_Vxd\<close>:
    \<^verbatim>\<open>vxd/gswsound_vxd.c\<close> with \<^verbatim>\<open>vxd/gswsound_ddk.h\<close> and the wrappers of
    \<^verbatim>\<open>build-support/vxdwraps.c\<close> that decide something.
  \<^item> \<open>Sound_Win16\<close>: what the 16-bit driver works on: \<^verbatim>\<open>drv/gswsound_win16_mmddk.h\<close>,
    the static instances, client memory, the services. \<open>Sound_Mixer\<close>:
    \<^verbatim>\<open>drv/gswsound_mixer.c\<close>. \<open>Sound_Pm16\<close>: \<^verbatim>\<open>drv/gswsound_pm16.c\<close>, and the composition
    mixer, call gate, VxD, transport. \<open>Sound_Wave\<close>: \<^verbatim>\<open>drv/gswsound_drv.c\<close>;
    \<open>Sound_Wave_Invariant\<close> and \<open>Sound_Wave_Account\<close>: its properties.
  \<^item> \<open>Gdi_Frontend\<close>: \<^verbatim>\<open>gsw_gdi.c\<close>, \<^verbatim>\<open>pm16_calls_gsw.c\<close> and the cases that the patch
    \<^verbatim>\<open>0008-gsw-gdi-rop3.patch\<close> adds to the entry of the VxD. \<open>Vbe_Overlay\<close>:
    \<^verbatim>\<open>vxd_vbe_gsw.c\<close>.
  \<^item> \<open>Hal_Bridge\<close>, \<open>Hal_Ddraw\<close>: \<^verbatim>\<open>derived/vmhal9x-gsw/overlay\<close>, the library of the bridge, its
    cached interface, the callbacks of DirectDraw, and the composition callback, library, ioctl
    entry, transport.
  \<^item> \<open>Nine_Memory\<close> and \<open>Svga_Winsys\<close>: \<^verbatim>\<open>mesa-gsw/src/nine_memory_helper.c\<close> and
    \<^verbatim>\<open>gsw_svga_winsys.c\<close>.
  \<^item> \<open>Probe_Runtime\<close> (\<^verbatim>\<open>runtime.c\<close>, \<^verbatim>\<open>gswgfx.h\<close>), \<open>Probe_Pattern\<close> (\<^verbatim>\<open>pattern.c\<close>,
    \<^verbatim>\<open>crc32.c\<close>), \<open>Probe_Sort\<close> and \<open>Probe_Benchmark\<close> (\<^verbatim>\<open>benchmark.c\<close>), \<open>Probe_Report\<close>
    (\<^verbatim>\<open>report.c\<close> and the count of \<^verbatim>\<open>vbe_import.c\<close>), \<open>Probe_Host\<close> (\<^verbatim>\<open>host_report.c\<close> with the
    other side of the ports, \<^verbatim>\<open>src/machine/test_device.odin\<close> and
    \<^verbatim>\<open>src/acceptance/guest_report.odin\<close>), \<open>Probe_Session\<close> (\<^verbatim>\<open>session.c\<close>,
    \<^verbatim>\<open>vbe_import.c\<close>, \<^verbatim>\<open>summary.c\<close>) over any adapters,
    \<open>Probe_Adapter\<close> with the locale \<open>honest_adapter\<close> of what a run relies on in an adapter,
    \<open>Probe_Gdi\<close> (\<^verbatim>\<open>backend_gdi.c\<close>), which interprets it, and the
    companion: \<open>Probe_Vbe\<close> (\<^verbatim>\<open>gswvbe.c\<close>) and \<open>Probe_Vbe_Correct\<close>, its properties.

  Definitions keep the names of the functions and types of the source. Where a function is long its
  parts are definitions of their own with names of the same prefix, composed as the function
  composes them. The static variables of a file are a record; a function that changes them returns
  the changed record, or the changed world where it also touches the device, memory or Windows.

  \<^bold>\<open>Parameters.\<close> What lies outside the sources is an argument: register reads and writes of the
  devices (\<open>mmio\<close>, with a device state of any type), the PCI bus and the services of the
  VMM (\<open>gsw_env\<close>, \<open>vxd_env\<close>), Windows as the 16-bit driver sees it (\<open>win16_env\<close>,
  \<open>pm16_env\<close>), the DIB engine, DirectDraw and the process heap (\<open>gdi_env\<close>, \<open>hal_env\<close>,
  \<open>nine_env\<close>), Windows, MS-DOS and the BIOS as the diagnostic sees them (\<open>probe_env\<close>, \<open>dos_env\<close>),
  and the clients (the callbacks of \<open>on_callback\<close>). Unless a theorem names a
  hypothesis on them, it holds for every behaviour. No claim depends on the timing of the device:
  each access to it may return any value and change its state.

  \<^bold>\<open>Loops, bounds and fuel.\<close> Integers have the width of the source and wrap. Loops over tables and
  rings are recursions over the number of slots (8 mixer clients, 32 wave buffers, 32 plays, 256
  surfaces, 128 contexts); the pump of the wave driver has the source's own limit of 64 rounds. The
  two loops of the sound transport and VxD that wait for two equal readings of the position have no
  bound in the source: they are \<open>partial_function\<close>s with \<open>None\<close> for not returning, and
  \<open>sound_position_returns\<close> says exactly when they return. Callbacks of an application into the
  wave driver nest to any finite depth \<open>n\<close> (\<open>app_callback\<close>): an execution that returns has
  such a depth. The loops of the two benchmarks of the diagnostic and the list of modes of the BIOS
  end with the clock and the BIOS: they are \<open>partial_function\<close>s as well, and
  \<open>probe_benchmark_returns\<close> says when the benchmark returns; the loops that print, sort, parse,
  transfer and copy are functions with their measures.

  \<^bold>\<open>What is shown.\<close>

  \<^item> Arbiter: the state is well formed in every reachable state, requests follow an abstract access
    policy, generations count the changes of owner, faults change nothing, no virtual machine that
    does not physically own the display can take it from the desktop, the traps are those the state
    asks for.
  \<^item> Display transports: one invariant for both (lock, binding, ring, fences, surfaces, contexts),
    what the device sees at the doorbell is the stamped command, a submission is atomic, the range
    checks accept exactly what lies inside the framebuffer, tables refine maps, the end of a process
    removes exactly what it owned.
  \<^item> Ioctl entries: a request touches nothing but its output buffer and at most one transport
    operation; registration round trip through client memory.
  \<^item> Sound transport: an accepted submission appends exactly what was accepted, a poll returns the
    oldest completed submission, the interrupt is deasserted, stale streams are refused, the
    invariant of all calls.
  \<^item> Sound VxD: idle or running with nothing else held, start is all or nothing, a request changes
    only its own block, the lock covers the buffer.
  \<^item> Mixer and call gate: the gain formula, all-or-nothing control changes, the call gate is
    transparent, the gain in the device follows the volumes.
  \<^item> Wave driver: an invariant of the instance, no header lost or returned twice whatever the
    application does in its callbacks (\<open>header_account\<close> with the account \<open>header_balance\<close>),
    a reset returns every header taken before it (\<open>header_debt\<close>), headers come back in order
    where callbacks do not call the driver (\<open>header_order\<close>), positions are exact.

  \<^item> GDI and VBE: a blit the front end builds, up to the limit of pixels, is not refused for its
    shape, the cursor is excluded around every offer, exactly the blits that the entry of the VxD did
    not report as completed go to the DIB engine; page flips stay inside the framebuffer.
  \<^item> HAL: requests are well formed whatever DirectDraw passes, the library performs exactly the
    transport operation on exactly its request, a lock is remembered until its unlock.
  \<^item> Mesa: the memory helper keeps its list, its tree of parts and the heap consistent, and its
    destruction returns every block; the context of a screen has one holder at a time.
  \<^item> Diagnostic: the sort, the statistics and the pictures agree with their specifications, the
    checksum detects every burst of up to 32 bits, a written report is imported byte for byte, the
    transfer to the host is exact or void, the list of the worst rows is the head of the sorted
    list, the file of the companion is always one the diagnostic imports, the copy through a banked
    window of bounded size is exact, a GDI run gives back what it takes and reports no success it has not seen.

  \<^bold>\<open>Deviations shown.\<close> Where the code does not do what it is meant to, a lemma says so:
  \<open>gsw3d_null_context_batch_accepted\<close>, \<open>hal_refused_library_used\<close>,
  \<open>hal_unlock_calls_foreign_pointer\<close>, \<open>import_number_wraps\<close>, \<open>import_keeps_accepted\<close>,
  \<open>patterns_differ\<close>, the second part of \<open>probe_benchmark_returns\<close>, and
  the exception of \<open>gdi_resources_balanced\<close>.

  \<^bold>\<open>Not modelled.\<close> The store barrier and other effects of concurrency between the processor and the
  device; the polling build of the sound VxD (\<^verbatim>\<open>GSW_SOUND_DIAGNOSTIC_POLLING\<close>); wrappers in
  \<^verbatim>\<open>vxdwraps.c\<close> that only pass registers on; \<open>LibMain\<close>. \<open>WEP\<close> of the wave driver is
  defined but is not among the events, since it drops the queue. The overlays that only include
  files of the upstream driver; the tables of function pointers of \<^verbatim>\<open>gsw_svga_winsys.c\<close>, whose
  types belong to Mesa; of the diagnostic the DirectDraw and Direct3D adapters, which are sequences
  of calls into COM objects, and the window; the other test programs of the guest, which call
  Windows and print what it answers; the host machine but for the report service, which is written
  in Odin; third-party firmware and build scripts. Two simplifications lie outside the guest: the
  report service takes a command when it is written, where the host only notes it and serves it
  between two steps of the machine (within the polls the guest allows); and \<^verbatim>\<open>fprintf\<close> of the
  companion always writes its whole line, so a full disk of MS-DOS is not covered.
\<close>

end
